(* ===== verification/RIS_Prelude.thy ===== *)
theory RIS_Prelude
  imports Main "HOL-Library.Char_ord"
begin

text \<open>
  The prelude of the RIS platform development: the error values of \<open>src/src/shared/errors\<close>,
  the service monad in which every asynchronous service function is written (a state
  transformer that returns a result or a thrown error), the SQL table operations the
  repositories are built from, and the generic lemmas on both that the components share.
\<close>

named_theorems svc_def \<open>unfolding rules of the service combinators\<close>
named_theorems svc_succ \<open>when does a service computation return a value\<close>
named_theorems repo_def \<open>the repository functions of the components\<close>

section \<open>Errors\<close>

text \<open>
  One constructor per error class of the source; the human-readable message is left out, the
  machine-readable code is kept. \<open>DbError\<close> carries the SQLSTATE of an error that PostgreSQL
  raises, \<open>QueueError\<close> is a failed \<open>queue.add\<close>, \<open>JsError\<close> a plain JavaScript \<open>Error\<close>.
  \<open>ThrottledError\<close> is the \<open>BusinessRuleError\<close> with code \<open>ELIGIBILITY_THROTTLED\<close>, the one whose details
  (tier and seconds to wait) are data of the answer.
\<close>

datatype ris_error =
    NotFoundError string string
  | BusinessRuleError string
  | ThrottledError string int
  | ForbiddenError
  | PaymentError string
  | ValidationError string
  | AuthError
  | DbError string
  | QueueError
  | JsError string

fun statusCode :: "ris_error \<Rightarrow> nat" where
  "statusCode (NotFoundError _ _) = 404"
| "statusCode (BusinessRuleError _) = 422"
| "statusCode (ThrottledError _ _) = 422"
| "statusCode ForbiddenError = 403"
| "statusCode (PaymentError _) = 500"
| "statusCode (ValidationError _) = 400"
| "statusCode AuthError = 401"
| "statusCode (DbError _) = 500"
| "statusCode QueueError = 500"
| "statusCode (JsError _) = 500"

section \<open>The service monad\<close>

type_synonym ('s, 'a) svc = "'s \<Rightarrow> (ris_error + 'a) \<times> 's"

definition returnS :: "'a \<Rightarrow> ('s, 'a) svc" where
  "returnS x = (\<lambda>s. (Inr x, s))"

definition throwS :: "ris_error \<Rightarrow> ('s, 'a) svc" where
  "throwS e = (\<lambda>s. (Inl e, s))"

definition bindS :: "('s, 'a) svc \<Rightarrow> ('a \<Rightarrow> ('s, 'b) svc) \<Rightarrow> ('s, 'b) svc" where
  "bindS m f = (\<lambda>s. case m s of (Inl e, t) \<Rightarrow> (Inl e, t) | (Inr x, t) \<Rightarrow> f x t)"

definition thenS :: "('s, 'a) svc \<Rightarrow> ('s, 'b) svc \<Rightarrow> ('s, 'b) svc" where
  "thenS m k = bindS m (\<lambda>_. k)"

definition getS :: "('s \<Rightarrow> 'a) \<Rightarrow> ('s, 'a) svc" where
  "getS f = (\<lambda>s. (Inr (f s), s))"

definition modifyS :: "('s \<Rightarrow> 's) \<Rightarrow> ('s, unit) svc" where
  "modifyS f = (\<lambda>s. (Inr (), f s))"

text \<open>\<open>if (!b) throw e\<close>; a null check; a conditional statement; \<open>try m catch h\<close>.\<close>

definition guardS :: "bool \<Rightarrow> ris_error \<Rightarrow> ('s, unit) svc" where
  "guardS b e = (if b then returnS () else throwS e)"

definition requireS :: "'a option \<Rightarrow> ris_error \<Rightarrow> ('s, 'a) svc" where
  "requireS r e = (case r of None \<Rightarrow> throwS e | Some x \<Rightarrow> returnS x)"

definition whenS :: "bool \<Rightarrow> ('s, unit) svc \<Rightarrow> ('s, unit) svc" where
  "whenS b m = (if b then m else returnS ())"

definition catchS :: "('s, 'a) svc \<Rightarrow> (ris_error \<Rightarrow> ('s, 'a) svc) \<Rightarrow> ('s, 'a) svc" where
  "catchS m h = (\<lambda>s. case m s of (Inl e, t) \<Rightarrow> h e t | (Inr x, t) \<Rightarrow> (Inr x, t))"

text \<open>Pure code that may throw is a value of the sum type; \<open>liftS\<close> calls it from a service.\<close>

fun bindE :: "ris_error + 'a \<Rightarrow> ('a \<Rightarrow> ris_error + 'b) \<Rightarrow> ris_error + 'b" where
  "bindE (Inl e) f = Inl e"
| "bindE (Inr x) f = f x"

definition liftS :: "ris_error + 'a \<Rightarrow> ('s, 'a) svc" where
  "liftS r = (\<lambda>s. (r, s))"

text \<open>A \<open>for (const x of xs) await f(x)\<close> loop: it stops at the first error.\<close>

fun forS :: "('a \<Rightarrow> ('s, unit) svc) \<Rightarrow> 'a list \<Rightarrow> ('s, unit) svc" where
  "forS f [] = returnS ()"
| "forS f (x # xs) = thenS (f x) (forS f xs)"

lemmas svc_unfold [svc_def] =
  returnS_def throwS_def bindS_def thenS_def getS_def modifyS_def guardS_def requireS_def
  whenS_def catchS_def

text \<open>Running a combinator on a state, one equation per combinator.\<close>

lemma run_return [simp]: "returnS x s = (Inr x, s)"
  by (simp add: svc_def)

lemma run_throw [simp]: "throwS e s = (Inl e, s)"
  by (simp add: svc_def)

lemma run_get [simp]: "getS f s = (Inr (f s), s)"
  by (simp add: svc_def)

lemma run_modify [simp]: "modifyS f s = (Inr (), f s)"
  by (simp add: svc_def)

lemma run_guard: "guardS b e s = (if b then (Inr (), s) else (Inl e, s))"
  by (simp add: svc_def)

lemma run_guard_simps [simp]:
  "b \<Longrightarrow> guardS b e s = (Inr (), s)"
  "\<not> b \<Longrightarrow> guardS b e s = (Inl e, s)"
  by (simp_all add: run_guard)

lemma run_require [simp]:
  "requireS None e s = (Inl e, s)"
  "requireS (Some x) e s = (Inr x, s)"
  by (simp_all add: svc_def)

lemma run_bind_Inr [simp]: "m s = (Inr x, t) \<Longrightarrow> bindS m f s = f x t"
  by (simp add: svc_def)

lemma run_bind_Inl [simp]: "m s = (Inl e, t) \<Longrightarrow> bindS m f s = (Inl e, t)"
  by (simp add: svc_def)

lemma run_then_Inr [simp]: "m s = (Inr x, t) \<Longrightarrow> thenS m k s = k t"
  by (simp add: svc_def)

lemma run_then_Inl [simp]: "m s = (Inl e, t) \<Longrightarrow> thenS m k s = (Inl e, t)"
  by (simp add: svc_def)

lemma run_lift [simp]: "liftS r s = (r, s)"
  by (simp add: liftS_def)

lemma run_when [simp]: "whenS b m s = (if b then m s else (Inr (), s))"
  by (simp add: svc_def)

text \<open>When a computation returns a value: the elimination form used for success properties.\<close>

lemma bindS_succ [svc_succ]:
  "bindS m f s = (Inr y, u) \<longleftrightarrow> (\<exists>x t. m s = (Inr x, t) \<and> f x t = (Inr y, u))"
  by (auto simp: svc_def split: prod.splits sum.splits)

lemma thenS_succ [svc_succ]:
  "thenS m k s = (Inr y, u) \<longleftrightarrow> (\<exists>x t. m s = (Inr x, t) \<and> k t = (Inr y, u))"
  by (simp add: thenS_def bindS_succ)

lemma guardS_succ [svc_succ]: "guardS b e s = (Inr x, t) \<longleftrightarrow> b \<and> t = s"
  by (auto simp: run_guard)

lemma requireS_succ [svc_succ]: "requireS r e s = (Inr x, t) \<longleftrightarrow> r = Some x \<and> t = s"
  by (auto simp: svc_def split: option.splits)

lemma whenS_succ [svc_succ]:
  "whenS b m s = (Inr x, t) \<longleftrightarrow> (if b then m s = (Inr x, t) else t = s)"
  by auto

lemma liftS_succ [svc_succ]: "liftS r s = (Inr x, t) \<longleftrightarrow> r = Inr x \<and> t = s"
  by auto

lemma bindE_succ [svc_succ]: "bindE r f = Inr y \<longleftrightarrow> (\<exists>x. r = Inr x \<and> f x = Inr y)"
  by (cases r) auto

lemma bindS_fail:
  "bindS m f s = (Inl e, u) \<longleftrightarrow>
     m s = (Inl e, u) \<or> (\<exists>x t. m s = (Inr x, t) \<and> f x t = (Inl e, u))"
  by (auto simp: svc_def split: prod.splits sum.splits)

lemma forS_append: "forS f (xs @ ys) = thenS (forS f xs) (forS f ys)"
  by (induction xs) (auto simp: svc_def fun_eq_iff split: prod.splits sum.splits)

subsection \<open>What a computation keeps\<close>

text \<open>\<open>preserves I m\<close>: \<open>m\<close> keeps the invariant \<open>I\<close>, whether it returns or throws.\<close>

definition preserves :: "('s \<Rightarrow> bool) \<Rightarrow> ('s, 'a) svc \<Rightarrow> bool" where
  "preserves I m \<longleftrightarrow> (\<forall>s. I s \<longrightarrow> I (snd (m s)))"

lemma preservesI: "(\<And>s. I s \<Longrightarrow> I (snd (m s))) \<Longrightarrow> preserves I m"
  by (simp add: preserves_def)

lemma preservesD: "preserves I m \<Longrightarrow> I s \<Longrightarrow> I (snd (m s))"
  by (simp add: preserves_def)

lemma preservesD_run: "preserves I m \<Longrightarrow> m s = (r, t) \<Longrightarrow> I s \<Longrightarrow> I t"
  by (metis preservesD snd_conv)

lemma preserves_return [intro]: "preserves I (returnS x)"
  and preserves_throw [intro]: "preserves I (throwS e)"
  and preserves_get [intro]: "preserves I (getS f)"
  and preserves_guard [intro]: "preserves I (guardS b e)"
  and preserves_require [intro]: "preserves I (requireS r e)"
  and preserves_lift [intro]: "preserves I (liftS v)"
  by (auto simp: preserves_def svc_def split: option.splits)

lemma preserves_bind [intro]:
  "preserves I m \<Longrightarrow> (\<And>x. preserves I (f x)) \<Longrightarrow> preserves I (bindS m f)"
  unfolding preserves_def bindS_def by (fastforce split: prod.splits sum.splits)

lemma preserves_then [intro]:
  "preserves I m \<Longrightarrow> preserves I k \<Longrightarrow> preserves I (thenS m k)"
  unfolding thenS_def by blast

lemma preserves_when [intro]: "preserves I m \<Longrightarrow> preserves I (whenS b m)"
  by (auto simp: preserves_def)

lemma preserves_catch [intro]:
  "preserves I m \<Longrightarrow> (\<And>e. preserves I (h e)) \<Longrightarrow> preserves I (catchS m h)"
  unfolding preserves_def catchS_def by (fastforce split: prod.splits sum.splits)

lemma preserves_modify: "(\<And>s. I s \<Longrightarrow> I (f s)) \<Longrightarrow> preserves I (modifyS f)"
  by (simp add: preserves_def)

lemma preserves_for [intro]:
  "(\<And>x. preserves I (f x)) \<Longrightarrow> preserves I (forS f xs)"
  by (induction xs) auto

section \<open>Tables\<close>

text \<open>
  A table is the list of its rows in insertion order. \<open>UPDATE ... WHERE p\<close> maps the rows,
  \<open>SELECT ... WHERE p\<close> filters them, and \<open>result.rows[0] ?? null\<close> is \<open>first_row\<close>.
\<close>

definition update_where :: "('r \<Rightarrow> bool) \<Rightarrow> ('r \<Rightarrow> 'r) \<Rightarrow> 'r list \<Rightarrow> 'r list" where
  "update_where p f rs = map (\<lambda>r. if p r then f r else r) rs"

fun first_row :: "'r list \<Rightarrow> 'r option" where
  "first_row [] = None"
| "first_row (r # _) = Some r"

definition select_one :: "('r \<Rightarrow> bool) \<Rightarrow> 'r list \<Rightarrow> 'r option" where
  "select_one p rs = first_row (filter p rs)"

lemma update_where_simps [simp]:
  "update_where p f [] = []"
  "update_where p f (r # rs) = (if p r then f r else r) # update_where p f rs"
  by (simp_all add: update_where_def)

lemma select_one_simps [simp]:
  "select_one p [] = None"
  "select_one p (r # rs) = (if p r then Some r else select_one p rs)"
  by (simp_all add: select_one_def)

lemma select_one_Some: "select_one p rs = Some r \<Longrightarrow> r \<in> set rs \<and> p r"
  by (induction rs) (auto split: if_splits)

lemma select_one_None: "select_one p rs = None \<longleftrightarrow> (\<forall>r \<in> set rs. \<not> p r)"
  by (induction rs) auto

lemma select_one_append:
  "select_one p (rs @ qs) = (case select_one p rs of None \<Rightarrow> select_one p qs | Some r \<Rightarrow> Some r)"
  by (induction rs) auto

lemma length_update_where [simp]: "length (update_where p f rs) = length rs"
  by (simp add: update_where_def)

lemma update_where_id: "(\<And>r. r \<in> set rs \<Longrightarrow> \<not> p r) \<Longrightarrow> update_where p f rs = rs"
  by (induction rs) auto

lemma set_update_where:
  "r \<in> set (update_where p f rs) \<Longrightarrow> r \<in> set rs \<or> (\<exists>q \<in> set rs. p q \<and> r = f q)"
  by (induction rs) (auto split: if_splits)

lemma update_where_append [simp]:
  "update_where p f (rs @ qs) = update_where p f rs @ update_where p f qs"
  by (simp add: update_where_def)

lemma map_update_where:
  "(\<And>r. k (f r) = k r) \<Longrightarrow> map k (update_where p f rs) = map k rs"
  by (simp add: update_where_def)

lemma update_where_twice:
  "(\<And>r. k (f r) = k r) \<Longrightarrow>
   update_where (\<lambda>r. k r = x \<and> q r) g (update_where (\<lambda>r. k r = x) f rs)
     = update_where (\<lambda>r. k r = x) (\<lambda>r. if q (f r) then g (f r) else f r) rs"
  by (induction rs) auto

lemma update_where_compose:
  "(\<And>r. k (f r) = k r) \<Longrightarrow>
   update_where (\<lambda>r. k r = x) g (update_where (\<lambda>r. k r = x) f rs) = update_where (\<lambda>r. k r = x) (\<lambda>r. g (f r)) rs"
  by (induction rs) auto

lemma update_where_cong:
  "(\<And>r. p r \<Longrightarrow> f r = g r) \<Longrightarrow> update_where p f rs = update_where p g rs"
  by (simp add: update_where_def)

lemma filter_key_unique:
  "distinct (map k rs) \<Longrightarrow> select_one (\<lambda>r. k r = x) rs = Some r \<Longrightarrow> filter (\<lambda>r. k r = x) rs = [r]"
  by (induction rs) (auto simp: filter_empty_conv image_iff split: if_splits)

lemma filter_update_where:
  "(\<And>r. q (f r) = q r) \<Longrightarrow> filter q (update_where p f rs) = update_where p f (filter q rs)"
  by (induction rs) auto

text \<open>An update that keeps the key keeps every lookup by key, up to the update itself.\<close>

lemma select_one_update_where:
  assumes "\<And>r. k (f r) = k r"
  shows "select_one (\<lambda>r. k r = x) (update_where p f rs)
       = map_option (\<lambda>r. if p r then f r else r) (select_one (\<lambda>r. k r = x) rs)"
  using assms by (induction rs) auto

lemma select_one_key: "select_one (\<lambda>r. k r = x) rs = Some r \<Longrightarrow> k r = x"
  using select_one_Some by fastforce

lemma distinct_select_one:
  "distinct (map k rs) \<Longrightarrow> r \<in> set rs \<Longrightarrow> k r = x \<Longrightarrow> select_one (\<lambda>r. k r = x) rs = Some r"
  by (induction rs) (auto simp: image_iff)

lemma select_one_replaced:
  "select_one p rs = Some r \<Longrightarrow> p r' \<Longrightarrow> select_one p (update_where p (\<lambda>_. r') rs) = Some r'"
  by (induction rs) (auto split: if_splits)

lemma select_one_untouched:
  "(\<And>r. p r \<Longrightarrow> \<not> q r \<and> \<not> q (f r)) \<Longrightarrow> select_one q (update_where p f rs) = select_one q rs"
  by (induction rs) auto

lemma select_one_cleared:
  "(\<And>r. p r \<Longrightarrow> \<not> p (f r)) \<Longrightarrow> select_one p (update_where p f rs) = None"
  by (induction rs) auto

lemma list_all_update_where:
  "list_all P rs \<Longrightarrow> (\<And>r. P r \<Longrightarrow> p r \<Longrightarrow> P (f r)) \<Longrightarrow> list_all P (update_where p f rs)"
  by (induction rs) auto

lemma filter_sum_le:
  fixes g :: "'a \<Rightarrow> int"
  shows "(\<And>x. x \<in> set xs \<Longrightarrow> 0 \<le> g x) \<Longrightarrow> sum_list (map g (filter p xs)) \<le> sum_list (map g xs)"
  by (induction xs) (auto intro: add_mono add_increasing)

end
