(* ===== verification/JS_Number.thy ===== *)
theory JS_Number
  imports RIS_Prelude Complex_Main
begin

text \<open>
  The two numeric types of the source. \<open>number\<close> is the IEEE 754 double: a finite value is the
  rational it denotes, every arithmetic operation computes exactly and rounds to the nearest
  double (ties to even, gradual underflow, overflow to infinity); the sign of zero is not kept,
  no code of the platform observes it. \<open>bigint\<close> is the unbounded integer, whose \<open>/\<close> truncates
  towards zero. The lemmas bound the rounding error, which the pricing and scoring components
  use to show that their double arithmetic gives the exact decimal result.
\<close>

section \<open>bigint\<close>

text \<open>\<open>a / b\<close> on \<open>bigint\<close> (the callers never divide by zero).\<close>

definition bigint_div :: "int \<Rightarrow> int \<Rightarrow> int" where
  "bigint_div a b = sgn a * sgn b * (\<bar>a\<bar> div \<bar>b\<bar>)"

lemma bigint_div_nonneg: "0 \<le> a \<Longrightarrow> 0 < b \<Longrightarrow> bigint_div a b = a div b"
  by (cases "a = 0") (auto simp: bigint_div_def)

lemma bigint_div_ge0: "0 \<le> a \<Longrightarrow> 0 < b \<Longrightarrow> 0 \<le> bigint_div a b"
  by (simp add: bigint_div_nonneg pos_imp_zdiv_nonneg_iff)

lemma bigint_div_mono: "0 \<le> a \<Longrightarrow> a \<le> c \<Longrightarrow> 0 < b \<Longrightarrow> bigint_div a b \<le> bigint_div c b"
  by (simp add: bigint_div_nonneg zdiv_mono1)

section \<open>Rounding to a double\<close>

definition pow2 :: "int \<Rightarrow> rat" where
  "pow2 e = (if 0 \<le> e then 2 ^ nat e else 1 / 2 ^ nat (- e))"

text \<open>The binary exponent of a positive rational: \<open>2 ^ ilog2 x \<le> x < 2 ^ (ilog2 x + 1)\<close>.\<close>

function bit_length :: "int \<Rightarrow> int" where
  "bit_length n = (if n \<le> 0 then 0 else 1 + bit_length (n div 2))"
  by pat_completeness auto
termination
  by (relation "measure nat") auto

declare bit_length.simps [simp del]

definition ilog2 :: "rat \<Rightarrow> int" where
  "ilog2 x = (let (p, q) = quotient_of x;
                  d = bit_length p - bit_length q
              in if x < pow2 d then d - 1 else d)"

definition round_half_even :: "rat \<Rightarrow> int" where
  "round_half_even x =
     (let f = \<lfloor>x\<rfloor>; r = x - of_int f
      in if r < 1 / 2 then f else if 1 / 2 < r then f + 1 else if even f then f else f + 1)"

text \<open>The spacing of the doubles around \<open>x\<close> is \<open>2 ^ ulp_exp x\<close> (53 bits, least exponent -1074).\<close>

definition ulp_exp :: "rat \<Rightarrow> int" where
  "ulp_exp x = max (ilog2 \<bar>x\<bar> - 52) (- 1074)"

definition round_double :: "rat \<Rightarrow> rat" where
  "round_double x =
     (if x = 0 then 0 else of_int (round_half_even (x / pow2 (ulp_exp x))) * pow2 (ulp_exp x))"

datatype js_number = NaN | PosInf | NegInf | Fin rat

text \<open>
  The decimal that \<open>String(x)\<close> writes: the fewest decimal places whose nearest decimal reads back
  as \<open>x\<close>. Twenty-five places are enough for every double of at least \<open>1e-6\<close>; a smaller one is
  kept as it is.
\<close>

definition round_half_away :: "rat \<Rightarrow> int" where
  "round_half_away x = (if 0 \<le> x then \<lfloor>x + 1 / 2\<rfloor> else - \<lfloor>- x + 1 / 2\<rfloor>)"

definition decimal_at :: "nat \<Rightarrow> rat \<Rightarrow> rat" where
  "decimal_at k x = of_int (round_half_away (x * 10 ^ k)) / 10 ^ k"

definition js_decimal :: "rat \<Rightarrow> rat" where
  "js_decimal x =
     (case find (\<lambda>k. round_double (decimal_at k x) = x) [0..<26] of
        Some k \<Rightarrow> decimal_at k x | None \<Rightarrow> x)"

text \<open>The double nearest to an exact value, with overflow to an infinity.\<close>

definition to_double :: "rat \<Rightarrow> js_number" where
  "to_double x =
     (let y = round_double x
      in if pow2 1024 \<le> y then PosInf else if y \<le> - pow2 1024 then NegInf else Fin y)"

fun is_finite :: "js_number \<Rightarrow> bool" where
  "is_finite (Fin _) = True"
| "is_finite _ = False"

section \<open>Operators\<close>

fun js_neg :: "js_number \<Rightarrow> js_number" where
  "js_neg NaN = NaN"
| "js_neg PosInf = NegInf"
| "js_neg NegInf = PosInf"
| "js_neg (Fin x) = Fin (- x)"

fun js_add :: "js_number \<Rightarrow> js_number \<Rightarrow> js_number" where
  "js_add (Fin x) (Fin y) = to_double (x + y)"
| "js_add NaN _ = NaN"
| "js_add _ NaN = NaN"
| "js_add PosInf NegInf = NaN"
| "js_add NegInf PosInf = NaN"
| "js_add PosInf _ = PosInf"
| "js_add _ PosInf = PosInf"
| "js_add NegInf _ = NegInf"
| "js_add _ NegInf = NegInf"

definition js_sub :: "js_number \<Rightarrow> js_number \<Rightarrow> js_number" where
  "js_sub a b = js_add a (js_neg b)"

definition js_signed_inf :: "bool \<Rightarrow> js_number" where
  "js_signed_inf pos = (if pos then PosInf else NegInf)"

fun js_mul :: "js_number \<Rightarrow> js_number \<Rightarrow> js_number" where
  "js_mul (Fin x) (Fin y) = to_double (x * y)"
| "js_mul NaN _ = NaN"
| "js_mul _ NaN = NaN"
| "js_mul (Fin x) PosInf = (if x = 0 then NaN else js_signed_inf (0 < x))"
| "js_mul (Fin x) NegInf = (if x = 0 then NaN else js_signed_inf (x < 0))"
| "js_mul PosInf (Fin x) = (if x = 0 then NaN else js_signed_inf (0 < x))"
| "js_mul NegInf (Fin x) = (if x = 0 then NaN else js_signed_inf (x < 0))"
| "js_mul PosInf PosInf = PosInf"
| "js_mul NegInf NegInf = PosInf"
| "js_mul _ _ = NegInf"

text \<open>Division of two finite doubles by a non-zero one, the only division the source does.\<close>

definition js_div_fin :: "rat \<Rightarrow> rat \<Rightarrow> js_number" where
  "js_div_fin x y = to_double (x / y)"

fun js_abs :: "js_number \<Rightarrow> js_number" where
  "js_abs NaN = NaN"
| "js_abs PosInf = PosInf"
| "js_abs NegInf = PosInf"
| "js_abs (Fin x) = Fin \<bar>x\<bar>"

fun js_less :: "js_number \<Rightarrow> js_number \<Rightarrow> bool" where
  "js_less (Fin x) (Fin y) = (x < y)"
| "js_less NaN _ = False"
| "js_less _ NaN = False"
| "js_less NegInf NegInf = False"
| "js_less NegInf _ = True"
| "js_less _ PosInf = True"
| "js_less _ _ = False"

fun js_le :: "js_number \<Rightarrow> js_number \<Rightarrow> bool" where
  "js_le NaN _ = False"
| "js_le _ NaN = False"
| "js_le a b = (js_less a b \<or> a = b)"

text \<open>\<open>Math.round\<close> rounds halves up; \<open>Number(n)\<close> of a bigint rounds to the nearest double;
  \<open>BigInt(x)\<close> raises a RangeError on a non-finite or fractional number.\<close>

fun js_round :: "js_number \<Rightarrow> js_number" where
  "js_round (Fin x) = Fin (of_int \<lfloor>x + 1 / 2\<rfloor>)"
| "js_round a = a"

definition js_Number :: "int \<Rightarrow> js_number" where
  "js_Number n = to_double (of_int n)"

fun js_BigInt :: "js_number \<Rightarrow> ris_error + int" where
  "js_BigInt (Fin x) = (if of_int \<lfloor>x\<rfloor> = x then Inr \<lfloor>x\<rfloor> else Inl (JsError ''RangeError''))"
| "js_BigInt _ = Inl (JsError ''RangeError'')"

section \<open>Powers of two and the binary exponent\<close>

lemma pow2_powi: "pow2 e = 2 powi e"
  by (simp add: pow2_def power_int_def inverse_eq_divide power_one_over)

lemma pow2_pos [simp]: "0 < pow2 e"
  by (simp add: pow2_powi)

lemma pow2_nonneg [simp]: "0 \<le> pow2 e"
  by (simp add: pow2_powi)

lemma pow2_nz [simp]: "pow2 e \<noteq> 0"
  using pow2_pos [of e] by linarith

lemma pow2_add: "pow2 (a + b) = pow2 a * pow2 b"
  by (simp add: pow2_powi power_int_add)

lemma pow2_diff: "pow2 (a - b) = pow2 a / pow2 b"
  by (simp add: pow2_powi power_int_diff)

lemma pow2_mono: "a \<le> b \<Longrightarrow> pow2 a \<le> pow2 b"
  by (simp add: pow2_powi power_int_increasing)

lemma pow2_strict: "a < b \<Longrightarrow> pow2 a < pow2 b"
  by (simp add: pow2_powi power_int_strict_increasing)

lemma pow2_less_iff: "pow2 a < pow2 b \<longleftrightarrow> a < b"
  by (meson linorder_not_less pow2_mono pow2_strict)

lemma pow2_Suc: "pow2 (e + 1) = 2 * pow2 e"
  by (simp add: pow2_add) (simp add: pow2_def)

lemma bit_length_nonneg: "0 \<le> bit_length n"
  by (induction n rule: bit_length.induct) (subst bit_length.simps, auto)

lemma bit_length_pos: "0 < n \<Longrightarrow> 0 < bit_length n"
  using bit_length_nonneg [of "n div 2"] by (subst bit_length.simps) simp

lemma bit_length_int_bounds:
  "0 < n \<Longrightarrow> 2 ^ nat (bit_length n - 1) \<le> n \<and> n < 2 ^ nat (bit_length n)"
proof (induction n rule: bit_length.induct)
  case (1 n)
  show ?case
  proof (cases "n = 1")
    case True
    have "bit_length 1 = 1" by (simp add: bit_length.simps)
    with True show ?thesis by simp
  next
    case False
    with "1.prems" have n: "0 < n div 2" "\<not> n \<le> 0" by auto
    let ?b = "bit_length (n div 2)"
    have b: "0 < ?b" using n(1) by (rule bit_length_pos)
    have eq: "bit_length n = 1 + ?b" using n by (subst bit_length.simps) simp
    have "nat ?b = Suc (nat (?b - 1))" using b by simp
    then have lo: "(2::int) ^ nat ?b = 2 * 2 ^ nat (?b - 1)" by simp
    have hi: "(2::int) ^ nat (1 + ?b) = 2 * 2 ^ nat ?b" using b by (simp add: nat_add_distrib)
    have "2 ^ nat (?b - 1) \<le> n div 2" "n div 2 < 2 ^ nat ?b" using "1.IH" n by auto
    with lo hi show ?thesis by (simp add: eq) linarith
  qed
qed

lemma bit_length_bounds:
  assumes "0 < n"
  shows "pow2 (bit_length n - 1) \<le> of_int n" and "of_int n < pow2 (bit_length n)"
proof -
  note b = bit_length_int_bounds [OF assms]
  have "(of_int (2 ^ nat (bit_length n - 1)) :: rat) \<le> of_int n"
    using b by (simp only: of_int_le_iff)
  then show "pow2 (bit_length n - 1) \<le> of_int n"
    using bit_length_pos [OF assms] by (simp add: pow2_def)
  have "(of_int n :: rat) < of_int (2 ^ nat (bit_length n))"
    using b by (simp only: of_int_less_iff)
  then show "of_int n < pow2 (bit_length n)"
    using bit_length_pos [OF assms] by (simp add: pow2_def)
qed

lemma ilog2_bounds:
  assumes "0 < x"
  shows "pow2 (ilog2 x) \<le> x" and "x < pow2 (ilog2 x + 1)"
proof -
  obtain p q where pq: "quotient_of x = (p, q)" by fastforce
  have q: "0 < q" using pq by (rule quotient_of_denom_pos)
  have x: "x = of_int p / of_int q" using pq by (rule quotient_of_div)
  have p: "0 < p" using assms q x by (simp add: zero_less_divide_iff)
  let ?d = "bit_length p - bit_length q"
  note P = bit_length_bounds [OF p] and Q = bit_length_bounds [OF q]
  have hi: "x < pow2 (?d + 1)"
  proof -
    have "x * of_int q = of_int p" using q x by simp
    also have "\<dots> < pow2 (bit_length p)" using P by simp
    also have "\<dots> = pow2 (?d + 1) * pow2 (bit_length q - 1)" by (simp flip: pow2_add)
    also have "\<dots> \<le> pow2 (?d + 1) * of_int q" using Q by (intro mult_left_mono) auto
    finally show ?thesis using q by (simp add: mult_less_cancel_right)
  qed
  have lo: "pow2 (?d - 1) \<le> x"
  proof -
    have "pow2 (?d - 1) * of_int q \<le> pow2 (?d - 1) * pow2 (bit_length q)"
      using Q by (intro mult_left_mono) auto
    also have "\<dots> = pow2 (bit_length p - 1)" by (simp flip: pow2_add)
    also have "\<dots> \<le> x * of_int q" using P q x by simp
    finally show ?thesis using q by (simp add: mult_le_cancel_right)
  qed
  have "ilog2 x = (if x < pow2 ?d then ?d - 1 else ?d)" by (simp add: ilog2_def pq)
  with hi lo show "pow2 (ilog2 x) \<le> x" and "x < pow2 (ilog2 x + 1)" by auto
qed

lemma ilog2_unique: "pow2 k \<le> x \<Longrightarrow> x < pow2 (k + 1) \<Longrightarrow> ilog2 x = k"
proof -
  assume k: "pow2 k \<le> x" "x < pow2 (k + 1)"
  have "0 < x" using k(1) pow2_pos [of k] by linarith
  note b = ilog2_bounds [OF this]
  have "pow2 k < pow2 (ilog2 x + 1)" "pow2 (ilog2 x) < pow2 (k + 1)" using k b by linarith+
  then show ?thesis by (simp add: pow2_less_iff)
qed

lemma ilog2_mono: "0 < x \<Longrightarrow> x \<le> y \<Longrightarrow> ilog2 x \<le> ilog2 y"
proof -
  assume a: "0 < x" "x \<le> y"
  have "pow2 (ilog2 x) < pow2 (ilog2 y + 1)" using ilog2_bounds [of x] ilog2_bounds [of y] a by linarith
  then show ?thesis by (simp add: pow2_less_iff)
qed

section \<open>Rounding error\<close>

lemma rhe_cases:
  "round_half_even x = \<lfloor>x\<rfloor> \<and> x - of_int \<lfloor>x\<rfloor> \<le> 1 / 2
   \<or> round_half_even x = \<lfloor>x\<rfloor> + 1 \<and> 1 / 2 \<le> x - of_int \<lfloor>x\<rfloor>"
  by (auto simp: round_half_even_def Let_def)

lemma rhe_err: "\<bar>of_int (round_half_even x) - x\<bar> \<le> 1 / 2"
proof -
  have "of_int \<lfloor>x\<rfloor> \<le> x" "x < of_int \<lfloor>x\<rfloor> + 1" by linarith+
  with rhe_cases [of x] show ?thesis by (auto simp: abs_le_iff)
qed

lemma rhe_nearest: "\<bar>x - of_int n\<bar> < 1 / 2 \<Longrightarrow> round_half_even x = n"
proof -
  assume a: "\<bar>x - of_int n\<bar> < 1 / 2"
  have "\<bar>of_int (round_half_even x) - of_int n\<bar> < (1 :: rat)" using a rhe_err [of x] by linarith
  then have "\<bar>of_int (round_half_even x - n)\<bar> < (1 :: rat)" by simp
  then show ?thesis by (simp flip: of_int_abs)
qed

lemma rhe_of_int [simp]: "round_half_even (of_int n) = n"
  by (rule rhe_nearest) simp

lemma rhe_nonneg: "0 \<le> x \<Longrightarrow> 0 \<le> round_half_even x"
  using rhe_cases [of x] zero_le_floor [of x] by (metis add_increasing2 zero_le_one)

lemma round_double_0 [simp]: "round_double 0 = 0"
  by (simp add: round_double_def)

lemma round_double_nonneg: "0 \<le> x \<Longrightarrow> 0 \<le> round_double x"
  by (simp add: round_double_def rhe_nonneg)

text \<open>Evaluation at a concrete point: give the exponent and the significand.\<close>

lemma round_double_at:
  assumes "pow2 k \<le> \<bar>x\<bar>" and "\<bar>x\<bar> < pow2 (k + 1)" and "- 1022 \<le> k"
    and "\<bar>x / pow2 (k - 52) - of_int n\<bar> < 1 / 2"
  shows "round_double x = of_int n * pow2 (k - 52)"
proof -
  have "x \<noteq> 0" using assms(1) pow2_pos [of k] by (metis abs_zero linorder_not_less)
  moreover have "ulp_exp x = k - 52" using ilog2_unique [OF assms(1,2)] assms(3) by (simp add: ulp_exp_def)
  ultimately show ?thesis using rhe_nearest [OF assms(4)] by (simp add: round_double_def)
qed

lemma round_double_ulp_err: "x \<noteq> 0 \<Longrightarrow> \<bar>round_double x - x\<bar> \<le> pow2 (ulp_exp x) / 2"
proof -
  assume x: "x \<noteq> 0"
  let ?u = "pow2 (ulp_exp x)"
  have "round_double x - x = (of_int (round_half_even (x / ?u)) - x / ?u) * ?u"
    using x by (simp add: round_double_def algebra_simps)
  also have "\<bar>\<dots>\<bar> = \<bar>of_int (round_half_even (x / ?u)) - x / ?u\<bar> * ?u" by (simp add: abs_mult)
  also have "\<dots> \<le> 1 / 2 * ?u" by (intro mult_right_mono rhe_err) simp
  finally show ?thesis by simp
qed

lemma round_double_err: "\<bar>round_double x - x\<bar> \<le> \<bar>x\<bar> * pow2 (- 53) + pow2 (- 1075)"
proof (cases "x = 0")
  case True
  then show ?thesis by simp
next
  case False
  have h1: "pow2 (ilog2 \<bar>x\<bar> - 53) = pow2 (ilog2 \<bar>x\<bar> - 52) / 2"
    using pow2_Suc [of "ilog2 \<bar>x\<bar> - 53"] by simp
  have h2: "pow2 (- 1075) = pow2 (- 1074) / 2" using pow2_Suc [of "- 1075"] by simp
  have "pow2 (ulp_exp x) \<le> pow2 (ilog2 \<bar>x\<bar> - 52) + pow2 (- 1074)"
    by (simp add: ulp_exp_def max_def)
  moreover have "pow2 (ilog2 \<bar>x\<bar> - 53) = pow2 (ilog2 \<bar>x\<bar>) * pow2 (- 53)" by (simp flip: pow2_add)
  moreover have "pow2 (ilog2 \<bar>x\<bar>) * pow2 (- 53) \<le> \<bar>x\<bar> * pow2 (- 53)"
    using False ilog2_bounds(1) [of "\<bar>x\<bar>"] by (intro mult_right_mono) auto
  ultimately show ?thesis
    using round_double_ulp_err [OF False] h1 h2 by linarith
qed

lemma pow2_m1075_le: "pow2 (- 1075) \<le> pow2 (- 60)"
  by (rule pow2_mono) simp

lemma round_double_err_bound:
  assumes "\<bar>x\<bar> \<le> m" and "m * pow2 (- 53) + pow2 (- 60) \<le> d"
  shows "\<bar>round_double x - x\<bar> \<le> d"
proof -
  have "\<bar>x\<bar> * pow2 (- 53) \<le> m * pow2 (- 53)" using assms(1) by (intro mult_right_mono) auto
  with round_double_err [of x] pow2_m1075_le assms(2) show ?thesis by linarith
qed

lemma round_double_err_1000: "\<bar>x\<bar> \<le> 1000 \<Longrightarrow> \<bar>round_double x - x\<bar> \<le> 1 / 10 ^ 12"
  by (rule round_double_err_bound) (auto simp: pow2_def)

lemma round_double_err_1e14: "\<bar>x\<bar> \<le> 10 ^ 14 \<Longrightarrow> \<bar>round_double x - x\<bar> \<le> 1 / 50"
  by (rule round_double_err_bound) (auto simp: pow2_def)

lemma of_int_pow2_shift: "e \<le> 0 \<Longrightarrow> of_int n / pow2 e = of_int (n * 2 ^ nat (- e))"
  by (auto simp: pow2_def)

lemma round_double_int: "\<bar>n\<bar> < 2 ^ 53 \<Longrightarrow> round_double (of_int n) = of_int n"
proof (cases "n = 0")
  case False
  assume n: "\<bar>n\<bar> < 2 ^ 53"
  let ?x = "of_int n :: rat"
  have "pow2 (ilog2 \<bar>?x\<bar>) \<le> \<bar>?x\<bar>" using False by (intro ilog2_bounds) simp
  also have "\<bar>?x\<bar> < of_int (2 ^ 53)" using n by (simp flip: of_int_abs add: of_int_less_iff)
  also have "\<dots> = pow2 53" by (simp add: pow2_def)
  finally have "ilog2 \<bar>?x\<bar> < 53" by (simp add: pow2_less_iff)
  then have e: "ulp_exp ?x \<le> 0" by (simp add: ulp_exp_def)
  have "?x / pow2 (ulp_exp ?x) = of_int (n * 2 ^ nat (- ulp_exp ?x))" by (rule of_int_pow2_shift [OF e])
  then have "round_double ?x = of_int (n * 2 ^ nat (- ulp_exp ?x)) * pow2 (ulp_exp ?x)"
    using False by (simp only: round_double_def rhe_of_int) simp
  also have "\<dots> = ?x" by (simp only: of_int_pow2_shift [OF e, symmetric]) simp
  finally show ?thesis .
qed simp

lemma to_double_small:
  assumes "\<bar>x\<bar> \<le> 2 ^ 100"
  shows "to_double x = Fin (round_double x)"
proof -
  have "\<bar>round_double x - x\<bar> \<le> 2 ^ 100"
    by (rule round_double_err_bound [OF assms]) (simp add: pow2_def)
  then have "\<bar>round_double x\<bar> \<le> pow2 101" using assms by (simp add: pow2_def)
  moreover have "pow2 101 < pow2 1024" by (rule pow2_strict) simp
  ultimately show ?thesis by (auto simp: to_double_def Let_def)
qed

lemma js_Number_int: "\<bar>n\<bar> < 2 ^ 53 \<Longrightarrow> js_Number n = Fin (of_int n)"
proof -
  assume n: "\<bar>n\<bar> < 2 ^ 53"
  then have "\<bar>of_int n\<bar> \<le> (2 ^ 100 :: rat)"
  proof -
    have "\<bar>n\<bar> \<le> 2 ^ 100" using n by simp
    then have "of_int \<bar>n\<bar> \<le> (of_int (2 ^ 100) :: rat)" by (simp only: of_int_le_iff)
    then show ?thesis by simp
  qed
  with n show ?thesis by (simp add: js_Number_def to_double_small round_double_int)
qed

section \<open>Short decimals survive the trip through a double\<close>

lemma round_half_away_nearest: "\<bar>x - of_int n\<bar> < 1 / 2 \<Longrightarrow> round_half_away x = n"
proof -
  assume a: "\<bar>x - of_int n\<bar> < 1 / 2"
  have "\<lfloor>x + 1 / 2\<rfloor> = n" using a by (intro floor_unique) linarith+
  moreover have "\<lfloor>- x + 1 / 2\<rfloor> = - n" using a by (intro floor_unique) (simp_all only: of_int_minus; linarith)+
  ultimately show ?thesis by (simp add: round_half_away_def)
qed

lemma round_half_away_err: "\<bar>of_int (round_half_away x) - x\<bar> \<le> 1 / 2"
proof -
  have a: "of_int \<lfloor>y + 1 / 2\<rfloor> \<le> y + 1 / 2 \<and> y + 1 / 2 < of_int \<lfloor>y + 1 / 2\<rfloor> + 1" for y :: rat
    by linarith
  show ?thesis
  proof (cases "0 \<le> x")
    case True
    then show ?thesis unfolding round_half_away_def using a [of x] by (simp only: if_True) linarith
  next
    case False
    then show ?thesis unfolding round_half_away_def using a [of "- x"]
      by (simp only: if_False of_int_minus) linarith
  qed
qed

lemma round_half_away_bound: "\<bar>x\<bar> + 1 \<le> of_int m \<Longrightarrow> \<bar>round_half_away x\<bar> < m"
proof -
  assume "\<bar>x\<bar> + 1 \<le> of_int m"
  then have "\<bar>of_int (round_half_away x)\<bar> < (of_int m :: rat)" using round_half_away_err [of x] by linarith
  then have "of_int \<bar>round_half_away x\<bar> < (of_int m :: rat)" by simp
  then show ?thesis by (simp only: of_int_less_iff)
qed

lemma decimal_at_err: "\<bar>decimal_at k x - x\<bar> \<le> 1 / 2"
proof -
  have "\<bar>decimal_at k x - x\<bar> * 10 ^ k = \<bar>(decimal_at k x - x) * 10 ^ k\<bar>" by (simp add: abs_mult)
  also have "(decimal_at k x - x) * 10 ^ k = of_int (round_half_away (x * 10 ^ k)) - x * 10 ^ k"
    by (simp add: decimal_at_def left_diff_distrib)
  finally have "\<bar>decimal_at k x - x\<bar> * 10 ^ k \<le> 1 / 2" using round_half_away_err by metis
  moreover have "\<bar>decimal_at k x - x\<bar> * 1 \<le> \<bar>decimal_at k x - x\<bar> * 10 ^ k"
    by (rule mult_left_mono) simp_all
  ultimately show ?thesis by (simp only: mult_1_right)
qed

lemma pow10_le_11: "k \<le> 11 \<Longrightarrow> (10 ^ k :: rat) \<le> 10 ^ 11"
  by (rule power_increasing) simp_all

lemma scaled_close: "\<bar>a - b\<bar> \<le> d \<Longrightarrow> \<bar>a * 10 ^ k - b * 10 ^ k\<bar> \<le> d * (10 :: rat) ^ k"
proof -
  assume "\<bar>a - b\<bar> \<le> d"
  then have "\<bar>a - b\<bar> * 10 ^ k \<le> d * 10 ^ k" by (rule mult_right_mono) simp
  then show ?thesis by (simp add: abs_mult flip: left_diff_distrib)
qed

lemma decimal_at_double:
  assumes "\<bar>of_int n / 10 ^ k\<bar> \<le> (1000 :: rat)" and "k \<le> 11"
  shows "decimal_at k (round_double (of_int n / 10 ^ k)) = of_int n / 10 ^ k"
proof -
  let ?x = "round_double (of_int n / 10 ^ k)"
  have "\<bar>?x * 10 ^ k - of_int n / 10 ^ k * 10 ^ k\<bar> \<le> 1 / 10 ^ 12 * 10 ^ k"
    by (rule scaled_close, rule round_double_err_1000) (rule assms(1))
  also have "\<dots> \<le> 1 / 10 ^ 12 * 10 ^ 11" by (rule mult_left_mono [OF pow10_le_11 [OF assms(2)]]) simp
  finally have "\<bar>?x * 10 ^ k - of_int n\<bar> < 1 / 2" by simp
  then show ?thesis unfolding decimal_at_def by (simp add: round_half_away_nearest)
qed

lemma find_upt_Some:
  assumes "P k" and "k < n"
  obtains j where "find P [0..<n] = Some j" and "P j" and "j \<le> k"
proof -
  have "find P [0..<n] \<noteq> None" using assms by (auto simp: find_None_iff)
  then obtain j where j: "find P [0..<n] = Some j" by blast
  then obtain i where i: "i < n" "P ([0..<n] ! i)" "j = [0..<n] ! i" "\<forall>m<i. \<not> P ([0..<n] ! m)"
    by (auto simp: find_Some_iff)
  have "j \<le> k"
  proof (rule ccontr)
    assume "\<not> j \<le> k"
    then have "k < i" using i(1,3) by simp
    then have "\<not> P ([0..<n] ! k)" using i(4) by simp
    then show False using assms by simp
  qed
  then show thesis using that j i(2,3) by simp
qed

lemma abs_chain:
  "\<bar>y - x\<bar> \<le> 1 / 2 \<Longrightarrow> \<bar>x - q\<bar> \<le> d \<Longrightarrow> \<bar>q\<bar> \<le> 999 \<Longrightarrow> d \<le> 1 / 2 \<Longrightarrow> \<bar>y\<bar> \<le> (1000 :: rat)"
  by linarith

lemma abs_chain2: "\<bar>x - y\<bar> \<le> d \<Longrightarrow> \<bar>x - q\<bar> \<le> d \<Longrightarrow> \<bar>y - q\<bar> \<le> d + (d :: rat)"
  by linarith

theorem js_decimal_double:
  assumes "\<bar>of_int n / 10 ^ k\<bar> \<le> (999 :: rat)" and "k \<le> 11"
  shows "js_decimal (round_double (of_int n / 10 ^ k)) = of_int n / 10 ^ k"
proof -
  let ?q = "of_int n / 10 ^ k :: rat" and ?x = "round_double (of_int n / 10 ^ k)"
  have q: "\<bar>?q\<bar> \<le> 1000" using assms(1) by linarith
  have "round_double (decimal_at k ?x) = ?x" by (simp only: decimal_at_double [OF q assms(2)])
  moreover have "k < 26" using assms(2) by simp
  ultimately obtain j where j: "find (\<lambda>k. round_double (decimal_at k ?x) = ?x) [0..<26] = Some j"
    and rj: "round_double (decimal_at j ?x) = ?x" and jk: "j \<le> k"
    by (rule find_upt_Some [where P = "\<lambda>k. round_double (decimal_at k ?x) = ?x"])
  define y where "y = decimal_at j ?x"
  have xq: "\<bar>?x - ?q\<bar> \<le> 1 / 10 ^ 12" by (rule round_double_err_1000) (rule q)
  have "\<bar>y - ?x\<bar> \<le> 1 / 2" unfolding y_def by (rule decimal_at_err)
  then have "\<bar>y\<bar> \<le> 1000" using xq assms(1) by (rule abs_chain) simp
  then have "\<bar>round_double y - y\<bar> \<le> 1 / 10 ^ 12" by (rule round_double_err_1000)
  then have "\<bar>?x - y\<bar> \<le> 1 / 10 ^ 12" using rj unfolding y_def by (simp only:)
  then have "\<bar>y - ?q\<bar> \<le> 1 / 10 ^ 12 + 1 / 10 ^ 12" using xq by (rule abs_chain2)
  then have yq: "\<bar>y - ?q\<bar> \<le> 2 / 10 ^ 12" by (simp only: flip: add_divide_distrib) simp
  define m where "m = round_half_away (?x * 10 ^ j) * 10 ^ (k - j)"
  have ym: "y * 10 ^ k = of_int m"
    using jk power_add [of "10 :: rat" j "k - j"] by (simp add: y_def m_def decimal_at_def field_simps)
  have "\<bar>y * 10 ^ k - ?q * 10 ^ k\<bar> \<le> 2 / 10 ^ 12 * 10 ^ k" by (rule scaled_close [OF yq])
  also have "\<dots> \<le> 2 / 10 ^ 12 * 10 ^ 11" by (rule mult_left_mono [OF pow10_le_11 [OF assms(2)]]) simp
  finally have "\<bar>of_int m - of_int n\<bar> < (1 :: rat)" by (simp add: ym)
  then have "m = n" by linarith
  then have "y = ?q" using ym by (simp add: field_simps)
  then show ?thesis by (simp add: js_decimal_def j flip: y_def)
qed

section \<open>Estimates\<close>

lemma js_round_near: "\<bar>y - of_int n\<bar> < 1 / 2 \<Longrightarrow> js_round (Fin y) = Fin (of_int n)"
proof -
  assume "\<bar>y - of_int n\<bar> < 1 / 2"
  then have "\<lfloor>y + 1 / 2\<rfloor> = n" by (intro floor_unique) linarith+
  then show ?thesis by simp
qed

lemma abs_chain3:
  "\<bar>y - a\<bar> \<le> d \<Longrightarrow> \<bar>a - b\<bar> \<le> e \<Longrightarrow> d + e < 1 / 2 \<Longrightarrow> \<bar>y - b\<bar> < (1 / 2 :: rat)"
  by linarith

lemma div_bounds_rat:
  fixes a b :: int
  shows "of_int (a div b) \<le> (of_int a / of_int b :: rat)" "of_int a / of_int b < (of_int (a div b) + 1 :: rat)"
proof -
  have e: "a div b = \<lfloor>of_int a / of_int b :: rat\<rfloor>" by (rule floor_divide_of_int_eq [symmetric])
  show "of_int (a div b) \<le> (of_int a / of_int b :: rat)" "of_int a / of_int b < (of_int (a div b) + 1 :: rat)"
    unfolding e by linarith+
qed

lemma to_double_bounded: "\<bar>x\<bar> \<le> 1000 \<Longrightarrow> \<exists>y. to_double x = Fin y \<and> \<bar>y - x\<bar> \<le> 1 / 10 ^ 12"
proof -
  assume x: "\<bar>x\<bar> \<le> 1000"
  then have "\<bar>x\<bar> \<le> 2 ^ 100" by (rule order_trans) simp
  then show ?thesis using to_double_small round_double_err_1000 [OF x] by blast
qed

lemma to_double_eval: "\<bar>x\<bar> \<le> 1000 \<Longrightarrow> round_double x = y \<Longrightarrow> to_double x = Fin y"
  using to_double_small [of x] order_trans [of "\<bar>x\<bar>" 1000 "2 ^ 100"] by simp

section \<open>Monotonicity\<close>

lemma rhe_mono: "x \<le> y \<Longrightarrow> round_half_even x \<le> round_half_even y"
proof -
  assume a: "x \<le> y"
  have "\<lfloor>x\<rfloor> \<le> \<lfloor>y\<rfloor>" using a by (rule floor_mono)
  moreover have "round_half_even x \<le> \<lfloor>x\<rfloor> + 1" "\<lfloor>y\<rfloor> \<le> round_half_even y"
    using rhe_cases [of x] rhe_cases [of y] by auto
  moreover have "round_half_even x \<le> round_half_even y" if "\<lfloor>x\<rfloor> = \<lfloor>y\<rfloor>"
    using a that by (auto simp: round_half_even_def Let_def)
  ultimately show ?thesis by (cases "\<lfloor>x\<rfloor> = \<lfloor>y\<rfloor>") auto
qed

lemma rhe_pow2: "0 \<le> k \<Longrightarrow> round_half_even (pow2 k) = 2 ^ nat k"
  using rhe_of_int [of "2 ^ nat k"] by (simp add: pow2_def)

lemma round_double_mono_pos:
  assumes "0 < x" and "x \<le> y"
  shows "round_double x \<le> round_double y"
proof -
  let ?u = "ulp_exp x" and ?v = "ulp_exp y"
  have r: "round_double x = of_int (round_half_even (x / pow2 ?u)) * pow2 ?u"
    "round_double y = of_int (round_half_even (y / pow2 ?v)) * pow2 ?v"
    using assms by (simp_all add: round_double_def)
  have il: "ilog2 x \<le> ilog2 y" using assms by (rule ilog2_mono)
  show ?thesis
  proof (cases "?u = ?v")
    case True
    have "x / pow2 ?u \<le> y / pow2 ?u" using assms(2) by (intro divide_right_mono) auto
    then show ?thesis unfolding r True [symmetric] by (intro mult_right_mono) (auto intro: rhe_mono)
  next
    case False
    have uv: "ilog2 x + 1 \<le> ?u + 53" "?v + 52 = ilog2 y" "?u + 53 \<le> ?v + 52"
      using False il assms by (auto simp: ulp_exp_def max_def split: if_splits)
    have "x / pow2 ?u \<le> pow2 53"
    proof -
      have "x \<le> pow2 (?u + 53)" using ilog2_bounds(2) [OF assms(1)] pow2_mono [OF uv(1)] by linarith
      then show ?thesis by (simp add: pow2_add field_simps)
    qed
    then have "round_half_even (x / pow2 ?u) \<le> 2 ^ 53" using rhe_mono rhe_pow2 [of 53] by fastforce
    then have "of_int (round_half_even (x / pow2 ?u)) \<le> (of_int (2 ^ 53) :: rat)" by (simp only: of_int_le_iff)
    then have hi: "round_double x \<le> pow2 53 * pow2 ?u"
      unfolding r by (intro mult_right_mono) (auto simp: pow2_def)
    have "pow2 52 \<le> y / pow2 ?v"
    proof -
      have "pow2 (?v + 52) \<le> y" using ilog2_bounds(1) [of y] assms uv(2) by simp
      then show ?thesis by (simp add: pow2_add field_simps)
    qed
    then have "2 ^ 52 \<le> round_half_even (y / pow2 ?v)" using rhe_mono rhe_pow2 [of 52] by fastforce
    then have "(of_int (2 ^ 52) :: rat) \<le> of_int (round_half_even (y / pow2 ?v))" by (simp only: of_int_le_iff)
    then have lo: "pow2 52 * pow2 ?v \<le> round_double y"
      unfolding r by (intro mult_right_mono) (auto simp: pow2_def)
    have "pow2 53 * pow2 ?u \<le> pow2 52 * pow2 ?v"
      using pow2_mono [OF uv(3)] by (simp add: pow2_add [symmetric] add.commute)
    with hi lo show ?thesis by linarith
  qed
qed

lemma round_double_mono: "0 \<le> x \<Longrightarrow> x \<le> y \<Longrightarrow> round_double x \<le> round_double y"
  by (cases "x = 0") (auto intro: round_double_mono_pos round_double_nonneg)

lemma to_double_mono: "0 \<le> x \<Longrightarrow> x \<le> y \<Longrightarrow> js_le (to_double x) (to_double y)"
proof -
  assume a: "0 \<le> x" "x \<le> y"
  have "- pow2 1024 < round_double x" "- pow2 1024 < round_double y"
    using round_double_nonneg [of x] round_double_nonneg [of y] a pow2_pos [of 1024] by linarith+
  then show ?thesis using round_double_mono [OF a] pow2_pos [of 1024]
    by (auto simp: to_double_def Let_def)
qed

lemma js_Number_nonneg: "0 \<le> q \<Longrightarrow> (\<exists>x. js_Number q = Fin x \<and> x = round_double (of_int q)) \<or> js_Number q = PosInf"
proof -
  assume "0 \<le> q"
  then have "0 \<le> round_double (of_int q)" by (intro round_double_nonneg) simp
  then have "- pow2 1024 < round_double (of_int q)" using pow2_pos [of 1024] by linarith
  then show ?thesis by (auto simp: js_Number_def to_double_def Let_def)
qed

lemma le_zdiv_iff: "0 < (b :: int) \<Longrightarrow> k \<le> a div b \<longleftrightarrow> k * b \<le> a"
proof
  assume b: "0 < b" and "k \<le> a div b"
  then have "k * b \<le> a div b * b" by (simp add: mult_right_mono)
  also have "\<dots> \<le> a" using b by (simp add: minus_mod_eq_div_mult [symmetric])
  finally show "k * b \<le> a" .
next
  assume b: "0 < b" and "k * b \<le> a"
  then have "k * b div b \<le> a div b" by (intro zdiv_mono1)
  then show "k \<le> a div b" using b by simp
qed

text \<open>
  A ratio computed as \<open>Number(q) / D\<close> from a rounded-down quotient \<open>q\<close> compares with the double
  nearest to \<open>k / D\<close> exactly as \<open>q\<close> compares with \<open>k\<close>.
\<close>

lemma js_le_Fin [simp]: "js_le (Fin x) (Fin y) \<longleftrightarrow> x \<le> y"
  by auto

lemma ratio_bound:
  assumes "0 \<le> k" and "k \<le> 1000 * D" and "0 < D"
  shows "\<bar>of_int k / of_int D\<bar> \<le> (1000 :: rat)"
proof -
  have "of_int k \<le> (of_int (1000 * D) :: rat)" using assms(2) by (simp only: of_int_le_iff)
  then show ?thesis using assms(1,3) by (simp add: divide_le_eq)
qed

lemma ratio_ge:
  assumes "0 \<le> k" and "k \<le> 1000 * D" and "0 < D" and "D \<le> 10000" and "k \<le> q"
  shows "js_le (to_double (of_int k / of_int D)) (case js_Number q of Fin x \<Rightarrow> js_div_fin x (of_int D) | n \<Rightarrow> n)"
proof -
  have k: "round_double (of_int k) = (of_int k :: rat)" using assms by (intro round_double_int) simp
  have k2: "\<exists>y. to_double (of_int k / of_int D) = Fin y"
    using to_double_bounded [OF ratio_bound [OF assms(1-3)]] by auto
  have "0 \<le> q" using assms(1,5) by simp
  from js_Number_nonneg [OF this] show ?thesis
  proof
    assume "\<exists>x. js_Number q = Fin x \<and> x = round_double (of_int q)"
    then obtain x where x: "js_Number q = Fin x" "x = round_double (of_int q)" by blast
    have "round_double (of_int k) \<le> round_double (of_int q)"
      using assms by (intro round_double_mono) auto
    then have "of_int k / of_int D \<le> x / (of_int D :: rat)" using k x(2) assms(3) by (intro divide_right_mono) auto
    moreover have "0 \<le> of_int k / (of_int D :: rat)" using assms(1,3) by simp
    ultimately show ?thesis using x(1) by (simp add: js_div_fin_def to_double_mono)
  qed (use k2 in auto)
qed

lemma ratio_less:
  assumes "0 \<le> q" and "q < k" and "k \<le> 1000 * D" and "0 < D" and "D \<le> 10000"
  shows "\<not> js_le (to_double (of_int k / of_int D)) (case js_Number q of Fin x \<Rightarrow> js_div_fin x (of_int D) | n \<Rightarrow> n)"
proof -
  have q: "js_Number q = Fin (of_int q)" using assms by (intro js_Number_int) simp
  have b: "\<bar>of_int k / of_int D\<bar> \<le> (1000 :: rat)" "\<bar>of_int q / of_int D\<bar> \<le> (1000 :: rat)"
    by (rule ratio_bound; use assms(1-4) in linarith)+
  obtain y z where y: "to_double (of_int k / of_int D) = Fin y" "\<bar>y - of_int k / of_int D\<bar> \<le> 1 / 10 ^ 12"
    and z: "to_double (of_int q / of_int D) = Fin z" "\<bar>z - of_int q / of_int D\<bar> \<le> 1 / 10 ^ 12"
    using to_double_bounded [OF b(1)] to_double_bounded [OF b(2)] by blast
  have "of_int (q + 1) \<le> (of_int k :: rat)" using assms(2) by (simp only: of_int_le_iff)
  then have "(of_int q + 1) / of_int D \<le> (of_int k / of_int D :: rat)" using assms(4) by (intro divide_right_mono) auto
  moreover have "(1 / 10000 :: rat) \<le> 1 / of_int D"
  proof -
    have "of_int D \<le> (of_int 10000 :: rat)" using assms(5) by (simp only: of_int_le_iff)
    then show ?thesis using assms(4) by (simp add: divide_simps)
  qed
  moreover have "(of_int q + 1) / of_int D = of_int q / of_int D + 1 / (of_int D :: rat)" by (simp add: add_divide_distrib)
  moreover have "(1 / 10 ^ 12 :: rat) < 1 / 40000" by simp
  ultimately have "z < y" using y(2) z(2) by linarith
  then show ?thesis using y(1) z(1) q by (simp add: js_div_fin_def)
qed

text \<open>The threshold test of a truncated ratio is the exact comparison of the two products.\<close>

lemma ratio_threshold:
  assumes "0 \<le> t" and "0 < u" and "0 \<le> k" and "k \<le> 1000 * D" and "0 < D" and "D \<le> 10000"
  shows "js_le (to_double (of_int k / of_int D))
      (case js_Number (bigint_div t u) of Fin x \<Rightarrow> js_div_fin x (of_int D) | n \<Rightarrow> n) \<longleftrightarrow> k * u \<le> t"
proof -
  have q: "bigint_div t u = t div u" "0 \<le> t div u"
    using assms by (auto simp: bigint_div_nonneg pos_imp_zdiv_nonneg_iff)
  have "js_le (to_double (of_int k / of_int D))
      (case js_Number (t div u) of Fin x \<Rightarrow> js_div_fin x (of_int D) | n \<Rightarrow> n) \<longleftrightarrow> k \<le> t div u"
    using ratio_ge [OF assms(3-6)] ratio_less [OF q(2) _ assms(4-6)] by fastforce
  then show ?thesis using le_zdiv_iff [OF assms(2), of k t] by (simp add: q(1))
qed

end
