(* ===== verification/JS_String.thy ===== *)
theory JS_String
  imports JS_Number
begin

text \<open>
  What the source uses of JavaScript strings: \<open>padStart\<close>, \<open>padEnd\<close>, \<open>slice\<close>, \<open>String(n)\<close> of a
  bigint, \<open>BigInt(s)\<close> of a digit string and \<open>parseFloat(s)\<close>. A string is a list of characters
  (the strings of the modelled code are ASCII: identifiers, digits, account numbers).
\<close>

section \<open>Padding and slicing\<close>

definition slice0 :: "nat \<Rightarrow> string \<Rightarrow> string" where
  "slice0 n s = take n s"

definition padEnd :: "nat \<Rightarrow> char \<Rightarrow> string \<Rightarrow> string" where
  "padEnd n c s = s @ replicate (n - length s) c"

definition padStart :: "nat \<Rightarrow> char \<Rightarrow> string \<Rightarrow> string" where
  "padStart n c s = replicate (n - length s) c @ s"

lemma length_padEnd [simp]: "length (padEnd n c s) = max n (length s)"
  by (simp add: padEnd_def)

lemma length_padStart [simp]: "length (padStart n c s) = max n (length s)"
  by (simp add: padStart_def)

lemma length_slice0 [simp]: "length (slice0 n s) = min n (length s)"
  by (simp add: slice0_def)

section \<open>Decimal digits\<close>

definition is_digit :: "char \<Rightarrow> bool" where
  "is_digit c \<longleftrightarrow> 48 \<le> (of_char c :: nat) \<and> (of_char c :: nat) \<le> 57"

definition digit_char :: "nat \<Rightarrow> char" where
  "digit_char d = char_of (48 + d)"

definition digit_val :: "char \<Rightarrow> nat" where
  "digit_val c = of_char c - 48"

fun show_nat :: "nat \<Rightarrow> string" where
  "show_nat n = (if n < 10 then [digit_char n] else show_nat (n div 10) @ [digit_char (n mod 10)])"

declare show_nat.simps [simp del]

definition show_int :: "int \<Rightarrow> string" where
  "show_int i = (if i < 0 then CHR ''-'' # show_nat (nat (- i)) else show_nat (nat i))"

text \<open>The value of a digit string, read from the left.\<close>

definition digits_val :: "string \<Rightarrow> nat" where
  "digits_val s = foldl (\<lambda>acc c. 10 * acc + digit_val c) 0 s"

lemma of_char_digit: "d < 10 \<Longrightarrow> of_char (digit_char d) = 48 + d"
  by (simp add: digit_char_def)

lemma is_digit_digit_char [simp]: "d < 10 \<Longrightarrow> is_digit (digit_char d)"
  by (simp add: is_digit_def of_char_digit)

lemma digit_val_digit_char [simp]: "d < 10 \<Longrightarrow> digit_val (digit_char d) = d"
  by (simp add: digit_val_def of_char_digit)

lemma foldl_digits:
  "foldl (\<lambda>acc c. 10 * acc + digit_val c) a s = a * 10 ^ length s + digits_val s"
proof (induction s arbitrary: a)
  case Nil
  then show ?case by (simp add: digits_val_def)
next
  case (Cons c s)
  show ?case
    using Cons.IH [of "10 * a + digit_val c"] Cons.IH [of "digit_val c"]
    by (simp add: digits_val_def algebra_simps)
qed

lemma digits_val_append: "digits_val (s @ t) = digits_val s * 10 ^ length t + digits_val t"
  using foldl_digits [of "digits_val s" t] by (simp add: digits_val_def)

lemma digits_val_Nil [simp]: "digits_val [] = 0"
  by (simp add: digits_val_def)

lemma digits_val_single [simp]: "digits_val [c] = digit_val c"
  by (simp add: digits_val_def)

lemma digits_val_zeros [simp]: "digits_val (replicate n (CHR ''0'')) = 0"
  by (induction n) (simp_all add: digits_val_append [of "[CHR ''0'']", simplified] digit_val_def)

lemma show_nat_digits: "list_all is_digit (show_nat n)"
proof (induction n rule: show_nat.induct)
  case (1 n)
  then show ?case by (subst show_nat.simps) simp
qed

lemma show_nat_nonempty [simp]: "show_nat n \<noteq> []"
  by (subst show_nat.simps) simp

lemma digits_val_show_nat [simp]: "digits_val (show_nat n) = n"
proof (induction n rule: show_nat.induct)
  case (1 n)
  show ?case
  proof (cases "n < 10")
    case True
    then show ?thesis by (simp add: show_nat.simps [of n])
  next
    case False
    with "1.IH" show ?thesis by (simp add: show_nat.simps [of n] digits_val_append)
  qed
qed

text \<open>A digit string of length \<open>n\<close> is below \<open>10 ^ n\<close>, and the shortest one has no spare digit.\<close>

lemma length_show_nat_le: "n < 10 ^ k \<Longrightarrow> 0 < k \<Longrightarrow> length (show_nat n) \<le> k"
proof (induction n arbitrary: k rule: show_nat.induct)
  case (1 n)
  show ?case
  proof (cases "n < 10")
    case True
    with "1.prems" show ?thesis by (simp add: show_nat.simps [of n])
  next
    case False
    then obtain j where k: "k = Suc j" and j: "0 < j"
      using "1.prems" by (cases k; cases "k - 1") auto
    have "n div 10 < 10 ^ j" using "1.prems" k by auto
    then have "length (show_nat (n div 10)) \<le> j" using "1.IH" False j by blast
    with False k show ?thesis by (simp add: show_nat.simps [of n])
  qed
qed

section \<open>parseFloat\<close>

definition is_space :: "char \<Rightarrow> bool" where
  "is_space c \<longleftrightarrow> (of_char c :: nat) \<in> {9, 10, 11, 12, 13, 32, 160}"

definition js_trim :: "string \<Rightarrow> string" where
  "js_trim s = rev (dropWhile is_space (rev (dropWhile is_space s)))"

text \<open>\<open>toLowerCase\<close> and \<open>toUpperCase\<close> on the letters of ASCII.\<close>

definition char_lower :: "char \<Rightarrow> char" where
  "char_lower c = (let n = of_char c :: nat in if 65 \<le> n \<and> n \<le> 90 then char_of (n + 32) else c)"

definition toLowerCase :: "string \<Rightarrow> string" where
  "toLowerCase s = map char_lower s"

definition char_upper :: "char \<Rightarrow> char" where
  "char_upper c = (let n = of_char c :: nat in if 97 \<le> n \<and> n \<le> 122 then char_of (n - 32) else c)"

definition toUpperCase :: "string \<Rightarrow> string" where
  "toUpperCase s = map char_upper s"

definition pow10 :: "int \<Rightarrow> rat" where
  "pow10 e = (if 0 \<le> e then 10 ^ nat e else 1 / 10 ^ nat (- e))"

text \<open>An optional sign; the rest; an optional exponent part, ignored when it has no digits.\<close>

fun split_sign :: "string \<Rightarrow> bool \<times> string" where
  "split_sign (c # s) =
     (if c = CHR ''-'' then (True, s) else if c = CHR ''+'' then (False, s) else (False, c # s))"
| "split_sign [] = (False, [])"

fun parse_exponent :: "string \<Rightarrow> int" where
  "parse_exponent [] = 0"
| "parse_exponent (c # s) =
     (if c = CHR ''e'' \<or> c = CHR ''E''
      then (let (neg, r) = split_sign s; ds = takeWhile is_digit r
            in if ds = [] then 0
               else if neg then - int (digits_val ds) else int (digits_val ds))
      else 0)"

fun fraction_part :: "string \<Rightarrow> string" where
  "fraction_part [] = []"
| "fraction_part (c # s) = (if c = CHR ''.'' then takeWhile is_digit s else [])"

fun after_fraction :: "string \<Rightarrow> string" where
  "after_fraction [] = []"
| "after_fraction (c # s) = (if c = CHR ''.'' then dropWhile is_digit s else c # s)"

definition parseFloat :: "string \<Rightarrow> js_number" where
  "parseFloat str =
     (let (neg, s) = split_sign (dropWhile is_space str)
      in if take 8 s = ''Infinity'' then (if neg then NegInf else PosInf)
         else let ip = takeWhile is_digit s; r = dropWhile is_digit s; fp = fraction_part r
              in if ip = [] \<and> fp = [] then NaN
                 else let v = of_nat (digits_val (ip @ fp)) * pow10 (- int (length fp))
                              * pow10 (parse_exponent (after_fraction r))
                      in to_double (if neg then - v else v))"

text \<open>The decimal text of a non-negative \<open>NUMERIC\<close> value with \<open>k\<close> fractional digits, as
  PostgreSQL prints it (\<open>n\<close> counts units of the last digit).\<close>

definition numeric_text :: "nat \<Rightarrow> nat \<Rightarrow> string" where
  "numeric_text k n = show_nat (n div 10 ^ k) @ CHR ''.'' # padStart k (CHR ''0'') (show_nat (n mod 10 ^ k))"

text \<open>
  \<open>Number.prototype.toFixed\<close> below \<open>1e21\<close> (every caller passes a percentage): the nearest decimal with
  that many places, the larger one on a tie, of the absolute value.
\<close>

fun js_toFixed :: "nat \<Rightarrow> js_number \<Rightarrow> string" where
  "js_toFixed k (Fin x) =
     (if x < 0 then ''-'' else []) @ numeric_text k (nat \<lfloor>\<bar>x\<bar> * 10 ^ k + 1 / 2\<rfloor>)"
| "js_toFixed k NaN = ''NaN''"
| "js_toFixed k PosInf = ''Infinity''"
| "js_toFixed k NegInf = ''-Infinity''"

lemma not_digit_dot [simp]: "\<not> is_digit (CHR ''.'')"
  by (simp add: is_digit_def)

lemma is_digit_zero [simp]: "is_digit (CHR ''0'')"
  by (simp add: is_digit_def)

lemma digit_not_space: "is_digit c \<Longrightarrow> \<not> is_space c"
  by (auto simp: is_digit_def is_space_def)

lemma digit_not_sign: "is_digit c \<Longrightarrow> c \<noteq> CHR ''-'' \<and> c \<noteq> CHR ''+'' \<and> c \<noteq> CHR ''I''"
  by (auto simp: is_digit_def)

lemma span_digits:
  assumes "list_all is_digit ds" and "\<not> is_digit c"
  shows "takeWhile is_digit (ds @ c # r) = ds" and "dropWhile is_digit (ds @ c # r) = c # r"
  using assms by (induction ds) auto

lemma takeWhile_all_digits: "list_all is_digit ds \<Longrightarrow> takeWhile is_digit ds = ds"
  and dropWhile_all_digits: "list_all is_digit ds \<Longrightarrow> dropWhile is_digit ds = []"
  by (induction ds) auto

lemma padStart_zero_digits:
  "list_all is_digit s \<Longrightarrow> list_all is_digit (padStart k (CHR ''0'') s)"
  by (auto simp: padStart_def list_all_iff)

lemma digits_val_padStart [simp]: "digits_val (padStart k (CHR ''0'') s) = digits_val s"
  by (simp add: padStart_def digits_val_append)

lemma length_padded_nat:
  "n < 10 ^ k \<Longrightarrow> 0 < k \<Longrightarrow> length (padStart k c (show_nat n)) = k"
  using length_show_nat_le [of n k] by simp

text \<open>Reading back the text of a \<open>NUMERIC\<close> column gives the double nearest to its value.\<close>

lemma parseFloat_numeric_text:
  assumes "0 < k"
  shows "parseFloat (numeric_text k n) = to_double (of_nat n / 10 ^ k)"
proof -
  let ?ip = "show_nat (n div 10 ^ k)"
  let ?fp = "padStart k (CHR ''0'') (show_nat (n mod 10 ^ k))"
  let ?s = "?ip @ CHR ''.'' # ?fp"
  obtain c r where c: "?ip = c # r" by (cases ?ip) auto
  have dc: "is_digit c" using show_nat_digits [of "n div 10 ^ k"] c by simp
  have sp: "dropWhile is_space ?s = ?s" using c dc by (simp add: digit_not_space)
  have sg: "split_sign ?s = (False, ?s)" using c dc digit_not_sign [OF dc] by simp
  have inf: "take 8 ?s \<noteq> ''Infinity''" using c dc digit_not_sign [OF dc] by simp
  have len: "length ?fp = k" using assms by (intro length_padded_nat) auto
  have ip: "takeWhile is_digit ?s = ?ip" "dropWhile is_digit ?s = CHR ''.'' # ?fp"
    by (rule span_digits; simp add: show_nat_digits)+
  have fd: "list_all is_digit ?fp" by (intro padStart_zero_digits show_nat_digits)
  have fp: "fraction_part (CHR ''.'' # ?fp) = ?fp" "after_fraction (CHR ''.'' # ?fp) = []"
    using takeWhile_all_digits [OF fd] dropWhile_all_digits [OF fd] by simp_all
  have val: "digits_val (?ip @ ?fp) = n" using len by (simp add: digits_val_append div_mult_mod_eq)
  have "of_nat (digits_val (?ip @ ?fp)) * pow10 (- int (length ?fp)) * pow10 0 = (of_nat n / 10 ^ k :: rat)"
    using assms by (simp only: val len) (simp add: pow10_def)
  then show ?thesis
    unfolding parseFloat_def numeric_text_def sp sg Let_def prod.case ip fp
    using inf c by (simp only: parse_exponent.simps) simp
qed

end
