(* ===== verification/RIS_Database.thy ===== *)
theory RIS_Database
  imports JS_String
begin

text \<open>
  The shared state of the platform: the rows of the PostgreSQL tables (one record per table,
  the columns the modelled services read or write), the world in which a service function runs
  (the database, the BullMQ jobs enqueued so far, which queue references are configured, whether
  Redis accepts jobs, the clock, the rows other transactions have locked, the in-memory risk
  configuration cache) and the operations
  every service uses on it: a query, a statement, a transaction with rollback, an audit entry,
  an enqueued job. Amounts are \<open>BIGINT\<close> columns (\<open>int\<close>), rates are \<open>NUMERIC\<close> columns (\<open>rat\<close>),
  timestamps are milliseconds, calendar dates are day numbers.
\<close>

section \<open>Column values\<close>

text \<open>
  A \<open>NUMERIC(p,s)\<close> column holds a decimal with \<open>s\<close> fractional digits or NaN (\<open>None\<close>). A number
  is sent as its decimal text; storing it rounds that decimal half away from zero and is refused when it does not fit; reading it back
  through \<open>::text\<close> and \<open>parseFloat\<close> gives the nearest double. An \<open>INTEGER\<close> column refuses NaN.
\<close>

fun numeric_in :: "nat \<Rightarrow> nat \<Rightarrow> js_number \<Rightarrow> ris_error + rat option" where
  "numeric_in p s NaN = Inr None"
| "numeric_in p s (Fin x) =
     (let n = round_half_away (js_decimal x * 10 ^ s)
      in if \<bar>n\<bar> < 10 ^ p then Inr (Some (of_int n / 10 ^ s)) else Inl (DbError ''22003''))"
| "numeric_in p s _ = Inl (DbError ''22003'')"

definition numeric_out :: "rat option \<Rightarrow> js_number" where
  "numeric_out v = (case v of None \<Rightarrow> NaN | Some x \<Rightarrow> to_double x)"

fun integer_in :: "js_number \<Rightarrow> ris_error + int" where
  "integer_in (Fin x) = (if of_int \<lfloor>x\<rfloor> = x then Inr \<lfloor>x\<rfloor> else Inl (DbError ''22P02''))"
| "integer_in _ = Inl (DbError ''22P02'')"

text \<open>A decimal of at most eleven places is stored as itself, rounded to the column's scale.\<close>

lemma numeric_in_double:
  assumes "\<bar>of_int n / 10 ^ k\<bar> \<le> (999 :: rat)" and "k \<le> 11"
  shows "numeric_in p s (to_double (of_int n / 10 ^ k)) =
     (let m = round_half_away (of_int n / 10 ^ k * 10 ^ s)
      in if \<bar>m\<bar> < 10 ^ p then Inr (Some (of_int m / 10 ^ s)) else Inl (DbError ''22003''))"
proof -
  have "\<bar>of_int n / 10 ^ k\<bar> \<le> (2 ^ 100 :: rat)" using assms(1) by (rule order_trans) simp
  then have d: "to_double (of_int n / 10 ^ k) = Fin (round_double (of_int n / 10 ^ k))"
    by (rule to_double_small)
  show ?thesis by (simp only: d numeric_in.simps js_decimal_double [OF assms])
qed

text \<open>A rate read from a column and written back to one of the same precision is unchanged.\<close>

lemma numeric_in_decimal:
  assumes "\<bar>of_int n / 10 ^ s\<bar> \<le> (999 :: rat)" and "s \<le> 11" and "\<bar>n\<bar> < 10 ^ p"
  shows "numeric_in p s (to_double (of_int n / 10 ^ s)) = Inr (Some (of_int n / 10 ^ s))"
proof -
  have "round_half_away (of_int n / 10 ^ s * 10 ^ s) = n" by (rule round_half_away_nearest) simp
  then show ?thesis using assms(3) by (simp only: numeric_in_double [OF assms(1,2)] Let_def if_True)
qed

text \<open>A \<open>BIGINT\<close> column is a signed 64-bit integer.\<close>

definition bigint_in :: "int \<Rightarrow> ris_error + int" where
  "bigint_in n = (if - (2 ^ 63) \<le> n \<and> n < 2 ^ 63 then Inr n else Inl (DbError ''22003''))"

lemma bigint_in_range: "0 \<le> n \<Longrightarrow> n < 2 ^ 63 \<Longrightarrow> bigint_in n = Inr n"
  by (simp add: bigint_in_def)

text \<open>A nullable \<open>NUMERIC\<close> column: NULL is kept.\<close>

definition numeric_opt_in :: "nat \<Rightarrow> nat \<Rightarrow> js_number option \<Rightarrow> ris_error + rat option option" where
  "numeric_opt_in p s v =
     (case v of None \<Rightarrow> Inr None | Some x \<Rightarrow> bindE (numeric_in p s x) (\<lambda>y. Inr (Some y)))"

definition day_ms :: int where
  "day_ms = 86400000"

section \<open>Rows\<close>

datatype invoice_status =
    Inv_draft | Inv_submitted | Inv_buyer_confirmed | Inv_scored | Inv_priced | Inv_approved
  | Inv_rejected | Inv_pending_first_auth | Inv_pending_second_auth | Inv_executing | Inv_funded
  | Inv_collecting | Inv_overdue | Inv_collected | Inv_defaulted | Inv_cancelled

fun inv_status_str :: "invoice_status \<Rightarrow> string" where
  "inv_status_str Inv_draft = ''draft''"
| "inv_status_str Inv_submitted = ''submitted''"
| "inv_status_str Inv_buyer_confirmed = ''buyer_confirmed''"
| "inv_status_str Inv_scored = ''scored''"
| "inv_status_str Inv_priced = ''priced''"
| "inv_status_str Inv_approved = ''approved''"
| "inv_status_str Inv_rejected = ''rejected''"
| "inv_status_str Inv_pending_first_auth = ''pending_first_auth''"
| "inv_status_str Inv_pending_second_auth = ''pending_second_auth''"
| "inv_status_str Inv_executing = ''executing''"
| "inv_status_str Inv_funded = ''funded''"
| "inv_status_str Inv_collecting = ''collecting''"
| "inv_status_str Inv_overdue = ''overdue''"
| "inv_status_str Inv_collected = ''collected''"
| "inv_status_str Inv_defaulted = ''defaulted''"
| "inv_status_str Inv_cancelled = ''cancelled''"

text \<open>
  The columns of \<open>invoices\<close> that the buyer confirmation writes and those that only the intake of an invoice
  uses are kept in two groups of their own.
\<close>

record buyer_confirmation =
  bc_confirmed_at :: "int option"
  bc_ip :: "string option"
  bc_user_agent :: "string option"
  bc_token_hash :: "string option"
  bc_token_expires_at :: "int option"
  bc_efris_ref :: "string option"
  bc_efris_verified_at :: "int option"

record intake =
  itk_description :: "string option"
  itk_sla_deadline :: "int option"
  itk_funding_timeline_days :: "int option"
  itk_assessment_due_at :: "int option"
  itk_assigned_to :: "string option"
  itk_bank_account_number :: "string option"
  itk_bank_account_name :: "string option"
  itk_bank_name :: "string option"
  itk_bank_details_captured_at :: "int option"
  itk_withdrawn_at :: "int option"
  itk_withdrawn_reason :: "string option"
  itk_aml_cleared_by :: "string option"
  itk_aml_clearance_reason :: "string option"

record invoice =
  inv_id :: string
  inv_number :: string
  inv_supplier :: string
  inv_buyer :: string
  inv_face_value :: int
  inv_advance :: "int option"
  inv_discount :: "int option"
  inv_net_payment :: "int option"
  inv_status :: invoice_status
  inv_tenor_days :: int
  inv_due_date :: int
  inv_aml_flagged :: bool
  inv_aml_cleared_at :: "int option"
  inv_accepted_at :: "int option"
  inv_accepted_by :: "string option"
  inv_rejected_at :: "int option"
  inv_rejection_reason :: "string option"
  inv_disputed_at :: "int option"
  inv_tier3_rejections :: "int option"
  inv_created_at :: int
  inv_updated_at :: int
  inv_confirmation :: buyer_confirmation
  inv_intake :: intake

text \<open>\<open>chk_invoices_buyer_confirmed\<close>: past these four states an invoice has a confirmation time.\<close>

fun before_confirmation :: "invoice_status \<Rightarrow> bool" where
  "before_confirmation Inv_draft = True"
| "before_confirmation Inv_submitted = True"
| "before_confirmation Inv_cancelled = True"
| "before_confirmation Inv_rejected = True"
| "before_confirmation _ = False"

definition chk_buyer_confirmed :: "invoice \<Rightarrow> bool" where
  "chk_buyer_confirmed r \<longleftrightarrow> before_confirmation (inv_status r) \<or> bc_confirmed_at (inv_confirmation r) \<noteq> None"

datatype kyc_status = Kyc_pending | Kyc_documents_submitted | Kyc_under_review | Kyc_approved | Kyc_rejected

text \<open>
  The columns of \<open>suppliers\<close> and \<open>buyers\<close> that onboarding writes and the other components do not read. The JSON of the directors is
  kept as text.
\<close>

record supplier_file =
  sf_registration_number :: string
  sf_tax_id :: "string option"
  sf_tax_id_encrypted :: "string option"
  sf_directors :: string
  sf_directors_encrypted :: "string option"
  sf_bank_name :: "string option"
  sf_bank_account_number :: "string option"
  sf_bank_account_name :: "string option"
  sf_bank_branch :: "string option"
  sf_sanctions_flag :: bool
  sf_pep :: bool
  sf_financing_amount :: "int option"
  sf_consent_ursb :: bool
  sf_consent_refs :: bool
  sf_consent_litigation :: bool
  sf_litigation_disclosure :: "string option"
  sf_ursb_verified :: bool
  sf_ursb_verified_at :: "int option"
  sf_ursb_verified_by :: "string option"
  sf_litigation_checked :: bool
  sf_litigation_checked_at :: "int option"
  sf_litigation_checked_by :: "string option"
  sf_litigation_flag :: bool
  sf_eligibility_token :: "string option"
  sf_kyc_reviewer :: "string option"
  sf_kyc_approver :: "string option"
  sf_kyc_renewal_due :: "int option"
  sf_created_at :: int

record supplier =
  sup_id :: string
  sup_user :: string
  sup_company_name :: "string option"
  sup_payment_method :: string
  sup_kyc_status :: kyc_status
  sup_company_name_encrypted :: "string option"
  sup_file :: supplier_file

datatype credit_rating = Rating_A | Rating_B | Rating_C | Rating_D

record buyer_file =
  bf_registration_number :: string
  bf_contact_phone :: "string option"
  bf_sanctions_flag :: bool
  bf_pep :: bool
  bf_undertaking_signed :: bool
  bf_undertaking_date :: "int option"
  bf_created_by :: "string option"
  bf_created_at :: int

record buyer =
  buy_id :: string
  buy_company_name :: string
  buy_rating :: credit_rating
  buy_approved_limit :: int
  buy_used_limit :: int
  buy_ris_margin_rate :: rat
  buy_payment_score :: int
  buy_contact_email :: "string option"
  buy_is_active :: bool
  buy_company_name_encrypted :: "string option"
  buy_file :: buyer_file

record risk_score =
  rs_id :: string
  rs_invoice :: string
  rs_buyer_credit :: "rat option"
  rs_tenor :: "rat option"
  rs_track_record :: "rat option"
  rs_concentration :: "rat option"
  rs_collateral :: "rat option"
  rs_final_score :: int
  rs_recommendation :: string
  rs_max_advance_pct :: "rat option"
  rs_risk_premium_rate :: "rat option"
  rs_bank_cost_rate :: "rat option option"
  rs_ris_margin_rate :: "rat option option"
  rs_total_discount_rate :: "rat option option"
  rs_advance :: "int option"
  rs_discount :: "int option"
  rs_net_payment :: "int option"

record dispute =
  dis_id :: string
  dis_invoice :: string
  dis_submitted_by :: string
  dis_reason :: string
  dis_proposed_rate :: "rat option option"
  dis_proposed_advance_pct :: "rat option option"
  dis_notes :: "string option"
  dis_submitted_at :: int
  dis_sla_deadline :: int
  dis_status :: string

text \<open>A row of \<open>invoice_disputes\<close>: a buyer's objection, distinct from a supplier's pricing dispute.\<close>

record invoice_dispute =
  idp_id :: string
  idp_invoice :: string
  idp_buyer :: string
  idp_reason :: string
  idp_type :: string
  idp_status :: string
  idp_created_at :: int

record document_review =
  rv_status :: string
  rv_by :: "string option"
  rv_at :: "int option"
  rv_comments :: "string option"

definition unreviewed :: document_review where
  "unreviewed = \<lparr>rv_status = ''pending'', rv_by = None, rv_at = None, rv_comments = None\<rparr>"

record document =
  doc_id :: string
  doc_invoice :: "string option"
  doc_supplier :: string
  doc_type :: string
  doc_encrypted_path :: string
  doc_file_hash :: string
  doc_file_size :: int
  doc_mime :: string
  doc_uploaded_by :: string
  doc_created_at :: int
  doc_review :: document_review

record eligibility_check =
  elg_id :: string
  elg_token :: string
  elg_registered :: bool
  elg_authorized :: bool
  elg_years :: int
  elg_passed :: bool
  elg_ip :: "string option"
  elg_email :: "string option"
  elg_expires_at :: "int option"
  elg_funding :: "int option"
  elg_created_at :: int

record buyer_request =
  brq_id :: string
  brq_supplier :: string
  brq_company_name :: string
  brq_registration_number :: "string option"
  brq_contact_name :: "string option"
  brq_contact_email :: "string option"
  brq_contact_phone :: "string option"
  brq_reason :: string
  brq_status :: string
  brq_reviewed_by :: "string option"
  brq_comments :: "string option"
  brq_linked_buyer :: "string option"
  brq_created_at :: int

record beneficial_owner =
  ubo_id :: string
  ubo_supplier :: string
  ubo_full_name :: string
  ubo_nationality :: "string option"
  ubo_id_type :: string
  ubo_id_number :: string
  ubo_percentage :: rat
  ubo_is_pep :: bool
  ubo_created_at :: int

datatype approval_tier = AUTO | TIER_2 | TIER_3 | TIER_4

datatype approval_decision = APPROVED | REJECTED | ESCALATED

record approval =
  apr_id :: string
  apr_invoice :: string
  apr_tier :: approval_tier
  apr_decision :: approval_decision
  apr_approver :: string
  apr_comments :: string
  apr_credit_memo :: "string option"
  apr_review_summary :: "string option"

record info_request =
  irq_id :: string
  irq_invoice :: string
  irq_requested_by :: string
  irq_message :: string

datatype payment_status =
    Pay_pending_first_auth | Pay_pending_second_auth | Pay_executing | Pay_funded | Pay_failed
  | Pay_reversed

fun pay_status_str :: "payment_status \<Rightarrow> string" where
  "pay_status_str Pay_pending_first_auth = ''pending_first_auth''"
| "pay_status_str Pay_pending_second_auth = ''pending_second_auth''"
| "pay_status_str Pay_executing = ''executing''"
| "pay_status_str Pay_funded = ''funded''"
| "pay_status_str Pay_failed = ''failed''"
| "pay_status_str Pay_reversed = ''reversed''"

datatype payment_provider = EFT | MOCK

record payment =
  pay_id :: string
  pay_invoice :: string
  pay_amount :: int
  pay_provider :: payment_provider
  pay_status :: payment_status
  pay_idempotency_key :: string
  pay_auth_user_1 :: "string option"
  pay_auth_time_1 :: "int option"
  pay_auth_user_2 :: "string option"
  pay_auth_time_2 :: "int option"
  pay_transaction_ref :: "string option"
  pay_provider_ref :: "string option"
  pay_funded_at :: "int option"
  pay_failure_reason :: "string option"
  pay_created_at :: int

datatype facility_status = Fac_active | Fac_suspended | Fac_matured | Fac_closed

record facility =
  fac_id :: string
  fac_bank_name :: string
  fac_total_limit :: int
  fac_drawn :: int
  fac_available :: int
  fac_annual_rate :: string
  fac_interest_rate_annual :: rat
  fac_is_active :: bool
  fac_maturity_date :: int
  fac_status :: facility_status

datatype drawdown_status = Dd_active | Dd_repaid | Dd_overdue

record drawdown =
  dd_id :: string
  dd_facility :: string
  dd_invoice :: string
  dd_principal :: int
  dd_accrued_interest :: int
  dd_bank_fees :: int
  dd_status :: drawdown_status
  dd_last_accrued :: int
  dd_created_at :: int

record repayment =
  rep_id :: string
  rep_drawdown :: string
  rep_facility :: string
  rep_principal :: int
  rep_interest :: int
  rep_bank_fees :: int
  rep_total :: int
  rep_repaid_at :: int

datatype collateral_type =
    Bank_guarantee | Fixed_deposit_lien | Post_dated_cheque_full_value | Corporate_guarantee
  | Assignment_of_receivables | Performance_bond | No_collateral

record collateral =
  col_id :: string
  col_invoice :: "string option"
  col_supplier :: string
  col_type :: collateral_type
  col_value :: int
  col_description :: "string option"
  col_currency :: string
  col_expiry_date :: "int option"
  col_is_active :: bool
  col_deleted_at :: "int option"
  col_created_at :: int

datatype collection_status =
    Col_pending | Col_reminder_sent | Col_overdue | Col_partial_payment | Col_collected
  | Col_defaulted | Col_reminded | Col_escalated | Col_bad_debt

fun col_status_str :: "collection_status \<Rightarrow> string" where
  "col_status_str Col_pending = ''pending''"
| "col_status_str Col_reminder_sent = ''reminder_sent''"
| "col_status_str Col_overdue = ''overdue''"
| "col_status_str Col_partial_payment = ''partial_payment''"
| "col_status_str Col_collected = ''collected''"
| "col_status_str Col_defaulted = ''defaulted''"
| "col_status_str Col_reminded = ''reminded''"
| "col_status_str Col_escalated = ''escalated''"
| "col_status_str Col_bad_debt = ''bad_debt''"

record collection =
  cln_id :: string
  cln_invoice :: string
  cln_buyer :: "string option"
  cln_face_value :: int
  cln_amount_due :: int
  cln_days_overdue :: int
  cln_penalty_rate :: "rat option"
  cln_penalty :: int
  cln_status :: collection_status
  cln_escalation_level :: "int option"
  cln_escalation_date :: "int option"
  cln_demand_notice_sent :: bool
  cln_sar_flagged :: bool
  cln_total_collected :: "int option"
  cln_last_payment_at :: "int option"
  cln_created_at :: int
  cln_updated_at :: int

record collection_payment =
  cp_collection :: string
  cp_amount :: int
  cp_method :: string
  cp_paid_by :: string
  cp_paid_at :: int
  cp_recorded_by :: string
  cp_reference :: "string option"
  cp_notes :: "string option"

datatype document_status = Doc_draft | Doc_finalized | Doc_sent

text \<open>The draft parameters are a JSON object: a key that is \<open>undefined\<close> is not stored.\<close>

record draft_params =
  dp_deadline_days :: "int option"
  dp_additional_notes :: "string option"

record escalation_document =
  ed_id :: string
  ed_collection :: string
  ed_type :: string
  ed_status :: document_status
  ed_content :: string
  ed_hash :: string
  ed_params :: draft_params
  ed_generated_by :: string
  ed_finalized_by :: "string option"
  ed_sent_at :: "int option"
  ed_sent_to :: "string option"
  ed_created_at :: int

datatype settlement_status = Set_pending | Set_facility_repaid | Set_profit_booked | Set_closed

record settlement =
  set_id :: string
  set_invoice :: string
  set_collection :: string
  set_drawdown :: "string option"
  set_buyer_payment :: int
  set_facility_repayment :: int
  set_accrued_interest :: int
  set_penalty_income :: int
  set_net_profit :: int
  set_status :: settlement_status
  set_settled_by :: "string option"
  set_settled_at :: "int option"
  set_idempotency_key :: string
  set_created_at :: int

record profit_booking =
  pb_id :: string
  pb_settlement :: string
  pb_discount_earned :: int
  pb_bank_cost_paid :: int
  pb_penalty_income :: int
  pb_net_profit :: int
  pb_booked_by :: string

text \<open>The columns of \<open>users\<close> that authentication reads and writes are a group of their own.\<close>

record account =
  acc_password_hash :: string
  acc_role :: string
  acc_is_active :: bool
  acc_email_verified :: bool
  acc_2fa_enabled :: bool
  acc_2fa_secret :: "string option"
  acc_failed_count :: int
  acc_locked_until :: "int option"
  acc_last_login_at :: "int option"
  acc_last_active_at :: "int option"
  acc_warning_sent_at :: "int option"
  acc_first_name :: "string option"
  acc_last_name :: "string option"
  acc_updated_at :: int

record user_row =
  usr_id :: string
  usr_email :: string
  usr_last_2fa :: "int option"
  usr_account :: account

text \<open>
  The hashed one-time tokens: \<open>password_reset_tokens\<close>, \<open>email_verification_tokens\<close> (whose \<open>verified_at\<close> is
  \<open>otk_used_at\<close>) and, without an expiry, \<open>totp_backup_codes\<close>.
\<close>

record one_time_token =
  otk_id :: string
  otk_user :: string
  otk_hash :: string
  otk_expires_at :: "int option"
  otk_used_at :: "int option"
  otk_created_at :: int

record password_entry =
  ph_user :: string
  ph_hash :: string
  ph_created_at :: int

record login_entry =
  lh_user :: "string option"
  lh_ip :: "string option"
  lh_agent :: "string option"
  lh_country :: "string option"
  lh_success :: bool
  lh_created_at :: int

record complaint =
  cmp_id :: string
  cmp_complainant :: string
  cmp_entity_type :: string
  cmp_entity_id :: "string option"
  cmp_subject :: string
  cmp_description :: string
  cmp_category :: string
  cmp_priority :: string
  cmp_status :: string
  cmp_assigned_to :: "string option"
  cmp_resolution :: "string option"
  cmp_amount :: int
  cmp_escalated :: bool
  cmp_resolved_at :: "int option"
  cmp_resolved_by :: "string option"
  cmp_created_at :: int
  cmp_updated_at :: int

text \<open>
  An audit row. \<open>JSON.stringify\<close> of the old and new values is kept as the object itself. The time of a row is kept for
  the authentication events, the only ones a query selects by time.
\<close>

datatype json_val = JNull | JBool bool | JInt int | JNum js_number | JStr string
  | JArr "json_val list" | JObj "(string \<times> json_val) list"

type_synonym json_obj = "(string \<times> json_val) list"

record audit_entry =
  aud_user :: "string option"
  aud_action :: string
  aud_table :: string
  aud_record :: "string option"
  aud_old :: "json_obj option"
  aud_new :: json_obj
  aud_ip :: "string option"
  aud_agent :: "string option"
  aud_created_at :: "int option"

section \<open>The database and the world\<close>

record db =
  t_invoices :: "invoice list"
  t_suppliers :: "supplier list"
  t_buyers :: "buyer list"
  t_risk_scores :: "risk_score list"
  t_disputes :: "dispute list"
  t_approvals :: "approval list"
  t_info_requests :: "info_request list"
  t_payments :: "payment list"
  t_facilities :: "facility list"
  t_drawdowns :: "drawdown list"
  t_repayments :: "repayment list"
  t_collateral :: "collateral list"
  t_collateral_docs :: "(string \<times> string) list"
  t_documents :: "document list"
  t_invoice_disputes :: "invoice_dispute list"
  t_collections :: "collection list"
  t_collection_payments :: "collection_payment list"
  t_escalation_documents :: "escalation_document list"
  t_settlements :: "settlement list"
  t_profit_bookings :: "profit_booking list"
  t_users :: "user_row list"
  t_reset_tokens :: "one_time_token list"
  t_email_tokens :: "one_time_token list"
  t_backup_codes :: "one_time_token list"
  t_password_history :: "password_entry list"
  t_login_history :: "login_entry list"
  t_complaints :: "complaint list"
  t_eligibility :: "eligibility_check list"
  t_buyer_requests :: "buyer_request list"
  t_owners :: "beneficial_owner list"
  t_system_settings :: "(string \<times> string) list"
  t_risk_config :: "(string \<times> string) list"
  t_audit :: "audit_entry list"
  audit_columns :: "string list"
  approval_tiers :: "approval_tier list"
  drawdown_required :: "string list"
  buyer_columns :: "string list"

datatype queue_ref =
    Risk_notification | Risk_pricing | Pricing_notification | Pricing_approvals
  | Approvals_payment | Approvals_notification | Payments_notification | Payments_drawdown
  | Payments_collection | Facilities_notification | Collateral_notification
  | Settlements_notification | Collections_notification | Collections_repayment
  | Collections_settlement | Invoices_notification | Verification_notification | Verification_scoring
  | Compliance_notification | Complaints_notification | Auth_notification | Auth_security_alerts
  | Onboarding_notification

record job =
  job_ref :: queue_ref
  job_name :: string
  job_data :: json_obj

text \<open>
  What the platform keeps in Redis besides the queues: session objects under the keys \<open>session:<id>\<close> and marks under
  the keys \<open>rt_blocklist:<id>:<iat>\<close>, each with the time at which the key expires. No key has both prefixes, so the two
  are stores of their own.
\<close>

record session =
  ses_id :: string
  ses_user :: string
  ses_role :: string
  ses_created_at :: int
  ses_expires_at :: int

record 'v redis_entry =
  re_key :: string
  re_value :: 'v
  re_expires :: int

record world =
  db :: db
  jobs :: "job list"
  queue_set :: "queue_ref \<Rightarrow> bool"
  redis_up :: bool
  clock :: int
  row_locks :: "string list"
  cfg_cache :: "(string \<times> string) list option"
  cfg_loaded_at :: int
  cfg_readable :: bool
  files :: "string \<Rightarrow> string option"
  redis_client :: bool
  redis_sessions :: "session redis_entry list"
  redis_marks :: "string redis_entry list"

definition document_ids :: "db \<Rightarrow> string list" where
  "document_ids d = map doc_id (t_documents d)"

lemma document_ids_frame [simp]:
  "document_ids (d\<lparr>t_collateral := x1\<rparr>) = document_ids d"
  "document_ids (d\<lparr>t_collateral_docs := x2\<rparr>) = document_ids d"
  "document_ids (d\<lparr>t_audit := x3\<rparr>) = document_ids d"
  by (simp_all add: document_ids_def)

type_synonym 'a service = "(world, 'a) svc"

text \<open>A read, an unconditional statement, a statement that can violate a constraint.\<close>

definition queryS :: "(db \<Rightarrow> 'a) \<Rightarrow> 'a service" where
  "queryS f = getS (\<lambda>w. f (db w))"

definition execS :: "(db \<Rightarrow> db) \<Rightarrow> unit service" where
  "execS f = modifyS (\<lambda>w. w\<lparr>db := f (db w)\<rparr>)"

definition tryExecS :: "(db \<Rightarrow> ris_error + db) \<Rightarrow> unit service" where
  "tryExecS f = (\<lambda>w. case f (db w) of Inl e \<Rightarrow> (Inl e, w) | Inr d \<Rightarrow> (Inr (), w\<lparr>db := d\<rparr>))"

text \<open>
  \<open>beginWithRls ... COMMIT\<close> with \<open>ROLLBACK\<close> and rethrow on error. The database is restored;
  jobs already enqueued stay enqueued. Row-level security is not modelled.
\<close>

definition transactionS :: "'a service \<Rightarrow> 'a service" where
  "transactionS m = (\<lambda>w. case m w of (Inl e, w') \<Rightarrow> (Inl e, w'\<lparr>db := db w\<rparr>) | (Inr x, w') \<Rightarrow> (Inr x, w'))"

text \<open>
  \<open>INSERT INTO audit_logs\<close>: \<open>user_id\<close> is a foreign key to \<open>users\<close>, and the statement fails when
  it names a column the table does not have.
\<close>

definition user_exists :: "db \<Rightarrow> string option \<Rightarrow> bool" where
  "user_exists d u = (case u of None \<Rightarrow> True | Some i \<Rightarrow> list_ex (\<lambda>r. usr_id r = i) (t_users d))"

definition insert_audit :: "string list \<Rightarrow> audit_entry \<Rightarrow> db \<Rightarrow> ris_error + db" where
  "insert_audit cols e d =
     (if \<not> list_all (\<lambda>c. c \<in> set (audit_columns d)) cols then Inl (DbError ''42703'')
      else if \<not> user_exists d (aud_user e) then Inl (DbError ''23503'')
      else Inr (d\<lparr>t_audit := t_audit d @ [e]\<rparr>))"

definition audit_cols :: "string list" where
  "audit_cols = [''user_id'', ''action'', ''table_name'', ''record_id'', ''old_values'',
                 ''new_values'', ''ip_address'', ''user_agent'']"

text \<open>The columns the migrations give \<open>audit_logs\<close>.\<close>

definition migrated_audit_columns :: "string list" where
  "migrated_audit_columns =
     [''id'', ''user_id'', ''action'', ''table_name'', ''record_id'', ''old_values'',
      ''new_values'', ''ip_address'', ''user_agent'', ''created_at'']"

text \<open>
  The tiers the check constraints of \<open>approvals\<close> accept after all migrations. Migration 007 adds
  \<open>chk_approvals_tier\<close> with three tiers; migration 013 adds a constraint with four but drops only a
  constraint whose name starts with \<open>approvals_tier\<close>, so both hold.
\<close>

definition migrated_approval_tiers :: "approval_tier list" where
  "migrated_approval_tiers = [AUTO, TIER_2, TIER_3]"

text \<open>
  The columns of \<open>facility_drawdowns\<close> that are \<open>NOT NULL\<close> without a default after all migrations.
  Migration 001 creates \<open>expected_repayment_date\<close> so, and no later migration relaxes it.
\<close>

definition migrated_drawdown_required :: "string list" where
  "migrated_drawdown_required = [''facility_id'', ''invoice_id'', ''principal'', ''expected_repayment_date'']"

text \<open>
  The columns of \<open>buyers\<close> after all migrations; migration 015 adds \<open>company_name_encrypted\<close> to \<open>suppliers\<close> only.
\<close>

definition migrated_buyer_columns :: "string list" where
  "migrated_buyer_columns =
     [''id'', ''company_name'', ''registration_number'', ''credit_rating'', ''approved_limit'', ''used_limit'',
      ''ris_margin_rate'', ''payment_score'', ''contact_email_encrypted'', ''contact_phone_encrypted'', ''is_active'',
      ''sanctions_flag'', ''created_by'', ''created_at'', ''updated_at'', ''payment_undertaking_signed'',
      ''payment_undertaking_date'', ''sanctions_last_checked_at'', ''pep_designation'', ''pep_checked_at'']"

definition createAuditEntry :: "audit_entry \<Rightarrow> unit service" where
  "createAuditEntry e = tryExecS (insert_audit audit_cols e)"

text \<open>Audit entry without and with request metadata.\<close>

definition audit_sys :: "string option \<Rightarrow> string \<Rightarrow> string \<Rightarrow> string \<Rightarrow> json_obj option \<Rightarrow> json_obj \<Rightarrow> audit_entry" where
  "audit_sys u act tbl rid old new =
     \<lparr>aud_user = u, aud_action = act, aud_table = tbl, aud_record = Some rid, aud_old = old,
      aud_new = new, aud_ip = None, aud_agent = None, aud_created_at = None\<rparr>"

definition audit_req :: "string option \<Rightarrow> string \<Rightarrow> string \<Rightarrow> string \<Rightarrow> json_obj option \<Rightarrow> json_obj
    \<Rightarrow> string option \<Rightarrow> string option \<Rightarrow> audit_entry" where
  "audit_req u act tbl rid old new ip ua =
     (audit_sys u act tbl rid old new)\<lparr>aud_ip := ip, aud_agent := ua\<rparr>"

text \<open>
  \<open>if (!queue) { warn; return; } await enqueueWithContext(queue, name, data, opts)\<close>. The
  \<open>_meta\<close> envelope (request id and time) and the retry options are not kept.
\<close>

definition enqueueWithContext :: "queue_ref \<Rightarrow> string \<Rightarrow> json_obj \<Rightarrow> unit service" where
  "enqueueWithContext q name data =
     (\<lambda>w. if redis_up w
          then (Inr (), w\<lparr>jobs := jobs w @ [\<lparr>job_ref = q, job_name = name, job_data = data\<rparr>]\<rparr>)
          else (Inl QueueError, w))"

definition enqueueS :: "queue_ref \<Rightarrow> string \<Rightarrow> json_obj \<Rightarrow> unit service" where
  "enqueueS q name data =
     (\<lambda>w. if queue_set w q then enqueueWithContext q name data w else (Inr (), w))"

definition nowS :: "int service" where
  "nowS = getS clock"

section \<open>Running the operations\<close>

lemma run_query [simp]: "queryS f w = (Inr (f (db w)), w)"
  by (simp add: queryS_def)

lemma run_exec [simp]: "execS f w = (Inr (), w\<lparr>db := f (db w)\<rparr>)"
  by (simp add: execS_def)

lemma tryExecS_succ [svc_succ]:
  "tryExecS f w = (Inr x, w') \<longleftrightarrow> (\<exists>d. f (db w) = Inr d \<and> w' = w\<lparr>db := d\<rparr>)"
  by (auto simp: tryExecS_def split: sum.splits)

lemma run_tryExec [simp]:
  "f (db w) = Inr d \<Longrightarrow> tryExecS f w = (Inr (), w\<lparr>db := d\<rparr>)"
  "f (db w) = Inl e \<Longrightarrow> tryExecS f w = (Inl e, w)"
  by (simp_all add: tryExecS_def)

lemma run_now [simp]: "nowS w = (Inr (clock w), w)"
  by (simp add: nowS_def)

lemma transactionS_succ [svc_succ]: "transactionS m w = (Inr x, w') \<longleftrightarrow> m w = (Inr x, w')"
  by (auto simp: transactionS_def split: prod.splits sum.splits)

lemma transactionS_fail: "transactionS m w = (Inl e, w') \<Longrightarrow> db w' = db w"
  by (auto simp: transactionS_def split: prod.splits sum.splits)

lemma run_transaction_Inr [simp]: "m w = (Inr x, w') \<Longrightarrow> transactionS m w = (Inr x, w')"
  by (simp add: transactionS_def)

lemma run_transaction_Inl [simp]: "m w = (Inl e, w') \<Longrightarrow> transactionS m w = (Inl e, w'\<lparr>db := db w\<rparr>)"
  by (simp add: transactionS_def)

text \<open>What an audit insert needs, and what it writes.\<close>

lemma insert_audit_succ:
  "insert_audit cols e d = Inr d' \<longleftrightarrow>
     list_all (\<lambda>c. c \<in> set (audit_columns d)) cols \<and> user_exists d (aud_user e)
     \<and> d' = d\<lparr>t_audit := t_audit d @ [e]\<rparr>"
  by (auto simp: insert_audit_def)

lemma createAuditEntry_succ [svc_succ]:
  "createAuditEntry e w = (Inr x, w') \<longleftrightarrow>
     list_all (\<lambda>c. c \<in> set (audit_columns (db w))) audit_cols \<and> user_exists (db w) (aud_user e)
     \<and> w' = w\<lparr>db := (db w)\<lparr>t_audit := t_audit (db w) @ [e]\<rparr>\<rparr>"
  by (auto simp: createAuditEntry_def svc_succ insert_audit_succ)

text \<open>The premise under which an audit entry is accepted: the migrated table, a known user.\<close>

definition audit_ok :: "db \<Rightarrow> string option \<Rightarrow> bool" where
  "audit_ok d u \<longleftrightarrow> list_all (\<lambda>c. c \<in> set (audit_columns d)) audit_cols \<and> user_exists d u"

lemma run_createAuditEntry [simp]:
  "audit_ok (db w) (aud_user e) \<Longrightarrow>
     createAuditEntry e w = (Inr (), w\<lparr>db := (db w)\<lparr>t_audit := t_audit (db w) @ [e]\<rparr>\<rparr>)"
  by (simp add: createAuditEntry_succ audit_ok_def)

lemma audit_user [simp]:
  "aud_user (audit_sys u act tbl rid old new) = u"
  "aud_user (audit_req u act tbl rid old new ip ua) = u"
  by (simp_all add: audit_sys_def audit_req_def)

lemma audit_action [simp]:
  "aud_action (audit_sys u act tbl rid old new) = act" "aud_action (audit_req u act tbl rid old new ip ua) = act"
  by (simp_all add: audit_sys_def audit_req_def)

lemma user_exists_None [simp]: "user_exists d None"
  by (simp add: user_exists_def)

text \<open>Audit acceptance depends on the users and the catalogue only.\<close>

lemma audit_ok_cong:
  "t_users d' = t_users d \<Longrightarrow> audit_columns d' = audit_columns d \<Longrightarrow> audit_ok d' u = audit_ok d u"
  by (cases u) (simp_all add: audit_ok_def user_exists_def)

lemma audit_ok_frame [simp]:
  "audit_ok (d\<lparr>t_invoices := x1\<rparr>) u = audit_ok d u"
  "audit_ok (d\<lparr>t_risk_scores := x2\<rparr>) u = audit_ok d u"
  "audit_ok (d\<lparr>t_disputes := x3\<rparr>) u = audit_ok d u"
  "audit_ok (d\<lparr>t_approvals := x4\<rparr>) u = audit_ok d u"
  "audit_ok (d\<lparr>t_info_requests := x5\<rparr>) u = audit_ok d u"
  "audit_ok (d\<lparr>t_payments := x6\<rparr>) u = audit_ok d u"
  "audit_ok (d\<lparr>t_facilities := x7\<rparr>) u = audit_ok d u"
  "audit_ok (d\<lparr>t_drawdowns := x8\<rparr>) u = audit_ok d u"
  "audit_ok (d\<lparr>t_repayments := x9\<rparr>) u = audit_ok d u"
  "audit_ok (d\<lparr>t_collateral := x10\<rparr>) u = audit_ok d u"
  "audit_ok (d\<lparr>t_collateral_docs := x11\<rparr>) u = audit_ok d u"
  "audit_ok (d\<lparr>t_collections := x12\<rparr>) u = audit_ok d u"
  "audit_ok (d\<lparr>t_audit := x13\<rparr>) u = audit_ok d u"
  "audit_ok (d\<lparr>t_system_settings := x14\<rparr>) u = audit_ok d u"
  "audit_ok (d\<lparr>t_settlements := x15\<rparr>) u = audit_ok d u"
  "audit_ok (d\<lparr>t_profit_bookings := x16\<rparr>) u = audit_ok d u"
  "audit_ok (d\<lparr>t_buyers := x17\<rparr>) u = audit_ok d u"
  "audit_ok (d\<lparr>t_collection_payments := x18\<rparr>) u = audit_ok d u"
  "audit_ok (d\<lparr>t_escalation_documents := x19\<rparr>) u = audit_ok d u"
  "audit_ok (d\<lparr>t_documents := x20\<rparr>) u = audit_ok d u"
  "audit_ok (d\<lparr>t_invoice_disputes := x21\<rparr>) u = audit_ok d u"
  "audit_ok (d\<lparr>t_suppliers := x22\<rparr>) u = audit_ok d u"
  "audit_ok (d\<lparr>t_reset_tokens := x23\<rparr>) u = audit_ok d u"
  "audit_ok (d\<lparr>t_email_tokens := x24\<rparr>) u = audit_ok d u"
  "audit_ok (d\<lparr>t_backup_codes := x25\<rparr>) u = audit_ok d u"
  "audit_ok (d\<lparr>t_password_history := x26\<rparr>) u = audit_ok d u"
  "audit_ok (d\<lparr>t_login_history := x27\<rparr>) u = audit_ok d u"
  "audit_ok (d\<lparr>t_complaints := x28\<rparr>) u = audit_ok d u"
  "audit_ok (d\<lparr>t_eligibility := x29\<rparr>) u = audit_ok d u"
  "audit_ok (d\<lparr>t_buyer_requests := x30\<rparr>) u = audit_ok d u"
  "audit_ok (d\<lparr>t_owners := x31\<rparr>) u = audit_ok d u"
  by (rule audit_ok_cong; simp)+

lemma enqueueS_succ [svc_succ]:
  "enqueueS q n dat w = (Inr x, w') \<longleftrightarrow>
     (if queue_set w q then redis_up w \<and> w' = w\<lparr>jobs := jobs w @ [\<lparr>job_ref = q, job_name = n, job_data = dat\<rparr>]\<rparr>
      else w' = w)"
  by (auto simp: enqueueS_def enqueueWithContext_def)

lemma run_enqueue:
  "enqueueS q n dat w =
     (if queue_set w q
      then if redis_up w then (Inr (), w\<lparr>jobs := jobs w @ [\<lparr>job_ref = q, job_name = n, job_data = dat\<rparr>]\<rparr>)
           else (Inl QueueError, w)
      else (Inr (), w))"
  by (simp add: enqueueS_def enqueueWithContext_def)

definition enqueued :: "queue_ref \<Rightarrow> string \<Rightarrow> json_obj \<Rightarrow> world \<Rightarrow> world" where
  "enqueued q n dat w =
     (if queue_set w q then w\<lparr>jobs := jobs w @ [\<lparr>job_ref = q, job_name = n, job_data = dat\<rparr>]\<rparr> else w)"

lemma enqueued_fields [simp]:
  "db (enqueued q n dat w) = db w" "queue_set (enqueued q n dat w) = queue_set w"
  "redis_up (enqueued q n dat w) = redis_up w" "clock (enqueued q n dat w) = clock w"
  "row_locks (enqueued q n dat w) = row_locks w"
  "jobs (enqueued q n dat w) = jobs w @ (if queue_set w q then [\<lparr>job_ref = q, job_name = n, job_data = dat\<rparr>] else [])"
  by (simp_all add: enqueued_def)

lemma run_enqueue_up:
  "(queue_set w q \<longrightarrow> redis_up w) \<Longrightarrow> enqueueS q n dat w = (Inr (), enqueued q n dat w)"
  by (simp add: run_enqueue enqueued_def)

section \<open>Atomicity\<close>

text \<open>
  \<open>keeps_db m\<close>: \<open>m\<close> never writes the database. \<open>atomic_upto Q m\<close>: when \<open>m\<close> throws an error
  outside \<open>Q\<close>, the database is as before. \<open>fails_only Q m\<close>: \<open>m\<close> throws only errors in \<open>Q\<close>.
  The rules compose them along a service body, so that atomicity of a handler is one \<open>intro\<close>.
\<close>

definition keeps_db :: "'a service \<Rightarrow> bool" where
  "keeps_db m \<longleftrightarrow> (\<forall>w. db (snd (m w)) = db w)"

definition atomic_upto :: "(ris_error \<Rightarrow> bool) \<Rightarrow> 'a service \<Rightarrow> bool" where
  "atomic_upto Q m \<longleftrightarrow> (\<forall>w e w'. m w = (Inl e, w') \<longrightarrow> \<not> Q e \<longrightarrow> db w' = db w)"

definition fails_only :: "(ris_error \<Rightarrow> bool) \<Rightarrow> 'a service \<Rightarrow> bool" where
  "fails_only Q m \<longleftrightarrow> (\<forall>w e w'. m w = (Inl e, w') \<longrightarrow> Q e)"

named_theorems atomic_intro \<open>composition rules for atomicity\<close>

lemma keeps_dbD: "keeps_db m \<Longrightarrow> m w = (r, w') \<Longrightarrow> db w' = db w"
  by (metis keeps_db_def snd_conv)

lemma keeps_db_basic [atomic_intro]:
  "keeps_db (returnS x)" "keeps_db (throwS e)" "keeps_db (getS f)" "keeps_db (guardS b e)"
  "keeps_db (requireS r e)" "keeps_db (liftS v)" "keeps_db (queryS g)" "keeps_db nowS" "keeps_db (enqueueS q n dat)"
  by (auto simp: keeps_db_def svc_def run_enqueue split: option.splits)

lemma keeps_db_bind [atomic_intro]:
  "keeps_db m \<Longrightarrow> (\<And>x. keeps_db (f x)) \<Longrightarrow> keeps_db (bindS m f)"
  unfolding keeps_db_def bindS_def by (auto split: prod.splits sum.splits) (metis snd_conv)+

lemma keeps_db_then [atomic_intro]: "keeps_db m \<Longrightarrow> keeps_db k \<Longrightarrow> keeps_db (thenS m k)"
  unfolding thenS_def by (blast intro: keeps_db_bind)

lemma keeps_db_when [atomic_intro]: "keeps_db m \<Longrightarrow> keeps_db (whenS b m)"
  by (simp add: keeps_db_def)

lemma keeps_db_for [atomic_intro]: "(\<And>x. keeps_db (f x)) \<Longrightarrow> keeps_db (forS f xs)"
  by (induction xs) (auto intro: atomic_intro)

lemma atomic_keeps_db: "keeps_db m \<Longrightarrow> atomic_upto Q m"
  by (auto simp: atomic_upto_def dest: keeps_dbD)

lemma atomic_transaction [atomic_intro]: "atomic_upto Q (transactionS m)"
  by (auto simp: atomic_upto_def dest: transactionS_fail)

lemma atomic_bind [atomic_intro]:
  "keeps_db m \<Longrightarrow> (\<And>x. atomic_upto Q (f x)) \<Longrightarrow> atomic_upto Q (bindS m f)"
  unfolding atomic_upto_def by (auto simp: bindS_fail dest: keeps_dbD)

lemma atomic_then [atomic_intro]: "keeps_db m \<Longrightarrow> atomic_upto Q k \<Longrightarrow> atomic_upto Q (thenS m k)"
  unfolding thenS_def by (blast intro: atomic_bind)

lemma atomic_bind_last:
  "atomic_upto Q m \<Longrightarrow> (\<And>x. fails_only Q (f x)) \<Longrightarrow> atomic_upto Q (bindS m f)"
  unfolding atomic_upto_def fails_only_def bindS_fail by blast

lemma atomic_then_last: "atomic_upto Q m \<Longrightarrow> fails_only Q k \<Longrightarrow> atomic_upto Q (thenS m k)"
  unfolding thenS_def by (blast intro: atomic_bind_last)

lemma fails_only_basic [atomic_intro]:
  "fails_only Q (returnS x)" "fails_only Q (getS f)" "fails_only Q (queryS g)" "fails_only Q nowS"
  "fails_only (\<lambda>e. e = QueueError) (enqueueS q n dat)"
  by (auto simp: fails_only_def svc_def run_enqueue split: if_splits)

lemma bind_lift: "bindS (liftS (Inr x)) f = f x"
  by (simp add: fun_eq_iff)

lemma fails_only_lift: "fails_only Q (liftS (Inr x))"
  by (simp add: fails_only_def)

lemma fails_only_bind [atomic_intro]:
  "fails_only Q m \<Longrightarrow> (\<And>x. fails_only Q (f x)) \<Longrightarrow> fails_only Q (bindS m f)"
  unfolding fails_only_def bindS_fail by blast

lemma fails_only_then [atomic_intro]:
  "fails_only Q m \<Longrightarrow> fails_only Q k \<Longrightarrow> fails_only Q (thenS m k)"
  unfolding thenS_def by (blast intro: fails_only_bind)

lemma fails_only_when [atomic_intro]: "fails_only Q m \<Longrightarrow> fails_only Q (whenS b m)"
  by (simp add: fails_only_def)

section \<open>Invariants of the database\<close>

text \<open>A database invariant survives a transaction whose body keeps it (or that rolls back).\<close>

lemma preserves_transaction [intro]:
  "preserves (\<lambda>w. I (db w)) m \<Longrightarrow> preserves (\<lambda>w. I (db w)) (transactionS m)"
  unfolding preserves_def transactionS_def by (fastforce split: prod.splits sum.splits)

lemma preserves_query [intro]: "preserves P (queryS f)"
  by (simp add: preserves_def)

lemma preserves_now [intro]: "preserves P nowS"
  by (simp add: preserves_def)

lemma preserves_enqueue [intro]: "preserves (\<lambda>w. I (db w)) (enqueueS q n dat)"
  by (simp add: preserves_def run_enqueue)

lemma preserves_exec: "(\<And>d. I d \<Longrightarrow> I (f d)) \<Longrightarrow> preserves (\<lambda>w. I (db w)) (execS f)"
  by (simp add: preserves_def)

lemma preserves_tryExec:
  "(\<And>d d'. I d \<Longrightarrow> f d = Inr d' \<Longrightarrow> I d') \<Longrightarrow> preserves (\<lambda>w. I (db w)) (tryExecS f)"
  by (auto simp: preserves_def tryExecS_def split: sum.splits)

lemma preserves_createAuditEntry:
  "(\<And>d a. I d \<Longrightarrow> I (d\<lparr>t_audit := a\<rparr>)) \<Longrightarrow> preserves (\<lambda>w. I (db w)) (createAuditEntry e)"
  unfolding createAuditEntry_def
  by (rule preserves_tryExec) (auto simp: insert_audit_succ)

section \<open>The contract of a guarded status update\<close>

text \<open>
  Every module has its own \<open>updateInvoiceStatus...\<close> query,
  \<open>UPDATE invoices SET status = new WHERE id = i AND status = expected\<close>. The contract: the
  invoice with that id moves only when its status is the expected one, every other invoice
  keeps its status, and no other column that a decision depends on changes.
\<close>

locale guarded_status_update =
  fixes upd :: "int \<Rightarrow> string \<Rightarrow> invoice_status \<Rightarrow> invoice_status \<Rightarrow> db \<Rightarrow> db"
  assumes upd_invoices:
    "t_invoices (upd t i new expected d) =
       update_where (\<lambda>r. inv_id r = i \<and> inv_status r = expected)
         (\<lambda>r. r\<lparr>inv_status := new, inv_updated_at := t\<rparr>) (t_invoices d)"
    and upd_frame: "upd t i new expected d = d\<lparr>t_invoices := t_invoices (upd t i new expected d)\<rparr>"
begin

lemma lookup_upd:
  "select_one (\<lambda>r. inv_id r = j) (t_invoices (upd t i new expected d)) =
     map_option (\<lambda>r. if inv_id r = i \<and> inv_status r = expected
                     then r\<lparr>inv_status := new, inv_updated_at := t\<rparr> else r)
       (select_one (\<lambda>r. inv_id r = j) (t_invoices d))"
  unfolding upd_invoices by (rule select_one_update_where) simp

lemma upd_moves:
  assumes "select_one (\<lambda>r. inv_id r = i) (t_invoices d) = Some r" and "inv_status r = expected"
  shows "select_one (\<lambda>r. inv_id r = i) (t_invoices (upd t i new expected d))
       = Some (r\<lparr>inv_status := new, inv_updated_at := t\<rparr>)"
  using assms select_one_key [OF assms(1)] by (simp add: lookup_upd)

lemma upd_refused:
  assumes "select_one (\<lambda>r. inv_id r = i) (t_invoices d) = Some r" and "inv_status r \<noteq> expected"
  shows "select_one (\<lambda>r. inv_id r = i) (t_invoices (upd t i new expected d)) = Some r"
  using assms by (simp add: lookup_upd)

lemma upd_other:
  "j \<noteq> i \<Longrightarrow> select_one (\<lambda>r. inv_id r = j) (t_invoices (upd t i new expected d))
     = select_one (\<lambda>r. inv_id r = j) (t_invoices d)"
  by (cases "select_one (\<lambda>r. inv_id r = j) (t_invoices d)")
    (auto simp: lookup_upd dest: select_one_key)

lemma upd_noop:
  "(\<And>r. r \<in> set (t_invoices d) \<Longrightarrow> inv_id r = i \<Longrightarrow> inv_status r \<noteq> expected)
     \<Longrightarrow> upd t i new expected d = d"
  by (subst upd_frame, subst upd_invoices, subst update_where_id) auto

text \<open>
  The check constraint on the confirmation time cannot refuse such an update when the invoice leaves
  a confirmed state or enters one that needs no confirmation.
\<close>

lemma upd_chk_confirmed:
  "list_all chk_buyer_confirmed (t_invoices d) \<Longrightarrow> \<not> before_confirmation expected \<or> before_confirmation new
     \<Longrightarrow> list_all chk_buyer_confirmed (t_invoices (upd t i new expected d))"
  unfolding upd_invoices by (erule list_all_update_where) (auto simp: chk_buyer_confirmed_def)

end

section \<open>A small world\<close>

text \<open>The concrete rows on which the components' properties are instantiated.\<close>

definition blank_db :: db where
  "blank_db = \<lparr>t_invoices = [], t_suppliers = [], t_buyers = [], t_risk_scores = [], t_disputes = [],
     t_approvals = [], t_info_requests = [], t_payments = [], t_facilities = [], t_drawdowns = [],
     t_repayments = [], t_collateral = [], t_collateral_docs = [], t_documents = [], t_invoice_disputes = [], t_collections = [], t_collection_payments = [], t_escalation_documents = [],
     t_settlements = [], t_profit_bookings = [], t_users = [],
     t_reset_tokens = [], t_email_tokens = [], t_backup_codes = [], t_password_history = [], t_login_history = [],
     t_complaints = [], t_eligibility = [], t_buyer_requests = [], t_owners = [], t_system_settings = [],
     t_risk_config = [], t_audit = [], audit_columns = migrated_audit_columns,
     approval_tiers = migrated_approval_tiers,
     drawdown_required = migrated_drawdown_required,
     buyer_columns = migrated_buyer_columns\<rparr>"

definition world_of :: "db \<Rightarrow> world" where
  "world_of d = \<lparr>db = d, jobs = [], queue_set = (\<lambda>_. True), redis_up = True, clock = 0,
     row_locks = [], cfg_cache = None, cfg_loaded_at = 0, cfg_readable = True, files = (\<lambda>_. None),
     redis_client = True, redis_sessions = [], redis_marks = []\<rparr>"

definition blank_confirmation :: buyer_confirmation where
  "blank_confirmation = \<lparr>bc_confirmed_at = None, bc_ip = None, bc_user_agent = None, bc_token_hash = None,
     bc_token_expires_at = None, bc_efris_ref = None, bc_efris_verified_at = None\<rparr>"

definition blank_intake :: intake where
  "blank_intake = \<lparr>itk_description = None, itk_sla_deadline = None, itk_funding_timeline_days = None,
     itk_assessment_due_at = None, itk_assigned_to = None, itk_bank_account_number = None,
     itk_bank_account_name = None, itk_bank_name = None, itk_bank_details_captured_at = None,
     itk_withdrawn_at = None, itk_withdrawn_reason = None,
     itk_aml_cleared_by = None, itk_aml_clearance_reason = None\<rparr>"

definition sample_confirmation :: "invoice_status \<Rightarrow> buyer_confirmation" where
  "sample_confirmation st = (if before_confirmation st then blank_confirmation else blank_confirmation\<lparr>bc_confirmed_at := Some 0\<rparr>)"

definition sample_invoice :: "invoice_status \<Rightarrow> invoice" where
  "sample_invoice st = \<lparr>inv_id = ''inv'', inv_number = ''INV-1'', inv_supplier = ''sup'', inv_buyer = ''buy'',
     inv_face_value = 1000000, inv_advance = None, inv_discount = None, inv_net_payment = None,
     inv_status = st, inv_tenor_days = 90, inv_due_date = 90, inv_aml_flagged = False,
     inv_aml_cleared_at = None, inv_accepted_at = None, inv_accepted_by = None,
     inv_rejected_at = None, inv_rejection_reason = None, inv_disputed_at = None,
     inv_tier3_rejections = None, inv_created_at = 0, inv_updated_at = 0,
     inv_confirmation = sample_confirmation st, inv_intake = blank_intake\<rparr>"

definition blank_supplier_file :: supplier_file where
  "blank_supplier_file = \<lparr>sf_registration_number = ''REG-1'', sf_tax_id = None, sf_tax_id_encrypted = None, sf_directors = ''[]'',
     sf_directors_encrypted = None, sf_bank_name = None, sf_bank_account_number = None, sf_bank_account_name = None,
     sf_bank_branch = None, sf_sanctions_flag = False, sf_pep = False, sf_financing_amount = None, sf_consent_ursb = False,
     sf_consent_refs = False, sf_consent_litigation = False, sf_litigation_disclosure = None, sf_ursb_verified = False,
     sf_ursb_verified_at = None, sf_ursb_verified_by = None, sf_litigation_checked = False, sf_litigation_checked_at = None,
     sf_litigation_checked_by = None, sf_litigation_flag = False, sf_eligibility_token = None, sf_kyc_reviewer = None,
     sf_kyc_approver = None, sf_kyc_renewal_due = None, sf_created_at = 0\<rparr>"

definition blank_buyer_file :: buyer_file where
  "blank_buyer_file = \<lparr>bf_registration_number = ''BUY-1'', bf_contact_phone = None, bf_sanctions_flag = False, bf_pep = False,
     bf_undertaking_signed = False, bf_undertaking_date = None, bf_created_by = None, bf_created_at = 0\<rparr>"

definition sample_supplier :: supplier where
  "sample_supplier = \<lparr>sup_id = ''sup'', sup_user = ''su'', sup_company_name = Some ''Supplier'', sup_payment_method = ''EFT'',
     sup_kyc_status = Kyc_approved, sup_company_name_encrypted = None, sup_file = blank_supplier_file\<rparr>"

definition sample_buyer :: buyer where
  "sample_buyer = \<lparr>buy_id = ''buy'', buy_company_name = ''Buyer'', buy_rating = Rating_A, buy_approved_limit = 10000000,
     buy_used_limit = 0, buy_ris_margin_rate = 300 / 10 ^ 4, buy_payment_score = 60, buy_contact_email = None,
     buy_is_active = True, buy_company_name_encrypted = None, buy_file = blank_buyer_file\<rparr>"

definition sample_collection :: "collection_status \<Rightarrow> collection" where
  "sample_collection st = \<lparr>cln_id = ''col'', cln_invoice = ''inv'', cln_buyer = Some ''buy'', cln_face_value = 1000000,
     cln_amount_due = 1000000, cln_days_overdue = 0, cln_penalty_rate = Some (10 / 10 ^ 4), cln_penalty = 0,
     cln_status = st, cln_escalation_level = Some 0, cln_escalation_date = None, cln_demand_notice_sent = False,
     cln_sar_flagged = False, cln_total_collected = Some 0, cln_last_payment_at = None, cln_created_at = 0,
     cln_updated_at = 0\<rparr>"

definition sample_account :: account where
  "sample_account = \<lparr>acc_password_hash = ''hash'', acc_role = ''supplier'', acc_is_active = True,
     acc_email_verified = True, acc_2fa_enabled = False, acc_2fa_secret = None, acc_failed_count = 0,
     acc_locked_until = None, acc_last_login_at = None, acc_last_active_at = None, acc_warning_sent_at = None,
     acc_first_name = None, acc_last_name = None, acc_updated_at = 0\<rparr>"

definition sample_user :: "string \<Rightarrow> int option \<Rightarrow> user_row" where
  "sample_user i t = \<lparr>usr_id = i, usr_email = i, usr_last_2fa = t, usr_account = sample_account\<rparr>"

definition sample_facility :: facility where
  "sample_facility = \<lparr>fac_id = ''fac'', fac_bank_name = ''bank'', fac_total_limit = 100000000,
     fac_drawn = 0, fac_available = 100000000, fac_annual_rate = ''0.060000'',
     fac_interest_rate_annual = 600 / 10 ^ 4, fac_is_active = True, fac_maturity_date = 365,
     fac_status = Fac_active\<rparr>"

definition sample_score :: risk_score where
  "sample_score = \<lparr>rs_id = ''rs'', rs_invoice = ''inv'', rs_buyer_credit = Some 30, rs_tenor = Some 10,
     rs_track_record = Some 10, rs_concentration = Some 15, rs_collateral = Some 0,
     rs_final_score = 65, rs_recommendation = ''REFER_TO_MANAGER'',
     rs_max_advance_pct = Some (9000 / 10 ^ 4), rs_risk_premium_rate = Some (100 / 10 ^ 4),
     rs_bank_cost_rate = None, rs_ris_margin_rate = None, rs_total_discount_rate = None,
     rs_advance = None, rs_discount = None, rs_net_payment = None\<rparr>"

lemmas sample_defs = blank_db_def world_of_def sample_invoice_def sample_supplier_def
  sample_buyer_def sample_collection_def sample_user_def sample_account_def sample_facility_def sample_score_def migrated_audit_columns_def audit_cols_def
  migrated_approval_tiers_def migrated_drawdown_required_def
  audit_ok_def user_exists_def day_ms_def

end
