(* ===== verification/Pricing.thy ===== *)
theory Pricing
  imports RIS_Database
begin

text \<open>
  \<open>src/src/services/pricing\<close>: the discount calculation of \<open>calculatePricing\<close> (rates as doubles,
  scaled to integers by \<open>toScaled\<close>, amounts as \<open>bigint\<close>), the fee breakdown, the annual rate cap,
  and the handlers that price an invoice, read its price back, and record the supplier's
  acceptance, rejection or dispute. The lemmas show that the scaling is exact on the decimals the
  database holds, so the amounts are those of integer arithmetic on the decimal rates; what each
  handler writes; and that a failing handler leaves the database as it was.
\<close>

section \<open>Repository\<close>

definition getInvoiceForPricing :: "string \<Rightarrow> db \<Rightarrow> invoice option" where
  "getInvoiceForPricing i d = select_one (\<lambda>r. inv_id r = i) (t_invoices d)"

definition getRiskScoreForPricing :: "string \<Rightarrow> db \<Rightarrow> risk_score option" where
  "getRiskScoreForPricing i d = select_one (\<lambda>r. rs_invoice r = i) (t_risk_scores d)"

text \<open>A \<open>DATE\<close> compares with \<open>NOW()\<close> as its midnight.\<close>

definition getActiveFacility :: "int \<Rightarrow> db \<Rightarrow> facility option" where
  "getActiveFacility now d =
     first_row (sort_key fac_interest_rate_annual
       (filter (\<lambda>f. fac_is_active f \<and> fac_maturity_date f * day_ms > now) (t_facilities d)))"

definition getBuyerRisMargin :: "string \<Rightarrow> db \<Rightarrow> rat option" where
  "getBuyerRisMargin b d = map_option buy_ris_margin_rate (select_one (\<lambda>r. buy_id r = b) (t_buyers d))"

text \<open>The joined row of \<open>risk_scores\<close> and \<open>invoices\<close>.\<close>

definition getPricingDetails :: "string \<Rightarrow> db \<Rightarrow> (risk_score \<times> invoice) option" where
  "getPricingDetails i d =
     first_row (concat (map (\<lambda>rs. map (\<lambda>inv. (rs, inv)) (filter (\<lambda>inv. inv_id inv = rs_invoice rs) (t_invoices d)))
       (filter (\<lambda>rs. rs_invoice rs = i \<and> rs_bank_cost_rate rs \<noteq> None) (t_risk_scores d))))"

record pricing_update =
  pu_bank_cost_rate :: js_number
  pu_ris_margin_rate :: js_number
  pu_total_discount_rate :: js_number
  pu_advance_amount :: int
  pu_discount_amount :: int
  pu_net_payment_to_supplier :: int

definition updateRiskScoreWithPricing :: "string \<Rightarrow> pricing_update \<Rightarrow> db \<Rightarrow> ris_error + db" where
  "updateRiskScoreWithPricing rid u d =
     bindE (numeric_in 5 4 (pu_bank_cost_rate u)) (\<lambda>bank.
     bindE (numeric_in 5 4 (pu_ris_margin_rate u)) (\<lambda>ris.
     bindE (numeric_in 8 6 (pu_total_discount_rate u)) (\<lambda>tot.
     bindE (bigint_in (pu_advance_amount u)) (\<lambda>adv.
     bindE (bigint_in (pu_discount_amount u)) (\<lambda>dis.
     bindE (bigint_in (pu_net_payment_to_supplier u)) (\<lambda>net.
     Inr (d\<lparr>t_risk_scores := update_where (\<lambda>r. rs_id r = rid)
            (\<lambda>r. r\<lparr>rs_bank_cost_rate := Some bank, rs_ris_margin_rate := Some ris,
                   rs_total_discount_rate := Some tot, rs_advance := Some adv,
                   rs_discount := Some dis, rs_net_payment := Some net\<rparr>)
            (t_risk_scores d)\<rparr>)))))))"

definition updateInvoiceWithPricing :: "int \<Rightarrow> string \<Rightarrow> pricing_update \<Rightarrow> db \<Rightarrow> ris_error + db" where
  "updateInvoiceWithPricing now i u d =
     bindE (bigint_in (pu_advance_amount u)) (\<lambda>adv.
     bindE (bigint_in (pu_discount_amount u)) (\<lambda>dis.
     bindE (bigint_in (pu_net_payment_to_supplier u)) (\<lambda>net.
     Inr (d\<lparr>t_invoices := update_where (\<lambda>r. inv_id r = i)
            (\<lambda>r. r\<lparr>inv_advance := Some adv, inv_discount := Some dis,
                   inv_net_payment := Some net, inv_updated_at := now\<rparr>) (t_invoices d)\<rparr>))))"

definition pricing_updateInvoiceStatusWithClient ::
    "int \<Rightarrow> string \<Rightarrow> invoice_status \<Rightarrow> invoice_status \<Rightarrow> db \<Rightarrow> db" where
  "pricing_updateInvoiceStatusWithClient t i new expected d =
     d\<lparr>t_invoices := update_where (\<lambda>r. inv_id r = i \<and> inv_status r = expected)
         (\<lambda>r. r\<lparr>inv_status := new, inv_updated_at := t\<rparr>) (t_invoices d)\<rparr>"

definition getInvoicePricingStatus :: "string \<Rightarrow> string \<Rightarrow> db \<Rightarrow> invoice option" where
  "getInvoicePricingStatus i s d =
     select_one (\<lambda>r. inv_id r = i \<and> inv_supplier r = s) (t_invoices d)"

definition acceptPricingWithClient :: "int \<Rightarrow> string \<Rightarrow> string \<Rightarrow> db \<Rightarrow> db" where
  "acceptPricingWithClient now i u d =
     d\<lparr>t_invoices := update_where (\<lambda>r. inv_id r = i)
         (\<lambda>r. r\<lparr>inv_accepted_at := Some now, inv_accepted_by := Some u, inv_updated_at := now\<rparr>)
         (t_invoices d)\<rparr>"

definition rejectPricingWithClient :: "int \<Rightarrow> string \<Rightarrow> string \<Rightarrow> db \<Rightarrow> db" where
  "rejectPricingWithClient now i reason d =
     d\<lparr>t_invoices := update_where (\<lambda>r. inv_id r = i)
         (\<lambda>r. r\<lparr>inv_rejected_at := Some now, inv_rejection_reason := Some reason, inv_updated_at := now\<rparr>)
         (t_invoices d)\<rparr>"

definition setDisputedAtWithClient :: "int \<Rightarrow> string \<Rightarrow> db \<Rightarrow> db" where
  "setDisputedAtWithClient now i d =
     d\<lparr>t_invoices := update_where (\<lambda>r. inv_id r = i)
         (\<lambda>r. r\<lparr>inv_disputed_at := Some now, inv_updated_at := now\<rparr>) (t_invoices d)\<rparr>"

record dispute_payload =
  dp_reason :: string
  dp_proposed_rate :: "js_number option"
  dp_proposed_advance_pct :: "js_number option"
  dp_notes :: "string option"

definition dispute_reasons :: "string list" where
  "dispute_reasons = [''rate_too_high'', ''advance_too_low'', ''tenor_mismatch'', ''calculation_error'', ''other'']"

text \<open>
  \<open>INSERT INTO pricing_disputes ... RETURNING\<close>: the identifier is the one the table's default
  generates; the reason is checked, the submitter and the invoice are foreign keys.
\<close>

definition createPricingDisputeWithClient ::
    "string \<Rightarrow> int \<Rightarrow> string \<Rightarrow> string \<Rightarrow> dispute_payload \<Rightarrow> int \<Rightarrow> db \<Rightarrow> ris_error + dispute \<times> db" where
  "createPricingDisputeWithClient did now i u p sla d =
     bindE (numeric_opt_in 8 6 (dp_proposed_rate p)) (\<lambda>rate.
     bindE (numeric_opt_in 5 2 (dp_proposed_advance_pct p)) (\<lambda>pct.
     if dp_reason p \<notin> set dispute_reasons then Inl (DbError ''23514'')
     else if \<not> user_exists d (Some u) \<or> select_one (\<lambda>r. inv_id r = i) (t_invoices d) = None
     then Inl (DbError ''23503'')
     else let row = \<lparr>dis_id = did, dis_invoice = i, dis_submitted_by = u, dis_reason = dp_reason p,
                     dis_proposed_rate = rate, dis_proposed_advance_pct = pct, dis_notes = dp_notes p,
                     dis_submitted_at = now, dis_sla_deadline = sla, dis_status = ''open''\<rparr>
          in Inr (row, d\<lparr>t_disputes := t_disputes d @ [row]\<rparr>)))"

definition getOpenPricingDispute :: "string \<Rightarrow> db \<Rightarrow> dispute option" where
  "getOpenPricingDispute i d =
     first_row (sort_key (\<lambda>r. - dis_submitted_at r)
       (filter (\<lambda>r. dis_invoice r = i \<and> dis_status r = ''open'') (t_disputes d)))"

definition findSupplierByUserId :: "string \<Rightarrow> db \<Rightarrow> supplier option" where
  "findSupplierByUserId u d = select_one (\<lambda>s. sup_user s = u) (t_suppliers d)"

section \<open>Calculation\<close>

definition PRECISION :: int where
  "PRECISION = 100000000"

definition DAYS_PER_YEAR :: int where
  "DAYS_PER_YEAR = 365"

definition toScaled :: "js_number \<Rightarrow> ris_error + int" where
  "toScaled rate = js_BigInt (js_round (js_mul rate (js_Number PRECISION)))"

record pricing_input =
  pi_face_value :: int
  pi_tenor_days :: int
  pi_max_advance_pct :: js_number
  pi_risk_premium_rate :: js_number
  pi_bank_cost_rate :: js_number
  pi_ris_margin_rate :: js_number

record pricing_calculation =
  pc_advance :: int
  pc_discount :: int
  pc_net_payment :: int
  pc_total_discount_rate :: js_number
  pc_bank_cost :: int
  pc_ris_net_profit :: int

text \<open>
  \<open>Number(discountRateScaled) / Number(PRECISION)\<close>: both operands are rounded to doubles before the
  division; the conversion of a \<open>bigint\<close> beyond the double range is infinite.
\<close>

definition js_div_precision :: "js_number \<Rightarrow> js_number" where
  "js_div_precision a = (case a of Fin x \<Rightarrow> js_div_fin x 100000000 | v \<Rightarrow> v)"

definition calculatePricing :: "pricing_input \<Rightarrow> ris_error + pricing_calculation" where
  "calculatePricing inp =
     bindE (toScaled (pi_bank_cost_rate inp)) (\<lambda>bankScaled.
     bindE (toScaled (pi_risk_premium_rate inp)) (\<lambda>riskScaled.
     bindE (toScaled (pi_ris_margin_rate inp)) (\<lambda>risScaled.
     bindE (toScaled (pi_max_advance_pct inp)) (\<lambda>advPctScaled.
     let tenor = pi_tenor_days inp;
         totalAnnualScaled = bankScaled + riskScaled + risScaled;
         discountRateScaled = bigint_div (totalAnnualScaled * tenor) DAYS_PER_YEAR;
         advanceAmount = bigint_div (pi_face_value inp * advPctScaled) PRECISION;
         discountAmount = bigint_div (pi_face_value inp * discountRateScaled) PRECISION;
         netPaymentToSupplier = advanceAmount - discountAmount;
         bankCostRateScaled = bigint_div (bankScaled * tenor) DAYS_PER_YEAR;
         bankCostAmount = bigint_div (advanceAmount * bankCostRateScaled) PRECISION;
         risNetProfit = discountAmount - bankCostAmount;
         totalDiscountRate = js_div_precision (js_Number discountRateScaled)
     in Inr \<lparr>pc_advance = advanceAmount, pc_discount = discountAmount,
             pc_net_payment = netPaymentToSupplier, pc_total_discount_rate = totalDiscountRate,
             pc_bank_cost = bankCostAmount, pc_ris_net_profit = risNetProfit\<rparr>))))"

record fee_input =
  fi_face_value :: int
  fi_advance :: int
  fi_discount :: int
  fi_net_payment :: int
  fi_max_advance_pct :: js_number
  fi_total_discount_rate :: js_number
  fi_bank_cost_rate :: js_number
  fi_risk_premium_rate :: js_number
  fi_ris_margin_rate :: js_number
  fi_due_date :: int
  fi_tenor_days :: int

text \<open>Amounts are kept as integers where the code writes their decimal text.\<close>

record fee_breakdown =
  fb_face_value :: int
  fb_advance_percentage :: string
  fb_advance :: int
  fb_discount_percentage :: string
  fb_discount :: int
  fb_net_payment :: int
  fb_bank_component :: int
  fb_risk_component :: int
  fb_ris_component :: int
  fb_collection_date :: int

definition fee_component :: "int \<Rightarrow> js_number \<Rightarrow> int \<Rightarrow> ris_error + int" where
  "fee_component face rate tenor =
     bindE (toScaled rate) (\<lambda>s. Inr (bigint_div (face * s * tenor) (DAYS_PER_YEAR * PRECISION)))"

definition buildFeeBreakdown :: "fee_input \<Rightarrow> ris_error + fee_breakdown" where
  "buildFeeBreakdown inp =
     bindE (fee_component (fi_face_value inp) (fi_bank_cost_rate inp) (fi_tenor_days inp)) (\<lambda>bank.
     bindE (fee_component (fi_face_value inp) (fi_risk_premium_rate inp) (fi_tenor_days inp)) (\<lambda>risk.
     bindE (fee_component (fi_face_value inp) (fi_ris_margin_rate inp) (fi_tenor_days inp)) (\<lambda>ris.
     Inr \<lparr>fb_face_value = fi_face_value inp,
          fb_advance_percentage = js_toFixed 2 (js_mul (fi_max_advance_pct inp) (Fin 100)),
          fb_advance = fi_advance inp,
          fb_discount_percentage = js_toFixed 4 (js_mul (fi_total_discount_rate inp) (Fin 100)),
          fb_discount = fi_discount inp, fb_net_payment = fi_net_payment inp,
          fb_bank_component = bank, fb_risk_component = risk, fb_ris_component = ris,
          fb_collection_date = fi_due_date inp\<rparr>)))"

definition MAX_ANNUAL_RATE :: js_number where
  "MAX_ANNUAL_RATE = to_double (15 / 100)"

definition validateRateCap :: "js_number \<Rightarrow> ris_error + unit" where
  "validateRateCap totalAnnualRate =
     (if js_less MAX_ANNUAL_RATE totalAnnualRate then Inl (BusinessRuleError ''RATE_CAP_EXCEEDED'') else Inr ())"

section \<open>Handlers\<close>

definition pricing_fetchAndValidateInvoice :: "string \<Rightarrow> invoice service" where
  "pricing_fetchAndValidateInvoice i =
     bindS (queryS (getInvoiceForPricing i)) (\<lambda>r.
     bindS (requireS r (NotFoundError ''Invoice'' i)) (\<lambda>inv.
     thenS (guardS (inv_status inv = Inv_scored) (BusinessRuleError ''INVOICE_WRONG_STATUS''))
     (returnS inv)))"

definition fetchAndValidateRiskScore :: "string \<Rightarrow> risk_score service" where
  "fetchAndValidateRiskScore i =
     bindS (queryS (getRiskScoreForPricing i)) (\<lambda>r.
     bindS (requireS r (NotFoundError ''RiskScore'' i)) (\<lambda>rs.
     thenS (guardS (rs_bank_cost_rate rs = None) (BusinessRuleError ''ALREADY_PRICED''))
     (returnS rs)))"

definition fetchActiveFacility :: "facility service" where
  "fetchActiveFacility =
     bindS nowS (\<lambda>t.
     bindS (queryS (getActiveFacility t)) (\<lambda>f. requireS f (BusinessRuleError ''NO_ACTIVE_FACILITY'')))"

definition fetchBuyerMargin :: "string \<Rightarrow> rat service" where
  "fetchBuyerMargin b =
     bindS (queryS (getBuyerRisMargin b)) (\<lambda>m. requireS m (NotFoundError ''Buyer'' b))"

definition pricing_audit :: "string \<Rightarrow> pricing_calculation \<Rightarrow> js_number \<Rightarrow> js_number \<Rightarrow> audit_entry" where
  "pricing_audit i calc bankCostRate risMarginRate =
     audit_sys None ''INVOICE_PRICED'' ''risk_scores'' i (Some [(''status'', JStr ''scored'')])
       [(''status'', JStr ''priced''),
        (''advanceAmount'', JInt (pc_advance calc)),
        (''discountAmount'', JInt (pc_discount calc)),
        (''netPaymentToSupplier'', JInt (pc_net_payment calc)),
        (''bankCostRate'', JNum bankCostRate), (''risMarginRate'', JNum risMarginRate),
        (''totalDiscountRate'', JNum (pc_total_discount_rate calc))]"

definition persistPricing :: "string \<Rightarrow> string \<Rightarrow> pricing_calculation \<Rightarrow> js_number \<Rightarrow> js_number \<Rightarrow> unit service" where
  "persistPricing i riskScoreId calc bankCostRate risMarginRate =
     bindS nowS (\<lambda>t.
     let u = \<lparr>pu_bank_cost_rate = bankCostRate, pu_ris_margin_rate = risMarginRate,
              pu_total_discount_rate = pc_total_discount_rate calc, pu_advance_amount = pc_advance calc,
              pu_discount_amount = pc_discount calc, pu_net_payment_to_supplier = pc_net_payment calc\<rparr>
     in transactionS
       (thenS (tryExecS (updateRiskScoreWithPricing riskScoreId u))
       (thenS (tryExecS (updateInvoiceWithPricing t i u))
       (thenS (execS (pricing_updateInvoiceStatusWithClient t i Inv_priced Inv_scored))
       (createAuditEntry (pricing_audit i calc bankCostRate risMarginRate))))))"

definition queuePricingReadyNotification :: "string \<Rightarrow> unit service" where
  "queuePricingReadyNotification i = enqueueS Pricing_notification ''pricing-ready'' [(''invoiceId'', JStr i)]"

definition queueForApproval :: "string \<Rightarrow> unit service" where
  "queueForApproval i = enqueueS Pricing_approvals ''score-for-approval'' [(''invoiceId'', JStr i)]"

record pricing_result =
  pr_invoice :: string
  pr_face_value :: int
  pr_advance :: int
  pr_discount :: int
  pr_net_payment :: int
  pr_bank_cost_rate :: js_number
  pr_risk_premium_rate :: js_number
  pr_ris_margin_rate :: js_number
  pr_total_discount_rate :: js_number
  pr_bank_cost :: int
  pr_ris_net_profit :: int
  pr_fee_breakdown :: fee_breakdown

definition pricing_input_of :: "invoice \<Rightarrow> risk_score \<Rightarrow> facility \<Rightarrow> rat \<Rightarrow> pricing_input" where
  "pricing_input_of iv rs fac margin =
     \<lparr>pi_face_value = inv_face_value iv, pi_tenor_days = inv_tenor_days iv,
      pi_max_advance_pct = numeric_out (rs_max_advance_pct rs),
      pi_risk_premium_rate = numeric_out (rs_risk_premium_rate rs),
      pi_bank_cost_rate = to_double (fac_interest_rate_annual fac),
      pi_ris_margin_rate = to_double margin\<rparr>"

definition fee_input_of :: "invoice \<Rightarrow> pricing_input \<Rightarrow> pricing_calculation \<Rightarrow> fee_input" where
  "fee_input_of iv p calc =
     \<lparr>fi_face_value = inv_face_value iv, fi_advance = pc_advance calc, fi_discount = pc_discount calc,
      fi_net_payment = pc_net_payment calc, fi_max_advance_pct = pi_max_advance_pct p,
      fi_total_discount_rate = pc_total_discount_rate calc, fi_bank_cost_rate = pi_bank_cost_rate p,
      fi_risk_premium_rate = pi_risk_premium_rate p, fi_ris_margin_rate = pi_ris_margin_rate p,
      fi_due_date = inv_due_date iv, fi_tenor_days = inv_tenor_days iv\<rparr>"

definition total_annual_rate :: "pricing_input \<Rightarrow> js_number" where
  "total_annual_rate p =
     js_add (js_add (pi_bank_cost_rate p) (pi_risk_premium_rate p)) (pi_ris_margin_rate p)"

definition priceInvoice :: "string \<Rightarrow> pricing_result service" where
  "priceInvoice i =
     bindS (pricing_fetchAndValidateInvoice i) (\<lambda>inv.
     bindS (fetchAndValidateRiskScore i) (\<lambda>rs.
     bindS fetchActiveFacility (\<lambda>fac.
     bindS (fetchBuyerMargin (inv_buyer inv)) (\<lambda>margin.
     let p = pricing_input_of inv rs fac margin in
     bindS (liftS (calculatePricing p)) (\<lambda>calc.
     thenS (liftS (validateRateCap (total_annual_rate p)))
     (thenS (persistPricing i (rs_id rs) calc (pi_bank_cost_rate p) (pi_ris_margin_rate p))
     (bindS (liftS (buildFeeBreakdown (fee_input_of inv p calc))) (\<lambda>fee.
     thenS (queuePricingReadyNotification i)
     (returnS \<lparr>pr_invoice = i, pr_face_value = inv_face_value inv, pr_advance = pc_advance calc,
               pr_discount = pc_discount calc, pr_net_payment = pc_net_payment calc,
               pr_bank_cost_rate = pi_bank_cost_rate p,
               pr_risk_premium_rate = pi_risk_premium_rate p,
               pr_ris_margin_rate = pi_ris_margin_rate p,
               pr_total_discount_rate = pc_total_discount_rate calc,
               pr_bank_cost = pc_bank_cost calc, pr_ris_net_profit = pc_ris_net_profit calc,
               pr_fee_breakdown = fee\<rparr>)))))))))"

text \<open>\<open>BigInt(null)\<close> throws a TypeError; \<open>parseFloat(null)\<close> is NaN.\<close>

definition bigint_of_column :: "int option \<Rightarrow> ris_error + int" where
  "bigint_of_column v = (case v of None \<Rightarrow> Inl (JsError ''TypeError'') | Some n \<Rightarrow> Inr n)"

definition rate_of_column :: "rat option option \<Rightarrow> js_number" where
  "rate_of_column v = (case v of None \<Rightarrow> NaN | Some x \<Rightarrow> numeric_out x)"

definition getPricing :: "string \<Rightarrow> pricing_result service" where
  "getPricing i =
     bindS (queryS (getPricingDetails i)) (\<lambda>r.
     bindS (requireS r (NotFoundError ''Pricing'' i)) (\<lambda>(rs, inv).
     bindS (liftS (bigint_of_column (rs_advance rs))) (\<lambda>advance.
     bindS (liftS (bigint_of_column (rs_discount rs))) (\<lambda>discount.
     bindS (liftS (bigint_of_column (rs_net_payment rs))) (\<lambda>net.
     let bankCostRate = rate_of_column (rs_bank_cost_rate rs);
         riskPremiumRate = numeric_out (rs_risk_premium_rate rs);
         risMarginRate = rate_of_column (rs_ris_margin_rate rs);
         maxAdvancePct = numeric_out (rs_max_advance_pct rs);
         totalDiscountRate = rate_of_column (rs_total_discount_rate rs) in
     bindS (liftS (toScaled bankCostRate)) (\<lambda>bankScaled.
     let bankCostRateScaled = bigint_div (bankScaled * inv_tenor_days inv) DAYS_PER_YEAR;
         bankCostAmount = bigint_div (advance * bankCostRateScaled) PRECISION in
     bindS (liftS (buildFeeBreakdown
       \<lparr>fi_face_value = inv_face_value inv, fi_advance = advance, fi_discount = discount,
        fi_net_payment = net, fi_max_advance_pct = maxAdvancePct,
        fi_total_discount_rate = totalDiscountRate, fi_bank_cost_rate = bankCostRate,
        fi_risk_premium_rate = riskPremiumRate, fi_ris_margin_rate = risMarginRate,
        fi_due_date = inv_due_date inv, fi_tenor_days = inv_tenor_days inv\<rparr>)) (\<lambda>fee.
     returnS \<lparr>pr_invoice = rs_invoice rs, pr_face_value = inv_face_value inv, pr_advance = advance,
              pr_discount = discount, pr_net_payment = net, pr_bank_cost_rate = bankCostRate,
              pr_risk_premium_rate = riskPremiumRate, pr_ris_margin_rate = risMarginRate,
              pr_total_discount_rate = totalDiscountRate, pr_bank_cost = bankCostAmount,
              pr_ris_net_profit = discount - bankCostAmount, pr_fee_breakdown = fee\<rparr>)))))))"

definition resolveSupplier :: "string \<Rightarrow> string service" where
  "resolveSupplier u =
     bindS (queryS (findSupplierByUserId u)) (\<lambda>r.
     bindS (requireS r ForbiddenError) (\<lambda>s. returnS (sup_id s)))"

definition fetchAndValidatePricingAcceptance :: "string \<Rightarrow> string \<Rightarrow> invoice service" where
  "fetchAndValidatePricingAcceptance i s =
     bindS (queryS (getInvoicePricingStatus i s)) (\<lambda>r.
     bindS (requireS r (NotFoundError ''Invoice'' i)) (\<lambda>inv.
     thenS (guardS (inv_advance inv \<noteq> None) (BusinessRuleError ''PRICING_NOT_PRICED''))
     (returnS inv)))"

definition persistAcceptance :: "string \<Rightarrow> string \<Rightarrow> string \<Rightarrow> string \<Rightarrow> unit service" where
  "persistAcceptance i u ip ua =
     bindS nowS (\<lambda>t. transactionS
       (thenS (execS (acceptPricingWithClient t i u))
       (createAuditEntry (audit_req (Some u) ''PRICING_ACCEPTED'' ''invoices'' i
          (Some [(''pricingAcceptedAt'', JNull)]) [(''pricingAcceptedAt'', JStr ''now'')]
          (Some ip) (Some ua)))))"

definition acceptPricing :: "string \<Rightarrow> string \<Rightarrow> string \<Rightarrow> string \<Rightarrow> unit service" where
  "acceptPricing i u ip ua =
     bindS (resolveSupplier u) (\<lambda>s.
     bindS (fetchAndValidatePricingAcceptance i s) (\<lambda>inv.
     thenS (guardS (inv_accepted_at inv = None) (BusinessRuleError ''PRICING_ALREADY_ACCEPTED''))
     (thenS (persistAcceptance i u ip ua)
     (queueForApproval i))))"

definition persistRejection :: "string \<Rightarrow> string \<Rightarrow> string \<Rightarrow> string \<Rightarrow> string \<Rightarrow> unit service" where
  "persistRejection i u reason ip ua =
     bindS nowS (\<lambda>t. transactionS
       (thenS (execS (rejectPricingWithClient t i reason))
       (thenS (execS (pricing_updateInvoiceStatusWithClient t i Inv_rejected Inv_priced))
       (createAuditEntry (audit_req (Some u) ''PRICING_REJECTED'' ''invoices'' i
          (Some [(''pricingRejectedAt'', JNull), (''status'', JStr ''priced'')])
          [(''pricingRejectedAt'', JStr ''now''), (''reason'', JStr reason), (''status'', JStr ''rejected'')]
          (Some ip) (Some ua))))))"

definition rejectPricing :: "string \<Rightarrow> string \<Rightarrow> string \<Rightarrow> string \<Rightarrow> string \<Rightarrow> unit service" where
  "rejectPricing i u reason ip ua =
     bindS (resolveSupplier u) (\<lambda>s.
     bindS (fetchAndValidatePricingAcceptance i s) (\<lambda>inv.
     thenS (guardS (inv_rejected_at inv = None) (BusinessRuleError ''PRICING_ALREADY_REJECTED''))
     (persistRejection i u reason ip ua)))"

definition persistDispute :: "string \<Rightarrow> string \<Rightarrow> string \<Rightarrow> dispute_payload \<Rightarrow> string \<Rightarrow> string \<Rightarrow> dispute service" where
  "persistDispute did i u p ip ua =
     bindS nowS (\<lambda>t.
     let sla = t + 24 * 60 * 60 * 1000 in
     transactionS
       (thenS (execS (setDisputedAtWithClient t i))
       (bindS (getS db) (\<lambda>d.
       bindS (liftS (createPricingDisputeWithClient did t i u p sla d)) (\<lambda>(row, d').
       thenS (execS (\<lambda>_. d'))
       (thenS (createAuditEntry (audit_req (Some u) ''PRICING_DISPUTED'' ''pricing_disputes'' (dis_id row) None
          [(''invoiceId'', JStr i), (''reason'', JStr (dp_reason p)),
           (''proposedRate'', case dp_proposed_rate p of None \<Rightarrow> JNull | Some x \<Rightarrow> JNum x),
           (''slaDeadline'', JInt sla)] (Some ip) (Some ua)))
       (returnS row)))))))"

text \<open>\<open>did\<close> is the identifier the database generates for the dispute.\<close>

definition disputePricing :: "string \<Rightarrow> string \<Rightarrow> string \<Rightarrow> dispute_payload \<Rightarrow> string \<Rightarrow> string \<Rightarrow> dispute service" where
  "disputePricing did i u p ip ua =
     bindS (resolveSupplier u) (\<lambda>s.
     bindS (fetchAndValidatePricingAcceptance i s) (\<lambda>inv.
     thenS (guardS (inv_accepted_at inv = None) (BusinessRuleError ''PRICING_ALREADY_ACCEPTED''))
     (thenS (guardS (inv_rejected_at inv = None) (BusinessRuleError ''PRICING_ALREADY_REJECTED''))
     (thenS (guardS (inv_disputed_at inv = None) (BusinessRuleError ''PRICING_ALREADY_DISPUTED''))
     (persistDispute did i u p ip ua)))))"

section \<open>Exact scaling\<close>

lemma js_Number_PRECISION: "js_Number PRECISION = Fin 100000000"
  using js_Number_int [of PRECISION] by (simp add: PRECISION_def)

lemma toScaled_decimal:
  assumes "\<bar>of_int n / 10 ^ k\<bar> \<le> (999 :: rat)" and "k \<le> 8"
  shows "toScaled (to_double (of_int n / 10 ^ k)) = Inr (n * 10 ^ (8 - k))"
proof -
  let ?q = "of_int n / 10 ^ k :: rat"
  define x where "x = round_double ?q"
  have "\<bar>?q\<bar> \<le> 2 ^ 100" using assms(1) by (rule order_trans) simp
  then have d: "to_double ?q = Fin x" unfolding x_def by (rule to_double_small)
  have xq: "\<bar>x - ?q\<bar> \<le> 1 / 10 ^ 12" unfolding x_def
    using assms(1) by (intro round_double_err_1000) linarith
  have N: "?q * 10 ^ 8 = of_int (n * 10 ^ (8 - k))"
    using assms(2) power_add [of "10 :: rat" k "8 - k"] by (simp add: field_simps)
  have xN: "\<bar>x * 10 ^ 8 - of_int (n * 10 ^ (8 - k))\<bar> \<le> 1 / 10 ^ 12 * 10 ^ 8"
    using scaled_close [OF xq, of 8] unfolding N .
  have "\<bar>x\<bar> \<le> 1000" using xq assms(1) abs_chain [of x x ?q "1 / 10 ^ 12"] by simp
  then have "\<bar>x * 10 ^ 8\<bar> \<le> 1000 * 10 ^ 8" unfolding abs_mult by (intro mult_mono) simp_all
  then have x14: "\<bar>x * 10 ^ 8\<bar> \<le> 10 ^ 14" by (rule order_trans) simp
  have x100: "\<bar>x * 10 ^ 8\<bar> \<le> 2 ^ 100" using x14 by (rule order_trans) simp
  define y where "y = round_double (x * 10 ^ 8)"
  have yx: "\<bar>y - x * 10 ^ 8\<bar> \<le> 1 / 50" unfolding y_def by (rule round_double_err_1e14 [OF x14])
  have "\<bar>y - of_int (n * 10 ^ (8 - k))\<bar> < 1 / 2" using yx xN by (rule abs_chain3) simp
  then have "js_round (Fin y) = Fin (of_int (n * 10 ^ (8 - k)))" by (rule js_round_near)
  moreover have "js_mul (Fin x) (Fin (10 ^ 8)) = Fin y"
    unfolding y_def by (simp only: js_mul.simps to_double_small [OF x100])
  moreover have "js_BigInt (Fin (of_int m)) = Inr m" for m by simp
  ultimately show ?thesis unfolding toScaled_def d js_Number_PRECISION by (simp del: of_int_mult)
qed

text \<open>The rates of the model: a \<open>NUMERIC(5,4)\<close> value is a whole number of basis points.\<close>

definition bp_rate :: "int \<Rightarrow> rat" where
  "bp_rate n = of_int n / 10 ^ 4"

definition is_bp :: "int \<Rightarrow> bool" where
  "is_bp n \<longleftrightarrow> 0 \<le> n \<and> n < 10 ^ 5"

lemma bp_rate_le: "is_bp n \<Longrightarrow> \<bar>of_int n / 10 ^ 4\<bar> \<le> (999 :: rat)"
  by (simp add: is_bp_def divide_le_eq)

lemma toScaled_bp: "is_bp n \<Longrightarrow> toScaled (to_double (bp_rate n)) = Inr (n * 10 ^ 4)"
  unfolding bp_rate_def using toScaled_decimal [OF bp_rate_le, of n] by simp

text \<open>The discount of an invoice by integer arithmetic on basis points.\<close>

definition spec_discount_rate :: "int \<Rightarrow> int \<Rightarrow> int" where
  "spec_discount_rate annual tenor = annual * 10 ^ 4 * tenor div 365"

definition spec_advance :: "int \<Rightarrow> int \<Rightarrow> int" where
  "spec_advance face adv = face * adv div 10 ^ 4"

definition spec_discount :: "int \<Rightarrow> int \<Rightarrow> int \<Rightarrow> int" where
  "spec_discount face annual tenor = face * spec_discount_rate annual tenor div 10 ^ 8"

definition spec_bank_cost :: "int \<Rightarrow> int \<Rightarrow> int \<Rightarrow> int \<Rightarrow> int" where
  "spec_bank_cost face adv bank tenor =
     spec_advance face adv * spec_discount_rate bank tenor div 10 ^ 8"

definition spec_pricing :: "int \<Rightarrow> int \<Rightarrow> int \<Rightarrow> int \<Rightarrow> int \<Rightarrow> int \<Rightarrow> pricing_calculation" where
  "spec_pricing face tenor adv risk bank ris =
     \<lparr>pc_advance = spec_advance face adv,
      pc_discount = spec_discount face (bank + risk + ris) tenor,
      pc_net_payment = spec_advance face adv - spec_discount face (bank + risk + ris) tenor,
      pc_total_discount_rate = js_div_precision (js_Number (spec_discount_rate (bank + risk + ris) tenor)),
      pc_bank_cost = spec_bank_cost face adv bank tenor,
      pc_ris_net_profit = spec_discount face (bank + risk + ris) tenor - spec_bank_cost face adv bank tenor\<rparr>"

definition bp_input :: "int \<Rightarrow> int \<Rightarrow> int \<Rightarrow> int \<Rightarrow> int \<Rightarrow> int \<Rightarrow> pricing_input" where
  "bp_input face tenor adv risk bank ris =
     \<lparr>pi_face_value = face, pi_tenor_days = tenor, pi_max_advance_pct = to_double (bp_rate adv),
      pi_risk_premium_rate = to_double (bp_rate risk), pi_bank_cost_rate = to_double (bp_rate bank),
      pi_ris_margin_rate = to_double (bp_rate ris)\<rparr>"

lemma spec_nonneg:
  "0 \<le> annual \<Longrightarrow> 0 \<le> tenor \<Longrightarrow> 0 \<le> spec_discount_rate annual tenor"
  "0 \<le> face \<Longrightarrow> 0 \<le> adv \<Longrightarrow> 0 \<le> spec_advance face adv"
  "0 \<le> face \<Longrightarrow> 0 \<le> annual \<Longrightarrow> 0 \<le> tenor \<Longrightarrow> 0 \<le> spec_discount face annual tenor"
  by (simp_all add: spec_discount_rate_def spec_advance_def spec_discount_def pos_imp_zdiv_nonneg_iff)

lemma calculatePricing_bp:
  assumes "0 \<le> face" "0 \<le> tenor" "is_bp adv" "is_bp risk" "is_bp bank" "is_bp ris"
  shows "calculatePricing (bp_input face tenor adv risk bank ris) = Inr (spec_pricing face tenor adv risk bank ris)"
proof -
  have nn: "0 \<le> adv" "0 \<le> risk" "0 \<le> bank" "0 \<le> ris" using assms by (auto simp: is_bp_def)
  have div: "bigint_div (a * 10 ^ 4 * tenor) DAYS_PER_YEAR = spec_discount_rate a tenor" if "0 \<le> a" for a
    using that assms(2) by (simp add: bigint_div_nonneg DAYS_PER_YEAR_def spec_discount_rate_def)
  have adv: "bigint_div (face * (adv * 10 ^ 4)) PRECISION = spec_advance face adv"
  proof -
    have "bigint_div (face * (adv * 10 ^ 4)) PRECISION = (face * adv) * 10 ^ 4 div (10 ^ 4 * 10 ^ 4)"
      using assms(1) nn by (simp add: bigint_div_nonneg PRECISION_def)
    then show ?thesis by (simp add: spec_advance_def mult.commute)
  qed
  have prec: "bigint_div (a * b) PRECISION = a * b div 10 ^ 8" if "0 \<le> a" "0 \<le> b" for a b
    using that by (simp add: bigint_div_nonneg PRECISION_def)
  have tot: "bank * 10 ^ 4 + risk * 10 ^ 4 + ris * 10 ^ 4 = (bank + risk + ris) * 10 ^ 4" by simp
  show ?thesis
    unfolding calculatePricing_def bp_input_def spec_pricing_def
    using assms nn
    by (simp add: toScaled_bp tot div adv prec spec_nonneg Let_def spec_discount_def spec_bank_cost_def
        del: power_numeral distrib_right_numeral)
qed


subsection \<open>Bounds of the amounts\<close>

lemma spec_advance_le: "0 \<le> face \<Longrightarrow> adv \<le> 10 ^ 4 \<Longrightarrow> spec_advance face adv \<le> face"
proof -
  assume a: "0 \<le> face" "adv \<le> 10 ^ 4"
  then have "face * adv \<le> face * 10 ^ 4" by (intro mult_left_mono)
  then have "face * adv div 10 ^ 4 \<le> face * 10 ^ 4 div 10 ^ 4" by (intro zdiv_mono1) simp_all
  then show ?thesis by (simp add: spec_advance_def)
qed

lemma spec_discount_rate_mono:
  "0 \<le> tenor \<Longrightarrow> a \<le> b \<Longrightarrow> spec_discount_rate a tenor \<le> spec_discount_rate b tenor"
  unfolding spec_discount_rate_def by (intro zdiv_mono1 mult_right_mono) simp_all

lemma spec_bank_cost_le:
  assumes "0 \<le> face" "0 \<le> tenor" "0 \<le> adv" "adv \<le> 10 ^ 4" "0 \<le> bank" "bank \<le> annual"
  shows "spec_bank_cost face adv bank tenor \<le> spec_discount face annual tenor"
  unfolding spec_bank_cost_def spec_discount_def using assms
  by (intro zdiv_mono1 mult_mono spec_advance_le spec_discount_rate_mono spec_nonneg) simp_all

lemma spec_discount_rate_cap:
  assumes "0 \<le> annual" "annual \<le> 1500" "0 \<le> tenor" "tenor \<le> 365"
  shows "spec_discount_rate annual tenor \<le> 15 * 10 ^ 6"
proof -
  have "annual * tenor \<le> 1500 * 365" using assms by (intro mult_mono) simp_all
  then have "annual * 10 ^ 4 * tenor \<le> 15 * 10 ^ 6 * 365" by simp
  then have "annual * 10 ^ 4 * tenor div 365 \<le> 15 * 10 ^ 6 * 365 div 365" by (rule zdiv_mono1) simp
  then show ?thesis unfolding spec_discount_rate_def by simp
qed

lemma spec_discount_cap:
  assumes "0 \<le> face" "0 \<le> annual" "annual \<le> 1500" "0 \<le> tenor" "tenor \<le> 365"
  shows "spec_discount face annual tenor \<le> spec_advance face 1500"
proof -
  have "face * spec_discount_rate annual tenor \<le> face * (15 * 10 ^ 6)"
    using assms by (intro mult_left_mono spec_discount_rate_cap)
  then have "spec_discount face annual tenor \<le> face * (15 * 10 ^ 6) div 10 ^ 8"
    unfolding spec_discount_def by (rule zdiv_mono1) simp
  also have "face * (15 * 10 ^ 6) div 10 ^ 8 = (face * 1500) * 10 ^ 4 div (10 ^ 4 * 10 ^ 4)" by simp
  also have "\<dots> = spec_advance face 1500" by (simp only: spec_advance_def) simp
  finally show ?thesis .
qed

lemma spec_advance_mono: "0 \<le> face \<Longrightarrow> a \<le> b \<Longrightarrow> spec_advance face a \<le> spec_advance face b"
  unfolding spec_advance_def by (intro zdiv_mono1 mult_left_mono) simp_all

text \<open>The integer discount is the ideal one up to one shilling and one part in \<open>10^8\<close> of the face.\<close>

lemma spec_discount_error:
  assumes "0 \<le> face" "0 \<le> annual" "0 \<le> tenor"
  shows "of_int (spec_discount face annual tenor) \<le> (of_int face * bp_rate annual * of_int tenor / 365 :: rat)"
    and "of_int face * bp_rate annual * of_int tenor / 365
       < (of_int (spec_discount face annual tenor) + 1 + of_int face / 10 ^ 8 :: rat)"
proof -
  let ?r = "of_int (spec_discount_rate annual tenor) :: rat" and ?f = "of_int face :: rat"
  let ?i = "of_int annual * 10 ^ 4 * of_int tenor / 365 :: rat"
  have r: "?r \<le> ?i" "?i < ?r + 1"
    using div_bounds_rat [of "annual * 10 ^ 4 * tenor" 365] by (simp_all add: spec_discount_rate_def)
  have d: "of_int (spec_discount face annual tenor) \<le> ?f * ?r / 10 ^ 8"
    "?f * ?r / 10 ^ 8 < of_int (spec_discount face annual tenor) + (1 :: rat)"
    using div_bounds_rat [of "face * spec_discount_rate annual tenor" "10 ^ 8"]
    by (simp_all add: spec_discount_def)
  have f: "0 \<le> ?f" using assms(1) by simp
  have ideal: "?f * bp_rate annual * of_int tenor / 365 = ?f * ?i / 10 ^ 8" by (simp add: bp_rate_def)
  have "?f * ?r / 10 ^ 8 \<le> ?f * ?i / 10 ^ 8" "?f * ?i / 10 ^ 8 \<le> ?f * (?r + 1) / 10 ^ 8"
    using f r by (intro divide_right_mono mult_left_mono; simp)+
  moreover have "?f * (?r + 1) / 10 ^ 8 = ?f * ?r / 10 ^ 8 + ?f / 10 ^ 8"
    by (simp add: distrib_left add_divide_distrib)
  ultimately show "of_int (spec_discount face annual tenor) \<le> (?f * bp_rate annual * of_int tenor / 365)"
    and "?f * bp_rate annual * of_int tenor / 365 < of_int (spec_discount face annual tenor) + 1 + ?f / 10 ^ 8"
    unfolding ideal using d by linarith+
qed


section \<open>The rate cap\<close>

lemma bp_rate_range: "is_bp n \<Longrightarrow> 0 \<le> bp_rate n \<and> bp_rate n < 10"
  by (simp add: is_bp_def bp_rate_def divide_less_eq)

text \<open>The double sum of three basis-point rates is within \<open>1e-11\<close> of the exact sum.\<close>

lemma total_annual_rate_near:
  assumes "is_bp risk" "is_bp bank" "is_bp ris"
  shows "\<exists>y. total_annual_rate (bp_input face tenor adv risk bank ris) = Fin y
           \<and> \<bar>y - bp_rate (bank + risk + ris)\<bar> \<le> 1 / 10 ^ 11"
proof -
  let ?e = "1 / 10 ^ 12 :: rat"
  note rng = bp_rate_range [OF assms(1)] bp_rate_range [OF assms(2)] bp_rate_range [OF assms(3)]
  obtain b where b: "to_double (bp_rate bank) = Fin b" "\<bar>b - bp_rate bank\<bar> \<le> ?e"
    using to_double_bounded [of "bp_rate bank"] rng by auto
  obtain r where r: "to_double (bp_rate risk) = Fin r" "\<bar>r - bp_rate risk\<bar> \<le> ?e"
    using to_double_bounded [of "bp_rate risk"] rng by auto
  obtain m where m: "to_double (bp_rate ris) = Fin m" "\<bar>m - bp_rate ris\<bar> \<le> ?e"
    using to_double_bounded [of "bp_rate ris"] rng by auto
  have e1: "?e \<le> 1" by simp
  have "\<bar>b + r\<bar> \<le> 1000" using b(2) r(2) rng e1 by linarith
  then obtain s where s: "to_double (b + r) = Fin s" "\<bar>s - (b + r)\<bar> \<le> ?e" using to_double_bounded by blast
  have "\<bar>s + m\<bar> \<le> 1000" using s(2) b(2) r(2) m(2) rng e1 by linarith
  then obtain y where y: "to_double (s + m) = Fin y" "\<bar>y - (s + m)\<bar> \<le> ?e" using to_double_bounded by blast
  have "bp_rate (bank + risk + ris) = bp_rate bank + bp_rate risk + bp_rate ris"
    by (simp add: bp_rate_def add_divide_distrib)
  then have "\<bar>y - bp_rate (bank + risk + ris)\<bar> \<le> 5 * ?e" using y(2) s(2) b(2) r(2) m(2) by linarith
  also have "5 * ?e \<le> 1 / 10 ^ 11" by simp
  finally show ?thesis using y(1) by (simp add: total_annual_rate_def bp_input_def b r m s)
qed

lemma rate_cap_bp:
  assumes "is_bp risk" "is_bp bank" "is_bp ris"
  shows "bank + risk + ris < 1500 \<Longrightarrow>
           validateRateCap (total_annual_rate (bp_input face tenor adv risk bank ris)) = Inr ()"
    and "1500 < bank + risk + ris \<Longrightarrow>
           validateRateCap (total_annual_rate (bp_input face tenor adv risk bank ris))
             = Inl (BusinessRuleError ''RATE_CAP_EXCEEDED'')"
proof -
  obtain y where y: "total_annual_rate (bp_input face tenor adv risk bank ris) = Fin y"
    "\<bar>y - bp_rate (bank + risk + ris)\<bar> \<le> 1 / 10 ^ 11"
    using total_annual_rate_near [OF assms] by blast
  obtain c where c: "MAX_ANNUAL_RATE = Fin c" "\<bar>c - 15 / 100\<bar> \<le> 1 / 10 ^ 12"
    unfolding MAX_ANNUAL_RATE_def using to_double_bounded [of "15 / 100"] by auto
  have gap: "1 / 10 ^ 11 + 1 / 10 ^ 12 < (1 / 10 ^ 4 :: rat)" by simp
  show "validateRateCap (total_annual_rate (bp_input face tenor adv risk bank ris)) = Inr ()"
    if "bank + risk + ris < 1500"
  proof -
    have "bank + risk + ris \<le> 1499" using that by simp
    then have "(of_int (bank + risk + ris) :: rat) \<le> of_int 1499" by (simp only: of_int_le_iff)
    then have "bp_rate (bank + risk + ris) \<le> 15 / 100 - 1 / 10 ^ 4" by (simp add: bp_rate_def)
    then have "\<not> c < y" using y(2) c(2) gap by linarith
    then show ?thesis by (simp add: validateRateCap_def y c)
  qed
  show "validateRateCap (total_annual_rate (bp_input face tenor adv risk bank ris))
          = Inl (BusinessRuleError ''RATE_CAP_EXCEEDED'')" if "1500 < bank + risk + ris"
  proof -
    have "1501 \<le> bank + risk + ris" using that by simp
    then have "(of_int 1501 :: rat) \<le> of_int (bank + risk + ris)" by (simp only: of_int_le_iff)
    then have "15 / 100 + 1 / 10 ^ 4 \<le> bp_rate (bank + risk + ris)" by (simp add: bp_rate_def)
    then have "c < y" using y(2) c(2) gap by linarith
    then show ?thesis by (simp add: validateRateCap_def y c)
  qed
qed

section \<open>Pricing an invoice\<close>

interpretation pricing_upd: guarded_status_update pricing_updateInvoiceStatusWithClient
  by unfold_locales (simp_all add: pricing_updateInvoiceStatusWithClient_def)

lemma js_div_precision_double:
  "\<bar>n\<bar> < 2 ^ 53 \<Longrightarrow> js_div_precision (js_Number n) = to_double (of_int n / 10 ^ 8)"
  by (simp add: js_div_precision_def js_Number_int js_div_fin_def)

definition stored_discount_rate :: "int \<Rightarrow> rat" where
  "stored_discount_rate n = of_int (round_half_away (of_int n / 10 ^ 8 * 10 ^ 6)) / 10 ^ 6"

lemma numeric_in_discount_rate:
  assumes "0 \<le> n" "n \<le> 15 * 10 ^ 6"
  shows "numeric_in 8 6 (js_div_precision (js_Number n)) = Inr (Some (stored_discount_rate n))"
proof -
  have n: "(0 :: rat) \<le> of_int n" "of_int n \<le> (of_int (15 * 10 ^ 6) :: rat)"
    using assms by (simp_all only: of_int_le_iff of_int_0_le_iff)
  then have n6: "of_int n / 10 ^ 8 * 10 ^ 6 \<le> (of_int (10 ^ 8 - 1) :: rat)" by simp
  have "\<bar>of_int n / 10 ^ 8 * 10 ^ 6\<bar> + 1 \<le> (of_int (10 ^ 8) :: rat)" using n n6 by simp
  then have b: "\<bar>round_half_away (of_int n / 10 ^ 8 * 10 ^ 6)\<bar> < 10 ^ 8" by (rule round_half_away_bound)
  have "\<bar>of_int n / 10 ^ 8\<bar> \<le> (999 :: rat)" using n by simp
  then have "numeric_in 8 6 (to_double (of_int n / 10 ^ 8)) = Inr (Some (stored_discount_rate n))"
    using b numeric_in_double [of n 8 8 6] by (simp only: Let_def stored_discount_rate_def if_True)
  moreover have "\<bar>n\<bar> < 2 ^ 53" using assms by simp
  ultimately show ?thesis by (simp only: js_div_precision_double)
qed

definition spec_component :: "int \<Rightarrow> int \<Rightarrow> int \<Rightarrow> int" where
  "spec_component face rate tenor = face * rate * tenor div (365 * 10 ^ 4)"

lemma fee_component_bp:
  assumes "0 \<le> face" "0 \<le> tenor" "is_bp n"
  shows "fee_component face (to_double (bp_rate n)) tenor = Inr (spec_component face n tenor)"
proof -
  have "0 \<le> n" using assms by (simp add: is_bp_def)
  then have "bigint_div (face * (n * 10 ^ 4) * tenor) (DAYS_PER_YEAR * PRECISION)
      = (face * n * tenor) * 10 ^ 4 div ((365 * 10 ^ 4) * 10 ^ 4)"
    using assms by (subst bigint_div_nonneg) (simp_all add: DAYS_PER_YEAR_def PRECISION_def mult_ac)
  also have "\<dots> = spec_component face n tenor"
    unfolding spec_component_def by (rule div_mult_mult2) simp
  finally show ?thesis using assms by (simp add: fee_component_def toScaled_bp)
qed

text \<open>The database after pricing.\<close>

definition priced_score :: "pricing_calculation \<Rightarrow> int \<Rightarrow> int \<Rightarrow> int \<Rightarrow> risk_score \<Rightarrow> risk_score" where
  "priced_score calc bank ris rate r =
     r\<lparr>rs_bank_cost_rate := Some (Some (bp_rate bank)), rs_ris_margin_rate := Some (Some (bp_rate ris)),
       rs_total_discount_rate := Some (Some (stored_discount_rate rate)),
       rs_advance := Some (pc_advance calc), rs_discount := Some (pc_discount calc),
       rs_net_payment := Some (pc_net_payment calc)\<rparr>"

definition priced_invoice :: "int \<Rightarrow> pricing_calculation \<Rightarrow> invoice \<Rightarrow> invoice" where
  "priced_invoice now calc r =
     r\<lparr>inv_advance := Some (pc_advance calc), inv_discount := Some (pc_discount calc),
       inv_net_payment := Some (pc_net_payment calc),
       inv_status := (if inv_status r = Inv_scored then Inv_priced else inv_status r),
       inv_updated_at := now\<rparr>"

definition priced_db :: "int \<Rightarrow> string \<Rightarrow> string \<Rightarrow> pricing_calculation \<Rightarrow> int \<Rightarrow> int \<Rightarrow> int \<Rightarrow> db \<Rightarrow> db" where
  "priced_db now i rid calc bank ris rate d =
     d\<lparr>t_risk_scores := update_where (\<lambda>r. rs_id r = rid) (priced_score calc bank ris rate) (t_risk_scores d),
       t_invoices := update_where (\<lambda>r. inv_id r = i) (priced_invoice now calc) (t_invoices d),
       t_audit := t_audit d @ [pricing_audit i calc (to_double (bp_rate bank)) (to_double (bp_rate ris))]\<rparr>"

lemma persistPricing_run:
  assumes "is_bp bank" "is_bp ris" "0 \<le> rate" "rate \<le> 15 * 10 ^ 6"
    and calc: "pc_total_discount_rate calc = js_div_precision (js_Number rate)"
    and amt: "bigint_in (pc_advance calc) = Inr (pc_advance calc)"
      "bigint_in (pc_discount calc) = Inr (pc_discount calc)"
      "bigint_in (pc_net_payment calc) = Inr (pc_net_payment calc)"
    and aud: "audit_ok (db w) None"
  shows "persistPricing i rid calc (to_double (bp_rate bank)) (to_double (bp_rate ris)) w
       = (Inr (), w\<lparr>db := priced_db (clock w) i rid calc bank ris rate (db w)\<rparr>)"
proof -
  have num: "numeric_in 5 4 (to_double (bp_rate n)) = Inr (Some (bp_rate n))" if "is_bp n" for n
    unfolding bp_rate_def using bp_rate_le [OF that] that
    by (intro numeric_in_decimal) (simp_all add: is_bp_def)
  have w1: "tryExecS (updateRiskScoreWithPricing rid
       \<lparr>pu_bank_cost_rate = to_double (bp_rate bank), pu_ris_margin_rate = to_double (bp_rate ris),
        pu_total_discount_rate = pc_total_discount_rate calc, pu_advance_amount = pc_advance calc,
        pu_discount_amount = pc_discount calc, pu_net_payment_to_supplier = pc_net_payment calc\<rparr>) v
     = (Inr (), v\<lparr>db := (db v)\<lparr>t_risk_scores := update_where (\<lambda>r. rs_id r = rid)
                     (priced_score calc bank ris rate) (t_risk_scores (db v))\<rparr>\<rparr>)" for v
    by (rule run_tryExec) (simp add: updateRiskScoreWithPricing_def num [OF assms(1)] num [OF assms(2)] calc
        numeric_in_discount_rate [OF assms(3,4)] amt priced_score_def [abs_def])
  have w2: "tryExecS (updateInvoiceWithPricing t i
       \<lparr>pu_bank_cost_rate = a, pu_ris_margin_rate = b, pu_total_discount_rate = c, pu_advance_amount = pc_advance calc,
        pu_discount_amount = pc_discount calc, pu_net_payment_to_supplier = pc_net_payment calc\<rparr>) v
     = (Inr (), v\<lparr>db := (db v)\<lparr>t_invoices := update_where (\<lambda>r. inv_id r = i)
            (\<lambda>r. r\<lparr>inv_advance := Some (pc_advance calc), inv_discount := Some (pc_discount calc),
                   inv_net_payment := Some (pc_net_payment calc), inv_updated_at := t\<rparr>) (t_invoices (db v))\<rparr>\<rparr>)"
    for v t a b c
    by (rule run_tryExec) (simp add: updateInvoiceWithPricing_def amt)
  have upd: "update_where (\<lambda>r. inv_id r = i \<and> inv_status r = Inv_scored)
       (\<lambda>r. r\<lparr>inv_status := Inv_priced, inv_updated_at := t\<rparr>)
       (update_where (\<lambda>r. inv_id r = i)
         (\<lambda>r. r\<lparr>inv_advance := Some (pc_advance calc), inv_discount := Some (pc_discount calc),
                   inv_net_payment := Some (pc_net_payment calc), inv_updated_at := t\<rparr>) rs)
     = update_where (\<lambda>r. inv_id r = i) (priced_invoice t calc) rs" for t rs
    by (subst update_where_twice) (auto simp: update_where_def priced_invoice_def)
  show ?thesis
    unfolding persistPricing_def priced_db_def using aud
    by (simp add: w1 w2 Let_def pricing_updateInvoiceStatusWithClient_def upd pricing_audit_def)
qed


definition pricing_notified :: "string \<Rightarrow> world \<Rightarrow> world" where
  "pricing_notified i w =
     (if queue_set w Pricing_notification
      then w\<lparr>jobs := jobs w @ [\<lparr>job_ref = Pricing_notification, job_name = ''pricing-ready'',
                               job_data = [(''invoiceId'', JStr i)]\<rparr>]\<rparr> else w)"

definition spec_fee_breakdown :: "invoice \<Rightarrow> pricing_calculation \<Rightarrow> int \<Rightarrow> int \<Rightarrow> int \<Rightarrow> int \<Rightarrow> fee_breakdown" where
  "spec_fee_breakdown iv calc adv risk bank ris =
     \<lparr>fb_face_value = inv_face_value iv,
      fb_advance_percentage = js_toFixed 2 (js_mul (to_double (bp_rate adv)) (Fin 100)),
      fb_advance = pc_advance calc,
      fb_discount_percentage = js_toFixed 4 (js_mul (pc_total_discount_rate calc) (Fin 100)),
      fb_discount = pc_discount calc, fb_net_payment = pc_net_payment calc,
      fb_bank_component = spec_component (inv_face_value iv) bank (inv_tenor_days iv),
      fb_risk_component = spec_component (inv_face_value iv) risk (inv_tenor_days iv),
      fb_ris_component = spec_component (inv_face_value iv) ris (inv_tenor_days iv),
      fb_collection_date = inv_due_date iv\<rparr>"

text \<open>
  An invoice that can be priced: scored, with an unpriced risk score whose rates are decimals, an
  active facility, a known buyer, a total annual rate below the cap, a tenor of at most a year.
\<close>

definition priceable :: "world \<Rightarrow> string \<Rightarrow> invoice \<Rightarrow> risk_score \<Rightarrow> int \<Rightarrow> int \<Rightarrow> int \<Rightarrow> int \<Rightarrow> bool" where
  "priceable w i iv rs adv risk bank ris \<longleftrightarrow>
     getInvoiceForPricing i (db w) = Some iv \<and> inv_status iv = Inv_scored
     \<and> 0 \<le> inv_face_value iv \<and> inv_face_value iv < 2 ^ 63
     \<and> 0 \<le> inv_tenor_days iv \<and> inv_tenor_days iv \<le> 365
     \<and> getRiskScoreForPricing i (db w) = Some rs \<and> rs_bank_cost_rate rs = None
     \<and> rs_max_advance_pct rs = Some (bp_rate adv) \<and> rs_risk_premium_rate rs = Some (bp_rate risk)
     \<and> map_option fac_interest_rate_annual (getActiveFacility (clock w) (db w)) = Some (bp_rate bank)
     \<and> getBuyerRisMargin (inv_buyer iv) (db w) = Some (bp_rate ris)
     \<and> is_bp adv \<and> is_bp risk \<and> is_bp bank \<and> is_bp ris
     \<and> 1500 \<le> adv \<and> adv \<le> 10 ^ 4 \<and> bank + risk + ris < 1500
     \<and> audit_ok (db w) None \<and> (queue_set w Pricing_notification \<longrightarrow> redis_up w)"

abbreviation priced_calc :: "invoice \<Rightarrow> int \<Rightarrow> int \<Rightarrow> int \<Rightarrow> int \<Rightarrow> pricing_calculation" where
  "priced_calc iv adv risk bank ris \<equiv>
     spec_pricing (inv_face_value iv) (inv_tenor_days iv) adv risk bank ris"

lemma priced_calc_bounds:
  assumes "priceable w i iv rs adv risk bank ris"
  defines "calc \<equiv> priced_calc iv adv risk bank ris"
  shows "0 \<le> pc_discount calc" "pc_discount calc \<le> pc_advance calc" "pc_advance calc \<le> inv_face_value iv"
    "0 \<le> pc_net_payment calc" "pc_net_payment calc + pc_discount calc = pc_advance calc"
    "pc_bank_cost calc + pc_ris_net_profit calc = pc_discount calc" "0 \<le> pc_ris_net_profit calc"
proof -
  have a: "0 \<le> inv_face_value iv" "0 \<le> inv_tenor_days iv" "inv_tenor_days iv \<le> 365" "0 \<le> adv" "adv \<le> 10 ^ 4"
    "0 \<le> bank" "0 \<le> bank + risk + ris" "bank + risk + ris \<le> 1500" "bank \<le> bank + risk + ris" "1500 \<le> adv"
    using assms by (auto simp: priceable_def is_bp_def)
  show "0 \<le> pc_discount calc" "pc_advance calc \<le> inv_face_value iv"
    "pc_net_payment calc + pc_discount calc = pc_advance calc"
    "pc_bank_cost calc + pc_ris_net_profit calc = pc_discount calc"
    using a by (simp_all add: calc_def spec_pricing_def spec_nonneg spec_advance_le)
  show le: "pc_discount calc \<le> pc_advance calc"
    using spec_discount_cap [OF a(1,7,8,2,3)] spec_advance_mono [OF a(1,10)]
    by (simp add: calc_def spec_pricing_def)
  then show "0 \<le> pc_net_payment calc" by (simp add: calc_def spec_pricing_def)
  show "0 \<le> pc_ris_net_profit calc"
    using spec_bank_cost_le [OF a(1,2,4,5,6,9)] by (simp add: calc_def spec_pricing_def)
qed

lemma priceInvoice_run:
  assumes p: "priceable w i iv rs adv risk bank ris"
  defines "calc \<equiv> priced_calc iv adv risk bank ris"
  defines "rate \<equiv> spec_discount_rate (bank + risk + ris) (inv_tenor_days iv)"
  shows "priceInvoice i w =
     (Inr \<lparr>pr_invoice = i, pr_face_value = inv_face_value iv, pr_advance = pc_advance calc,
           pr_discount = pc_discount calc, pr_net_payment = pc_net_payment calc,
           pr_bank_cost_rate = to_double (bp_rate bank), pr_risk_premium_rate = to_double (bp_rate risk),
           pr_ris_margin_rate = to_double (bp_rate ris), pr_total_discount_rate = pc_total_discount_rate calc,
           pr_bank_cost = pc_bank_cost calc, pr_ris_net_profit = pc_ris_net_profit calc,
           pr_fee_breakdown = spec_fee_breakdown iv calc adv risk bank ris\<rparr>,
      pricing_notified i (w\<lparr>db := priced_db (clock w) i (rs_id rs) calc bank ris rate (db w)\<rparr>))"
proof -
  note bd = priced_calc_bounds [OF p, folded calc_def]
  have bp: "is_bp adv" "is_bp risk" "is_bp bank" "is_bp ris"
    and pos: "0 \<le> inv_face_value iv" "0 \<le> inv_tenor_days iv" using p by (simp_all add: priceable_def)
  obtain fac where fac: "getActiveFacility (clock w) (db w) = Some fac" "fac_interest_rate_annual fac = bp_rate bank"
    using p by (auto simp: priceable_def)
  have inp: "pricing_input_of iv rs fac (bp_rate ris) = bp_input (inv_face_value iv) (inv_tenor_days iv) adv risk bank ris"
    using p fac by (simp add: pricing_input_of_def bp_input_def priceable_def numeric_out_def)
  have calc: "calculatePricing (bp_input (inv_face_value iv) (inv_tenor_days iv) adv risk bank ris) = Inr calc"
    unfolding calc_def using pos bp by (rule calculatePricing_bp)
  have cap: "validateRateCap (total_annual_rate (bp_input (inv_face_value iv) (inv_tenor_days iv) adv risk bank ris)) = Inr ()"
    using p by (intro rate_cap_bp(1)) (simp_all add: priceable_def)
  have ann: "0 \<le> bank + risk + ris" "bank + risk + ris \<le> 1500" and ten: "inv_tenor_days iv \<le> 365"
    using p by (auto simp: priceable_def is_bp_def)
  have rng: "0 \<le> rate" "rate \<le> 15 * 10 ^ 6" unfolding rate_def
    by (rule spec_nonneg(1) [OF ann(1) pos(2)], rule spec_discount_rate_cap [OF ann pos(2) ten])
  have amt: "bigint_in (pc_advance calc) = Inr (pc_advance calc)" "bigint_in (pc_discount calc) = Inr (pc_discount calc)"
    "bigint_in (pc_net_payment calc) = Inr (pc_net_payment calc)"
    using bd p by (auto intro!: bigint_in_range simp: priceable_def)
  have rate: "pc_total_discount_rate calc = js_div_precision (js_Number rate)"
    by (simp add: calc_def rate_def spec_pricing_def)
  have aud: "audit_ok (db w) None" and q: "queue_set w Pricing_notification \<Longrightarrow> redis_up w"
    using p by (simp_all add: priceable_def)
  note persist = persistPricing_run [OF bp(3,4) rng rate amt aud, of i "rs_id rs"]
  have fee: "buildFeeBreakdown (fee_input_of iv (bp_input (inv_face_value iv) (inv_tenor_days iv) adv risk bank ris) calc)
      = Inr (spec_fee_breakdown iv calc adv risk bank ris)"
    using pos bp by (simp add: buildFeeBreakdown_def fee_input_of_def bp_input_def fee_component_bp spec_fee_breakdown_def)
  have in2: "pi_bank_cost_rate (bp_input f t a r b m) = to_double (bp_rate b)"
    "pi_ris_margin_rate (bp_input f t a r b m) = to_double (bp_rate m)"
    "pi_risk_premium_rate (bp_input f t a r b m) = to_double (bp_rate r)" for f t a r b m
    by (simp_all add: bp_input_def)
  show ?thesis
    using p q unfolding priceable_def priceInvoice_def
    by (simp add: pricing_fetchAndValidateInvoice_def fetchAndValidateRiskScore_def fetchActiveFacility_def
        fetchBuyerMargin_def fac inp calc cap in2 persist fee Let_def queuePricingReadyNotification_def run_enqueue
        pricing_notified_def del: One_nat_def)
qed

subsection \<open>After pricing\<close>

lemma keeps_db_pricing [atomic_intro]:
  "keeps_db (pricing_fetchAndValidateInvoice i)" "keeps_db (fetchAndValidateRiskScore i)"
  "keeps_db fetchActiveFacility" "keeps_db (fetchBuyerMargin b)"
  "keeps_db (resolveSupplier u)" "keeps_db (fetchAndValidatePricingAcceptance i s)"
  by (auto simp: pricing_fetchAndValidateInvoice_def fetchAndValidateRiskScore_def fetchActiveFacility_def
      fetchBuyerMargin_def resolveSupplier_def fetchAndValidatePricingAcceptance_def intro!: atomic_intro)

text \<open>The fee breakdown scales the rates the calculation has already scaled: it cannot fail.\<close>

lemma buildFeeBreakdown_total:
  "calculatePricing p = Inr calc \<Longrightarrow> \<exists>fee. buildFeeBreakdown (fee_input_of iv p calc) = Inr fee"
  by (auto simp: calculatePricing_def buildFeeBreakdown_def fee_input_of_def fee_component_def svc_succ)

lemma atomic_persistPricing [atomic_intro]: "atomic_upto Q (persistPricing i rid calc b m)"
  unfolding persistPricing_def Let_def by (intro atomic_intro)

lemma atomic_priceInvoice: "atomic_upto (\<lambda>e. e = QueueError) (priceInvoice i)"
proof -
  have tail: "atomic_upto (\<lambda>e. e = QueueError)
     (bindS (liftS (calculatePricing p)) (\<lambda>calc.
        thenS (liftS (validateRateCap r))
        (thenS (persistPricing i rid calc b m)
        (bindS (liftS (buildFeeBreakdown (fee_input_of iv p calc))) (\<lambda>fee.
           thenS (queuePricingReadyNotification i) (returnS (res calc fee)))))))" for p r rid b m iv res
  proof (cases "calculatePricing p")
    case (Inl e)
    then show ?thesis by (simp add: atomic_upto_def bindS_fail)
  next
    case (Inr calc)
    obtain fee where fee: "buildFeeBreakdown (fee_input_of iv p calc) = Inr fee"
      using buildFeeBreakdown_total [OF Inr] by blast
    have "atomic_upto (\<lambda>e. e = QueueError)
       (thenS (liftS (validateRateCap r))
        (thenS (persistPricing i rid calc b m)
        (bindS (liftS (Inr fee)) (\<lambda>fee.
           thenS (queuePricingReadyNotification i) (returnS (res calc fee))))))"
      unfolding queuePricingReadyNotification_def
      by (rule atomic_then [OF keeps_db_basic(6)], rule atomic_then_last [OF atomic_persistPricing])
        (intro fails_only_bind fails_only_then fails_only_basic fails_only_lift)
    then show ?thesis by (simp only: Inr bind_lift fee)
  qed
  show ?thesis unfolding priceInvoice_def Let_def by (intro atomic_bind tail keeps_db_pricing)
qed

lemma priced_lookup:
  assumes "priceable w i iv rs adv risk bank ris"
  shows "getInvoiceForPricing i (priced_db t i rid calc b m rate (db w)) = Some (priced_invoice t calc iv)"
    and "j \<noteq> i \<Longrightarrow> getInvoiceForPricing j (priced_db t i rid calc b m rate (db w)) = getInvoiceForPricing j (db w)"
proof -
  have l: "getInvoiceForPricing j (priced_db t i rid calc b m rate (db w))
      = map_option (\<lambda>r. if inv_id r = i then priced_invoice t calc r else r) (getInvoiceForPricing j (db w))" for j
    unfolding getInvoiceForPricing_def priced_db_def
    by (simp add: select_one_update_where priced_invoice_def)
  have iv: "getInvoiceForPricing i (db w) = Some iv" using assms by (simp add: priceable_def)
  then have "inv_id iv = i" unfolding getInvoiceForPricing_def by (rule select_one_key)
  with iv show "getInvoiceForPricing i (priced_db t i rid calc b m rate (db w)) = Some (priced_invoice t calc iv)"
    by (simp add: l)
  show "getInvoiceForPricing j (priced_db t i rid calc b m rate (db w)) = getInvoiceForPricing j (db w)" if "j \<noteq> i"
    using that select_one_key [of inv_id j "t_invoices (db w)"] unfolding l
    by (cases "getInvoiceForPricing j (db w)") (auto simp: getInvoiceForPricing_def)
qed

lemma pricing_notified_db [simp]:
  "db (pricing_notified i w) = db w" "clock (pricing_notified i w) = clock w"
  by (simp_all add: pricing_notified_def)

lemma priceInvoice_wrong_status:
  "getInvoiceForPricing i (db w) = Some iv \<Longrightarrow> inv_status iv \<noteq> Inv_scored \<Longrightarrow>
   priceInvoice i w = (Inl (BusinessRuleError ''INVOICE_WRONG_STATUS''), w)"
  by (simp add: priceInvoice_def pricing_fetchAndValidateInvoice_def)

lemma priced_details:
  assumes p: "priceable w i iv rs adv risk bank ris"
    and u: "distinct (map rs_invoice (t_risk_scores (db w)))"
  shows "getPricingDetails i (priced_db t i (rs_id rs) calc b m rate (db w))
       = Some (priced_score calc b m rate rs, priced_invoice t calc iv)"
proof -
  let ?d = "priced_db t i (rs_id rs) calc b m rate (db w)"
  have rs: "select_one (\<lambda>r. rs_invoice r = i) (t_risk_scores (db w)) = Some rs"
    using p by (simp add: priceable_def getRiskScoreForPricing_def)
  have ri: "rs_invoice rs = i" using select_one_key [OF rs] .
  have "filter (\<lambda>r. rs_invoice r = i) (t_risk_scores ?d) = [priced_score calc b m rate rs]"
    by (simp add: priced_db_def filter_update_where priced_score_def filter_key_unique [OF u rs])
  then have f: "filter (\<lambda>r. rs_invoice r = i \<and> rs_bank_cost_rate r \<noteq> None) (t_risk_scores ?d)
      = [priced_score calc b m rate rs]"
    using ri by (simp flip: filter_filter) (simp add: priced_score_def)
  obtain qs where "filter (\<lambda>r. inv_id r = i) (t_invoices ?d) = priced_invoice t calc iv # qs"
    using priced_lookup(1) [OF p, of t "rs_id rs" calc b m rate]
    unfolding getInvoiceForPricing_def select_one_def
    by (cases "filter (\<lambda>r. inv_id r = i) (t_invoices ?d)") auto
  then show ?thesis unfolding getPricingDetails_def f using ri by (simp add: priced_score_def)
qed

section \<open>Properties\<close>

definition pricing_world :: world where
  "pricing_world = world_of (blank_db\<lparr>t_invoices := [sample_invoice Inv_scored],
     t_suppliers := [sample_supplier], t_buyers := [sample_buyer], t_facilities := [sample_facility],
     t_risk_scores := [sample_score], t_users := [sample_user ''su'' None]\<rparr>)"

lemma pricing_world_priceable:
  "priceable pricing_world ''inv'' (sample_invoice Inv_scored) sample_score 9000 100 600 300"
  by (simp add: priceable_def pricing_world_def sample_defs getInvoiceForPricing_def
      getRiskScoreForPricing_def getActiveFacility_def getBuyerRisMargin_def bp_rate_def is_bp_def)

text \<open>
  on rates that are decimals of at most eight places below 999, \<open>toScaled\<close> is exact although it
  goes through a double product and \<open>Math.round\<close>: the result is the rate times \<open>10^8\<close>.
\<close>

theorem toScaled_exact:
  assumes "\<bar>of_int n / 10 ^ k\<bar> \<le> (999 :: rat)" and "k \<le> 8"
  shows "toScaled (to_double (of_int n / 10 ^ k)) = Inr (n * 10 ^ (8 - k))"
  using assms by (rule toScaled_decimal)

theorem toScaled_exact_witness: "toScaled (to_double (of_int 1234567 / 10 ^ 7)) = Inr 12345670"
  using toScaled_exact [of 1234567 7] by simp

text \<open>
  C1: pricing an invoice that can be priced returns; the advance is the advance percentage of the
  face value, the discount the annual rate for the tenor on the face value, the bank cost the bank
  rate for the tenor on the advance, all by integer arithmetic on basis points; the net payment is
  the advance less the discount and the RIS profit the discount less the bank cost; none of the
  five is negative, the advance is at most the face value, and the discount is below the ideal
  real-valued one by less than a shilling and \<open>10^-8\<close> of the face. Every amount is rounded down;
  REQ-PRICE-001 asks for the nearest shilling.
\<close>

theorem priceInvoice_amounts:
  assumes "priceable w i iv rs adv risk bank ris"
  shows "\<exists>res w'. priceInvoice i w = (Inr res, w')
    \<and> pr_advance res = inv_face_value iv * adv div 10 ^ 4
    \<and> pr_discount res = inv_face_value iv * ((bank + risk + ris) * 10 ^ 4 * inv_tenor_days iv div 365) div 10 ^ 8
    \<and> pr_net_payment res = pr_advance res - pr_discount res
    \<and> pr_bank_cost res = pr_advance res * (bank * 10 ^ 4 * inv_tenor_days iv div 365) div 10 ^ 8
    \<and> pr_ris_net_profit res = pr_discount res - pr_bank_cost res
    \<and> 0 \<le> pr_advance res \<and> 0 \<le> pr_discount res \<and> 0 \<le> pr_net_payment res \<and> 0 \<le> pr_bank_cost res \<and> 0 \<le> pr_ris_net_profit res
    \<and> pr_advance res \<le> inv_face_value iv
    \<and> of_int (pr_discount res) \<le> of_int (inv_face_value iv) * bp_rate (bank + risk + ris) * of_int (inv_tenor_days iv) / 365
    \<and> of_int (inv_face_value iv) * bp_rate (bank + risk + ris) * of_int (inv_tenor_days iv) / 365
        < of_int (pr_discount res) + 1 + of_int (inv_face_value iv) / 10 ^ 8"
proof -
  have a: "0 \<le> inv_face_value iv" "0 \<le> bank + risk + ris" "0 \<le> inv_tenor_days iv" "0 \<le> adv" "0 \<le> bank"
    using assms by (auto simp: priceable_def is_bp_def)
  note err = spec_discount_error [OF a(1-3)]
  let ?c = "priced_calc iv adv risk bank ris"
  have spec: "pc_advance ?c = inv_face_value iv * adv div 10 ^ 4"
    "pc_discount ?c = inv_face_value iv * ((bank + risk + ris) * 10 ^ 4 * inv_tenor_days iv div 365) div 10 ^ 8"
    "pc_discount ?c = spec_discount (inv_face_value iv) (bank + risk + ris) (inv_tenor_days iv)"
    "pc_net_payment ?c = pc_advance ?c - pc_discount ?c"
    "pc_bank_cost ?c = pc_advance ?c * (bank * 10 ^ 4 * inv_tenor_days iv div 365) div 10 ^ 8"
    "pc_ris_net_profit ?c = pc_discount ?c - pc_bank_cost ?c"
    by (simp_all only: spec_pricing_def pricing_calculation.simps spec_advance_def spec_discount_def spec_discount_rate_def spec_bank_cost_def)
  have nn: "0 \<le> pc_advance ?c" "0 \<le> pc_bank_cost ?c"
    using a by (simp_all add: spec_pricing_def spec_bank_cost_def spec_nonneg pos_imp_zdiv_nonneg_iff)
  note bd = priced_calc_bounds [OF assms] and er = err [folded spec(3)]
  show ?thesis
    unfolding priceInvoice_run [OF assms]
    by (intro exI conjI, rule refl) (unfold pricing_result.simps, (fact spec bd er nn)+)
qed

theorem priceInvoice_amounts_witness:
  "\<exists>res w'. priceInvoice ''inv'' pricing_world = (Inr res, w') \<and> pr_advance res = 900000 \<and> pr_discount res = 24657
    \<and> pr_net_payment res = 875343 \<and> pr_bank_cost res = 13315 \<and> pr_ris_net_profit res = 11342"
  using priceInvoice_amounts [OF pricing_world_priceable] by (auto simp: sample_invoice_def)

text \<open>
  C22: a successful pricing writes exactly what it returns, and nothing else: the invoice carries
  the three amounts and goes from scored to priced, the risk score carries the two rates, the
  discount rate at the column's six decimals and the same amounts, one audit entry is added with
  all of them, and one notification naming the invoice is queued when its queue is configured;
  every other row and table is the one before. There is no VAT and no withholding tax among the
  amounts, though REQ-PRICE-003 lists both.
\<close>

theorem priceInvoice_writes:
  assumes "priceable w i iv rs adv risk bank ris" and "priceInvoice i w = (Inr res, w')"
  shows "w' = w\<lparr>db := (db w)\<lparr>
        t_invoices := update_where (\<lambda>r. inv_id r = i) (\<lambda>r. r\<lparr>inv_advance := Some (pr_advance res), inv_discount := Some (pr_discount res),
          inv_net_payment := Some (pr_net_payment res), inv_status := (if inv_status r = Inv_scored then Inv_priced else inv_status r),
          inv_updated_at := clock w\<rparr>) (t_invoices (db w)),
        t_risk_scores := update_where (\<lambda>r. rs_id r = rs_id rs) (\<lambda>r. r\<lparr>rs_bank_cost_rate := Some (Some (bp_rate bank)),
          rs_ris_margin_rate := Some (Some (bp_rate ris)),
          rs_total_discount_rate := Some (Some (of_int (round_half_away
            (of_int ((bank + risk + ris) * 10 ^ 4 * inv_tenor_days iv div 365) / 10 ^ 8 * 10 ^ 6)) / 10 ^ 6)),
          rs_advance := Some (pr_advance res), rs_discount := Some (pr_discount res), rs_net_payment := Some (pr_net_payment res)\<rparr>)
          (t_risk_scores (db w)),
        t_audit := t_audit (db w) @ [\<lparr>aud_user = None, aud_action = ''INVOICE_PRICED'', aud_table = ''risk_scores'', aud_record = Some i,
          aud_old = Some [(''status'', JStr ''scored'')],
          aud_new = [(''status'', JStr ''priced''), (''advanceAmount'', JInt (pr_advance res)), (''discountAmount'', JInt (pr_discount res)),
            (''netPaymentToSupplier'', JInt (pr_net_payment res)), (''bankCostRate'', JNum (to_double (bp_rate bank))),
            (''risMarginRate'', JNum (to_double (bp_rate ris))), (''totalDiscountRate'', JNum (pr_total_discount_rate res))],
          aud_ip = None, aud_agent = None, aud_created_at = None\<rparr>]\<rparr>,
      jobs := jobs w @ (if queue_set w Pricing_notification
        then [\<lparr>job_ref = Pricing_notification, job_name = ''pricing-ready'', job_data = [(''invoiceId'', JStr i)]\<rparr>] else [])\<rparr>
    \<and> map_option inv_status (getInvoiceForPricing i (db w')) = Some Inv_priced"
proof -
  have st: "inv_status iv = Inv_scored" using assms(1) by (simp add: priceable_def)
  let ?c = "priced_calc iv adv risk bank ris" and ?rate = "spec_discount_rate (bank + risk + ris) (inv_tenor_days iv)"
  let ?w = "pricing_notified i (w\<lparr>db := priced_db (clock w) i (rs_id rs) ?c bank ris ?rate (db w)\<rparr>)"
  have run: "w' = ?w" "pr_advance res = pc_advance ?c" "pr_discount res = pc_discount ?c" "pr_net_payment res = pc_net_payment ?c"
    "pr_total_discount_rate res = pc_total_discount_rate ?c"
    using assms(2) unfolding priceInvoice_run [OF assms(1)] by auto
  have look: "map_option inv_status (getInvoiceForPricing i (db w')) = Some Inv_priced"
    using priced_lookup(1) [OF assms(1)] st by (simp add: run(1) priced_invoice_def)
  show ?thesis
    using look unfolding run
    by (simp add: pricing_notified_def priced_db_def priced_invoice_def [abs_def] priced_score_def [abs_def] stored_discount_rate_def
        spec_discount_rate_def pricing_audit_def audit_sys_def)
qed

theorem priceInvoice_writes_witness:
  "\<exists>res w'. priceInvoice ''inv'' pricing_world = (Inr res, w')
    \<and> map_option inv_status (getInvoiceForPricing ''inv'' (db w')) = Some Inv_priced"
proof -
  obtain res w' where r: "priceInvoice ''inv'' pricing_world = (Inr res, w')"
    using priceInvoice_run [OF pricing_world_priceable] by blast
  show ?thesis using r priceInvoice_writes [OF pricing_world_priceable r] by auto
qed

text \<open>
  pricing is atomic: whatever the state of the system, a call that throws any error other than
  the failed hand-over to the notification queue leaves the database as it was.
\<close>

theorem priceInvoice_atomic:
  assumes "priceInvoice i w = (Inl e, w')" and "e \<noteq> QueueError"
  shows "db w' = db w"
  using atomic_priceInvoice [of i] assms unfolding atomic_upto_def by blast

theorem priceInvoice_atomic_witness:
  "priceInvoice ''none'' pricing_world = (Inl (NotFoundError ''Invoice'' ''none''), pricing_world)
   \<and> db pricing_world = db pricing_world"
proof -
  have r: "priceInvoice ''none'' pricing_world = (Inl (NotFoundError ''Invoice'' ''none''), pricing_world)"
    by (simp add: priceInvoice_def pricing_fetchAndValidateInvoice_def getInvoiceForPricing_def
        pricing_world_def sample_defs)
  show ?thesis using r priceInvoice_atomic [OF r] by simp
qed

text \<open>
  an invoice is priced at most once: after a successful pricing a second call, at any later time,
  is refused with \<open>INVOICE_WRONG_STATUS\<close> and changes nothing.
\<close>

theorem priceInvoice_once:
  assumes "priceable w i iv rs adv risk bank ris" and "priceInvoice i w = (Inr res, w')"
  shows "priceInvoice i (w'\<lparr>clock := t\<rparr>) = (Inl (BusinessRuleError ''INVOICE_WRONG_STATUS''), w'\<lparr>clock := t\<rparr>)"
proof -
  have "db w' = priced_db (clock w) i (rs_id rs) (priced_calc iv adv risk bank ris) bank ris
      (spec_discount_rate (bank + risk + ris) (inv_tenor_days iv)) (db w)"
    using assms(2) by (auto simp: priceInvoice_run [OF assms(1)])
  then show ?thesis
    using priced_lookup(1) [OF assms(1)] assms(1)
    by (intro priceInvoice_wrong_status) (auto simp: priced_invoice_def priceable_def)
qed

theorem priceInvoice_once_witness:
  "\<exists>res w'. priceInvoice ''inv'' pricing_world = (Inr res, w')
     \<and> fst (priceInvoice ''inv'' (w'\<lparr>clock := 5\<rparr>)) = Inl (BusinessRuleError ''INVOICE_WRONG_STATUS'')"
proof -
  obtain res w' where r: "priceInvoice ''inv'' pricing_world = (Inr res, w')"
    using priceInvoice_run [OF pricing_world_priceable] by blast
  show ?thesis using r priceInvoice_once [OF pricing_world_priceable r, of 5] by auto
qed

text \<open>Reading the price back: the amounts, the rates and the derived profit are those of the write.\<close>

lemma getPricing_run:
  assumes p: "priceable w i iv rs adv risk bank ris" and d: "db w' = priced_db t i (rs_id rs) calc bank ris rate (db w)"
    and u: "distinct (map rs_invoice (t_risk_scores (db w)))"
    and c: "calc = priced_calc iv adv risk bank ris"
  shows "\<exists>res. getPricing i w' = (Inr res, w') \<and> pr_invoice res = i \<and> pr_face_value res = inv_face_value iv
    \<and> pr_advance res = pc_advance calc \<and> pr_discount res = pc_discount calc
    \<and> pr_net_payment res = pc_net_payment calc \<and> pr_bank_cost_rate res = to_double (bp_rate bank)
    \<and> pr_risk_premium_rate res = to_double (bp_rate risk) \<and> pr_ris_margin_rate res = to_double (bp_rate ris)
    \<and> pr_total_discount_rate res = to_double (stored_discount_rate rate)
    \<and> pr_bank_cost res = pc_bank_cost calc \<and> pr_ris_net_profit res = pc_ris_net_profit calc
    \<and> fb_bank_component (pr_fee_breakdown res) = spec_component (inv_face_value iv) bank (inv_tenor_days iv)"
proof -
  have bp: "is_bp adv" "is_bp risk" "is_bp bank" "is_bp ris"
    and pos: "0 \<le> inv_face_value iv" "0 \<le> inv_tenor_days iv"
    and sc: "rs_max_advance_pct rs = Some (bp_rate adv)" "rs_risk_premium_rate rs = Some (bp_rate risk)" "rs_invoice rs = i"
    using p select_one_key [of rs_invoice i "t_risk_scores (db w)" rs]
    by (auto simp: priceable_def getRiskScoreForPricing_def)
  have "0 \<le> adv" "0 \<le> bank" using bp by (simp_all add: is_bp_def)
  then have bc: "bigint_div (pc_advance calc * bigint_div (bank * 10 ^ 4 * inv_tenor_days iv) DAYS_PER_YEAR) PRECISION = pc_bank_cost calc"
    using pos unfolding c spec_pricing_def
    by (simp add: bigint_div_nonneg spec_bank_cost_def spec_discount_rate_def DAYS_PER_YEAR_def PRECISION_def
        spec_nonneg pos_imp_zdiv_nonneg_iff)
  have np: "pc_discount calc - pc_bank_cost calc = pc_ris_net_profit calc" by (simp add: c spec_pricing_def)
  note det = priced_details [OF p u, of t calc bank ris rate, folded d]
  show ?thesis
    unfolding getPricing_def
    by (simp add: det sc priced_score_def priced_invoice_def bigint_of_column_def rate_of_column_def numeric_out_def
        Let_def toScaled_bp bp pos buildFeeBreakdown_def fee_component_bp bc [simplified] np)
qed

lemma stored_discount_rate_err: "\<bar>stored_discount_rate n - of_int n / 10 ^ 8\<bar> \<le> 1 / (2 * 10 ^ 6)"
proof -
  have "\<bar>of_int (round_half_away (of_int n / 10 ^ 8 * 10 ^ 6)) - of_int n / 10 ^ 8 * 10 ^ 6\<bar> \<le> (1 / 2 :: rat)"
    by (rule round_half_away_err)
  then have "\<bar>(stored_discount_rate n - of_int n / 10 ^ 8) * 10 ^ 6\<bar> \<le> (1 / 2 :: rat)"
    by (simp add: stored_discount_rate_def left_diff_distrib)
  then show ?thesis unfolding abs_mult by (simp add: field_simps)
qed

text \<open>
  C40: a price read back with \<open>getPricing\<close> is the price \<open>priceInvoice\<close> returned: the amounts, the
  rates, the bank cost and the profit recomputed from the stored columns are the same, and the total
  discount rate differs by at most half a unit of its column's sixth decimal place.
\<close>

theorem getPricing_roundtrip:
  assumes "priceable w i iv rs adv risk bank ris" and "distinct (map rs_invoice (t_risk_scores (db w)))"
    and "priceInvoice i w = (Inr res, w')"
  shows "\<exists>res'. getPricing i w' = (Inr res', w')
    \<and> (pr_face_value res', pr_advance res', pr_discount res', pr_net_payment res')
      = (pr_face_value res, pr_advance res, pr_discount res, pr_net_payment res)
    \<and> (pr_bank_cost_rate res', pr_risk_premium_rate res', pr_ris_margin_rate res')
      = (pr_bank_cost_rate res, pr_risk_premium_rate res, pr_ris_margin_rate res)
    \<and> (pr_bank_cost res', pr_ris_net_profit res') = (pr_bank_cost res, pr_ris_net_profit res)
    \<and> (\<exists>x y. pr_total_discount_rate res' = to_double x \<and> pr_total_discount_rate res = to_double y
             \<and> \<bar>x - y\<bar> \<le> 1 / (2 * 10 ^ 6))"
proof -
  let ?rate = "spec_discount_rate (bank + risk + ris) (inv_tenor_days iv)"
  note run = assms(3) [unfolded priceInvoice_run [OF assms(1)]]
  have d: "db w' = priced_db (clock w) i (rs_id rs) (priced_calc iv adv risk bank ris) bank ris ?rate (db w)"
    using run by auto
  have "\<bar>?rate\<bar> < 2 ^ 53"
    using assms(1) spec_discount_rate_cap [of "bank + risk + ris" "inv_tenor_days iv"]
      spec_nonneg(1) [of "bank + risk + ris" "inv_tenor_days iv"] by (auto simp: priceable_def is_bp_def)
  then have t: "pr_total_discount_rate res = to_double (of_int ?rate / 10 ^ 8)"
    using run js_div_precision_double by (auto simp: spec_pricing_def)
  obtain res' where g: "getPricing i w' = (Inr res', w')" "pr_total_discount_rate res' = to_double (stored_discount_rate ?rate)"
    and eq: "pr_face_value res' = pr_face_value res" "pr_advance res' = pr_advance res" "pr_discount res' = pr_discount res"
      "pr_net_payment res' = pr_net_payment res" "pr_bank_cost_rate res' = pr_bank_cost_rate res"
      "pr_risk_premium_rate res' = pr_risk_premium_rate res" "pr_ris_margin_rate res' = pr_ris_margin_rate res"
      "pr_bank_cost res' = pr_bank_cost res" "pr_ris_net_profit res' = pr_ris_net_profit res"
    using getPricing_run [OF assms(1) d assms(2) refl] run by auto
  show ?thesis
    by (intro exI [of _ res'] conjI g(1) exI [of _ "stored_discount_rate ?rate"] exI [of _ "of_int ?rate / 10 ^ 8"]
        g(2) t stored_discount_rate_err) (simp_all only: eq)
qed

theorem getPricing_roundtrip_witness:
  "\<exists>res w' res'. priceInvoice ''inv'' pricing_world = (Inr res, w') \<and> getPricing ''inv'' w' = (Inr res', w')
     \<and> pr_net_payment res' = pr_net_payment res"
proof -
  obtain res w' where r: "priceInvoice ''inv'' pricing_world = (Inr res, w')"
    using priceInvoice_run [OF pricing_world_priceable] by blast
  have "distinct (map rs_invoice (t_risk_scores (db pricing_world)))"
    by (simp add: pricing_world_def sample_defs)
  from getPricing_roundtrip [OF pricing_world_priceable this r] r show ?thesis by auto
qed

text \<open>
  the annual rate cap, checked on a double sum, decides correctly for every total that is not
  exactly the cap: below fifteen per cent by at least a basis point the cap accepts, above it refuses.
\<close>

theorem rate_cap_correct:
  assumes "is_bp risk" and "is_bp bank" and "is_bp ris" and "bank + risk + ris \<noteq> 1500"
  shows "validateRateCap (js_add (js_add (to_double (bp_rate bank)) (to_double (bp_rate risk))) (to_double (bp_rate ris)))
       = (if bank + risk + ris \<le> 1500 then Inr () else Inl (BusinessRuleError ''RATE_CAP_EXCEEDED''))"
proof -
  have e: "js_add (js_add (to_double (bp_rate bank)) (to_double (bp_rate risk))) (to_double (bp_rate ris))
      = total_annual_rate (bp_input 0 0 0 risk bank ris)"
    by (simp add: total_annual_rate_def bp_input_def)
  show ?thesis unfolding e using rate_cap_bp [OF assms(1-3), of 0 0 0] assms(4) by auto
qed

theorem rate_cap_correct_witness:
  "validateRateCap (js_add (js_add (to_double (bp_rate 600)) (to_double (bp_rate 100))) (to_double (bp_rate 300))) = Inr ()
   \<and> validateRateCap (js_add (js_add (to_double (bp_rate 1400)) (to_double (bp_rate 101))) (to_double (bp_rate 0)))
     = Inl (BusinessRuleError ''RATE_CAP_EXCEEDED'')"
  using rate_cap_correct [of 100 600 300] rate_cap_correct [of 101 1400 0] by (simp add: is_bp_def)

text \<open>The doubles at the cap.\<close>

lemma cap_doubles:
  "to_double (15 / 100) = Fin (5404319552844595 / 2 ^ 55)"
  "to_double (bp_rate 1000) = Fin (7205759403792794 / 2 ^ 56)"
  "to_double (bp_rate 500) = Fin (7205759403792794 / 2 ^ 57)"
  "to_double (bp_rate 0) = Fin 0"
  "to_double (7205759403792794 / 2 ^ 56 + 7205759403792794 / 2 ^ 57) = Fin (5404319552844596 / 2 ^ 55)"
  "to_double (5404319552844596 / 2 ^ 55) = Fin (5404319552844596 / 2 ^ 55)"
  by (rule to_double_eval; (simp add: bp_rate_def; fail)?; code_simp)+

text \<open>
  at the cap itself the double sum decides, and wrongly: bank cost ten per cent and risk premium
  five per cent make exactly fifteen per cent, which the documented maximum allows, and are
  refused, because the double sum of 0.1 and 0.05 lies above the double 0.15.
\<close>

theorem rate_cap_refuses_exact_cap:
  "bp_rate 1000 + bp_rate 500 + bp_rate 0 = 15 / 100
   \<and> validateRateCap (js_add (js_add (to_double (bp_rate 1000)) (to_double (bp_rate 500))) (to_double (bp_rate 0)))
     = Inl (BusinessRuleError ''RATE_CAP_EXCEEDED'')"
proof
  show "bp_rate 1000 + bp_rate 500 + bp_rate 0 = 15 / 100" by (simp add: bp_rate_def)
  show "validateRateCap (js_add (js_add (to_double (bp_rate 1000)) (to_double (bp_rate 500))) (to_double (bp_rate 0)))
     = Inl (BusinessRuleError ''RATE_CAP_EXCEEDED'')"
    by (simp add: validateRateCap_def MAX_ANNUAL_RATE_def cap_doubles [simplified])
qed

section \<open>Acceptance, rejection, dispute\<close>

definition accepted_audit :: "string \<Rightarrow> string \<Rightarrow> string \<Rightarrow> string \<Rightarrow> audit_entry" where
  "accepted_audit i u ip ua = audit_req (Some u) ''PRICING_ACCEPTED'' ''invoices'' i
     (Some [(''pricingAcceptedAt'', JNull)]) [(''pricingAcceptedAt'', JStr ''now'')] (Some ip) (Some ua)"

definition rejected_audit :: "string \<Rightarrow> string \<Rightarrow> string \<Rightarrow> string \<Rightarrow> string \<Rightarrow> audit_entry" where
  "rejected_audit i u reason ip ua = audit_req (Some u) ''PRICING_REJECTED'' ''invoices'' i
     (Some [(''pricingRejectedAt'', JNull), (''status'', JStr ''priced'')])
     [(''pricingRejectedAt'', JStr ''now''), (''reason'', JStr reason), (''status'', JStr ''rejected'')]
     (Some ip) (Some ua)"

text \<open>The supplier of the user owns the invoice, which has been priced.\<close>

definition owns_priced :: "db \<Rightarrow> string \<Rightarrow> string \<Rightarrow> string \<Rightarrow> invoice \<Rightarrow> bool" where
  "owns_priced d u s i iv \<longleftrightarrow>
     map_option sup_id (findSupplierByUserId u d) = Some s
     \<and> getInvoicePricingStatus i s d = Some iv \<and> inv_advance iv \<noteq> None"

lemma owns_pricedD:
  "owns_priced (db w) u s i iv \<Longrightarrow> resolveSupplier u w = (Inr s, w)"
  "owns_priced (db w) u s i iv \<Longrightarrow> fetchAndValidatePricingAcceptance i s w = (Inr iv, w)"
  by (auto simp: owns_priced_def resolveSupplier_def fetchAndValidatePricingAcceptance_def)

lemma acceptPricing_run:
  assumes "owns_priced (db w) u s i iv" "inv_accepted_at iv = None" "audit_ok (db w) (Some u)"
  shows "acceptPricing i u ip ua w =
     queueForApproval i (w\<lparr>db := (acceptPricingWithClient (clock w) i u (db w))
       \<lparr>t_audit := t_audit (db w) @ [accepted_audit i u ip ua]\<rparr>\<rparr>)"
  using assms
  by (simp add: acceptPricing_def owns_pricedD persistAcceptance_def acceptPricingWithClient_def accepted_audit_def)

lemma acceptPricing_twice:
  assumes "owns_priced (db w) u s i iv" "inv_accepted_at iv \<noteq> None"
  shows "acceptPricing i u ip ua w = (Inl (BusinessRuleError ''PRICING_ALREADY_ACCEPTED''), w)"
  using assms by (simp add: acceptPricing_def owns_pricedD)

lemma select_owned_update:
  assumes "\<And>r. inv_id (f r) = inv_id r" "\<And>r. inv_supplier (f r) = inv_supplier r"
  shows "select_one (\<lambda>r. inv_id r = i \<and> inv_supplier r = s) (update_where p f rs)
       = map_option (\<lambda>r. if p r then f r else r) (select_one (\<lambda>r. inv_id r = i \<and> inv_supplier r = s) rs)"
  using select_one_update_where [of "\<lambda>r. (inv_id r, inv_supplier r)" f "(i, s)" p rs] assms by simp

lemma findSupplier_frame [simp]:
  "findSupplierByUserId u (d\<lparr>t_invoices := x\<rparr>) = findSupplierByUserId u d"
  "findSupplierByUserId u (d\<lparr>t_audit := y\<rparr>) = findSupplierByUserId u d"
  "getInvoicePricingStatus i s (d\<lparr>t_audit := y\<rparr>) = getInvoicePricingStatus i s d"
  by (simp_all add: findSupplierByUserId_def getInvoicePricingStatus_def)

lemma owns_priced_id: "owns_priced d u s i iv \<Longrightarrow> inv_id iv = i"
  using select_one_Some by (fastforce simp: owns_priced_def getInvoicePricingStatus_def)

lemma accepted_owns:
  assumes "owns_priced d u s i iv"
  shows "owns_priced ((acceptPricingWithClient t i v d)\<lparr>t_audit := a\<rparr>) u s i
           (iv\<lparr>inv_accepted_at := Some t, inv_accepted_by := Some v, inv_updated_at := t\<rparr>)"
  using assms owns_priced_id [OF assms]
  by (simp add: owns_priced_def acceptPricingWithClient_def getInvoicePricingStatus_def select_owned_update)

lemma rejected_owns:
  assumes "owns_priced d u s i iv"
  shows "owns_priced ((pricing_updateInvoiceStatusWithClient t i Inv_rejected Inv_priced
            (rejectPricingWithClient t i reason d))\<lparr>t_audit := a\<rparr>) u s i
           (iv\<lparr>inv_rejected_at := Some t, inv_rejection_reason := Some reason, inv_updated_at := t,
               inv_status := if inv_status iv = Inv_priced then Inv_rejected else inv_status iv\<rparr>)"
  using assms owns_priced_id [OF assms]
  by (auto simp: owns_priced_def pricing_updateInvoiceStatusWithClient_def rejectPricingWithClient_def
      getInvoicePricingStatus_def select_owned_update)

lemma rejectPricing_run:
  assumes "owns_priced (db w) u s i iv" "inv_rejected_at iv = None" "audit_ok (db w) (Some u)"
  shows "rejectPricing i u reason ip ua w =
     (Inr (), w\<lparr>db := (pricing_updateInvoiceStatusWithClient (clock w) i Inv_rejected Inv_priced
            (rejectPricingWithClient (clock w) i reason (db w)))
            \<lparr>t_audit := t_audit (db w) @ [rejected_audit i u reason ip ua]\<rparr>\<rparr>)"
  using assms
  by (simp add: rejectPricing_def owns_pricedD persistRejection_def rejectPricingWithClient_def
      pricing_updateInvoiceStatusWithClient_def rejected_audit_def)

text \<open>
  a supplier accepts the price of an own, priced invoice once: the call stamps the acceptance,
  writes one audit entry and hands the invoice to the approvals queue, and every further
  acceptance is refused with \<open>PRICING_ALREADY_ACCEPTED\<close>.
\<close>

theorem acceptPricing_once:
  assumes "owns_priced (db w) u s i iv" and "inv_accepted_at iv = None" and "audit_ok (db w) (Some u)"
    and "queue_set w Pricing_approvals" and "redis_up w"
  shows "\<exists>w'. acceptPricing i u ip ua w = (Inr (), w')
    \<and> map_option inv_accepted_at (getInvoicePricingStatus i s (db w')) = Some (Some (clock w))
    \<and> length (t_audit (db w')) = length (t_audit (db w)) + 1
    \<and> map job_name (jobs w') = map job_name (jobs w) @ [''score-for-approval'']
    \<and> acceptPricing i u ip' ua' w' = (Inl (BusinessRuleError ''PRICING_ALREADY_ACCEPTED''), w')"
proof -
  let ?d = "(acceptPricingWithClient (clock w) i u (db w))\<lparr>t_audit := t_audit (db w) @ [accepted_audit i u ip ua]\<rparr>"
  let ?iv = "iv\<lparr>inv_accepted_at := Some (clock w), inv_accepted_by := Some u, inv_updated_at := clock w\<rparr>"
  let ?w = "w\<lparr>db := ?d, jobs := jobs w @ [\<lparr>job_ref = Pricing_approvals, job_name = ''score-for-approval'',
              job_data = [(''invoiceId'', JStr i)]\<rparr>]\<rparr>"
  have r: "acceptPricing i u ip ua w = (Inr (), ?w)"
    using assms(4,5) by (simp add: acceptPricing_run [OF assms(1-3)] queueForApproval_def run_enqueue)
  have o: "owns_priced (db ?w) u s i ?iv" using accepted_owns [OF assms(1)] by simp
  then have "getInvoicePricingStatus i s (db ?w) = Some ?iv" by (simp only: owns_priced_def)
  then show ?thesis
    by (intro exI [of _ ?w] conjI r acceptPricing_twice [OF o]) (simp_all only: option.map, simp_all)
qed

definition priced_world :: world where
  "priced_world = pricing_world\<lparr>db := (db pricing_world)\<lparr>t_invoices :=
     [(sample_invoice Inv_priced)\<lparr>inv_advance := Some 900000, inv_discount := Some 24657,
                                  inv_net_payment := Some 875343\<rparr>]\<rparr>\<rparr>"

lemma priced_world_owns:
  "owns_priced (db priced_world) ''su'' ''sup'' ''inv''
     ((sample_invoice Inv_priced)\<lparr>inv_advance := Some 900000, inv_discount := Some 24657,
                                  inv_net_payment := Some 875343\<rparr>)"
  "audit_ok (db priced_world) (Some ''su'')" "queue_set priced_world Pricing_approvals" "redis_up priced_world"
  by (simp_all add: owns_priced_def priced_world_def pricing_world_def findSupplierByUserId_def
      getInvoicePricingStatus_def sample_defs)

theorem acceptPricing_once_witness:
  "\<exists>w'. acceptPricing ''inv'' ''su'' ''ip'' ''ua'' priced_world = (Inr (), w')
    \<and> fst (acceptPricing ''inv'' ''su'' ''ip'' ''ua'' w') = Inl (BusinessRuleError ''PRICING_ALREADY_ACCEPTED'')"
  using acceptPricing_once [OF priced_world_owns(1) _ priced_world_owns(2-4), of "''ip''" "''ua''" "''ip''" "''ua''"]
  by (auto simp: sample_invoice_def)

text \<open>
  a rejected price can still be accepted. \<open>acceptPricing\<close> checks only an earlier acceptance, so
  after \<open>rejectPricing\<close> has succeeded the same supplier's acceptance succeeds too: the invoice ends
  with both time stamps, stays in the rejected state, and is handed to the approvals queue.
\<close>

theorem acceptPricing_after_rejectPricing:
  assumes "owns_priced (db w) u s i iv" and "inv_status iv = Inv_priced" and "inv_rejected_at iv = None"
    and "inv_accepted_at iv = None" and "audit_ok (db w) (Some u)" and "queue_set w Pricing_approvals" and "redis_up w"
  shows "\<exists>w' w'' iv'. rejectPricing i u reason ip ua w = (Inr (), w')
    \<and> acceptPricing i u ip ua w' = (Inr (), w'')
    \<and> getInvoicePricingStatus i s (db w'') = Some iv' \<and> inv_status iv' = Inv_rejected
    \<and> inv_rejected_at iv' \<noteq> None \<and> inv_accepted_at iv' \<noteq> None
    \<and> map job_name (jobs w'') = map job_name (jobs w) @ [''score-for-approval'']"
proof -
  let ?w' = "w\<lparr>db := (pricing_updateInvoiceStatusWithClient (clock w) i Inv_rejected Inv_priced
            (rejectPricingWithClient (clock w) i reason (db w)))
            \<lparr>t_audit := t_audit (db w) @ [rejected_audit i u reason ip ua]\<rparr>\<rparr>"
  have r: "rejectPricing i u reason ip ua w = (Inr (), ?w')" by (rule rejectPricing_run [OF assms(1,3,5)])
  let ?iv = "iv\<lparr>inv_rejected_at := Some (clock w), inv_rejection_reason := Some reason, inv_updated_at := clock w,
               inv_status := if inv_status iv = Inv_priced then Inv_rejected else inv_status iv\<rparr>"
  have o: "owns_priced (db ?w') u s i ?iv" using rejected_owns [OF assms(1)] by simp
  have aud: "audit_ok (db ?w') (Some u)"
    using assms(5) by (simp add: pricing_updateInvoiceStatusWithClient_def rejectPricingWithClient_def)
  have acc: "inv_accepted_at ?iv = None" using assms(4) by simp
  have ac: "acceptPricing i u ip ua ?w' = (Inr (), ?w'\<lparr>db := (acceptPricingWithClient (clock ?w') i u (db ?w'))
       \<lparr>t_audit := t_audit (db ?w') @ [accepted_audit i u ip ua]\<rparr>,
       jobs := jobs w @ [\<lparr>job_ref = Pricing_approvals, job_name = ''score-for-approval'', job_data = [(''invoiceId'', JStr i)]\<rparr>]\<rparr>)"
    (is "_ = (_, ?w'')")
    using assms(6,7) by (simp only: acceptPricing_run [OF o acc aud] queueForApproval_def run_enqueue) simp
  have o2: "owns_priced (db ?w'') u s i
      (?iv\<lparr>inv_accepted_at := Some (clock ?w'), inv_accepted_by := Some u, inv_updated_at := clock ?w'\<rparr>)"
    using accepted_owns [OF o] by simp
  then have "getInvoicePricingStatus i s (db ?w'') = Some
      (?iv\<lparr>inv_accepted_at := Some (clock ?w'), inv_accepted_by := Some u, inv_updated_at := clock ?w'\<rparr>)"
    by (simp only: owns_priced_def)
  then show ?thesis
    using assms(2) by - (rule exI, rule exI, rule exI, rule conjI, rule r, rule conjI, rule ac, rule conjI, assumption, simp)
qed

theorem acceptPricing_after_rejectPricing_witness:
  "\<exists>w' w''. rejectPricing ''inv'' ''su'' ''high'' ''ip'' ''ua'' priced_world = (Inr (), w')
    \<and> acceptPricing ''inv'' ''su'' ''ip'' ''ua'' w' = (Inr (), w'')"
  using acceptPricing_after_rejectPricing [OF priced_world_owns(1) _ _ _ priced_world_owns(2-4),
      of "''high''" "''ip''" "''ua''"]
  by (auto simp: sample_invoice_def)

end
