(* ===== verification/Risk_Config.thy ===== *)
theory Risk_Config
  imports RIS_Database "HOL-Library.AList"
begin

text \<open>
  \<open>src/src/shared/risk-config.ts\<close>: the risk weights and thresholds of the \<open>risk_config\<close> table,
  read through a module-level cache with a five-minute life time and merged with built-in
  defaults. The cache is the pair of world fields \<open>cfg_cache\<close>, \<open>cfg_loaded_at\<close>;
  \<open>cfg_readable\<close> says whether the query of the table succeeds. The lemmas give the value a read
  returns in terms of the table alone, and that a read never touches the database.
\<close>

section \<open>Definitions\<close>

definition DEFAULTS :: "(string \<times> string) list" where
  "DEFAULTS =
     [(''weight_buyer_credit'', ''0.30''),
      (''weight_tenor'', ''0.20''),
      (''weight_track_record'', ''0.20''),
      (''weight_concentration'', ''0.15''),
      (''weight_collateral'', ''0.15''),
      (''threshold_auto_approve'', ''75''),
      (''threshold_refer_manager'', ''50''),
      (''advance_pct_high'', ''0.95''),
      (''advance_pct_mid'', ''0.90''),
      (''advance_pct_low'', ''0.85''),
      (''premium_score_80_plus'', ''0''),
      (''premium_score_70_79'', ''0.005''),
      (''premium_score_60_69'', ''0.01''),
      (''premium_score_50_59'', ''0.015''),
      (''tier3_auto_reject_threshold'', ''3'')]"

definition CACHE_TTL_MS :: int where
  "CACHE_TTL_MS = 300000"

text \<open>The two loops of \<open>loadRiskConfig\<close>: the rows, then the defaults of the missing keys.\<close>

definition add_missing :: "string \<times> string \<Rightarrow> (string \<times> string) list \<Rightarrow> (string \<times> string) list" where
  "add_missing kv m = (if map_of m (fst kv) = None then AList.update (fst kv) (snd kv) m else m)"

definition merge_config :: "(string \<times> string) list \<Rightarrow> (string \<times> string) list" where
  "merge_config rows =
     fold add_missing DEFAULTS (fold (\<lambda>kv m. AList.update (fst kv) (snd kv) m) rows [])"

definition loadRiskConfig :: "unit service" where
  "loadRiskConfig =
     modifyS (\<lambda>w. w\<lparr>cfg_cache := Some (if cfg_readable w then merge_config (t_risk_config (db w))
                                      else DEFAULTS),
                    cfg_loaded_at := clock w\<rparr>)"

definition refresh_config :: "unit service" where
  "refresh_config =
     (\<lambda>w. if cfg_cache w = None \<or> clock w - cfg_loaded_at w > CACHE_TTL_MS
          then loadRiskConfig w else (Inr (), w))"

definition cached :: "world \<Rightarrow> (string \<times> string) list" where
  "cached w = (case cfg_cache w of None \<Rightarrow> [] | Some m \<Rightarrow> m)"

definition getRiskConfigValue :: "string \<Rightarrow> string service" where
  "getRiskConfigValue key =
     thenS refresh_config
       (getS (\<lambda>w. case map_of (cached w) key of Some v \<Rightarrow> v
                   | None \<Rightarrow> (case map_of DEFAULTS key of Some v \<Rightarrow> v | None \<Rightarrow> ''0'')))"

definition getRiskConfigNumber :: "string \<Rightarrow> js_number service" where
  "getRiskConfigNumber key = bindS (getRiskConfigValue key) (\<lambda>v. returnS (parseFloat v))"

definition invalidateRiskConfigCache :: "unit service" where
  "invalidateRiskConfigCache = modifyS (\<lambda>w. w\<lparr>cfg_cache := None, cfg_loaded_at := 0\<rparr>)"

record risk_weights =
  w_buyer_credit :: js_number
  w_tenor :: js_number
  w_track_record :: js_number
  w_concentration :: js_number
  w_collateral :: js_number

definition get_weight :: "(string \<times> string) list \<Rightarrow> string \<Rightarrow> js_number" where
  "get_weight m key = (case map_of m key of Some v \<Rightarrow> parseFloat v | None \<Rightarrow> NaN)"

definition getRiskWeights :: "risk_weights service" where
  "getRiskWeights =
     thenS refresh_config
       (getS (\<lambda>w. \<lparr>w_buyer_credit = get_weight (cached w) ''weight_buyer_credit'',
                   w_tenor = get_weight (cached w) ''weight_tenor'',
                   w_track_record = get_weight (cached w) ''weight_track_record'',
                   w_concentration = get_weight (cached w) ''weight_concentration'',
                   w_collateral = get_weight (cached w) ''weight_collateral''\<rparr>))"

section \<open>What a read returns\<close>

text \<open>The configuration a fresh load installs, and the one a read at this world uses.\<close>

definition loaded_config :: "world \<Rightarrow> (string \<times> string) list" where
  "loaded_config w = (if cfg_readable w then merge_config (t_risk_config (db w)) else DEFAULTS)"

definition current_config :: "world \<Rightarrow> (string \<times> string) list" where
  "current_config w =
     (if cfg_cache w = None \<or> clock w - cfg_loaded_at w > CACHE_TTL_MS then loaded_config w
      else cached w)"

definition config_value :: "world \<Rightarrow> string \<Rightarrow> string" where
  "config_value w key =
     (case map_of (current_config w) key of Some v \<Rightarrow> v
      | None \<Rightarrow> (case map_of DEFAULTS key of Some v \<Rightarrow> v | None \<Rightarrow> ''0''))"

definition config_number :: "world \<Rightarrow> string \<Rightarrow> js_number" where
  "config_number w key = parseFloat (config_value w key)"

text \<open>The world after a read: the cache holds the current configuration.\<close>

definition refreshed :: "world \<Rightarrow> world" where
  "refreshed w =
     (if cfg_cache w = None \<or> clock w - cfg_loaded_at w > CACHE_TTL_MS
      then w\<lparr>cfg_cache := Some (loaded_config w), cfg_loaded_at := clock w\<rparr> else w)"

lemma run_refresh [simp]: "refresh_config w = (Inr (), refreshed w)"
  by (simp add: refresh_config_def refreshed_def loadRiskConfig_def loaded_config_def)

lemma CACHE_TTL_pos [simp]: "0 \<le> CACHE_TTL_MS" "\<not> CACHE_TTL_MS < 0"
  by (simp_all add: CACHE_TTL_MS_def)

lemma cached_refreshed [simp]: "cached (refreshed w) = current_config w"
  by (simp add: refreshed_def current_config_def cached_def)

lemma refreshed_fields [simp]:
  "db (refreshed w) = db w" "jobs (refreshed w) = jobs w" "queue_set (refreshed w) = queue_set w"
  "redis_up (refreshed w) = redis_up w" "clock (refreshed w) = clock w"
  "row_locks (refreshed w) = row_locks w" "cfg_readable (refreshed w) = cfg_readable w"
  by (simp_all add: refreshed_def)

lemma refreshed_refreshed [simp]: "refreshed (refreshed w) = refreshed w"
  by (auto simp: refreshed_def [of "refreshed w"]) (auto simp: refreshed_def)

lemma run_getRiskConfigValue [simp]:
  "getRiskConfigValue key w = (Inr (config_value w key), refreshed w)"
  by (simp add: getRiskConfigValue_def config_value_def thenS_def)

lemma run_getRiskConfigNumber [simp]:
  "getRiskConfigNumber key w = (Inr (config_number w key), refreshed w)"
  by (simp add: getRiskConfigNumber_def config_number_def)

lemma current_config_refreshed [simp]: "current_config (refreshed w) = current_config w"
  unfolding current_config_def [of "refreshed w"]
  by (simp add: loaded_config_def) (auto simp: refreshed_def current_config_def loaded_config_def)

lemma config_number_refreshed [simp]: "config_number (refreshed w) key = config_number w key"
  by (simp add: config_number_def config_value_def)

definition weights_of :: "(string \<times> string) list \<Rightarrow> risk_weights" where
  "weights_of m = \<lparr>w_buyer_credit = get_weight m ''weight_buyer_credit'',
                   w_tenor = get_weight m ''weight_tenor'',
                   w_track_record = get_weight m ''weight_track_record'',
                   w_concentration = get_weight m ''weight_concentration'',
                   w_collateral = get_weight m ''weight_collateral''\<rparr>"

lemma run_getRiskWeights [simp]:
  "getRiskWeights w = (Inr (weights_of (current_config w)), refreshed w)"
  by (simp add: getRiskWeights_def weights_of_def)

lemma keeps_db_config [atomic_intro]:
  "keeps_db refresh_config" "keeps_db (getRiskConfigValue k)" "keeps_db (getRiskConfigNumber k)"
  "keeps_db getRiskWeights"
  by (simp_all add: keeps_db_def)

lemma fails_only_config [atomic_intro]:
  "fails_only Q (getRiskConfigNumber k)" "fails_only Q getRiskWeights"
  by (simp_all add: fails_only_def)

section \<open>Merging\<close>

lemma map_of_fold_rows:
  "map_of (fold (\<lambda>kv m. AList.update (fst kv) (snd kv) m) rows m0) key =
     (case map_of (rev rows) key of Some v \<Rightarrow> Some v | None \<Rightarrow> map_of m0 key)"
proof (induction rows arbitrary: m0)
  case Nil
  then show ?case by simp
next
  case (Cons kv rows)
  obtain k v where kv: "kv = (k, v)" by fastforce
  show ?case by (simp add: Cons.IH kv update_conv' map_add_def split: option.splits)
qed

lemma map_of_fold_missing:
  "map_of (fold add_missing defs m0) key =
     (case map_of m0 key of Some v \<Rightarrow> Some v | None \<Rightarrow> map_of defs key)"
proof (induction defs arbitrary: m0)
  case Nil
  then show ?case by (simp split: option.splits)
next
  case (Cons kv defs)
  obtain k v where kv: "kv = (k, v)" by fastforce
  show ?case
    by (cases "map_of m0 k") (auto simp: Cons.IH kv add_missing_def [of "(k, v)"] update_conv' split: option.splits)
qed

lemma map_of_merge_config:
  "map_of (merge_config rows) key =
     (case map_of (rev rows) key of Some v \<Rightarrow> Some v | None \<Rightarrow> map_of DEFAULTS key)"
  by (simp add: merge_config_def map_of_fold_missing map_of_fold_rows split: option.splits)

end
