(* ===== verification/Risk_Engine.thy ===== *)
theory Risk_Engine
  imports Risk_Config
begin

text \<open>
  \<open>src/src/services/risk-engine\<close>: the five scoring factors (the strategy interface
  \<open>IScoringFactor\<close>, here the locale \<open>scoring_factor\<close>), the thresholds, and \<open>scoreInvoice\<close>, which
  scores an invoice in the buyer-confirmed state and moves it to scored or rejected in one
  transaction. Scores and weights are doubles, as in the code.
\<close>

section \<open>Factors\<close>

record factor_score =
  fs_name :: string
  fs_raw :: int
  fs_weighted :: js_number

fun CREDIT_RATING_SCORES :: "credit_rating \<Rightarrow> int" where
  "CREDIT_RATING_SCORES Rating_A = 100"
| "CREDIT_RATING_SCORES Rating_B = 75"
| "CREDIT_RATING_SCORES Rating_C = 50"
| "CREDIT_RATING_SCORES Rating_D = 25"

definition calculateTenorRaw :: "int \<Rightarrow> int" where
  "calculateTenorRaw days =
     (if 1 \<le> days \<and> days \<le> 30 then 100
      else if 31 \<le> days \<and> days \<le> 60 then 75
      else if 61 \<le> days \<and> days \<le> 90 then 50
      else 0)"

record track_record =
  tr_invoice_count :: int
  tr_on_time_pct :: js_number
  tr_has_defaults :: bool

definition calculateTrackRecordRaw :: "track_record \<Rightarrow> int" where
  "calculateTrackRecordRaw r =
     (if tr_has_defaults r then 25
      else if tr_invoice_count r = 0 then 50
      else let pct = tr_on_time_pct r
           in if 11 \<le> tr_invoice_count r then (if js_less (Fin 95) pct then 100 else 85)
              else if 4 \<le> tr_invoice_count r
                   then (if js_less (Fin 95) pct then 100 else if js_less (Fin 90) pct then 85 else 70)
              else if js_less (Fin 90) pct then 70 else 50)"

definition calculateConcentrationRaw :: "js_number \<Rightarrow> int" where
  "calculateConcentrationRaw pct =
     (if js_le pct (Fin 40) then 100
      else if js_le pct (Fin 60) then 75
      else if js_le pct (Fin 75) then 50
      else if js_le pct (Fin 90) then 25
      else 0)"

fun COLLATERAL_SCORES :: "collateral_type \<Rightarrow> int" where
  "COLLATERAL_SCORES Bank_guarantee = 100"
| "COLLATERAL_SCORES Fixed_deposit_lien = 85"
| "COLLATERAL_SCORES Assignment_of_receivables = 75"
| "COLLATERAL_SCORES Performance_bond = 70"
| "COLLATERAL_SCORES Post_dated_cheque_full_value = 60"
| "COLLATERAL_SCORES Corporate_guarantee = 40"
| "COLLATERAL_SCORES No_collateral = 0"

definition calculateCollateralRaw :: "collateral_type \<Rightarrow> int" where
  "calculateCollateralRaw t = COLLATERAL_SCORES t"

section \<open>Repository\<close>

definition findInvoiceForScoring :: "string \<Rightarrow> db \<Rightarrow> invoice option" where
  "findInvoiceForScoring i d = select_one (\<lambda>r. inv_id r = i) (t_invoices d)"

definition findBuyerForScoring :: "string \<Rightarrow> db \<Rightarrow> buyer option" where
  "findBuyerForScoring b d = select_one (\<lambda>r. buy_id r = b) (t_buyers d)"

text \<open>The rows of \<open>invoices i JOIN collections c ON c.invoice_id = i.id\<close> that the counts range over.\<close>

definition closed_collections :: "string \<Rightarrow> db \<Rightarrow> collection list" where
  "closed_collections s d =
     concat (map (\<lambda>i. filter (\<lambda>c. cln_invoice c = inv_id i
                                  \<and> (cln_status c = Col_collected \<or> cln_status c = Col_defaulted))
                        (t_collections d))
               (filter (\<lambda>i. inv_supplier i = s) (t_invoices d)))"

definition getSupplierTrackRecord :: "string \<Rightarrow> db \<Rightarrow> track_record" where
  "getSupplierTrackRecord s d =
     (let rows = closed_collections s d;
          total = int (length rows);
          collected = int (length (filter (\<lambda>c. cln_status c = Col_collected) rows));
          defaults = int (length (filter (\<lambda>c. cln_status c = Col_defaulted) rows))
      in \<lparr>tr_invoice_count = total,
          tr_on_time_pct = (if 0 < total
             then js_mul (js_div_fin (of_int collected) (of_int total)) (Fin 100) else Fin 0),
          tr_has_defaults = 0 < defaults\<rparr>)"

definition getBuyerUtilisation :: "string \<Rightarrow> int \<Rightarrow> db \<Rightarrow> js_number" where
  "getBuyerUtilisation b amount d =
     (case select_one (\<lambda>r. buy_id r = b) (t_buyers d) of
        None \<Rightarrow> Fin 100
      | Some r \<Rightarrow> if 0 < buy_approved_limit r
                  then js_Number (bigint_div ((buy_used_limit r + amount) * 100) (buy_approved_limit r))
                  else Fin 100)"

text \<open>
  The \<open>ORDER BY CASE collateral_type ...\<close> key: the two types the \<open>CASE\<close> does not name give NULL,
  which sorts last; ties are broken in favour of the invoice's own collateral.
\<close>

fun collateral_rank :: "collateral_type \<Rightarrow> nat option" where
  "collateral_rank Bank_guarantee = Some 1"
| "collateral_rank Fixed_deposit_lien = Some 2"
| "collateral_rank Post_dated_cheque_full_value = Some 3"
| "collateral_rank Corporate_guarantee = Some 4"
| "collateral_rank No_collateral = Some 5"
| "collateral_rank Assignment_of_receivables = None"
| "collateral_rank Performance_bond = None"

definition collateral_key :: "string \<Rightarrow> collateral \<Rightarrow> nat" where
  "collateral_key i c =
     2 * (case collateral_rank (col_type c) of Some n \<Rightarrow> n | None \<Rightarrow> 6)
     + (if col_invoice c = Some i then 0 else 1)"

definition findBestCollateral :: "string \<Rightarrow> string \<Rightarrow> db \<Rightarrow> collateral option" where
  "findBestCollateral i s d =
     first_row (sort_key (collateral_key i)
       (filter (\<lambda>c. (col_invoice c = Some i \<or> col_supplier c = s \<and> col_invoice c = None)
                    \<and> col_is_active c) (t_collateral d)))"

definition getRiskScoreByInvoiceId :: "string \<Rightarrow> db \<Rightarrow> risk_score option" where
  "getRiskScoreByInvoiceId i d = select_one (\<lambda>r. rs_invoice r = i) (t_risk_scores d)"

datatype risk_recommendation = AUTO_APPROVE | REFER_TO_MANAGER | REJECT

fun recommendation_str :: "risk_recommendation \<Rightarrow> string" where
  "recommendation_str AUTO_APPROVE = ''AUTO_APPROVE''"
| "recommendation_str REFER_TO_MANAGER = ''REFER_TO_MANAGER''"
| "recommendation_str REJECT = ''REJECT''"

record risk_score_insert =
  rsi_id :: string
  rsi_invoice :: string
  rsi_buyer_credit :: js_number
  rsi_tenor :: js_number
  rsi_track_record :: js_number
  rsi_concentration :: js_number
  rsi_collateral :: js_number
  rsi_final_score :: js_number
  rsi_recommendation :: string
  rsi_max_advance_pct :: js_number
  rsi_risk_premium_rate :: js_number

text \<open>\<open>INSERT INTO risk_scores\<close>: one score per invoice, the factor scores \<open>NUMERIC(6,2)\<close>,
  \<open>final_score\<close> an integer in 0..100, the rates \<open>NUMERIC(5,4)\<close>; the pricing columns are NULL.\<close>

definition saveRiskScoreWithClient :: "risk_score_insert \<Rightarrow> db \<Rightarrow> ris_error + db" where
  "saveRiskScoreWithClient r d =
     bindE (numeric_in 6 2 (rsi_buyer_credit r)) (\<lambda>bc.
     bindE (numeric_in 6 2 (rsi_tenor r)) (\<lambda>tn.
     bindE (numeric_in 6 2 (rsi_track_record r)) (\<lambda>tr.
     bindE (numeric_in 6 2 (rsi_concentration r)) (\<lambda>cn.
     bindE (numeric_in 6 2 (rsi_collateral r)) (\<lambda>cl.
     bindE (integer_in (rsi_final_score r)) (\<lambda>score.
     bindE (numeric_in 5 4 (rsi_max_advance_pct r)) (\<lambda>adv.
     bindE (numeric_in 5 4 (rsi_risk_premium_rate r)) (\<lambda>prem.
       if score < 0 \<or> 100 < score then Inl (DbError ''23514'')
       else if list_ex (\<lambda>s. rs_invoice s = rsi_invoice r) (t_risk_scores d) then Inl (DbError ''23505'')
       else Inr (d\<lparr>t_risk_scores := t_risk_scores d @
              [\<lparr>rs_id = rsi_id r, rs_invoice = rsi_invoice r, rs_buyer_credit = bc,
                rs_tenor = tn, rs_track_record = tr, rs_concentration = cn, rs_collateral = cl,
                rs_final_score = score, rs_recommendation = rsi_recommendation r,
                rs_max_advance_pct = adv, rs_risk_premium_rate = prem,
                rs_bank_cost_rate = None, rs_ris_margin_rate = None,
                rs_total_discount_rate = None, rs_advance = None, rs_discount = None,
                rs_net_payment = None\<rparr>]\<rparr>)))))))))"

definition risk_updateInvoiceStatusWithClient ::
    "int \<Rightarrow> string \<Rightarrow> invoice_status \<Rightarrow> invoice_status \<Rightarrow> db \<Rightarrow> db" where
  "risk_updateInvoiceStatusWithClient t i new expected d =
     d\<lparr>t_invoices := update_where (\<lambda>r. inv_id r = i \<and> inv_status r = expected)
         (\<lambda>r. r\<lparr>inv_status := new, inv_updated_at := t\<rparr>) (t_invoices d)\<rparr>"

section \<open>Scorers\<close>

record scoring_context =
  sc_invoice :: invoice
  sc_buyer :: buyer

definition factor :: "string \<Rightarrow> int \<Rightarrow> js_number \<Rightarrow> factor_score" where
  "factor name raw w = \<lparr>fs_name = name, fs_raw = raw, fs_weighted = js_mul (Fin (of_int raw)) w\<rparr>"

definition zero_factor :: "string \<Rightarrow> factor_score" where
  "zero_factor name = \<lparr>fs_name = name, fs_raw = 0, fs_weighted = Fin 0\<rparr>"

definition BuyerCreditScorer :: "scoring_context \<Rightarrow> factor_score service" where
  "BuyerCreditScorer ctx =
     catchS (bindS getRiskWeights (\<lambda>ws.
       returnS (factor ''buyer_credit'' (CREDIT_RATING_SCORES (buy_rating (sc_buyer ctx)))
                  (w_buyer_credit ws))))
       (\<lambda>_. returnS (zero_factor ''buyer_credit''))"

definition TenorScorer :: "scoring_context \<Rightarrow> factor_score service" where
  "TenorScorer ctx =
     catchS (bindS getRiskWeights (\<lambda>ws.
       returnS (factor ''tenor'' (calculateTenorRaw (inv_tenor_days (sc_invoice ctx))) (w_tenor ws))))
       (\<lambda>_. returnS (zero_factor ''tenor''))"

definition SupplierTrackRecordScorer :: "scoring_context \<Rightarrow> factor_score service" where
  "SupplierTrackRecordScorer ctx =
     catchS (bindS getRiskWeights (\<lambda>ws.
       bindS (queryS (getSupplierTrackRecord (inv_supplier (sc_invoice ctx)))) (\<lambda>record.
       returnS (factor ''track_record'' (calculateTrackRecordRaw record) (w_track_record ws)))))
       (\<lambda>_. returnS (zero_factor ''track_record''))"

definition ConcentrationRiskScorer :: "scoring_context \<Rightarrow> factor_score service" where
  "ConcentrationRiskScorer ctx =
     catchS (bindS getRiskWeights (\<lambda>ws.
       bindS (queryS (getBuyerUtilisation (buy_id (sc_buyer ctx)) (inv_face_value (sc_invoice ctx)))) (\<lambda>util.
       returnS (factor ''concentration'' (calculateConcentrationRaw util) (w_concentration ws)))))
       (\<lambda>_. returnS (zero_factor ''concentration''))"

definition CollateralScorer :: "scoring_context \<Rightarrow> factor_score service" where
  "CollateralScorer ctx =
     catchS (bindS getRiskWeights (\<lambda>ws.
       bindS (queryS (findBestCollateral (inv_id (sc_invoice ctx)) (inv_supplier (sc_invoice ctx)))) (\<lambda>c.
       returnS (factor ''collateral''
         (calculateCollateralRaw (case c of None \<Rightarrow> No_collateral | Some r \<Rightarrow> col_type r))
         (w_collateral ws)))))
       (\<lambda>_. returnS (zero_factor ''collateral''))"

definition scoringFactors :: "(scoring_context \<Rightarrow> factor_score service) list" where
  "scoringFactors =
     [BuyerCreditScorer, TenorScorer, SupplierTrackRecordScorer, ConcentrationRiskScorer,
      CollateralScorer]"

text \<open>\<open>Promise.all(scoringFactors.map(f => f.calculate(ctx)))\<close>; the scorers only read.\<close>

fun run_factors :: "(scoring_context \<Rightarrow> factor_score service) list \<Rightarrow> scoring_context
    \<Rightarrow> factor_score list service" where
  "run_factors [] ctx = returnS []"
| "run_factors (f # fs) ctx =
     bindS (f ctx) (\<lambda>x. bindS (run_factors fs ctx) (\<lambda>xs. returnS (x # xs)))"

definition runAllFactors :: "scoring_context \<Rightarrow> factor_score list service" where
  "runAllFactors ctx = run_factors scoringFactors ctx"

section \<open>Thresholds\<close>

definition determineRecommendation :: "js_number \<Rightarrow> risk_recommendation service" where
  "determineRecommendation score =
     bindS (getRiskConfigNumber ''threshold_auto_approve'') (\<lambda>autoThreshold.
     bindS (getRiskConfigNumber ''threshold_refer_manager'') (\<lambda>referThreshold.
     returnS (if js_le autoThreshold score then AUTO_APPROVE
              else if js_le referThreshold score then REFER_TO_MANAGER
              else REJECT)))"

definition determineMaxAdvance :: "js_number \<Rightarrow> js_number service" where
  "determineMaxAdvance score =
     bindS (getRiskConfigNumber ''threshold_auto_approve'') (\<lambda>autoThreshold.
     bindS (getRiskConfigNumber ''threshold_refer_manager'') (\<lambda>referThreshold.
     bindS (getRiskConfigNumber ''advance_pct_high'') (\<lambda>pctHigh.
     bindS (getRiskConfigNumber ''advance_pct_mid'') (\<lambda>pctMid.
     bindS (getRiskConfigNumber ''advance_pct_low'') (\<lambda>pctLow.
     returnS (if js_le autoThreshold score then pctHigh
              else if js_le (Fin 60) score then pctMid
              else if js_le referThreshold score then pctLow
              else Fin 0))))))"

definition determineRiskPremium :: "js_number \<Rightarrow> js_number service" where
  "determineRiskPremium score =
     bindS (getRiskConfigNumber ''premium_score_80_plus'') (\<lambda>p80.
     bindS (getRiskConfigNumber ''premium_score_70_79'') (\<lambda>p70.
     bindS (getRiskConfigNumber ''premium_score_60_69'') (\<lambda>p60.
     bindS (getRiskConfigNumber ''premium_score_50_59'') (\<lambda>p50.
     returnS (if js_le (Fin 80) score then p80
              else if js_le (Fin 70) score then p70
              else if js_le (Fin 60) score then p60
              else if js_le (Fin 50) score then p50
              else Fin 0)))))"

section \<open>Scoring an invoice\<close>

definition risk_fetchAndValidateInvoice :: "string \<Rightarrow> invoice service" where
  "risk_fetchAndValidateInvoice i =
     bindS (queryS (findInvoiceForScoring i)) (\<lambda>r.
     bindS (requireS r (NotFoundError ''Invoice'' i)) (\<lambda>inv.
     thenS (guardS (inv_status inv = Inv_buyer_confirmed) (BusinessRuleError ''INVOICE_WRONG_STATUS''))
     (bindS (queryS (getRiskScoreByInvoiceId i)) (\<lambda>existing.
     thenS (guardS (existing = None) (BusinessRuleError ''ALREADY_SCORED''))
     (returnS inv)))))"

definition fetchBuyer :: "string \<Rightarrow> buyer service" where
  "fetchBuyer b =
     bindS (queryS (findBuyerForScoring b)) (\<lambda>r. requireS r (NotFoundError ''Buyer'' b))"

definition weight_sum :: "risk_weights \<Rightarrow> js_number" where
  "weight_sum ws =
     foldl js_add (Fin 0)
       [w_buyer_credit ws, w_tenor ws, w_track_record ws, w_concentration ws, w_collateral ws]"

definition weights_misconfigured :: "risk_weights \<Rightarrow> bool" where
  "weights_misconfigured ws =
     js_less (to_double (1 / 1000)) (js_abs (js_sub (weight_sum ws) (Fin 1)))"

definition final_score :: "factor_score list \<Rightarrow> js_number" where
  "final_score factors = js_round (foldl js_add (Fin 0) (map fs_weighted factors))"

definition by_name :: "factor_score list \<Rightarrow> string \<Rightarrow> js_number" where
  "by_name factors n =
     (case select_one (\<lambda>f. fs_name f = n) factors of Some f \<Rightarrow> fs_weighted f | None \<Rightarrow> Fin 0)"

definition persistScoreWithClient :: "string \<Rightarrow> string \<Rightarrow> factor_score list \<Rightarrow> js_number
    \<Rightarrow> risk_recommendation \<Rightarrow> js_number \<Rightarrow> js_number \<Rightarrow> unit service" where
  "persistScoreWithClient scoreId i factors score rec maxAdv prem =
     tryExecS (saveRiskScoreWithClient
       \<lparr>rsi_id = scoreId, rsi_invoice = i,
        rsi_buyer_credit = by_name factors ''buyer_credit'', rsi_tenor = by_name factors ''tenor'',
        rsi_track_record = by_name factors ''track_record'',
        rsi_concentration = by_name factors ''concentration'',
        rsi_collateral = by_name factors ''collateral'', rsi_final_score = score,
        rsi_recommendation = recommendation_str rec, rsi_max_advance_pct = maxAdv,
        rsi_risk_premium_rate = prem\<rparr>)"

definition writeAuditLogWithClient :: "string \<Rightarrow> factor_score list \<Rightarrow> js_number
    \<Rightarrow> risk_recommendation \<Rightarrow> unit service" where
  "writeAuditLogWithClient i factors score rec =
     createAuditEntry (audit_sys None ''INVOICE_SCORED'' ''risk_scores'' i
       (Some [(''status'', JStr ''buyer_confirmed'')])
       (map (\<lambda>f. (fs_name f, JNum (fs_weighted f))) factors
        @ [(''finalScore'', JNum score), (''recommendation'', JStr (recommendation_str rec))]))"

definition risk_queueNotification :: "string \<Rightarrow> string \<Rightarrow> unit service" where
  "risk_queueNotification i jobName = enqueueS Risk_notification jobName [(''invoiceId'', JStr i)]"

definition queuePricing :: "string \<Rightarrow> unit service" where
  "queuePricing i = enqueueS Risk_pricing ''price-invoice'' [(''invoiceId'', JStr i)]"

record risk_result =
  rr_invoice :: string
  rr_factors :: "factor_score list"
  rr_final_score :: js_number
  rr_recommendation :: risk_recommendation
  rr_max_advance_pct :: js_number
  rr_risk_premium_rate :: js_number

text \<open>\<open>scoreId\<close> is the identifier \<open>uuidv4()\<close> returns for the new score.\<close>

definition scoreInvoice :: "string \<Rightarrow> string \<Rightarrow> risk_result service" where
  "scoreInvoice scoreId i =
     bindS (risk_fetchAndValidateInvoice i) (\<lambda>inv.
     bindS (fetchBuyer (inv_buyer inv)) (\<lambda>buyer.
     bindS getRiskWeights (\<lambda>ws.
     thenS (guardS (\<not> weights_misconfigured ws) (BusinessRuleError ''RISK_WEIGHT_MISCONFIGURED''))
     (bindS (runAllFactors \<lparr>sc_invoice = inv, sc_buyer = buyer\<rparr>) (\<lambda>factors.
     bindS (determineRecommendation (final_score factors)) (\<lambda>rec.
     bindS (determineMaxAdvance (final_score factors)) (\<lambda>maxAdv.
     bindS (determineRiskPremium (final_score factors)) (\<lambda>prem.
     bindS nowS (\<lambda>t.
     thenS (transactionS
       (thenS (persistScoreWithClient scoreId i factors (final_score factors) rec maxAdv prem)
       (thenS (execS (risk_updateInvoiceStatusWithClient t i
                 (if rec = REJECT then Inv_rejected else Inv_scored) Inv_buyer_confirmed))
       (writeAuditLogWithClient i factors (final_score factors) rec))))
     (thenS (if rec = REJECT then risk_queueNotification i ''invoice-rejected'' else queuePricing i)
     (returnS \<lparr>rr_invoice = i, rr_factors = factors, rr_final_score = final_score factors,
               rr_recommendation = rec, rr_max_advance_pct = maxAdv,
               rr_risk_premium_rate = prem\<rparr>)))))))))))"

definition getRiskScore :: "string \<Rightarrow> risk_score service" where
  "getRiskScore i =
     bindS (queryS (getRiskScoreByInvoiceId i)) (\<lambda>r. requireS r (NotFoundError ''RiskScore'' i))"

section \<open>The contract of a scoring factor\<close>

text \<open>
  The interface \<open>IScoringFactor\<close>: a factor reads the weights and the database, never fails, never
  writes, reports under its own name a raw score between 0 and 100 and that score times its weight.
\<close>

locale scoring_factor =
  fixes calculate :: "scoring_context \<Rightarrow> factor_score service"
    and name :: string
    and raw :: "scoring_context \<Rightarrow> db \<Rightarrow> int"
    and weight :: "risk_weights \<Rightarrow> js_number"
  assumes calculate_run:
    "calculate ctx w = (Inr (factor name (raw ctx (db w)) (weight (weights_of (current_config w)))), refreshed w)"
    and raw_range: "0 \<le> raw ctx d \<and> raw ctx d \<le> 100"
begin

lemma keeps_db_calculate: "keeps_db (calculate ctx)"
  by (simp add: keeps_db_def calculate_run)

lemma never_fails: "fails_only Q (calculate ctx)"
  by (simp add: fails_only_def calculate_run)

lemma weighted_bounds:
  assumes "weight (weights_of (current_config w)) = Fin x" and "0 \<le> x" and "x \<le> 1"
  shows "\<exists>y. fst (calculate ctx w) = Inr \<lparr>fs_name = name, fs_raw = raw ctx (db w), fs_weighted = Fin y\<rparr>
      \<and> 0 \<le> y \<and> \<bar>y - of_int (raw ctx (db w)) * x\<bar> \<le> 1 / 10 ^ 12"
proof -
  let ?r = "of_int (raw ctx (db w)) :: rat"
  have r: "0 \<le> ?r" "?r \<le> 100" using raw_range [of ctx "db w"] by simp_all
  then have nn: "0 \<le> ?r * x" using assms by simp
  have "?r * x \<le> 100 * 1" using r assms by (intro mult_mono) simp_all
  then have b: "\<bar>?r * x\<bar> \<le> 1000" using nn by simp
  then have "\<bar>?r * x\<bar> \<le> 2 ^ 100" by (rule order_trans) simp
  then have "to_double (?r * x) = Fin (round_double (?r * x))" by (rule to_double_small)
  then show ?thesis
    using round_double_err_1000 [OF b] round_double_nonneg [OF nn] assms(1)
    by (simp add: calculate_run factor_def)
qed

end

lemma run_catch_Inr: "m s = (Inr x, t) \<Longrightarrow> catchS m h s = (Inr x, t)"
  by (simp add: catchS_def)

lemma calculateTenorRaw_range: "0 \<le> calculateTenorRaw n \<and> calculateTenorRaw n \<le> 100"
  by (simp add: calculateTenorRaw_def)

lemma calculateTrackRecordRaw_range: "0 \<le> calculateTrackRecordRaw r \<and> calculateTrackRecordRaw r \<le> 100"
  by (simp add: calculateTrackRecordRaw_def Let_def)

lemma calculateConcentrationRaw_range: "0 \<le> calculateConcentrationRaw p \<and> calculateConcentrationRaw p \<le> 100"
  by (simp add: calculateConcentrationRaw_def)

lemma CREDIT_RATING_SCORES_range: "0 \<le> CREDIT_RATING_SCORES r \<and> CREDIT_RATING_SCORES r \<le> 100"
  by (cases r) simp_all

lemma calculateCollateralRaw_range: "0 \<le> calculateCollateralRaw t \<and> calculateCollateralRaw t \<le> 100"
  by (cases t) (simp_all add: calculateCollateralRaw_def)

definition buyer_credit_raw :: "scoring_context \<Rightarrow> db \<Rightarrow> int" where
  "buyer_credit_raw ctx d = CREDIT_RATING_SCORES (buy_rating (sc_buyer ctx))"

definition tenor_raw :: "scoring_context \<Rightarrow> db \<Rightarrow> int" where
  "tenor_raw ctx d = calculateTenorRaw (inv_tenor_days (sc_invoice ctx))"

definition track_record_raw :: "scoring_context \<Rightarrow> db \<Rightarrow> int" where
  "track_record_raw ctx d = calculateTrackRecordRaw (getSupplierTrackRecord (inv_supplier (sc_invoice ctx)) d)"

definition concentration_raw :: "scoring_context \<Rightarrow> db \<Rightarrow> int" where
  "concentration_raw ctx d =
     calculateConcentrationRaw (getBuyerUtilisation (buy_id (sc_buyer ctx)) (inv_face_value (sc_invoice ctx)) d)"

definition collateral_raw :: "scoring_context \<Rightarrow> db \<Rightarrow> int" where
  "collateral_raw ctx d =
     calculateCollateralRaw (case findBestCollateral (inv_id (sc_invoice ctx)) (inv_supplier (sc_invoice ctx)) d of
       None \<Rightarrow> No_collateral | Some r \<Rightarrow> col_type r)"

interpretation buyer_credit_factor: scoring_factor BuyerCreditScorer "''buyer_credit''" buyer_credit_raw w_buyer_credit
  by unfold_locales
    (simp_all add: BuyerCreditScorer_def run_catch_Inr buyer_credit_raw_def CREDIT_RATING_SCORES_range)

interpretation tenor_factor: scoring_factor TenorScorer "''tenor''" tenor_raw w_tenor
  by unfold_locales (simp_all add: TenorScorer_def run_catch_Inr tenor_raw_def calculateTenorRaw_range)

interpretation track_record_factor: scoring_factor SupplierTrackRecordScorer "''track_record''" track_record_raw w_track_record
  by unfold_locales
    (simp_all add: SupplierTrackRecordScorer_def run_catch_Inr track_record_raw_def calculateTrackRecordRaw_range)

interpretation concentration_factor: scoring_factor ConcentrationRiskScorer "''concentration''" concentration_raw w_concentration
  by unfold_locales
    (simp_all add: ConcentrationRiskScorer_def run_catch_Inr concentration_raw_def calculateConcentrationRaw_range)

interpretation collateral_factor: scoring_factor CollateralScorer "''collateral''" collateral_raw w_collateral
  by unfold_locales
    (simp_all add: CollateralScorer_def run_catch_Inr collateral_raw_def calculateCollateralRaw_range)

text \<open>The five factors in order.\<close>

definition factors_of :: "scoring_context \<Rightarrow> db \<Rightarrow> risk_weights \<Rightarrow> factor_score list" where
  "factors_of ctx d ws =
     [factor ''buyer_credit'' (buyer_credit_raw ctx d) (w_buyer_credit ws),
      factor ''tenor'' (tenor_raw ctx d) (w_tenor ws),
      factor ''track_record'' (track_record_raw ctx d) (w_track_record ws),
      factor ''concentration'' (concentration_raw ctx d) (w_concentration ws),
      factor ''collateral'' (collateral_raw ctx d) (w_collateral ws)]"

lemma run_runAllFactors [simp]:
  "runAllFactors ctx w = (Inr (factors_of ctx (db w) (weights_of (current_config w))), refreshed w)"
  by (simp add: runAllFactors_def scoringFactors_def factors_of_def buyer_credit_factor.calculate_run tenor_factor.calculate_run
      track_record_factor.calculate_run concentration_factor.calculate_run collateral_factor.calculate_run)

section \<open>Bounds of the score\<close>

lemma js_add_near:
  assumes "0 \<le> a" "0 \<le> b" "a + b \<le> 1000"
  shows "\<exists>y. js_add (Fin a) (Fin b) = Fin y \<and> 0 \<le> y \<and> \<bar>y - (a + b)\<bar> \<le> 1 / 10 ^ 12"
proof -
  have b: "\<bar>a + b\<bar> \<le> 1000" using assms by simp
  then have "\<bar>a + b\<bar> \<le> 2 ^ 100" by (rule order_trans) simp
  then show ?thesis
    using round_double_err_1000 [OF b] round_double_nonneg [of "a + b"] assms by (simp add: to_double_small)
qed

lemma foldl_js_add_near:
  assumes "0 \<le> a" "\<And>x. x \<in> set xs \<Longrightarrow> 0 \<le> x" "a + sum_list xs + of_nat (length xs) \<le> 1000"
  shows "\<exists>y. foldl js_add (Fin a) (map Fin xs) = Fin y \<and> 0 \<le> y
           \<and> \<bar>y - (a + sum_list xs)\<bar> \<le> of_nat (length xs) / 10 ^ 12"
  using assms
proof (induction xs arbitrary: a)
  case Nil
  then show ?case by simp
next
  case (Cons x xs)
  have x: "0 \<le> x" and s: "0 \<le> sum_list xs" using Cons.prems(2) by (auto intro: sum_list_nonneg)
  have "a + x \<le> 1000" using Cons.prems(3) s by (simp add: algebra_simps)
  then obtain z where z: "js_add (Fin a) (Fin x) = Fin z" "0 \<le> z" "\<bar>z - (a + x)\<bar> \<le> 1 / 10 ^ 12"
    using js_add_near [OF Cons.prems(1) x] by blast
  have le: "(1 :: rat) / 10 ^ 12 \<le> 1" by simp
  have z1: "z \<le> a + x + 1" using z(3) le by linarith
  have "z + sum_list xs + of_nat (length xs) \<le> 1000" using z1 Cons.prems(3) by (simp add: algebra_simps)
  then obtain y where y: "foldl js_add (Fin z) (map Fin xs) = Fin y" "0 \<le> y"
      "\<bar>y - (z + sum_list xs)\<bar> \<le> of_nat (length xs) / 10 ^ 12"
    using Cons.IH [OF z(2)] Cons.prems(2) by auto
  have "\<bar>y - (a + sum_list (x # xs))\<bar> \<le> of_nat (length xs) / 10 ^ 12 + 1 / 10 ^ 12"
    using y(3) z(3) unfolding sum_list.Cons by linarith
  then show ?case using y(1,2) z(1) by (simp add: add_divide_distrib algebra_simps)
qed


text \<open>Weights as the configuration documents them: numbers between 0 and 1.\<close>

fun is_weight :: "js_number \<Rightarrow> bool" where
  "is_weight (Fin x) \<longleftrightarrow> 0 \<le> x \<and> x \<le> 1"
| "is_weight _ \<longleftrightarrow> False"

definition weights_valid :: "risk_weights \<Rightarrow> bool" where
  "weights_valid ws \<longleftrightarrow> is_weight (w_buyer_credit ws) \<and> is_weight (w_tenor ws) \<and> is_weight (w_track_record ws)
     \<and> is_weight (w_concentration ws) \<and> is_weight (w_collateral ws)"

fun weight_val :: "js_number \<Rightarrow> rat" where
  "weight_val (Fin x) = x"
| "weight_val _ = 0"

lemma is_weight_val: "is_weight a \<Longrightarrow> a = Fin (weight_val a) \<and> 0 \<le> weight_val a \<and> weight_val a \<le> 1"
  by (cases a) auto

definition exact_score :: "scoring_context \<Rightarrow> db \<Rightarrow> risk_weights \<Rightarrow> rat" where
  "exact_score ctx d ws =
     of_int (buyer_credit_raw ctx d) * weight_val (w_buyer_credit ws) + of_int (tenor_raw ctx d) * weight_val (w_tenor ws)
     + of_int (track_record_raw ctx d) * weight_val (w_track_record ws)
     + of_int (concentration_raw ctx d) * weight_val (w_concentration ws)
     + of_int (collateral_raw ctx d) * weight_val (w_collateral ws)"

definition total_weight :: "risk_weights \<Rightarrow> rat" where
  "total_weight ws = weight_val (w_buyer_credit ws) + weight_val (w_tenor ws) + weight_val (w_track_record ws)
     + weight_val (w_concentration ws) + weight_val (w_collateral ws)"

lemma factor_near:
  assumes "is_weight a" "0 \<le> r" "r \<le> 100"
  shows "\<exists>y. fs_weighted (factor n r a) = Fin y \<and> 0 \<le> y \<and> \<bar>y - of_int r * weight_val a\<bar> \<le> 1 / 10 ^ 12
           \<and> of_int r * weight_val a \<le> 100 * weight_val a"
proof -
  let ?x = "weight_val a"
  have a: "a = Fin ?x" "0 \<le> ?x" "?x \<le> 1" using is_weight_val [OF assms(1)] by auto
  have r: "0 \<le> (of_int r :: rat)" "of_int r \<le> (100 :: rat)" using assms by simp_all
  have le: "of_int r * ?x \<le> 100 * ?x" using r a by (intro mult_right_mono)
  have nn: "0 \<le> of_int r * ?x" using r a by simp
  have b: "\<bar>of_int r * ?x\<bar> \<le> 1000" using nn le a(3) by linarith
  then have "\<bar>of_int r * ?x\<bar> \<le> 2 ^ 100" by (rule order_trans) simp
  then have "to_double (of_int r * ?x) = Fin (round_double (of_int r * ?x))" by (rule to_double_small)
  moreover have "fs_weighted (factor n r a) = to_double (of_int r * ?x)"
    unfolding factor_def by (subst a(1)) simp
  ultimately show ?thesis using round_double_err_1000 [OF b] round_double_nonneg [OF nn] le by simp
qed

lemma weight_sum_near:
  assumes "weights_valid ws"
  shows "\<exists>y. weight_sum ws = Fin y \<and> \<bar>y - total_weight ws\<bar> \<le> 5 / 10 ^ 12"
    and "0 \<le> total_weight ws" "total_weight ws \<le> 5"
proof -
  let ?xs = "[weight_val (w_buyer_credit ws), weight_val (w_tenor ws), weight_val (w_track_record ws),
     weight_val (w_concentration ws), weight_val (w_collateral ws)]"
  have v: "is_weight (w_buyer_credit ws)" "is_weight (w_tenor ws)" "is_weight (w_track_record ws)"
    "is_weight (w_concentration ws)" "is_weight (w_collateral ws)" using assms(1) by (simp_all add: weights_valid_def)
  note iv = v [THEN is_weight_val]
  have m: "[w_buyer_credit ws, w_tenor ws, w_track_record ws, w_concentration ws, w_collateral ws] = map Fin ?xs"
    using iv by simp
  have sum: "sum_list ?xs = total_weight ws" by (simp add: total_weight_def)
  show s: "0 \<le> total_weight ws" "total_weight ws \<le> 5" unfolding total_weight_def using iv by auto
  have "\<exists>y. foldl js_add (Fin 0) (map Fin ?xs) = Fin y \<and> 0 \<le> y \<and> \<bar>y - (0 + sum_list ?xs)\<bar> \<le> of_nat (length ?xs) / 10 ^ 12"
    by (rule foldl_js_add_near) (use iv s sum in auto)
  then show "\<exists>y. weight_sum ws = Fin y \<and> \<bar>y - total_weight ws\<bar> \<le> 5 / 10 ^ 12"
    unfolding weight_sum_def m sum by auto
qed

lemma final_score_near:
  assumes "weights_valid ws"
  shows "\<exists>y. final_score (factors_of ctx d ws) = js_round (Fin y) \<and> 0 \<le> y
           \<and> \<bar>y - exact_score ctx d ws\<bar> \<le> 1 / 10 ^ 11
           \<and> exact_score ctx d ws \<le> 100 * total_weight ws"
proof -
  let ?e = "1 / 10 ^ 12 :: rat"
  have v: "is_weight (w_buyer_credit ws)" "is_weight (w_tenor ws)" "is_weight (w_track_record ws)"
    "is_weight (w_concentration ws)" "is_weight (w_collateral ws)" using assms(1) by (simp_all add: weights_valid_def)
  note iv = v [THEN is_weight_val]
  obtain a where a: "fs_weighted (factor ''buyer_credit'' (buyer_credit_raw ctx d) (w_buyer_credit ws)) = Fin a" "0 \<le> a"
      "\<bar>a - of_int (buyer_credit_raw ctx d) * weight_val (w_buyer_credit ws)\<bar> \<le> ?e"
      "of_int (buyer_credit_raw ctx d) * weight_val (w_buyer_credit ws) \<le> 100 * weight_val (w_buyer_credit ws)"
    using factor_near [OF v(1)] buyer_credit_factor.raw_range by blast
  obtain b where b: "fs_weighted (factor ''tenor'' (tenor_raw ctx d) (w_tenor ws)) = Fin b" "0 \<le> b"
      "\<bar>b - of_int (tenor_raw ctx d) * weight_val (w_tenor ws)\<bar> \<le> ?e"
      "of_int (tenor_raw ctx d) * weight_val (w_tenor ws) \<le> 100 * weight_val (w_tenor ws)"
    using factor_near [OF v(2)] tenor_factor.raw_range by blast
  obtain c where c: "fs_weighted (factor ''track_record'' (track_record_raw ctx d) (w_track_record ws)) = Fin c" "0 \<le> c"
      "\<bar>c - of_int (track_record_raw ctx d) * weight_val (w_track_record ws)\<bar> \<le> ?e"
      "of_int (track_record_raw ctx d) * weight_val (w_track_record ws) \<le> 100 * weight_val (w_track_record ws)"
    using factor_near [OF v(3)] track_record_factor.raw_range by blast
  obtain f where f: "fs_weighted (factor ''concentration'' (concentration_raw ctx d) (w_concentration ws)) = Fin f" "0 \<le> f"
      "\<bar>f - of_int (concentration_raw ctx d) * weight_val (w_concentration ws)\<bar> \<le> ?e"
      "of_int (concentration_raw ctx d) * weight_val (w_concentration ws) \<le> 100 * weight_val (w_concentration ws)"
    using factor_near [OF v(4)] concentration_factor.raw_range by blast
  obtain g where g: "fs_weighted (factor ''collateral'' (collateral_raw ctx d) (w_collateral ws)) = Fin g" "0 \<le> g"
      "\<bar>g - of_int (collateral_raw ctx d) * weight_val (w_collateral ws)\<bar> \<le> ?e"
      "of_int (collateral_raw ctx d) * weight_val (w_collateral ws) \<le> 100 * weight_val (w_collateral ws)"
    using factor_near [OF v(5)] collateral_factor.raw_range by blast
  let ?xs = "[a, b, c, f, g]"
  have e: "?e \<le> 1" by simp
  have ub: "a + b + c + f + g \<le> 505" using a(3,4) b(3,4) c(3,4) f(3,4) g(3,4) iv e by linarith
  have "\<exists>y. foldl js_add (Fin 0) (map Fin ?xs) = Fin y \<and> 0 \<le> y \<and> \<bar>y - (0 + sum_list ?xs)\<bar> \<le> of_nat (length ?xs) / 10 ^ 12"
    by (rule foldl_js_add_near) (use a b c f g ub in auto)
  then obtain y where y: "foldl js_add (Fin 0) (map Fin ?xs) = Fin y" "0 \<le> y" "\<bar>y - (a + b + c + f + g)\<bar> \<le> 5 * ?e"
    by (auto simp: add.assoc)
  have "\<bar>y - exact_score ctx d ws\<bar> \<le> 10 * ?e"
    unfolding exact_score_def using y(3) a(3) b(3) c(3) f(3) g(3) by linarith
  moreover have "10 * ?e = 1 / 10 ^ 11" by simp
  moreover have "final_score (factors_of ctx d ws) = js_round (Fin y)"
    using y(1) by (simp add: final_score_def factors_of_def a b c f g)
  moreover have "exact_score ctx d ws \<le> 100 * total_weight ws"
    unfolding exact_score_def total_weight_def using a(4) b(4) c(4) f(4) g(4) by (simp add: distrib_left)
  ultimately show ?thesis using y(2) by (intro exI [of _ y] conjI) (simp_all only:)
qed

lemma weights_sum_bound:
  assumes "weights_valid ws" "\<not> weights_misconfigured ws"
  shows "total_weight ws \<le> 1002 / 1000"
proof -
  let ?e = "1 / 10 ^ 12 :: rat" and ?s = "total_weight ws"
  obtain y where y: "weight_sum ws = Fin y" "\<bar>y - ?s\<bar> \<le> 5 / 10 ^ 12" using weight_sum_near(1) [OF assms(1)] by blast
  have s: "0 \<le> ?s" "?s \<le> 5" using weight_sum_near(2,3) [OF assms(1)] .
  have e5: "5 / 10 ^ 12 \<le> (1 / 10000 :: rat)" and e1: "?e \<le> 1 / 10000" by simp_all
  have "\<bar>y + - 1\<bar> \<le> 1000" using y(2) s e5 by linarith
  then obtain z where z: "to_double (y + - 1) = Fin z" "\<bar>z - (y + - 1)\<bar> \<le> ?e" using to_double_bounded by blast
  obtain t where t: "to_double (1 / 1000) = Fin t" "\<bar>t - 1 / 1000\<bar> \<le> ?e" using to_double_bounded [of "1 / 1000"] by auto
  have zt: "\<not> t < \<bar>z\<bar>" using assms(2) z(1) by (simp add: weights_misconfigured_def y js_sub_def t)
  then show ?thesis using t(2) z(2) y(2) e5 e1 by linarith
qed

lemma final_score_in_range:
  assumes "weights_valid ws" and "\<not> weights_misconfigured ws"
  shows "\<exists>n. final_score (factors_of ctx d ws) = Fin (of_int n) \<and> 0 \<le> n \<and> n \<le> 100
           \<and> \<bar>of_int n - exact_score ctx d ws\<bar> \<le> 1 / 2 + 1 / 10 ^ 11"
proof -
  let ?e = "1 / 10 ^ 11 :: rat"
  obtain y where y: "final_score (factors_of ctx d ws) = js_round (Fin y)" "0 \<le> y"
    "\<bar>y - exact_score ctx d ws\<bar> \<le> ?e" "exact_score ctx d ws \<le> 100 * (1002 / 1000)"
    using final_score_near [OF assms(1), of ctx d] weights_sum_bound [OF assms] by fastforce
  have e: "?e \<le> 1 / 10" by simp
  have "y + 1 / 2 < 101" using y(3,4) e by linarith
  then have "\<lfloor>y + 1 / 2\<rfloor> \<le> 100" by linarith
  moreover have "0 \<le> \<lfloor>y + 1 / 2\<rfloor>" using y(2) by linarith
  moreover have "\<bar>of_int \<lfloor>y + 1 / 2\<rfloor> - exact_score ctx d ws\<bar> \<le> 1 / 2 + ?e" using y(3) by linarith
  ultimately show ?thesis using y(1) by (intro exI [of _ "\<lfloor>y + 1 / 2\<rfloor>"]) simp
qed

section \<open>What scoring writes\<close>

interpretation risk_upd: guarded_status_update risk_updateInvoiceStatusWithClient
  by unfold_locales (simp_all add: risk_updateInvoiceStatusWithClient_def)

text \<open>The thresholds, as functions of the configuration in force.\<close>

definition recommendation_at :: "world \<Rightarrow> js_number \<Rightarrow> risk_recommendation" where
  "recommendation_at w score =
     (if js_le (config_number w ''threshold_auto_approve'') score then AUTO_APPROVE
      else if js_le (config_number w ''threshold_refer_manager'') score then REFER_TO_MANAGER else REJECT)"

definition max_advance_at :: "world \<Rightarrow> js_number \<Rightarrow> js_number" where
  "max_advance_at w score =
     (if js_le (config_number w ''threshold_auto_approve'') score then config_number w ''advance_pct_high''
      else if js_le (Fin 60) score then config_number w ''advance_pct_mid''
      else if js_le (config_number w ''threshold_refer_manager'') score then config_number w ''advance_pct_low''
      else Fin 0)"

definition risk_premium_at :: "world \<Rightarrow> js_number \<Rightarrow> js_number" where
  "risk_premium_at w score =
     (if js_le (Fin 80) score then config_number w ''premium_score_80_plus''
      else if js_le (Fin 70) score then config_number w ''premium_score_70_79''
      else if js_le (Fin 60) score then config_number w ''premium_score_60_69''
      else if js_le (Fin 50) score then config_number w ''premium_score_50_59'' else Fin 0)"

lemma run_thresholds [simp]:
  "determineRecommendation score w = (Inr (recommendation_at w score), refreshed w)"
  "determineMaxAdvance score w = (Inr (max_advance_at w score), refreshed w)"
  "determineRiskPremium score w = (Inr (risk_premium_at w score), refreshed w)"
  by (simp_all add: determineRecommendation_def determineMaxAdvance_def determineRiskPremium_def
      recommendation_at_def max_advance_at_def risk_premium_at_def)

lemma threshold_refreshed [simp]:
  "recommendation_at (refreshed w) = recommendation_at w" "max_advance_at (refreshed w) = max_advance_at w"
  "risk_premium_at (refreshed w) = risk_premium_at w"
  by (simp_all add: fun_eq_iff recommendation_at_def max_advance_at_def risk_premium_at_def)

text \<open>The row a score inserts.\<close>

lemma saveRiskScore_succ:
  assumes "saveRiskScoreWithClient r d = Inr d'"
  obtains row where "d' = d\<lparr>t_risk_scores := t_risk_scores d @ [row]\<rparr>"
    and "\<And>s. s \<in> set (t_risk_scores d) \<Longrightarrow> rs_invoice s \<noteq> rsi_invoice r"
    and "rs_id row = rsi_id r" "rs_invoice row = rsi_invoice r"
    and "integer_in (rsi_final_score r) = Inr (rs_final_score row)"
    and "0 \<le> rs_final_score row" "rs_final_score row \<le> 100"
    and "rs_recommendation row = rsi_recommendation r"
    and "numeric_in 5 4 (rsi_max_advance_pct r) = Inr (rs_max_advance_pct row)"
    and "numeric_in 5 4 (rsi_risk_premium_rate r) = Inr (rs_risk_premium_rate row)"
    and "rs_bank_cost_rate row = None" "rs_advance row = None"
proof -
  obtain bc tn tr cn cl score adv prem where
    s: "numeric_in 6 2 (rsi_buyer_credit r) = Inr bc" "numeric_in 6 2 (rsi_tenor r) = Inr tn"
    "numeric_in 6 2 (rsi_track_record r) = Inr tr" "numeric_in 6 2 (rsi_concentration r) = Inr cn"
    "numeric_in 6 2 (rsi_collateral r) = Inr cl" "integer_in (rsi_final_score r) = Inr score"
    "numeric_in 5 4 (rsi_max_advance_pct r) = Inr adv" "numeric_in 5 4 (rsi_risk_premium_rate r) = Inr prem"
    using assms by (auto simp: saveRiskScoreWithClient_def svc_succ)
  have rng: "0 \<le> score" "score \<le> 100" "\<not> list_ex (\<lambda>s. rs_invoice s = rsi_invoice r) (t_risk_scores d)"
    using assms s by (auto simp: saveRiskScoreWithClient_def split: if_splits)
  show thesis
  proof (rule that)
    show "d' = d\<lparr>t_risk_scores := t_risk_scores d @
              [\<lparr>rs_id = rsi_id r, rs_invoice = rsi_invoice r, rs_buyer_credit = bc,
                rs_tenor = tn, rs_track_record = tr, rs_concentration = cn, rs_collateral = cl,
                rs_final_score = score, rs_recommendation = rsi_recommendation r,
                rs_max_advance_pct = adv, rs_risk_premium_rate = prem,
                rs_bank_cost_rate = None, rs_ris_margin_rate = None,
                rs_total_discount_rate = None, rs_advance = None, rs_discount = None,
                rs_net_payment = None\<rparr>]\<rparr>"
      using assms s rng by (simp add: saveRiskScoreWithClient_def)
  qed (use s rng in \<open>auto simp: list_ex_iff\<close>)
qed

lemma integer_in_succ: "integer_in x = Inr n \<longleftrightarrow> x = Fin (of_int n)"
  by (cases x) (auto split: if_splits)

definition scored_job :: "string \<Rightarrow> risk_recommendation \<Rightarrow> job" where
  "scored_job i r =
     (if r = REJECT then \<lparr>job_ref = Risk_notification, job_name = ''invoice-rejected'', job_data = [(''invoiceId'', JStr i)]\<rparr>
      else \<lparr>job_ref = Risk_pricing, job_name = ''price-invoice'', job_data = [(''invoiceId'', JStr i)]\<rparr>)"

text \<open>
  What a successful scoring returned from and wrote. The proof eliminates the handler step by step.
\<close>

lemma scoreInvoice_succ:
  assumes "scoreInvoice sid i w = (Inr res, w')"
  obtains iv b row aud where
    "findInvoiceForScoring i (db w) = Some iv" "inv_status iv = Inv_buyer_confirmed"
    "getRiskScoreByInvoiceId i (db w) = None" "findBuyerForScoring (inv_buyer iv) (db w) = Some b"
    "\<not> weights_misconfigured (weights_of (current_config w))"
    "rr_factors res = factors_of \<lparr>sc_invoice = iv, sc_buyer = b\<rparr> (db w) (weights_of (current_config w))"
    "rr_final_score res = final_score (rr_factors res)"
    "rr_recommendation res = recommendation_at w (rr_final_score res)"
    "rr_max_advance_pct res = max_advance_at w (rr_final_score res)"
    "rr_risk_premium_rate res = risk_premium_at w (rr_final_score res)"
    "rs_invoice row = i" "rr_final_score res = Fin (of_int (rs_final_score row))"
    "0 \<le> rs_final_score row" "rs_final_score row \<le> 100"
    "rs_recommendation row = recommendation_str (rr_recommendation res)" "rs_bank_cost_rate row = None"
    "numeric_in 5 4 (rr_max_advance_pct res) = Inr (rs_max_advance_pct row)"
    "numeric_in 5 4 (rr_risk_premium_rate res) = Inr (rs_risk_premium_rate row)"
    "db w' = (risk_updateInvoiceStatusWithClient (clock w) i
               (if rr_recommendation res = REJECT then Inv_rejected else Inv_scored) Inv_buyer_confirmed
               ((db w)\<lparr>t_risk_scores := t_risk_scores (db w) @ [row]\<rparr>))\<lparr>t_audit := t_audit (db w) @ [aud]\<rparr>"
    "aud_action aud = ''INVOICE_SCORED''"
    "jobs w' = jobs w @ (if queue_set w (job_ref (scored_job i (rr_recommendation res)))
                         then [scored_job i (rr_recommendation res)] else [])"
proof -
  obtain iv b where iv: "findInvoiceForScoring i (db w) = Some iv" "inv_status iv = Inv_buyer_confirmed"
      "getRiskScoreByInvoiceId i (db w) = None" "findBuyerForScoring (inv_buyer iv) (db w) = Some b"
      "\<not> weights_misconfigured (weights_of (current_config w))"
    using assms unfolding scoreInvoice_def
    by (auto simp: svc_succ risk_fetchAndValidateInvoice_def fetchBuyer_def)
  define factors where "factors = factors_of \<lparr>sc_invoice = iv, sc_buyer = b\<rparr> (db w) (weights_of (current_config w))"
  define score where "score = final_score factors"
  define rc where "rc = recommendation_at w score"
  note unf = scoreInvoice_def risk_fetchAndValidateInvoice_def fetchBuyer_def
  have run: "thenS (transactionS
       (thenS (persistScoreWithClient sid i factors score rc (max_advance_at w score) (risk_premium_at w score))
       (thenS (execS (risk_updateInvoiceStatusWithClient (clock w) i
                 (if rc = REJECT then Inv_rejected else Inv_scored) Inv_buyer_confirmed))
       (writeAuditLogWithClient i factors score rc))))
     (thenS (if rc = REJECT then risk_queueNotification i ''invoice-rejected'' else queuePricing i)
     (returnS \<lparr>rr_invoice = i, rr_factors = factors, rr_final_score = score,
               rr_recommendation = rc, rr_max_advance_pct = max_advance_at w score,
               rr_risk_premium_rate = risk_premium_at w score\<rparr>)) (refreshed w) = (Inr res, w')"
    using assms iv by (simp add: unf factors_def score_def rc_def)
  have res: "res = \<lparr>rr_invoice = i, rr_factors = factors, rr_final_score = score,
               rr_recommendation = rc, rr_max_advance_pct = max_advance_at w score,
               rr_risk_premium_rate = risk_premium_at w score\<rparr>"
    using run by (auto simp: svc_succ)
  obtain d where d: "saveRiskScoreWithClient
       \<lparr>rsi_id = sid, rsi_invoice = i,
        rsi_buyer_credit = by_name factors ''buyer_credit'', rsi_tenor = by_name factors ''tenor'',
        rsi_track_record = by_name factors ''track_record'',
        rsi_concentration = by_name factors ''concentration'',
        rsi_collateral = by_name factors ''collateral'', rsi_final_score = score,
        rsi_recommendation = recommendation_str rc, rsi_max_advance_pct = max_advance_at w score,
        rsi_risk_premium_rate = risk_premium_at w score\<rparr> (db w) = Inr d"
    using run by (auto simp: svc_succ persistScoreWithClient_def)
  obtain row where row: "d = (db w)\<lparr>t_risk_scores := t_risk_scores (db w) @ [row]\<rparr>" "rs_invoice row = i"
      "integer_in score = Inr (rs_final_score row)" "0 \<le> rs_final_score row" "rs_final_score row \<le> 100"
      "rs_recommendation row = recommendation_str rc" "rs_bank_cost_rate row = None"
      "numeric_in 5 4 (max_advance_at w score) = Inr (rs_max_advance_pct row)"
      "numeric_in 5 4 (risk_premium_at w score) = Inr (rs_risk_premium_rate row)"
    using saveRiskScore_succ [OF d] by (auto simp: integer_in_succ)
  define aud where "aud = audit_sys None ''INVOICE_SCORED'' ''risk_scores'' i
       (Some [(''status'', JStr ''buyer_confirmed'')])
       (map (\<lambda>f. (fs_name f, JNum (fs_weighted f))) factors
        @ [(''finalScore'', JNum score), (''recommendation'', JStr (recommendation_str rc))])"
  have fin: "db w' = (risk_updateInvoiceStatusWithClient (clock w) i
               (if rc = REJECT then Inv_rejected else Inv_scored) Inv_buyer_confirmed
               ((db w)\<lparr>t_risk_scores := t_risk_scores (db w) @ [row]\<rparr>))\<lparr>t_audit := t_audit (db w) @ [aud]\<rparr>"
    "jobs w' = jobs w @ (if queue_set w (job_ref (scored_job i rc)) then [scored_job i rc] else [])"
    using run d row(1)
    by (cases "rc = REJECT"; auto simp: svc_succ persistScoreWithClient_def writeAuditLogWithClient_def aud_def
        risk_queueNotification_def queuePricing_def scored_job_def risk_updateInvoiceStatusWithClient_def split: if_splits)+
  show thesis
    by (rule that [of iv b row aud]) (use iv row fin in \<open>auto simp: res factors_def score_def rc_def integer_in_succ aud_def audit_sys_def\<close>)
qed

section \<open>The built-in configuration\<close>

definition default_config :: "world \<Rightarrow> bool" where
  "default_config w \<longleftrightarrow> (\<forall>key. map_of (current_config w) key = map_of DEFAULTS key)"

lemma default_configI: "cfg_cache w = None \<Longrightarrow> t_risk_config (db w) = [] \<Longrightarrow> default_config w"
  by (simp add: default_config_def current_config_def loaded_config_def map_of_merge_config)

lemma default_texts:
  "''0.30'' = numeric_text 2 30" "''0.20'' = numeric_text 2 20" "''0.15'' = numeric_text 2 15"
  "''0.95'' = numeric_text 2 95" "''0.90'' = numeric_text 2 90" "''0.85'' = numeric_text 2 85"
  "''0.005'' = numeric_text 3 5" "''0.01'' = numeric_text 2 1" "''0.015'' = numeric_text 3 15"
  by code_simp+

lemma parse_integers:
  "parseFloat ''75'' = Fin 75" "parseFloat ''50'' = Fin 50" "parseFloat ''0'' = Fin 0"
proof -
  have t: "parseFloat ''75'' = js_Number 75" "parseFloat ''50'' = js_Number 50" "parseFloat ''0'' = js_Number 0"
    by (simp_all add: parseFloat_def is_space_def is_digit_def digits_val_def digit_val_def pow10_def js_Number_def)
  show "parseFloat ''75'' = Fin 75" "parseFloat ''50'' = Fin 50" "parseFloat ''0'' = Fin 0"
    unfolding t by (simp_all add: js_Number_int)
qed

lemma default_config_numbers:
  assumes "default_config w"
  shows "config_number w ''threshold_auto_approve'' = Fin 75" "config_number w ''threshold_refer_manager'' = Fin 50"
    "config_number w ''advance_pct_high'' = to_double (95 / 10 ^ 2)"
    "config_number w ''advance_pct_mid'' = to_double (90 / 10 ^ 2)"
    "config_number w ''advance_pct_low'' = to_double (85 / 10 ^ 2)"
    "config_number w ''premium_score_80_plus'' = Fin 0"
    "config_number w ''premium_score_70_79'' = to_double (5 / 10 ^ 3)"
    "config_number w ''premium_score_60_69'' = to_double (1 / 10 ^ 2)"
    "config_number w ''premium_score_50_59'' = to_double (15 / 10 ^ 3)"
proof -
  have v: "config_value w k = (case map_of DEFAULTS k of Some v \<Rightarrow> v | None \<Rightarrow> ''0'')" for k
    using assms by (simp add: config_value_def default_config_def split: option.splits)
  show "config_number w ''threshold_auto_approve'' = Fin 75" "config_number w ''threshold_refer_manager'' = Fin 50"
    "config_number w ''premium_score_80_plus'' = Fin 0"
    by (simp_all add: config_number_def v DEFAULTS_def parse_integers)
  show "config_number w ''advance_pct_high'' = to_double (95 / 10 ^ 2)"
    "config_number w ''advance_pct_mid'' = to_double (90 / 10 ^ 2)"
    "config_number w ''advance_pct_low'' = to_double (85 / 10 ^ 2)"
    "config_number w ''premium_score_70_79'' = to_double (5 / 10 ^ 3)"
    "config_number w ''premium_score_60_69'' = to_double (1 / 10 ^ 2)"
    "config_number w ''premium_score_50_59'' = to_double (15 / 10 ^ 3)"
    by (simp_all add: config_number_def v DEFAULTS_def default_texts parseFloat_numeric_text)
qed

lemma default_weights:
  assumes "default_config w"
  shows "weights_of (current_config w) = \<lparr>w_buyer_credit = to_double (30 / 10 ^ 2), w_tenor = to_double (20 / 10 ^ 2),
     w_track_record = to_double (20 / 10 ^ 2), w_concentration = to_double (15 / 10 ^ 2), w_collateral = to_double (15 / 10 ^ 2)\<rparr>"
proof -
  have g: "get_weight (current_config w) k = (case map_of DEFAULTS k of Some v \<Rightarrow> parseFloat v | None \<Rightarrow> NaN)" for k
    using assms by (simp add: get_weight_def default_config_def)
  show ?thesis by (simp add: weights_of_def g DEFAULTS_def default_texts parseFloat_numeric_text)
qed

lemma weight_near:
  assumes "0 \<le> x" "x \<le> 9 / 10"
  shows "is_weight (to_double x) \<and> \<bar>weight_val (to_double x) - x\<bar> \<le> 1 / 10 ^ 12"
proof -
  have b: "\<bar>x\<bar> \<le> 1000" using assms by simp
  then have "\<bar>x\<bar> \<le> 2 ^ 100" by (rule order_trans) simp
  then have d: "to_double x = Fin (round_double x)" by (rule to_double_small)
  have e: "(1 :: rat) / 10 ^ 12 \<le> 1 / 10" by simp
  note r = round_double_err_1000 [OF b]
  have "round_double x \<le> 1" using r assms(2) e by linarith
  then show ?thesis unfolding d using r round_double_nonneg [OF assms(1)] by simp
qed

lemma default_weights_valid:
  assumes "default_config w"
  defines "ws \<equiv> weights_of (current_config w)"
  shows "weights_valid ws" and "\<not> weights_misconfigured ws"
    and "\<bar>exact_score ctx d ws - of_int (30 * buyer_credit_raw ctx d + 20 * tenor_raw ctx d + 20 * track_record_raw ctx d
           + 15 * concentration_raw ctx d + 15 * collateral_raw ctx d) / 100\<bar> \<le> 1 / 10 ^ 9"
proof -
  let ?e = "1 / 10 ^ 12 :: rat"
  note ws = default_weights [OF assms(1), folded ws_def]
  have n: "is_weight (to_double (30 / 10 ^ 2))" "\<bar>weight_val (to_double (30 / 10 ^ 2)) - 30 / 10 ^ 2\<bar> \<le> ?e"
    "is_weight (to_double (20 / 10 ^ 2))" "\<bar>weight_val (to_double (20 / 10 ^ 2)) - 20 / 10 ^ 2\<bar> \<le> ?e"
    "is_weight (to_double (15 / 10 ^ 2))" "\<bar>weight_val (to_double (15 / 10 ^ 2)) - 15 / 10 ^ 2\<bar> \<le> ?e"
    using weight_near [of "30 / 10 ^ 2"] weight_near [of "20 / 10 ^ 2"] weight_near [of "15 / 10 ^ 2"] by simp_all
  show v: "weights_valid ws" by (simp only: weights_valid_def ws risk_weights.simps n simp_thms)
  let ?a = "weight_val (to_double (30 / 10 ^ 2))" and ?b = "weight_val (to_double (20 / 10 ^ 2))"
    and ?c = "weight_val (to_double (15 / 10 ^ 2))"
  have tw: "total_weight ws = ?a + ?b + ?b + ?c + ?c" by (simp only: total_weight_def ws risk_weights.simps)
  have dec: "(30 :: rat) / 10 ^ 2 + 20 / 10 ^ 2 + 20 / 10 ^ 2 + 15 / 10 ^ 2 + 15 / 10 ^ 2 = 1" by simp
  have t1: "\<bar>total_weight ws - 1\<bar> \<le> 5 * ?e" unfolding tw using n(2,4,6) dec by linarith
  obtain y where y: "weight_sum ws = Fin y" "\<bar>y - total_weight ws\<bar> \<le> 5 / 10 ^ 12" using weight_sum_near(1) [OF v] by blast
  have e: "5 / 10 ^ 12 \<le> (1 / 10000 :: rat)" "5 * ?e \<le> 1 / 10000" "?e \<le> 1 / 10000" by simp_all
  have "\<bar>y + - 1\<bar> \<le> 1000" using y(2) t1 e by linarith
  then obtain z where z: "to_double (y + - 1) = Fin z" "\<bar>z - (y + - 1)\<bar> \<le> ?e" using to_double_bounded by blast
  obtain t where t: "to_double (1 / 1000) = Fin t" "\<bar>t - 1 / 1000\<bar> \<le> ?e" using to_double_bounded [of "1 / 1000"] by auto
  have "\<not> t < \<bar>z\<bar>" using t(2) z(2) y(2) t1 e by linarith
  then show "\<not> weights_misconfigured ws" using z(1) by (simp add: weights_misconfigured_def y js_sub_def t)
  have p: "\<bar>of_int r * u - of_int r * v\<bar> \<le> 100 * ?e" if "\<bar>u - v\<bar> \<le> ?e" "0 \<le> r \<and> r \<le> 100" for r u v
  proof -
    have "\<bar>of_int r * u - of_int r * v\<bar> = \<bar>of_int r\<bar> * \<bar>u - v\<bar>" by (simp only: abs_mult flip: right_diff_distrib)
    also have "\<dots> \<le> 100 * ?e" using that by (intro mult_mono) simp_all
    finally show ?thesis .
  qed
  note ranges = buyer_credit_factor.raw_range [of ctx d] tenor_factor.raw_range [of ctx d]
    track_record_factor.raw_range [of ctx d] concentration_factor.raw_range [of ctx d] collateral_factor.raw_range [of ctx d]
  have q: "5 * (100 * ?e) \<le> 1 / 10 ^ 9" by simp
  have "exact_score ctx d ws = of_int (buyer_credit_raw ctx d) * ?a + of_int (tenor_raw ctx d) * ?b
     + of_int (track_record_raw ctx d) * ?b + of_int (concentration_raw ctx d) * ?c + of_int (collateral_raw ctx d) * ?c"
    by (simp only: exact_score_def ws risk_weights.simps)
  moreover have "of_int (30 * buyer_credit_raw ctx d + 20 * tenor_raw ctx d + 20 * track_record_raw ctx d
           + 15 * concentration_raw ctx d + 15 * collateral_raw ctx d) / 100
     = of_int (buyer_credit_raw ctx d) * (30 / 10 ^ 2) + of_int (tenor_raw ctx d) * (20 / 10 ^ 2)
     + of_int (track_record_raw ctx d) * (20 / 10 ^ 2) + of_int (concentration_raw ctx d) * (15 / 10 ^ 2)
     + of_int (collateral_raw ctx d) * (15 / 10 ^ 2 :: rat)" by (simp add: add_divide_distrib)
  ultimately show "\<bar>exact_score ctx d ws - of_int (30 * buyer_credit_raw ctx d + 20 * tenor_raw ctx d
      + 20 * track_record_raw ctx d + 15 * concentration_raw ctx d + 15 * collateral_raw ctx d) / 100\<bar> \<le> 1 / 10 ^ 9"
    using p [OF n(2) ranges(1)] p [OF n(4) ranges(2)] p [OF n(4) ranges(3)] p [OF n(6) ranges(4)] p [OF n(6) ranges(5)] q
    by linarith
qed

text \<open>The thresholds of the built-in configuration, on an integer score, in basis points.\<close>

definition default_recommendation :: "int \<Rightarrow> risk_recommendation" where
  "default_recommendation n = (if 75 \<le> n then AUTO_APPROVE else if 50 \<le> n then REFER_TO_MANAGER else REJECT)"

definition default_advance :: "int \<Rightarrow> int" where
  "default_advance n = (if 75 \<le> n then 9500 else if 60 \<le> n then 9000 else if 50 \<le> n then 8500 else 0)"

definition default_premium :: "int \<Rightarrow> int" where
  "default_premium n = (if 80 \<le> n then 0 else if 70 \<le> n then 50 else if 60 \<le> n then 100 else if 50 \<le> n then 150 else 0)"

lemma js_le_int: "js_le (Fin (numeral k)) (Fin (of_int n)) \<longleftrightarrow> numeral k \<le> n"
  by auto

lemma to_double_zero: "to_double 0 = Fin 0"
  by (simp add: to_double_small)

lemma default_thresholds:
  assumes "default_config w"
  shows "recommendation_at w (Fin (of_int n)) = default_recommendation n"
    "max_advance_at w (Fin (of_int n)) = to_double (of_int (default_advance n) / 10 ^ 4)"
    "risk_premium_at w (Fin (of_int n)) = to_double (of_int (default_premium n) / 10 ^ 4)"
  by (simp_all add: recommendation_at_def max_advance_at_def risk_premium_at_def default_config_numbers [OF assms]
      js_le_int to_double_zero default_recommendation_def default_advance_def default_premium_def del: js_le.simps)

lemma numeric_in_bp: "0 \<le> n \<Longrightarrow> n \<le> 10 ^ 4 \<Longrightarrow> numeric_in 5 4 (to_double (of_int n / 10 ^ 4)) = Inr (Some (of_int n / 10 ^ 4))"
proof -
  assume n: "0 \<le> n" "n \<le> 10 ^ 4"
  then have "(0 :: rat) \<le> of_int n" "(of_int n :: rat) \<le> of_int (10 ^ 4)" by (simp_all only: of_int_le_iff of_int_0_le_iff)
  then have "\<bar>of_int n / 10 ^ 4\<bar> \<le> (999 :: rat)" by simp
  then show ?thesis by (rule numeric_in_decimal) (use n in simp_all)
qed

lemma numeric_in_score:
  assumes "0 \<le> y" "y \<le> 200"
  shows "\<exists>v. numeric_in 6 2 (Fin y) = Inr v"
proof -
  have "\<bar>js_decimal y - y\<bar> \<le> 1 / 2" using decimal_at_err by (auto simp: js_decimal_def split: option.splits)
  then have b: "\<bar>js_decimal y\<bar> \<le> 201" using assms by linarith
  have "\<bar>js_decimal y * 10 ^ 2\<bar> = \<bar>js_decimal y\<bar> * 100" by (simp add: abs_mult)
  then have "\<bar>js_decimal y * 10 ^ 2\<bar> + 1 \<le> of_int (10 ^ 6)" using b by simp
  then have "\<bar>round_half_away (js_decimal y * 10 ^ 2)\<bar> < 10 ^ 6" by (rule round_half_away_bound)
  then show ?thesis by (simp add: Let_def)
qed

lemma factor_storable:
  assumes "is_weight a" "0 \<le> r \<and> r \<le> 100"
  shows "\<exists>v. numeric_in 6 2 (fs_weighted (factor n r a)) = Inr v"
proof -
  obtain y where y: "fs_weighted (factor n r a) = Fin y" "0 \<le> y" "\<bar>y - of_int r * weight_val a\<bar> \<le> 1 / 10 ^ 12"
      "of_int r * weight_val a \<le> 100 * weight_val a"
    using factor_near [OF assms(1)] assms(2) by blast
  have e: "(1 :: rat) / 10 ^ 12 \<le> 1" by simp
  have "y \<le> 200" using y(3,4) is_weight_val [OF assms(1)] e by linarith
  then show ?thesis unfolding y(1) using numeric_in_score [OF y(2)] by blast
qed

lemma by_name_factors:
  "by_name (factors_of ctx d ws) ''buyer_credit'' = fs_weighted (factor ''buyer_credit'' (buyer_credit_raw ctx d) (w_buyer_credit ws))"
  "by_name (factors_of ctx d ws) ''tenor'' = fs_weighted (factor ''tenor'' (tenor_raw ctx d) (w_tenor ws))"
  "by_name (factors_of ctx d ws) ''track_record'' = fs_weighted (factor ''track_record'' (track_record_raw ctx d) (w_track_record ws))"
  "by_name (factors_of ctx d ws) ''concentration'' = fs_weighted (factor ''concentration'' (concentration_raw ctx d) (w_concentration ws))"
  "by_name (factors_of ctx d ws) ''collateral'' = fs_weighted (factor ''collateral'' (collateral_raw ctx d) (w_collateral ws))"
  by (simp_all add: by_name_def factors_of_def factor_def)

text \<open>
  An invoice that can be scored: confirmed by the buyer, not scored yet, its buyer known, the
  built-in configuration in force, the queues reachable when they are configured.
\<close>

definition scoreable :: "world \<Rightarrow> string \<Rightarrow> invoice \<Rightarrow> buyer \<Rightarrow> bool" where
  "scoreable w i iv b \<longleftrightarrow>
     findInvoiceForScoring i (db w) = Some iv \<and> inv_status iv = Inv_buyer_confirmed
     \<and> getRiskScoreByInvoiceId i (db w) = None \<and> findBuyerForScoring (inv_buyer iv) (db w) = Some b
     \<and> default_config w \<and> audit_ok (db w) None \<and> redis_up w"

lemma scoreInvoice_returns:
  assumes s: "scoreable w i iv b"
  shows "\<exists>res w'. scoreInvoice sid i w = (Inr res, w')"
proof -
  let ?ws = "weights_of (current_config w)" and ?ctx = "\<lparr>sc_invoice = iv, sc_buyer = b\<rparr>"
  let ?f = "factors_of ?ctx (db w) ?ws"
  have dc: "default_config w" and aud: "audit_ok (db w) None" and up: "redis_up w"
    and rs: "getRiskScoreByInvoiceId i (db w) = None" using s by (simp_all add: scoreable_def)
  note v = default_weights_valid(1,2) [OF dc]
  have w: "is_weight (w_buyer_credit ?ws)" "is_weight (w_tenor ?ws)" "is_weight (w_track_record ?ws)"
    "is_weight (w_concentration ?ws)" "is_weight (w_collateral ?ws)" using v(1) by (simp_all only: weights_valid_def)
  obtain n where n: "final_score ?f = Fin (of_int n)" "0 \<le> n" "n \<le> 100"
    using final_score_in_range [OF v, of ?ctx "db w"] by blast
  obtain s1 s2 s3 s4 s5 where st: "numeric_in 6 2 (by_name ?f ''buyer_credit'') = Inr s1"
    "numeric_in 6 2 (by_name ?f ''tenor'') = Inr s2" "numeric_in 6 2 (by_name ?f ''track_record'') = Inr s3"
    "numeric_in 6 2 (by_name ?f ''concentration'') = Inr s4" "numeric_in 6 2 (by_name ?f ''collateral'') = Inr s5"
    unfolding by_name_factors
    using factor_storable [OF w(1) buyer_credit_factor.raw_range] factor_storable [OF w(2) tenor_factor.raw_range]
      factor_storable [OF w(3) track_record_factor.raw_range] factor_storable [OF w(4) concentration_factor.raw_range]
      factor_storable [OF w(5) collateral_factor.raw_range] by metis
  define A P where "A = to_double (of_int (default_advance n) / 10 ^ 4)" and "P = to_double (of_int (default_premium n) / 10 ^ 4)"
  have th: "recommendation_at w (Fin (of_int n)) = default_recommendation n" "max_advance_at w (Fin (of_int n)) = A"
    "risk_premium_at w (Fin (of_int n)) = P"
    unfolding A_def P_def by (rule default_thresholds [OF dc])+
  have num: "\<exists>v. numeric_in 5 4 A = Inr v" "\<exists>v. numeric_in 5 4 P = Inr v"
    unfolding A_def P_def using numeric_in_bp [of "default_advance n"] numeric_in_bp [of "default_premium n"]
    by (auto simp: default_advance_def default_premium_def)
  have ii: "integer_in (Fin (of_int n)) = Inr n" by (simp add: integer_in_succ)
  have fresh: "\<not> list_ex (\<lambda>s. rs_invoice s = i) (t_risk_scores (db w))"
    using rs by (auto simp: getRiskScoreByInvoiceId_def select_one_None list_ex_iff)
  have save: "\<exists>d. saveRiskScoreWithClient
       \<lparr>rsi_id = sid, rsi_invoice = i, rsi_buyer_credit = by_name ?f ''buyer_credit'', rsi_tenor = by_name ?f ''tenor'',
        rsi_track_record = by_name ?f ''track_record'', rsi_concentration = by_name ?f ''concentration'',
        rsi_collateral = by_name ?f ''collateral'', rsi_final_score = Fin (of_int n),
        rsi_recommendation = recommendation_str (default_recommendation n),
        rsi_max_advance_pct = A, rsi_risk_premium_rate = P\<rparr> (db w) = Inr d
      \<and> t_users d = t_users (db w) \<and> audit_columns d = audit_columns (db w)"
    using n(2,3) fresh num unfolding saveRiskScoreWithClient_def risk_score_insert.simps st ii bindE.simps by auto
  then obtain d where d: "saveRiskScoreWithClient
       \<lparr>rsi_id = sid, rsi_invoice = i, rsi_buyer_credit = by_name ?f ''buyer_credit'', rsi_tenor = by_name ?f ''tenor'',
        rsi_track_record = by_name ?f ''track_record'', rsi_concentration = by_name ?f ''concentration'',
        rsi_collateral = by_name ?f ''collateral'', rsi_final_score = Fin (of_int n),
        rsi_recommendation = recommendation_str (default_recommendation n),
        rsi_max_advance_pct = A, rsi_risk_premium_rate = P\<rparr> (db w) = Inr d"
      "audit_ok d None" using audit_ok_cong aud by blast
  have upd: "risk_updateInvoiceStatusWithClient t i a e d = d\<lparr>t_invoices := t_invoices (risk_updateInvoiceStatusWithClient t i a e d)\<rparr>" for t a e
    by (rule risk_upd.upd_frame)
  have aud': "audit_ok (risk_updateInvoiceStatusWithClient t i a e d) None" for t a e
    using d(2) by (subst upd) simp
  have inv: "risk_fetchAndValidateInvoice i w = (Inr iv, w)" "fetchBuyer (inv_buyer iv) w = (Inr b, w)"
    using s by (simp_all add: scoreable_def risk_fetchAndValidateInvoice_def fetchBuyer_def)
  show ?thesis
    unfolding scoreInvoice_def persistScoreWithClient_def
    using v(2) up by (simp add: inv n(1) th d(1) aud' writeAuditLogWithClient_def
        risk_queueNotification_def queuePricing_def run_enqueue_up del: js_add.simps)
qed

section \<open>Properties\<close>

lemma keeps_db_risk [atomic_intro]:
  "keeps_db (risk_fetchAndValidateInvoice i)" "keeps_db (fetchBuyer b)" "keeps_db (runAllFactors ctx)"
  "keeps_db (determineRecommendation s)" "keeps_db (determineMaxAdvance s)" "keeps_db (determineRiskPremium s)"
proof -
  show "keeps_db (risk_fetchAndValidateInvoice i)" "keeps_db (fetchBuyer b)"
    by (auto simp: risk_fetchAndValidateInvoice_def fetchBuyer_def intro!: atomic_intro)
qed (simp_all add: keeps_db_def)

lemma atomic_scoreInvoice: "atomic_upto (\<lambda>e. e = QueueError) (scoreInvoice sid i)"
proof -
  have q: "fails_only (\<lambda>e. e = QueueError)
      (thenS (if rec = REJECT then risk_queueNotification i ''invoice-rejected'' else queuePricing i) (returnS r))" for rec r
    unfolding risk_queueNotification_def queuePricing_def
    by (intro fails_only_then fails_only_basic) (simp add: fails_only_basic)
  show ?thesis
    unfolding scoreInvoice_def
    by (intro atomic_bind atomic_then keeps_db_risk keeps_db_basic keeps_db_config atomic_then_last q atomic_transaction)
qed

definition scoring_world :: world where
  "scoring_world = world_of (blank_db\<lparr>t_invoices := [sample_invoice Inv_buyer_confirmed],
     t_suppliers := [sample_supplier], t_buyers := [sample_buyer]\<rparr>)"

lemma scoring_world_scoreable: "scoreable scoring_world ''inv'' (sample_invoice Inv_buyer_confirmed) sample_buyer"
  unfolding scoreable_def
  by (intro conjI default_configI)
    (simp_all add: scoring_world_def sample_defs findInvoiceForScoring_def getRiskScoreByInvoiceId_def findBuyerForScoring_def)

text \<open>
  weights between 0 and 1 that pass the sum check give a final score that is an integer from
  0 to 100 (so the table's range check always accepts it) and the nearest one to the exact
  weighted sum up to \<open>1e-11\<close>, whatever the five factors report.
\<close>

theorem final_score_range:
  assumes "weights_valid ws" and "\<not> weights_misconfigured ws"
  shows "\<exists>n. final_score (factors_of ctx d ws) = Fin (of_int n) \<and> 0 \<le> n \<and> n \<le> 100
           \<and> \<bar>of_int n - exact_score ctx d ws\<bar> \<le> 1 / 2 + 1 / 10 ^ 11"
  using assms by (rule final_score_in_range)

theorem final_score_range_witness:
  "\<exists>n. final_score (factors_of \<lparr>sc_invoice = sample_invoice Inv_buyer_confirmed, sc_buyer = sample_buyer\<rparr> blank_db
          (weights_of (current_config scoring_world))) = Fin (of_int n) \<and> 0 \<le> n \<and> n \<le> 100"
proof -
  have "default_config scoring_world" using scoring_world_scoreable by (simp add: scoreable_def)
  from final_score_range [OF default_weights_valid(1,2) [OF this]] show ?thesis by blast
qed

text \<open>
  C18: with the built-in configuration, scoring a buyer-confirmed invoice returns. The score is an
  integer within \<open>1/2 + 2e-9\<close> of the sum of the five raw scores weighted 30 (buyer credit), 20
  (tenor), 20 (track record), 15 (concentration) and 15 (collateral); 75 and more is approved
  automatically, 50 to 74 is referred, less is rejected. These are the weights of \<open>DEFAULTS\<close> and of
  the rows migration 012 inserts; REQ-RISK-001, the transaction flow and the journey map state
  30, 10, 25, 15 and 20 instead, and the journey map a threshold of 70.
\<close>

theorem scoreInvoice_default:
  assumes "scoreable w i iv b"
  defines "ctx \<equiv> \<lparr>sc_invoice = iv, sc_buyer = b\<rparr>"
  shows "\<exists>res w' n. scoreInvoice sid i w = (Inr res, w') \<and> rr_final_score res = Fin (of_int n) \<and> 0 \<le> n \<and> n \<le> 100
    \<and> \<bar>of_int n - of_int (30 * buyer_credit_raw ctx (db w) + 20 * tenor_raw ctx (db w) + 20 * track_record_raw ctx (db w)
          + 15 * concentration_raw ctx (db w) + 15 * collateral_raw ctx (db w)) / 100\<bar> \<le> (1 / 2 + 2 / 10 ^ 9 :: rat)
    \<and> rr_recommendation res = (if 75 \<le> n then AUTO_APPROVE else if 50 \<le> n then REFER_TO_MANAGER else REJECT)"
proof -
  let ?x = "of_int (30 * buyer_credit_raw ctx (db w) + 20 * tenor_raw ctx (db w) + 20 * track_record_raw ctx (db w)
          + 15 * concentration_raw ctx (db w) + 15 * collateral_raw ctx (db w)) / 100 :: rat"
  have dc: "default_config w" using assms by (simp add: scoreable_def)
  obtain res w' where r: "scoreInvoice sid i w = (Inr res, w')" using scoreInvoice_returns [OF assms(1)] by blast
  have s: "rr_factors res = factors_of ctx (db w) (weights_of (current_config w))"
    "rr_final_score res = final_score (rr_factors res)" "rr_recommendation res = recommendation_at w (rr_final_score res)"
    using r assms by (auto elim!: scoreInvoice_succ simp: scoreable_def)
  obtain n where n: "final_score (rr_factors res) = Fin (of_int n)" "0 \<le> n" "n \<le> 100"
      "\<bar>of_int n - exact_score ctx (db w) (weights_of (current_config w))\<bar> \<le> 1 / 2 + 1 / 10 ^ 11"
    unfolding s(1) using final_score_in_range [OF default_weights_valid(1,2) [OF dc]] by blast
  have "(1 :: rat) / 10 ^ 11 + 1 / 10 ^ 9 \<le> 2 / 10 ^ 9" by simp
  then have "\<bar>of_int n - ?x\<bar> \<le> 1 / 2 + 2 / 10 ^ 9" using n(4) default_weights_valid(3) [OF dc, of ctx "db w"] by linarith
  then show ?thesis using r n(1-3) s(2,3) by (auto simp: default_thresholds(1) [OF dc] default_recommendation_def)
qed

theorem scoreInvoice_default_witness:
  "\<exists>res w' n. scoreInvoice ''s1'' ''inv'' scoring_world = (Inr res, w') \<and> rr_final_score res = Fin (of_int n) \<and> n \<le> 100"
  using scoreInvoice_default [OF scoring_world_scoreable, of "''s1''"] by blast

text \<open>
  what a successful scoring leaves behind, in any configuration: the invoice was buyer-confirmed
  and unscored and is now rejected or scored as the returned recommendation says; exactly one
  risk score was added, unpriced, with the returned score; one audit entry; and the next job is a
  rejection notice or the pricing of the invoice.
\<close>

theorem scoreInvoice_outcome:
  assumes "scoreInvoice sid i w = (Inr res, w')"
  shows "\<exists>iv row. findInvoiceForScoring i (db w) = Some iv \<and> inv_status iv = Inv_buyer_confirmed
    \<and> findInvoiceForScoring i (db w') = Some (iv\<lparr>inv_status :=
          if rr_recommendation res = REJECT then Inv_rejected else Inv_scored, inv_updated_at := clock w\<rparr>)
    \<and> getRiskScoreByInvoiceId i (db w) = None \<and> getRiskScoreByInvoiceId i (db w') = Some row
    \<and> rr_final_score res = Fin (of_int (rs_final_score row)) \<and> rs_bank_cost_rate row = None
    \<and> map aud_action (t_audit (db w')) = map aud_action (t_audit (db w)) @ [''INVOICE_SCORED'']
    \<and> (\<forall>j. j \<noteq> i \<longrightarrow> findInvoiceForScoring j (db w') = findInvoiceForScoring j (db w))
    \<and> (queue_set w Risk_pricing \<and> rr_recommendation res \<noteq> REJECT \<longrightarrow>
         jobs w' = jobs w @ [scored_job i (rr_recommendation res)])"
proof -
  obtain iv row aud where s: "findInvoiceForScoring i (db w) = Some iv" "inv_status iv = Inv_buyer_confirmed"
    "getRiskScoreByInvoiceId i (db w) = None" "rs_invoice row = i" "rr_final_score res = Fin (of_int (rs_final_score row))"
    "rs_bank_cost_rate row = None" "aud_action aud = ''INVOICE_SCORED''"
    and d: "db w' = (risk_updateInvoiceStatusWithClient (clock w) i
               (if rr_recommendation res = REJECT then Inv_rejected else Inv_scored) Inv_buyer_confirmed
               ((db w)\<lparr>t_risk_scores := t_risk_scores (db w) @ [row]\<rparr>))\<lparr>t_audit := t_audit (db w) @ [aud]\<rparr>"
    and j: "jobs w' = jobs w @ (if queue_set w (job_ref (scored_job i (rr_recommendation res)))
                         then [scored_job i (rr_recommendation res)] else [])"
    using scoreInvoice_succ [OF assms] by metis
  let ?st = "if rr_recommendation res = REJECT then Inv_rejected else Inv_scored"
  let ?d = "(db w)\<lparr>t_risk_scores := t_risk_scores (db w) @ [row]\<rparr>"
  have l: "select_one (\<lambda>r. inv_id r = i) (t_invoices ?d) = Some iv" using s(1) by (simp add: findInvoiceForScoring_def)
  have 1: "findInvoiceForScoring i (db w') = Some (iv\<lparr>inv_status := ?st, inv_updated_at := clock w\<rparr>)"
    using risk_upd.upd_moves [OF l s(2)] by (simp add: d findInvoiceForScoring_def)
  have 2: "findInvoiceForScoring k (db w') = findInvoiceForScoring k (db w)" if "k \<noteq> i" for k
    using risk_upd.upd_other [OF that, of "clock w" ?st Inv_buyer_confirmed ?d] by (simp add: d findInvoiceForScoring_def)
  have 3: "getRiskScoreByInvoiceId i (db w') = Some row"
    using s(3,4) by (simp add: d getRiskScoreByInvoiceId_def risk_updateInvoiceStatusWithClient_def select_one_append)
  show ?thesis
    using s 1 2 3 j d
    by (intro exI [of _ iv] exI [of _ row] conjI)
      (auto simp: scored_job_def risk_updateInvoiceStatusWithClient_def)
qed

theorem scoreInvoice_outcome_witness:
  "\<exists>res w' row. scoreInvoice ''s1'' ''inv'' scoring_world = (Inr res, w') \<and> getRiskScoreByInvoiceId ''inv'' (db w') = Some row"
proof -
  obtain res w' where r: "scoreInvoice ''s1'' ''inv'' scoring_world = (Inr res, w')"
    using scoreInvoice_returns [OF scoring_world_scoreable] by blast
  from scoreInvoice_outcome [OF r] r show ?thesis by blast
qed

text \<open>
  scoring is atomic: a call that throws any error other than the failed hand-over to a queue
  leaves the database as it was.
\<close>

theorem scoreInvoice_atomic:
  assumes "scoreInvoice sid i w = (Inl e, w')" and "e \<noteq> QueueError"
  shows "db w' = db w"
  using atomic_scoreInvoice [of sid i] assms unfolding atomic_upto_def by blast

theorem scoreInvoice_atomic_witness:
  "\<exists>w'. scoreInvoice ''s1'' ''none'' scoring_world = (Inl (NotFoundError ''Invoice'' ''none''), w') \<and> db w' = db scoring_world"
proof -
  have r: "scoreInvoice ''s1'' ''none'' scoring_world = (Inl (NotFoundError ''Invoice'' ''none''), scoring_world)"
    by (simp add: scoreInvoice_def risk_fetchAndValidateInvoice_def findInvoiceForScoring_def scoring_world_def sample_defs)
  show ?thesis using r scoreInvoice_atomic [OF r] by auto
qed

subsection \<open>Choosing the collateral\<close>

definition eligible_collateral :: "string \<Rightarrow> string \<Rightarrow> db \<Rightarrow> collateral list" where
  "eligible_collateral i s d =
     filter (\<lambda>c. (col_invoice c = Some i \<or> col_supplier c = s \<and> col_invoice c = None) \<and> col_is_active c) (t_collateral d)"

lemma first_row_sort_key:
  assumes "first_row (sort_key k xs) = Some x"
  shows "x \<in> set xs" and "\<And>y. y \<in> set xs \<Longrightarrow> k x \<le> k y"
proof -
  obtain ys where ys: "sort_key k xs = x # ys" using assms by (cases "sort_key k xs") auto
  then have "set (x # ys) = set xs" by (metis set_sort)
  then show "x \<in> set xs" by auto
  have "sorted (map k (x # ys))" using ys by (metis sorted_sort_key)
  with \<open>set (x # ys) = set xs\<close> show "k x \<le> k y" if "y \<in> set xs" for y using that by auto
qed

lemma rank_score_mono:
  assumes "collateral_rank a = Some m" "collateral_rank b = Some n" "m \<le> n"
  shows "COLLATERAL_SCORES b \<le> COLLATERAL_SCORES a"
  using assms by (cases a; cases b) auto

text \<open>
  the collateral query picks the strongest collateral among those whose type its ranking names:
  when every eligible collateral is of such a type, the chosen one has the highest raw score.
\<close>

theorem findBestCollateral_best:
  assumes "findBestCollateral i s d = Some c"
    and "\<forall>e \<in> set (eligible_collateral i s d). collateral_rank (col_type e) \<noteq> None"
    and "e \<in> set (eligible_collateral i s d)"
  shows "calculateCollateralRaw (col_type e) \<le> calculateCollateralRaw (col_type c)"
proof -
  have f: "first_row (sort_key (collateral_key i) (eligible_collateral i s d)) = Some c"
    using assms(1) by (simp add: findBestCollateral_def eligible_collateral_def)
  have c: "c \<in> set (eligible_collateral i s d)" and le: "collateral_key i c \<le> collateral_key i e"
    using first_row_sort_key [OF f] assms(3) by auto
  obtain m n where mn: "collateral_rank (col_type c) = Some m" "collateral_rank (col_type e) = Some n"
    using assms(2,3) c by fastforce
  then have "m \<le> n" using le by (auto simp: collateral_key_def split: if_splits)
  with mn show ?thesis unfolding calculateCollateralRaw_def by (rule rank_score_mono)
qed

definition sample_collateral :: "string \<Rightarrow> collateral_type \<Rightarrow> collateral" where
  "sample_collateral cid t = \<lparr>col_id = cid, col_invoice = Some ''inv'', col_supplier = ''sup'', col_type = t,
     col_value = 1000000, col_description = None, col_currency = ''UGX'', col_expiry_date = None,
     col_is_active = True, col_deleted_at = None, col_created_at = 0\<rparr>"

theorem findBestCollateral_best_witness:
  "calculateCollateralRaw Corporate_guarantee \<le> calculateCollateralRaw Bank_guarantee"
  using findBestCollateral_best [of "''inv''" "''sup''"
      "blank_db\<lparr>t_collateral := [sample_collateral ''a'' Corporate_guarantee, sample_collateral ''b'' Bank_guarantee]\<rparr>"
      "sample_collateral ''b'' Bank_guarantee" "sample_collateral ''a'' Corporate_guarantee"]
  by (simp add: findBestCollateral_def eligible_collateral_def sample_collateral_def collateral_key_def)

text \<open>
  for the two types its ranking does not name the query fails: beside a collateral of type
  \<open>none\<close> (raw score 0) an active performance bond (raw score 70) or an assignment of receivables
  (raw score 75) of the same invoice is passed over, so the invoice is scored as unsecured.
\<close>

theorem findBestCollateral_passes_over:
  "\<exists>d c. findBestCollateral ''inv'' ''sup'' d = Some c \<and> calculateCollateralRaw (col_type c) = 0
     \<and> (\<exists>e \<in> set (eligible_collateral ''inv'' ''sup'' d). calculateCollateralRaw (col_type e) = 70)
     \<and> (\<exists>e \<in> set (eligible_collateral ''inv'' ''sup'' d). calculateCollateralRaw (col_type e) = 75)"
proof -
  let ?d = "blank_db\<lparr>t_collateral := [sample_collateral ''a'' Performance_bond, sample_collateral ''b'' Assignment_of_receivables,
     sample_collateral ''c'' No_collateral]\<rparr>"
  have "findBestCollateral ''inv'' ''sup'' ?d = Some (sample_collateral ''c'' No_collateral)"
    by (simp add: findBestCollateral_def sample_collateral_def collateral_key_def)
  then show ?thesis
    by (intro exI [of _ ?d] exI [of _ "sample_collateral ''c'' No_collateral"])
      (simp add: eligible_collateral_def sample_collateral_def calculateCollateralRaw_def)
qed

subsection \<open>A weight that is not a number\<close>

lemma js_add_NaN [simp]: "js_add NaN a = NaN" "js_add a NaN = NaN"
  by (cases a; simp)+

lemma js_less_NaN [simp]: "\<not> js_less a NaN"
  by (cases a) simp_all

text \<open>
  a weight whose configured text is not a number (here the buyer-credit weight) passes the
  weight-sum check, because every comparison with NaN is false; the final score is then NaN,
  which the integer column refuses, so no invoice can be scored.
\<close>

theorem nan_weight_not_caught:
  assumes "w_buyer_credit (weights_of (current_config w)) = NaN"
    and "findInvoiceForScoring i (db w) = Some iv" and "inv_status iv = Inv_buyer_confirmed"
    and "getRiskScoreByInvoiceId i (db w) = None" and "findBuyerForScoring (inv_buyer iv) (db w) = Some b"
  shows "\<not> weights_misconfigured (weights_of (current_config w)) \<and> (\<forall>res w'. scoreInvoice sid i w \<noteq> (Inr res, w'))"
proof
  let ?ws = "weights_of (current_config w)"
  show "\<not> weights_misconfigured ?ws"
    by (simp add: weights_misconfigured_def weight_sum_def assms(1) js_sub_def to_double_zero)
  have f: "final_score (factors_of ctx (db w) ?ws) = NaN" for ctx
    by (simp add: final_score_def factors_of_def factor_def assms(1))
  show "\<forall>res w'. scoreInvoice sid i w \<noteq> (Inr res, w')"
  proof (intro allI notI)
    fix res w' assume "scoreInvoice sid i w = (Inr res, w')"
    then obtain ctx n where "rr_factors res = factors_of ctx (db w) ?ws" "rr_final_score res = final_score (rr_factors res)"
        "rr_final_score res = Fin (of_int n)"
      by (elim scoreInvoice_succ) blast
    then show False by (simp add: f)
  qed
qed

definition nan_world :: world where
  "nan_world = world_of (blank_db\<lparr>t_invoices := [sample_invoice Inv_buyer_confirmed],
     t_buyers := [sample_buyer], t_risk_config := [(''weight_buyer_credit'', ''high'')]\<rparr>)"

theorem nan_weight_not_caught_witness: "\<forall>res w'. scoreInvoice ''s'' ''inv'' nan_world \<noteq> (Inr res, w')"
proof -
  have "parseFloat ''high'' = NaN"
    by (simp add: parseFloat_def is_space_def is_digit_def)
  then have "w_buyer_credit (weights_of (current_config nan_world)) = NaN"
    by (simp add: weights_of_def get_weight_def current_config_def loaded_config_def map_of_merge_config nan_world_def world_of_def)
  from nan_weight_not_caught [OF this, of "''inv''" "sample_invoice Inv_buyer_confirmed" sample_buyer "''s''"] show ?thesis
    by (simp add: nan_world_def sample_defs findInvoiceForScoring_def getRiskScoreByInvoiceId_def findBuyerForScoring_def)
qed

end
