(* ===== verification/Approvals.thy ===== *)
theory Approvals
  imports Risk_Config
begin

text \<open>
  \<open>src/src/services/approvals\<close>: routing of a priced invoice to an approval tier, the approval and
  rejection handlers with their row lock, quorum rules and tier-3 rejection counter, the queue and
  SLA queries, and information requests. The lemmas characterise the routing, show when an
  approval moves the invoice, that two different officers stand behind every tier-3 approval by
  credit officers, and that a failing decision leaves the database as it was.
\<close>

section \<open>Repository\<close>

fun tier_str :: "approval_tier \<Rightarrow> string" where
  "tier_str AUTO = ''AUTO''"
| "tier_str TIER_2 = ''TIER_2''"
| "tier_str TIER_3 = ''TIER_3''"
| "tier_str TIER_4 = ''TIER_4''"

text \<open>
  \<open>INSERT INTO approvals\<close>: the tier and the lengths of the comments and of the memo are checked, the
  invoice is a foreign key, the identifier is the primary key, the approver a \<open>VARCHAR(100)\<close>.
\<close>

definition createApprovalWithClient :: "approval \<Rightarrow> db \<Rightarrow> ris_error + db" where
  "createApprovalWithClient a d =
     (if 100 < length (apr_approver a) then Inl (DbError ''22001'')
      else if apr_tier a \<notin> set (approval_tiers d) \<or> apr_comments a = []
              \<or> (case apr_credit_memo a of None \<Rightarrow> False | Some m \<Rightarrow> length m < 50 \<or> 5000 < length m)
      then Inl (DbError ''23514'')
      else if list_ex (\<lambda>r. apr_id r = apr_id a) (t_approvals d) then Inl (DbError ''23505'')
      else if select_one (\<lambda>r. inv_id r = apr_invoice a) (t_invoices d) = None then Inl (DbError ''23503'')
      else Inr (d\<lparr>t_approvals := t_approvals d @ [a]\<rparr>))"

text \<open>\<open>SELECT ... FOR UPDATE NOWAIT\<close>: a row locked by another transaction raises \<open>55P03\<close>.\<close>

definition lockInvoiceForReview :: "string \<Rightarrow> invoice option service" where
  "lockInvoiceForReview i =
     (\<lambda>w. case select_one (\<lambda>r. inv_id r = i) (t_invoices (db w)) of
            None \<Rightarrow> (Inr None, w)
          | Some r \<Rightarrow> if i \<in> set (row_locks w) then (Inl (DbError ''55P03''), w) else (Inr (Some r), w))"

definition getApprovalsByInvoiceId :: "string \<Rightarrow> db \<Rightarrow> approval list" where
  "getApprovalsByInvoiceId i d = filter (\<lambda>a. apr_invoice a = i) (t_approvals d)"

text \<open>The \<open>CASE\<close> of the queue and SLA queries.\<close>

definition sql_tier :: "invoice \<Rightarrow> risk_score \<Rightarrow> approval_tier" where
  "sql_tier iv rs =
     (if inv_face_value iv > 50000000 \<or> rs_final_score rs < 50 then TIER_3
      else if inv_face_value iv \<ge> 10000000 \<or> (rs_final_score rs \<ge> 50 \<and> rs_final_score rs < 75) \<or> inv_aml_flagged iv
      then TIER_2 else AUTO)"

record approval_queue_item =
  aqi_invoice :: string
  aqi_face_value :: int
  aqi_supplier :: string
  aqi_buyer :: string
  aqi_tier :: approval_tier
  aqi_status :: invoice_status
  aqi_final_score :: int
  aqi_aml_flagged :: bool
  aqi_created_at :: int

definition scored_invoices :: "db \<Rightarrow> (invoice \<times> risk_score) list" where
  "scored_invoices d =
     concat (map (\<lambda>iv. map (Pair iv) (filter (\<lambda>rs. rs_invoice rs = inv_id iv) (t_risk_scores d)))
       (filter (\<lambda>iv. inv_status iv = Inv_scored) (t_invoices d)))"

definition getPendingApprovalsByOfficer :: "string \<Rightarrow> db \<Rightarrow> approval_queue_item list" where
  "getPendingApprovalsByOfficer officer d =
     sort_key aqi_created_at
       (map (\<lambda>(iv, rs). \<lparr>aqi_invoice = inv_id iv, aqi_face_value = inv_face_value iv,
               aqi_supplier = inv_supplier iv, aqi_buyer = inv_buyer iv, aqi_tier = sql_tier iv rs,
               aqi_status = inv_status iv, aqi_final_score = rs_final_score rs,
               aqi_aml_flagged = inv_aml_flagged iv, aqi_created_at = inv_created_at iv\<rparr>)
         (filter (\<lambda>(iv, rs). \<not> list_ex (\<lambda>a. apr_invoice a = inv_id iv \<and> apr_approver a = officer) (t_approvals d))
           (scored_invoices d)))"

record sla_breach =
  sla_invoice :: string
  sla_face_value :: int
  sla_status :: invoice_status
  sla_tier :: approval_tier
  sla_updated_at :: int
  sla_hours_pending :: rat

definition getInvoicesExceedingSLA :: "int \<Rightarrow> int \<Rightarrow> db \<Rightarrow> sla_breach list" where
  "getInvoicesExceedingSLA now hours d =
     sort_key sla_updated_at
       (map (\<lambda>(iv, rs). \<lparr>sla_invoice = inv_id iv, sla_face_value = inv_face_value iv,
               sla_status = inv_status iv, sla_tier = sql_tier iv rs, sla_updated_at = inv_updated_at iv,
               sla_hours_pending = of_int (now - inv_updated_at iv) / 3600000\<rparr>)
         (filter (\<lambda>(iv, rs). inv_updated_at iv < now - hours * 3600000) (scored_invoices d)))"

text \<open>The update and the value it returns.\<close>

definition incrementTier3RejectionCount :: "int \<Rightarrow> string \<Rightarrow> db \<Rightarrow> int \<times> db" where
  "incrementTier3RejectionCount now i d =
     (let d' = d\<lparr>t_invoices := update_where (\<lambda>r. inv_id r = i)
                 (\<lambda>r. r\<lparr>inv_tier3_rejections := Some ((case inv_tier3_rejections r of None \<Rightarrow> 0 | Some n \<Rightarrow> n) + 1),
                        inv_updated_at := now\<rparr>) (t_invoices d)\<rparr>
      in ((case select_one (\<lambda>r. inv_id r = i) (t_invoices d') of
             None \<Rightarrow> 1 | Some r \<Rightarrow> (case inv_tier3_rejections r of None \<Rightarrow> 1 | Some n \<Rightarrow> n)), d'))"

definition repo_resetTier3RejectionCount :: "int \<Rightarrow> string \<Rightarrow> db \<Rightarrow> db" where
  "repo_resetTier3RejectionCount now i d =
     d\<lparr>t_invoices := update_where (\<lambda>r. inv_id r = i)
         (\<lambda>r. r\<lparr>inv_tier3_rejections := Some 0, inv_updated_at := now\<rparr>) (t_invoices d)\<rparr>"

definition getInvoiceForApproval :: "string \<Rightarrow> db \<Rightarrow> invoice option" where
  "getInvoiceForApproval i d = select_one (\<lambda>r. inv_id r = i) (t_invoices d)"

definition getRiskScoreForApproval :: "string \<Rightarrow> db \<Rightarrow> risk_score option" where
  "getRiskScoreForApproval i d = select_one (\<lambda>r. rs_invoice r = i) (t_risk_scores d)"

definition approvals_updateInvoiceStatus ::
    "int \<Rightarrow> string \<Rightarrow> invoice_status \<Rightarrow> invoice_status \<Rightarrow> db \<Rightarrow> db" where
  "approvals_updateInvoiceStatus t i new expected d =
     d\<lparr>t_invoices := update_where (\<lambda>r. inv_id r = i \<and> inv_status r = expected)
         (\<lambda>r. r\<lparr>inv_status := new, inv_updated_at := t\<rparr>) (t_invoices d)\<rparr>"

definition createInfoRequestWithClient :: "info_request \<Rightarrow> db \<Rightarrow> ris_error + db" where
  "createInfoRequestWithClient r d =
     (if length (irq_message r) < 10 then Inl (DbError ''23514'')
      else if select_one (\<lambda>v. inv_id v = irq_invoice r) (t_invoices d) = None
              \<or> \<not> user_exists d (Some (irq_requested_by r)) then Inl (DbError ''23503'')
      else Inr (d\<lparr>t_info_requests := t_info_requests d @ [r]\<rparr>))"

section \<open>Routing and validation\<close>

definition determineTier :: "invoice \<Rightarrow> risk_score \<Rightarrow> approval_tier" where
  "determineTier iv rs =
     (let faceValue = inv_face_value iv; score = rs_final_score rs
      in if faceValue > 200000000 \<or> score < 30 then TIER_4
         else if faceValue > 50000000 \<or> score < 50 then TIER_3
         else if faceValue \<ge> 10000000 \<or> (score \<ge> 50 \<and> score < 75) \<or> inv_aml_flagged iv then TIER_2
         else AUTO)"

definition validateReviewSummary :: "approval_tier \<Rightarrow> string option \<Rightarrow> ris_error + unit" where
  "validateReviewSummary tier summary =
     (if tier = AUTO then Inr ()
      else case summary of
             None \<Rightarrow> Inr ()
           | Some s \<Rightarrow> if length (js_trim s) < 30 then Inl (BusinessRuleError ''REVIEW_SUMMARY_REQUIRED'') else Inr ())"

definition validateCreditMemo :: "approval_tier \<Rightarrow> string option \<Rightarrow> ris_error + unit" where
  "validateCreditMemo tier memo =
     (if (tier = TIER_3 \<or> tier = TIER_4)
         \<and> (case memo of None \<Rightarrow> True | Some s \<Rightarrow> length (js_trim s) < 50)
      then Inl (BusinessRuleError ''CREDIT_MEMO_REQUIRED'') else Inr ())"

definition countApprovals :: "approval list \<Rightarrow> nat" where
  "countApprovals existing = length (filter (\<lambda>a. apr_decision a = APPROVED) existing)"

definition validateTier3Officer :: "string \<Rightarrow> string \<Rightarrow> approval list \<Rightarrow> ris_error + unit" where
  "validateTier3Officer userId role existing =
     (if role = ''management'' then Inr ()
      else if list_ex (\<lambda>a. apr_approver a = userId) existing then Inl (BusinessRuleError ''SAME_OFFICER'')
      else Inr ())"

definition checkTier4Quorum :: "approval list \<Rightarrow> string \<Rightarrow> bool" where
  "checkTier4Quorum existing currentRole = (countApprovals existing + 1 \<ge> 2 \<and> currentRole = ''management'')"

definition validateTier4Officer :: "string \<Rightarrow> string \<Rightarrow> approval list \<Rightarrow> ris_error + unit" where
  "validateTier4Officer userId role existing =
     (if list_ex (\<lambda>a. apr_approver a = userId) existing then Inl (BusinessRuleError ''SAME_OFFICER'')
      else if role \<noteq> ''management'' \<and> role \<noteq> ''credit_officer'' then Inl (BusinessRuleError ''QUORUM_NOT_MET'')
      else Inr ())"

section \<open>Approval\<close>

record approval_result =
  ar_id :: string
  ar_invoice :: string
  ar_tier :: approval_tier
  ar_decision :: approval_decision
  ar_comments :: string
  ar_quorum :: bool

record tier_params =
  tp_invoice :: invoice
  tp_score :: risk_score
  tp_tier :: approval_tier
  tp_user :: string
  tp_role :: string
  tp_existing :: "approval list"
  tp_comments :: string
  tp_credit_memo :: "string option"
  tp_review_summary :: "string option"

definition fetchAndValidate :: "string \<Rightarrow> (invoice \<times> risk_score) service" where
  "fetchAndValidate i =
     bindS (queryS (getInvoiceForApproval i)) (\<lambda>r.
     bindS (requireS r (NotFoundError ''Invoice'' i)) (\<lambda>iv.
     thenS (guardS (inv_status iv = Inv_priced) (BusinessRuleError ''INVOICE_WRONG_STATUS''))
     (bindS (queryS (getRiskScoreForApproval i)) (\<lambda>s.
     bindS (requireS s (NotFoundError ''RiskScore'' i)) (\<lambda>rs.
     returnS (iv, rs))))))"

definition lockInvoice :: "string \<Rightarrow> unit service" where
  "lockInvoice i =
     bindS (lockInvoiceForReview i) (\<lambda>locked. guardS (locked \<noteq> None) (BusinessRuleError ''INVOICE_LOCKED''))"

definition createApprovalRecord :: "string \<Rightarrow> string \<Rightarrow> approval_tier \<Rightarrow> string \<Rightarrow> string \<Rightarrow> string option
    \<Rightarrow> string option \<Rightarrow> unit service" where
  "createApprovalRecord aid i tier approver comments memo summary =
     tryExecS (createApprovalWithClient \<lparr>apr_id = aid, apr_invoice = i, apr_tier = tier, apr_decision = APPROVED,
       apr_approver = approver, apr_comments = comments, apr_credit_memo = memo, apr_review_summary = summary\<rparr>)"

definition queuePayment :: "string \<Rightarrow> unit service" where
  "queuePayment i = enqueueS Approvals_payment ''process-payment'' [(''invoiceId'', JStr i)]"

definition approveAndQueuePayment :: "string \<Rightarrow> unit service" where
  "approveAndQueuePayment i =
     bindS nowS (\<lambda>t.
     thenS (execS (approvals_updateInvoiceStatus t i Inv_approved Inv_priced)) (queuePayment i))"

definition processAutoApproval :: "string \<Rightarrow> invoice \<Rightarrow> risk_score \<Rightarrow> approval_result service" where
  "processAutoApproval aid iv rs =
     (let comments = ''Auto-approved: score '' @ show_int (rs_final_score rs) @ '', value '' @ show_int (inv_face_value iv) in
     thenS (createApprovalRecord aid (inv_id iv) AUTO ''SYSTEM'' comments None None)
     (thenS (approveAndQueuePayment (inv_id iv))
     (returnS \<lparr>ar_id = aid, ar_invoice = inv_id iv, ar_tier = AUTO, ar_decision = APPROVED,
               ar_comments = comments, ar_quorum = True\<rparr>)))"

definition processTier2Approval :: "string \<Rightarrow> invoice \<Rightarrow> string \<Rightarrow> string \<Rightarrow> string option \<Rightarrow> string option
    \<Rightarrow> approval_result service" where
  "processTier2Approval aid iv u comments memo summary =
     thenS (createApprovalRecord aid (inv_id iv) TIER_2 u comments memo summary)
     (thenS (approveAndQueuePayment (inv_id iv))
     (returnS \<lparr>ar_id = aid, ar_invoice = inv_id iv, ar_tier = TIER_2, ar_decision = APPROVED,
               ar_comments = comments, ar_quorum = True\<rparr>))"

definition processTier3Approval :: "string \<Rightarrow> tier_params \<Rightarrow> approval_result service" where
  "processTier3Approval aid p =
     thenS (liftS (validateTier3Officer (tp_user p) (tp_role p) (tp_existing p)))
     (thenS (createApprovalRecord aid (inv_id (tp_invoice p)) TIER_3 (tp_user p) (tp_comments p)
              (tp_credit_memo p) (tp_review_summary p))
     (let quorumReached = countApprovals (tp_existing p) + 1 \<ge> 2 in
     thenS (whenS quorumReached (approveAndQueuePayment (inv_id (tp_invoice p))))
     (returnS \<lparr>ar_id = aid, ar_invoice = inv_id (tp_invoice p), ar_tier = TIER_3, ar_decision = APPROVED,
               ar_comments = tp_comments p, ar_quorum = quorumReached\<rparr>)))"

definition processTier4Approval :: "string \<Rightarrow> tier_params \<Rightarrow> approval_result service" where
  "processTier4Approval aid p =
     thenS (liftS (validateTier4Officer (tp_user p) (tp_role p) (tp_existing p)))
     (thenS (createApprovalRecord aid (inv_id (tp_invoice p)) TIER_4 (tp_user p) (tp_comments p)
              (tp_credit_memo p) (tp_review_summary p))
     (let quorumReached = checkTier4Quorum (tp_existing p) (tp_role p) in
     thenS (whenS quorumReached (approveAndQueuePayment (inv_id (tp_invoice p))))
     (returnS \<lparr>ar_id = aid, ar_invoice = inv_id (tp_invoice p), ar_tier = TIER_4, ar_decision = APPROVED,
               ar_comments = tp_comments p, ar_quorum = quorumReached\<rparr>)))"

definition processApprovalByTier :: "string \<Rightarrow> tier_params \<Rightarrow> approval_result service" where
  "processApprovalByTier aid p =
     (if tp_tier p = AUTO then processAutoApproval aid (tp_invoice p) (tp_score p)
      else if tp_tier p = TIER_2
      then processTier2Approval aid (tp_invoice p) (tp_user p) (tp_comments p) (tp_credit_memo p) (tp_review_summary p)
      else if tp_tier p = TIER_3 then processTier3Approval aid p
      else processTier4Approval aid p)"

definition auditApproval :: "string \<Rightarrow> invoice \<Rightarrow> approval_tier \<Rightarrow> string \<Rightarrow> string \<Rightarrow> string \<Rightarrow> unit service" where
  "auditApproval u iv tier aid ip ua =
     createAuditEntry (audit_req (Some u) ''INVOICE_APPROVED'' ''approvals'' (inv_id iv)
       (Some [(''status'', JStr (inv_status_str (inv_status iv)))])
       [(''decision'', JStr ''APPROVED''), (''tier'', JStr (tier_str tier)), (''approvalId'', JStr aid), (''approverId'', JStr u)]
       (Some ip) (Some ua))"

definition executeApproval :: "string \<Rightarrow> invoice \<Rightarrow> risk_score \<Rightarrow> approval_tier \<Rightarrow> string \<Rightarrow> string \<Rightarrow> string \<Rightarrow> string
    \<Rightarrow> string option \<Rightarrow> string option \<Rightarrow> string option \<Rightarrow> approval_result service" where
  "executeApproval aid iv rs tier u role ip ua comments memo summary =
     transactionS
       (thenS (lockInvoice (inv_id iv))
       (bindS (queryS (getApprovalsByInvoiceId (inv_id iv))) (\<lambda>existing.
       bindS (processApprovalByTier aid \<lparr>tp_invoice = iv, tp_score = rs, tp_tier = tier, tp_user = u, tp_role = role,
                tp_existing = existing, tp_comments = (case comments of None \<Rightarrow> [] | Some c \<Rightarrow> c),
                tp_credit_memo = memo, tp_review_summary = summary\<rparr>) (\<lambda>result.
       thenS (auditApproval u iv tier (ar_id result) ip ua)
       (returnS result)))))"

text \<open>\<open>aid\<close> is the identifier \<open>uuidv4()\<close> returns for the new approval.\<close>

definition approveInvoice :: "string \<Rightarrow> string \<Rightarrow> string \<Rightarrow> string \<Rightarrow> string \<Rightarrow> string
    \<Rightarrow> string option \<Rightarrow> string option \<Rightarrow> string option \<Rightarrow> approval_result service" where
  "approveInvoice aid i u role ip ua comments memo summary =
     bindS (fetchAndValidate i) (\<lambda>(iv, rs).
     thenS (liftS (validateReviewSummary (determineTier iv rs) summary))
     (thenS (liftS (validateCreditMemo (determineTier iv rs) memo))
     (executeApproval aid iv rs (determineTier iv rs) u role ip ua comments memo summary)))"

section \<open>Rejection\<close>

definition createRejectionRecord :: "string \<Rightarrow> string \<Rightarrow> approval_tier \<Rightarrow> string \<Rightarrow> string \<Rightarrow> string option
    \<Rightarrow> string option \<Rightarrow> unit service" where
  "createRejectionRecord aid i tier u comments memo summary =
     tryExecS (createApprovalWithClient \<lparr>apr_id = aid, apr_invoice = i, apr_tier = tier, apr_decision = REJECTED,
       apr_approver = u, apr_comments = comments, apr_credit_memo = memo, apr_review_summary = summary\<rparr>)"

definition queueRejectionNotification :: "string \<Rightarrow> unit service" where
  "queueRejectionNotification i = enqueueS Approvals_notification ''invoice-rejected'' [(''invoiceId'', JStr i)]"

definition rejectAndNotify :: "string \<Rightarrow> unit service" where
  "rejectAndNotify i =
     bindS nowS (\<lambda>t.
     thenS (execS (approvals_updateInvoiceStatus t i Inv_rejected Inv_priced)) (queueRejectionNotification i))"

definition handleTier3Rejection :: "string \<Rightarrow> string \<Rightarrow> string \<Rightarrow> string \<Rightarrow> unit service" where
  "handleTier3Rejection i u ip ua =
     bindS nowS (\<lambda>t.
     bindS (queryS (\<lambda>d. fst (incrementTier3RejectionCount t i d))) (\<lambda>rejCount.
     thenS (execS (\<lambda>d. snd (incrementTier3RejectionCount t i d)))
     (bindS (getRiskConfigNumber ''tier3_auto_reject_threshold'') (\<lambda>threshold.
     if js_less (js_Number rejCount) threshold then returnS ()
     else thenS (rejectAndNotify i)
       (createAuditEntry (audit_req (Some u) ''TIER3_AUTO_REJECTED'' ''invoices'' i
         (Some [(''tier3_rejection_count'', JInt rejCount), (''tier'', JStr (tier_str TIER_3))])
         [(''status'', JStr ''rejected''),
          (''reason'', JStr ''Auto-rejected: exceeded maximum rejection threshold''),
          (''rejectionCount'', JInt rejCount), (''threshold'', JNum threshold)] (Some ip) (Some ua)))))))"

definition auditRejection :: "string \<Rightarrow> invoice \<Rightarrow> approval_tier \<Rightarrow> string \<Rightarrow> string \<Rightarrow> string \<Rightarrow> string \<Rightarrow> unit service" where
  "auditRejection u iv tier aid comments ip ua =
     createAuditEntry (audit_req (Some u) ''INVOICE_REJECTED'' ''approvals'' (inv_id iv)
       (Some [(''status'', JStr (inv_status_str (inv_status iv)))])
       [(''decision'', JStr ''REJECTED''), (''tier'', JStr (tier_str tier)), (''approvalId'', JStr aid),
        (''approverId'', JStr u), (''comments'', JStr comments)] (Some ip) (Some ua))"

definition executeRejection :: "string \<Rightarrow> invoice \<Rightarrow> approval_tier \<Rightarrow> string \<Rightarrow> string \<Rightarrow> string
    \<Rightarrow> string \<Rightarrow> string option \<Rightarrow> string option \<Rightarrow> approval_result service" where
  "executeRejection aid iv tier u ip ua comments memo summary =
     transactionS
       (thenS (lockInvoice (inv_id iv))
       (thenS (createRejectionRecord aid (inv_id iv) tier u comments memo summary)
       (thenS (if tier = TIER_3 then handleTier3Rejection (inv_id iv) u ip ua else rejectAndNotify (inv_id iv))
       (thenS (auditRejection u iv tier aid comments ip ua)
       (returnS \<lparr>ar_id = aid, ar_invoice = inv_id iv, ar_tier = tier, ar_decision = REJECTED,
                 ar_comments = comments, ar_quorum = False\<rparr>)))))"

definition rejectInvoice :: "string \<Rightarrow> string \<Rightarrow> string \<Rightarrow> string \<Rightarrow> string \<Rightarrow> string \<Rightarrow> string
    \<Rightarrow> string option \<Rightarrow> string option \<Rightarrow> approval_result service" where
  "rejectInvoice aid i u role ip ua comments memo summary =
     bindS (fetchAndValidate i) (\<lambda>(iv, rs).
     thenS (liftS (validateReviewSummary (determineTier iv rs) summary))
     (thenS (liftS (validateCreditMemo (determineTier iv rs) memo))
     (executeRejection aid iv (determineTier iv rs) u ip ua comments memo summary)))"

section \<open>Other operations\<close>

definition getApprovalQueue :: "string \<Rightarrow> approval_queue_item list service" where
  "getApprovalQueue officer = queryS (getPendingApprovalsByOfficer officer)"

record committee_status =
  cs_invoice :: string
  cs_tier :: approval_tier
  cs_approvals :: "approval list"
  cs_rejections :: "approval list"
  cs_quorum :: bool
  cs_total :: nat

definition buildCommitteeStatus :: "string \<Rightarrow> approval_tier \<Rightarrow> approval list \<Rightarrow> committee_status" where
  "buildCommitteeStatus i tier approvals =
     \<lparr>cs_invoice = i, cs_tier = tier, cs_approvals = filter (\<lambda>a. apr_decision a = APPROVED) approvals,
      cs_rejections = filter (\<lambda>a. apr_decision a = REJECTED) approvals,
      cs_quorum = length (filter (\<lambda>a. apr_decision a = APPROVED) approvals) \<ge> 2, cs_total = length approvals\<rparr>"

definition getCommitteeStatus :: "string \<Rightarrow> committee_status service" where
  "getCommitteeStatus i =
     bindS (queryS (getInvoiceForApproval i)) (\<lambda>r.
     bindS (requireS r (NotFoundError ''Invoice'' i)) (\<lambda>iv.
     bindS (queryS (getRiskScoreForApproval i)) (\<lambda>s.
     bindS (requireS s (NotFoundError ''RiskScore'' i)) (\<lambda>rs.
     bindS (queryS (getApprovalsByInvoiceId i)) (\<lambda>approvals.
     returnS (buildCommitteeStatus i (determineTier iv rs) approvals))))))"

definition queueSlaEscalation :: "sla_breach \<Rightarrow> unit service" where
  "queueSlaEscalation b =
     enqueueS Approvals_notification ''sla-escalation''
       [(''invoiceId'', JStr (sla_invoice b)), (''hoursPending'', JNum (Fin (sla_hours_pending b))),
        (''tier'', JStr (tier_str (sla_tier b)))]"

definition checkSlaBreaches :: "unit service" where
  "checkSlaBreaches =
     bindS nowS (\<lambda>t. bindS (queryS (getInvoicesExceedingSLA t 24)) (\<lambda>breaches. forS queueSlaEscalation breaches))"

definition INVALID_INFO_REQUEST_STATUSES :: "invoice_status list" where
  "INVALID_INFO_REQUEST_STATUSES =
     [Inv_funded, Inv_collecting, Inv_overdue, Inv_collected, Inv_defaulted, Inv_cancelled]"

definition persistInfoRequest :: "string \<Rightarrow> string \<Rightarrow> string \<Rightarrow> string \<Rightarrow> info_request service" where
  "persistInfoRequest rid i u message =
     (let row = \<lparr>irq_id = rid, irq_invoice = i, irq_requested_by = u, irq_message = message\<rparr> in
     transactionS
       (thenS (tryExecS (createInfoRequestWithClient row))
       (thenS (createAuditEntry (audit_sys (Some u) ''INFO_REQUESTED'' ''invoices'' i None
          [(''messageLength'', JInt (int (length message)))]))
       (returnS row))))"

definition notifyInfoRequest :: "string \<Rightarrow> string \<Rightarrow> unit service" where
  "notifyInfoRequest i u =
     enqueueS Approvals_notification ''info-requested'' [(''invoiceId'', JStr i), (''requestedBy'', JStr u)]"

definition createInfoRequest :: "string \<Rightarrow> string \<Rightarrow> string \<Rightarrow> string \<Rightarrow> info_request service" where
  "createInfoRequest rid i u message =
     bindS (queryS (getInvoiceForApproval i)) (\<lambda>r.
     bindS (requireS r (NotFoundError ''Invoice'' i)) (\<lambda>iv.
     thenS (guardS (inv_status iv \<notin> set INVALID_INFO_REQUEST_STATUSES) (BusinessRuleError ''INVOICE_WRONG_STATUS''))
     (bindS (persistInfoRequest rid i u message) (\<lambda>row.
     thenS (notifyInfoRequest i u)
     (returnS row)))))"

definition persistRejectionCountReset :: "invoice \<Rightarrow> string \<Rightarrow> string \<Rightarrow> string \<Rightarrow> unit service" where
  "persistRejectionCountReset iv u ip ua =
     bindS nowS (\<lambda>t. transactionS
       (thenS (execS (repo_resetTier3RejectionCount t (inv_id iv)))
       (createAuditEntry (audit_req (Some u) ''TIER3_REJECTION_COUNT_RESET'' ''invoices'' (inv_id iv)
          (Some [(''status'', JStr (inv_status_str (inv_status iv)))])
          [(''tier3_rejection_count'', JInt 0), (''resetBy'', JStr u)] (Some ip) (Some ua)))))"

definition resetTier3RejectionCount :: "string \<Rightarrow> string \<Rightarrow> string \<Rightarrow> string \<Rightarrow> unit service" where
  "resetTier3RejectionCount i u ip ua =
     bindS (queryS (getInvoiceForApproval i)) (\<lambda>r.
     bindS (requireS r (NotFoundError ''Invoice'' i)) (\<lambda>iv.
     persistRejectionCountReset iv u ip ua))"

section \<open>Routing\<close>

fun tier_level :: "approval_tier \<Rightarrow> nat" where
  "tier_level AUTO = 1"
| "tier_level TIER_2 = 2"
| "tier_level TIER_3 = 3"
| "tier_level TIER_4 = 4"

interpretation approvals_upd: guarded_status_update approvals_updateInvoiceStatus
  by unfold_locales (simp_all add: approvals_updateInvoiceStatus_def)

section \<open>What an approval does\<close>

text \<open>When an approval counts as the deciding one.\<close>

definition quorum :: "approval_tier \<Rightarrow> approval list \<Rightarrow> string \<Rightarrow> bool" where
  "quorum tier existing role =
     (case tier of AUTO \<Rightarrow> True | TIER_2 \<Rightarrow> True
      | TIER_3 \<Rightarrow> 1 \<le> countApprovals existing
      | TIER_4 \<Rightarrow> 1 \<le> countApprovals existing \<and> role = ''management'')"

definition officer_ok :: "approval_tier \<Rightarrow> string \<Rightarrow> string \<Rightarrow> approval list \<Rightarrow> bool" where
  "officer_ok tier u role existing =
     (case tier of AUTO \<Rightarrow> True | TIER_2 \<Rightarrow> True
      | TIER_3 \<Rightarrow> role = ''management'' \<or> \<not> list_ex (\<lambda>a. apr_approver a = u) existing
      | TIER_4 \<Rightarrow> \<not> list_ex (\<lambda>a. apr_approver a = u) existing \<and> (role = ''management'' \<or> role = ''credit_officer''))"

lemma createApproval_succ:
  "createApprovalWithClient a d = Inr d' \<Longrightarrow>
     d' = d\<lparr>t_approvals := t_approvals d @ [a]\<rparr> \<and> apr_tier a \<in> set (approval_tiers d)"
  by (auto simp: createApprovalWithClient_def split: if_splits)

lemma approveAndQueuePayment_succ:
  "approveAndQueuePayment i w = (Inr x, w') \<longleftrightarrow>
     (queue_set w Approvals_payment \<longrightarrow> redis_up w)
     \<and> w' = enqueued Approvals_payment ''process-payment'' [(''invoiceId'', JStr i)]
             (w\<lparr>db := approvals_updateInvoiceStatus (clock w) i Inv_approved Inv_priced (db w)\<rparr>)"
  by (auto simp: approveAndQueuePayment_def queuePayment_def svc_succ enqueued_def)

text \<open>The world after a decision of one tier, before the audit entry.\<close>

definition decided :: "approval_tier \<Rightarrow> approval \<Rightarrow> bool \<Rightarrow> world \<Rightarrow> world" where
  "decided tier a q w =
     (let w1 = w\<lparr>db := (db w)\<lparr>t_approvals := t_approvals (db w) @ [a]\<rparr>\<rparr>
      in if q then enqueued Approvals_payment ''process-payment'' [(''invoiceId'', JStr (apr_invoice a))]
             (w1\<lparr>db := approvals_updateInvoiceStatus (clock w) (apr_invoice a) Inv_approved Inv_priced (db w1)\<rparr>)
         else w1)"

lemma createApprovalRecord_succ:
  assumes "createApprovalRecord aid i tier u c m s w = (Inr x, w')"
  shows "w' = w\<lparr>db := (db w)\<lparr>t_approvals := t_approvals (db w) @ [\<lparr>apr_id = aid, apr_invoice = i, apr_tier = tier,
           apr_decision = APPROVED, apr_approver = u, apr_comments = c, apr_credit_memo = m, apr_review_summary = s\<rparr>]\<rparr>\<rparr>
    \<and> tier \<in> set (approval_tiers (db w))"
  using assms by (auto simp: createApprovalRecord_def svc_succ dest!: createApproval_succ)

text \<open>The record of an approval: the automatic tier is signed by the system with its own comment.\<close>

definition approval_row :: "string \<Rightarrow> tier_params \<Rightarrow> approval" where
  "approval_row aid p =
     \<lparr>apr_id = aid, apr_invoice = inv_id (tp_invoice p), apr_tier = tp_tier p, apr_decision = APPROVED,
      apr_approver = (if tp_tier p = AUTO then ''SYSTEM'' else tp_user p),
      apr_comments = (if tp_tier p = AUTO then ''Auto-approved: score '' @ show_int (rs_final_score (tp_score p))
                        @ '', value '' @ show_int (inv_face_value (tp_invoice p)) else tp_comments p),
      apr_credit_memo = (if tp_tier p = AUTO then None else tp_credit_memo p),
      apr_review_summary = (if tp_tier p = AUTO then None else tp_review_summary p)\<rparr>"

lemma process_steps:
  assumes "processApprovalByTier aid p w = (Inr res, w')"
  shows "(\<exists>w1. createApprovalRecord aid (inv_id (tp_invoice p)) (tp_tier p) (apr_approver (approval_row aid p))
             (apr_comments (approval_row aid p)) (apr_credit_memo (approval_row aid p)) (apr_review_summary (approval_row aid p)) w
             = (Inr (), w1)
           \<and> (if quorum (tp_tier p) (tp_existing p) (tp_role p)
              then approveAndQueuePayment (inv_id (tp_invoice p)) w1 = (Inr (), w') else w' = w1))
    \<and> officer_ok (tp_tier p) (tp_user p) (tp_role p) (tp_existing p)
    \<and> res = \<lparr>ar_id = aid, ar_invoice = inv_id (tp_invoice p), ar_tier = tp_tier p, ar_decision = APPROVED,
        ar_comments = apr_comments (approval_row aid p), ar_quorum = quorum (tp_tier p) (tp_existing p) (tp_role p)\<rparr>"
proof (cases "tp_tier p")
  case AUTO
  obtain c where c: "c = ''Auto-approved: score '' @ show_int (rs_final_score (tp_score p)) @ '', value '' @ show_int (inv_face_value (tp_invoice p))"
    by blast
  show ?thesis using assms AUTO
    unfolding approval_row_def processApprovalByTier_def processAutoApproval_def Let_def c [symmetric]
    by (auto simp: svc_succ quorum_def officer_ok_def)
next
  case TIER_2
  then show ?thesis using assms
    by (auto simp: approval_row_def processApprovalByTier_def processTier2Approval_def svc_succ Let_def quorum_def officer_ok_def)
next
  case TIER_3
  have o: "validateTier3Officer u r e = Inr () \<longleftrightarrow> officer_ok TIER_3 u r e" for u r e
    by (simp add: validateTier3Officer_def officer_ok_def)
  have q: "(Suc 0 \<le> countApprovals e) = quorum TIER_3 e r" for e r by (simp add: quorum_def)
  show ?thesis using assms TIER_3 unfolding processApprovalByTier_def processTier3Approval_def
    by (auto simp: approval_row_def svc_succ Let_def o q [of _ "tp_role p"] split: if_splits)
next
  case TIER_4
  have o: "validateTier4Officer u r e = Inr () \<longleftrightarrow> officer_ok TIER_4 u r e" for u r e
    by (simp add: validateTier4Officer_def officer_ok_def)
  have q: "checkTier4Quorum e r = quorum TIER_4 e r" for e r by (simp add: checkTier4Quorum_def quorum_def)
  show ?thesis using assms TIER_4 unfolding processApprovalByTier_def processTier4Approval_def
    by (auto simp: approval_row_def svc_succ Let_def o q split: if_splits)
qed

lemma process_succ:
  assumes "processApprovalByTier aid p w = (Inr res, w')"
  shows "w' = decided (tp_tier p) (approval_row aid p) (quorum (tp_tier p) (tp_existing p) (tp_role p)) w"
    "tp_tier p \<in> set (approval_tiers (db w))"
    "officer_ok (tp_tier p) (tp_user p) (tp_role p) (tp_existing p)"
    "res = \<lparr>ar_id = aid, ar_invoice = inv_id (tp_invoice p), ar_tier = tp_tier p, ar_decision = APPROVED,
        ar_comments = apr_comments (approval_row aid p), ar_quorum = quorum (tp_tier p) (tp_existing p) (tp_role p)\<rparr>"
proof -
  let ?q = "quorum (tp_tier p) (tp_existing p) (tp_role p)" and ?a = "approval_row aid p"
  obtain w1 where c: "createApprovalRecord aid (inv_id (tp_invoice p)) (tp_tier p) (apr_approver ?a)
             (apr_comments ?a) (apr_credit_memo ?a) (apr_review_summary ?a) w = (Inr (), w1)"
      "if ?q then approveAndQueuePayment (inv_id (tp_invoice p)) w1 = (Inr (), w') else w' = w1"
    using process_steps [OF assms] by blast
  have a: "w1 = w\<lparr>db := (db w)\<lparr>t_approvals := t_approvals (db w) @ [?a]\<rparr>\<rparr>" "tp_tier p \<in> set (approval_tiers (db w))"
    "apr_invoice ?a = inv_id (tp_invoice p)"
    using createApprovalRecord_succ [OF c(1)] by (simp_all add: approval_row_def)
  show "w' = decided (tp_tier p) ?a ?q w"
    using c(2) a(1,3) by (cases ?q) (simp_all add: decided_def Let_def approveAndQueuePayment_succ)
qed (use process_steps [OF assms] createApprovalRecord_succ in \<open>blast+\<close>)

lemma lockInvoice_succ:
  "lockInvoice i w = (Inr x, w') \<longleftrightarrow>
     w' = w \<and> i \<notin> set (row_locks w) \<and> select_one (\<lambda>r. inv_id r = i) (t_invoices (db w)) \<noteq> None"
  by (auto simp: lockInvoice_def lockInvoiceForReview_def svc_succ split: option.splits if_splits)

lemma fetchAndValidate_succ:
  "fetchAndValidate i w = (Inr (iv, rs), w') \<longleftrightarrow>
     w' = w \<and> getInvoiceForApproval i (db w) = Some iv \<and> inv_status iv = Inv_priced
     \<and> getRiskScoreForApproval i (db w) = Some rs"
  by (auto simp: fetchAndValidate_def svc_succ)

lemma getInvoiceForApproval_id: "getInvoiceForApproval i d = Some iv \<Longrightarrow> inv_id iv = i"
  unfolding getInvoiceForApproval_def by (rule select_one_key)

lemma approveInvoice_steps:
  assumes "approveInvoice aid i u role ip ua comments memo summary w = (Inr res, w')"
  obtains iv rs p where
    "getInvoiceForApproval i (db w) = Some iv" "inv_status iv = Inv_priced" "getRiskScoreForApproval i (db w) = Some rs"
    "inv_id iv = i" "i \<notin> set (row_locks w)" "user_exists (db w) (Some u)"
    "p = \<lparr>tp_invoice = iv, tp_score = rs, tp_tier = determineTier iv rs, tp_user = u, tp_role = role,
           tp_existing = getApprovalsByInvoiceId i (db w), tp_comments = (case comments of None \<Rightarrow> [] | Some c \<Rightarrow> c),
           tp_credit_memo = memo, tp_review_summary = summary\<rparr>"
    "determineTier iv rs \<in> set (approval_tiers (db w))"
    "officer_ok (determineTier iv rs) u role (getApprovalsByInvoiceId i (db w))"
    "res = \<lparr>ar_id = aid, ar_invoice = i, ar_tier = determineTier iv rs, ar_decision = APPROVED,
        ar_comments = apr_comments (approval_row aid p), ar_quorum = quorum (determineTier iv rs) (getApprovalsByInvoiceId i (db w)) role\<rparr>"
    "w' = (decided (determineTier iv rs) (approval_row aid p) (ar_quorum res) w)
            \<lparr>db := (db (decided (determineTier iv rs) (approval_row aid p) (ar_quorum res) w))\<lparr>t_audit := t_audit (db w) @
               [audit_req (Some u) ''INVOICE_APPROVED'' ''approvals'' i (Some [(''status'', JStr ''priced'')])
                 [(''decision'', JStr ''APPROVED''), (''tier'', JStr (tier_str (determineTier iv rs))),
                  (''approvalId'', JStr aid), (''approverId'', JStr u)] (Some ip) (Some ua)]\<rparr>\<rparr>"
proof -
  obtain iv rs where iv: "getInvoiceForApproval i (db w) = Some iv" "inv_status iv = Inv_priced"
      "getRiskScoreForApproval i (db w) = Some rs"
    and ex: "executeApproval aid iv rs (determineTier iv rs) u role ip ua comments memo summary w = (Inr res, w')"
    using assms unfolding approveInvoice_def bindS_succ by (auto simp: svc_succ fetchAndValidate_succ)
  have id: "inv_id iv = i" using iv(1) by (rule getInvoiceForApproval_id)
  let ?t = "determineTier iv rs" and ?E = "getApprovalsByInvoiceId i (db w)"
  define p where p: "p = \<lparr>tp_invoice = iv, tp_score = rs, tp_tier = ?t, tp_user = u, tp_role = role,
           tp_existing = ?E, tp_comments = (case comments of None \<Rightarrow> [] | Some c \<Rightarrow> c),
           tp_credit_memo = memo, tp_review_summary = summary\<rparr>"
  obtain w1 where w1: "i \<notin> set (row_locks w)" "processApprovalByTier aid p w = (Inr res, w1)"
    "auditApproval u iv ?t (ar_id res) ip ua w1 = (Inr (), w')"
    using ex unfolding executeApproval_def transactionS_succ p by (auto simp: svc_succ lockInvoice_succ id)
  have a: "w1 = decided ?t (approval_row aid p) (quorum ?t ?E role) w" "?t \<in> set (approval_tiers (db w))"
      "officer_ok ?t u role ?E"
      "res = \<lparr>ar_id = aid, ar_invoice = i, ar_tier = ?t, ar_decision = APPROVED,
        ar_comments = apr_comments (approval_row aid p), ar_quorum = quorum ?t ?E role\<rparr>"
    using process_succ [OF w1(2)] id by (simp_all add: p)
  have tb: "t_audit (db w1) = t_audit (db w)" "t_users (db w1) = t_users (db w)"
    by (simp_all add: a(1) decided_def Let_def approvals_updateInvoiceStatus_def)
  have st: "inv_status_str (inv_status iv) = ''priced''" using iv(2) by simp
  have e: "user_exists (db w) (Some u)" "w' = w1\<lparr>db := (db w1)\<lparr>t_audit := t_audit (db w) @
      [audit_req (Some u) ''INVOICE_APPROVED'' ''approvals'' i (Some [(''status'', JStr ''priced'')])
        [(''decision'', JStr ''APPROVED''), (''tier'', JStr (tier_str ?t)), (''approvalId'', JStr aid), (''approverId'', JStr u)]
        (Some ip) (Some ua)]\<rparr>\<rparr>"
    using w1(3) tb unfolding auditApproval_def createAuditEntry_succ
    by (simp_all add: user_exists_def id st a(4))
  show thesis by (rule that [OF iv id w1(1) e(1) p a(2,3,4)]) (simp only: e(2) a(1,4) approval_result.simps)
qed

lemma approveInvoice_succ:
  assumes "approveInvoice aid i u role ip ua comments memo summary w = (Inr res, w')"
  obtains iv rs a e where
    "getInvoiceForApproval i (db w) = Some iv" "inv_status iv = Inv_priced" "getRiskScoreForApproval i (db w) = Some rs"
    "i \<notin> set (row_locks w)" "determineTier iv rs \<in> set (approval_tiers (db w))"
    "officer_ok (determineTier iv rs) u role (getApprovalsByInvoiceId i (db w))"
    "ar_tier res = determineTier iv rs" "ar_decision res = APPROVED"
    "ar_quorum res = quorum (determineTier iv rs) (getApprovalsByInvoiceId i (db w)) role"
    "apr_id a = aid" "apr_invoice a = i" "apr_tier a = determineTier iv rs" "apr_decision a = APPROVED"
    "apr_approver a = (if determineTier iv rs = AUTO then ''SYSTEM'' else u)"
    "user_exists (db w) (Some u)"
    "aud_action e = ''INVOICE_APPROVED''" "aud_user e = Some u"
    "w' = (decided (determineTier iv rs) a (ar_quorum res) w)
            \<lparr>db := (db (decided (determineTier iv rs) a (ar_quorum res) w))\<lparr>t_audit := t_audit (db w) @ [e]\<rparr>\<rparr>"
proof -
  from approveInvoice_steps [OF assms] obtain iv rs p where h:
    "getInvoiceForApproval i (db w) = Some iv" "inv_status iv = Inv_priced" "getRiskScoreForApproval i (db w) = Some rs"
    "inv_id iv = i" "i \<notin> set (row_locks w)" "user_exists (db w) (Some u)"
    "p = \<lparr>tp_invoice = iv, tp_score = rs, tp_tier = determineTier iv rs, tp_user = u, tp_role = role,
           tp_existing = getApprovalsByInvoiceId i (db w), tp_comments = (case comments of None \<Rightarrow> [] | Some c \<Rightarrow> c),
           tp_credit_memo = memo, tp_review_summary = summary\<rparr>"
    "determineTier iv rs \<in> set (approval_tiers (db w))"
    "officer_ok (determineTier iv rs) u role (getApprovalsByInvoiceId i (db w))"
    and r: "res = \<lparr>ar_id = aid, ar_invoice = i, ar_tier = determineTier iv rs, ar_decision = APPROVED,
        ar_comments = apr_comments (approval_row aid p), ar_quorum = quorum (determineTier iv rs) (getApprovalsByInvoiceId i (db w)) role\<rparr>"
    and w: "w' = (decided (determineTier iv rs) (approval_row aid p) (ar_quorum res) w)
            \<lparr>db := (db (decided (determineTier iv rs) (approval_row aid p) (ar_quorum res) w))\<lparr>t_audit := t_audit (db w) @
               [audit_req (Some u) ''INVOICE_APPROVED'' ''approvals'' i (Some [(''status'', JStr ''priced'')])
                 [(''decision'', JStr ''APPROVED''), (''tier'', JStr (tier_str (determineTier iv rs))),
                  (''approvalId'', JStr aid), (''approverId'', JStr u)] (Some ip) (Some ua)]\<rparr>\<rparr>" .
  show thesis
    by (rule that [OF h(1-3,5,8,9) _ _ _ _ _ _ _ _ h(6) _ _ w]) (simp_all add: r h(4,7) approval_row_def)
qed

lemma decided_lookup:
  assumes "getInvoiceForApproval i (db w) = Some iv" "inv_status iv = Inv_priced" "apr_invoice a = i"
  shows "getInvoiceForApproval i ((db (decided t a q w))\<lparr>t_audit := x\<rparr>) =
           Some (if q then iv\<lparr>inv_status := Inv_approved, inv_updated_at := clock w\<rparr> else iv)"
  using assms approvals_upd.upd_moves [of i "(db w)\<lparr>t_approvals := t_approvals (db w) @ [a]\<rparr>" iv Inv_priced "clock w" Inv_approved]
  by (simp add: decided_def Let_def getInvoiceForApproval_def)

lemma decided_fields:
  "t_approvals (db (decided t a q w)) = t_approvals (db w) @ [a]"
  "jobs (decided t a q w) = jobs w @ (if q \<and> queue_set w Approvals_payment
      then [\<lparr>job_ref = Approvals_payment, job_name = ''process-payment'', job_data = [(''invoiceId'', JStr (apr_invoice a))]\<rparr>] else [])"
  by (simp_all add: decided_def Let_def approvals_updateInvoiceStatus_def)

lemma decided_exact:
  "decided t a q w = w\<lparr>db := (db w)\<lparr>
       t_invoices := (if q then update_where (\<lambda>r. inv_id r = apr_invoice a \<and> inv_status r = Inv_priced)
           (\<lambda>r. r\<lparr>inv_status := Inv_approved, inv_updated_at := clock w\<rparr>) (t_invoices (db w)) else t_invoices (db w)),
       t_approvals := t_approvals (db w) @ [a]\<rparr>,
     jobs := jobs w @ (if q \<and> queue_set w Approvals_payment
       then [\<lparr>job_ref = Approvals_payment, job_name = ''process-payment'', job_data = [(''invoiceId'', JStr (apr_invoice a))]\<rparr>] else [])\<rparr>"
  by (simp add: decided_def Let_def approvals_updateInvoiceStatus_def enqueued_def)

lemma decided_audited:
  "(w\<lparr>db := (db w)\<lparr>t_invoices := iv, t_approvals := ap\<rparr>, jobs := js\<rparr>)
      \<lparr>db := (db (w\<lparr>db := (db w)\<lparr>t_invoices := iv, t_approvals := ap\<rparr>, jobs := js\<rparr>))\<lparr>t_audit := au\<rparr>\<rparr>
    = w\<lparr>db := (db w)\<lparr>t_invoices := iv, t_approvals := ap, t_audit := au\<rparr>, jobs := js\<rparr>"
  by simp

lemma quorum_iff:
  "quorum t (getApprovalsByInvoiceId i d) role \<longleftrightarrow> (case t of AUTO \<Rightarrow> True | TIER_2 \<Rightarrow> True
     | TIER_3 \<Rightarrow> (\<exists>a \<in> set (t_approvals d). apr_invoice a = i \<and> apr_decision a = APPROVED)
     | TIER_4 \<Rightarrow> (\<exists>a \<in> set (t_approvals d). apr_invoice a = i \<and> apr_decision a = APPROVED) \<and> role = ''management'')"
  by (auto simp: quorum_def countApprovals_def getApprovalsByInvoiceId_def Suc_le_eq filter_empty_conv split: approval_tier.splits)

lemma keeps_db_approvals [atomic_intro]: "keeps_db (fetchAndValidate i)"
  by (auto simp: fetchAndValidate_def intro!: atomic_intro)

lemma atomic_approveInvoice: "atomic_upto Q (approveInvoice aid i u role ip ua c m s)"
  unfolding approveInvoice_def executeApproval_def
  by (rule atomic_bind [OF keeps_db_approvals]) (auto split: prod.splits intro!: atomic_then keeps_db_basic atomic_transaction)

lemma atomic_rejectInvoice: "atomic_upto Q (rejectInvoice aid i u role ip ua c m s)"
  unfolding rejectInvoice_def executeRejection_def
  by (rule atomic_bind [OF keeps_db_approvals]) (auto split: prod.splits intro!: atomic_then keeps_db_basic atomic_transaction)

text \<open>A rejection: the record, then the counter or the status, then the audit entry.\<close>

definition rejected_invoice :: "world \<Rightarrow> approval_tier \<Rightarrow> invoice \<Rightarrow> invoice" where
  "rejected_invoice w tier iv =
     (if tier = TIER_3
      then let n = (case inv_tier3_rejections iv of None \<Rightarrow> 0 | Some k \<Rightarrow> k) + 1
           in if js_less (js_Number n) (config_number w ''tier3_auto_reject_threshold'')
              then iv\<lparr>inv_tier3_rejections := Some n, inv_updated_at := clock w\<rparr>
              else iv\<lparr>inv_tier3_rejections := Some n, inv_status := Inv_rejected, inv_updated_at := clock w\<rparr>
      else iv\<lparr>inv_status := Inv_rejected, inv_updated_at := clock w\<rparr>)"

lemma rejectAndNotify_succ:
  "rejectAndNotify i w = (Inr x, w') \<longleftrightarrow>
     (queue_set w Approvals_notification \<longrightarrow> redis_up w)
     \<and> w' = enqueued Approvals_notification ''invoice-rejected'' [(''invoiceId'', JStr i)]
             (w\<lparr>db := approvals_updateInvoiceStatus (clock w) i Inv_rejected Inv_priced (db w)\<rparr>)"
  by (auto simp: rejectAndNotify_def queueRejectionNotification_def svc_succ enqueued_def)

lemma increment_lookup:
  assumes "select_one (\<lambda>r. inv_id r = i) (t_invoices d) = Some iv"
  shows "fst (incrementTier3RejectionCount t i d) = (case inv_tier3_rejections iv of None \<Rightarrow> 0 | Some k \<Rightarrow> k) + 1"
    "select_one (\<lambda>r. inv_id r = i) (t_invoices (snd (incrementTier3RejectionCount t i d))) =
       Some (iv\<lparr>inv_tier3_rejections := Some ((case inv_tier3_rejections iv of None \<Rightarrow> 0 | Some k \<Rightarrow> k) + 1), inv_updated_at := t\<rparr>)"
  using assms select_one_key [OF assms]
  by (simp_all add: incrementTier3RejectionCount_def Let_def select_one_update_where)

lemma rejectInvoice_succ:
  assumes "rejectInvoice aid i u role ip ua comments memo summary w = (Inr res, w')"
  obtains iv rs where
    "getInvoiceForApproval i (db w) = Some iv" "inv_status iv = Inv_priced" "getRiskScoreForApproval i (db w) = Some rs"
    "ar_tier res = determineTier iv rs" "ar_decision res = REJECTED"
    "getInvoiceForApproval i (db w') = Some (rejected_invoice w (determineTier iv rs) iv)"
proof -
  obtain iv rs where iv: "getInvoiceForApproval i (db w) = Some iv" "inv_status iv = Inv_priced"
      "getRiskScoreForApproval i (db w) = Some rs"
    and ex: "executeRejection aid iv (determineTier iv rs) u ip ua comments memo summary w = (Inr res, w')"
    using assms unfolding rejectInvoice_def bindS_succ by (auto simp: svc_succ fetchAndValidate_succ)
  have id: "inv_id iv = i" using iv(1) by (rule getInvoiceForApproval_id)
  let ?t = "determineTier iv rs"
  define H where "H = (if ?t = TIER_3 then handleTier3Rejection i u ip ua else rejectAndNotify i)"
  obtain w1 w2 where w1: "createRejectionRecord aid i ?t u comments memo summary w = (Inr (), w1)"
    "H w1 = (Inr (), w2)"
    "auditRejection u iv ?t aid comments ip ua w2 = (Inr (), w')" "ar_tier res = ?t" "ar_decision res = REJECTED"
    using ex unfolding executeRejection_def transactionS_succ id H_def [symmetric]
    by (auto simp: svc_succ lockInvoice_succ)
  have w1f: "t_invoices (db w1) = t_invoices (db w)" "clock w1 = clock w"
      "config_number w1 k = config_number w k" for k
    using w1(1) by (auto simp: createRejectionRecord_def svc_succ config_number_def config_value_def current_config_def
        loaded_config_def cached_def dest!: createApproval_succ)
  have l1: "select_one (\<lambda>r. inv_id r = i) (t_invoices (db w1)) = Some iv" using iv(1) w1f(1) by (simp add: getInvoiceForApproval_def)
  have "select_one (\<lambda>r. inv_id r = i) (t_invoices (db w2)) = Some (rejected_invoice w ?t iv)"
  proof (cases "?t = TIER_3")
    case True
    let ?d = "snd (incrementTier3RejectionCount (clock w) i (db w1))"
    let ?n = "(case inv_tier3_rejections iv of None \<Rightarrow> 0 | Some k \<Rightarrow> k) + 1"
    let ?iv = "iv\<lparr>inv_tier3_rejections := Some ?n, inv_updated_at := clock w\<rparr>"
    have l2: "select_one (\<lambda>r. inv_id r = i) (t_invoices ?d) = Some ?iv" by (rule increment_lookup(2) [OF l1])
    have cfg: "config_number (w1\<lparr>db := ?d\<rparr>) k = config_number w k" for k
      unfolding w1f(3) [symmetric]
      by (simp add: config_number_def config_value_def current_config_def loaded_config_def cached_def incrementTier3RejectionCount_def Let_def)
    have upd: "select_one (\<lambda>r. inv_id r = i) (t_invoices (approvals_updateInvoiceStatus (clock w) i Inv_rejected Inv_priced ?d))
        = Some (?iv\<lparr>inv_status := Inv_rejected, inv_updated_at := clock w\<rparr>)"
      using approvals_upd.upd_moves [OF l2] iv(2) by simp
    show ?thesis
      using w1(2) True l2 upd unfolding H_def
      by (auto simp: handleTier3Rejection_def svc_succ w1f(2) increment_lookup(1) [OF l1] rejected_invoice_def Let_def cfg
          rejectAndNotify_succ split: if_splits)
  next
    case False
    then show ?thesis
      using w1(2) approvals_upd.upd_moves [OF l1 iv(2)] unfolding H_def by (auto simp: rejectAndNotify_succ rejected_invoice_def w1f(2))
  qed
  then have "getInvoiceForApproval i (db w') = Some (rejected_invoice w ?t iv)"
    using w1(3) by (auto simp: auditRejection_def createAuditEntry_succ getInvoiceForApproval_def)
  with iv w1(4,5) that show thesis by blast
qed

section \<open>Properties\<close>

text \<open>
  routing. An invoice is approved automatically exactly when its value is below ten million, its
  score at least 75 and it has no AML flag; and the tier is monotone: a larger value, a lower score
  or an AML flag never leads to a lower tier.
\<close>

theorem determineTier_routing:
  "(determineTier iv rs = AUTO \<longleftrightarrow> inv_face_value iv < 10000000 \<and> 75 \<le> rs_final_score rs \<and> \<not> inv_aml_flagged iv)
   \<and> (determineTier iv rs = TIER_4 \<longleftrightarrow> 200000000 < inv_face_value iv \<or> rs_final_score rs < 30)
   \<and> (inv_face_value iv \<le> inv_face_value iv' \<and> rs_final_score rs' \<le> rs_final_score rs
      \<and> (inv_aml_flagged iv \<longrightarrow> inv_aml_flagged iv')
      \<longrightarrow> tier_level (determineTier iv rs) \<le> tier_level (determineTier iv' rs'))"
  by (auto simp: determineTier_def Let_def)

theorem determineTier_routing_witness:
  "tier_level (determineTier (sample_invoice Inv_priced) sample_score)
     \<le> tier_level (determineTier ((sample_invoice Inv_priced)\<lparr>inv_face_value := 60000000\<rparr>) sample_score)"
  using determineTier_routing [of "sample_invoice Inv_priced" sample_score "(sample_invoice Inv_priced)\<lparr>inv_face_value := 60000000\<rparr>" sample_score]
  by (simp add: sample_invoice_def sample_score_def)

definition approval_world :: "int \<Rightarrow> int \<Rightarrow> approval list \<Rightarrow> world" where
  "approval_world face score apps = world_of (blank_db\<lparr>
     t_invoices := [(sample_invoice Inv_priced)\<lparr>inv_face_value := face\<rparr>],
     t_risk_scores := [sample_score\<lparr>rs_final_score := score\<rparr>], t_approvals := apps,
     t_users := [sample_user ''o1'' None, sample_user ''o2'' None]\<rparr>)"

definition long_memo :: string where
  "long_memo = replicate 60 (CHR ''m'')"

definition sample_approval :: "string \<Rightarrow> approval_tier \<Rightarrow> approval" where
  "sample_approval u t = \<lparr>apr_id = ''a0'', apr_invoice = ''inv'', apr_tier = t, apr_decision = APPROVED,
     apr_approver = u, apr_comments = ''ok'', apr_credit_memo = Some long_memo, apr_review_summary = None\<rparr>"

lemma trim_long_memo [simp]: "js_trim long_memo = long_memo" "length long_memo = 60"
proof -
  have ns: "\<not> is_space (CHR ''m'')" by (simp add: is_space_def)
  have "dropWhile is_space (replicate n (CHR ''m'')) = replicate n (CHR ''m'')" for n
    using ns by (cases n) simp_all
  then show "js_trim long_memo = long_memo" by (simp add: js_trim_def long_memo_def rev_replicate)
  show "length long_memo = 60" by (simp add: long_memo_def)
qed

lemmas approvals_run = approveInvoice_def rejectInvoice_def fetchAndValidate_def getInvoiceForApproval_def
  getRiskScoreForApproval_def determineTier_def validateReviewSummary_def validateCreditMemo_def executeApproval_def
  executeRejection_def lockInvoice_def lockInvoiceForReview_def getApprovalsByInvoiceId_def processApprovalByTier_def
  createApprovalRecord_def createRejectionRecord_def createApprovalWithClient_def approveAndQueuePayment_def queuePayment_def
  auditApproval_def auditRejection_def approvals_updateInvoiceStatus_def countApprovals_def approval_world_def
  run_enqueue_up sample_approval_def

text \<open>
  C9: what a successful approval does, exactly. The invoice was priced and not locked, the approver
  is a user; one approval record of the tier is added, with the identifier drawn, the approver
  (\<open>SYSTEM\<close> with its own comment and neither memo nor summary in the automatic tier), the comments,
  memo and summary given; the invoice is approved and a payment job for it queued exactly when the
  call reports a quorum, and otherwise it stays priced. Tiers AUTO and 2 decide at once, tier 3
  with a second approval, tier 4 with a second approval given by management. One audit entry names
  the approver, the tier and the record; nothing else changes. Neither the hash of the comments
  (REQ-APPROVE-006) nor the acceptance of the price by the supplier (REQ-PRICE-010) is part of it.
\<close>

theorem approveInvoice_outcome:
  assumes "approveInvoice aid i u role ip ua comments memo summary w = (Inr res, w')"
  shows "\<exists>iv rs. getInvoiceForApproval i (db w) = Some iv \<and> inv_status iv = Inv_priced \<and> i \<notin> set (row_locks w)
    \<and> getRiskScoreForApproval i (db w) = Some rs \<and> user_exists (db w) (Some u)
    \<and> ar_id res = aid \<and> ar_invoice res = i \<and> ar_decision res = APPROVED \<and> ar_tier res = determineTier iv rs
    \<and> ar_comments res = (if ar_tier res = AUTO
         then ''Auto-approved: score '' @ show_int (rs_final_score rs) @ '', value '' @ show_int (inv_face_value iv)
         else case comments of None \<Rightarrow> [] | Some c \<Rightarrow> c)
    \<and> (ar_quorum res \<longleftrightarrow> (case ar_tier res of AUTO \<Rightarrow> True | TIER_2 \<Rightarrow> True
         | TIER_3 \<Rightarrow> (\<exists>a \<in> set (t_approvals (db w)). apr_invoice a = i \<and> apr_decision a = APPROVED)
         | TIER_4 \<Rightarrow> (\<exists>a \<in> set (t_approvals (db w)). apr_invoice a = i \<and> apr_decision a = APPROVED) \<and> role = ''management''))
    \<and> map_option inv_status (getInvoiceForApproval i (db w')) = Some (if ar_quorum res then Inv_approved else Inv_priced)
    \<and> w' = w\<lparr>db := (db w)\<lparr>
          t_invoices := (if ar_quorum res
            then update_where (\<lambda>r. inv_id r = i \<and> inv_status r = Inv_priced)
              (\<lambda>r. r\<lparr>inv_status := Inv_approved, inv_updated_at := clock w\<rparr>) (t_invoices (db w))
            else t_invoices (db w)),
          t_approvals := t_approvals (db w) @ [\<lparr>apr_id = aid, apr_invoice = i, apr_tier = ar_tier res, apr_decision = APPROVED,
            apr_approver = (if ar_tier res = AUTO then ''SYSTEM'' else u), apr_comments = ar_comments res,
            apr_credit_memo = (if ar_tier res = AUTO then None else memo),
            apr_review_summary = (if ar_tier res = AUTO then None else summary)\<rparr>],
          t_audit := t_audit (db w) @ [\<lparr>aud_user = Some u, aud_action = ''INVOICE_APPROVED'', aud_table = ''approvals'', aud_record = Some i,
            aud_old = Some [(''status'', JStr ''priced'')],
            aud_new = [(''decision'', JStr ''APPROVED''), (''tier'', JStr (tier_str (ar_tier res))), (''approvalId'', JStr aid),
              (''approverId'', JStr u)],
            aud_ip = Some ip, aud_agent = Some ua, aud_created_at = None\<rparr>]\<rparr>,
        jobs := jobs w @ (if ar_quorum res \<and> queue_set w Approvals_payment
          then [\<lparr>job_ref = Approvals_payment, job_name = ''process-payment'', job_data = [(''invoiceId'', JStr i)]\<rparr>] else [])\<rparr>"
proof -
  from approveInvoice_steps [OF assms] obtain iv rs p where h:
    "getInvoiceForApproval i (db w) = Some iv" "inv_status iv = Inv_priced" "getRiskScoreForApproval i (db w) = Some rs"
    "inv_id iv = i" "i \<notin> set (row_locks w)" "user_exists (db w) (Some u)"
    and p: "p = \<lparr>tp_invoice = iv, tp_score = rs, tp_tier = determineTier iv rs, tp_user = u, tp_role = role,
           tp_existing = getApprovalsByInvoiceId i (db w), tp_comments = (case comments of None \<Rightarrow> [] | Some c \<Rightarrow> c),
           tp_credit_memo = memo, tp_review_summary = summary\<rparr>"
    and r: "res = \<lparr>ar_id = aid, ar_invoice = i, ar_tier = determineTier iv rs, ar_decision = APPROVED,
        ar_comments = apr_comments (approval_row aid p), ar_quorum = quorum (determineTier iv rs) (getApprovalsByInvoiceId i (db w)) role\<rparr>"
    and w: "w' = (decided (determineTier iv rs) (approval_row aid p) (ar_quorum res) w)
            \<lparr>db := (db (decided (determineTier iv rs) (approval_row aid p) (ar_quorum res) w))\<lparr>t_audit := t_audit (db w) @
               [audit_req (Some u) ''INVOICE_APPROVED'' ''approvals'' i (Some [(''status'', JStr ''priced'')])
                 [(''decision'', JStr ''APPROVED''), (''tier'', JStr (tier_str (determineTier iv rs))),
                  (''approvalId'', JStr aid), (''approverId'', JStr u)] (Some ip) (Some ua)]\<rparr>\<rparr>"
    by metis
  have row: "approval_row aid p = \<lparr>apr_id = aid, apr_invoice = i, apr_tier = ar_tier res, apr_decision = APPROVED,
      apr_approver = (if ar_tier res = AUTO then ''SYSTEM'' else u), apr_comments = ar_comments res,
      apr_credit_memo = (if ar_tier res = AUTO then None else memo),
      apr_review_summary = (if ar_tier res = AUTO then None else summary)\<rparr>"
    and c: "ar_comments res = (if ar_tier res = AUTO
         then ''Auto-approved: score '' @ show_int (rs_final_score rs) @ '', value '' @ show_int (inv_face_value iv)
         else case comments of None \<Rightarrow> [] | Some c \<Rightarrow> c)"
    by (simp_all add: r p h(4) approval_row_def)
  have l: "map_option inv_status (getInvoiceForApproval i (db w')) = Some (if ar_quorum res then Inv_approved else Inv_priced)"
    using decided_lookup [OF h(1,2), of "approval_row aid p"] h(2) by (simp add: w row)
  have t: "ar_id res = aid" "ar_invoice res = i" "ar_decision res = APPROVED" "ar_tier res = determineTier iv rs"
    and q: "ar_quorum res = quorum (ar_tier res) (getApprovalsByInvoiceId i (db w)) role" by (simp_all add: r)
  note w' = w [folded t(4), unfolded row decided_exact approval.simps]
  show ?thesis
    by (rule exI [of _ iv], rule exI [of _ rs], intro conjI h(1,2,3,5,6) t c l q [unfolded quorum_iff])
      (simp only: w' decided_audited audit_req_def audit_sys_def audit_entry.simps)
qed

theorem approveInvoice_outcome_witness:
  "\<exists>res w'. approveInvoice ''a1'' ''inv'' ''o1'' ''credit_officer'' ''ip'' ''ua'' (Some ''fine'') None None
       (approval_world 20000000 80 []) = (Inr res, w') \<and> ar_quorum res
     \<and> map_option inv_status (getInvoiceForApproval ''inv'' (db w')) = Some Inv_approved"
proof -
  have "\<exists>res w'. approveInvoice ''a1'' ''inv'' ''o1'' ''credit_officer'' ''ip'' ''ua'' (Some ''fine'') None None
       (approval_world 20000000 80 []) = (Inr res, w') \<and> ar_quorum res"
    by (simp add: approvals_run processTier2Approval_def Let_def sample_defs)
  then obtain res w' where r: "approveInvoice ''a1'' ''inv'' ''o1'' ''credit_officer'' ''ip'' ''ua'' (Some ''fine'') None None
       (approval_world 20000000 80 []) = (Inr res, w')" "ar_quorum res" by blast
  from approveInvoice_outcome [OF r(1)] r show ?thesis by auto
qed

text \<open>
  C28: four eyes at tier 3. When a credit officer's approval brings a tier-3 invoice to approved,
  the invoice already carried an approval by a different person.
\<close>

theorem tier3_two_officers:
  assumes "approveInvoice aid i u role ip ua comments memo summary w = (Inr res, w')"
    and "ar_tier res = TIER_3" and "ar_quorum res" and "role \<noteq> ''management''"
  shows "\<exists>a b. a \<in> set (t_approvals (db w')) \<and> b \<in> set (t_approvals (db w')) \<and> apr_invoice a = i \<and> apr_invoice b = i
    \<and> apr_decision a = APPROVED \<and> apr_decision b = APPROVED \<and> apr_approver a \<noteq> apr_approver b"
proof -
  from assms(1) obtain iv rs n e where s: "officer_ok (determineTier iv rs) u role (getApprovalsByInvoiceId i (db w))"
      "ar_tier res = determineTier iv rs" "ar_quorum res = quorum (determineTier iv rs) (getApprovalsByInvoiceId i (db w)) role"
      "apr_invoice n = i" "apr_decision n = APPROVED" "apr_approver n = (if determineTier iv rs = AUTO then ''SYSTEM'' else u)"
    and w': "w' = (decided (determineTier iv rs) n (ar_quorum res) w)
            \<lparr>db := (db (decided (determineTier iv rs) n (ar_quorum res) w))\<lparr>t_audit := t_audit (db w) @ [e]\<rparr>\<rparr>"
    by (rule approveInvoice_succ) blast
  have t: "determineTier iv rs = TIER_3" using s(2) assms(2) by simp
  have ne: "\<not> list_ex (\<lambda>a. apr_approver a = u) (getApprovalsByInvoiceId i (db w))"
    using s(1) assms(4) by (simp add: t officer_ok_def)
  have "0 < countApprovals (getApprovalsByInvoiceId i (db w))" using s(3) assms(3) by (simp add: t quorum_def)
  then obtain f where f: "f \<in> set (getApprovalsByInvoiceId i (db w))" "apr_decision f = APPROVED"
    by (auto simp: countApprovals_def filter_empty_conv)
  then have "apr_approver f \<noteq> u" "apr_invoice f = i" "f \<in> set (t_approvals (db w))"
    using ne by (auto simp: list_ex_iff getApprovalsByInvoiceId_def)
  then show ?thesis using s(4,5,6) t f(2)
    by (intro exI [of _ f] exI [of _ n]) (simp add: w' decided_fields)
qed

theorem tier3_two_officers_witness:
  "\<exists>res w' a b. approveInvoice ''a1'' ''inv'' ''o2'' ''credit_officer'' ''ip'' ''ua'' (Some ''fine'') (Some long_memo) None
       (approval_world 60000000 80 [sample_approval ''o1'' TIER_3]) = (Inr res, w')
     \<and> a \<in> set (t_approvals (db w')) \<and> b \<in> set (t_approvals (db w')) \<and> apr_approver a \<noteq> apr_approver b"
proof -
  have "\<exists>res w'. approveInvoice ''a1'' ''inv'' ''o2'' ''credit_officer'' ''ip'' ''ua'' (Some ''fine'') (Some long_memo) None
       (approval_world 60000000 80 [sample_approval ''o1'' TIER_3]) = (Inr res, w') \<and> ar_quorum res \<and> ar_tier res = TIER_3"
    by (simp add: approvals_run processTier3Approval_def validateTier3Officer_def Let_def sample_defs)
  then obtain res w' where r: "approveInvoice ''a1'' ''inv'' ''o2'' ''credit_officer'' ''ip'' ''ua'' (Some ''fine'') (Some long_memo) None
       (approval_world 60000000 80 [sample_approval ''o1'' TIER_3]) = (Inr res, w')" "ar_quorum res" "ar_tier res = TIER_3" by blast
  from tier3_two_officers [OF r(1,3,2)] r(1) show ?thesis by auto
qed


text \<open>
  tier 4 depends on the order. On a schema that accepts tier 4, an approval by a credit officer
  never completes the tier-4 quorum, even when management approved before: the call succeeds, the
  invoice stays priced and no payment is queued.
\<close>

theorem tier4_officer_never_completes:
  assumes "approveInvoice aid i u role ip ua comments memo summary w = (Inr res, w')"
    and "ar_tier res = TIER_4" and "role = ''credit_officer''"
  shows "\<not> ar_quorum res \<and> map_option inv_status (getInvoiceForApproval i (db w')) = Some Inv_priced \<and> jobs w' = jobs w"
proof -
  from assms(1) obtain iv rs a e where s: "getInvoiceForApproval i (db w) = Some iv" "inv_status iv = Inv_priced"
      "ar_tier res = determineTier iv rs" "apr_invoice a = i"
      "ar_quorum res = quorum (determineTier iv rs) (getApprovalsByInvoiceId i (db w)) role"
    and w': "w' = (decided (determineTier iv rs) a (ar_quorum res) w)
            \<lparr>db := (db (decided (determineTier iv rs) a (ar_quorum res) w))\<lparr>t_audit := t_audit (db w) @ [e]\<rparr>\<rparr>"
    by (rule approveInvoice_succ) blast
  have q: "\<not> ar_quorum res" using s(3,5) assms(2,3) by (simp add: quorum_def)
  then show ?thesis using decided_lookup [OF s(1,2,4)] s(2) by (simp add: w' decided_fields)
qed

definition tier4_world :: world where
  "tier4_world = (approval_world 300000000 80 [sample_approval ''o1'' TIER_4])
     \<lparr>db := (db (approval_world 300000000 80 [sample_approval ''o1'' TIER_4]))\<lparr>approval_tiers := [AUTO, TIER_2, TIER_3, TIER_4]\<rparr>\<rparr>"

theorem tier4_officer_never_completes_witness:
  "\<exists>res w'. approveInvoice ''a1'' ''inv'' ''o2'' ''credit_officer'' ''ip'' ''ua'' (Some ''fine'') (Some long_memo) None tier4_world
       = (Inr res, w') \<and> map_option inv_status (getInvoiceForApproval ''inv'' (db w')) = Some Inv_priced"
proof -
  have "\<exists>res w'. approveInvoice ''a1'' ''inv'' ''o2'' ''credit_officer'' ''ip'' ''ua'' (Some ''fine'') (Some long_memo) None tier4_world
       = (Inr res, w') \<and> ar_tier res = TIER_4"
    by (simp add: approvals_run tier4_world_def processTier4Approval_def validateTier4Officer_def checkTier4Quorum_def Let_def sample_defs)
  then obtain res w' where r: "approveInvoice ''a1'' ''inv'' ''o2'' ''credit_officer'' ''ip'' ''ua'' (Some ''fine'') (Some long_memo) None tier4_world
       = (Inr res, w')" "ar_tier res = TIER_4" by blast
  from tier4_officer_never_completes [OF r refl] r(1) show ?thesis by auto
qed

text \<open>
  on the migrated schema no tier-4 invoice can be approved: the constraint of migration 007 still
  refuses the tier, so every approval call for such an invoice fails.
\<close>

theorem tier4_blocked_by_schema:
  assumes "approval_tiers (db w) = migrated_approval_tiers"
    and "getInvoiceForApproval i (db w) = Some iv" and "getRiskScoreForApproval i (db w) = Some rs"
    and "determineTier iv rs = TIER_4"
  shows "fst (approveInvoice aid i u role ip ua comments memo summary w) \<noteq> Inr res"
proof
  assume "fst (approveInvoice aid i u role ip ua comments memo summary w) = Inr res"
  then obtain w' where "approveInvoice aid i u role ip ua comments memo summary w = (Inr res, w')"
    by (cases "approveInvoice aid i u role ip ua comments memo summary w") auto
  then have "determineTier iv rs \<in> set (approval_tiers (db w))"
    using assms(2,3) by (rule_tac approveInvoice_succ) auto
  then show False by (simp add: assms(1,4) migrated_approval_tiers_def)
qed

theorem tier4_blocked_by_schema_witness:
  "\<forall>res. fst (approveInvoice ''a1'' ''inv'' ''o1'' ''management'' ''ip'' ''ua'' (Some ''fine'') (Some long_memo) None
      (approval_world 300000000 80 [])) \<noteq> Inr res"
  using tier4_blocked_by_schema [of "approval_world 300000000 80 []" "''inv''"
      "(sample_invoice Inv_priced)\<lparr>inv_face_value := 300000000\<rparr>" "sample_score\<lparr>rs_final_score := 80\<rparr>"]
  by (simp add: approval_world_def sample_defs getInvoiceForApproval_def getRiskScoreForApproval_def determineTier_def)

text \<open>
  a decision that fails, for any reason, leaves the database as it was (approval and rejection
  alike): the lock, the record, the status and the audit entry stand or fall together.
\<close>

theorem decision_atomic:
  shows "(approveInvoice aid i u role ip ua comments memo summary w = (Inl e, w1) \<longrightarrow> db w1 = db w)
    \<and> (rejectInvoice aid i u role ip ua reason memo summary w = (Inl e, w1) \<longrightarrow> db w1 = db w)"
  using atomic_approveInvoice [of "\<lambda>_. False" aid i u role ip ua comments memo summary]
    atomic_rejectInvoice [of "\<lambda>_. False" aid i u role ip ua reason memo summary]
  by (simp add: atomic_upto_def)

theorem decision_atomic_witness:
  "\<exists>e w1. approveInvoice ''a1'' ''inv'' ''o1'' ''credit_officer'' ''ip'' ''ua'' None None None (approval_world 60000000 80 []) = (Inl e, w1)
     \<and> db w1 = db (approval_world 60000000 80 [])"
proof -
  have "\<exists>e w1. approveInvoice ''a1'' ''inv'' ''o1'' ''credit_officer'' ''ip'' ''ua'' None None None (approval_world 60000000 80 []) = (Inl e, w1)"
    by (simp add: approvals_run sample_defs)
  then show ?thesis using decision_atomic by blast
qed

text \<open>
  the payment job is handed over before the transaction commits. When an automatic approval is
  requested by a user whose audit entry the database refuses, the call fails and the database is
  rolled back, the invoice stays priced, and yet its payment job has been queued.
\<close>

theorem payment_job_survives_rollback:
  assumes "getInvoiceForApproval i (db w) = Some iv" and "inv_status iv = Inv_priced"
    and "getRiskScoreForApproval i (db w) = Some rs" and "determineTier iv rs = AUTO"
    and "AUTO \<in> set (approval_tiers (db w))" and "\<not> list_ex (\<lambda>r. apr_id r = aid) (t_approvals (db w))"
    and "i \<notin> set (row_locks w)" and "list_all (\<lambda>c. c \<in> set (audit_columns (db w))) audit_cols"
    and "\<not> user_exists (db w) (Some u)" and "queue_set w Approvals_payment" and "redis_up w"
  shows "\<exists>w'. approveInvoice aid i u role ip ua comments memo summary w = (Inl (DbError ''23503''), w')
    \<and> db w' = db w \<and> map job_name (jobs w') = map job_name (jobs w) @ [''process-payment'']"
proof -
  have id: "inv_id iv = i" using assms(1) by (rule getInvoiceForApproval_id)
  have l: "select_one (\<lambda>r. inv_id r = i) (t_invoices (db w)) = Some iv" using assms(1) by (simp add: getInvoiceForApproval_def)
  have f: "fetchAndValidate i w = (Inr (iv, rs), w)" using assms(1-3) by (simp add: fetchAndValidate_succ)
  have k: "lockInvoice i w = (Inr (), w)" using assms(7) l by (simp add: lockInvoice_succ)
  have v: "validateReviewSummary AUTO summary = Inr ()" "validateCreditMemo AUTO memo = Inr ()"
    by (simp_all add: validateReviewSummary_def validateCreditMemo_def)
  have ux: "\<not> user_exists (approvals_updateInvoiceStatus t i a b ((db w)\<lparr>t_approvals := x\<rparr>)) (Some u)" for t a b x
    using assms(9) by (simp add: user_exists_def approvals_updateInvoiceStatus_def)
  have ac: "audit_columns (approvals_updateInvoiceStatus t i a b ((db w)\<lparr>t_approvals := x\<rparr>)) = audit_columns (db w)" for t a b x
    by (simp add: approvals_updateInvoiceStatus_def)
  show ?thesis
    unfolding approveInvoice_def executeApproval_def processApprovalByTier_def processAutoApproval_def createApprovalRecord_def
      approveAndQueuePayment_def queuePayment_def auditApproval_def createAuditEntry_def
    using assms(4-6,8,10,11) l ux ac
    by (simp add: f v id k Let_def createApprovalWithClient_def insert_audit_def run_enqueue_up)
qed

theorem payment_job_survives_rollback_witness:
  "\<exists>w'. approveInvoice ''a1'' ''inv'' ''ghost'' ''credit_officer'' ''ip'' ''ua'' None None None (approval_world 1000000 80 [])
       = (Inl (DbError ''23503''), w') \<and> map job_name (jobs w') = [''process-payment'']"
  using payment_job_survives_rollback [of "''inv''" "approval_world 1000000 80 []"
      "(sample_invoice Inv_priced)\<lparr>inv_face_value := 1000000\<rparr>" "sample_score\<lparr>rs_final_score := 80\<rparr>" "''a1''" "''ghost''"
      "''credit_officer''" "''ip''" "''ua''" None None None]
  by (auto simp: approval_world_def sample_defs getInvoiceForApproval_def getRiskScoreForApproval_def determineTier_def)

text \<open>
  the officer's queue lists scored invoices, which cannot be approved. Every invoice the queue
  shows is refused by \<open>approveInvoice\<close> with \<open>INVOICE_WRONG_STATUS\<close>, and no priced invoice, the only ones
  that can be approved, is ever shown.
\<close>

theorem approval_queue_mismatch:
  assumes "distinct (map inv_id (t_invoices (db w)))"
  shows "(\<forall>q \<in> set (getPendingApprovalsByOfficer u (db w)).
            approveInvoice aid (aqi_invoice q) u role ip ua comments memo summary w
              = (Inl (BusinessRuleError ''INVOICE_WRONG_STATUS''), w))
    \<and> (\<forall>q \<in> set (getPendingApprovalsByOfficer u (db w)). aqi_status q = Inv_scored)"
proof -
  have q: "\<exists>iv. iv \<in> set (t_invoices (db w)) \<and> inv_status iv = Inv_scored \<and> aqi_invoice q = inv_id iv \<and> aqi_status q = Inv_scored"
    if "q \<in> set (getPendingApprovalsByOfficer u (db w))" for q
    using that by (auto simp: getPendingApprovalsByOfficer_def scored_invoices_def)
  have "approveInvoice aid (aqi_invoice q) u role ip ua comments memo summary w
          = (Inl (BusinessRuleError ''INVOICE_WRONG_STATUS''), w)"
    if m: "q \<in> set (getPendingApprovalsByOfficer u (db w))" for q
  proof -
    obtain iv where iv: "iv \<in> set (t_invoices (db w))" "inv_status iv = Inv_scored" "aqi_invoice q = inv_id iv" using q [OF m] by blast
    have "getInvoiceForApproval (inv_id iv) (db w) = Some iv"
      unfolding getInvoiceForApproval_def using assms iv(1) by (rule distinct_select_one) simp
    then show ?thesis using iv(2,3) by (simp add: approveInvoice_def fetchAndValidate_def)
  qed
  then show ?thesis using q by blast
qed

theorem approval_queue_mismatch_witness:
  "\<exists>q \<in> set (getPendingApprovalsByOfficer ''o1'' (blank_db\<lparr>t_invoices := [sample_invoice Inv_scored], t_risk_scores := [sample_score]\<rparr>)).
     aqi_status q = Inv_scored"
proof -
  let ?w = "world_of (blank_db\<lparr>t_invoices := [sample_invoice Inv_scored], t_risk_scores := [sample_score]\<rparr>)"
  have "distinct (map inv_id (t_invoices (db ?w)))" by (simp add: sample_defs)
  from approval_queue_mismatch [OF this, of "''o1''"] show ?thesis
    by (simp add: getPendingApprovalsByOfficer_def scored_invoices_def sample_defs)
qed

text \<open>
  a rejection of a tier-3 invoice counts; the invoice stays priced while the count is below the
  configured threshold and is rejected when the count reaches it, while a rejection in any other
  tier rejects the invoice at once.
\<close>

theorem rejectInvoice_outcome:
  assumes "rejectInvoice aid i u role ip ua comments memo summary w = (Inr res, w')"
    and "getInvoiceForApproval i (db w) = Some iv"
  defines "n \<equiv> (case inv_tier3_rejections iv of None \<Rightarrow> 0 | Some k \<Rightarrow> k) + 1"
  shows "map_option inv_status (getInvoiceForApproval i (db w')) =
      Some (if ar_tier res = TIER_3 \<and> js_less (js_Number n) (config_number w ''tier3_auto_reject_threshold'')
            then Inv_priced else Inv_rejected)
    \<and> (ar_tier res = TIER_3 \<longrightarrow> map_option inv_tier3_rejections (getInvoiceForApproval i (db w')) = Some (Some n))"
proof -
  from assms(1) obtain iv' rs where s: "getInvoiceForApproval i (db w) = Some iv'" "inv_status iv' = Inv_priced"
      "ar_tier res = determineTier iv' rs" "getInvoiceForApproval i (db w') = Some (rejected_invoice w (determineTier iv' rs) iv')"
    by (rule rejectInvoice_succ) blast
  moreover have "iv' = iv" using s(1) assms(2) by simp
  ultimately show ?thesis by (auto simp: rejected_invoice_def Let_def n_def)
qed

theorem rejectInvoice_outcome_witness:
  "\<exists>res w'. rejectInvoice ''a1'' ''inv'' ''o1'' ''credit_officer'' ''ip'' ''ua'' ''no'' None None (approval_world 20000000 80 []) = (Inr res, w')
     \<and> map_option inv_status (getInvoiceForApproval ''inv'' (db w')) = Some Inv_rejected"
proof -
  let ?w = "approval_world 20000000 80 []"
  have "\<exists>res w'. rejectInvoice ''a1'' ''inv'' ''o1'' ''credit_officer'' ''ip'' ''ua'' ''no'' None None ?w = (Inr res, w') \<and> ar_tier res = TIER_2"
    by (simp add: approvals_run rejectAndNotify_def queueRejectionNotification_def Let_def sample_defs)
  then obtain res w' where r: "rejectInvoice ''a1'' ''inv'' ''o1'' ''credit_officer'' ''ip'' ''ua'' ''no'' None None ?w = (Inr res, w')"
    "ar_tier res = TIER_2" by blast
  have "getInvoiceForApproval ''inv'' (db ?w) = Some ((sample_invoice Inv_priced)\<lparr>inv_face_value := 20000000\<rparr>)"
    by (simp add: approval_world_def sample_defs getInvoiceForApproval_def)
  from rejectInvoice_outcome [OF r(1) this] r show ?thesis by auto
qed

end
