(* ===== verification/Collateral.thy ===== *)
theory Collateral
  imports Risk_Config
begin

text \<open>
  \<open>src/src/services/collateral\<close>: registration, listing, update and soft deletion of collateral items
  and their documents, the coverage check the payments component runs before a disbursement, and
  the expiry alerts. Amounts that the code passes as decimal strings are their integers. The lemmas
  show that the coverage decision is exact although it is taken in double arithmetic, what an update
  and a deletion change, and which notifications an expiry run sends.
\<close>

section \<open>Repository\<close>

fun collateral_type_str :: "collateral_type \<Rightarrow> string" where
  "collateral_type_str Bank_guarantee = ''bank_guarantee''"
| "collateral_type_str Fixed_deposit_lien = ''fixed_deposit_lien''"
| "collateral_type_str Post_dated_cheque_full_value = ''post_dated_cheque_full_value''"
| "collateral_type_str Corporate_guarantee = ''corporate_guarantee''"
| "collateral_type_str Assignment_of_receivables = ''assignment_of_receivables''"
| "collateral_type_str Performance_bond = ''performance_bond''"
| "collateral_type_str No_collateral = ''none''"

record create_collateral_input =
  cci_invoice_id :: string
  cci_type :: collateral_type
  cci_description :: string
  cci_estimated_value :: int
  cci_currency :: string
  cci_documents :: "string list"
  cci_expiry_date :: "int option"

text \<open>
  \<open>INSERT INTO collateral_documents\<close>: both columns are foreign keys. \<open>INSERT INTO collateral\<close>: the
  currency is a \<open>VARCHAR(10)\<close>, the value a \<open>BIGINT\<close>, the identifier the primary key, supplier and
  invoice are foreign keys; \<open>is_active\<close> defaults to true.
\<close>

definition insert_collateral_document :: "string \<Rightarrow> string \<Rightarrow> db \<Rightarrow> ris_error + db" where
  "insert_collateral_document cid doc d =
     (if \<not> list_ex (\<lambda>c. col_id c = cid) (t_collateral d) \<or> doc \<notin> set (document_ids d) then Inl (DbError ''23503'')
      else Inr (d\<lparr>t_collateral_docs := t_collateral_docs d @ [(cid, doc)]\<rparr>))"

definition new_collateral :: "int \<Rightarrow> string \<Rightarrow> string \<Rightarrow> create_collateral_input \<Rightarrow> collateral" where
  "new_collateral now cid sid inp =
     \<lparr>col_id = cid, col_invoice = Some (cci_invoice_id inp), col_supplier = sid, col_type = cci_type inp,
      col_value = cci_estimated_value inp, col_description = Some (cci_description inp),
      col_currency = cci_currency inp, col_expiry_date = cci_expiry_date inp, col_is_active = True,
      col_deleted_at = None, col_created_at = now\<rparr>"

definition insert_collateral :: "collateral \<Rightarrow> db \<Rightarrow> ris_error + db" where
  "insert_collateral c d =
     (if 10 < length (col_currency c) then Inl (DbError ''22001'')
      else bindE (bigint_in (col_value c)) (\<lambda>_.
        if list_ex (\<lambda>r. col_id r = col_id c) (t_collateral d) then Inl (DbError ''23505'')
        else if \<not> list_ex (\<lambda>s. sup_id s = col_supplier c) (t_suppliers d)
                \<or> (case col_invoice c of None \<Rightarrow> False | Some i \<Rightarrow> \<not> list_ex (\<lambda>r. inv_id r = i) (t_invoices d))
        then Inl (DbError ''23503'')
        else Inr (d\<lparr>t_collateral := t_collateral d @ [c]\<rparr>)))"

definition repo_createCollateral :: "string \<Rightarrow> string \<Rightarrow> create_collateral_input \<Rightarrow> collateral service" where
  "repo_createCollateral cid sid inp =
     transactionS
       (bindS nowS (\<lambda>now.
        thenS (tryExecS (insert_collateral (new_collateral now cid sid inp)))
       (thenS (forS (\<lambda>doc. tryExecS (insert_collateral_document cid doc)) (cci_documents inp))
         (returnS (new_collateral now cid sid inp)))))"

definition getCollateralById :: "string \<Rightarrow> db \<Rightarrow> collateral option" where
  "getCollateralById cid d = select_one (\<lambda>c. col_id c = cid \<and> col_deleted_at c = None) (t_collateral d)"

definition getCollateralDocuments :: "string \<Rightarrow> db \<Rightarrow> string list" where
  "getCollateralDocuments cid d = map snd (filter (\<lambda>p. fst p = cid) (t_collateral_docs d))"

text \<open>
  \<open>LIMIT l OFFSET o\<close> of the rows in descending order of creation; PostgreSQL refuses a negative
  limit (\<open>2201W\<close>) or offset (\<open>2201X\<close>).
\<close>

definition live_for_invoice :: "string \<Rightarrow> db \<Rightarrow> collateral list" where
  "live_for_invoice i d = filter (\<lambda>c. col_invoice c = Some i \<and> col_deleted_at c = None) (t_collateral d)"

definition listByInvoice :: "string \<Rightarrow> int \<Rightarrow> int \<Rightarrow> db \<Rightarrow> ris_error + (collateral list \<times> nat)" where
  "listByInvoice i page limit d =
     (let off = (page - 1) * limit; rows = live_for_invoice i d
      in if limit < 0 then Inl (DbError ''2201W'')
         else if off < 0 then Inl (DbError ''2201X'')
         else Inr (take (nat limit) (drop (nat off) (sort_key (\<lambda>c. - col_created_at c) rows)), length rows))"

text \<open>
  The dynamic \<open>UPDATE\<close>: the fields are the entries of an object, every key has to be in the allow
  list; setting a column checks its type.
\<close>

datatype column_value = CType collateral_type | CText string | CBigint int | CDate "int option"

type_synonym column_updates = "(string \<times> column_value) list"

definition COLLATERAL_UPDATABLE_COLUMNS :: "string list" where
  "COLLATERAL_UPDATABLE_COLUMNS =
     [''collateral_type'', ''description'', ''value'', ''currency'', ''expiry_date'', ''is_active'',
      ''enforceability_status'']"

fun set_column :: "string \<Rightarrow> column_value \<Rightarrow> collateral \<Rightarrow> ris_error + collateral" where
  "set_column key (CType t) c = (if key = ''collateral_type'' then Inr (c\<lparr>col_type := t\<rparr>) else Inl (DbError ''42804''))"
| "set_column key (CText s) c =
     (if key = ''description'' then Inr (c\<lparr>col_description := Some s\<rparr>)
      else if key = ''currency'' then (if 10 < length s then Inl (DbError ''22001'') else Inr (c\<lparr>col_currency := s\<rparr>))
      else Inl (DbError ''42804''))"
| "set_column key (CBigint n) c =
     (if key = ''value'' then bindE (bigint_in n) (\<lambda>v. Inr (c\<lparr>col_value := v\<rparr>)) else Inl (DbError ''42804''))"
| "set_column key (CDate e) c =
     (if key = ''expiry_date'' then Inr (c\<lparr>col_expiry_date := e\<rparr>) else Inl (DbError ''42804''))"

fun set_columns :: "column_updates \<Rightarrow> collateral \<Rightarrow> ris_error + collateral" where
  "set_columns [] c = Inr c"
| "set_columns ((k, v) # us) c = bindE (set_column k v c) (set_columns us)"

definition repo_updateCollateral :: "string \<Rightarrow> column_updates \<Rightarrow> collateral option service" where
  "repo_updateCollateral cid upds =
     (if \<not> list_all (\<lambda>(k, _). k \<in> set COLLATERAL_UPDATABLE_COLUMNS) upds
      then throwS (ValidationError ''Column is not updatable'')
      else bindS (queryS (getCollateralById cid)) (\<lambda>r.
        case r of None \<Rightarrow> returnS None
        | Some c \<Rightarrow>
            bindS (liftS (set_columns upds c)) (\<lambda>c'.
            thenS (execS (\<lambda>d. d\<lparr>t_collateral :=
                     update_where (\<lambda>r. col_id r = cid \<and> col_deleted_at r = None) (\<lambda>_. c') (t_collateral d)\<rparr>))
              (returnS (Some c')))))"

definition replaceDocuments :: "string \<Rightarrow> string list \<Rightarrow> unit service" where
  "replaceDocuments cid docs =
     transactionS
       (thenS (execS (\<lambda>d. d\<lparr>t_collateral_docs := filter (\<lambda>p. fst p \<noteq> cid) (t_collateral_docs d)\<rparr>))
         (forS (\<lambda>doc. tryExecS (insert_collateral_document cid doc)) docs))"

definition softDelete :: "int \<Rightarrow> string \<Rightarrow> db \<Rightarrow> db" where
  "softDelete now cid d =
     d\<lparr>t_collateral := update_where (\<lambda>c. col_id c = cid \<and> col_deleted_at c = None)
         (\<lambda>c. c\<lparr>col_deleted_at := Some now\<rparr>) (t_collateral d)\<rparr>"

definition getInvoiceStatus :: "string \<Rightarrow> db \<Rightarrow> invoice option" where
  "getInvoiceStatus i d = select_one (\<lambda>r. inv_id r = i) (t_invoices d)"

definition validateInvoiceAccess :: "string \<Rightarrow> string \<Rightarrow> string \<Rightarrow> db \<Rightarrow> bool" where
  "validateInvoiceAccess i u role d =
     (role \<noteq> ''supplier'' \<or>
      list_ex (\<lambda>r. inv_id r = i \<and> list_ex (\<lambda>s. sup_id s = inv_supplier r \<and> sup_user s = u) (t_suppliers d))
        (t_invoices d))"

definition getTotalCollateralValueForInvoice :: "string \<Rightarrow> db \<Rightarrow> int" where
  "getTotalCollateralValueForInvoice i d =
     sum_list (map col_value (filter (\<lambda>c. col_invoice c = Some i \<and> col_is_active c \<and> col_deleted_at c = None)
       (t_collateral d)))"

text \<open>A \<open>DATE\<close> compared with a timestamp is midnight (UTC) of that day.\<close>

definition expires_within :: "int \<Rightarrow> int \<Rightarrow> collateral \<Rightarrow> bool" where
  "expires_within now n c =
     (col_is_active c \<and> col_deleted_at c = None \<and>
      (case col_expiry_date c of None \<Rightarrow> False
       | Some e \<Rightarrow> e * day_ms \<le> now + n * day_ms \<and> now < e * day_ms))"

definition getExpiringCollateral :: "int \<Rightarrow> int \<Rightarrow> db \<Rightarrow> collateral list" where
  "getExpiringCollateral now n d =
     sort_key (\<lambda>c. case col_expiry_date c of None \<Rightarrow> 0 | Some e \<Rightarrow> e)
       (filter (expires_within now n) (t_collateral d))"

section \<open>Service\<close>

definition COVERAGE_RATIO_KEY :: string where
  "COVERAGE_RATIO_KEY = ''collateral_min_coverage_ratio''"

definition COVERAGE_RATIO_FALLBACK :: js_number where
  "COVERAGE_RATIO_FALLBACK = Fin (1 / 2)"

definition getMinCoverageRatio :: "js_number service" where
  "getMinCoverageRatio =
     catchS
       (bindS (getRiskConfigNumber COVERAGE_RATIO_KEY) (\<lambda>v.
          if \<not> is_finite v \<or> js_less v (Fin 0) then returnS COVERAGE_RATIO_FALLBACK else returnS v))
       (\<lambda>_. returnS COVERAGE_RATIO_FALLBACK)"

definition createCollateral ::
    "string \<Rightarrow> string \<Rightarrow> string \<Rightarrow> create_collateral_input \<Rightarrow> string \<Rightarrow> string \<Rightarrow> collateral service" where
  "createCollateral newId u role inp ip ua =
     bindS (queryS (getInvoiceStatus (cci_invoice_id inp))) (\<lambda>r.
     bindS (requireS r (NotFoundError ''Invoice'' (cci_invoice_id inp))) (\<lambda>iv.
     bindS (queryS (validateInvoiceAccess (cci_invoice_id inp) u role)) (\<lambda>ok.
     thenS (guardS ok ForbiddenError)
    (bindS (repo_createCollateral newId (inv_supplier iv) inp) (\<lambda>c.
     thenS (createAuditEntry (audit_req (Some u) ''COLLATERAL_CREATED'' ''collateral'' newId (Some [])
              [(''type'', JStr (collateral_type_str (cci_type inp))), (''value'', JInt (cci_estimated_value inp))]
              (Some ip) (Some ua)))
       (returnS c))))))"

definition listCollateral ::
    "string \<Rightarrow> string \<Rightarrow> string \<Rightarrow> int \<Rightarrow> int \<Rightarrow> (collateral list \<times> nat) service" where
  "listCollateral u role i page limit =
     bindS (queryS (validateInvoiceAccess i u role)) (\<lambda>ok.
     thenS (guardS ok ForbiddenError)
       (bindS (queryS (listByInvoice i page limit)) liftS))"

text \<open>The access check of an item with an invoice, shared by the three handlers on an existing item.\<close>

definition check_item_access :: "collateral \<Rightarrow> string \<Rightarrow> string \<Rightarrow> unit service" where
  "check_item_access c u role =
     (case col_invoice c of None \<Rightarrow> returnS ()
      | Some i \<Rightarrow> bindS (queryS (validateInvoiceAccess i u role)) (\<lambda>ok. guardS ok ForbiddenError))"

definition getCollateral :: "string \<Rightarrow> string \<Rightarrow> string \<Rightarrow> (collateral \<times> string list) service" where
  "getCollateral u role cid =
     bindS (queryS (getCollateralById cid)) (\<lambda>r.
     bindS (requireS r (NotFoundError ''Collateral'' cid)) (\<lambda>c.
     thenS (check_item_access c u role)
       (bindS (queryS (getCollateralDocuments cid)) (\<lambda>docs. returnS (c, docs)))))"

record update_collateral_input =
  uci_type :: "collateral_type option"
  uci_description :: "string option"
  uci_estimated_value :: "int option"
  uci_currency :: "string option"
  uci_documents :: "string list option"
  uci_expiry_date :: "int option option"

fun json_column :: "column_value \<Rightarrow> json_val" where
  "json_column (CType t) = JStr (collateral_type_str t)"
| "json_column (CText s) = JStr s"
| "json_column (CBigint n) = JInt n"
| "json_column (CDate None) = JNull"
| "json_column (CDate (Some e)) = JInt e"

definition update_fields :: "update_collateral_input \<Rightarrow> column_updates" where
  "update_fields inp =
     (case uci_type inp of None \<Rightarrow> [] | Some t \<Rightarrow> [(''collateral_type'', CType t)])
   @ (case uci_description inp of None \<Rightarrow> [] | Some s \<Rightarrow> [(''description'', CText s)])
   @ (case uci_estimated_value inp of None \<Rightarrow> [] | Some n \<Rightarrow> [(''value'', CBigint n)])
   @ (case uci_currency inp of None \<Rightarrow> [] | Some s \<Rightarrow> [(''currency'', CText s)])
   @ (case uci_expiry_date inp of None \<Rightarrow> [] | Some e \<Rightarrow> [(''expiry_date'', CDate e)])"

fun current_column :: "collateral \<Rightarrow> string \<Rightarrow> json_val" where
  "current_column c key =
     (if key = ''collateral_type'' then JStr (collateral_type_str (col_type c))
      else if key = ''description'' then (case col_description c of None \<Rightarrow> JNull | Some s \<Rightarrow> JStr s)
      else if key = ''value'' then JInt (col_value c)
      else if key = ''currency'' then JStr (col_currency c)
      else (case col_expiry_date c of None \<Rightarrow> JNull | Some e \<Rightarrow> JInt e))"

text \<open>The steps of \<open>updateCollateral\<close>: the column update, the document list, the audit entry.\<close>

definition apply_update_fields :: "string \<Rightarrow> update_collateral_input \<Rightarrow> collateral \<Rightarrow> collateral service" where
  "apply_update_fields cid inp existing =
     (if update_fields inp \<noteq> []
      then bindS (repo_updateCollateral cid (update_fields inp)) (\<lambda>r. requireS r (NotFoundError ''Collateral'' cid))
      else returnS existing)"

definition apply_update_documents :: "string \<Rightarrow> update_collateral_input \<Rightarrow> unit service" where
  "apply_update_documents cid inp =
     (case uci_documents inp of None \<Rightarrow> returnS () | Some docs \<Rightarrow> replaceDocuments cid docs)"

definition update_audit ::
    "string \<Rightarrow> string \<Rightarrow> update_collateral_input \<Rightarrow> string \<Rightarrow> string \<Rightarrow> collateral \<Rightarrow> audit_entry" where
  "update_audit u cid inp ip ua existing =
     audit_req (Some u) ''COLLATERAL_UPDATED'' ''collateral'' cid
       (Some (map (\<lambda>(k, _). (k, current_column existing k)) (update_fields inp)))
       (map (\<lambda>(k, v). (k, json_column v)) (update_fields inp)) (Some ip) (Some ua)"

definition updateCollateral ::
    "string \<Rightarrow> string \<Rightarrow> string \<Rightarrow> update_collateral_input \<Rightarrow> string \<Rightarrow> string \<Rightarrow> collateral service" where
  "updateCollateral u role cid inp ip ua =
     bindS (queryS (getCollateralById cid)) (\<lambda>r.
     bindS (requireS r (NotFoundError ''Collateral'' cid)) (\<lambda>existing.
     thenS (check_item_access existing u role)
    (bindS (apply_update_fields cid inp existing) (\<lambda>updated.
     thenS (apply_update_documents cid inp)
    (thenS (createAuditEntry (update_audit u cid inp ip ua existing))
       (returnS updated))))))"

definition delete_audit :: "string \<Rightarrow> string \<Rightarrow> string \<Rightarrow> string \<Rightarrow> int \<Rightarrow> collateral \<Rightarrow> audit_entry" where
  "delete_audit u cid ip ua now c =
     audit_req (Some u) ''COLLATERAL_DELETED'' ''collateral'' cid
       (Some [(''value'', JInt (col_value c)), (''type'', JStr (collateral_type_str (col_type c)))])
       [(''deleted_at'', JInt now)] (Some ip) (Some ua)"

definition deleteCollateral :: "string \<Rightarrow> string \<Rightarrow> string \<Rightarrow> string \<Rightarrow> string \<Rightarrow> unit service" where
  "deleteCollateral u role cid ip ua =
     bindS (queryS (getCollateralById cid)) (\<lambda>r.
     bindS (requireS r (NotFoundError ''Collateral'' cid)) (\<lambda>existing.
     thenS (case col_invoice existing of None \<Rightarrow> returnS ()
            | Some i \<Rightarrow>
                thenS (check_item_access existing u role)
               (bindS (queryS (getInvoiceStatus i)) (\<lambda>iv.
                guardS (case iv of None \<Rightarrow> True | Some v \<Rightarrow> inv_status v \<noteq> Inv_funded)
                  (BusinessRuleError ''COLLATERAL_DELETE_FUNDED''))))
    (bindS nowS (\<lambda>now.
     thenS (execS (softDelete now cid))
       (createAuditEntry (delete_audit u cid ip ua now existing))))))"

record coverage_check_result =
  ccr_total :: int
  ccr_face_value :: int
  ccr_ratio :: js_number
  ccr_sufficient :: bool

text \<open>\<open>Number(q) / 10000\<close>; an amount read from a NULL column makes \<open>BigInt\<close> throw.\<close>

definition coverage_ratio :: "int \<Rightarrow> int \<Rightarrow> js_number" where
  "coverage_ratio total_value face =
     (case js_Number (bigint_div (total_value * 10000) face) of Fin x \<Rightarrow> js_div_fin x 10000 | n \<Rightarrow> n)"

definition checkCoverageRatio :: "string \<Rightarrow> int option \<Rightarrow> coverage_check_result service" where
  "checkCoverageRatio i faceValue =
     bindS (queryS (getTotalCollateralValueForInvoice i)) (\<lambda>tot.
     bindS (requireS faceValue (JsError ''TypeError'')) (\<lambda>face.
       if face = 0 then returnS \<lparr>ccr_total = tot, ccr_face_value = face, ccr_ratio = Fin 0, ccr_sufficient = False\<rparr>
       else bindS getMinCoverageRatio (\<lambda>threshold.
         returnS \<lparr>ccr_total = tot, ccr_face_value = face, ccr_ratio = coverage_ratio tot face,
                  ccr_sufficient = js_le threshold (coverage_ratio tot face)\<rparr>)))"

definition queueExpiryNotification :: "collateral \<Rightarrow> int \<Rightarrow> unit service" where
  "queueExpiryNotification c n =
     enqueueS Collateral_notification ''collateral_expiry_warning''
       [(''collateralId'', JStr (col_id c)),
        (''invoiceId'', case col_invoice c of None \<Rightarrow> JNull | Some i \<Rightarrow> JStr i),
        (''supplierId'', JStr (col_supplier c)), (''daysUntilExpiry'', JInt n)]"

text \<open>A loop that queues a notification per item and counts.\<close>

fun queue_expiring :: "int \<Rightarrow> collateral list \<Rightarrow> nat \<Rightarrow> nat service" where
  "queue_expiring n [] queued = returnS queued"
| "queue_expiring n (c # cs) queued = thenS (queueExpiryNotification c n) (queue_expiring n cs (queued + 1))"

definition checkExpiryAlerts :: "nat service" where
  "checkExpiryAlerts =
     bindS nowS (\<lambda>now.
     bindS (queryS (getExpiringCollateral now 30)) (\<lambda>expiring30.
     bindS (queryS (getExpiringCollateral now 7)) (\<lambda>expiring7.
     bindS (queue_expiring 30 expiring30 0) (\<lambda>queued.
       queue_expiring 7 (filter (\<lambda>c. \<not> list_ex (\<lambda>r. col_id r = col_id c) expiring30) expiring7) queued))))"


section \<open>Coverage\<close>

lemma run_getMinCoverageRatio:
  "getMinCoverageRatio w =
     (Inr (let v = config_number w COVERAGE_RATIO_KEY
           in if \<not> is_finite v \<or> js_less v (Fin 0) then COVERAGE_RATIO_FALLBACK else v), refreshed w)"
  by (simp add: getMinCoverageRatio_def catchS_def Let_def)

lemma keeps_db_coverage [atomic_intro]: "keeps_db (checkCoverageRatio i f)"
  unfolding checkCoverageRatio_def
  by (auto intro!: atomic_intro split: option.splits) (simp add: keeps_db_def run_getMinCoverageRatio)

lemma coverage_ratio_threshold:
  assumes "0 \<le> t" and "0 < face" and "0 \<le> k" and "k \<le> 10 ^ 7"
  shows "js_le (to_double (of_int k / 10000)) (coverage_ratio t face) \<longleftrightarrow> k * face \<le> 10000 * t"
  using ratio_threshold [of "t * 10000" face k 10000] assms unfolding coverage_ratio_def of_int_numeral
  by (simp add: mult.commute)

lemma coverage_run:
  fixes tot face k :: int
  assumes "getTotalCollateralValueForInvoice i (db w) = tot" and "0 \<le> tot" and "0 < face"
    and "config_number w COVERAGE_RATIO_KEY = to_double (of_int k / 10000)" and "0 \<le> k" and "k \<le> 10 ^ 7"
  shows "checkCoverageRatio i (Some face) w =
     (Inr \<lparr>ccr_total = tot, ccr_face_value = face, ccr_ratio = coverage_ratio tot face,
           ccr_sufficient = (k * face \<le> 10000 * tot)\<rparr>, refreshed w)"
proof -
  obtain y where y: "to_double (of_int k / 10000) = Fin y"
    using to_double_bounded [of "of_int k / 10000"] assms(5,6) by (auto simp flip: of_int_abs)
  have "0 \<le> y"
    using to_double_mono [of 0 "of_int k / 10000"] assms(5) y to_double_eval [of 0 0] by (auto simp: less_imp_le)
  then have "getMinCoverageRatio w = (Inr (to_double (of_int k / 10000)), refreshed w)"
    using y by (simp add: run_getMinCoverageRatio assms(4) not_less)
  then show ?thesis
    using assms(3) coverage_ratio_threshold [OF assms(2,3,5,6)] by (simp add: checkCoverageRatio_def assms(1))
qed

lemma config_unreadable:
  "cfg_cache w = None \<Longrightarrow> \<not> cfg_readable w \<Longrightarrow> config_number w COVERAGE_RATIO_KEY = to_double (of_int 0 / 10000)"
  by (simp add: config_number_def config_value_def current_config_def loaded_config_def COVERAGE_RATIO_KEY_def
      DEFAULTS_def parseFloat_def is_space_def is_digit_def digits_val_def digit_val_def pow10_def)

text \<open>
  Before a disbursement the coverage check compares, in double arithmetic, the rounded-down
  ratio of active collateral to the amount with the configured threshold. For every threshold of
  at most four decimals the answer is the exact one: coverage is sufficient precisely when
  threshold times amount does not exceed the collateral value, whatever the size of the amounts.
  A zero amount is never covered, and the check writes nothing.
\<close>

theorem coverage_check_exact:
  fixes tot face k :: int
  assumes "getTotalCollateralValueForInvoice i (db w) = tot" and "0 \<le> tot" and "0 \<le> face"
    and "config_number w COVERAGE_RATIO_KEY = to_double (of_int k / 10000)" and "0 \<le> k" and "k \<le> 10 ^ 7"
  shows "\<exists>res w'. checkCoverageRatio i (Some face) w = (Inr res, w') \<and> db w' = db w
           \<and> (ccr_sufficient res \<longleftrightarrow> 0 < face \<and> k * face \<le> 10000 * tot)"
proof (cases "face = 0")
  case True
  then show ?thesis by (simp add: checkCoverageRatio_def)
next
  case False
  then have f: "0 < face" using assms(3) by simp
  show ?thesis using coverage_run [OF assms(1,2) f assms(4,5,6)] f by simp
qed

definition coverage_world :: "int \<Rightarrow> world" where
  "coverage_world v = world_of (blank_db\<lparr>t_collateral := [new_collateral 0 ''col'' ''sup''
     \<lparr>cci_invoice_id = ''inv'', cci_type = Bank_guarantee, cci_description = [], cci_estimated_value = v,
      cci_currency = ''UGX'', cci_documents = [], cci_expiry_date = Some 5\<rparr>],
     t_risk_config := [(''collateral_min_coverage_ratio'', ''0.5'')]\<rparr>)"

lemma coverage_world_total: "getTotalCollateralValueForInvoice ''inv'' (db (coverage_world v)) = v"
  by (simp add: coverage_world_def sample_defs getTotalCollateralValueForInvoice_def new_collateral_def)

lemma coverage_world_config: "config_number (coverage_world v) COVERAGE_RATIO_KEY = to_double (of_int 5000 / 10000)"
proof -
  have "config_value (coverage_world v) COVERAGE_RATIO_KEY = ''0.5''"
    by (simp add: config_value_def current_config_def loaded_config_def coverage_world_def sample_defs
        map_of_merge_config COVERAGE_RATIO_KEY_def)
  then have "config_number (coverage_world v) COVERAGE_RATIO_KEY = parseFloat ''0.5''" by (simp add: config_number_def)
  also have "\<dots> = to_double (of_int 5000 / 10000)"
    by (simp add: parseFloat_def is_space_def is_digit_def digits_val_def digit_val_def pow10_def)
  finally show ?thesis .
qed

theorem coverage_check_exact_witness:
  "(\<exists>res w'. checkCoverageRatio ''inv'' (Some 1000000) (coverage_world 500000) = (Inr res, w')
      \<and> db w' = db (coverage_world 500000) \<and> ccr_sufficient res)"
  using coverage_check_exact [OF coverage_world_total _ _ coverage_world_config, of 500000 1000000] by simp

text \<open>
  The 50 percent fallback for an unreadable configuration is never used: when the
  configuration table cannot be read and nothing is cached, the key has no built-in default, the
  value reads as zero, and an invoice without any collateral passes the coverage check.
\<close>

theorem coverage_open_when_config_unreadable:
  assumes "cfg_cache w = None" and "\<not> cfg_readable w"
    and "\<forall>c \<in> set (t_collateral (db w)). 0 \<le> col_value c" and "0 < face"
  shows "\<exists>res. checkCoverageRatio i (Some face) w = (Inr res, refreshed w) \<and> ccr_sufficient res"
proof -
  have "0 \<le> getTotalCollateralValueForInvoice i (db w)"
    using assms(3) by (auto simp: getTotalCollateralValueForInvoice_def intro!: sum_list_nonneg)
  then show ?thesis using coverage_run [OF refl _ assms(4) config_unreadable [OF assms(1,2)], of i] by simp
qed

theorem coverage_open_when_config_unreadable_witness:
  "\<exists>res. checkCoverageRatio ''inv'' (Some 1000000) ((world_of blank_db)\<lparr>cfg_readable := False\<rparr>) =
      (Inr res, refreshed ((world_of blank_db)\<lparr>cfg_readable := False\<rparr>)) \<and> ccr_sufficient res"
  by (rule coverage_open_when_config_unreadable) (simp_all add: sample_defs)

section \<open>Expiry alerts\<close>

definition expiry_job :: "int \<Rightarrow> collateral \<Rightarrow> job" where
  "expiry_job n c =
     \<lparr>job_ref = Collateral_notification, job_name = ''collateral_expiry_warning'',
      job_data = [(''collateralId'', JStr (col_id c)),
        (''invoiceId'', case col_invoice c of None \<Rightarrow> JNull | Some i \<Rightarrow> JStr i),
        (''supplierId'', JStr (col_supplier c)), (''daysUntilExpiry'', JInt n)]\<rparr>"

lemma queue_expiring_up:
  "queue_set w Collateral_notification \<Longrightarrow> redis_up w \<Longrightarrow>
   \<exists>w'. queue_expiring n cs k w = (Inr (k + length cs), w') \<and> db w' = db w
      \<and> jobs w' = jobs w @ map (expiry_job n) cs"
proof (induction cs arbitrary: k w)
  case Nil
  then show ?case by simp
next
  case (Cons c cs)
  let ?w = "w\<lparr>jobs := jobs w @ [expiry_job n c]\<rparr>"
  have "queueExpiryNotification c n w = (Inr (), ?w)"
    using Cons.prems by (simp add: queueExpiryNotification_def run_enqueue expiry_job_def)
  then show ?case using Cons.IH [of ?w "k + 1"] Cons.prems by simp
qed

lemma expiring_mono: "n \<le> m \<Longrightarrow> set (getExpiringCollateral now n d) \<subseteq> set (getExpiringCollateral now m d)"
proof -
  assume "n \<le> m"
  then have "n * day_ms \<le> m * day_ms" by (simp add: day_ms_def)
  then have "expires_within now n c \<Longrightarrow> expires_within now m c" for c
    unfolding expires_within_def by (cases "col_expiry_date c") fastforce+
  then show ?thesis by (auto simp: getExpiringCollateral_def)
qed

text \<open>
  A run of the expiry check queues exactly one notification per live collateral item that
  expires within thirty days, each announcing thirty days, and returns their number: an item that
  expires within seven days is already on the thirty-day list, so the seven-day warning the
  second loop is written for is never sent.
\<close>

theorem expiry_alerts_announce_thirty_days:
  assumes "queue_set w Collateral_notification" and "redis_up w"
  shows "\<exists>w'. checkExpiryAlerts w = (Inr (length (filter (expires_within (clock w) 30) (t_collateral (db w)))), w')
      \<and> db w' = db w
      \<and> (\<exists>js. jobs w' = jobs w @ js \<and> map (\<lambda>j. map_of (job_data j) ''collateralId'') js
                = map (\<lambda>c. Some (JStr (col_id c))) (getExpiringCollateral (clock w) 30 (db w))
             \<and> (\<forall>j \<in> set js. map_of (job_data j) ''daysUntilExpiry'' = Some (JInt 30)))"
proof -
  have no7: "filter (\<lambda>c. \<not> list_ex (\<lambda>r. col_id r = col_id c) (getExpiringCollateral (clock w) 30 (db w)))
      (getExpiringCollateral (clock w) 7 (db w)) = []"
    using expiring_mono [of 7 30 "clock w" "db w"] by (auto simp: filter_empty_conv list_ex_iff)
  obtain w' where q: "queue_expiring 30 (getExpiringCollateral (clock w) 30 (db w)) 0 w =
       (Inr (length (getExpiringCollateral (clock w) 30 (db w))), w')" "db w' = db w"
     "jobs w' = jobs w @ map (expiry_job 30) (getExpiringCollateral (clock w) 30 (db w))"
    using queue_expiring_up [OF assms, of 30 "getExpiringCollateral (clock w) 30 (db w)" 0] by auto
  have "checkExpiryAlerts w = (Inr (length (filter (expires_within (clock w) 30) (t_collateral (db w)))), w')"
    using q(1) by (simp add: checkExpiryAlerts_def no7) (simp add: getExpiringCollateral_def)
  then show ?thesis using q(2,3) by (auto simp: expiry_job_def)
qed

theorem expiry_alerts_announce_thirty_days_witness:
  "(\<exists>w'. checkExpiryAlerts (coverage_world 1) = (Inr 1, w') \<and> db w' = db (coverage_world 1)
      \<and> (\<exists>js. jobs w' = js \<and> map (\<lambda>j. map_of (job_data j) ''collateralId'') js = [Some (JStr ''col'')]
             \<and> (\<forall>j \<in> set js. map_of (job_data j) ''daysUntilExpiry'' = Some (JInt 30))))"
  using expiry_alerts_announce_thirty_days [of "coverage_world 1"]
  by (simp add: coverage_world_def sample_defs new_collateral_def expires_within_def getExpiringCollateral_def)

section \<open>Updating and deleting an item\<close>

lemma set_columns_append: "set_columns (us @ vs) c = bindE (set_columns us c) (set_columns vs)"
proof (induction us arbitrary: c)
  case Nil
  then show ?case by simp
next
  case (Cons kv us)
  obtain k v where kv: "kv = (k, v)" by fastforce
  show ?case by (cases "set_column k v c") (simp_all add: kv Cons.IH)
qed

lemma set_one_column:
  "set_columns (case ty of None \<Rightarrow> [] | Some t \<Rightarrow> [(''collateral_type'', CType t)]) c = Inr c' \<Longrightarrow>
     c' = c\<lparr>col_type := (case ty of None \<Rightarrow> col_type c | Some t \<Rightarrow> t)\<rparr>"
  "set_columns (case ds of None \<Rightarrow> [] | Some s \<Rightarrow> [(''description'', CText s)]) c = Inr c' \<Longrightarrow>
     c' = c\<lparr>col_description := (case ds of None \<Rightarrow> col_description c | Some s \<Rightarrow> Some s)\<rparr>"
  "set_columns (case v of None \<Rightarrow> [] | Some n \<Rightarrow> [(''value'', CBigint n)]) c = Inr c' \<Longrightarrow>
     c' = c\<lparr>col_value := (case v of None \<Rightarrow> col_value c | Some n \<Rightarrow> n)\<rparr>"
  "set_columns (case cy of None \<Rightarrow> [] | Some s \<Rightarrow> [(''currency'', CText s)]) c = Inr c' \<Longrightarrow>
     c' = c\<lparr>col_currency := (case cy of None \<Rightarrow> col_currency c | Some s \<Rightarrow> s)\<rparr>"
  "set_columns (case ex of None \<Rightarrow> [] | Some e \<Rightarrow> [(''expiry_date'', CDate e)]) c = Inr c' \<Longrightarrow>
     c' = c\<lparr>col_expiry_date := (case ex of None \<Rightarrow> col_expiry_date c | Some e \<Rightarrow> e)\<rparr>"
  by (auto simp: bigint_in_def split: option.splits if_splits)

text \<open>The item after an update request: exactly the columns the request names are set.\<close>

definition updated_item :: "update_collateral_input \<Rightarrow> collateral \<Rightarrow> collateral" where
  "updated_item inp c = c\<lparr>col_type := (case uci_type inp of None \<Rightarrow> col_type c | Some t \<Rightarrow> t),
       col_value := (case uci_estimated_value inp of None \<Rightarrow> col_value c | Some v \<Rightarrow> v),
       col_description := (case uci_description inp of None \<Rightarrow> col_description c | Some s \<Rightarrow> Some s),
       col_currency := (case uci_currency inp of None \<Rightarrow> col_currency c | Some s \<Rightarrow> s),
       col_expiry_date := (case uci_expiry_date inp of None \<Rightarrow> col_expiry_date c | Some e \<Rightarrow> e)\<rparr>"

lemma set_columns_fields:
  assumes "set_columns (update_fields inp) c = Inr c'"
  shows "c' = updated_item inp c"
proof -
  obtain c1 c2 c3 c4 where
      "set_columns (case uci_type inp of None \<Rightarrow> [] | Some t \<Rightarrow> [(''collateral_type'', CType t)]) c = Inr c1"
      "set_columns (case uci_description inp of None \<Rightarrow> [] | Some s \<Rightarrow> [(''description'', CText s)]) c1 = Inr c2"
      "set_columns (case uci_estimated_value inp of None \<Rightarrow> [] | Some n \<Rightarrow> [(''value'', CBigint n)]) c2 = Inr c3"
      "set_columns (case uci_currency inp of None \<Rightarrow> [] | Some s \<Rightarrow> [(''currency'', CText s)]) c3 = Inr c4"
      "set_columns (case uci_expiry_date inp of None \<Rightarrow> [] | Some e \<Rightarrow> [(''expiry_date'', CDate e)]) c4 = Inr c'"
    using assms unfolding update_fields_def set_columns_append bindE_succ by blast
  note set_one_column(1) [OF this(1)] set_one_column(2) [OF this(2)] set_one_column(3) [OF this(3)]
    set_one_column(4) [OF this(4)] set_one_column(5) [OF this(5)]
  then show ?thesis by (simp add: updated_item_def cong: option.case_cong)
qed

lemma update_fields_allowed: "list_all (\<lambda>(k, _). k \<in> set COLLATERAL_UPDATABLE_COLUMNS) (update_fields inp)"
  by (auto simp: update_fields_def COLLATERAL_UPDATABLE_COLUMNS_def split: option.splits)

lemma insert_document_succ:
  "insert_collateral_document cid doc d = Inr d' \<longleftrightarrow>
     list_ex (\<lambda>c. col_id c = cid) (t_collateral d) \<and> doc \<in> set (document_ids d)
     \<and> d' = d\<lparr>t_collateral_docs := t_collateral_docs d @ [(cid, doc)]\<rparr>"
  by (auto simp: insert_collateral_document_def)

lemma forS_documents:
  "forS (\<lambda>doc. tryExecS (insert_collateral_document cid doc)) docs w = (Inr x, w') \<Longrightarrow>
   set docs \<subseteq> set (document_ids (db w)) \<and>
   w' = w\<lparr>db := (db w)\<lparr>t_collateral_docs := t_collateral_docs (db w) @ map (Pair cid) docs\<rparr>\<rparr>"
proof (induction docs arbitrary: w)
  case Nil
  then show ?case by simp
next
  case (Cons doc docs)
  obtain t where "doc \<in> set (document_ids (db w))"
    and t: "t = w\<lparr>db := (db w)\<lparr>t_collateral_docs := t_collateral_docs (db w) @ [(cid, doc)]\<rparr>\<rparr>"
    and "forS (\<lambda>doc. tryExecS (insert_collateral_document cid doc)) docs t = (Inr x, w')"
    using Cons.prems by (auto simp: svc_succ insert_document_succ)
  then show ?case using Cons.IH [of t] by (simp add: t)
qed

lemma replaceDocuments_succ:
  assumes "replaceDocuments cid docs w = (Inr x, w')"
  shows "t_collateral (db w') = t_collateral (db w) \<and> getCollateralDocuments cid (db w') = docs
     \<and> set docs \<subseteq> set (document_ids (db w)) \<and> t_audit (db w') = t_audit (db w)"
proof -
  have "w' = w\<lparr>db := (db w)\<lparr>t_collateral_docs :=
       filter (\<lambda>p. fst p \<noteq> cid) (t_collateral_docs (db w)) @ map (Pair cid) docs\<rparr>\<rparr>"
    and "set docs \<subseteq> set (document_ids (db w))"
    using assms by (auto simp: replaceDocuments_def svc_succ dest!: forS_documents)
  then show ?thesis by (simp add: getCollateralDocuments_def comp_def)
qed

lemma repo_updateCollateral_succ:
  assumes "repo_updateCollateral cid us w = (Inr r, w')" and "getCollateralById cid (db w) = Some c"
  shows "\<exists>c'. r = Some c' \<and> set_columns us c = Inr c' \<and> w' = w\<lparr>db := (db w)\<lparr>t_collateral :=
            update_where (\<lambda>r. col_id r = cid \<and> col_deleted_at r = None) (\<lambda>_. c') (t_collateral (db w))\<rparr>\<rparr>"
  using assms by (auto simp: repo_updateCollateral_def svc_succ split: if_splits)

lemma getCollateralById_key: "getCollateralById cid d = Some c \<Longrightarrow> col_id c = cid \<and> col_deleted_at c = None"
  unfolding getCollateralById_def by (auto dest: select_one_Some)

lemma check_item_access_succ:
  "check_item_access c u role w = (Inr x, w') \<longleftrightarrow>
     w' = w \<and> (case col_invoice c of None \<Rightarrow> True | Some i \<Rightarrow> validateInvoiceAccess i u role (db w))"
  by (auto simp: check_item_access_def svc_succ split: option.splits)

lemma apply_update_fields_succ:
  assumes "apply_update_fields cid inp c w = (Inr c', w')" and c: "getCollateralById cid (db w) = Some c"
  shows "c' = updated_item inp c \<and> getCollateralById cid (db w') = Some c'
      \<and> (\<forall>j. j \<noteq> cid \<longrightarrow> getCollateralById j (db w') = getCollateralById j (db w))
      \<and> t_audit (db w') = t_audit (db w) \<and> document_ids (db w') = document_ids (db w)"
proof (cases "update_fields inp = []")
  case True
  then have "c' = c" "w' = w" using assms by (auto simp: apply_update_fields_def)
  moreover have "set_columns (update_fields inp) c = Inr c" by (simp add: True)
  ultimately show ?thesis using set_columns_fields c by auto
next
  case False
  let ?p = "\<lambda>r. col_id r = cid \<and> col_deleted_at r = None"
  obtain r where "repo_updateCollateral cid (update_fields inp) w = (Inr r, w')" "r = Some c'"
    using assms False by (auto simp: apply_update_fields_def svc_succ)
  then have s: "set_columns (update_fields inp) c = Inr c'"
    and w': "w' = w\<lparr>db := (db w)\<lparr>t_collateral := update_where ?p (\<lambda>_. c') (t_collateral (db w))\<rparr>\<rparr>"
    using repo_updateCollateral_succ [OF _ c] by auto
  have c': "c' = updated_item inp c" using s by (rule set_columns_fields)
  then have p': "?p c'" using getCollateralById_key [OF c] by (simp add: updated_item_def)
  have "getCollateralById cid (db w') = Some c'"
    using select_one_replaced [of ?p, OF c [unfolded getCollateralById_def], OF p'] by (simp add: w' getCollateralById_def)
  moreover have "getCollateralById j (db w') = getCollateralById j (db w)" if "j \<noteq> cid" for j
    unfolding w' getCollateralById_def using that p' by (simp, intro select_one_untouched) auto
  ultimately show ?thesis using c' by (simp add: w')
qed

text \<open>
  A successful update sets exactly the columns the request names (type, value, description,
  currency, expiry date), keeps activity flag, owner, invoice and deletion mark, leaves every other
  live item alone, replaces the document list by the one given, refuses foreign suppliers and
  records the change.
\<close>

theorem updateCollateral_outcome:
  assumes "updateCollateral u role cid inp ip ua w = (Inr c', w')"
  shows "\<exists>c. getCollateralById cid (db w) = Some c \<and> c' = updated_item inp c
     \<and> (\<forall>i. col_invoice c = Some i \<longrightarrow> validateInvoiceAccess i u role (db w))
     \<and> getCollateralById cid (db w') = Some c'
     \<and> (\<forall>j. j \<noteq> cid \<longrightarrow> getCollateralById j (db w') = getCollateralById j (db w))
     \<and> (\<forall>docs. uci_documents inp = Some docs \<longrightarrow>
           getCollateralDocuments cid (db w') = docs \<and> set docs \<subseteq> set (document_ids (db w)))
     \<and> (\<exists>e. t_audit (db w') = t_audit (db w) @ [e] \<and> aud_action e = ''COLLATERAL_UPDATED'')"
proof -
  obtain c w1 w2 where c: "getCollateralById cid (db w) = Some c"
    and acc: "check_item_access c u role w = (Inr (), w)"
    and h: "apply_update_fields cid inp c w = (Inr c', w1)" and dd: "apply_update_documents cid inp w1 = (Inr (), w2)"
    and w': "w' = w2\<lparr>db := (db w2)\<lparr>t_audit := t_audit (db w2) @ [update_audit u cid inp ip ua c]\<rparr>\<rparr>"
    using assms unfolding updateCollateral_def by (fastforce simp: svc_succ check_item_access_succ)
  note h' = apply_update_fields_succ [OF h c]
  have d': "t_collateral (db w2) = t_collateral (db w1) \<and> t_audit (db w2) = t_audit (db w1)
      \<and> (\<forall>docs. uci_documents inp = Some docs \<longrightarrow>
           getCollateralDocuments cid (db w2) = docs \<and> set docs \<subseteq> set (document_ids (db w1)))"
    using dd by (auto simp: apply_update_documents_def split: option.splits dest: replaceDocuments_succ)
  have "aud_action (update_audit u cid inp ip ua c) = ''COLLATERAL_UPDATED''" by (simp add: update_audit_def)
  then show ?thesis
    using c acc h' d' w' by (auto simp: check_item_access_succ getCollateralById_def getCollateralDocuments_def split: option.splits)
qed

definition update_sample :: update_collateral_input where
  "update_sample = \<lparr>uci_type = None, uci_description = None, uci_estimated_value = Some 7, uci_currency = None,
     uci_documents = None, uci_expiry_date = None\<rparr>"

definition collateral_world :: world where
  "collateral_world = world_of ((db (coverage_world 5))\<lparr>t_invoices := [sample_invoice Inv_approved],
     t_suppliers := [sample_supplier], t_users := [sample_user ''su'' None]\<rparr>)"

lemmas collateral_world_defs = collateral_world_def coverage_world_def sample_defs new_collateral_def
  getCollateralById_def validateInvoiceAccess_def

lemma collateral_world_update:
  "\<exists>c w'. updateCollateral ''su'' ''supplier'' ''col'' update_sample ''ip'' ''ua'' collateral_world = (Inr c, w')
     \<and> col_value c = 7"
  by (simp add: updateCollateral_def apply_update_fields_def apply_update_documents_def update_fields_def
      update_sample_def repo_updateCollateral_def COLLATERAL_UPDATABLE_COLUMNS_def bigint_in_def
      check_item_access_def update_audit_def collateral_world_defs)

theorem updateCollateral_outcome_witness:
  "\<exists>c' w'. updateCollateral ''su'' ''supplier'' ''col'' update_sample ''ip'' ''ua'' collateral_world = (Inr c', w')
     \<and> getCollateralById ''col'' (db w') = Some c' \<and> col_value c' = 7"
  using collateral_world_update updateCollateral_outcome by blast

text \<open>The rows of an invoice's coverage lose exactly the deleted item.\<close>

lemma total_after_delete:
  assumes "distinct (map col_id rs)" and "select_one (\<lambda>c. col_id c = cid \<and> col_deleted_at c = None) rs = Some c"
  shows "sum_list (map col_value (filter (\<lambda>c. col_invoice c = Some i \<and> col_is_active c \<and> col_deleted_at c = None)
       (update_where (\<lambda>c. col_id c = cid \<and> col_deleted_at c = None) (\<lambda>c. c\<lparr>col_deleted_at := Some now\<rparr>) rs)))
     = sum_list (map col_value (filter (\<lambda>c. col_invoice c = Some i \<and> col_is_active c \<and> col_deleted_at c = None) rs))
       - (if col_invoice c = Some i \<and> col_is_active c then col_value c else 0)"
  using assms
proof (induction rs)
  case Nil
  then show ?case by simp
next
  case (Cons r rs)
  show ?case
  proof (cases "col_id r = cid \<and> col_deleted_at r = None")
    case True
    then have "c = r" using Cons.prems(2) by simp
    moreover have "update_where (\<lambda>c. col_id c = cid \<and> col_deleted_at c = None) (\<lambda>c. c\<lparr>col_deleted_at := Some now\<rparr>) rs = rs"
      using Cons.prems(1) True by (intro update_where_id) (auto simp: image_iff)
    ultimately show ?thesis using True by simp
  next
    case False
    then have "select_one (\<lambda>c. col_id c = cid \<and> col_deleted_at c = None) rs = Some c" using Cons.prems(2) by auto
    with Cons False show ?thesis by auto
  qed
qed

text \<open>
  Deleting an item succeeds only for someone with access and an invoice that is not funded;
  afterwards the item is gone from every read, the coverage of its invoice has lost exactly its
  value (if it was active), no other invoice's coverage changes, and the deletion is recorded.
\<close>

theorem deleteCollateral_outcome:
  assumes "distinct (map col_id (t_collateral (db w)))"
    and "deleteCollateral u role cid ip ua w = (Inr (), w')"
  shows "\<exists>c. getCollateralById cid (db w) = Some c \<and> getCollateralById cid (db w') = None
     \<and> (\<forall>i v. col_invoice c = Some i \<longrightarrow> validateInvoiceAccess i u role (db w)
           \<and> (getInvoiceStatus i (db w) = Some v \<longrightarrow> inv_status v \<noteq> Inv_funded))
     \<and> (\<forall>i. getTotalCollateralValueForInvoice i (db w') = getTotalCollateralValueForInvoice i (db w)
           - (if col_invoice c = Some i \<and> col_is_active c then col_value c else 0))
     \<and> (\<exists>e. t_audit (db w') = t_audit (db w) @ [e] \<and> aud_action e = ''COLLATERAL_DELETED'')"
proof -
  obtain c where c: "getCollateralById cid (db w) = Some c"
    and acc: "\<forall>i v. col_invoice c = Some i \<longrightarrow> validateInvoiceAccess i u role (db w)
           \<and> (getInvoiceStatus i (db w) = Some v \<longrightarrow> inv_status v \<noteq> Inv_funded)"
    and w': "w' = w\<lparr>db := (softDelete (clock w) cid (db w))\<lparr>t_audit := t_audit (db w) @ [delete_audit u cid ip ua (clock w) c]\<rparr>\<rparr>"
    using assms(2) unfolding deleteCollateral_def
    by (auto simp: svc_succ check_item_access_succ softDelete_def split: option.splits)
  have "getCollateralById cid (db w') = None"
    unfolding w' getCollateralById_def softDelete_def by (simp, intro select_one_cleared) simp
  moreover have "getTotalCollateralValueForInvoice i (db w') = getTotalCollateralValueForInvoice i (db w)
           - (if col_invoice c = Some i \<and> col_is_active c then col_value c else 0)" for i
    using total_after_delete [OF assms(1) c [unfolded getCollateralById_def], of i "clock w"]
    by (simp add: w' getTotalCollateralValueForInvoice_def softDelete_def)
  ultimately show ?thesis using c acc w' by (auto simp: softDelete_def delete_audit_def)
qed

lemma collateral_world_delete: "\<exists>w'. deleteCollateral ''su'' ''supplier'' ''col'' ''ip'' ''ua'' collateral_world = (Inr (), w')"
  by (simp add: deleteCollateral_def check_item_access_def getInvoiceStatus_def softDelete_def delete_audit_def collateral_world_defs)

theorem deleteCollateral_outcome_witness:
  "\<exists>w'. deleteCollateral ''su'' ''supplier'' ''col'' ''ip'' ''ua'' collateral_world = (Inr (), w')
     \<and> getCollateralById ''col'' (db w') = None
     \<and> (\<forall>i. getTotalCollateralValueForInvoice i (db w') = getTotalCollateralValueForInvoice i (db collateral_world)
           - (if i = ''inv'' then 5 else 0))"
proof -
  have d: "distinct (map col_id (t_collateral (db collateral_world)))" by (simp add: collateral_world_defs)
  obtain w' where w': "deleteCollateral ''su'' ''supplier'' ''col'' ''ip'' ''ua'' collateral_world = (Inr (), w')"
    using collateral_world_delete by blast
  show ?thesis using deleteCollateral_outcome [OF d w'] w' by (auto simp: collateral_world_defs)
qed

end
