(* ===== verification/Facilities.thy ===== *)
theory Facilities
  imports RIS_Database "HOL-Library.List_Lexorder"
begin

text \<open>
  \<open>src/src/services/facilities\<close>: the bank facilities that fund the advances. Drawdowns, repayments,
  the nightly interest accrual, utilisation and maturity alerts, the facility detail and the
  dashboard. The lemmas show that the balance of every facility and the ledger of open principals
  are kept, that the interest and utilisation arithmetic is exact, that a repayment undoes a
  drawdown, and what the accrual job does to every drawdown.
\<close>

section \<open>Calculations\<close>

definition RATE_PRECISION :: int where
  "RATE_PRECISION = 1000000000"

definition DAYS_PER_YEAR :: int where
  "DAYS_PER_YEAR = 365"

definition UTILISATION_WARNING :: js_number where
  "UTILISATION_WARNING = Fin 80"

definition UTILISATION_CRITICAL :: js_number where
  "UTILISATION_CRITICAL = Fin 90"

definition MATURITY_ALERT_DAYS :: int where
  "MATURITY_ALERT_DAYS = 5"

text \<open>\<open>BigInt(s)\<close> of a decimal literal; the empty string is zero, anything else is a SyntaxError.\<close>

definition bigint_of_string :: "string \<Rightarrow> ris_error + int" where
  "bigint_of_string s =
     (if list_all is_digit s then Inr (int (digits_val s)) else Inl (JsError ''SyntaxError''))"

definition parseRateToScaled :: "string \<Rightarrow> ris_error + int" where
  "parseRateToScaled rateStr =
     (let intPart = takeWhile (\<lambda>c. c \<noteq> CHR ''.'') rateStr;
          rest = drop 1 (dropWhile (\<lambda>c. c \<noteq> CHR ''.'') rateStr);
          decPart = slice0 9 (padEnd 9 (CHR ''0'') (takeWhile (\<lambda>c. c \<noteq> CHR ''.'') rest))
      in bindE (bigint_of_string intPart) (\<lambda>a.
         bindE (bigint_of_string decPart) (\<lambda>b. Inr (a * RATE_PRECISION + b))))"

definition calculateDailyInterest :: "int \<Rightarrow> string \<Rightarrow> ris_error + int" where
  "calculateDailyInterest p annualRate =
     (if p = 0 then Inr 0
      else bindE (parseRateToScaled annualRate) (\<lambda>rateScaled.
        Inr (bigint_div (p * rateScaled) (DAYS_PER_YEAR * RATE_PRECISION))))"

text \<open>\<open>Number((drawn * 10000n) / limit) / 100\<close>.\<close>

definition utilisation_of :: "int \<Rightarrow> js_number" where
  "utilisation_of q = (case js_Number q of Fin x \<Rightarrow> js_div_fin x 100 | n \<Rightarrow> n)"

definition calculateUtilisation :: "int \<Rightarrow> int \<Rightarrow> js_number" where
  "calculateUtilisation drawn limit =
     (if limit = 0 then Fin 0 else utilisation_of (bigint_div (drawn * 10000) limit))"

definition calculateTotal :: "drawdown \<Rightarrow> int" where
  "calculateTotal dd = dd_principal dd + dd_accrued_interest dd + dd_bank_fees dd"

section \<open>Repository\<close>

text \<open>\<open>ORDER BY bank_name\<close> is the order of character codes (collation \<open>C\<close>).\<close>

definition getActiveFacilities :: "db \<Rightarrow> facility list" where
  "getActiveFacilities d = sort_key fac_bank_name (filter (\<lambda>f. fac_status f = Fac_active) (t_facilities d))"

definition getFacilityById :: "string \<Rightarrow> db \<Rightarrow> facility option" where
  "getFacilityById i d = select_one (\<lambda>f. fac_id f = i) (t_facilities d)"

definition getFacilityByIdWithClient :: "string \<Rightarrow> db \<Rightarrow> facility option" where
  "getFacilityByIdWithClient i d = select_one (\<lambda>f. fac_id f = i) (t_facilities d)"

record facility_aggregates =
  fa_interest_accrued :: int
  fa_defaulted_exposure :: int

definition getFacilityAggregates :: "string \<Rightarrow> db \<Rightarrow> facility_aggregates" where
  "getFacilityAggregates i d =
     (let open_dds = filter (\<lambda>dd. dd_facility dd = i \<and> dd_status dd \<noteq> Dd_repaid) (t_drawdowns d)
      in \<lparr>fa_interest_accrued = sum_list (map dd_accrued_interest open_dds),
          fa_defaulted_exposure = sum_list (map dd_principal
            (filter (\<lambda>dd. \<exists>iv \<in> set (t_invoices d). inv_id iv = dd_invoice dd \<and> inv_status iv = Inv_defaulted) open_dds))\<rparr>)"

record drawdown_detail_row =
  ddr_id :: string
  ddr_principal :: int
  ddr_invoice_number :: "string option"
  ddr_created_at :: int

definition getDrawdownsForFacility :: "string \<Rightarrow> db \<Rightarrow> drawdown_detail_row list" where
  "getDrawdownsForFacility i d =
     map (\<lambda>dd. \<lparr>ddr_id = dd_id dd, ddr_principal = dd_principal dd,
                ddr_invoice_number = map_option inv_number (select_one (\<lambda>iv. inv_id iv = dd_invoice dd) (t_invoices d)),
                ddr_created_at = dd_created_at dd\<rparr>)
       (sort_key (\<lambda>dd. - dd_created_at dd) (filter (\<lambda>dd. dd_facility dd = i) (t_drawdowns d)))"

record repayment_detail_row =
  rdr_id :: string
  rdr_total_amount :: int
  rdr_repaid_at :: int

definition getRepaymentsForFacility :: "string \<Rightarrow> db \<Rightarrow> repayment_detail_row list" where
  "getRepaymentsForFacility i d =
     map (\<lambda>r. \<lparr>rdr_id = rep_id r, rdr_total_amount = rep_total r, rdr_repaid_at = rep_repaid_at r\<rparr>)
       (sort_key (\<lambda>r. - rep_repaid_at r) (filter (\<lambda>r. rep_facility r = i) (t_repayments d)))"

text \<open>
  \<open>INSERT INTO facility_drawdowns\<close>: a required column that the statement does not list raises
  \<open>23502\<close>; principal and fees are checked; facility and invoice are foreign keys.
\<close>

definition drawdown_insert_cols :: "string list" where
  "drawdown_insert_cols =
     [''id'', ''facility_id'', ''invoice_id'', ''principal'', ''bank_fees'', ''status'', ''last_accrued_date'']"

record create_drawdown_input =
  cdi_id :: string
  cdi_facility :: string
  cdi_invoice :: string
  cdi_principal :: int
  cdi_bank_fees :: int

definition createDrawdownWithClient :: "int \<Rightarrow> create_drawdown_input \<Rightarrow> db \<Rightarrow> ris_error + db" where
  "createDrawdownWithClient now x d =
     bindE (bigint_in (cdi_principal x)) (\<lambda>p. bindE (bigint_in (cdi_bank_fees x)) (\<lambda>f.
       if \<not> list_all (\<lambda>c. c \<in> set drawdown_insert_cols) (drawdown_required d) then Inl (DbError ''23502'')
       else if p \<le> 0 \<or> f < 0 then Inl (DbError ''23514'')
       else if list_ex (\<lambda>r. dd_id r = cdi_id x) (t_drawdowns d) then Inl (DbError ''23505'')
       else if getFacilityById (cdi_facility x) d = None \<or> \<not> list_ex (\<lambda>iv. inv_id iv = cdi_invoice x) (t_invoices d)
       then Inl (DbError ''23503'')
       else Inr (d\<lparr>t_drawdowns := t_drawdowns d @
              [\<lparr>dd_id = cdi_id x, dd_facility = cdi_facility x, dd_invoice = cdi_invoice x, dd_principal = p,
                dd_accrued_interest = 0, dd_bank_fees = f, dd_status = Dd_active,
                dd_last_accrued = now div day_ms, dd_created_at = now\<rparr>]\<rparr>)))"

definition getDrawdownByIdWithClient :: "string \<Rightarrow> db \<Rightarrow> drawdown option" where
  "getDrawdownByIdWithClient i d = select_one (\<lambda>r. dd_id r = i) (t_drawdowns d)"

definition getDrawdownByInvoiceId :: "string \<Rightarrow> db \<Rightarrow> drawdown option" where
  "getDrawdownByInvoiceId i d = select_one (\<lambda>r. dd_invoice r = i \<and> dd_status r = Dd_active) (t_drawdowns d)"

definition getActiveDrawdowns :: "db \<Rightarrow> drawdown list" where
  "getActiveDrawdowns d = sort_key dd_created_at (filter (\<lambda>r. dd_status r = Dd_active) (t_drawdowns d))"

definition getActiveDrawdownCount :: "string \<Rightarrow> db \<Rightarrow> nat" where
  "getActiveDrawdownCount i d =
     length (filter (\<lambda>r. dd_facility r = i \<and> dd_status r = Dd_active) (t_drawdowns d))"

text \<open>
  \<open>UPDATE bank_facilities\<close>: the trigger \<open>trg_update_available_amount\<close> recomputes the available
  amount on every update, and a negative drawn amount violates a check.
\<close>

definition touch_facility :: "(facility \<Rightarrow> facility) \<Rightarrow> facility \<Rightarrow> facility" where
  "touch_facility f r = (let r' = f r in r'\<lparr>fac_available := fac_total_limit r' - fac_drawn r'\<rparr>)"

definition updateDrawnAmountWithClient :: "string \<Rightarrow> int \<Rightarrow> db \<Rightarrow> ris_error + db" where
  "updateDrawnAmountWithClient i newDrawn d =
     bindE (bigint_in newDrawn) (\<lambda>n.
       if n < 0 \<and> getFacilityById i d \<noteq> None then Inl (DbError ''23514'')
       else Inr (d\<lparr>t_facilities := update_where (\<lambda>f. fac_id f = i)
                     (touch_facility (\<lambda>f. f\<lparr>fac_drawn := n, fac_available := fac_total_limit f - n\<rparr>)) (t_facilities d)\<rparr>))"

definition updateFacilityStatusWithClient :: "string \<Rightarrow> facility_status \<Rightarrow> db \<Rightarrow> db" where
  "updateFacilityStatusWithClient i st d =
     d\<lparr>t_facilities := update_where (\<lambda>f. fac_id f = i) (touch_facility (\<lambda>f. f\<lparr>fac_status := st\<rparr>)) (t_facilities d)\<rparr>"

definition updateFacilityStatus :: "string \<Rightarrow> facility_status \<Rightarrow> db \<Rightarrow> db" where
  "updateFacilityStatus i st d =
     d\<lparr>t_facilities := update_where (\<lambda>f. fac_id f = i) (touch_facility (\<lambda>f. f\<lparr>fac_status := st\<rparr>)) (t_facilities d)\<rparr>"

definition accrueDailyInterestWithClient :: "string \<Rightarrow> int \<Rightarrow> int \<Rightarrow> db \<Rightarrow> ris_error + db" where
  "accrueDailyInterestWithClient i amount day d =
     (case select_one (\<lambda>r. dd_id r = i) (t_drawdowns d) of None \<Rightarrow> Inr d
      | Some r \<Rightarrow> bindE (bigint_in amount) (\<lambda>a. bindE (bigint_in (dd_accrued_interest r + a)) (\<lambda>_.
          Inr (d\<lparr>t_drawdowns := update_where (\<lambda>r. dd_id r = i)
                   (\<lambda>r. r\<lparr>dd_accrued_interest := dd_accrued_interest r + a, dd_last_accrued := day\<rparr>) (t_drawdowns d)\<rparr>))))"

definition updateDrawdownStatusWithClient :: "string \<Rightarrow> drawdown_status \<Rightarrow> db \<Rightarrow> db" where
  "updateDrawdownStatusWithClient i st d =
     d\<lparr>t_drawdowns := update_where (\<lambda>r. dd_id r = i) (\<lambda>r. r\<lparr>dd_status := st\<rparr>) (t_drawdowns d)\<rparr>"

definition createRepaymentWithClient :: "repayment \<Rightarrow> db \<Rightarrow> ris_error + db" where
  "createRepaymentWithClient r d =
     bindE (bigint_in (rep_total r)) (\<lambda>_.
       if rep_principal r \<le> 0 \<or> rep_interest r < 0 \<or> rep_bank_fees r < 0 \<or> rep_total r \<le> 0 then Inl (DbError ''23514'')
       else if list_ex (\<lambda>q. rep_id q = rep_id r) (t_repayments d) then Inl (DbError ''23505'')
       else if getDrawdownByIdWithClient (rep_drawdown r) d = None \<or> getFacilityById (rep_facility r) d = None
       then Inl (DbError ''23503'')
       else Inr (d\<lparr>t_repayments := t_repayments d @ [r]\<rparr>))"

definition getFacilitiesNearMaturity :: "int \<Rightarrow> int \<Rightarrow> db \<Rightarrow> facility list" where
  "getFacilitiesNearMaturity today days d =
     sort_key fac_maturity_date
       (filter (\<lambda>f. fac_status f = Fac_active \<and> fac_maturity_date f \<le> today + days \<and> today \<le> fac_maturity_date f)
         (t_facilities d))"

definition getFacilitiesByUtilisation :: "rat \<Rightarrow> db \<Rightarrow> facility list" where
  "getFacilitiesByUtilisation threshold d =
     (let util = (\<lambda>f. of_int (fac_drawn f) / of_int (fac_total_limit f) :: rat)
      in sort_key (\<lambda>f. - util f)
           (filter (\<lambda>f. fac_status f = Fac_active \<and> fac_total_limit f \<noteq> 0 \<and> threshold \<le> util f * 100) (t_facilities d)))"

section \<open>Service\<close>

record facility_detail_drawdown =
  fdd_id :: string
  fdd_amount :: int
  fdd_invoice_ref :: string
  fdd_drawn_at :: int

record facility_detail_repayment =
  fdr_id :: string
  fdr_amount :: int
  fdr_paid_at :: int
  fdr_reference :: string

definition ascii_upper :: "char \<Rightarrow> char" where
  "ascii_upper c = (if (97 :: nat) \<le> of_char c \<and> of_char c \<le> (122 :: nat) then char_of (of_char c - 32 :: nat) else c)"

definition toDrawdown :: "drawdown_detail_row \<Rightarrow> facility_detail_drawdown" where
  "toDrawdown d = \<lparr>fdd_id = ddr_id d, fdd_amount = ddr_principal d,
     fdd_invoice_ref = (case ddr_invoice_number d of Some n \<Rightarrow> n | None \<Rightarrow> map ascii_upper (slice0 8 (ddr_id d))),
     fdd_drawn_at = ddr_created_at d\<rparr>"

definition toRepayment :: "repayment_detail_row \<Rightarrow> facility_detail_repayment" where
  "toRepayment r = \<lparr>fdr_id = rdr_id r, fdr_amount = rdr_total_amount r, fdr_paid_at = rdr_repaid_at r,
     fdr_reference = ''RP-'' @ map ascii_upper (slice0 8 (rdr_id r))\<rparr>"

record facility_detail =
  fd_facility :: facility
  fd_utilisation_pct :: js_number
  fd_interest_accrued :: int
  fd_defaulted_exposure :: int
  fd_drawdowns :: "facility_detail_drawdown list"
  fd_repayments :: "facility_detail_repayment list"

definition getFacilityDetail :: "string \<Rightarrow> facility_detail service" where
  "getFacilityDetail i =
     bindS (queryS (getFacilityById i)) (\<lambda>r.
     bindS (requireS r (NotFoundError ''Facility'' i)) (\<lambda>f.
     bindS (queryS (getFacilityAggregates i)) (\<lambda>agg.
     bindS (queryS (getDrawdownsForFacility i)) (\<lambda>dds.
     bindS (queryS (getRepaymentsForFacility i)) (\<lambda>reps.
       returnS \<lparr>fd_facility = f, fd_utilisation_pct = calculateUtilisation (fac_drawn f) (fac_total_limit f),
                fd_interest_accrued = fa_interest_accrued agg, fd_defaulted_exposure = fa_defaulted_exposure agg,
                fd_drawdowns = map toDrawdown dds, fd_repayments = map toRepayment reps\<rparr>)))))"

definition validateFacilityForDrawdown :: "facility option \<Rightarrow> string \<Rightarrow> facility service" where
  "validateFacilityForDrawdown r i =
     bindS (requireS r (NotFoundError ''Facility'' i)) (\<lambda>f.
       case fac_status f of
         Fac_suspended \<Rightarrow> throwS (BusinessRuleError ''FACILITY_SUSPENDED'')
       | Fac_matured \<Rightarrow> throwS (BusinessRuleError ''FACILITY_MATURED'')
       | Fac_closed \<Rightarrow> throwS (BusinessRuleError ''FACILITY_CLOSED'')
       | Fac_active \<Rightarrow> returnS f)"

definition validateMaturity :: "facility \<Rightarrow> int \<Rightarrow> unit service" where
  "validateMaturity f due = guardS (\<not> fac_maturity_date f < due) (BusinessRuleError ''MATURITY_MISMATCH'')"

definition validateAvailableAmount :: "facility \<Rightarrow> int \<Rightarrow> unit service" where
  "validateAvailableAmount f p = guardS (\<not> fac_available f < p) (BusinessRuleError ''INSUFFICIENT_AVAILABLE'')"

definition loadDrawdownFacility :: "string \<Rightarrow> int \<Rightarrow> int \<Rightarrow> facility service" where
  "loadDrawdownFacility i due p =
     bindS (queryS (getFacilityByIdWithClient i)) (\<lambda>r.
     bindS (validateFacilityForDrawdown r i) (\<lambda>f.
     thenS (validateMaturity f due)
    (thenS (validateAvailableAmount f p)
       (returnS f))))"

definition queueUtilisationAlert :: "string \<Rightarrow> js_number \<Rightarrow> string \<Rightarrow> unit service" where
  "queueUtilisationAlert i util level =
     enqueueS Facilities_notification ''facility-utilisation-alert''
       [(''facilityId'', JStr i), (''utilisationPercent'', JNum util), (''alertLevel'', JStr level),
        (''notifyRoles'', JArr (if level = ''critical'' then [JStr ''finance_manager'', JStr ''management'']
                               else [JStr ''finance_manager'']))]"

definition handleUtilisationThresholds :: "string \<Rightarrow> js_number \<Rightarrow> unit service" where
  "handleUtilisationThresholds i util =
     (if js_le UTILISATION_CRITICAL util
      then thenS (execS (updateFacilityStatusWithClient i Fac_suspended)) (queueUtilisationAlert i util ''critical'')
      else if js_le UTILISATION_WARNING util then queueUtilisationAlert i util ''warning''
      else returnS ())"

definition insertDrawdownTxn :: "string \<Rightarrow> facility \<Rightarrow> string \<Rightarrow> string \<Rightarrow> int \<Rightarrow> int \<Rightarrow> string \<Rightarrow> string service" where
  "insertDrawdownTxn newId fac i iv p fees u =
     bindS nowS (\<lambda>now.
     thenS (tryExecS (createDrawdownWithClient now
              \<lparr>cdi_id = newId, cdi_facility = i, cdi_invoice = iv, cdi_principal = p, cdi_bank_fees = fees\<rparr>))
    (thenS (tryExecS (updateDrawnAmountWithClient i (fac_drawn fac + p)))
    (thenS (handleUtilisationThresholds i (calculateUtilisation (fac_drawn fac + p) (fac_total_limit fac)))
    (thenS (createAuditEntry (audit_sys (Some u) ''DRAWDOWN_CREATED'' ''facility_drawdowns'' newId None
              [(''facilityId'', JStr i), (''invoiceId'', JStr iv), (''principal'', JInt p), (''bankFees'', JInt fees)]))
       (returnS newId)))))"

record drawdown_result =
  dr_drawdown_id :: string
  dr_facility_id :: string
  dr_invoice_id :: string
  dr_principal :: int

definition createDrawdown ::
    "string \<Rightarrow> string \<Rightarrow> string \<Rightarrow> int \<Rightarrow> int \<Rightarrow> int \<Rightarrow> string \<Rightarrow> drawdown_result service" where
  "createDrawdown newId i iv p fees due u =
     transactionS
       (bindS (loadDrawdownFacility i due p) (\<lambda>fac.
        bindS (insertDrawdownTxn newId fac i iv p fees u) (\<lambda>ddid.
          returnS \<lparr>dr_drawdown_id = ddid, dr_facility_id = i, dr_invoice_id = iv, dr_principal = p\<rparr>)))"

definition loadFacilityOrThrow :: "string \<Rightarrow> facility service" where
  "loadFacilityOrThrow i = bindS (queryS (getFacilityByIdWithClient i)) (\<lambda>r. requireS r (NotFoundError ''Facility'' i))"

definition loadRepayableDrawdown :: "string \<Rightarrow> drawdown service" where
  "loadRepayableDrawdown i =
     bindS (queryS (getDrawdownByIdWithClient i)) (\<lambda>r.
     bindS (requireS r (NotFoundError ''Drawdown'' i)) (\<lambda>dd.
     thenS (guardS (dd_status dd \<noteq> Dd_repaid) (BusinessRuleError ''DRAWDOWN_ALREADY_REPAID''))
       (returnS dd)))"

record repayment_calculation =
  rc_drawdown :: string
  rc_principal :: int
  rc_accrued_interest :: int
  rc_bank_fees :: int
  rc_total :: int

definition recordRepaymentTxn ::
    "string \<Rightarrow> facility \<Rightarrow> drawdown \<Rightarrow> string \<Rightarrow> string \<Rightarrow> string \<Rightarrow> repayment_calculation service" where
  "recordRepaymentTxn newId fac dd i ddid u =
     bindS nowS (\<lambda>now.
     thenS (tryExecS (createRepaymentWithClient
              \<lparr>rep_id = newId, rep_drawdown = ddid, rep_facility = i, rep_principal = dd_principal dd,
               rep_interest = dd_accrued_interest dd, rep_bank_fees = dd_bank_fees dd,
               rep_total = calculateTotal dd, rep_repaid_at = now\<rparr>))
    (thenS (execS (updateDrawdownStatusWithClient ddid Dd_repaid))
    (thenS (tryExecS (updateDrawnAmountWithClient i (fac_drawn fac - dd_principal dd)))
    (thenS (createAuditEntry (audit_sys (Some u) ''REPAYMENT_RECORDED'' ''facility_repayments'' newId None
              [(''facilityId'', JStr i), (''drawdownId'', JStr ddid), (''totalRepayment'', JInt (calculateTotal dd))]))
       (returnS \<lparr>rc_drawdown = ddid, rc_principal = dd_principal dd, rc_accrued_interest = dd_accrued_interest dd,
                 rc_bank_fees = dd_bank_fees dd, rc_total = calculateTotal dd\<rparr>)))))"

definition processRepayment :: "string \<Rightarrow> string \<Rightarrow> string \<Rightarrow> string \<Rightarrow> repayment_calculation service" where
  "processRepayment newId i ddid u =
     transactionS
       (bindS (loadFacilityOrThrow i) (\<lambda>fac.
        bindS (loadRepayableDrawdown ddid) (\<lambda>dd.
          recordRepaymentTxn newId fac dd i ddid u)))"

text \<open>
  The loop of \<open>accrueEachDay\<close>: the cursor is moved one day before each accrual. Dates are day
  numbers (the server clock runs in UTC, so that \<open>setDate\<close> and \<open>toISOString\<close> agree).
\<close>

function accrueEachDay :: "string \<Rightarrow> int \<Rightarrow> int \<Rightarrow> int \<Rightarrow> unit service" where
  "accrueEachDay i daily cursor today =
     (if cursor < today
      then thenS (tryExecS (accrueDailyInterestWithClient i daily (cursor + 1))) (accrueEachDay i daily (cursor + 1) today)
      else returnS ())"
  by pat_completeness auto
termination
  by (relation "measure (\<lambda>(i, daily, cursor, today). nat (today - cursor))") auto

declare accrueEachDay.simps [simp del]

definition applyAccrualTxn :: "drawdown \<Rightarrow> int \<Rightarrow> int \<Rightarrow> int \<Rightarrow> unit service" where
  "applyAccrualTxn dd daily lastAccrued today =
     catchS
       (transactionS
         (thenS (accrueEachDay (dd_id dd) daily lastAccrued today)
           (createAuditEntry (audit_sys None ''INTEREST_ACCRUED'' ''facility_drawdowns'' (dd_id dd) None
              [(''facilityId'', JStr (dd_facility dd)), (''dailyInterest'', JInt daily), (''accrualDate'', JInt today)]))))
       (\<lambda>_. returnS ())"

definition accrueForDrawdown :: "int \<Rightarrow> drawdown \<Rightarrow> unit service" where
  "accrueForDrawdown today dd =
     (if today \<le> dd_last_accrued dd then returnS ()
      else bindS (queryS (getFacilityById (dd_facility dd))) (\<lambda>r.
        case r of None \<Rightarrow> returnS ()
        | Some fac \<Rightarrow>
            bindS (liftS (calculateDailyInterest (dd_principal dd) (fac_annual_rate fac))) (\<lambda>daily.
              applyAccrualTxn dd daily (dd_last_accrued dd) today)))"

definition accrueInterest :: "int \<Rightarrow> unit service" where
  "accrueInterest today = bindS (queryS getActiveDrawdowns) (forS (accrueForDrawdown today))"

definition sendUtilisationAlert :: "facility \<Rightarrow> js_number \<Rightarrow> unit service" where
  "sendUtilisationAlert f util =
     (if js_le UTILISATION_CRITICAL util
      then thenS (execS (updateFacilityStatus (fac_id f) Fac_suspended)) (queueUtilisationAlert (fac_id f) util ''critical'')
      else if js_le UTILISATION_WARNING util then queueUtilisationAlert (fac_id f) util ''warning''
      else returnS ())"

definition checkUtilisationAlerts :: "unit service" where
  "checkUtilisationAlerts =
     bindS (queryS getActiveFacilities)
       (forS (\<lambda>f. sendUtilisationAlert f (calculateUtilisation (fac_drawn f) (fac_total_limit f))))"

definition queueMaturityAlert :: "facility \<Rightarrow> unit service" where
  "queueMaturityAlert f =
     enqueueS Facilities_notification ''facility-maturity-alert''
       [(''facilityId'', JStr (fac_id f)), (''bankName'', JStr (fac_bank_name f)),
        (''maturityDate'', JInt (fac_maturity_date f)), (''notifyRoles'', JArr [JStr ''finance_manager''])]"

definition checkMaturityAlerts :: "unit service" where
  "checkMaturityAlerts =
     bindS nowS (\<lambda>now. bindS (queryS (getFacilitiesNearMaturity (now div day_ms) MATURITY_ALERT_DAYS))
       (forS queueMaturityAlert))"

record dashboard_item =
  di_facility :: facility
  di_utilisation :: js_number
  di_active_drawdowns :: nat

record facility_dashboard =
  fdb_total_facilities :: nat
  fdb_total_limit :: int
  fdb_total_drawn :: int
  fdb_total_available :: int
  fdb_overall_utilisation :: js_number
  fdb_facilities :: "dashboard_item list"

definition buildDashboardItems :: "facility list \<Rightarrow> db \<Rightarrow> dashboard_item list" where
  "buildDashboardItems fs d =
     map (\<lambda>f. \<lparr>di_facility = f, di_utilisation = calculateUtilisation (fac_drawn f) (fac_total_limit f),
              di_active_drawdowns = getActiveDrawdownCount (fac_id f) d\<rparr>) fs"

definition buildDashboardSummary :: "nat \<Rightarrow> int \<Rightarrow> int \<Rightarrow> dashboard_item list \<Rightarrow> facility_dashboard" where
  "buildDashboardSummary n totalLimit totalDrawn items =
     \<lparr>fdb_total_facilities = n, fdb_total_limit = totalLimit, fdb_total_drawn = totalDrawn,
      fdb_total_available = totalLimit - totalDrawn,
      fdb_overall_utilisation = (if totalLimit = 0 then Fin 0 else utilisation_of (bigint_div (totalDrawn * 10000) totalLimit)),
      fdb_facilities = items\<rparr>"

definition facilities_getDashboard :: "facility_dashboard service" where
  "facilities_getDashboard =
     bindS (queryS getActiveFacilities) (\<lambda>fs.
     bindS (queryS (buildDashboardItems fs)) (\<lambda>items.
       returnS (buildDashboardSummary (length fs) (sum_list (map fac_total_limit fs)) (sum_list (map fac_drawn fs)) items)))"

section \<open>The balance of a facility\<close>

definition facility_balanced :: "facility \<Rightarrow> bool" where
  "facility_balanced f \<longleftrightarrow> fac_available f = fac_total_limit f - fac_drawn f \<and> 0 \<le> fac_drawn f"

definition facilities_ok :: "db \<Rightarrow> bool" where
  "facilities_ok d = list_all facility_balanced (t_facilities d)"

lemma touch_balanced: "0 \<le> fac_drawn (f r) \<Longrightarrow> facility_balanced (touch_facility f r)"
  by (simp add: facility_balanced_def touch_facility_def Let_def)

lemma facilities_ok_frame [simp]:
  "facilities_ok (d\<lparr>t_drawdowns := x\<rparr>) = facilities_ok d"
  "facilities_ok (d\<lparr>t_repayments := y\<rparr>) = facilities_ok d"
  "facilities_ok (d\<lparr>t_audit := z\<rparr>) = facilities_ok d"
  by (simp_all add: facilities_ok_def)

lemma facilities_ok_drawn:
  "facilities_ok d \<Longrightarrow> updateDrawnAmountWithClient i n d = Inr d' \<Longrightarrow> facilities_ok d'"
  by (fastforce simp: updateDrawnAmountWithClient_def svc_succ bigint_in_def facilities_ok_def getFacilityById_def
      select_one_None list_all_iff touch_balanced split: if_splits dest!: set_update_where)

lemma facilities_ok_status:
  "facilities_ok d \<Longrightarrow> facilities_ok (updateFacilityStatusWithClient i st d)"
  "facilities_ok d \<Longrightarrow> facilities_ok (updateFacilityStatus i st d)"
  by (auto simp: facilities_ok_def updateFacilityStatusWithClient_def updateFacilityStatus_def facility_balanced_def
      intro!: list_all_update_where touch_balanced)

lemma createDrawdown_frame:
  "createDrawdownWithClient now x d = Inr d' \<Longrightarrow> t_facilities d' = t_facilities d \<and> t_audit d' = t_audit d
     \<and> audit_columns d' = audit_columns d \<and> t_users d' = t_users d"
  by (auto simp: createDrawdownWithClient_def svc_succ split: if_splits)

lemma createRepayment_frame:
  "createRepaymentWithClient r d = Inr d' \<Longrightarrow> d' = d\<lparr>t_repayments := t_repayments d @ [r]\<rparr>"
  by (auto simp: createRepaymentWithClient_def svc_succ split: if_splits)

lemma accrueDaily_frame:
  "accrueDailyInterestWithClient i a day d = Inr d' \<Longrightarrow> t_facilities d' = t_facilities d"
  by (auto simp: accrueDailyInterestWithClient_def svc_succ split: option.splits)

named_theorems fac_keep \<open>the facility operations keep the balance\<close>

lemma keep_audit [fac_keep]: "preserves (\<lambda>w. facilities_ok (db w)) (createAuditEntry e)"
  by (rule preserves_createAuditEntry) simp

lemma keep_statements [fac_keep]:
  "preserves (\<lambda>w. facilities_ok (db w)) (tryExecS (createDrawdownWithClient now x))"
  "preserves (\<lambda>w. facilities_ok (db w)) (tryExecS (updateDrawnAmountWithClient i n))"
  "preserves (\<lambda>w. facilities_ok (db w)) (tryExecS (createRepaymentWithClient r))"
  "preserves (\<lambda>w. facilities_ok (db w)) (tryExecS (accrueDailyInterestWithClient i a day))"
  "preserves (\<lambda>w. facilities_ok (db w)) (execS (updateFacilityStatusWithClient i st))"
  "preserves (\<lambda>w. facilities_ok (db w)) (execS (updateFacilityStatus i st))"
  "preserves (\<lambda>w. facilities_ok (db w)) (execS (updateDrawdownStatusWithClient i ds))"
proof -
  show "preserves (\<lambda>w. facilities_ok (db w)) (tryExecS (createDrawdownWithClient now x))"
    by (rule preserves_tryExec, drule createDrawdown_frame) (simp add: facilities_ok_def)
  show "preserves (\<lambda>w. facilities_ok (db w)) (tryExecS (updateDrawnAmountWithClient i n))"
    by (rule preserves_tryExec) (rule facilities_ok_drawn)
  show "preserves (\<lambda>w. facilities_ok (db w)) (tryExecS (createRepaymentWithClient r))"
    by (rule preserves_tryExec, drule createRepayment_frame) simp
  show "preserves (\<lambda>w. facilities_ok (db w)) (tryExecS (accrueDailyInterestWithClient i a day))"
    by (rule preserves_tryExec, drule accrueDaily_frame) (simp add: facilities_ok_def)
  show "preserves (\<lambda>w. facilities_ok (db w)) (execS (updateFacilityStatusWithClient i st))"
    "preserves (\<lambda>w. facilities_ok (db w)) (execS (updateFacilityStatus i st))"
    "preserves (\<lambda>w. facilities_ok (db w)) (execS (updateDrawdownStatusWithClient i ds))"
    by (rule preserves_exec; simp add: facilities_ok_status updateDrawdownStatusWithClient_def)+
qed

lemma keep_alerts [fac_keep]:
  "preserves (\<lambda>w. facilities_ok (db w)) (queueUtilisationAlert i util level)"
  "preserves (\<lambda>w. facilities_ok (db w)) (handleUtilisationThresholds i util)"
  "preserves (\<lambda>w. facilities_ok (db w)) (sendUtilisationAlert f util)"
  "preserves (\<lambda>w. facilities_ok (db w)) (queueMaturityAlert f)"
  by (auto simp: queueUtilisationAlert_def handleUtilisationThresholds_def sendUtilisationAlert_def queueMaturityAlert_def
      intro!: fac_keep preserves_then preserves_return preserves_enqueue)

lemma keep_accrueEachDay [fac_keep]: "preserves (\<lambda>w. facilities_ok (db w)) (accrueEachDay i daily cursor today)"
proof (induction i daily cursor today rule: accrueEachDay.induct)
  case (1 i daily cursor today)
  then show ?case
    by (subst accrueEachDay.simps) (auto intro!: preserves_then fac_keep preserves_return)
qed

lemma keep_accrueForDrawdown [fac_keep]: "preserves (\<lambda>w. facilities_ok (db w)) (accrueForDrawdown today dd)"
  unfolding accrueForDrawdown_def applyAccrualTxn_def
  by (auto intro!: preserves_bind preserves_then preserves_catch preserves_transaction fac_keep preserves_return
      preserves_query preserves_lift split: option.split)

lemma keep_loads [fac_keep]:
  "preserves (\<lambda>w. facilities_ok (db w)) (loadDrawdownFacility i due p)"
  "preserves (\<lambda>w. facilities_ok (db w)) (loadFacilityOrThrow i)"
  "preserves (\<lambda>w. facilities_ok (db w)) (loadRepayableDrawdown ddid)"
  unfolding loadDrawdownFacility_def validateFacilityForDrawdown_def validateMaturity_def validateAvailableAmount_def
    loadFacilityOrThrow_def loadRepayableDrawdown_def
  by (auto intro!: preserves_bind preserves_then preserves_guard preserves_require preserves_return preserves_throw
      preserves_query split: facility_status.split)

text \<open>
  The balance that the trigger and the check of the table enforce is kept by every operation, so the theorems below may start from it:
  the available amount is the limit minus the drawn amount, and the drawn amount is not negative.
\<close>

lemma facility_balance_invariant:
  "preserves (\<lambda>w. facilities_ok (db w)) (createDrawdown newId i iv p fees due u)
   \<and> preserves (\<lambda>w. facilities_ok (db w)) (processRepayment newId i ddid u)
   \<and> preserves (\<lambda>w. facilities_ok (db w)) (accrueInterest today)
   \<and> preserves (\<lambda>w. facilities_ok (db w)) checkUtilisationAlerts
   \<and> preserves (\<lambda>w. facilities_ok (db w)) checkMaturityAlerts"
  unfolding createDrawdown_def insertDrawdownTxn_def processRepayment_def recordRepaymentTxn_def accrueInterest_def
    checkUtilisationAlerts_def checkMaturityAlerts_def
  by (intro conjI preserves_transaction preserves_bind preserves_then preserves_for fac_keep preserves_return
      preserves_query preserves_now)

section \<open>Drawing down\<close>

text \<open>The utilisation thresholds are exact: ninety percent is nine tenths of the limit.\<close>

lemma to_double_int_ratio: "\<bar>n\<bar> \<le> 1000 \<Longrightarrow> to_double (of_int n) = Fin (of_int n)"
  using js_Number_int [of n] by (simp add: js_Number_def)

lemma utilisation_threshold:
  assumes "0 \<le> drawn" and "0 < limit" and "0 \<le> k" and "k \<le> 100"
  shows "js_le (Fin (of_int k)) (calculateUtilisation drawn limit) \<longleftrightarrow> k * limit \<le> 100 * drawn"
proof -
  have k: "Fin (of_int k) = to_double (of_int (100 * k) / of_int 100)" using assms by (simp add: to_double_int_ratio)
  have c: "calculateUtilisation drawn limit =
      (case js_Number (bigint_div (drawn * 10000) limit) of Fin x \<Rightarrow> js_div_fin x (of_int 100) | n \<Rightarrow> n)"
    unfolding calculateUtilisation_def utilisation_of_def of_int_numeral using assms(2) by simp
  have "js_le (Fin (of_int k)) (calculateUtilisation drawn limit) \<longleftrightarrow> 100 * k * limit \<le> drawn * 10000"
    unfolding k c by (rule ratio_threshold) (use assms in auto)
  then show ?thesis by simp
qed

text \<open>A facility after a drawdown or repayment.\<close>

definition redrawn :: "int \<Rightarrow> facility_status \<Rightarrow> facility \<Rightarrow> facility" where
  "redrawn n st f = f\<lparr>fac_drawn := n, fac_available := fac_total_limit f - n, fac_status := st\<rparr>"

definition new_drawdown :: "int \<Rightarrow> string \<Rightarrow> string \<Rightarrow> string \<Rightarrow> int \<Rightarrow> int \<Rightarrow> drawdown" where
  "new_drawdown now ddid i iv p fees =
     \<lparr>dd_id = ddid, dd_facility = i, dd_invoice = iv, dd_principal = p, dd_accrued_interest = 0, dd_bank_fees = fees,
      dd_status = Dd_active, dd_last_accrued = now div day_ms, dd_created_at = now\<rparr>"

lemma createDrawdownWithClient_succ:
  "createDrawdownWithClient now \<lparr>cdi_id = ddid, cdi_facility = i, cdi_invoice = iv, cdi_principal = p, cdi_bank_fees = fees\<rparr> d
     = Inr d' \<longleftrightarrow>
   bigint_in p = Inr p \<and> bigint_in fees = Inr fees \<and> list_all (\<lambda>c. c \<in> set drawdown_insert_cols) (drawdown_required d)
   \<and> 0 < p \<and> 0 \<le> fees \<and> \<not> list_ex (\<lambda>r. dd_id r = ddid) (t_drawdowns d) \<and> getFacilityById i d \<noteq> None
   \<and> list_ex (\<lambda>r. inv_id r = iv) (t_invoices d)
   \<and> d' = d\<lparr>t_drawdowns := t_drawdowns d @ [new_drawdown now ddid i iv p fees]\<rparr>"
  by (auto simp: createDrawdownWithClient_def new_drawdown_def svc_succ bigint_in_def)

lemma touch_drawn:
  "touch_facility (\<lambda>f. f\<lparr>fac_drawn := n, fac_available := fac_total_limit f - n\<rparr>) = (\<lambda>f. redrawn n (fac_status f) f)"
  by (simp add: fun_eq_iff touch_facility_def redrawn_def)

lemma touch_suspended: "touch_facility (\<lambda>f. f\<lparr>fac_status := st\<rparr>) (redrawn n st' f) = redrawn n st f"
  by (simp add: touch_facility_def redrawn_def)

lemma updateDrawn_succ:
  "getFacilityById i d \<noteq> None \<Longrightarrow> updateDrawnAmountWithClient i n d = Inr d' \<longleftrightarrow>
     bigint_in n = Inr n \<and> 0 \<le> n
     \<and> d' = d\<lparr>t_facilities := update_where (\<lambda>f. fac_id f = i) (\<lambda>f. redrawn n (fac_status f) f) (t_facilities d)\<rparr>"
  by (auto simp: updateDrawnAmountWithClient_def svc_succ bigint_in_def touch_drawn)

lemma loadDrawdownFacility_succ:
  "loadDrawdownFacility i due p w = (Inr f, w') \<longleftrightarrow>
     w' = w \<and> getFacilityById i (db w) = Some f \<and> fac_status f = Fac_active \<and> due \<le> fac_maturity_date f \<and> p \<le> fac_available f"
  by (cases "getFacilityById i (db w)")
    (auto simp: loadDrawdownFacility_def validateFacilityForDrawdown_def validateMaturity_def validateAvailableAmount_def
      getFacilityByIdWithClient_def getFacilityById_def svc_succ split: facility_status.splits)

lemma handleUtilisation_succ:
  "handleUtilisationThresholds i util w = (Inr x, w') \<Longrightarrow>
     db w' = (if js_le UTILISATION_CRITICAL util then updateFacilityStatusWithClient i Fac_suspended (db w) else db w)"
  by (auto simp: handleUtilisationThresholds_def queueUtilisationAlert_def svc_succ split: if_splits)

lemma facility_by_id_drawdowns [simp]:
  "getFacilityById i (d\<lparr>t_drawdowns := x\<rparr>) = getFacilityById i d"
  "getFacilityById i (d\<lparr>t_repayments := y\<rparr>) = getFacilityById i d"
  "getFacilityById i (d\<lparr>t_audit := z\<rparr>) = getFacilityById i d"
  by (simp_all add: getFacilityById_def)

lemma createDrawdown_succ:
  assumes "createDrawdown newId i iv p fees due u w = (Inr res, w')"
  obtains f where "getFacilityById i (db w) = Some f" "fac_status f = Fac_active" "due \<le> fac_maturity_date f"
    "p \<le> fac_available f" "0 < p" "0 \<le> fees" "\<not> list_ex (\<lambda>r. dd_id r = newId) (t_drawdowns (db w))"
    "0 \<le> fac_drawn f + p"
    "list_all (\<lambda>c. c \<in> set drawdown_insert_cols) (drawdown_required (db w))"
    "t_drawdowns (db w') = t_drawdowns (db w) @ [new_drawdown (clock w) newId i iv p fees]"
    "t_facilities (db w') = update_where (\<lambda>g. fac_id g = i)
        (\<lambda>g. redrawn (fac_drawn f + p)
          (if js_le UTILISATION_CRITICAL (calculateUtilisation (fac_drawn f + p) (fac_total_limit f)) then Fac_suspended else fac_status g) g)
        (t_facilities (db w))"
    "t_repayments (db w') = t_repayments (db w)"
    "\<exists>e. t_audit (db w') = t_audit (db w) @ [e] \<and> aud_action e = ''DRAWDOWN_CREATED''"
    "res = \<lparr>dr_drawdown_id = newId, dr_facility_id = i, dr_invoice_id = iv, dr_principal = p\<rparr>"
    "fac_drawn f + p < 2 ^ 63" "\<forall>x. audit_ok (db w') x = audit_ok (db w) x"
proof -
  from assms obtain f where "bindS (insertDrawdownTxn newId f i iv p fees u) (\<lambda>ddid.
          returnS \<lparr>dr_drawdown_id = ddid, dr_facility_id = i, dr_invoice_id = iv, dr_principal = p\<rparr>) w = (Inr res, w')"
    and f: "getFacilityById i (db w) = Some f" "fac_status f = Fac_active" "due \<le> fac_maturity_date f" "p \<le> fac_available f"
    unfolding createDrawdown_def by (auto simp: svc_succ loadDrawdownFacility_succ)
  then obtain ddid where "insertDrawdownTxn newId f i iv p fees u w = (Inr ddid, w')"
    and res: "res = \<lparr>dr_drawdown_id = ddid, dr_facility_id = i, dr_invoice_id = iv, dr_principal = p\<rparr>"
    by (auto simp: svc_succ)
  let ?n = "fac_drawn f + p" let ?u = "calculateUtilisation ?n (fac_total_limit f)"
  define E where "E = audit_sys (Some u) ''DRAWDOWN_CREATED'' ''facility_drawdowns'' newId None
              [(''facilityId'', JStr i), (''invoiceId'', JStr iv), (''principal'', JInt p), (''bankFees'', JInt fees)]"
  define d2 where "d2 = (db w)\<lparr>t_drawdowns := t_drawdowns (db w) @ [new_drawdown (clock w) newId i iv p fees],
     t_facilities := update_where (\<lambda>g. fac_id g = i) (\<lambda>g. redrawn ?n (fac_status g) g) (t_facilities (db w))\<rparr>"
  obtain w3 where c: "0 < p" "0 \<le> fees" "\<not> list_ex (\<lambda>r. dd_id r = newId) (t_drawdowns (db w))" "0 \<le> ?n" "?n < 2 ^ 63"
      "list_all (\<lambda>c. c \<in> set drawdown_insert_cols) (drawdown_required (db w))"
    and h: "handleUtilisationThresholds i ?u (w\<lparr>db := d2\<rparr>) = (Inr (), w3)"
    and w': "db w' = (db w3)\<lparr>t_audit := t_audit (db w3) @ [E]\<rparr>"
    and ddid: "ddid = newId"
    using \<open>insertDrawdownTxn newId f i iv p fees u w = (Inr ddid, w')\<close>
    unfolding insertDrawdownTxn_def E_def [symmetric]
    by (auto simp: svc_succ createDrawdownWithClient_succ updateDrawn_succ f d2_def bigint_in_def split: if_splits)
  have d3: "db w3 = (if js_le UTILISATION_CRITICAL ?u then updateFacilityStatusWithClient i Fac_suspended d2 else d2)"
    using handleUtilisation_succ [OF h] by simp
  have fs: "t_facilities (db w3) = update_where (\<lambda>g. fac_id g = i)
        (\<lambda>g. redrawn ?n (if js_le UTILISATION_CRITICAL ?u then Fac_suspended else fac_status g) g) (t_facilities (db w))"
    by (simp add: d3 d2_def updateFacilityStatusWithClient_def update_where_compose redrawn_def)
      (auto simp: touch_facility_def redrawn_def intro!: update_where_cong)
  have dd: "t_drawdowns (db w3) = t_drawdowns d2" "t_repayments (db w3) = t_repayments d2" "t_audit (db w3) = t_audit d2"
    and ok: "\<forall>x. audit_ok (db w3) x = audit_ok (db w) x"
    by (simp_all add: d3 d2_def updateFacilityStatusWithClient_def)
  show ?thesis
    by (rule that [OF f(1,2,3,4) c(1,2,3,4,6)])
      (use w' fs dd res ddid ok c(5) in \<open>auto simp: d2_def E_def\<close>)
qed

text \<open>
  A drawdown succeeds only against an active facility that matures no earlier than the invoice
  and has the principal available. It then adds one active drawdown, raises the drawn amount by the
  principal, suspends the facility exactly when nine tenths of its limit are drawn, touches no other
  facility, and never takes the drawn amount of a balanced facility above its limit.
\<close>

theorem createDrawdown_outcome:
  assumes "createDrawdown newId i iv p fees due u w = (Inr res, w')"
    and "facilities_ok (db w)" and "\<forall>g \<in> set (t_facilities (db w)). 0 < fac_total_limit g"
  shows "\<exists>f. getFacilityById i (db w) = Some f \<and> fac_status f = Fac_active \<and> due \<le> fac_maturity_date f
     \<and> 0 < p \<and> p \<le> fac_available f
     \<and> getFacilityById i (db w') = Some (redrawn (fac_drawn f + p)
           (if 9 * fac_total_limit f \<le> 10 * (fac_drawn f + p) then Fac_suspended else Fac_active) f)
     \<and> fac_drawn f + p \<le> fac_total_limit f
     \<and> (\<forall>j. j \<noteq> i \<longrightarrow> getFacilityById j (db w') = getFacilityById j (db w))
     \<and> t_drawdowns (db w') = t_drawdowns (db w) @ [new_drawdown (clock w) newId i iv p fees]"
proof -
  from assms(1) obtain f where f: "getFacilityById i (db w) = Some f" "fac_status f = Fac_active" "due \<le> fac_maturity_date f"
    "p \<le> fac_available f" "0 < p"
    and dd: "t_drawdowns (db w') = t_drawdowns (db w) @ [new_drawdown (clock w) newId i iv p fees]"
    and fs: "t_facilities (db w') = update_where (\<lambda>g. fac_id g = i)
        (\<lambda>g. redrawn (fac_drawn f + p)
          (if js_le UTILISATION_CRITICAL (calculateUtilisation (fac_drawn f + p) (fac_total_limit f)) then Fac_suspended else fac_status g) g)
        (t_facilities (db w))"
    by (rule createDrawdown_succ)
  have mem: "f \<in> set (t_facilities (db w))" "fac_id f = i" using f(1) by (auto simp: getFacilityById_def dest: select_one_Some)
  have bal: "fac_available f = fac_total_limit f - fac_drawn f" "0 \<le> fac_drawn f" and lim: "0 < fac_total_limit f"
    using assms(2,3) mem by (auto simp: facilities_ok_def list_all_iff facility_balanced_def)
  have "UTILISATION_CRITICAL = Fin (of_int 90)" by (simp add: UTILISATION_CRITICAL_def)
  then have crit: "js_le UTILISATION_CRITICAL (calculateUtilisation (fac_drawn f + p) (fac_total_limit f))
      \<longleftrightarrow> 9 * fac_total_limit f \<le> 10 * (fac_drawn f + p)"
    using utilisation_threshold [of "fac_drawn f + p" "fac_total_limit f" 90] bal(2) lim f(5) by auto
  have "getFacilityById j (db w') = map_option (\<lambda>g. if fac_id g = i
      then redrawn (fac_drawn f + p) (if 9 * fac_total_limit f \<le> 10 * (fac_drawn f + p) then Fac_suspended else fac_status g) g else g)
      (getFacilityById j (db w))" for j
    unfolding getFacilityById_def fs crit by (rule select_one_update_where) (simp add: redrawn_def)
  moreover have "getFacilityById j (db w) = Some g \<Longrightarrow> fac_id g = j" for j g
    unfolding getFacilityById_def by (rule select_one_key)
  ultimately have "getFacilityById i (db w') = Some (redrawn (fac_drawn f + p)
           (if 9 * fac_total_limit f \<le> 10 * (fac_drawn f + p) then Fac_suspended else Fac_active) f)"
    and "j \<noteq> i \<Longrightarrow> getFacilityById j (db w') = getFacilityById j (db w)" for j
    using f(1,2) mem(2) by (auto simp: map_option_case split: option.splits)
  then show ?thesis using f dd bal(1) by auto
qed

definition facility_world :: world where
  "facility_world = world_of (blank_db\<lparr>t_facilities := [sample_facility], t_invoices := [sample_invoice Inv_approved],
     t_users := [sample_user ''fin'' None], drawdown_required := []\<rparr>)"

lemmas facility_world_defs = facility_world_def sample_defs getFacilityById_def getFacilityByIdWithClient_def

lemma facility_world_drawdown:
  "\<exists>res w'. createDrawdown ''dd'' ''fac'' ''inv'' 95000000 500 90 ''fin'' facility_world = (Inr res, w')"
proof -
  have "js_le UTILISATION_CRITICAL (calculateUtilisation 95000000 100000000)"
    using utilisation_threshold [of 95000000 100000000 90] by (simp add: UTILISATION_CRITICAL_def)
  then show ?thesis
    by (simp add: createDrawdown_def loadDrawdownFacility_def validateFacilityForDrawdown_def validateMaturity_def
        validateAvailableAmount_def insertDrawdownTxn_def createDrawdownWithClient_def updateDrawnAmountWithClient_def
        handleUtilisationThresholds_def queueUtilisationAlert_def run_enqueue updateFacilityStatusWithClient_def
        bigint_in_def facility_world_defs)
qed

theorem createDrawdown_outcome_witness:
  "\<exists>res w'. createDrawdown ''dd'' ''fac'' ''inv'' 95000000 500 90 ''fin'' facility_world = (Inr res, w')
     \<and> map_option fac_status (getFacilityById ''fac'' (db w')) = Some Fac_suspended"
proof -
  obtain res w' where r: "createDrawdown ''dd'' ''fac'' ''inv'' 95000000 500 90 ''fin'' facility_world = (Inr res, w')"
    using facility_world_drawdown by blast
  have ok: "facilities_ok (db facility_world)" "\<forall>g \<in> set (t_facilities (db facility_world)). 0 < fac_total_limit g"
    by (simp_all add: facility_world_defs facilities_ok_def facility_balanced_def)
  have "getFacilityById ''fac'' (db facility_world) = Some sample_facility" by (simp add: facility_world_defs)
  then show ?thesis using createDrawdown_outcome [OF r ok] r by (auto simp: redrawn_def sample_facility_def)
qed

text \<open>
  On the migrated schema no drawdown can be created: the statement does not set the required
  column \<open>expected_repayment_date\<close>, so every request fails and the database stays as it was.
\<close>

theorem createDrawdown_blocked_by_schema:
  assumes "drawdown_required (db w) = migrated_drawdown_required"
  shows "\<exists>e w'. createDrawdown newId i iv p fees due u w = (Inl e, w') \<and> db w' = db w"
proof -
  obtain r w' where rw: "createDrawdown newId i iv p fees due u w = (r, w')" by fastforce
  have "\<not> list_all (\<lambda>c. c \<in> set drawdown_insert_cols) (drawdown_required (db w))"
    by (simp add: assms migrated_drawdown_required_def drawdown_insert_cols_def)
  then obtain e where "r = Inl e" using rw createDrawdown_succ by (cases r) metis+
  then show ?thesis using rw transactionS_fail unfolding createDrawdown_def by blast
qed

theorem createDrawdown_blocked_by_schema_witness:
  "\<exists>e w'. createDrawdown ''dd'' ''fac'' ''inv'' 95000000 500 90 ''fin''
      (facility_world\<lparr>db := (db facility_world)\<lparr>drawdown_required := migrated_drawdown_required\<rparr>\<rparr>) = (Inl e, w')"
  using createDrawdown_blocked_by_schema
    [of "facility_world\<lparr>db := (db facility_world)\<lparr>drawdown_required := migrated_drawdown_required\<rparr>\<rparr>"
      "''dd''" "''fac''" "''inv''" 95000000 500 90 "''fin''"] by auto

section \<open>Repaying and the ledger\<close>

lemma processRepayment_succ:
  assumes "processRepayment newId i ddid u w = (Inr rc, w')"
  obtains f dd where "getFacilityById i (db w) = Some f" "getDrawdownByIdWithClient ddid (db w) = Some dd"
    "dd_status dd \<noteq> Dd_repaid" "0 \<le> fac_drawn f - dd_principal dd"
    "t_drawdowns (db w') = update_where (\<lambda>r. dd_id r = ddid) (\<lambda>r. r\<lparr>dd_status := Dd_repaid\<rparr>) (t_drawdowns (db w))"
    "t_facilities (db w') = update_where (\<lambda>g. fac_id g = i) (\<lambda>g. redrawn (fac_drawn f - dd_principal dd) (fac_status g) g)
        (t_facilities (db w))"
    "rc = \<lparr>rc_drawdown = ddid, rc_principal = dd_principal dd, rc_accrued_interest = dd_accrued_interest dd,
           rc_bank_fees = dd_bank_fees dd, rc_total = calculateTotal dd\<rparr>"
proof -
  obtain f dd where f: "getFacilityById i (db w) = Some f" "getDrawdownByIdWithClient ddid (db w) = Some dd" "dd_status dd \<noteq> Dd_repaid"
    and r: "recordRepaymentTxn newId f dd i ddid u w = (Inr rc, w')"
    using assms unfolding processRepayment_def
    by (auto simp: svc_succ loadFacilityOrThrow_def loadRepayableDrawdown_def getFacilityByIdWithClient_def getFacilityById_def)
  have "0 \<le> fac_drawn f - dd_principal dd
     \<and> t_drawdowns (db w') = update_where (\<lambda>r. dd_id r = ddid) (\<lambda>r. r\<lparr>dd_status := Dd_repaid\<rparr>) (t_drawdowns (db w))
     \<and> t_facilities (db w') = update_where (\<lambda>g. fac_id g = i) (\<lambda>g. redrawn (fac_drawn f - dd_principal dd) (fac_status g) g)
        (t_facilities (db w))
     \<and> rc = \<lparr>rc_drawdown = ddid, rc_principal = dd_principal dd, rc_accrued_interest = dd_accrued_interest dd,
           rc_bank_fees = dd_bank_fees dd, rc_total = calculateTotal dd\<rparr>"
    using r unfolding recordRepaymentTxn_def
    by (auto simp: svc_succ updateDrawdownStatusWithClient_def updateDrawn_succ f(1) dest!: createRepayment_frame)
  then show ?thesis using that [OF f] by blast
qed

text \<open>
  The ledger: the drawn amount of every facility is the sum of the principals of its drawdowns that
  have not been repaid, and identifiers are unique.
\<close>

definition outstanding :: "string \<Rightarrow> drawdown list \<Rightarrow> int" where
  "outstanding i dds = sum_list (map dd_principal (filter (\<lambda>dd. dd_facility dd = i \<and> dd_status dd \<noteq> Dd_repaid) dds))"

definition ledger_ok :: "db \<Rightarrow> bool" where
  "ledger_ok d \<longleftrightarrow> distinct (map fac_id (t_facilities d)) \<and> distinct (map dd_id (t_drawdowns d))
     \<and> (\<forall>f \<in> set (t_facilities d). fac_drawn f = outstanding (fac_id f) (t_drawdowns d))"

lemma outstanding_append [simp]: "outstanding i (xs @ ys) = outstanding i xs + outstanding i ys"
  by (simp add: outstanding_def)

lemma outstanding_new [simp]: "outstanding j [new_drawdown now ddid i iv p fees] = (if i = j then p else 0)"
  by (simp add: outstanding_def new_drawdown_def)

lemma outstanding_repaid:
  assumes "distinct (map dd_id dds)" and "select_one (\<lambda>r. dd_id r = ddid) dds = Some dd" and "dd_status dd \<noteq> Dd_repaid"
  shows "outstanding j (update_where (\<lambda>r. dd_id r = ddid) (\<lambda>r. r\<lparr>dd_status := Dd_repaid\<rparr>) dds)
       = outstanding j dds - (if dd_facility dd = j then dd_principal dd else 0)"
  using assms
proof (induction dds)
  case Nil
  then show ?case by simp
next
  case (Cons r dds)
  show ?case
  proof (cases "dd_id r = ddid")
    case True
    then have "dd = r" using Cons.prems(2) by simp
    moreover have "update_where (\<lambda>r. dd_id r = ddid) (\<lambda>r. r\<lparr>dd_status := Dd_repaid\<rparr>) dds = dds"
      using Cons.prems(1) True by (intro update_where_id) (auto simp: image_iff)
    ultimately show ?thesis using True Cons.prems(3) by (simp add: outstanding_def)
  next
    case False
    then have "select_one (\<lambda>r. dd_id r = ddid) dds = Some dd" using Cons.prems(2) by simp
    with Cons False show ?thesis by (auto simp: outstanding_def)
  qed
qed

lemma facility_unique:
  "distinct (map fac_id (t_facilities d)) \<Longrightarrow> getFacilityById i d = Some f \<Longrightarrow> g \<in> set (t_facilities d) \<Longrightarrow> fac_id g = i \<Longrightarrow> g = f"
  using distinct_select_one [of fac_id "t_facilities d" g i] by (simp add: getFacilityById_def)

text \<open>An update of the drawn amount that follows the change of the outstanding principals.\<close>

lemma ledger_redraw:
  assumes "ledger_ok d" and "getFacilityById i d = Some f"
    and "t_facilities d' = update_where (\<lambda>g. fac_id g = i) (\<lambda>g. redrawn n (st g) g) (t_facilities d)"
    and "distinct (map dd_id (t_drawdowns d'))"
    and "outstanding i (t_drawdowns d') = outstanding i (t_drawdowns d) + (n - fac_drawn f)"
    and "\<And>j. j \<noteq> i \<Longrightarrow> outstanding j (t_drawdowns d') = outstanding j (t_drawdowns d)"
  shows "ledger_ok d'"
proof -
  have dist: "distinct (map fac_id (t_facilities d))" using assms(1) by (simp add: ledger_ok_def)
  have ids: "map fac_id (t_facilities d') = map fac_id (t_facilities d)"
    unfolding assms(3) by (rule map_update_where) (simp add: redrawn_def)
  have f: "f \<in> set (t_facilities d)" "fac_id f = i" using assms(2) by (auto simp: getFacilityById_def dest: select_one_Some)
  have df: "fac_drawn f = outstanding i (t_drawdowns d)" using assms(1) f by (auto simp: ledger_ok_def)
  have "fac_drawn g = outstanding (fac_id g) (t_drawdowns d')" if "g \<in> set (t_facilities d')" for g
  proof -
    from that obtain h where h: "h \<in> set (t_facilities d)" "g = (if fac_id h = i then redrawn n (st h) h else h)"
      unfolding assms(3) update_where_def by auto
    show ?thesis
    proof (cases "fac_id h = i")
      case True
      then have "h = f" using facility_unique [OF dist assms(2) h(1)] by simp
      then show ?thesis using h(2) True assms(5) df f(2) by (simp add: redrawn_def)
    next
      case False
      then show ?thesis using h assms(1) assms(6) [OF False] by (auto simp: ledger_ok_def)
    qed
  qed
  then show ?thesis using dist ids assms(4) by (simp add: ledger_ok_def)
qed

text \<open>
  C24: The facility ledger is kept by a drawdown, and by a repayment through the facility the
  drawdown belongs to: the drawn amount of every facility stays the sum of its open principals.
\<close>

theorem facility_ledger_invariant:
  assumes "ledger_ok (db w)"
  shows "(createDrawdown newId i iv p fees due u w = (Inr res, w') \<longrightarrow> ledger_ok (db w'))
    \<and> (processRepayment newId i ddid u w = (Inr rc, w') \<and>
         map_option dd_facility (getDrawdownByIdWithClient ddid (db w)) = Some i \<longrightarrow> ledger_ok (db w'))"
proof (intro conjI impI; (elim conjE)?)
  assume "createDrawdown newId i iv p fees due u w = (Inr res, w')"
  then obtain f where f: "getFacilityById i (db w) = Some f" and fresh: "\<not> list_ex (\<lambda>r. dd_id r = newId) (t_drawdowns (db w))"
    and dd: "t_drawdowns (db w') = t_drawdowns (db w) @ [new_drawdown (clock w) newId i iv p fees]"
    and fs: "t_facilities (db w') = update_where (\<lambda>g. fac_id g = i)
        (\<lambda>g. redrawn (fac_drawn f + p)
          (if js_le UTILISATION_CRITICAL (calculateUtilisation (fac_drawn f + p) (fac_total_limit f)) then Fac_suspended else fac_status g) g)
        (t_facilities (db w))"
    by (rule createDrawdown_succ)
  have "distinct (map dd_id (t_drawdowns (db w')))"
    using assms fresh by (auto simp: dd ledger_ok_def new_drawdown_def list_ex_iff)
  then show "ledger_ok (db w')" by (rule ledger_redraw [OF assms f fs]) (simp_all add: dd)
next
  assume r: "processRepayment newId i ddid u w = (Inr rc, w')"
    and own: "map_option dd_facility (getDrawdownByIdWithClient ddid (db w)) = Some i"
  from r obtain f dd where f: "getFacilityById i (db w) = Some f" and dd: "getDrawdownByIdWithClient ddid (db w) = Some dd" "dd_status dd \<noteq> Dd_repaid"
    and dds: "t_drawdowns (db w') = update_where (\<lambda>r. dd_id r = ddid) (\<lambda>r. r\<lparr>dd_status := Dd_repaid\<rparr>) (t_drawdowns (db w))"
    and fs: "t_facilities (db w') = update_where (\<lambda>g. fac_id g = i) (\<lambda>g. redrawn (fac_drawn f - dd_principal dd) (fac_status g) g)
        (t_facilities (db w))"
    by (rule processRepayment_succ)
  have dist: "distinct (map dd_id (t_drawdowns (db w)))" using assms by (simp add: ledger_ok_def)
  note out = outstanding_repaid [OF dist dd(1) [unfolded getDrawdownByIdWithClient_def] dd(2)]
  have "distinct (map dd_id (t_drawdowns (db w')))" unfolding dds using dist by (subst map_update_where) auto
  then show "ledger_ok (db w')"
    by (rule ledger_redraw [OF assms f fs]) (use own dd in \<open>auto simp: dds out\<close>)
qed

lemma facility_world_ledger: "ledger_ok (db facility_world)"
  by (simp add: ledger_ok_def facility_world_defs outstanding_def)

theorem facility_ledger_invariant_witness:
  "\<exists>res w'. createDrawdown ''dd'' ''fac'' ''inv'' 95000000 500 90 ''fin'' facility_world = (Inr res, w') \<and> ledger_ok (db w')"
  using facility_world_drawdown facility_ledger_invariant [OF facility_world_ledger] by blast

text \<open>
  A repayment does not check that the drawdown belongs to the facility it is booked against.
  When it does not, the repayment succeeds, lowers the drawn amount of the wrong facility and
  leaves the debtor facility drawn, so the ledger is broken.
\<close>

theorem repayment_through_wrong_facility:
  assumes "ledger_ok (db w)" and "processRepayment newId i ddid u w = (Inr rc, w')"
    and "getDrawdownByIdWithClient ddid (db w) = Some dd" and "dd_facility dd = j" and "j \<noteq> i" and "0 < dd_principal dd"
    and "getFacilityById j (db w) = Some g"
  shows "getFacilityById j (db w') = Some g \<and> \<not> ledger_ok (db w')"
proof -
  from assms(2) obtain f dd' where f: "getFacilityById i (db w) = Some f" and dd': "getDrawdownByIdWithClient ddid (db w) = Some dd'"
    and st: "dd_status dd' \<noteq> Dd_repaid"
    and dds: "t_drawdowns (db w') = update_where (\<lambda>r. dd_id r = ddid) (\<lambda>r. r\<lparr>dd_status := Dd_repaid\<rparr>) (t_drawdowns (db w))"
    and fs: "t_facilities (db w') = update_where (\<lambda>g. fac_id g = i) (\<lambda>g. redrawn (fac_drawn f - dd_principal dd') (fac_status g) g)
        (t_facilities (db w))"
    by (rule processRepayment_succ)
  have eq: "dd' = dd" using dd' assms(3) by simp
  have g: "g \<in> set (t_facilities (db w))" "fac_id g = j" using assms(7) by (auto simp: getFacilityById_def dest: select_one_Some)
  have keep: "getFacilityById j (db w') = Some g"
    using assms(5,7) g(2) unfolding getFacilityById_def fs
    by (subst select_one_update_where) (auto simp: redrawn_def)
  have dist: "distinct (map dd_id (t_drawdowns (db w)))" using assms(1) by (simp add: ledger_ok_def)
  have "outstanding j (t_drawdowns (db w')) = outstanding j (t_drawdowns (db w)) - dd_principal dd"
    using outstanding_repaid [OF dist dd' [unfolded getDrawdownByIdWithClient_def] st, of j] assms(4) by (simp add: dds eq)
  moreover have "fac_drawn g = outstanding j (t_drawdowns (db w))" using assms(1) g by (auto simp: ledger_ok_def)
  moreover have "g \<in> set (t_facilities (db w'))" using keep by (auto simp: getFacilityById_def dest: select_one_Some)
  ultimately have "g \<in> set (t_facilities (db w'))" "fac_drawn g \<noteq> outstanding (fac_id g) (t_drawdowns (db w'))"
    using g(2) assms(6) by auto
  then have "\<not> ledger_ok (db w')" unfolding ledger_ok_def by blast
  with keep show ?thesis by simp
qed

definition two_facilities :: world where
  "two_facilities = world_of (blank_db\<lparr>
     t_facilities := [sample_facility\<lparr>fac_drawn := 10, fac_available := 99999990\<rparr>,
                      sample_facility\<lparr>fac_id := ''other'', fac_drawn := 10, fac_available := 99999990\<rparr>],
     t_drawdowns := [new_drawdown 0 ''dd'' ''fac'' ''inv'' 10 0, new_drawdown 0 ''de'' ''other'' ''inv'' 10 0],
     t_users := [sample_user ''fin'' None]\<rparr>)"

theorem repayment_through_wrong_facility_witness:
  "\<exists>rc w'. processRepayment ''r'' ''other'' ''dd'' ''fin'' two_facilities = (Inr rc, w') \<and> \<not> ledger_ok (db w')"
proof -
  have led: "ledger_ok (db two_facilities)"
    by (simp add: ledger_ok_def two_facilities_def facility_world_defs outstanding_def new_drawdown_def)
  obtain rc w' where r: "processRepayment ''r'' ''other'' ''dd'' ''fin'' two_facilities = (Inr rc, w')"
    by (simp add: processRepayment_def loadFacilityOrThrow_def loadRepayableDrawdown_def recordRepaymentTxn_def
        createRepaymentWithClient_def updateDrawdownStatusWithClient_def updateDrawnAmountWithClient_def bigint_in_def
        calculateTotal_def two_facilities_def new_drawdown_def getDrawdownByIdWithClient_def facility_world_defs)
  have "getDrawdownByIdWithClient ''dd'' (db two_facilities) = Some (new_drawdown 0 ''dd'' ''fac'' ''inv'' 10 0)"
    by (simp add: two_facilities_def getDrawdownByIdWithClient_def world_of_def new_drawdown_def)
  from repayment_through_wrong_facility [OF led r this, of "''fac''"
      "sample_facility\<lparr>fac_drawn := 10, fac_available := 99999990\<rparr>"] r
  show ?thesis by (simp add: new_drawdown_def two_facilities_def facility_world_defs)
qed

lemma processRepayment_run:
  assumes "getFacilityById i (db w) = Some f" and "getDrawdownByIdWithClient ddid (db w) = Some dd" and "dd_status dd \<noteq> Dd_repaid"
    and "0 < dd_principal dd" "0 \<le> dd_accrued_interest dd" "0 \<le> dd_bank_fees dd" and "calculateTotal dd < 2 ^ 63"
    and "dd_principal dd \<le> fac_drawn f" "fac_drawn f < 2 ^ 63"
    and "\<not> list_ex (\<lambda>r. rep_id r = rid) (t_repayments (db w))" and "audit_ok (db w) (Some u)"
  shows "\<exists>rc w'. processRepayment rid i ddid u w = (Inr rc, w')"
proof -
  have tot: "bigint_in (calculateTotal dd) = Inr (calculateTotal dd)" "0 < calculateTotal dd"
    using assms(4-7) by (auto simp: bigint_in_def calculateTotal_def)
  have n: "bigint_in (fac_drawn f - dd_principal dd) = Inr (fac_drawn f - dd_principal dd)" "0 \<le> fac_drawn f - dd_principal dd"
    using assms(4,8,9) by (auto simp: bigint_in_def)
  have drawn: "getFacilityById i d = Some f \<Longrightarrow> \<exists>d'. updateDrawnAmountWithClient i (fac_drawn f - dd_principal dd) d = Inr d'
      \<and> (\<forall>x. audit_ok d' x = audit_ok d x)" for d
    using n by (auto simp: updateDrawnAmountWithClient_def)
  define r where "r = \<lparr>rep_id = rid, rep_drawdown = ddid, rep_facility = i, rep_principal = dd_principal dd,
               rep_interest = dd_accrued_interest dd, rep_bank_fees = dd_bank_fees dd,
               rep_total = calculateTotal dd, rep_repaid_at = clock w\<rparr>"
  have "createRepaymentWithClient r (db w) = Inr ((db w)\<lparr>t_repayments := t_repayments (db w) @ [r]\<rparr>)"
    using assms tot by (simp add: createRepaymentWithClient_def r_def)
  moreover obtain d' where "updateDrawnAmountWithClient i (fac_drawn f - dd_principal dd)
      (updateDrawdownStatusWithClient ddid Dd_repaid ((db w)\<lparr>t_repayments := t_repayments (db w) @ [r]\<rparr>)) = Inr d'"
    and "\<forall>x. audit_ok d' x = audit_ok (db w) x"
    using drawn [of "updateDrawdownStatusWithClient ddid Dd_repaid ((db w)\<lparr>t_repayments := t_repayments (db w) @ [r]\<rparr>)"] assms(1)
    by (auto simp: updateDrawdownStatusWithClient_def getFacilityById_def)
  ultimately show ?thesis
    using assms(1,2,3,11) unfolding processRepayment_def recordRepaymentTxn_def
    by (simp add: loadFacilityOrThrow_def loadRepayableDrawdown_def getFacilityByIdWithClient_def
        getFacilityById_def [symmetric] r_def)
qed

text \<open>
  Repaying a drawdown at once undoes it: the repayment succeeds, costs principal plus bank fees
  and restores the drawn and available amounts of the facility.
\<close>

theorem drawdown_repayment_roundtrip:
  assumes "createDrawdown newId i iv p fees due u w = (Inr res, w1)" and "facilities_ok (db w)"
    and "p + fees < 2 ^ 63" and "\<not> list_ex (\<lambda>r. rep_id r = rid) (t_repayments (db w))" and "audit_ok (db w) (Some u)"
  shows "\<exists>rc w2. processRepayment rid i newId u w1 = (Inr rc, w2) \<and> rc_total rc = p + fees
     \<and> map_option (\<lambda>f. (fac_drawn f, fac_available f)) (getFacilityById i (db w2))
       = map_option (\<lambda>f. (fac_drawn f, fac_available f)) (getFacilityById i (db w))"
proof -
  from assms(1) obtain f where f: "getFacilityById i (db w) = Some f" and p: "0 < p" "0 \<le> fees"
    and fresh: "\<not> list_ex (\<lambda>r. dd_id r = newId) (t_drawdowns (db w))"
    and dd: "t_drawdowns (db w1) = t_drawdowns (db w) @ [new_drawdown (clock w) newId i iv p fees]"
    and fs0: "t_facilities (db w1) = update_where (\<lambda>g. fac_id g = i) (\<lambda>g. redrawn (fac_drawn f + p)
          (if js_le UTILISATION_CRITICAL (calculateUtilisation (fac_drawn f + p) (fac_total_limit f)) then Fac_suspended else fac_status g) g)
        (t_facilities (db w))"
    and rp: "t_repayments (db w1) = t_repayments (db w)" and n: "fac_drawn f + p < 2 ^ 63"
    and au: "\<forall>x. audit_ok (db w1) x = audit_ok (db w) x"
    by (rule createDrawdown_succ)
  define st where "st = (\<lambda>g :: facility. if js_le UTILISATION_CRITICAL (calculateUtilisation (fac_drawn f + p) (fac_total_limit f)) then Fac_suspended
      else fac_status g)"
  have fs: "t_facilities (db w1) = update_where (\<lambda>g. fac_id g = i) (\<lambda>g. redrawn (fac_drawn f + p) (st g) g) (t_facilities (db w))"
    by (simp add: fs0 st_def)
  have mem: "f \<in> set (t_facilities (db w))" "fac_id f = i" using f by (auto simp: getFacilityById_def dest: select_one_Some)
  have bal: "fac_available f = fac_total_limit f - fac_drawn f" "0 \<le> fac_drawn f"
    using assms(2) mem by (auto simp: facilities_ok_def list_all_iff facility_balanced_def)
  let ?dd = "new_drawdown (clock w) newId i iv p fees" and ?f = "redrawn (fac_drawn f + p) (st f) f"
  have f1: "getFacilityById i (db w1) = Some ?f"
    using f mem(2) unfolding getFacilityById_def fs by (subst select_one_update_where) (auto simp: redrawn_def)
  have "select_one (\<lambda>r. dd_id r = newId) (t_drawdowns (db w)) = None"
    using fresh by (auto simp: select_one_None list_ex_iff)
  then have dd1: "getDrawdownByIdWithClient newId (db w1) = Some ?dd"
    by (simp add: getDrawdownByIdWithClient_def dd select_one_append) (simp add: new_drawdown_def)
  obtain rc w2 where r: "processRepayment rid i newId u w1 = (Inr rc, w2)"
    using processRepayment_run [OF f1 dd1, of rid u] p assms(3,4,5) n bal(2) rp au
    by (auto simp: new_drawdown_def calculateTotal_def redrawn_def)
  then have tot: "rc_total rc = p + fees" and fs2: "t_facilities (db w2) = update_where (\<lambda>g. fac_id g = i)
      (\<lambda>g. redrawn (fac_drawn f) (fac_status g) g) (t_facilities (db w1))"
    using f1 dd1 by (auto elim!: processRepayment_succ simp: calculateTotal_def new_drawdown_def redrawn_def)
  have "getFacilityById i (db w2) = Some (redrawn (fac_drawn f) (fac_status ?f) ?f)"
    using f1 mem(2) unfolding getFacilityById_def fs2
    by (subst select_one_update_where) (auto simp: redrawn_def)
  then show ?thesis using r f bal(1) tot by (simp add: redrawn_def)
qed

theorem drawdown_repayment_roundtrip_witness:
  "\<exists>res w1 rc w2. createDrawdown ''dd'' ''fac'' ''inv'' 95000000 500 90 ''fin'' facility_world = (Inr res, w1)
     \<and> processRepayment ''r'' ''fac'' ''dd'' ''fin'' w1 = (Inr rc, w2) \<and> rc_total rc = 95000500
     \<and> map_option fac_drawn (getFacilityById ''fac'' (db w2)) = Some 0"
proof -
  obtain res w1 where r: "createDrawdown ''dd'' ''fac'' ''inv'' 95000000 500 90 ''fin'' facility_world = (Inr res, w1)"
    using facility_world_drawdown by blast
  have "facilities_ok (db facility_world)" "\<not> list_ex (\<lambda>r. rep_id r = ''r'') (t_repayments (db facility_world))"
    "audit_ok (db facility_world) (Some ''fin'')" "map_option (\<lambda>f. (fac_drawn f, fac_available f)) (getFacilityById ''fac'' (db facility_world)) = Some (0, 100000000)"
    by (simp_all add: facility_world_defs facilities_ok_def facility_balanced_def)
  then show ?thesis using drawdown_repayment_roundtrip [OF r, of "''r''"] r by auto
qed

section \<open>Interest\<close>

lemma digit_not_dot: "is_digit c \<Longrightarrow> c \<noteq> CHR ''.''"
  by (auto simp: is_digit_def)

lemma span_dot:
  assumes "list_all is_digit ds"
  shows "takeWhile (\<lambda>c. c \<noteq> CHR ''.'') (ds @ CHR ''.'' # r) = ds"
    and "dropWhile (\<lambda>c. c \<noteq> CHR ''.'') (ds @ CHR ''.'' # r) = CHR ''.'' # r"
    and "takeWhile (\<lambda>c. c \<noteq> CHR ''.'') ds = ds"
  using assms by (induction ds) (auto simp: digit_not_dot)

lemma parseRateToScaled_text:
  assumes "0 < k" and "k \<le> 9"
  shows "parseRateToScaled (numeric_text k n) = Inr (int n * 10 ^ (9 - k))"
proof -
  let ?ip = "show_nat (n div 10 ^ k)" and ?fp = "padStart k (CHR ''0'') (show_nat (n mod 10 ^ k))"
  have ip: "list_all is_digit ?ip" by (rule show_nat_digits)
  have fp: "list_all is_digit ?fp" by (intro padStart_zero_digits show_nat_digits)
  have len: "length ?fp = k" using assms by (intro length_padded_nat) auto
  have dec: "slice0 9 (padEnd 9 (CHR ''0'') ?fp) = ?fp @ replicate (9 - k) (CHR ''0'')"
    unfolding slice0_def padEnd_def len using assms(2) len by simp
  have "digits_val (?fp @ replicate (9 - k) (CHR ''0'')) = n mod 10 ^ k * 10 ^ (9 - k)"
    by (simp add: digits_val_append)
  moreover have "list_all is_digit (?fp @ replicate (9 - k) (CHR ''0''))" using fp by (auto simp: list_all_iff)
  ultimately have d: "bigint_of_string (?fp @ replicate (9 - k) (CHR ''0'')) = Inr (int (n mod 10 ^ k * 10 ^ (9 - k)))"
    by (simp add: bigint_of_string_def)
  have rate: "RATE_PRECISION = 10 ^ k * 10 ^ (9 - k)" using assms(2) by (simp add: RATE_PRECISION_def flip: power_add)
  have n: "int n = int (n div 10 ^ k) * 10 ^ k + int (n mod 10 ^ k)"
  proof -
    have "int n = int (n div 10 ^ k * 10 ^ k + n mod 10 ^ k)" by (simp only: div_mult_mod_eq)
    also have "\<dots> = int (n div 10 ^ k) * 10 ^ k + int (n mod 10 ^ k)"
      by (simp only: of_nat_add of_nat_mult of_nat_power of_nat_numeral)
    finally show ?thesis .
  qed
  have "int (n div 10 ^ k) * RATE_PRECISION + int (n mod 10 ^ k * 10 ^ (9 - k)) = int n * 10 ^ (9 - k)"
    using n by (simp only: rate of_nat_mult of_nat_power of_nat_numeral distrib_right mult.assoc)
  then show ?thesis
    unfolding parseRateToScaled_def numeric_text_def Let_def span_dot(1,2) [OF ip] list.sel drop_Suc_Cons One_nat_def drop0
      span_dot(3) [OF fp] dec d
    using ip by (simp add: bigint_of_string_def)
qed

text \<open>
  C23: The daily interest on a drawdown is exact: the integer arithmetic of the code, on the rate
  text of the \<open>NUMERIC(8,6)\<close> column, gives principal times rate over 365 rounded down.
\<close>

theorem calculateDailyInterest_exact:
  assumes "0 \<le> p"
  shows "calculateDailyInterest p (numeric_text 6 n) = Inr \<lfloor>of_int p * (of_nat n / 10 ^ 6) / (365 :: rat)\<rfloor>"
proof -
  have r: "parseRateToScaled (numeric_text 6 n) = Inr (int n * 1000)" by (simp add: parseRateToScaled_text)
  have "of_int p * (of_nat n / 10 ^ 6) / (365 :: rat) = of_int (p * (int n * 1000)) / of_int (365 * 1000000000)" by simp
  then have "\<lfloor>of_int p * (of_nat n / 10 ^ 6) / (365 :: rat)\<rfloor> = p * (int n * 1000) div (365 * 1000000000)"
    by (simp only: floor_divide_of_int_eq)
  moreover have "bigint_div (p * (int n * 1000)) (365 * 1000000000) = p * (int n * 1000) div (365 * 1000000000)"
    using assms by (intro bigint_div_nonneg) auto
  ultimately show ?thesis by (simp add: calculateDailyInterest_def r DAYS_PER_YEAR_def RATE_PRECISION_def)
qed

theorem calculateDailyInterest_exact_witness:
  "calculateDailyInterest 95000000 (numeric_text 6 180000) = Inr \<lfloor>of_int 95000000 * (of_nat 180000 / 10 ^ 6) / (365 :: rat)\<rfloor>"
  by (rule calculateDailyInterest_exact) simp

text \<open>The loop over the missed days in closed form.\<close>

lemma accrueEachDay_run:
  assumes "select_one (\<lambda>r. dd_id r = i) (t_drawdowns (db w)) = Some r" and "cursor \<le> today"
    and "0 \<le> a" and "0 \<le> dd_accrued_interest r" and "dd_accrued_interest r + (today - cursor) * a < 2 ^ 63"
  shows "accrueEachDay i a cursor today w = (Inr (), w\<lparr>db := (db w)\<lparr>t_drawdowns :=
     update_where (\<lambda>r. dd_id r = i)
       (\<lambda>r. r\<lparr>dd_accrued_interest := dd_accrued_interest r + (today - cursor) * a,
              dd_last_accrued := (if cursor < today then today else dd_last_accrued r)\<rparr>) (t_drawdowns (db w))\<rparr>\<rparr>)"
  using assms
proof (induction "nat (today - cursor)" arbitrary: cursor w r)
  case 0
  then have "cursor = today" by simp
  moreover have "update_where (\<lambda>r. dd_id r = i) (\<lambda>r. r\<lparr>dd_accrued_interest := dd_accrued_interest r + 0,
      dd_last_accrued := dd_last_accrued r\<rparr>) (t_drawdowns (db w)) = t_drawdowns (db w)"
    by (simp add: update_where_def)
  ultimately show ?case by (subst accrueEachDay.simps) simp
next
  case (Suc n)
  have lt: "cursor < today" using Suc.hyps(2) by simp
  let ?g = "\<lambda>r. r\<lparr>dd_accrued_interest := dd_accrued_interest r + a, dd_last_accrued := cursor + 1\<rparr>"
  let ?w = "w\<lparr>db := (db w)\<lparr>t_drawdowns := update_where (\<lambda>r. dd_id r = i) ?g (t_drawdowns (db w))\<rparr>\<rparr>"
  have step: "(today - cursor) * a = a + (today - (cursor + 1)) * a" by (simp add: algebra_simps)
  have nn: "0 \<le> (today - (cursor + 1)) * a" using lt Suc.prems(3) by (intro mult_nonneg_nonneg) auto
  have b: "dd_accrued_interest r + a < 2 ^ 63" "a < 2 ^ 63" using Suc.prems(4,5) step nn by linarith+
  have one: "tryExecS (accrueDailyInterestWithClient i a (cursor + 1)) w = (Inr (), ?w)"
    using Suc.prems b by (simp add: accrueDailyInterestWithClient_def tryExecS_def bigint_in_def)
  have sel: "select_one (\<lambda>r. dd_id r = i) (t_drawdowns (db ?w)) = Some (?g r)"
    using Suc.prems(1) select_one_key [OF Suc.prems(1)] by (simp add: select_one_update_where)
  have "accrueEachDay i a (cursor + 1) today ?w = (Inr (), ?w\<lparr>db := (db ?w)\<lparr>t_drawdowns :=
     update_where (\<lambda>r. dd_id r = i)
       (\<lambda>r. r\<lparr>dd_accrued_interest := dd_accrued_interest r + (today - (cursor + 1)) * a,
              dd_last_accrued := (if cursor + 1 < today then today else dd_last_accrued r)\<rparr>) (t_drawdowns (db ?w))\<rparr>\<rparr>)"
    by (rule Suc.hyps(1) [OF _ sel]) (use Suc.hyps(2) lt Suc.prems(3,4,5) step in auto)
  then have "accrueEachDay i a cursor today w = (Inr (), ?w\<lparr>db := (db ?w)\<lparr>t_drawdowns :=
     update_where (\<lambda>r. dd_id r = i)
       (\<lambda>r. r\<lparr>dd_accrued_interest := dd_accrued_interest r + (today - (cursor + 1)) * a,
              dd_last_accrued := (if cursor + 1 < today then today else dd_last_accrued r)\<rparr>) (t_drawdowns (db ?w))\<rparr>\<rparr>)"
    using lt one by (subst accrueEachDay.simps) simp
  then show ?case using lt
    by (simp add: update_where_compose) (rule arg_cong [where f = "\<lambda>x. w\<lparr>db := (db w)\<lparr>t_drawdowns := x\<rparr>\<rparr>"],
      auto simp: step intro!: update_where_cong)
qed

text \<open>One drawdown after the accrual of a day, as the specification sees it.\<close>

definition accrued_row :: "int \<Rightarrow> db \<Rightarrow> drawdown \<Rightarrow> drawdown" where
  "accrued_row today d dd =
     (case map_option (\<lambda>f. calculateDailyInterest (dd_principal dd) (fac_annual_rate f)) (getFacilityById (dd_facility dd) d) of
        Some (Inr a) \<Rightarrow>
          if dd_last_accrued dd < today
          then dd\<lparr>dd_accrued_interest := dd_accrued_interest dd + (today - dd_last_accrued dd) * a, dd_last_accrued := today\<rparr>
          else dd
      | _ \<Rightarrow> dd)"

definition accruable :: "int \<Rightarrow> db \<Rightarrow> drawdown \<Rightarrow> bool" where
  "accruable today d dd \<longleftrightarrow> 0 \<le> dd_accrued_interest dd \<and>
     (\<forall>f. getFacilityById (dd_facility dd) d = Some f \<longrightarrow>
        (\<exists>a. calculateDailyInterest (dd_principal dd) (fac_annual_rate f) = Inr a \<and> 0 \<le> a
           \<and> dd_accrued_interest dd + (today - dd_last_accrued dd) * a < 2 ^ 63))"

lemma accrued_row_id [simp]: "dd_id (accrued_row today d dd) = dd_id dd"
  by (simp add: accrued_row_def split: option.split sum.split)

lemma accrued_row_frame [simp]: "accrued_row today (d\<lparr>t_drawdowns := x\<rparr>) = accrued_row today d"
  "accrued_row today (d\<lparr>t_audit := y\<rparr>) = accrued_row today d"
  by (simp_all add: fun_eq_iff accrued_row_def)

lemma accruable_frame [simp]: "accruable today (d\<lparr>t_drawdowns := x\<rparr>) = accruable today d"
  "accruable today (d\<lparr>t_audit := y\<rparr>) = accruable today d"
  by (simp_all add: fun_eq_iff accruable_def)

text \<open>Accruing one drawdown whose row is the one that was read.\<close>

lemma accrueForDrawdown_run:
  assumes "distinct (map dd_id (t_drawdowns (db w)))" and "dd \<in> set (t_drawdowns (db w))"
    and "accruable today (db w) dd" and "audit_ok (db w) None"
  shows "\<exists>au. accrueForDrawdown today dd w = (Inr (), w\<lparr>db := (db w)\<lparr>t_drawdowns :=
       update_where (\<lambda>r. dd_id r = dd_id dd) (accrued_row today (db w)) (t_drawdowns (db w)), t_audit := au\<rparr>\<rparr>)"
proof -
  have only: "r \<in> set (t_drawdowns (db w)) \<Longrightarrow> dd_id r = dd_id dd \<Longrightarrow> r = dd" for r
    using assms(1,2) by (metis distinct_map inj_on_def)
  have sel: "select_one (\<lambda>r. dd_id r = dd_id dd) (t_drawdowns (db w)) = Some dd"
    using assms(1,2) by (intro distinct_select_one) auto
  have same: "update_where (\<lambda>r. dd_id r = dd_id dd) f (t_drawdowns (db w))
      = update_where (\<lambda>r. dd_id r = dd_id dd) (accrued_row today (db w)) (t_drawdowns (db w))"
    if "f dd = accrued_row today (db w) dd" for f
    unfolding update_where_def using only that by (intro map_cong) auto
  have none: "update_where (\<lambda>r. dd_id r = dd_id dd) (\<lambda>r. r) (t_drawdowns (db w)) = t_drawdowns (db w)"
    by (simp add: update_where_def)
  show ?thesis
  proof (cases "today \<le> dd_last_accrued dd \<or> getFacilityById (dd_facility dd) (db w) = None")
    case True
    then have "accrued_row today (db w) dd = dd" by (auto simp: accrued_row_def split: option.split sum.split)
    then have "update_where (\<lambda>r. dd_id r = dd_id dd) (accrued_row today (db w)) (t_drawdowns (db w)) = t_drawdowns (db w)"
      using same [of "\<lambda>r. r"] none by simp
    moreover have "accrueForDrawdown today dd w = (Inr (), w)" using True by (auto simp: accrueForDrawdown_def)
    ultimately show ?thesis by (intro exI [of _ "t_audit (db w)"]) simp
  next
    case False
    then obtain f where f: "getFacilityById (dd_facility dd) (db w) = Some f" and lt: "dd_last_accrued dd < today" by auto
    then obtain a where a: "calculateDailyInterest (dd_principal dd) (fac_annual_rate f) = Inr a" "0 \<le> a"
      "dd_accrued_interest dd + (today - dd_last_accrued dd) * a < 2 ^ 63" "0 \<le> dd_accrued_interest dd"
      using assms(3) by (auto simp: accruable_def)
    let ?g = "\<lambda>r. r\<lparr>dd_accrued_interest := dd_accrued_interest r + (today - dd_last_accrued dd) * a, dd_last_accrued := today\<rparr>"
    have run: "accrueEachDay (dd_id dd) a (dd_last_accrued dd) today w = (Inr (), w\<lparr>db := (db w)\<lparr>t_drawdowns :=
       update_where (\<lambda>r. dd_id r = dd_id dd) ?g (t_drawdowns (db w))\<rparr>\<rparr>)"
      using accrueEachDay_run [OF sel, of "dd_last_accrued dd" today a] lt a by simp
    have "?g dd = accrued_row today (db w) dd" using f a(1) lt by (simp add: accrued_row_def)
    note upd = same [of ?g, OF this]
    show ?thesis
      using f lt a(1) assms(4) by (simp add: accrueForDrawdown_def applyAccrualTxn_def catchS_def run upd) (rule exI, rule refl)
  qed
qed

lemma accrue_list_run:
  assumes "distinct (map dd_id (t_drawdowns (db w)))" and "set dds \<subseteq> set (t_drawdowns (db w))" and "distinct (map dd_id dds)"
    and "\<forall>dd \<in> set dds. accruable today (db w) dd" and "audit_ok (db w) None"
  shows "\<exists>au. forS (accrueForDrawdown today) dds w = (Inr (), w\<lparr>db := (db w)\<lparr>t_drawdowns :=
       update_where (\<lambda>r. dd_id r \<in> dd_id ` set dds) (accrued_row today (db w)) (t_drawdowns (db w)), t_audit := au\<rparr>\<rparr>)"
  using assms
proof (induction dds arbitrary: w)
  case Nil
  then show ?case by (intro exI [of _ "t_audit (db w)"]) (simp add: update_where_def)
next
  case (Cons dd dds)
  let ?upd = "update_where (\<lambda>r. dd_id r = dd_id dd) (accrued_row today (db w)) (t_drawdowns (db w))"
  obtain au where run: "accrueForDrawdown today dd w = (Inr (), w\<lparr>db := (db w)\<lparr>t_drawdowns := ?upd, t_audit := au\<rparr>\<rparr>)"
    using accrueForDrawdown_run [of w dd today] Cons.prems by auto
  let ?w = "w\<lparr>db := (db w)\<lparr>t_drawdowns := ?upd, t_audit := au\<rparr>\<rparr>"
  have ids: "map dd_id ?upd = map dd_id (t_drawdowns (db w))" by (rule map_update_where) simp
  have "x \<in> set ?upd" if "x \<in> set dds" for x
  proof -
    have "dd_id x \<noteq> dd_id dd" using Cons.prems(3) that by simp (metis imageI)
    then show ?thesis using Cons.prems(2) that unfolding update_where_def by (auto simp: image_iff intro!: bexI [of _ x])
  qed
  then obtain au' where IH: "forS (accrueForDrawdown today) dds ?w = (Inr (), ?w\<lparr>db := (db ?w)\<lparr>t_drawdowns :=
       update_where (\<lambda>r. dd_id r \<in> dd_id ` set dds) (accrued_row today (db ?w)) (t_drawdowns (db ?w)), t_audit := au'\<rparr>\<rparr>)"
    using Cons.IH [of ?w] Cons.prems ids by (auto simp: subset_iff)
  have "update_where (\<lambda>r. dd_id r \<in> dd_id ` set dds) (accrued_row today (db w)) ?upd
      = update_where (\<lambda>r. dd_id r \<in> dd_id ` set (dd # dds)) (accrued_row today (db w)) (t_drawdowns (db w))"
    using Cons.prems(3) by (auto simp: update_where_def)
  then show ?case using run IH by (intro exI [of _ au']) simp
qed

text \<open>
  The nightly accrual brings every active drawdown of a known facility to the given day: it adds
  one daily interest for every day since the last accrual, catching up missed nights, leaves all
  other drawdowns alone, and a second run for the same day changes no drawdown.
\<close>

theorem accrueInterest_outcome:
  assumes "distinct (map dd_id (t_drawdowns (db w)))" and "audit_ok (db w) None"
    and "\<forall>dd \<in> set (t_drawdowns (db w)). dd_status dd = Dd_active \<longrightarrow> accruable today (db w) dd"
  shows "\<exists>w'. accrueInterest today w = (Inr (), w')
     \<and> t_drawdowns (db w') = map (\<lambda>dd. if dd_status dd = Dd_active then accrued_row today (db w) dd else dd) (t_drawdowns (db w))
     \<and> (\<forall>dd \<in> set (t_drawdowns (db w')). accrued_row today (db w') dd = dd \<or> dd_status dd \<noteq> Dd_active)"
proof -
  let ?L = "getActiveDrawdowns (db w)"
  have L: "set ?L = {dd \<in> set (t_drawdowns (db w)). dd_status dd = Dd_active}" by (simp add: getActiveDrawdowns_def)
  have "distinct (map dd_id (filter (\<lambda>r. dd_status r = Dd_active) (t_drawdowns (db w))))"
    using assms(1) by (simp add: distinct_map_filter)
  then have dL: "distinct (map dd_id ?L)"
    by (simp add: getActiveDrawdowns_def distinct_map)
  obtain au where r: "forS (accrueForDrawdown today) ?L w = (Inr (), w\<lparr>db := (db w)\<lparr>t_drawdowns :=
       update_where (\<lambda>r. dd_id r \<in> dd_id ` set ?L) (accrued_row today (db w)) (t_drawdowns (db w)), t_audit := au\<rparr>\<rparr>)"
    using accrue_list_run [OF assms(1) _ dL _ assms(2)] assms(3) L by blast
  have "dd_id r \<in> dd_id ` set ?L \<longleftrightarrow> dd_status r = Dd_active" if "r \<in> set (t_drawdowns (db w))" for r
    using assms(1) that unfolding L by (auto simp: distinct_map dest: inj_onD)
  then have m: "update_where (\<lambda>r. dd_id r \<in> dd_id ` set ?L) (accrued_row today (db w)) (t_drawdowns (db w))
      = map (\<lambda>dd. if dd_status dd = Dd_active then accrued_row today (db w) dd else dd) (t_drawdowns (db w))"
    by (auto simp: update_where_def)
  have again: "accrued_row today (db w) (accrued_row today (db w) dd) = accrued_row today (db w) dd" for dd
    by (auto simp: accrued_row_def split: option.splits sum.splits)
  show ?thesis using r m again by (auto simp: accrueInterest_def)
qed

definition accrual_world :: world where
  "accrual_world = world_of (blank_db\<lparr>t_facilities := [sample_facility],
     t_drawdowns := [new_drawdown 0 ''dd'' ''fac'' ''inv'' 36500000 0]\<rparr>)"

lemma accrual_world_daily: "calculateDailyInterest 36500000 ''0.060000'' = Inr 6000"
proof -
  have d: "digit_char 0 = CHR ''0''" "digit_char 6 = CHR ''6''" by code_simp+
  have "''0.060000'' = numeric_text 6 60000" by (simp add: numeric_text_def show_nat.simps d padStart_def)
  then have "parseRateToScaled ''0.060000'' = Inr 60000000" using parseRateToScaled_text [of 6 60000] by simp
  then show ?thesis by (simp add: calculateDailyInterest_def RATE_PRECISION_def DAYS_PER_YEAR_def bigint_div_def)
qed

theorem accrueInterest_outcome_witness:
  "\<exists>w'. accrueInterest 3 accrual_world = (Inr (), w')
     \<and> map (\<lambda>dd. (dd_accrued_interest dd, dd_last_accrued dd)) (t_drawdowns (db w')) = [(18000, 3)]"
proof -
  have d: "t_drawdowns (db accrual_world) = [new_drawdown 0 ''dd'' ''fac'' ''inv'' 36500000 0]"
    "getFacilityById ''fac'' (db accrual_world) = Some sample_facility" "audit_ok (db accrual_world) None"
    by (simp_all add: accrual_world_def facility_world_defs)
  have "\<forall>dd \<in> set (t_drawdowns (db accrual_world)). dd_status dd = Dd_active \<longrightarrow> accruable 3 (db accrual_world) dd"
    by (simp add: d accruable_def new_drawdown_def sample_facility_def accrual_world_daily day_ms_def)
  from accrueInterest_outcome [OF _ d(3) this]
  show ?thesis by (auto simp: d accrued_row_def new_drawdown_def sample_facility_def accrual_world_daily day_ms_def)
qed

end
