(* ===== verification/Calendar.thy ===== *)
theory Calendar
  imports RIS_Database
begin

text \<open>
  UTC calendar dates as JavaScript's \<open>Date\<close> computes them (proleptic Gregorian calendar, days since
  1970-01-01), and \<open>src/src/shared/working-days.ts\<close> on top of them. Day numbers and counts are unbounded
  integers: the range of \<open>Date\<close> and fractional counts are not modelled.
\<close>

section \<open>Years and months\<close>

text \<open>
  \<open>DayFromYear\<close> and \<open>YearFromTime\<close> of ECMA-262: the day number of 1 January, and the year of a day,
  estimated with the mean length of a year and corrected by one.
\<close>

definition DayFromYear :: "int \<Rightarrow> int" where
  "DayFromYear y = 365 * (y - 1970) + (y - 1969) div 4 - (y - 1901) div 100 + (y - 1601) div 400"

definition YearFromDay :: "int \<Rightarrow> int" where
  "YearFromDay day =
     (let y = 1970 + 400 * day div 146097
      in if day < DayFromYear y then y - 1 else if DayFromYear (y + 1) \<le> day then y + 1 else y)"

definition leap_year :: "int \<Rightarrow> bool" where
  "leap_year y \<longleftrightarrow> y mod 4 = 0 \<and> y mod 100 \<noteq> 0 \<or> y mod 400 = 0"

definition month_lengths :: "int \<Rightarrow> int list" where
  "month_lengths y = [31, if leap_year y then 29 else 28, 31, 30, 31, 30, 31, 31, 30, 31, 30, 31]"

text \<open>The month (counted from \<open>m\<close>) and the day of the month of the day \<open>k\<close>, counted from 0.\<close>

fun month_day :: "int list \<Rightarrow> int \<Rightarrow> int \<Rightarrow> int \<times> int" where
  "month_day [] m k = (m, k + 1)"
| "month_day (l # ls) m k = (if k < l then (m, k + 1) else month_day ls (m + 1) (k - l))"

definition civil_date :: "int \<Rightarrow> int \<times> int \<times> int" where
  "civil_date day = (let y = YearFromDay day in (y, month_day (month_lengths y) 1 (day - DayFromYear y)))"

definition weekday :: "int \<Rightarrow> int" where
  "weekday day = (day + 4) mod 7"

text \<open>The eight digits of \<open>toISOString().slice(0, 10).replace(/-/g, '')\<close>, for the years 0 to 9999.\<close>

definition yyyymmdd :: "int \<Rightarrow> string" where
  "yyyymmdd day =
     (let (y, m, d) = civil_date day
      in padStart 4 (CHR ''0'') (show_int y) @ padStart 2 (CHR ''0'') (show_int m) @ padStart 2 (CHR ''0'') (show_int d))"

lemma div_step: "0 < n \<Longrightarrow> (x + 1) div n - x div n = (if (x + 1) mod n = 0 then 1 else (0 :: int))"
proof -
  assume n: "0 < n"
  have a: "x = n * (x div n) + x mod n" "0 \<le> x mod n" "x mod n < n" using n by simp_all
  show ?thesis
  proof (cases "x mod n = n - 1")
    case True
    then have x1: "x + 1 = n * (x div n + 1) + 0" using a(1) by (simp add: distrib_left)
    then show ?thesis using int_div_pos_eq [OF x1] int_mod_pos_eq [OF x1] n by simp
  next
    case False
    then have r: "0 \<le> x mod n + 1" "x mod n + 1 < n" using a by auto
    have x1: "x + 1 = n * (x div n) + (x mod n + 1)" using a(1) by simp
    show ?thesis using int_div_pos_eq [OF x1 r] int_mod_pos_eq [OF x1 r] a(2) by simp
  qed
qed

lemma DayFromYear_Suc: "DayFromYear (y + 1) - DayFromYear y = (if leap_year y then 366 else 365)"
proof -
  have m: "(y - 1969 + 1) mod 4 = 0 \<longleftrightarrow> y mod 4 = 0" "(y - 1901 + 1) mod 100 = 0 \<longleftrightarrow> y mod 100 = 0"
    "(y - 1601 + 1) mod 400 = 0 \<longleftrightarrow> y mod 400 = 0"
    using dvd_diff_left_iff [of 4 1968 y] dvd_diff_left_iff [of 100 1900 y] dvd_diff_left_iff [of 400 1600 y]
    by (simp_all add: mod_eq_0_iff_dvd)
  have l: "y mod 100 = 0 \<Longrightarrow> y mod 4 = 0" "y mod 400 = 0 \<Longrightarrow> y mod 100 = 0"
    using dvd_trans [of 4 100 y] dvd_trans [of 100 400 y] by (simp_all add: mod_eq_0_iff_dvd)
  have "DayFromYear (y + 1) - DayFromYear y = 365 + ((y - 1969 + 1) div 4 - (y - 1969) div 4)
      - ((y - 1901 + 1) div 100 - (y - 1901) div 100) + ((y - 1601 + 1) div 400 - (y - 1601) div 400)"
    by (simp add: DayFromYear_def algebra_simps)
  then show ?thesis using l unfolding div_step [of 4, simplified] div_step [of 100, simplified] div_step [of 400, simplified] m
    by (auto simp: leap_year_def)
qed

lemma month_lengths_sum: "sum_list (month_lengths y) = DayFromYear (y + 1) - DayFromYear y"
  by (simp add: month_lengths_def DayFromYear_Suc)

text \<open>The correction by one is enough: the estimate is never off by more than a year.\<close>

lemma DayFromYear_approx: "\<bar>400 * DayFromYear y - 146097 * (y - 1970)\<bar> \<le> 1000"
proof -
  have f: "n * (x div n) \<le> x \<and> x < n * (x div n) + n" if "0 < n" for x n :: int
    using that by (metis add.commute add_less_cancel_left mult_div_mod_eq pos_mod_bound pos_mod_sign le_add_same_cancel1)
  show ?thesis using f [of 4 "y - 1969"] f [of 100 "y - 1901"] f [of 400 "y - 1601"] by (simp add: DayFromYear_def)
qed

lemma YearFromDay: "DayFromYear (YearFromDay day) \<le> day \<and> day < DayFromYear (YearFromDay day + 1)"
proof -
  define q where "q = 400 * day div 146097"
  have q: "146097 * q \<le> 400 * day" "400 * day < 146097 * q + 146097" by (simp_all add: q_def)
  have arith: "400 * a - 146097 * (q - 1) \<le> 1000 \<Longrightarrow> a \<le> day" "146097 * (q + 2) - 400 * b \<le> 1000 \<Longrightarrow> day < b" for a b
    using q by (simp_all add: algebra_simps)
  have l: "DayFromYear (1970 + q - 1) \<le> day"
    using DayFromYear_approx [of "1970 + q - 1", unfolded abs_le_iff, THEN conjunct1] by (intro arith(1)) simp
  have u: "day < DayFromYear (1970 + q + 1 + 1)"
    using DayFromYear_approx [of "1970 + q + 1 + 1", unfolded abs_le_iff, THEN conjunct2] by (intro arith(2)) simp
  show ?thesis using l u unfolding YearFromDay_def Let_def q_def [symmetric] by auto
qed

lemma DayFromYear_mono: "y \<le> z \<Longrightarrow> DayFromYear y \<le> DayFromYear z"
proof (induction "nat (z - y)" arbitrary: z)
  case (Suc n)
  then have "DayFromYear y \<le> DayFromYear (z - 1)" by simp
  also have "\<dots> \<le> DayFromYear z" using DayFromYear_Suc [of "z - 1"] by (simp split: if_splits)
  finally show ?case .
qed simp

lemma YearFromDay_unique: "DayFromYear y \<le> day \<Longrightarrow> day < DayFromYear (y + 1) \<Longrightarrow> YearFromDay day = y"
  using YearFromDay [of day] DayFromYear_mono [of "YearFromDay day + 1" y] DayFromYear_mono [of "y + 1" "YearFromDay day"]
  by linarith


text \<open>The day after a day of the month below 28 is the next day of the same month.\<close>

lemma month_day_Suc:
  "list_all (\<lambda>l. 28 \<le> l) ls \<Longrightarrow> 0 \<le> k \<Longrightarrow> k < sum_list ls \<Longrightarrow> month_day ls m k = (m', dd) \<Longrightarrow> dd < 28 \<Longrightarrow>
     month_day ls m (k + 1) = (m', dd + 1) \<and> k + 1 < sum_list ls"
proof (induction ls m k rule: month_day.induct)
  case (2 l ls m k)
  have pos: "0 \<le> sum_list ls" using 2(2) by (intro sum_list_nonneg) (auto simp: list_all_iff)
  show ?case
  proof (cases "k < l")
    case True
    then show ?thesis using 2 pos by auto
  next
    case False
    then show ?thesis using 2(1) [OF False] 2(2-) by (auto simp: algebra_simps)
  qed
qed simp

lemma civil_date_Suc:
  assumes "civil_date day = (y, m, dd)" and "dd < 28"
  shows "civil_date (day + 1) = (y, m, dd + 1)"
proof -
  have y: "YearFromDay day = y" and md: "month_day (month_lengths y) 1 (day - DayFromYear y) = (m, dd)"
    using assms(1) by (auto simp: civil_date_def Let_def)
  note r = YearFromDay [of day, unfolded y]
  have l: "list_all (\<lambda>l. 28 \<le> l) (month_lengths y)" by (simp add: month_lengths_def)
  have "month_day (month_lengths y) 1 (day - DayFromYear y + 1) = (m, dd + 1) \<and> day - DayFromYear y + 1 < sum_list (month_lengths y)"
    using month_day_Suc [OF l _ _ md assms(2)] r by (simp add: month_lengths_sum)
  moreover from this have "YearFromDay (day + 1) = y" using r by (intro YearFromDay_unique) (auto simp: month_lengths_sum)
  ultimately show ?thesis by (simp add: civil_date_def Let_def algebra_simps)
qed

section \<open>Working days\<close>

definition FIXED_HOLIDAYS_MMDD :: "(int \<times> int) list" where
  "FIXED_HOLIDAYS_MMDD = [(1, 1), (1, 26), (3, 8), (5, 1), (6, 3), (6, 9), (10, 9), (12, 25), (12, 26)]"

definition isWeekend :: "int \<Rightarrow> bool" where
  "isWeekend t = (let day = weekday (t div day_ms) in day = 0 \<or> day = 6)"

definition isHoliday :: "int \<Rightarrow> bool" where
  "isHoliday t = (snd (civil_date (t div day_ms)) \<in> set FIXED_HOLIDAYS_MMDD)"

definition working :: "int \<Rightarrow> bool" where
  "working t \<longleftrightarrow> \<not> isWeekend t \<and> \<not> isHoliday t"

lemma day_ms_shift: "(t + k * day_ms) div day_ms = t div day_ms + k"
  by (simp add: day_ms_def)

lemma two_holidays: "isHoliday t \<Longrightarrow> isHoliday (t + day_ms) \<Longrightarrow> \<not> isHoliday (t + 2 * day_ms)"
proof -
  assume h: "isHoliday t" "isHoliday (t + day_ms)"
  obtain y m dd where c: "civil_date (t div day_ms) = (y, m, dd)" by (cases "civil_date (t div day_ms)")
  have c1: "civil_date (t div day_ms + 1) = (y, m, dd + 1)" if "dd < 28" using civil_date_Suc [OF c that] .
  have c2: "civil_date (t div day_ms + 2) = (y, m, dd + 2)" if "dd < 27"
    using civil_date_Suc [OF c1] that by (simp add: add.assoc)
  have s: "(t + day_ms) div day_ms = t div day_ms + 1" "(t + 2 * day_ms) div day_ms = t div day_ms + 2"
    using day_ms_shift [of t 1] day_ms_shift [of t 2] by simp_all
  have "m = 12 \<and> dd = 25" using h c c1 unfolding isHoliday_def s FIXED_HOLIDAYS_MMDD_def by auto
  then show ?thesis unfolding isHoliday_def s using c2 by (simp add: FIXED_HOLIDAYS_MMDD_def)
qed

text \<open>A working day is never more than nine days away: one of the next Tuesday, Wednesday and Thursday.\<close>

lemma working_soon: "\<exists>k. 1 \<le> k \<and> k \<le> 9 \<and> working (t + k * day_ms)"
proof -
  let ?d = "t div day_ms"
  have "\<exists>k. 1 \<le> k \<and> k \<le> 7 \<and> (d + k + 4) mod 7 = 2" for d :: int by presburger
  then obtain k where k: "1 \<le> k" "k \<le> 7" "(?d + k + 4) mod 7 = 2" by blast
  have "(d + k + 4) mod 7 = 2 \<Longrightarrow> (d + (k + 1) + 4) mod 7 = 3 \<and> (d + (k + 2) + 4) mod 7 = 4" for d k :: int by presburger
  then have w: "(?d + (k + 1) + 4) mod 7 = 3" "(?d + (k + 2) + 4) mod 7 = 4" using k(3) by blast+
  have nw: "\<not> isWeekend (t + k * day_ms)" "\<not> isWeekend (t + (k + 1) * day_ms)" "\<not> isWeekend (t + (k + 2) * day_ms)"
    unfolding isWeekend_def weekday_def day_ms_shift Let_def k(3) w by simp_all
  have s: "t + (k + 1) * day_ms = t + k * day_ms + day_ms" "t + (k + 2) * day_ms = t + k * day_ms + 2 * day_ms"
    by (simp_all add: algebra_simps)
  have "working (t + k * day_ms) \<or> working (t + (k + 1) * day_ms) \<or> working (t + (k + 2) * day_ms)"
    using nw two_holidays [of "t + k * day_ms"] unfolding working_def s by blast
  moreover have "1 \<le> k + 1 \<and> k + 1 \<le> 9" "1 \<le> k + 2 \<and> k + 2 \<le> 9" "1 \<le> k \<and> k \<le> 9" using k(1,2) by auto
  ultimately show ?thesis by blast
qed


text \<open>How many days after the next one the next working day is; below nine by the previous lemma.\<close>

definition next_working :: "int \<Rightarrow> nat" where
  "next_working t = (LEAST n. working (t + (1 + int n) * day_ms))"

lemma next_working: "working (t + (1 + int (next_working t)) * day_ms)" "next_working t \<le> 8"
proof -
  obtain k where k: "1 \<le> k" "k \<le> 9" "working (t + k * day_ms)" using working_soon by blast
  then have k': "working (t + (1 + int (nat (k - 1))) * day_ms)" by simp
  then show "working (t + (1 + int (next_working t)) * day_ms)" unfolding next_working_def by (rule LeastI [of "\<lambda>n. working (t + (1 + int n) * day_ms)"])
  have "next_working t \<le> nat (k - 1)" unfolding next_working_def
    using Least_le [of "\<lambda>n. working (t + (1 + int n) * day_ms)"] k' by simp
  then show "next_working t \<le> 8" using k by simp
qed

lemma next_working_step: "\<not> working (t + day_ms) \<Longrightarrow> next_working t = Suc (next_working (t + day_ms))"
proof -
  assume nw: "\<not> working (t + day_ms)"
  let ?P = "\<lambda>n. working (t + (1 + int n) * day_ms)"
  have "(LEAST n. ?P n) = Suc (LEAST n. ?P (Suc n))"
    by (rule Least_Suc [of ?P "next_working t"]) (use next_working(1) nw in simp_all)
  moreover have "?P (Suc n) \<longleftrightarrow> working (t + day_ms + (1 + int n) * day_ms)" for n
    by (simp add: algebra_simps)
  ultimately show ?thesis by (simp add: next_working_def)
qed

text \<open>
  The loop of \<open>addWorkingDays\<close>: step to the next day, count it when it is a working day. It is not
  structural in \<open>remaining\<close>; every step lowers \<open>remaining\<close> or the distance to the next working day.
\<close>

function add_loop :: "int \<Rightarrow> int \<Rightarrow> int" where
  "add_loop t remaining =
     (if remaining > 0
      then add_loop (t + day_ms) (if \<not> isWeekend (t + day_ms) \<and> \<not> isHoliday (t + day_ms) then remaining - 1 else remaining)
      else t)"
  by pat_completeness auto

termination
proof (relation "measures [\<lambda>(t, r). nat r, \<lambda>(t, r). next_working t]")
  fix t r :: int assume "0 < r"
  then show "((t + day_ms, if \<not> isWeekend (t + day_ms) \<and> \<not> isHoliday (t + day_ms) then r - 1 else r), (t, r))
      \<in> measures [\<lambda>(t, r). nat r, \<lambda>(t, r). next_working t]"
    using next_working_step [of t] by (auto simp: working_def)
qed simp

declare add_loop.simps [simp del]

definition addWorkingDays :: "int \<Rightarrow> int \<Rightarrow> ris_error + int" where
  "addWorkingDays from_ms n =
     (if n < 0 then Inl (JsError ''addWorkingDays does not support negative offsets'') else Inr (add_loop from_ms n))"

lemma upto_shift: "0 \<le> k \<Longrightarrow> [1..k + 1] = 1 # map (\<lambda>j. j + 1) [1..k]"
proof (induction k rule: int_ge_induct)
  case (step k)
  have "[1..k + 1 + 1] = [1..k + 1] @ [k + 1 + 1]" "[1..k + 1] = [1..k] @ [k + 1]" using step(1) by (simp_all add: upto_rec2)
  then show ?case using step(2) by simp
qed simp

definition working_days :: "int \<Rightarrow> int \<Rightarrow> nat" where
  "working_days t k = length (filter (\<lambda>j. working (t + j * day_ms)) [1..k])"

lemma working_days_step:
  assumes "0 \<le> k"
  shows "working_days t (k + 1) = (if working (t + day_ms) then 1 else 0) + working_days (t + day_ms) k"
proof -
  have "(\<lambda>j. working (t + (j + 1) * day_ms)) = (\<lambda>j. working (t + day_ms + j * day_ms))" by (simp add: algebra_simps)
  then show ?thesis unfolding working_days_def upto_shift [OF assms] by (simp add: filter_map comp_def)
qed

lemma add_loop_spec:
  "0 \<le> r \<Longrightarrow> \<exists>k. add_loop t r = t + k * day_ms \<and> 0 \<le> k \<and> working_days t k = nat r
     \<and> (0 < r \<longrightarrow> working (t + k * day_ms) \<and> k \<le> 1 + int (next_working t) + 9 * (r - 1)) \<and> (r = 0 \<longrightarrow> k = 0)"
proof (induction t r rule: add_loop.induct)
  case (1 t r)
  let ?r = "if working (t + day_ms) then r - 1 else r"
  show ?case
  proof (cases "0 < r")
    case True
    then have "\<exists>k. add_loop (t + day_ms) ?r = t + day_ms + k * day_ms \<and> 0 \<le> k \<and> working_days (t + day_ms) k = nat ?r
        \<and> (0 < ?r \<longrightarrow> working (t + day_ms + k * day_ms) \<and> k \<le> 1 + int (next_working (t + day_ms)) + 9 * (?r - 1)) \<and> (?r = 0 \<longrightarrow> k = 0)"
      using 1 by (simp add: working_def)
    then obtain k where k: "add_loop (t + day_ms) ?r = t + day_ms + k * day_ms" "0 \<le> k" "working_days (t + day_ms) k = nat ?r"
      "0 < ?r \<longrightarrow> working (t + day_ms + k * day_ms) \<and> k \<le> 1 + int (next_working (t + day_ms)) + 9 * (?r - 1)" "?r = 0 \<longrightarrow> k = 0" by blast
    have eq: "t + day_ms + k * day_ms = t + (k + 1) * day_ms" by (simp add: algebra_simps)
    have run: "add_loop t r = t + (k + 1) * day_ms"
      using True k(1) by (subst add_loop.simps) (simp add: working_def algebra_simps)
    have days: "working_days t (k + 1) = nat r" using True k(3) by (auto simp: working_days_step [OF k(2)] Suc_nat_eq_nat_zadd1)
    have w: "working (t + (k + 1) * day_ms)" using True k(4,5) eq by (cases "?r = 0") (auto split: if_splits)
    have b: "k + 1 \<le> 1 + int (next_working t) + 9 * (r - 1)"
    proof (cases "working (t + day_ms)")
      case True
      then show ?thesis using k(4,5) \<open>0 < r\<close> next_working(2) [of "t + day_ms"] by (cases "r = 1") auto
    next
      case False
      then show ?thesis using k(4) \<open>0 < r\<close> next_working_step [OF False] by simp
    qed
    show ?thesis using True run days w b k(2) by (intro exI [of _ "k + 1"]) simp
  qed (use 1(2) in \<open>auto simp: add_loop.simps working_days_def intro!: exI [of _ 0]\<close>)
qed

text \<open>
  C39: adding working days always ends and is right: for a count that is not negative the result is a
  whole number of days later at the same time of day, exactly the requested number of working days
  (neither weekend nor public holiday) lie after the start up to the result, the result itself is
  one of them, and it is at most nine days per working day away. A negative count throws.
\<close>

theorem addWorkingDays_correct:
  "(n < 0 \<longrightarrow> (\<exists>m. addWorkingDays t n = Inl (JsError m))) \<and>
   (0 \<le> n \<longrightarrow> (\<exists>k. addWorkingDays t n = Inr (t + k * day_ms) \<and> 0 \<le> k \<and> k \<le> 9 * n \<and> working_days t k = nat n
      \<and> (0 < n \<longrightarrow> \<not> isWeekend (t + k * day_ms) \<and> \<not> isHoliday (t + k * day_ms))))"
proof (intro conjI impI)
  assume n: "0 \<le> n"
  obtain k where k: "add_loop t n = t + k * day_ms" "0 \<le> k" "working_days t k = nat n"
    "0 < n \<longrightarrow> working (t + k * day_ms) \<and> k \<le> 1 + int (next_working t) + 9 * (n - 1)" "n = 0 \<longrightarrow> k = 0"
    using add_loop_spec [OF n] by blast
  have "k \<le> 9 * n" using k(4,5) n next_working(2) [of t] by (cases "n = 0") auto
  then show "\<exists>k. addWorkingDays t n = Inr (t + k * day_ms) \<and> 0 \<le> k \<and> k \<le> 9 * n \<and> working_days t k = nat n
      \<and> (0 < n \<longrightarrow> \<not> isWeekend (t + k * day_ms) \<and> \<not> isHoliday (t + k * day_ms))"
    using k n by (intro exI [of _ k]) (simp add: addWorkingDays_def working_def)
qed (simp add: addWorkingDays_def)

theorem addWorkingDays_correct_witness:
  "\<exists>k. addWorkingDays 0 7 = Inr (k * day_ms) \<and> 0 \<le> k \<and> k \<le> 63 \<and> working_days 0 k = 7"
  using addWorkingDays_correct [of 7 0] by auto

end
