(* ===== verification/Payments.thy ===== *)
theory Payments
  imports Collateral Facilities Calendar
begin

text \<open>
  \<open>src/src/services/payments\<close>: the disbursement of an approved invoice. Initiation with its gates
  (kill switch, approval, AML clearance, collateral coverage, facility balance), the two
  authorisations, execution through a provider, the kill switch, SLA monitoring and the reads.
  The provider registry is a value (\<open>registerProvider\<close> at start-up); identifiers that \<open>uuidv4\<close> draws
  are arguments, as is the AML threshold of the environment.
\<close>

section \<open>Repository\<close>

text \<open>
  \<open>INSERT INTO payments\<close>: identifier, invoice and idempotency key are unique, the amount is a positive
  \<open>BIGINT\<close>, the invoice a foreign key; the status defaults to \<open>pending_first_auth\<close>.
\<close>

record create_payment_input =
  cpi_id :: string
  cpi_invoice :: string
  cpi_amount :: int
  cpi_provider :: payment_provider
  cpi_key :: string

definition new_payment :: "int \<Rightarrow> create_payment_input \<Rightarrow> payment" where
  "new_payment now x =
     \<lparr>pay_id = cpi_id x, pay_invoice = cpi_invoice x, pay_amount = cpi_amount x, pay_provider = cpi_provider x,
      pay_status = Pay_pending_first_auth, pay_idempotency_key = cpi_key x, pay_auth_user_1 = None,
      pay_auth_time_1 = None, pay_auth_user_2 = None, pay_auth_time_2 = None, pay_transaction_ref = None,
      pay_provider_ref = None, pay_funded_at = None, pay_failure_reason = None, pay_created_at = now\<rparr>"

definition createPaymentWithClient :: "int \<Rightarrow> create_payment_input \<Rightarrow> db \<Rightarrow> ris_error + db" where
  "createPaymentWithClient now x d =
     bindE (bigint_in (cpi_amount x)) (\<lambda>_.
       if cpi_amount x \<le> 0 then Inl (DbError ''23514'')
       else if list_ex (\<lambda>p. pay_id p = cpi_id x \<or> pay_invoice p = cpi_invoice x \<or> pay_idempotency_key p = cpi_key x) (t_payments d)
       then Inl (DbError ''23505'')
       else if \<not> list_ex (\<lambda>iv. inv_id iv = cpi_invoice x) (t_invoices d) then Inl (DbError ''23503'')
       else Inr (d\<lparr>t_payments := t_payments d @ [new_payment now x]\<rparr>))"

definition getPaymentById :: "string \<Rightarrow> db \<Rightarrow> payment option" where
  "getPaymentById i d = select_one (\<lambda>p. pay_id p = i) (t_payments d)"

definition getPaymentByIdForUpdate :: "string \<Rightarrow> payment option service" where
  "getPaymentByIdForUpdate i =
     (\<lambda>w. case getPaymentById i (db w) of None \<Rightarrow> (Inr None, w)
          | Some p \<Rightarrow> if i \<in> set (row_locks w) then (Inl (DbError ''55P03''), w) else (Inr (Some p), w))"

text \<open>
  An authorisation \<open>UPDATE ... WHERE id AND status ... RETURNING *\<close>: when a row matches, the authoriser
  has to be a user and the two authorisers have to differ.
\<close>

definition auth_row_ok :: "db \<Rightarrow> payment \<Rightarrow> ris_error + payment" where
  "auth_row_ok d p =
     (if (case (pay_auth_user_1 p, pay_auth_user_2 p) of (Some a, Some b) \<Rightarrow> a = b | _ \<Rightarrow> False) then Inl (DbError ''23514'')
      else if \<not> user_exists d (pay_auth_user_1 p) \<or> \<not> user_exists d (pay_auth_user_2 p) then Inl (DbError ''23503'')
      else Inr p)"

definition update_payment_returning ::
    "(payment \<Rightarrow> bool) \<Rightarrow> (payment \<Rightarrow> payment) \<Rightarrow> payment option service" where
  "update_payment_returning q f =
     bindS (queryS (\<lambda>d. select_one q (t_payments d))) (\<lambda>r.
       case r of None \<Rightarrow> returnS None
       | Some p \<Rightarrow>
           bindS (queryS (\<lambda>d. auth_row_ok d (f p))) (\<lambda>v. bindS (liftS v) (\<lambda>p'.
           thenS (execS (\<lambda>d. d\<lparr>t_payments := update_where q f (t_payments d)\<rparr>)) (returnS (Some p')))))"

definition recordFirstAuthWithClient :: "string \<Rightarrow> string \<Rightarrow> payment option service" where
  "recordFirstAuthWithClient i u =
     bindS nowS (\<lambda>now.
       update_payment_returning (\<lambda>p. pay_id p = i \<and> pay_status p = Pay_pending_first_auth)
         (\<lambda>p. p\<lparr>pay_auth_user_1 := Some u, pay_auth_time_1 := Some now, pay_status := Pay_pending_second_auth\<rparr>))"

definition recordSecondAuthWithClient :: "string \<Rightarrow> string \<Rightarrow> payment option service" where
  "recordSecondAuthWithClient i u =
     bindS nowS (\<lambda>now.
       update_payment_returning (\<lambda>p. pay_id p = i \<and> pay_status p = Pay_pending_second_auth)
         (\<lambda>p. p\<lparr>pay_auth_user_2 := Some u, pay_auth_time_2 := Some now, pay_status := Pay_executing\<rparr>))"

record provider_result =
  pr_success :: bool
  pr_transaction_reference :: string
  pr_provider_reference :: string
  pr_failure_reason :: "string option"
  pr_pending_confirmation :: bool

text \<open>
  The result of a provider is written without looking at the status of the row. The references are
  \<open>VARCHAR(255)\<close>, and the trigger of migration 012 refuses to change \<open>funded_at\<close> once it is set. The
  trigger \<open>enforce_dual_auth_on_payment\<close> of migration 001 is left out: dual authorisation is shown of the code alone.
\<close>

definition refs_fit :: "provider_result \<Rightarrow> bool" where
  "refs_fit r \<longleftrightarrow> length (pr_transaction_reference r) \<le> 255 \<and> length (pr_provider_reference r) \<le> 255"

definition updatePaymentResultWithClient :: "int \<Rightarrow> string \<Rightarrow> provider_result \<Rightarrow> db \<Rightarrow> ris_error + db" where
  "updatePaymentResultWithClient now i r d =
     (case getPaymentById i d of None \<Rightarrow> Inr d
      | Some p \<Rightarrow>
          if pr_success r
          then if \<not> refs_fit r then Inl (DbError ''22001'')
               else if pay_funded_at p \<noteq> None \<and> pay_funded_at p \<noteq> Some now then Inl (DbError ''P0001'')
               else Inr (d\<lparr>t_payments := update_where (\<lambda>p. pay_id p = i)
                      (\<lambda>p. p\<lparr>pay_status := Pay_funded, pay_transaction_ref := Some (pr_transaction_reference r),
                             pay_provider_ref := Some (pr_provider_reference r), pay_funded_at := Some now\<rparr>) (t_payments d)\<rparr>)
          else Inr (d\<lparr>t_payments := update_where (\<lambda>p. pay_id p = i)
                 (\<lambda>p. p\<lparr>pay_status := Pay_failed,
                        pay_failure_reason := Some (case pr_failure_reason r of None \<Rightarrow> ''Unknown error'' | Some s \<Rightarrow> s)\<rparr>)
                 (t_payments d)\<rparr>))"

definition recordPendingConfirmationWithClient :: "string \<Rightarrow> provider_result \<Rightarrow> db \<Rightarrow> ris_error + db" where
  "recordPendingConfirmationWithClient i r d =
     (if getPaymentById i d \<noteq> None \<and> \<not> refs_fit r then Inl (DbError ''22001'')
      else Inr (d\<lparr>t_payments := update_where (\<lambda>p. pay_id p = i)
             (\<lambda>p. p\<lparr>pay_transaction_ref := Some (pr_transaction_reference r), pay_provider_ref := Some (pr_provider_reference r)\<rparr>)
             (t_payments d)\<rparr>))"

definition getByIdempotencyKey :: "string \<Rightarrow> db \<Rightarrow> payment option" where
  "getByIdempotencyKey k d = select_one (\<lambda>p. pay_idempotency_key p = k) (t_payments d)"

definition getPaymentByInvoiceId :: "string \<Rightarrow> db \<Rightarrow> payment option" where
  "getPaymentByInvoiceId i d = select_one (\<lambda>p. pay_invoice p = i) (t_payments d)"

definition getPaymentByTransactionRef :: "string \<Rightarrow> db \<Rightarrow> payment option" where
  "getPaymentByTransactionRef r d = select_one (\<lambda>p. pay_transaction_ref p = Some r) (t_payments d)"

definition getPaymentsByStatus :: "payment_status \<Rightarrow> db \<Rightarrow> payment list" where
  "getPaymentsByStatus st d = sort_key pay_created_at (filter (\<lambda>p. pay_status p = st) (t_payments d))"

record enriched_payment =
  ep_payment :: payment
  ep_invoice_number :: string
  ep_supplier_name :: string
  ep_buyer_name :: string
  ep_user_1_name :: "string option"
  ep_user_2_name :: "string option"

text \<open>The \<open>LEFT JOIN\<close>s of the enriched queries; \<open>COALESCE\<close> turns a missing name into the empty string.\<close>

definition user_email :: "db \<Rightarrow> string option \<Rightarrow> string option" where
  "user_email d u = (case u of None \<Rightarrow> None | Some i \<Rightarrow> map_option usr_email (select_one (\<lambda>r. usr_id r = i) (t_users d)))"

definition enrich :: "db \<Rightarrow> payment \<Rightarrow> enriched_payment" where
  "enrich d p =
     (let iv = select_one (\<lambda>r. inv_id r = pay_invoice p) (t_invoices d);
          sup = (case iv of None \<Rightarrow> None | Some v \<Rightarrow> select_one (\<lambda>r. sup_id r = inv_supplier v) (t_suppliers d));
          buy = (case iv of None \<Rightarrow> None | Some v \<Rightarrow> select_one (\<lambda>r. buy_id r = inv_buyer v) (t_buyers d))
      in \<lparr>ep_payment = p,
          ep_invoice_number = (case iv of None \<Rightarrow> [] | Some v \<Rightarrow> inv_number v),
          ep_supplier_name = (case sup of None \<Rightarrow> [] | Some s \<Rightarrow> (case sup_company_name s of None \<Rightarrow> [] | Some n \<Rightarrow> n)),
          ep_buyer_name = (case buy of None \<Rightarrow> [] | Some b \<Rightarrow> buy_company_name b),
          ep_user_1_name = user_email d (pay_auth_user_1 p), ep_user_2_name = user_email d (pay_auth_user_2 p)\<rparr>)"

definition getEnrichedPaymentsByStatuses :: "payment_status list \<Rightarrow> db \<Rightarrow> enriched_payment list" where
  "getEnrichedPaymentsByStatuses sts d =
     map (enrich d) (sort_key pay_created_at (filter (\<lambda>p. pay_status p \<in> set sts) (t_payments d)))"

definition getEnrichedPaymentById :: "string \<Rightarrow> db \<Rightarrow> enriched_payment option" where
  "getEnrichedPaymentById i d = map_option (enrich d) (getPaymentById i d)"

record orphaned_invoice =
  orp_invoice :: string
  orp_supplier :: string
  orp_face_value :: int
  orp_approved_at :: int
  orp_age_hours :: rat

definition findOrphanedApprovedInvoices :: "int \<Rightarrow> db \<Rightarrow> orphaned_invoice list" where
  "findOrphanedApprovedInvoices now d =
     map (\<lambda>iv. \<lparr>orp_invoice = inv_id iv, orp_supplier = inv_supplier iv, orp_face_value = inv_face_value iv,
                orp_approved_at = inv_updated_at iv, orp_age_hours = of_int (now - inv_updated_at iv) / 3600000\<rparr>)
       (sort_key inv_updated_at
         (filter (\<lambda>iv. inv_status iv = Inv_approved \<and> \<not> list_ex (\<lambda>p. pay_invoice p = inv_id iv) (t_payments d)
                       \<and> inv_updated_at iv < now - 300000) (t_invoices d)))"

record sla_payment =
  slp_id :: string
  slp_invoice :: string
  slp_amount :: int
  slp_status :: payment_status
  slp_created_at :: int
  slp_hours_pending :: rat

definition hours_pending :: "int \<Rightarrow> payment \<Rightarrow> rat" where
  "hours_pending now p = of_int (now - pay_created_at p) / 3600000"

definition getPaymentsPendingSLA :: "int \<Rightarrow> db \<Rightarrow> sla_payment list" where
  "getPaymentsPendingSLA now d =
     map (\<lambda>p. \<lparr>slp_id = pay_id p, slp_invoice = pay_invoice p, slp_amount = pay_amount p, slp_status = pay_status p,
               slp_created_at = pay_created_at p, slp_hours_pending = hours_pending now p\<rparr>)
       (sort_key pay_created_at
         (filter (\<lambda>p. pay_status p \<notin> {Pay_funded, Pay_failed} \<and> 66 \<le> hours_pending now p \<and> hours_pending now p < 72) (t_payments d)))"

definition getPaymentsBySupplierId :: "string \<Rightarrow> int \<Rightarrow> int \<Rightarrow> db \<Rightarrow> ris_error + (payment list \<times> nat)" where
  "getPaymentsBySupplierId s page pageSize d =
     (let off = (page - 1) * pageSize;
          rows = filter (\<lambda>p. list_ex (\<lambda>iv. inv_id iv = pay_invoice p \<and> inv_supplier iv = s) (t_invoices d)) (t_payments d)
      in if pageSize < 0 then Inl (DbError ''2201W'')
         else if off < 0 then Inl (DbError ''2201X'')
         else Inr (take (nat pageSize) (drop (nat off) (sort_key (\<lambda>p. - pay_created_at p) rows)), length rows))"

definition getInvoiceForPayment :: "string \<Rightarrow> db \<Rightarrow> (invoice \<times> string) option" where
  "getInvoiceForPayment i d =
     (case select_one (\<lambda>r. inv_id r = i) (t_invoices d) of None \<Rightarrow> None
      | Some iv \<Rightarrow> map_option (\<lambda>s. (iv, sup_payment_method s)) (select_one (\<lambda>s. sup_id s = inv_supplier iv) (t_suppliers d)))"

definition payments_updateInvoiceStatus ::
    "int \<Rightarrow> string \<Rightarrow> invoice_status \<Rightarrow> invoice_status \<Rightarrow> db \<Rightarrow> db" where
  "payments_updateInvoiceStatus t i new expected d =
     d\<lparr>t_invoices := update_where (\<lambda>r. inv_id r = i \<and> inv_status r = expected)
         (\<lambda>r. r\<lparr>inv_status := new, inv_updated_at := t\<rparr>) (t_invoices d)\<rparr>"

definition getSystemSetting :: "string \<Rightarrow> db \<Rightarrow> string option" where
  "getSystemSetting key d = map_of (t_system_settings d) key"

definition setSystemSettingWithClient :: "string \<Rightarrow> string \<Rightarrow> db \<Rightarrow> db" where
  "setSystemSettingWithClient key v d = d\<lparr>t_system_settings := AList.update key v (t_system_settings d)\<rparr>"

definition failExecutingPaymentsWithClient :: "string \<Rightarrow> string list service" where
  "failExecutingPaymentsWithClient reason =
     bindS (queryS (\<lambda>d. map pay_id (filter (\<lambda>p. pay_status p = Pay_executing) (t_payments d)))) (\<lambda>ids.
     thenS (execS (\<lambda>d. d\<lparr>t_payments := update_where (\<lambda>p. pay_status p = Pay_executing)
              (\<lambda>p. p\<lparr>pay_status := Pay_failed, pay_failure_reason := Some reason\<rparr>) (t_payments d)\<rparr>))
       (returnS ids))"

definition getLast2faVerifiedAt :: "string \<Rightarrow> db \<Rightarrow> int option" where
  "getLast2faVerifiedAt u d =
     (case select_one (\<lambda>r. usr_id r = u) (t_users d) of None \<Rightarrow> None | Some r \<Rightarrow> usr_last_2fa r)"

section \<open>Providers\<close>

type_synonym provider_fn = "payment \<Rightarrow> string \<Rightarrow> provider_result service"

type_synonym provider_registry = "(payment_provider \<times> provider_fn) list"

definition registerProvider :: "payment_provider \<Rightarrow> provider_fn \<Rightarrow> provider_registry \<Rightarrow> provider_registry" where
  "registerProvider name f reg = AList.update name f reg"

definition generateAchRecord :: "int \<Rightarrow> payment \<Rightarrow> string \<Rightarrow> string" where
  "generateAchRecord now p key =
     ''CR'' @ padStart 15 (CHR ''0'') (show_int (pay_amount p)) @ ''UGX'' @ padEnd 36 (CHR '' '') key @ yyyymmdd (now div day_ms)"

definition BankEftProvider_execute :: provider_fn where
  "BankEftProvider_execute p key =
     bindS nowS (\<lambda>now.
       let achRecord = generateAchRecord now p key
       in returnS \<lparr>pr_success = True, pr_transaction_reference = key, pr_provider_reference = ''EFT-'' @ slice0 8 key,
                   pr_failure_reason = None, pr_pending_confirmation = True\<rparr>)"

definition ends_with :: "string \<Rightarrow> string \<Rightarrow> bool" where
  "ends_with suf s \<longleftrightarrow> drop (length s - length suf) s = suf \<and> length suf \<le> length s"

definition MockProvider_execute :: provider_fn where
  "MockProvider_execute p key =
     (if ends_with ''999'' (show_int (pay_amount p))
      then returnS \<lparr>pr_success = False, pr_transaction_reference = key, pr_provider_reference = [],
                    pr_failure_reason = Some ''Mock failure: test amount ends with 999'', pr_pending_confirmation = False\<rparr>
      else returnS \<lparr>pr_success = True, pr_transaction_reference = ''MOCK-'' @ key,
                    pr_provider_reference = ''MOCK-PROV-'' @ pay_id p, pr_failure_reason = None,
                    pr_pending_confirmation = False\<rparr>)"

text \<open>The environment is a map from variable names to values.\<close>

definition EFT_REQUIRED_ENV :: "string list" where
  "EFT_REQUIRED_ENV = [''EFT_BANK_API_URL'', ''EFT_BANK_API_KEY'', ''EFT_OUTPUT_DIR'']"

definition requireEnv :: "(string \<Rightarrow> string option) \<Rightarrow> string list \<Rightarrow> ris_error + unit" where
  "requireEnv env keys =
     (if filter (\<lambda>k. env k = None \<or> env k = Some []) keys = [] then Inr ()
      else Inl (JsError ''Missing required payment provider env vars''))"

definition initPaymentProviders :: "(string \<Rightarrow> string option) \<Rightarrow> provider_registry \<Rightarrow> ris_error + provider_registry" where
  "initPaymentProviders env reg =
     (if env ''NODE_ENV'' = Some ''production''
      then bindE (requireEnv env EFT_REQUIRED_ENV) (\<lambda>_. Inr (registerProvider EFT BankEftProvider_execute reg))
      else Inr (registerProvider MOCK MockProvider_execute (registerProvider EFT MockProvider_execute reg)))"

section \<open>Service\<close>

definition AML_FLAG_THRESHOLD_UGX :: "int option \<Rightarrow> int" where
  "AML_FLAG_THRESHOLD_UGX env = (case env of None \<Rightarrow> 100000000 | Some n \<Rightarrow> n)"

definition checkKillSwitch :: "unit service" where
  "checkKillSwitch =
     bindS (queryS (getSystemSetting ''payment_kill_switch'')) (\<lambda>v.
       guardS (v \<noteq> Some ''true'') (BusinessRuleError ''PAYMENTS_HALTED''))"

definition isKillSwitchActive :: "bool service" where
  "isKillSwitchActive =
     bindS (queryS (getSystemSetting ''payment_kill_switch'')) (\<lambda>v. returnS (v = Some ''true''))"

definition activateKillSwitch :: "string \<Rightarrow> string \<Rightarrow> string \<Rightarrow> string \<Rightarrow> string list service" where
  "activateKillSwitch u reason ip ua =
     transactionS
       (thenS (execS (setSystemSettingWithClient ''payment_kill_switch'' ''true''))
       (bindS (failExecutingPaymentsWithClient ''Suspended by payment kill switch'') (\<lambda>ids.
        thenS (forS (\<lambda>i. createAuditEntry (audit_req (Some u) ''PAYMENT_FAILED'' ''payments'' i
                   (Some [(''status'', JStr ''executing'')])
                   [(''status'', JStr ''failed''), (''reason'', JStr ''kill_switch_activation'')] (Some ip) (Some ua))) ids)
       (thenS (createAuditEntry (audit_req (Some u) ''KILL_SWITCH_ACTIVATED'' ''system_settings'' ''payment_kill_switch''
                 (Some [(''active'', JBool False)])
                 [(''active'', JBool True), (''reason'', JStr reason), (''suspendedCount'', JInt (int (length ids)))]
                 (Some ip) (Some ua)))
         (returnS ids)))))"

definition deactivateKillSwitch :: "string \<Rightarrow> string \<Rightarrow> string \<Rightarrow> string \<Rightarrow> unit service" where
  "deactivateKillSwitch u reason ip ua =
     transactionS
       (thenS (execS (setSystemSettingWithClient ''payment_kill_switch'' ''false''))
         (createAuditEntry (audit_req (Some u) ''KILL_SWITCH_DEACTIVATED'' ''system_settings'' ''payment_kill_switch''
            (Some [(''active'', JBool True)]) [(''active'', JBool False), (''reason'', JStr reason)] (Some ip) (Some ua))))"

definition guardInvoiceApproved :: "invoice \<Rightarrow> unit service" where
  "guardInvoiceApproved iv = guardS (inv_status iv = Inv_approved) (BusinessRuleError ''INVOICE_WRONG_STATUS'')"

definition guardAmlCleared :: "int option \<Rightarrow> invoice \<Rightarrow> unit service" where
  "guardAmlCleared env iv =
     (let overThreshold = inv_face_value iv \<ge> AML_FLAG_THRESHOLD_UGX env;
          requiresClearance = overThreshold \<and> inv_aml_flagged iv;
          isCleared = inv_aml_cleared_at iv \<noteq> None
      in guardS (\<not> (requiresClearance \<and> \<not> isCleared)) (BusinessRuleError ''AML_FLAG_REQUIRED''))"

definition guardCollateralSufficient :: "string \<Rightarrow> int option \<Rightarrow> unit service" where
  "guardCollateralSufficient i advance =
     bindS (checkCoverageRatio i advance) (\<lambda>coverage.
       guardS (ccr_sufficient coverage) (BusinessRuleError ''COLLATERAL_INSUFFICIENT''))"

definition validateInvoiceForPayment :: "int option \<Rightarrow> string \<Rightarrow> (invoice \<times> string) service" where
  "validateInvoiceForPayment env i =
     bindS (queryS (getInvoiceForPayment i)) (\<lambda>r.
     bindS (requireS r (NotFoundError ''Invoice'' i)) (\<lambda>x.
     thenS (guardInvoiceApproved (fst x))
    (thenS (guardAmlCleared env (fst x))
    (thenS (guardCollateralSufficient i (inv_advance (fst x)))
       (returnS x)))))"

definition checkFacilityAvailability :: "int option \<Rightarrow> unit service" where
  "checkFacilityAvailability amount =
     bindS (queryS getActiveFacilities) (\<lambda>fs.
       case fs of [] \<Rightarrow> throwS (BusinessRuleError ''FACILITY_INSUFFICIENT'')
       | f # _ \<Rightarrow>
           bindS (requireS amount (JsError ''TypeError'')) (\<lambda>required.
             guardS (\<not> fac_available f < required) (BusinessRuleError ''FACILITY_INSUFFICIENT'')))"

definition mapProvider :: "string \<Rightarrow> payment_provider" where
  "mapProvider method_name = EFT"

fun provider_str :: "payment_provider \<Rightarrow> string" where
  "provider_str EFT = ''EFT''"
| "provider_str MOCK = ''MOCK''"

definition insertPaymentAndAuditWithClient ::
    "string \<Rightarrow> string \<Rightarrow> invoice \<Rightarrow> payment_provider \<Rightarrow> string \<Rightarrow> bool service" where
  "insertPaymentAndAuditWithClient pid i iv prov key =
     bindS nowS (\<lambda>now.
     bindS (requireS (inv_advance iv) (DbError ''23502'')) (\<lambda>amount.
     thenS (tryExecS (createPaymentWithClient now
              \<lparr>cpi_id = pid, cpi_invoice = i, cpi_amount = amount, cpi_provider = prov, cpi_key = key\<rparr>))
    (bindS (queryS (\<lambda>d. list_ex (\<lambda>r. inv_id r = i \<and> inv_status r = Inv_approved) (t_invoices d))) (\<lambda>transitioned.
     thenS (execS (payments_updateInvoiceStatus now i Inv_pending_first_auth Inv_approved))
    (thenS (createAuditEntry (audit_sys None ''PAYMENT_CREATED'' ''payments'' pid
              (Some [(''invoiceStatus'', JStr (inv_status_str (inv_status iv))), (''paymentStatus'', JNull)])
              [(''invoiceStatus'', JStr ''pending_first_auth''), (''paymentStatus'', JStr ''pending_first_auth''),
               (''provider'', JStr (provider_str prov))]))
       (returnS transitioned))))))"

definition createPaymentTxn :: "string \<Rightarrow> string \<Rightarrow> invoice \<Rightarrow> payment_provider \<Rightarrow> string \<Rightarrow> unit service" where
  "createPaymentTxn pid i iv prov key =
     thenS (transactionS (insertPaymentAndAuditWithClient pid i iv prov key)) (returnS ())"

definition fetchCreatedPayment :: "string \<Rightarrow> payment service" where
  "fetchCreatedPayment pid =
     bindS (queryS (getPaymentById pid)) (\<lambda>r. requireS r (PaymentError ''Payment creation failed''))"

definition initiatePayment :: "int option \<Rightarrow> string \<Rightarrow> string \<Rightarrow> string \<Rightarrow> payment service" where
  "initiatePayment env pid key i =
     thenS checkKillSwitch
    (bindS (validateInvoiceForPayment env i) (\<lambda>x.
     thenS (checkFacilityAvailability (inv_advance (fst x)))
    (bindS (queryS (getPaymentByInvoiceId i)) (\<lambda>existing.
       case existing of Some p \<Rightarrow> returnS p
       | None \<Rightarrow>
           thenS (createPaymentTxn pid i (fst x) (mapProvider (snd x)) key)
             (fetchCreatedPayment pid)))))"

definition notifyWorkerExhaustion :: "string \<Rightarrow> unit service" where
  "notifyWorkerExhaustion i =
     enqueueS Payments_notification ''payment_failed''
       [(''invoiceId'', JStr i), (''type'', JStr ''finance_manager_notify''), (''reason'', JStr ''worker_retries_exhausted'')]"

definition writeTerminalFailureAudit :: "string \<Rightarrow> string \<Rightarrow> unit service" where
  "writeTerminalFailureAudit i code =
     transactionS (createAuditEntry (audit_sys None ''PAYMENT_INITIATION_FAILED'' ''invoices'' i
       (Some [(''status'', JStr ''approved'')]) [(''errorCode'', JStr code), (''retriesExhausted'', JBool True)]))"

definition handleTerminalWorkerFailure :: "string \<Rightarrow> string \<Rightarrow> unit service" where
  "handleTerminalWorkerFailure i code = thenS (writeTerminalFailureAudit i code) (notifyWorkerExhaustion i)"

subsection \<open>Authorisation\<close>

definition TWO_FA_RECENCY_MS :: int where
  "TWO_FA_RECENCY_MS = 60 * 60 * 1000"

definition check2faRecency :: "string \<Rightarrow> unit service" where
  "check2faRecency u =
     bindS (queryS (getLast2faVerifiedAt u)) (\<lambda>r.
     bindS (requireS r (BusinessRuleError ''TWO_FA_REVERIFICATION_REQUIRED'')) (\<lambda>t.
     bindS nowS (\<lambda>now.
       guardS (\<not> TWO_FA_RECENCY_MS < now - t) (BusinessRuleError ''TWO_FA_REVERIFICATION_REQUIRED''))))"

text \<open>Hour and weekday (0 is Sunday) in East Africa Time; 1970-01-01 was a Thursday.\<close>

definition getEatHour :: "int \<Rightarrow> int" where
  "getEatHour t = ((t div 3600000) mod 24 + 3) mod 24"

definition getEatDay :: "int \<Rightarrow> int" where
  "getEatDay t = ((t + 3 * 60 * 60 * 1000) div day_ms + 4) mod 7"

definition after_hours :: "int \<Rightarrow> bool" where
  "after_hours t \<longleftrightarrow> getEatDay t = 0 \<or> getEatDay t = 6 \<or> getEatHour t < 7 \<or> getEatHour t \<ge> 20"

definition checkBusinessHours :: "string \<Rightarrow> string \<Rightarrow> string option \<Rightarrow> string option \<Rightarrow> unit service" where
  "checkBusinessHours u pid ip ua =
     bindS nowS (\<lambda>now.
       whenS (after_hours now)
         (createAuditEntry (audit_req (Some u) ''AFTER_HOURS_PAYMENT'' ''payments'' pid
            (Some [(''eatHour'', JInt (getEatHour now)), (''eatDay'', JInt (getEatDay now)),
                   (''isWeekend'', JBool (getEatDay now = 0 \<or> getEatDay now = 6))])
            [(''flaggedForReview'', JBool True)] ip ua)))"

definition lockPaymentOrThrow :: "string \<Rightarrow> payment service" where
  "lockPaymentOrThrow pid =
     catchS
       (bindS (getPaymentByIdForUpdate pid) (\<lambda>r. requireS r (NotFoundError ''Payment'' pid)))
       (\<lambda>e. if e = DbError ''55P03'' then throwS (BusinessRuleError ''PAYMENT_WRONG_STATUS'') else throwS e)"

definition validatePaymentStatus :: "payment \<Rightarrow> payment_status \<Rightarrow> unit service" where
  "validatePaymentStatus p expected = guardS (pay_status p = expected) (BusinessRuleError ''PAYMENT_WRONG_STATUS'')"

definition guardDifferentAuthoriser :: "payment \<Rightarrow> string \<Rightarrow> unit service" where
  "guardDifferentAuthoriser p u = guardS (pay_auth_user_1 p \<noteq> Some u) (BusinessRuleError ''SAME_AUTHORISER'')"

definition json_opt :: "string option \<Rightarrow> json_val" where
  "json_opt x = (case x of None \<Rightarrow> JNull | Some s \<Rightarrow> JStr s)"

definition recordFirstAuthTxn ::
    "string \<Rightarrow> string \<Rightarrow> string option \<Rightarrow> string option \<Rightarrow> string option \<Rightarrow> payment service" where
  "recordFirstAuthTxn pid u ip ua comment =
     transactionS
       (bindS (lockPaymentOrThrow pid) (\<lambda>p.
        thenS (validatePaymentStatus p Pay_pending_first_auth)
       (bindS (recordFirstAuthWithClient pid u) (\<lambda>r.
        bindS (requireS r (PaymentError ''First auth update failed'')) (\<lambda>updated.
        thenS (createAuditEntry (audit_req (Some u) ''PAYMENT_FIRST_AUTH'' ''payments'' pid
                 (Some [(''status'', JStr ''pending_first_auth'')])
                 [(''status'', JStr ''pending_second_auth''), (''authUser'', JStr u), (''comment'', json_opt comment)] ip ua))
          (returnS updated))))))"

definition authoriseFirstAuth ::
    "string \<Rightarrow> string \<Rightarrow> string option \<Rightarrow> string option \<Rightarrow> string option \<Rightarrow> payment service" where
  "authoriseFirstAuth pid u ip ua comment =
     thenS (check2faRecency u) (thenS (checkBusinessHours u pid ip ua) (recordFirstAuthTxn pid u ip ua comment))"

definition recordSecondAuthTxn ::
    "string \<Rightarrow> string \<Rightarrow> string option \<Rightarrow> string option \<Rightarrow> string option \<Rightarrow> payment service" where
  "recordSecondAuthTxn pid u ip ua comment =
     transactionS
       (bindS (lockPaymentOrThrow pid) (\<lambda>p.
        thenS (validatePaymentStatus p Pay_pending_second_auth)
       (thenS (guardDifferentAuthoriser p u)
       (bindS (recordSecondAuthWithClient pid u) (\<lambda>r.
        bindS (requireS r (PaymentError ''Second auth update failed'')) (\<lambda>updated.
        thenS (createAuditEntry (audit_req (Some u) ''PAYMENT_SECOND_AUTH'' ''payments'' pid
                 (Some [(''status'', JStr ''pending_second_auth'')])
                 [(''status'', JStr ''executing''), (''authUser'', JStr u), (''comment'', json_opt comment)] ip ua))
          (returnS updated)))))))"

definition authoriseSecondAuth ::
    "string \<Rightarrow> string \<Rightarrow> string option \<Rightarrow> string option \<Rightarrow> string option \<Rightarrow> payment service" where
  "authoriseSecondAuth pid u ip ua comment =
     thenS (check2faRecency u) (thenS (checkBusinessHours u pid ip ua) (recordSecondAuthTxn pid u ip ua comment))"

subsection \<open>Execution\<close>

definition queueSupplierNotification :: "string \<Rightarrow> string \<Rightarrow> unit service" where
  "queueSupplierNotification pid i =
     enqueueS Payments_notification ''payment-funded'' [(''paymentId'', JStr pid), (''invoiceId'', JStr i)]"

definition queueFacilityDrawdown :: "string \<Rightarrow> string \<Rightarrow> int \<Rightarrow> unit service" where
  "queueFacilityDrawdown pid i amount =
     enqueueS Payments_drawdown ''facility-drawdown''
       [(''paymentId'', JStr pid), (''invoiceId'', JStr i), (''principal'', JInt amount)]"

definition queueCollectionMonitoring :: "string \<Rightarrow> string \<Rightarrow> unit service" where
  "queueCollectionMonitoring pid i =
     enqueueS Payments_collection ''collection-monitoring'' [(''invoiceId'', JStr i), (''paymentId'', JStr pid)]"

definition notifyPaymentFunded :: "payment \<Rightarrow> unit service" where
  "notifyPaymentFunded p =
     thenS (queueSupplierNotification (pay_id p) (pay_invoice p))
    (thenS (queueFacilityDrawdown (pay_id p) (pay_invoice p) (pay_amount p))
       (queueCollectionMonitoring (pay_id p) (pay_invoice p)))"

definition recordSuccessfulPaymentTxn :: "payment \<Rightarrow> provider_result \<Rightarrow> unit service" where
  "recordSuccessfulPaymentTxn p r =
     transactionS
       (bindS nowS (\<lambda>now.
        thenS (tryExecS (updatePaymentResultWithClient now (pay_id p) r))
       (thenS (execS (payments_updateInvoiceStatus now (pay_invoice p) Inv_funded Inv_approved))
         (createAuditEntry (audit_sys None ''PAYMENT_FUNDED'' ''payments'' (pay_id p)
            (Some [(''status'', JStr (pay_status_str (pay_status p)))])
            [(''status'', JStr ''funded''), (''transactionReference'', JStr (pr_transaction_reference r))])))))"

definition handleSuccessfulPayment :: "payment \<Rightarrow> provider_result \<Rightarrow> unit service" where
  "handleSuccessfulPayment p r = thenS (recordSuccessfulPaymentTxn p r) (notifyPaymentFunded p)"

definition handlePendingConfirmation :: "payment \<Rightarrow> provider_result \<Rightarrow> unit service" where
  "handlePendingConfirmation p r =
     transactionS
       (thenS (tryExecS (recordPendingConfirmationWithClient (pay_id p) r))
         (createAuditEntry (audit_sys None ''PAYMENT_PENDING_CONFIRMATION'' ''payments'' (pay_id p)
            (Some [(''status'', JStr (pay_status_str (pay_status p)))])
            [(''status'', JStr ''executing''), (''transactionReference'', JStr (pr_transaction_reference r)),
             (''provider'', JStr (provider_str (pay_provider p)))])))"

definition handleFailedPayment :: "payment \<Rightarrow> provider_result \<Rightarrow> unit service" where
  "handleFailedPayment p r =
     thenS
       (transactionS
         (bindS nowS (\<lambda>now.
          thenS (tryExecS (updatePaymentResultWithClient now (pay_id p) r))
           (createAuditEntry (audit_sys None ''PAYMENT_FAILED'' ''payments'' (pay_id p)
              (Some [(''status'', JStr (pay_status_str (pay_status p)))]) [(''status'', JStr ''failed'')])))))
       (enqueueS Payments_notification ''payment_failed''
          [(''paymentId'', JStr (pay_id p)), (''invoiceId'', JStr (pay_invoice p)), (''type'', JStr ''finance_manager_notify'')])"

definition routeProviderResult :: "payment \<Rightarrow> provider_result \<Rightarrow> unit service" where
  "routeProviderResult p r =
     (if pr_success r \<and> pr_pending_confirmation r then handlePendingConfirmation p r
      else if pr_success r then handleSuccessfulPayment p r
      else handleFailedPayment p r)"

text \<open>The text of an error message is represented by the code the error carries.\<close>

fun error_message :: "ris_error \<Rightarrow> string" where
  "error_message (NotFoundError e i) = e"
| "error_message (BusinessRuleError c) = c"
| "error_message ForbiddenError = ''FORBIDDEN''"
| "error_message (PaymentError m) = m"
| "error_message (ValidationError m) = m"
| "error_message AuthError = ''AUTH''"
| "error_message (DbError c) = c"
| "error_message QueueError = ''QUEUE''"
| "error_message (JsError m) = m"

definition fail_result :: "payment \<Rightarrow> ris_error \<Rightarrow> provider_result" where
  "fail_result p e = \<lparr>pr_success = False, pr_transaction_reference = pay_idempotency_key p, pr_provider_reference = [],
     pr_failure_reason = Some (error_message e), pr_pending_confirmation = False\<rparr>"

definition callProviderAndHandle :: "payment \<Rightarrow> provider_fn \<Rightarrow> provider_result service" where
  "callProviderAndHandle p execute =
     catchS
       (bindS (execute p (pay_idempotency_key p)) (\<lambda>r.
        thenS (routeProviderResult p r) (returnS r)))
       (\<lambda>e. thenS (handleFailedPayment p (fail_result p e)) (returnS (fail_result p e)))"

definition loadExecutablePayment :: "string \<Rightarrow> payment service" where
  "loadExecutablePayment pid =
     bindS (queryS (getPaymentById pid)) (\<lambda>r.
     bindS (requireS r (NotFoundError ''Payment'' pid)) (\<lambda>p.
     thenS (guardS (pay_status p = Pay_executing) (BusinessRuleError ''PAYMENT_WRONG_STATUS''))
       (returnS p)))"

definition checkIdempotency :: "payment \<Rightarrow> provider_result option service" where
  "checkIdempotency p =
     bindS (queryS (getByIdempotencyKey (pay_idempotency_key p))) (\<lambda>existing.
       case existing of
         Some q \<Rightarrow>
           if pay_status q = Pay_funded
           then returnS (Some \<lparr>pr_success = True,
                  pr_transaction_reference = (case pay_transaction_ref q of None \<Rightarrow> [] | Some s \<Rightarrow> s),
                  pr_provider_reference = (case pay_provider_ref q of None \<Rightarrow> [] | Some s \<Rightarrow> s),
                  pr_failure_reason = None, pr_pending_confirmation = False\<rparr>)
           else returnS None
       | None \<Rightarrow> returnS None)"

definition resolveProvider :: "provider_registry \<Rightarrow> payment \<Rightarrow> provider_fn service" where
  "resolveProvider reg p = requireS (map_of reg (pay_provider p)) (PaymentError ''No provider registered'')"

definition executePayment :: "provider_registry \<Rightarrow> string \<Rightarrow> provider_result service" where
  "executePayment reg pid =
     bindS (loadExecutablePayment pid) (\<lambda>p.
     bindS (checkIdempotency p) (\<lambda>done_before.
       case done_before of Some r \<Rightarrow> returnS r
       | None \<Rightarrow> bindS (resolveProvider reg p) (callProviderAndHandle p)))"

subsection \<open>Monitoring and reads\<close>

definition payments_queueSlaEscalation :: "string \<Rightarrow> string \<Rightarrow> unit service" where
  "payments_queueSlaEscalation pid i =
     enqueueS Payments_notification ''payment-sla-escalation''
       [(''paymentId'', JStr pid), (''invoiceId'', JStr i), (''escalatedTo'', JStr ''management'')]"

definition payments_checkSlaBreaches :: "unit service" where
  "payments_checkSlaBreaches =
     bindS nowS (\<lambda>now. bindS (queryS (getPaymentsPendingSLA now)) (forS (\<lambda>b.
       thenS (createAuditEntry (audit_sys None ''PAYMENT_SLA_BREACH'' ''payments'' (slp_id b)
                (Some [(''hoursPending'', JNum (Fin (slp_hours_pending b))), (''status'', JStr (pay_status_str (slp_status b)))])
                [(''escalatedTo'', JStr ''management''), (''slaDeadlineHours'', JInt 72)]))
         (payments_queueSlaEscalation (slp_id b) (slp_invoice b)))))"

definition getPendingPayments :: "enriched_payment list service" where
  "getPendingPayments = queryS (getEnrichedPaymentsByStatuses [Pay_pending_first_auth, Pay_pending_second_auth])"

definition getPaymentDetails :: "string \<Rightarrow> enriched_payment service" where
  "getPaymentDetails pid =
     bindS (queryS (getEnrichedPaymentById pid)) (\<lambda>r. requireS r (NotFoundError ''Payment'' pid))"

definition listOrphanedApprovedInvoices :: "orphaned_invoice list service" where
  "listOrphanedApprovedInvoices = bindS nowS (\<lambda>now. queryS (findOrphanedApprovedInvoices now))"

end
