(* ===== verification/Payments_Life.thy ===== *)
theory Payments_Life
  imports Payments
begin

text \<open>
  The abstract specification of a payment (\<open>life_step\<close>), the proof that every operation of the payment
  service only lets payments take its steps, the interface of a payment provider as a locale, and the runs of the
  service as a step relation.
\<close>

section \<open>The life of a payment\<close>

text \<open>
  The abstract specification: what may happen to one payment row. Two different users authorise it
  before it executes; it is funded or fails only afterwards.
\<close>

inductive life_step :: "payment \<Rightarrow> payment \<Rightarrow> bool" where
  first_auth: "pay_status p = Pay_pending_first_auth \<Longrightarrow>
     life_step p (p\<lparr>pay_auth_user_1 := Some u, pay_auth_time_1 := Some t, pay_status := Pay_pending_second_auth\<rparr>)"
| second_auth: "pay_status p = Pay_pending_second_auth \<Longrightarrow> pay_auth_user_1 p \<noteq> Some u \<Longrightarrow>
     life_step p (p\<lparr>pay_auth_user_2 := Some u, pay_auth_time_2 := Some t, pay_status := Pay_executing\<rparr>)"
| confirm: "pay_status p = Pay_executing \<Longrightarrow>
     life_step p (p\<lparr>pay_transaction_ref := Some a, pay_provider_ref := Some b\<rparr>)"
| fund: "pay_status p = Pay_executing \<Longrightarrow>
     life_step p (p\<lparr>pay_status := Pay_funded, pay_transaction_ref := Some a, pay_provider_ref := Some b, pay_funded_at := Some t\<rparr>)"
| fail: "pay_status p \<in> {Pay_executing, Pay_funded, Pay_failed} \<Longrightarrow>
     life_step p (p\<lparr>pay_status := Pay_failed, pay_failure_reason := Some m\<rparr>)"

definition new_row :: "payment \<Rightarrow> bool" where
  "new_row p \<longleftrightarrow> (\<exists>now x. p = new_payment now x)"

text \<open>
  Between two databases the payments evolve: the old rows keep their place and their identifier and
  take steps of the specification, further rows are new, and identifiers stay unique.
\<close>

abbreviation pay_keys :: "db \<Rightarrow> bool" where
  "pay_keys d \<equiv> distinct (map pay_id (t_payments d))"

definition evolves :: "db \<Rightarrow> db \<Rightarrow> bool" where
  "evolves d d' \<longleftrightarrow> (\<exists>g new. t_payments d' = map g (t_payments d) @ new
     \<and> (\<forall>p \<in> set (t_payments d). life_step\<^sup>*\<^sup>* p (g p))
     \<and> (\<forall>q \<in> set new. \<exists>p. new_row p \<and> life_step\<^sup>*\<^sup>* p q))
     \<and> (pay_keys d \<longrightarrow> pay_keys d')"

lemma evolves_same: "t_payments d' = t_payments d \<Longrightarrow> evolves d d'"
  unfolding evolves_def by (intro conjI exI [of _ id] exI [of _ "[]"]) simp_all

lemma life_step_id: "life_step p q \<Longrightarrow> pay_id q = pay_id p"
  by (induction rule: life_step.induct) simp_all

lemma evolves_update:
  assumes "t_payments d' = update_where q f (t_payments d)"
    and "\<And>p. p \<in> set (t_payments d) \<Longrightarrow> q p \<Longrightarrow> life_step p (f p)"
  shows "evolves d d'"
proof -
  have "map pay_id (t_payments d') = map pay_id (t_payments d)"
    unfolding assms(1) update_where_def by (auto dest!: assms(2) life_step_id)
  then have "pay_keys d \<longrightarrow> pay_keys d'" by metis
  then show ?thesis unfolding evolves_def
    by (intro conjI exI [of _ "\<lambda>p. if q p then f p else p"] exI [of _ "[]"])
      (use assms in \<open>auto simp: update_where_def\<close>)
qed

lemma evolves_insert:
  assumes "t_payments d' = t_payments d @ [new_payment now x]"
    and "\<not> list_ex (\<lambda>p. pay_id p = cpi_id x) (t_payments d)"
  shows "evolves d d'"
  unfolding evolves_def new_row_def
proof (intro conjI exI [of _ id] exI [of _ "[new_payment now x]"])
  show "pay_keys d \<longrightarrow> pay_keys d'" using assms by (auto simp: new_payment_def list_ex_iff)
qed (use assms(1) in auto)

lemma evolves_trans: "evolves d d' \<Longrightarrow> evolves d' d'' \<Longrightarrow> evolves d d''"
proof -
  assume e: "evolves d d'" "evolves d' d''"
  then obtain g new h new' where g: "t_payments d' = map g (t_payments d) @ new"
    "\<forall>p \<in> set (t_payments d). life_step\<^sup>*\<^sup>* p (g p)" "\<forall>q \<in> set new. \<exists>p. new_row p \<and> life_step\<^sup>*\<^sup>* p q"
    and h: "t_payments d'' = map h (t_payments d') @ new'"
    "\<forall>p \<in> set (t_payments d'). life_step\<^sup>*\<^sup>* p (h p)" "\<forall>q \<in> set new'. \<exists>p. new_row p \<and> life_step\<^sup>*\<^sup>* p q"
    unfolding evolves_def by blast
  have new: "\<exists>p. new_row p \<and> life_step\<^sup>*\<^sup>* p q" if q: "q \<in> set (map h new @ new')" for q
  proof (cases "q \<in> set new'")
    case False
    then obtain n where n: "n \<in> set new" "q = h n" using q by auto
    then obtain p where "new_row p" "life_step\<^sup>*\<^sup>* p n" using g(3) by blast
    moreover have "life_step\<^sup>*\<^sup>* n q" using h(2) g(1) n by simp
    ultimately show ?thesis by (meson rtranclp_trans)
  qed (use h(3) in blast)
  have old: "life_step\<^sup>*\<^sup>* p (h (g p))" if "p \<in> set (t_payments d)" for p
    using that g(1,2) h(2) by (auto intro: rtranclp_trans)
  show ?thesis unfolding evolves_def
  proof (intro conjI exI [of _ "\<lambda>p. h (g p)"] exI [of _ "map h new @ new'"])
    show "pay_keys d \<longrightarrow> pay_keys d''" using e by (simp add: evolves_def)
    show "t_payments d'' = map (\<lambda>p. h (g p)) (t_payments d) @ map h new @ new'" by (simp add: g(1) h(1))
  qed (use new old in blast)+
qed

lemma evolves_keys: "evolves d d' \<Longrightarrow> pay_keys d \<Longrightarrow> pay_keys d'"
  by (simp add: evolves_def)

text \<open>
  \<open>evo P m Q\<close>: run from a database with \<open>P\<close>, the computation only lets payments evolve and leaves a
  database with \<open>Q\<close>, whether it returns or throws.
\<close>

definition evo :: "(db \<Rightarrow> bool) \<Rightarrow> 'a service \<Rightarrow> (db \<Rightarrow> bool) \<Rightarrow> bool" where
  "evo P m Q \<longleftrightarrow> (\<forall>w. P (db w) \<longrightarrow> evolves (db w) (db (snd (m w))) \<and> Q (db (snd (m w))))"

lemma evoD: "evo P m Q \<Longrightarrow> P (db w) \<Longrightarrow> m w = (r, w') \<Longrightarrow> evolves (db w) (db w') \<and> Q (db w')"
  unfolding evo_def by (metis snd_conv)

lemma evo_weaken: "evo P m Q \<Longrightarrow> (\<And>d. P' d \<Longrightarrow> P d) \<Longrightarrow> (\<And>d. Q d \<Longrightarrow> Q' d) \<Longrightarrow> evo P' m Q'"
  unfolding evo_def by blast

lemma evo_bind:
  assumes "evo P m Q" and "\<And>x. evo Q (f x) R" and "\<And>d. Q d \<Longrightarrow> R d"
  shows "evo P (bindS m f) R"
  unfolding evo_def
proof (intro allI impI)
  fix w :: world assume "P (db w)"
  obtain r w1 where m: "m w = (r, w1)" by (cases "m w")
  then have 1: "evolves (db w) (db w1)" "Q (db w1)" using evoD [OF assms(1) \<open>P (db w)\<close>] by auto
  show "evolves (db w) (db (snd (bindS m f w))) \<and> R (db (snd (bindS m f w)))"
  proof (cases r)
    case (Inr x)
    have "evolves (db w1) (db (snd (f x w1))) \<and> R (db (snd (f x w1)))"
      using assms(2) 1(2) by (simp add: evo_def)
    then show ?thesis using m Inr 1(1) by (auto intro: evolves_trans)
  qed (use m 1 assms(3) in simp)
qed

lemma evo_then: "evo P m Q \<Longrightarrow> evo Q k R \<Longrightarrow> (\<And>d. Q d \<Longrightarrow> R d) \<Longrightarrow> evo P (thenS m k) R"
  unfolding thenS_def by (rule evo_bind)

lemma evo_catch:
  assumes "evo P m Q" and "\<And>e. evo Q (h e) Q"
  shows "evo P (catchS m h) Q"
  unfolding evo_def
proof (intro allI impI)
  fix w :: world assume "P (db w)"
  obtain r w1 where m: "m w = (r, w1)" by (cases "m w")
  then have 1: "evolves (db w) (db w1)" "Q (db w1)" using evoD [OF assms(1) \<open>P (db w)\<close>] by auto
  show "evolves (db w) (db (snd (catchS m h w))) \<and> Q (db (snd (catchS m h w)))"
  proof (cases r)
    case (Inl e)
    have "evolves (db w1) (db (snd (h e w1))) \<and> Q (db (snd (h e w1)))"
      using assms(2) 1(2) by (simp add: evo_def)
    then show ?thesis using m Inl 1(1) by (auto simp: catchS_def intro: evolves_trans)
  qed (use m 1 in \<open>simp add: catchS_def\<close>)
qed

lemma evo_keeps_db: "keeps_db m \<Longrightarrow> evo P m P"
  unfolding evo_def keeps_db_def by (simp add: evolves_same)

lemma evo_transaction: "evo P m Q \<Longrightarrow> (\<And>d. P d \<Longrightarrow> Q d) \<Longrightarrow> evo P (transactionS m) Q"
  unfolding evo_def transactionS_def by (fastforce split: prod.splits sum.splits intro: evolves_same)

lemma evo_exec: "(\<And>d. P d \<Longrightarrow> evolves d (f d) \<and> Q (f d)) \<Longrightarrow> evo P (execS f) Q"
  by (simp add: evo_def)

lemma evo_tryExec:
  "(\<And>d d'. P d \<Longrightarrow> f d = Inr d' \<Longrightarrow> evolves d d' \<and> Q d') \<Longrightarrow> (\<And>d. P d \<Longrightarrow> Q d) \<Longrightarrow> evo P (tryExecS f) Q"
  unfolding evo_def tryExecS_def by (auto split: sum.splits intro: evolves_same)

text \<open>The conditions on the row being processed: its status lies in a given set.\<close>

definition status_in :: "string \<Rightarrow> payment_status list \<Rightarrow> db \<Rightarrow> bool" where
  "status_in pid sts d \<longleftrightarrow> (\<forall>p \<in> set (t_payments d). pay_id p = pid \<longrightarrow> pay_status p \<in> set sts)"

lemma status_in_frame [simp]:
  "status_in pid sts (d\<lparr>t_audit := a\<rparr>) = status_in pid sts d"
  "status_in pid sts (d\<lparr>t_invoices := b\<rparr>) = status_in pid sts d"
  by (simp_all add: status_in_def)

lemma status_in_mono: "status_in pid sts d \<Longrightarrow> set sts \<subseteq> set sts' \<Longrightarrow> status_in pid sts' d"
  by (auto simp: status_in_def)

lemma status_in_update:
  assumes "\<And>p. pay_id (f p) = pay_id p" and "\<And>p. p \<in> set (t_payments d) \<Longrightarrow> pay_id p = pid \<Longrightarrow> pay_status (f p) \<in> set sts"
  shows "status_in pid sts (d\<lparr>t_payments := update_where (\<lambda>p. pay_id p = pid) f (t_payments d)\<rparr>)"
  unfolding status_in_def update_where_def using assms by auto

text \<open>One update of the processed row: a step of the specification that leads to a status in the target set.\<close>

lemma evo_row_update:
  assumes d': "d' = d\<lparr>t_payments := update_where (\<lambda>p. pay_id p = pid) f (t_payments d)\<rparr>"
    and step: "\<And>p. p \<in> set (t_payments d) \<Longrightarrow> pay_id p = pid \<Longrightarrow> life_step p (f p) \<and> pay_status (f p) \<in> set sts"
    and f: "\<And>p. pay_id (f p) = pay_id p"
  shows "evolves d d' \<and> status_in pid sts d'"
proof
  have t: "t_payments d' = update_where (\<lambda>p. pay_id p = pid) f (t_payments d)" by (simp add: d')
  show "evolves d d'" by (rule evolves_update [OF t]) (use step in blast)
  show "status_in pid sts d'" unfolding d' by (rule status_in_update [OF f]) (use step in blast)
qed

lemma evo_audit:
  "evo (status_in pid sts) (createAuditEntry e) (status_in pid sts)" "evo pay_keys (createAuditEntry e) pay_keys"
  unfolding createAuditEntry_def by (rule evo_tryExec; auto simp: insert_audit_succ intro: evolves_same)+

lemma evo_update_failed:
  assumes "\<not> pr_success r"
  shows "evo (status_in pid [Pay_executing, Pay_funded, Pay_failed]) (tryExecS (updatePaymentResultWithClient now pid r))
           (status_in pid [Pay_executing, Pay_funded, Pay_failed])"
proof (rule evo_tryExec)
  fix d d' assume P: "status_in pid [Pay_executing, Pay_funded, Pay_failed] d"
    and u: "updatePaymentResultWithClient now pid r d = Inr d'"
  let ?m = "case pr_failure_reason r of None \<Rightarrow> ''Unknown error'' | Some s \<Rightarrow> s"
  let ?f = "\<lambda>p. p\<lparr>pay_status := Pay_failed, pay_failure_reason := Some ?m\<rparr>"
  have step: "life_step p (?f p) \<and> pay_status (?f p) \<in> set [Pay_executing, Pay_funded, Pay_failed]"
    if "p \<in> set (t_payments d)" "pay_id p = pid" for p
    using life_step.fail [where p = p and m = ?m] P that by (simp add: status_in_def)
  consider "d' = d" | "d' = d\<lparr>t_payments := update_where (\<lambda>p. pay_id p = pid) ?f (t_payments d)\<rparr>"
    using u assms by (auto simp: updatePaymentResultWithClient_def split: option.splits)
  then show "evolves d d' \<and> status_in pid [Pay_executing, Pay_funded, Pay_failed] d'"
  proof cases
    case 2
    then show ?thesis by (rule evo_row_update) (use step in simp_all)
  qed (use P in \<open>simp add: evolves_same\<close>)
qed

lemma evo_update_funded:
  assumes "pr_success r"
  shows "evo (status_in pid [Pay_executing]) (tryExecS (updatePaymentResultWithClient now pid r))
           (status_in pid [Pay_executing, Pay_funded])"
proof (rule evo_tryExec)
  fix d d' assume P: "status_in pid [Pay_executing] d" and u: "updatePaymentResultWithClient now pid r d = Inr d'"
  let ?a = "pr_transaction_reference r" and ?b = "pr_provider_reference r"
  let ?f = "\<lambda>p. p\<lparr>pay_status := Pay_funded, pay_transaction_ref := Some ?a, pay_provider_ref := Some ?b, pay_funded_at := Some now\<rparr>"
  have step: "life_step p (?f p) \<and> pay_status (?f p) \<in> set [Pay_executing, Pay_funded]"
    if "p \<in> set (t_payments d)" "pay_id p = pid" for p
    using life_step.fund [where p = p and a = ?a and b = ?b and t = now] P that by (simp add: status_in_def)
  consider "d' = d" | "d' = d\<lparr>t_payments := update_where (\<lambda>p. pay_id p = pid) ?f (t_payments d)\<rparr>"
    using u assms by (auto simp: updatePaymentResultWithClient_def split: option.splits if_splits)
  then show "evolves d d' \<and> status_in pid [Pay_executing, Pay_funded] d'"
  proof cases
    case 2
    then show ?thesis by (rule evo_row_update) (use step in simp_all)
  qed (use P in \<open>auto simp: evolves_same elim: status_in_mono\<close>)
qed (auto elim: status_in_mono)

lemma evo_confirm:
  "evo (status_in pid [Pay_executing]) (tryExecS (recordPendingConfirmationWithClient pid r)) (status_in pid [Pay_executing])"
proof (rule evo_tryExec)
  fix d d' assume P: "status_in pid [Pay_executing] d" and u: "recordPendingConfirmationWithClient pid r d = Inr d'"
  let ?a = "pr_transaction_reference r" and ?b = "pr_provider_reference r"
  let ?f = "\<lambda>p. p\<lparr>pay_transaction_ref := Some ?a, pay_provider_ref := Some ?b\<rparr>"
  have step: "life_step p (?f p) \<and> pay_status (?f p) \<in> set [Pay_executing]"
    if "p \<in> set (t_payments d)" "pay_id p = pid" for p
    using life_step.confirm [where p = p and a = ?a and b = ?b] P that by (simp add: status_in_def)
  have "d' = d\<lparr>t_payments := update_where (\<lambda>p. pay_id p = pid) ?f (t_payments d)\<rparr>"
    using u by (auto simp: recordPendingConfirmationWithClient_def split: if_splits)
  then show "evolves d d' \<and> status_in pid [Pay_executing] d'"
    by (rule evo_row_update) (use step in simp_all)
qed

lemma evo_invoice_status:
  "evo (status_in pid sts) (execS (payments_updateInvoiceStatus t i new expected)) (status_in pid sts)"
  "evo pay_keys (execS (payments_updateInvoiceStatus t i new expected)) pay_keys"
  by (rule evo_exec; auto simp: payments_updateInvoiceStatus_def intro: evolves_same)+


subsection \<open>Execution\<close>

text \<open>What the service relies on from a provider: a call does not write the database.\<close>

locale payment_provider_contract =
  fixes execute :: provider_fn
  assumes execute_keeps_db: "keeps_db (execute p key)"
begin

lemma evo_handleFailed:
  assumes "\<not> pr_success r"
  shows "evo (status_in (pay_id p) [Pay_executing, Pay_funded, Pay_failed]) (handleFailedPayment p r)
           (status_in (pay_id p) [Pay_executing, Pay_funded, Pay_failed])"
  unfolding handleFailedPayment_def
proof (rule evo_then)
  show "evo (status_in (pay_id p) [Pay_executing, Pay_funded, Pay_failed])
      (enqueueS Payments_notification ''payment_failed'' [(''paymentId'', JStr (pay_id p)),
         (''invoiceId'', JStr (pay_invoice p)), (''type'', JStr ''finance_manager_notify'')])
      (status_in (pay_id p) [Pay_executing, Pay_funded, Pay_failed])"
    by (intro evo_keeps_db atomic_intro)
qed (intro evo_transaction evo_bind [OF evo_keeps_db] evo_then [OF evo_update_failed] assms evo_audit atomic_intro)

lemma evo_handleSuccessful:
  assumes "pr_success r"
  shows "evo (status_in (pay_id p) [Pay_executing]) (handleSuccessfulPayment p r)
           (status_in (pay_id p) [Pay_executing, Pay_funded])"
proof -
  have n: "keeps_db (notifyPaymentFunded p)"
    unfolding notifyPaymentFunded_def queueSupplierNotification_def queueFacilityDrawdown_def queueCollectionMonitoring_def
    by (intro atomic_intro)
  have t: "evo (status_in (pay_id p) [Pay_executing]) (recordSuccessfulPaymentTxn p r)
      (status_in (pay_id p) [Pay_executing, Pay_funded])"
    unfolding recordSuccessfulPaymentTxn_def
    by (intro evo_transaction evo_bind [OF evo_keeps_db] evo_then [OF evo_update_funded] evo_then [OF evo_invoice_status(1)]
        assms evo_audit atomic_intro) (auto elim: status_in_mono)
  show ?thesis unfolding handleSuccessfulPayment_def by (rule evo_then [OF t evo_keeps_db [OF n]])
qed

lemma evo_pending:
  "evo (status_in (pay_id p) [Pay_executing]) (handlePendingConfirmation p r) (status_in (pay_id p) [Pay_executing])"
  unfolding handlePendingConfirmation_def by (intro evo_transaction evo_then [OF evo_confirm] evo_audit)

lemma evo_route:
  "evo (status_in (pay_id p) [Pay_executing]) (routeProviderResult p r)
     (status_in (pay_id p) [Pay_executing, Pay_funded, Pay_failed])"
proof -
  consider "pr_success r" "pr_pending_confirmation r" | "pr_success r" "\<not> pr_pending_confirmation r" | "\<not> pr_success r" by blast
  then show ?thesis
  proof cases
    case 1
    then show ?thesis unfolding routeProviderResult_def
      by (simp add: evo_weaken [OF evo_pending] status_in_mono [where sts = "[Pay_executing]"])
  next
    case 2
    then show ?thesis unfolding routeProviderResult_def
      by (simp add: evo_weaken [OF evo_handleSuccessful] status_in_mono [where sts = "[Pay_executing, Pay_funded]"])
  next
    case 3
    then show ?thesis unfolding routeProviderResult_def
      by (simp add: evo_weaken [OF evo_handleFailed] status_in_mono [where sts = "[Pay_executing]"])
  qed
qed

lemma evo_call:
  "evo (status_in (pay_id p) [Pay_executing]) (callProviderAndHandle p execute)
     (status_in (pay_id p) [Pay_executing, Pay_funded, Pay_failed])"
  unfolding callProviderAndHandle_def
proof (rule evo_catch)
  show "evo (status_in (pay_id p) [Pay_executing])
      (bindS (execute p (pay_idempotency_key p)) (\<lambda>r. thenS (routeProviderResult p r) (returnS r)))
      (status_in (pay_id p) [Pay_executing, Pay_funded, Pay_failed])"
    by (intro evo_bind [OF evo_keeps_db [OF execute_keeps_db]] evo_then [OF evo_route] evo_keeps_db atomic_intro)
      (auto elim: status_in_mono)
next
  fix e
  have "\<not> pr_success (fail_result p e)" by (simp add: fail_result_def)
  then show "evo (status_in (pay_id p) [Pay_executing, Pay_funded, Pay_failed])
      (thenS (handleFailedPayment p (fail_result p e)) (returnS (fail_result p e)))
      (status_in (pay_id p) [Pay_executing, Pay_funded, Pay_failed])"
    by (intro evo_then [OF evo_handleFailed] evo_keeps_db atomic_intro)
qed

end

interpretation eft: payment_provider_contract BankEftProvider_execute
  by unfold_locales (auto simp: BankEftProvider_execute_def Let_def intro!: atomic_intro)

interpretation mock: payment_provider_contract MockProvider_execute
  by unfold_locales (auto simp: MockProvider_execute_def intro!: atomic_intro)

lemma registered_providers:
  assumes "initPaymentProviders env [] = Inr reg" and "map_of reg prov = Some f"
  shows "payment_provider_contract f"
proof -
  have "f = BankEftProvider_execute \<or> f = MockProvider_execute"
    using assms by (cases prov) (auto simp: initPaymentProviders_def registerProvider_def bindE_succ split: if_splits)
  then show ?thesis using eft.payment_provider_contract_axioms mock.payment_provider_contract_axioms by blast
qed

lemma evo_executePayment:
  assumes reg: "initPaymentProviders env [] = Inr reg"
  shows "evo pay_keys (executePayment reg pid) pay_keys"
  unfolding evo_def
proof (intro allI impI)
  fix w :: world assume k: "pay_keys (db w)"
  let ?g = "\<lambda>p. bindS (checkIdempotency p) (\<lambda>r. case r of Some r \<Rightarrow> returnS r
       | None \<Rightarrow> bindS (resolveProvider reg p) (callProviderAndHandle p))"
  have idem: "keeps_db (checkIdempotency p)" for p
    unfolding checkIdempotency_def by (intro atomic_intro) (auto intro!: atomic_intro split: option.splits)
  have call: "evo (status_in (pay_id p) [Pay_executing]) (?g p) (status_in (pay_id p) [Pay_executing, Pay_funded, Pay_failed])" for p
  proof (rule evo_bind [OF evo_keeps_db [OF idem]])
    fix r
    have 1: "evo (status_in (pay_id p) [Pay_executing]) (bindS (resolveProvider reg p) (callProviderAndHandle p))
        (status_in (pay_id p) [Pay_executing, Pay_funded, Pay_failed])"
    proof (cases "map_of reg (pay_provider p)")
      case None
      then show ?thesis by (auto simp: evo_def resolveProvider_def evolves_same elim: status_in_mono)
    next
      case (Some f)
      then show ?thesis using payment_provider_contract.evo_call [OF registered_providers [OF reg Some], of p]
        by (simp add: evo_def resolveProvider_def)
    qed
    have 2: "evo (status_in (pay_id p) [Pay_executing]) (returnS x) (status_in (pay_id p) [Pay_executing, Pay_funded, Pay_failed])" for x :: provider_result
      by (auto simp: evo_def evolves_same elim: status_in_mono)
    show "evo (status_in (pay_id p) [Pay_executing]) (case r of Some r \<Rightarrow> returnS r
       | None \<Rightarrow> bindS (resolveProvider reg p) (callProviderAndHandle p)) (status_in (pay_id p) [Pay_executing, Pay_funded, Pay_failed])"
      using 1 2 by (cases r) auto
  qed (auto elim: status_in_mono)
  have "evolves (db w) (db (snd (executePayment reg pid w)))"
  proof (cases "getPaymentById pid (db w)")
    case None
    then show ?thesis by (simp add: executePayment_def loadExecutablePayment_def evolves_same)
  next
    case (Some p)
    then have p: "p \<in> set (t_payments (db w))" "pay_id p = pid" by (auto simp: getPaymentById_def dest: select_one_Some)
    show ?thesis
    proof (cases "pay_status p = Pay_executing")
      case True
      then have "status_in (pay_id p) [Pay_executing] (db w)"
        using k p by (auto simp: status_in_def distinct_map dest: inj_onD)
      moreover have "executePayment reg pid w = ?g p w"
        using Some True by (simp add: executePayment_def loadExecutablePayment_def)
      ultimately show ?thesis using call [of p] by (simp add: evo_def)
    qed (use Some in \<open>simp add: executePayment_def loadExecutablePayment_def evolves_same\<close>)
  qed
  then show "evolves (db w) (db (snd (executePayment reg pid w))) \<and> pay_keys (db (snd (executePayment reg pid w)))"
    using k evolves_keys by blast
qed


subsection \<open>The other operations\<close>

lemma evo_keep: "keeps_db m \<Longrightarrow> evo pay_keys m pay_keys"
  by (rule evo_keeps_db)

lemma evo_keys_then: "evo pay_keys m pay_keys \<Longrightarrow> evo pay_keys k pay_keys \<Longrightarrow> evo pay_keys (thenS m k) pay_keys"
  by (rule evo_then)

lemma evo_for: "(\<And>x. evo P (f x) P) \<Longrightarrow> evo P (forS f xs) P"
proof (induction xs)
  case Nil
  then show ?case by (simp add: evo_def evolves_same)
next
  case (Cons x xs)
  then show ?case by (auto intro: evo_then)
qed

lemma evo_checked:
  "(\<And>d d'. pay_keys d \<Longrightarrow> f d = Inr d' \<Longrightarrow> evolves d d') \<Longrightarrow> evo pay_keys (tryExecS f) pay_keys"
  by (rule evo_tryExec) (auto intro: evolves_keys)

lemma evo_statement: "(\<And>d. pay_keys d \<Longrightarrow> evolves d (f d)) \<Longrightarrow> evo pay_keys (execS f) pay_keys"
  by (rule evo_exec) (auto intro: evolves_keys)

text \<open>
  The authorisation statement: identifiers being unique, the row it checks is the only row it writes.
\<close>

lemma evo_update_returning:
  assumes "\<And>d p. q p \<Longrightarrow> auth_row_ok d (f p) = Inr (f p) \<Longrightarrow> life_step p (f p)"
    and "\<And>p p'. q p \<Longrightarrow> q p' \<Longrightarrow> pay_id p = pay_id p'"
  shows "evo pay_keys (update_payment_returning q f) pay_keys"
  unfolding evo_def
proof (intro allI impI)
  fix w :: world assume k: "pay_keys (db w)"
  let ?r = "update_payment_returning q f w"
  have ok: "auth_row_ok d p = Inr p' \<longleftrightarrow> auth_row_ok d p = Inr p \<and> p' = p" for d p p'
    by (auto simp: auth_row_ok_def)
  have "evolves (db w) (db (snd ?r))"
  proof (cases "select_one q (t_payments (db w))")
    case None
    then show ?thesis by (simp add: update_payment_returning_def evolves_same)
  next
    case (Some p)
    then have p: "p \<in> set (t_payments (db w))" "q p" by (auto dest: select_one_Some)
    show ?thesis
    proof (cases "auth_row_ok (db w) (f p)")
      case (Inl e)
      then show ?thesis using Some by (simp add: update_payment_returning_def evolves_same)
    next
      case (Inr p')
      have "p'' = p" if "p'' \<in> set (t_payments (db w))" "q p''" for p''
        using that p k assms(2) by (meson distinct_map inj_onD)
      then have step: "life_step p'' (f p'')" if "p'' \<in> set (t_payments (db w))" "q p''" for p''
        using that assms(1) [OF p(2)] ok [of "db w" "f p" p'] Inr by blast
      have "db (snd ?r) = (db w)\<lparr>t_payments := update_where q f (t_payments (db w))\<rparr>"
        using Some Inr by (simp add: update_payment_returning_def)
      then show ?thesis by (intro evolves_update [where q = q and f = f] step) simp_all
    qed
  qed
  then show "evolves (db w) (db (snd ?r)) \<and> pay_keys (db (snd ?r))" using k evolves_keys by blast
qed

lemma evo_recordFirstAuth: "evo pay_keys (recordFirstAuthWithClient pid u) pay_keys"
  unfolding recordFirstAuthWithClient_def
  by (intro evo_bind [OF evo_keep] evo_update_returning atomic_intro) (auto intro: life_step.first_auth)

lemma evo_recordSecondAuth: "evo pay_keys (recordSecondAuthWithClient pid u) pay_keys"
  unfolding recordSecondAuthWithClient_def
proof (intro evo_bind [OF evo_keep] evo_update_returning atomic_intro)
  fix now d and p :: payment assume q: "pay_id p = pid \<and> pay_status p = Pay_pending_second_auth"
  let ?p = "p\<lparr>pay_auth_user_2 := Some u, pay_auth_time_2 := Some now, pay_status := Pay_executing\<rparr>"
  assume "auth_row_ok d ?p = Inr ?p"
  then have "pay_auth_user_1 p \<noteq> Some u" by (auto simp: auth_row_ok_def)
  then show "life_step p ?p" using q by (intro life_step.second_auth) auto
qed auto

lemma keeps_db_catch [atomic_intro]: "keeps_db m \<Longrightarrow> (\<And>e. keeps_db (h e)) \<Longrightarrow> keeps_db (catchS m h)"
  unfolding keeps_db_def catchS_def by (auto split: prod.splits sum.splits) (metis snd_conv)+

lemma lock_keeps_db: "keeps_db (lockPaymentOrThrow pid)"
proof -
  have "keeps_db (getPaymentByIdForUpdate pid)"
    by (auto simp: getPaymentByIdForUpdate_def keeps_db_def split: option.splits)
  then show ?thesis unfolding lockPaymentOrThrow_def by (intro atomic_intro) (auto intro: atomic_intro)
qed

lemma check2fa_keeps_db: "keeps_db (check2faRecency u)"
  unfolding check2faRecency_def by (intro atomic_intro)

lemma evo_businessHours: "evo pay_keys (checkBusinessHours u pid ip ua) pay_keys"
  unfolding checkBusinessHours_def
proof (rule evo_bind [OF evo_keep])
  fix now show "evo pay_keys (whenS (after_hours now) (createAuditEntry e)) pay_keys" for e
    by (cases "after_hours now") (use evo_audit(2) in \<open>auto simp: evo_def evolves_same\<close>)
qed (auto intro: atomic_intro)

lemma evo_authoriseFirstAuth: "evo pay_keys (authoriseFirstAuth pid u ip ua c) pay_keys"
  unfolding authoriseFirstAuth_def recordFirstAuthTxn_def validatePaymentStatus_def
  by (intro evo_then [OF evo_keep [OF check2fa_keeps_db]] evo_then [OF evo_businessHours] evo_transaction
      evo_bind [OF evo_keep [OF lock_keeps_db]] evo_then [OF evo_keep] evo_bind [OF evo_recordFirstAuth]
      evo_bind [OF evo_keep] evo_then [OF evo_audit(2)] evo_keep atomic_intro)

lemma evo_authoriseSecondAuth: "evo pay_keys (authoriseSecondAuth pid u ip ua c) pay_keys"
  unfolding authoriseSecondAuth_def recordSecondAuthTxn_def validatePaymentStatus_def guardDifferentAuthoriser_def
  by (intro evo_then [OF evo_keep [OF check2fa_keeps_db]] evo_then [OF evo_businessHours] evo_transaction
      evo_bind [OF evo_keep [OF lock_keeps_db]] evo_then [OF evo_keep] evo_bind [OF evo_recordSecondAuth]
      evo_bind [OF evo_keep] evo_then [OF evo_audit(2)] evo_keep atomic_intro)

lemma evo_createPayment: "evo pay_keys (tryExecS (createPaymentWithClient now x)) pay_keys"
proof (rule evo_checked)
  fix d d' assume "createPaymentWithClient now x d = Inr d'"
  then have n: "\<not> list_ex (\<lambda>p. pay_id p = cpi_id x \<or> pay_invoice p = cpi_invoice x \<or> pay_idempotency_key p = cpi_key x) (t_payments d)"
    and d': "t_payments d' = t_payments d @ [new_payment now x]"
    by (auto simp: createPaymentWithClient_def bindE_succ split: if_splits)
  show "evolves d d'" by (rule evolves_insert [OF d']) (use n in \<open>auto simp: list_ex_iff\<close>)
qed

lemma evo_createPaymentTxn: "evo pay_keys (createPaymentTxn pid i iv prov key) pay_keys"
  unfolding createPaymentTxn_def insertPaymentAndAuditWithClient_def
  by (intro evo_keys_then evo_transaction evo_bind [OF evo_keep] evo_createPayment evo_invoice_status(2) evo_audit(2) atomic_intro)
    (assumption | intro evo_keep atomic_intro)+


lemma keeps_db_validate: "keeps_db (validateInvoiceForPayment env i)"
  unfolding validateInvoiceForPayment_def guardInvoiceApproved_def guardAmlCleared_def guardCollateralSufficient_def Let_def
  by (intro atomic_intro)

lemma keeps_db_facility: "keeps_db (checkFacilityAvailability a)"
  unfolding checkFacilityAvailability_def by (intro atomic_intro) (auto intro!: atomic_intro split: list.split)

lemma evo_initiatePayment: "evo pay_keys (initiatePayment env pid key i) pay_keys"
  unfolding initiatePayment_def checkKillSwitch_def
proof (intro evo_then [OF evo_keep] evo_bind [OF evo_keep] keeps_db_validate keeps_db_facility atomic_intro)
  fix x :: "invoice \<times> string" and r
  have "evo pay_keys (thenS (createPaymentTxn pid i (fst x) (mapProvider (snd x)) key) (fetchCreatedPayment pid)) pay_keys"
    unfolding fetchCreatedPayment_def by (rule evo_then [OF evo_createPaymentTxn evo_keep]) (intro atomic_intro)
  then show "evo pay_keys (case r of None \<Rightarrow> thenS (createPaymentTxn pid i (fst x) (mapProvider (snd x)) key)
      (fetchCreatedPayment pid) | Some p \<Rightarrow> returnS p) pay_keys"
    by (cases r) (auto simp: evo_def evolves_same)
qed

lemma evo_killSwitch: "evo pay_keys (activateKillSwitch u reason ip ua) pay_keys"
proof -
  have s: "evo pay_keys (execS (setSystemSettingWithClient k v)) pay_keys" for k v
    by (rule evo_statement) (simp add: setSystemSettingWithClient_def evolves_same)
  have f: "evo pay_keys (failExecutingPaymentsWithClient m) pay_keys" for m
    unfolding failExecutingPaymentsWithClient_def
  proof (intro evo_bind [OF evo_keep] evo_then [OF evo_statement] evo_keep atomic_intro)
    fix d
    show "evolves d (d\<lparr>t_payments := update_where (\<lambda>p. pay_status p = Pay_executing)
        (\<lambda>p. p\<lparr>pay_status := Pay_failed, pay_failure_reason := Some m\<rparr>) (t_payments d)\<rparr>)"
      by (rule evolves_update [where q = "\<lambda>p. pay_status p = Pay_executing"]) (auto intro: life_step.fail)
  qed
  show ?thesis unfolding activateKillSwitch_def
    by (intro evo_transaction evo_then [OF s] evo_bind [OF f] evo_then [OF evo_for] evo_then [OF evo_audit(2)] evo_audit(2))
      (intro evo_keep atomic_intro)+
qed

lemma evo_deactivate: "evo pay_keys (deactivateKillSwitch u reason ip ua) pay_keys"
proof -
  have s: "evo pay_keys (execS (setSystemSettingWithClient k v)) pay_keys" for k v
    by (rule evo_statement) (simp add: setSystemSettingWithClient_def evolves_same)
  show ?thesis unfolding deactivateKillSwitch_def by (intro evo_transaction evo_then [OF s] evo_audit(2))
qed

lemma evo_sla: "evo pay_keys payments_checkSlaBreaches pay_keys"
  unfolding payments_checkSlaBreaches_def payments_queueSlaEscalation_def
  by (intro evo_bind [OF evo_keep] evo_for evo_then [OF evo_audit(2)] atomic_intro) (intro evo_keep atomic_intro)+

lemma evo_worker: "evo pay_keys (handleTerminalWorkerFailure i code) pay_keys"
  unfolding handleTerminalWorkerFailure_def writeTerminalFailureAudit_def notifyWorkerExhaustion_def
  by (intro evo_keys_then evo_transaction evo_audit(2)) (assumption | intro evo_keep atomic_intro)+

section \<open>Runs of the payment service\<close>

text \<open>
  One step of the system: a call of a payment operation, whatever it returns, or a step that does
  not touch the payments (time, other services, failures of the infrastructure).
\<close>

inductive payment_step :: "(string \<Rightarrow> string option) \<Rightarrow> world \<Rightarrow> world \<Rightarrow> bool" for env where
  initiate: "payment_step env w (snd (initiatePayment aml pid key i w))"
| first: "payment_step env w (snd (authoriseFirstAuth pid u ip ua c w))"
| second: "payment_step env w (snd (authoriseSecondAuth pid u ip ua c w))"
| execute: "initPaymentProviders env [] = Inr reg \<Longrightarrow> payment_step env w (snd (executePayment reg pid w))"
| halt: "payment_step env w (snd (activateKillSwitch u reason ip ua w))"
| resume: "payment_step env w (snd (deactivateKillSwitch u reason ip ua w))"
| sla: "payment_step env w (snd (payments_checkSlaBreaches w))"
| worker_failure: "payment_step env w (snd (handleTerminalWorkerFailure i code w))"
| other: "t_payments (db w') = t_payments (db w) \<Longrightarrow> payment_step env w w'"

inductive_cases payment_stepE: "payment_step env w w'"

lemma payment_step_evolves: "payment_step env w w' \<Longrightarrow> pay_keys (db w) \<Longrightarrow> evolves (db w) (db w')"
proof (induction rule: payment_step.induct)
  case (execute reg w pid)
  then show ?case using evo_executePayment by (simp add: evo_def)
next
  case (other w' w)
  then show ?case by (simp add: evolves_same)
qed (use evo_initiatePayment evo_authoriseFirstAuth evo_authoriseSecondAuth evo_killSwitch evo_deactivate evo_sla evo_worker
     in \<open>simp_all add: evo_def\<close>)

lemma evolves_runs:
  assumes "(payment_step env)\<^sup>*\<^sup>* w w'" and "pay_keys (db w)"
  shows "evolves (db w) (db w')"
  using assms
proof (induction rule: rtranclp_induct)
  case base
  then show ?case by (simp add: evolves_same)
next
  case (step w1 w2)
  then show ?case using payment_step_evolves evolves_keys evolves_trans by blast
qed

text \<open>What every life that starts with a fresh row keeps.\<close>

definition dual_auth :: "payment \<Rightarrow> bool" where
  "dual_auth p \<longleftrightarrow>
     (case pay_status p of
        Pay_pending_first_auth \<Rightarrow> pay_auth_user_1 p = None \<and> pay_auth_user_2 p = None
      | Pay_pending_second_auth \<Rightarrow> pay_auth_user_1 p \<noteq> None \<and> pay_auth_user_2 p = None
      | Pay_reversed \<Rightarrow> False
      | _ \<Rightarrow> pay_auth_user_1 p \<noteq> None \<and> pay_auth_user_2 p \<noteq> None \<and> pay_auth_user_1 p \<noteq> pay_auth_user_2 p)
     \<and> (pay_funded_at p \<noteq> None \<longrightarrow> pay_status p \<in> {Pay_funded, Pay_failed})
     \<and> (pay_status p = Pay_funded \<longrightarrow> pay_funded_at p \<noteq> None)"

lemma life_step_dual_auth: "life_step p q \<Longrightarrow> dual_auth p \<Longrightarrow> dual_auth q"
  by (induction rule: life_step.induct) (auto simp: dual_auth_def)

lemma life_dual_auth: "life_step\<^sup>*\<^sup>* p q \<Longrightarrow> dual_auth p \<Longrightarrow> dual_auth q"
  by (induction rule: rtranclp_induct) (auto intro: life_step_dual_auth)

lemma evolves_dual_auth:
  assumes "evolves d d'" and "list_all dual_auth (t_payments d)"
  shows "list_all dual_auth (t_payments d')"
proof -
  obtain g new where g: "t_payments d' = map g (t_payments d) @ new"
    "\<forall>p \<in> set (t_payments d). life_step\<^sup>*\<^sup>* p (g p)" "\<forall>q \<in> set new. \<exists>p. new_row p \<and> life_step\<^sup>*\<^sup>* p q"
    using assms(1) unfolding evolves_def by blast
  have "dual_auth p" if "new_row p" for p using that by (auto simp: new_row_def new_payment_def dual_auth_def)
  then show ?thesis using g assms(2) life_dual_auth by (fastforce simp: list_all_iff)
qed

end
