(* ===== verification/Payments_Props.thy ===== *)
theory Payments_Props
  imports Payments_Life
begin

text \<open>
  What the operations of the payment service do: the two authorisations and the initiation on every
  branch, execution with a pending confirmation and with a failing queue, the kill switch, the business hours, and the
  refinement and dual-authorisation theorems on runs, each with a concrete instance.
\<close>

section \<open>Authorisation\<close>

definition second_auth_audit :: "string \<Rightarrow> string \<Rightarrow> string option \<Rightarrow> string option \<Rightarrow> string option \<Rightarrow> audit_entry" where
  "second_auth_audit pid u ip ua c = audit_req (Some u) ''PAYMENT_SECOND_AUTH'' ''payments'' pid
     (Some [(''status'', JStr ''pending_second_auth'')])
     [(''status'', JStr ''executing''), (''authUser'', JStr u), (''comment'', json_opt c)] ip ua"

definition first_auth_audit :: "string \<Rightarrow> string \<Rightarrow> string option \<Rightarrow> string option \<Rightarrow> string option \<Rightarrow> audit_entry" where
  "first_auth_audit pid u ip ua c = audit_req (Some u) ''PAYMENT_FIRST_AUTH'' ''payments'' pid
     (Some [(''status'', JStr ''pending_first_auth'')])
     [(''status'', JStr ''pending_second_auth''), (''authUser'', JStr u), (''comment'', json_opt c)] ip ua"

definition after_hours_audit :: "string \<Rightarrow> string \<Rightarrow> string option \<Rightarrow> string option \<Rightarrow> int \<Rightarrow> audit_entry list" where
  "after_hours_audit u pid ip ua now =
     (if after_hours now
      then [audit_req (Some u) ''AFTER_HOURS_PAYMENT'' ''payments'' pid
            (Some [(''eatHour'', JInt (getEatHour now)), (''eatDay'', JInt (getEatDay now)),
                   (''isWeekend'', JBool (getEatDay now = 0 \<or> getEatDay now = 6))])
            [(''flaggedForReview'', JBool True)] ip ua] else [])"

definition recent_2fa :: "db \<Rightarrow> int \<Rightarrow> string \<Rightarrow> bool" where
  "recent_2fa d now u \<longleftrightarrow> (\<exists>t. getLast2faVerifiedAt u d = Some t \<and> now - t \<le> 60 * 60 * 1000)"

lemma check2fa_run:
  "check2faRecency u w = (if recent_2fa (db w) (clock w) u then (Inr (), w)
     else (Inl (BusinessRuleError ''TWO_FA_REVERIFICATION_REQUIRED''), w))"
  by (cases "getLast2faVerifiedAt u (db w)")
    (auto simp: check2faRecency_def recent_2fa_def TWO_FA_RECENCY_MS_def run_guard)

abbreviation audited :: "world \<Rightarrow> audit_entry list \<Rightarrow> world" where
  "audited w es \<equiv> w\<lparr>db := (db w)\<lparr>t_audit := t_audit (db w) @ es\<rparr>\<rparr>"

lemma businessHours_run:
  "audit_ok (db w) (Some u) \<Longrightarrow>
     checkBusinessHours u pid ip ua w = (Inr (), audited w (after_hours_audit u pid ip ua (clock w)))"
  by (simp add: checkBusinessHours_def after_hours_audit_def)

lemma getPaymentById_frame [simp]:
  "getPaymentById i (d\<lparr>t_audit := a\<rparr>) = getPaymentById i d"
  "getPaymentById i (d\<lparr>t_invoices := b\<rparr>) = getPaymentById i d"
  by (simp_all add: getPaymentById_def)

lemma user_exists_frame [simp]:
  "user_exists (d\<lparr>t_audit := a\<rparr>) u = user_exists d u" "user_exists (d\<lparr>t_payments := b\<rparr>) u = user_exists d u"
  by (cases u; simp add: user_exists_def)+

lemma auth_row_ok_frame [simp]: "auth_row_ok (d\<lparr>t_audit := a\<rparr>) p = auth_row_ok d p"
  by (simp add: auth_row_ok_def)

lemma lock_run:
  "lockPaymentOrThrow pid w =
     (case getPaymentById pid (db w) of None \<Rightarrow> (Inl (NotFoundError ''Payment'' pid), w)
      | Some p \<Rightarrow> if pid \<in> set (row_locks w) then (Inl (BusinessRuleError ''PAYMENT_WRONG_STATUS''), w) else (Inr p, w))"
  by (auto simp: lockPaymentOrThrow_def getPaymentByIdForUpdate_def catchS_def bindS_def split: option.splits)

lemma select_status:
  "select_one (\<lambda>p. pay_id p = i) rs = Some p \<Longrightarrow> pay_status p = st \<Longrightarrow>
     select_one (\<lambda>p. pay_id p = i \<and> pay_status p = st) rs = Some p"
  by (induction rs) (auto split: if_splits)

lemma audit_missing_columns:
  "\<not> audit_ok (db w) (aud_user e) \<Longrightarrow> user_exists (db w) (aud_user e) \<Longrightarrow> createAuditEntry e w = (Inl (DbError ''42703''), w)"
  by (simp add: createAuditEntry_def tryExecS_def insert_audit_def audit_ok_def)

lemma second_auth_txn:
  assumes u: "user_exists (db w) (Some u)"
  shows "recordSecondAuthTxn pid u ip ua c w =
     (case getPaymentById pid (db w) of None \<Rightarrow> (Inl (NotFoundError ''Payment'' pid), w)
      | Some p \<Rightarrow>
          if pid \<in> set (row_locks w) \<or> pay_status p \<noteq> Pay_pending_second_auth
          then (Inl (BusinessRuleError ''PAYMENT_WRONG_STATUS''), w)
          else if pay_auth_user_1 p = Some u then (Inl (BusinessRuleError ''SAME_AUTHORISER''), w)
          else if \<not> user_exists (db w) (pay_auth_user_1 p) then (Inl (DbError ''23503''), w)
          else if \<not> audit_ok (db w) (Some u) then (Inl (DbError ''42703''), w)
          else (Inr (p\<lparr>pay_auth_user_2 := Some u, pay_auth_time_2 := Some (clock w), pay_status := Pay_executing\<rparr>),
                w\<lparr>db := (db w)\<lparr>
                     t_payments := update_where (\<lambda>p. pay_id p = pid \<and> pay_status p = Pay_pending_second_auth)
                       (\<lambda>p. p\<lparr>pay_auth_user_2 := Some u, pay_auth_time_2 := Some (clock w), pay_status := Pay_executing\<rparr>)
                       (t_payments (db w)),
                     t_audit := t_audit (db w) @ [second_auth_audit pid u ip ua c]\<rparr>\<rparr>))"
proof (cases "getPaymentById pid (db w)")
  case None
  then show ?thesis by (simp add: recordSecondAuthTxn_def lock_run)
next
  case (Some p)
  let ?f = "\<lambda>p. p\<lparr>pay_auth_user_2 := Some u, pay_auth_time_2 := Some (clock w), pay_status := Pay_executing\<rparr>"
  let ?q = "\<lambda>p. pay_id p = pid \<and> pay_status p = Pay_pending_second_auth"
  consider "pid \<in> set (row_locks w)"
    | "pid \<notin> set (row_locks w)" "pay_status p \<noteq> Pay_pending_second_auth"
    | "pid \<notin> set (row_locks w)" "pay_status p = Pay_pending_second_auth" "pay_auth_user_1 p = Some u"
    | "pid \<notin> set (row_locks w)" "pay_status p = Pay_pending_second_auth" "pay_auth_user_1 p \<noteq> Some u"
    by blast
  then show ?thesis
  proof cases
    case 4
    have sel: "select_one ?q (t_payments (db w)) = Some p"
      using Some 4(2) by (auto simp: getPaymentById_def intro: select_status)
    have row: "auth_row_ok (db w) (?f p) = (if user_exists (db w) (pay_auth_user_1 p) then Inr (?f p) else Inl (DbError ''23503''))"
      using 4(3) u by (auto simp: auth_row_ok_def split: option.split)
    have rec: "recordSecondAuthWithClient pid u w = (if user_exists (db w) (pay_auth_user_1 p)
        then (Inr (Some (?f p)), w\<lparr>db := (db w)\<lparr>t_payments := update_where ?q ?f (t_payments (db w))\<rparr>\<rparr>)
        else (Inl (DbError ''23503''), w))"
      using sel row by (simp add: recordSecondAuthWithClient_def update_payment_returning_def)
    show ?thesis using Some 4 rec u
      by (simp add: recordSecondAuthTxn_def lock_run validatePaymentStatus_def guardDifferentAuthoriser_def second_auth_audit_def
          audit_missing_columns)
  qed (simp_all add: recordSecondAuthTxn_def lock_run validatePaymentStatus_def guardDifferentAuthoriser_def Some)
qed

lemma second_auth_early:
  assumes "recent_2fa (db w) (clock w) u"
  shows "user_exists (db w) (Some u)"
    "\<not> audit_ok (db w) (Some u) \<Longrightarrow> after_hours (clock w) \<Longrightarrow> authoriseSecondAuth pid u ip ua c w = (Inl (DbError ''42703''), w)"
    "\<not> audit_ok (db w) (Some u) \<Longrightarrow> \<not> after_hours (clock w) \<Longrightarrow>
       authoriseSecondAuth pid u ip ua c w = recordSecondAuthTxn pid u ip ua c w"
proof -
  show u: "user_exists (db w) (Some u)"
    using assms by (auto simp: recent_2fa_def getLast2faVerifiedAt_def user_exists_def list_ex_iff dest: select_one_Some split: option.splits)
  show "\<not> audit_ok (db w) (Some u) \<Longrightarrow> after_hours (clock w) \<Longrightarrow> authoriseSecondAuth pid u ip ua c w = (Inl (DbError ''42703''), w)"
    using assms u by (simp add: authoriseSecondAuth_def check2fa_run checkBusinessHours_def audit_missing_columns)
  show "\<not> audit_ok (db w) (Some u) \<Longrightarrow> \<not> after_hours (clock w) \<Longrightarrow>
      authoriseSecondAuth pid u ip ua c w = recordSecondAuthTxn pid u ip ua c w"
    using assms by (simp add: authoriseSecondAuth_def check2fa_run checkBusinessHours_def)
qed

lemma second_auth_total:
  "authoriseSecondAuth pid u ip ua c w =
     (let w1 = audited w (after_hours_audit u pid ip ua (clock w));
          columns = list_all (\<lambda>k. k \<in> set (audit_columns (db w))) audit_cols in
      if \<not> recent_2fa (db w) (clock w) u then (Inl (BusinessRuleError ''TWO_FA_REVERIFICATION_REQUIRED''), w)
      else if after_hours (clock w) \<and> \<not> columns then (Inl (DbError ''42703''), w)
      else case getPaymentById pid (db w) of None \<Rightarrow> (Inl (NotFoundError ''Payment'' pid), w1)
      | Some p \<Rightarrow>
          if pid \<in> set (row_locks w) \<or> pay_status p \<noteq> Pay_pending_second_auth
          then (Inl (BusinessRuleError ''PAYMENT_WRONG_STATUS''), w1)
          else if pay_auth_user_1 p = Some u then (Inl (BusinessRuleError ''SAME_AUTHORISER''), w1)
          else if \<not> user_exists (db w) (pay_auth_user_1 p) then (Inl (DbError ''23503''), w1)
          else if \<not> columns then (Inl (DbError ''42703''), w1)
          else (Inr (p\<lparr>pay_auth_user_2 := Some u, pay_auth_time_2 := Some (clock w), pay_status := Pay_executing\<rparr>),
                w1\<lparr>db := (db w1)\<lparr>
                     t_payments := update_where (\<lambda>p. pay_id p = pid \<and> pay_status p = Pay_pending_second_auth)
                       (\<lambda>p. p\<lparr>pay_auth_user_2 := Some u, pay_auth_time_2 := Some (clock w), pay_status := Pay_executing\<rparr>)
                       (t_payments (db w)),
                     t_audit := t_audit (db w1) @ [second_auth_audit pid u ip ua c]\<rparr>\<rparr>))"
proof (cases "recent_2fa (db w) (clock w) u")
  case False
  then show ?thesis by (simp add: authoriseSecondAuth_def check2fa_run)
next
  case True
  note early = second_auth_early [OF True]
  show ?thesis
  proof (cases "audit_ok (db w) (Some u)")
    case ok: True
    then have cols: "list_all (\<lambda>k. k \<in> set (audit_columns (db w))) audit_cols" by (simp add: audit_ok_def)
    show ?thesis
      using True ok cols by (simp add: authoriseSecondAuth_def check2fa_run businessHours_run second_auth_txn early(1) Let_def split: option.split)
  next
    case False
    then have cols: "\<not> list_all (\<lambda>k. k \<in> set (audit_columns (db w))) audit_cols" using early(1) by (simp add: audit_ok_def)
    show ?thesis
    proof (cases "after_hours (clock w)")
      case ah: True
      then show ?thesis using early(2) [OF False ah] True cols by (simp add: Let_def)
    next
      case ah: False
      then show ?thesis using False early(1) True cols
        by (simp add: early(3) [OF False ah] second_auth_txn Let_def after_hours_audit_def split: option.split)
    qed
  qed
qed

lemma second_auth_run:
  assumes a: "audit_ok (db w) (Some u)" and p: "getPaymentById pid (db w) = Some p"
    and auth: "pay_auth_user_1 p = Some v" "user_exists (db w) (Some v)"
  shows "authoriseSecondAuth pid u ip ua c w =
     (let w1 = audited w (after_hours_audit u pid ip ua (clock w)) in
      if \<not> recent_2fa (db w) (clock w) u then (Inl (BusinessRuleError ''TWO_FA_REVERIFICATION_REQUIRED''), w)
      else if pid \<in> set (row_locks w) \<or> pay_status p \<noteq> Pay_pending_second_auth
      then (Inl (BusinessRuleError ''PAYMENT_WRONG_STATUS''), w1)
      else if u = v then (Inl (BusinessRuleError ''SAME_AUTHORISER''), w1)
      else (Inr (p\<lparr>pay_auth_user_2 := Some u, pay_auth_time_2 := Some (clock w), pay_status := Pay_executing\<rparr>),
            w1\<lparr>db := (db w1)\<lparr>
                 t_payments := update_where (\<lambda>p. pay_id p = pid \<and> pay_status p = Pay_pending_second_auth)
                   (\<lambda>p. p\<lparr>pay_auth_user_2 := Some u, pay_auth_time_2 := Some (clock w), pay_status := Pay_executing\<rparr>)
                   (t_payments (db w)),
                 t_audit := t_audit (db w1) @ [second_auth_audit pid u ip ua c]\<rparr>\<rparr>))"
  using assms unfolding second_auth_total by (simp add: Let_def audit_ok_def)


lemma first_auth_run:
  assumes a: "audit_ok (db w) (Some u)" and p: "getPaymentById pid (db w) = Some p" and none: "pay_auth_user_2 p = None"
  shows "authoriseFirstAuth pid u ip ua c w =
     (let w1 = audited w (after_hours_audit u pid ip ua (clock w)) in
      if \<not> recent_2fa (db w) (clock w) u then (Inl (BusinessRuleError ''TWO_FA_REVERIFICATION_REQUIRED''), w)
      else if pid \<in> set (row_locks w) \<or> pay_status p \<noteq> Pay_pending_first_auth
      then (Inl (BusinessRuleError ''PAYMENT_WRONG_STATUS''), w1)
      else (Inr (p\<lparr>pay_auth_user_1 := Some u, pay_auth_time_1 := Some (clock w), pay_status := Pay_pending_second_auth\<rparr>),
            w1\<lparr>db := (db w1)\<lparr>
                 t_payments := update_where (\<lambda>p. pay_id p = pid \<and> pay_status p = Pay_pending_first_auth)
                   (\<lambda>p. p\<lparr>pay_auth_user_1 := Some u, pay_auth_time_1 := Some (clock w), pay_status := Pay_pending_second_auth\<rparr>)
                   (t_payments (db w)),
                 t_audit := t_audit (db w1) @ [first_auth_audit pid u ip ua c]\<rparr>\<rparr>))"
proof -
  let ?w1 = "audited w (after_hours_audit u pid ip ua (clock w))"
  let ?p = "p\<lparr>pay_auth_user_1 := Some u, pay_auth_time_1 := Some (clock w), pay_status := Pay_pending_second_auth\<rparr>"
  have head: "authoriseFirstAuth pid u ip ua c w = recordFirstAuthTxn pid u ip ua c ?w1" if "recent_2fa (db w) (clock w) u"
    using that a by (simp add: authoriseFirstAuth_def check2fa_run businessHours_run)
  have lock: "lockPaymentOrThrow pid ?w1 =
      (if pid \<in> set (row_locks w) then (Inl (BusinessRuleError ''PAYMENT_WRONG_STATUS''), ?w1) else (Inr p, ?w1))"
    using p by (simp add: lock_run)
  have ok: "auth_row_ok (db w) ?p = Inr ?p"
    using a none by (simp add: auth_row_ok_def audit_ok_def)
  consider "\<not> recent_2fa (db w) (clock w) u"
    | "recent_2fa (db w) (clock w) u" "pid \<in> set (row_locks w)"
    | "recent_2fa (db w) (clock w) u" "pid \<notin> set (row_locks w)" "pay_status p \<noteq> Pay_pending_first_auth"
    | "recent_2fa (db w) (clock w) u" "pid \<notin> set (row_locks w)" "pay_status p = Pay_pending_first_auth"
    by blast
  then show ?thesis
  proof cases
    case 1
    then show ?thesis by (simp add: authoriseFirstAuth_def check2fa_run)
  next
    case 2
    then show ?thesis using lock by (simp add: head recordFirstAuthTxn_def)
  next
    case 3
    then show ?thesis using lock by (simp add: head recordFirstAuthTxn_def validatePaymentStatus_def)
  next
    case 4
    have sel: "select_one (\<lambda>p. pay_id p = pid \<and> pay_status p = Pay_pending_first_auth) (t_payments (db w)) = Some p"
      using p 4(3) by (auto simp: getPaymentById_def intro: select_status)
    have rec: "recordFirstAuthWithClient pid u ?w1 = (Inr (Some ?p), ?w1\<lparr>db := (db ?w1)\<lparr>
        t_payments := update_where (\<lambda>p. pay_id p = pid \<and> pay_status p = Pay_pending_first_auth)
          (\<lambda>p. p\<lparr>pay_auth_user_1 := Some u, pay_auth_time_1 := Some (clock w), pay_status := Pay_pending_second_auth\<rparr>) (t_payments (db w))\<rparr>\<rparr>)"
      using sel ok by (simp add: recordFirstAuthWithClient_def update_payment_returning_def)
    show ?thesis using 4 lock rec a
      by (simp add: head recordFirstAuthTxn_def validatePaymentStatus_def first_auth_audit_def)
  qed
qed

text \<open>
  the same for the first authorisation, which any user with a recent second factor may give.
\<close>

theorem authoriseFirstAuth_outcome:
  assumes a: "audit_ok (db w) (Some u)" and p: "getPaymentById pid (db w) = Some p" and none: "pay_auth_user_2 p = None"
  shows "authoriseFirstAuth pid u ip ua c w =
     (let w1 = audited w (after_hours_audit u pid ip ua (clock w)) in
      if \<not> recent_2fa (db w) (clock w) u then (Inl (BusinessRuleError ''TWO_FA_REVERIFICATION_REQUIRED''), w)
      else if pid \<in> set (row_locks w) \<or> pay_status p \<noteq> Pay_pending_first_auth
      then (Inl (BusinessRuleError ''PAYMENT_WRONG_STATUS''), w1)
      else (Inr (p\<lparr>pay_auth_user_1 := Some u, pay_auth_time_1 := Some (clock w), pay_status := Pay_pending_second_auth\<rparr>),
            w1\<lparr>db := (db w1)\<lparr>
                 t_payments := update_where (\<lambda>p. pay_id p = pid \<and> pay_status p = Pay_pending_first_auth)
                   (\<lambda>p. p\<lparr>pay_auth_user_1 := Some u, pay_auth_time_1 := Some (clock w), pay_status := Pay_pending_second_auth\<rparr>)
                   (t_payments (db w)),
                 t_audit := t_audit (db w1) @ [first_auth_audit pid u ip ua c]\<rparr>\<rparr>))"
  by (rule first_auth_run [OF assms])

section \<open>Initiation\<close>

interpretation payments_upd: guarded_status_update payments_updateInvoiceStatus
  by unfold_locales (auto simp: payments_updateInvoiceStatus_def)

definition created_audit :: "string \<Rightarrow> payment_provider \<Rightarrow> audit_entry" where
  "created_audit pid prov = audit_sys None ''PAYMENT_CREATED'' ''payments'' pid
     (Some [(''invoiceStatus'', JStr ''approved''), (''paymentStatus'', JNull)])
     [(''invoiceStatus'', JStr ''pending_first_auth''), (''paymentStatus'', JStr ''pending_first_auth''),
      (''provider'', JStr (provider_str prov))]"

text \<open>The gates of \<open>initiatePayment\<close>, in the order in which they are checked.\<close>

definition payment_gates :: "int option \<Rightarrow> string \<Rightarrow> world \<Rightarrow> world \<Rightarrow> invoice \<Rightarrow> int \<Rightarrow> bool" where
  "payment_gates env i w w1 iv amount \<longleftrightarrow>
     getSystemSetting ''payment_kill_switch'' (db w) \<noteq> Some ''true''
     \<and> (\<exists>m. getInvoiceForPayment i (db w) = Some (iv, m)) \<and> inv_status iv = Inv_approved \<and> inv_advance iv = Some amount
     \<and> (inv_face_value iv \<ge> AML_FLAG_THRESHOLD_UGX env \<and> inv_aml_flagged iv \<longrightarrow> inv_aml_cleared_at iv \<noteq> None)
     \<and> (\<exists>cov. checkCoverageRatio i (Some amount) w = (Inr cov, w1) \<and> ccr_sufficient cov)
     \<and> (\<exists>f fs. getActiveFacilities (db w) = f # fs \<and> amount \<le> fac_available f)"

lemma keeps_clock_coverage: "checkCoverageRatio i a w = (r, w1) \<Longrightarrow> clock w1 = clock w \<and> db w1 = db w \<and> jobs w1 = jobs w
   \<and> queue_set w1 = queue_set w \<and> redis_up w1 = redis_up w \<and> row_locks w1 = row_locks w"
  by (auto simp: checkCoverageRatio_def run_getMinCoverageRatio bindS_def requireS_def refreshed_def split: option.splits if_splits)


lemma killSwitch_succ:
  "checkKillSwitch w = (Inr x, w') \<longleftrightarrow> getSystemSetting ''payment_kill_switch'' (db w) \<noteq> Some ''true'' \<and> w' = w"
  by (auto simp: checkKillSwitch_def svc_succ run_guard)

lemma validate_succ:
  "validateInvoiceForPayment env i w = (Inr x, w1) \<longleftrightarrow>
     getInvoiceForPayment i (db w) = Some x \<and> inv_status (fst x) = Inv_approved
     \<and> (inv_face_value (fst x) \<ge> AML_FLAG_THRESHOLD_UGX env \<and> inv_aml_flagged (fst x) \<longrightarrow> inv_aml_cleared_at (fst x) \<noteq> None)
     \<and> (\<exists>cov. checkCoverageRatio i (inv_advance (fst x)) w = (Inr cov, w1) \<and> ccr_sufficient cov)"
  by (cases x) (auto simp: validateInvoiceForPayment_def guardInvoiceApproved_def guardAmlCleared_def Let_def
      guardCollateralSufficient_def svc_succ)

lemma facility_succ:
  "checkFacilityAvailability a w = (Inr x, w') \<longleftrightarrow>
     (\<exists>f fs r. getActiveFacilities (db w) = f # fs \<and> a = Some r \<and> r \<le> fac_available f) \<and> w' = w"
  by (cases "getActiveFacilities (db w)"; cases a) (auto simp: checkFacilityAvailability_def svc_succ run_guard not_less)

definition payment_fits :: "string \<Rightarrow> string \<Rightarrow> string \<Rightarrow> int \<Rightarrow> db \<Rightarrow> bool" where
  "payment_fits pid key i amount d \<longleftrightarrow> 0 < amount \<and> amount < 2 ^ 63
     \<and> \<not> list_ex (\<lambda>p. pay_id p = pid \<or> pay_invoice p = i \<or> pay_idempotency_key p = key) (t_payments d)
     \<and> list_ex (\<lambda>iv. inv_id iv = i) (t_invoices d)"

definition initiated :: "string \<Rightarrow> string \<Rightarrow> string \<Rightarrow> int \<Rightarrow> int \<Rightarrow> payment" where
  "initiated pid key i amount now =
     \<lparr>pay_id = pid, pay_invoice = i, pay_amount = amount, pay_provider = EFT, pay_status = Pay_pending_first_auth,
      pay_idempotency_key = key, pay_auth_user_1 = None, pay_auth_time_1 = None, pay_auth_user_2 = None,
      pay_auth_time_2 = None, pay_transaction_ref = None, pay_provider_ref = None, pay_funded_at = None,
      pay_failure_reason = None, pay_created_at = now\<rparr>"

definition initiated_db :: "string \<Rightarrow> string \<Rightarrow> string \<Rightarrow> int \<Rightarrow> int \<Rightarrow> db \<Rightarrow> db" where
  "initiated_db pid key i amount now d =
     d\<lparr>t_invoices := update_where (\<lambda>r. inv_id r = i \<and> inv_status r = Inv_approved)
          (\<lambda>r. r\<lparr>inv_status := Inv_pending_first_auth, inv_updated_at := now\<rparr>) (t_invoices d),
       t_payments := t_payments d @ [initiated pid key i amount now],
       t_audit := t_audit d @ [created_audit pid EFT]\<rparr>"

lemma createPayment_succ:
  "createPaymentWithClient now \<lparr>cpi_id = pid, cpi_invoice = i, cpi_amount = amount, cpi_provider = EFT, cpi_key = key\<rparr> d = Inr d'
     \<longleftrightarrow> payment_fits pid key i amount d \<and> d' = d\<lparr>t_payments := t_payments d @ [initiated pid key i amount now]\<rparr>"
  by (auto simp: createPaymentWithClient_def payment_fits_def initiated_def new_payment_def bigint_in_def not_le)

lemma payments_update_frame [simp]:
  "t_audit (payments_updateInvoiceStatus t i a b d) = t_audit d"
  "t_payments (payments_updateInvoiceStatus t i a b d) = t_payments d"
  "audit_ok (payments_updateInvoiceStatus t i a b d) u = audit_ok d u"
  by (simp_all add: payments_updateInvoiceStatus_def)

lemma createAuditEntry_ok:
  "createAuditEntry e w = (Inr x, w') \<longleftrightarrow> audit_ok (db w) (aud_user e) \<and> w' = audited w [e]"
  by (simp add: createAuditEntry_succ audit_ok_def)

lemma createTxn_succ:
  assumes "inv_status iv = Inv_approved"
  shows "createPaymentTxn pid i iv EFT key w = (Inr x, w') \<longleftrightarrow>
     (\<exists>amount. inv_advance iv = Some amount \<and> payment_fits pid key i amount (db w) \<and> audit_ok (db w) None
        \<and> w' = w\<lparr>db := initiated_db pid key i amount (clock w) (db w)\<rparr>)"
  by (auto simp: createPaymentTxn_def insertPaymentAndAuditWithClient_def bindS_succ thenS_succ requireS_succ tryExecS_succ
      transactionS_succ createAuditEntry_ok createPayment_succ initiated_db_def payments_updateInvoiceStatus_def assms created_audit_def)

lemma initiate_iff:
  assumes "getPaymentByInvoiceId i (db w) = None"
  shows "initiatePayment env pid key i w = (Inr p, w') \<longleftrightarrow>
    (\<exists>w1 iv amount. payment_gates env i w w1 iv amount \<and> payment_fits pid key i amount (db w) \<and> audit_ok (db w) None
       \<and> p = initiated pid key i amount (clock w) \<and> w' = w1\<lparr>db := initiated_db pid key i amount (clock w) (db w)\<rparr>)"
proof -
  have fetch: "getPaymentById pid (initiated_db pid key i a now d) = Some (initiated pid key i a now)"
    if "payment_fits pid key i a d" for a now d
  proof -
    have "select_one (\<lambda>p. pay_id p = pid) (t_payments d) = None"
      using that by (auto simp: payment_fits_def list_ex_iff select_one_None)
    then show ?thesis
      by (simp add: getPaymentById_def initiated_db_def payments_updateInvoiceStatus_def select_one_append initiated_def new_payment_def)
  qed
  show ?thesis (is "?L \<longleftrightarrow> ?R")
  proof
    assume ?L
    then obtain x w1 where v: "getSystemSetting ''payment_kill_switch'' (db w) \<noteq> Some ''true''"
      "validateInvoiceForPayment env i w = (Inr x, w1)"
      and f: "\<exists>f fs r. getActiveFacilities (db w1) = f # fs \<and> inv_advance (fst x) = Some r \<and> r \<le> fac_available f"
      and c: "(case getPaymentByInvoiceId i (db w1) of None \<Rightarrow> thenS (createPaymentTxn pid i (fst x) (mapProvider (snd x)) key)
             (fetchCreatedPayment pid) | Some p \<Rightarrow> returnS p) w1 = (Inr p, w')"
      unfolding initiatePayment_def thenS_succ bindS_succ killSwitch_succ facility_succ by auto
    obtain cov where cov: "checkCoverageRatio i (inv_advance (fst x)) w = (Inr cov, w1)" "ccr_sufficient cov"
      using v(2) by (auto simp: validate_succ)
    note k = keeps_clock_coverage [OF cov(1)]
    have s: "inv_status (fst x) = Inv_approved" using v(2) by (simp add: validate_succ)
    have "thenS (createPaymentTxn pid i (fst x) EFT key) (fetchCreatedPayment pid) w1 = (Inr p, w')"
      using c assms k by (simp add: mapProvider_def)
    then obtain amount where a: "inv_advance (fst x) = Some amount" "payment_fits pid key i amount (db w)"
      "audit_ok (db w) None" "w' = w1\<lparr>db := initiated_db pid key i amount (clock w) (db w)\<rparr>"
      "p = initiated pid key i amount (clock w)"
      using k fetch by (auto simp: thenS_succ createTxn_succ [OF s] fetchCreatedPayment_def bindS_succ requireS_succ)
    have "payment_gates env i w w1 (fst x) amount"
      unfolding payment_gates_def using v cov f a(1) k by (cases x) (auto simp: validate_succ)
    then show ?R using a by blast
  next
    assume ?R
    then obtain w1 iv amount where g: "payment_gates env i w w1 iv amount" "payment_fits pid key i amount (db w)" "audit_ok (db w) None"
      "p = initiated pid key i amount (clock w)" "w' = w1\<lparr>db := initiated_db pid key i amount (clock w) (db w)\<rparr>" by blast
    obtain m cov where x: "getInvoiceForPayment i (db w) = Some (iv, m)" "checkCoverageRatio i (Some amount) w = (Inr cov, w1)"
      "ccr_sufficient cov" using g(1) by (auto simp: payment_gates_def)
    note k = keeps_clock_coverage [OF x(2)]
    have v: "validateInvoiceForPayment env i w = (Inr (iv, m), w1)" "checkFacilityAvailability (inv_advance iv) w1 = (Inr (), w1)"
      "checkKillSwitch w = (Inr (), w)"
      using g(1) x k by (auto simp: validate_succ facility_succ killSwitch_succ payment_gates_def)
    have "createPaymentTxn pid i iv EFT key w1 = (Inr (), w')"
      using g k by (auto simp: createTxn_succ payment_gates_def)
    moreover have "fetchCreatedPayment pid w' = (Inr p, w')" using fetch [OF g(2)] g(4,5) by (simp add: fetchCreatedPayment_def)
    ultimately show ?L using v assms k by (simp add: initiatePayment_def mapProvider_def)
  qed
qed



text \<open>
  requesting the payment of an invoice is not idempotent: the first request moves the invoice out
  of \<open>approved\<close>, so a second request for the same invoice is refused with
  \<open>INVOICE_WRONG_STATUS\<close>, and the branch that would return the existing payment is not reached.
\<close>

theorem initiatePayment_repeated:
  assumes "getPaymentByInvoiceId i (db w) = None" and "initiatePayment env pid key i w = (Inr p, w')"
  shows "getPaymentByInvoiceId i (db w') = Some p
    \<and> initiatePayment env' pid' key' i w' = (Inl (BusinessRuleError ''INVOICE_WRONG_STATUS''), w')"
proof -
  obtain w1 iv amount where g: "payment_gates env i w w1 iv amount" "payment_fits pid key i amount (db w)"
    "p = initiated pid key i amount (clock w)" "w' = w1\<lparr>db := initiated_db pid key i amount (clock w) (db w)\<rparr>"
    using assms(2) unfolding initiate_iff [OF assms(1)] by blast
  let ?d = "initiated_db pid key i amount (clock w) (db w)"
  obtain m where m: "getInvoiceForPayment i (db w) = Some (iv, m)" and s: "inv_status iv = Inv_approved"
    and kill: "getSystemSetting ''payment_kill_switch'' (db w) \<noteq> Some ''true''"
    using g(1) by (auto simp: payment_gates_def)
  have "select_one (\<lambda>r. inv_id r = i) (t_invoices (db w)) = Some iv"
    using m by (auto simp: getInvoiceForPayment_def split: option.splits)
  then have "select_one (\<lambda>r. inv_id r = i) (t_invoices ?d) =
      Some (iv\<lparr>inv_status := Inv_pending_first_auth, inv_updated_at := clock w\<rparr>)"
    using payments_upd.upd_moves [of i "db w" iv Inv_approved "clock w" Inv_pending_first_auth] s
    by (simp add: initiated_db_def payments_updateInvoiceStatus_def)
  moreover have "t_suppliers ?d = t_suppliers (db w)" "t_system_settings ?d = t_system_settings (db w)"
    by (simp_all add: initiated_db_def payments_updateInvoiceStatus_def)
  ultimately have "getInvoiceForPayment i ?d = Some (iv\<lparr>inv_status := Inv_pending_first_auth, inv_updated_at := clock w\<rparr>, m)"
    "checkKillSwitch w' = (Inr (), w')"
    using m kill g(4) by (auto simp: getInvoiceForPayment_def killSwitch_succ getSystemSetting_def split: option.splits)
  then have "initiatePayment env' pid' key' i w' = (Inl (BusinessRuleError ''INVOICE_WRONG_STATUS''), w')"
    using g(4) by (simp add: initiatePayment_def validateInvoiceForPayment_def guardInvoiceApproved_def)
  moreover have "getPaymentByInvoiceId i (db w') = Some p"
    using assms(1) g(3,4) by (simp add: getPaymentByInvoiceId_def initiated_db_def select_one_append initiated_def new_payment_def)
  ultimately show ?thesis by blast
qed

section \<open>Execution\<close>

lemma preserves_invoices_update:
  "(\<And>r. r \<in> set T \<Longrightarrow> inv_id r = i \<Longrightarrow> inv_status r \<noteq> b) \<Longrightarrow>
     preserves (\<lambda>w. t_invoices (db w) = T) (execS (payments_updateInvoiceStatus t i a b))"
  by (rule preserves_exec) (auto simp: payments_updateInvoiceStatus_def intro: update_where_id)

lemma preserves_invoices_result:
  "preserves (\<lambda>w. t_invoices (db w) = T) (tryExecS (updatePaymentResultWithClient now i r))"
  "preserves (\<lambda>w. t_invoices (db w) = T) (tryExecS (recordPendingConfirmationWithClient i r))"
  by (rule preserves_tryExec; auto simp: updatePaymentResultWithClient_def recordPendingConfirmationWithClient_def
      split: option.splits if_splits)+

lemma preserves_invoices_audit: "preserves (\<lambda>w. t_invoices (db w) = T) (createAuditEntry e)"
  by (rule preserves_createAuditEntry) simp

lemmas preserves_invoices = preserves_invoices_result preserves_invoices_audit preserves_bind preserves_then
  preserves_transaction preserves_now preserves_enqueue preserves_query preserves_return preserves_catch

lemma preserves_keeps_db: "keeps_db m \<Longrightarrow> preserves (\<lambda>w. t_invoices (db w) = T) m"
  by (simp add: preserves_def keeps_db_def)

lemma handle_keeps_invoices:
  assumes "\<And>r. r \<in> set T \<Longrightarrow> inv_id r = pay_invoice p \<Longrightarrow> inv_status r \<noteq> Inv_approved" and "keeps_db (execute p (pay_idempotency_key p))"
  shows "preserves (\<lambda>w. t_invoices (db w) = T) (callProviderAndHandle p execute)"
proof -
  have f: "preserves (\<lambda>w. t_invoices (db w) = T) (handleFailedPayment p r)" for r
    unfolding handleFailedPayment_def by (intro preserves_invoices)
  have s: "preserves (\<lambda>w. t_invoices (db w) = T) (handleSuccessfulPayment p r)" for r
    unfolding handleSuccessfulPayment_def recordSuccessfulPaymentTxn_def notifyPaymentFunded_def queueSupplierNotification_def
      queueFacilityDrawdown_def queueCollectionMonitoring_def
    by (intro preserves_invoices preserves_invoices_update assms(1))
  have c: "preserves (\<lambda>w. t_invoices (db w) = T) (handlePendingConfirmation p r)" for r
    unfolding handlePendingConfirmation_def by (intro preserves_invoices)
  show ?thesis unfolding callProviderAndHandle_def routeProviderResult_def
    by (intro preserves_invoices preserves_keeps_db [OF assms(2)]) (auto intro: f s c)
qed

text \<open>
  execution never moves an invoice that has left \<open>approved\<close>: as \<open>initiatePayment\<close> has moved the
  invoice to \<open>pending_first_auth\<close>, the guarded update to \<open>funded\<close> finds no row, and whatever the
  provider answers the invoices are unchanged.
\<close>

theorem executePayment_keeps_invoices:
  assumes reg: "initPaymentProviders env [] = Inr reg"
    and p: "getPaymentById pid (db w) = Some p"
    and "\<forall>r \<in> set (t_invoices (db w)). inv_id r = pay_invoice p \<longrightarrow> inv_status r \<noteq> Inv_approved"
  shows "t_invoices (db (snd (executePayment reg pid w))) = t_invoices (db w)"
proof (cases "pay_status p = Pay_executing")
  case True
  let ?I = "\<lambda>v. t_invoices (db v) = t_invoices (db w)"
  have idem: "preserves ?I (checkIdempotency p)"
    unfolding checkIdempotency_def by (intro preserves_invoices) (auto split: option.splits)
  have call: "preserves ?I (bindS (resolveProvider reg p) (callProviderAndHandle p))"
  proof (cases "map_of reg (pay_provider p)")
    case (Some f)
    have "keeps_db (f p (pay_idempotency_key p))"
      by (rule payment_provider_contract.execute_keeps_db [OF registered_providers [OF reg Some]])
    then have "preserves ?I (callProviderAndHandle p f)" using assms(3) by (intro handle_keeps_invoices) auto
    then show ?thesis using Some by (simp add: preserves_def resolveProvider_def)
  qed (simp add: preserves_def resolveProvider_def)
  have "preserves ?I (bindS (checkIdempotency p) (\<lambda>r. case r of Some r \<Rightarrow> returnS r
       | None \<Rightarrow> bindS (resolveProvider reg p) (callProviderAndHandle p)))"
    by (rule preserves_bind [OF idem]) (auto intro: call split: option.splits)
  then show ?thesis using p True by (simp add: executePayment_def loadExecutablePayment_def preserves_def)
qed (use p in \<open>simp add: executePayment_def loadExecutablePayment_def\<close>)


lemma execute_run:
  assumes "getPaymentById pid (db w) = Some p" and "pay_status p = Pay_executing"
    and "getByIdempotencyKey (pay_idempotency_key p) (db w) = Some p" and "map_of reg (pay_provider p) = Some f"
  shows "executePayment reg pid w = callProviderAndHandle p f w"
  using assms by (simp add: executePayment_def loadExecutablePayment_def checkIdempotency_def resolveProvider_def)

definition pending_audit :: "payment \<Rightarrow> audit_entry" where
  "pending_audit p = audit_sys None ''PAYMENT_PENDING_CONFIRMATION'' ''payments'' (pay_id p)
     (Some [(''status'', JStr ''executing'')])
     [(''status'', JStr ''executing''), (''transactionReference'', JStr (pay_idempotency_key p)), (''provider'', JStr ''EFT'')]"

definition eft_confirmed :: "payment \<Rightarrow> payment" where
  "eft_confirmed p = p\<lparr>pay_transaction_ref := Some (pay_idempotency_key p),
                       pay_provider_ref := Some (''EFT-'' @ slice0 8 (pay_idempotency_key p))\<rparr>"

definition eft_result :: "payment \<Rightarrow> provider_result" where
  "eft_result p = \<lparr>pr_success = True, pr_transaction_reference = pay_idempotency_key p,
     pr_provider_reference = ''EFT-'' @ slice0 8 (pay_idempotency_key p), pr_failure_reason = None, pr_pending_confirmation = True\<rparr>"

lemma eft_run:
  assumes reg: "initPaymentProviders env [] = Inr reg" "env ''NODE_ENV'' = Some ''production''"
    and p: "getPaymentById pid (db w) = Some p" "pay_status p = Pay_executing" "pay_provider p = EFT"
      "getByIdempotencyKey (pay_idempotency_key p) (db w) = Some p"
    and len: "length (pay_idempotency_key p) \<le> 255" and a: "audit_ok (db w) None"
  shows "executePayment reg pid w = (Inr (eft_result p),
     w\<lparr>db := (db w)\<lparr>t_payments := update_where (\<lambda>q. pay_id q = pid)
            (\<lambda>q. q\<lparr>pay_transaction_ref := pay_transaction_ref (eft_confirmed p), pay_provider_ref := pay_provider_ref (eft_confirmed p)\<rparr>)
            (t_payments (db w)),
          t_audit := t_audit (db w) @ [pending_audit p]\<rparr>\<rparr>)"
proof -
  have r: "map_of reg EFT = Some BankEftProvider_execute"
    using reg by (auto simp: initPaymentProviders_def registerProvider_def bindE_succ)
  have id: "pay_id p = pid" using p(1) by (auto simp: getPaymentById_def dest: select_one_key)
  have "BankEftProvider_execute p (pay_idempotency_key p) w = (Inr (eft_result p), w)"
    by (simp add: BankEftProvider_execute_def Let_def eft_result_def)
  moreover have "refs_fit (eft_result p)" using len by (simp add: refs_fit_def eft_result_def slice0_def)
  then have "routeProviderResult p (eft_result p) w = (Inr (),
     w\<lparr>db := (db w)\<lparr>t_payments := update_where (\<lambda>q. pay_id q = pid)
            (\<lambda>q. q\<lparr>pay_transaction_ref := pay_transaction_ref (eft_confirmed p), pay_provider_ref := pay_provider_ref (eft_confirmed p)\<rparr>)
            (t_payments (db w)),
          t_audit := t_audit (db w) @ [pending_audit p]\<rparr>\<rparr>)"
    using p a id by (simp add: routeProviderResult_def handlePendingConfirmation_def eft_result_def
        recordPendingConfirmationWithClient_def eft_confirmed_def pending_audit_def)
  ultimately show ?thesis
    using execute_run [OF p(1,2,4)] r p(3) by (simp add: callProviderAndHandle_def catchS_def)
qed


text \<open>
  a bank transfer in production. Executing it stores the references, writes one audit entry,
  leaves the payment executing and enqueues nothing; the money movement itself is confirmed elsewhere. The
  idempotency check of the service does not stop a repetition: as the payment is still executing, a
  second call hands the same payment to the provider again and succeeds in the same way.
\<close>

theorem executePayment_eft_repeatable:
  assumes reg: "initPaymentProviders env [] = Inr reg" "env ''NODE_ENV'' = Some ''production''"
    and p: "getPaymentById pid (db w) = Some p" "pay_status p = Pay_executing" "pay_provider p = EFT"
      "getByIdempotencyKey (pay_idempotency_key p) (db w) = Some p"
    and len: "length (pay_idempotency_key p) \<le> 255" and a: "audit_ok (db w) None"
  shows "\<exists>w1 w2. executePayment reg pid w = (Inr (eft_result p), w1) \<and> executePayment reg pid w1 = (Inr (eft_result p), w2)
    \<and> getPaymentById pid (db w1) = Some (eft_confirmed p) \<and> pay_status (eft_confirmed p) = Pay_executing
    \<and> jobs w2 = jobs w \<and> getPaymentById pid (db w2) = Some (eft_confirmed p)
    \<and> t_audit (db w2) = t_audit (db w) @ [pending_audit p, pending_audit p]"
proof -
  have id: "pay_id p = pid" using p(1) by (auto simp: getPaymentById_def dest: select_one_key)
  let ?q = "eft_confirmed p"
  let ?u = "\<lambda>d. d\<lparr>t_payments := update_where (\<lambda>q. pay_id q = pid)
      (\<lambda>q. q\<lparr>pay_transaction_ref := pay_transaction_ref ?q, pay_provider_ref := pay_provider_ref ?q\<rparr>) (t_payments d),
      t_audit := t_audit d @ [pending_audit p]\<rparr>"
  have same: "?q\<lparr>pay_transaction_ref := pay_transaction_ref ?q, pay_provider_ref := pay_provider_ref ?q\<rparr> = ?q"
    "p\<lparr>pay_transaction_ref := pay_transaction_ref ?q, pay_provider_ref := pay_provider_ref ?q\<rparr> = ?q"
    "eft_confirmed ?q = ?q" "eft_result ?q = eft_result p" "pending_audit ?q = pending_audit p" "pay_id ?q = pid"
    "pay_idempotency_key ?q = pay_idempotency_key p" "pay_status ?q = Pay_executing" "pay_provider ?q = EFT"
    using p(2,3) id by (simp_all add: eft_confirmed_def eft_result_def pending_audit_def)
  have get: "getPaymentById pid (?u d) = Some ?q" if "getPaymentById pid d = Some p \<or> getPaymentById pid d = Some ?q" for d
    using that id same by (auto simp: getPaymentById_def select_one_update_where)
  have key: "getByIdempotencyKey (pay_idempotency_key p) (?u (db w)) = Some ?q"
    using p(4) id same by (simp add: getByIdempotencyKey_def select_one_update_where)
  let ?w1 = "w\<lparr>db := ?u (db w)\<rparr>"
  have w1: "executePayment reg pid w = (Inr (eft_result p), ?w1)" by (rule eft_run [OF reg p len a])
  have "executePayment reg pid ?w1 = (Inr (eft_result p), ?w1\<lparr>db := ?u (db ?w1)\<rparr>)"
    using eft_run [OF reg, where pid = pid and w = ?w1 and p = ?q] get [of "db w"] p(1) key len a same by simp
  then show ?thesis using w1 get [of "db w"] get [of "?u (db w)"] p(1) same(8)
    by (intro exI [of _ ?w1] exI [of _ "?w1\<lparr>db := ?u (db ?w1)\<rparr>"]) simp
qed

text \<open>
  a failure of the queue after the commit turns a funded payment into a failed one. With the
  provider registered outside production and Redis down, the provider pays, the payment is committed
  as funded, the notification throws, and the handler then records a failure: the call ends in the
  queue error with the payment \<open>failed\<close> although its funding time and its references are set.
\<close>

theorem queue_failure_after_funding:
  assumes reg: "initPaymentProviders env [] = Inr reg" "env ''NODE_ENV'' \<noteq> Some ''production''"
    and p: "getPaymentById pid (db w) = Some p" "pay_status p = Pay_executing" "pay_funded_at p = None"
      "getByIdempotencyKey (pay_idempotency_key p) (db w) = Some p"
    and amount: "\<not> ends_with ''999'' (show_int (pay_amount p))"
    and len: "length (pay_idempotency_key p) \<le> 250" "length pid \<le> 245" and a: "audit_ok (db w) None"
    and queue: "\<not> redis_up w" "queue_set w Payments_notification"
  shows "\<exists>w' q. executePayment reg pid w = (Inl QueueError, w') \<and> getPaymentById pid (db w') = Some q
    \<and> pay_status q = Pay_failed \<and> pay_funded_at q = Some (clock w)
    \<and> pay_transaction_ref q = Some (''MOCK-'' @ pay_idempotency_key p) \<and> jobs w' = jobs w
    \<and> map aud_action (t_audit (db w')) = map aud_action (t_audit (db w)) @ [''PAYMENT_FUNDED'', ''PAYMENT_FAILED'']"
proof -
  have id: "pay_id p = pid" using p(1) by (auto simp: getPaymentById_def dest: select_one_key)
  have m: "map_of reg (pay_provider p) = Some MockProvider_execute"
    using reg by (cases "pay_provider p") (auto simp: initPaymentProviders_def registerProvider_def)
  let ?r = "\<lparr>pr_success = True, pr_transaction_reference = ''MOCK-'' @ pay_idempotency_key p,
     pr_provider_reference = ''MOCK-PROV-'' @ pay_id p, pr_failure_reason = None, pr_pending_confirmation = False\<rparr>"
  let ?f = "\<lambda>p. p\<lparr>pay_status := Pay_funded, pay_transaction_ref := Some (pr_transaction_reference ?r),
               pay_provider_ref := Some (pr_provider_reference ?r), pay_funded_at := Some (clock w)\<rparr>"
  let ?g = "\<lambda>p. p\<lparr>pay_status := Pay_failed, pay_failure_reason := Some ''QUEUE''\<rparr>"
  let ?d1 = "(db w)\<lparr>t_payments := update_where (\<lambda>p. pay_id p = pid) ?f (t_payments (db w))\<rparr>"
  let ?a1 = "audit_sys None ''PAYMENT_FUNDED'' ''payments'' pid (Some [(''status'', JStr ''executing'')])
            [(''status'', JStr ''funded''), (''transactionReference'', JStr (pr_transaction_reference ?r))]"
  let ?w1 = "w\<lparr>db := (payments_updateInvoiceStatus (clock w) (pay_invoice p) Inv_funded Inv_approved ?d1)
                \<lparr>t_audit := t_audit (db w) @ [?a1]\<rparr>\<rparr>"
  have e: "MockProvider_execute p (pay_idempotency_key p) w = (Inr ?r, w)" using amount by (simp add: MockProvider_execute_def)
  have upd1: "updatePaymentResultWithClient (clock w) pid ?r (db w) = Inr ?d1"
    using p len id by (simp add: updatePaymentResultWithClient_def refs_fit_def)
  have t1: "recordSuccessfulPaymentTxn p ?r w = (Inr (), ?w1)"
    using a p(2) id upd1 by (simp add: recordSuccessfulPaymentTxn_def)
  have n: "notifyPaymentFunded p ?w1 = (Inl QueueError, ?w1)"
    using queue by (simp add: notifyPaymentFunded_def queueSupplierNotification_def run_enqueue)
  have get1: "getPaymentById pid (db ?w1) = Some (?f p)"
    using p(1) id by (simp add: getPaymentById_def select_one_update_where)
  let ?d2 = "(db ?w1)\<lparr>t_payments := update_where (\<lambda>p. pay_id p = pid) ?g (t_payments (db ?w1))\<rparr>"
  have upd2: "updatePaymentResultWithClient (clock w) pid (fail_result p QueueError) (db ?w1) = Inr ?d2"
    using get1 by (simp add: updatePaymentResultWithClient_def fail_result_def)
  let ?a2 = "audit_sys None ''PAYMENT_FAILED'' ''payments'' pid (Some [(''status'', JStr ''executing'')]) [(''status'', JStr ''failed'')]"
  let ?w2 = "?w1\<lparr>db := ?d2\<lparr>t_audit := t_audit ?d2 @ [?a2]\<rparr>\<rparr>"
  have t2: "handleFailedPayment p (fail_result p QueueError) ?w1 = (Inl QueueError, ?w2)"
    using a p(2) id queue upd2 by (simp add: handleFailedPayment_def run_enqueue)
  have "executePayment reg pid w = (Inl QueueError, ?w2)"
    using execute_run [OF p(1,2,4) m] e t1 n t2
    by (simp add: callProviderAndHandle_def catchS_def routeProviderResult_def handleSuccessfulPayment_def)
  moreover have "getPaymentById pid (db ?w2) = Some (?g (?f p))"
    using p(1) id by (simp add: getPaymentById_def select_one_update_where)
  ultimately show ?thesis by (intro exI [of _ ?w2] exI [of _ "?g (?f p)"]) simp
qed


section \<open>Kill switch\<close>

lemma run_audit_for:
  "(\<And>x. aud_user (e x) = u) \<Longrightarrow> audit_ok (db w) u \<Longrightarrow>
     forS (\<lambda>x. createAuditEntry (e x)) xs w = (Inr (), audited w (map e xs))"
  by (induction xs arbitrary: w) simp_all

text \<open>
  the kill switch. Activating it fails every executing payment with the reason, audits each of them
  and the activation, and leaves all other payments as they are; afterwards no payment is executing
  and no new payment can be initiated. The authorisations do not look at the switch: a payment that
  waits for its second authorisation can still be authorised and then executes.
\<close>

theorem activateKillSwitch_outcome:
  assumes "audit_ok (db w) (Some u)"
  shows "\<exists>w' es. activateKillSwitch u reason ip ua w =
      (Inr (map pay_id (filter (\<lambda>p. pay_status p = Pay_executing) (t_payments (db w)))), w')
    \<and> t_payments (db w') = map (\<lambda>p. if pay_status p = Pay_executing
         then p\<lparr>pay_status := Pay_failed, pay_failure_reason := Some ''Suspended by payment kill switch''\<rparr> else p) (t_payments (db w))
    \<and> t_audit (db w') = t_audit (db w) @ es \<and> length es = length (filter (\<lambda>p. pay_status p = Pay_executing) (t_payments (db w))) + 1
    \<and> list_all (\<lambda>p. pay_status p \<noteq> Pay_executing) (t_payments (db w'))
    \<and> initiatePayment env pid key i w' = (Inl (BusinessRuleError ''PAYMENTS_HALTED''), w')
    \<and> (\<forall>q v c. getPaymentById pid (db w) = Some q \<and> pay_status q = Pay_pending_second_auth \<and> pay_auth_user_1 q = Some v \<and> v \<noteq> u
         \<and> user_exists (db w) (Some v) \<and> recent_2fa (db w) (clock w) u \<and> pid \<notin> set (row_locks w)
         \<longrightarrow> fst (authoriseSecondAuth pid u (Some ip) (Some ua) c w') =
               Inr (q\<lparr>pay_auth_user_2 := Some u, pay_auth_time_2 := Some (clock w), pay_status := Pay_executing\<rparr>))"
proof -
  let ?m = "''Suspended by payment kill switch''"
  let ?ids = "map pay_id (filter (\<lambda>p. pay_status p = Pay_executing) (t_payments (db w)))"
  let ?d = "(setSystemSettingWithClient ''payment_kill_switch'' ''true'' (db w))\<lparr>t_payments :=
     update_where (\<lambda>p. pay_status p = Pay_executing) (\<lambda>p. p\<lparr>pay_status := Pay_failed, pay_failure_reason := Some ?m\<rparr>) (t_payments (db w))\<rparr>"
  let ?e = "\<lambda>i. audit_req (Some u) ''PAYMENT_FAILED'' ''payments'' i (Some [(''status'', JStr ''executing'')])
                   [(''status'', JStr ''failed''), (''reason'', JStr ''kill_switch_activation'')] (Some ip) (Some ua)"
  let ?z = "audit_req (Some u) ''KILL_SWITCH_ACTIVATED'' ''system_settings'' ''payment_kill_switch'' (Some [(''active'', JBool False)])
                 [(''active'', JBool True), (''reason'', JStr reason), (''suspendedCount'', JInt (int (length ?ids)))] (Some ip) (Some ua)"
  let ?es = "map ?e ?ids @ [?z]"
  let ?w' = "w\<lparr>db := ?d\<lparr>t_audit := t_audit (db w) @ ?es\<rparr>\<rparr>"
  have ok: "audit_ok ?d (Some u)" using assms by (simp add: setSystemSettingWithClient_def)
  have loop: "forS (\<lambda>i. createAuditEntry (?e i)) ?ids (w\<lparr>db := ?d\<rparr>) = (Inr (), audited (w\<lparr>db := ?d\<rparr>) (map ?e ?ids))"
    by (rule run_audit_for) (use ok in simp_all)
  have run: "activateKillSwitch u reason ip ua w = (Inr ?ids, ?w')"
    using loop ok by (simp add: activateKillSwitch_def failExecutingPaymentsWithClient_def setSystemSettingWithClient_def)
  have halted: "initiatePayment env pid key i ?w' = (Inl (BusinessRuleError ''PAYMENTS_HALTED''), ?w')"
    by (simp add: initiatePayment_def checkKillSwitch_def getSystemSetting_def setSystemSettingWithClient_def update_conv')
  have auth: "fst (authoriseSecondAuth pid u (Some ip) (Some ua) c ?w') =
       Inr (q\<lparr>pay_auth_user_2 := Some u, pay_auth_time_2 := Some (clock w), pay_status := Pay_executing\<rparr>)"
    if "getPaymentById pid (db w) = Some q" "pay_status q = Pay_pending_second_auth" "pay_auth_user_1 q = Some v" "v \<noteq> u"
      "user_exists (db w) (Some v)" "recent_2fa (db w) (clock w) u" "pid \<notin> set (row_locks w)" for q v c
  proof -
    have get: "getPaymentById pid (db ?w') = Some q"
      using that(1,2) by (simp add: getPaymentById_def select_one_update_where)
    have "recent_2fa (db ?w') (clock ?w') u" "user_exists (db ?w') (Some v)" "audit_ok (db ?w') (Some u)"
      using that(5,6) assms by (simp_all add: recent_2fa_def getLast2faVerifiedAt_def setSystemSettingWithClient_def user_exists_def)
    then show ?thesis using second_auth_run [OF _ get that(3)] that by simp
  qed
  have none: "list_all (\<lambda>p. pay_status p \<noteq> Pay_executing) (t_payments (db ?w'))"
    by (auto simp: list_all_iff update_where_def)
  show ?thesis
    by (intro exI [of _ ?w'] exI [of _ ?es] conjI allI impI run halted none)
      (use auth in \<open>auto simp: update_where_def setSystemSettingWithClient_def\<close>)
qed

section \<open>East Africa Time\<close>

text \<open>
  the hour and weekday used for the after-hours check are those of the clock moved three hours
  ahead, for every time (also before 1970), and an authorisation is flagged exactly outside
  07:00 to 20:00, Monday to Friday, of that clock.
\<close>

theorem eat_clock_shift:
  "getEatHour t = ((t + 3 * 3600000) mod 86400000) div 3600000 \<and> getEatDay t = ((t + 3 * 3600000) div 86400000 + 4) mod 7
   \<and> 0 \<le> getEatHour t \<and> getEatHour t < 24
   \<and> (after_hours t \<longleftrightarrow> \<not> (getEatDay t \<in> {1..5} \<and> (t + 3 * 3600000) mod 86400000 \<in> {7 * 3600000..<20 * 3600000}))"
proof -
  have h: "getEatHour t = ((t + 3 * 3600000) mod 86400000) div 3600000"
  proof -
    let ?x = "t + 3 * 3600000"
    have "?x mod (3600000 * 24) = 3600000 * (?x div 3600000 mod 24) + ?x mod 3600000" by (rule zmod_zmult2_eq) simp
    then have "?x mod 86400000 div 3600000 = ?x div 3600000 mod 24" by simp
    moreover have "?x div 3600000 = 3 + t div 3600000" using div_mult_self1 [of 3600000 t 3] by simp
    then have "?x div 3600000 mod 24 = getEatHour t" by (simp add: getEatHour_def mod_simps add.commute)
    ultimately show ?thesis by simp
  qed
  moreover have d: "getEatDay t = ((t + 3 * 3600000) div 86400000 + 4) mod 7"
    by (simp add: getEatDay_def day_ms_def)
  moreover have b: "0 \<le> getEatHour t" "getEatHour t < 24" by (simp_all add: getEatHour_def)
  moreover have "0 \<le> getEatDay t" "getEatDay t < 7" by (simp_all add: getEatDay_def)
  moreover have "getEatHour t < 7 \<longleftrightarrow> (t + 3 * 3600000) mod 86400000 < 7 * 3600000"
    "20 \<le> getEatHour t \<longleftrightarrow> 20 * 3600000 \<le> (t + 3 * 3600000) mod 86400000"
    unfolding h using le_zdiv_iff [of 3600000 7 "(t + 3 * 3600000) mod 86400000"]
      le_zdiv_iff [of 3600000 20 "(t + 3 * 3600000) mod 86400000"] by (simp_all add: not_le [symmetric])
  moreover have "getEatDay t = 0 \<or> getEatDay t = 6 \<longleftrightarrow> getEatDay t \<notin> {1..5}"
    using \<open>0 \<le> getEatDay t\<close> \<open>getEatDay t < 7\<close> by auto
  ultimately show ?thesis unfolding after_hours_def atLeastLessThan_iff not_less by (metis not_less)
qed

section \<open>Runs\<close>

text \<open>
  C3: the payment service refines the life of a payment: along any run of its operations, from any
  database with unique payment identifiers, every payment row keeps its place and only takes steps of
  \<open>life_step\<close>, every added row started as a freshly created payment, and identifiers stay unique.
\<close>

theorem payments_refine_life:
  assumes "(payment_step env)\<^sup>*\<^sup>* w w'" and "pay_keys (db w)"
  shows "evolves (db w) (db w')"
  by (rule evolves_runs [OF assms])

text \<open>
  C2: dual authorisation. Whatever the payment service is asked to do, in whatever order and with
  whatever failures, and whatever the provider configuration: starting without payments, a payment
  that executes, is funded or has failed was authorised by two different users; a payment is marked
  funded only with a funding time, and a funding time only stays on a funded or a failed payment.
\<close>

theorem dual_authorisation_invariant:
  assumes "(payment_step env)\<^sup>*\<^sup>* w w'" and "t_payments (db w) = []"
    and "p \<in> set (t_payments (db w'))" and "pay_status p \<in> {Pay_executing, Pay_funded, Pay_failed}"
  shows "\<exists>a b. pay_auth_user_1 p = Some a \<and> pay_auth_user_2 p = Some b \<and> a \<noteq> b
    \<and> (pay_status p = Pay_funded \<longrightarrow> pay_funded_at p \<noteq> None) \<and> (pay_status p = Pay_executing \<longrightarrow> pay_funded_at p = None)"
proof -
  have "list_all dual_auth (t_payments (db w'))"
    using evolves_dual_auth [OF evolves_runs [OF assms(1)]] assms(2) by simp
  then have "dual_auth p" using assms(3) by (simp add: list_all_iff)
  then show ?thesis using assms(4) by (auto simp: dual_auth_def)
qed

section \<open>A concrete run\<close>

text \<open>An approved invoice with collateral and a facility, and two users with a fresh second factor.\<close>

definition pay_db :: db where
  "pay_db = (db (coverage_world 500000))\<lparr>
     t_invoices := [(sample_invoice Inv_approved)\<lparr>inv_advance := Some 900000\<rparr>], t_suppliers := [sample_supplier],
     t_facilities := [sample_facility], t_users := [sample_user ''u1'' (Some 36000000), sample_user ''u2'' (Some 36000000)]\<rparr>"

definition pay_world :: world where
  "pay_world = (world_of pay_db)\<lparr>clock := 36000000\<rparr>"

lemmas pay_sample_defs = pay_world_def pay_db_def coverage_world_def sample_defs

lemma pay_world_coverage:
  "checkCoverageRatio ''inv'' (Some 900000) pay_world =
     (Inr \<lparr>ccr_total = 500000, ccr_face_value = 900000, ccr_ratio = coverage_ratio 500000 900000, ccr_sufficient = True\<rparr>,
      refreshed pay_world)"
proof -
  have "config_value pay_world COVERAGE_RATIO_KEY = ''0.5''"
    by (simp add: config_value_def current_config_def loaded_config_def pay_sample_defs map_of_merge_config COVERAGE_RATIO_KEY_def)
  then have "config_number pay_world COVERAGE_RATIO_KEY = to_double (of_int 5000 / 10000)"
    by (simp add: config_number_def parseFloat_def is_space_def is_digit_def digits_val_def digit_val_def pow10_def)
  moreover have "getTotalCollateralValueForInvoice ''inv'' (db pay_world) = 500000"
    by (simp add: pay_sample_defs getTotalCollateralValueForInvoice_def new_collateral_def)
  ultimately show ?thesis using coverage_run [of "''inv''" pay_world 500000 900000 5000] by simp
qed

definition pay_world1 :: world where
  "pay_world1 = (refreshed pay_world)\<lparr>db := initiated_db ''pay'' ''key'' ''inv'' 900000 36000000 pay_db\<rparr>"

lemma pay_world_fresh: "getPaymentByInvoiceId ''inv'' (db pay_world) = None"
  by (simp add: pay_sample_defs getPaymentByInvoiceId_def)

lemma pay_initiated:
  "initiatePayment None ''pay'' ''key'' ''inv'' pay_world = (Inr (initiated ''pay'' ''key'' ''inv'' 900000 36000000), pay_world1)"
proof -
  have "payment_gates None ''inv'' pay_world (refreshed pay_world) ((sample_invoice Inv_approved)\<lparr>inv_advance := Some 900000\<rparr>) 900000"
    unfolding payment_gates_def pay_world_coverage
    by (simp add: pay_sample_defs getSystemSetting_def getInvoiceForPayment_def getActiveFacilities_def AML_FLAG_THRESHOLD_UGX_def)
  moreover have "payment_fits ''pay'' ''key'' ''inv'' 900000 (db pay_world)" "audit_ok (db pay_world) None"
    "clock pay_world = 36000000" "db pay_world = pay_db"
    by (simp_all add: pay_sample_defs payment_fits_def)
  ultimately show ?thesis unfolding initiate_iff [OF pay_world_fresh] pay_world1_def
    by (intro exI [of _ "refreshed pay_world"] exI [of _ "(sample_invoice Inv_approved)\<lparr>inv_advance := Some 900000\<rparr>"]
        exI [of _ 900000]) simp
qed



theorem initiatePayment_repeated_witness:
  "initiatePayment None ''pay2'' ''key2'' ''inv'' pay_world1 = (Inl (BusinessRuleError ''INVOICE_WRONG_STATUS''), pay_world1)"
  using initiatePayment_repeated [OF pay_world_fresh pay_initiated] by blast

definition pay_row :: payment where
  "pay_row = initiated ''pay'' ''key'' ''inv'' 900000 36000000"

definition pay_row2 :: payment where
  "pay_row2 = pay_row\<lparr>pay_auth_user_1 := Some ''u1'', pay_auth_time_1 := Some 36000000, pay_status := Pay_pending_second_auth\<rparr>"

definition pay_row3 :: payment where
  "pay_row3 = pay_row2\<lparr>pay_auth_user_2 := Some ''u2'', pay_auth_time_2 := Some 36000000, pay_status := Pay_executing\<rparr>"

lemmas pay_row_defs = pay_row_def pay_row2_def pay_row3_def initiated_def new_payment_def

definition pay_world2 :: world where
  "pay_world2 = pay_world1\<lparr>db := (db pay_world1)\<lparr>t_payments := [pay_row2],
     t_audit := t_audit (db pay_world1) @ [first_auth_audit ''pay'' ''u1'' None None None]\<rparr>\<rparr>"

definition pay_world3 :: world where
  "pay_world3 = pay_world2\<lparr>db := (db pay_world2)\<lparr>t_payments := [pay_row3],
     t_audit := t_audit (db pay_world2) @ [second_auth_audit ''pay'' ''u2'' None None None]\<rparr>\<rparr>"

lemma pay_world1_facts:
  "t_payments (db pay_world1) = [pay_row]" "clock pay_world1 = 36000000" "row_locks pay_world1 = []"
  "t_users (db pay_world1) = t_users pay_db" "audit_columns (db pay_world1) = migrated_audit_columns"
  "redis_up pay_world1" "queue_set pay_world1 q"
  by (simp_all add: pay_world1_def initiated_db_def payments_updateInvoiceStatus_def pay_row_def refreshed_def pay_sample_defs)

lemma pay_world_users:
  "audit_ok d (Some ''u1'')" "audit_ok d (Some ''u2'')" "audit_ok d None"
  "user_exists d (Some ''u1'')" "recent_2fa d 36000000 ''u1''" "recent_2fa d 36000000 ''u2''"
  if "t_users d = t_users pay_db" "audit_columns d = migrated_audit_columns"
  using that by (simp_all add: audit_ok_def user_exists_def recent_2fa_def getLast2faVerifiedAt_def pay_db_def
      sample_user_def migrated_audit_columns_def audit_cols_def)

lemma pay_noon: "\<not> after_hours 36000000"
  by (simp add: after_hours_def getEatDay_def getEatHour_def day_ms_def)

theorem authoriseFirstAuth_outcome_witness:
  "authoriseFirstAuth ''pay'' ''u1'' None None None pay_world1 = (Inr pay_row2, pay_world2)"
  using authoriseFirstAuth_outcome [of pay_world1 "''u1''" "''pay''" pay_row None None None]
    pay_world_users [of "db pay_world1"] pay_noon
  by (simp add: pay_world1_facts getPaymentById_def after_hours_audit_def pay_world2_def pay_row_defs)


lemma pay_first: "authoriseFirstAuth ''pay'' ''u1'' None None None pay_world1 = (Inr pay_row2, pay_world2)"
  using first_auth_run [of pay_world1 "''u1''" "''pay''" pay_row None None None]
    pay_world_users [of "db pay_world1"] pay_noon
  by (simp add: pay_world1_facts getPaymentById_def after_hours_audit_def pay_world2_def pay_row_defs)

lemma pay_world2_facts:
  "t_payments (db pay_world2) = [pay_row2]" "clock pay_world2 = 36000000" "row_locks pay_world2 = []"
  "t_users (db pay_world2) = t_users pay_db" "audit_columns (db pay_world2) = migrated_audit_columns"
  by (simp_all add: pay_world2_def pay_world1_facts)

lemma pay_second: "authoriseSecondAuth ''pay'' ''u2'' None None None pay_world2 = (Inr pay_row3, pay_world3)"
  using second_auth_run [of pay_world2 "''u2''" "''pay''" pay_row2 "''u1''" None None None]
    pay_world_users [of "db pay_world2"] pay_noon
  by (simp add: pay_world2_facts getPaymentById_def after_hours_audit_def pay_world3_def pay_row_defs)


lemma pay_run: "(payment_step env)\<^sup>*\<^sup>* pay_world pay_world3"
proof -
  have "payment_step env pay_world pay_world1"
    using payment_step.initiate [of env pay_world None "''pay''" "''key''" "''inv''"] by (simp add: pay_initiated)
  moreover have "payment_step env pay_world1 pay_world2"
    using payment_step.first [of env pay_world1 "''pay''" "''u1''" None None None] by (simp add: pay_first)
  moreover have "payment_step env pay_world2 pay_world3"
    using payment_step.second [of env pay_world2 "''pay''" "''u2''" None None None] by (simp add: pay_second)
  ultimately show ?thesis by (meson rtranclp.rtrancl_into_rtrancl rtranclp.rtrancl_refl)
qed

lemma pay_world_empty: "t_payments (db pay_world) = []"
  by (simp add: pay_sample_defs)

lemma pay_world3_facts:
  "t_payments (db pay_world3) = [pay_row3]" "clock pay_world3 = 36000000" "row_locks pay_world3 = []"
  "t_users (db pay_world3) = t_users pay_db" "audit_columns (db pay_world3) = migrated_audit_columns"
  "redis_up pay_world3" "queue_set pay_world3 q" "t_invoices (db pay_world3) = t_invoices (db pay_world1)"
  by (simp_all add: pay_world3_def pay_world2_def pay_world1_facts)

theorem payments_refine_life_witness: "evolves (db pay_world) (db pay_world3) \<and> t_payments (db pay_world3) = [pay_row3]"
  using payments_refine_life [OF pay_run [of "\<lambda>_. None"]] by (simp add: pay_world_empty pay_world3_facts)

theorem dual_authorisation_invariant_witness:
  "pay_row3 \<in> set (t_payments (db pay_world3)) \<and> pay_status pay_row3 = Pay_executing
   \<and> (\<exists>a b. pay_auth_user_1 pay_row3 = Some a \<and> pay_auth_user_2 pay_row3 = Some b \<and> a \<noteq> b)"
proof -
  have p: "pay_row3 \<in> set (t_payments (db pay_world3))" "pay_status pay_row3 = Pay_executing"
    by (simp_all add: pay_world3_facts pay_row3_def)
  then show ?thesis using dual_authorisation_invariant [OF pay_run [of "\<lambda>_. None"] pay_world_empty p(1)] by auto
qed

lemma pay_world3_row:
  "getPaymentById ''pay'' (db pay_world3) = Some pay_row3" "pay_status pay_row3 = Pay_executing"
  "getByIdempotencyKey (pay_idempotency_key pay_row3) (db pay_world3) = Some pay_row3" "pay_provider pay_row3 = EFT"
  "pay_funded_at pay_row3 = None" "length (pay_idempotency_key pay_row3) = 3" "pay_amount pay_row3 = 900000"
  "audit_ok (db pay_world3) None"
  by (simp_all add: getPaymentById_def getByIdempotencyKey_def pay_world3_facts pay_row_defs audit_ok_def
      migrated_audit_columns_def audit_cols_def)

theorem executePayment_keeps_invoices_witness:
  "\<exists>reg. initPaymentProviders (\<lambda>_. None) [] = Inr reg
     \<and> t_invoices (db (snd (executePayment reg ''pay'' pay_world3))) = t_invoices (db pay_world3)"
proof -
  obtain reg where r: "initPaymentProviders (\<lambda>_. None) [] = Inr reg" by (simp add: initPaymentProviders_def)
  have "\<forall>r \<in> set (t_invoices (db pay_world3)). inv_id r = pay_invoice pay_row3 \<longrightarrow> inv_status r \<noteq> Inv_approved"
    by (simp add: pay_world3_facts pay_world1_def initiated_db_def payments_updateInvoiceStatus_def pay_sample_defs)
  then show ?thesis using executePayment_keeps_invoices [OF r pay_world3_row(1)] r by blast
qed

theorem executePayment_eft_repeatable_witness:
  "\<exists>reg w1 w2. initPaymentProviders (\<lambda>_. Some ''production'') [] = Inr reg
     \<and> executePayment reg ''pay'' pay_world3 = (Inr (eft_result pay_row3), w1)
     \<and> executePayment reg ''pay'' w1 = (Inr (eft_result pay_row3), w2)"
proof -
  obtain reg where r: "initPaymentProviders (\<lambda>_. Some ''production'') [] = Inr reg"
    by (simp add: initPaymentProviders_def requireEnv_def)
  then show ?thesis
    using executePayment_eft_repeatable [OF r _ pay_world3_row(1,2,4,3)] pay_world3_row(6,8) by simp blast
qed

theorem queue_failure_after_funding_witness:
  "\<exists>reg w' q. initPaymentProviders (\<lambda>_. None) [] = Inr reg
     \<and> executePayment reg ''pay'' (pay_world3\<lparr>redis_up := False\<rparr>) = (Inl QueueError, w')
     \<and> getPaymentById ''pay'' (db w') = Some q \<and> pay_status q = Pay_failed \<and> pay_funded_at q = Some 36000000"
proof -
  obtain reg where r: "initPaymentProviders (\<lambda>_. None) [] = Inr reg" by (simp add: initPaymentProviders_def)
  have d: "digit_char 0 = CHR ''0''" "digit_char 9 = CHR ''9''" by code_simp+
  have s: "\<not> ends_with ''999'' (show_int 900000)" by (simp add: ends_with_def show_int_def show_nat.simps d)
  show ?thesis
    using queue_failure_after_funding [OF r, of "''pay''" "pay_world3\<lparr>redis_up := False\<rparr>" pay_row3] pay_world3_row s r
    by (simp add: pay_world3_facts) blast
qed

theorem activateKillSwitch_outcome_witness:
  "\<exists>w'. activateKillSwitch ''u1'' ''reason'' ''ip'' ''ua'' pay_world3 = (Inr [''pay''], w')
     \<and> list_all (\<lambda>p. pay_status p \<noteq> Pay_executing) (t_payments (db w'))
     \<and> initiatePayment None ''p2'' ''k2'' ''inv'' w' = (Inl (BusinessRuleError ''PAYMENTS_HALTED''), w')"
proof -
  have "audit_ok (db pay_world3) (Some ''u1'')" using pay_world_users [of "db pay_world3"] by (simp add: pay_world3_facts)
  moreover have "map pay_id (filter (\<lambda>p. pay_status p = Pay_executing) (t_payments (db pay_world3))) = [''pay'']"
    by (simp add: pay_world3_facts pay_row_defs)
  ultimately show ?thesis
    using activateKillSwitch_outcome [of pay_world3 "''u1''" "''reason''" "''ip''" "''ua''" None "''p2''" "''k2''" "''inv''"] by auto
qed

end
