(* ===== verification/Settlements.thy ===== *)
theory Settlements
  imports Facilities
begin

text \<open>
  \<open>src/src/services/settlements\<close>: the settlement of a collected invoice. Initiation with an
  idempotency key, the repayment of the facility, the booking of the profit, the closing with its
  notification, the reads and the dashboard. Amounts arrive as decimal strings that the routes have
  validated and are integers here; \<open>uuidv4\<close> results are arguments and \<open>uuidv5\<close> is a parameter. An unknown
  user is refused as a foreign key violation, whether or not its identifier is a well-formed UUID.
\<close>

section \<open>Repository\<close>

text \<open>
  \<open>INSERT INTO settlements ... ON CONFLICT (idempotency_key) DO NOTHING\<close>: the amounts are
  checked first, a row with the same key suppresses the insertion, any other duplicate identifier or
  invoice is refused, and invoice, collection and drawdown are foreign keys.
\<close>

definition all_bigint :: "int list \<Rightarrow> bool" where
  "all_bigint ns \<longleftrightarrow> list_all (\<lambda>n. - (2 ^ 63) \<le> n \<and> n < 2 ^ 63) ns"

definition new_settlement ::
    "int \<Rightarrow> string \<Rightarrow> string \<Rightarrow> string \<Rightarrow> string option \<Rightarrow> int \<Rightarrow> int \<Rightarrow> int \<Rightarrow> int \<Rightarrow> string \<Rightarrow> settlement" where
  "new_settlement now sid iv cl dd buyerPayment facilityRepayment interest penalty key =
     \<lparr>set_id = sid, set_invoice = iv, set_collection = cl, set_drawdown = dd, set_buyer_payment = buyerPayment,
      set_facility_repayment = facilityRepayment, set_accrued_interest = interest, set_penalty_income = penalty,
      set_net_profit = 0, set_status = Set_pending, set_settled_by = None, set_settled_at = None,
      set_idempotency_key = key, set_created_at = now\<rparr>"

definition getSettlementByIdempotencyKey :: "string \<Rightarrow> db \<Rightarrow> settlement option" where
  "getSettlementByIdempotencyKey key d = select_one (\<lambda>s. set_idempotency_key s = key) (t_settlements d)"

definition settlement_refs_ok :: "settlement \<Rightarrow> db \<Rightarrow> bool" where
  "settlement_refs_ok s d \<longleftrightarrow> list_ex (\<lambda>r. inv_id r = set_invoice s) (t_invoices d)
     \<and> list_ex (\<lambda>r. cln_id r = set_collection s) (t_collections d)
     \<and> (case set_drawdown s of None \<Rightarrow> True | Some dd \<Rightarrow> list_ex (\<lambda>r. dd_id r = dd) (t_drawdowns d))"

definition insert_settlement :: "settlement \<Rightarrow> db \<Rightarrow> ris_error + db" where
  "insert_settlement s d =
     (if \<not> all_bigint [set_buyer_payment s, set_facility_repayment s, set_accrued_interest s, set_penalty_income s]
      then Inl (DbError ''22003'')
      else if set_buyer_payment s \<le> 0 \<or> set_facility_repayment s < 0 \<or> set_accrued_interest s < 0 \<or> set_penalty_income s < 0
      then Inl (DbError ''23514'')
      else if getSettlementByIdempotencyKey (set_idempotency_key s) d \<noteq> None then Inr d
      else if list_ex (\<lambda>r. set_id r = set_id s \<or> set_invoice r = set_invoice s) (t_settlements d) then Inl (DbError ''23505'')
      else if \<not> settlement_refs_ok s d then Inl (DbError ''23503'')
      else Inr (d\<lparr>t_settlements := t_settlements d @ [s]\<rparr>))"

text \<open>The row that is returned: the inserted one, or the one that already has the key.\<close>

definition createSettlementWithClient :: "settlement \<Rightarrow> settlement service" where
  "createSettlementWithClient s =
     bindS (queryS (getSettlementByIdempotencyKey (set_idempotency_key s))) (\<lambda>existing.
     thenS (tryExecS (insert_settlement s))
       (case existing of None \<Rightarrow> returnS s | Some r \<Rightarrow> returnS r))"

definition getSettlementById :: "string \<Rightarrow> db \<Rightarrow> settlement option" where
  "getSettlementById i d = select_one (\<lambda>s. set_id s = i) (t_settlements d)"

definition getSettlementByInvoiceId :: "string \<Rightarrow> db \<Rightarrow> settlement option" where
  "getSettlementByInvoiceId i d = select_one (\<lambda>s. set_invoice s = i) (t_settlements d)"

text \<open>\<open>settled_by = COALESCE($2, settled_by)\<close> with a foreign key to \<open>users\<close>; \<open>settled_at\<close> is set on closing only.\<close>

definition set_status_fields :: "int \<Rightarrow> settlement_status \<Rightarrow> string option \<Rightarrow> settlement \<Rightarrow> settlement" where
  "set_status_fields now st u s =
     s\<lparr>set_status := st, set_settled_by := (case u of None \<Rightarrow> set_settled_by s | Some x \<Rightarrow> Some x),
       set_settled_at := (if st = Set_closed then Some now else set_settled_at s)\<rparr>"

definition updateSettlementStatusWithClient :: "string \<Rightarrow> settlement_status \<Rightarrow> string option \<Rightarrow> settlement option service" where
  "updateSettlementStatusWithClient i st u =
     bindS nowS (\<lambda>now.
     bindS (queryS (\<lambda>d. (getSettlementById i d, user_exists d u))) (\<lambda>r.
       case fst r of None \<Rightarrow> returnS None
       | Some s \<Rightarrow>
           thenS (guardS (snd r) (DbError ''23503''))
          (thenS (execS (\<lambda>d. d\<lparr>t_settlements := update_where (\<lambda>s. set_id s = i) (set_status_fields now st u) (t_settlements d)\<rparr>))
             (returnS (Some (set_status_fields now st u s))))))"

definition updateNetProfitWithClient :: "string \<Rightarrow> int \<Rightarrow> db \<Rightarrow> ris_error + db" where
  "updateNetProfitWithClient i n d =
     bindE (bigint_in n) (\<lambda>n.
       Inr (d\<lparr>t_settlements := update_where (\<lambda>s. set_id s = i) (\<lambda>s. s\<lparr>set_net_profit := n\<rparr>) (t_settlements d)\<rparr>))"

definition updateFacilityRepaymentWithClient :: "string \<Rightarrow> int \<Rightarrow> int \<Rightarrow> db \<Rightarrow> ris_error + db" where
  "updateFacilityRepaymentWithClient i amount interest d =
     (if \<not> all_bigint [amount, interest] then Inl (DbError ''22003'')
      else if getSettlementById i d \<noteq> None \<and> (amount < 0 \<or> interest < 0) then Inl (DbError ''23514'')
      else Inr (d\<lparr>t_settlements := update_where (\<lambda>s. set_id s = i)
                   (\<lambda>s. s\<lparr>set_facility_repayment := amount, set_accrued_interest := interest\<rparr>) (t_settlements d)\<rparr>))"

text \<open>\<open>profit_bookings\<close>: one row per settlement, non-negative parts, the booking user a foreign key.\<close>

definition createProfitBookingWithClient :: "profit_booking \<Rightarrow> db \<Rightarrow> ris_error + db" where
  "createProfitBookingWithClient b d =
     (if \<not> all_bigint [pb_discount_earned b, pb_bank_cost_paid b, pb_penalty_income b, pb_net_profit b] then Inl (DbError ''22003'')
      else if pb_discount_earned b < 0 \<or> pb_bank_cost_paid b < 0 \<or> pb_penalty_income b < 0 then Inl (DbError ''23514'')
      else if list_ex (\<lambda>r. pb_id r = pb_id b \<or> pb_settlement r = pb_settlement b) (t_profit_bookings d) then Inl (DbError ''23505'')
      else if \<not> list_ex (\<lambda>s. set_id s = pb_settlement b) (t_settlements d) \<or> \<not> user_exists d (Some (pb_booked_by b))
      then Inl (DbError ''23503'')
      else Inr (d\<lparr>t_profit_bookings := t_profit_bookings d @ [b]\<rparr>))"

definition getProfitBookingBySettlementId :: "string \<Rightarrow> db \<Rightarrow> profit_booking option" where
  "getProfitBookingBySettlementId i d = select_one (\<lambda>b. pb_settlement b = i) (t_profit_bookings d)"

text \<open>The columns that this module names when it inserts into \<open>audit_logs\<close>.\<close>

definition settlement_audit_cols :: "string list" where
  "settlement_audit_cols = [''user_id'', ''action'', ''entity_type'', ''entity_id'', ''old_values'', ''new_values'',
     ''ip_address'', ''user_agent'', ''created_at'']"

definition settlements_audit :: "audit_entry \<Rightarrow> unit service" where
  "settlements_audit e = tryExecS (insert_audit settlement_audit_cols e)"

record enriched_settlement =
  es_settlement :: settlement
  es_invoice_number :: string
  es_supplier_name :: string
  es_buyer_name :: string
  es_face_value :: int
  es_advance_amount :: int
  es_drawdown_principal :: "int option"

definition settlement_names :: "db \<Rightarrow> settlement \<Rightarrow> invoice option \<times> string \<times> string \<times> string" where
  "settlement_names d s =
     (let iv = select_one (\<lambda>r. inv_id r = set_invoice s) (t_invoices d);
          sup = (case iv of None \<Rightarrow> None | Some v \<Rightarrow> select_one (\<lambda>r. sup_id r = inv_supplier v) (t_suppliers d));
          buy = (case iv of None \<Rightarrow> None | Some v \<Rightarrow> select_one (\<lambda>r. buy_id r = inv_buyer v) (t_buyers d))
      in (iv, case iv of None \<Rightarrow> [] | Some v \<Rightarrow> inv_number v,
          case sup of None \<Rightarrow> [] | Some r \<Rightarrow> (case sup_company_name r of None \<Rightarrow> [] | Some n \<Rightarrow> n),
          case buy of None \<Rightarrow> [] | Some b \<Rightarrow> buy_company_name b))"

definition getEnrichedSettlementById :: "string \<Rightarrow> db \<Rightarrow> enriched_settlement option" where
  "getEnrichedSettlementById i d =
     map_option (\<lambda>s. case settlement_names d s of (iv, num, supn, buyn) \<Rightarrow>
       \<lparr>es_settlement = s, es_invoice_number = num, es_supplier_name = supn, es_buyer_name = buyn,
        es_face_value = (case iv of None \<Rightarrow> 0 | Some v \<Rightarrow> inv_face_value v),
        es_advance_amount = (case iv of None \<Rightarrow> 0 | Some v \<Rightarrow> (case inv_advance v of None \<Rightarrow> 0 | Some a \<Rightarrow> a)),
        es_drawdown_principal = (case set_drawdown s of None \<Rightarrow> None
          | Some dd \<Rightarrow> map_option dd_principal (select_one (\<lambda>r. dd_id r = dd) (t_drawdowns d)))\<rparr>) (getSettlementById i d)"

record settlement_summary =
  ss_id :: string
  ss_invoice :: string
  ss_invoice_number :: string
  ss_supplier_name :: string
  ss_buyer_name :: string
  ss_buyer_payment :: int
  ss_facility_repayment :: int
  ss_net_profit :: int
  ss_status :: settlement_status
  ss_settled_at :: "int option"
  ss_created_at :: int

definition settlement_summary_of :: "db \<Rightarrow> settlement \<Rightarrow> settlement_summary" where
  "settlement_summary_of d s =
     (case settlement_names d s of (iv, num, supn, buyn) \<Rightarrow>
       \<lparr>ss_id = set_id s, ss_invoice = set_invoice s, ss_invoice_number = num, ss_supplier_name = supn, ss_buyer_name = buyn,
        ss_buyer_payment = set_buyer_payment s, ss_facility_repayment = set_facility_repayment s, ss_net_profit = set_net_profit s,
        ss_status = set_status s, ss_settled_at = set_settled_at s, ss_created_at = set_created_at s\<rparr>)"

definition listSettlements :: "int \<Rightarrow> int \<Rightarrow> db \<Rightarrow> ris_error + (settlement_summary list \<times> nat)" where
  "listSettlements page pageSize d =
     (let off = (page - 1) * pageSize
      in if pageSize < 0 then Inl (DbError ''2201W'')
         else if off < 0 then Inl (DbError ''2201X'')
         else Inr (map (settlement_summary_of d)
                    (take (nat pageSize) (drop (nat off) (sort_key (\<lambda>s. - set_created_at s) (t_settlements d)))),
                   length (t_settlements d)))"

record dashboard_row =
  dr_total_settlements :: nat
  dr_total_profit_booked :: int
  dr_total_facility_repayment :: int
  dr_pending_count :: nat
  dr_avg_profit :: rat

text \<open>The average is kept as the exact quotient; PostgreSQL prints it rounded to its division scale.\<close>

definition getDashboardMetrics :: "int \<Rightarrow> int \<Rightarrow> db \<Rightarrow> dashboard_row" where
  "getDashboardMetrics from_ms to_ms d =
     (let rows = filter (\<lambda>s. from_ms \<le> set_created_at s \<and> set_created_at s < to_ms) (t_settlements d);
          booked = filter (\<lambda>s. set_status s = Set_profit_booked \<or> set_status s = Set_closed) rows;
          repaid = filter (\<lambda>s. set_status s \<noteq> Set_pending) rows;
          profit = sum_list (map set_net_profit booked)
      in \<lparr>dr_total_settlements = length rows, dr_total_profit_booked = profit,
          dr_total_facility_repayment = sum_list (map set_facility_repayment repaid),
          dr_pending_count = length (filter (\<lambda>s. set_status s = Set_pending) rows),
          dr_avg_profit = (if booked = [] then 0 else of_int profit / of_nat (length booked))\<rparr>)"

section \<open>Service\<close>

fun set_status_str :: "settlement_status \<Rightarrow> string" where
  "set_status_str Set_pending = ''pending''"
| "set_status_str Set_facility_repaid = ''facility_repaid''"
| "set_status_str Set_profit_booked = ''profit_booked''"
| "set_status_str Set_closed = ''closed''"

definition SETTLEMENT_IDEMPOTENCY_NAMESPACE :: string where
  "SETTLEMENT_IDEMPOTENCY_NAMESPACE = ''ec7a4f8e-3a2b-4d1c-9f8b-2e5f1a3c7d9e''"

definition deriveSettlementIdempotencyKey :: "(string \<Rightarrow> string \<Rightarrow> string) \<Rightarrow> string \<Rightarrow> string \<Rightarrow> string" where
  "deriveSettlementIdempotencyKey uuidv5 i c = uuidv5 (i @ '':'' @ c) SETTLEMENT_IDEMPOTENCY_NAMESPACE"

fun ALLOWED_TRANSITIONS :: "settlement_status \<Rightarrow> settlement_status list option" where
  "ALLOWED_TRANSITIONS Set_pending = Some [Set_facility_repaid]"
| "ALLOWED_TRANSITIONS Set_facility_repaid = Some [Set_profit_booked]"
| "ALLOWED_TRANSITIONS Set_profit_booked = Some [Set_closed]"
| "ALLOWED_TRANSITIONS Set_closed = None"

definition assertTransition :: "settlement_status \<Rightarrow> settlement_status \<Rightarrow> unit service" where
  "assertTransition current nxt =
     guardS (case ALLOWED_TRANSITIONS current of None \<Rightarrow> False | Some allowed \<Rightarrow> nxt \<in> set allowed)
       (BusinessRuleError ''SETTLEMENT_WRONG_STATUS'')"

definition findDrawdownForInvoice :: "string \<Rightarrow> db \<Rightarrow> drawdown option" where
  "findDrawdownForInvoice i d =
     first_row (sort_key (\<lambda>r. - dd_created_at r) (filter (\<lambda>r. dd_invoice r = i) (t_drawdowns d)))"

definition executeInitiateTxn ::
    "string \<Rightarrow> string \<Rightarrow> string \<Rightarrow> drawdown option \<Rightarrow> int \<Rightarrow> int \<Rightarrow> string \<Rightarrow> string \<Rightarrow> string \<Rightarrow> string \<Rightarrow> settlement service" where
  "executeInitiateTxn sid i c dd buyerPayment penalty key u ip ua =
     bindS nowS (\<lambda>now.
     bindS (createSettlementWithClient (new_settlement now sid i c (map_option dd_id dd) buyerPayment
              (case dd of None \<Rightarrow> 0 | Some r \<Rightarrow> dd_principal r) (case dd of None \<Rightarrow> 0 | Some r \<Rightarrow> dd_accrued_interest r)
              penalty key)) (\<lambda>s.
     thenS (settlements_audit (audit_req (Some u) ''SETTLEMENT_INITIATED'' ''settlements'' sid None
              [(''invoiceId'', JStr i), (''status'', JStr ''pending'')] (Some ip) (Some ua)))
       (returnS s)))"

definition runFreshInitiateSettlement ::
    "string \<Rightarrow> string \<Rightarrow> string \<Rightarrow> int \<Rightarrow> int \<Rightarrow> string \<Rightarrow> string \<Rightarrow> string \<Rightarrow> string \<Rightarrow> settlement service" where
  "runFreshInitiateSettlement sid i c buyerPayment penalty key u ip ua =
     bindS (queryS (findDrawdownForInvoice i)) (\<lambda>dd.
       transactionS (executeInitiateTxn sid i c dd buyerPayment penalty key u ip ua))"

definition initiateSettlement ::
    "string \<Rightarrow> string \<Rightarrow> string \<Rightarrow> int \<Rightarrow> int \<Rightarrow> string \<Rightarrow> string \<Rightarrow> string \<Rightarrow> string \<Rightarrow> settlement service" where
  "initiateSettlement sid i c buyerPayment penalty u ip ua key =
     bindS (queryS (getSettlementByIdempotencyKey key)) (\<lambda>replay.
       case replay of Some s \<Rightarrow> returnS s
       | None \<Rightarrow>
           bindS (queryS (getSettlementByInvoiceId i)) (\<lambda>existing.
           thenS (guardS (existing = None) (BusinessRuleError ''SETTLEMENT_ALREADY_EXISTS''))
             (runFreshInitiateSettlement sid i c buyerPayment penalty key u ip ua)))"

definition getSettlementOrThrow :: "string \<Rightarrow> settlement service" where
  "getSettlementOrThrow i =
     bindS (queryS (getSettlementById i)) (\<lambda>r. requireS r (NotFoundError ''Settlement'' i))"

text \<open>\<open>return updated!\<close>: a missing row is the value undefined, read as a type error by the caller.\<close>

definition executeRepayFacilityTxn ::
    "string \<Rightarrow> int \<Rightarrow> int \<Rightarrow> settlement_status \<Rightarrow> string \<Rightarrow> string \<Rightarrow> string \<Rightarrow> settlement option service" where
  "executeRepayFacilityTxn i amount interest prev u ip ua =
     thenS (tryExecS (updateFacilityRepaymentWithClient i amount interest))
    (bindS (updateSettlementStatusWithClient i Set_facility_repaid (Some u)) (\<lambda>updated.
     thenS (settlements_audit (audit_req (Some u) ''SETTLEMENT_FACILITY_REPAID'' ''settlements'' i
              (Some [(''status'', JStr (set_status_str prev))])
              [(''status'', JStr ''facility_repaid''), (''facilityRepaymentAmount'', JInt amount)] (Some ip) (Some ua)))
       (returnS updated)))"

definition repayFacility :: "string \<Rightarrow> int \<Rightarrow> int \<Rightarrow> string \<Rightarrow> string \<Rightarrow> string \<Rightarrow> settlement option service" where
  "repayFacility i amount interest u ip ua =
     bindS (getSettlementOrThrow i) (\<lambda>s.
     thenS (assertTransition (set_status s) Set_facility_repaid)
       (transactionS (executeRepayFacilityTxn i amount interest (set_status s) u ip ua)))"

definition calculateNetProfit :: "int \<Rightarrow> int \<Rightarrow> int \<Rightarrow> int" where
  "calculateNetProfit discountEarned bankCostPaid penaltyIncome = discountEarned - bankCostPaid + penaltyIncome"

definition executeBookProfitTxn ::
    "string \<Rightarrow> string \<Rightarrow> int \<Rightarrow> int \<Rightarrow> int \<Rightarrow> int \<Rightarrow> settlement_status \<Rightarrow> string \<Rightarrow> string \<Rightarrow> string \<Rightarrow> settlement option service" where
  "executeBookProfitTxn bid i discountEarned bankCostPaid penalty net prev u ip ua =
     thenS (tryExecS (createProfitBookingWithClient
              \<lparr>pb_id = bid, pb_settlement = i, pb_discount_earned = discountEarned, pb_bank_cost_paid = bankCostPaid,
               pb_penalty_income = penalty, pb_net_profit = net, pb_booked_by = u\<rparr>))
    (thenS (tryExecS (updateNetProfitWithClient i net))
    (bindS (updateSettlementStatusWithClient i Set_profit_booked (Some u)) (\<lambda>updated.
     thenS (settlements_audit (audit_req (Some u) ''SETTLEMENT_PROFIT_BOOKED'' ''settlements'' i
              (Some [(''status'', JStr (set_status_str prev))])
              [(''status'', JStr ''profit_booked''), (''netProfit'', JInt net)] (Some ip) (Some ua)))
       (returnS updated))))"

definition bookProfit :: "string \<Rightarrow> string \<Rightarrow> int \<Rightarrow> int \<Rightarrow> string \<Rightarrow> string \<Rightarrow> string \<Rightarrow> settlement option service" where
  "bookProfit bid i discountEarned bankCostPaid u ip ua =
     bindS (getSettlementOrThrow i) (\<lambda>s.
     thenS (assertTransition (set_status s) Set_profit_booked)
       (transactionS (executeBookProfitTxn bid i discountEarned bankCostPaid (set_penalty_income s)
          (calculateNetProfit discountEarned bankCostPaid (set_penalty_income s)) (set_status s) u ip ua)))"

definition executeCloseTxn :: "string \<Rightarrow> settlement_status \<Rightarrow> string \<Rightarrow> string \<Rightarrow> string \<Rightarrow> settlement option service" where
  "executeCloseTxn i prev u ip ua =
     bindS (updateSettlementStatusWithClient i Set_closed (Some u)) (\<lambda>updated.
     thenS (settlements_audit (audit_req (Some u) ''SETTLEMENT_CLOSED'' ''settlements'' i
              (Some [(''status'', JStr (set_status_str prev))]) [(''status'', JStr ''closed'')] (Some ip) (Some ua)))
       (returnS updated))"

definition queueSettlementNotification :: "string \<Rightarrow> string \<Rightarrow> int \<Rightarrow> unit service" where
  "queueSettlementNotification iv i net =
     enqueueS Settlements_notification ''settlement_complete''
       [(''invoiceId'', JStr iv), (''settlementId'', JStr i), (''netProfit'', JInt net)]"

text \<open>The notification follows the \<open>COMMIT\<close>: when it throws, the \<open>ROLLBACK\<close> finds nothing to undo.\<close>

definition closeSettlement :: "string \<Rightarrow> string \<Rightarrow> string \<Rightarrow> string \<Rightarrow> settlement service" where
  "closeSettlement i u ip ua =
     bindS (getSettlementOrThrow i) (\<lambda>s.
     thenS (assertTransition (set_status s) Set_closed)
    (bindS (transactionS (executeCloseTxn i (set_status s) u ip ua)) (\<lambda>updated.
     bindS (requireS updated (JsError ''TypeError'')) (\<lambda>r.
     thenS (queueSettlementNotification (set_invoice s) i (set_net_profit r))
       (returnS r)))))"

definition getSettlement :: "string \<Rightarrow> enriched_settlement service" where
  "getSettlement i = bindS (queryS (getEnrichedSettlementById i)) (\<lambda>r. requireS r (NotFoundError ''Settlement'' i))"

definition getSettlementList :: "int \<Rightarrow> int \<Rightarrow> (settlement_summary list \<times> nat) service" where
  "getSettlementList page pageSize = bindS (queryS (listSettlements page pageSize)) liftS"

definition DEFAULT_DASHBOARD_PERIOD_DAYS :: int where
  "DEFAULT_DASHBOARD_PERIOD_DAYS = 30"

record settlement_dashboard =
  sd_period_start :: int
  sd_period_end :: int
  sd_row :: dashboard_row

definition settlements_getDashboard :: "int option \<Rightarrow> int option \<Rightarrow> settlement_dashboard service" where
  "settlements_getDashboard periodStart periodEnd =
     bindS nowS (\<lambda>now.
       let end_ms = (case periodEnd of None \<Rightarrow> now | Some t \<Rightarrow> t);
           start_ms = (case periodStart of None \<Rightarrow> end_ms - DEFAULT_DASHBOARD_PERIOD_DAYS * 86400000 | Some t \<Rightarrow> t)
       in thenS (guardS (\<not> end_ms \<le> start_ms) (BusinessRuleError ''SETTLEMENT_DASHBOARD_INVALID_PERIOD''))
            (bindS (queryS (getDashboardMetrics start_ms end_ms)) (\<lambda>row.
               returnS \<lparr>sd_period_start = start_ms, sd_period_end = end_ms, sd_row = row\<rparr>)))"

record settlement_job =
  sj_invoice :: string
  sj_collection :: string
  sj_amount :: int
  sj_penalty :: int

definition handleSettlementJob :: "(string \<Rightarrow> string \<Rightarrow> string) \<Rightarrow> string \<Rightarrow> settlement_job \<Rightarrow> unit service" where
  "handleSettlementJob uuidv5 sid j =
     thenS (initiateSettlement sid (sj_invoice j) (sj_collection j) (sj_amount j) (sj_penalty j) ''SYSTEM'' ''0.0.0.0''
              ''scheduled-worker'' (deriveSettlementIdempotencyKey uuidv5 (sj_invoice j) (sj_collection j)))
       (returnS ())"


section \<open>What the steps do\<close>

abbreviation settlement_cols_ok :: "db \<Rightarrow> bool" where
  "settlement_cols_ok d \<equiv> list_all (\<lambda>c. c \<in> set (audit_columns d)) settlement_audit_cols"

lemma settlements_audit_run:
  "settlements_audit e w =
     (if \<not> settlement_cols_ok (db w) then (Inl (DbError ''42703''), w)
      else if \<not> user_exists (db w) (aud_user e) then (Inl (DbError ''23503''), w)
      else (Inr (), w\<lparr>db := (db w)\<lparr>t_audit := t_audit (db w) @ [e]\<rparr>\<rparr>))"
  by (simp add: settlements_audit_def tryExecS_def insert_audit_def)

lemma user_exists_settlements [simp]:
  "user_exists (d\<lparr>t_settlements := a\<rparr>) u = user_exists d u" "user_exists (d\<lparr>t_profit_bookings := b\<rparr>) u = user_exists d u"
  by (cases u; simp add: user_exists_def)+

lemma status_run:
  "getSettlementById i (db w) = Some s \<Longrightarrow>
   updateSettlementStatusWithClient i st u w =
     (if \<not> user_exists (db w) u then (Inl (DbError ''23503''), w)
      else (Inr (Some (set_status_fields (clock w) st u s)),
            w\<lparr>db := (db w)\<lparr>t_settlements := update_where (\<lambda>s. set_id s = i) (set_status_fields (clock w) st u) (t_settlements (db w))\<rparr>\<rparr>))"
  by (simp add: updateSettlementStatusWithClient_def run_guard)

lemma transition_run:
  "assertTransition a b w =
     (if a = Set_pending \<and> b = Set_facility_repaid \<or> a = Set_facility_repaid \<and> b = Set_profit_booked
         \<or> a = Set_profit_booked \<and> b = Set_closed
      then (Inr (), w) else (Inl (BusinessRuleError ''SETTLEMENT_WRONG_STATUS''), w))"
  by (cases a) (auto simp: assertTransition_def run_guard)

lemma getOrThrow_run:
  "getSettlementById i (db w) = None \<Longrightarrow> getSettlementOrThrow i w = (Inl (NotFoundError ''Settlement'' i), w)"
  "getSettlementById i (db w) = Some s \<Longrightarrow> getSettlementOrThrow i w = (Inr s, w)"
  by (simp_all add: getSettlementOrThrow_def)

lemma set_status_fields_keys [simp]:
  "set_id (set_status_fields now st u s) = set_id s" "set_invoice (set_status_fields now st u s) = set_invoice s"
  "set_idempotency_key (set_status_fields now st u s) = set_idempotency_key s"
  "set_net_profit (set_status_fields now st u s) = set_net_profit s"
  "set_penalty_income (set_status_fields now st u s) = set_penalty_income s"
  "set_status (set_status_fields now st u s) = st"
  "set_settled_at (set_status_fields now st u s) = (if st = Set_closed then Some now else set_settled_at s)"
  by (simp_all add: set_status_fields_def)

definition repaid_row :: "int \<Rightarrow> string \<Rightarrow> int \<Rightarrow> int \<Rightarrow> settlement \<Rightarrow> settlement" where
  "repaid_row now u amount interest s =
     set_status_fields now Set_facility_repaid (Some u) (s\<lparr>set_facility_repayment := amount, set_accrued_interest := interest\<rparr>)"

definition booked_row :: "int \<Rightarrow> string \<Rightarrow> int \<Rightarrow> settlement \<Rightarrow> settlement" where
  "booked_row now u net s = set_status_fields now Set_profit_booked (Some u) (s\<lparr>set_net_profit := net\<rparr>)"

definition closed_row :: "int \<Rightarrow> string \<Rightarrow> settlement \<Rightarrow> settlement" where
  "closed_row now u = set_status_fields now Set_closed (Some u)"

lemma rows_keep [simp]:
  "set_id (repaid_row now u a b s) = set_id s" "set_id (booked_row now u n s) = set_id s" "set_id (closed_row now u s) = set_id s"
  "set_invoice (repaid_row now u a b s) = set_invoice s" "set_invoice (booked_row now u n s) = set_invoice s"
  "set_invoice (closed_row now u s) = set_invoice s"
  "set_idempotency_key (repaid_row now u a b s) = set_idempotency_key s"
  "set_idempotency_key (booked_row now u n s) = set_idempotency_key s"
  "set_idempotency_key (closed_row now u s) = set_idempotency_key s"
  by (simp_all add: repaid_row_def booked_row_def closed_row_def)

definition repaid_audit :: "string \<Rightarrow> int \<Rightarrow> string \<Rightarrow> string \<Rightarrow> string \<Rightarrow> audit_entry" where
  "repaid_audit i amount u ip ua = audit_req (Some u) ''SETTLEMENT_FACILITY_REPAID'' ''settlements'' i
     (Some [(''status'', JStr ''pending'')])
     [(''status'', JStr ''facility_repaid''), (''facilityRepaymentAmount'', JInt amount)] (Some ip) (Some ua)"

definition booked_audit :: "string \<Rightarrow> int \<Rightarrow> string \<Rightarrow> string \<Rightarrow> string \<Rightarrow> audit_entry" where
  "booked_audit i net u ip ua = audit_req (Some u) ''SETTLEMENT_PROFIT_BOOKED'' ''settlements'' i
     (Some [(''status'', JStr ''facility_repaid'')])
     [(''status'', JStr ''profit_booked''), (''netProfit'', JInt net)] (Some ip) (Some ua)"

definition closed_audit :: "string \<Rightarrow> string \<Rightarrow> string \<Rightarrow> string \<Rightarrow> audit_entry" where
  "closed_audit i u ip ua = audit_req (Some u) ''SETTLEMENT_CLOSED'' ''settlements'' i
     (Some [(''status'', JStr ''profit_booked'')]) [(''status'', JStr ''closed'')] (Some ip) (Some ua)"

lemma getSettlement_update:
  "(\<And>s. set_id (f s) = set_id s) \<Longrightarrow>
   getSettlementById i (d\<lparr>t_settlements := update_where (\<lambda>s. set_id s = i) f ts\<rparr>) =
     map_option f (select_one (\<lambda>s. set_id s = i) ts)"
proof -
  assume f: "\<And>s. set_id (f s) = set_id s"
  have "map_option (\<lambda>r. if set_id r = i then f r else r) (select_one (\<lambda>s. set_id s = i) ts) = map_option f (select_one (\<lambda>s. set_id s = i) ts)"
    by (cases "select_one (\<lambda>s. set_id s = i) ts") (auto dest: select_one_key)
  then show ?thesis using f by (simp add: getSettlementById_def select_one_update_where)
qed


text \<open>The two checks at the end of every transaction: the user, then the columns of the audit table.\<close>

definition settlement_commit :: "db \<Rightarrow> string \<Rightarrow> ris_error option" where
  "settlement_commit d u =
     (if \<not> user_exists d (Some u) then Some (DbError ''23503'')
      else if \<not> settlement_cols_ok d then Some (DbError ''42703'') else None)"

lemma repay_run:
  "repayFacility i amount interest u ip ua w =
     (case getSettlementById i (db w) of None \<Rightarrow> (Inl (NotFoundError ''Settlement'' i), w)
      | Some s \<Rightarrow>
        if set_status s \<noteq> Set_pending then (Inl (BusinessRuleError ''SETTLEMENT_WRONG_STATUS''), w)
        else if \<not> all_bigint [amount, interest] then (Inl (DbError ''22003''), w)
        else if amount < 0 \<or> interest < 0 then (Inl (DbError ''23514''), w)
        else case settlement_commit (db w) u of Some e \<Rightarrow> (Inl e, w)
        | None \<Rightarrow> (Inr (Some (repaid_row (clock w) u amount interest s)),
            w\<lparr>db := (db w)\<lparr>t_settlements := update_where (\<lambda>s. set_id s = i) (repaid_row (clock w) u amount interest) (t_settlements (db w)),
                            t_audit := t_audit (db w) @ [repaid_audit i amount u ip ua]\<rparr>\<rparr>))"
proof (cases "getSettlementById i (db w)")
  case None
  then show ?thesis by (simp add: repayFacility_def getOrThrow_run)
next
  case (Some s)
  let ?f = "\<lambda>s. s\<lparr>set_facility_repayment := amount, set_accrued_interest := interest\<rparr>"
  let ?d1 = "(db w)\<lparr>t_settlements := update_where (\<lambda>s. set_id s = i) ?f (t_settlements (db w))\<rparr>"
  let ?w1 = "w\<lparr>db := ?d1\<rparr>"
  have get: "getSettlementById i (db ?w1) = Some (?f s)"
    using Some by (simp add: getSettlementById_def select_one_update_where) (use select_one_key [of set_id] in fastforce)
  have upd: "update_where (\<lambda>s. set_id s = i) (set_status_fields (clock w) Set_facility_repaid (Some u)) (update_where (\<lambda>s. set_id s = i) ?f ts)
      = update_where (\<lambda>s. set_id s = i) (repaid_row (clock w) u amount interest) ts" for ts
    by (simp add: update_where_compose repaid_row_def [abs_def])
  have row: "set_status_fields (clock w) Set_facility_repaid (Some u) (?f s) = repaid_row (clock w) u amount interest s"
    by (simp add: repaid_row_def)
  note st = status_run [OF get, of Set_facility_repaid "Some u"]
  note run_defs = repayFacility_def getOrThrow_run transition_run executeRepayFacilityTxn_def settlements_audit_run
    settlement_commit_def repaid_audit_def
  consider "set_status s \<noteq> Set_pending" | "set_status s = Set_pending" "\<not> all_bigint [amount, interest]"
    | "set_status s = Set_pending" "all_bigint [amount, interest]" "amount < 0 \<or> interest < 0"
    | "set_status s = Set_pending" "all_bigint [amount, interest]" "\<not> (amount < 0 \<or> interest < 0)" by blast
  then show ?thesis
  proof cases
    case 4
    then have u1: "updateFacilityRepaymentWithClient i amount interest (db w) = Inr ?d1"
      by (simp add: updateFacilityRepaymentWithClient_def)
    consider "\<not> user_exists (db w) (Some u)" | "user_exists (db w) (Some u)" "\<not> settlement_cols_ok (db w)"
      | "user_exists (db w) (Some u)" "settlement_cols_ok (db w)" by blast
    then show ?thesis using Some 4 st row upd [of "t_settlements (db w)"] u1 by cases (simp_all add: run_defs)
  qed (use Some in \<open>simp_all add: run_defs updateFacilityRepaymentWithClient_def\<close>)
qed

lemma book_run:
  "bookProfit bid i discount cost u ip ua w =
     (case getSettlementById i (db w) of None \<Rightarrow> (Inl (NotFoundError ''Settlement'' i), w)
      | Some s \<Rightarrow>
        let net = discount - cost + set_penalty_income s;
            b = \<lparr>pb_id = bid, pb_settlement = i, pb_discount_earned = discount, pb_bank_cost_paid = cost,
                 pb_penalty_income = set_penalty_income s, pb_net_profit = net, pb_booked_by = u\<rparr>
        in if set_status s \<noteq> Set_facility_repaid then (Inl (BusinessRuleError ''SETTLEMENT_WRONG_STATUS''), w)
           else (case createProfitBookingWithClient b (db w) of Inl e \<Rightarrow> (Inl e, w)
           | Inr d1 \<Rightarrow>
               (case settlement_commit (db w) u of Some e \<Rightarrow> (Inl e, w)
                | None \<Rightarrow> (Inr (Some (booked_row (clock w) u net s)),
                    w\<lparr>db := (db w)\<lparr>t_profit_bookings := t_profit_bookings (db w) @ [b],
                       t_settlements := update_where (\<lambda>s. set_id s = i) (booked_row (clock w) u net) (t_settlements (db w)),
                       t_audit := t_audit (db w) @ [booked_audit i net u ip ua]\<rparr>\<rparr>))))"
proof (cases "getSettlementById i (db w)")
  case None
  then show ?thesis by (simp add: bookProfit_def getOrThrow_run)
next
  case (Some s)
  let ?n = "discount - cost + set_penalty_income s"
  let ?b = "\<lparr>pb_id = bid, pb_settlement = i, pb_discount_earned = discount, pb_bank_cost_paid = cost,
             pb_penalty_income = set_penalty_income s, pb_net_profit = ?n, pb_booked_by = u\<rparr>"
  let ?f = "\<lambda>s. s\<lparr>set_net_profit := ?n\<rparr>"
  let ?d1 = "(db w)\<lparr>t_profit_bookings := t_profit_bookings (db w) @ [?b]\<rparr>"
  let ?d2 = "?d1\<lparr>t_settlements := update_where (\<lambda>s. set_id s = i) ?f (t_settlements (db w))\<rparr>"
  have get: "getSettlementById i (db (w\<lparr>db := ?d2\<rparr>)) = Some (?f s)"
    using Some by (simp add: getSettlementById_def select_one_update_where) (use select_one_key [of set_id] in fastforce)
  have upd: "update_where (\<lambda>s. set_id s = i) (set_status_fields (clock w) Set_profit_booked (Some u)) (update_where (\<lambda>s. set_id s = i) ?f ts)
      = update_where (\<lambda>s. set_id s = i) (booked_row (clock w) u ?n) ts" for ts
    by (simp add: update_where_compose booked_row_def [abs_def])
  have row: "set_status_fields (clock w) Set_profit_booked (Some u) (?f s) = booked_row (clock w) u ?n s"
    by (simp add: booked_row_def)
  note st = status_run [OF get, of Set_profit_booked "Some u"]
  note run_defs = bookProfit_def getOrThrow_run transition_run executeBookProfitTxn_def calculateNetProfit_def
    settlements_audit_run settlement_commit_def booked_audit_def
  consider "set_status s \<noteq> Set_facility_repaid"
    | e where "set_status s = Set_facility_repaid" "createProfitBookingWithClient ?b (db w) = Inl e"
    | d1 where "set_status s = Set_facility_repaid" "createProfitBookingWithClient ?b (db w) = Inr d1"
    by (cases "createProfitBookingWithClient ?b (db w)") auto
  then show ?thesis
  proof cases
    case (3 d1)
    then have d1: "d1 = ?d1" and net: "updateNetProfitWithClient i ?n ?d1 = Inr ?d2"
      by (auto simp: createProfitBookingWithClient_def updateNetProfitWithClient_def all_bigint_def bigint_in_def split: if_splits)
    consider "\<not> user_exists (db w) (Some u)" | "user_exists (db w) (Some u)" "\<not> settlement_cols_ok (db w)"
      | "user_exists (db w) (Some u)" "settlement_cols_ok (db w)" by blast
    then show ?thesis using Some 3 [unfolded d1] net st row upd [of "t_settlements (db w)"] by cases (simp_all add: run_defs Let_def)
  qed (use Some in \<open>simp_all add: run_defs\<close>)
qed

lemma close_run:
  "closeSettlement i u ip ua w =
     (case getSettlementById i (db w) of None \<Rightarrow> (Inl (NotFoundError ''Settlement'' i), w)
      | Some s \<Rightarrow>
        if set_status s \<noteq> Set_profit_booked then (Inl (BusinessRuleError ''SETTLEMENT_WRONG_STATUS''), w)
        else case settlement_commit (db w) u of Some e \<Rightarrow> (Inl e, w)
        | None \<Rightarrow>
            let w1 = w\<lparr>db := (db w)\<lparr>t_settlements := update_where (\<lambda>s. set_id s = i) (closed_row (clock w) u) (t_settlements (db w)),
                                     t_audit := t_audit (db w) @ [closed_audit i u ip ua]\<rparr>\<rparr>
            in if queue_set w Settlements_notification \<and> \<not> redis_up w then (Inl QueueError, w1)
               else (Inr (closed_row (clock w) u s),
                 enqueued Settlements_notification ''settlement_complete''
                   [(''invoiceId'', JStr (set_invoice s)), (''settlementId'', JStr i), (''netProfit'', JInt (set_net_profit s))] w1))"
proof (cases "getSettlementById i (db w)")
  case None
  then show ?thesis by (simp add: closeSettlement_def getOrThrow_run)
next
  case (Some s)
  note st = status_run [OF Some, of Set_closed "Some u"]
  note run_defs = closeSettlement_def getOrThrow_run transition_run executeCloseTxn_def settlements_audit_run settlement_commit_def
    closed_audit_def closed_row_def [abs_def] queueSettlementNotification_def run_enqueue enqueued_def
  consider "set_status s \<noteq> Set_profit_booked" | "set_status s = Set_profit_booked" "\<not> user_exists (db w) (Some u)"
    | "set_status s = Set_profit_booked" "user_exists (db w) (Some u)" "\<not> settlement_cols_ok (db w)"
    | "set_status s = Set_profit_booked" "user_exists (db w) (Some u)" "settlement_cols_ok (db w)" by blast
  then show ?thesis
  proof cases
    case 4
    consider "\<not> queue_set w Settlements_notification" | "queue_set w Settlements_notification" "redis_up w"
      | "queue_set w Settlements_notification" "\<not> redis_up w" by blast
    then show ?thesis using Some 4 st by cases (simp_all add: run_defs)
  qed (use Some st in \<open>simp_all add: run_defs\<close>)
qed


definition initiated_audit :: "string \<Rightarrow> string \<Rightarrow> string \<Rightarrow> string \<Rightarrow> string \<Rightarrow> audit_entry" where
  "initiated_audit sid i u ip ua = audit_req (Some u) ''SETTLEMENT_INITIATED'' ''settlements'' sid None
     [(''invoiceId'', JStr i), (''status'', JStr ''pending'')] (Some ip) (Some ua)"

definition fresh_settlement :: "string \<Rightarrow> string \<Rightarrow> string \<Rightarrow> int \<Rightarrow> int \<Rightarrow> string \<Rightarrow> world \<Rightarrow> settlement" where
  "fresh_settlement sid i c amount penalty key w =
     (let dd = findDrawdownForInvoice i (db w)
      in new_settlement (clock w) sid i c (map_option dd_id dd) amount (case dd of None \<Rightarrow> 0 | Some r \<Rightarrow> dd_principal r)
           (case dd of None \<Rightarrow> 0 | Some r \<Rightarrow> dd_accrued_interest r) penalty key)"

lemma initiate_run:
  "initiateSettlement sid i c amount penalty u ip ua key w =
     (case getSettlementByIdempotencyKey key (db w) of Some s \<Rightarrow> (Inr s, w)
      | None \<Rightarrow>
        if getSettlementByInvoiceId i (db w) \<noteq> None then (Inl (BusinessRuleError ''SETTLEMENT_ALREADY_EXISTS''), w)
        else let s = fresh_settlement sid i c amount penalty key w
             in (case insert_settlement s (db w) of Inl e \<Rightarrow> (Inl e, w)
                 | Inr d1 \<Rightarrow>
                     if \<not> settlement_cols_ok (db w) then (Inl (DbError ''42703''), w)
                     else if \<not> user_exists (db w) (Some u) then (Inl (DbError ''23503''), w)
                     else (Inr s, w\<lparr>db := (db w)\<lparr>t_settlements := t_settlements (db w) @ [s],
                                                  t_audit := t_audit (db w) @ [initiated_audit sid i u ip ua]\<rparr>\<rparr>)))"
proof (cases "getSettlementByIdempotencyKey key (db w)")
  case None
  let ?s = "fresh_settlement sid i c amount penalty key w"
  have key: "set_idempotency_key ?s = key" by (simp add: fresh_settlement_def new_settlement_def Let_def)
  have ins: "insert_settlement ?s (db w) = Inr d1 \<Longrightarrow> d1 = (db w)\<lparr>t_settlements := t_settlements (db w) @ [?s]\<rparr>" for d1
    using None key by (auto simp: insert_settlement_def split: if_splits)
  have run: "runFreshInitiateSettlement sid i c amount penalty key u ip ua w =
      transactionS (bindS (createSettlementWithClient ?s) (\<lambda>s. thenS (settlements_audit (initiated_audit sid i u ip ua)) (returnS s))) w"
    by (simp add: runFreshInitiateSettlement_def executeInitiateTxn_def fresh_settlement_def initiated_audit_def Let_def transactionS_def)
  note run_defs = initiateSettlement_def run createSettlementWithClient_def settlements_audit_run key initiated_audit_def Let_def
  show ?thesis
  proof (cases "getSettlementByInvoiceId i (db w)")
    case (Some r)
    then show ?thesis using None by (simp add: initiateSettlement_def)
  next
    case inv: None
    consider e where "insert_settlement ?s (db w) = Inl e"
      | "insert_settlement ?s (db w) = Inr ((db w)\<lparr>t_settlements := t_settlements (db w) @ [?s]\<rparr>)"
      using ins by (cases "insert_settlement ?s (db w)") auto
    then show ?thesis
    proof cases
      case 2
      consider "\<not> settlement_cols_ok (db w)" | "settlement_cols_ok (db w)" "\<not> user_exists (db w) (Some u)"
        | "settlement_cols_ok (db w)" "user_exists (db w) (Some u)" by blast
      then show ?thesis using None inv 2 by cases (simp_all add: run_defs)
    qed (use None inv in \<open>simp add: run_defs\<close>)
  qed
qed (simp add: initiateSettlement_def)

section \<open>The ledger of settlements\<close>

text \<open>
  The invariant: identifiers, invoices and idempotency keys are unique; a settlement has a booking
  exactly from \<open>profit_booked\<close> on, its net profit is the booked one and equals discount minus bank
  cost plus penalty; before that its net profit is zero; the settlement time is set exactly when it is closed.
\<close>

definition settlement_booked :: "profit_booking list \<Rightarrow> settlement \<Rightarrow> bool" where
  "settlement_booked bs s \<longleftrightarrow>
     (if set_status s = Set_profit_booked \<or> set_status s = Set_closed
      then \<exists>b. filter (\<lambda>b. pb_settlement b = set_id s) bs = [b] \<and> pb_net_profit b = set_net_profit s
             \<and> set_net_profit s = pb_discount_earned b - pb_bank_cost_paid b + set_penalty_income s
      else filter (\<lambda>b. pb_settlement b = set_id s) bs = [] \<and> set_net_profit s = 0)
     \<and> (set_settled_at s \<noteq> None \<longleftrightarrow> set_status s = Set_closed)"

definition settlement_inv :: "db \<Rightarrow> bool" where
  "settlement_inv d \<longleftrightarrow> distinct (map set_id (t_settlements d)) \<and> distinct (map set_invoice (t_settlements d))
     \<and> distinct (map set_idempotency_key (t_settlements d))
     \<and> (\<forall>s \<in> set (t_settlements d). settlement_booked (t_profit_bookings d) s)
     \<and> (\<forall>b \<in> set (t_profit_bookings d). \<exists>s \<in> set (t_settlements d). set_id s = pb_settlement b)"

lemma settlement_inv_frame [simp]: "settlement_inv (d\<lparr>t_audit := a\<rparr>) = settlement_inv d"
  by (simp add: settlement_inv_def)

lemma settlement_inv_update:
  assumes "settlement_inv d" and "getSettlementById i d = Some s"
    and keys: "\<And>s. set_id (f s) = set_id s" "\<And>s. set_invoice (f s) = set_invoice s" "\<And>s. set_idempotency_key (f s) = set_idempotency_key s"
    and this_row: "settlement_booked (t_profit_bookings d @ bs) (f s)"
    and refs: "\<And>b. b \<in> set bs \<Longrightarrow> pb_settlement b = i"
  shows "settlement_inv (d\<lparr>t_profit_bookings := t_profit_bookings d @ bs, t_settlements := update_where (\<lambda>s. set_id s = i) f (t_settlements d)\<rparr>)"
proof -
  have s: "s \<in> set (t_settlements d)" "set_id s = i" using assms(2) by (auto simp: getSettlementById_def dest: select_one_Some)
  have only: "r = s" if "r \<in> set (t_settlements d)" "set_id r = i" for r
    using that s assms(1) by (metis settlement_inv_def distinct_map inj_onD)
  have rows: "settlement_booked (t_profit_bookings d @ bs) r'" if r': "r' \<in> set (update_where (\<lambda>s. set_id s = i) f (t_settlements d))" for r'
  proof -
    obtain r where r: "r \<in> set (t_settlements d)" "r' = (if set_id r = i then f r else r)"
      using r' by (auto simp: update_where_def)
    show ?thesis
    proof (cases "set_id r = i")
      case True
      then show ?thesis using only r this_row by simp
    next
      case False
      then have "filter (\<lambda>b. pb_settlement b = set_id r) bs = []" using refs by (auto simp: filter_empty_conv)
      then show ?thesis using False r assms(1) by (simp add: settlement_inv_def settlement_booked_def)
    qed
  qed
  have ids: "set_id ` set (update_where (\<lambda>s. set_id s = i) f (t_settlements d)) = set_id ` set (t_settlements d)"
    using keys(1) by (metis map_update_where list.set_map)
  have "\<exists>s \<in> set (update_where (\<lambda>s. set_id s = i) f (t_settlements d)). set_id s = pb_settlement b"
    if "b \<in> set (t_profit_bookings d @ bs)" for b
  proof -
    have "pb_settlement b \<in> set_id ` set (t_settlements d)"
      using that refs s assms(1) by (auto simp: settlement_inv_def image_iff) metis
    then show ?thesis unfolding ids [symmetric] by auto
  qed
  then show ?thesis using assms(1) rows keys by (simp add: settlement_inv_def map_update_where)
qed


lemma settlement_inv_insert:
  assumes "settlement_inv d" and "insert_settlement s d = Inr d1" and "getSettlementByIdempotencyKey (set_idempotency_key s) d = None"
    and s: "set_status s = Set_pending" "set_net_profit s = 0" "set_settled_at s = None"
  shows "settlement_inv (d\<lparr>t_settlements := t_settlements d @ [s]\<rparr>)"
proof -
  have new: "\<not> list_ex (\<lambda>r. set_id r = set_id s \<or> set_invoice r = set_invoice s) (t_settlements d)"
    using assms(2,3) by (auto simp: insert_settlement_def split: if_splits)
  have key: "set_idempotency_key s \<notin> set_idempotency_key ` set (t_settlements d)"
    using assms(3) by (force simp: getSettlementByIdempotencyKey_def select_one_None)
  have "pb_settlement b \<noteq> set_id s" if "b \<in> set (t_profit_bookings d)" for b
    using that new assms(1) by (force simp: settlement_inv_def list_ex_iff)
  then have "settlement_booked (t_profit_bookings d) s" using s by (simp add: settlement_booked_def filter_empty_conv)
  then show ?thesis using assms(1) new key by (auto simp: settlement_inv_def list_ex_iff)
qed

text \<open>One step of the settlement service, or a step that touches neither settlements nor bookings.\<close>

inductive settlement_step :: "world \<Rightarrow> world \<Rightarrow> bool" where
  initiate: "settlement_step w (snd (initiateSettlement sid i c amount penalty u ip ua key w))"
| repay: "settlement_step w (snd (repayFacility i amount interest u ip ua w))"
| book: "settlement_step w (snd (bookProfit bid i discount cost u ip ua w))"
| close: "settlement_step w (snd (closeSettlement i u ip ua w))"
| job: "settlement_step w (snd (handleSettlementJob uuidv5 sid j w))"
| other: "t_settlements (db w') = t_settlements (db w) \<Longrightarrow> t_profit_bookings (db w') = t_profit_bookings (db w) \<Longrightarrow> settlement_step w w'"

lemma settlement_row:
  assumes "settlement_inv d" and "getSettlementById i d = Some s"
  shows "settlement_booked (t_profit_bookings d) s \<and> set_id s = i"
proof -
  have "s \<in> set (t_settlements d)" "set_id s = i" using assms(2) by (auto simp: getSettlementById_def dest: select_one_Some)
  then show ?thesis using assms(1) by (simp add: settlement_inv_def)
qed

lemma initiate_keeps:
  assumes "settlement_inv (db w)"
  shows "settlement_inv (db (snd (initiateSettlement sid i c amount penalty u ip ua key w)))"
proof (cases "getSettlementByIdempotencyKey key (db w)")
  case None
  let ?s = "fresh_settlement sid i c amount penalty key w"
  have s: "set_status ?s = Set_pending" "set_net_profit ?s = 0" "set_settled_at ?s = None" "set_idempotency_key ?s = key"
    by (simp_all add: fresh_settlement_def new_settlement_def Let_def)
  show ?thesis using settlement_inv_insert [OF assms, of ?s] None s assms
    by (auto simp: initiate_run Let_def split: sum.split)
qed (use assms in \<open>simp add: initiate_run\<close>)

lemma repay_keeps:
  assumes inv: "settlement_inv (db w)"
  shows "settlement_inv (db (snd (repayFacility i amount interest u ip ua w)))"
proof (cases "getSettlementById i (db w)")
  case (Some s)
  have "settlement_inv ((db w)\<lparr>t_settlements := update_where (\<lambda>s. set_id s = i) (repaid_row (clock w) u amount interest) (t_settlements (db w))\<rparr>)"
    if st: "set_status s = Set_pending"
  proof -
    have "settlement_booked (t_profit_bookings (db w) @ []) (repaid_row (clock w) u amount interest s)"
      using settlement_row [OF inv Some] st by (auto simp: settlement_booked_def repaid_row_def)
    then show ?thesis using settlement_inv_update [OF inv Some, where f = "repaid_row (clock w) u amount interest" and bs = "[]"] by simp
  qed
  then show ?thesis using Some inv by (simp add: repay_run split: option.split)
qed (use inv in \<open>simp add: repay_run\<close>)

lemma book_keeps:
  assumes inv: "settlement_inv (db w)"
  shows "settlement_inv (db (snd (bookProfit bid i discount cost u ip ua w)))"
proof (cases "getSettlementById i (db w)")
  case (Some s)
  let ?n = "discount - cost + set_penalty_income s"
  let ?b = "\<lparr>pb_id = bid, pb_settlement = i, pb_discount_earned = discount, pb_bank_cost_paid = cost,
             pb_penalty_income = set_penalty_income s, pb_net_profit = ?n, pb_booked_by = u\<rparr>"
  have "settlement_inv ((db w)\<lparr>t_profit_bookings := t_profit_bookings (db w) @ [?b],
      t_settlements := update_where (\<lambda>s. set_id s = i) (booked_row (clock w) u ?n) (t_settlements (db w))\<rparr>)"
    if st: "set_status s = Set_facility_repaid"
  proof -
    have "settlement_booked (t_profit_bookings (db w) @ [?b]) (booked_row (clock w) u ?n s)"
      using settlement_row [OF inv Some] st by (auto simp: settlement_booked_def booked_row_def)
    then show ?thesis by (intro settlement_inv_update [OF inv Some]) simp_all
  qed
  then show ?thesis using Some inv by (simp add: book_run Let_def split: option.split sum.split)
qed (use inv in \<open>simp add: book_run\<close>)

lemma close_keeps:
  assumes inv: "settlement_inv (db w)"
  shows "settlement_inv (db (snd (closeSettlement i u ip ua w)))"
proof (cases "getSettlementById i (db w)")
  case (Some s)
  have "settlement_inv ((db w)\<lparr>t_settlements := update_where (\<lambda>s. set_id s = i) (closed_row (clock w) u) (t_settlements (db w))\<rparr>)"
    if st: "set_status s = Set_profit_booked"
  proof -
    have "settlement_booked (t_profit_bookings (db w) @ []) (closed_row (clock w) u s)"
      using settlement_row [OF inv Some] st by (auto simp: settlement_booked_def closed_row_def)
    then show ?thesis using settlement_inv_update [OF inv Some, where f = "closed_row (clock w) u" and bs = "[]"] by simp
  qed
  then show ?thesis using Some inv by (simp add: close_run Let_def split: option.split)
qed (use inv in \<open>simp add: close_run\<close>)

lemma job_state: "snd (handleSettlementJob uuidv5 sid j w) = snd (initiateSettlement sid (sj_invoice j) (sj_collection j) (sj_amount j)
   (sj_penalty j) ''SYSTEM'' ''0.0.0.0'' ''scheduled-worker'' (deriveSettlementIdempotencyKey uuidv5 (sj_invoice j) (sj_collection j)) w)"
  by (simp add: handleSettlementJob_def thenS_def bindS_def split: prod.split sum.split)

text \<open>
  C26: along any run of the settlement service, from a consistent ledger, the ledger stays consistent:
  at most one settlement per invoice and per idempotency key; a profit is booked exactly once, when
  the settlement passes to \<open>profit_booked\<close>; from then on the net profit of the settlement is the booked
  one and equals discount earned minus bank cost plus penalty income; the settlement time is set exactly on closing.
\<close>

theorem settlement_ledger_invariant:
  assumes "settlement_step\<^sup>*\<^sup>* w w'" and "settlement_inv (db w)"
  shows "settlement_inv (db w')"
  using assms
proof (induction rule: rtranclp_induct)
  case (step w1 w2)
  from step(2) step(3) [OF step(4)] show ?case
  proof cases
    case other
    then show ?thesis using step(3) [OF step(4)] by (simp add: settlement_inv_def)
  qed (simp_all add: initiate_keeps repay_keeps book_keeps close_keeps job_state)
qed

text \<open>
  a settlement request is idempotent in its key: once a request has returned a settlement, every
  later request with the same key, whatever its other arguments, returns that settlement and changes
  nothing; so a retried settlement job, whose key is derived from invoice and collection, never settles twice.
\<close>

theorem initiateSettlement_replay:
  assumes "initiateSettlement sid i c amount penalty u ip ua key w = (Inr s, w')"
  shows "set_idempotency_key s = key \<and> initiateSettlement sid' i' c' amount' penalty' u' ip' ua' key w' = (Inr s, w')
    \<and> length (t_settlements (db w')) \<le> length (t_settlements (db w)) + 1"
proof (cases "getSettlementByIdempotencyKey key (db w)")
  case None
  let ?s = "fresh_settlement sid i c amount penalty key w"
  have k: "set_idempotency_key ?s = key" by (simp add: fresh_settlement_def new_settlement_def Let_def)
  have r: "s = ?s" "t_settlements (db w') = t_settlements (db w) @ [?s]"
    using assms None by (auto simp: initiate_run Let_def split: if_splits sum.splits)
  then have "getSettlementByIdempotencyKey key (db w') = Some ?s"
    using None k by (simp add: getSettlementByIdempotencyKey_def select_one_append)
  then show ?thesis using r k by (simp add: initiate_run)
next
  case (Some r)
  then have "s = r" "w' = w" using assms by (auto simp: initiate_run)
  moreover have "set_idempotency_key r = key"
    using Some by (auto simp: getSettlementByIdempotencyKey_def dest: select_one_key)
  ultimately show ?thesis using Some by (simp add: initiate_run)
qed

text \<open>
  on the schema the migrations produce, the settlement service cannot write: its audit statement
  names columns that \<open>audit_logs\<close> does not have, so every new settlement, repayment, booking and
  closing fails and the database is as before.
\<close>

theorem settlements_blocked_by_schema:
  assumes "audit_columns (db w) = migrated_audit_columns"
  shows "(\<exists>e. repayFacility i amount interest u ip ua w = (Inl e, w)) \<and> (\<exists>e. bookProfit bid i discount cost u ip ua w = (Inl e, w))
    \<and> (\<exists>e. closeSettlement i u ip ua w = (Inl e, w))
    \<and> (getSettlementByIdempotencyKey key (db w) = None \<longrightarrow>
         (\<exists>e. initiateSettlement sid i c amount penalty u ip ua key w = (Inl e, w)))
    \<and> (\<forall>e. settlement_commit (db w) u = Some e \<and> user_exists (db w) (Some u) \<longrightarrow> e = DbError ''42703'')"
proof -
  have c: "\<not> settlement_cols_ok (db w)" unfolding assms settlement_audit_cols_def migrated_audit_columns_def by simp
  then have "settlement_commit (db w) u \<noteq> None" by (simp add: settlement_commit_def)
  then show ?thesis using c
    by (auto simp: repay_run book_run close_run initiate_run Let_def settlement_commit_def split: option.splits sum.splits)
qed

text \<open>
  the notification of a closing follows the commit. When the queue rejects it, the caller gets the queue
  error although the settlement is closed, and repeating the request is refused as a wrong status.
\<close>

theorem closeSettlement_queue_failure:
  assumes "getSettlementById i (db w) = Some s" and "set_status s = Set_profit_booked" and "settlement_commit (db w) u = None"
    and "queue_set w Settlements_notification" and "\<not> redis_up w"
  shows "\<exists>w' q. closeSettlement i u ip ua w = (Inl QueueError, w') \<and> getSettlementById i (db w') = Some q
    \<and> set_status q = Set_closed \<and> set_settled_at q = Some (clock w) \<and> jobs w' = jobs w
    \<and> closeSettlement i u ip ua w' = (Inl (BusinessRuleError ''SETTLEMENT_WRONG_STATUS''), w')"
proof -
  let ?w' = "w\<lparr>db := (db w)\<lparr>t_settlements := update_where (\<lambda>s. set_id s = i) (closed_row (clock w) u) (t_settlements (db w)),
      t_audit := t_audit (db w) @ [closed_audit i u ip ua]\<rparr>\<rparr>"
  have run: "closeSettlement i u ip ua w = (Inl QueueError, ?w')" using assms by (simp add: close_run)
  have id: "set_id s = i" using assms(1) by (auto simp: getSettlementById_def dest: select_one_key)
  have get: "getSettlementById i (db ?w') = Some (closed_row (clock w) u s)"
    using assms(1) id by (simp add: getSettlementById_def select_one_update_where)
  have "closeSettlement i u ip ua ?w' = (Inl (BusinessRuleError ''SETTLEMENT_WRONG_STATUS''), ?w')"
    using get by (subst close_run) (simp add: closed_row_def)
  then show ?thesis using run get
    by (intro exI [of _ ?w'] exI [of _ "closed_row (clock w) u s"]) (simp add: closed_row_def)
qed


section \<open>Concrete settlements\<close>

definition settle_world :: "string list \<Rightarrow> world" where
  "settle_world cols = world_of (blank_db\<lparr>t_invoices := [sample_invoice Inv_collected],
     t_collections := [sample_collection Col_collected],
     t_users := [sample_user ''u'' None], audit_columns := cols\<rparr>)"

definition settle_row :: "string list \<Rightarrow> settlement" where
  "settle_row cols = fresh_settlement ''s'' ''inv'' ''col'' 1000 50 ''k'' (settle_world cols)"

definition settle_world1 :: "string list \<Rightarrow> world" where
  "settle_world1 cols = (settle_world cols)\<lparr>db := (db (settle_world cols))\<lparr>t_settlements := [settle_row cols],
     t_audit := [initiated_audit ''s'' ''inv'' ''u'' ''ip'' ''ua'']\<rparr>\<rparr>"

lemma settle_initiated:
  "initiateSettlement ''s'' ''inv'' ''col'' 1000 50 ''u'' ''ip'' ''ua'' ''k'' (settle_world settlement_audit_cols)
     = (Inr (settle_row settlement_audit_cols), settle_world1 settlement_audit_cols)"
proof -
  have "insert_settlement (settle_row settlement_audit_cols) (db (settle_world settlement_audit_cols)) =
      Inr ((db (settle_world settlement_audit_cols))\<lparr>t_settlements := [settle_row settlement_audit_cols]\<rparr>)"
    by (simp add: insert_settlement_def settle_row_def fresh_settlement_def findDrawdownForInvoice_def new_settlement_def
        all_bigint_def getSettlementByIdempotencyKey_def settlement_refs_ok_def settle_world_def sample_defs)
  moreover have "getSettlementByIdempotencyKey ''k'' (db (settle_world settlement_audit_cols)) = None"
    "getSettlementByInvoiceId ''inv'' (db (settle_world settlement_audit_cols)) = None"
    "settlement_cols_ok (db (settle_world settlement_audit_cols))" "user_exists (db (settle_world settlement_audit_cols)) (Some ''u'')"
    "t_settlements (db (settle_world settlement_audit_cols)) = []" "t_audit (db (settle_world settlement_audit_cols)) = []"
    by (simp_all add: settle_world_def sample_defs getSettlementByIdempotencyKey_def getSettlementByInvoiceId_def list_all_iff)
  ultimately show ?thesis unfolding initiate_run settle_row_def [symmetric] settle_world1_def by (simp add: Let_def)
qed

theorem initiateSettlement_replay_witness:
  "initiateSettlement ''s2'' ''inv'' ''col'' 7 0 ''u'' ''ip'' ''ua'' ''k'' (settle_world1 settlement_audit_cols)
     = (Inr (settle_row settlement_audit_cols), settle_world1 settlement_audit_cols)"
  using initiateSettlement_replay [OF settle_initiated] by blast

theorem settlement_ledger_invariant_witness: "settlement_inv (db (settle_world1 settlement_audit_cols))"
proof -
  have "settlement_step (settle_world settlement_audit_cols) (settle_world1 settlement_audit_cols)"
    using settlement_step.initiate [of "settle_world settlement_audit_cols" "''s''" "''inv''" "''col''" 1000 50 "''u''" "''ip''" "''ua''" "''k''"]
    by (simp add: settle_initiated)
  moreover have "settlement_inv (db (settle_world settlement_audit_cols))"
    by (simp add: settlement_inv_def settle_world_def sample_defs)
  ultimately show ?thesis using settlement_ledger_invariant by blast
qed

theorem settlements_blocked_by_schema_witness:
  "\<exists>e. initiateSettlement ''s'' ''inv'' ''col'' 1000 50 ''u'' ''ip'' ''ua'' ''k'' (settle_world migrated_audit_columns)
     = (Inl e, settle_world migrated_audit_columns)"
proof -
  have "audit_columns (db (settle_world migrated_audit_columns)) = migrated_audit_columns"
    "getSettlementByIdempotencyKey ''k'' (db (settle_world migrated_audit_columns)) = None"
    by (simp_all add: settle_world_def blank_db_def world_of_def getSettlementByIdempotencyKey_def)
  then show ?thesis using settlements_blocked_by_schema by blast
qed

definition settle_world2 :: world where
  "settle_world2 = (settle_world settlement_audit_cols)\<lparr>redis_up := False, db := (db (settle_world settlement_audit_cols))\<lparr>
     t_settlements := [(settle_row settlement_audit_cols)\<lparr>set_status := Set_profit_booked\<rparr>]\<rparr>\<rparr>"

theorem closeSettlement_queue_failure_witness:
  "\<exists>w' q. closeSettlement ''s'' ''u'' ''ip'' ''ua'' settle_world2 = (Inl QueueError, w')
     \<and> getSettlementById ''s'' (db w') = Some q \<and> set_status q = Set_closed"
proof -
  have "getSettlementById ''s'' (db settle_world2) = Some ((settle_row settlement_audit_cols)\<lparr>set_status := Set_profit_booked\<rparr>)"
    "settlement_commit (db settle_world2) ''u'' = None" "queue_set settle_world2 Settlements_notification" "\<not> redis_up settle_world2"
    by (simp_all add: settle_world2_def settle_row_def fresh_settlement_def new_settlement_def Let_def getSettlementById_def
        settlement_commit_def settle_world_def sample_defs list_all_iff)
  then show ?thesis using closeSettlement_queue_failure [of "''s''" settle_world2 _ "''u''" "''ip''" "''ua''"] by fastforce
qed

end
