(* ===== verification/Uganda_ACH.thy ===== *)
theory Uganda_ACH
  imports Calendar
begin

text \<open>
  \<open>src/src/services/payments/uganda-ach.ts\<close>: the fixed-width batch file for the interbank transfer.
  The batch identifier (\<open>uuidv4\<close>), the clock and the environment are arguments, the SHA-256
  digest is a parameter; writing the file to disk is not modelled.
\<close>

record ach_payment_row =
  apr_bank_code :: string
  apr_account :: string
  apr_name :: string
  apr_amount :: int
  apr_reference :: string

record ach_batch =
  ab_filename :: string
  ab_content :: string
  ab_batch_id :: string
  ab_detail_count :: nat
  ab_total_amount :: int
  ab_control_hash :: string

definition HEADER_TYPE :: string where "HEADER_TYPE = ''01''"

definition DETAIL_TYPE :: string where "DETAIL_TYPE = ''02''"

definition TRAILER_TYPE :: string where "TRAILER_TYPE = ''99''"

definition CURRENCY :: string where "CURRENCY = ''UGX''"

definition padRight :: "string \<Rightarrow> nat \<Rightarrow> string" where
  "padRight s len = padEnd len (CHR '' '') (slice0 len s)"

definition padLeftDigits :: "int \<Rightarrow> nat \<Rightarrow> string" where
  "padLeftDigits n len = padStart len (CHR ''0'') (show_int n)"

definition todayYYYYMMDD :: "int \<Rightarrow> string" where
  "todayYYYYMMDD now = yyyymmdd (now div day_ms)"

definition buildHeader :: "int \<Rightarrow> string \<Rightarrow> string \<Rightarrow> string \<Rightarrow> nat \<Rightarrow> string" where
  "buildHeader now batchId bankCode originAccount recordCount =
     concat [HEADER_TYPE, batchId, padRight bankCode 6, padRight originAccount 14, todayYYYYMMDD now, CURRENCY,
             padLeftDigits (int recordCount) 6, ''     '']"

definition buildDetailRow :: "ach_payment_row \<Rightarrow> string" where
  "buildDetailRow row =
     concat [DETAIL_TYPE, padRight (apr_bank_code row) 6, padRight (apr_account row) 14, padRight (apr_name row) 35,
             padLeftDigits (apr_amount row * 100) 15, padRight (apr_reference row) 8]"

definition buildTrailer :: "nat \<Rightarrow> int \<Rightarrow> string \<Rightarrow> string" where
  "buildTrailer detailCount totalAmount hash =
     concat [TRAILER_TYPE, padLeftDigits (int detailCount) 6, padLeftDigits (totalAmount * 100) 15, hash]"

fun join_lines :: "string list \<Rightarrow> string" where
  "join_lines [] = []"
| "join_lines [l] = l"
| "join_lines (l # ls) = l @ CHR 0x0A # join_lines ls"

definition generateUgandaAchFile ::
    "(string \<Rightarrow> string) \<Rightarrow> string option \<Rightarrow> string option \<Rightarrow> string \<Rightarrow> int \<Rightarrow> ach_payment_row list \<Rightarrow> ach_batch" where
  "generateUgandaAchFile sha256_hex envBank envAccount batchId now payments =
     (let bankCode = (case envBank of None \<Rightarrow> ''000000'' | Some s \<Rightarrow> s);
          originAccount = (case envAccount of None \<Rightarrow> [] | Some s \<Rightarrow> s);
          detailCount = length payments;
          totalAmount = foldl (\<lambda>acc p. acc + apr_amount p) 0 payments;
          detailRows = map buildDetailRow payments;
          controlHash = sha256_hex (concat detailRows);
          header = buildHeader now batchId bankCode originAccount detailCount;
          trailer = buildTrailer detailCount totalAmount controlHash
      in \<lparr>ab_filename = ''RIS-EFT-'' @ todayYYYYMMDD now @ ''-'' @ slice0 8 batchId @ ''.txt'',
          ab_content = join_lines (header # detailRows @ [trailer]) @ [CHR 0x0A], ab_batch_id = batchId,
          ab_detail_count = detailCount, ab_total_amount = totalAmount, ab_control_hash = controlHash\<rparr>)"

section \<open>The layout\<close>

text \<open>A field of a record: the characters from one position up to another, counted from 0.\<close>

definition field :: "nat \<Rightarrow> nat \<Rightarrow> string \<Rightarrow> string" where
  "field a b s = take (b - a) (drop a s)"

lemma length_padRight [simp]: "length (padRight s n) = n"
  by (simp add: padRight_def)

lemma show_nat_length: "0 < k \<Longrightarrow> length (show_nat n) \<le> k \<longleftrightarrow> n < 10 ^ k"
proof
  assume k: "0 < k" and l: "length (show_nat n) \<le> k"
  have "digits_val s < 10 ^ length s" if "list_all is_digit s" for s
    using that
  proof (induction s rule: rev_induct)
    case (snoc c s)
    then have "digit_val c \<le> 9" "digits_val s + 1 \<le> 10 ^ length s" by (auto simp: is_digit_def digit_val_def Suc_le_eq)
    then show ?case by (simp add: digits_val_append)
  qed simp
  then have "n < 10 ^ length (show_nat n)" using show_nat_digits [of n] digits_val_show_nat [of n] by metis
  also have "\<dots> \<le> 10 ^ k" using l by (simp add: power_increasing)
  finally show "n < 10 ^ k" .
qed (rule length_show_nat_le)

lemma padLeftDigits_nat:
  "0 \<le> n \<Longrightarrow> padLeftDigits n k = padStart k (CHR ''0'') (show_nat (nat n))"
  by (simp add: padLeftDigits_def show_int_def)

lemma padLeftDigits_value: "0 \<le> n \<Longrightarrow> digits_val (padLeftDigits n k) = nat n"
  by (simp add: padLeftDigits_nat)

lemma length_padLeftDigits: "0 \<le> n \<Longrightarrow> 0 < k \<Longrightarrow> length (padLeftDigits n k) = k \<longleftrightarrow> nat n < 10 ^ k"
  using show_nat_length [of k "nat n"] by (auto simp: padLeftDigits_nat max_def)

lemma length_detail:
  assumes "0 \<le> apr_amount row"
  shows "length (buildDetailRow row) = 65 + max 15 (length (show_nat (nat (apr_amount row * 100))))"
  using assms by (simp add: buildDetailRow_def DETAIL_TYPE_def padLeftDigits_nat)

text \<open>
  a detail record keeps its layout exactly as long as the amount in cents has at most fifteen digits:
  then, and only then, it has eighty characters, and the receiving bank reads back the record type, the
  amount in cents, and the first eight characters of the reference from their positions.
\<close>

theorem buildDetailRow_layout:
  assumes "0 \<le> apr_amount row"
  shows "(length (buildDetailRow row) = 80 \<longleftrightarrow> 100 * apr_amount row < 10 ^ 15)
    \<and> (100 * apr_amount row < 10 ^ 15 \<longrightarrow>
         field 0 2 (buildDetailRow row) = ''02'' \<and> field 8 22 (buildDetailRow row) = padRight (apr_account row) 14
       \<and> int (digits_val (field 57 72 (buildDetailRow row))) = 100 * apr_amount row
       \<and> field 72 80 (buildDetailRow row) = padRight (apr_reference row) 8)"
proof -
  let ?n = "apr_amount row * 100"
  have n: "0 \<le> ?n" using assms by simp
  have fits: "nat ?n < 10 ^ 15 \<longleftrightarrow> 100 * apr_amount row < 10 ^ 15" using assms by (simp add: nat_less_iff)
  have l: "length (buildDetailRow row) = 80 \<longleftrightarrow> 100 * apr_amount row < 10 ^ 15"
    using length_detail [OF assms] show_nat_length [of 15 "nat ?n"] fits by (auto simp: max_def)
  have "length (padLeftDigits ?n 15) = 15" if "100 * apr_amount row < 10 ^ 15"
    using length_padLeftDigits [OF n, of 15] fits that by simp
  then show ?thesis using l padLeftDigits_value [OF n, of 15] assms
    by (auto simp: buildDetailRow_def DETAIL_TYPE_def field_def)
qed

lemma total_sum: "foldl (\<lambda>acc p. acc + apr_amount p) a ps = a + sum_list (map apr_amount ps)"
  by (induction ps arbitrary: a) auto

lemma row_le_total:
  "p \<in> set ps \<Longrightarrow> (\<And>q. q \<in> set ps \<Longrightarrow> 0 \<le> apr_amount q) \<Longrightarrow> apr_amount p \<le> sum_list (map apr_amount ps)"
proof (induction ps)
  case (Cons q ps)
  then have "0 \<le> sum_list (map apr_amount ps)" by (auto intro!: sum_list_nonneg)
  then show ?case using Cons by fastforce
qed simp

lemma month_day_range:
  "0 \<le> k \<Longrightarrow> k < sum_list ls \<Longrightarrow> list_all (\<lambda>l. 0 < l \<and> l \<le> 31) ls \<Longrightarrow> month_day ls m k = (m', dd) \<Longrightarrow>
     m \<le> m' \<and> m' < m + int (length ls) \<and> 1 \<le> dd \<and> dd \<le> 31"
proof (induction ls m k rule: month_day.induct)
  case (2 l ls m k)
  show ?case
  proof (cases "k < l")
    case False
    then show ?thesis using 2(1) [OF False] 2(2-) by auto
  qed (use 2 in auto)
qed simp

lemma civil_date_range: "civil_date day = (y, m, dd) \<Longrightarrow> 1 \<le> m \<and> m \<le> 12 \<and> 1 \<le> dd \<and> dd \<le> 31"
proof -
  assume "civil_date day = (y, m, dd)"
  then have y: "YearFromDay day = y" and md: "month_day (month_lengths y) 1 (day - DayFromYear y) = (m, dd)"
    by (auto simp: civil_date_def Let_def)
  have "list_all (\<lambda>l. 0 < l \<and> l \<le> 31) (month_lengths y)" "length (month_lengths y) = 12" by (simp_all add: month_lengths_def)
  then show ?thesis using month_day_range [OF _ _ _ md] YearFromDay [of day] y by (auto simp: month_lengths_sum)
qed

lemma length_show_int: "0 \<le> n \<Longrightarrow> n < 10 ^ k \<Longrightarrow> 0 < k \<Longrightarrow> length (show_int n) \<le> k"
  by (auto simp: show_int_def nat_less_iff intro!: length_show_nat_le)

lemma length_yyyymmdd:
  assumes "fst (civil_date day) \<in> {0..9999}"
  shows "length (yyyymmdd day) = 8"
proof -
  obtain y m dd where c: "civil_date day = (y, m, dd)" by (cases "civil_date day")
  then show ?thesis using civil_date_range [OF c] assms length_show_int [of y 4] length_show_int [of m 2] length_show_int [of dd 2]
    by (simp add: yyyymmdd_def max_def)
qed

text \<open>
  the batch file. For a batch identifier of 36 characters, a digest of 64, fewer than a million payments and
  amounts whose total in cents fits into fifteen digits: the file is the header, one record per payment in order and
  the trailer, each ended by a line feed; header and details have eighty characters and the trailer 87; the
  trailer carries the number of payments, the total in cents, and the digest of the concatenated details.
\<close>

theorem generateUgandaAchFile_layout:
  fixes ps :: "ach_payment_row list"
  assumes "length batchId = 36" and "\<forall>s. length (sha s) = 64" and "length ps < 10 ^ 6"
    and "\<forall>p \<in> set ps. 0 \<le> apr_amount p" and "100 * sum_list (map apr_amount ps) < 10 ^ 15"
    and "fst (civil_date (now div day_ms)) \<in> {0..9999}"
  shows "\<exists>header trailer. ab_content (generateUgandaAchFile sha eb ea batchId now ps) =
        concat (map (\<lambda>l. l @ [CHR 0x0A]) (header # map buildDetailRow ps @ [trailer]))
    \<and> length header = 80 \<and> list_all (\<lambda>p. length (buildDetailRow p) = 80) ps \<and> length trailer = 87
    \<and> digits_val (field 2 8 trailer) = length ps
    \<and> int (digits_val (field 8 23 trailer)) = 100 * sum_list (map apr_amount ps)
    \<and> field 23 87 trailer = sha (concat (map buildDetailRow ps))"
proof -
  let ?sum = "sum_list (map apr_amount ps)"
  let ?hash = "sha (concat (map buildDetailRow ps))"
  let ?header = "buildHeader now batchId (case eb of None \<Rightarrow> ''000000'' | Some s \<Rightarrow> s) (case ea of None \<Rightarrow> [] | Some s \<Rightarrow> s) (length ps)"
  let ?trailer = "buildTrailer (length ps) ?sum ?hash"
  have join: "join_lines ls @ [CHR 0x0A] = concat (map (\<lambda>l. l @ [CHR 0x0A]) ls)" if "ls \<noteq> []" for ls
    using that by (induction ls rule: join_lines.induct) auto
  have content: "ab_content (generateUgandaAchFile sha eb ea batchId now ps) =
        concat (map (\<lambda>l. l @ [CHR 0x0A]) (?header # map buildDetailRow ps @ [?trailer]))"
    using join [of "?header # map buildDetailRow ps @ [?trailer]"] by (simp add: generateUgandaAchFile_def Let_def total_sum)
  have sum0: "0 \<le> ?sum" using assms(4) by (auto intro!: sum_list_nonneg)
  have le: "apr_amount p \<le> ?sum" if "p \<in> set ps" for p
    using that assms(4) by (auto intro: row_le_total)
  have cnt: "length (padLeftDigits (int (length ps)) 6) = 6" using length_padLeftDigits [of "int (length ps)" 6] assms(3) by simp
  have tot: "length (padLeftDigits (?sum * 100) 15) = 15"
    using length_padLeftDigits [of "?sum * 100" 15] sum0 assms(5) by (simp add: nat_less_iff mult.commute)
  have "length ?header = 80"
    using assms(1,6) cnt by (simp add: buildHeader_def HEADER_TYPE_def CURRENCY_def todayYYYYMMDD_def length_yyyymmdd)
  moreover have "list_all (\<lambda>p. length (buildDetailRow p) = 80) ps"
  proof (unfold list_all_iff, intro ballI)
    fix p assume p: "p \<in> set ps"
    then have "0 \<le> apr_amount p" "100 * apr_amount p < 10 ^ 15" using assms(4,5) le [OF p] by auto
    then show "length (buildDetailRow p) = 80"
      using length_detail show_nat_length [of 15 "nat (apr_amount p * 100)"] by (simp add: nat_less_iff max_def mult.commute)
  qed
  moreover have "length ?trailer = 87" "digits_val (field 2 8 ?trailer) = length ps" "field 23 87 ?trailer = ?hash"
    "int (digits_val (field 8 23 ?trailer)) = 100 * ?sum"
    using assms(2) cnt tot padLeftDigits_value [of "int (length ps)" 6] padLeftDigits_value [of "?sum * 100" 15] sum0
    by (simp_all add: buildTrailer_def TRAILER_TYPE_def field_def)
  ultimately show ?thesis using content by blast
qed


definition ach_row :: ach_payment_row where
  "ach_row = \<lparr>apr_bank_code = ''010147'', apr_account = ''0123456789'', apr_name = ''Supplier'', apr_amount = 1500000,
     apr_reference = ''INV-0001''\<rparr>"

theorem buildDetailRow_layout_witness:
  "length (buildDetailRow ach_row) = 80 \<and> digits_val (field 57 72 (buildDetailRow ach_row)) = 150000000"
  using buildDetailRow_layout [of ach_row] by (simp add: ach_row_def)

theorem generateUgandaAchFile_layout_witness:
  "\<exists>header trailer. ab_content (generateUgandaAchFile (\<lambda>_. replicate 64 (CHR ''0'')) None None (replicate 36 (CHR ''a'')) 0 [ach_row]) =
     concat (map (\<lambda>l. l @ [CHR 0x0A]) [header, buildDetailRow ach_row, trailer]) \<and> length header = 80 \<and> length trailer = 87"
proof -
  have "fst (civil_date (0 div day_ms)) = 1970"
    by (simp add: civil_date_def YearFromDay_def DayFromYear_def Let_def)
  then show ?thesis
    using generateUgandaAchFile_layout [of "replicate 36 (CHR ''a'')" "\<lambda>_. replicate 64 (CHR ''0'')" "[ach_row]" 0 None None]
    by (auto simp: ach_row_def)
qed

end
