(* ===== verification/Collections.thy ===== *)
theory Collections
  imports Settlements Risk_Engine
begin

text \<open>
  \<open>src/src/services/collections\<close>: what happens to a funded invoice until the buyer has paid. The start of
  the monitoring, the reminders, the passage to overdue with its penalty, the escalation levels, the two
  ways to record a buyer payment, the manual resolution, the default after ninety days, the escalation
  documents, and the jobs handed to the facility repayment and settlement queues. Amounts are integers,
  dates are instants or day numbers, \<open>uuidv4\<close> results are arguments, the AML threshold of the environment
  is an argument; PDF rendering, encryption and hashing are parameters. An unknown user or an
  unknown identifier is refused as a foreign key violation, whether or not it is a well-formed UUID.
\<close>

section \<open>Numbers in text columns\<close>

text \<open>\<open>BigInt(s)\<close>: surrounding white space is ignored, the empty string is zero, then an optionally
  signed decimal literal or an unsigned hexadecimal, octal or binary one; anything else is a SyntaxError.\<close>

definition radix_digit :: "char \<Rightarrow> nat" where
  "radix_digit c =
     (let n = of_char c :: nat
      in if 48 \<le> n \<and> n \<le> 57 then n - 48 else if 97 \<le> n \<and> n \<le> 102 then n - 87
         else if 65 \<le> n \<and> n \<le> 70 then n - 55 else 16)"

definition radix_literal :: "nat \<Rightarrow> string \<Rightarrow> ris_error + int" where
  "radix_literal b s =
     (if s \<noteq> [] \<and> list_all (\<lambda>c. radix_digit c < b) s
      then Inr (int (foldl (\<lambda>a c. a * b + radix_digit c) 0 s)) else Inl (JsError ''SyntaxError''))"

definition js_BigInt_text :: "string \<Rightarrow> ris_error + int" where
  "js_BigInt_text s =
     (let t = js_trim s; pre = take 2 t; (neg, ds) = split_sign t
      in if t = [] then Inr 0
         else if pre = ''0x'' \<or> pre = ''0X'' then radix_literal 16 (drop 2 t)
         else if pre = ''0o'' \<or> pre = ''0O'' then radix_literal 8 (drop 2 t)
         else if pre = ''0b'' \<or> pre = ''0B'' then radix_literal 2 (drop 2 t)
         else if ds \<noteq> [] \<and> list_all is_digit ds
         then Inr (if neg then - int (digits_val ds) else int (digits_val ds))
         else Inl (JsError ''SyntaxError''))"

text \<open>
  Text sent to a \<open>NUMERIC(p,s)\<close> column: a decimal with an optional exponent, rounded half away from
  zero to the scale; NaN is stored (\<open>None\<close>), an infinity does not fit, other text is refused.
\<close>

definition pg_lower :: "char \<Rightarrow> char" where
  "pg_lower c = (let n = of_char c :: nat in if 65 \<le> n \<and> n \<le> 90 then char_of (n + 32) else c)"

definition pg_trim :: "string \<Rightarrow> string" where
  "pg_trim s =
     (let sp = (\<lambda>c. (of_char c :: nat) \<in> {9, 10, 11, 12, 13, 32})
      in rev (dropWhile sp (rev (dropWhile sp s))))"

fun exponent_ok :: "string \<Rightarrow> bool" where
  "exponent_ok [] = True"
| "exponent_ok (c # s) =
     ((c = CHR ''e'' \<or> c = CHR ''E'') \<and> (let ds = snd (split_sign s) in ds \<noteq> [] \<and> list_all is_digit ds))"

definition numeric_text_in :: "nat \<Rightarrow> nat \<Rightarrow> string \<Rightarrow> ris_error + rat option" where
  "numeric_text_in p s str =
     (let t = pg_trim str; (neg, r) = split_sign t; ip = takeWhile is_digit r; r1 = dropWhile is_digit r;
          fp = fraction_part r1; r2 = after_fraction r1
      in if map pg_lower t = ''nan'' then Inr None
         else if map pg_lower r = ''inf'' \<or> map pg_lower r = ''infinity'' then Inl (DbError ''22003'')
         else if ip = [] \<and> fp = [] \<or> \<not> exponent_ok r2 then Inl (DbError ''22P02'')
         else let v = of_nat (digits_val (ip @ fp)) * pow10 (- int (length fp)) * pow10 (parse_exponent r2);
                  n = round_half_away ((if neg then - v else v) * 10 ^ s)
              in if \<bar>n\<bar> < 10 ^ p then Inr (Some (of_int n / 10 ^ s)) else Inl (DbError ''22003''))"

section \<open>Penalty\<close>

definition FALLBACK_DAILY_PENALTY_RATE :: string where
  "FALLBACK_DAILY_PENALTY_RATE = ''0.001''"

definition PENALTY_PRECISION :: int where
  "PENALTY_PRECISION = 1000000"

definition getDailyPenaltyRate :: "string service" where
  "getDailyPenaltyRate =
     catchS (getRiskConfigValue ''collections_daily_penalty_rate'') (\<lambda>_. returnS FALLBACK_DAILY_PENALTY_RATE)"

definition calculatePenalty :: "int \<Rightarrow> int \<Rightarrow> string \<Rightarrow> ris_error + int" where
  "calculatePenalty fv days dailyPenaltyRate =
     (let intPart = takeWhile (\<lambda>c. c \<noteq> CHR ''.'') dailyPenaltyRate;
          rest = drop 1 (dropWhile (\<lambda>c. c \<noteq> CHR ''.'') dailyPenaltyRate);
          fracPart = slice0 6 (padEnd 6 (CHR ''0'') (takeWhile (\<lambda>c. c \<noteq> CHR ''.'') rest))
      in bindE (js_BigInt_text intPart) (\<lambda>a.
         bindE (js_BigInt_text fracPart) (\<lambda>b.
           Inr (bigint_div (fv * (a * PENALTY_PRECISION + b) * days) PENALTY_PRECISION))))"

definition determineEscalationLevel :: "int \<Rightarrow> int" where
  "determineEscalationLevel daysOverdue =
     (if daysOverdue \<ge> 14 then 3 else if daysOverdue \<ge> 7 then 2 else if daysOverdue \<ge> 3 then 1 else 0)"

definition escalationLevelToLabel :: "int \<Rightarrow> string" where
  "escalationLevelToLabel level =
     (if level \<ge> 3 then ''legal'' else if level \<ge> 2 then ''formal'' else if level \<ge> 1 then ''reminder'' else ''none'')"

definition escalationLevelName :: "int \<Rightarrow> string" where
  "escalationLevelName level =
     (if level \<ge> 3 then ''Legal Action Initiated'' else if level \<ge> 2 then ''Formal Notice Issued''
      else if level \<ge> 1 then ''Reminder Sent'' else ''None'')"

definition getEscalationTarget :: "int \<Rightarrow> string" where
  "getEscalationTarget level =
     (if level \<ge> 3 then ''legal'' else if level \<ge> 2 then ''management'' else ''credit_manager'')"

definition checkSarFlag :: "int \<Rightarrow> int \<Rightarrow> int \<Rightarrow> bool" where
  "checkSarFlag aml level faceValue \<longleftrightarrow> level \<ge> 3 \<and> faceValue \<ge> aml"

text \<open>\<open>Math.floor((paid - due) / msPerDay)\<close>; a due date is midnight UTC of its day.\<close>

definition calculateDaysLate :: "int \<Rightarrow> int \<Rightarrow> int" where
  "calculateDaysLate paymentDate dueDate = (paymentDate - dueDate * day_ms) div day_ms"

section \<open>Repository\<close>

text \<open>\<open>INSERT INTO collections\<close>: amounts are \<open>BIGINT\<close>, the rate is \<open>NUMERIC(6,4)\<close>, invoice and buyer are
  foreign keys; level, flags and total have their column defaults.\<close>

definition new_collection ::
    "int \<Rightarrow> string \<Rightarrow> string \<Rightarrow> string \<Rightarrow> int \<Rightarrow> int \<Rightarrow> int \<Rightarrow> rat option \<Rightarrow> int \<Rightarrow> collection_status \<Rightarrow> collection" where
  "new_collection now cid iv buyer face due days rate penalty st =
     \<lparr>cln_id = cid, cln_invoice = iv, cln_buyer = Some buyer, cln_face_value = face, cln_amount_due = due,
      cln_days_overdue = days, cln_penalty_rate = rate, cln_penalty = penalty, cln_status = st,
      cln_escalation_level = Some 0, cln_escalation_date = None, cln_demand_notice_sent = False,
      cln_sar_flagged = False, cln_total_collected = Some 0, cln_last_payment_at = None,
      cln_created_at = now, cln_updated_at = now\<rparr>"

definition insert_collection :: "collection \<Rightarrow> db \<Rightarrow> ris_error + db" where
  "insert_collection c d =
     (if \<not> all_bigint [cln_face_value c, cln_amount_due c, cln_penalty c] then Inl (DbError ''22003'')
      else if list_ex (\<lambda>r. cln_id r = cln_id c) (t_collections d) then Inl (DbError ''23505'')
      else if \<not> list_ex (\<lambda>r. inv_id r = cln_invoice c) (t_invoices d)
           \<or> \<not> list_ex (\<lambda>r. Some (buy_id r) = cln_buyer c) (t_buyers d) then Inl (DbError ''23503'')
      else Inr (d\<lparr>t_collections := t_collections d @ [c]\<rparr>))"

definition createOverdueRecord ::
    "int \<Rightarrow> string \<Rightarrow> string \<Rightarrow> string \<Rightarrow> int \<Rightarrow> int \<Rightarrow> int \<Rightarrow> string \<Rightarrow> int \<Rightarrow> db \<Rightarrow> ris_error + db" where
  "createOverdueRecord now iv cid buyer face due days rate penalty d =
     bindE (numeric_text_in 6 4 rate) (\<lambda>r.
       insert_collection (new_collection now cid iv buyer face due days r penalty Col_overdue) d)"

definition createPendingCollectionRecord ::
    "int \<Rightarrow> string \<Rightarrow> string \<Rightarrow> string \<Rightarrow> int \<Rightarrow> int \<Rightarrow> string \<Rightarrow> db \<Rightarrow> ris_error + db" where
  "createPendingCollectionRecord now iv cid buyer face due rate d =
     bindE (numeric_text_in 6 4 rate) (\<lambda>r.
       insert_collection (new_collection now cid iv buyer face due 0 r 0 Col_pending) d)"

definition update_collection :: "string \<Rightarrow> (collection \<Rightarrow> collection) \<Rightarrow> db \<Rightarrow> db" where
  "update_collection cid f d = d\<lparr>t_collections := update_where (\<lambda>c. cln_id c = cid) f (t_collections d)\<rparr>"

definition updateCollectionStatus :: "int \<Rightarrow> string \<Rightarrow> collection_status \<Rightarrow> db \<Rightarrow> db" where
  "updateCollectionStatus now cid st =
     update_collection cid (\<lambda>c. c\<lparr>cln_status := st, cln_updated_at := now\<rparr>)"

definition updateEscalationLevel :: "int \<Rightarrow> string \<Rightarrow> int \<Rightarrow> int \<Rightarrow> int \<Rightarrow> db \<Rightarrow> ris_error + db" where
  "updateEscalationLevel now cid level days penalty d =
     (if \<not> all_bigint [penalty] \<or> \<not> (- (2 ^ 31) \<le> days \<and> days < 2 ^ 31) then Inl (DbError ''22003'')
      else Inr (update_collection cid (\<lambda>c. c\<lparr>cln_escalation_level := Some level, cln_days_overdue := days,
             cln_penalty := penalty, cln_escalation_date := Some now,
             cln_demand_notice_sent := (if level \<ge> 2 then True else cln_demand_notice_sent c),
             cln_updated_at := now\<rparr>) d))"

definition resolveCollection :: "int \<Rightarrow> string \<Rightarrow> int \<Rightarrow> db \<Rightarrow> ris_error + db" where
  "resolveCollection now cid amount d =
     bindE (bigint_in amount) (\<lambda>n.
       Inr (update_collection cid (\<lambda>c. c\<lparr>cln_status := Col_collected, cln_escalation_level := Some 0,
              cln_total_collected := Some n, cln_last_payment_at := Some now, cln_updated_at := now\<rparr>) d))"

definition COLLECTION_PAYMENT_METHODS :: "string list" where
  "COLLECTION_PAYMENT_METHODS = [''mtn_momo'', ''airtel_money'', ''bank_transfer'', ''cash'', ''cheque'']"

definition repo_recordPaymentReceived :: "collection_payment \<Rightarrow> db \<Rightarrow> ris_error + db" where
  "repo_recordPaymentReceived p d =
     (if \<not> all_bigint [cp_amount p] then Inl (DbError ''22003'')
      else if cp_amount p \<le> 0 \<or> cp_method p \<notin> set COLLECTION_PAYMENT_METHODS then Inl (DbError ''23514'')
      else if \<not> list_ex (\<lambda>c. cln_id c = cp_collection p) (t_collections d) \<or> \<not> user_exists d (Some (cp_recorded_by p))
      then Inl (DbError ''23503'')
      else Inr (d\<lparr>t_collection_payments := t_collection_payments d @ [p]\<rparr>))"

text \<open>\<open>used_limit = used_limit - $1\<close> under \<open>CHECK (used_limit >= 0)\<close>.\<close>

definition reduceBuyerUsedLimit :: "string \<Rightarrow> int \<Rightarrow> db \<Rightarrow> ris_error + db" where
  "reduceBuyerUsedLimit bid amount d =
     (if list_ex (\<lambda>b. buy_id b = bid \<and> buy_used_limit b - amount < 0) (t_buyers d) then Inl (DbError ''23514'')
      else Inr (d\<lparr>t_buyers := update_where (\<lambda>b. buy_id b = bid)
                    (\<lambda>b. b\<lparr>buy_used_limit := buy_used_limit b - amount\<rparr>) (t_buyers d)\<rparr>))"

definition score_adjustment :: "int \<Rightarrow> int" where
  "score_adjustment daysLate = (if daysLate \<le> 0 then 5 else min daysLate 20 * - 1)"

definition adjustBuyerPaymentScore :: "string \<Rightarrow> int \<Rightarrow> db \<Rightarrow> db" where
  "adjustBuyerPaymentScore bid daysLate d =
     d\<lparr>t_buyers := update_where (\<lambda>b. buy_id b = bid)
         (\<lambda>b. b\<lparr>buy_payment_score := max 0 (min 100 (buy_payment_score b + score_adjustment daysLate))\<rparr>) (t_buyers d)\<rparr>"

definition getInvoiceForCollection :: "string \<Rightarrow> db \<Rightarrow> invoice option" where
  "getInvoiceForCollection i d = select_one (\<lambda>r. inv_id r = i) (t_invoices d)"

definition getCollectionByInvoiceId :: "string \<Rightarrow> db \<Rightarrow> collection option" where
  "getCollectionByInvoiceId i d =
     first_row (sort_key (\<lambda>c. - cln_created_at c) (filter (\<lambda>c. cln_invoice c = i) (t_collections d)))"

definition getCollectionById :: "string \<Rightarrow> db \<Rightarrow> collection option" where
  "getCollectionById i d = select_one (\<lambda>c. cln_id c = i) (t_collections d)"

datatype reminder_type = T_MINUS_7 | T_MINUS_3 | T_DUE | T_PLUS_1 | T_PLUS_3 | T_PLUS_7

definition reminder_type_of :: "int \<Rightarrow> reminder_type option" where
  "reminder_type_of daysUntilDue =
     (if daysUntilDue = 7 then Some T_MINUS_7 else if daysUntilDue = 3 then Some T_MINUS_3
      else if daysUntilDue = 0 then Some T_DUE else if daysUntilDue = - 1 then Some T_PLUS_1
      else if daysUntilDue = - 3 then Some T_PLUS_3 else if daysUntilDue = - 7 then Some T_PLUS_7 else None)"

fun reminder_str :: "reminder_type \<Rightarrow> string" where
  "reminder_str T_MINUS_7 = ''T_MINUS_7''"
| "reminder_str T_MINUS_3 = ''T_MINUS_3''"
| "reminder_str T_DUE = ''T_DUE''"
| "reminder_str T_PLUS_1 = ''T_PLUS_1''"
| "reminder_str T_PLUS_3 = ''T_PLUS_3''"
| "reminder_str T_PLUS_7 = ''T_PLUS_7''"

definition getInvoicesDueForReminder :: "int \<Rightarrow> db \<Rightarrow> (invoice \<times> reminder_type) list" where
  "getInvoicesDueForReminder today d =
     List.map_filter (\<lambda>i. map_option (Pair i) (reminder_type_of (inv_due_date i - today)))
       (sort_key inv_due_date
         (filter (\<lambda>i. inv_status i = Inv_collecting \<or> inv_status i = Inv_overdue) (t_invoices d)))"

record penalty_calculation =
  pc_invoice :: string
  pc_face_value :: int
  pc_days_overdue :: int
  pc_daily_rate :: "rat option"
  pc_penalty :: int

definition getPenaltyByInvoiceId :: "string \<Rightarrow> db \<Rightarrow> penalty_calculation option" where
  "getPenaltyByInvoiceId i d =
     map_option (\<lambda>c. \<lparr>pc_invoice = cln_invoice c, pc_face_value = cln_face_value c, pc_days_overdue = cln_days_overdue c,
       pc_daily_rate = cln_penalty_rate c, pc_penalty = cln_penalty c\<rparr>) (getCollectionByInvoiceId i d)"

definition open_overdue :: "collection \<Rightarrow> bool" where
  "open_overdue c \<longleftrightarrow> cln_status c = Col_overdue \<or> cln_status c = Col_escalated"

definition getOverdueInvoices :: "db \<Rightarrow> collection list" where
  "getOverdueInvoices d = sort_key (\<lambda>c. - cln_days_overdue c) (filter open_overdue (t_collections d))"

definition getDefaultableCollections :: "db \<Rightarrow> collection list" where
  "getDefaultableCollections d =
     sort_key (\<lambda>c. - cln_days_overdue c)
       (filter (\<lambda>c. cln_escalation_level c = Some 3 \<and> cln_days_overdue c \<ge> 90 \<and> open_overdue c) (t_collections d))"

definition level_of :: "collection \<Rightarrow> int" where
  "level_of c = (case cln_escalation_level c of None \<Rightarrow> 0 | Some l \<Rightarrow> l)"

definition getEscalationCandidates :: "db \<Rightarrow> collection list" where
  "getEscalationCandidates d = filter (\<lambda>c. open_overdue c \<and> level_of c < 3) (t_collections d)"

definition getFundedOverdueInvoices :: "int \<Rightarrow> db \<Rightarrow> string list" where
  "getFundedOverdueInvoices today d =
     map inv_id (filter (\<lambda>i. inv_status i = Inv_collecting \<and> inv_due_date i < today) (t_invoices d))"

definition flagForSarReview :: "int \<Rightarrow> string \<Rightarrow> db \<Rightarrow> db" where
  "flagForSarReview now cid = update_collection cid (\<lambda>c. c\<lparr>cln_sar_flagged := True, cln_updated_at := now\<rparr>)"

text \<open>
  The guarded update, and the boolean that says whether a row was changed. It is refused by \<open>chk_invoices_buyer_confirmed\<close> when a row it changes
  was never confirmed and the new state requires it.
\<close>

definition set_invoice_status :: "int \<Rightarrow> string \<Rightarrow> invoice_status \<Rightarrow> invoice_status \<Rightarrow> db \<Rightarrow> db" where
  "set_invoice_status now i new expected d =
     d\<lparr>t_invoices := update_where (\<lambda>r. inv_id r = i \<and> inv_status r = expected)
         (\<lambda>r. r\<lparr>inv_status := new, inv_updated_at := now\<rparr>) (t_invoices d)\<rparr>"

definition confirmation_missing :: "string \<Rightarrow> invoice_status \<Rightarrow> invoice_status \<Rightarrow> db \<Rightarrow> bool" where
  "confirmation_missing i new expected d =
     list_ex (\<lambda>r. inv_id r = i \<and> inv_status r = expected \<and> \<not> chk_buyer_confirmed (r\<lparr>inv_status := new\<rparr>)) (t_invoices d)"

definition collections_updateInvoiceStatus :: "string \<Rightarrow> invoice_status \<Rightarrow> invoice_status \<Rightarrow> bool service" where
  "collections_updateInvoiceStatus i new expected =
     bindS nowS (\<lambda>now.
     bindS (queryS (\<lambda>d. list_ex (\<lambda>r. inv_id r = i \<and> inv_status r = expected) (t_invoices d))) (\<lambda>hit.
     thenS (tryExecS (\<lambda>d. if confirmation_missing i new expected d then Inl (DbError ''23514'')
                          else Inr (set_invoice_status now i new expected d)))
       (returnS hit)))"

text \<open>A string compared with an \<open>invoice_status\<close> column must be a value of that enumeration.\<close>

definition invoice_status_in :: "string \<Rightarrow> invoice_status option" where
  "invoice_status_in s = find (\<lambda>st. inv_status_str st = s)
     [Inv_draft, Inv_submitted, Inv_buyer_confirmed, Inv_scored, Inv_priced, Inv_approved, Inv_rejected,
      Inv_pending_first_auth, Inv_pending_second_auth, Inv_executing, Inv_funded, Inv_collecting, Inv_overdue,
      Inv_collected, Inv_defaulted, Inv_cancelled]"

definition setEscalationLevel :: "int \<Rightarrow> string \<Rightarrow> int \<Rightarrow> db \<Rightarrow> db" where
  "setEscalationLevel now cid level =
     update_collection cid (\<lambda>c. c\<lparr>cln_escalation_level := Some level, cln_escalation_date := Some now,
       cln_status := (if level > 0 then Col_escalated else cln_status c), cln_updated_at := now\<rparr>)"

definition total_of :: "collection \<Rightarrow> int" where
  "total_of c = (case cln_total_collected c of None \<Rightarrow> 0 | Some n \<Rightarrow> n)"

definition updateCollectionAfterPayment :: "int \<Rightarrow> string \<Rightarrow> int \<Rightarrow> db \<Rightarrow> ris_error + db" where
  "updateCollectionAfterPayment now cid amount d =
     (if list_ex (\<lambda>c. cln_id c = cid \<and> \<not> all_bigint [total_of c + amount]) (t_collections d) then Inl (DbError ''22003'')
      else Inr (update_collection cid (\<lambda>c. c\<lparr>cln_total_collected := Some (total_of c + amount),
             cln_last_payment_at := Some now, cln_updated_at := now\<rparr>) d))"

definition repo_resolveCollectionById :: "int \<Rightarrow> string \<Rightarrow> db \<Rightarrow> db" where
  "repo_resolveCollectionById now cid = update_collection cid (\<lambda>c. c\<lparr>cln_status := Col_collected, cln_updated_at := now\<rparr>)"

section \<open>Starting and ageing\<close>

definition queueNotification :: "string \<Rightarrow> json_obj \<Rightarrow> unit service" where
  "queueNotification = enqueueS Collections_notification"

definition executeOverdueTxn :: "string \<Rightarrow> string \<Rightarrow> invoice \<Rightarrow> int \<Rightarrow> string \<Rightarrow> bool \<Rightarrow> unit service" where
  "executeOverdueTxn iv cid invoice penalty u existing =
     bindS nowS (\<lambda>now.
     thenS (if existing
            then thenS (execS (updateCollectionStatus now cid Col_overdue)) (tryExecS (updateEscalationLevel now cid 0 1 penalty))
            else bindS getDailyPenaltyRate (\<lambda>rate.
                   tryExecS (createOverdueRecord now iv cid (inv_buyer invoice) (inv_face_value invoice)
                     (inv_face_value invoice) 1 rate penalty)))
    (thenS (collections_updateInvoiceStatus iv Inv_overdue Inv_collecting)
       (createAuditEntry (audit_sys (Some u) ''INVOICE_OVERDUE'' ''collections'' iv
          (Some [(''status'', JStr ''collecting'')])
          [(''status'', JStr ''overdue''), (''collectionId'', JStr cid), (''daysOverdue'', JInt 1), (''penaltyAmount'', JInt penalty)]))))"

definition processOverdueInvoice :: "string \<Rightarrow> string \<Rightarrow> string \<Rightarrow> unit service" where
  "processOverdueInvoice fresh iv u =
     bindS (queryS (getInvoiceForCollection iv)) (\<lambda>r.
     bindS (requireS r (NotFoundError ''Invoice'' iv)) (\<lambda>invoice.
       if inv_status invoice \<noteq> Inv_collecting then returnS ()
       else bindS getDailyPenaltyRate (\<lambda>rate.
            bindS (liftS (calculatePenalty (inv_face_value invoice) 1 rate)) (\<lambda>penalty.
            bindS (queryS (getCollectionByInvoiceId iv)) (\<lambda>existing.
            let cid = (case existing of None \<Rightarrow> fresh | Some c \<Rightarrow> cln_id c)
            in thenS (transactionS (executeOverdueTxn iv cid invoice penalty u (existing \<noteq> None)))
                 (queueNotification ''overdue-notification''
                    [(''invoiceId'', JStr iv), (''buyerId'', JStr (inv_buyer invoice)), (''type'', JStr ''credit_officer_notify'')]))))))"

definition persistCollectionStarted :: "string \<Rightarrow> string \<Rightarrow> invoice \<Rightarrow> string \<Rightarrow> unit service" where
  "persistCollectionStarted iv cid invoice paymentId =
     bindS getDailyPenaltyRate (\<lambda>rate.
     transactionS (bindS nowS (\<lambda>now.
       thenS (tryExecS (createPendingCollectionRecord now iv cid (inv_buyer invoice) (inv_face_value invoice)
                (inv_face_value invoice) rate))
      (thenS (collections_updateInvoiceStatus iv Inv_collecting Inv_funded)
         (createAuditEntry (audit_sys (Some ''SYSTEM'') ''COLLECTION_STARTED'' ''collections'' iv
            (Some [(''status'', JStr ''funded'')])
            [(''status'', JStr ''collecting''), (''collectionId'', JStr cid), (''paymentId'', JStr paymentId)]))))))"

definition startCollectionMonitoring :: "string \<Rightarrow> string \<Rightarrow> string \<Rightarrow> unit service" where
  "startCollectionMonitoring fresh iv paymentId =
     bindS (queryS (getCollectionByInvoiceId iv)) (\<lambda>existing.
       if existing \<noteq> None then returnS ()
       else bindS (queryS (getInvoiceForCollection iv)) (\<lambda>r.
            bindS (requireS r (NotFoundError ''Invoice'' iv)) (\<lambda>invoice.
              if inv_status invoice \<noteq> Inv_funded then returnS ()
              else persistCollectionStarted iv fresh invoice paymentId)))"

section \<open>Escalation documents\<close>

text \<open>
  What a demand letter shows of a collection, and the code that is called to make one: the PDF generator,
  \<open>encrypt\<close>, \<open>decrypt\<close> and \<open>hashDocument\<close>. The amounts pass through a JavaScript number.
\<close>

record demand_letter =
  dl_buyer :: string
  dl_letter_date :: int
  dl_reference :: string
  dl_due_date :: int
  dl_face_value :: int
  dl_penalty_accrued :: int
  dl_total_outstanding :: int

record doc_tools =
  generateDemandLetter :: "demand_letter \<Rightarrow> ris_error + string"
  encrypt :: "string \<Rightarrow> string"
  decrypt :: "string \<Rightarrow> ris_error + string"
  hashDocument :: "string \<Rightarrow> string"

record collection_detail =
  cd_collection :: collection
  cd_invoice_number :: string
  cd_buyer_name :: string
  cd_supplier_name :: "string option"
  cd_buyer_id :: string
  cd_supplier_id :: string
  cd_face_value :: js_number
  cd_collected :: js_number
  cd_outstanding :: js_number
  cd_due_date :: int
  cd_level :: string
  cd_contact_company :: string
  cd_contact_email :: string

definition safeDecrypt :: "doc_tools \<Rightarrow> string option \<Rightarrow> string" where
  "safeDecrypt tools e = (case e of None \<Rightarrow> [] | Some x \<Rightarrow> (case decrypt tools x of Inl _ \<Rightarrow> [] | Inr s \<Rightarrow> s))"

text \<open>The inner joins with invoice, buyer and supplier; the payment and escalation histories are left out.\<close>

definition repo_getCollectionDetail :: "string \<Rightarrow> db \<Rightarrow> (collection \<times> invoice \<times> buyer \<times> supplier) option" where
  "repo_getCollectionDetail cid d =
     (case getCollectionById cid d of None \<Rightarrow> None
      | Some c \<Rightarrow> (case select_one (\<lambda>r. inv_id r = cln_invoice c) (t_invoices d) of None \<Rightarrow> None
        | Some i \<Rightarrow> (case select_one (\<lambda>r. Some (buy_id r) = cln_buyer c) (t_buyers d) of None \<Rightarrow> None
          | Some b \<Rightarrow> (case select_one (\<lambda>r. sup_id r = inv_supplier i) (t_suppliers d) of None \<Rightarrow> None
            | Some s \<Rightarrow> Some (c, i, b, s)))))"

definition getCollectionDetail :: "doc_tools \<Rightarrow> string \<Rightarrow> collection_detail service" where
  "getCollectionDetail tools cid =
     bindS (queryS (repo_getCollectionDetail cid)) (\<lambda>r.
     bindS (requireS r (NotFoundError ''Collection'' cid)) (\<lambda>row.
       case row of (c, i, b, s) \<Rightarrow>
         returnS \<lparr>cd_collection = c, cd_invoice_number = inv_number i, cd_buyer_name = buy_company_name b,
           cd_supplier_name = sup_company_name s, cd_buyer_id = buy_id b, cd_supplier_id = inv_supplier i,
           cd_face_value = js_Number (cln_face_value c), cd_collected = js_Number (total_of c),
           cd_outstanding = js_Number (cln_face_value c - total_of c), cd_due_date = inv_due_date i,
           cd_level = escalationLevelToLabel (level_of c), cd_contact_company = buy_company_name b,
           cd_contact_email = safeDecrypt tools (buy_contact_email b)\<rparr>))"

definition renderDemandPdf :: "doc_tools \<Rightarrow> collection_detail \<Rightarrow> string service" where
  "renderDemandPdf tools detail =
     bindS nowS (\<lambda>now.
     bindS (liftS (js_BigInt (cd_face_value detail))) (\<lambda>face.
     bindS (liftS (js_BigInt (cd_outstanding detail))) (\<lambda>outstanding.
       liftS (generateDemandLetter tools
         \<lparr>dl_buyer = cd_contact_company detail, dl_letter_date = now div day_ms, dl_reference = cd_invoice_number detail,
          dl_due_date = cd_due_date detail, dl_face_value = face, dl_penalty_accrued = 0, dl_total_outstanding = outstanding\<rparr>))))"

definition getEscalationDocumentById :: "string \<Rightarrow> db \<Rightarrow> escalation_document option" where
  "getEscalationDocumentById i d = select_one (\<lambda>e. ed_id e = i) (t_escalation_documents d)"

definition getDocumentByType :: "string \<Rightarrow> string \<Rightarrow> db \<Rightarrow> escalation_document option" where
  "getDocumentByType cid ty d =
     first_row (sort_key (\<lambda>e. - ed_created_at e)
       (filter (\<lambda>e. ed_collection e = cid \<and> ed_type e = ty) (t_escalation_documents d)))"

definition listEscalationDocumentsByCollection :: "string \<Rightarrow> db \<Rightarrow> escalation_document list" where
  "listEscalationDocumentsByCollection cid d =
     sort_key (\<lambda>e. - ed_created_at e) (filter (\<lambda>e. ed_collection e = cid) (t_escalation_documents d))"

definition DOCUMENT_TYPES :: "string list" where
  "DOCUMENT_TYPES = [''demand_letter'', ''legal_notice'', ''reminder_letter'']"

definition createEscalationDocumentWithClient :: "escalation_document \<Rightarrow> db \<Rightarrow> ris_error + db" where
  "createEscalationDocumentWithClient e d =
     (if ed_type e \<notin> set DOCUMENT_TYPES then Inl (DbError ''23514'')
      else if list_ex (\<lambda>r. ed_id r = ed_id e) (t_escalation_documents d) then Inl (DbError ''23505'')
      else if \<not> list_ex (\<lambda>c. cln_id c = ed_collection e) (t_collections d) \<or> \<not> user_exists d (Some (ed_generated_by e))
      then Inl (DbError ''23503'')
      else Inr (d\<lparr>t_escalation_documents := t_escalation_documents d @ [e]\<rparr>))"

definition update_draft :: "string \<Rightarrow> (escalation_document \<Rightarrow> escalation_document) \<Rightarrow> db \<Rightarrow> db" where
  "update_draft i f d =
     d\<lparr>t_escalation_documents := update_where (\<lambda>e. ed_id e = i \<and> ed_status e = Doc_draft) f (t_escalation_documents d)\<rparr>"

definition updateDocumentContentWithClient :: "string \<Rightarrow> string \<Rightarrow> string \<Rightarrow> draft_params \<Rightarrow> db \<Rightarrow> db" where
  "updateDocumentContentWithClient i content hsh ps = update_draft i (\<lambda>e. e\<lparr>ed_content := content, ed_hash := hsh, ed_params := ps\<rparr>)"

definition finalizeDocumentWithClient :: "int \<Rightarrow> string \<Rightarrow> string \<Rightarrow> string \<Rightarrow> db \<Rightarrow> ris_error + db" where
  "finalizeDocumentWithClient now i u email d =
     (if list_ex (\<lambda>e. ed_id e = i \<and> ed_status e = Doc_draft) (t_escalation_documents d) \<and> \<not> user_exists d (Some u)
      then Inl (DbError ''23503'')
      else Inr (update_draft i (\<lambda>e. e\<lparr>ed_status := Doc_sent, ed_finalized_by := Some u, ed_sent_at := Some now,
                                    ed_sent_to := Some email\<rparr>) d))"

definition persistDraftDocument ::
    "doc_tools \<Rightarrow> string \<Rightarrow> string \<Rightarrow> string \<Rightarrow> string \<Rightarrow> draft_params \<Rightarrow> string \<Rightarrow> string service" where
  "persistDraftDocument tools docId cid ty pdf ps u =
     transactionS (bindS nowS (\<lambda>now.
       thenS (tryExecS (createEscalationDocumentWithClient
                \<lparr>ed_id = docId, ed_collection = cid, ed_type = ty, ed_status = Doc_draft, ed_content = encrypt tools pdf,
                 ed_hash = hashDocument tools pdf, ed_params = ps, ed_generated_by = u, ed_finalized_by = None,
                 ed_sent_at = None, ed_sent_to = None, ed_created_at = now\<rparr>))
      (thenS (createAuditEntry (audit_sys (Some u) ''ESCALATION_DOCUMENT_GENERATED'' ''escalation_documents'' docId None
                [(''documentType'', JStr ty), (''status'', JStr ''draft'')]))
         (returnS docId))))"

definition generateDraftDocument :: "doc_tools \<Rightarrow> string \<Rightarrow> string \<Rightarrow> string \<Rightarrow> string \<Rightarrow> string service" where
  "generateDraftDocument tools docId cid ty u =
     bindS (queryS (getDocumentByType cid ty)) (\<lambda>existing.
     thenS (guardS (case existing of None \<Rightarrow> True | Some e \<Rightarrow> ed_status e \<noteq> Doc_draft) (BusinessRuleError ''DRAFT_ALREADY_EXISTS''))
    (bindS (getCollectionDetail tools cid) (\<lambda>detail.
     bindS (renderDemandPdf tools detail) (\<lambda>pdf.
       persistDraftDocument tools docId cid ty pdf \<lparr>dp_deadline_days = Some 14, dp_additional_notes = Some []\<rparr> u))))"

definition autoGenerateDraft :: "doc_tools \<Rightarrow> string \<Rightarrow> string \<Rightarrow> int \<Rightarrow> unit service" where
  "autoGenerateDraft tools docId cid level =
     (let docType = (if level = 2 then Some ''demand_letter'' else if level = 3 then Some ''legal_notice'' else None)
      in case docType of None \<Rightarrow> returnS ()
         | Some ty \<Rightarrow> catchS (thenS (generateDraftDocument tools docId cid ty ''SYSTEM'') (returnS ())) (\<lambda>_. returnS ()))"

text \<open>\<open>{ ...doc.draft_params, ...params }\<close>: the caller passes both keys, and an \<open>undefined\<close> one replaces the stored value.\<close>

definition merge_params :: "draft_params \<Rightarrow> draft_params \<Rightarrow> draft_params" where
  "merge_params stored given = \<lparr>dp_deadline_days = dp_deadline_days given, dp_additional_notes = dp_additional_notes given\<rparr>"

definition persistDraftUpdate :: "doc_tools \<Rightarrow> string \<Rightarrow> string \<Rightarrow> draft_params \<Rightarrow> string \<Rightarrow> unit service" where
  "persistDraftUpdate tools docId pdf ps u =
     transactionS (thenS (execS (updateDocumentContentWithClient docId (encrypt tools pdf) (hashDocument tools pdf) ps))
       (createAuditEntry (audit_sys (Some u) ''ESCALATION_DOCUMENT_UPDATED'' ''escalation_documents'' docId None
          [(''status'', JStr ''draft'')])))"

definition updateDraftParams :: "doc_tools \<Rightarrow> string \<Rightarrow> draft_params \<Rightarrow> string \<Rightarrow> unit service" where
  "updateDraftParams tools docId ps u =
     bindS (queryS (getEscalationDocumentById docId)) (\<lambda>r.
     bindS (requireS r (NotFoundError ''EscalationDocument'' docId)) (\<lambda>doc.
     thenS (guardS (ed_status doc = Doc_draft) (BusinessRuleError ''DOCUMENT_NOT_DRAFT''))
    (bindS (getCollectionDetail tools (ed_collection doc)) (\<lambda>detail.
     bindS (renderDemandPdf tools detail) (\<lambda>pdf.
       persistDraftUpdate tools docId pdf (merge_params (ed_params doc) ps) u)))))"

definition persistFinalization :: "doc_tools \<Rightarrow> string \<Rightarrow> string \<Rightarrow> string \<Rightarrow> unit service" where
  "persistFinalization tools docId u email =
     transactionS (bindS nowS (\<lambda>now.
       thenS (tryExecS (finalizeDocumentWithClient now docId u (if email \<noteq> [] then encrypt tools email else [])))
         (createAuditEntry (audit_sys (Some u) ''ESCALATION_DOCUMENT_SENT'' ''escalation_documents'' docId
            (Some [(''status'', JStr ''draft'')]) [(''status'', JStr ''sent'')]))))"

definition queueDocumentNotification :: "string \<Rightarrow> string \<Rightarrow> string \<Rightarrow> unit service" where
  "queueDocumentNotification docId cid buyerId =
     enqueueS Collections_notification ''escalation-document-sent''
       [(''documentId'', JStr docId), (''collectionId'', JStr cid), (''buyerId'', JStr buyerId), (''type'', JStr ''buyer_document_notify'')]"

definition finalizeAndSend :: "doc_tools \<Rightarrow> string \<Rightarrow> string \<Rightarrow> unit service" where
  "finalizeAndSend tools docId u =
     bindS (queryS (getEscalationDocumentById docId)) (\<lambda>r.
     bindS (requireS r (NotFoundError ''EscalationDocument'' docId)) (\<lambda>doc.
     thenS (guardS (ed_status doc = Doc_draft) (BusinessRuleError ''DOCUMENT_ALREADY_SENT''))
    (bindS (getCollectionDetail tools (ed_collection doc)) (\<lambda>detail.
     thenS (persistFinalization tools docId u (cd_contact_email detail))
       (queueDocumentNotification docId (ed_collection doc) (cd_buyer_id detail))))))"

text \<open>The content is the base64 text of the PDF, which is kept as the PDF itself.\<close>

definition getDocumentPdf :: "doc_tools \<Rightarrow> string \<Rightarrow> string service" where
  "getDocumentPdf tools docId =
     bindS (queryS (getEscalationDocumentById docId)) (\<lambda>r.
       case r of None \<Rightarrow> throwS (NotFoundError ''EscalationDocument'' docId)
       | Some doc \<Rightarrow> if ed_content doc = [] then throwS (NotFoundError ''EscalationDocument'' docId)
                     else liftS (decrypt tools (ed_content doc)))"

definition listDocuments :: "string \<Rightarrow> escalation_document list service" where
  "listDocuments cid = queryS (listEscalationDocumentsByCollection cid)"

section \<open>Escalation\<close>

definition executeEscalationTxn :: "int \<Rightarrow> collection \<Rightarrow> invoice \<Rightarrow> int \<Rightarrow> int \<Rightarrow> int \<Rightarrow> int \<Rightarrow> unit service" where
  "executeEscalationTxn aml c invoice newLevel currentLevel daysOverdue penalty =
     bindS nowS (\<lambda>now.
     thenS (execS (updateCollectionStatus now (cln_id c) Col_escalated))
    (thenS (tryExecS (updateEscalationLevel now (cln_id c) newLevel daysOverdue penalty))
    (thenS (whenS (checkSarFlag aml newLevel (inv_face_value invoice)) (execS (flagForSarReview now (cln_id c))))
       (createAuditEntry (audit_sys None ''COLLECTION_ESCALATED'' ''collections'' (cln_id c)
          (Some [(''status'', JStr (col_status_str (cln_status c))), (''daysOverdue'', JInt (cln_days_overdue c)),
                 (''escalationLevel'', JInt currentLevel)])
          [(''status'', JStr ''escalated''), (''daysOverdue'', JInt daysOverdue), (''escalationLevel'', JInt newLevel),
           (''escalationTarget'', JStr (getEscalationTarget newLevel)), (''penaltyAmount'', JInt penalty),
           (''sarFlagged'', JBool (checkSarFlag aml newLevel (inv_face_value invoice)))])))))"

definition notifyEscalation :: "string \<Rightarrow> string \<Rightarrow> int \<Rightarrow> int \<Rightarrow> int \<Rightarrow> unit service" where
  "notifyEscalation iv buyerId daysOverdue level penalty =
     queueNotification ''escalation-notification''
       [(''invoiceId'', JStr iv), (''buyerId'', JStr buyerId), (''daysOverdue'', JInt daysOverdue),
        (''escalationLevel'', JInt level), (''escalationTarget'', JStr (getEscalationTarget level)), (''penaltyAmount'', JInt penalty)]"

definition processEscalation :: "doc_tools \<Rightarrow> int \<Rightarrow> string \<Rightarrow> string \<Rightarrow> int \<Rightarrow> unit service" where
  "processEscalation tools aml docId iv daysOverdue =
     bindS (queryS (getInvoiceForCollection iv)) (\<lambda>r.
     bindS (requireS r (NotFoundError ''Invoice'' iv)) (\<lambda>invoice.
     bindS (queryS (getCollectionByInvoiceId iv)) (\<lambda>rc.
     bindS (requireS rc (NotFoundError ''CollectionRecord'' iv)) (\<lambda>c.
       let newLevel = determineEscalationLevel daysOverdue; currentLevel = level_of c
       in if newLevel \<le> currentLevel then returnS ()
          else bindS getDailyPenaltyRate (\<lambda>rate.
               bindS (liftS (calculatePenalty (inv_face_value invoice) daysOverdue rate)) (\<lambda>penalty.
               thenS (transactionS (executeEscalationTxn aml c invoice newLevel currentLevel daysOverdue penalty))
              (thenS (notifyEscalation iv (inv_buyer invoice) daysOverdue newLevel penalty)
                 (autoGenerateDraft tools docId (cln_id c) newLevel))))))))"

definition executeManualEscalationTxn :: "int \<Rightarrow> string \<Rightarrow> string \<Rightarrow> int \<Rightarrow> int \<Rightarrow> string \<Rightarrow> string \<Rightarrow> unit service" where
  "executeManualEscalationTxn aml cid iv currentLevel newLevel u reason =
     bindS nowS (\<lambda>now.
     thenS (execS (setEscalationLevel now cid newLevel))
    (thenS (whenS (newLevel \<ge> 3)
              (bindS (queryS (getInvoiceForCollection iv)) (\<lambda>r.
                 whenS (case r of None \<Rightarrow> False | Some i \<Rightarrow> inv_face_value i \<ge> aml) (execS (flagForSarReview now cid)))))
       (createAuditEntry (audit_sys (Some u) ''COLLECTION_ESCALATED'' ''collections'' cid
          (Some [(''escalationLevel'', JInt currentLevel)]) [(''escalationLevel'', JInt newLevel), (''reason'', JStr reason)]))))"

definition escalateCollection :: "int \<Rightarrow> string \<Rightarrow> string \<Rightarrow> string \<Rightarrow> unit service" where
  "escalateCollection aml cid u reason =
     bindS (queryS (getCollectionById cid)) (\<lambda>r.
     bindS (requireS r (NotFoundError ''Collection'' cid)) (\<lambda>c.
     thenS (guardS (cln_status c \<noteq> Col_collected) (BusinessRuleError ''ALREADY_RESOLVED''))
       (transactionS (executeManualEscalationTxn aml cid (cln_invoice c) (level_of c) (min (level_of c + 1) 3) u reason))))"

definition executeDeescalationTxn :: "string \<Rightarrow> int \<Rightarrow> int \<Rightarrow> string \<Rightarrow> string \<Rightarrow> unit service" where
  "executeDeescalationTxn cid currentLevel newLevel u reason =
     bindS nowS (\<lambda>now.
     thenS (execS (setEscalationLevel now cid newLevel))
    (thenS (whenS (newLevel = 0) (execS (updateCollectionStatus now cid Col_overdue)))
       (createAuditEntry (audit_sys (Some u) ''COLLECTION_DEESCALATED'' ''collections'' cid
          (Some [(''escalationLevel'', JInt currentLevel)]) [(''escalationLevel'', JInt newLevel), (''reason'', JStr reason)]))))"

definition deescalateCollection :: "string \<Rightarrow> string \<Rightarrow> string \<Rightarrow> unit service" where
  "deescalateCollection cid u reason =
     bindS (queryS (getCollectionById cid)) (\<lambda>r.
     bindS (requireS r (NotFoundError ''Collection'' cid)) (\<lambda>c.
     thenS (guardS (\<not> level_of c \<le> 0) (BusinessRuleError ''CANNOT_DEESCALATE''))
       (transactionS (executeDeescalationTxn cid (level_of c) (level_of c - 1) u reason))))"

section \<open>Buyer payments\<close>

record record_payment_input =
  rp_invoice :: string
  rp_amount :: int
  rp_payment_date :: int
  rp_received_by :: string
  rp_method :: string
  rp_paid_by :: string
  rp_reference :: "string option"
  rp_notes :: "string option"

definition assertInvoiceCollectedTransition :: "string \<Rightarrow> invoice_status \<Rightarrow> unit service" where
  "assertInvoiceCollectedTransition iv expectedStatus =
     bindS (collections_updateInvoiceStatus iv Inv_collected expectedStatus) (\<lambda>transitioned.
       guardS transitioned (BusinessRuleError ''ALREADY_COLLECTED''))"

definition payment_of_input :: "record_payment_input \<Rightarrow> string \<Rightarrow> collection_payment" where
  "payment_of_input p cid =
     \<lparr>cp_collection = cid, cp_amount = rp_amount p, cp_method = rp_method p, cp_paid_by = rp_paid_by p,
      cp_paid_at = rp_payment_date p, cp_recorded_by = rp_received_by p, cp_reference = rp_reference p, cp_notes = rp_notes p\<rparr>"

definition collection_id_or_empty :: "collection option \<Rightarrow> string" where
  "collection_id_or_empty c = (case c of None \<Rightarrow> [] | Some r \<Rightarrow> cln_id r)"

definition executePaymentReceivedTxn :: "record_payment_input \<Rightarrow> invoice \<Rightarrow> collection option \<Rightarrow> unit service" where
  "executePaymentReceivedTxn p invoice c =
     bindS nowS (\<lambda>now.
     thenS (assertInvoiceCollectedTransition (rp_invoice p) (inv_status invoice))
    (thenS (tryExecS (repo_recordPaymentReceived (payment_of_input p (collection_id_or_empty c))))
    (thenS (tryExecS (reduceBuyerUsedLimit (inv_buyer invoice) (inv_face_value invoice)))
    (thenS (execS (adjustBuyerPaymentScore (inv_buyer invoice) (calculateDaysLate (rp_payment_date p) (inv_due_date invoice))))
    (thenS (case c of None \<Rightarrow> returnS () | Some r \<Rightarrow> tryExecS (resolveCollection now (cln_id r) (rp_amount p)))
       (createAuditEntry (audit_sys (Some (rp_received_by p)) ''PAYMENT_RECEIVED'' ''collections'' (rp_invoice p)
          (Some [(''status'', JStr (inv_status_str (inv_status invoice)))])
          [(''status'', JStr ''collected''), (''amount'', JInt (rp_amount p)), (''paymentDate'', JInt (rp_payment_date p))])))))))"

definition queueFacilityRepayment :: "string \<Rightarrow> unit service" where
  "queueFacilityRepayment iv =
     bindS (queryS (getDrawdownByInvoiceId iv)) (\<lambda>dd.
       enqueueS Collections_repayment ''facility-repayment''
         [(''invoiceId'', JStr iv), (''drawdownId'', (case dd of None \<Rightarrow> JNull | Some r \<Rightarrow> JStr (dd_id r)))])"

definition queueSettlementInitiation :: "string \<Rightarrow> string \<Rightarrow> int \<Rightarrow> int \<Rightarrow> unit service" where
  "queueSettlementInitiation iv cid amount penalty =
     enqueueS Collections_settlement ''settlement-initiate''
       [(''invoiceId'', JStr iv), (''collectionId'', JStr cid), (''amount'', JInt amount), (''penaltyAmount'', JInt penalty)]"

definition dispatchPostPaymentJobs :: "record_payment_input \<Rightarrow> invoice \<Rightarrow> collection option \<Rightarrow> unit service" where
  "dispatchPostPaymentJobs p invoice c =
     thenS (queueFacilityRepayment (rp_invoice p))
    (thenS (queueSettlementInitiation (rp_invoice p) (collection_id_or_empty c) (rp_amount p)
              (case c of None \<Rightarrow> 0 | Some r \<Rightarrow> cln_penalty r))
       (queueNotification ''supplier-payment-notification''
          [(''invoiceId'', JStr (rp_invoice p)), (''supplierId'', JStr (inv_supplier invoice)), (''type'', JStr ''buyer_paid'')]))"

text \<open>The request reads invoice and collection first; \<open>commitPaymentReceived\<close> is the rest, on that snapshot.\<close>

definition commitPaymentReceived :: "record_payment_input \<Rightarrow> invoice \<Rightarrow> collection option \<Rightarrow> unit service" where
  "commitPaymentReceived p invoice c =
     thenS (transactionS (executePaymentReceivedTxn p invoice c)) (dispatchPostPaymentJobs p invoice c)"

definition recordPaymentReceived :: "record_payment_input \<Rightarrow> unit service" where
  "recordPaymentReceived p =
     bindS (queryS (getInvoiceForCollection (rp_invoice p))) (\<lambda>r.
     bindS (requireS r (NotFoundError ''Invoice'' (rp_invoice p))) (\<lambda>invoice.
     thenS (guardS (inv_status invoice \<noteq> Inv_collected) (BusinessRuleError ''ALREADY_COLLECTED''))
    (bindS (queryS (getCollectionByInvoiceId (rp_invoice p))) (\<lambda>c.
       commitPaymentReceived p invoice c))))"

record frontend_payment_input =
  fp_amount :: int
  fp_method :: string
  fp_reference :: "string option"
  fp_paid_by :: string
  fp_payment_date :: int
  fp_notes :: "string option"

definition executeCollectionPaymentTxn ::
    "string \<Rightarrow> frontend_payment_input \<Rightarrow> string \<Rightarrow> collection_status \<Rightarrow> unit service" where
  "executeCollectionPaymentTxn cid p u prevStatus =
     bindS nowS (\<lambda>now.
     thenS (tryExecS (repo_recordPaymentReceived
              \<lparr>cp_collection = cid, cp_amount = fp_amount p, cp_method = fp_method p, cp_paid_by = fp_paid_by p,
               cp_paid_at = fp_payment_date p, cp_recorded_by = u, cp_reference = fp_reference p, cp_notes = fp_notes p\<rparr>))
    (thenS (tryExecS (updateCollectionAfterPayment now cid (fp_amount p)))
       (createAuditEntry (audit_sys (Some u) ''PAYMENT_RECEIVED'' ''collections'' cid
          (Some [(''status'', JStr (col_status_str prevStatus))])
          [(''amount'', JInt (fp_amount p)), (''paymentDate'', JInt (fp_payment_date p)), (''method'', JStr (fp_method p)),
           (''paidBy'', JStr (fp_paid_by p))]))))"

definition recordCollectionPayment :: "string \<Rightarrow> frontend_payment_input \<Rightarrow> string \<Rightarrow> unit service" where
  "recordCollectionPayment cid p u =
     bindS (queryS (getCollectionById cid)) (\<lambda>r.
     bindS (requireS r (NotFoundError ''Collection'' cid)) (\<lambda>c.
     thenS (guardS (cln_status c \<noteq> Col_collected) (BusinessRuleError ''ALREADY_COLLECTED''))
       (transactionS (executeCollectionPaymentTxn cid p u (cln_status c)))))"

definition executeResolveTxn :: "string \<Rightarrow> string \<Rightarrow> collection_status \<Rightarrow> string \<Rightarrow> unit service" where
  "executeResolveTxn cid iv prevStatus u =
     bindS nowS (\<lambda>now.
     thenS (execS (repo_resolveCollectionById now cid))
    (bindS (requireS (invoice_status_in (if prevStatus = Col_escalated then ''overdue'' else col_status_str prevStatus))
              (DbError ''22P02'')) (\<lambda>expectedPrev.
     thenS (collections_updateInvoiceStatus iv Inv_collected expectedPrev)
       (createAuditEntry (audit_sys (Some u) ''COLLECTION_RESOLVED'' ''collections'' cid
          (Some [(''status'', JStr (col_status_str prevStatus))]) [(''status'', JStr ''collected'')])))))"

definition collections_resolveCollectionById :: "string \<Rightarrow> string \<Rightarrow> unit service" where
  "collections_resolveCollectionById cid u =
     bindS (queryS (getCollectionById cid)) (\<lambda>r.
     bindS (requireS r (NotFoundError ''Collection'' cid)) (\<lambda>c.
     thenS (guardS (cln_status c \<noteq> Col_collected) (BusinessRuleError ''ALREADY_RESOLVED''))
       (transactionS (executeResolveTxn cid (cln_invoice c) (cln_status c) u))))"

section \<open>Scheduled jobs\<close>

text \<open>An item of a batch: its error is logged and the loop goes on.\<close>

definition loggedS :: "unit service \<Rightarrow> unit service" where
  "loggedS m = catchS m (\<lambda>_. returnS ())"

definition handleReminderEscalation :: "string \<Rightarrow> invoice \<times> reminder_type \<Rightarrow> unit service" where
  "handleReminderEscalation fresh iv =
     thenS (whenS (snd iv = T_PLUS_1) (loggedS (processOverdueInvoice fresh (inv_id (fst iv)) ''SYSTEM'')))
       (whenS (snd iv = T_MINUS_3) (queueNotification ''buyer-payment-escalation''
          [(''invoiceId'', JStr (inv_id (fst iv))), (''buyerId'', JStr (inv_buyer (fst iv))),
           (''type'', JStr ''credit_officer_escalation''),
           (''message'', JStr ''Buyer has not responded to payment reminder at T-3'')]))"

definition processSingleReminder :: "string \<Rightarrow> invoice \<times> reminder_type \<Rightarrow> unit service" where
  "processSingleReminder fresh iv =
     loggedS (thenS (queueNotification ''invoice-reminder''
                [(''invoiceId'', JStr (inv_id (fst iv))), (''buyerId'', JStr (inv_buyer (fst iv))),
                 (''reminderType'', JStr (reminder_str (snd iv)))])
       (handleReminderEscalation fresh iv))"

text \<open>\<open>ids\<close> gives the identifier that \<open>uuidv4\<close> draws while an invoice is processed.\<close>

definition processReminders :: "(string \<Rightarrow> string) \<Rightarrow> unit service" where
  "processReminders ids =
     loggedS (bindS nowS (\<lambda>now.
       bindS (queryS (getInvoicesDueForReminder (now div day_ms))) (\<lambda>rows.
         forS (\<lambda>iv. processSingleReminder (ids (inv_id (fst iv))) iv) rows)))"

definition DEFAULT_OVERDUE_THRESHOLD :: int where
  "DEFAULT_OVERDUE_THRESHOLD = 90"

definition notifyDefaulted :: "string \<Rightarrow> string \<Rightarrow> unit service" where
  "notifyDefaulted iv cid =
     queueNotification ''invoice-defaulted''
       [(''invoiceId'', JStr iv), (''collectionId'', JStr cid),
        (''recipients'', JArr [JStr ''finance_manager'', JStr ''management''])]"

definition defaultSingleCollection :: "string \<Rightarrow> string \<Rightarrow> unit service" where
  "defaultSingleCollection cid iv =
     thenS (transactionS (bindS nowS (\<lambda>now.
       thenS (execS (updateCollectionStatus now cid Col_bad_debt))
      (thenS (collections_updateInvoiceStatus iv Inv_defaulted Inv_overdue)
         (createAuditEntry (audit_sys (Some ''SYSTEM'') ''INVOICE_DEFAULTED'' ''collections'' cid
            (Some [(''status'', JStr ''overdue'')])
            [(''status'', JStr ''defaulted''), (''threshold'', JInt DEFAULT_OVERDUE_THRESHOLD)]))))))
       (notifyDefaulted iv cid)"

definition processDefaulted :: "unit service" where
  "processDefaulted =
     bindS (queryS getDefaultableCollections) (\<lambda>rows.
       forS (\<lambda>c. loggedS (defaultSingleCollection (cln_id c) (cln_invoice c))) rows)"

definition processOverdueInvoices :: "(string \<Rightarrow> string) \<Rightarrow> unit service" where
  "processOverdueInvoices ids =
     bindS nowS (\<lambda>now.
     bindS (queryS (getFundedOverdueInvoices (now div day_ms))) (\<lambda>rows.
       forS (\<lambda>iv. loggedS (processOverdueInvoice (ids iv) iv ''SYSTEM'')) rows))"

definition processEscalations :: "doc_tools \<Rightarrow> int \<Rightarrow> (string \<Rightarrow> string) \<Rightarrow> unit service" where
  "processEscalations tools aml ids =
     bindS (queryS getEscalationCandidates) (\<lambda>rows.
       forS (\<lambda>c. loggedS (processEscalation tools aml (ids (cln_invoice c)) (cln_invoice c) (cln_days_overdue c))) rows)"

text \<open>The job of \<open>createOverdueWorker\<close>.\<close>

definition overdue_processing_job :: "doc_tools \<Rightarrow> int \<Rightarrow> (string \<Rightarrow> string) \<Rightarrow> (string \<Rightarrow> string) \<Rightarrow> unit service" where
  "overdue_processing_job tools aml ids docIds = thenS (processOverdueInvoices ids) (processEscalations tools aml docIds)"

end
