(* ===== verification/Collections_Props.thy ===== *)
theory Collections_Props
  imports Collections
begin

text \<open>
  The properties of \<open>Collections\<close>: the penalty arithmetic, what a buyer payment commits and that it is
  committed once even when two requests race, the invariants of the collections service along any
  run of its operations and jobs, and what its scheduled jobs do on the schema and data of the platform.
\<close>

section \<open>Penalty\<close>

lemma not_digit_radix [simp]: "\<not> is_digit (CHR ''x'')" "\<not> is_digit (CHR ''X'')" "\<not> is_digit (CHR ''o'')"
  "\<not> is_digit (CHR ''O'')" "\<not> is_digit (CHR ''b'')" "\<not> is_digit (CHR ''B'')"
  by (simp_all add: is_digit_def)

lemma dropWhile_space_digits: "list_all is_digit s \<Longrightarrow> dropWhile is_space s = s"
  by (cases s) (auto simp: digit_not_space)

lemma js_trim_digits: "list_all is_digit s \<Longrightarrow> js_trim s = s"
  by (simp add: js_trim_def dropWhile_space_digits list_all_iff)

lemma take_2_digits: "list_all is_digit s \<Longrightarrow> \<not> is_digit c \<Longrightarrow> take 2 s \<noteq> [a, c]"
  by (metis list.set_intros list_all_iff set_take_subset subsetD)

lemma js_BigInt_digits:
  assumes "list_all is_digit s"
  shows "js_BigInt_text s = Inr (int (digits_val s))"
proof (cases s)
  case (Cons c t)
  have sign: "split_sign s = (False, s)" using assms Cons digit_not_sign by auto
  have "s \<noteq> []" using Cons by simp
  then show ?thesis
    by (simp add: js_BigInt_text_def js_trim_digits [OF assms] take_2_digits [OF assms] sign Let_def assms del: split_sign.simps)
qed (simp add: js_BigInt_text_def js_trim_def)

lemma int_div_mod_power: "int n = int (n div 10 ^ k) * 10 ^ k + int (n mod 10 ^ k)"
proof -
  have "int n = int (n div 10 ^ k * 10 ^ k + n mod 10 ^ k)" by (simp only: div_mult_mod_eq)
  also have "\<dots> = int (n div 10 ^ k) * 10 ^ k + int (n mod 10 ^ k)"
    by (simp only: of_nat_add of_nat_mult of_nat_power of_nat_numeral)
  finally show ?thesis .
qed

lemma calculatePenalty_text:
  assumes "0 < k" and "k \<le> 6"
  shows "calculatePenalty fv days (numeric_text k n) = Inr (bigint_div (fv * (int n * 10 ^ (6 - k)) * days) PENALTY_PRECISION)"
proof -
  let ?ip = "show_nat (n div 10 ^ k)" and ?fp = "padStart k (CHR ''0'') (show_nat (n mod 10 ^ k))"
  have ip: "list_all is_digit ?ip" by (rule show_nat_digits)
  have fp: "list_all is_digit ?fp" by (intro padStart_zero_digits show_nat_digits)
  have len: "length ?fp = k" using assms by (intro length_padded_nat) auto
  have frac: "slice0 6 (padEnd 6 (CHR ''0'') ?fp) = ?fp @ replicate (6 - k) (CHR ''0'')"
    unfolding slice0_def padEnd_def len using assms(2) len by simp
  have "list_all is_digit (?fp @ replicate (6 - k) (CHR ''0''))" using fp by (auto simp: list_all_iff)
  then have b: "js_BigInt_text (?fp @ replicate (6 - k) (CHR ''0'')) = Inr (int (n mod 10 ^ k) * 10 ^ (6 - k))"
    by (simp add: js_BigInt_digits digits_val_append)
  have prec: "PENALTY_PRECISION = 10 ^ k * 10 ^ (6 - k)" using assms(2) by (simp add: PENALTY_PRECISION_def flip: power_add)
  have "int n = int (n div 10 ^ k) * 10 ^ k + int (n mod 10 ^ k)"
    by (rule int_div_mod_power)
  then have r: "int (n div 10 ^ k) * PENALTY_PRECISION + int (n mod 10 ^ k) * 10 ^ (6 - k) = int n * 10 ^ (6 - k)"
    by (simp only: prec distrib_right mult.assoc)
  show ?thesis
    unfolding calculatePenalty_def numeric_text_def Let_def span_dot(1,2) [OF ip] list.sel drop_Suc_Cons One_nat_def drop0
      span_dot(3) [OF fp] frac b
    using ip by (simp add: js_BigInt_digits r)
qed

text \<open>
  The penalty is exact: for a daily rate of at most six decimals the integer arithmetic of the code
  gives face value times rate times days overdue, rounded down.
\<close>

theorem calculatePenalty_exact:
  assumes "0 < k" and "k \<le> 6" and "0 \<le> fv" and "0 \<le> days"
  shows "calculatePenalty fv days (numeric_text k n) = Inr \<lfloor>of_int fv * (of_nat n / 10 ^ k) * of_int days :: rat\<rfloor>"
proof -
  have "(10 :: rat) ^ k * 10 ^ (6 - k) = 1000000" using assms(2) by (simp flip: power_add)
  then have "of_int fv * (of_nat n / 10 ^ k) * of_int days = (of_int (fv * (int n * 10 ^ (6 - k)) * days) / of_int 1000000 :: rat)"
    by (simp add: field_simps)
  moreover have "bigint_div (fv * (int n * 10 ^ (6 - k)) * days) 1000000 = fv * (int n * 10 ^ (6 - k)) * days div 1000000"
    using assms(3,4) by (intro bigint_div_nonneg) auto
  ultimately show ?thesis
    by (simp only: calculatePenalty_text [OF assms(1,2)] PENALTY_PRECISION_def floor_divide_of_int_eq)
qed

theorem calculatePenalty_exact_witness:
  "calculatePenalty 1000999 3 (numeric_text 3 1) = Inr \<lfloor>of_int 1000999 * (of_nat 1 / 10 ^ 3) * of_int 3 :: rat\<rfloor>"
  by (rule calculatePenalty_exact) simp_all

section \<open>What a buyer payment commits\<close>

interpretation col: guarded_status_update set_invoice_status
  by unfold_locales (simp_all add: set_invoice_status_def)

lemma updateInvoiceStatus_run:
  "collections_updateInvoiceStatus i new expected w =
     (if confirmation_missing i new expected (db w) then (Inl (DbError ''23514''), w)
      else (Inr (list_ex (\<lambda>r. inv_id r = i \<and> inv_status r = expected) (t_invoices (db w))),
            w\<lparr>db := set_invoice_status (clock w) i new expected (db w)\<rparr>))"
  by (simp add: collections_updateInvoiceStatus_def)

lemma missing_hit:
  "confirmation_missing i new st d \<Longrightarrow> list_ex (\<lambda>r. inv_id r = i \<and> inv_status r = st) (t_invoices d)"
  by (auto simp: confirmation_missing_def list_ex_iff)

lemma confirmed_not_missing:
  "list_all chk_buyer_confirmed (t_invoices d) \<Longrightarrow> \<not> before_confirmation st \<Longrightarrow> \<not> confirmation_missing i new st d"
  by (auto simp: confirmation_missing_def list_all_iff list_ex_iff chk_buyer_confirmed_def)

text \<open>The checks of \<open>executePaymentReceivedTxn\<close> in order, and the database it leaves when all pass.\<close>

definition payment_check :: "record_payment_input \<Rightarrow> invoice \<Rightarrow> collection option \<Rightarrow> db \<Rightarrow> ris_error option" where
  "payment_check p i c d =
     (if \<not> list_ex (\<lambda>r. inv_id r = rp_invoice p \<and> inv_status r = inv_status i) (t_invoices d)
      then Some (BusinessRuleError ''ALREADY_COLLECTED'')
      else if confirmation_missing (rp_invoice p) Inv_collected (inv_status i) d then Some (DbError ''23514'')
      else if \<not> all_bigint [rp_amount p] then Some (DbError ''22003'')
      else if rp_amount p \<le> 0 \<or> rp_method p \<notin> set COLLECTION_PAYMENT_METHODS then Some (DbError ''23514'')
      else if \<not> list_ex (\<lambda>r. cln_id r = collection_id_or_empty c) (t_collections d) \<or> \<not> user_exists d (Some (rp_received_by p))
      then Some (DbError ''23503'')
      else if list_ex (\<lambda>b. buy_id b = inv_buyer i \<and> buy_used_limit b - inv_face_value i < 0) (t_buyers d) then Some (DbError ''23514'')
      else if \<not> list_all (\<lambda>c. c \<in> set (audit_columns d)) audit_cols then Some (DbError ''42703'')
      else None)"

definition paid_buyer :: "record_payment_input \<Rightarrow> invoice \<Rightarrow> buyer \<Rightarrow> buyer" where
  "paid_buyer p i b =
     b\<lparr>buy_used_limit := buy_used_limit b - inv_face_value i,
       buy_payment_score := max 0 (min 100 (buy_payment_score b
          + score_adjustment (calculateDaysLate (rp_payment_date p) (inv_due_date i))))\<rparr>"

definition paid_collection :: "int \<Rightarrow> record_payment_input \<Rightarrow> collection \<Rightarrow> collection" where
  "paid_collection now p c = c\<lparr>cln_status := Col_collected, cln_escalation_level := Some 0,
     cln_total_collected := Some (rp_amount p), cln_last_payment_at := Some now, cln_updated_at := now\<rparr>"

definition paid_audit :: "record_payment_input \<Rightarrow> invoice \<Rightarrow> audit_entry" where
  "paid_audit p i = audit_sys (Some (rp_received_by p)) ''PAYMENT_RECEIVED'' ''collections'' (rp_invoice p)
     (Some [(''status'', JStr (inv_status_str (inv_status i)))])
     [(''status'', JStr ''collected''), (''amount'', JInt (rp_amount p)), (''paymentDate'', JInt (rp_payment_date p))]"

definition paid_db :: "int \<Rightarrow> record_payment_input \<Rightarrow> invoice \<Rightarrow> collection option \<Rightarrow> db \<Rightarrow> db" where
  "paid_db now p i c d =
     (set_invoice_status now (rp_invoice p) Inv_collected (inv_status i) d)\<lparr>
       t_collection_payments := t_collection_payments d @ [payment_of_input p (collection_id_or_empty c)],
       t_buyers := update_where (\<lambda>b. buy_id b = inv_buyer i) (paid_buyer p i) (t_buyers d),
       t_collections := (case c of None \<Rightarrow> t_collections d
         | Some r \<Rightarrow> update_where (\<lambda>x. cln_id x = cln_id r) (paid_collection now p) (t_collections d)),
       t_audit := t_audit d @ [paid_audit p i]\<rparr>"

lemma user_exists_col_frame [simp]:
  "user_exists (d\<lparr>t_invoices := a\<rparr>) u = user_exists d u" "user_exists (d\<lparr>t_buyers := b\<rparr>) u = user_exists d u"
  "user_exists (d\<lparr>t_collections := c\<rparr>) u = user_exists d u" "user_exists (d\<lparr>t_collection_payments := e\<rparr>) u = user_exists d u"
  "user_exists (d\<lparr>t_escalation_documents := f\<rparr>) u = user_exists d u" "user_exists (d\<lparr>t_audit := g\<rparr>) u = user_exists d u"
  by (cases u; simp add: user_exists_def)+

lemma all_bigint_in: "all_bigint [n] \<Longrightarrow> bigint_in n = Inr n"
  by (simp add: all_bigint_def bigint_in_def)

lemma audit_run:
  "createAuditEntry e w =
     (if \<not> list_all (\<lambda>c. c \<in> set (audit_columns (db w))) audit_cols then (Inl (DbError ''42703''), w)
      else if \<not> user_exists (db w) (aud_user e) then (Inl (DbError ''23503''), w)
      else (Inr (), w\<lparr>db := (db w)\<lparr>t_audit := t_audit (db w) @ [e]\<rparr>\<rparr>))"
  by (simp add: createAuditEntry_def tryExecS_def insert_audit_def)

lemma assertTransition_run:
  "assertInvoiceCollectedTransition iv st w =
     (if confirmation_missing iv Inv_collected st (db w) then (Inl (DbError ''23514''), w)
      else if list_ex (\<lambda>r. inv_id r = iv \<and> inv_status r = st) (t_invoices (db w))
      then (Inr (), w\<lparr>db := set_invoice_status (clock w) iv Inv_collected st (db w)\<rparr>)
      else (Inl (BusinessRuleError ''ALREADY_COLLECTED''), w\<lparr>db := set_invoice_status (clock w) iv Inv_collected st (db w)\<rparr>))"
  by (simp add: assertInvoiceCollectedTransition_def updateInvoiceStatus_run run_guard)

lemma buyer_updates:
  "update_where (\<lambda>b. buy_id b = inv_buyer i)
     (\<lambda>b. b\<lparr>buy_payment_score := max 0 (min 100 (buy_payment_score b
        + score_adjustment (calculateDaysLate (rp_payment_date p) (inv_due_date i))))\<rparr>)
     (update_where (\<lambda>b. buy_id b = inv_buyer i) (\<lambda>b. b\<lparr>buy_used_limit := buy_used_limit b - inv_face_value i\<rparr>) bs)
   = update_where (\<lambda>b. buy_id b = inv_buyer i) (paid_buyer p i) bs"
  by (subst update_where_compose) (simp_all add: paid_buyer_def [abs_def])

lemma resolve_run:
  "all_bigint [n] \<Longrightarrow> resolveCollection now cid n d =
     Inr (update_collection cid (\<lambda>c. c\<lparr>cln_status := Col_collected, cln_escalation_level := Some 0,
       cln_total_collected := Some n, cln_last_payment_at := Some now, cln_updated_at := now\<rparr>) d)"
  by (simp add: resolveCollection_def all_bigint_in)

lemma payment_txn_run:
  "transactionS (executePaymentReceivedTxn p i c) w =
     (case payment_check p i c (db w) of Some e \<Rightarrow> (Inl e, w)
      | None \<Rightarrow> (Inr (), w\<lparr>db := paid_db (clock w) p i c (db w)\<rparr>))"
proof -
  let ?status = "list_ex (\<lambda>r. inv_id r = rp_invoice p \<and> inv_status r = inv_status i) (t_invoices (db w))"
  let ?row = "all_bigint [rp_amount p] \<and> 0 < rp_amount p \<and> rp_method p \<in> set COLLECTION_PAYMENT_METHODS
    \<and> list_ex (\<lambda>r. cln_id r = collection_id_or_empty c) (t_collections (db w)) \<and> user_exists (db w) (Some (rp_received_by p))"
  let ?lim = "list_ex (\<lambda>b. buy_id b = inv_buyer i \<and> buy_used_limit b - inv_face_value i < 0) (t_buyers (db w))"
  let ?cols = "list_all (\<lambda>c. c \<in> set (audit_columns (db w))) audit_cols"
  note defs = executePaymentReceivedTxn_def assertTransition_run set_invoice_status_def payment_check_def
    repo_recordPaymentReceived_def payment_of_input_def
  let ?missing = "confirmation_missing (rp_invoice p) Inv_collected (inv_status i) (db w)"
  show ?thesis
  proof (cases ?missing)
    case True
    then show ?thesis using missing_hit [OF True] by (simp add: defs)
  next
    case False
    consider "\<not> ?status" | "?status" "\<not> ?row" | "?status" "?row" "?lim" | "?status" "?row" "\<not> ?lim" "\<not> ?cols"
      | "?status" "?row" "\<not> ?lim" "?cols" by blast
    then show ?thesis
    proof cases
      case 1
      then show ?thesis using False by (simp add: defs)
    next
      case 2
      then show ?thesis using False by (auto simp: defs not_less)
    next
      case 3
      then show ?thesis using False by (simp add: defs not_le reduceBuyerUsedLimit_def)
    next
      case 4
      then show ?thesis using False
        by (cases c) (simp_all add: defs not_le reduceBuyerUsedLimit_def adjustBuyerPaymentScore_def buyer_updates resolve_run
            update_collection_def audit_run)
    next
      case 5
      then show ?thesis using False
        by (cases c) (simp_all add: defs not_le reduceBuyerUsedLimit_def adjustBuyerPaymentScore_def buyer_updates resolve_run
            update_collection_def audit_run paid_db_def paid_audit_def paid_collection_def [abs_def])
    qed
  qed
qed

text \<open>The jobs that follow the commit; the first queue that fails stops the dispatch.\<close>

lemma dispatch_db: "dispatchPostPaymentJobs p i c w = (r, w') \<Longrightarrow> db w' = db w \<and> (\<forall>e. r = Inl e \<longrightarrow> e = QueueError)"
  unfolding dispatchPostPaymentJobs_def queueFacilityRepayment_def queueSettlementInitiation_def queueNotification_def
  by (auto simp: thenS_def bindS_def run_enqueue split: if_splits)

lemma dispatch_up:
  "redis_up w \<Longrightarrow> \<exists>w'. dispatchPostPaymentJobs p i c w = (Inr (), w')"
  unfolding dispatchPostPaymentJobs_def queueFacilityRepayment_def queueSettlementInitiation_def queueNotification_def
  by (auto simp: thenS_def bindS_def run_enqueue)

lemma commit_succ:
  "commitPaymentReceived p i c w = (Inr (), w') \<Longrightarrow>
     payment_check p i c (db w) = None \<and> db w' = paid_db (clock w) p i c (db w)"
  by (auto simp: commitPaymentReceived_def svc_succ payment_txn_run dest!: dispatch_db split: option.splits)

lemma paid_invoices:
  "t_invoices (paid_db now p i c d) =
     update_where (\<lambda>r. inv_id r = rp_invoice p \<and> inv_status r = inv_status i)
       (\<lambda>r. r\<lparr>inv_status := Inv_collected, inv_updated_at := now\<rparr>) (t_invoices d)"
  by (simp add: paid_db_def set_invoice_status_def)

lemma no_status_left:
  "st \<noteq> new \<Longrightarrow> \<not> list_ex (\<lambda>r. inv_id r = iv \<and> inv_status r = st)
     (update_where (\<lambda>r. inv_id r = iv \<and> inv_status r = st) (\<lambda>r. r\<lparr>inv_status := new, inv_updated_at := t\<rparr>) rs)"
  by (induction rs) auto

text \<open>
  C6: Two requests that record a payment of the same invoice may both read it before either writes.
  Whichever commits second, on the snapshot it read, is refused with \<open>ALREADY_COLLECTED\<close> and changes
  nothing, so the buyer's limit is released once and one payment is booked.
\<close>

theorem concurrent_payment_refused:
  assumes "commitPaymentReceived p i c w = (Inr (), w1)" and "inv_status i \<noteq> Inv_collected"
    and "t_invoices (db w2) = t_invoices (db w1)" and "rp_invoice p' = rp_invoice p"
  shows "commitPaymentReceived p' i c' w2 = (Inl (BusinessRuleError ''ALREADY_COLLECTED''), w2)"
proof -
  have "db w1 = paid_db (clock w) p i c (db w)" using assms(1) by (rule commit_succ [THEN conjunct2])
  then have "payment_check p' i c' (db w2) = Some (BusinessRuleError ''ALREADY_COLLECTED'')"
    using assms(2-4) by (simp add: payment_check_def paid_invoices no_status_left)
  then show ?thesis by (simp add: commitPaymentReceived_def payment_txn_run)
qed

text \<open>
  C15: When a buyer payment is recorded, the invoice is collected, exactly one payment row is added, the
  buyer's used limit covers the face value and falls by it, the payment score moves by the timeliness
  and stays between 0 and 100, and every later request for that invoice is refused without effect.
\<close>

theorem recordPaymentReceived_once:
  assumes "recordPaymentReceived p w = (Inr (), w')"
  shows "\<exists>i. getInvoiceForCollection (rp_invoice p) (db w) = Some i \<and> inv_status i \<noteq> Inv_collected
    \<and> map_option inv_status (getInvoiceForCollection (rp_invoice p) (db w')) = Some Inv_collected
    \<and> (\<exists>row. t_collection_payments (db w') = t_collection_payments (db w) @ [row] \<and> cp_amount row = rp_amount p)
    \<and> t_buyers (db w') = update_where (\<lambda>b. buy_id b = inv_buyer i) (paid_buyer p i) (t_buyers (db w))
    \<and> (\<forall>b \<in> set (t_buyers (db w)). buy_id b = inv_buyer i \<longrightarrow> inv_face_value i \<le> buy_used_limit b
         \<and> 0 \<le> buy_payment_score (paid_buyer p i b) \<and> buy_payment_score (paid_buyer p i b) \<le> 100)
    \<and> (\<forall>q. rp_invoice q = rp_invoice p \<longrightarrow> recordPaymentReceived q w' = (Inl (BusinessRuleError ''ALREADY_COLLECTED''), w'))"
proof -
  obtain i where i: "getInvoiceForCollection (rp_invoice p) (db w) = Some i" "inv_status i \<noteq> Inv_collected"
    and run: "commitPaymentReceived p i (getCollectionByInvoiceId (rp_invoice p) (db w)) w = (Inr (), w')"
    using assms by (auto simp: recordPaymentReceived_def svc_succ)
  let ?c = "getCollectionByInvoiceId (rp_invoice p) (db w)"
  have chk: "payment_check p i ?c (db w) = None" and d: "db w' = paid_db (clock w) p i ?c (db w)"
    using commit_succ [OF run] by simp_all
  have key: "inv_id i = rp_invoice p" using i(1) by (auto simp: getInvoiceForCollection_def dest: select_one_key)
  have got: "getInvoiceForCollection (rp_invoice p) (db w') = Some (i\<lparr>inv_status := Inv_collected, inv_updated_at := clock w\<rparr>)"
    using i(1) key by (simp add: getInvoiceForCollection_def d paid_invoices select_one_update_where)
  have "recordPaymentReceived q w' = (Inl (BusinessRuleError ''ALREADY_COLLECTED''), w')" if "rp_invoice q = rp_invoice p" for q
    using that got by (simp add: recordPaymentReceived_def)
  moreover have "inv_face_value i \<le> buy_used_limit b" if "b \<in> set (t_buyers (db w))" "buy_id b = inv_buyer i" for b
    using chk that by (auto simp: payment_check_def list_ex_iff not_less split: if_splits)
  moreover have "0 \<le> buy_payment_score (paid_buyer p i b) \<and> buy_payment_score (paid_buyer p i b) \<le> 100" for b
    by (simp add: paid_buyer_def)
  ultimately show ?thesis using i got
    by (intro exI [of _ i]) (simp add: d paid_db_def payment_of_input_def)
qed

text \<open>
  No check compares the amount with what is due: whenever a payment is accepted, a payment of one
  shilling for the same invoice is accepted too, and also collects the invoice and releases the whole face value.
\<close>

theorem recordPaymentReceived_any_amount:
  assumes "recordPaymentReceived p w = (Inr (), w')" and "redis_up w"
  shows "\<exists>w1. recordPaymentReceived (p\<lparr>rp_amount := 1\<rparr>) w = (Inr (), w1)
    \<and> t_invoices (db w1) = t_invoices (db w') \<and> t_buyers (db w1) = t_buyers (db w')"
proof -
  obtain i where i: "getInvoiceForCollection (rp_invoice p) (db w) = Some i" "inv_status i \<noteq> Inv_collected"
    and run: "commitPaymentReceived p i (getCollectionByInvoiceId (rp_invoice p) (db w)) w = (Inr (), w')"
    using assms by (auto simp: recordPaymentReceived_def svc_succ)
  let ?c = "getCollectionByInvoiceId (rp_invoice p) (db w)" and ?q = "p\<lparr>rp_amount := 1\<rparr>"
  have chk: "payment_check p i ?c (db w) = None" and d: "db w' = paid_db (clock w) p i ?c (db w)"
    using commit_succ [OF run] by simp_all
  then have q: "payment_check ?q i ?c (db w) = None" by (auto simp: payment_check_def all_bigint_def split: if_splits)
  obtain w1 where w1: "dispatchPostPaymentJobs ?q i ?c (w\<lparr>db := paid_db (clock w) ?q i ?c (db w)\<rparr>) = (Inr (), w1)"
    using dispatch_up [of "w\<lparr>db := paid_db (clock w) ?q i ?c (db w)\<rparr>" ?q i ?c] assms(2) by auto
  then have "recordPaymentReceived ?q w = (Inr (), w1)"
    using i q by (simp add: recordPaymentReceived_def commitPaymentReceived_def payment_txn_run)
  moreover have "db w1 = paid_db (clock w) ?q i ?c (db w)" using dispatch_db [OF w1] by simp
  ultimately show ?thesis using d by (simp add: paid_db_def set_invoice_status_def paid_buyer_def [abs_def])
qed

text \<open>
  A payment can be recorded only while the buyer's used limit covers the face value. Buyers are created
  with a used limit of zero and no operation raises it, so for such a buyer every payment is refused
  by the check constraint and nothing is written.
\<close>

theorem recordPaymentReceived_needs_used_limit:
  assumes "getInvoiceForCollection (rp_invoice p) (db w) = Some i" and "b \<in> set (t_buyers (db w))"
    and "buy_id b = inv_buyer i" and "buy_used_limit b < inv_face_value i"
  shows "\<exists>e. recordPaymentReceived p w = (Inl e, w)"
proof -
  have "list_ex (\<lambda>b. buy_id b = inv_buyer i \<and> buy_used_limit b - inv_face_value i < 0) (t_buyers (db w))"
    using assms(2-4) by (auto simp: list_ex_iff)
  then have "payment_check p i (getCollectionByInvoiceId (rp_invoice p) (db w)) (db w) \<noteq> None"
    by (simp add: payment_check_def)
  then obtain e where "payment_check p i (getCollectionByInvoiceId (rp_invoice p) (db w)) (db w) = Some e" by blast
  then show ?thesis using assms(1)
    by (cases "inv_status i = Inv_collected") (simp_all add: recordPaymentReceived_def commitPaymentReceived_def payment_txn_run)
qed

section \<open>Invariants of the rows\<close>

text \<open>
  A query keeps every invariant, and what the invariant says of the rows it returns may be used in
  the rest; a loop keeps an invariant when each of its items does.
\<close>

lemma preserves_query_bind:
  "(\<And>d. I d \<Longrightarrow> P (f d)) \<Longrightarrow> (\<And>x. P x \<Longrightarrow> preserves (\<lambda>w. I (db w)) (g x)) \<Longrightarrow> preserves (\<lambda>w. I (db w)) (bindS (queryS f) g)"
  by (simp add: preserves_def)

lemma preserves_require_bind:
  "(\<And>x. r = Some x \<Longrightarrow> preserves I (g x)) \<Longrightarrow> preserves I (bindS (requireS r e) g)"
  by (cases r) (auto simp: preserves_def)

lemma preserves_guard_then: "(b \<Longrightarrow> preserves I m) \<Longrightarrow> preserves I (thenS (guardS b e) m)"
  by (cases b) (auto simp: preserves_def)

lemma preserves_for_in: "(\<And>x. x \<in> set xs \<Longrightarrow> preserves I (f x)) \<Longrightarrow> preserves I (forS f xs)"
  by (induction xs) auto

lemma preserves_logged: "preserves I m \<Longrightarrow> preserves I (loggedS m)"
  unfolding loggedS_def by (rule preserves_catch) auto

lemma preserves_rate: "preserves (\<lambda>w. I (db w)) getDailyPenaltyRate"
  by (simp add: getDailyPenaltyRate_def catchS_def preserves_def)

text \<open>
  An invariant of single rows of \<open>collections\<close> and \<open>buyers\<close>, and what it must survive: the two ways a
  collection is created, the status changes, the ageing and escalation updates (whose day count is that
  of a row that has the invariant), the manual level changes, the payments, and the change of a buyer by a payment.
\<close>

definition aged :: "int \<Rightarrow> int \<Rightarrow> int \<Rightarrow> int \<Rightarrow> collection \<Rightarrow> collection" where
  "aged now level days penalty c = c\<lparr>cln_escalation_level := Some level, cln_days_overdue := days,
     cln_penalty := penalty, cln_escalation_date := Some now,
     cln_demand_notice_sent := (if level \<ge> 2 then True else cln_demand_notice_sent c), cln_updated_at := now\<rparr>"

definition levelled :: "int \<Rightarrow> int \<Rightarrow> collection \<Rightarrow> collection" where
  "levelled now level c = c\<lparr>cln_escalation_level := Some level, cln_escalation_date := Some now,
     cln_status := (if level > 0 then Col_escalated else cln_status c), cln_updated_at := now\<rparr>"

locale row_invariant =
  fixes Q :: "collection \<Rightarrow> bool" and B :: "buyer \<Rightarrow> bool"
  assumes Q_pending: "Q (new_collection now cid iv bid f due 0 rate 0 Col_pending)"
    and Q_new_overdue: "Q (new_collection now cid iv bid f due 1 rate pen Col_overdue)"
    and Q_status: "Q c \<Longrightarrow> st \<in> {Col_overdue, Col_escalated, Col_bad_debt, Col_collected}
          \<Longrightarrow> Q (c\<lparr>cln_status := st, cln_updated_at := now\<rparr>)"
    and Q_overdue: "Q c \<Longrightarrow> Q (aged now 0 1 pen c)"
    and Q_escalate: "Q c \<Longrightarrow> Q c0 \<Longrightarrow> Q (aged now (determineEscalationLevel (cln_days_overdue c0)) (cln_days_overdue c0) pen c)"
    and Q_up: "Q c \<Longrightarrow> Q c0 \<Longrightarrow> Q (levelled now (min (level_of c0 + 1) 3) c)"
    and Q_down: "Q c \<Longrightarrow> Q c0 \<Longrightarrow> \<not> level_of c0 \<le> 0 \<Longrightarrow> Q (levelled now (level_of c0 - 1) c)"
    and Q_flag: "Q c \<Longrightarrow> Q (c\<lparr>cln_sar_flagged := True, cln_updated_at := now\<rparr>)"
    and Q_paid: "Q c \<Longrightarrow> 0 < rp_amount p \<Longrightarrow> Q (paid_collection now p c)"
    and Q_partial: "Q c \<Longrightarrow> 0 < n \<Longrightarrow> Q (c\<lparr>cln_total_collected := Some (total_of c + n), cln_last_payment_at := Some now, cln_updated_at := now\<rparr>)"
    and B_paid: "B b \<Longrightarrow> inv_face_value i \<le> buy_used_limit b \<Longrightarrow> B (paid_buyer p i b)"
begin

definition rows_ok :: "db \<Rightarrow> bool" where
  "rows_ok d \<longleftrightarrow> list_all Q (t_collections d) \<and> list_all B (t_buyers d)"

abbreviation keeps :: "'a service \<Rightarrow> bool" where
  "keeps m \<equiv> preserves (\<lambda>w. rows_ok (db w)) m"

lemma keeps_update: "(\<And>c. Q c \<Longrightarrow> Q (f c)) \<Longrightarrow> rows_ok d \<Longrightarrow> rows_ok (update_collection cid f d)"
  by (simp add: rows_ok_def update_collection_def list_all_update_where)

lemma keeps_insert: "rows_ok d \<Longrightarrow> Q c \<Longrightarrow> insert_collection c d = Inr d' \<Longrightarrow> rows_ok d'"
  by (auto simp: rows_ok_def insert_collection_def split: if_splits)

lemma keeps_audit: "keeps (createAuditEntry e)"
  by (rule preserves_createAuditEntry) (simp add: rows_ok_def)

lemma keeps_invoice: "keeps (collections_updateInvoiceStatus i new expected)"
  by (simp add: preserves_def updateInvoiceStatus_run set_invoice_status_def rows_ok_def)

lemma keeps_status:
  "st \<in> {Col_overdue, Col_escalated, Col_bad_debt, Col_collected} \<Longrightarrow> keeps (execS (updateCollectionStatus now cid st))"
  unfolding updateCollectionStatus_def by (rule preserves_exec) (auto intro: keeps_update Q_status)

lemma keeps_aged:
  "(\<And>c. Q c \<Longrightarrow> Q (aged now level days pen c)) \<Longrightarrow> keeps (tryExecS (updateEscalationLevel now cid level days pen))"
  by (rule preserves_tryExec)
    (auto simp: updateEscalationLevel_def aged_def split: if_splits intro: keeps_update)

lemma keeps_levelled:
  "(\<And>c. Q c \<Longrightarrow> Q (levelled now level c)) \<Longrightarrow> keeps (execS (setEscalationLevel now cid level))"
  unfolding setEscalationLevel_def by (rule preserves_exec) (auto simp: levelled_def intro: keeps_update)

lemma keeps_flag: "keeps (execS (flagForSarReview now cid))"
  unfolding flagForSarReview_def by (rule preserves_exec) (auto intro: keeps_update Q_flag)

lemma keeps_notify: "keeps (queueNotification n dat)"
  unfolding queueNotification_def by (rule preserves_enqueue)

lemmas keeps_parts = keeps_audit keeps_invoice keeps_status keeps_levelled keeps_flag keeps_notify preserves_rate

lemma row_of_invoice: "rows_ok d \<Longrightarrow> getCollectionByInvoiceId iv d = Some c \<Longrightarrow> Q c"
proof -
  have "first_row xs = Some x \<Longrightarrow> x \<in> set xs" for xs and x :: collection by (cases xs) auto
  then show "rows_ok d \<Longrightarrow> getCollectionByInvoiceId iv d = Some c \<Longrightarrow> Q c"
    by (fastforce simp: getCollectionByInvoiceId_def rows_ok_def list_all_iff)
qed

lemma row_of_id: "rows_ok d \<Longrightarrow> getCollectionById cid d = Some c \<Longrightarrow> Q c"
  by (auto simp: getCollectionById_def rows_ok_def list_all_iff dest: select_one_Some)

lemma keeps_create:
  "keeps (tryExecS (createPendingCollectionRecord now iv cid bid f due rate))"
  "keeps (tryExecS (createOverdueRecord now iv cid bid f due 1 rate pen))"
  by (rule preserves_tryExec; auto simp: createPendingCollectionRecord_def createOverdueRecord_def svc_succ
      intro: keeps_insert Q_pending Q_new_overdue)+

lemma keeps_start: "keeps (startCollectionMonitoring fresh iv pid)"
proof -
  have "keeps (persistCollectionStarted iv fresh i pid)" for i
    unfolding persistCollectionStarted_def
    by (intro preserves_bind preserves_transaction preserves_then preserves_now keeps_create keeps_parts)
  then show ?thesis unfolding startCollectionMonitoring_def
    by (auto intro!: preserves_bind preserves_query preserves_return preserves_require)
qed

lemma keeps_overdue: "keeps (processOverdueInvoice fresh iv u)"
proof -
  have "keeps (executeOverdueTxn iv cid i pen u ex)" for cid i pen ex
  proof (cases ex)
    case True
    then show ?thesis unfolding executeOverdueTxn_def
      by (auto intro!: preserves_bind preserves_then preserves_now keeps_parts keeps_aged Q_overdue)
  next
    case False
    then show ?thesis unfolding executeOverdueTxn_def
      by (auto intro!: preserves_bind preserves_then preserves_now keeps_create keeps_parts)
  qed
  then show ?thesis unfolding processOverdueInvoice_def Let_def
    by (auto intro!: preserves_bind preserves_then preserves_query preserves_transaction keeps_parts)
qed

lemma keeps_docs:
  "keeps (generateDraftDocument tools docId cid ty u)" "keeps (updateDraftParams tools docId ps u)" "keeps (finalizeAndSend tools docId u)"
proof -
  have detail: "keeps (getCollectionDetail tools cid)" for cid
    unfolding getCollectionDetail_def by (auto intro!: preserves_bind preserves_query split: prod.split)
  have pdf: "keeps (renderDemandPdf tools x)" for x
    unfolding renderDemandPdf_def by (auto intro!: preserves_bind preserves_now)
  have ins: "keeps (tryExecS (createEscalationDocumentWithClient e))" for e
    by (rule preserves_tryExec) (auto simp: createEscalationDocumentWithClient_def rows_ok_def split: if_splits)
  have upd: "rows_ok d \<Longrightarrow> rows_ok (update_draft i f d)" for i f d by (simp add: update_draft_def rows_ok_def)
  show "keeps (generateDraftDocument tools docId cid ty u)"
    unfolding generateDraftDocument_def persistDraftDocument_def
    by (intro preserves_bind preserves_then preserves_query preserves_guard preserves_transaction preserves_now preserves_return
        detail pdf ins keeps_audit)
  have content: "keeps (execS (updateDocumentContentWithClient i c h q))" for i c h q
    unfolding updateDocumentContentWithClient_def by (rule preserves_exec) (rule upd)
  show "keeps (updateDraftParams tools docId ps u)"
    unfolding updateDraftParams_def persistDraftUpdate_def
    by (intro preserves_bind preserves_then preserves_query preserves_require preserves_guard preserves_transaction detail pdf content keeps_audit)
  have fin: "keeps (tryExecS (finalizeDocumentWithClient now i v email))" for now i v email
    by (rule preserves_tryExec) (auto simp: finalizeDocumentWithClient_def upd split: if_splits)
  show "keeps (finalizeAndSend tools docId u)"
    unfolding finalizeAndSend_def persistFinalization_def queueDocumentNotification_def
    by (intro preserves_bind preserves_then preserves_query preserves_require preserves_guard preserves_transaction preserves_now
        detail fin keeps_audit preserves_enqueue)
qed

lemma keeps_auto_draft: "keeps (autoGenerateDraft tools docId cid level)"
  unfolding autoGenerateDraft_def Let_def
  by (auto intro!: preserves_catch preserves_then keeps_docs split: option.split)

lemma keeps_escalation:
  assumes "Q c0"
  shows "keeps (processEscalation tools aml docId iv (cln_days_overdue c0))"
proof -
  have "keeps (executeEscalationTxn aml c i (determineEscalationLevel (cln_days_overdue c0)) cur (cln_days_overdue c0) pen)" for c i cur pen
    unfolding executeEscalationTxn_def
    by (intro preserves_bind preserves_then preserves_now preserves_when keeps_parts keeps_aged)
      (auto intro: Q_escalate [OF _ assms])
  then show ?thesis unfolding processEscalation_def notifyEscalation_def Let_def
    by (auto intro!: preserves_bind preserves_then preserves_query preserves_transaction keeps_parts keeps_auto_draft)
qed

lemma keeps_manual:
  "keeps (escalateCollection aml cid u reason)" "keeps (deescalateCollection cid u reason)"
proof -
  have up: "keeps (executeManualEscalationTxn aml cid iv cur (min (level_of c + 1) 3) u reason)" if "Q c" for iv cur c
    unfolding executeManualEscalationTxn_def
    by (auto intro!: preserves_bind preserves_then preserves_now preserves_when preserves_query keeps_parts Q_up that)
  show "keeps (escalateCollection aml cid u reason)" unfolding escalateCollection_def
    by (rule preserves_query_bind [where P = "\<lambda>r. \<forall>c. r = Some c \<longrightarrow> Q c"])
      (auto simp: row_of_id intro!: preserves_require_bind preserves_then preserves_transaction up)
  have down: "keeps (executeDeescalationTxn cid cur (level_of c - 1) u reason)" if "Q c" "\<not> level_of c \<le> 0" for cur c
    unfolding executeDeescalationTxn_def
    by (intro preserves_bind preserves_then preserves_now preserves_when keeps_parts) (erule Q_down [OF _ that] | simp)+
  show "keeps (deescalateCollection cid u reason)" unfolding deescalateCollection_def
    by (rule preserves_query_bind [where P = "\<lambda>r. \<forall>c. r = Some c \<longrightarrow> Q c"])
      (auto simp: row_of_id intro!: preserves_require_bind preserves_guard_then preserves_transaction down)
qed

lemma keeps_payment: "keeps (recordPaymentReceived p)"
proof (rule preservesI)
  fix w :: world assume ok: "rows_ok (db w)"
  have paid: "rows_ok (paid_db (clock w) p i c (db w))" if "payment_check p i c (db w) = None" for i c
  proof -
    have "\<forall>b \<in> set (t_buyers (db w)). buy_id b = inv_buyer i \<longrightarrow> inv_face_value i \<le> buy_used_limit b"
      using that by (auto simp: payment_check_def list_ex_iff not_less split: if_splits)
    then have "list_all B (update_where (\<lambda>b. buy_id b = inv_buyer i) (paid_buyer p i) (t_buyers (db w)))"
      using ok B_paid by (auto simp: rows_ok_def update_where_def list_all_iff)
    moreover have "0 < rp_amount p" using that by (auto simp: payment_check_def split: if_splits)
    ultimately show ?thesis using ok
      by (auto simp: paid_db_def rows_ok_def set_invoice_status_def Q_paid list_all_update_where split: option.split)
  qed
  have run: "snd (commitPaymentReceived p i c w) = w \<or> payment_check p i c (db w) = None
      \<and> db (snd (commitPaymentReceived p i c w)) = paid_db (clock w) p i c (db w)" for i c
  proof (cases "payment_check p i c (db w)")
    case None
    obtain r w2 where d: "dispatchPostPaymentJobs p i c (w\<lparr>db := paid_db (clock w) p i c (db w)\<rparr>) = (r, w2)" by fastforce
    then show ?thesis using None dispatch_db [OF d] by (simp add: commitPaymentReceived_def payment_txn_run)
  qed (simp add: commitPaymentReceived_def payment_txn_run)
  show "rows_ok (db (snd (recordPaymentReceived p w)))"
  proof (cases "getInvoiceForCollection (rp_invoice p) (db w)")
    case (Some i)
    then show ?thesis using ok paid run [of i "getCollectionByInvoiceId (rp_invoice p) (db w)"]
      by (cases "inv_status i = Inv_collected") (auto simp: recordPaymentReceived_def)
  qed (simp add: recordPaymentReceived_def ok)
qed

lemma keeps_partial: "keeps (recordCollectionPayment cid p u)"
proof -
  have row: "rows_ok d \<Longrightarrow> repo_recordPaymentReceived x d = Inr d' \<Longrightarrow> rows_ok d' \<and> 0 < cp_amount x" for d d' x
    by (auto simp: repo_recordPaymentReceived_def rows_ok_def split: if_splits)
  have upd: "rows_ok d \<Longrightarrow> 0 < n \<Longrightarrow> updateCollectionAfterPayment now cid n d = Inr d' \<Longrightarrow> rows_ok d'" for d d' n now
    by (auto simp: updateCollectionAfterPayment_def split: if_splits intro: keeps_update Q_partial)
  have "keeps (executeCollectionPaymentTxn cid p u st)" for st
  proof (cases "0 < fp_amount p")
    case True
    then show ?thesis unfolding executeCollectionPaymentTxn_def
      by (intro preserves_bind preserves_then preserves_now keeps_audit preserves_tryExec) (auto dest: row upd)
  next
    case False
    then show ?thesis unfolding executeCollectionPaymentTxn_def
      by (auto simp: preserves_def thenS_def bindS_def repo_recordPaymentReceived_def tryExecS_def)
  qed
  then show ?thesis unfolding recordCollectionPayment_def
    by (intro preserves_bind preserves_then preserves_query preserves_require preserves_guard preserves_transaction)
qed

lemma keeps_resolve: "keeps (collections_resolveCollectionById cid u)"
proof -
  have "keeps (execS (repo_resolveCollectionById now cid))" for now
    unfolding repo_resolveCollectionById_def by (rule preserves_exec) (auto intro: keeps_update Q_status)
  then show ?thesis unfolding collections_resolveCollectionById_def executeResolveTxn_def
    by (intro preserves_bind preserves_then preserves_query preserves_require preserves_guard preserves_transaction preserves_now keeps_parts)
qed

lemma keeps_jobs:
  "keeps (processReminders ids)" "keeps processDefaulted" "keeps (processOverdueInvoices ids)" "keeps (processEscalations tools aml ids)"
proof -
  show "keeps (processReminders ids)"
    unfolding processReminders_def processSingleReminder_def handleReminderEscalation_def
    by (intro preserves_logged preserves_bind preserves_then preserves_now preserves_query preserves_for preserves_when keeps_notify keeps_overdue)
  show "keeps processDefaulted"
    unfolding processDefaulted_def defaultSingleCollection_def notifyDefaulted_def
    by (intro preserves_logged preserves_bind preserves_then preserves_now preserves_query preserves_for preserves_transaction keeps_parts) simp
  show "keeps (processOverdueInvoices ids)" unfolding processOverdueInvoices_def
    by (intro preserves_logged preserves_bind preserves_now preserves_query preserves_for keeps_overdue)
  show "keeps (processEscalations tools aml ids)" unfolding processEscalations_def
  proof (rule preserves_query_bind [where P = "list_all Q"])
    show "list_all Q (getEscalationCandidates d)" if "rows_ok d" for d
      using that by (simp add: rows_ok_def getEscalationCandidates_def list_all_iff)
  qed (auto simp: list_all_iff intro!: preserves_for_in preserves_logged keeps_escalation)
qed

end

text \<open>One operation or job of the collections service, or a step of the platform that touches neither collections nor buyers.\<close>

inductive collection_step :: "world \<Rightarrow> world \<Rightarrow> bool" where
  start: "collection_step w (snd (startCollectionMonitoring fresh iv pid w))"
| overdue: "collection_step w (snd (processOverdueInvoice fresh iv u w))"
| up: "collection_step w (snd (escalateCollection aml cid u reason w))"
| down: "collection_step w (snd (deescalateCollection cid u reason w))"
| payment: "collection_step w (snd (recordPaymentReceived p w))"
| partial: "collection_step w (snd (recordCollectionPayment cid q u w))"
| resolve: "collection_step w (snd (collections_resolveCollectionById cid u w))"
| draft: "collection_step w (snd (generateDraftDocument tools docId cid ty u w))"
| edit: "collection_step w (snd (updateDraftParams tools docId ps u w))"
| send: "collection_step w (snd (finalizeAndSend tools docId u w))"
| reminders: "collection_step w (snd (processReminders ids w))"
| overdues: "collection_step w (snd (processOverdueInvoices ids w))"
| escalations: "collection_step w (snd (processEscalations tools aml ids w))"
| defaults: "collection_step w (snd (processDefaulted w))"
| other: "t_collections (db w') = t_collections (db w) \<Longrightarrow> t_buyers (db w') = t_buyers (db w) \<Longrightarrow> collection_step w w'"

context row_invariant
begin

lemmas keeps_all = keeps_start keeps_overdue keeps_manual keeps_payment keeps_partial keeps_resolve keeps_docs keeps_jobs

lemma step_keeps: "collection_step w w' \<Longrightarrow> rows_ok (db w) \<Longrightarrow> rows_ok (db w')"
proof (induction rule: collection_step.induct)
  case (other w' w)
  then show ?case by (simp add: rows_ok_def)
qed (blast intro: keeps_all [THEN preservesD])+

lemma run_keeps: "collection_step\<^sup>*\<^sup>* w w' \<Longrightarrow> rows_ok (db w) \<Longrightarrow> rows_ok (db w')"
  by (induction rule: rtranclp_induct) (auto dest: step_keeps)

end

subsection \<open>Three row invariants\<close>

definition level_ok :: "collection \<Rightarrow> bool" where
  "level_ok c \<longleftrightarrow> 0 \<le> level_of c \<and> level_of c \<le> 3 \<and> 0 \<le> total_of c"

definition buyer_ok :: "buyer \<Rightarrow> bool" where
  "buyer_ok b \<longleftrightarrow> 0 \<le> buy_used_limit b \<and> 0 \<le> buy_payment_score b \<and> buy_payment_score b \<le> 100"

definition young :: "collection \<Rightarrow> bool" where
  "young c \<longleftrightarrow> cln_days_overdue c < 3 \<and> 0 \<le> level_of c"

lemmas row_change_defs = new_collection_def aged_def levelled_def paid_collection_def paid_buyer_def level_of_def total_of_def
  determineEscalationLevel_def

interpretation levels: row_invariant level_ok buyer_ok
  by unfold_locales (auto simp: level_ok_def buyer_ok_def row_change_defs split: option.splits)

interpretation defaults: row_invariant "\<lambda>c. cln_status c \<noteq> Col_defaulted" "\<lambda>_. True"
  by unfold_locales (auto simp: row_change_defs)

interpretation days: row_invariant young "\<lambda>_. True"
  by unfold_locales (auto simp: young_def row_change_defs split: option.splits)

text \<open>
  C27: Along any run of the collections service every escalation level stays between 0 and 3, no collected
  total is negative, no buyer's used limit becomes negative and every payment score stays between 0 and 100.
\<close>

theorem collections_invariant:
  assumes "collection_step\<^sup>*\<^sup>* w w'" and "list_all level_ok (t_collections (db w))" and "list_all buyer_ok (t_buyers (db w))"
  shows "list_all level_ok (t_collections (db w')) \<and> list_all buyer_ok (t_buyers (db w'))"
  using levels.run_keeps [OF assms(1)] assms(2,3) by (simp add: levels.rows_ok_def)

text \<open>
  The collections service records a default as \<open>bad_debt\<close>, while the risk engine counts collections
  with status \<open>defaulted\<close>, which no operation sets: along any run from a database without that status,
  no supplier ever has a default in the track record that scoring reads.
\<close>

theorem defaults_never_scored:
  assumes "collection_step\<^sup>*\<^sup>* w w'" and "list_all (\<lambda>c. cln_status c \<noteq> Col_defaulted) (t_collections (db w))"
  shows "\<not> tr_has_defaults (getSupplierTrackRecord s (db w'))"
proof -
  have "list_all (\<lambda>c. cln_status c \<noteq> Col_defaulted) (t_collections (db w'))"
    using defaults.run_keeps [OF assms(1)] assms(2) by (simp add: defaults.rows_ok_def list.pred_True)
  then have "filter (\<lambda>c. cln_status c = Col_defaulted) (closed_collections s (db w')) = []"
    by (auto simp: closed_collections_def filter_empty_conv list_all_iff)
  then show ?thesis by (simp add: getSupplierTrackRecord_def Let_def)
qed

lemma escalation_stalls:
  assumes "young c0" and "list_all young (t_collections (db w))"
  shows "snd (processEscalation tools aml docId iv (cln_days_overdue c0) w) = w"
proof -
  have "determineEscalationLevel (cln_days_overdue c0) \<le> level_of c" if "getCollectionByInvoiceId iv (db w) = Some c" for c
    using assms days.row_of_invoice [OF _ that] by (simp add: days.rows_ok_def list.pred_True young_def determineEscalationLevel_def)
  then show ?thesis
    by (cases "getInvoiceForCollection iv (db w)"; cases "getCollectionByInvoiceId iv (db w)")
      (simp_all add: processEscalation_def Let_def)
qed

lemma logged_run: "loggedS m w = (Inr (), snd (m w))"
  by (simp add: loggedS_def catchS_def split: prod.split sum.split)

lemma for_stays: "(\<And>x. x \<in> set xs \<Longrightarrow> f x w = (Inr (), w)) \<Longrightarrow> forS f xs w = (Inr (), w)"
  by (induction xs) auto

text \<open>
  The overdue job passes the stored number of overdue days to the escalation and nothing counts that
  number up: it is 1 when a collection becomes overdue. Along any run that starts with fewer than three
  days on every collection, the escalation job and the default job do nothing at all.
\<close>

theorem escalation_never_advances:
  assumes "collection_step\<^sup>*\<^sup>* w w'" and "list_all young (t_collections (db w))"
  shows "processEscalations tools aml ids w' = (Inr (), w') \<and> processDefaulted w' = (Inr (), w')"
proof -
  have yg: "list_all young (t_collections (db w'))"
    using days.run_keeps [OF assms(1)] assms(2) by (simp add: days.rows_ok_def list.pred_True)
  have "snd (processEscalation tools aml docId (cln_invoice c) (cln_days_overdue c) w') = w'"
    if "c \<in> set (getEscalationCandidates (db w'))" for c docId
    using that yg by (intro escalation_stalls) (auto simp: getEscalationCandidates_def list_all_iff)
  then have "processEscalations tools aml ids w' = (Inr (), w')"
    by (simp add: processEscalations_def for_stays logged_run)
  moreover have "filter (\<lambda>c. cln_escalation_level c = Some 3 \<and> cln_days_overdue c \<ge> 90 \<and> open_overdue c) (t_collections (db w')) = []"
    using yg by (auto simp: filter_empty_conv list_all_iff young_def)
  then have "getDefaultableCollections (db w') = []" unfolding getDefaultableCollections_def by (simp only: sort_key_simps)
  ultimately show ?thesis by (simp add: processDefaulted_def)
qed

section \<open>The scheduled jobs and their user\<close>

text \<open>A transaction whose last statement is an audit entry of an unknown user never commits.\<close>

definition users_kept :: "'a service \<Rightarrow> bool" where
  "users_kept m \<longleftrightarrow> (\<forall>w. t_users (db (snd (m w))) = t_users (db w))"

lemma users_kept_basic:
  "users_kept (execS (updateCollectionStatus now cid st))" "users_kept (tryExecS (updateEscalationLevel now cid l ds pen))"
  "users_kept (collections_updateInvoiceStatus i new expected)"
  "users_kept (tryExecS (createOverdueRecord now iv cid bid f due ds rate pen))"
  "users_kept (tryExecS (createPendingCollectionRecord now iv cid bid f due rate))"
  "users_kept getDailyPenaltyRate" "users_kept nowS"
proof -
  have ins: "insert_collection c d = Inr d' \<Longrightarrow> t_users d' = t_users d" for c d d'
    by (auto simp: insert_collection_def split: if_splits)
  have try_users: "users_kept (tryExecS f)" if "\<And>d d'. f d = Inr d' \<Longrightarrow> t_users d' = t_users d" for f
    using that by (auto simp: users_kept_def tryExecS_def split: sum.split)
  show "users_kept (tryExecS (createOverdueRecord now iv cid bid f due ds rate pen))"
    "users_kept (tryExecS (createPendingCollectionRecord now iv cid bid f due rate))"
    by (rule try_users; auto simp: createOverdueRecord_def createPendingCollectionRecord_def svc_succ dest: ins)+
  show "users_kept (tryExecS (updateEscalationLevel now cid l ds pen))"
    by (rule try_users) (auto simp: updateEscalationLevel_def update_collection_def split: if_splits)
qed (simp_all add: users_kept_def updateCollectionStatus_def update_collection_def updateInvoiceStatus_run set_invoice_status_def
      getDailyPenaltyRate_def catchS_def)

text \<open>\<open>blocked u m\<close>: \<open>m\<close> throws while \<open>u\<close> is not a user.\<close>

definition blocked :: "string option \<Rightarrow> 'a service \<Rightarrow> bool" where
  "blocked u m \<longleftrightarrow> (\<forall>w. \<not> user_exists (db w) u \<longrightarrow> (\<exists>x w'. m w = (Inl x, w')))"

lemma blocked_audit: "blocked u (createAuditEntry (audit_sys u act tbl rid old new))"
  by (simp add: blocked_def audit_run)

lemma user_exists_users: "t_users d' = t_users d \<Longrightarrow> user_exists d' u = user_exists d u"
  by (cases u) (simp_all add: user_exists_def)

lemma blocked_bind: "users_kept m \<Longrightarrow> (\<And>x. blocked u (f x)) \<Longrightarrow> blocked u (bindS m f)"
  unfolding blocked_def bindS_def users_kept_def
  by (auto split: prod.split sum.split) (metis snd_conv user_exists_users)

lemma blocked_then: "users_kept m \<Longrightarrow> blocked u k \<Longrightarrow> blocked u (thenS m k)"
  unfolding thenS_def by (rule blocked_bind)

lemma users_kept_bind: "users_kept m \<Longrightarrow> (\<And>x. users_kept (f x)) \<Longrightarrow> users_kept (bindS m f)"
  by (auto simp: users_kept_def bindS_def split: prod.split sum.split) (metis snd_conv)+

lemma users_kept_then: "users_kept m \<Longrightarrow> users_kept k \<Longrightarrow> users_kept (thenS m k)"
  unfolding thenS_def by (rule users_kept_bind)

text \<open>Such a transaction throws and leaves the database, and what follows it is not reached.\<close>

lemma blocked_transaction:
  assumes "blocked u m" and "\<not> user_exists d u"
  shows "preserves (\<lambda>w. db w = d) (thenS (transactionS m) k)" "preserves (\<lambda>w. db w = d) (transactionS m)"
proof -
  have "\<exists>x w'. transactionS m w = (Inl x, w') \<and> db w' = d" if "db w = d" for w
    using assms that by (fastforce simp: blocked_def)
  then show "preserves (\<lambda>w. db w = d) (thenS (transactionS m) k)" "preserves (\<lambda>w. db w = d) (transactionS m)"
    by (fastforce simp: preserves_def)+
qed

lemma blocked_bodies:
  "blocked (Some u) (executeOverdueTxn iv cid i pen u ex)"
  unfolding executeOverdueTxn_def
  by (auto intro!: blocked_bind blocked_then users_kept_bind users_kept_then users_kept_basic blocked_audit)

lemma frozen_overdue:
  assumes "\<not> user_exists d (Some u)"
  shows "preserves (\<lambda>w. db w = d) (processOverdueInvoice fresh iv u)"
  unfolding processOverdueInvoice_def Let_def using blocked_transaction(1) [OF blocked_bodies assms]
  by (auto intro!: preserves_bind preserves_query preserves_return preserves_require preserves_lift preserves_rate)

lemma frozen_start:
  assumes "\<not> user_exists d (Some ''SYSTEM'')"
  shows "preserves (\<lambda>w. db w = d) (startCollectionMonitoring fresh iv pid)"
proof -
  have "preserves (\<lambda>w. db w = d) (persistCollectionStarted iv fresh i pid)" for i
    unfolding persistCollectionStarted_def
    by (intro preserves_bind preserves_rate blocked_transaction(2) [OF _ assms] blocked_bind blocked_then users_kept_basic blocked_audit)
  then show ?thesis unfolding startCollectionMonitoring_def
    by (auto intro!: preserves_bind preserves_query preserves_return preserves_require)
qed

lemma frozen_default:
  assumes "\<not> user_exists d (Some ''SYSTEM'')"
  shows "preserves (\<lambda>w. db w = d) (defaultSingleCollection cid iv)"
  unfolding defaultSingleCollection_def
  by (intro blocked_transaction(1) [OF _ assms] blocked_bind blocked_then users_kept_basic blocked_audit)

text \<open>
  The jobs sign their audit entries as \<open>SYSTEM\<close>, which is not the identifier of a user. While no such user
  exists, starting the monitoring of a funded invoice, the overdue job, the reminders and the default
  job never change the database: a funded invoice never becomes collecting or overdue by itself.
\<close>

theorem scheduled_jobs_blocked:
  assumes "\<not> user_exists (db w) (Some ''SYSTEM'')"
  shows "db (snd (startCollectionMonitoring fresh iv pid w)) = db w \<and> db (snd (processOverdueInvoices ids w)) = db w
    \<and> db (snd (processReminders ids w)) = db w \<and> db (snd (processDefaulted w)) = db w"
proof -
  note overdue = frozen_overdue [OF assms]
  have "preserves (\<lambda>v. db v = db w) (processOverdueInvoices ids)" unfolding processOverdueInvoices_def
    by (intro preserves_logged preserves_bind preserves_now preserves_query preserves_for overdue)
  moreover have "preserves (\<lambda>v. db v = db w) (processReminders ids)"
    unfolding processReminders_def processSingleReminder_def handleReminderEscalation_def queueNotification_def
    by (intro preserves_logged preserves_bind preserves_then preserves_now preserves_query preserves_for preserves_when preserves_enqueue overdue)
  moreover have "preserves (\<lambda>v. db v = db w) processDefaulted" unfolding processDefaulted_def
    by (intro preserves_logged preserves_bind preserves_query preserves_for frozen_default [OF assms])
  ultimately show ?thesis using frozen_start [OF assms] by (simp add: preserves_def)
qed

section \<open>Resolution and totals\<close>

lemma get_updated:
  "getCollectionById cid d = Some c \<Longrightarrow> (\<And>c. cln_id (f c) = cln_id c) \<Longrightarrow>
     select_one (\<lambda>c. cln_id c = cid) (update_where (\<lambda>c. cln_id c = cid) f (t_collections d)) = Some (f c)"
  using select_one_key by (fastforce simp: getCollectionById_def select_one_update_where)

lemma get_invoice_kept:
  assumes "getInvoiceForCollection iv d = Some i" and "inv_status i \<noteq> expected"
  shows "getInvoiceForCollection iv (set_invoice_status now j new expected d) = Some i"
  using assms by (auto simp: getInvoiceForCollection_def set_invoice_status_def select_one_update_where)

lemma escalate_run:
  assumes "getCollectionById cid (db w) = Some c" and "cln_status c \<noteq> Col_collected" and "level_of c < 2" and "audit_ok (db w) (Some u)"
  shows "\<exists>e. escalateCollection aml cid u reason w =
    (Inr (), w\<lparr>db := (update_collection cid (levelled (clock w) (level_of c + 1)) (db w))\<lparr>t_audit := t_audit (db w) @ [e]\<rparr>\<rparr>)"
proof -
  have "escalateCollection aml cid u reason w =
    (Inr (), w\<lparr>db := (update_collection cid (levelled (clock w) (level_of c + 1)) (db w))\<lparr>t_audit := t_audit (db w) @
       [audit_sys (Some u) ''COLLECTION_ESCALATED'' ''collections'' cid (Some [(''escalationLevel'', JInt (level_of c))])
          [(''escalationLevel'', JInt (level_of c + 1)), (''reason'', JStr reason)]]\<rparr>\<rparr>)"
    using assms by (simp add: escalateCollection_def executeManualEscalationTxn_def setEscalationLevel_def update_collection_def
        levelled_def [abs_def])
  then show ?thesis by blast
qed

lemma resolve_escalated_run:
  assumes "getCollectionById cid (db w) = Some c" and "cln_status c = Col_escalated" and "audit_ok (db w) (Some u)"
    and "list_all chk_buyer_confirmed (t_invoices (db w))"
  shows "\<exists>e. collections_resolveCollectionById cid u w =
    (Inr (), w\<lparr>db := (set_invoice_status (clock w) (cln_invoice c) Inv_collected Inv_overdue
       (repo_resolveCollectionById (clock w) cid (db w)))\<lparr>t_audit := t_audit (db w) @ [e]\<rparr>\<rparr>)"
proof -
  have "collections_resolveCollectionById cid u w =
    (Inr (), w\<lparr>db := (set_invoice_status (clock w) (cln_invoice c) Inv_collected Inv_overdue
       (repo_resolveCollectionById (clock w) cid (db w)))\<lparr>t_audit := t_audit (db w) @
         [audit_sys (Some u) ''COLLECTION_RESOLVED'' ''collections'' cid (Some [(''status'', JStr ''escalated'')]) [(''status'', JStr ''collected'')]]\<rparr>\<rparr>)"
    using assms(1-3) confirmed_not_missing [OF assms(4), of Inv_overdue "cln_invoice c" Inv_collected]
    by (simp add: collections_resolveCollectionById_def executeResolveTxn_def invoice_status_in_def updateInvoiceStatus_run
        confirmation_missing_def set_invoice_status_def repo_resolveCollectionById_def update_collection_def)
  then show ?thesis by blast
qed

text \<open>
  A manual resolution ignores whether the invoice moved with it. A pending collection cannot be resolved
  (its status is not a value the invoice column accepts, so the statement fails), but after a manual
  escalation it can, and then the collection is collected while its invoice is still collecting.
\<close>

theorem manual_resolution_diverges:
  assumes c: "getCollectionById cid (db w) = Some c" "cln_status c = Col_pending" "level_of c = 0"
    and i: "getInvoiceForCollection (cln_invoice c) (db w) = Some i" "inv_status i = Inv_collecting" and ok: "audit_ok (db w) (Some u)"
    and chk: "list_all chk_buyer_confirmed (t_invoices (db w))"
  shows "collections_resolveCollectionById cid u w = (Inl (DbError ''22P02''), w)
    \<and> (\<exists>w1 w2. escalateCollection aml cid u reason w = (Inr (), w1) \<and> collections_resolveCollectionById cid u w1 = (Inr (), w2)
         \<and> map_option cln_status (getCollectionById cid (db w2)) = Some Col_collected
         \<and> map_option inv_status (getInvoiceForCollection (cln_invoice c) (db w2)) = Some Inv_collecting)"
proof
  show "collections_resolveCollectionById cid u w = (Inl (DbError ''22P02''), w)"
    using c by (simp add: collections_resolveCollectionById_def executeResolveTxn_def invoice_status_in_def repo_resolveCollectionById_def
        update_collection_def)
  let ?c1 = "levelled (clock w) 1 c"
  obtain e where e: "escalateCollection aml cid u reason w =
      (Inr (), w\<lparr>db := (update_collection cid (levelled (clock w) 1) (db w))\<lparr>t_audit := t_audit (db w) @ [e]\<rparr>\<rparr>)"
    using escalate_run [OF c(1) _ _ ok] c by fastforce
  define w1 where "w1 = w\<lparr>db := (update_collection cid (levelled (clock w) 1) (db w))\<lparr>t_audit := t_audit (db w) @ [e]\<rparr>\<rparr>"
  have c1: "getCollectionById cid (db w1) = Some ?c1"
    unfolding getCollectionById_def w1_def update_collection_def by (simp add: get_updated [OF c(1)] levelled_def)
  have s1: "cln_status ?c1 = Col_escalated" "cln_invoice ?c1 = cln_invoice c" by (simp_all add: levelled_def)
  have ok1: "audit_ok (db w1) (Some u)" using ok by (simp add: w1_def update_collection_def)
  have i1: "getInvoiceForCollection (cln_invoice c) (db w1) = Some i" using i(1) by (simp add: w1_def update_collection_def getInvoiceForCollection_def)
  obtain e2 where e2: "collections_resolveCollectionById cid u w1 =
      (Inr (), w1\<lparr>db := (set_invoice_status (clock w1) (cln_invoice c) Inv_collected Inv_overdue
         (repo_resolveCollectionById (clock w1) cid (db w1)))\<lparr>t_audit := t_audit (db w1) @ [e2]\<rparr>\<rparr>)" (is "_ = (_, ?w2)")
    using resolve_escalated_run [OF c1 s1(1) ok1] s1(2) chk by (auto simp: w1_def update_collection_def)
  have "map_option cln_status (getCollectionById cid (db ?w2)) = Some Col_collected"
    unfolding getCollectionById_def set_invoice_status_def repo_resolveCollectionById_def update_collection_def by (simp add: get_updated [OF c1])
  moreover have "map_option inv_status (getInvoiceForCollection (cln_invoice c) (db ?w2)) = Some Inv_collecting"
    using get_invoice_kept [OF i1, of Inv_overdue "clock w1" "cln_invoice c" Inv_collected] i(2)
    by (simp add: getInvoiceForCollection_def set_invoice_status_def repo_resolveCollectionById_def update_collection_def)
  ultimately show "\<exists>w1 w2. escalateCollection aml cid u reason w = (Inr (), w1) \<and> collections_resolveCollectionById cid u w1 = (Inr (), w2)
         \<and> map_option cln_status (getCollectionById cid (db w2)) = Some Col_collected
         \<and> map_option inv_status (getInvoiceForCollection (cln_invoice c) (db w2)) = Some Inv_collecting"
    using e e2 unfolding w1_def by blast
qed

text \<open>The payments booked against a collection.\<close>

definition paid_sum :: "string \<Rightarrow> db \<Rightarrow> int" where
  "paid_sum cid d = sum_list (map cp_amount (filter (\<lambda>r. cp_collection r = cid) (t_collection_payments d)))"

text \<open>
  A partial payment recorded against a collection keeps its ledger: the collected total grows by the
  amount and, when it was the sum of the booked payments, it still is. Status and level do not
  change, however large the amount: the collection is not closed by being paid.
\<close>

theorem recordCollectionPayment_ledger:
  assumes run: "recordCollectionPayment cid p u w = (Inr (), w')" and c: "getCollectionById cid (db w) = Some c"
  shows "\<exists>c'. getCollectionById cid (db w') = Some c' \<and> total_of c' = total_of c + fp_amount p \<and> 0 < fp_amount p
    \<and> paid_sum cid (db w') = paid_sum cid (db w) + fp_amount p \<and> (total_of c = paid_sum cid (db w) \<longrightarrow> total_of c' = paid_sum cid (db w'))
    \<and> cln_status c' = cln_status c \<and> cln_escalation_level c' = cln_escalation_level c
    \<and> t_invoices (db w') = t_invoices (db w) \<and> t_buyers (db w') = t_buyers (db w) \<and> jobs w' = jobs w"
proof -
  obtain d1 d2 e where d1: "repo_recordPaymentReceived
      \<lparr>cp_collection = cid, cp_amount = fp_amount p, cp_method = fp_method p, cp_paid_by = fp_paid_by p,
       cp_paid_at = fp_payment_date p, cp_recorded_by = u, cp_reference = fp_reference p, cp_notes = fp_notes p\<rparr> (db w) = Inr d1"
    and d2: "updateCollectionAfterPayment (clock w) cid (fp_amount p) d1 = Inr d2" and w': "w' = w\<lparr>db := d2\<lparr>t_audit := t_audit d2 @ [e]\<rparr>\<rparr>"
    using run c by (auto simp: recordCollectionPayment_def executeCollectionPaymentTxn_def svc_succ nowS_def)
  have pos: "0 < fp_amount p" and d1': "d1 = (db w)\<lparr>t_collection_payments := t_collection_payments (db w) @
      [\<lparr>cp_collection = cid, cp_amount = fp_amount p, cp_method = fp_method p, cp_paid_by = fp_paid_by p,
        cp_paid_at = fp_payment_date p, cp_recorded_by = u, cp_reference = fp_reference p, cp_notes = fp_notes p\<rparr>]\<rparr>"
    using d1 by (auto simp: repo_recordPaymentReceived_def split: if_splits)
  let ?f = "\<lambda>c. c\<lparr>cln_total_collected := Some (total_of c + fp_amount p), cln_last_payment_at := Some (clock w), cln_updated_at := clock w\<rparr>"
  have d2': "d2 = d1\<lparr>t_collections := update_where (\<lambda>c. cln_id c = cid) ?f (t_collections d1)\<rparr>"
    using d2 by (auto simp: updateCollectionAfterPayment_def update_collection_def split: if_splits)
  have "getCollectionById cid (db w') = Some (?f c)"
    unfolding getCollectionById_def w' d2' d1' using get_updated [OF c, of ?f] by simp
  moreover have "paid_sum cid (db w') = paid_sum cid (db w) + fp_amount p" by (simp add: paid_sum_def w' d2' d1')
  ultimately show ?thesis using pos by (intro exI [of _ "?f c"]) (simp add: total_of_def w' d2' d1')
qed

text \<open>
  A payment recorded by invoice overwrites the collected total with its own amount instead of adding to
  it: when partial payments were booked before, the total is less than the booked payments by their sum.
\<close>

theorem recordPaymentReceived_overwrites_total:
  assumes "recordPaymentReceived p w = (Inr (), w')" and c: "getCollectionByInvoiceId (rp_invoice p) (db w) = Some c"
  shows "\<exists>c'. getCollectionById (cln_id c) (db w') = Some c' \<and> cln_status c' = Col_collected \<and> total_of c' = rp_amount p
    \<and> paid_sum (cln_id c) (db w') - total_of c' = paid_sum (cln_id c) (db w)"
proof -
  obtain i where "commitPaymentReceived p i (Some c) w = (Inr (), w')" using assms by (auto simp: recordPaymentReceived_def svc_succ)
  then have d: "db w' = paid_db (clock w) p i (Some c) (db w)" by (rule commit_succ [THEN conjunct2])
  have "c \<in> set (sort_key (\<lambda>c. - cln_created_at c) (filter (\<lambda>c. cln_invoice c = rp_invoice p) (t_collections (db w))))"
    using c unfolding getCollectionByInvoiceId_def by (rule first_row.elims) auto
  then have "getCollectionById (cln_id c) (db w) \<noteq> None" by (auto simp: getCollectionById_def select_one_None)
  then obtain c0 where c0: "getCollectionById (cln_id c) (db w) = Some c0" by blast
  from get_updated [OF c0, of "paid_collection (clock w) p"]
  have "getCollectionById (cln_id c) (db w') = Some (paid_collection (clock w) p c0)"
    by (simp add: getCollectionById_def d paid_db_def paid_collection_def)
  moreover have "paid_sum (cln_id c) (db w') = paid_sum (cln_id c) (db w) + rp_amount p"
    by (simp add: paid_sum_def d paid_db_def payment_of_input_def collection_id_or_empty_def)
  ultimately show ?thesis by (intro exI [of _ "paid_collection (clock w) p c0"]) (simp add: paid_collection_def total_of_def)
qed

text \<open>
  The fallback rate of 0.1 percent is never used: when the configuration cannot be read, the lookup does
  not fail but answers with its defaults, which lack the penalty rate, so the rate is zero and so is every penalty.
\<close>

theorem unreadable_config_waives_penalty:
  assumes "\<not> cfg_readable w" and "cfg_cache w = None"
  shows "\<exists>rate. fst (getDailyPenaltyRate w) = Inr rate \<and> rate \<noteq> FALLBACK_DAILY_PENALTY_RATE \<and> calculatePenalty fv days rate = Inr 0"
proof -
  have "config_value w ''collections_daily_penalty_rate'' = ''0''"
    using assms by (simp add: config_value_def current_config_def loaded_config_def DEFAULTS_def)
  then have "fst (getDailyPenaltyRate w) = Inr ''0''" by (simp add: getDailyPenaltyRate_def catchS_def)
  moreover have "calculatePenalty fv days ''0'' = Inr 0"
  proof -
    have "js_BigInt_text ''0'' = Inr 0" "js_BigInt_text ''000000'' = Inr 0"
      by (simp_all add: js_BigInt_digits digits_val_def digit_val_def)
    then show ?thesis by (simp add: calculatePenalty_def slice0_def padEnd_def numeral_eq_Suc bigint_div_def)
  qed
  ultimately show ?thesis by (simp add: FALLBACK_DAILY_PENALTY_RATE_def)
qed

section \<open>Concrete collections\<close>

definition col_db :: "collection_status \<Rightarrow> invoice_status \<Rightarrow> int \<Rightarrow> db" where
  "col_db cst ist used = blank_db\<lparr>t_invoices := [sample_invoice ist], t_collections := [sample_collection cst],
     t_suppliers := [sample_supplier], t_buyers := [sample_buyer\<lparr>buy_used_limit := used\<rparr>], t_users := [sample_user ''u'' None]\<rparr>"

definition col_world :: "collection_status \<Rightarrow> invoice_status \<Rightarrow> int \<Rightarrow> world" where
  "col_world cst ist used = world_of (col_db cst ist used)"

definition col_payment :: record_payment_input where
  "col_payment = \<lparr>rp_invoice = ''inv'', rp_amount = 1000000, rp_payment_date = 0, rp_received_by = ''u'', rp_method = ''cash'',
     rp_paid_by = ''Buyer'', rp_reference = None, rp_notes = None\<rparr>"

definition col_partial :: frontend_payment_input where
  "col_partial = \<lparr>fp_amount = 400000, fp_method = ''cash'', fp_reference = None, fp_paid_by = ''Buyer'', fp_payment_date = 0, fp_notes = None\<rparr>"

lemmas col_defs = col_world_def col_db_def col_payment_def col_partial_def sample_defs

lemma col_lookups:
  "getInvoiceForCollection ''inv'' (db (col_world cst ist used)) = Some (sample_invoice ist)"
  "getCollectionById ''col'' (db (col_world cst ist used)) = Some (sample_collection cst)"
  "getCollectionByInvoiceId ''inv'' (db (col_world cst ist used)) = Some (sample_collection cst)"
  "audit_ok (db (col_world cst ist used)) (Some ''u'')" "\<not> user_exists (db (col_world cst ist used)) (Some ''SYSTEM'')"
  "redis_up (col_world cst ist used)"
  by (simp_all add: col_defs getInvoiceForCollection_def getCollectionById_def getCollectionByInvoiceId_def)

lemma col_check:
  "\<not> before_confirmation ist \<Longrightarrow>
     payment_check col_payment (sample_invoice ist) (Some (sample_collection cst)) (db (col_world cst ist 2000000)) = None"
  by (simp add: payment_check_def confirmation_missing_def chk_buyer_confirmed_def sample_confirmation_def col_defs all_bigint_def COLLECTION_PAYMENT_METHODS_def collection_id_or_empty_def)

lemma col_commit:
  "\<not> before_confirmation ist \<Longrightarrow>
     \<exists>w'. commitPaymentReceived col_payment (sample_invoice ist) (Some (sample_collection cst)) (col_world cst ist 2000000) = (Inr (), w')"
  using dispatch_up by (simp add: commitPaymentReceived_def payment_txn_run col_check col_lookups)

lemma col_paid: "\<exists>w'. recordPaymentReceived col_payment (col_world Col_overdue Inv_overdue 2000000) = (Inr (), w')"
proof -
  have "rp_invoice col_payment = ''inv''" "inv_status (sample_invoice Inv_overdue) \<noteq> Inv_collected"
    by (simp_all add: col_payment_def sample_invoice_def)
  then show ?thesis using col_commit [of Inv_overdue Col_overdue] by (simp add: recordPaymentReceived_def col_lookups)
qed

theorem concurrent_payment_refused_witness:
  "\<exists>w1. commitPaymentReceived col_payment (sample_invoice Inv_overdue) (Some (sample_collection Col_overdue))
          (col_world Col_overdue Inv_overdue 2000000) = (Inr (), w1)
     \<and> commitPaymentReceived (col_payment\<lparr>rp_amount := 5\<rparr>) (sample_invoice Inv_overdue) (Some (sample_collection Col_overdue)) w1
          = (Inl (BusinessRuleError ''ALREADY_COLLECTED''), w1)"
proof -
  obtain w1 where w1: "commitPaymentReceived col_payment (sample_invoice Inv_overdue) (Some (sample_collection Col_overdue))
      (col_world Col_overdue Inv_overdue 2000000) = (Inr (), w1)" using col_commit [of Inv_overdue] by auto
  have "inv_status (sample_invoice Inv_overdue) \<noteq> Inv_collected" by (simp add: sample_invoice_def)
  from concurrent_payment_refused [OF w1 this refl] w1 show ?thesis by auto
qed

theorem recordPaymentReceived_once_witness:
  "\<exists>w'. recordPaymentReceived col_payment (col_world Col_overdue Inv_overdue 2000000) = (Inr (), w')
     \<and> recordPaymentReceived col_payment w' = (Inl (BusinessRuleError ''ALREADY_COLLECTED''), w')"
  using col_paid recordPaymentReceived_once by blast

theorem recordPaymentReceived_any_amount_witness:
  "\<exists>w1. recordPaymentReceived (col_payment\<lparr>rp_amount := 1\<rparr>) (col_world Col_overdue Inv_overdue 2000000) = (Inr (), w1)"
  using col_paid recordPaymentReceived_any_amount [OF _ col_lookups(6)] by blast

theorem recordPaymentReceived_needs_used_limit_witness:
  "\<exists>e. recordPaymentReceived col_payment (col_world Col_overdue Inv_overdue 0) = (Inl e, col_world Col_overdue Inv_overdue 0)"
proof (rule recordPaymentReceived_needs_used_limit [where b = "sample_buyer\<lparr>buy_used_limit := 0\<rparr>"])
  show "getInvoiceForCollection (rp_invoice col_payment) (db (col_world Col_overdue Inv_overdue 0)) = Some (sample_invoice Inv_overdue)"
    using col_lookups(1) by (simp add: col_payment_def)
qed (simp_all add: col_defs)

theorem recordPaymentReceived_overwrites_total_witness:
  "\<exists>w' c'. recordPaymentReceived col_payment (col_world Col_overdue Inv_overdue 2000000) = (Inr (), w')
     \<and> getCollectionById ''col'' (db w') = Some c' \<and> total_of c' = 1000000"
proof -
  obtain w' where w': "recordPaymentReceived col_payment (col_world Col_overdue Inv_overdue 2000000) = (Inr (), w')" using col_paid by blast
  have "getCollectionByInvoiceId (rp_invoice col_payment) (db (col_world Col_overdue Inv_overdue 2000000)) = Some (sample_collection Col_overdue)"
    using col_lookups(3) by (simp add: col_payment_def)
  from recordPaymentReceived_overwrites_total [OF w' this] w' show ?thesis by (auto simp: sample_collection_def col_payment_def)
qed

lemma col_partial_run:
  "\<exists>w'. recordCollectionPayment ''col'' col_partial ''u'' (col_world Col_pending Inv_collecting 0) = (Inr (), w')"
  by (simp add: recordCollectionPayment_def executeCollectionPaymentTxn_def col_defs getCollectionById_def repo_recordPaymentReceived_def
      updateCollectionAfterPayment_def all_bigint_def total_of_def COLLECTION_PAYMENT_METHODS_def update_collection_def createAuditEntry_def
      insert_audit_def audit_sys_def)

theorem recordCollectionPayment_ledger_witness:
  "\<exists>w' c'. recordCollectionPayment ''col'' col_partial ''u'' (col_world Col_pending Inv_collecting 0) = (Inr (), w')
     \<and> getCollectionById ''col'' (db w') = Some c' \<and> total_of c' = 400000 \<and> cln_status c' = Col_pending"
proof -
  obtain w' where w': "recordCollectionPayment ''col'' col_partial ''u'' (col_world Col_pending Inv_collecting 0) = (Inr (), w')"
    using col_partial_run by blast
  from recordCollectionPayment_ledger [OF w' col_lookups(2)] w' show ?thesis
    by (auto simp: sample_collection_def total_of_def col_partial_def)
qed

theorem collections_invariant_witness:
  "list_all level_ok (t_collections (db (snd (recordPaymentReceived col_payment (col_world Col_overdue Inv_overdue 2000000)))))"
proof -
  have "collection_step\<^sup>*\<^sup>* (col_world Col_overdue Inv_overdue 2000000) (snd (recordPaymentReceived col_payment (col_world Col_overdue Inv_overdue 2000000)))"
    by (rule r_into_rtranclp) (rule collection_step.payment)
  moreover have "list_all level_ok (t_collections (db (col_world Col_overdue Inv_overdue 2000000)))"
    "list_all buyer_ok (t_buyers (db (col_world Col_overdue Inv_overdue 2000000)))"
    by (simp_all add: col_defs level_ok_def buyer_ok_def level_of_def total_of_def)
  ultimately show ?thesis using collections_invariant by blast
qed

theorem defaults_never_scored_witness:
  "\<not> tr_has_defaults (getSupplierTrackRecord ''sup'' (db (snd (processDefaulted (col_world Col_escalated Inv_overdue 0)))))"
proof -
  have "collection_step\<^sup>*\<^sup>* (col_world Col_escalated Inv_overdue 0) (snd (processDefaulted (col_world Col_escalated Inv_overdue 0)))"
    by (rule r_into_rtranclp) (rule collection_step.defaults)
  moreover have "list_all (\<lambda>c. cln_status c \<noteq> Col_defaulted) (t_collections (db (col_world Col_escalated Inv_overdue 0)))"
    by (simp add: col_defs)
  ultimately show ?thesis using defaults_never_scored by blast
qed

definition no_tools :: doc_tools where
  "no_tools = \<lparr>generateDemandLetter = (\<lambda>_. Inr ''pdf''), encrypt = (\<lambda>s. s), decrypt = Inr, hashDocument = (\<lambda>s. s)\<rparr>"

theorem escalation_never_advances_witness:
  "processEscalations no_tools 100000000 (\<lambda>s. s) (snd (processOverdueInvoice ''c2'' ''inv'' ''u'' (col_world Col_pending Inv_collecting 0)))
     = (Inr (), snd (processOverdueInvoice ''c2'' ''inv'' ''u'' (col_world Col_pending Inv_collecting 0)))"
proof -
  have "collection_step\<^sup>*\<^sup>* (col_world Col_pending Inv_collecting 0) (snd (processOverdueInvoice ''c2'' ''inv'' ''u'' (col_world Col_pending Inv_collecting 0)))"
    by (rule r_into_rtranclp) (rule collection_step.overdue)
  moreover have "list_all young (t_collections (db (col_world Col_pending Inv_collecting 0)))" by (simp add: col_defs young_def level_of_def)
  ultimately show ?thesis using escalation_never_advances by blast
qed

theorem scheduled_jobs_blocked_witness:
  "db (snd (startCollectionMonitoring ''c2'' ''inv'' ''p'' (col_world Col_pending Inv_funded 0))) = db (col_world Col_pending Inv_funded 0)"
  using scheduled_jobs_blocked [OF col_lookups(5)] by blast

theorem manual_resolution_diverges_witness:
  "collections_resolveCollectionById ''col'' ''u'' (col_world Col_pending Inv_collecting 0)
     = (Inl (DbError ''22P02''), col_world Col_pending Inv_collecting 0)"
proof -
  have "cln_status (sample_collection Col_pending) = Col_pending" "level_of (sample_collection Col_pending) = 0"
    "cln_invoice (sample_collection Col_pending) = ''inv''" "inv_status (sample_invoice Inv_collecting) = Inv_collecting"
    "list_all chk_buyer_confirmed (t_invoices (db (col_world Col_pending Inv_collecting 0)))"
    by (simp_all add: sample_collection_def sample_invoice_def level_of_def chk_buyer_confirmed_def sample_confirmation_def col_world_def
        col_db_def world_of_def)
  then show ?thesis
    using manual_resolution_diverges [OF col_lookups(2) [of Col_pending Inv_collecting 0]] col_lookups(1,4) by simp
qed

theorem unreadable_config_waives_penalty_witness:
  "\<exists>rate. fst (getDailyPenaltyRate ((col_world Col_pending Inv_collecting 0)\<lparr>cfg_readable := False\<rparr>)) = Inr rate \<and> calculatePenalty 1000000 30 rate = Inr 0"
  using unreadable_config_waives_penalty [of "(col_world Col_pending Inv_collecting 0)\<lparr>cfg_readable := False\<rparr>"]
  by (auto simp: col_world_def world_of_def)

end
