(* ===== verification/Crypto.thy ===== *)
theory Crypto
  imports RIS_Database "HOL-Library.Word"
begin

text \<open>
  \<open>src/src/shared/crypto.ts\<close>: the versioned text format of encrypted values, with the parts of Node's \<open>Buffer\<close> it
  and the document store rest on (hexadecimal and base64 text of bytes). AES-256-GCM itself is a pair of
  parameters, what \<open>createCipheriv\<close> and \<open>createDecipheriv\<close> compute, and \<open>ENCRYPTION_KEY\<close> is the value of the
  environment variable.
\<close>

type_synonym byte = "8 word"

section \<open>Hexadecimal text\<close>

definition hex_digit :: "nat \<Rightarrow> char" where
  "hex_digit d = char_of (if d < 10 then 48 + d else 87 + d)"

definition hex_value :: "char \<Rightarrow> nat option" where
  "hex_value c =
     (let n = of_char c :: nat
      in if 48 \<le> n \<and> n \<le> 57 then Some (n - 48)
         else if 97 \<le> n \<and> n \<le> 102 then Some (n - 87)
         else if 65 \<le> n \<and> n \<le> 70 then Some (n - 55) else None)"

text \<open>\<open>buffer.toString('hex')\<close>.\<close>

fun to_hex :: "byte list \<Rightarrow> string" where
  "to_hex [] = []"
| "to_hex (b # bs) = hex_digit (unat b div 16) # hex_digit (unat b mod 16) # to_hex bs"

text \<open>\<open>Buffer.from(s, 'hex')\<close>: the bytes up to the first pair that is not hexadecimal.\<close>

fun from_hex :: "string \<Rightarrow> byte list" where
  "from_hex (c # d # s) =
     (case (hex_value c, hex_value d) of
        (Some h, Some l) \<Rightarrow> of_nat (16 * h + l) # from_hex s
      | _ \<Rightarrow> [])"
| "from_hex _ = []"

lemma of_char_hex_digit: "d < 16 \<Longrightarrow> of_char (hex_digit d) = (if d < 10 then 48 + d else 87 + d)"
  by (simp add: hex_digit_def)

lemma hex_value_digit [simp]: "d < 16 \<Longrightarrow> hex_value (hex_digit d) = Some d"
  by (simp add: hex_value_def of_char_hex_digit)

lemma unat_byte_lt: "unat (b :: byte) < 256"
proof -
  have "unat b < 2 ^ LENGTH(8)" by (rule unsigned_less)
  then show ?thesis by simp
qed

lemma from_hex_to_hex [simp]: "from_hex (to_hex bs) = bs"
proof (induction bs)
  case (Cons b bs)
  have "unat b div 16 < 16" using unat_byte_lt [of b] by simp
  moreover have "16 * (unat b div 16) + unat b mod 16 = unat b" by simp
  ultimately show ?case using Cons by simp
qed simp

lemma hex_digit_not_colon: "d < 16 \<Longrightarrow> hex_digit d \<noteq> CHR '':''"
  using of_char_hex_digit [of d] by (auto split: if_splits)

section \<open>Base64 text\<close>

text \<open>The alphabet \<open>A-Z a-z 0-9 + /\<close>.\<close>

definition base64_char :: "nat \<Rightarrow> char" where
  "base64_char v =
     char_of (if v < 26 then v + 65 else if v < 52 then v + 71 else if v < 62 then v - 4
              else if v = 62 then 43 else 47)"

text \<open>Decoding accepts the URL-safe alphabet too and skips every other character.\<close>

definition base64_value :: "char \<Rightarrow> nat option" where
  "base64_value c =
     (let n = of_char c :: nat
      in if 65 \<le> n \<and> n \<le> 90 then Some (n - 65)
         else if 97 \<le> n \<and> n \<le> 122 then Some (n - 71)
         else if 48 \<le> n \<and> n \<le> 57 then Some (n + 4)
         else if n = 43 \<or> n = 45 then Some 62
         else if n = 47 \<or> n = 95 then Some 63 else None)"

text \<open>\<open>buffer.toString('base64')\<close>: three bytes are four characters, the rest is padded.\<close>

fun to_base64 :: "byte list \<Rightarrow> string" where
  "to_base64 (a # b # c # bs) =
     base64_char (unat a div 4) # base64_char (unat a mod 4 * 16 + unat b div 16)
     # base64_char (unat b mod 16 * 4 + unat c div 64) # base64_char (unat c mod 64) # to_base64 bs"
| "to_base64 [a, b] =
     [base64_char (unat a div 4), base64_char (unat a mod 4 * 16 + unat b div 16),
      base64_char (unat b mod 16 * 4), CHR ''='']"
| "to_base64 [a] = [base64_char (unat a div 4), base64_char (unat a mod 4 * 16), CHR ''='', CHR ''='']"
| "to_base64 [] = []"

fun sextets :: "nat list \<Rightarrow> byte list" where
  "sextets (w # x # y # z # vs) =
     of_nat (w * 4 + x div 16) # of_nat (x mod 16 * 16 + y div 4) # of_nat (y mod 4 * 64 + z) # sextets vs"
| "sextets [w, x, y] = [of_nat (w * 4 + x div 16), of_nat (x mod 16 * 16 + y div 4)]"
| "sextets [w, x] = [of_nat (w * 4 + x div 16)]"
| "sextets _ = []"

text \<open>\<open>Buffer.from(s, 'base64')\<close>.\<close>

definition from_base64 :: "string \<Rightarrow> byte list" where
  "from_base64 s = sextets (List.map_filter base64_value (takeWhile (\<lambda>c. c \<noteq> CHR ''='') s))"

lemma of_char_base64: "v < 64 \<Longrightarrow> of_char (base64_char v) =
     (if v < 26 then v + 65 else if v < 52 then v + 71 else if v < 62 then v - 4 else if v = 62 then 43 else 47)"
  by (simp add: base64_char_def)

lemma base64_char_value [simp]:
  assumes "v < 64"
  shows "base64_value (base64_char v) = Some v" "base64_char v \<noteq> CHR ''=''"
proof -
  show "base64_value (base64_char v) = Some v"
    using assms by (auto simp: base64_value_def of_char_base64 Let_def)
  show "base64_char v \<noteq> CHR ''=''"
    using of_char_base64 [OF assms] by (auto split: if_splits)
qed

lemma sextet_bounds [simp]:
  "unat (a :: byte) div 4 < 64" "unat (a :: byte) mod 4 * 16 + unat (b :: byte) div 16 < 64"
  "unat (b :: byte) mod 16 * 4 + unat (c :: byte) div 64 < 64" "unat (c :: byte) mod 64 < 64"
  "unat (a :: byte) mod 4 * 16 < 64" "unat (b :: byte) mod 16 * 4 < 64"
  using unat_byte_lt [of a] unat_byte_lt [of b] unat_byte_lt [of c] by linarith+

lemma sextet_join:
  fixes a b c :: nat
  assumes "b < 256" "c < 256"
  shows "a div 4 * 4 + (a mod 4 * 16 + b div 16) div 16 = a"
    "(a mod 4 * 16 + b div 16) mod 16 * 16 + (b mod 16 * 4 + c div 64) div 4 = b"
    "(b mod 16 * 4 + c div 64) mod 4 * 64 + c mod 64 = c"
proof -
  have b16: "b div 16 < 16" and c64: "c div 64 < 4" using assms by simp_all
  show "a div 4 * 4 + (a mod 4 * 16 + b div 16) div 16 = a" using b16 by simp
  have "(b mod 16 * 4 + c div 64) div 4 = b mod 16" using c64 by simp
  moreover have "(a mod 4 * 16 + b div 16) mod 16 = b div 16" using b16 by simp
  ultimately show "(a mod 4 * 16 + b div 16) mod 16 * 16 + (b mod 16 * 4 + c div 64) div 4 = b" by simp
  have "(b mod 16 * 4 + c div 64) mod 4 = c div 64" using c64 by simp
  then show "(b mod 16 * 4 + c div 64) mod 4 * 64 + c mod 64 = c" by simp
qed

lemma from_base64_to_base64: "from_base64 (to_base64 bs) = bs"
proof (induction bs rule: to_base64.induct)
  case (1 a b c bs)
  have "from_base64 (to_base64 (a # b # c # bs)) =
    of_nat (unat a div 4 * 4 + (unat a mod 4 * 16 + unat b div 16) div 16)
    # of_nat ((unat a mod 4 * 16 + unat b div 16) mod 16 * 16 + (unat b mod 16 * 4 + unat c div 64) div 4)
    # of_nat ((unat b mod 16 * 4 + unat c div 64) mod 4 * 64 + unat c mod 64) # from_base64 (to_base64 bs)"
    by (simp add: from_base64_def List.map_filter_simps)
  then show ?case unfolding sextet_join [OF unat_byte_lt unat_byte_lt] by (simp add: 1)
next
  case (2 a b)
  have "from_base64 (to_base64 [a, b]) =
    [of_nat (unat a div 4 * 4 + (unat a mod 4 * 16 + unat b div 16) div 16),
     of_nat ((unat a mod 4 * 16 + unat b div 16) mod 16 * 16 + (unat b mod 16 * 4 + unat (0 :: byte) div 64) div 4)]"
    by (simp add: from_base64_def List.map_filter_simps)
  then show ?case unfolding sextet_join [OF unat_byte_lt unat_byte_lt] by simp
next
  case (3 a)
  have "from_base64 (to_base64 [a]) = [of_nat (unat a div 4 * 4 + (unat a mod 4 * 16 + unat (0 :: byte) div 16) div 16)]"
    by (simp add: from_base64_def List.map_filter_simps)
  then show ?case unfolding sextet_join [OF unat_byte_lt unat_byte_lt] by simp
qed (simp add: from_base64_def List.map_filter_simps)

section \<open>Strings\<close>

text \<open>\<open>s.split(c)\<close> for a one-character separator, and \<open>parseInt(s, 10)\<close> (\<open>None\<close> is NaN).\<close>

fun js_split :: "char \<Rightarrow> string \<Rightarrow> string list" where
  "js_split c [] = [[]]"
| "js_split c (x # s) =
     (if x = c then [] # js_split c s
      else case js_split c s of [] \<Rightarrow> [[x]] | p # ps \<Rightarrow> (x # p) # ps)"

definition js_parseInt :: "string \<Rightarrow> int option" where
  "js_parseInt s =
     (let (neg, r) = split_sign (dropWhile is_space s); ds = takeWhile is_digit r
      in if ds = [] then None else Some (if neg then - int (digits_val ds) else int (digits_val ds)))"

lemma js_split_no_sep [simp]: "c \<notin> set s \<Longrightarrow> js_split c s = [s]"
  by (induction s) auto

lemma js_split_first [simp]: "c \<notin> set s \<Longrightarrow> js_split c (s @ c # t) = s # js_split c t"
  by (induction s) auto

lemma colon_not_hex [simp]: "CHR '':'' \<notin> set (to_hex bs)"
proof (induction bs)
  case (Cons b bs)
  have "unat b div 16 < 16" using unat_byte_lt [of b] by simp
  then show ?case using Cons hex_digit_not_colon [of "unat b div 16"] hex_digit_not_colon [of "unat b mod 16"] by force
qed simp

section \<open>Encrypted text\<close>

text \<open>
  The cipher of a key, an initialisation vector and a plain text: the ciphertext and its authentication tag; the
  decipher of a key, a vector, a tag and a ciphertext.
\<close>

type_synonym cipher = "byte list \<Rightarrow> byte list \<Rightarrow> string \<Rightarrow> ris_error + byte list \<times> byte list"
type_synonym decipher = "byte list \<Rightarrow> byte list \<Rightarrow> byte list \<Rightarrow> byte list \<Rightarrow> ris_error + string"

definition IV_LENGTH :: nat where "IV_LENGTH = 12"
definition AUTH_TAG_LENGTH :: nat where "AUTH_TAG_LENGTH = 16"
definition LEGACY_IV_LENGTH :: nat where "LEGACY_IV_LENGTH = 16"
definition CURRENT_KEY_VERSION :: int where "CURRENT_KEY_VERSION = 1"

definition getKey :: "string option \<Rightarrow> ris_error + byte list" where
  "getKey env =
     (case env of
        None \<Rightarrow> Inl (JsError ''ENCRYPTION_KEY'')
      | Some keyHex \<Rightarrow> if length keyHex \<noteq> 64 then Inl (JsError ''ENCRYPTION_KEY'') else Inr (from_hex keyHex))"

text \<open>The twelve bytes of \<open>crypto.randomBytes(IV_LENGTH)\<close> are an argument.\<close>

definition encrypt :: "cipher \<Rightarrow> string option \<Rightarrow> byte list \<Rightarrow> string \<Rightarrow> ris_error + string" where
  "encrypt cipher env iv plaintext =
     bindE (getKey env) (\<lambda>key.
     bindE (cipher key iv plaintext) (\<lambda>(encrypted, authTag).
     Inr (''v'' @ show_int CURRENT_KEY_VERSION @ '':'' @ to_hex iv @ '':'' @ to_hex authTag @ '':'' @ to_hex encrypted)))"

record encrypted_parts =
  ep_key :: "byte list"
  ep_iv :: "byte list"
  ep_authTag :: "byte list"
  ep_ciphertext :: string

definition validateBuffers :: "byte list \<Rightarrow> byte list \<Rightarrow> ris_error + unit" where
  "validateBuffers iv authTag =
     (if length iv \<noteq> IV_LENGTH \<and> length iv \<noteq> LEGACY_IV_LENGTH then Inl (JsError ''Invalid IV length'')
      else if length authTag \<noteq> AUTH_TAG_LENGTH then Inl (JsError ''Invalid auth tag length'')
      else Inr ())"

definition parseVersionedText :: "string option \<Rightarrow> string list \<Rightarrow> ris_error + encrypted_parts" where
  "parseVersionedText env parts =
     (if js_parseInt (drop 1 (parts ! 0)) \<noteq> Some 1 then Inl (JsError ''Unsupported encryption version'')
      else bindE (getKey env) (\<lambda>key.
           let iv = from_hex (parts ! 1); authTag = from_hex (parts ! 2)
           in bindE (validateBuffers iv authTag) (\<lambda>_.
              Inr \<lparr>ep_key = key, ep_iv = iv, ep_authTag = authTag, ep_ciphertext = parts ! 3\<rparr>)))"

definition parseLegacyText :: "string option \<Rightarrow> string list \<Rightarrow> ris_error + encrypted_parts" where
  "parseLegacyText env parts =
     (if length parts \<noteq> 3 then Inl (JsError ''Invalid encrypted text format'')
      else bindE (getKey env) (\<lambda>key.
           let iv = from_hex (parts ! 0); authTag = from_hex (parts ! 1)
           in bindE (validateBuffers iv authTag) (\<lambda>_.
              Inr \<lparr>ep_key = key, ep_iv = iv, ep_authTag = authTag, ep_ciphertext = parts ! 2\<rparr>)))"

definition parseEncryptedText :: "string option \<Rightarrow> string \<Rightarrow> ris_error + encrypted_parts" where
  "parseEncryptedText env text =
     (let parts = js_split (CHR '':'') text;
          hasVersionPrefix = take 1 (parts ! 0) = ''v'' \<and> length parts = 4
      in if hasVersionPrefix then parseVersionedText env parts else parseLegacyText env parts)"

definition decrypt :: "decipher \<Rightarrow> string option \<Rightarrow> string \<Rightarrow> ris_error + string" where
  "decrypt decipher env encryptedText =
     bindE (parseEncryptedText env encryptedText) (\<lambda>p.
       decipher (ep_key p) (ep_iv p) (ep_authTag p) (from_hex (ep_ciphertext p)))"

text \<open>
  What the code relies on of AES-256-GCM: with a 32-byte key it encrypts under every vector of one of the two lengths, the
  tag has 16 bytes, and deciphering with the same key, vector and tag gives the plain text back.
\<close>

definition aead :: "cipher \<Rightarrow> decipher \<Rightarrow> bool" where
  "aead cipher decipher \<longleftrightarrow>
     (\<forall>key iv p. length key = 32 \<longrightarrow> length iv \<in> {IV_LENGTH, LEGACY_IV_LENGTH} \<longrightarrow>
        (\<exists>c t. cipher key iv p = Inr (c, t) \<and> length t = AUTH_TAG_LENGTH \<and> decipher key iv t c = Inr p))"

text \<open>The key of the environment is usable: 64 characters, all of them hexadecimal.\<close>

definition key_ok :: "string option \<Rightarrow> bool" where
  "key_ok env \<longleftrightarrow> (\<exists>bs. env = Some (to_hex bs) \<and> length bs = 32)"

lemma length_to_hex [simp]: "length (to_hex bs) = 2 * length bs"
  by (induction bs) auto

lemma getKey_ok: "key_ok env \<Longrightarrow> \<exists>key. getKey env = Inr key \<and> length key = 32"
  by (auto simp: key_ok_def getKey_def)

lemma show_version [simp]: "show_int CURRENT_KEY_VERSION = ''1''"
  by (simp add: CURRENT_KEY_VERSION_def show_int_def digit_char_def show_nat.simps [of "Suc 0"] char_of_def bit_Suc_0_iff)

lemma parseInt_version [simp]: "js_parseInt ''1'' = Some 1"
  by (simp add: js_parseInt_def is_space_def is_digit_def digits_val_def digit_val_def)

lemma validateBuffers_ok:
  "length iv \<in> {IV_LENGTH, LEGACY_IV_LENGTH} \<Longrightarrow> length t = AUTH_TAG_LENGTH \<Longrightarrow> validateBuffers iv t = Inr ()"
  by (auto simp: validateBuffers_def)

lemma decrypt_versioned:
  assumes "getKey env = Inr key" and "length iv \<in> {IV_LENGTH, LEGACY_IV_LENGTH}" and "length t = AUTH_TAG_LENGTH"
  shows "decrypt decipher env (''v1:'' @ to_hex iv @ '':'' @ to_hex t @ '':'' @ to_hex c) = decipher key iv t c"
  using assms validateBuffers_ok [OF assms(2,3)]
  by (simp add: decrypt_def parseEncryptedText_def parseVersionedText_def)

lemma decrypt_legacy:
  assumes "getKey env = Inr key" and "length iv \<in> {IV_LENGTH, LEGACY_IV_LENGTH}" and "length t = AUTH_TAG_LENGTH"
  shows "decrypt decipher env (to_hex iv @ '':'' @ to_hex t @ '':'' @ to_hex c) = decipher key iv t c"
  using assms validateBuffers_ok [OF assms(2,3)]
  by (simp add: decrypt_def parseEncryptedText_def parseLegacyText_def)

lemma encrypt_decrypts:
  assumes "aead cipher decipher" and "key_ok env" and "length iv = IV_LENGTH"
  shows "\<exists>s. encrypt cipher env iv p = Inr s \<and> decrypt decipher env s = Inr p
     \<and> decrypt decipher env (drop 3 s) = Inr p"
proof -
  obtain key where key: "getKey env = Inr key" "length key = 32" using getKey_ok [OF assms(2)] by blast
  obtain c t where ct: "cipher key iv p = Inr (c, t)" "length t = AUTH_TAG_LENGTH" "decipher key iv t c = Inr p"
    using assms(1,3) key(2) unfolding aead_def by blast
  let ?s = "''v1:'' @ to_hex iv @ '':'' @ to_hex t @ '':'' @ to_hex c"
  have "encrypt cipher env iv p = Inr ?s" using key ct by (simp add: encrypt_def)
  moreover have "decrypt decipher env ?s = Inr p"
    using decrypt_versioned [OF key(1) _ ct(2)] assms(3) ct(3) by simp
  moreover have "decrypt decipher env (drop 3 ?s) = Inr p"
    using decrypt_legacy [OF key(1) _ ct(2)] assms(3) ct(3) by simp
  ultimately show ?thesis by blast
qed

text \<open>
  what \<open>encrypt\<close> returns under a usable key, \<open>decrypt\<close> reads back as the plain text, and so it does with the text stripped of
  its version prefix, the format of values stored before versions were introduced. This rests on the
  cipher only through its contract.
\<close>

theorem encrypt_roundtrip:
  assumes "aead cipher decipher" and "key_ok env" and "length iv = IV_LENGTH"
  shows "\<exists>s. encrypt cipher env iv p = Inr s \<and> decrypt decipher env s = Inr p
     \<and> decrypt decipher env (drop 3 s) = Inr p"
  using assms by (rule encrypt_decrypts)

text \<open>A cipher that satisfies the contract: the bytes of the text themselves.\<close>

definition plain_cipher :: cipher where
  "plain_cipher key iv p = Inr (map (\<lambda>c. of_nat (of_char c :: nat)) p, replicate 16 0)"

definition plain_decipher :: decipher where
  "plain_decipher key iv t c = Inr (map (\<lambda>b. char_of (unat b)) c)"

definition sample_key :: "string option" where
  "sample_key = Some (to_hex (replicate 32 0))"

lemma unat_of_char: "unat (of_nat (of_char (c :: char) :: nat) :: byte) = of_char c"
  by (simp add: unsigned_of_nat take_bit_eq_mod)

lemma plain_aead: "aead plain_cipher plain_decipher"
  by (simp add: aead_def plain_cipher_def plain_decipher_def AUTH_TAG_LENGTH_def comp_def unat_of_char)

lemma sample_key_ok: "key_ok sample_key"
  unfolding key_ok_def sample_key_def by (intro exI [of _ "replicate 32 0"]) simp

theorem encrypt_roundtrip_witness:
  "\<exists>s. encrypt plain_cipher sample_key (replicate 12 0) ''0772123456'' = Inr s
     \<and> decrypt plain_decipher sample_key s = Inr ''0772123456''"
  using encrypt_roundtrip [OF plain_aead sample_key_ok, of "replicate 12 0" "''0772123456''"]
  by (auto simp: IV_LENGTH_def)

end
