(* ===== verification/Invoices.thy ===== *)
theory Invoices
  imports Calendar Crypto
begin

text \<open>
  \<open>src/src/services/invoices\<close>: submission through the validation chain, the money-laundering checks on
  structuring and velocity, drafts and their promotion, withdrawal, assignment, capture of bank details, the
  list and the audit timeline. \<open>uuidv4\<close> results and initialisation vectors are arguments; the limits read from the
  environment are a record. A due date is given as an instant; its UTC day is what the \<open>DATE\<close> column stores.
\<close>

section \<open>Data\<close>

record invoice_env =
  ie_min_tenor :: int
  ie_max_tenor :: int
  ie_aml_threshold :: int

text \<open>The values when the environment sets none.\<close>

definition default_env :: invoice_env where
  "default_env = \<lparr>ie_min_tenor = 7, ie_max_tenor = 90, ie_aml_threshold = 100000000\<rparr>"

definition ASSESSMENT_SLA_WORKING_DAYS :: int where "ASSESSMENT_SLA_WORKING_DAYS = 7"
definition COOLING_OFF_HOURS :: int where "COOLING_OFF_HOURS = 48"

record invoice_submission =
  is_invoice_number :: string
  is_buyer_id :: string
  is_face_value :: js_number
  is_due_date :: int
  is_description :: string
  is_ura_efris_ref :: string
  is_funding_timeline_days :: "int option"

text \<open>\<open>Partial<InvoiceSubmission>\<close> as the update of a draft uses it, with the keys in the order of the body.\<close>

record draft_update =
  du_keys :: "string list"
  du_face_value :: "js_number option"
  du_due_date :: "int option"
  du_description :: "string option"

record validation_result =
  vr_step :: string
  vr_passed :: bool
  vr_errorCode :: "string option"
  vr_details :: "json_obj option"

definition check_result :: "string \<Rightarrow> bool \<Rightarrow> string \<Rightarrow> json_obj option \<Rightarrow> validation_result" where
  "check_result step passed code details =
     \<lparr>vr_step = step, vr_passed = passed, vr_errorCode = (if passed then None else Some code), vr_details = details\<rparr>"

record invoice_detail =
  id_id :: string
  id_invoice_number :: string
  id_supplier_id :: string
  id_buyer_id :: string
  id_face_value :: js_number
  id_due_date :: int
  id_description :: "string option"
  id_status :: invoice_status
  id_sla_deadline :: "int option"
  id_buyer_confirmed_at :: "int option"
  id_aml_flagged :: bool
  id_created_at :: int

section \<open>Repository\<close>

definition findInvoiceById :: "string \<Rightarrow> db \<Rightarrow> invoice option" where
  [repo_def]: "findInvoiceById i d = select_one (\<lambda>r. inv_id r = i) (t_invoices d)"

definition findInvoiceByNumberAndSupplier :: "string \<Rightarrow> string \<Rightarrow> db \<Rightarrow> invoice option" where
  [repo_def]: "findInvoiceByNumberAndSupplier n s d =
     select_one (\<lambda>r. inv_number r = n \<and> inv_supplier r = s) (t_invoices d)"

definition findInvoiceByIdForSupplier :: "string \<Rightarrow> string \<Rightarrow> db \<Rightarrow> invoice option" where
  [repo_def]: "findInvoiceByIdForSupplier i s d =
     select_one (\<lambda>r. inv_id r = i \<and> inv_supplier r = s) (t_invoices d)"

definition findBuyerWithLimits :: "string \<Rightarrow> db \<Rightarrow> buyer option" where
  [repo_def]: "findBuyerWithLimits b d = select_one (\<lambda>r. buy_id r = b) (t_buyers d)"

definition findSupplierByUserId :: "string \<Rightarrow> db \<Rightarrow> supplier option" where
  [repo_def]: "findSupplierByUserId u d = select_one (\<lambda>r. sup_user r = u) (t_suppliers d)"

definition findSupplierById :: "string \<Rightarrow> db \<Rightarrow> supplier option" where
  [repo_def]: "findSupplierById s d = select_one (\<lambda>r. sup_id r = s) (t_suppliers d)"

text \<open>The audit entries of an invoice, oldest first.\<close>

definition repo_getInvoiceTimeline :: "string \<Rightarrow> db \<Rightarrow> audit_entry list" where
  [repo_def]: "repo_getInvoiceTimeline i d = filter (\<lambda>e. aud_record e = Some i) (t_audit d)"

text \<open>
  \<open>INSERT INTO invoices\<close>: column types first, then the check constraints, the unique keys and the foreign keys.
\<close>

definition invoice_types_ok :: "invoice \<Rightarrow> bool" where
  "invoice_types_ok r \<longleftrightarrow> length (inv_number r) \<le> 100
     \<and> (case bc_efris_ref (inv_confirmation r) of None \<Rightarrow> True | Some e \<Rightarrow> length e \<le> 50)"

definition invoice_checks_ok :: "invoice \<Rightarrow> bool" where
  "invoice_checks_ok r \<longleftrightarrow> 0 < inv_face_value r \<and> chk_buyer_confirmed r
     \<and> (case itk_funding_timeline_days (inv_intake r) of None \<Rightarrow> True | Some n \<Rightarrow> 0 < n)"

definition insert_invoice :: "invoice \<Rightarrow> db \<Rightarrow> ris_error + db" where
  "insert_invoice r d =
     (if \<not> invoice_types_ok r then Inl (DbError ''22001'')
      else if \<not> invoice_checks_ok r then Inl (DbError ''23514'')
      else if list_ex (\<lambda>q. inv_id q = inv_id r \<or> inv_number q = inv_number r \<and> inv_supplier q = inv_supplier r)
             (t_invoices d) then Inl (DbError ''23505'')
      else if \<not> list_ex (\<lambda>s. sup_id s = inv_supplier r) (t_suppliers d)
              \<or> \<not> list_ex (\<lambda>b. buy_id b = inv_buyer r) (t_buyers d) then Inl (DbError ''23503'')
      else Inr (d\<lparr>t_invoices := t_invoices d @ [r]\<rparr>))"

text \<open>The row of an \<open>INSERT\<close> that names the given columns; the others take their defaults.\<close>

definition new_invoice :: "int \<Rightarrow> string \<Rightarrow> string \<Rightarrow> string \<Rightarrow> string \<Rightarrow> int \<Rightarrow> int \<Rightarrow> string \<Rightarrow> int \<Rightarrow> invoice_status \<Rightarrow> invoice" where
  "new_invoice now i n s b v due descr tenor st =
     \<lparr>inv_id = i, inv_number = n, inv_supplier = s, inv_buyer = b, inv_face_value = v, inv_advance = None,
      inv_discount = None, inv_net_payment = None, inv_status = st, inv_tenor_days = tenor, inv_due_date = due,
      inv_aml_flagged = False, inv_aml_cleared_at = None, inv_accepted_at = None, inv_accepted_by = None,
      inv_rejected_at = None, inv_rejection_reason = None, inv_disputed_at = None, inv_tier3_rejections = Some 0,
      inv_created_at = now, inv_updated_at = now,
      inv_confirmation = \<lparr>bc_confirmed_at = None, bc_ip = None, bc_user_agent = None, bc_token_hash = None,
        bc_token_expires_at = None, bc_efris_ref = None, bc_efris_verified_at = None\<rparr>,
      inv_intake = \<lparr>itk_description = Some descr, itk_sla_deadline = None, itk_funding_timeline_days = None,
        itk_assessment_due_at = None, itk_assigned_to = None, itk_bank_account_number = None,
        itk_bank_account_name = None, itk_bank_name = None, itk_bank_details_captured_at = None,
        itk_withdrawn_at = None, itk_withdrawn_reason = None,
        itk_aml_cleared_by = None, itk_aml_clearance_reason = None\<rparr>\<rparr>"

definition sla_72h :: "int \<Rightarrow> int" where
  "sla_72h now = now + 72 * 3600000"

definition createInvoice :: "int \<Rightarrow> string \<Rightarrow> string \<Rightarrow> string \<Rightarrow> string \<Rightarrow> int \<Rightarrow> int \<Rightarrow> string \<Rightarrow> int \<Rightarrow> db \<Rightarrow> ris_error + db" where
  [repo_def]: "createInvoice now i n s b v due descr tenor d =
     bindE (bigint_in v) (\<lambda>v'.
       let r = new_invoice now i n s b v' due descr tenor Inv_submitted
       in insert_invoice (r\<lparr>inv_intake := (inv_intake r)\<lparr>itk_sla_deadline := Some (sla_72h now)\<rparr>\<rparr>) d)"

definition createInvoiceWithClient :: "int \<Rightarrow> string \<Rightarrow> string \<Rightarrow> string \<Rightarrow> string \<Rightarrow> int \<Rightarrow> int \<Rightarrow> string \<Rightarrow> int
    \<Rightarrow> string option \<Rightarrow> int option \<Rightarrow> int option \<Rightarrow> db \<Rightarrow> ris_error + db" where
  [repo_def]: "createInvoiceWithClient now i n s b v due descr tenor efris funding assessment d =
     bindE (bigint_in v) (\<lambda>v'.
       let r = new_invoice now i n s b v' due descr tenor Inv_submitted
       in insert_invoice
            (r\<lparr>inv_confirmation := (inv_confirmation r)\<lparr>bc_efris_ref := efris\<rparr>,
               inv_intake := (inv_intake r)\<lparr>itk_sla_deadline := Some (sla_72h now),
                 itk_funding_timeline_days := funding, itk_assessment_due_at := assessment\<rparr>\<rparr>) d)"

text \<open>
  \<open>String(face_value)\<close> into a \<open>BIGINT\<close> parameter: below \<open>10 ^ 21\<close> an integral number prints its digits; anything else
  is not the text of an integer.
\<close>

fun bigint_of_number :: "js_number \<Rightarrow> ris_error + int" where
  "bigint_of_number (Fin x) =
     (if of_int \<lfloor>x\<rfloor> = x \<and> \<bar>x\<bar> < 10 ^ 21 then bigint_in \<lfloor>x\<rfloor> else Inl (DbError ''22P02''))"
| "bigint_of_number _ = Inl (DbError ''22P02'')"

definition createDraftInvoice :: "int \<Rightarrow> string \<Rightarrow> string \<Rightarrow> string \<Rightarrow> string \<Rightarrow> js_number \<Rightarrow> int \<Rightarrow> string \<Rightarrow> int \<Rightarrow> db \<Rightarrow> ris_error + db" where
  [repo_def]: "createDraftInvoice now i n s b v due descr tenor d =
     bindE (bigint_of_number v) (\<lambda>v'. insert_invoice (new_invoice now i n s b v' due descr tenor Inv_draft) d)"

record draft_fields =
  df_description :: "string option"
  df_faceValue :: "js_number option"
  df_dueDate :: "int option"
  df_tenorDays :: "int option"

text \<open>The columns an update of a draft sets; an absent field leaves its column alone.\<close>

definition apply_draft_fields :: "int \<Rightarrow> draft_fields \<Rightarrow> int option \<Rightarrow> invoice \<Rightarrow> invoice" where
  "apply_draft_fields now f v r =
     r\<lparr>inv_intake := (inv_intake r)\<lparr>itk_description :=
          (case df_description f of None \<Rightarrow> itk_description (inv_intake r) | Some x \<Rightarrow> Some x)\<rparr>,
       inv_face_value := (case v of None \<Rightarrow> inv_face_value r | Some x \<Rightarrow> x),
       inv_due_date := (case df_dueDate f of None \<Rightarrow> inv_due_date r | Some x \<Rightarrow> x),
       inv_tenor_days := (case df_tenorDays f of None \<Rightarrow> inv_tenor_days r | Some x \<Rightarrow> x),
       inv_updated_at := now\<rparr>"

definition own_draft :: "string \<Rightarrow> string \<Rightarrow> invoice \<Rightarrow> bool" where
  "own_draft i s r \<longleftrightarrow> inv_id r = i \<and> inv_supplier r = s \<and> inv_status r = Inv_draft"

definition updateDraftFields :: "int \<Rightarrow> string \<Rightarrow> string \<Rightarrow> draft_fields \<Rightarrow> db \<Rightarrow> ris_error + invoice option \<times> db" where
  [repo_def]: "updateDraftFields now i s f d =
     (if df_description f = None \<and> df_faceValue f = None \<and> df_dueDate f = None \<and> df_tenorDays f = None
      then Inr (findInvoiceById i d, d)
      else bindE (case df_faceValue f of None \<Rightarrow> Inr None | Some x \<Rightarrow> bindE (bigint_of_number x) (\<lambda>v. Inr (Some v))) (\<lambda>v.
        let d' = d\<lparr>t_invoices := update_where (own_draft i s) (apply_draft_fields now f v) (t_invoices d)\<rparr>
        in if list_all (\<lambda>r. own_draft i s r \<longrightarrow> 0 < inv_face_value r) (t_invoices d')
           then Inr (select_one (own_draft i s) (t_invoices d'), d') else Inl (DbError ''23514'')))"

definition promoteToSubmitted :: "int \<Rightarrow> string \<Rightarrow> db \<Rightarrow> db" where
  [repo_def]: "promoteToSubmitted now i d =
     d\<lparr>t_invoices := update_where (\<lambda>r. inv_id r = i \<and> inv_status r = Inv_draft)
         (\<lambda>r. r\<lparr>inv_status := Inv_submitted, inv_intake := (inv_intake r)\<lparr>itk_sla_deadline := Some (sla_72h now)\<rparr>,
                inv_updated_at := now\<rparr>) (t_invoices d)\<rparr>"

definition setAmlFlagWithClient :: "string \<Rightarrow> bool \<Rightarrow> db \<Rightarrow> db" where
  [repo_def]: "setAmlFlagWithClient i flagged d =
     d\<lparr>t_invoices := update_where (\<lambda>r. inv_id r = i) (\<lambda>r. r\<lparr>inv_aml_flagged := flagged\<rparr>) (t_invoices d)\<rparr>"

definition updateInvoiceStatus :: "int \<Rightarrow> string \<Rightarrow> invoice_status \<Rightarrow> invoice_status \<Rightarrow> db \<Rightarrow> db" where
  [repo_def]: "updateInvoiceStatus now i newStatus expectedStatus d =
     d\<lparr>t_invoices := update_where (\<lambda>r. inv_id r = i \<and> inv_status r = expectedStatus)
         (\<lambda>r. r\<lparr>inv_status := newStatus, inv_updated_at := now\<rparr>) (t_invoices d)\<rparr>"

interpretation invoices_status: guarded_status_update updateInvoiceStatus
  by unfold_locales (simp_all add: updateInvoiceStatus_def)

text \<open>A foreign key to \<open>users\<close>; the number of rows is returned.\<close>

definition assignInvoiceWithClient :: "int \<Rightarrow> string \<Rightarrow> string option \<Rightarrow> db \<Rightarrow> ris_error + nat \<times> db" where
  [repo_def]: "assignInvoiceWithClient now i assignee d =
     (let n = length (filter (\<lambda>r. inv_id r = i) (t_invoices d));
          d' = d\<lparr>t_invoices := update_where (\<lambda>r. inv_id r = i)
            (\<lambda>r. r\<lparr>inv_intake := (inv_intake r)\<lparr>itk_assigned_to := assignee\<rparr>, inv_updated_at := now\<rparr>) (t_invoices d)\<rparr>
      in if 0 < n \<and> \<not> user_exists d assignee then Inl (DbError ''23503'') else Inr (n, d'))"

definition bank_target :: "string \<Rightarrow> string \<Rightarrow> invoice \<Rightarrow> bool" where
  "bank_target i s r \<longleftrightarrow> inv_id r = i \<and> inv_supplier r = s \<and> inv_status r = Inv_approved"

definition setInvoiceBankDetailsWithClient :: "int \<Rightarrow> string \<Rightarrow> string \<Rightarrow> string \<Rightarrow> string \<Rightarrow> string \<Rightarrow> db \<Rightarrow> nat \<times> db" where
  [repo_def]: "setInvoiceBankDetailsWithClient now i s encNum encName encBank d =
     (length (filter (bank_target i s) (t_invoices d)),
      d\<lparr>t_invoices := update_where (bank_target i s)
         (\<lambda>r. r\<lparr>inv_intake := (inv_intake r)\<lparr>itk_bank_account_number := Some encNum, itk_bank_account_name := Some encName,
                  itk_bank_name := Some encBank, itk_bank_details_captured_at := Some now\<rparr>, inv_updated_at := now\<rparr>)
         (t_invoices d)\<rparr>)"

text \<open>
  A status literal in a statement is read by the input function of the type \<open>invoice_status\<close>; the labels are those of
  migrations 001 and 021.
\<close>

definition invoice_status_in :: "string \<Rightarrow> ris_error + invoice_status" where
  "invoice_status_in s =
     (case find (\<lambda>st. inv_status_str st = s)
        [Inv_draft, Inv_submitted, Inv_buyer_confirmed, Inv_scored, Inv_priced, Inv_approved, Inv_rejected,
         Inv_pending_first_auth, Inv_pending_second_auth, Inv_executing, Inv_funded, Inv_collecting, Inv_overdue,
         Inv_collected, Inv_defaulted, Inv_cancelled] of
        None \<Rightarrow> Inl (DbError ''22P02'') | Some st \<Rightarrow> Inr st)"

definition withdrawInvoiceWithClient :: "int \<Rightarrow> string \<Rightarrow> string \<Rightarrow> db \<Rightarrow> ris_error + db" where
  [repo_def]: "withdrawInvoiceWithClient now i reason d =
     bindE (invoice_status_in ''withdrawn'') (\<lambda>st.
       Inr (d\<lparr>t_invoices := update_where (\<lambda>r. inv_id r = i)
         (\<lambda>r. r\<lparr>inv_status := st, inv_intake := (inv_intake r)\<lparr>itk_withdrawn_at := Some now, itk_withdrawn_reason := Some reason\<rparr>,
                inv_updated_at := now\<rparr>) (t_invoices d)\<rparr>))"

text \<open>
  \<open>NOW() - INTERVAL '6 months'\<close> keeps the day of the month unless the month is too short; \<open>date_trunc('month', NOW())\<close>.
  Both are in UTC.
\<close>

definition day_of_civil :: "int \<Rightarrow> int \<Rightarrow> int \<Rightarrow> int" where
  "day_of_civil y m d = DayFromYear y + sum_list (take (nat (m - 1)) (month_lengths y)) + d - 1"

definition months_before :: "int \<Rightarrow> int \<Rightarrow> int" where
  "months_before k now =
     (let (y, m, d) = civil_date (now div day_ms); n = 12 * y + (m - 1) - k; y' = n div 12; m' = n mod 12 + 1
      in day_of_civil y' m' (min d (month_lengths y' ! nat (m' - 1))) * day_ms + now mod day_ms)"

definition month_start :: "int \<Rightarrow> int" where
  "month_start now = (let (y, m, _) = civil_date (now div day_ms) in day_of_civil y m 1 * day_ms)"

definition get30DayRollingTotal :: "int \<Rightarrow> string \<Rightarrow> string \<Rightarrow> db \<Rightarrow> int \<times> int" where
  [repo_def]: "get30DayRollingTotal now s b d =
     (let rs = filter (\<lambda>r. inv_supplier r = s \<and> inv_buyer r = b \<and> now - 30 * day_ms \<le> inv_created_at r
                 \<and> inv_status r \<noteq> Inv_draft) (t_invoices d)
      in (sum_list (map inv_face_value rs), int (length rs)))"

definition get6MonthVelocityAverage :: "int \<Rightarrow> string \<Rightarrow> db \<Rightarrow> int \<times> int" where
  [repo_def]: "get6MonthVelocityAverage now s d =
     (let rs = filter (\<lambda>r. inv_supplier r = s \<and> months_before 6 now \<le> inv_created_at r \<and> inv_status r \<noteq> Inv_draft) (t_invoices d)
      in (int (length rs), sum_list (map inv_face_value rs)))"

definition getCurrentMonthCount :: "int \<Rightarrow> string \<Rightarrow> db \<Rightarrow> int" where
  [repo_def]: "getCurrentMonthCount now s d =
     int (length (filter (\<lambda>r. inv_supplier r = s \<and> month_start now \<le> inv_created_at r \<and> inv_status r \<noteq> Inv_draft) (t_invoices d)))"

section \<open>Money-laundering checks\<close>

text \<open>\<open>Math.ceil\<close> of the quotient of two numbers.\<close>

definition ceil_quotient :: "int \<Rightarrow> int \<Rightarrow> int" where
  "ceil_quotient a b = \<lceil>round_double (of_int a / of_int b)\<rceil>"

definition computeTenorDays :: "int \<Rightarrow> int \<Rightarrow> int" where
  "computeTenorDays now dueDate = ceil_quotient (dueDate - now) day_ms"

definition auditAndThrowCompliance :: "string \<Rightarrow> string \<Rightarrow> string \<Rightarrow> json_obj \<Rightarrow> string \<Rightarrow> string \<Rightarrow> unit service" where
  "auditAndThrowCompliance action userId supplierId details ip ua =
     thenS (createAuditEntry (audit_req (Some userId) action ''invoices'' supplierId None details (Some ip) (Some ua)))
       (throwS (BusinessRuleError action))"

definition checkStructuring :: "invoice_env \<Rightarrow> string \<Rightarrow> string \<Rightarrow> int \<Rightarrow> string \<Rightarrow> string \<Rightarrow> string \<Rightarrow> unit service" where
  "checkStructuring env supplierId buyerId faceValue userId ip ua =
     bindS nowS (\<lambda>now.
     bindS (queryS (get30DayRollingTotal now supplierId buyerId)) (\<lambda>(rolling, cnt).
     let combinedTotal = rolling + faceValue
     in whenS (ie_aml_threshold env \<le> combinedTotal \<and> faceValue < ie_aml_threshold env)
          (auditAndThrowCompliance ''STRUCTURING_RISK_DETECTED'' userId supplierId
             [(''buyerId'', JStr buyerId), (''combinedTotal'', JStr (show_int combinedTotal)),
              (''invoiceCount'', JInt (cnt + 1)), (''threshold'', JStr (show_int (ie_aml_threshold env)))] ip ua)))"

definition checkVelocitySpike :: "string \<Rightarrow> string \<Rightarrow> string \<Rightarrow> string \<Rightarrow> unit service" where
  "checkVelocitySpike supplierId userId ip ua =
     bindS nowS (\<lambda>now.
     bindS (queryS (get6MonthVelocityAverage now supplierId)) (\<lambda>(total_count, _).
     if total_count < 6 then returnS ()
     else let avgMonthly = ceil_quotient total_count 6
       in bindS (queryS (getCurrentMonthCount now supplierId)) (\<lambda>count.
          whenS (avgMonthly * 3 \<le> count)
            (auditAndThrowCompliance ''VELOCITY_SPIKE_DETECTED'' userId supplierId
               [(''currentMonthCount'', JInt count), (''avgMonthly'', JInt avgMonthly), (''multiplier'', JInt 3)] ip ua))))"

section \<open>The validation chain\<close>

definition upper_char :: "char \<Rightarrow> char" where
  "upper_char c = (let n = of_char c :: nat in if 97 \<le> n \<and> n \<le> 122 then char_of (n - 32) else c)"

definition json_of_result :: "validation_result \<Rightarrow> json_obj" where
  "json_of_result r =
     [(''passed'', JBool (vr_passed r)),
      (''errorCode'', case vr_errorCode r of None \<Rightarrow> JNull | Some c \<Rightarrow> JStr c),
      (''details'', case vr_details r of None \<Rightarrow> JNull | Some x \<Rightarrow> JObj x)]"

definition validation_entry :: "string \<Rightarrow> string \<Rightarrow> string \<Rightarrow> string \<Rightarrow> validation_result \<Rightarrow> audit_entry" where
  "validation_entry userId invoiceId ip ua r =
     audit_req (Some userId) (''VALIDATION_'' @ map upper_char (vr_step r)) ''invoices'' invoiceId None (json_of_result r)
       (Some ip) (Some ua)"

definition logValidationResults :: "string \<Rightarrow> string \<Rightarrow> validation_result list \<Rightarrow> string \<Rightarrow> string \<Rightarrow> unit service" where
  "logValidationResults userId invoiceId results ip ua =
     forS (\<lambda>r. createAuditEntry (validation_entry userId invoiceId ip ua r)) results"

definition validateSupplierActive :: "string \<Rightarrow> validation_result list \<Rightarrow> string \<Rightarrow> string \<Rightarrow> (supplier \<times> validation_result list) service" where
  "validateSupplierActive userId results ip ua =
     bindS (queryS (findSupplierByUserId userId)) (\<lambda>supplier.
     let passed = (case supplier of None \<Rightarrow> False | Some s \<Rightarrow> sup_kyc_status s = Kyc_approved);
         results' = results @ [check_result ''supplier_active_check'' passed ''SUPPLIER_NOT_APPROVED'' None]
     in case supplier of
          Some s \<Rightarrow> if passed then returnS (s, results')
            else thenS (logValidationResults userId ''new'' results' ip ua) (throwS (BusinessRuleError ''SUPPLIER_NOT_APPROVED''))
        | None \<Rightarrow> thenS (logValidationResults userId ''new'' results' ip ua) (throwS (BusinessRuleError ''SUPPLIER_NOT_APPROVED'')))"

definition validateNoDuplicate :: "string \<Rightarrow> string \<Rightarrow> string \<Rightarrow> validation_result list \<Rightarrow> string \<Rightarrow> string \<Rightarrow> validation_result list service" where
  "validateNoDuplicate invoiceNumber supplierId userId results ip ua =
     bindS (queryS (findInvoiceByNumberAndSupplier invoiceNumber supplierId)) (\<lambda>existing.
     let passed = (existing = None);
         results' = results @ [check_result ''duplicate_check'' passed ''DUPLICATE_INVOICE'' None]
     in if passed then returnS results'
        else thenS (logValidationResults userId ''new'' results' ip ua) (throwS (BusinessRuleError ''DUPLICATE_INVOICE'')))"

definition validateBuyerEligibility :: "string \<Rightarrow> string \<Rightarrow> validation_result list \<Rightarrow> string \<Rightarrow> string \<Rightarrow> (buyer \<times> validation_result list) service" where
  "validateBuyerEligibility buyerId userId results ip ua =
     bindS (queryS (findBuyerWithLimits buyerId)) (\<lambda>buyer.
     let passed = (case buyer of None \<Rightarrow> False | Some b \<Rightarrow> buy_is_active b);
         results' = results @ [check_result ''buyer_eligibility'' passed ''BUYER_NOT_APPROVED'' None]
     in case buyer of
          Some b \<Rightarrow> if passed then returnS (b, results')
            else thenS (logValidationResults userId ''new'' results' ip ua) (throwS (BusinessRuleError ''BUYER_NOT_APPROVED''))
        | None \<Rightarrow> thenS (logValidationResults userId ''new'' results' ip ua) (throwS (BusinessRuleError ''BUYER_NOT_APPROVED'')))"

definition validateTenor :: "invoice_env \<Rightarrow> int \<Rightarrow> int \<Rightarrow> validation_result list \<Rightarrow> ris_error + int \<times> validation_result list" where
  "validateTenor env now dueDate results =
     (let tenorDays = computeTenorDays now dueDate;
          passed = (ie_min_tenor env \<le> tenorDays \<and> tenorDays \<le> ie_max_tenor env)
      in if passed
         then Inr (tenorDays, results @ [check_result ''tenor_check'' passed ''TENOR_OUT_OF_RANGE''
                (Some [(''actual_days'', JInt tenorDays), (''min_days'', JInt (ie_min_tenor env)), (''max_days'', JInt (ie_max_tenor env))])])
         else Inl (BusinessRuleError ''TENOR_OUT_OF_RANGE''))"

definition validateCreditLimit :: "int \<Rightarrow> buyer \<Rightarrow> validation_result list \<Rightarrow> ris_error + validation_result list" where
  "validateCreditLimit faceValue buyer results =
     (let totalExposure = faceValue + buy_used_limit buyer;
          passed = (totalExposure \<le> buy_approved_limit buyer);
          remaining = buy_approved_limit buyer - buy_used_limit buyer
      in if passed
         then Inr (results @ [check_result ''credit_limit_check'' passed ''CREDIT_LIMIT_EXCEEDED''
                (Some [(''requested'', JStr (show_int faceValue)), (''used'', JStr (show_int (buy_used_limit buyer))),
                       (''limit'', JStr (show_int (buy_approved_limit buyer))), (''remaining'', JStr (show_int remaining))])])
         else Inl (BusinessRuleError ''CREDIT_LIMIT_EXCEEDED''))"

section \<open>Submission\<close>

record submit_tx_params =
  sp_invoiceId :: string
  sp_userId :: string
  sp_data :: invoice_submission
  sp_supplierId :: string
  sp_faceValue :: int
  sp_tenorDays :: int
  sp_validationResults :: "validation_result list"
  sp_ipAddress :: string
  sp_userAgent :: string
  sp_assessmentDueAt :: "int option"

definition auditValidationResultsWithClient :: "string \<Rightarrow> string \<Rightarrow> validation_result list \<Rightarrow> string \<Rightarrow> string \<Rightarrow> unit service" where
  "auditValidationResultsWithClient userId invoiceId results ip ua =
     forS (\<lambda>r. createAuditEntry (validation_entry userId invoiceId ip ua r)) results"

definition submitted_entry :: "submit_tx_params \<Rightarrow> audit_entry" where
  "submitted_entry p =
     audit_req (Some (sp_userId p)) ''INVOICE_SUBMITTED'' ''invoices'' (sp_invoiceId p) None
       [(''invoiceNumber'', JStr (is_invoice_number (sp_data p))), (''supplierId'', JStr (sp_supplierId p)),
        (''buyerId'', JStr (is_buyer_id (sp_data p))), (''faceValue'', JStr (show_int (sp_faceValue p))),
        (''status'', JStr ''submitted'')] (Some (sp_ipAddress p)) (Some (sp_userAgent p))"

definition auditInvoiceSubmittedWithClient :: "submit_tx_params \<Rightarrow> unit service" where
  "auditInvoiceSubmittedWithClient p = createAuditEntry (submitted_entry p)"

definition aml_entry :: "invoice_env \<Rightarrow> submit_tx_params \<Rightarrow> audit_entry" where
  "aml_entry env p =
     audit_req (Some (sp_userId p)) ''AML_FLAG'' ''invoices'' (sp_invoiceId p) None
       [(''faceValue'', JStr (show_int (sp_faceValue p))), (''thresholdUgx'', JStr (show_int (ie_aml_threshold env))),
        (''reason'', JStr ''Invoice face value exceeds AML threshold'')] (Some (sp_ipAddress p)) (Some (sp_userAgent p))"

definition applyAmlFlagWithClient :: "invoice_env \<Rightarrow> submit_tx_params \<Rightarrow> unit service" where
  "applyAmlFlagWithClient env p =
     whenS (ie_aml_threshold env < sp_faceValue p)
       (thenS (execS (setAmlFlagWithClient (sp_invoiceId p) True)) (createAuditEntry (aml_entry env p)))"

definition insert_submitted :: "submit_tx_params \<Rightarrow> unit service" where
  "insert_submitted p =
     bindS nowS (\<lambda>now. tryExecS (createInvoiceWithClient now (sp_invoiceId p) (is_invoice_number (sp_data p))
       (sp_supplierId p) (is_buyer_id (sp_data p)) (sp_faceValue p) (is_due_date (sp_data p) div day_ms)
       (is_description (sp_data p)) (sp_tenorDays p) (Some (is_ura_efris_ref (sp_data p)))
       (is_funding_timeline_days (sp_data p)) (sp_assessmentDueAt p)))"

definition executeSubmitTransaction :: "invoice_env \<Rightarrow> submit_tx_params \<Rightarrow> unit service" where
  "executeSubmitTransaction env p =
     transactionS
      (thenS (insert_submitted p)
      (thenS (auditValidationResultsWithClient (sp_userId p) (sp_invoiceId p) (sp_validationResults p) (sp_ipAddress p) (sp_userAgent p))
      (thenS (auditInvoiceSubmittedWithClient p)
       (applyAmlFlagWithClient env p))))"

definition notifyAmlCompliance :: "invoice_env \<Rightarrow> string \<Rightarrow> int \<Rightarrow> unit service" where
  "notifyAmlCompliance env invoiceId faceValue =
     whenS (ie_aml_threshold env < faceValue)
       (enqueueS Invoices_notification ''notify-compliance-aml''
          [(''invoiceId'', JStr invoiceId), (''faceValue'', JStr (show_int faceValue))])"

definition queueBuyerConfirmation :: "string \<Rightarrow> string \<Rightarrow> unit service" where
  "queueBuyerConfirmation invoiceId buyerId =
     enqueueS Invoices_notification ''send-buyer-confirmation'' [(''invoiceId'', JStr invoiceId), (''buyerId'', JStr buyerId)]"

definition scheduleAssessmentReminders :: "string \<Rightarrow> string \<Rightarrow> unit service" where
  "scheduleAssessmentReminders invoiceId supplierId =
     thenS (enqueueS Invoices_notification ''assessment_sla_reminder''
              [(''invoiceId'', JStr invoiceId), (''supplierId'', JStr supplierId), (''tier'', JStr ''warn_day_3'')])
           (enqueueS Invoices_notification ''assessment_sla_overdue''
              [(''invoiceId'', JStr invoiceId), (''supplierId'', JStr supplierId), (''tier'', JStr ''overdue_day_7'')])"

definition scheduleFundingTimelineReminder :: "string \<Rightarrow> string \<Rightarrow> int option \<Rightarrow> unit service" where
  "scheduleFundingTimelineReminder invoiceId supplierId timelineDays =
     (case timelineDays of
        None \<Rightarrow> returnS ()
      | Some n \<Rightarrow> if n \<le> 0 then returnS ()
          else enqueueS Invoices_notification ''funding_timeline_due''
                 [(''invoiceId'', JStr invoiceId), (''supplierId'', JStr supplierId), (''timelineDays'', JInt n)])"

text \<open>The five steps, then the two money-laundering checks: the supplier and everything the transaction needs.\<close>

definition validate_submission :: "invoice_env \<Rightarrow> string \<Rightarrow> invoice_submission \<Rightarrow> int \<Rightarrow> string \<Rightarrow> string
    \<Rightarrow> (supplier \<times> int \<times> validation_result list) service" where
  "validate_submission env userId data faceValue ip ua =
     bindS (validateSupplierActive userId [] ip ua) (\<lambda>(supplier, r1).
     bindS (validateNoDuplicate (is_invoice_number data) (sup_id supplier) userId r1 ip ua) (\<lambda>r2.
     bindS (validateBuyerEligibility (is_buyer_id data) userId r2 ip ua) (\<lambda>(buyer, r3).
     bindS nowS (\<lambda>now.
     bindS (liftS (validateTenor env now (is_due_date data) r3)) (\<lambda>(tenorDays, r4).
     bindS (liftS (validateCreditLimit faceValue buyer r4)) (\<lambda>r5.
     thenS (checkStructuring env (sup_id supplier) (is_buyer_id data) faceValue userId ip ua)
     (thenS (checkVelocitySpike (sup_id supplier) userId ip ua)
       (returnS (supplier, tenorDays, r5)))))))))"

definition submit_params :: "string \<Rightarrow> string \<Rightarrow> invoice_submission \<Rightarrow> int \<Rightarrow> string \<Rightarrow> string \<Rightarrow> supplier \<Rightarrow> int
    \<Rightarrow> validation_result list \<Rightarrow> int \<Rightarrow> submit_tx_params" where
  "submit_params invoiceId userId data faceValue ip ua supplier tenorDays results due =
     \<lparr>sp_invoiceId = invoiceId, sp_userId = userId, sp_data = data, sp_supplierId = sup_id supplier,
      sp_faceValue = faceValue, sp_tenorDays = tenorDays, sp_validationResults = results, sp_ipAddress = ip,
      sp_userAgent = ua, sp_assessmentDueAt = Some due\<rparr>"

definition notify_submitted :: "invoice_env \<Rightarrow> string \<Rightarrow> supplier \<Rightarrow> invoice_submission \<Rightarrow> int \<Rightarrow> unit service" where
  "notify_submitted env invoiceId supplier data faceValue =
     thenS (notifyAmlCompliance env invoiceId faceValue)
    (thenS (queueBuyerConfirmation invoiceId (is_buyer_id data))
    (thenS (scheduleAssessmentReminders invoiceId (sup_id supplier))
           (scheduleFundingTimelineReminder invoiceId (sup_id supplier) (is_funding_timeline_days data))))"

definition submitInvoice :: "invoice_env \<Rightarrow> string \<Rightarrow> string \<Rightarrow> invoice_submission \<Rightarrow> string \<Rightarrow> string \<Rightarrow> string service" where
  "submitInvoice env invoiceId userId data ip ua =
     bindS (liftS (js_BigInt (is_face_value data))) (\<lambda>faceValue.
     bindS (validate_submission env userId data faceValue ip ua) (\<lambda>(supplier, tenorDays, results).
     bindS nowS (\<lambda>now.
     bindS (liftS (addWorkingDays now ASSESSMENT_SLA_WORKING_DAYS)) (\<lambda>due.
     thenS (executeSubmitTransaction env (submit_params invoiceId userId data faceValue ip ua supplier tenorDays results due))
    (thenS (notify_submitted env invoiceId supplier data faceValue)
       (returnS invoiceId))))))"

section \<open>Drafts\<close>

definition saveDraft :: "string \<Rightarrow> string \<Rightarrow> invoice_submission \<Rightarrow> string \<Rightarrow> string \<Rightarrow> string service" where
  "saveDraft invoiceId userId data ip ua =
     bindS (queryS (findSupplierByUserId userId)) (\<lambda>sp.
     bindS (requireS sp (NotFoundError ''Supplier'' userId)) (\<lambda>supplier.
     bindS nowS (\<lambda>now.
     thenS (tryExecS (createDraftInvoice now invoiceId (is_invoice_number data) (sup_id supplier) (is_buyer_id data)
              (is_face_value data) (is_due_date data div day_ms) (is_description data) (computeTenorDays now (is_due_date data))))
    (thenS (createAuditEntry (audit_req (Some userId) ''INVOICE_DRAFT_SAVED'' ''invoices'' invoiceId None
              [(''invoiceNumber'', JStr (is_invoice_number data)), (''supplierId'', JStr (sup_id supplier)),
               (''status'', JStr ''draft'')] (Some ip) (Some ua)))
       (returnS invoiceId)))))"

definition guardDraftOwnership :: "string \<Rightarrow> string \<Rightarrow> (invoice \<times> string) service" where
  "guardDraftOwnership invoiceId userId =
     bindS (queryS (findInvoiceById invoiceId)) (\<lambda>found.
     bindS (requireS found (NotFoundError ''Invoice'' invoiceId)) (\<lambda>invoice.
     thenS (guardS (inv_status invoice = Inv_draft) (BusinessRuleError ''NOT_DRAFT''))
    (bindS (queryS (findSupplierByUserId userId)) (\<lambda>sp.
     bindS (requireS sp ForbiddenError) (\<lambda>supplier.
     thenS (guardS (sup_id supplier = inv_supplier invoice) ForbiddenError)
       (returnS (invoice, sup_id supplier)))))))"

definition toInvoiceDetail :: "invoice \<Rightarrow> invoice_detail" where
  "toInvoiceDetail r =
     \<lparr>id_id = inv_id r, id_invoice_number = inv_number r, id_supplier_id = inv_supplier r, id_buyer_id = inv_buyer r,
      id_face_value = js_Number (inv_face_value r), id_due_date = inv_due_date r,
      id_description = itk_description (inv_intake r), id_status = inv_status r,
      id_sla_deadline = itk_sla_deadline (inv_intake r), id_buyer_confirmed_at = bc_confirmed_at (inv_confirmation r),
      id_aml_flagged = inv_aml_flagged r, id_created_at = inv_created_at r\<rparr>"

text \<open>A statement that returns a row.\<close>

definition returningS :: "(db \<Rightarrow> ris_error + 'a \<times> db) \<Rightarrow> 'a service" where
  "returningS f = (\<lambda>w. case f (db w) of Inl e \<Rightarrow> (Inl e, w) | Inr (x, d) \<Rightarrow> (Inr x, w\<lparr>db := d\<rparr>))"

definition updateDraft :: "string \<Rightarrow> string \<Rightarrow> draft_update \<Rightarrow> string \<Rightarrow> string \<Rightarrow> invoice_detail service" where
  "updateDraft invoiceId userId data ip ua =
     bindS (guardDraftOwnership invoiceId userId) (\<lambda>(_, supplierId).
     bindS nowS (\<lambda>now.
     bindS (returningS (updateDraftFields now invoiceId supplierId
              \<lparr>df_description = du_description data, df_faceValue = du_face_value data,
               df_dueDate = map_option (\<lambda>t. t div day_ms) (du_due_date data),
               df_tenorDays = map_option (computeTenorDays now) (du_due_date data)\<rparr>)) (\<lambda>updated.
     bindS (requireS updated (NotFoundError ''Draft Invoice'' invoiceId)) (\<lambda>r.
     thenS (createAuditEntry (audit_req (Some userId) ''INVOICE_DRAFT_UPDATED'' ''invoices'' invoiceId None
              [(''fields'', JArr (map JStr (du_keys data)))] (Some ip) (Some ua)))
       (returnS (toInvoiceDetail r))))))"

definition validateForSubmit :: "invoice_env \<Rightarrow> string \<Rightarrow> int \<Rightarrow> int \<Rightarrow> unit service" where
  "validateForSubmit env buyerId faceValue dueDate =
     bindS (queryS (findBuyerWithLimits buyerId)) (\<lambda>found.
     bindS (requireS found (BusinessRuleError ''BUYER_NOT_APPROVED'')) (\<lambda>buyer.
     thenS (guardS (buy_is_active buyer) (BusinessRuleError ''BUYER_NOT_APPROVED''))
    (bindS nowS (\<lambda>now.
     let tenorDays = computeTenorDays now dueDate
     in thenS (guardS (ie_min_tenor env \<le> tenorDays \<and> tenorDays \<le> ie_max_tenor env) (BusinessRuleError ''TENOR_OUT_OF_RANGE''))
          (guardS (faceValue + buy_used_limit buyer \<le> buy_approved_limit buyer) (BusinessRuleError ''CREDIT_LIMIT_EXCEEDED''))))))"

definition guardSubmitDraftKyc :: "string \<Rightarrow> supplier service" where
  "guardSubmitDraftKyc userId =
     bindS (queryS (findSupplierByUserId userId)) (\<lambda>sp.
     bindS (requireS sp ForbiddenError) (\<lambda>supplier.
     thenS (guardS (sup_kyc_status supplier = Kyc_approved) (BusinessRuleError ''SUPPLIER_NOT_APPROVED''))
       (returnS supplier)))"

definition promoted_entry :: "string \<Rightarrow> string \<Rightarrow> string \<Rightarrow> string \<Rightarrow> audit_entry" where
  "promoted_entry invoiceId userId ip ua =
     audit_req (Some userId) ''INVOICE_SUBMITTED'' ''invoices'' invoiceId (Some [(''status'', JStr ''draft'')])
       [(''status'', JStr ''submitted'')] (Some ip) (Some ua)"

definition executePromoteTransaction :: "invoice_env \<Rightarrow> string \<Rightarrow> string \<Rightarrow> int \<Rightarrow> string \<Rightarrow> string \<Rightarrow> unit service" where
  "executePromoteTransaction env invoiceId userId faceValue ip ua =
     transactionS
      (bindS nowS (\<lambda>now.
       thenS (execS (promoteToSubmitted now invoiceId))
      (thenS (createAuditEntry (promoted_entry invoiceId userId ip ua))
         (whenS (ie_aml_threshold env < faceValue) (execS (setAmlFlagWithClient invoiceId True))))))"

text \<open>The \<open>DATE\<close> column is read as midnight of its day.\<close>

definition submitDraft :: "invoice_env \<Rightarrow> string \<Rightarrow> string \<Rightarrow> string \<Rightarrow> string \<Rightarrow> invoice_detail service" where
  "submitDraft env invoiceId userId ip ua =
     bindS (guardDraftOwnership invoiceId userId) (\<lambda>(invoice, _).
     thenS (guardSubmitDraftKyc userId)
    (thenS (validateForSubmit env (inv_buyer invoice) (inv_face_value invoice) (inv_due_date invoice * day_ms))
    (thenS (executePromoteTransaction env invoiceId userId (inv_face_value invoice) ip ua)
    (bindS (queryS (findInvoiceById invoiceId)) (\<lambda>found.
     bindS (requireS found (JsError ''TypeError'')) (\<lambda>updated.
       returnS (toInvoiceDetail updated)))))))"

section \<open>Withdrawal, assignment, bank details\<close>

definition validateWithdrawalEligibility :: "int \<Rightarrow> invoice \<Rightarrow> ris_error + unit" where
  "validateWithdrawalEligibility now invoice =
     (if inv_status invoice \<noteq> Inv_submitted then Inl (BusinessRuleError ''INVOICE_WRONG_STATUS'')
      else if bc_confirmed_at (inv_confirmation invoice) \<noteq> None then Inl (BusinessRuleError ''INVOICE_ALREADY_CONFIRMED'')
      else if COOLING_OFF_HOURS * 3600000 < now - inv_created_at invoice then Inl (BusinessRuleError ''COOLING_OFF_EXPIRED'')
      else Inr ())"

definition executeWithdrawTransaction :: "string \<Rightarrow> string \<Rightarrow> invoice_status \<Rightarrow> string \<Rightarrow> string \<Rightarrow> string \<Rightarrow> unit service" where
  "executeWithdrawTransaction invoiceId userId currentStatus reason ip ua =
     transactionS
      (bindS nowS (\<lambda>now.
       thenS (tryExecS (withdrawInvoiceWithClient now invoiceId reason))
         (createAuditEntry (audit_req (Some userId) ''INVOICE_WITHDRAWN'' ''invoices'' invoiceId
            (Some [(''status'', JStr (inv_status_str currentStatus))])
            [(''status'', JStr ''withdrawn''), (''reason'', JStr reason)] (Some ip) (Some ua)))))"

definition withdrawInvoice :: "string \<Rightarrow> string \<Rightarrow> string \<Rightarrow> string \<Rightarrow> string \<Rightarrow> unit service" where
  "withdrawInvoice invoiceId userId reason ip ua =
     bindS (queryS (findSupplierByUserId userId)) (\<lambda>sp.
     bindS (requireS sp ForbiddenError) (\<lambda>supplier.
     bindS (queryS (findInvoiceByIdForSupplier invoiceId (sup_id supplier))) (\<lambda>found.
     bindS (requireS found (NotFoundError ''Invoice'' invoiceId)) (\<lambda>invoice.
     bindS nowS (\<lambda>now.
     thenS (liftS (validateWithdrawalEligibility now invoice))
       (executeWithdrawTransaction invoiceId userId (inv_status invoice) reason ip ua))))))"

definition assignInvoice :: "string \<Rightarrow> string option \<Rightarrow> string \<Rightarrow> string \<Rightarrow> string \<Rightarrow> unit service" where
  "assignInvoice invoiceId assigneeUserId assignerUserId ip ua =
     transactionS
      (bindS nowS (\<lambda>now.
       bindS (returningS (assignInvoiceWithClient now invoiceId assigneeUserId)) (\<lambda>rows.
       thenS (guardS (rows \<noteq> 0) (NotFoundError ''Invoice'' invoiceId))
         (createAuditEntry (audit_req (Some assignerUserId) ''INVOICE_ASSIGNED'' ''invoices'' invoiceId None
            [(''assignedTo'', case assigneeUserId of None \<Rightarrow> JNull | Some a \<Rightarrow> JStr a), (''assignedBy'', JStr assignerUserId)]
            (Some ip) (Some ua))))))"

record bank_details_input =
  bd_account_number :: string
  bd_account_name :: string
  bd_bank_name :: string

text \<open>The three values are encrypted, each with its own vector, before the transaction.\<close>

definition encrypt_bank_details :: "(byte list \<Rightarrow> string \<Rightarrow> ris_error + string) \<Rightarrow> byte list \<times> byte list \<times> byte list
    \<Rightarrow> bank_details_input \<Rightarrow> ris_error + string \<times> string \<times> string" where
  "encrypt_bank_details enc ivs input =
     bindE (enc (fst ivs) (bd_account_number input)) (\<lambda>encNum.
     bindE (enc (fst (snd ivs)) (bd_account_name input)) (\<lambda>encName.
     bindE (enc (snd (snd ivs)) (bd_bank_name input)) (\<lambda>encBank.
     Inr (encNum, encName, encBank))))"

definition setInvoiceBankDetails :: "(byte list \<Rightarrow> string \<Rightarrow> ris_error + string) \<Rightarrow> byte list \<times> byte list \<times> byte list
    \<Rightarrow> string \<Rightarrow> string \<Rightarrow> bank_details_input \<Rightarrow> string \<Rightarrow> string \<Rightarrow> unit service" where
  "setInvoiceBankDetails enc ivs userId invoiceId input ip ua =
     bindS (liftS (encrypt_bank_details enc ivs input)) (\<lambda>(encNum, encName, encBank).
     transactionS
      (bindS nowS (\<lambda>now.
       bindS (returningS (\<lambda>d. Inr (setInvoiceBankDetailsWithClient now invoiceId userId encNum encName encBank d))) (\<lambda>rows.
       thenS (guardS (rows \<noteq> 0) (BusinessRuleError ''INVOICE_WRONG_STATUS''))
         (createAuditEntry (audit_req (Some userId) ''INVOICE_BANK_DETAILS_SET'' ''invoices'' invoiceId None
            [(''invoiceId'', JStr invoiceId), (''bankDetailsCapturedAt'', JInt now)] (Some ip) (Some ua)))))))"

end
