(* ===== verification/Verification.thy ===== *)
theory Verification
  imports Invoices
begin

text \<open>
  \<open>src/src/services/verification\<close>: the confirmation token of an invoice, the buyer's confirmation with the check
  against URA EFRIS, resending, reminders and the disputes a buyer raises. The random token, the row id the
  database draws and SHA-256 are parameters.
\<close>

section \<open>The EFRIS provider\<close>

record efris_result =
  er_verified :: bool
  er_providerReference :: string
  er_mismatchReason :: "string option"

text \<open>A provider verifies a reference and a face value at an instant, or throws.\<close>

type_synonym efris_provider = "int \<Rightarrow> string \<Rightarrow> int \<Rightarrow> ris_error + efris_result"

definition startsWith :: "string \<Rightarrow> string \<Rightarrow> bool" where
  "startsWith s p \<longleftrightarrow> take (length p) s = p"

definition MockEfrisProvider :: efris_provider where
  "MockEfrisProvider now ref faceValueUgx =
     (if startsWith ref ''EFRIS-BAD-''
      then Inr \<lparr>er_verified = False, er_providerReference = [], er_mismatchReason = Some ''mock_bad_ref''\<rparr>
      else if startsWith ref ''EFRIS-MISMATCH-''
      then Inr \<lparr>er_verified = False, er_providerReference = [], er_mismatchReason = Some ''amount_mismatch''\<rparr>
      else Inr \<lparr>er_verified = True, er_providerReference = ''URA-MOCK-'' @ show_int now, er_mismatchReason = None\<rparr>)"

definition UraEfrisProvider :: efris_provider where
  "UraEfrisProvider now ref faceValueUgx = MockEfrisProvider now ref faceValueUgx"

definition getEfrisProvider :: "efris_provider option \<Rightarrow> bool \<Rightarrow> efris_provider" where
  "getEfrisProvider configured production =
     (case configured of Some p \<Rightarrow> p | None \<Rightarrow> if production then UraEfrisProvider else MockEfrisProvider)"

text \<open>
  What the service needs of a provider: it answers, and the answer names a registry reference exactly when the
  invoice is verified, a reason otherwise.
\<close>

locale efris_contract =
  fixes verify :: efris_provider
  assumes answers: "\<exists>r. verify now ref v = Inr r
     \<and> (er_providerReference r \<noteq> [] \<longleftrightarrow> er_verified r) \<and> (er_mismatchReason r = None \<longleftrightarrow> er_verified r)"

interpretation mock_efris: efris_contract MockEfrisProvider
  by unfold_locales (simp add: MockEfrisProvider_def)

interpretation ura_efris: efris_contract UraEfrisProvider
  by unfold_locales (simp add: UraEfrisProvider_def MockEfrisProvider_def)

section \<open>Repository\<close>

definition storeConfirmationTokenWithClient :: "int \<Rightarrow> string \<Rightarrow> string \<Rightarrow> int \<Rightarrow> db \<Rightarrow> db" where
  [repo_def]: "storeConfirmationTokenWithClient now i tokenHash expiresAt d =
     d\<lparr>t_invoices := update_where (\<lambda>r. inv_id r = i)
         (\<lambda>r. r\<lparr>inv_confirmation := (inv_confirmation r)\<lparr>bc_token_hash := Some tokenHash, bc_token_expires_at := Some expiresAt\<rparr>,
                inv_updated_at := now\<rparr>) (t_invoices d)\<rparr>"

definition findInvoiceByTokenHash :: "string \<Rightarrow> db \<Rightarrow> invoice option" where
  [repo_def]: "findInvoiceByTokenHash h d = select_one (\<lambda>r. bc_token_hash (inv_confirmation r) = Some h) (t_invoices d)"

definition unconfirmed :: "string \<Rightarrow> invoice \<Rightarrow> bool" where
  "unconfirmed i r \<longleftrightarrow> inv_id r = i \<and> bc_confirmed_at (inv_confirmation r) = None"

definition mark_confirmed :: "int \<Rightarrow> string \<Rightarrow> string \<Rightarrow> invoice \<Rightarrow> invoice" where
  "mark_confirmed now ip ua r =
     r\<lparr>inv_confirmation := (inv_confirmation r)\<lparr>bc_confirmed_at := Some now, bc_ip := Some ip, bc_user_agent := Some ua,
         bc_efris_verified_at := Some now\<rparr>,
       inv_status := Inv_buyer_confirmed, inv_updated_at := now\<rparr>"

definition confirmInvoiceWithClient :: "int \<Rightarrow> string \<Rightarrow> string \<Rightarrow> string \<Rightarrow> db \<Rightarrow> nat \<times> db" where
  [repo_def]: "confirmInvoiceWithClient now i ip ua d =
     (length (filter (unconfirmed i) (t_invoices d)),
      d\<lparr>t_invoices := update_where (unconfirmed i) (mark_confirmed now ip ua) (t_invoices d)\<rparr>)"

record confirmation_page =
  pg_invoice_number :: string
  pg_supplier_name :: "string option"
  pg_buyer_name :: string
  pg_face_value :: js_number
  pg_due_date :: int
  pg_description :: "string option"

definition findInvoiceForConfirmationPage :: "string \<Rightarrow> db \<Rightarrow> (invoice \<times> supplier \<times> buyer) option" where
  [repo_def]: "findInvoiceForConfirmationPage i d =
     (case Invoices.findInvoiceById i d of
        None \<Rightarrow> None
      | Some r \<Rightarrow> (case (findSupplierById (inv_supplier r) d, findBuyerWithLimits (inv_buyer r) d) of
          (Some s, Some b) \<Rightarrow> Some (r, s, b) | _ \<Rightarrow> None))"

definition findBuyerEncryptedContact :: "string \<Rightarrow> db \<Rightarrow> buyer option" where
  [repo_def]: "findBuyerEncryptedContact b d = select_one (\<lambda>r. buy_id r = b) (t_buyers d)"

definition hour_ms :: int where "hour_ms = 3600000"

definition pending_reminder :: "int \<Rightarrow> int \<Rightarrow> int \<Rightarrow> db \<Rightarrow> invoice \<Rightarrow> bool" where
  "pending_reminder now minHours maxHours d r \<longleftrightarrow>
     inv_status r = Inv_submitted \<and> bc_confirmed_at (inv_confirmation r) = None
     \<and> inv_created_at r \<le> now - minHours * hour_ms \<and> now - maxHours * hour_ms < inv_created_at r
     \<and> list_ex (\<lambda>b. buy_id b = inv_buyer r) (t_buyers d)"

definition findInvoicesPendingReminder :: "int \<Rightarrow> int \<Rightarrow> int \<Rightarrow> db \<Rightarrow> invoice list" where
  [repo_def]: "findInvoicesPendingReminder now minHours maxHours d =
     filter (pending_reminder now minHours maxHours d) (t_invoices d)"

definition hasReminderBeenSent :: "string \<Rightarrow> string \<Rightarrow> db \<Rightarrow> bool" where
  [repo_def]: "hasReminderBeenSent i action d \<longleftrightarrow>
     0 < length (filter (\<lambda>e. aud_record e = Some i \<and> aud_action e = action) (t_audit d))"

definition createDisputeWithClient :: "int \<Rightarrow> string \<Rightarrow> string \<Rightarrow> string \<Rightarrow> string \<Rightarrow> string \<Rightarrow> db \<Rightarrow> ris_error + invoice_dispute \<times> db" where
  [repo_def]: "createDisputeWithClient now newId i b reason disputeType d =
     (let row = \<lparr>idp_id = newId, idp_invoice = i, idp_buyer = b, idp_reason = reason, idp_type = disputeType,
                 idp_status = ''open'', idp_created_at = now\<rparr>
      in if list_ex (\<lambda>x. idp_id x = newId) (t_invoice_disputes d) then Inl (DbError ''23505'')
         else if \<not> list_ex (\<lambda>r. inv_id r = i) (t_invoices d) \<or> \<not> list_ex (\<lambda>r. buy_id r = b) (t_buyers d)
         then Inl (DbError ''23503'')
         else Inr (row, d\<lparr>t_invoice_disputes := t_invoice_disputes d @ [row]\<rparr>))"

section \<open>Tokens\<close>

definition queueConfirmationEmail :: "string \<Rightarrow> string \<Rightarrow> string \<Rightarrow> unit service" where
  "queueConfirmationEmail invoiceId buyerId rawToken =
     bindS (queryS (findBuyerEncryptedContact buyerId)) (\<lambda>buyer.
     whenS (buyer \<noteq> None)
       (enqueueS Verification_notification ''send-buyer-confirmation-email''
          [(''invoiceId'', JStr invoiceId), (''buyerId'', JStr buyerId), (''token'', JStr rawToken)]))"

definition token_expiry :: "int \<Rightarrow> int" where
  "token_expiry now = now + 48 * 60 * 60 * 1000"

definition generateConfirmationToken :: "(string \<Rightarrow> string) \<Rightarrow> string \<Rightarrow> string \<Rightarrow> string \<Rightarrow> string \<Rightarrow> string \<Rightarrow> string service" where
  "generateConfirmationToken hashToken rawToken invoiceId buyerId ip ua =
     bindS nowS (\<lambda>now.
     thenS (transactionS
       (thenS (execS (storeConfirmationTokenWithClient now invoiceId (hashToken rawToken) (token_expiry now)))
          (createAuditEntry (audit_req None ''CONFIRMATION_TOKEN_GENERATED'' ''invoices'' invoiceId None
             [(''buyerId'', JStr buyerId), (''tokenExpiresAt'', JInt (token_expiry now))] (Some ip) (Some ua)))))
    (thenS (queueConfirmationEmail invoiceId buyerId rawToken)
       (returnS rawToken)))"

definition validateToken :: "(string \<Rightarrow> string) \<Rightarrow> string \<Rightarrow> invoice service" where
  "validateToken hashToken rawToken =
     bindS (queryS (findInvoiceByTokenHash (hashToken rawToken))) (\<lambda>found.
     bindS (requireS found (NotFoundError ''ConfirmationToken'' ''provided'')) (\<lambda>invoice.
     thenS (guardS (bc_confirmed_at (inv_confirmation invoice) = None) (BusinessRuleError ''TOKEN_ALREADY_USED''))
    (bindS (requireS (bc_token_expires_at (inv_confirmation invoice)) (BusinessRuleError ''TOKEN_EXPIRED'')) (\<lambda>expiresAt.
     bindS nowS (\<lambda>now.
     thenS (guardS (now \<le> expiresAt) (BusinessRuleError ''TOKEN_EXPIRED''))
       (returnS invoice))))))"

definition getConfirmationPageData :: "(string \<Rightarrow> string) \<Rightarrow> string \<Rightarrow> confirmation_page service" where
  "getConfirmationPageData hashToken rawToken =
     bindS (validateToken hashToken rawToken) (\<lambda>invoice.
     bindS (queryS (findInvoiceForConfirmationPage (inv_id invoice))) (\<lambda>row.
     bindS (requireS row (NotFoundError ''Invoice'' (inv_id invoice))) (\<lambda>(r, s, b).
     returnS \<lparr>pg_invoice_number = inv_number r, pg_supplier_name = sup_company_name s, pg_buyer_name = buy_company_name b,
       pg_face_value = js_Number (inv_face_value r), pg_due_date = inv_due_date r,
       pg_description = itk_description (inv_intake r)\<rparr>)))"

section \<open>Confirmation\<close>

record confirmation_request =
  cr_invoice_is_valid :: bool
  cr_amount_is_correct :: bool
  cr_due_date_is_correct :: bool
  cr_agrees_to_pay_ris :: bool

definition missing_fields :: "confirmation_request \<Rightarrow> string list" where
  "missing_fields c =
     (if cr_invoice_is_valid c then [] else [''invoice_is_valid''])
     @ (if cr_amount_is_correct c then [] else [''amount_is_correct''])
     @ (if cr_due_date_is_correct c then [] else [''due_date_is_correct''])
     @ (if cr_agrees_to_pay_ris c then [] else [''agrees_to_pay_ris''])"

definition validateConfirmationFields :: "confirmation_request \<Rightarrow> ris_error + unit" where
  "validateConfirmationFields c =
     (if 0 < length (missing_fields c) then Inl (BusinessRuleError ''CONFIRMATION_INCOMPLETE'') else Inr ())"

definition verifyEfris :: "efris_provider \<Rightarrow> invoice \<Rightarrow> unit service" where
  "verifyEfris provider invoice =
     (case bc_efris_ref (inv_confirmation invoice) of
        None \<Rightarrow> throwS (BusinessRuleError ''EFRIS_NOT_VERIFIED'')
      | Some ref \<Rightarrow>
          if ref = [] then throwS (BusinessRuleError ''EFRIS_NOT_VERIFIED'')
          else bindS nowS (\<lambda>now.
               bindS (liftS (provider now ref (inv_face_value invoice))) (\<lambda>result.
                 guardS (er_verified result) (BusinessRuleError ''EFRIS_NOT_VERIFIED''))))"

definition runConfirmationTx :: "string \<Rightarrow> string \<Rightarrow> json_obj \<Rightarrow> string option \<Rightarrow> string \<Rightarrow> string \<Rightarrow> unit service" where
  "runConfirmationTx invoiceId auditAction auditMetadata actor ip ua =
     transactionS
      (bindS nowS (\<lambda>now.
       bindS (returningS (\<lambda>d. Inr (confirmInvoiceWithClient now invoiceId ip ua d))) (\<lambda>rowCount.
       thenS (guardS (rowCount \<noteq> 0) (BusinessRuleError ''TOKEN_ALREADY_USED''))
         (createAuditEntry (audit_req actor auditAction ''invoices'' invoiceId (Some [(''status'', JStr ''submitted'')])
            auditMetadata (Some ip) (Some ua))))))"

definition queueRiskScoring :: "string \<Rightarrow> unit service" where
  "queueRiskScoring invoiceId = enqueueS Verification_scoring ''score-invoice'' [(''invoiceId'', JStr invoiceId)]"

definition confirmInvoice :: "(string \<Rightarrow> string) \<Rightarrow> efris_provider \<Rightarrow> string \<Rightarrow> confirmation_request \<Rightarrow> string \<Rightarrow> string \<Rightarrow> string service" where
  "confirmInvoice hashToken provider rawToken confirmation ip ua =
     bindS (validateToken hashToken rawToken) (\<lambda>invoice.
     thenS (liftS (validateConfirmationFields confirmation))
    (thenS (verifyEfris provider invoice)
    (thenS (runConfirmationTx (inv_id invoice) ''BUYER_CONFIRMED''
              [(''status'', JStr ''buyer_confirmed''), (''buyerIp'', JStr ip)] None ip ua)
    (thenS (queueRiskScoring (inv_id invoice))
       (returnS (inv_id invoice))))))"

section \<open>Resending and reminders\<close>

definition validateInvoiceForResend :: "invoice \<Rightarrow> ris_error + unit" where
  "validateInvoiceForResend invoice =
     (if inv_status invoice \<noteq> Inv_submitted then Inl (BusinessRuleError ''INVOICE_NOT_SUBMITTED'')
      else if bc_confirmed_at (inv_confirmation invoice) \<noteq> None then Inl (BusinessRuleError ''TOKEN_ALREADY_USED'')
      else Inr ())"

definition resendConfirmation :: "(string \<Rightarrow> string) \<Rightarrow> string \<Rightarrow> string \<Rightarrow> string \<Rightarrow> string \<Rightarrow> string \<Rightarrow> unit service" where
  "resendConfirmation hashToken rawToken invoiceId userId ip ua =
     bindS (queryS (Invoices.findInvoiceById invoiceId)) (\<lambda>found.
     bindS (requireS found (NotFoundError ''Invoice'' invoiceId)) (\<lambda>invoice.
     thenS (liftS (validateInvoiceForResend invoice))
    (thenS (generateConfirmationToken hashToken rawToken invoiceId (inv_buyer invoice) ip ua)
       (createAuditEntry (audit_req (Some userId) ''CONFIRMATION_RESENT'' ''invoices'' invoiceId None
          [(''resentBy'', JStr userId)] (Some ip) (Some ua))))))"

definition reminder_entry :: "string \<Rightarrow> int \<Rightarrow> string \<Rightarrow> audit_entry" where
  "reminder_entry action minHours i =
     audit_req None action ''invoices'' i None
       [(''reminderType'', JStr action), (''hoursSinceSubmission'', JInt minHours)] (Some ''system'') (Some ''system'')"

definition remind_invoice :: "int \<Rightarrow> string \<Rightarrow> invoice \<Rightarrow> unit service" where
  "remind_invoice minHours action invoice =
     bindS (queryS (hasReminderBeenSent (inv_id invoice) action)) (\<lambda>alreadySent.
     if alreadySent then returnS ()
     else thenS (enqueueS Verification_notification ''send-confirmation-reminder''
                   [(''invoiceId'', JStr (inv_id invoice)), (''buyerId'', JStr (inv_buyer invoice)), (''reminderType'', JStr action)])
            (createAuditEntry (reminder_entry action minHours (inv_id invoice))))"

definition processReminderWindow :: "int \<Rightarrow> int \<Rightarrow> string \<Rightarrow> unit service" where
  "processReminderWindow minHours maxHours action =
     bindS nowS (\<lambda>now.
     bindS (queryS (findInvoicesPendingReminder now minHours maxHours)) (\<lambda>invoices.
       forS (remind_invoice minHours action) invoices))"

definition overdue_entry :: "invoice \<Rightarrow> audit_entry" where
  "overdue_entry r =
     audit_req None ''CONFIRMATION_OVERDUE'' ''invoices'' (inv_id r) None [(''invoiceNumber'', JStr (inv_number r))]
       (Some ''system'') (Some ''system'')"

definition flag_overdue :: "invoice \<Rightarrow> unit service" where
  "flag_overdue invoice =
     bindS (queryS (hasReminderBeenSent (inv_id invoice) ''CONFIRMATION_OVERDUE'')) (\<lambda>alreadyFlagged.
     if alreadyFlagged then returnS ()
     else thenS (createAuditEntry (overdue_entry invoice))
            (enqueueS Verification_notification ''notify-credit-officer-overdue''
               [(''invoiceId'', JStr (inv_id invoice)), (''invoiceNumber'', JStr (inv_number invoice))]))"

definition processOverdueWindow :: "unit service" where
  "processOverdueWindow =
     bindS nowS (\<lambda>now.
     bindS (queryS (findInvoicesPendingReminder now 168 720)) (\<lambda>invoices. forS flag_overdue invoices))"

definition processReminders :: "unit service" where
  "processReminders =
     thenS (processReminderWindow 48 120 ''CONFIRMATION_REMINDER_T2'')
    (thenS (processReminderWindow 120 168 ''CONFIRMATION_REMINDER_T5'')
       processOverdueWindow)"

section \<open>Disputes\<close>

definition validateTokenForDispute :: "(string \<Rightarrow> string) \<Rightarrow> string \<Rightarrow> invoice service" where
  "validateTokenForDispute hashToken rawToken =
     bindS (queryS (findInvoiceByTokenHash (hashToken rawToken))) (\<lambda>found.
     bindS (requireS found (NotFoundError ''ConfirmationToken'' ''provided'')) (\<lambda>invoice.
     thenS (guardS (inv_status invoice = Inv_submitted) (BusinessRuleError ''INVOICE_NOT_SUBMITTED''))
       (returnS invoice)))"

definition queueDisputeNotification :: "string \<Rightarrow> string \<Rightarrow> unit service" where
  "queueDisputeNotification invoiceId disputeId =
     enqueueS Verification_notification ''invoice-dispute''
       [(''invoiceId'', JStr invoiceId), (''disputeId'', JStr disputeId), (''recipients'', JArr [JStr ''credit_officer''])]"

text \<open>The notification is queued after \<open>COMMIT\<close>: the \<open>ROLLBACK\<close> of the handler then undoes nothing.\<close>

definition raiseDispute :: "(string \<Rightarrow> string) \<Rightarrow> string \<Rightarrow> string \<Rightarrow> string \<Rightarrow> string option \<Rightarrow> string \<Rightarrow> string \<Rightarrow> invoice_dispute service" where
  "raiseDispute hashToken newId rawToken reason dispute_type ip ua =
     bindS (validateTokenForDispute hashToken rawToken) (\<lambda>invoice.
     let ty = (case dispute_type of None \<Rightarrow> ''general'' | Some t \<Rightarrow> t)
     in bindS (transactionS
          (bindS nowS (\<lambda>now.
           bindS (returningS (createDisputeWithClient now newId (inv_id invoice) (inv_buyer invoice) reason ty)) (\<lambda>dispute.
           thenS (createAuditEntry (audit_req None ''INVOICE_DISPUTED'' ''invoice_disputes'' (idp_id dispute) None
                    [(''invoiceId'', JStr (inv_id invoice)), (''disputeType'', JStr ty)] (Some ip) (Some ua)))
             (returnS dispute))))) (\<lambda>dispute.
        thenS (queueDisputeNotification (inv_id invoice) (idp_id dispute)) (returnS dispute)))"

end
