(* ===== verification/Intake_Props.thy ===== *)
theory Intake_Props
  imports Verification
begin

text \<open>
  Properties of the intake of invoices: what \<open>submitInvoice\<close> decides and writes, drafts, the buyer's confirmation, reminders,
  and the invariant of the \<open>invoices\<close> table along every run of the two services.
\<close>

section \<open>Quotients of doubles\<close>

text \<open>
  The rounded-up quotient of two numbers is the exact one while the dividend is below \<open>2 ^ 52\<close>: the rounding
  error of the division is smaller than the distance of the quotient to the next integer.
\<close>

lemma ceil_quotient_exact:
  assumes "\<bar>a\<bar> < 2 ^ 52" and "0 < b" and "b < 2 ^ 50"
  shows "ceil_quotient a b = \<lceil>of_int a / of_int b :: rat\<rceil>"
proof -
  define q :: rat where "q = of_int a / of_int b"
  define n where "n = \<lceil>q\<rceil>"
  have b: "(0 :: rat) < of_int b" using assms(2) by simp
  show ?thesis
  proof (cases "q = of_int n")
    case True
    have "a = n * b" using True b by (simp add: q_def field_simps) (metis of_int_eq_iff of_int_mult)
    then have "\<bar>n\<bar> \<le> \<bar>a\<bar>" using assms(2) by (simp add: abs_mult mult_le_cancel_left1)
    then have "round_double q = q" using assms(1) round_double_int [of n] True by simp
    then show ?thesis by (simp add: ceil_quotient_def q_def)
  next
    case False
    have q: "of_int n - 1 < q" "q < of_int n"
      using ceiling_correct [of q] False unfolding n_def by linarith+
    have num: "q * of_int b = of_int a" using b by (simp add: q_def)
    have gap: "of_int k * of_int b \<le> (of_int a :: rat) - 1" if "of_int k < q" for k
    proof -
      have "of_int (k * b) < (of_int a :: rat)" using that b by (simp add: num [symmetric])
      then show ?thesis by (simp only: of_int_less_iff) (metis of_int_le_iff of_int_1 of_int_diff of_int_mult zle_diff1_eq)
    qed
    have low: "(of_int n - 1) * of_int b \<le> (of_int a :: rat) - 1" using gap [of "n - 1"] q(1) by simp
    have "of_int a < of_int n * (of_int b :: rat)" using q(2) b by (simp add: num [symmetric])
    then have high: "(of_int a :: rat) + 1 \<le> of_int n * of_int b"
      by (metis of_int_less_iff of_int_mult of_int_le_iff of_int_1 of_int_add zless_imp_add1_zle)
    have ab: "\<bar>q\<bar> * of_int b = \<bar>of_int a\<bar>" using b num by (metis abs_mult abs_of_pos)
    have "\<bar>round_double q - q\<bar> \<le> \<bar>q\<bar> * pow2 (- 53) + pow2 (- 60)"
      using round_double_err [of q] pow2_m1075_le by linarith
    then have "\<bar>round_double q - q\<bar> * of_int b \<le> (\<bar>q\<bar> * pow2 (- 53) + pow2 (- 60)) * of_int b"
      using b by (simp add: mult_right_mono)
    also have "\<dots> = \<bar>of_int a\<bar> * pow2 (- 53) + of_int b * pow2 (- 60)"
      by (simp add: ab [symmetric] algebra_simps)
    also have "\<dots> < 1"
    proof -
      have "\<bar>of_int a :: rat\<bar> < 2 ^ 52" using assms(1) by (metis of_int_abs of_int_less_iff of_int_numeral of_int_power)
      moreover have "(of_int b :: rat) < 2 ^ 50" using assms(3) by (metis of_int_less_iff of_int_numeral of_int_power)
      ultimately show ?thesis by (simp add: pow2_def)
    qed
    finally have "\<bar>round_double q * of_int b - of_int a\<bar> < 1"
      using b by (simp add: num [symmetric] left_diff_distrib [symmetric] abs_mult)
    then have "(of_int n - 1) * of_int b < round_double q * of_int b" "round_double q * of_int b < of_int n * of_int b"
      using low high by linarith+
    then have "of_int n - 1 < round_double q" "round_double q < of_int n" using b by simp_all
    then have "\<lceil>round_double q\<rceil> = n" by (simp add: ceiling_eq_iff)
    then show ?thesis by (simp add: ceil_quotient_def q_def n_def)
  qed
qed

lemma computeTenorDays_exact:
  "\<bar>dueDate - now\<bar> < 2 ^ 52 \<Longrightarrow> computeTenorDays now dueDate = \<lceil>of_int (dueDate - now) / of_int day_ms :: rat\<rceil>"
  unfolding computeTenorDays_def by (rule ceil_quotient_exact) (simp_all add: day_ms_def)

section \<open>Submission\<close>

lemma throw_never [simp]: "(throwS e w = (Inr x, w')) = False"
  by simp

lemma validateSupplierActive_succ [svc_succ]:
  "validateSupplierActive u rs ip ua w = (Inr (s, rs'), w') \<longleftrightarrow>
     findSupplierByUserId u (db w) = Some s \<and> sup_kyc_status s = Kyc_approved \<and> w' = w
     \<and> rs' = rs @ [check_result ''supplier_active_check'' True ''SUPPLIER_NOT_APPROVED'' None]"
  by (auto simp: validateSupplierActive_def svc_succ Let_def split: option.splits)

lemma validateNoDuplicate_succ [svc_succ]:
  "validateNoDuplicate n s u rs ip ua w = (Inr rs', w') \<longleftrightarrow>
     findInvoiceByNumberAndSupplier n s (db w) = None \<and> w' = w
     \<and> rs' = rs @ [check_result ''duplicate_check'' True ''DUPLICATE_INVOICE'' None]"
  by (auto simp: validateNoDuplicate_def svc_succ Let_def split: option.splits if_splits)

lemma validateBuyerEligibility_succ [svc_succ]:
  "validateBuyerEligibility i u rs ip ua w = (Inr (b, rs'), w') \<longleftrightarrow>
     findBuyerWithLimits i (db w) = Some b \<and> buy_is_active b \<and> w' = w
     \<and> rs' = rs @ [check_result ''buyer_eligibility'' True ''BUYER_NOT_APPROVED'' None]"
  by (auto simp: validateBuyerEligibility_def svc_succ Let_def split: option.splits)

text \<open>The conditions of the two money-laundering checks, on the rows of the database.\<close>

definition structuring :: "invoice_env \<Rightarrow> int \<Rightarrow> string \<Rightarrow> string \<Rightarrow> int \<Rightarrow> db \<Rightarrow> bool" where
  "structuring env now s b v d \<longleftrightarrow>
     v < ie_aml_threshold env \<and> ie_aml_threshold env \<le> fst (get30DayRollingTotal now s b d) + v"

definition velocity_spike :: "int \<Rightarrow> string \<Rightarrow> db \<Rightarrow> bool" where
  "velocity_spike now s d \<longleftrightarrow>
     6 \<le> fst (get6MonthVelocityAverage now s d)
     \<and> 3 * ceil_quotient (fst (get6MonthVelocityAverage now s d)) 6 \<le> getCurrentMonthCount now s d"

lemma auditAndThrow_never [simp]: "(auditAndThrowCompliance a u s dt ip ua w = (Inr x, w')) = False"
  by (simp add: auditAndThrowCompliance_def thenS_succ)

lemma checkStructuring_succ [svc_succ]:
  "checkStructuring env s b v u ip ua w = (Inr x, w') \<longleftrightarrow> w' = w \<and> \<not> structuring env (clock w) s b v (db w)"
  by (auto simp: checkStructuring_def structuring_def svc_succ Let_def split: prod.splits)

lemma checkVelocitySpike_succ [svc_succ]:
  "checkVelocitySpike s u ip ua w = (Inr x, w') \<longleftrightarrow> w' = w \<and> \<not> velocity_spike (clock w) s (db w)"
  by (auto simp: checkVelocitySpike_def velocity_spike_def svc_succ Let_def split: prod.splits if_splits)

text \<open>The five results of a passed validation, in order.\<close>

definition passed_results :: "invoice_env \<Rightarrow> int \<Rightarrow> int \<Rightarrow> buyer \<Rightarrow> validation_result list" where
  "passed_results env tenor v b =
     [check_result ''supplier_active_check'' True ''SUPPLIER_NOT_APPROVED'' None,
      check_result ''duplicate_check'' True ''DUPLICATE_INVOICE'' None,
      check_result ''buyer_eligibility'' True ''BUYER_NOT_APPROVED'' None,
      check_result ''tenor_check'' True ''TENOR_OUT_OF_RANGE''
        (Some [(''actual_days'', JInt tenor), (''min_days'', JInt (ie_min_tenor env)), (''max_days'', JInt (ie_max_tenor env))]),
      check_result ''credit_limit_check'' True ''CREDIT_LIMIT_EXCEEDED''
        (Some [(''requested'', JStr (show_int v)), (''used'', JStr (show_int (buy_used_limit b))),
               (''limit'', JStr (show_int (buy_approved_limit b))),
               (''remaining'', JStr (show_int (buy_approved_limit b - buy_used_limit b)))])]"

definition acceptable :: "invoice_env \<Rightarrow> string \<Rightarrow> invoice_submission \<Rightarrow> int \<Rightarrow> int \<Rightarrow> db \<Rightarrow> supplier \<Rightarrow> buyer \<Rightarrow> bool" where
  "acceptable env u data v now d s b \<longleftrightarrow>
     findSupplierByUserId u d = Some s \<and> sup_kyc_status s = Kyc_approved
     \<and> findInvoiceByNumberAndSupplier (is_invoice_number data) (sup_id s) d = None
     \<and> findBuyerWithLimits (is_buyer_id data) d = Some b \<and> buy_is_active b
     \<and> ie_min_tenor env \<le> computeTenorDays now (is_due_date data) \<and> computeTenorDays now (is_due_date data) \<le> ie_max_tenor env
     \<and> v + buy_used_limit b \<le> buy_approved_limit b
     \<and> \<not> structuring env now (sup_id s) (is_buyer_id data) v d \<and> \<not> velocity_spike now (sup_id s) d"

lemma validateTenor_succ [svc_succ]:
  "validateTenor env now due rs = Inr (t, rs') \<longleftrightarrow>
     t = computeTenorDays now due \<and> ie_min_tenor env \<le> t \<and> t \<le> ie_max_tenor env
     \<and> rs' = rs @ [check_result ''tenor_check'' True ''TENOR_OUT_OF_RANGE''
        (Some [(''actual_days'', JInt t), (''min_days'', JInt (ie_min_tenor env)), (''max_days'', JInt (ie_max_tenor env))])]"
  by (auto simp: validateTenor_def Let_def)

lemma validateCreditLimit_succ [svc_succ]:
  "validateCreditLimit v b rs = Inr rs' \<longleftrightarrow>
     v + buy_used_limit b \<le> buy_approved_limit b
     \<and> rs' = rs @ [check_result ''credit_limit_check'' True ''CREDIT_LIMIT_EXCEEDED''
        (Some [(''requested'', JStr (show_int v)), (''used'', JStr (show_int (buy_used_limit b))),
               (''limit'', JStr (show_int (buy_approved_limit b))),
               (''remaining'', JStr (show_int (buy_approved_limit b - buy_used_limit b)))])]"
  by (auto simp: validateCreditLimit_def Let_def)

lemma validate_submission_succ [svc_succ]:
  "validate_submission env u data v ip ua w = (Inr (s, tenor, rs), w') \<longleftrightarrow>
     (\<exists>b. acceptable env u data v (clock w) (db w) s b \<and> tenor = computeTenorDays (clock w) (is_due_date data)
        \<and> rs = passed_results env tenor v b \<and> w' = w)"
  unfolding validate_submission_def acceptable_def passed_results_def
  by (auto simp: svc_succ split: prod.splits)


lemma insert_invoice_succ:
  "insert_invoice r d = Inr d' \<longleftrightarrow>
     invoice_types_ok r \<and> invoice_checks_ok r
     \<and> (\<forall>q \<in> set (t_invoices d). inv_id q \<noteq> inv_id r \<and> (inv_number q \<noteq> inv_number r \<or> inv_supplier q \<noteq> inv_supplier r))
     \<and> list_ex (\<lambda>s. sup_id s = inv_supplier r) (t_suppliers d) \<and> list_ex (\<lambda>b. buy_id b = inv_buyer r) (t_buyers d)
     \<and> d' = d\<lparr>t_invoices := t_invoices d @ [r]\<rparr>"
  by (auto simp: insert_invoice_def list_ex_iff)





text \<open>The jobs of an accepted submission.\<close>

definition submission_jobs :: "invoice_env \<Rightarrow> string \<Rightarrow> supplier \<Rightarrow> invoice_submission \<Rightarrow> int \<Rightarrow> (string \<times> json_obj) list" where
  "submission_jobs env i s data v =
     (if ie_aml_threshold env < v
      then [(''notify-compliance-aml'', [(''invoiceId'', JStr i), (''faceValue'', JStr (show_int v))])] else [])
     @ [(''send-buyer-confirmation'', [(''invoiceId'', JStr i), (''buyerId'', JStr (is_buyer_id data))]),
        (''assessment_sla_reminder'', [(''invoiceId'', JStr i), (''supplierId'', JStr (sup_id s)), (''tier'', JStr ''warn_day_3'')]),
        (''assessment_sla_overdue'', [(''invoiceId'', JStr i), (''supplierId'', JStr (sup_id s)), (''tier'', JStr ''overdue_day_7'')])]
     @ (case is_funding_timeline_days data of
          Some n \<Rightarrow> if 0 < n then [(''funding_timeline_due'',
             [(''invoiceId'', JStr i), (''supplierId'', JStr (sup_id s)), (''timelineDays'', JInt n)])] else []
        | None \<Rightarrow> [])"

definition notification :: "string \<times> json_obj \<Rightarrow> job" where
  "notification j = \<lparr>job_ref = Invoices_notification, job_name = fst j, job_data = snd j\<rparr>"

definition notified :: "(string \<times> json_obj) list \<Rightarrow> world \<Rightarrow> world" where
  "notified js w = (if queue_set w Invoices_notification then w\<lparr>jobs := jobs w @ map notification js\<rparr> else w)"

lemma notified_simps [simp]:
  "notified [] w = w" "notified ks (notified js w) = notified (js @ ks) w"
  "db (notified js w) = db w" "redis_up (notified js w) = redis_up w"
  "queue_set (notified js w) = queue_set w"
  by (simp_all add: notified_def)


lemma run_notified:
  "queue_set w Invoices_notification \<longrightarrow> redis_up w \<Longrightarrow>
     enqueueS Invoices_notification n dat w = (Inr (), notified [(n, dat)] w)"
  by (auto simp: run_enqueue notified_def notification_def)

lemmas notify_defs = notify_submitted_def notifyAmlCompliance_def queueBuyerConfirmation_def scheduleAssessmentReminders_def
  scheduleFundingTimelineReminder_def submission_jobs_def


lemma run_notify_submitted:
  "queue_set w Invoices_notification \<longrightarrow> redis_up w \<Longrightarrow>
     notify_submitted env i s data v w = (Inr (), notified (submission_jobs env i s data v) w)"
  unfolding notify_defs by (cases "is_funding_timeline_days data") (simp_all add: run_notified)


section \<open>The decision of a submission\<close>

text \<open>
  The rules as one decision on the database and exact integers, first violated rule first. The tenor and the monthly
  average are the rounded-up rational quotients.
\<close>

definition submission_verdict :: "invoice_env \<Rightarrow> string \<Rightarrow> invoice_submission \<Rightarrow> int \<Rightarrow> int \<Rightarrow> db \<Rightarrow> string option" where
  "submission_verdict env u data v now d =
     (case select_one (\<lambda>r. sup_user r = u) (t_suppliers d) of
        None \<Rightarrow> Some ''SUPPLIER_NOT_APPROVED''
      | Some s \<Rightarrow>
     if sup_kyc_status s \<noteq> Kyc_approved then Some ''SUPPLIER_NOT_APPROVED''
     else if list_ex (\<lambda>r. inv_number r = is_invoice_number data \<and> inv_supplier r = sup_id s) (t_invoices d)
     then Some ''DUPLICATE_INVOICE''
     else (case select_one (\<lambda>r. buy_id r = is_buyer_id data) (t_buyers d) of
        None \<Rightarrow> Some ''BUYER_NOT_APPROVED''
      | Some b \<Rightarrow>
     if \<not> buy_is_active b then Some ''BUYER_NOT_APPROVED''
     else if \<not> (ie_min_tenor env \<le> \<lceil>of_int (is_due_date data - now) / of_int day_ms :: rat\<rceil>
               \<and> \<lceil>of_int (is_due_date data - now) / of_int day_ms :: rat\<rceil> \<le> ie_max_tenor env) then Some ''TENOR_OUT_OF_RANGE''
     else if buy_approved_limit b < v + buy_used_limit b then Some ''CREDIT_LIMIT_EXCEEDED''
     else if structuring env now (sup_id s) (is_buyer_id data) v d then Some ''STRUCTURING_RISK_DETECTED''
     else let n = fst (get6MonthVelocityAverage now (sup_id s) d)
       in if 6 \<le> n \<and> 3 * \<lceil>of_int n / 6 :: rat\<rceil> \<le> getCurrentMonthCount now (sup_id s) d
          then Some ''VELOCITY_SPIKE_DETECTED'' else None))"

text \<open>Logging under a known user returns.\<close>

lemma run_audits:
  "(\<And>r. aud_user (f r) = u) \<Longrightarrow> audit_ok (db w) u \<Longrightarrow>
     forS (\<lambda>r. createAuditEntry (f r)) rs w = (Inr (), w\<lparr>db := (db w)\<lparr>t_audit := t_audit (db w) @ map f rs\<rparr>\<rparr>)"
  by (induction rs arbitrary: w) auto

lemma validation_entry_user [simp]: "aud_user (validation_entry u i ip ua r) = Some u"
  by (simp add: validation_entry_def)

text \<open>A run that throws \<open>e\<close> and writes nothing but audit entries.\<close>

definition refused :: "ris_error \<Rightarrow> world \<Rightarrow> (ris_error + 'a) \<times> world \<Rightarrow> bool" where
  "refused e w rw \<longleftrightarrow> (\<exists>es. rw = (Inl e, w\<lparr>db := (db w)\<lparr>t_audit := t_audit (db w) @ es\<rparr>\<rparr>))"

lemma refused_same [intro]: "refused e w (Inl e, w)"
  unfolding refused_def by (rule exI [of _ "[]"]) simp

lemma refused_bind: "refused e w (m w) \<Longrightarrow> refused e w (bindS m f w)"
  by (auto simp: refused_def)

lemma refused_then: "refused e w (m w) \<Longrightarrow> refused e w (thenS m k w)"
  by (auto simp: refused_def)

lemma refused_log:
  "audit_ok (db w) (Some u) \<Longrightarrow> refused e w (thenS (logValidationResults u i rs ip ua) (throwS e) w)"
  unfolding refused_def logValidationResults_def
  by (rule exI) (simp add: run_audits [where u = "Some u"])

lemma refused_compliance:
  "audit_ok (db w) (Some u) \<Longrightarrow> refused (BusinessRuleError a) w (auditAndThrowCompliance a u s dt ip ua w)"
  unfolding refused_def auditAndThrowCompliance_def by (rule exI) simp

lemma supplier_refused:
  assumes "audit_ok (db w) (Some u)"
    and "\<And>s. findSupplierByUserId u (db w) = Some s \<Longrightarrow> sup_kyc_status s \<noteq> Kyc_approved"
  shows "refused (BusinessRuleError ''SUPPLIER_NOT_APPROVED'') w (validateSupplierActive u rs ip ua w)"
  using assms unfolding validateSupplierActive_def
  by (cases "findSupplierByUserId u (db w)") (simp_all add: Let_def refused_log)

lemma duplicate_refused:
  assumes "audit_ok (db w) (Some u)" and "findInvoiceByNumberAndSupplier n s (db w) \<noteq> None"
  shows "refused (BusinessRuleError ''DUPLICATE_INVOICE'') w (validateNoDuplicate n s u rs ip ua w)"
  using assms unfolding validateNoDuplicate_def by (auto simp: Let_def refused_log)

lemma buyer_refused:
  assumes "audit_ok (db w) (Some u)" and "\<And>b. findBuyerWithLimits i (db w) = Some b \<Longrightarrow> \<not> buy_is_active b"
  shows "refused (BusinessRuleError ''BUYER_NOT_APPROVED'') w (validateBuyerEligibility i u rs ip ua w)"
  using assms unfolding validateBuyerEligibility_def
  by (cases "findBuyerWithLimits i (db w)") (simp_all add: Let_def refused_log)

lemma structuring_refused:
  "audit_ok (db w) (Some u) \<Longrightarrow> structuring env (clock w) s b v (db w) \<Longrightarrow>
     refused (BusinessRuleError ''STRUCTURING_RISK_DETECTED'') w (checkStructuring env s b v u ip ua w)"
  by (cases "get30DayRollingTotal (clock w) s b (db w)")
    (simp add: checkStructuring_def structuring_def Let_def refused_compliance)

lemma spike_refused:
  "audit_ok (db w) (Some u) \<Longrightarrow> velocity_spike (clock w) s (db w) \<Longrightarrow>
     refused (BusinessRuleError ''VELOCITY_SPIKE_DETECTED'') w (checkVelocitySpike s u ip ua w)"
  by (cases "get6MonthVelocityAverage (clock w) s (db w)")
    (simp add: checkVelocitySpike_def velocity_spike_def Let_def mult.commute refused_compliance)

lemma refused_bind_run: "m w = (Inr x, w) \<Longrightarrow> refused e w (f x w) \<Longrightarrow> refused e w (bindS m f w)"
  by simp

lemma refused_then_run: "m w = (Inr x, w) \<Longrightarrow> refused e w (k w) \<Longrightarrow> refused e w (thenS m k w)"
  by simp

lemma run_validators:
  "findSupplierByUserId u (db w) = Some s \<Longrightarrow> sup_kyc_status s = Kyc_approved \<Longrightarrow>
     validateSupplierActive u rs ip ua w = (Inr (s, rs @ [check_result ''supplier_active_check'' True ''SUPPLIER_NOT_APPROVED'' None]), w)"
  "findInvoiceByNumberAndSupplier n i (db w) = None \<Longrightarrow>
     validateNoDuplicate n i u rs ip ua w = (Inr (rs @ [check_result ''duplicate_check'' True ''DUPLICATE_INVOICE'' None]), w)"
  "findBuyerWithLimits k (db w) = Some b \<Longrightarrow> buy_is_active b \<Longrightarrow>
     validateBuyerEligibility k u rs ip ua w = (Inr (b, rs @ [check_result ''buyer_eligibility'' True ''BUYER_NOT_APPROVED'' None]), w)"
  "\<not> structuring env (clock w) i k v (db w) \<Longrightarrow> checkStructuring env i k v u ip ua w = (Inr (), w)"
  by (simp_all add: svc_succ)

lemma six_month_count: "fst (get6MonthVelocityAverage now s d) \<le> int (length (t_invoices d))"
  by (simp add: get6MonthVelocityAverage_def Let_def)

lemma velocity_spike_exact:
  assumes "int (length (t_invoices d)) < 2 ^ 52"
  shows "velocity_spike now s d \<longleftrightarrow> 6 \<le> fst (get6MonthVelocityAverage now s d)
     \<and> 3 * \<lceil>of_int (fst (get6MonthVelocityAverage now s d)) / 6 :: rat\<rceil> \<le> getCurrentMonthCount now s d"
proof (cases "6 \<le> fst (get6MonthVelocityAverage now s d)")
  case True
  then have "\<bar>fst (get6MonthVelocityAverage now s d)\<bar> < 2 ^ 52" using six_month_count [of now s d] assms by simp
  then show ?thesis using ceil_quotient_exact [of "fst (get6MonthVelocityAverage now s d)" 6] by (simp add: velocity_spike_def)
qed (simp add: velocity_spike_def)

lemma duplicate_iff:
  "list_ex (\<lambda>r. inv_number r = n \<and> inv_supplier r = s) (t_invoices d) \<longleftrightarrow> findInvoiceByNumberAndSupplier n s d \<noteq> None"
  by (auto simp: findInvoiceByNumberAndSupplier_def select_one_None list_ex_iff)

text \<open>The decision in terms of the model's queries and double arithmetic.\<close>

lemma submission_verdict_model:
  assumes "\<bar>is_due_date data - now\<bar> < 2 ^ 52" "int (length (t_invoices d)) < 2 ^ 52"
  shows "submission_verdict env u data v now d =
    (case findSupplierByUserId u d of
       None \<Rightarrow> Some ''SUPPLIER_NOT_APPROVED''
     | Some s \<Rightarrow>
    if sup_kyc_status s \<noteq> Kyc_approved then Some ''SUPPLIER_NOT_APPROVED''
    else if findInvoiceByNumberAndSupplier (is_invoice_number data) (sup_id s) d \<noteq> None then Some ''DUPLICATE_INVOICE''
    else (case findBuyerWithLimits (is_buyer_id data) d of
       None \<Rightarrow> Some ''BUYER_NOT_APPROVED''
     | Some b \<Rightarrow>
    if \<not> buy_is_active b then Some ''BUYER_NOT_APPROVED''
    else if \<not> (ie_min_tenor env \<le> computeTenorDays now (is_due_date data) \<and> computeTenorDays now (is_due_date data) \<le> ie_max_tenor env)
    then Some ''TENOR_OUT_OF_RANGE''
    else if buy_approved_limit b < v + buy_used_limit b then Some ''CREDIT_LIMIT_EXCEEDED''
    else if structuring env now (sup_id s) (is_buyer_id data) v d then Some ''STRUCTURING_RISK_DETECTED''
    else if velocity_spike now (sup_id s) d then Some ''VELOCITY_SPIKE_DETECTED'' else None))"
  unfolding submission_verdict_def duplicate_iff computeTenorDays_exact [OF assms(1)] velocity_spike_exact [OF assms(2)] Let_def
    findSupplierByUserId_def findBuyerWithLimits_def ..

lemma validate_submission_refused:
  assumes ok: "audit_ok (db w) (Some u)"
    and small: "\<bar>is_due_date data - clock w\<bar> < 2 ^ 52" "int (length (t_invoices (db w))) < 2 ^ 52"
    and "submission_verdict env u data v (clock w) (db w) = Some c"
  shows "refused (BusinessRuleError c) w (validate_submission env u data v ip ua w)"
proof (cases "\<exists>s. findSupplierByUserId u (db w) = Some s \<and> sup_kyc_status s = Kyc_approved")
  case False
  then have "c = ''SUPPLIER_NOT_APPROVED''" using assms(4) unfolding submission_verdict_model [OF small] by (auto split: option.splits)
  moreover have "refused (BusinessRuleError ''SUPPLIER_NOT_APPROVED'') w (validateSupplierActive u [] ip ua w)"
    using False ok by (intro supplier_refused) auto
  ultimately show ?thesis unfolding validate_submission_def by (simp add: refused_bind)
next
  case True
  then obtain s where s: "findSupplierByUserId u (db w) = Some s" "sup_kyc_status s = Kyc_approved" by blast
  note v = assms(4) [unfolded submission_verdict_model [OF small] s option.case]
  show ?thesis
  proof (cases "findInvoiceByNumberAndSupplier (is_invoice_number data) (sup_id s) (db w) = None")
    case False
    then have "c = ''DUPLICATE_INVOICE''" using v by simp
    then show ?thesis unfolding validate_submission_def
      using s ok False by (simp add: run_validators refused_bind duplicate_refused)
  next
    case dup: True
    show ?thesis
    proof (cases "\<exists>b. findBuyerWithLimits (is_buyer_id data) (db w) = Some b \<and> buy_is_active b")
      case False
      then have "c = ''BUYER_NOT_APPROVED''" using v dup by (auto split: option.splits)
      moreover have "refused (BusinessRuleError ''BUYER_NOT_APPROVED'') w
          (validateBuyerEligibility (is_buyer_id data) u rs ip ua w)" for rs
        using False ok by (intro buyer_refused) auto
      ultimately show ?thesis unfolding validate_submission_def using s dup by (simp add: run_validators refused_bind)
    next
      case True
      then obtain b where "findBuyerWithLimits (is_buyer_id data) (db w) = Some b" "buy_is_active b" by blast
      then show ?thesis unfolding validate_submission_def
        using s dup v ok
        by (auto simp: run_validators validateTenor_def validateCreditLimit_def Let_def
            intro: refused_then structuring_refused spike_refused split: if_splits)
    qed
  qed
qed

lemma verdict_None_acceptable:
  assumes "\<bar>is_due_date data - now\<bar> < 2 ^ 52" "int (length (t_invoices d)) < 2 ^ 52"
    and "submission_verdict env u data v now d = None"
  shows "\<exists>s b. acceptable env u data v now d s b"
  using assms(3) unfolding submission_verdict_model [OF assms(1,2)] acceptable_def by (auto split: option.splits if_splits)

text \<open>What the columns require of a submission beyond the rules: sizes, signs, a fresh row id.\<close>

definition storable :: "string \<Rightarrow> invoice_submission \<Rightarrow> int \<Rightarrow> db \<Rightarrow> bool" where
  "storable i data v d \<longleftrightarrow> length (is_invoice_number data) \<le> 100 \<and> length (is_ura_efris_ref data) \<le> 50
     \<and> (case is_funding_timeline_days data of None \<Rightarrow> True | Some n \<Rightarrow> 0 < n) \<and> 0 < v \<and> v < 2 ^ 63
     \<and> \<not> list_ex (\<lambda>r. inv_id r = i) (t_invoices d)"

lemma insert_submitted_run:
  assumes "storable i data v (db w)" and "acceptable env u data v (clock w) (db w) s b"
  shows "\<exists>w1. insert_submitted (submit_params i u data v ip ua s tenor rs due) w = (Inr (), w1)
     \<and> t_users (db w1) = t_users (db w) \<and> audit_columns (db w1) = audit_columns (db w)
     \<and> queue_set w1 = queue_set w \<and> redis_up w1 = redis_up w"
proof -
  have "list_ex (\<lambda>x. sup_id x = sup_id s) (t_suppliers (db w))" "list_ex (\<lambda>x. buy_id x = is_buyer_id data) (t_buyers (db w))"
    using assms(2) by (auto simp: acceptable_def findSupplierByUserId_def findBuyerWithLimits_def list_ex_iff dest!: select_one_Some)
  moreover have "\<not> list_ex (\<lambda>q. inv_id q = i \<or> inv_number q = is_invoice_number data \<and> inv_supplier q = sup_id s) (t_invoices (db w))"
    using assms duplicate_iff [of "is_invoice_number data" "sup_id s" "db w"] by (auto simp: acceptable_def storable_def list_ex_iff)
  ultimately show ?thesis
    using assms(1) by (simp add: insert_submitted_def createInvoiceWithClient_def insert_invoice_def bigint_in_def submit_params_def
        storable_def invoice_types_ok_def invoice_checks_ok_def chk_buyer_confirmed_def new_invoice_def Let_def)
qed

lemma executeSubmitTransaction_run:
  assumes "storable i data v (db w)" and "acceptable env u data v (clock w) (db w) s b" and "audit_ok (db w) (Some u)"
  shows "\<exists>w1. executeSubmitTransaction env (submit_params i u data v ip ua s tenor rs due) w = (Inr (), w1)
     \<and> queue_set w1 = queue_set w \<and> redis_up w1 = redis_up w"
proof -
  let ?p = "submit_params i u data v ip ua s tenor rs due"
  obtain w1 where w1: "insert_submitted ?p w = (Inr (), w1)" "t_users (db w1) = t_users (db w)"
      "audit_columns (db w1) = audit_columns (db w)" "queue_set w1 = queue_set w" "redis_up w1 = redis_up w"
    using insert_submitted_run [OF assms(1,2)] by blast
  have "audit_ok (db w1) (Some u)" using assms(3) audit_ok_cong [OF w1(2,3)] by simp
  then show ?thesis
    using w1 by (cases "ie_aml_threshold env < v") (simp_all add: executeSubmitTransaction_def auditValidationResultsWithClient_def run_audits [where u = "Some u"]
        auditInvoiceSubmittedWithClient_def applyAmlFlagWithClient_def submitted_entry_def aml_entry_def submit_params_def
        setAmlFlagWithClient_def)
qed

lemma submission_decided:
  assumes "js_BigInt (is_face_value data) = Inr v" and "storable i data v (db w)" and "audit_ok (db w) (Some u)"
    and "\<bar>is_due_date data - clock w\<bar> < 2 ^ 52" "int (length (t_invoices (db w))) < 2 ^ 52"
    and "queue_set w Invoices_notification \<longrightarrow> redis_up w"
  shows "case submission_verdict env u data v (clock w) (db w) of
      Some c \<Rightarrow> refused (BusinessRuleError c) w (submitInvoice env i u data ip ua w)
    | None \<Rightarrow> \<exists>w'. submitInvoice env i u data ip ua w = (Inr i, w')"
proof (cases "submission_verdict env u data v (clock w) (db w)")
  case (Some c)
  then show ?thesis
    using validate_submission_refused [OF assms(3-5) Some] assms(1) by (simp add: submitInvoice_def refused_bind)
next
  case None
  obtain s b where a: "acceptable env u data v (clock w) (db w) s b" using verdict_None_acceptable [OF assms(4,5) None] by blast
  let ?tenor = "computeTenorDays (clock w) (is_due_date data)"
  have "validate_submission env u data v ip ua w = (Inr (s, ?tenor, passed_results env ?tenor v b), w)"
    using a by (auto simp: svc_succ)
  moreover have "addWorkingDays (clock w) ASSESSMENT_SLA_WORKING_DAYS = Inr (add_loop (clock w) 7)"
    by (simp add: addWorkingDays_def ASSESSMENT_SLA_WORKING_DAYS_def)
  moreover obtain w1 where "executeSubmitTransaction env (submit_params i u data v ip ua s ?tenor (passed_results env ?tenor v b)
      (add_loop (clock w) 7)) w = (Inr (), w1)" "queue_set w1 Invoices_notification \<longrightarrow> redis_up w1"
    using executeSubmitTransaction_run [OF assms(2) a assms(3)] assms(6) by metis
  ultimately show ?thesis using None assms(1) by (simp add: submitInvoice_def run_notify_submitted)
qed

text \<open>
  C4: \<open>submitInvoice\<close> implements the decision: under a storable submission by a known user it throws the code of the first
  violated rule, having written nothing but audit entries, or, when no rule is violated, accepts the invoice. The
  specification uses exact quotients, the code doubles.
\<close>

theorem submitInvoice_decides:
  assumes "js_BigInt (is_face_value data) = Inr v" and "storable i data v (db w)" and "audit_ok (db w) (Some u)"
    and "\<bar>is_due_date data - clock w\<bar> < 2 ^ 52" "int (length (t_invoices (db w))) < 2 ^ 52"
    and "queue_set w Invoices_notification \<longrightarrow> redis_up w"
  shows "case submission_verdict env u data v (clock w) (db w) of
      Some c \<Rightarrow> refused (BusinessRuleError c) w (submitInvoice env i u data ip ua w)
    | None \<Rightarrow> \<exists>w'. submitInvoice env i u data ip ua w = (Inr i, w')"
  using assms by (rule submission_decided)

text \<open>A small intake: an approved supplier and an active buyer.\<close>

definition intake_world :: world where
  "intake_world = world_of (blank_db\<lparr>t_suppliers := [sample_supplier], t_buyers := [sample_buyer],
     t_users := [sample_user ''su'' None]\<rparr>)"

definition sample_submission :: "js_number \<Rightarrow> invoice_submission" where
  "sample_submission v = \<lparr>is_invoice_number = ''INV-7'', is_buyer_id = ''buy'', is_face_value = v,
     is_due_date = 30 * day_ms, is_description = ''goods'', is_ura_efris_ref = ''EFRIS-1'', is_funding_timeline_days = None\<rparr>"

lemmas intake_defs = intake_world_def sample_submission_def default_env_def sample_defs

lemma sample_submission_facts:
  "js_BigInt (is_face_value (sample_submission (Fin 1000000))) = Inr 1000000"
  "storable ''i'' (sample_submission (Fin 1000000)) 1000000 (db intake_world)"
  "audit_ok (db intake_world) (Some ''su'')"
  "\<bar>is_due_date (sample_submission (Fin 1000000)) - clock intake_world\<bar> < 2 ^ 52"
  "int (length (t_invoices (db intake_world))) < 2 ^ 52"
  "queue_set intake_world Invoices_notification \<longrightarrow> redis_up intake_world"
  by (simp_all add: storable_def intake_defs)

lemma sample_verdict:
  "submission_verdict default_env ''su'' (sample_submission (Fin 1000000)) 1000000 (clock intake_world) (db intake_world) = None"
  by (simp add: submission_verdict_def structuring_def get30DayRollingTotal_def get6MonthVelocityAverage_def intake_defs)

theorem submitInvoice_decides_witness:
  "\<exists>w'. submitInvoice default_env ''i'' ''su'' (sample_submission (Fin 1000000)) ''ip'' ''ua'' intake_world = (Inr ''i'', w')"
  using submitInvoice_decides [OF sample_submission_facts, of default_env "''ip''" "''ua''"] sample_verdict by simp


section \<open>What keeps an invariant of the invoices table\<close>

lemma preserves_returning:
  "(\<And>d x d'. I d \<Longrightarrow> f d = Inr (x, d') \<Longrightarrow> I d') \<Longrightarrow> preserves (\<lambda>w. I (db w)) (returningS f)"
  by (auto simp: preserves_def returningS_def split: sum.splits)

text \<open>A confirmation writes the row whose token was presented, and only after its reference was verified.\<close>

lemma snd_bind_same: "m w = (r, w) \<Longrightarrow> snd (bindS m f w) = (case r of Inl _ \<Rightarrow> w | Inr x \<Rightarrow> snd (f x w))"
  by (cases r) simp_all

lemma snd_then_same: "m w = (r, w) \<Longrightarrow> snd (thenS m k w) = (case r of Inl _ \<Rightarrow> w | Inr x \<Rightarrow> snd (k w))"
  by (cases r) simp_all

lemma validateToken_run:
  "(\<exists>e. validateToken h t w = (Inl e, w)) \<or>
   (\<exists>iv. validateToken h t w = (Inr iv, w) \<and> findInvoiceByTokenHash (h t) (db w) = Some iv
      \<and> bc_confirmed_at (inv_confirmation iv) = None)"
  unfolding validateToken_def
  by (cases "findInvoiceByTokenHash (h t) (db w)"; cases "bc_token_expires_at (inv_confirmation (the (findInvoiceByTokenHash (h t) (db w))))")
    (auto simp: run_guard bindS_def thenS_def)

lemma verifyEfris_run:
  "(\<exists>e. verifyEfris prov iv w = (Inl e, w)) \<or>
   verifyEfris prov iv w = (Inr (), w) \<and> bc_efris_ref (inv_confirmation iv) \<notin> {None, Some []}"
  unfolding verifyEfris_def
  by (cases "bc_efris_ref (inv_confirmation iv)"; cases "prov (clock w) (the (bc_efris_ref (inv_confirmation iv))) (inv_face_value iv)")
    (auto simp: run_guard bindS_def)

lemma run_returning [simp]:
  "f (db w) = Inr (x, d) \<Longrightarrow> returningS f w = (Inr x, w\<lparr>db := d\<rparr>)"
  "f (db w) = Inl e \<Longrightarrow> returningS f w = (Inl e, w)"
  by (simp_all add: returningS_def)

lemma transaction_snd: "I (db w) \<Longrightarrow> I (db (snd (m w))) \<Longrightarrow> I (db (snd (transactionS m w)))"
  by (auto simp: transactionS_def split: prod.splits sum.splits)

lemma keeps_after: "I (db (snd (m w))) \<Longrightarrow> preserves (\<lambda>w. I (db w)) k \<Longrightarrow> I (db (snd (thenS m k w)))"
  by (cases "m w"; cases "fst (m w)") (auto simp: thenS_def bindS_def dest: preservesD)

inductive intake_step :: "world \<Rightarrow> world \<Rightarrow> bool" where
  submit: "intake_step w (snd (submitInvoice env i u data ip ua w))"
| save: "intake_step w (snd (saveDraft i u data ip ua w))"
| edit: "intake_step w (snd (updateDraft i u upd ip ua w))"
| promote: "intake_step w (snd (submitDraft env i u ip ua w))"
| withdraw: "intake_step w (snd (withdrawInvoice i u reason ip ua w))"
| assign: "intake_step w (snd (assignInvoice i a u ip ua w))"
| bank: "intake_step w (snd (setInvoiceBankDetails enc ivs u i inp ip ua w))"
| token: "intake_step w (snd (generateConfirmationToken h t i b ip ua w))"
| confirm: "intake_step w (snd (confirmInvoice h prov t c ip ua w))"
| resend: "intake_step w (snd (resendConfirmation h t i u ip ua w))"
| reminders: "intake_step w (snd (processReminders w))"
| dispute: "intake_step w (snd (raiseDispute h n t reason ty ip ua w))"
| other: "t_invoices (db w') = t_invoices (db w) \<Longrightarrow> intake_step w w'"

lemmas keeps_compose = preserves_bind preserves_then preserves_when preserves_transaction preserves_for preserves_return
  preserves_throw preserves_guard preserves_require preserves_lift preserves_query preserves_now

text \<open>
  The contract of an invariant with the statements of the two repositories: each statement keeps it, the
  confirmation of a row at least when that row has a reference. Then every operation and every run keeps it.
\<close>

locale intake_rows =
  fixes I :: "db \<Rightarrow> bool"
  assumes frame: "t_invoices d' = t_invoices d \<Longrightarrow> I d \<Longrightarrow> I d'"
    and created: "I d \<Longrightarrow> createInvoiceWithClient now i n s b v due descr tenor efris funding assessment d = Inr d' \<Longrightarrow> I d'"
    and drafted: "I d \<Longrightarrow> createDraftInvoice now i n s b face due descr tenor d = Inr d' \<Longrightarrow> I d'"
    and edited: "I d \<Longrightarrow> updateDraftFields now i s f d = Inr (x, d') \<Longrightarrow> I d'"
    and promoted: "I d \<Longrightarrow> I (promoteToSubmitted now i d)"
    and flagged: "I d \<Longrightarrow> I (setAmlFlagWithClient i flag d)"
    and assigned: "I d \<Longrightarrow> assignInvoiceWithClient now i a d = Inr (k, d') \<Longrightarrow> I d'"
    and banked: "I d \<Longrightarrow> I (snd (setInvoiceBankDetailsWithClient now i s acc nm bank d))"
    and tokened: "I d \<Longrightarrow> I (storeConfirmationTokenWithClient now i h e d)"
    and confirmed: "I d \<Longrightarrow> iv \<in> set (t_invoices d) \<Longrightarrow> bc_efris_ref (inv_confirmation iv) \<notin> {None, Some []}
          \<Longrightarrow> I (snd (confirmInvoiceWithClient now (inv_id iv) ip ua d))"
begin

abbreviation keeps :: "'a service \<Rightarrow> bool" where
  "keeps m \<equiv> preserves (\<lambda>w. I (db w)) m"

named_theorems intake_keeps \<open>what keeps the invariant\<close>

lemma keeps_audit_entry [intake_keeps]: "keeps (createAuditEntry e)"
  by (rule preserves_createAuditEntry) (erule frame [rotated], simp)

lemma keeps_enqueue [intake_keeps]: "keeps (enqueueS q n dat)"
  by (rule preserves_enqueue)

lemma keeps_statements [intake_keeps]:
  "keeps (insert_submitted p)" "keeps (tryExecS (createDraftInvoice now i n s b face due descr tenor))"
  "keeps (returningS (updateDraftFields now i s f))" "keeps (execS (promoteToSubmitted now i))"
  "keeps (execS (setAmlFlagWithClient i flag))" "keeps (returningS (assignInvoiceWithClient now i a))"
  "keeps (returningS (\<lambda>d. Inr (setInvoiceBankDetailsWithClient now i s acc nm bank d)))"
  "keeps (execS (storeConfirmationTokenWithClient now i h e))"
  unfolding insert_submitted_def
  by (auto intro!: preserves_bind preserves_now preserves_tryExec preserves_exec preserves_returning
      intro: created drafted edited promoted flagged assigned tokened dest: banked [of _ now i s acc nm bank])

lemma keeps_withdraw [intake_keeps]: "keeps (tryExecS (withdrawInvoiceWithClient now i reason))"
  by (rule preserves_tryExec) (simp add: withdrawInvoiceWithClient_def invoice_status_in_def)

lemma keeps_dispute [intake_keeps]: "keeps (returningS (createDisputeWithClient now n i b r t))"
  by (rule preserves_returning) (auto simp: createDisputeWithClient_def Let_def split: if_splits intro: frame)

lemma runConfirmationTx_keeps:
  assumes "I (db w)" and "iv \<in> set (t_invoices (db w))" and "bc_efris_ref (inv_confirmation iv) \<notin> {None, Some []}"
  shows "I (db (snd (runConfirmationTx (inv_id iv) a m u ip ua w)))"
proof -
  obtain n d where nd: "confirmInvoiceWithClient (clock w) (inv_id iv) ip ua (db w) = (n, d)" by fastforce
  have d: "I d" using confirmed [OF assms, of "clock w" ip ua] by (simp add: nd)
  have k: "keeps (thenS (guardS b e) (createAuditEntry x))" for b e x
    by (intro preserves_then preserves_guard keeps_audit_entry)
  show ?thesis unfolding runConfirmationTx_def
    by (rule transaction_snd [of I]) (use assms(1) d in \<open>simp_all add: nd preservesD [OF k]\<close>)
qed

lemma keeps_confirm: "keeps (confirmInvoice h prov t c ip ua)"
proof (rule preservesI)
  fix w :: world
  assume ok: "I (db w)"
  show "I (db (snd (confirmInvoice h prov t c ip ua w)))"
  proof (cases "\<exists>e. validateToken h t w = (Inl e, w)")
    case True
    then show ?thesis using ok by (auto simp: confirmInvoice_def)
  next
    case False
    then obtain iv where iv: "validateToken h t w = (Inr iv, w)" "findInvoiceByTokenHash (h t) (db w) = Some iv"
      using validateToken_run [of h t w] by blast
    then have "iv \<in> set (t_invoices (db w))" by (auto simp: findInvoiceByTokenHash_def dest: select_one_Some)
    then have tx: "I (db (snd (runConfirmationTx (inv_id iv) a m u ip ua w)))"
      if "bc_efris_ref (inv_confirmation iv) \<notin> {None, Some []}" for a m u
      using runConfirmationTx_keeps ok that by blast
    have q: "keeps (thenS (queueRiskScoring i) (returnS x))" for i x
      unfolding queueRiskScoring_def by (intro preserves_then preserves_return keeps_enqueue)
    have t2: "I (db (snd (thenS (runConfirmationTx (inv_id iv) a m u ip ua) (thenS (queueRiskScoring i) (returnS x)) w)))"
      if "bc_efris_ref (inv_confirmation iv) \<notin> {None, Some []}" for a m u i and x :: string
      using tx [OF that] q by (rule keeps_after)
    show ?thesis
      using verifyEfris_run [of prov iv w]
    proof
      assume "\<exists>e. verifyEfris prov iv w = (Inl e, w)"
      then show ?thesis using ok iv
        by (cases "validateConfirmationFields c") (auto simp: confirmInvoice_def)
    next
      assume v: "verifyEfris prov iv w = (Inr (), w) \<and> bc_efris_ref (inv_confirmation iv) \<notin> {None, Some []}"
      then show ?thesis using ok iv t2
        by (cases "validateConfirmationFields c") (simp_all add: confirmInvoice_def)
    qed
  qed
qed

lemma keeps_log [intake_keeps]: "keeps (logValidationResults u i rs ip ua)"
  unfolding logValidationResults_def by (intro keeps_compose intake_keeps)

lemma keeps_compliance [intake_keeps]: "keeps (auditAndThrowCompliance a u s dt ip ua)"
  unfolding auditAndThrowCompliance_def by (intro keeps_compose intake_keeps)

lemma keeps_validators [intake_keeps]:
  "keeps (validateSupplierActive u rs ip ua)" "keeps (validateNoDuplicate n s u rs ip ua)"
  "keeps (validateBuyerEligibility b u rs ip ua)"
  unfolding validateSupplierActive_def validateNoDuplicate_def validateBuyerEligibility_def Let_def
  by (auto intro!: keeps_compose intake_keeps split: option.splits)

lemma keeps_aml_checks [intake_keeps]:
  "keeps (checkStructuring env s b v u ip ua)" "keeps (checkVelocitySpike s u ip ua)"
  unfolding checkStructuring_def checkVelocitySpike_def Let_def
  by (auto intro!: keeps_compose intake_keeps split: prod.splits)

lemma keeps_validate_submission [intake_keeps]: "keeps (validate_submission env u data v ip ua)"
  unfolding validate_submission_def by (auto intro!: keeps_compose intake_keeps split: prod.splits)

lemma keeps_execute_submit [intake_keeps]: "keeps (executeSubmitTransaction env p)"
  unfolding executeSubmitTransaction_def auditValidationResultsWithClient_def auditInvoiceSubmittedWithClient_def applyAmlFlagWithClient_def
  by (intro keeps_compose intake_keeps)

lemma keeps_notify_submitted [intake_keeps]: "keeps (notify_submitted env i s data v)"
  unfolding notify_submitted_def notifyAmlCompliance_def queueBuyerConfirmation_def scheduleAssessmentReminders_def
    scheduleFundingTimelineReminder_def
  by (auto intro!: keeps_compose intake_keeps split: option.splits)

lemma keeps_submit: "keeps (submitInvoice env i u data ip ua)"
  unfolding submitInvoice_def by (auto intro!: keeps_compose intake_keeps split: prod.splits)

lemma keeps_ownership [intake_keeps]: "keeps (guardDraftOwnership i u)"
  unfolding guardDraftOwnership_def by (intro keeps_compose intake_keeps)

lemma keeps_drafts:
  "keeps (saveDraft i u data ip ua)" "keeps (updateDraft i u upd ip ua)" "keeps (submitDraft env i u ip ua)"
  unfolding saveDraft_def updateDraft_def submitDraft_def guardSubmitDraftKyc_def validateForSubmit_def executePromoteTransaction_def Let_def
  by (auto intro!: keeps_compose intake_keeps split: prod.splits)

lemma keeps_changes:
  "keeps (withdrawInvoice i u reason ip ua)" "keeps (assignInvoice i a u ip ua)"
  "keeps (setInvoiceBankDetails enc ivs u i inp ip ua)"
  unfolding withdrawInvoice_def executeWithdrawTransaction_def assignInvoice_def setInvoiceBankDetails_def
  by (auto intro!: keeps_compose intake_keeps split: prod.splits)

lemma keeps_tokens [intake_keeps]: "keeps (generateConfirmationToken h t i b ip ua)"
  unfolding generateConfirmationToken_def queueConfirmationEmail_def by (intro keeps_compose intake_keeps)

lemma keeps_resend: "keeps (resendConfirmation h t i u ip ua)"
  unfolding resendConfirmation_def by (intro keeps_compose intake_keeps)

lemma keeps_reminder_steps [intake_keeps]:
  "keeps (remind_invoice n a r)" "keeps (flag_overdue r)"
  unfolding remind_invoice_def flag_overdue_def by (auto intro!: keeps_compose intake_keeps)

lemma keeps_reminders: "keeps processReminders"
  unfolding processReminders_def processReminderWindow_def processOverdueWindow_def
  by (auto intro!: keeps_compose intake_keeps)

lemma keeps_raise: "keeps (raiseDispute h n t reason ty ip ua)"
  unfolding raiseDispute_def validateTokenForDispute_def queueDisputeNotification_def Let_def
  by (auto intro!: keeps_compose intake_keeps)

lemmas keeps_operations = keeps_submit keeps_drafts keeps_changes keeps_tokens keeps_confirm keeps_resend keeps_reminders keeps_raise

lemma step_keeps: "intake_step w w' \<Longrightarrow> I (db w) \<Longrightarrow> I (db w')"
proof (induction rule: intake_step.induct)
  case (other w' w)
  then show ?case by (blast intro: frame)
qed (blast intro: keeps_operations [THEN preservesD])+

lemma run_keeps: "intake_step\<^sup>*\<^sup>* w w' \<Longrightarrow> I (db w) \<Longrightarrow> I (db w')"
  by (induction rule: rtranclp_induct) (auto dest: step_keeps)

end

section \<open>The invariant of the invoices table\<close>

text \<open>
  A row is well formed when its face value is positive, it has a confirmation time wherever the schema asks for
  one, and a row marked as verified at the tax authority has a reference. Row ids and the pairs of number and supplier are unique.
\<close>

definition invoice_ok :: "invoice \<Rightarrow> bool" where
  "invoice_ok r \<longleftrightarrow> 0 < inv_face_value r \<and> chk_buyer_confirmed r
     \<and> (bc_efris_verified_at (inv_confirmation r) \<noteq> None \<longrightarrow> bc_efris_ref (inv_confirmation r) \<notin> {None, Some []})"

definition number_key :: "invoice \<Rightarrow> string \<times> string" where
  "number_key r = (inv_number r, inv_supplier r)"

definition invoices_ok :: "db \<Rightarrow> bool" where
  "invoices_ok d \<longleftrightarrow> distinct (map inv_id (t_invoices d)) \<and> distinct (map number_key (t_invoices d))
     \<and> list_all invoice_ok (t_invoices d)"

lemma invoices_ok_cong: "t_invoices d' = t_invoices d \<Longrightarrow> invoices_ok d' = invoices_ok d"
  by (simp add: invoices_ok_def)

lemma invoices_ok_update:
  assumes "invoices_ok d" and "t_invoices d' = update_where p f (t_invoices d)"
    and keys: "\<And>r. inv_id (f r) = inv_id r" "\<And>r. number_key (f r) = number_key r"
    and rows: "\<And>r. r \<in> set (t_invoices d) \<Longrightarrow> p r \<Longrightarrow> invoice_ok r \<Longrightarrow> invoice_ok (f r)"
  shows "invoices_ok d'"
proof -
  have "list_all invoice_ok (update_where p f rs)"
    if "list_all invoice_ok rs" and "\<And>r. r \<in> set rs \<Longrightarrow> p r \<Longrightarrow> invoice_ok r \<Longrightarrow> invoice_ok (f r)" for rs
    using that by (induction rs) auto
  then show ?thesis
    using assms(1,2) rows by (simp add: invoices_ok_def map_update_where keys)
qed

lemma invoices_ok_updated:
  assumes "invoices_ok d" and "\<And>r. inv_id (f r) = inv_id r" "\<And>r. number_key (f r) = number_key r"
    and "\<And>r. r \<in> set (t_invoices d) \<Longrightarrow> p r \<Longrightarrow> invoice_ok r \<Longrightarrow> invoice_ok (f r)"
  shows "invoices_ok (d\<lparr>t_invoices := update_where p f (t_invoices d)\<rparr>)"
  by (rule invoices_ok_update [OF assms(1) _ assms(2-4)]) simp_all

lemmas row_defs = invoice_ok_def chk_buyer_confirmed_def number_key_def

lemma invoices_ok_insert:
  "invoices_ok d \<Longrightarrow> invoice_ok r \<Longrightarrow> insert_invoice r d = Inr d' \<Longrightarrow> invoices_ok d'"
  by (auto simp: insert_invoice_succ invoices_ok_def number_key_def)

lemma in_update_where: "r \<in> set rs \<Longrightarrow> p r \<Longrightarrow> f r \<in> set (update_where p f rs)"
  by (auto simp: update_where_def)

lemma apply_draft_fields_keys [simp]:
  "inv_id (apply_draft_fields now f v r) = inv_id r" "number_key (apply_draft_fields now f v r) = number_key r"
  "inv_status (apply_draft_fields now f v r) = inv_status r" "inv_confirmation (apply_draft_fields now f v r) = inv_confirmation r"
  "own_draft i s (apply_draft_fields now f v r) = own_draft i s r"
  by (simp_all add: apply_draft_fields_def number_key_def own_draft_def)

lemma updateDraftFields_rows:
  assumes "invoices_ok d" and "updateDraftFields now i s f d = Inr (x, d')"
  shows "invoices_ok d'"
proof (cases "df_description f = None \<and> df_faceValue f = None \<and> df_dueDate f = None \<and> df_tenorDays f = None")
  case True
  then show ?thesis using assms by (simp add: updateDraftFields_def)
next
  case False
  then obtain v where d': "d' = d\<lparr>t_invoices := update_where (own_draft i s) (apply_draft_fields now f v) (t_invoices d)\<rparr>"
    and pos: "list_all (\<lambda>r. own_draft i s r \<longrightarrow> 0 < inv_face_value r) (t_invoices d')"
    using assms(2) unfolding updateDraftFields_def if_not_P [OF False]
    by (auto simp: svc_succ Let_def split: if_splits option.splits)
  have "invoice_ok (apply_draft_fields now f v r)"
    if "r \<in> set (t_invoices d)" "own_draft i s r" "invoice_ok r" for r
    using pos in_update_where [where f = "apply_draft_fields now f v" and p = "own_draft i s", OF that(1,2)] that(2,3)
    by (auto simp: d' list_all_iff invoice_ok_def chk_buyer_confirmed_def)
  then show ?thesis unfolding d' using assms(1) by (intro invoices_ok_updated) auto
qed

lemma mark_confirmed_keys [simp]:
  "inv_id (mark_confirmed now ip ua r) = inv_id r" "number_key (mark_confirmed now ip ua r) = number_key r"
  by (simp_all add: mark_confirmed_def number_key_def)

lemma confirm_row_keeps:
  assumes "invoices_ok d" and "iv \<in> set (t_invoices d)" and "bc_efris_ref (inv_confirmation iv) \<notin> {None, Some []}"
  shows "invoices_ok (snd (confirmInvoiceWithClient now (inv_id iv) ip ua d))"
proof -
  have "r = iv" if "r \<in> set (t_invoices d)" "inv_id r = inv_id iv" for r
    using assms(1,2) that by (auto simp: invoices_ok_def distinct_map dest: inj_onD)
  then show ?thesis
    unfolding confirmInvoiceWithClient_def snd_conv using assms
    by (intro invoices_ok_updated) (auto simp: unconfirmed_def row_defs mark_confirmed_def)
qed

lemma new_row_ok:
  "insert_invoice r d = Inr d' \<Longrightarrow> bc_efris_verified_at (inv_confirmation r) = None \<Longrightarrow> invoices_ok d \<Longrightarrow> invoices_ok d'"
  by (rule invoices_ok_insert) (auto simp: insert_invoice_succ invoice_checks_ok_def invoice_ok_def)

lemma statements_ok:
  assumes "invoices_ok d"
  shows "invoices_ok (promoteToSubmitted now i d)" "invoices_ok (setAmlFlagWithClient i flag d)"
    "invoices_ok (snd (setInvoiceBankDetailsWithClient now i s acc nm bank d))"
    "invoices_ok (storeConfirmationTokenWithClient now i h e d)"
  unfolding promoteToSubmitted_def setAmlFlagWithClient_def setInvoiceBankDetailsWithClient_def
    storeConfirmationTokenWithClient_def snd_conv
  using assms by (auto simp: row_defs intro!: invoices_ok_updated)

lemma assigned_ok: "invoices_ok d \<Longrightarrow> assignInvoiceWithClient now i a d = Inr (k, d') \<Longrightarrow> invoices_ok d'"
  by (auto simp: assignInvoiceWithClient_def Let_def row_defs split: if_splits intro!: invoices_ok_updated)

lemma created_ok:
  "invoices_ok d \<Longrightarrow> createInvoiceWithClient now i n s b v due descr tenor efris funding assessment d = Inr d' \<Longrightarrow> invoices_ok d'"
  "invoices_ok d \<Longrightarrow> createDraftInvoice now i n s b face due descr tenor d = Inr d' \<Longrightarrow> invoices_ok d'"
  by (auto simp: createInvoiceWithClient_def createDraftInvoice_def svc_succ Let_def new_invoice_def elim!: new_row_ok)

interpretation well_formed: intake_rows invoices_ok
  by unfold_locales (simp add: invoices_ok_def, erule (1) created_ok, erule (1) created_ok, erule (1) updateDraftFields_rows,
    erule statements_ok, erule statements_ok, erule (1) assigned_ok, erule statements_ok, erule statements_ok,
    erule (2) confirm_row_keeps)

text \<open>
  C5: along every run of the intake and confirmation operations, with anything else in between that leaves the \<open>invoices\<close> table alone, no two
  invoices share an id or a number of the same supplier, face values are positive, an invoice past confirmation has a confirmation
  time, and one marked as verified by the tax authority has a reference.
\<close>

theorem intake_invariant:
  assumes "intake_step\<^sup>*\<^sup>* w w'" and "invoices_ok (db w)"
  shows "invoices_ok (db w')"
  using assms by (rule well_formed.run_keeps)

theorem intake_invariant_witness:
  "invoices_ok (db (snd (confirmInvoice id MockEfrisProvider ''t'' \<lparr>cr_invoice_is_valid = True, cr_amount_is_correct = True,
     cr_due_date_is_correct = True, cr_agrees_to_pay_ris = True\<rparr> ''ip'' ''ua''
     (snd (generateConfirmationToken id ''t'' ''i'' ''buy'' ''ip'' ''ua''
       (snd (submitInvoice default_env ''i'' ''su'' (sample_submission (Fin 1000000)) ''ip'' ''ua'' intake_world)))))))"
proof (rule intake_invariant)
  show "invoices_ok (db intake_world)" by (simp add: invoices_ok_def intake_defs)
qed (rule rtranclp.rtrancl_into_rtrancl, rule rtranclp.rtrancl_into_rtrancl, rule rtranclp.rtrancl_into_rtrancl,
    rule rtranclp.rtrancl_refl, rule intake_step.submit, rule intake_step.token, rule intake_step.confirm)

end
