(* ===== verification/Confirmation_Props.thy ===== *)
theory Confirmation_Props
  imports Intake_Props
begin

text \<open>
  What a confirmation does and when it is possible, the limits of drafts and of the money-laundering checks on
  them, reminders, and the operations that the schema or the query makes impossible.
\<close>

section \<open>Confirmation\<close>

lemma validateToken_succ:
  "validateToken h t w = (Inr iv, w') \<longleftrightarrow>
     w' = w \<and> findInvoiceByTokenHash (h t) (db w) = Some iv \<and> bc_confirmed_at (inv_confirmation iv) = None
     \<and> (\<exists>e. bc_token_expires_at (inv_confirmation iv) = Some e \<and> clock w \<le> e)"
  by (auto simp: validateToken_def svc_succ)

lemma fields_complete:
  "validateConfirmationFields c = Inr x \<longleftrightarrow>
     cr_invoice_is_valid c \<and> cr_amount_is_correct c \<and> cr_due_date_is_correct c \<and> cr_agrees_to_pay_ris c"
  by (auto simp: validateConfirmationFields_def missing_fields_def)

definition efris_accepts :: "efris_provider \<Rightarrow> int \<Rightarrow> invoice \<Rightarrow> bool" where
  "efris_accepts prov now iv \<longleftrightarrow> (\<exists>ref r. bc_efris_ref (inv_confirmation iv) = Some ref \<and> ref \<noteq> []
     \<and> prov now ref (inv_face_value iv) = Inr r \<and> er_verified r)"

lemma verifyEfris_succ: "verifyEfris prov iv w = (Inr x, w') \<longleftrightarrow> w' = w \<and> efris_accepts prov (clock w) iv"
  by (auto simp: verifyEfris_def efris_accepts_def svc_succ split: option.splits)

text \<open>The database after a confirmation of invoice \<open>i\<close>.\<close>

definition confirmed_db :: "int \<Rightarrow> string \<Rightarrow> string \<Rightarrow> string \<Rightarrow> audit_entry \<Rightarrow> db \<Rightarrow> db" where
  "confirmed_db now i ip ua e d =
     d\<lparr>t_invoices := update_where (unconfirmed i) (mark_confirmed now ip ua) (t_invoices d), t_audit := t_audit d @ [e]\<rparr>"

lemma returningS_succ [svc_succ]:
  "returningS f w = (Inr x, w') \<longleftrightarrow> (\<exists>d. f (db w) = Inr (x, d) \<and> w' = w\<lparr>db := d\<rparr>)"
  by (auto simp: returningS_def split: sum.splits)

lemma runConfirmationTx_succ:
  "runConfirmationTx i a m u ip ua w = (Inr x, w') \<Longrightarrow>
     list_ex (unconfirmed i) (t_invoices (db w))
     \<and> w' = w\<lparr>db := confirmed_db (clock w) i ip ua
          (audit_req u a ''invoices'' i (Some [(''status'', JStr ''submitted'')]) m (Some ip) (Some ua)) (db w)\<rparr>"
  by (auto simp: runConfirmationTx_def svc_succ confirmInvoiceWithClient_def confirmed_db_def list_ex_iff filter_empty_conv)

lemma runConfirmationTx_refused:
  "\<not> list_ex (unconfirmed i) (t_invoices (db w)) \<Longrightarrow>
     runConfirmationTx i a m u ip ua w = (Inl (BusinessRuleError ''TOKEN_ALREADY_USED''), w)"
  by (simp add: runConfirmationTx_def confirmInvoiceWithClient_def list_ex_iff filter_empty_conv)

lemma list_ex_cleared: "(\<And>r. \<not> p (f r)) \<Longrightarrow> \<not> list_ex p (update_where p f rs)"
  by (induction rs) auto

lemma no_unconfirmed_left: "\<not> list_ex (unconfirmed i) (t_invoices (confirmed_db now i ip ua e d))"
  using list_ex_cleared [of "unconfirmed i" "mark_confirmed now ip ua"]
  by (simp add: confirmed_db_def mark_confirmed_def unconfirmed_def)

lemma mark_confirmed_token [simp]:
  "bc_token_hash (inv_confirmation (mark_confirmed now ip ua r)) = bc_token_hash (inv_confirmation r)"
  "bc_confirmed_at (inv_confirmation (mark_confirmed now ip ua r)) = Some now"
  by (simp_all add: mark_confirmed_def)

lemma token_row_confirmed:
  assumes "findInvoiceByTokenHash th d = Some iv" and "bc_confirmed_at (inv_confirmation iv) = None"
  shows "findInvoiceByTokenHash th (confirmed_db now (inv_id iv) ip ua e d) = Some (mark_confirmed now ip ua iv)"
  using assms unfolding findInvoiceByTokenHash_def confirmed_db_def
  by (simp add: select_one_update_where [where k = "\<lambda>r. bc_token_hash (inv_confirmation r)"] unconfirmed_def)

lemma confirmInvoice_succ:
  assumes "confirmInvoice h prov t c ip ua w = (Inr i, w')"
  obtains iv w1 where "findInvoiceByTokenHash (h t) (db w) = Some iv" "bc_confirmed_at (inv_confirmation iv) = None"
    "\<exists>e. bc_token_expires_at (inv_confirmation iv) = Some e \<and> clock w \<le> e"
    "validateConfirmationFields c = Inr ()" "efris_accepts prov (clock w) iv" "i = inv_id iv"
    "runConfirmationTx i ''BUYER_CONFIRMED'' [(''status'', JStr ''buyer_confirmed''), (''buyerIp'', JStr ip)] None ip ua w = (Inr (), w1)"
    "queueRiskScoring i w1 = (Inr (), w')"
  using assms unfolding confirmInvoice_def by (auto simp: bindS_succ thenS_succ liftS_succ validateToken_succ verifyEfris_succ)

lemma queueRiskScoring_db: "queueRiskScoring i w = (r, w') \<Longrightarrow> db w' = db w \<and> clock w' = clock w"
  by (auto simp: queueRiskScoring_def run_enqueue split: if_splits)

text \<open>
  C7: a buyer's confirmation succeeds at most once. The token presented again is refused as used and changes nothing, and of two requests that have
  both passed the checks before either commits, the second transaction is refused.
\<close>

theorem confirmation_once:
  assumes "confirmInvoice h prov t c ip ua w = (Inr i, w')"
  shows "confirmInvoice h prov' t c' ip' ua' w' = (Inl (BusinessRuleError ''TOKEN_ALREADY_USED''), w')
     \<and> runConfirmationTx i a m u ip' ua' w' = (Inl (BusinessRuleError ''TOKEN_ALREADY_USED''), w')"
proof -
  obtain iv w1 where iv: "findInvoiceByTokenHash (h t) (db w) = Some iv" "bc_confirmed_at (inv_confirmation iv) = None" "i = inv_id iv"
    and tx: "runConfirmationTx i ''BUYER_CONFIRMED'' [(''status'', JStr ''buyer_confirmed''), (''buyerIp'', JStr ip)] None ip ua w = (Inr (), w1)"
    and q: "queueRiskScoring i w1 = (Inr (), w')"
    using assms by (rule confirmInvoice_succ)
  obtain e where db': "db w' = confirmed_db (clock w) i ip ua e (db w)"
    using runConfirmationTx_succ [OF tx] queueRiskScoring_db [OF q] by auto
  then have "findInvoiceByTokenHash (h t) (db w') = Some (mark_confirmed (clock w) ip ua iv)"
    using token_row_confirmed [OF iv(1,2)] by (simp add: iv(3))
  then have "confirmInvoice h prov' t c' ip' ua' w' = (Inl (BusinessRuleError ''TOKEN_ALREADY_USED''), w')"
    by (simp add: confirmInvoice_def validateToken_def)
  moreover have "runConfirmationTx i a m u ip' ua' w' = (Inl (BusinessRuleError ''TOKEN_ALREADY_USED''), w')"
    by (rule runConfirmationTx_refused) (simp add: db' no_unconfirmed_left)
  ultimately show ?thesis ..
qed

lemma confirmation_runs:
  assumes "findInvoiceByTokenHash (h t) (db w) = Some iv" and "bc_confirmed_at (inv_confirmation iv) = None"
    and "bc_token_expires_at (inv_confirmation iv) = Some e" "clock w \<le> e"
    and "validateConfirmationFields c = Inr ()" and "efris_accepts prov (clock w) iv"
    and "audit_ok (db w) None" and "queue_set w Verification_scoring" and "redis_up w"
  shows "\<exists>w'. confirmInvoice h prov t c ip ua w = (Inr (inv_id iv), w')
     \<and> w' = w\<lparr>db := (db w)\<lparr>
           t_invoices := update_where (\<lambda>r. inv_id r = inv_id iv \<and> bc_confirmed_at (inv_confirmation r) = None)
             (\<lambda>r. r\<lparr>inv_confirmation := (inv_confirmation r)\<lparr>bc_confirmed_at := Some (clock w), bc_ip := Some ip,
                    bc_user_agent := Some ua, bc_efris_verified_at := Some (clock w)\<rparr>,
                  inv_status := Inv_buyer_confirmed, inv_updated_at := clock w\<rparr>) (t_invoices (db w)),
           t_audit := t_audit (db w) @ [\<lparr>aud_user = None, aud_action = ''BUYER_CONFIRMED'', aud_table = ''invoices'',
             aud_record = Some (inv_id iv), aud_old = Some [(''status'', JStr ''submitted'')],
             aud_new = [(''status'', JStr ''buyer_confirmed''), (''buyerIp'', JStr ip)],
             aud_ip = Some ip, aud_agent = Some ua, aud_created_at = None\<rparr>]\<rparr>,
         jobs := jobs w @ [\<lparr>job_ref = Verification_scoring, job_name = ''score-invoice'',
           job_data = [(''invoiceId'', JStr (inv_id iv))]\<rparr>]\<rparr>
     \<and> findInvoiceByTokenHash (h t) (db w') = Some (iv\<lparr>inv_confirmation := (inv_confirmation iv)\<lparr>bc_confirmed_at := Some (clock w),
           bc_ip := Some ip, bc_user_agent := Some ua, bc_efris_verified_at := Some (clock w)\<rparr>,
         inv_status := Inv_buyer_confirmed, inv_updated_at := clock w\<rparr>)"
proof -
  let ?i = "inv_id iv"
  let ?m = "[(''status'', JStr ''buyer_confirmed''), (''buyerIp'', JStr ip)]"
  let ?e = "audit_req None ''BUYER_CONFIRMED'' ''invoices'' ?i (Some [(''status'', JStr ''submitted'')]) ?m (Some ip) (Some ua)"
  let ?w1 = "w\<lparr>db := confirmed_db (clock w) ?i ip ua ?e (db w)\<rparr>"
  have "iv \<in> set (t_invoices (db w))" using assms(1) by (auto simp: findInvoiceByTokenHash_def dest: select_one_Some)
  then have "filter (unconfirmed ?i) (t_invoices (db w)) \<noteq> []" using assms(2) by (auto simp: filter_empty_conv unconfirmed_def)
  then have tx: "runConfirmationTx ?i ''BUYER_CONFIRMED'' ?m None ip ua w = (Inr (), ?w1)"
    using assms(7) by (simp add: runConfirmationTx_def confirmInvoiceWithClient_def confirmed_db_def)
  have "validateToken h t w = (Inr iv, w)" "verifyEfris prov iv w = (Inr (), w)"
    using assms by (auto simp: validateToken_succ verifyEfris_succ)
  then have run: "confirmInvoice h prov t c ip ua w = (Inr ?i, ?w1\<lparr>jobs := jobs w @
      [\<lparr>job_ref = Verification_scoring, job_name = ''score-invoice'', job_data = [(''invoiceId'', JStr ?i)]\<rparr>]\<rparr>)"
    using assms(5,8,9) tx by (simp add: confirmInvoice_def queueRiskScoring_def run_enqueue)
  show ?thesis
    by (rule exI, rule conjI, rule run)
      (use token_row_confirmed [OF assms(1,2), of "clock w" ip ua ?e] in
        \<open>simp add: confirmed_db_def unconfirmed_def [abs_def] mark_confirmed_def [abs_def] audit_req_def audit_sys_def\<close>)
qed


text \<open>A rejected invoice whose confirmation link is still valid.\<close>

definition rejected_invoice :: invoice where
  "rejected_invoice = (sample_invoice Inv_rejected)\<lparr>inv_confirmation := blank_confirmation\<lparr>bc_token_hash := Some ''t'',
     bc_token_expires_at := Some 10, bc_efris_ref := Some ''EFRIS-1''\<rparr>\<rparr>"

definition rejected_world :: world where
  "rejected_world = world_of ((db intake_world)\<lparr>t_invoices := [rejected_invoice]\<rparr>)"

definition yes_to_all :: confirmation_request where
  "yes_to_all = \<lparr>cr_invoice_is_valid = True, cr_amount_is_correct = True, cr_due_date_is_correct = True, cr_agrees_to_pay_ris = True\<rparr>"

lemmas rejected_defs = rejected_world_def rejected_invoice_def blank_confirmation_def blank_intake_def intake_defs

lemma rejected_facts:
  "findInvoiceByTokenHash (id ''t'') (db rejected_world) = Some rejected_invoice"
  "bc_confirmed_at (inv_confirmation rejected_invoice) = None"
  "bc_token_expires_at (inv_confirmation rejected_invoice) = Some 10" "clock rejected_world \<le> 10"
  "validateConfirmationFields yes_to_all = Inr ()" "efris_accepts MockEfrisProvider (clock rejected_world) rejected_invoice"
  "audit_ok (db rejected_world) None" "queue_set rejected_world Verification_scoring" "redis_up rejected_world"
  by (simp_all add: findInvoiceByTokenHash_def rejected_defs fields_complete yes_to_all_def efris_accepts_def
      MockEfrisProvider_def startsWith_def)


theorem confirmation_once_witness:
  "\<exists>w'. confirmInvoice id MockEfrisProvider ''t'' yes_to_all ''ip'' ''ua'' rejected_world = (Inr ''inv'', w')
     \<and> confirmInvoice id MockEfrisProvider ''t'' yes_to_all ''ip'' ''ua'' w' = (Inl (BusinessRuleError ''TOKEN_ALREADY_USED''), w')"
  using confirmation_runs [where h = id and t = "''t''", OF rejected_facts, of "''ip''" "''ua''"] confirmation_once by (auto simp: rejected_defs)

section \<open>Drafts\<close>

text \<open>No insert names the reference of an existing row, and no update writes it.\<close>

definition never_referenced :: "string \<Rightarrow> db \<Rightarrow> bool" where
  "never_referenced i d \<longleftrightarrow> list_ex (\<lambda>r. inv_id r = i) (t_invoices d)
     \<and> list_all (\<lambda>r. inv_id r = i \<longrightarrow> bc_efris_ref (inv_confirmation r) = None) (t_invoices d)"

lemma list_ex_update_where: "(\<And>r. q (f r) = q r) \<Longrightarrow> list_ex q (update_where p f rs) = list_ex q rs"
  by (induction rs) auto

lemma list_all_same_update_where: "(\<And>r. q (f r) = q r) \<Longrightarrow> list_all q (update_where p f rs) = list_all q rs"
  by (induction rs) auto

lemma never_referenced_updated:
  assumes "never_referenced i d" and "\<And>r. inv_id (f r) = inv_id r"
    and "\<And>r. bc_efris_ref (inv_confirmation (f r)) = bc_efris_ref (inv_confirmation r)"
  shows "never_referenced i (d\<lparr>t_invoices := update_where p f (t_invoices d)\<rparr>)"
  using assms by (simp add: never_referenced_def list_ex_update_where list_all_same_update_where)

lemma never_referenced_insert: "never_referenced i d \<Longrightarrow> insert_invoice r d = Inr d' \<Longrightarrow> never_referenced i d'"
  by (auto simp: never_referenced_def insert_invoice_succ list_ex_iff list_all_iff)

lemma never_referenced_edit:
  assumes "never_referenced i d" and "updateDraftFields now j s f d = Inr (x, d')"
  shows "never_referenced i d'"
proof (cases "df_description f = None \<and> df_faceValue f = None \<and> df_dueDate f = None \<and> df_tenorDays f = None")
  case True
  then show ?thesis using assms by (simp add: updateDraftFields_def)
next
  case False
  then obtain v where "d' = d\<lparr>t_invoices := update_where (own_draft j s) (apply_draft_fields now f v) (t_invoices d)\<rparr>"
    using assms(2) unfolding updateDraftFields_def if_not_P [OF False]
    by (auto simp: svc_succ Let_def split: if_splits option.splits)
  then show ?thesis using assms(1) by (auto intro!: never_referenced_updated)
qed

lemma never_referenced_statements:
  assumes "never_referenced i d"
  shows "never_referenced i (promoteToSubmitted now j d)" "never_referenced i (setAmlFlagWithClient j flag d)"
    "never_referenced i (snd (setInvoiceBankDetailsWithClient now j s acc nm bank d))"
    "never_referenced i (storeConfirmationTokenWithClient now j h e d)"
    "never_referenced i (snd (confirmInvoiceWithClient now j ip ua d))"
  unfolding promoteToSubmitted_def setAmlFlagWithClient_def setInvoiceBankDetailsWithClient_def
    storeConfirmationTokenWithClient_def confirmInvoiceWithClient_def mark_confirmed_def snd_conv
  using assms by (auto intro!: never_referenced_updated)

lemma never_referenced_created:
  "never_referenced i d \<Longrightarrow> createInvoiceWithClient now j n s b v due descr tenor efris funding assessment d = Inr d' \<Longrightarrow> never_referenced i d'"
  "never_referenced i d \<Longrightarrow> createDraftInvoice now j n s b face due descr tenor d = Inr d' \<Longrightarrow> never_referenced i d'"
  by (auto simp: createInvoiceWithClient_def createDraftInvoice_def svc_succ Let_def intro: never_referenced_insert)

lemma never_referenced_assigned:
  "never_referenced i d \<Longrightarrow> assignInvoiceWithClient now j a d = Inr (k, d') \<Longrightarrow> never_referenced i d'"
  by (auto simp: assignInvoiceWithClient_def Let_def split: if_splits intro!: never_referenced_updated)

lemma new_invoice_fields [simp]:
  "inv_id (new_invoice now i n s b v due descr tenor st) = i"
  "bc_efris_ref (inv_confirmation (new_invoice now i n s b v due descr tenor st)) = None"
  by (simp_all add: new_invoice_def)

lemma never_referenced_new:
  "insert_invoice r d = Inr d' \<Longrightarrow> bc_efris_ref (inv_confirmation r) = None \<Longrightarrow> never_referenced (inv_id r) d'"
  by (auto simp: insert_invoice_succ never_referenced_def list_all_iff)

lemma never_referenced_draft:
  "createDraftInvoice now i n s b face due descr tenor d = Inr d' \<Longrightarrow> never_referenced i d'"
  by (auto simp: createDraftInvoice_def svc_succ dest!: never_referenced_new)

interpretation unreferenced: intake_rows "never_referenced i" for i
  by unfold_locales (simp add: never_referenced_def, erule (1) never_referenced_created, erule (1) never_referenced_created,
    erule (1) never_referenced_edit, erule never_referenced_statements, erule never_referenced_statements,
    erule (1) never_referenced_assigned, (erule never_referenced_statements)+)

text \<open>
  an invoice that started as a draft can never be confirmed: the draft does not keep the tax reference of the request, no later
  operation writes it, and the confirmation of an invoice without one is refused whatever the token, the provider and the answers.
\<close>

theorem draft_unconfirmable:
  assumes "saveDraft i u data ip ua w = (Inr r, w1)" and "intake_step\<^sup>*\<^sup>* w1 w2"
  shows "confirmInvoice h prov t c ip' ua' w2 \<noteq> (Inr i, w3)"
proof
  assume "confirmInvoice h prov t c ip' ua' w2 = (Inr i, w3)"
  then obtain iv where iv: "findInvoiceByTokenHash (h t) (db w2) = Some iv" "efris_accepts prov (clock w2) iv" "i = inv_id iv"
    by (rule confirmInvoice_succ)
  obtain d where "never_referenced i d" "t_invoices (db w1) = t_invoices d"
    using assms(1) by (auto simp: saveDraft_def svc_succ dest!: never_referenced_draft)
  then have "never_referenced i (db w1)" by (simp add: never_referenced_def)
  then have "never_referenced i (db w2)" using assms(2) by (rule unreferenced.run_keeps [rotated])
  then show False using iv
    by (auto simp: never_referenced_def list_all_iff findInvoiceByTokenHash_def efris_accepts_def dest!: select_one_Some)
qed

definition drafted_world :: world where
  "drafted_world = snd (saveDraft ''i'' ''su'' (sample_submission (Fin 1000000)) ''ip'' ''ua'' intake_world)"

lemma drafted_world_run:
  "saveDraft ''i'' ''su'' (sample_submission (Fin 1000000)) ''ip'' ''ua'' intake_world = (Inr ''i'', drafted_world)"
  unfolding drafted_world_def
  by (simp add: saveDraft_def findSupplierByUserId_def createDraftInvoice_def insert_invoice_def invoice_types_ok_def
      invoice_checks_ok_def chk_buyer_confirmed_def new_invoice_def bigint_in_def intake_defs)

theorem draft_unconfirmable_witness:
  "saveDraft ''i'' ''su'' (sample_submission (Fin 1000000)) ''ip'' ''ua'' intake_world = (Inr ''i'', drafted_world)
     \<and> confirmInvoice id MockEfrisProvider ''t'' yes_to_all ''ip'' ''ua''
         (snd (generateConfirmationToken id ''t'' ''i'' ''buy'' ''ip'' ''ua'' drafted_world)) \<noteq> (Inr ''i'', drafted_world)"
  using drafted_world_run draft_unconfirmable [OF drafted_world_run r_into_rtranclp [of intake_step, OF intake_step.token]] by simp

section \<open>Promotion of a draft\<close>

text \<open>The conditions \<open>submitDraft\<close> places on the draft \<open>iv\<close>, the supplier and the buyer.\<close>

definition promotable :: "invoice_env \<Rightarrow> string \<Rightarrow> string \<Rightarrow> int \<Rightarrow> db \<Rightarrow> invoice \<Rightarrow> bool" where
  "promotable env i u now d iv \<longleftrightarrow>
     Invoices.findInvoiceById i d = Some iv \<and> inv_status iv = Inv_draft
     \<and> (\<exists>s. findSupplierByUserId u d = Some s \<and> sup_id s = inv_supplier iv \<and> sup_kyc_status s = Kyc_approved)
     \<and> (\<exists>b. findBuyerWithLimits (inv_buyer iv) d = Some b \<and> buy_is_active b
          \<and> inv_face_value iv + buy_used_limit b \<le> buy_approved_limit b)
     \<and> ie_min_tenor env \<le> computeTenorDays now (inv_due_date iv * day_ms)
     \<and> computeTenorDays now (inv_due_date iv * day_ms) \<le> ie_max_tenor env"

definition promoted_row :: "invoice_env \<Rightarrow> int \<Rightarrow> invoice \<Rightarrow> invoice" where
  "promoted_row env now iv =
     iv\<lparr>inv_status := Inv_submitted, inv_intake := (inv_intake iv)\<lparr>itk_sla_deadline := Some (sla_72h now)\<rparr>,
        inv_updated_at := now, inv_aml_flagged := inv_aml_flagged iv \<or> ie_aml_threshold env < inv_face_value iv\<rparr>"

lemma guards_pass:
  assumes "promotable env i u (clock w) (db w) iv"
  shows "\<exists>s. guardDraftOwnership i u w = (Inr (iv, s), w)" "\<exists>s. guardSubmitDraftKyc u w = (Inr s, w)"
    "validateForSubmit env (inv_buyer iv) (inv_face_value iv) (inv_due_date iv * day_ms) w = (Inr (), w)"
  using assms by (auto simp: promotable_def guardDraftOwnership_def guardSubmitDraftKyc_def validateForSubmit_def Let_def)

lemma promote_lookup:
  assumes "Invoices.findInvoiceById i d = Some iv" and "inv_status iv = Inv_draft"
  shows "Invoices.findInvoiceById i (promoteToSubmitted now i d)
       = Some (iv\<lparr>inv_status := Inv_submitted, inv_intake := (inv_intake iv)\<lparr>itk_sla_deadline := Some (sla_72h now)\<rparr>, inv_updated_at := now\<rparr>)"
  using assms select_one_key [of inv_id i "t_invoices d" iv]
  by (simp add: Invoices.findInvoiceById_def promoteToSubmitted_def select_one_update_where [where k = inv_id])

lemma flag_lookup:
  "Invoices.findInvoiceById i d = Some r \<Longrightarrow> Invoices.findInvoiceById i (setAmlFlagWithClient i b d) = Some (r\<lparr>inv_aml_flagged := b\<rparr>)"
  using select_one_key [of inv_id i "t_invoices d" r]
  by (simp add: Invoices.findInvoiceById_def setAmlFlagWithClient_def select_one_update_where [where k = inv_id])

lemma find_audit [simp]: "Invoices.findInvoiceById i (d\<lparr>t_audit := a\<rparr>) = Invoices.findInvoiceById i d"
  by (simp add: Invoices.findInvoiceById_def)

lemma submitDraft_runs:
  assumes p: "promotable env i u (clock w) (db w) iv" and ok: "audit_ok (db w) (Some u)"
  shows "\<exists>w'. submitDraft env i u ip ua w = (Inr (toInvoiceDetail (promoted_row env (clock w) iv)), w')
     \<and> Invoices.findInvoiceById i (db w') = Some (promoted_row env (clock w) iv)
     \<and> t_audit (db w') = t_audit (db w) @ [promoted_entry i u ip ua] \<and> jobs w' = jobs w"
proof -
  let ?e = "promoted_entry i u ip ua"
  let ?d1 = "(promoteToSubmitted (clock w) i (db w))\<lparr>t_audit := t_audit (db w) @ [?e]\<rparr>"
  let ?d2 = "if ie_aml_threshold env < inv_face_value iv then setAmlFlagWithClient i True ?d1 else ?d1"
  have f: "Invoices.findInvoiceById i (db w) = Some iv" "inv_status iv = Inv_draft" using p by (auto simp: promotable_def)
  have "audit_ok (promoteToSubmitted (clock w) i (db w)) (Some u)" "t_audit (promoteToSubmitted (clock w) i (db w)) = t_audit (db w)"
    using ok by (simp_all add: promoteToSubmitted_def)
  then have "executePromoteTransaction env i u (inv_face_value iv) ip ua w = (Inr (), w\<lparr>db := ?d2\<rparr>)"
    by (cases "ie_aml_threshold env < inv_face_value iv") (simp_all add: executePromoteTransaction_def promoted_entry_def)
  moreover have d1: "Invoices.findInvoiceById i ?d1 = Some (iv\<lparr>inv_status := Inv_submitted,
      inv_intake := (inv_intake iv)\<lparr>itk_sla_deadline := Some (sla_72h (clock w))\<rparr>, inv_updated_at := clock w\<rparr>)"
    using promote_lookup [OF f] by simp
  have "Invoices.findInvoiceById i ?d2 = Some (promoted_row env (clock w) iv)"
    using d1 flag_lookup [OF d1] by (simp add: promoted_row_def)
  moreover have "t_audit ?d2 = t_audit (db w) @ [?e]" by (simp add: setAmlFlagWithClient_def)
  ultimately show ?thesis using guards_pass [OF p] by (auto simp: submitDraft_def)
qed

text \<open>
  what the promotion of a draft requires and does: ownership, an approved supplier, an active buyer, tenor and exposure. The invoice is then submitted,
  flagged above the threshold, with one audit entry. Neither of the two money-laundering checks of \<open>submitInvoice\<close> is a condition, and
  no job is queued, so that the buyer is not asked to confirm.
\<close>

theorem submitDraft_accepts:
  assumes "promotable env i u (clock w) (db w) iv" and "audit_ok (db w) (Some u)"
  shows "\<exists>w'. submitDraft env i u ip ua w = (Inr (toInvoiceDetail (promoted_row env (clock w) iv)), w')
     \<and> Invoices.findInvoiceById i (db w') = Some (promoted_row env (clock w) iv)
     \<and> t_audit (db w') = t_audit (db w) @ [promoted_entry i u ip ua] \<and> jobs w' = jobs w"
  using assms by (rule submitDraft_runs)

text \<open>A draft next to an earlier invoice of the same pair that brings the thirty-day total to the threshold.\<close>

definition split_draft :: invoice where
  "split_draft = (sample_invoice Inv_draft)\<lparr>inv_due_date := 30\<rparr>"

definition split_world :: world where
  "split_world = world_of ((db intake_world)\<lparr>t_invoices :=
     [split_draft, (sample_invoice Inv_submitted)\<lparr>inv_id := ''j'', inv_number := ''INV-2'', inv_face_value := 99500000\<rparr>]\<rparr>)"

lemma tenor_30: "computeTenorDays 0 (30 * day_ms) = 30"
  using computeTenorDays_exact [of "30 * day_ms" 0] by (simp add: day_ms_def)

lemma split_promotable: "promotable default_env ''inv'' ''su'' (clock split_world) (db split_world) split_draft"
  using tenor_30 by (simp add: promotable_def split_world_def split_draft_def Invoices.findInvoiceById_def findSupplierByUserId_def
      findBuyerWithLimits_def intake_defs)

theorem submitDraft_accepts_witness:
  "structuring default_env (clock split_world) ''sup'' ''buy'' (inv_face_value split_draft) (db split_world)
     \<and> (\<exists>x w'. submitDraft default_env ''inv'' ''su'' ''ip'' ''ua'' split_world = (Inr x, w'))"
proof
  show "structuring default_env (clock split_world) ''sup'' ''buy'' (inv_face_value split_draft) (db split_world)"
    by (simp add: structuring_def get30DayRollingTotal_def split_world_def split_draft_def intake_defs)
  have "audit_ok (db split_world) (Some ''su'')" by (simp add: split_world_def intake_defs)
  then show "\<exists>x w'. submitDraft default_env ''inv'' ''su'' ''ip'' ''ua'' split_world = (Inr x, w')"
    using submitDraft_accepts [OF split_promotable] by blast
qed

section \<open>Operations that cannot succeed\<close>

text \<open>
  a withdrawal within the cooling-off period fails: the statement sets the status \<open>withdrawn\<close>, which is not a label of the
  type \<open>invoice_status\<close>, and the invoice stays submitted.
\<close>

theorem withdrawal_impossible:
  assumes "findSupplierByUserId u (db w) = Some s" and "findInvoiceByIdForSupplier i (sup_id s) (db w) = Some iv"
    and "validateWithdrawalEligibility (clock w) iv = Inr ()"
  shows "withdrawInvoice i u reason ip ua w = (Inl (DbError ''22P02''), w)"
  using assms by (simp add: withdrawInvoice_def executeWithdrawTransaction_def withdrawInvoiceWithClient_def invoice_status_in_def)

theorem withdrawal_impossible_witness:
  "withdrawInvoice ''j'' ''su'' ''r'' ''ip'' ''ua'' split_world = (Inl (DbError ''22P02''), split_world)"
  by (rule withdrawal_impossible [where s = sample_supplier and iv = "(sample_invoice Inv_submitted)\<lparr>inv_id := ''j'', inv_number := ''INV-2'', inv_face_value := 99500000\<rparr>"])
    (simp_all add: split_world_def split_draft_def findSupplierByUserId_def findInvoiceByIdForSupplier_def
      validateWithdrawalEligibility_def COOLING_OFF_HOURS_def sample_confirmation_def blank_confirmation_def intake_defs)

text \<open>
  the bank details of an approved invoice cannot be captured: the statement compares the supplier of the invoice with the id of
  the \<^emph>\<open>user\<close>, so that it matches no row unless a supplier has the id of the user, and the call is refused without effect.
\<close>

theorem bank_details_impossible:
  assumes "\<And>r. r \<in> set (t_invoices (db w)) \<Longrightarrow> inv_supplier r \<noteq> u" and "encrypt_bank_details enc ivs inp = Inr enc3"
  shows "setInvoiceBankDetails enc ivs u i inp ip ua w = (Inl (BusinessRuleError ''INVOICE_WRONG_STATUS''), w)"
proof -
  have "filter (bank_target i u) (t_invoices (db w)) = []" using assms(1) by (auto simp: filter_empty_conv bank_target_def)
  then show ?thesis
    using assms(2) by (cases enc3) (simp add: setInvoiceBankDetails_def setInvoiceBankDetailsWithClient_def)
qed

definition approved_world :: world where
  "approved_world = world_of ((db intake_world)\<lparr>t_invoices := [sample_invoice Inv_approved]\<rparr>)"

theorem bank_details_impossible_witness:
  "findSupplierByUserId ''su'' (db approved_world) = Some sample_supplier \<and> inv_supplier (sample_invoice Inv_approved) = sup_id sample_supplier
     \<and> setInvoiceBankDetails (\<lambda>iv p. Inr p) ([], [], []) ''su'' ''inv''
         \<lparr>bd_account_number = ''9030'', bd_account_name = ''Supplier'', bd_bank_name = ''Bank''\<rparr> ''ip'' ''ua'' approved_world
       = (Inl (BusinessRuleError ''INVOICE_WRONG_STATUS''), approved_world)"
  using bank_details_impossible [of approved_world "''su''" "\<lambda>iv p. Inr p" "([], [], [])"
      "\<lparr>bd_account_number = ''9030'', bd_account_name = ''Supplier'', bd_bank_name = ''Bank''\<rparr>" "(''9030'', ''Supplier'', ''Bank'')"]
  by (simp add: approved_world_def encrypt_bank_details_def findSupplierByUserId_def intake_defs)

section \<open>Reminders\<close>

text \<open>
  A loop over invoices that marks each one in the audit log and skips those already marked: it changes nothing but
  audit log and jobs, leaves every invoice marked, and does nothing when all are.
\<close>

definition only_logs :: "world \<Rightarrow> world \<Rightarrow> bool" where
  "only_logs w w' \<longleftrightarrow> (\<exists>es js. w' = w\<lparr>db := (db w)\<lparr>t_audit := t_audit (db w) @ es\<rparr>, jobs := jobs w @ js\<rparr>)"

lemma only_logs_refl [simp]: "only_logs w w"
  unfolding only_logs_def by (intro exI [of _ "[]"]) simp

lemma only_logs_trans: "only_logs w v \<Longrightarrow> only_logs v u \<Longrightarrow> only_logs w u"
  unfolding only_logs_def by force

lemma pending_frame [simp]: "pending_reminder now a b (d\<lparr>t_audit := x\<rparr>) = pending_reminder now a b d"
  by (simp add: pending_reminder_def fun_eq_iff)

lemma sent_iff: "hasReminderBeenSent i act d \<longleftrightarrow> (\<exists>e \<in> set (t_audit d). aud_record e = Some i \<and> aud_action e = act)"
  by (auto simp: hasReminderBeenSent_def filter_empty_conv)

lemma only_logs_queries:
  "only_logs w w' \<Longrightarrow> findInvoicesPendingReminder now a b (db w') = findInvoicesPendingReminder now a b (db w)"
  "only_logs w w' \<Longrightarrow> clock w' = clock w"
  "only_logs w w' \<Longrightarrow> hasReminderBeenSent i act (db w) \<Longrightarrow> hasReminderBeenSent i act (db w')"
  by (auto simp: only_logs_def findInvoicesPendingReminder_def sent_iff)

locale marking =
  fixes step :: "invoice \<Rightarrow> unit service" and action :: string
  assumes marked: "step r w = (Inr (), w') \<Longrightarrow> only_logs w w' \<and> hasReminderBeenSent (inv_id r) action (db w')"
    and skips: "hasReminderBeenSent (inv_id r) action (db w) \<Longrightarrow> step r w = (Inr (), w)"
begin

lemma loop_marks:
  "forS step rs w = (Inr (), w') \<Longrightarrow> only_logs w w' \<and> (\<forall>r \<in> set rs. hasReminderBeenSent (inv_id r) action (db w'))"
proof (induction rs arbitrary: w)
  case (Cons r rs)
  then obtain v where "step r w = (Inr (), v)" "forS step rs v = (Inr (), w')" by (auto simp: thenS_succ)
  then show ?case using marked Cons.IH by (metis only_logs_queries(3) only_logs_trans set_ConsD)
qed simp

lemma loop_skips: "(\<And>r. r \<in> set rs \<Longrightarrow> hasReminderBeenSent (inv_id r) action (db w)) \<Longrightarrow> forS step rs w = (Inr (), w)"
  by (induction rs) (simp_all add: skips)

text \<open>The window of such a loop, run again after anything that only logs, does nothing.\<close>

definition window :: "int \<Rightarrow> int \<Rightarrow> unit service" where
  "window a b = bindS nowS (\<lambda>now. bindS (queryS (findInvoicesPendingReminder now a b)) (forS step))"

lemma window_marks: "window a b w = (Inr (), w') \<Longrightarrow> only_logs w w'"
  by (auto simp: window_def dest: loop_marks)

lemma window_again:
  assumes "window a b w = (Inr (), v)" and "only_logs v u"
  shows "window a b u = (Inr (), u)"
proof -
  have l: "forS step (findInvoicesPendingReminder (clock w) a b (db w)) w = (Inr (), v)" using assms(1) by (simp add: window_def)
  note m = loop_marks [OF l]
  have "only_logs w u" using m assms(2) only_logs_trans by blast
  then show ?thesis
    using m assms(2) by (simp add: window_def only_logs_queries(1,2) loop_skips only_logs_queries(3) [OF assms(2)])
qed

end

lemma enqueue_only_logs: "enqueueS q n dat w = (Inr x, v) \<Longrightarrow> only_logs w v"
  unfolding only_logs_def enqueueS_succ
  by (rule exI [of _ "[]"], rule exI [of _ "if queue_set w q then [\<lparr>job_ref = q, job_name = n, job_data = dat\<rparr>] else []"])
    (auto split: if_splits)

lemma audit_only_logs:
  "createAuditEntry e w = (Inr x, v) \<Longrightarrow> only_logs w v \<and> (\<forall>i. aud_record e = Some i \<longrightarrow> hasReminderBeenSent i (aud_action e) (db v))"
  unfolding only_logs_def createAuditEntry_succ sent_iff
  by (rule conjI, rule exI [of _ "[e]"], rule exI [of _ "[]"]) auto

lemma entry_records [simp]:
  "aud_record (reminder_entry a m i) = Some i" "aud_action (reminder_entry a m i) = a"
  "aud_record (overdue_entry r) = Some (inv_id r)" "aud_action (overdue_entry r) = ''CONFIRMATION_OVERDUE''"
  by (simp_all add: reminder_entry_def overdue_entry_def audit_req_def audit_sys_def)

lemma remind_invoice_marks:
  assumes "remind_invoice m a r w = (Inr (), w')"
  shows "only_logs w w' \<and> hasReminderBeenSent (inv_id r) a (db w')"
proof (cases "hasReminderBeenSent (inv_id r) a (db w)")
  case True
  then show ?thesis using assms by (simp add: remind_invoice_def)
next
  case False
  then obtain v q n dat where "enqueueS q n dat w = (Inr (), v)" "createAuditEntry (reminder_entry a m (inv_id r)) v = (Inr (), w')"
    using assms by (auto simp: remind_invoice_def thenS_succ)
  then show ?thesis using audit_only_logs only_logs_trans [OF enqueue_only_logs] by fastforce
qed

lemma flag_overdue_marks:
  assumes "flag_overdue r w = (Inr (), w')"
  shows "only_logs w w' \<and> hasReminderBeenSent (inv_id r) ''CONFIRMATION_OVERDUE'' (db w')"
proof (cases "hasReminderBeenSent (inv_id r) ''CONFIRMATION_OVERDUE'' (db w)")
  case True
  then show ?thesis using assms by (simp add: flag_overdue_def)
next
  case False
  then obtain v q n dat where "createAuditEntry (overdue_entry r) w = (Inr (), v)" and e: "enqueueS q n dat v = (Inr (), w')"
    using assms by (auto simp: flag_overdue_def thenS_succ)
  then show ?thesis using audit_only_logs [of "overdue_entry r" w] enqueue_only_logs [OF e]
    by (auto intro: only_logs_trans only_logs_queries(3))
qed

interpretation remind: marking "remind_invoice m a" a for m a
  by unfold_locales (rule remind_invoice_marks, simp_all add: remind_invoice_def)

interpretation overdue: marking flag_overdue "''CONFIRMATION_OVERDUE''"
  by unfold_locales (rule flag_overdue_marks, simp_all add: flag_overdue_def)

lemma windows:
  "processReminderWindow m b a = remind.window m a m b" "processOverdueWindow = overdue.window 168 720"
  by (simp_all add: processReminderWindow_def remind.window_def processOverdueWindow_def overdue.window_def)

text \<open>
  the hourly reminder job repeats nothing. Run again before time passes, it sends no further reminder and writes nothing.
\<close>

theorem processReminders_idempotent:
  assumes "processReminders w = (Inr (), w')"
  shows "processReminders w' = (Inr (), w')"
proof -
  obtain w1 w2 where a: "processReminderWindow 48 120 ''CONFIRMATION_REMINDER_T2'' w = (Inr (), w1)"
    and b: "processReminderWindow 120 168 ''CONFIRMATION_REMINDER_T5'' w1 = (Inr (), w2)" and c: "processOverdueWindow w2 = (Inr (), w')"
    using assms by (auto simp: processReminders_def thenS_succ)
  note l = remind.window_marks [OF b [unfolded windows]] overdue.window_marks [OF c [unfolded windows]]
  have "processReminderWindow 48 120 ''CONFIRMATION_REMINDER_T2'' w' = (Inr (), w')"
    unfolding windows by (rule remind.window_again [OF a [unfolded windows] only_logs_trans [OF l]])
  moreover have "processReminderWindow 120 168 ''CONFIRMATION_REMINDER_T5'' w' = (Inr (), w')"
    unfolding windows by (rule remind.window_again [OF b [unfolded windows] l(2)])
  moreover have "processOverdueWindow w' = (Inr (), w')"
    unfolding windows by (rule overdue.window_again [OF c [unfolded windows] only_logs_refl])
  ultimately show ?thesis by (simp add: processReminders_def)
qed

definition stale_world :: world where
  "stale_world = (world_of ((db intake_world)\<lparr>t_invoices := [sample_invoice Inv_submitted]\<rparr>))\<lparr>clock := 50 * hour_ms\<rparr>"

lemma stale_world_run: "fst (processReminders stale_world) = Inr () \<and> length (t_audit (db (snd (processReminders stale_world)))) = 1"
  by code_simp

theorem processReminders_idempotent_witness:
  "\<exists>w'. processReminders stale_world = (Inr (), w') \<and> length (t_audit (db w')) = 1 \<and> processReminders w' = (Inr (), w')"
  using stale_world_run processReminders_idempotent [of stale_world "snd (processReminders stale_world)"]
  by (metis prod.collapse)

end
