(* ===== verification/Invoice_Access.thy ===== *)
theory Invoice_Access
  imports Confirmation_Props
begin

text \<open>
  The reading side of \<open>src/src/services/invoices\<close>, who sees which invoice, the paginated list with its filters, the
  audit timeline, the detail with its joins, the risk breakdown, and the documents attached to an invoice with the encrypted files on
  disk. A list row is the invoice joined with its supplier, buyer and score; the conversion of its columns to the wire is not
  modelled. Encryption and SHA-256 are parameters; the upload directory is a list of path segments.
\<close>

section \<open>Ownership, timeline, risk\<close>

definition enforceOwnershipBySupplierId :: "string \<Rightarrow> string \<Rightarrow> string \<Rightarrow> unit service" where
  "enforceOwnershipBySupplierId invoiceSupplierId userId role =
     (if role \<noteq> ''supplier'' then returnS ()
      else bindS (queryS (findSupplierByUserId userId)) (\<lambda>sp.
           guardS (case sp of None \<Rightarrow> False | Some s \<Rightarrow> sup_id s = invoiceSupplierId) ForbiddenError))"

definition getInvoiceTimeline :: "string \<Rightarrow> string \<Rightarrow> audit_entry list service" where
  "getInvoiceTimeline invoiceId role =
     thenS (guardS (role \<noteq> ''supplier'') ForbiddenError)
    (bindS (queryS (Invoices.findInvoiceById invoiceId)) (\<lambda>found.
     thenS (requireS found (NotFoundError ''Invoice'' invoiceId))
       (queryS (repo_getInvoiceTimeline invoiceId))))"

definition mapRiskLevel :: "int option \<Rightarrow> string option" where
  "mapRiskLevel score =
     (case score of
        None \<Rightarrow> None
      | Some n \<Rightarrow> Some (if 75 \<le> n then ''low'' else if 50 \<le> n then ''medium'' else if 25 \<le> n then ''high'' else ''critical''))"

record risk_breakdown =
  rb_composite :: int
  rb_buyer_credit :: js_number
  rb_supplier_track_record :: js_number
  rb_concentration_risk :: js_number
  rb_collateral :: js_number
  rb_tenor :: js_number

text \<open>The five columns are \<open>NOT NULL\<close>; \<open>None\<close> is the value NaN.\<close>

definition buildRiskBreakdown :: "risk_score option \<Rightarrow> risk_breakdown option" where
  "buildRiskBreakdown rs =
     map_option (\<lambda>r. \<lparr>rb_composite = rs_final_score r, rb_buyer_credit = numeric_out (rs_buyer_credit r),
       rb_supplier_track_record = numeric_out (rs_track_record r), rb_concentration_risk = numeric_out (rs_concentration r),
       rb_collateral = numeric_out (rs_collateral r), rb_tenor = numeric_out (rs_tenor r)\<rparr>) rs"

text \<open>The status changes among the audit entries of an invoice: the status and who made it.\<close>

definition new_status :: "audit_entry \<Rightarrow> string option" where
  "new_status e = (case map_of (aud_new e) ''status'' of Some (JStr s) \<Rightarrow> Some s | _ \<Rightarrow> None)"

definition mapStatusTimeline :: "audit_entry list \<Rightarrow> (string \<times> string \<times> string) list" where
  "mapStatusTimeline rows =
     map (\<lambda>e. (the (new_status e), case aud_user e of None \<Rightarrow> ''SYSTEM'' | Some u \<Rightarrow> u, aud_action e))
       (filter (\<lambda>e. new_status e \<noteq> None) rows)"

section \<open>The detail\<close>

type_synonym enriched_row = "invoice \<times> supplier option \<times> buyer option \<times> risk_score option"

definition enriched :: "db \<Rightarrow> invoice \<Rightarrow> enriched_row" where
  "enriched d r = (r, findSupplierById (inv_supplier r) d, findBuyerWithLimits (inv_buyer r) d,
     select_one (\<lambda>s. rs_invoice s = inv_id r) (t_risk_scores d))"

text \<open>
  The detail query joins the enriched row with the payment of the invoice (one at most, \<open>invoice_id\<close> is unique there). The
  approvals carry the e-mail and role of the approver where it is a user; documents and collateral are ordered by creation,
  approvals are kept in that order.
\<close>

definition getEnrichedInvoiceDetail :: "string \<Rightarrow> db \<Rightarrow> (enriched_row \<times> payment option) option" where
  [repo_def]: "getEnrichedInvoiceDetail i d =
     map_option (\<lambda>r. (enriched d r, select_one (\<lambda>p. pay_invoice p = i) (t_payments d)))
       (select_one (\<lambda>r. inv_id r = i) (t_invoices d))"

definition getInvoiceApprovalHistory :: "string \<Rightarrow> db \<Rightarrow> (approval \<times> string \<times> string) list" where
  [repo_def]: "getInvoiceApprovalHistory i d =
     map (\<lambda>a. case select_one (\<lambda>u. usr_id u = apr_approver a) (t_users d) of
            None \<Rightarrow> (a, apr_approver a, ''system'')
          | Some u \<Rightarrow> (a, usr_email u, acc_role (usr_account u)))
       (filter (\<lambda>a. apr_invoice a = i) (t_approvals d))"

definition getInvoiceDocumentRefs :: "string \<Rightarrow> db \<Rightarrow> document list" where
  [repo_def]: "getInvoiceDocumentRefs i d = sort_key doc_created_at (filter (\<lambda>x. doc_invoice x = Some i) (t_documents d))"

definition getInvoiceCollateralRefs :: "string \<Rightarrow> db \<Rightarrow> collateral list" where
  [repo_def]: "getInvoiceCollateralRefs i d = sort_key col_created_at (filter (\<lambda>x. col_invoice x = Some i) (t_collateral d))"

record invoice_detail =
  idt_row :: enriched_row
  idt_payment :: "payment option"
  idt_status_timeline :: "(string \<times> string \<times> string) list"
  idt_approval_history :: "(approval \<times> string \<times> string) list"
  idt_risk_breakdown :: "risk_breakdown option"
  idt_documents :: "document list"
  idt_collateral :: "collateral list"

definition assembleInvoiceDetail :: "enriched_row \<times> payment option \<Rightarrow> (approval \<times> string \<times> string) list \<Rightarrow> document list
    \<Rightarrow> collateral list \<Rightarrow> audit_entry list \<Rightarrow> invoice_detail" where
  "assembleInvoiceDetail row approvals documents coll timeline =
     \<lparr>idt_row = fst row, idt_payment = snd row, idt_status_timeline = mapStatusTimeline timeline, idt_approval_history = approvals,
      idt_risk_breakdown = buildRiskBreakdown (snd (snd (snd (fst row)))), idt_documents = documents, idt_collateral = coll\<rparr>"

definition getInvoiceDetail :: "string \<Rightarrow> string \<Rightarrow> string \<Rightarrow> invoice_detail service" where
  "getInvoiceDetail invoiceId userId role =
     bindS (queryS (getEnrichedInvoiceDetail invoiceId)) (\<lambda>found.
     bindS (requireS found (NotFoundError ''Invoice'' invoiceId)) (\<lambda>row.
     thenS (enforceOwnershipBySupplierId (inv_supplier (fst (fst row))) userId role)
    (bindS (queryS (getInvoiceApprovalHistory invoiceId)) (\<lambda>approvals.
     bindS (queryS (getInvoiceDocumentRefs invoiceId)) (\<lambda>documents.
     bindS (queryS (getInvoiceCollateralRefs invoiceId)) (\<lambda>coll.
     bindS (queryS (repo_getInvoiceTimeline invoiceId)) (\<lambda>timeline.
       returnS (assembleInvoiceDetail row approvals documents coll timeline))))))))"

section \<open>The list\<close>

datatype status_filter = One_status string | Some_statuses "string list"

record invoice_filters =
  if_status :: "status_filter option"
  if_buyer_id :: "string option"
  if_date_from :: "int option"
  if_date_to :: "int option"

text \<open>
  The condition on the status: a single value is read as an enumeration label; a list is cast to \<open>text[]\<close>, and there is no
  operator that compares \<open>invoice_status\<close> with \<open>text\<close>.
\<close>

definition status_condition :: "status_filter option \<Rightarrow> ris_error + (invoice \<Rightarrow> bool)" where
  "status_condition f =
     (case f of
        None \<Rightarrow> Inr (\<lambda>_. True)
      | Some (One_status s) \<Rightarrow> bindE (invoice_status_in s) (\<lambda>st. Inr (\<lambda>r. inv_status r = st))
      | Some (Some_statuses ss) \<Rightarrow> Inl (DbError ''42883''))"

definition buildInvoiceFilterClause :: "invoice_filters \<Rightarrow> ris_error + (invoice \<Rightarrow> bool)" where
  "buildInvoiceFilterClause f =
     bindE (status_condition (if_status f)) (\<lambda>st.
     Inr (\<lambda>r. st r
       \<and> (case if_buyer_id f of None \<Rightarrow> True | Some b \<Rightarrow> inv_buyer r = b)
       \<and> (case if_date_from f of None \<Rightarrow> True | Some t \<Rightarrow> t \<le> inv_created_at r)
       \<and> (case if_date_to f of None \<Rightarrow> True | Some t \<Rightarrow> inv_created_at r \<le> t)))"

definition newest_first :: "invoice list \<Rightarrow> invoice list" where
  "newest_first rs = sort_key (\<lambda>r. - inv_created_at r) rs"

text \<open>\<open>LIMIT limit OFFSET (page - 1) * limit\<close>; a negative offset is refused.\<close>

definition page_of :: "int \<Rightarrow> int \<Rightarrow> 'a list \<Rightarrow> ris_error + 'a list" where
  "page_of page limit xs =
     (if limit < 0 then Inl (DbError ''2201W'') else if (page - 1) * limit < 0 then Inl (DbError ''2201X'')
      else Inr (take (nat limit) (drop (nat ((page - 1) * limit)) xs)))"

definition findEnrichedAllInvoices :: "invoice_filters \<Rightarrow> int \<Rightarrow> int \<Rightarrow> db \<Rightarrow> ris_error + enriched_row list \<times> int" where
  [repo_def]: "findEnrichedAllInvoices filters page limit d =
     bindE (buildInvoiceFilterClause filters) (\<lambda>p.
       let rows = filter p (t_invoices d)
       in bindE (page_of page limit (newest_first rows)) (\<lambda>rs. Inr (map (enriched d) rs, int (length rows))))"

definition findEnrichedInvoicesBySupplier :: "string \<Rightarrow> int \<Rightarrow> int \<Rightarrow> db \<Rightarrow> ris_error + enriched_row list \<times> int" where
  [repo_def]: "findEnrichedInvoicesBySupplier s page limit d =
     (let rows = filter (\<lambda>r. inv_supplier r = s) (t_invoices d)
      in bindE (page_of page limit (newest_first rows)) (\<lambda>rs. Inr (map (enriched d) rs, int (length rows))))"

record 'a paginated =
  pr_data :: "'a list"
  pr_total :: int
  pr_page :: int
  pr_limit :: int
  pr_totalPages :: int

definition buildPaginatedResult :: "'a list \<Rightarrow> int \<Rightarrow> int \<Rightarrow> int \<Rightarrow> 'a paginated" where
  "buildPaginatedResult rows n page limit =
     \<lparr>pr_data = rows, pr_total = n, pr_page = page, pr_limit = limit, pr_totalPages = ceil_quotient n limit\<rparr>"

definition listInvoices :: "string \<Rightarrow> string \<Rightarrow> invoice_filters \<Rightarrow> int \<Rightarrow> int \<Rightarrow> enriched_row paginated service" where
  "listInvoices userId role filters page limit =
     (if role = ''supplier''
      then bindS (queryS (findSupplierByUserId userId)) (\<lambda>sp.
           bindS (requireS sp (NotFoundError ''Supplier'' userId)) (\<lambda>supplier.
           bindS (queryS (findEnrichedInvoicesBySupplier (sup_id supplier) page limit)) (\<lambda>found.
           bindS (liftS found) (\<lambda>(rows, n). returnS (buildPaginatedResult rows n page limit)))))
      else bindS (queryS (findEnrichedAllInvoices filters page limit)) (\<lambda>found.
           bindS (liftS found) (\<lambda>(rows, n). returnS (buildPaginatedResult rows n page limit))))"

section \<open>Documents\<close>

record upload_file =
  fl_buffer :: "byte list"
  fl_mimetype :: string
  fl_size :: int

definition ALLOWED_INVOICE_DOC_TYPES :: "string list" where
  "ALLOWED_INVOICE_DOC_TYPES = [''tax_invoice'', ''proforma_invoice'', ''purchase_order'', ''delivery_note'', ''contract'']"

definition ADMIN_INVOICE_DOC_UPLOAD_ROLES :: "string list" where
  "ADMIN_INVOICE_DOC_UPLOAD_ROLES = [''credit_officer'', ''compliance_officer'', ''management'']"

definition MAX_INVOICE_DOC_SIZE_BYTES :: int where
  "MAX_INVOICE_DOC_SIZE_BYTES = 10 * 1024 * 1024"

definition ALLOWED_INVOICE_DOC_MIME :: "string list" where
  "ALLOWED_INVOICE_DOC_MIME = [''application/pdf'', ''image/jpeg'', ''image/png'']"

definition VIEWER_ROLES :: "string list" where
  "VIEWER_ROLES = [''credit_officer'', ''finance_manager'', ''management'', ''compliance_officer'', ''legal'', ''auditor'']"

text \<open>
  \<open>path.resolve(dir, p)\<close> on POSIX: an absolute \<open>p\<close> replaces the directory; empty and \<open>.\<close> segments vanish, \<open>..\<close> removes the last one.
\<close>

fun resolve_segments :: "string list \<Rightarrow> string list \<Rightarrow> string list" where
  "resolve_segments acc [] = acc"
| "resolve_segments acc (s # ss) =
     (if s = [] \<or> s = ''.'' then resolve_segments acc ss
      else if s = ''..'' then resolve_segments (butlast acc) ss
      else resolve_segments (acc @ [s]) ss)"

definition path_string :: "string list \<Rightarrow> string" where
  "path_string segs = (if segs = [] then ''/'' else concat (map (\<lambda>s. ''/'' @ s) segs))"

definition path_resolve :: "string list \<Rightarrow> string \<Rightarrow> string" where
  "path_resolve uploadDir p =
     path_string (resolve_segments (if take 1 p = ''/'' then [] else uploadDir) (js_split (CHR ''/'') p))"

definition writeFileS :: "string \<Rightarrow> string \<Rightarrow> unit service" where
  "writeFileS p content = modifyS (\<lambda>w. w\<lparr>files := (files w)(p := Some content)\<rparr>)"

definition encryptAndStoreInvoiceDocumentFile :: "(string \<Rightarrow> ris_error + string) \<Rightarrow> string list \<Rightarrow> string \<Rightarrow> upload_file \<Rightarrow> unit service" where
  "encryptAndStoreInvoiceDocumentFile enc uploadDir documentId file =
     bindS (liftS (enc (to_base64 (fl_buffer file)))) (\<lambda>encryptedContent.
       writeFileS (path_string (uploadDir @ [documentId @ ''.enc''])) encryptedContent)"

text \<open>\<open>INSERT INTO invoice_documents\<close> of the onboarding repository.\<close>

definition createDocument :: "document \<Rightarrow> db \<Rightarrow> ris_error + db" where
  [repo_def]: "createDocument doc d =
     (if 100 < length (doc_type doc) \<or> 64 < length (doc_file_hash doc) \<or> 100 < length (doc_mime doc) then Inl (DbError ''22001'')
      else if list_ex (\<lambda>x. doc_id x = doc_id doc) (t_documents d) then Inl (DbError ''23505'')
      else if \<not> (case doc_invoice doc of None \<Rightarrow> True | Some i \<Rightarrow> list_ex (\<lambda>r. inv_id r = i) (t_invoices d))
           \<or> \<not> list_ex (\<lambda>s. sup_id s = doc_supplier doc) (t_suppliers d) \<or> \<not> user_exists d (Some (doc_uploaded_by doc))
      then Inl (DbError ''23503'')
      else Inr (d\<lparr>t_documents := t_documents d @ [doc]\<rparr>))"

definition findDocumentByIdAndInvoice :: "string \<Rightarrow> string \<Rightarrow> db \<Rightarrow> document option" where
  [repo_def]: "findDocumentByIdAndInvoice docId i d = select_one (\<lambda>x. doc_id x = docId \<and> doc_invoice x = Some i) (t_documents d)"

definition document_access :: "string list \<Rightarrow> invoice \<Rightarrow> string \<Rightarrow> string \<Rightarrow> unit service" where
  "document_access roles invoice userId role =
     (if role = ''supplier''
      then bindS (queryS (findSupplierByUserId userId)) (\<lambda>sp.
           guardS (case sp of None \<Rightarrow> False | Some s \<Rightarrow> sup_id s = inv_supplier invoice) ForbiddenError)
      else guardS (role \<in> set roles) ForbiddenError)"

definition check_file :: "upload_file \<Rightarrow> string \<Rightarrow> ris_error + unit" where
  "check_file file documentType =
     (if documentType \<notin> set ALLOWED_INVOICE_DOC_TYPES then Inl (BusinessRuleError ''INVOICE_WRONG_STATUS'')
      else if fl_size file = 0 then Inl (BusinessRuleError ''INVOICE_WRONG_STATUS'')
      else if MAX_INVOICE_DOC_SIZE_BYTES < fl_size file then Inl (BusinessRuleError ''INVOICE_WRONG_STATUS'')
      else if fl_mimetype file \<notin> set ALLOWED_INVOICE_DOC_MIME then Inl (BusinessRuleError ''INVOICE_WRONG_STATUS'')
      else Inr ())"

definition document_row :: "int \<Rightarrow> (byte list \<Rightarrow> string) \<Rightarrow> string \<Rightarrow> invoice \<Rightarrow> string \<Rightarrow> upload_file \<Rightarrow> string \<Rightarrow> document" where
  "document_row now hashDocument documentId invoice documentType file userId =
     \<lparr>doc_id = documentId, doc_invoice = Some (inv_id invoice), doc_supplier = inv_supplier invoice, doc_type = documentType,
      doc_encrypted_path = documentId @ ''.enc'', doc_file_hash = hashDocument (fl_buffer file), doc_file_size = fl_size file,
      doc_mime = fl_mimetype file, doc_uploaded_by = userId, doc_created_at = now,
      doc_review = unreviewed\<rparr>"

definition uploadInvoiceDocument :: "(string \<Rightarrow> ris_error + string) \<Rightarrow> (byte list \<Rightarrow> string) \<Rightarrow> string list \<Rightarrow> string
    \<Rightarrow> string \<Rightarrow> string \<Rightarrow> string \<Rightarrow> upload_file \<Rightarrow> string \<Rightarrow> string \<Rightarrow> string \<Rightarrow> string service" where
  "uploadInvoiceDocument enc hashDocument uploadDir documentId invoiceId userId role file documentType ip ua =
     thenS (liftS (check_file file documentType))
    (bindS (queryS (Invoices.findInvoiceById invoiceId)) (\<lambda>found.
     bindS (requireS found (NotFoundError ''Invoice'' invoiceId)) (\<lambda>invoice.
     thenS (document_access ADMIN_INVOICE_DOC_UPLOAD_ROLES invoice userId role)
    (thenS (encryptAndStoreInvoiceDocumentFile enc uploadDir documentId file)
    (bindS nowS (\<lambda>now.
     thenS (tryExecS (createDocument (document_row now hashDocument documentId invoice documentType file userId)))
    (thenS (createAuditEntry (audit_req (Some userId) ''INVOICE_DOCUMENT_UPLOADED'' ''invoices'' (inv_id invoice) None
              [(''documentId'', JStr documentId), (''documentType'', JStr documentType), (''byteLength'', JInt (fl_size file)),
               (''mimeType'', JStr (fl_mimetype file))] (Some ip) (Some ua)))
       (returnS documentId))))))))"

definition invoiceMimeToExtension :: "string \<Rightarrow> string" where
  "invoiceMimeToExtension mime =
     (if mime = ''application/pdf'' then ''.pdf'' else if mime = ''image/jpeg'' then ''.jpg''
      else if mime = ''image/png'' then ''.png'' else [])"

text \<open>A \<open>RisError\<close> with its code and status 500 is a \<open>JsError\<close> here.\<close>

definition readAndDecryptInvoiceDocument :: "(string \<Rightarrow> ris_error + string) \<Rightarrow> string list \<Rightarrow> string \<Rightarrow> string \<Rightarrow> byte list service" where
  "readAndDecryptInvoiceDocument dec uploadDir documentId encryptedPath =
     (let absolute = path_resolve uploadDir encryptedPath; rootPath = path_string uploadDir
      in thenS (guardS (startsWith absolute (rootPath @ ''/'') \<or> absolute = rootPath) (JsError ''DOCUMENT_PATH_INVALID''))
        (bindS (getS (\<lambda>w. files w absolute)) (\<lambda>stored.
         bindS (requireS stored (NotFoundError ''Document'' documentId)) (\<lambda>encryptedContent.
         case dec encryptedContent of
           Inl e \<Rightarrow> throwS (JsError ''DOCUMENT_DECRYPT_FAILED'')
         | Inr base64Plain \<Rightarrow> returnS (from_base64 base64Plain)))))"

definition getInvoiceDocumentFile :: "(string \<Rightarrow> ris_error + string) \<Rightarrow> string list \<Rightarrow> string \<Rightarrow> string \<Rightarrow> string \<Rightarrow> string
    \<Rightarrow> (byte list \<times> string \<times> string) service" where
  "getInvoiceDocumentFile dec uploadDir invoiceId docId userId role =
     bindS (queryS (Invoices.findInvoiceById invoiceId)) (\<lambda>found.
     bindS (requireS found (NotFoundError ''Invoice'' invoiceId)) (\<lambda>invoice.
     thenS (document_access VIEWER_ROLES invoice userId role)
    (bindS (queryS (findDocumentByIdAndInvoice docId (inv_id invoice))) (\<lambda>rec.
     bindS (requireS rec (NotFoundError ''Document'' docId)) (\<lambda>rec.
     bindS (readAndDecryptInvoiceDocument dec uploadDir docId (doc_encrypted_path rec)) (\<lambda>buffer.
       returnS (buffer, doc_mime rec,
                doc_type rec @ ''_'' @ slice0 8 (doc_id rec) @ invoiceMimeToExtension (doc_mime rec))))))))"

section \<open>A document is read back as it was uploaded\<close>

lemma resolve_document:
  assumes "CHR ''/'' \<notin> set docId"
  shows "path_resolve dir (docId @ ''.enc'') = path_string (dir @ [docId @ ''.enc''])"
proof -
  have "js_split (CHR ''/'') (docId @ ''.enc'') = [docId @ ''.enc'']" using assms by (intro js_split_no_sep) auto
  moreover have "take 1 (docId @ ''.enc'') \<noteq> ''/''" using assms by (cases docId) auto
  moreover have "docId @ ''.enc'' \<noteq> []" "docId @ ''.enc'' \<noteq> ''.''" "docId @ ''.enc'' \<noteq> ''..''"
    by (auto dest: arg_cong [of _ _ length])
  ultimately show ?thesis by (simp add: path_resolve_def)
qed

lemma path_string_inside: "dir \<noteq> [] \<Longrightarrow> startsWith (path_string (dir @ [x])) (path_string dir @ ''/'')"
  by (simp add: startsWith_def path_string_def)

lemma stored_document_read:
  assumes "CHR ''/'' \<notin> set docId" and "dir \<noteq> []"
    and "files w (path_string (dir @ [docId @ ''.enc''])) = Some c" and "dec c = Inr (to_base64 b)"
  shows "readAndDecryptInvoiceDocument dec dir j (docId @ ''.enc'') w = (Inr b, w)"
  using assms path_string_inside [OF assms(2), of "docId @ ''.enc''"]
  by (simp add: readAndDecryptInvoiceDocument_def resolve_document from_base64_to_base64)

lemma document_access_succ: "document_access roles iv u role w = (Inr x, w') \<Longrightarrow> w' = w"
  by (auto simp: document_access_def svc_succ split: if_splits)

text \<open>What an accepted upload leaves behind: the encrypted file and the row that names it.\<close>

lemma uploadInvoiceDocument_succ:
  assumes "uploadInvoiceDocument enc sha dir docId i u role file ty ip ua w = (Inr r, w')"
  shows "r = docId \<and> (\<exists>iv c. Invoices.findInvoiceById i (db w) = Some iv \<and> enc (to_base64 (fl_buffer file)) = Inr c
     \<and> files w' (path_string (dir @ [docId @ ''.enc''])) = Some c
     \<and> Invoices.findInvoiceById i (db w') = Some iv
     \<and> t_documents (db w') = t_documents (db w) @ [document_row (clock w) sha docId iv ty file u]
     \<and> t_suppliers (db w') = t_suppliers (db w)
     \<and> \<not> list_ex (\<lambda>x. doc_id x = docId) (t_documents (db w)))"
proof -
  obtain iv w1 c d where iv: "Invoices.findInvoiceById i (db w) = Some iv"
    and a: "document_access ADMIN_INVOICE_DOC_UPLOAD_ROLES iv u role w = (Inr (), w1)"
    and c: "enc (to_base64 (fl_buffer file)) = Inr c"
    and d: "createDocument (document_row (clock w1) sha docId iv ty file u) (db w1) = Inr d"
    and w': "files w' = (files w1)(path_string (dir @ [docId @ ''.enc'']) := Some c)" "t_invoices (db w') = t_invoices d"
      "t_documents (db w') = t_documents d" "t_suppliers (db w') = t_suppliers d" and r: "r = docId"
    using assms unfolding uploadInvoiceDocument_def encryptAndStoreInvoiceDocumentFile_def writeFileS_def
    by (auto simp: svc_succ)
  have "w1 = w" by (rule document_access_succ [OF a])
  then show ?thesis using iv c d w' r
    by (auto simp: createDocument_def document_row_def Invoices.findInvoiceById_def split: if_splits)
qed

text \<open>Whether the invoice belongs to the supplier of the user.\<close>

definition owns_invoice :: "string \<Rightarrow> string \<Rightarrow> db \<Rightarrow> bool" where
  "owns_invoice user invoice d =
     (case (findSupplierByUserId user d, Invoices.findInvoiceById invoice d) of
        (Some s, Some i) \<Rightarrow> sup_id s = inv_supplier i
      | _ \<Rightarrow> False)"

text \<open>
  C33: a document uploaded to an invoice is returned byte for byte, with its type and a name made of its kind and id, to the supplier that owns
  the invoice and to the six staff roles that view documents, and everybody else is refused: what the upload encodes in base64,
  encrypts and writes under the id of the document, the download resolves inside the upload directory, reads, decrypts and decodes.
\<close>

theorem document_roundtrip:
  assumes "uploadInvoiceDocument (encrypt cipher env iv) sha dir docId i u role file ty ip ua w = (Inr r, w')"
    and "aead cipher decipher" and "key_ok env" and "length iv = IV_LENGTH"
    and "CHR ''/'' \<notin> set docId" and "dir \<noteq> []"
  shows "getInvoiceDocumentFile (decrypt decipher env) dir i docId v viewer w' =
     (if viewer = ''supplier'' \<and> owns_invoice v i (db w)
         \<or> viewer \<in> {''credit_officer'', ''finance_manager'', ''management'', ''compliance_officer'', ''legal'', ''auditor''}
      then Inr (fl_buffer file, fl_mimetype file, ty @ ''_'' @ slice0 8 docId @ invoiceMimeToExtension (fl_mimetype file))
      else Inl ForbiddenError, w')"
proof -
  obtain inv0 c where f: "Invoices.findInvoiceById i (db w) = Some inv0" and c: "encrypt cipher env iv (to_base64 (fl_buffer file)) = Inr c"
    and fl: "files w' (path_string (dir @ [docId @ ''.enc''])) = Some c" and f': "Invoices.findInvoiceById i (db w') = Some inv0"
    and docs: "t_documents (db w') = t_documents (db w) @ [document_row (clock w) sha docId inv0 ty file u]"
    and sups: "t_suppliers (db w') = t_suppliers (db w)" and fresh: "\<not> list_ex (\<lambda>x. doc_id x = docId) (t_documents (db w))"
    using uploadInvoiceDocument_succ [OF assms(1)] by blast
  have "decrypt decipher env c = Inr (to_base64 (fl_buffer file))"
    using encrypt_decrypts [OF assms(2-4), of "to_base64 (fl_buffer file)"] c by auto
  then have rd: "readAndDecryptInvoiceDocument (decrypt decipher env) dir docId (docId @ ''.enc'') w' = (Inr (fl_buffer file), w')"
    using stored_document_read [OF assms(5,6) fl] by blast
  have "select_one (\<lambda>x. doc_id x = docId \<and> doc_invoice x = Some (inv_id inv0)) (t_documents (db w)) = None"
    using fresh by (auto simp: select_one_None list_ex_iff)
  then have "findDocumentByIdAndInvoice docId (inv_id inv0) (db w') = Some (document_row (clock w) sha docId inv0 ty file u)"
    by (simp add: findDocumentByIdAndInvoice_def docs select_one_append document_row_def)
  moreover have "document_access VIEWER_ROLES inv0 v viewer w' =
      (if viewer = ''supplier'' \<and> owns_invoice v i (db w)
         \<or> viewer \<in> {''credit_officer'', ''finance_manager'', ''management'', ''compliance_officer'', ''legal'', ''auditor''}
       then Inr () else Inl ForbiddenError, w')"
    by (auto simp: document_access_def VIEWER_ROLES_def owns_invoice_def f findSupplierByUserId_def sups split: option.split)
  ultimately show ?thesis using f' rd by (simp add: getInvoiceDocumentFile_def document_row_def thenS_def bindS_def)
qed

definition sample_file :: upload_file where
  "sample_file = \<lparr>fl_buffer = [37, 80, 68, 70], fl_mimetype = ''application/pdf'', fl_size = 4\<rparr>"

definition document_world :: world where
  "document_world = world_of ((db intake_world)\<lparr>t_invoices := [sample_invoice Inv_submitted]\<rparr>)"

lemma sample_upload:
  "\<exists>w'. uploadInvoiceDocument (encrypt plain_cipher sample_key (replicate 12 0)) (\<lambda>_. ''hash'') [''uploads''] ''doc1'' ''inv'' ''su''
     ''supplier'' sample_file ''contract'' ''ip'' ''ua'' document_world = (Inr ''doc1'', w')"
proof -
  obtain c where "encrypt plain_cipher sample_key (replicate 12 0) (to_base64 (fl_buffer sample_file)) = Inr c"
    using encrypt_decrypts [OF plain_aead sample_key_ok, of "replicate 12 0"] by (auto simp: IV_LENGTH_def)
  then show ?thesis
    by (simp add: uploadInvoiceDocument_def check_file_def ALLOWED_INVOICE_DOC_TYPES_def ALLOWED_INVOICE_DOC_MIME_def
        MAX_INVOICE_DOC_SIZE_BYTES_def Invoices.findInvoiceById_def document_access_def findSupplierByUserId_def
        encryptAndStoreInvoiceDocumentFile_def writeFileS_def createDocument_def document_row_def sample_file_def document_world_def intake_defs)
qed

theorem document_roundtrip_witness:
  "\<exists>w'. uploadInvoiceDocument (encrypt plain_cipher sample_key (replicate 12 0)) (\<lambda>_. ''hash'') [''uploads''] ''doc1'' ''inv'' ''su''
       ''supplier'' sample_file ''contract'' ''ip'' ''ua'' document_world = (Inr ''doc1'', w')
     \<and> fst (getInvoiceDocumentFile (decrypt plain_decipher sample_key) [''uploads''] ''inv'' ''doc1'' ''x'' ''auditor'' w')
       = Inr ([37, 80, 68, 70], ''application/pdf'', ''contract_doc1.pdf'')
     \<and> fst (getInvoiceDocumentFile (decrypt plain_decipher sample_key) [''uploads''] ''inv'' ''doc1'' ''x'' ''buyer'' w') = Inl ForbiddenError"
proof -
  obtain w' where w': "uploadInvoiceDocument (encrypt plain_cipher sample_key (replicate 12 0)) (\<lambda>_. ''hash'') [''uploads''] ''doc1'' ''inv'' ''su''
       ''supplier'' sample_file ''contract'' ''ip'' ''ua'' document_world = (Inr ''doc1'', w')"
    using sample_upload by blast
  show ?thesis
    using document_roundtrip [OF w' plain_aead sample_key_ok, of "''x''" "''auditor''"] w'
      document_roundtrip [OF w' plain_aead sample_key_ok, of "''x''" "''buyer''"]
    by (simp add: IV_LENGTH_def sample_file_def invoiceMimeToExtension_def slice0_def)
qed

section \<open>Who sees what\<close>

text \<open>A supplier's page holds only that supplier's invoices.\<close>

lemma page_of_subset: "page_of page limit xs = Inr ys \<Longrightarrow> set ys \<subseteq> set xs"
  by (auto simp: page_of_def split: if_splits dest: in_set_takeD in_set_dropD)

lemma detail_refused:
  assumes "Invoices.findInvoiceById i (db w) = Some iv"
    and "\<forall>s. findSupplierByUserId v (db w) = Some s \<longrightarrow> inv_supplier iv \<noteq> sup_id s"
  shows "getInvoiceDetail i v ''supplier'' w = (Inl ForbiddenError, w)"
  using assms
  by (cases "findSupplierByUserId v (db w)")
    (auto simp: getInvoiceDetail_def getEnrichedInvoiceDetail_def Invoices.findInvoiceById_def enriched_def enforceOwnershipBySupplierId_def)

lemma detail_own:
  assumes "findSupplierByUserId u (db w) = Some s" and "getInvoiceDetail i u ''supplier'' w = (Inr detail, w')"
  shows "w' = w \<and> inv_id (fst (idt_row detail)) = i \<and> inv_supplier (fst (idt_row detail)) = sup_id s
    \<and> list_all (\<lambda>(a, _). apr_invoice a = i) (idt_approval_history detail)
    \<and> list_all (\<lambda>x. doc_invoice x = Some i) (idt_documents detail)
    \<and> list_all (\<lambda>x. col_invoice x = Some i) (idt_collateral detail)
    \<and> (case idt_payment detail of None \<Rightarrow> True | Some p \<Rightarrow> pay_invoice p = i)"
proof -
  obtain r where r: "select_one (\<lambda>r. inv_id r = i) (t_invoices (db w)) = Some r" "inv_supplier r = sup_id s" "w' = w"
    and d: "detail = assembleInvoiceDetail (enriched (db w) r, select_one (\<lambda>p. pay_invoice p = i) (t_payments (db w)))
      (getInvoiceApprovalHistory i (db w)) (getInvoiceDocumentRefs i (db w)) (getInvoiceCollateralRefs i (db w)) (repo_getInvoiceTimeline i (db w))"
    using assms by (auto simp: getInvoiceDetail_def getEnrichedInvoiceDetail_def enforceOwnershipBySupplierId_def enriched_def svc_succ)
  have "inv_id r = i" using r(1) by (rule select_one_key)
  moreover have "case select_one (\<lambda>p. pay_invoice p = i) (t_payments (db w)) of None \<Rightarrow> True | Some p \<Rightarrow> pay_invoice p = i"
    by (auto split: option.split dest: select_one_Some)
  moreover have "list_all (\<lambda>(a, _). apr_invoice a = i) (getInvoiceApprovalHistory i (db w))"
    by (auto simp: getInvoiceApprovalHistory_def list_all_iff split: option.splits)
  ultimately show ?thesis using r(2,3)
    by (simp add: d assembleInvoiceDetail_def enriched_def getInvoiceDocumentRefs_def getInvoiceCollateralRefs_def list_all_iff)
qed

text \<open>
  C30: a supplier sees its own invoices only. Every row of its list belongs to the supplier of the user; the detail, the documents and
  the timeline of an invoice of another supplier are refused, the detail of its own carries approvals, documents, collateral and payment
  of that invoice only, and a user with the role but without a supplier sees no detail at all. Nothing is written.
\<close>

theorem supplier_isolation:
  assumes "findSupplierByUserId u (db w) = Some s"
  shows "(listInvoices u ''supplier'' filters page limit w = (Inr result, w') \<longrightarrow>
            (\<forall>(r, _) \<in> set (pr_data result). inv_supplier r = sup_id s))
     \<and> (Invoices.findInvoiceById i (db w) = Some iv \<and> inv_supplier iv \<noteq> sup_id s \<longrightarrow>
            getInvoiceDetail i u ''supplier'' w = (Inl ForbiddenError, w)
          \<and> getInvoiceDocumentFile dec dir i docId u ''supplier'' w = (Inl ForbiddenError, w)
          \<and> getInvoiceTimeline i ''supplier'' w = (Inl ForbiddenError, w))
     \<and> (getInvoiceDetail i u ''supplier'' w = (Inr detail, w') \<longrightarrow> w' = w
          \<and> inv_id (fst (idt_row detail)) = i \<and> inv_supplier (fst (idt_row detail)) = sup_id s
          \<and> list_all (\<lambda>(a, _). apr_invoice a = i) (idt_approval_history detail)
          \<and> list_all (\<lambda>x. doc_invoice x = Some i) (idt_documents detail)
          \<and> list_all (\<lambda>x. col_invoice x = Some i) (idt_collateral detail)
          \<and> (case idt_payment detail of None \<Rightarrow> True | Some p \<Rightarrow> pay_invoice p = i))
     \<and> (findSupplierByUserId v (db w) = None \<and> Invoices.findInvoiceById i (db w) = Some iv \<longrightarrow>
            getInvoiceDetail i v ''supplier'' w = (Inl ForbiddenError, w))"
proof -
  have "inv_supplier (fst x) = sup_id s"
    if l: "listInvoices u ''supplier'' filters page limit w = (Inr result, w')" and x: "x \<in> set (pr_data result)" for x
  proof -
    obtain ys where ys: "page_of page limit (newest_first (filter (\<lambda>r. inv_supplier r = sup_id s) (t_invoices (db w)))) = Inr ys"
        "pr_data result = map (enriched (db w)) ys"
      using l assms by (auto simp: listInvoices_def svc_succ findEnrichedInvoicesBySupplier_def Let_def buildPaginatedResult_def)
    then obtain r where "r \<in> set ys" "x = enriched (db w) r" using x by auto
    then show ?thesis using page_of_subset [OF ys(1)] by (auto simp: newest_first_def enriched_def)
  qed
  moreover have "getInvoiceDetail i v ''supplier'' w = (Inl ForbiddenError, w)"
    if "Invoices.findInvoiceById i (db w) = Some iv" "\<forall>s. findSupplierByUserId v (db w) = Some s \<longrightarrow> inv_supplier iv \<noteq> sup_id s" for v
    using that detail_refused by blast
  moreover note detail_own [OF assms, of i detail w']
  ultimately show ?thesis
    using assms by (auto simp: getInvoiceDocumentFile_def getInvoiceTimeline_def document_access_def)
qed

definition foreign_world :: world where
  "foreign_world = world_of ((db intake_world)\<lparr>t_invoices :=
     [sample_invoice Inv_submitted, (sample_invoice Inv_submitted)\<lparr>inv_id := ''other'', inv_supplier := ''sup2''\<rparr>]\<rparr>)"

theorem supplier_isolation_witness:
  "getInvoiceDetail ''other'' ''su'' ''supplier'' foreign_world = (Inl ForbiddenError, foreign_world)
   \<and> getInvoiceDocumentFile (\<lambda>c. Inr c) [''uploads''] ''other'' ''doc'' ''su'' ''supplier'' foreign_world = (Inl ForbiddenError, foreign_world)"
proof -
  let ?iv = "(sample_invoice Inv_submitted)\<lparr>inv_id := ''other'', inv_supplier := ''sup2''\<rparr>"
  have "findSupplierByUserId ''su'' (db foreign_world) = Some sample_supplier" "Invoices.findInvoiceById ''other'' (db foreign_world) = Some ?iv"
    "inv_supplier ?iv \<noteq> sup_id sample_supplier"
    by (simp_all add: foreign_world_def findSupplierByUserId_def Invoices.findInvoiceById_def intake_defs)
  then show ?thesis using supplier_isolation by blast
qed

text \<open>Consecutive slices of a list give the list.\<close>

lemma slices:
  "concat (map (\<lambda>k. take n (drop (k * n) xs)) [0..<m]) = take (m * n) xs"
proof (induction m)
  case (Suc m)
  have "take (m * n + n) xs = take (m * n) xs @ take n (drop (m * n) xs)" by (rule take_add)
  then show ?case using Suc by (simp add: add.commute)
qed simp

lemma ceil_quotient_covers:
  assumes "0 < limit" "limit < 2 ^ 50" and "int n < 2 ^ 52"
  shows "0 \<le> ceil_quotient (int n) limit" "int n \<le> ceil_quotient (int n) limit * limit"
proof -
  have c: "ceil_quotient (int n) limit = \<lceil>of_int (int n) / of_int limit :: rat\<rceil>" by (rule ceil_quotient_exact) (use assms in auto)
  have l: "(0 :: rat) < of_int limit" using assms(1) by simp
  have "(0 :: rat) \<le> of_int (int n) / of_int limit" using l by simp
  then have "\<lceil>0 :: rat\<rceil> \<le> ceil_quotient (int n) limit" unfolding c by (rule ceiling_mono)
  then show "0 \<le> ceil_quotient (int n) limit" by simp
  have "of_int (int n) / of_int limit \<le> (of_int (ceil_quotient (int n) limit) :: rat)" by (simp add: c)
  then have "(of_int (int n) :: rat) \<le> of_int (ceil_quotient (int n) limit * limit)" using l by (simp add: pos_divide_le_eq)
  then show "int n \<le> ceil_quotient (int n) limit * limit" by (simp only: of_int_le_iff)
qed

definition supplier_rows :: "string \<Rightarrow> db \<Rightarrow> enriched_row list" where
  "supplier_rows s d = map (enriched d) (newest_first (filter (\<lambda>r. inv_supplier r = s) (t_invoices d)))"

text \<open>
  The contract of a paginated listing: page \<open>k\<close> is the \<open>k\<close>-th slice of the rows, and the number of pages announced is
  the rows divided by the page size, rounded up.
\<close>

locale paged_listing =
  fixes fetch :: "int \<Rightarrow> int \<Rightarrow> 'r service" and page_data :: "'r \<Rightarrow> 'a list" and page_count :: "'r \<Rightarrow> int"
    and rows :: "db \<Rightarrow> 'a list" and ok :: "db \<Rightarrow> bool"
  assumes fetch_run: "ok (db w) \<Longrightarrow> 1 \<le> page \<Longrightarrow> 0 < limit \<Longrightarrow>
    \<exists>r. fetch page limit w = (Inr r, w)
      \<and> page_data r = take (nat limit) (drop (nat (page - 1) * nat limit) (rows (db w)))
      \<and> page_count r = ceil_quotient (int (length (rows (db w)))) limit"
begin

lemma pages_complete:
  assumes ok: "ok (db w)" and limit: "0 < limit" "limit < 2 ^ 50" and small: "int (length (rows (db w))) < 2 ^ 52"
  shows "\<exists>result. (\<forall>k \<ge> 1. fetch k limit w = (Inr (result k), w))
     \<and> concat (map (\<lambda>k. page_data (result k)) [1..page_count (result 1)]) = rows (db w)"
proof -
  let ?rows = "rows (db w)"
  let ?m = "nat (ceil_quotient (int (length ?rows)) limit)"
  obtain result where result: "\<And>k. 1 \<le> k \<Longrightarrow> fetch k limit w = (Inr (result k), w)
      \<and> page_data (result k) = take (nat limit) (drop (nat (k - 1) * nat limit) ?rows)
      \<and> page_count (result k) = ceil_quotient (int (length ?rows)) limit"
    using fetch_run [OF ok _ limit(1)] by metis
  note c = ceil_quotient_covers [OF limit small]
  have "length ?rows \<le> ?m * nat limit"
    using c limit(1) by (metis nat_int nat_mono nat_mult_distrib)
  then have all: "take (?m * nat limit) ?rows = ?rows" by simp
  have upto: "[1..int m] = map (\<lambda>k. int k + 1) [0..<m]" for m by (induction m) (simp_all add: upto_rec2)
  have "page_count (result 1) = int ?m" using c(1) result [of 1] by simp
  then have pages: "[1..page_count (result 1)] = map (\<lambda>k. int k + 1) [0..<?m]" by (simp only: upto)
  have "map (\<lambda>k. page_data (result k)) [1..page_count (result 1)] = map (\<lambda>k. take (nat limit) (drop (k * nat limit) ?rows)) [0..<?m]"
    unfolding pages using result by simp
  then have "concat (map (\<lambda>k. page_data (result k)) [1..page_count (result 1)]) = ?rows"
    using slices [of "nat limit" ?rows ?m] all by simp
  then show ?thesis using result by blast
qed

end

text \<open>An answer of \<open>LIMIT\<close> and \<open>OFFSET\<close> on a page that exists.\<close>

lemma page_of_slice:
  "1 \<le> page \<Longrightarrow> 0 < limit \<Longrightarrow> page_of page limit xs = Inr (take (nat limit) (drop (nat (page - 1) * nat limit) xs))"
  by (simp add: page_of_def mult_less_0_iff nat_mult_distrib)

interpretation own_invoices: paged_listing "listInvoices u ''supplier'' filters" pr_data pr_totalPages
    "supplier_rows s" "\<lambda>d. map_option sup_id (findSupplierByUserId u d) = Some s" for u s filters
  by unfold_locales
    (auto simp: listInvoices_def findEnrichedInvoicesBySupplier_def page_of_slice supplier_rows_def Let_def
      take_map drop_map newest_first_def buildPaginatedResult_def)

text \<open>
  walking through the pages from the first to the number of pages announced shows a supplier every one of its
  invoices exactly once, the newest first.
\<close>

theorem list_pages_complete:
  assumes "findSupplierByUserId u (db w) = Some s" and "0 < limit" "limit < 2 ^ 50" and "int (length (t_invoices (db w))) < 2 ^ 52"
  shows "\<exists>result. (\<forall>k \<ge> 1. listInvoices u ''supplier'' filters k limit w = (Inr (result k), w))
     \<and> concat (map (\<lambda>k. pr_data (result k)) [1..pr_totalPages (result 1)]) = supplier_rows (sup_id s) (db w)"
proof -
  have "length (supplier_rows (sup_id s) (db w)) \<le> length (t_invoices (db w))" by (simp add: supplier_rows_def newest_first_def)
  then have "int (length (supplier_rows (sup_id s) (db w))) < 2 ^ 52" using assms(4) by linarith
  then show ?thesis using own_invoices.pages_complete [where u = u and s = "sup_id s" and w = w and limit = limit and filters = filters] assms
    by simp
qed

theorem list_pages_complete_witness:
  "\<exists>result. concat (map (\<lambda>k. pr_data (result k)) [1..pr_totalPages (result 1)]) = supplier_rows ''sup'' (db foreign_world)
     \<and> listInvoices ''su'' ''supplier'' \<lparr>if_status = None, if_buyer_id = None, if_date_from = None, if_date_to = None\<rparr> 1 20 foreign_world
       = (Inr (result 1), foreign_world)"
proof -
  have "findSupplierByUserId ''su'' (db foreign_world) = Some sample_supplier" "sup_id sample_supplier = ''sup''"
    "int (length (t_invoices (db foreign_world))) < 2 ^ 52"
    by (simp_all add: foreign_world_def findSupplierByUserId_def intake_defs)
  then show ?thesis using list_pages_complete [of "''su''" foreign_world sample_supplier 20] by auto
qed

text \<open>A list of statuses cannot be used as a filter.\<close>

lemma status_list_refused:
  "role \<noteq> ''supplier'' \<Longrightarrow> if_status f = Some (Some_statuses ss) \<Longrightarrow>
     listInvoices u role f page limit w = (Inl (DbError ''42883''), w)"
  by (simp add: listInvoices_def findEnrichedAllInvoices_def buildInvoiceFilterClause_def status_condition_def)

end
