(* ===== verification/Compliance.thy ===== *)
theory Compliance
  imports Payments Crypto
begin

text \<open>
  \<open>src/src/services/compliance\<close>: the queue of invoices flagged for money-laundering review, the detail view of one of
  them and the clearance that lets its payment go on. \<open>AML_FLAG_THRESHOLD_UGX\<close> of the environment is an argument, as
  are the decipher and the key of \<open>decrypt\<close>.
\<close>

section \<open>Repository\<close>

record aml_queue_row =
  aq_invoice :: string
  aq_supplier :: string
  aq_buyer :: string
  aq_face_value :: int
  aq_flagged_at :: int
  aq_created_at :: int
  aq_days_flagged :: int

definition awaiting_clearance :: "invoice \<Rightarrow> bool" where
  "awaiting_clearance r \<longleftrightarrow> inv_aml_flagged r \<and> inv_aml_cleared_at r = None"

definition listAmlQueue :: "int \<Rightarrow> db \<Rightarrow> aml_queue_row list" where
  [repo_def]: "listAmlQueue now d =
     map (\<lambda>r. \<lparr>aq_invoice = inv_id r, aq_supplier = inv_supplier r, aq_buyer = inv_buyer r,
               aq_face_value = inv_face_value r, aq_flagged_at = inv_created_at r, aq_created_at = inv_created_at r,
               aq_days_flagged = (now - inv_created_at r) div day_ms\<rparr>)
       (sort_key inv_created_at (filter awaiting_clearance (t_invoices d)))"

record aml_detail_row =
  ad_invoice :: invoice
  ad_supplier_name_encrypted :: "string option"
  ad_buyer_name_encrypted :: "string option"

text \<open>The statement names \<open>b.company_name_encrypted\<close>: PostgreSQL refuses it when \<open>buyers\<close> has no such column.\<close>

definition getAmlDetail :: "string \<Rightarrow> db \<Rightarrow> ris_error + aml_detail_row option" where
  [repo_def]: "getAmlDetail i d =
     (if ''company_name_encrypted'' \<notin> set (buyer_columns d) then Inl (DbError ''42703'')
      else Inr (map_option (\<lambda>r. \<lparr>ad_invoice = r,
          ad_supplier_name_encrypted =
            (case select_one (\<lambda>s. sup_id s = inv_supplier r) (t_suppliers d) of
               None \<Rightarrow> None | Some s \<Rightarrow> sup_company_name_encrypted s),
          ad_buyer_name_encrypted =
            (case select_one (\<lambda>b. buy_id b = inv_buyer r) (t_buyers d) of
               None \<Rightarrow> None | Some b \<Rightarrow> buy_company_name_encrypted b)\<rparr>)
        (select_one (\<lambda>r. inv_id r = i) (t_invoices d))))"

definition getInvoiceClearanceState :: "string \<Rightarrow> db \<Rightarrow> invoice option" where
  [repo_def]: "getInvoiceClearanceState i d = select_one (\<lambda>r. inv_id r = i) (t_invoices d)"

text \<open>The three columns of a clearance are written together; \<open>aml_cleared_by\<close> references \<open>users\<close>.\<close>

definition set_clearance :: "int \<Rightarrow> string \<Rightarrow> string \<Rightarrow> invoice \<Rightarrow> invoice" where
  "set_clearance now officer reason r =
     r\<lparr>inv_aml_cleared_at := Some now, inv_updated_at := now,
       inv_intake := (inv_intake r)\<lparr>itk_aml_cleared_by := Some officer, itk_aml_clearance_reason := Some reason\<rparr>\<rparr>"

definition applyAmlClearanceWithClient :: "string \<Rightarrow> string \<Rightarrow> string \<Rightarrow> int option service" where
  "applyAmlClearanceWithClient i officer reason =
     bindS nowS (\<lambda>now.
     bindS (queryS (\<lambda>d. list_ex (\<lambda>r. inv_id r = i \<and> awaiting_clearance r) (t_invoices d))) (\<lambda>hit.
       if \<not> hit then returnS None
       else thenS (tryExecS (\<lambda>d.
              if \<not> user_exists d (Some officer) then Inl (DbError ''23503'')
              else Inr (d\<lparr>t_invoices := update_where (\<lambda>r. inv_id r = i \<and> awaiting_clearance r)
                            (set_clearance now officer reason) (t_invoices d)\<rparr>)))
            (returnS (Some now))))"

section \<open>Clearance\<close>

record clear_input =
  ci_reason :: string
  ci_sanctions_check_complete :: bool

record clear_result =
  cr_invoice :: string
  cr_cleared_at :: int
  cr_cleared_by :: string

definition guardClearanceEligible :: "invoice \<Rightarrow> unit service" where
  "guardClearanceEligible state =
     thenS (guardS (inv_aml_flagged state) (BusinessRuleError ''INVOICE_NOT_FLAGGED''))
       (guardS (inv_aml_cleared_at state = None) (BusinessRuleError ''AML_ALREADY_CLEARED''))"

definition clearance_entry :: "string option \<Rightarrow> string \<Rightarrow> string \<Rightarrow> bool \<Rightarrow> string \<Rightarrow> string \<Rightarrow> audit_entry" where
  "clearance_entry env i officer sanctionsCheckComplete ip ua =
     audit_req (Some officer) ''AML_CLEARED'' ''invoices'' i (Some [])
       [(''invoice_id'', JStr i), (''officer_id'', JStr officer),
        (''threshold'', JStr (case env of None \<Rightarrow> ''100000000'' | Some t \<Rightarrow> t)),
        (''sanctions_check_complete'', JBool sanctionsCheckComplete)] (Some ip) (Some ua)"

definition writeClearanceAudit :: "string option \<Rightarrow> string \<Rightarrow> string \<Rightarrow> bool \<Rightarrow> string \<Rightarrow> string \<Rightarrow> unit service" where
  "writeClearanceAudit env i officer sanctionsCheckComplete ip ua =
     createAuditEntry (clearance_entry env i officer sanctionsCheckComplete ip ua)"

definition applyClearanceTxn ::
    "string option \<Rightarrow> string \<Rightarrow> string \<Rightarrow> clear_input \<Rightarrow> string \<Rightarrow> string \<Rightarrow> clear_result service" where
  "applyClearanceTxn env i officer input ip ua =
     transactionS (
       bindS (applyAmlClearanceWithClient i officer (ci_reason input)) (\<lambda>updated.
       bindS (requireS updated (BusinessRuleError ''AML_ALREADY_CLEARED'')) (\<lambda>clearedAt.
       thenS (writeClearanceAudit env i officer (ci_sanctions_check_complete input) ip ua)
         (returnS \<lparr>cr_invoice = i, cr_cleared_at = clearedAt, cr_cleared_by = officer\<rparr>))))"

definition queueClearedNotification :: "string \<Rightarrow> unit service" where
  "queueClearedNotification i =
     enqueueS Compliance_notification ''notify-finance-manager-aml-cleared''
       [(''invoiceId'', JStr i), (''type'', JStr ''finance_manager_notify'')]"

definition clearInvoice ::
    "string option \<Rightarrow> string \<Rightarrow> string \<Rightarrow> clear_input \<Rightarrow> string \<Rightarrow> string \<Rightarrow> clear_result service" where
  "clearInvoice env i officer input ip ua =
     bindS (queryS (getInvoiceClearanceState i)) (\<lambda>found.
     bindS (requireS found (NotFoundError ''Invoice'' i)) (\<lambda>state.
     thenS (guardClearanceEligible state)
    (bindS (applyClearanceTxn env i officer input ip ua) (\<lambda>result.
     thenS (queueClearedNotification i) (returnS result)))))"

section \<open>Views\<close>

definition listQueue :: "aml_queue_row list service" where
  "listQueue = bindS nowS (\<lambda>now. queryS (listAmlQueue now))"

record aml_detail =
  dt_invoice :: invoice
  dt_supplier_company_name :: string
  dt_buyer_company_name :: string

definition decryptSafe :: "decipher \<Rightarrow> string option \<Rightarrow> string option \<Rightarrow> string" where
  "decryptSafe decipher key v =
     (case v of None \<Rightarrow> []
      | Some s \<Rightarrow> if s = [] then [] else (case decrypt decipher key s of Inl _ \<Rightarrow> [] | Inr t \<Rightarrow> t))"

definition viewed_entry :: "string \<Rightarrow> string \<Rightarrow> string \<Rightarrow> string \<Rightarrow> string \<Rightarrow> audit_entry" where
  "viewed_entry i viewer role ip ua =
     audit_req (Some viewer) ''AML_DETAIL_VIEWED'' ''invoices'' i (Some [])
       [(''invoice_id'', JStr i), (''viewer_id'', JStr viewer), (''viewer_role'', JStr role)] (Some ip) (Some ua)"

definition getDetail ::
    "decipher \<Rightarrow> string option \<Rightarrow> string \<Rightarrow> string \<Rightarrow> string \<Rightarrow> string \<Rightarrow> string \<Rightarrow> aml_detail service" where
  "getDetail decipher key i viewer role ip ua =
     bindS (queryS (getAmlDetail i)) (\<lambda>answer.
     bindS (liftS answer) (\<lambda>found.
     bindS (requireS found (NotFoundError ''Invoice'' i)) (\<lambda>row.
     thenS (createAuditEntry (viewed_entry i viewer role ip ua))
       (returnS \<lparr>dt_invoice = ad_invoice row,
          dt_supplier_company_name = decryptSafe decipher key (ad_supplier_name_encrypted row),
          dt_buyer_company_name = decryptSafe decipher key (ad_buyer_name_encrypted row)\<rparr>))))"

section \<open>What a clearance does\<close>

text \<open>
  \<open>invoices_aml_clearance_complete\<close>: the three columns are all empty or all filled.
\<close>

definition clearance_complete :: "invoice \<Rightarrow> bool" where
  "clearance_complete r \<longleftrightarrow>
     (inv_aml_cleared_at r = None) = (itk_aml_cleared_by (inv_intake r) = None)
     \<and> (inv_aml_cleared_at r = None) = (itk_aml_clearance_reason (inv_intake r) = None)"

lemma set_clearance_fields [simp]:
  "inv_id (set_clearance now officer reason r) = inv_id r"
  "inv_face_value (set_clearance now officer reason r) = inv_face_value r"
  "inv_status (set_clearance now officer reason r) = inv_status r"
  "inv_aml_flagged (set_clearance now officer reason r) = inv_aml_flagged r"
  "inv_aml_cleared_at (set_clearance now officer reason r) = Some now"
  "itk_aml_cleared_by (inv_intake (set_clearance now officer reason r)) = Some officer"
  "itk_aml_clearance_reason (inv_intake (set_clearance now officer reason r)) = Some reason"
  "clearance_complete (set_clearance now officer reason r)"
  by (simp_all add: set_clearance_def clearance_complete_def)

text \<open>The database after a clearance by a known officer.\<close>

definition cleared_db :: "string option \<Rightarrow> int \<Rightarrow> string \<Rightarrow> string \<Rightarrow> clear_input \<Rightarrow> string \<Rightarrow> string \<Rightarrow> db \<Rightarrow> db" where
  "cleared_db env now i officer input ip ua d =
     d\<lparr>t_invoices := update_where (\<lambda>r. inv_id r = i \<and> awaiting_clearance r)
          (set_clearance now officer (ci_reason input)) (t_invoices d),
       t_audit := t_audit d @ [clearance_entry env i officer (ci_sanctions_check_complete input) ip ua]\<rparr>"

lemma clearance_entry_user [simp]: "aud_user (clearance_entry env i officer s ip ua) = Some officer"
  by (simp add: clearance_entry_def)

lemma applyAml_run:
  "applyAmlClearanceWithClient i officer reason w =
     (if \<not> list_ex (\<lambda>r. inv_id r = i \<and> awaiting_clearance r) (t_invoices (db w)) then (Inr None, w)
      else if \<not> user_exists (db w) (Some officer) then (Inl (DbError ''23503''), w)
      else (Inr (Some (clock w)), w\<lparr>db := (db w)\<lparr>t_invoices :=
              update_where (\<lambda>r. inv_id r = i \<and> awaiting_clearance r)
                (set_clearance (clock w) officer reason) (t_invoices (db w))\<rparr>\<rparr>))"
  by (simp add: applyAmlClearanceWithClient_def)

text \<open>
  The transaction decides alone: whatever was read before it, it writes only when the invoice still awaits clearance.
\<close>

lemma applyClearanceTxn_run:
  assumes "audit_ok (db w) (Some officer)"
  shows "applyClearanceTxn env i officer input ip ua w =
     (if list_ex (\<lambda>r. inv_id r = i \<and> awaiting_clearance r) (t_invoices (db w))
      then (Inr \<lparr>cr_invoice = i, cr_cleared_at = clock w, cr_cleared_by = officer\<rparr>,
            w\<lparr>db := cleared_db env (clock w) i officer input ip ua (db w)\<rparr>)
      else (Inl (BusinessRuleError ''AML_ALREADY_CLEARED''), w))"
proof -
  have "user_exists (db w) (Some officer)" using assms by (simp add: audit_ok_def)
  then show ?thesis
    using assms
    by (simp add: applyClearanceTxn_def transactionS_def applyAml_run writeClearanceAudit_def cleared_db_def bindS_def thenS_def)
qed

lemma pending_ex:
  assumes "distinct (map inv_id rs)" and "select_one (\<lambda>r. inv_id r = i) rs = Some r"
  shows "list_ex (\<lambda>r. inv_id r = i \<and> awaiting_clearance r) rs \<longleftrightarrow> awaiting_clearance r"
proof -
  have "filter (\<lambda>r. inv_id r = i) rs = [r]" using assms by (rule filter_key_unique)
  then have "{q \<in> set rs. inv_id q = i} = {r}" by (metis list.set(1) list.simps(15) set_filter)
  then have "\<And>q. q \<in> set rs \<and> inv_id q = i \<longleftrightarrow> q = r" by blast
  then show ?thesis unfolding list_ex_iff by metis
qed

text \<open>
  the outcome of a clearance request by a known officer on every branch. An unknown invoice, one that was never
  flagged and one that is already cleared are refused and nothing changes. Otherwise exactly that invoice gets the
  three columns, one audit entry is written, whose four values do not include the reason, and the finance manager is
  notified after the commit: when the queue refuses the job the clearance stands and the caller gets an error.
\<close>

theorem clearInvoice_outcome:
  assumes "audit_ok (db w) (Some officer)" and "distinct (map inv_id (t_invoices (db w)))"
  shows "clearInvoice env i officer input ip ua w =
     (case select_one (\<lambda>r. inv_id r = i) (t_invoices (db w)) of
        None \<Rightarrow> (Inl (NotFoundError ''Invoice'' i), w)
      | Some r \<Rightarrow>
          if \<not> inv_aml_flagged r then (Inl (BusinessRuleError ''INVOICE_NOT_FLAGGED''), w)
          else if inv_aml_cleared_at r \<noteq> None then (Inl (BusinessRuleError ''AML_ALREADY_CLEARED''), w)
          else let w1 = w\<lparr>db := cleared_db env (clock w) i officer input ip ua (db w)\<rparr>
               in if queue_set w Compliance_notification \<and> \<not> redis_up w then (Inl QueueError, w1)
                  else (Inr \<lparr>cr_invoice = i, cr_cleared_at = clock w, cr_cleared_by = officer\<rparr>,
                        enqueued Compliance_notification ''notify-finance-manager-aml-cleared''
                          [(''invoiceId'', JStr i), (''type'', JStr ''finance_manager_notify'')] w1))"
proof (cases "select_one (\<lambda>r. inv_id r = i) (t_invoices (db w))")
  case None
  then show ?thesis by (simp add: clearInvoice_def repo_def)
next
  case (Some r)
  note pending = pending_ex [OF assms(2) Some]
  have read: "queryS (getInvoiceClearanceState i) w = (Inr (Some r), w)" by (simp add: repo_def Some)
  show ?thesis
  proof (cases "awaiting_clearance r")
    case True
    then have g: "guardClearanceEligible r w = (Inr (), w)" by (simp add: guardClearanceEligible_def awaiting_clearance_def)
    have t: "applyClearanceTxn env i officer input ip ua w =
      (Inr \<lparr>cr_invoice = i, cr_cleared_at = clock w, cr_cleared_by = officer\<rparr>,
       w\<lparr>db := cleared_db env (clock w) i officer input ip ua (db w)\<rparr>)"
      using True pending by (simp add: applyClearanceTxn_run [OF assms(1)])
    show ?thesis
      using True Some read g t
      by (simp add: clearInvoice_def awaiting_clearance_def queueClearedNotification_def run_enqueue enqueued_def Let_def bindS_def thenS_def)
  next
    case False
    then show ?thesis
      using Some read by (auto simp: clearInvoice_def guardClearanceEligible_def awaiting_clearance_def)
  qed
qed

definition flagged_invoice :: invoice where
  "flagged_invoice = (sample_invoice Inv_approved)\<lparr>inv_aml_flagged := True, inv_face_value := 200000000\<rparr>"

definition flagged_world :: world where
  "flagged_world = world_of (blank_db\<lparr>t_invoices := [flagged_invoice], t_suppliers := [sample_supplier],
     t_buyers := [sample_buyer], t_users := [sample_user ''officer'' None]\<rparr>)"

definition sample_clearance :: clear_input where
  "sample_clearance = \<lparr>ci_reason = ''documents verified'', ci_sanctions_check_complete = True\<rparr>"

lemmas flagged_defs = flagged_world_def flagged_invoice_def sample_clearance_def sample_defs

lemma flagged_world_ok:
  "audit_ok (db flagged_world) (Some ''officer'')" "distinct (map inv_id (t_invoices (db flagged_world)))"
  "select_one (\<lambda>r. inv_id r = ''inv'') (t_invoices (db flagged_world)) = Some flagged_invoice"
  "inv_aml_flagged flagged_invoice" "inv_aml_cleared_at flagged_invoice = None"
  "queue_set flagged_world q" "redis_up flagged_world"
  by (simp_all add: flagged_defs)

theorem clearInvoice_outcome_witness:
  "\<exists>w'. clearInvoice None ''inv'' ''officer'' sample_clearance ''ip'' ''ua'' flagged_world =
     (Inr \<lparr>cr_invoice = ''inv'', cr_cleared_at = 0, cr_cleared_by = ''officer''\<rparr>, w') \<and> length (t_audit (db w')) = 1"
proof -
  have "clock flagged_world = 0" "t_audit (db flagged_world) = []" by (simp_all add: flagged_defs)
  then show ?thesis
    using clearInvoice_outcome [OF flagged_world_ok(1,2), of None "''inv''" sample_clearance "''ip''" "''ua''"]
    by (simp add: flagged_world_ok Let_def cleared_db_def)
qed

text \<open>
  A clearance is immutable, whatever a second officer read before: the update itself finds nothing to write.
\<close>

lemma cleared_not_pending:
  "list_all (\<lambda>r. inv_id r = i \<longrightarrow> inv_aml_cleared_at r \<noteq> None) rs \<Longrightarrow> \<not> list_ex (\<lambda>r. inv_id r = i \<and> awaiting_clearance r) rs"
  by (auto simp: list_all_iff list_ex_iff awaiting_clearance_def)

text \<open>Every part of the module keeps the rows that are cleared, and the constraint on the three columns.\<close>

definition keeps_clearances :: "invoice list \<Rightarrow> invoice list \<Rightarrow> bool" where
  "keeps_clearances before after \<longleftrightarrow>
     list_all2 (\<lambda>r s. inv_id s = inv_id r \<and> (inv_aml_cleared_at r \<noteq> None \<longrightarrow> s = r)) before after"

lemma keeps_clearances_refl: "keeps_clearances rs rs"
  by (simp add: keeps_clearances_def list_all2_refl)

lemma keeps_clearances_trans: "keeps_clearances a b \<Longrightarrow> keeps_clearances b c \<Longrightarrow> keeps_clearances a c"
  unfolding keeps_clearances_def by (rule list_all2_trans) auto

lemma keeps_clearances_update:
  "keeps_clearances rs (update_where (\<lambda>r. inv_id r = i \<and> awaiting_clearance r) (set_clearance now officer reason) rs)"
  by (induction rs) (auto simp: keeps_clearances_def awaiting_clearance_def)

text \<open>One action of the module: a request, the transaction of a request whose check ran earlier, a view.\<close>

inductive aml_step :: "world \<Rightarrow> world \<Rightarrow> bool" where
  clear: "aml_step w (snd (clearInvoice env i officer input ip ua w))"
| clear_txn: "aml_step w (snd (applyClearanceTxn env i officer input ip ua w))"
| view: "aml_step w (snd (getDetail decipher key i viewer role ip ua w))"
| queue: "aml_step w (snd (listQueue w))"
| tick: "0 \<le> t \<Longrightarrow> aml_step w (w\<lparr>clock := clock w + t\<rparr>)"

inductive_cases aml_stepE: "aml_step w w'"

text \<open>The property of a run that both theorems below need.\<close>

definition aml_frame :: "db \<Rightarrow> db \<Rightarrow> bool" where
  "aml_frame d d' \<longleftrightarrow> keeps_clearances (t_invoices d) (t_invoices d')
     \<and> (list_all clearance_complete (t_invoices d) \<longrightarrow> list_all clearance_complete (t_invoices d'))"

lemma aml_frame_refl: "aml_frame d d"
  by (simp add: aml_frame_def keeps_clearances_refl)

lemma aml_frame_trans: "aml_frame a b \<Longrightarrow> aml_frame b c \<Longrightarrow> aml_frame a c"
  using keeps_clearances_trans unfolding aml_frame_def by blast

lemma aml_frame_invoices: "t_invoices d' = t_invoices d \<Longrightarrow> aml_frame d d'"
  by (simp add: aml_frame_def keeps_clearances_refl)

lemma aml_frame_apply: "preserves (\<lambda>w. aml_frame d (db w)) (applyAmlClearanceWithClient i officer reason)"
proof (rule preservesI)
  fix w :: world
  assume I: "aml_frame d (db w)"
  have "aml_frame (db w) (db (snd (applyAmlClearanceWithClient i officer reason w)))"
    by (auto simp: applyAml_run aml_frame_def keeps_clearances_refl keeps_clearances_update intro!: list_all_update_where)
  with I show "aml_frame d (db (snd (applyAmlClearanceWithClient i officer reason w)))" by (rule aml_frame_trans)
qed

lemma aml_frame_audit: "preserves (\<lambda>w. aml_frame d (db w)) (createAuditEntry e)"
  by (rule preserves_createAuditEntry) (simp add: aml_frame_def)

lemma aml_frame_txn: "preserves (\<lambda>w. aml_frame d (db w)) (applyClearanceTxn env i officer input ip ua)"
  unfolding applyClearanceTxn_def writeClearanceAudit_def
  by (intro preserves_transaction preserves_bind preserves_then aml_frame_apply aml_frame_audit preserves_require preserves_return)

lemma aml_step_frame: "aml_step w w' \<Longrightarrow> aml_frame (db w) (db w')"
proof (induction rule: aml_step.induct)
  case (clear w env i officer input ip ua)
  have "preserves (\<lambda>v. aml_frame (db w) (db v)) (clearInvoice env i officer input ip ua)"
    unfolding clearInvoice_def guardClearanceEligible_def queueClearedNotification_def
    by (rule preserves_bind preserves_then preserves_query preserves_require preserves_guard aml_frame_txn
        preserves_enqueue preserves_return)+
  from preservesD [OF this, of w] show ?case by (simp add: aml_frame_refl)
next
  case (clear_txn w env i officer input ip ua)
  show ?case using preservesD [OF aml_frame_txn, of "db w" w] by (simp add: aml_frame_refl)
next
  case (view w decipher key i viewer role ip ua)
  have "preserves (\<lambda>v. aml_frame (db w) (db v)) (getDetail decipher key i viewer role ip ua)"
    unfolding getDetail_def
    by (rule preserves_bind preserves_then preserves_query preserves_lift preserves_require aml_frame_audit preserves_return)+
  from preservesD [OF this, of w] show ?case by (simp add: aml_frame_refl)
qed (simp_all add: listQueue_def aml_frame_refl)

lemma aml_run_frame: "aml_step\<^sup>*\<^sup>* w w' \<Longrightarrow> aml_frame (db w) (db w')"
  by (induction rule: rtranclp_induct) (auto intro: aml_frame_refl aml_frame_trans dest: aml_step_frame)

text \<open>
  C29: a clearance is final. Along every sequence of clearance requests, of transactions whose check another officer's
  clearance has overtaken, and of views, an invoice that is cleared keeps its officer, its time and its reason and
  every other column, and the three columns of every invoice stay all empty or all filled.
\<close>

theorem clearance_immutable:
  assumes "aml_step\<^sup>*\<^sup>* w w'" and "list_all clearance_complete (t_invoices (db w))"
  shows "list_all clearance_complete (t_invoices (db w'))
     \<and> (select_one (\<lambda>r. inv_id r = i) (t_invoices (db w)) = Some r \<and> inv_aml_cleared_at r \<noteq> None
        \<longrightarrow> select_one (\<lambda>r. inv_id r = i) (t_invoices (db w')) = Some r)"
proof -
  have f: "aml_frame (db w) (db w')" using assms(1) by (rule aml_run_frame)
  have "select_one (\<lambda>r. inv_id r = i) after = Some r"
    if "keeps_clearances before after" "select_one (\<lambda>r. inv_id r = i) before = Some r" "inv_aml_cleared_at r \<noteq> None"
    for before after
    using that(1)[unfolded keeps_clearances_def] that(2,3)
    by (induction rule: list_all2_induct) (auto split: if_splits)
  then show ?thesis using f assms(2) unfolding aml_frame_def by blast
qed

definition cleared_invoice :: invoice where
  "cleared_invoice = set_clearance 7 ''officer'' ''first review'' flagged_invoice"

theorem clearance_immutable_witness:
  "\<exists>w'. aml_step\<^sup>*\<^sup>* (flagged_world\<lparr>db := (db flagged_world)\<lparr>t_invoices := [cleared_invoice]\<rparr>\<rparr>) w'
     \<and> select_one (\<lambda>r. inv_id r = ''inv'') (t_invoices (db w')) = Some cleared_invoice"
proof -
  let ?w = "flagged_world\<lparr>db := (db flagged_world)\<lparr>t_invoices := [cleared_invoice]\<rparr>\<rparr>"
  have s: "aml_step\<^sup>*\<^sup>* ?w (snd (applyClearanceTxn None ''inv'' ''second'' sample_clearance ''ip'' ''ua'' ?w))"
    by (rule r_into_rtranclp, rule aml_step.clear_txn)
  have "inv_id cleared_invoice = ''inv''" "inv_aml_cleared_at cleared_invoice \<noteq> None" "clearance_complete cleared_invoice"
    by (simp_all add: cleared_invoice_def) (simp add: flagged_defs)
  then show ?thesis using clearance_immutable [OF s, of "''inv''" cleared_invoice] s by auto
qed

text \<open>
  with the columns the migrations create, the detail view that compliance officers are to decide from can never be
  read: the statement asks \<open>buyers\<close> for a column that only \<open>suppliers\<close> has. Given that column, the view returns the
  names and every read leaves its audit entry.
\<close>

theorem detail_needs_column:
  assumes "audit_ok (db w) (Some viewer)" and "select_one (\<lambda>r. inv_id r = i) (t_invoices (db w)) = Some r"
  shows "(buyer_columns (db w) = migrated_buyer_columns \<longrightarrow>
           getDetail decipher key i viewer role ip ua w = (Inl (DbError ''42703''), w))
     \<and> (''company_name_encrypted'' \<in> set (buyer_columns (db w)) \<longrightarrow>
           (\<exists>detail. getDetail decipher key i viewer role ip ua w =
              (Inr detail, w\<lparr>db := (db w)\<lparr>t_audit := t_audit (db w) @ [viewed_entry i viewer role ip ua]\<rparr>\<rparr>)
              \<and> dt_invoice detail = r))"
proof -
  have "aud_user (viewed_entry i viewer role ip ua) = Some viewer" by (simp add: viewed_entry_def)
  then show ?thesis using assms by (auto simp: getDetail_def getAmlDetail_def migrated_buyer_columns_def)
qed

theorem detail_needs_column_witness:
  "getDetail plain_decipher sample_key ''inv'' ''officer'' ''compliance_officer'' ''ip'' ''ua'' flagged_world =
     (Inl (DbError ''42703''), flagged_world)"
proof -
  have "buyer_columns (db flagged_world) = migrated_buyer_columns" by (simp add: flagged_defs)
  then show ?thesis using detail_needs_column [OF flagged_world_ok(1,3)] by blast
qed

text \<open>
  what the payment gate asks of compliance is what a clearance gives. A flagged invoice at or above the threshold
  that is not cleared is refused by \<open>guardAmlCleared\<close> with nothing changed; after a clearance the same guard passes on
  the row the payment then reads.
\<close>

theorem clearance_opens_payment:
  assumes "audit_ok (db w) (Some officer)" and "distinct (map inv_id (t_invoices (db w)))"
    and "select_one (\<lambda>r. inv_id r = i) (t_invoices (db w)) = Some r" and "awaiting_clearance r"
    and "AML_FLAG_THRESHOLD_UGX threshold \<le> inv_face_value r"
    and "applyClearanceTxn env i officer input ip ua w = (result, w')"
  shows "guardAmlCleared threshold r v = (Inl (BusinessRuleError ''AML_FLAG_REQUIRED''), v)
     \<and> (\<exists>r'. select_one (\<lambda>r. inv_id r = i) (t_invoices (db w')) = Some r' \<and> inv_status r' = inv_status r
          \<and> guardAmlCleared threshold r' v = (Inr (), v))"
proof -
  have e: "list_ex (\<lambda>r. inv_id r = i \<and> awaiting_clearance r) (t_invoices (db w))"
    using pending_ex [OF assms(2,3)] assms(4) by simp
  then have "db w' = cleared_db env (clock w) i officer input ip ua (db w)"
    using assms(6) by (auto simp: applyClearanceTxn_run [OF assms(1)])
  then have "select_one (\<lambda>r. inv_id r = i) (t_invoices (db w')) = Some (set_clearance (clock w) officer (ci_reason input) r)"
    using assms(3,4) select_one_key [OF assms(3)]
    by (simp add: cleared_db_def select_one_update_where [where k = inv_id])
  then show ?thesis using assms(4,5) by (simp add: guardAmlCleared_def awaiting_clearance_def)
qed

theorem clearance_opens_payment_witness:
  "guardAmlCleared None flagged_invoice flagged_world = (Inl (BusinessRuleError ''AML_FLAG_REQUIRED''), flagged_world)"
proof -
  have "awaiting_clearance flagged_invoice" "AML_FLAG_THRESHOLD_UGX None \<le> inv_face_value flagged_invoice"
    by (simp_all add: awaiting_clearance_def AML_FLAG_THRESHOLD_UGX_def flagged_defs)
  then show ?thesis
    using clearance_opens_payment [OF flagged_world_ok(1,2,3)] by (metis surj_pair)
qed

end
