(* ===== verification/Complaints.thy ===== *)
theory Complaints
  imports Invoice_Access
begin

text \<open>
  \<open>src/src/services/complaints\<close>: filing, listing, updating, resolving and escalating complaints. The id of a new
  complaint (\<open>uuidv4()\<close>) is an argument. Status, priority and category are \<open>VARCHAR\<close> columns.
\<close>

definition AUTO_ESCALATE_THRESHOLD :: int where
  "AUTO_ESCALATE_THRESHOLD = 5000000"

record complaint_input =
  cpi_entity_type :: string
  cpi_entity_id :: "string option"
  cpi_subject :: string
  cpi_description :: string
  cpi_category :: string
  cpi_amount_involved :: "int option"

record complaint_update =
  cu_status :: "string option"
  cu_priority :: "string option"
  cu_assigned_to :: "string option"

record complaint_filters =
  cf_status :: "string option"
  cf_category :: "string option"
  cf_complainant :: "string option"

section \<open>Repository\<close>

definition getComplaintById :: "string \<Rightarrow> db \<Rightarrow> complaint option" where
  [repo_def]: "getComplaintById i d = select_one (\<lambda>r. cmp_id r = i) (t_complaints d)"

definition getComplaintByIdForUser :: "string \<Rightarrow> string \<Rightarrow> db \<Rightarrow> complaint option" where
  [repo_def]: "getComplaintByIdForUser i u d = select_one (\<lambda>r. cmp_id r = i \<and> cmp_complainant r = u) (t_complaints d)"

definition matches_filters :: "complaint_filters \<Rightarrow> complaint \<Rightarrow> bool" where
  "matches_filters f r \<longleftrightarrow>
     (case cf_status f of None \<Rightarrow> True | Some s \<Rightarrow> cmp_status r = s)
     \<and> (case cf_category f of None \<Rightarrow> True | Some c \<Rightarrow> cmp_category r = c)
     \<and> (case cf_complainant f of None \<Rightarrow> True | Some u \<Rightarrow> cmp_complainant r = u)"

definition findAllComplaints ::
    "complaint_filters \<Rightarrow> int \<Rightarrow> int \<Rightarrow> db \<Rightarrow> ris_error + complaint list \<times> int" where
  [repo_def]: "findAllComplaints f page limit d =
     (let rows = filter (matches_filters f) (t_complaints d)
      in bindE (page_of page limit (sort_key (\<lambda>r. - cmp_created_at r) rows)) (\<lambda>rs. Inr (rs, int (length rows))))"

text \<open>The foreign keys of \<open>complaints\<close>: \<open>complainant_id\<close>, \<open>assigned_to\<close> and \<open>resolved_by\<close> reference \<open>users\<close>.\<close>

definition createComplaintWithClient :: "complaint \<Rightarrow> db \<Rightarrow> ris_error + db" where
  [repo_def]: "createComplaintWithClient r d =
     (if cmp_id r \<in> set (map cmp_id (t_complaints d)) then Inl (DbError ''23505'')
      else if \<not> user_exists d (Some (cmp_complainant r)) then Inl (DbError ''23503'')
      else bindE (bigint_in (cmp_amount r)) (\<lambda>a. Inr (d\<lparr>t_complaints := t_complaints d @ [r\<lparr>cmp_amount := a\<rparr>]\<rparr>)))"

definition apply_update :: "int \<Rightarrow> complaint_update \<Rightarrow> complaint \<Rightarrow> complaint" where
  "apply_update now u r =
     r\<lparr>cmp_status := (case cu_status u of None \<Rightarrow> cmp_status r | Some s \<Rightarrow> s),
       cmp_priority := (case cu_priority u of None \<Rightarrow> cmp_priority r | Some p \<Rightarrow> p),
       cmp_assigned_to := (case cu_assigned_to u of None \<Rightarrow> cmp_assigned_to r | Some a \<Rightarrow> Some a),
       cmp_updated_at := now\<rparr>"

definition updateComplaintWithClient :: "int \<Rightarrow> string \<Rightarrow> complaint_update \<Rightarrow> db \<Rightarrow> ris_error + db" where
  [repo_def]: "updateComplaintWithClient now i u d =
     (if cu_status u = None \<and> cu_priority u = None \<and> cu_assigned_to u = None then Inr d
      else if list_ex (\<lambda>r. cmp_id r = i) (t_complaints d) \<and> \<not> user_exists d (cu_assigned_to u) then Inl (DbError ''23503'')
      else Inr (d\<lparr>t_complaints := update_where (\<lambda>r. cmp_id r = i) (apply_update now u) (t_complaints d)\<rparr>))"

definition set_resolved :: "int \<Rightarrow> string \<Rightarrow> string \<Rightarrow> complaint \<Rightarrow> complaint" where
  "set_resolved now resolution resolvedBy r =
     r\<lparr>cmp_status := ''RESOLVED'', cmp_resolution := Some resolution, cmp_resolved_at := Some now,
       cmp_resolved_by := Some resolvedBy, cmp_updated_at := now\<rparr>"

definition resolveComplaintWithClient :: "int \<Rightarrow> string \<Rightarrow> string \<Rightarrow> string \<Rightarrow> db \<Rightarrow> ris_error + db" where
  [repo_def]: "resolveComplaintWithClient now i resolution resolvedBy d =
     (if list_ex (\<lambda>r. cmp_id r = i) (t_complaints d) \<and> \<not> user_exists d (Some resolvedBy) then Inl (DbError ''23503'')
      else Inr (d\<lparr>t_complaints := update_where (\<lambda>r. cmp_id r = i) (set_resolved now resolution resolvedBy) (t_complaints d)\<rparr>))"

definition set_escalated :: "int \<Rightarrow> complaint \<Rightarrow> complaint" where
  "set_escalated now r = r\<lparr>cmp_status := ''ESCALATED'', cmp_escalated := True, cmp_updated_at := now\<rparr>"

definition escalateComplaintWithClient :: "int \<Rightarrow> string \<Rightarrow> db \<Rightarrow> db" where
  [repo_def]: "escalateComplaintWithClient now i d =
     d\<lparr>t_complaints := update_where (\<lambda>r. cmp_id r = i) (set_escalated now) (t_complaints d)\<rparr>"

section \<open>Service\<close>

definition complaint_audit :: "string \<Rightarrow> string \<Rightarrow> string \<Rightarrow> json_obj \<Rightarrow> string \<Rightarrow> string \<Rightarrow> unit service" where
  "complaint_audit u action i after ip ua =
     createAuditEntry (audit_req (Some u) action ''complaints'' i None after (Some ip) (Some ua))"

definition auditComplaintCreated :: "string \<Rightarrow> string \<Rightarrow> string \<Rightarrow> string \<Rightarrow> string \<Rightarrow> unit service" where
  "auditComplaintCreated u i status ip ua = complaint_audit u ''COMPLAINT_FILED'' i [(''status'', JStr status)] ip ua"

text \<open>\<open>Object.keys(update)\<close>: the names of the fields the request carries.\<close>

definition update_keys :: "complaint_update \<Rightarrow> string list" where
  "update_keys u =
     (case cu_status u of None \<Rightarrow> [] | Some _ \<Rightarrow> [''status''])
     @ (case cu_priority u of None \<Rightarrow> [] | Some _ \<Rightarrow> [''priority''])
     @ (case cu_assigned_to u of None \<Rightarrow> [] | Some _ \<Rightarrow> [''assigned_to''])"

definition auditComplaintUpdated :: "string \<Rightarrow> string \<Rightarrow> complaint_update \<Rightarrow> string \<Rightarrow> string \<Rightarrow> unit service" where
  "auditComplaintUpdated userId i u ip ua =
     complaint_audit userId ''COMPLAINT_UPDATED'' i [(''fields'', JArr (map JStr (update_keys u)))] ip ua"

definition auditComplaintResolved :: "string \<Rightarrow> string \<Rightarrow> string \<Rightarrow> string \<Rightarrow> unit service" where
  "auditComplaintResolved u i ip ua =
     complaint_audit u ''COMPLAINT_RESOLVED'' i [(''status'', JStr ''RESOLVED''), (''hasResolution'', JBool True)] ip ua"

definition auditComplaintEscalated :: "string \<Rightarrow> string \<Rightarrow> string \<Rightarrow> string \<Rightarrow> unit service" where
  "auditComplaintEscalated u i ip ua =
     complaint_audit u ''COMPLAINT_ESCALATED'' i [(''status'', JStr ''ESCALATED''), (''escalated'', JBool True)] ip ua"

definition complaints_queueNotification :: "string \<Rightarrow> json_obj \<Rightarrow> unit service" where
  "complaints_queueNotification type payload = enqueueS Complaints_notification type payload"

definition validateNotResolved :: "complaint \<Rightarrow> unit service" where
  "validateNotResolved r =
     guardS (\<not> (cmp_status r = ''RESOLVED'' \<or> cmp_status r = ''CLOSED'')) (BusinessRuleError ''COMPLAINT_ALREADY_RESOLVED'')"

definition new_complaint :: "int \<Rightarrow> string \<Rightarrow> string \<Rightarrow> complaint_input \<Rightarrow> complaint" where
  "new_complaint now i userId input =
     (let amountInvolved = (case cpi_amount_involved input of None \<Rightarrow> 0 | Some a \<Rightarrow> a);
          shouldEscalate = amountInvolved \<ge> AUTO_ESCALATE_THRESHOLD
      in \<lparr>cmp_id = i, cmp_complainant = userId, cmp_entity_type = cpi_entity_type input,
          cmp_entity_id = cpi_entity_id input, cmp_subject = cpi_subject input,
          cmp_description = cpi_description input, cmp_category = cpi_category input,
          cmp_priority = (if shouldEscalate then ''HIGH'' else ''NORMAL''),
          cmp_status = (if shouldEscalate then ''ESCALATED'' else ''OPEN''),
          cmp_assigned_to = None, cmp_resolution = None, cmp_amount = amountInvolved, cmp_escalated = shouldEscalate,
          cmp_resolved_at = None, cmp_resolved_by = None, cmp_created_at = now, cmp_updated_at = now\<rparr>)"

definition createComplaintRecord :: "string \<Rightarrow> string \<Rightarrow> complaint_input \<Rightarrow> unit service" where
  "createComplaintRecord i userId input =
     bindS nowS (\<lambda>now. tryExecS (createComplaintWithClient (new_complaint now i userId input)))"

definition fileComplaint :: "string \<Rightarrow> string \<Rightarrow> complaint_input \<Rightarrow> string \<Rightarrow> string \<Rightarrow> string service" where
  "fileComplaint i userId input ip ua =
     bindS nowS (\<lambda>now.
     thenS (transactionS
       (thenS (createComplaintRecord i userId input)
              (auditComplaintCreated userId i (cmp_status (new_complaint now i userId input)) ip ua)))
    (thenS (complaints_queueNotification ''complaint-filed'' [(''complaintId'', JStr i), (''userId'', JStr userId)])
       (returnS i)))"

definition getComplaint :: "string \<Rightarrow> complaint service" where
  "getComplaint i = bindS (queryS (getComplaintById i)) (\<lambda>r. requireS r (NotFoundError ''Complaint'' i))"

definition listComplaints :: "complaint_filters \<Rightarrow> int \<Rightarrow> int \<Rightarrow> complaint paginated service" where
  "listComplaints f page limit =
     bindS (queryS (findAllComplaints f page limit)) (\<lambda>found.
     bindS (liftS found) (\<lambda>(rows, n).
       returnS \<lparr>pr_data = rows, pr_total = n, pr_page = page, pr_limit = limit, pr_totalPages = ceil_quotient n limit\<rparr>))"

definition updateComplaint :: "string \<Rightarrow> complaint_update \<Rightarrow> string \<Rightarrow> string \<Rightarrow> string \<Rightarrow> complaint option service" where
  "updateComplaint i u userId ip ua =
     bindS (getComplaint i) (\<lambda>existing.
     thenS (validateNotResolved existing)
    (bindS nowS (\<lambda>now.
     thenS (transactionS
       (thenS (tryExecS (updateComplaintWithClient now i u)) (auditComplaintUpdated userId i u ip ua)))
       (queryS (getComplaintById i)))))"

definition resolve_txn :: "string \<Rightarrow> string \<Rightarrow> string \<Rightarrow> string \<Rightarrow> string \<Rightarrow> unit service" where
  "resolve_txn i resolution userId ip ua =
     bindS nowS (\<lambda>now. transactionS
       (thenS (tryExecS (resolveComplaintWithClient now i resolution userId)) (auditComplaintResolved userId i ip ua)))"

definition resolveComplaint :: "string \<Rightarrow> string \<Rightarrow> string \<Rightarrow> string \<Rightarrow> string \<Rightarrow> unit service" where
  "resolveComplaint i resolution userId ip ua =
     bindS (getComplaint i) (\<lambda>existing.
     thenS (validateNotResolved existing)
    (thenS (resolve_txn i resolution userId ip ua)
       (complaints_queueNotification ''complaint-resolved'' [(''complaintId'', JStr i)])))"

definition escalateComplaint :: "string \<Rightarrow> string \<Rightarrow> string \<Rightarrow> string \<Rightarrow> string \<Rightarrow> unit service" where
  "escalateComplaint i reason userId ip ua =
     bindS (getComplaint i) (\<lambda>existing.
     thenS (validateNotResolved existing)
    (bindS nowS (\<lambda>now.
     thenS (transactionS
       (thenS (execS (escalateComplaintWithClient now i)) (auditComplaintEscalated userId i ip ua)))
       (complaints_queueNotification ''complaint-escalated'' [(''complaintId'', JStr i), (''reason'', JStr reason)]))))"

section \<open>Listing\<close>

definition complaint_rows :: "complaint_filters \<Rightarrow> db \<Rightarrow> complaint list" where
  "complaint_rows f d = sort_key (\<lambda>r. - cmp_created_at r) (filter (matches_filters f) (t_complaints d))"

interpretation complaints: paged_listing "listComplaints f" pr_data pr_totalPages "complaint_rows f" "\<lambda>_. True" for f
  by unfold_locales (auto simp: listComplaints_def findAllComplaints_def page_of_slice complaint_rows_def Let_def)

text \<open>
  every page of complaints together shows each complaint that matches the filters exactly once. The list a supplier gets from
  the controller has no filter on the complainant, so these are the complaints of everybody.
\<close>

theorem complaint_pages_complete:
  assumes "0 < limit" "limit < 2 ^ 50" and "int (length (complaint_rows f (db w))) < 2 ^ 52"
  shows "\<exists>result. (\<forall>k \<ge> 1. listComplaints f k limit w = (Inr (result k), w))
     \<and> concat (map (\<lambda>k. pr_data (result k)) [1..pr_totalPages (result 1)]) = complaint_rows f (db w)"
  using assms complaints.pages_complete [where f = f and w = w and limit = limit] by simp

theorem complaint_pages_complete_witness:
  "\<exists>result :: int \<Rightarrow> complaint paginated. concat (map (\<lambda>k. pr_data (result k)) [1..pr_totalPages (result 1)]) =
     complaint_rows \<lparr>cf_status = None, cf_category = None, cf_complainant = None\<rparr> (db (world_of blank_db))"
proof -
  let ?f = "\<lparr>cf_status = None, cf_category = None, cf_complainant = None\<rparr>"
  have "int (length (complaint_rows ?f (db (world_of blank_db)))) < 2 ^ 52"
    by (simp add: complaint_rows_def sample_defs)
  then have "\<exists>result. (\<forall>k \<ge> 1. listComplaints ?f k 20 (world_of blank_db) = (Inr (result k), world_of blank_db))
     \<and> concat (map (\<lambda>k. pr_data (result k)) [1..pr_totalPages (result 1)]) = complaint_rows ?f (db (world_of blank_db))"
    by (intro complaint_pages_complete) simp_all
  then show ?thesis by (elim exE conjE) (rule exI)
qed

section \<open>The life of a complaint\<close>

text \<open>
  A complaint is settled when its status is final. The record is well formed when a resolved complaint names its
  resolution, time and officer, a complaint at or above the threshold is marked as escalated, and the amount is a \<open>BIGINT\<close>.
\<close>

definition settled :: "complaint \<Rightarrow> bool" where
  "settled r \<longleftrightarrow> cmp_status r = ''RESOLVED'' \<or> cmp_status r = ''CLOSED''"

definition complaint_ok :: "complaint \<Rightarrow> bool" where
  "complaint_ok r \<longleftrightarrow>
     (cmp_status r = ''RESOLVED'' \<longrightarrow>
        cmp_resolution r \<noteq> None \<and> cmp_resolved_at r \<noteq> None \<and> cmp_resolved_by r \<noteq> None)
     \<and> (AUTO_ESCALATE_THRESHOLD \<le> cmp_amount r \<longrightarrow> cmp_escalated r)
     \<and> (cmp_status r = ''ESCALATED'' \<or> cmp_status r = ''OPEN'' \<or> cmp_status r = ''IN_PROGRESS'' \<or> cmp_status r = ''RESOLVED'')"

text \<open>The validation of the update route: only the three open states can be set by hand.\<close>

definition updateComplaintSchema :: "complaint_update \<Rightarrow> bool" where
  "updateComplaintSchema u \<longleftrightarrow>
     (case cu_status u of None \<Rightarrow> True | Some s \<Rightarrow> s = ''OPEN'' \<or> s = ''IN_PROGRESS'' \<or> s = ''ESCALATED'')
     \<and> (case cu_priority u of None \<Rightarrow> True | Some p \<Rightarrow> p = ''LOW'' \<or> p = ''NORMAL'' \<or> p = ''HIGH'' \<or> p = ''CRITICAL'')"

inductive complaint_step :: "world \<Rightarrow> world \<Rightarrow> bool" where
  lodge: "complaint_step w (snd (fileComplaint i userId input ip ua w))"
| update: "updateComplaintSchema u \<Longrightarrow> complaint_step w (snd (updateComplaint i u userId ip ua w))"
| resolve: "complaint_step w (snd (resolveComplaint i resolution userId ip ua w))"
| escalate: "complaint_step w (snd (escalateComplaint i reason userId ip ua w))"
| tick: "0 \<le> t \<Longrightarrow> complaint_step w (w\<lparr>clock := clock w + t\<rparr>)"

text \<open>
  What one step does to the table: rows are appended at the end, and a row that is settled is not touched. Ids stay unique.
\<close>

definition complaints_frame :: "db \<Rightarrow> db \<Rightarrow> bool" where
  "complaints_frame d d' \<longleftrightarrow>
     (distinct (map cmp_id (t_complaints d)) \<and> list_all complaint_ok (t_complaints d) \<longrightarrow>
        distinct (map cmp_id (t_complaints d')) \<and> list_all complaint_ok (t_complaints d')
        \<and> (\<forall>r \<in> set (t_complaints d). settled r \<longrightarrow> r \<in> set (t_complaints d')))"

lemma complaints_frame_refl: "complaints_frame d d"
  by (simp add: complaints_frame_def)

lemma complaints_frame_trans: "complaints_frame a b \<Longrightarrow> complaints_frame b c \<Longrightarrow> complaints_frame a c"
  unfolding complaints_frame_def by blast

lemma complaints_frame_eq: "t_complaints d' = t_complaints d \<Longrightarrow> complaints_frame d d'"
  by (simp add: complaints_frame_def)

lemma new_complaint_ok: "complaint_ok (new_complaint now i u input)"
  by (simp add: complaint_ok_def new_complaint_def Let_def)

lemma bigint_in_id: "bigint_in n = Inr m \<Longrightarrow> m = n"
  by (simp add: bigint_in_def split: if_splits)

lemma create_frame:
  "complaint_ok r \<Longrightarrow> createComplaintWithClient r d = Inr d' \<Longrightarrow> complaints_frame d d'"
  by (auto simp: createComplaintWithClient_def complaints_frame_def svc_succ split: if_splits dest!: bigint_in_id)

text \<open>An update of one open complaint by a function that keeps its id and leaves it well formed.\<close>

lemma update_frame:
  assumes "getComplaintById i d = Some r" and "\<not> settled r" and "\<And>q. cmp_id (f q) = cmp_id q"
    and "\<And>q. complaint_ok q \<Longrightarrow> complaint_ok (f q)"
    and "t_complaints d' = update_where (\<lambda>q. cmp_id q = i) f (t_complaints d)"
  shows "complaints_frame d d'"
  unfolding complaints_frame_def assms(5)
proof (intro impI conjI ballI; elim conjE)
  assume dist: "distinct (map cmp_id (t_complaints d))" and ok: "list_all complaint_ok (t_complaints d)"
  show "distinct (map cmp_id (update_where (\<lambda>q. cmp_id q = i) f (t_complaints d)))"
    using dist by (simp add: map_update_where assms(3))
  show "list_all complaint_ok (update_where (\<lambda>q. cmp_id q = i) f (t_complaints d))"
    using ok assms(4) by (rule list_all_update_where)
  fix q assume q: "q \<in> set (t_complaints d)" "settled q"
  have "filter (\<lambda>q. cmp_id q = i) (t_complaints d) = [r]"
    using dist assms(1) unfolding getComplaintById_def by (rule filter_key_unique)
  then have "cmp_id q = i \<Longrightarrow> q = r" using q(1) by (metis (mono_tags, lifting) empty_iff empty_set filter_set list.set_intros(1) mem_Collect_eq set_ConsD set_filter)
  then have "cmp_id q \<noteq> i" using q(2) assms(2) by blast
  then show "q \<in> set (update_where (\<lambda>q. cmp_id q = i) f (t_complaints d))"
    using q(1) by (auto simp: update_where_def image_iff intro!: bexI [of _ q])
qed

lemma cmp_id_updates [simp]:
  "cmp_id (apply_update now u q) = cmp_id q" "cmp_id (set_resolved now resolution v q) = cmp_id q"
  "cmp_id (set_escalated now q) = cmp_id q"
  by (simp_all add: apply_update_def set_resolved_def set_escalated_def)

lemma apply_update_ok: "updateComplaintSchema u \<Longrightarrow> complaint_ok q \<Longrightarrow> complaint_ok (apply_update now u q)"
  by (auto simp: updateComplaintSchema_def complaint_ok_def settled_def apply_update_def split: option.splits)

lemma set_resolved_ok: "complaint_ok q \<Longrightarrow> complaint_ok (set_resolved now resolution u q)"
  by (simp add: complaint_ok_def set_resolved_def)

lemma set_escalated_ok: "complaint_ok q \<Longrightarrow> complaint_ok (set_escalated now q)"
  by (simp add: complaint_ok_def set_escalated_def)

text \<open>The transaction of every operation is one statement and its audit entry.\<close>

lemma complaint_txn_frame:
  assumes "\<And>d'. f (db w) = Inr d' \<Longrightarrow> complaints_frame (db w) d'"
  shows "complaints_frame (db w) (db (snd (transactionS (thenS (tryExecS f) (complaint_audit u a i after ip ua)) w)))"
proof (cases "f (db w)")
  case (Inl e)
  then show ?thesis by (simp add: transactionS_def complaints_frame_refl)
next
  case (Inr d')
  let ?t = "w\<lparr>db := d'\<rparr>" and ?e = "audit_req (Some u) a ''complaints'' i None after (Some ip) (Some ua)"
  have frame: "complaints_frame (db w) d'" using Inr by (rule assms)
  show ?thesis
  proof (cases "insert_audit audit_cols ?e d'")
    case (Inl e)
    then show ?thesis using Inr by (simp add: transactionS_def complaint_audit_def createAuditEntry_def complaints_frame_refl)
  next
    case (Inr d'')
    then have "complaints_frame d' d''" by (auto simp: insert_audit_succ intro: complaints_frame_eq)
    then show ?thesis
      using frame Inr \<open>f (db w) = Inr d'\<close> complaints_frame_trans
      by (auto simp: transactionS_def complaint_audit_def createAuditEntry_def)
  qed
qed

lemma enqueue_db [simp]: "db (snd (enqueueS q n dat w)) = db w"
  by (simp add: run_enqueue)

lemma then_queue_db: "db (snd (thenS m (enqueueS q n dat) w)) = db (snd (m w))"
  by (cases "m w") (auto simp: thenS_def bindS_def split: sum.splits)

text \<open>An operation on one complaint: the lookup, the guard, then \<open>k\<close>.\<close>

lemma guarded_frame:
  assumes "\<And>r. getComplaintById i (db w) = Some r \<Longrightarrow> \<not> settled r \<Longrightarrow> complaints_frame (db w) (db (snd (k w)))"
  shows "complaints_frame (db w) (db (snd (bindS (getComplaint i) (\<lambda>existing. thenS (validateNotResolved existing) k) w)))"
proof (cases "getComplaintById i (db w)")
  case None
  then show ?thesis by (simp add: getComplaint_def complaints_frame_refl)
next
  case (Some r)
  then have g: "getComplaint i w = (Inr r, w)" by (simp add: getComplaint_def)
  show ?thesis
  proof (cases "settled r")
    case True
    then show ?thesis using g by (simp add: validateNotResolved_def settled_def complaints_frame_refl)
  next
    case False
    then show ?thesis using g assms [OF Some] by (simp add: validateNotResolved_def settled_def)
  qed
qed

lemma lodge_frame: "complaints_frame (db w) (db (snd (fileComplaint i userId input ip ua w)))"
proof -
  let ?c = "new_complaint (clock w) i userId input"
  let ?t = "transactionS (thenS (tryExecS (createComplaintWithClient ?c)) (auditComplaintCreated userId i (cmp_status ?c) ip ua))"
  have t: "complaints_frame (db w) (db (snd (?t w)))"
    unfolding auditComplaintCreated_def by (rule complaint_txn_frame) (rule create_frame [OF new_complaint_ok])
  have "createComplaintRecord i userId input w = tryExecS (createComplaintWithClient ?c) w" by (simp add: createComplaintRecord_def)
  then have "transactionS (thenS (createComplaintRecord i userId input) (auditComplaintCreated userId i (cmp_status ?c) ip ua)) w = ?t w"
    by (simp add: transactionS_def thenS_def bindS_def)
  then show ?thesis
    using t by (cases "?t w")
      (auto simp: fileComplaint_def complaints_queueNotification_def run_enqueue thenS_def bindS_def split: sum.splits)
qed

lemma updateComplaint_writes:
  assumes "updateComplaintWithClient now i u d = Inr d'"
  shows "d' = d \<or> t_complaints d' = update_where (\<lambda>q. cmp_id q = i) (apply_update now u) (t_complaints d)"
proof -
  let ?d = "d\<lparr>t_complaints := update_where (\<lambda>q. cmp_id q = i) (apply_update now u) (t_complaints d)\<rparr>"
  have "d' = d \<or> d' = ?d"
    using assms unfolding updateComplaintWithClient_def by (metis Inl_Inr_False Inr_inject)
  then show ?thesis by (elim disjE) simp_all
qed

lemma update_step_frame:
  assumes "updateComplaintSchema u"
  shows "complaints_frame (db w) (db (snd (updateComplaint i u userId ip ua w)))"
  unfolding updateComplaint_def
proof (rule guarded_frame)
  fix r assume r: "getComplaintById i (db w) = Some r" "\<not> settled r"
  let ?t = "transactionS (thenS (tryExecS (updateComplaintWithClient (clock w) i u)) (auditComplaintUpdated userId i u ip ua))"
  have "complaints_frame (db w) (db (snd (?t w)))"
    unfolding auditComplaintUpdated_def
  proof (rule complaint_txn_frame)
    fix d' assume "updateComplaintWithClient (clock w) i u (db w) = Inr d'"
    then have "d' = db w \<or> t_complaints d' = update_where (\<lambda>q. cmp_id q = i) (apply_update (clock w) u) (t_complaints (db w))"
      by (rule updateComplaint_writes)
    then show "complaints_frame (db w) d'"
    proof
      assume "d' = db w"
      then show ?thesis by (simp add: complaints_frame_refl)
    next
      assume "t_complaints d' = update_where (\<lambda>q. cmp_id q = i) (apply_update (clock w) u) (t_complaints (db w))"
      then show ?thesis by (intro update_frame [OF r, where f = "apply_update (clock w) u"]) (simp_all add: apply_update_ok [OF assms])
    qed
  qed
  then show "complaints_frame (db w) (db (snd (bindS nowS (\<lambda>now. thenS (transactionS
       (thenS (tryExecS (updateComplaintWithClient now i u)) (auditComplaintUpdated userId i u ip ua)))
       (queryS (getComplaintById i))) w)))"
    by (cases "?t w") (auto simp: thenS_def bindS_def split: sum.splits)
qed

lemma resolve_step_frame: "complaints_frame (db w) (db (snd (resolveComplaint i resolution userId ip ua w)))"
  unfolding resolveComplaint_def
proof (rule guarded_frame)
  fix r assume r: "getComplaintById i (db w) = Some r" "\<not> settled r"
  have "complaints_frame (db w) (db (snd (resolve_txn i resolution userId ip ua w)))"
    unfolding resolve_txn_def auditComplaintResolved_def
  proof (simp, rule complaint_txn_frame)
    fix d' assume "resolveComplaintWithClient (clock w) i resolution userId (db w) = Inr d'"
    then show "complaints_frame (db w) d'"
      by (intro update_frame [OF r, where f = "set_resolved (clock w) resolution userId"])
        (auto simp: resolveComplaintWithClient_def set_resolved_ok split: if_splits)
  qed
  then show "complaints_frame (db w) (db (snd (thenS (resolve_txn i resolution userId ip ua)
       (complaints_queueNotification ''complaint-resolved'' [(''complaintId'', JStr i)]) w)))"
    by (simp add: complaints_queueNotification_def then_queue_db)
qed

lemma escalate_step_frame: "complaints_frame (db w) (db (snd (escalateComplaint i reason userId ip ua w)))"
  unfolding escalateComplaint_def
proof (rule guarded_frame)
  fix r assume r: "getComplaintById i (db w) = Some r" "\<not> settled r"
  have e: "execS (escalateComplaintWithClient now i) = tryExecS (\<lambda>d. Inr (escalateComplaintWithClient now i d))" for now
    by (simp add: fun_eq_iff tryExecS_def)
  have "complaints_frame (db w) (db (snd (transactionS
      (thenS (execS (escalateComplaintWithClient (clock w) i)) (auditComplaintEscalated userId i ip ua)) w)))"
    unfolding e auditComplaintEscalated_def
  proof (rule complaint_txn_frame)
    fix d' assume "Inr (escalateComplaintWithClient (clock w) i (db w)) = (Inr d' :: ris_error + db)"
    then show "complaints_frame (db w) d'"
      by (intro update_frame [OF r, where f = "set_escalated (clock w)"])
        (auto simp: escalateComplaintWithClient_def set_escalated_ok)
  qed
  then show "complaints_frame (db w) (db (snd (bindS nowS (\<lambda>now. thenS (transactionS
      (thenS (execS (escalateComplaintWithClient now i)) (auditComplaintEscalated userId i ip ua)))
      (complaints_queueNotification ''complaint-escalated'' [(''complaintId'', JStr i), (''reason'', JStr reason)])) w)))"
    by (simp add: complaints_queueNotification_def then_queue_db)
qed

lemma complaint_step_frame: "complaint_step w w' \<Longrightarrow> complaints_frame (db w) (db w')"
  by (induction rule: complaint_step.induct)
    (simp_all add: lodge_frame update_step_frame resolve_step_frame escalate_step_frame complaints_frame_refl)

lemma complaint_run_frame: "complaint_step\<^sup>*\<^sup>* w w' \<Longrightarrow> complaints_frame (db w) (db w')"
  by (induction rule: rtranclp_induct) (auto intro: complaints_frame_refl complaints_frame_trans dest: complaint_step_frame)

text \<open>
  along every sequence of complaint operations, each run to its end before the next, every resolved complaint names its resolution, time and
  officer, every complaint of five million shillings or more is marked as escalated and stays so, no complaint reaches another
  status than the four, and a complaint once resolved is never changed again.
\<close>

theorem complaint_lifecycle:
  assumes "complaint_step\<^sup>*\<^sup>* w w'" and "distinct (map cmp_id (t_complaints (db w)))"
    and "list_all complaint_ok (t_complaints (db w))"
  shows "list_all complaint_ok (t_complaints (db w'))
     \<and> (getComplaintById i (db w) = Some r \<and> settled r \<longrightarrow> getComplaintById i (db w') = Some r)"
proof -
  have f: "distinct (map cmp_id (t_complaints (db w')))" "list_all complaint_ok (t_complaints (db w'))"
    "\<forall>r \<in> set (t_complaints (db w)). settled r \<longrightarrow> r \<in> set (t_complaints (db w'))"
    using complaint_run_frame [OF assms(1)] assms(2,3) by (auto simp: complaints_frame_def)
  moreover have "getComplaintById i (db w') = Some r" if "getComplaintById i (db w) = Some r" "settled r"
  proof -
    have "r \<in> set (t_complaints (db w))" "cmp_id r = i" using select_one_Some that(1) by (fastforce simp: getComplaintById_def)+
    then show ?thesis using f(1,3) that(2) unfolding getComplaintById_def by (blast intro: distinct_select_one)
  qed
  ultimately show ?thesis by blast
qed

definition sample_complaint :: complaint where
  "sample_complaint = set_resolved 5 ''refund'' ''officer''
     (new_complaint 0 ''c1'' ''su'' \<lparr>cpi_entity_type = ''invoice'', cpi_entity_id = None, cpi_subject = ''fee'',
        cpi_description = ''wrong fee'', cpi_category = ''BILLING'', cpi_amount_involved = Some 7000000\<rparr>)"

definition complaint_world :: world where
  "complaint_world = world_of (blank_db\<lparr>t_complaints := [sample_complaint], t_users := [sample_user ''officer'' None]\<rparr>)"

theorem complaint_lifecycle_witness:
  "\<exists>w'. complaint_step\<^sup>*\<^sup>* complaint_world w' \<and> getComplaintById ''c1'' (db w') = Some sample_complaint"
proof -
  let ?w' = "snd (resolveComplaint ''c1'' ''again'' ''officer'' ''ip'' ''ua'' complaint_world)"
  have s: "complaint_step\<^sup>*\<^sup>* complaint_world ?w'" by (rule r_into_rtranclp, rule complaint_step.resolve)
  have t: "t_complaints (db complaint_world) = [sample_complaint]" by (simp add: complaint_world_def world_of_def)
  have "complaint_ok sample_complaint" "settled sample_complaint" "cmp_id sample_complaint = ''c1''"
    by (simp_all add: sample_complaint_def set_resolved_ok new_complaint_ok) (simp_all add: settled_def set_resolved_def new_complaint_def Let_def)
  then show ?thesis
    using complaint_lifecycle [OF s, of "''c1''" sample_complaint] s t by (auto simp: getComplaintById_def)
qed

text \<open>
  two officers who resolve the same complaint at the same time both succeed: the update does not look at the status, so the
  transaction of the second, whose check ran before the first committed, replaces the resolution, the officer and the time of
  the first.
\<close>

theorem resolution_overwritten:
  assumes "audit_ok (db w) (Some u1)" "audit_ok (db w) (Some u2)" and "getComplaintById i (db w) = Some r"
    and "resolve_txn i res1 u1 ip ua w = (x, w1)" and "resolve_txn i res2 u2 ip ua w1 = (y, w2)"
  shows "x = Inr () \<and> y = Inr () \<and> getComplaintById i (db w1) = Some (set_resolved (clock w) res1 u1 r)
     \<and> getComplaintById i (db w2) = Some (set_resolved (clock w) res2 u2 r)"
proof -
  have run: "resolve_txn i res u ip ua v =
      (Inr (), v\<lparr>db := (db v)\<lparr>t_complaints := update_where (\<lambda>q. cmp_id q = i) (set_resolved (clock v) res u) (t_complaints (db v)),
         t_audit := t_audit (db v) @ [audit_req (Some u) ''COMPLAINT_RESOLVED'' ''complaints'' i None
           [(''status'', JStr ''RESOLVED''), (''hasResolution'', JBool True)] (Some ip) (Some ua)]\<rparr>\<rparr>)"
    if "audit_ok (db v) (Some u)" for res u v
  proof -
    have "user_exists (db v) (Some u)" using that by (simp add: audit_ok_def)
    then show ?thesis
      using that by (simp add: resolve_txn_def resolveComplaintWithClient_def auditComplaintResolved_def complaint_audit_def)
  qed
  have i: "cmp_id r = i" using assms(3) by (auto simp: getComplaintById_def dest: select_one_key)
  have w1: "x = Inr ()" "getComplaintById i (db w1) = Some (set_resolved (clock w) res1 u1 r)" "audit_ok (db w1) (Some u2)" "clock w1 = clock w"
    using assms(4) run [OF assms(1)] assms(2,3) i
    by (auto simp: getComplaintById_def select_one_update_where [where k = cmp_id])
  then show ?thesis
    using assms(5) run [OF w1(3)] i
    by (auto simp: getComplaintById_def select_one_update_where [where k = cmp_id] set_resolved_def)
qed

theorem resolution_overwritten_witness:
  "\<exists>w' :: world. getComplaintById ''c1'' (db w') = Some (set_resolved 0 ''second'' ''officer'' sample_complaint)"
proof -
  have w: "audit_ok (db complaint_world) (Some ''officer'')" "getComplaintById ''c1'' (db complaint_world) = Some sample_complaint"
    "clock complaint_world = 0"
    by (simp_all add: complaint_world_def sample_defs getComplaintById_def sample_complaint_def set_resolved_def new_complaint_def Let_def)
  show ?thesis
    using resolution_overwritten [OF w(1,1,2) prod.collapse [symmetric] prod.collapse [symmetric], of "''first''" "''ip''" "''ua''" "''second''"]
    unfolding w(3) by blast
qed

end
