(* ===== verification/Auth.thy ===== *)
theory Auth
  imports Crypto
begin

text \<open>
  \<open>src/src/services/auth\<close> with the authentication and role middleware: login with lockout, two-factor verification by
  TOTP or backup code, sessions in Redis, refresh tokens with rotation, password reset and change, email
  verification, step-up and the jobs on inactive accounts. What other packages compute (bcrypt, JSON web tokens,
  TOTP, SHA-256, the cipher, the keys a Redis \<open>SCAN\<close> returns) and the environment variables are the fields of \<open>auth_env\<close>;
  fresh identifiers, salts and random bytes are arguments. ISO timestamps in job data are milliseconds.
\<close>

section \<open>Types and environment\<close>

datatype token_type = Full | Partial_auth | Refresh

text \<open>The claims of \<open>TokenPayload\<close> and \<open>RefreshTokenPayload\<close>; a refresh token has no role.\<close>

record token_payload =
  tp_user :: string
  tp_role :: "string option"
  tp_session :: string
  tp_type :: token_type
  tp_iat :: "int option"
  tp_exp :: "int option"

text \<open>
  \<open>jwt_sign t claims expiresIn\<close> is \<open>jwt.sign\<close> at time \<open>t\<close>, \<open>jwt_verify t token\<close> is \<open>jwt.verify\<close> at time \<open>t\<close> (\<open>None\<close> when it
  throws); \<open>scan\<close> gives the batches of keys one full \<open>SCAN\<close> iteration with the pattern \<open>session:*\<close> returns.
\<close>

record auth_env =
  bcrypt_compare :: "string \<Rightarrow> string \<Rightarrow> bool"
  bcrypt_hash :: "string \<Rightarrow> string \<Rightarrow> string"
  jwt_sign :: "int \<Rightarrow> token_payload \<Rightarrow> string \<Rightarrow> string"
  jwt_verify :: "int \<Rightarrow> string \<Rightarrow> token_payload option"
  totp_verify :: "int \<Rightarrow> string \<Rightarrow> string \<Rightarrow> bool"
  sha256_hex :: "string \<Rightarrow> string"
  decipher_fn :: decipher
  encryption_key :: "string option"
  scan :: "session redis_entry list \<Rightarrow> string list list"
  jwt_expiry :: "string option"
  refresh_token_expiry :: "string option"
  frontend_url :: "string option"

definition JWT_EXPIRY :: "auth_env \<Rightarrow> string" where
  "JWT_EXPIRY env = (case jwt_expiry env of None \<Rightarrow> ''15m'' | Some t \<Rightarrow> t)"

definition REFRESH_TOKEN_EXPIRY :: "auth_env \<Rightarrow> string" where
  "REFRESH_TOKEN_EXPIRY env = (case refresh_token_expiry env of None \<Rightarrow> ''7d'' | Some t \<Rightarrow> t)"

definition PARTIAL_AUTH_EXPIRY :: string where "PARTIAL_AUTH_EXPIRY = ''5m''"
definition MAX_FAILED_ATTEMPTS :: int where "MAX_FAILED_ATTEMPTS = 5"
definition LOCKOUT_DURATION_MS :: int where "LOCKOUT_DURATION_MS = 30 * 60 * 1000"
definition SESSION_TTL_SECONDS :: int where "SESSION_TTL_SECONDS = 7 * 24 * 60 * 60"
definition NEW_DEVICE_LOOKBACK_DAYS :: int where "NEW_DEVICE_LOOKBACK_DAYS = 30"
definition BACKUP_CODE_LENGTH :: nat where "BACKUP_CODE_LENGTH = 8"
definition BACKUP_CODE_COUNT :: nat where "BACKUP_CODE_COUNT = 8"
definition RESET_TOKEN_EXPIRY_MS :: int where "RESET_TOKEN_EXPIRY_MS = 60 * 60 * 1000"
definition PASSWORD_HISTORY_DEPTH :: nat where "PASSWORD_HISTORY_DEPTH = 5"
definition EMAIL_VERIFICATION_EXPIRY_MS :: int where "EMAIL_VERIFICATION_EXPIRY_MS = 24 * 60 * 60 * 1000"
definition EMAIL_VERIFICATION_EXPIRY_HOURS :: int where "EMAIL_VERIFICATION_EXPIRY_HOURS = 24"
definition INACTIVE_DISABLE_DAYS :: int where "INACTIVE_DISABLE_DAYS = 180"
definition INACTIVE_WARNING_DAYS :: int where "INACTIVE_WARNING_DAYS = 150"

definition base_url :: "auth_env \<Rightarrow> string" where
  "base_url env = (case frontend_url env of None \<Rightarrow> ''https://app.ris.ug'' | Some u \<Rightarrow> u)"

record auth_user =
  au_id :: string
  au_email :: string
  au_name :: string
  au_role :: string

record login_response =
  lr_accessToken :: string
  lr_refreshToken :: "string option"
  lr_user :: "auth_user option"
  lr_tokenType :: token_type
  lr_expiresIn :: string
  lr_requiresTwoFactor :: bool

section \<open>Repository\<close>

definition findUserByEmail :: "string \<Rightarrow> db \<Rightarrow> user_row option" where
  [repo_def]: "findUserByEmail email d = select_one (\<lambda>u. usr_email u = email) (t_users d)"

definition findUserById :: "string \<Rightarrow> db \<Rightarrow> user_row option" where
  [repo_def]: "findUserById i d = select_one (\<lambda>u. usr_id u = i) (t_users d)"

definition update_account :: "string \<Rightarrow> (account \<Rightarrow> account) \<Rightarrow> db \<Rightarrow> db" where
  "update_account i f d =
     d\<lparr>t_users := update_where (\<lambda>u. usr_id u = i) (\<lambda>u. u\<lparr>usr_account := f (usr_account u)\<rparr>) (t_users d)\<rparr>"

text \<open>\<open>failed_login_count + 1 ... RETURNING\<close>, 0 when no row has the id.\<close>

definition incrementFailedLoginWithClient :: "string \<Rightarrow> int service" where
  "incrementFailedLoginWithClient i =
     thenS (execS (update_account i (\<lambda>a. a\<lparr>acc_failed_count := acc_failed_count a + 1\<rparr>)))
       (queryS (\<lambda>d. case findUserById i d of None \<Rightarrow> 0 | Some u \<Rightarrow> acc_failed_count (usr_account u)))"

definition resetFailedLogin :: "string \<Rightarrow> db \<Rightarrow> db" where
  [repo_def]: "resetFailedLogin i = update_account i (\<lambda>a. a\<lparr>acc_failed_count := 0, acc_locked_until := None\<rparr>)"

definition lockAccountWithClient :: "string \<Rightarrow> int \<Rightarrow> db \<Rightarrow> db" where
  [repo_def]: "lockAccountWithClient i until = update_account i (\<lambda>a. a\<lparr>acc_locked_until := Some until\<rparr>)"

definition recordLogin :: "int \<Rightarrow> string \<Rightarrow> db \<Rightarrow> db" where
  [repo_def]: "recordLogin now i = update_account i (\<lambda>a. a\<lparr>acc_last_login_at := Some now\<rparr>)"

definition markUserEmailVerifiedWithClient :: "int \<Rightarrow> string \<Rightarrow> db \<Rightarrow> db" where
  [repo_def]: "markUserEmailVerifiedWithClient now i = update_account i (\<lambda>a. a\<lparr>acc_email_verified := True, acc_updated_at := now\<rparr>)"

definition updatePasswordHashWithClient :: "int \<Rightarrow> string \<Rightarrow> string \<Rightarrow> db \<Rightarrow> db" where
  [repo_def]: "updatePasswordHashWithClient now i hash = update_account i (\<lambda>a. a\<lparr>acc_password_hash := hash, acc_updated_at := now\<rparr>)"

definition disableUserAccount :: "int \<Rightarrow> string \<Rightarrow> db \<Rightarrow> db" where
  [repo_def]: "disableUserAccount now i = update_account i (\<lambda>a. a\<lparr>acc_is_active := False, acc_updated_at := now\<rparr>)"

definition markInactiveWarningSent :: "int \<Rightarrow> string \<Rightarrow> db \<Rightarrow> db" where
  [repo_def]: "markInactiveWarningSent now i = update_account i (\<lambda>a. a\<lparr>acc_warning_sent_at := Some now\<rparr>)"

text \<open>The audit insert of this module: no old values, the record is the user, who may be unknown.\<close>

definition auth_audit_cols :: "string list" where
  "auth_audit_cols = [''user_id'', ''action'', ''table_name'', ''record_id'', ''new_values'', ''ip_address'', ''user_agent'']"

definition auth_entry :: "int \<Rightarrow> string option \<Rightarrow> string \<Rightarrow> string option \<Rightarrow> string option \<Rightarrow> json_obj \<Rightarrow> audit_entry" where
  "auth_entry now u action ip ua metadata =
     \<lparr>aud_user = u, aud_action = action, aud_table = ''users'', aud_record = u, aud_old = None, aud_new = metadata,
      aud_ip = ip, aud_agent = ua, aud_created_at = Some now\<rparr>"

definition auth_createAuditEntry ::
    "string option \<Rightarrow> string \<Rightarrow> string option \<Rightarrow> string option \<Rightarrow> json_obj \<Rightarrow> unit service" where
  "auth_createAuditEntry u action ip ua metadata =
     bindS nowS (\<lambda>now. tryExecS (insert_audit auth_audit_cols (auth_entry now u action ip ua metadata)))"

subsection \<open>One-time tokens\<close>

text \<open>
  The three token tables have the same statements: mark every unused token of a user as used, insert one (the user is a
  foreign key), find an unused one that has not expired, mark one as used. \<open>NULL > NOW()\<close> does not arise: reset and
  verification tokens have an expiry.
\<close>

definition invalidate_tokens :: "int \<Rightarrow> string \<Rightarrow> one_time_token list \<Rightarrow> one_time_token list" where
  "invalidate_tokens now u = update_where (\<lambda>t. otk_user t = u \<and> otk_used_at t = None) (\<lambda>t. t\<lparr>otk_used_at := Some now\<rparr>)"

definition live_token :: "int \<Rightarrow> string \<Rightarrow> one_time_token \<Rightarrow> bool" where
  "live_token now h t \<longleftrightarrow> otk_hash t = h \<and> otk_used_at t = None
     \<and> (case otk_expires_at t of None \<Rightarrow> False | Some e \<Rightarrow> e > now)"

definition mark_token_used :: "int \<Rightarrow> string \<Rightarrow> one_time_token list \<Rightarrow> one_time_token list" where
  "mark_token_used now i = update_where (\<lambda>t. otk_id t = i) (\<lambda>t. t\<lparr>otk_used_at := Some now\<rparr>)"

definition new_token :: "int \<Rightarrow> string \<Rightarrow> string \<Rightarrow> string \<Rightarrow> int option \<Rightarrow> one_time_token" where
  "new_token now i u h expires =
     \<lparr>otk_id = i, otk_user = u, otk_hash = h, otk_expires_at = expires, otk_used_at = None, otk_created_at = now\<rparr>"

definition invalidateResetTokens :: "int \<Rightarrow> string \<Rightarrow> db \<Rightarrow> db" where
  [repo_def]: "invalidateResetTokens now u d = d\<lparr>t_reset_tokens := invalidate_tokens now u (t_reset_tokens d)\<rparr>"

definition createResetToken :: "int \<Rightarrow> string \<Rightarrow> string \<Rightarrow> string \<Rightarrow> int \<Rightarrow> db \<Rightarrow> ris_error + db" where
  [repo_def]: "createResetToken now i u h expires d =
     (if \<not> user_exists d (Some u) then Inl (DbError ''23503'')
      else Inr (d\<lparr>t_reset_tokens := t_reset_tokens d @ [new_token now i u h (Some expires)]\<rparr>))"

definition findValidResetToken :: "int \<Rightarrow> string \<Rightarrow> db \<Rightarrow> one_time_token option" where
  [repo_def]: "findValidResetToken now h d = select_one (live_token now h) (t_reset_tokens d)"

definition markResetTokenUsedWithClient :: "int \<Rightarrow> string \<Rightarrow> db \<Rightarrow> db" where
  [repo_def]: "markResetTokenUsedWithClient now i d = d\<lparr>t_reset_tokens := mark_token_used now i (t_reset_tokens d)\<rparr>"

definition invalidateEmailVerificationTokens :: "int \<Rightarrow> string \<Rightarrow> db \<Rightarrow> db" where
  [repo_def]: "invalidateEmailVerificationTokens now u d = d\<lparr>t_email_tokens := invalidate_tokens now u (t_email_tokens d)\<rparr>"

text \<open>\<open>email_verification_tokens.token_hash\<close> is unique.\<close>

definition createEmailVerificationToken :: "int \<Rightarrow> string \<Rightarrow> string \<Rightarrow> string \<Rightarrow> int \<Rightarrow> db \<Rightarrow> ris_error + db" where
  [repo_def]: "createEmailVerificationToken now i u h expires d =
     (if h \<in> set (map otk_hash (t_email_tokens d)) then Inl (DbError ''23505'')
      else if \<not> user_exists d (Some u) then Inl (DbError ''23503'')
      else Inr (d\<lparr>t_email_tokens := t_email_tokens d @ [new_token now i u h (Some expires)]\<rparr>))"

definition findValidEmailVerificationToken :: "int \<Rightarrow> string \<Rightarrow> db \<Rightarrow> one_time_token option" where
  [repo_def]: "findValidEmailVerificationToken now h d = select_one (live_token now h) (t_email_tokens d)"

definition markEmailVerificationTokenUsedWithClient :: "int \<Rightarrow> string \<Rightarrow> db \<Rightarrow> db" where
  [repo_def]: "markEmailVerificationTokenUsedWithClient now i d = d\<lparr>t_email_tokens := mark_token_used now i (t_email_tokens d)\<rparr>"

definition invalidateBackupCodesWithClient :: "int \<Rightarrow> string \<Rightarrow> db \<Rightarrow> db" where
  [repo_def]: "invalidateBackupCodesWithClient now u d = d\<lparr>t_backup_codes := invalidate_tokens now u (t_backup_codes d)\<rparr>"

definition createBackupCodeWithClient :: "int \<Rightarrow> string \<Rightarrow> string \<Rightarrow> string \<Rightarrow> db \<Rightarrow> ris_error + db" where
  [repo_def]: "createBackupCodeWithClient now i u h d =
     (if \<not> user_exists d (Some u) then Inl (DbError ''23503'')
      else Inr (d\<lparr>t_backup_codes := t_backup_codes d @ [new_token now i u h None]\<rparr>))"

definition unused_code :: "string \<Rightarrow> string \<Rightarrow> one_time_token \<Rightarrow> bool" where
  "unused_code u h t \<longleftrightarrow> otk_user t = u \<and> otk_hash t = h \<and> otk_used_at t = None"

definition findUnusedBackupCode :: "string \<Rightarrow> string \<Rightarrow> db \<Rightarrow> one_time_token option" where
  [repo_def]: "findUnusedBackupCode u h d = select_one (unused_code u h) (t_backup_codes d)"

definition markBackupCodeUsedWithClient :: "int \<Rightarrow> string \<Rightarrow> db \<Rightarrow> db" where
  [repo_def]: "markBackupCodeUsedWithClient now i d = d\<lparr>t_backup_codes := mark_token_used now i (t_backup_codes d)\<rparr>"

subsection \<open>History\<close>

definition hasRecentLoginWithSameUserAgent :: "int \<Rightarrow> string \<Rightarrow> string \<Rightarrow> int \<Rightarrow> db \<Rightarrow> bool" where
  [repo_def]: "hasRecentLoginWithSameUserAgent now u ua daysAgo d =
     list_ex (\<lambda>l. lh_user l = Some u \<and> lh_agent l = Some ua \<and> lh_success l \<and> lh_created_at l > now - daysAgo * day_ms)
       (t_login_history d)"

definition getRecentFailedLoginsByIp :: "int \<Rightarrow> string \<Rightarrow> int \<Rightarrow> db \<Rightarrow> int" where
  [repo_def]: "getRecentFailedLoginsByIp now ip windowMinutes d =
     int (length (filter (\<lambda>e. aud_ip e = Some ip \<and> aud_action e = ''LOGIN_FAILED''
        \<and> (case aud_created_at e of None \<Rightarrow> False | Some t \<Rightarrow> t \<ge> now - windowMinutes * 60000)) (t_audit d)))"

definition createPasswordHistoryEntryWithClient :: "int \<Rightarrow> string \<Rightarrow> string \<Rightarrow> db \<Rightarrow> ris_error + db" where
  [repo_def]: "createPasswordHistoryEntryWithClient now u hash d =
     (if \<not> user_exists d (Some u) then Inl (DbError ''23503'')
      else Inr (d\<lparr>t_password_history := t_password_history d @ [\<lparr>ph_user = u, ph_hash = hash, ph_created_at = now\<rparr>]\<rparr>))"

definition getLastNPasswords :: "string \<Rightarrow> nat \<Rightarrow> db \<Rightarrow> password_entry list" where
  [repo_def]: "getLastNPasswords u n d =
     take n (sort_key (\<lambda>p. - ph_created_at p) (filter (\<lambda>p. ph_user p = u) (t_password_history d)))"

definition createLoginHistoryEntry ::
    "int \<Rightarrow> string option \<Rightarrow> string option \<Rightarrow> string option \<Rightarrow> string option \<Rightarrow> bool \<Rightarrow> db \<Rightarrow> ris_error + db" where
  [repo_def]: "createLoginHistoryEntry now u ip ua country success d =
     (if \<not> user_exists d u then Inl (DbError ''23503'')
      else Inr (d\<lparr>t_login_history := t_login_history d @
        [\<lparr>lh_user = u, lh_ip = ip, lh_agent = ua, lh_country = country, lh_success = success, lh_created_at = now\<rparr>]\<rparr>))"

definition getLoginHistory :: "string \<Rightarrow> nat \<Rightarrow> db \<Rightarrow> login_entry list" where
  [repo_def]: "getLoginHistory u n d =
     take n (sort_key (\<lambda>l. - lh_created_at l) (filter (\<lambda>l. lh_user l = Some u) (t_login_history d)))"

text \<open>A comparison with a NULL \<open>last_active_at\<close> is not true, so such an account is in neither list.\<close>

definition inactive_since :: "int \<Rightarrow> int \<Rightarrow> account \<Rightarrow> bool" where
  "inactive_since now days a \<longleftrightarrow> acc_is_active a \<and> (case acc_last_active_at a of None \<Rightarrow> False | Some t \<Rightarrow> t < now - days * day_ms)"

definition findInactiveUsers :: "int \<Rightarrow> int \<Rightarrow> db \<Rightarrow> user_row list" where
  [repo_def]: "findInactiveUsers now days d = filter (\<lambda>u. inactive_since now days (usr_account u)) (t_users d)"

definition findUsersForInactiveWarning :: "int \<Rightarrow> int \<Rightarrow> db \<Rightarrow> user_row list" where
  [repo_def]: "findUsersForInactiveWarning now days d =
     filter (\<lambda>u. inactive_since now days (usr_account u) \<and> acc_warning_sent_at (usr_account u) = None) (t_users d)"

section \<open>Redis\<close>

text \<open>
  \<open>getRedis\<close> throws when no client was set; a command on a Redis that is down is a rejected promise. A key is gone once
  its time is over; \<open>SET ... EX\<close> replaces it.
\<close>

definition getRedis :: "unit service" where
  "getRedis = bindS (getS redis_client) (\<lambda>c. guardS c AuthError)"

definition redis_command :: "unit service" where
  "redis_command = bindS (getS redis_up) (\<lambda>up. guardS up (JsError ''redis''))"

definition live_entry :: "int \<Rightarrow> string \<Rightarrow> 'v redis_entry \<Rightarrow> bool" where
  "live_entry now k e \<longleftrightarrow> re_key e = k \<and> now < re_expires e"

definition redis_lookup :: "int \<Rightarrow> string \<Rightarrow> 'v redis_entry list \<Rightarrow> 'v option" where
  "redis_lookup now k es = map_option re_value (select_one (live_entry now k) es)"

definition redis_insert :: "string \<Rightarrow> 'v \<Rightarrow> int \<Rightarrow> 'v redis_entry list \<Rightarrow> 'v redis_entry list" where
  "redis_insert k v expires es = filter (\<lambda>e. re_key e \<noteq> k) es @ [\<lparr>re_key = k, re_value = v, re_expires = expires\<rparr>]"

definition redis_remove :: "string \<Rightarrow> 'v redis_entry list \<Rightarrow> 'v redis_entry list" where
  "redis_remove k es = filter (\<lambda>e. re_key e \<noteq> k) es"

definition session_key :: "string \<Rightarrow> string" where
  "session_key i = ''session:'' @ i"

definition redis_get_session :: "string \<Rightarrow> session option service" where
  "redis_get_session k = thenS redis_command (getS (\<lambda>w. redis_lookup (clock w) k (redis_sessions w)))"

definition redis_set_session :: "string \<Rightarrow> session \<Rightarrow> int \<Rightarrow> unit service" where
  "redis_set_session k s seconds =
     thenS redis_command (modifyS (\<lambda>w. w\<lparr>redis_sessions := redis_insert k s (clock w + seconds * 1000) (redis_sessions w)\<rparr>))"

definition redis_del_session :: "string \<Rightarrow> unit service" where
  "redis_del_session k = thenS redis_command (modifyS (\<lambda>w. w\<lparr>redis_sessions := redis_remove k (redis_sessions w)\<rparr>))"

definition redis_get_mark :: "string \<Rightarrow> string option service" where
  "redis_get_mark k = thenS redis_command (getS (\<lambda>w. redis_lookup (clock w) k (redis_marks w)))"

definition redis_set_mark :: "string \<Rightarrow> string \<Rightarrow> int \<Rightarrow> unit service" where
  "redis_set_mark k v seconds =
     thenS redis_command (modifyS (\<lambda>w. w\<lparr>redis_marks := redis_insert k v (clock w + seconds * 1000) (redis_marks w)\<rparr>))"

definition getSession :: "string \<Rightarrow> session option service" where
  "getSession i = thenS getRedis (redis_get_session (session_key i))"

definition createSession :: "string \<Rightarrow> user_row \<Rightarrow> unit service" where
  "createSession i user =
     thenS getRedis (bindS nowS (\<lambda>now.
       redis_set_session (session_key i)
         \<lparr>ses_id = i, ses_user = usr_id user, ses_role = acc_role (usr_account user), ses_created_at = now,
          ses_expires_at = now + SESSION_TTL_SECONDS * 1000\<rparr> SESSION_TTL_SECONDS))"

section \<open>Tokens\<close>

text \<open>\<open>signToken\<close> drops \<open>iat\<close> and \<open>exp\<close> of the claims; \<open>jwt.sign\<close> sets them.\<close>

definition signToken :: "auth_env \<Rightarrow> int \<Rightarrow> token_payload \<Rightarrow> string \<Rightarrow> string" where
  "signToken env now payload expiresIn = jwt_sign env now (payload\<lparr>tp_iat := None, tp_exp := None\<rparr>) expiresIn"

definition verifyToken :: "auth_env \<Rightarrow> string \<Rightarrow> token_payload service" where
  "verifyToken env token = bindS nowS (\<lambda>now. requireS (jwt_verify env now token) AuthError)"

definition claims :: "string \<Rightarrow> string option \<Rightarrow> string \<Rightarrow> token_type \<Rightarrow> token_payload" where
  "claims u role sid type = \<lparr>tp_user = u, tp_role = role, tp_session = sid, tp_type = type, tp_iat = None, tp_exp = None\<rparr>"

definition buildRefreshToken :: "auth_env \<Rightarrow> int \<Rightarrow> string \<Rightarrow> string \<Rightarrow> string" where
  "buildRefreshToken env now u sid = signToken env now (claims u None sid Refresh) (REFRESH_TOKEN_EXPIRY env)"

definition hashToken :: "auth_env \<Rightarrow> string \<Rightarrow> string" where
  "hashToken env raw = sha256_hex env raw"

section \<open>Login\<close>

definition isAccountLocked :: "int \<Rightarrow> account \<Rightarrow> bool" where
  "isAccountLocked now a = (case acc_locked_until a of None \<Rightarrow> False | Some t \<Rightarrow> t > now)"

definition logFailedLogin :: "string option \<Rightarrow> string \<Rightarrow> string \<Rightarrow> string \<Rightarrow> unit service" where
  "logFailedLogin u reason ip ua =
     bindS nowS (\<lambda>now.
     thenS (tryExecS (createLoginHistoryEntry now u (Some ip) (Some ua) None False))
       (auth_createAuditEntry u ''LOGIN_FAILED'' (Some ip) (Some ua) [(''reason'', JStr reason)]))"

text \<open>The dummy comparison of \<open>rejectUnknownEmail\<close> only takes time.\<close>

definition rejectUnknownEmail :: "string \<Rightarrow> string \<Rightarrow> 'a service" where
  "rejectUnknownEmail ip ua = thenS (logFailedLogin None ''user_not_found'' ip ua) (throwS AuthError)"

text \<open>The three refusals of \<open>guardAccountUsable\<close> differ in their audit entry and their message; the message is not modelled.\<close>

definition guardAccountUsable :: "user_row \<Rightarrow> string \<Rightarrow> string \<Rightarrow> unit service" where
  "guardAccountUsable user ip ua =
     bindS nowS (\<lambda>now.
       if \<not> acc_is_active (usr_account user)
       then thenS (logFailedLogin (Some (usr_id user)) ''account_inactive'' ip ua) (throwS AuthError)
       else if isAccountLocked now (usr_account user)
       then thenS (logFailedLogin (Some (usr_id user)) ''account_locked'' ip ua) (throwS AuthError)
       else if \<not> acc_email_verified (usr_account user)
       then thenS (logFailedLogin (Some (usr_id user)) ''email_not_verified'' ip ua) (throwS AuthError)
       else returnS ())"

definition lockAccountInTxn :: "string \<Rightarrow> int \<Rightarrow> string \<Rightarrow> string \<Rightarrow> unit service" where
  "lockAccountInTxn u failedAttempts ip ua =
     bindS nowS (\<lambda>now.
     let lockedUntil = now + LOCKOUT_DURATION_MS in
     thenS (execS (lockAccountWithClient u lockedUntil))
       (auth_createAuditEntry (Some u) ''ACCOUNT_LOCKED'' (Some ip) (Some ua)
          [(''failedAttempts'', JInt failedAttempts), (''lockedUntilIso'', JInt lockedUntil)]))"

definition recordFailedPasswordTxn :: "user_row \<Rightarrow> string \<Rightarrow> string \<Rightarrow> unit service" where
  "recordFailedPasswordTxn user ip ua =
     transactionS (
       bindS (incrementFailedLoginWithClient (usr_id user)) (\<lambda>newCount.
       thenS (auth_createAuditEntry (Some (usr_id user)) ''LOGIN_FAILED'' (Some ip) (Some ua) [(''reason'', JStr ''wrong_password'')])
         (whenS (newCount \<ge> MAX_FAILED_ATTEMPTS) (lockAccountInTxn (usr_id user) newCount ip ua))))"

definition checkFailedAuthBurst :: "string \<Rightarrow> unit service" where
  "checkFailedAuthBurst ip =
     bindS (getS (\<lambda>w. queue_set w Auth_security_alerts)) (\<lambda>configured.
     if \<not> configured then returnS ()
     else bindS nowS (\<lambda>now.
          bindS (queryS (getRecentFailedLoginsByIp now ip 15)) (\<lambda>recentFailures.
          if recentFailures < 5 then returnS ()
          else enqueueWithContext Auth_security_alerts ''security-alert''
                 [(''type'', JStr ''FAILED_AUTH_BURST''), (''entityId'', JStr ip), (''entityType'', JStr ''ip_address''),
                  (''metadata'', JObj [(''failureCount'', JInt recentFailures), (''windowMinutes'', JInt 15)]),
                  (''timestamp'', JInt now)])))"

definition handleFailedPassword :: "user_row \<Rightarrow> string \<Rightarrow> string \<Rightarrow> unit service" where
  "handleFailedPassword user ip ua = thenS (recordFailedPasswordTxn user ip ua) (checkFailedAuthBurst ip)"

definition auditPartialAuth :: "string \<Rightarrow> string \<Rightarrow> string \<Rightarrow> string \<Rightarrow> unit service" where
  "auditPartialAuth u sid ip ua =
     auth_createAuditEntry (Some u) ''LOGIN_SUCCESS'' (Some ip) (Some ua)
       [(''requiresTwoFactor'', JBool True), (''sessionId'', JStr sid)]"

definition buildPartialAuthResponse :: "string \<Rightarrow> login_response" where
  "buildPartialAuthResponse accessToken =
     \<lparr>lr_accessToken = accessToken, lr_refreshToken = None, lr_user = None, lr_tokenType = Partial_auth,
      lr_expiresIn = PARTIAL_AUTH_EXPIRY, lr_requiresTwoFactor = True\<rparr>"

definition issuePartialAuthToken :: "auth_env \<Rightarrow> string \<Rightarrow> user_row \<Rightarrow> string \<Rightarrow> string \<Rightarrow> login_response service" where
  "issuePartialAuthToken env sid user ip ua =
     bindS nowS (\<lambda>now.
     let accessToken = signToken env now (claims (usr_id user) (Some (acc_role (usr_account user))) sid Partial_auth) PARTIAL_AUTH_EXPIRY in
     thenS (auditPartialAuth (usr_id user) sid ip ua) (returnS (buildPartialAuthResponse accessToken)))"

text \<open>\<open>email.split('@')[0]\<close>, or the decrypted names with a blank between, trimmed.\<close>

definition buildUserProfile :: "auth_env \<Rightarrow> string \<Rightarrow> string \<Rightarrow> string \<Rightarrow> auth_user service" where
  "buildUserProfile env u email role =
     bindS (queryS (findUserById u)) (\<lambda>profile.
     let first = (case profile of None \<Rightarrow> None | Some p \<Rightarrow> acc_first_name (usr_account p));
         last = (case profile of None \<Rightarrow> None | Some p \<Rightarrow> acc_last_name (usr_account p)) in
     bindS (liftS (case first of
              None \<Rightarrow> Inr (takeWhile (\<lambda>c. c \<noteq> CHR ''@'') email)
            | Some f \<Rightarrow> bindE (decrypt (decipher_fn env) (encryption_key env) f) (\<lambda>fn.
                bindE (case last of None \<Rightarrow> Inr [] | Some l \<Rightarrow> decrypt (decipher_fn env) (encryption_key env) l) (\<lambda>ln.
                  Inr (js_trim (fn @ '' '' @ ln)))))) (\<lambda>name.
       returnS \<lparr>au_id = u, au_email = email, au_name = name, au_role = role\<rparr>))"

definition recordSuccessfulLogin :: "string \<Rightarrow> string \<Rightarrow> string \<Rightarrow> unit service" where
  "recordSuccessfulLogin u ip ua =
     bindS nowS (\<lambda>now. tryExecS (createLoginHistoryEntry now (Some u) (Some ip) (Some ua) None True))"

definition auditFullLogin :: "string \<Rightarrow> string \<Rightarrow> string \<Rightarrow> string \<Rightarrow> unit service" where
  "auditFullLogin u sid ip ua =
     auth_createAuditEntry (Some u) ''LOGIN_SUCCESS'' (Some ip) (Some ua) [(''sessionId'', JStr sid), (''tokenType'', JStr ''full'')]"

definition notifyNewDevice :: "auth_env \<Rightarrow> string \<Rightarrow> user_row \<Rightarrow> string \<Rightarrow> string \<Rightarrow> unit service" where
  "notifyNewDevice env mid user ip ua =
     catchS
       (thenS (auth_createAuditEntry (Some (usr_id user)) ''NEW_DEVICE_LOGIN_NOTIFIED'' (Some ip) (Some ua) [(''newDevice'', JBool True)])
         (bindS nowS (\<lambda>now.
            enqueueS Auth_notification ''send-email''
              [(''id'', JStr mid), (''channel'', JStr ''email''), (''template'', JStr ''new_device_login''),
               (''recipient'', JStr (usr_email user)),
               (''data'', JObj [(''user_name'', JStr ''there''), (''ip_address'', JStr ip), (''user_agent'', JStr ua),
                  (''login_timestamp'', JInt now), (''reset_url'', JStr (base_url env @ ''/forgot-password''))])])))
       (\<lambda>_. returnS ())"

definition buildFullAuthResponse :: "auth_env \<Rightarrow> string \<Rightarrow> string \<Rightarrow> auth_user \<Rightarrow> login_response" where
  "buildFullAuthResponse env accessToken refreshToken user =
     \<lparr>lr_accessToken = accessToken, lr_refreshToken = Some refreshToken, lr_user = Some user, lr_tokenType = Full,
      lr_expiresIn = JWT_EXPIRY env, lr_requiresTwoFactor = False\<rparr>"

definition issueFullTokens :: "auth_env \<Rightarrow> string \<Rightarrow> string \<Rightarrow> user_row \<Rightarrow> string \<Rightarrow> string \<Rightarrow> login_response service" where
  "issueFullTokens env sid mid user ip ua =
     bindS nowS (\<lambda>now.
     bindS (queryS (hasRecentLoginWithSameUserAgent now (usr_id user) ua NEW_DEVICE_LOOKBACK_DAYS)) (\<lambda>seen.
     thenS (createSession sid user)
    (thenS (execS (recordLogin now (usr_id user)))
    (thenS (recordSuccessfulLogin (usr_id user) ip ua)
    (let accessToken = signToken env now (claims (usr_id user) (Some (acc_role (usr_account user))) sid Full) (JWT_EXPIRY env);
         refreshToken = buildRefreshToken env now (usr_id user) sid in
     bindS (buildUserProfile env (usr_id user) (usr_email user) (acc_role (usr_account user))) (\<lambda>profile.
     thenS (auditFullLogin (usr_id user) sid ip ua)
    (thenS (whenS (\<not> seen) (notifyNewDevice env mid user ip ua))
       (returnS (buildFullAuthResponse env accessToken refreshToken profile)))))))))"

definition login :: "auth_env \<Rightarrow> string \<Rightarrow> string \<Rightarrow> string \<Rightarrow> string \<Rightarrow> string \<Rightarrow> string \<Rightarrow> login_response service" where
  "login env sid mid email password ip ua =
     bindS (queryS (findUserByEmail email)) (\<lambda>found.
       case found of
         None \<Rightarrow> rejectUnknownEmail ip ua
       | Some user \<Rightarrow>
           thenS (guardAccountUsable user ip ua)
             (if \<not> bcrypt_compare env password (acc_password_hash (usr_account user))
              then thenS (handleFailedPassword user ip ua) (throwS AuthError)
              else thenS (execS (resetFailedLogin (usr_id user)))
                     (if acc_2fa_enabled (usr_account user) then issuePartialAuthToken env sid user ip ua
                      else issueFullTokens env sid mid user ip ua)))"

section \<open>Two-factor verification\<close>

definition logTwoFactorEvent :: "string \<Rightarrow> bool \<Rightarrow> string \<Rightarrow> string \<Rightarrow> unit service" where
  "logTwoFactorEvent u success ip ua =
     auth_createAuditEntry (Some u) (if success then ''TWO_FA_SUCCESS'' else ''TWO_FA_FAILED'') (Some ip) (Some ua) []"

definition totp_secret :: "user_row option \<Rightarrow> string option" where
  "totp_secret user =
     (case user of None \<Rightarrow> None
      | Some u \<Rightarrow> (case acc_2fa_secret (usr_account u) of None \<Rightarrow> None | Some s \<Rightarrow> if s = [] then None else Some s))"

definition verifyTotpCode :: "auth_env \<Rightarrow> user_row option \<Rightarrow> string \<Rightarrow> string \<Rightarrow> string \<Rightarrow> string \<Rightarrow> unit service" where
  "verifyTotpCode env user u code ip ua =
     (case totp_secret user of
        None \<Rightarrow> thenS (logTwoFactorEvent u False ip ua) (throwS AuthError)
      | Some secret \<Rightarrow>
          bindS nowS (\<lambda>now.
            if totp_verify env now secret code then returnS ()
            else thenS (logTwoFactorEvent u False ip ua) (throwS AuthError)))"

definition consumeBackupCode :: "string \<Rightarrow> string \<Rightarrow> string \<Rightarrow> string \<Rightarrow> unit service" where
  "consumeBackupCode codeId u ip ua =
     bindS nowS (\<lambda>now. transactionS
       (thenS (execS (markBackupCodeUsedWithClient now codeId))
         (auth_createAuditEntry (Some u) ''BACKUP_CODE_USED'' (Some ip) (Some ua) [])))"

definition verifyBackupCodeOrThrow ::
    "auth_env \<Rightarrow> user_row option \<Rightarrow> string \<Rightarrow> string \<Rightarrow> string \<Rightarrow> string \<Rightarrow> unit service" where
  "verifyBackupCodeOrThrow env user u rawCode ip ua =
     (case user of
        None \<Rightarrow> thenS (logTwoFactorEvent u False ip ua) (throwS AuthError)
      | Some _ \<Rightarrow>
          bindS (queryS (findUnusedBackupCode u (hashToken env rawCode))) (\<lambda>found.
          case found of
            None \<Rightarrow> thenS (auth_createAuditEntry (Some u) ''BACKUP_CODE_INVALID'' (Some ip) (Some ua) [])
                     (thenS (logTwoFactorEvent u False ip ua) (throwS AuthError))
          | Some code \<Rightarrow> consumeBackupCode (otk_id code) u ip ua))"

definition verifyTwoFactor ::
    "auth_env \<Rightarrow> string \<Rightarrow> string \<Rightarrow> string \<Rightarrow> string \<Rightarrow> string \<Rightarrow> string \<Rightarrow> login_response service" where
  "verifyTwoFactor env sid mid partialToken totpCode ip ua =
     bindS (verifyToken env partialToken) (\<lambda>payload.
     thenS (guardS (tp_type payload = Partial_auth) AuthError)
    (bindS (queryS (findUserById (tp_user payload))) (\<lambda>user.
     thenS (if length totpCode = BACKUP_CODE_LENGTH
            then verifyBackupCodeOrThrow env user (tp_user payload) totpCode ip ua
            else verifyTotpCode env user (tp_user payload) totpCode ip ua)
    (thenS (logTwoFactorEvent (tp_user payload) True ip ua)
    (bindS (requireS user (JsError ''TypeError'')) (\<lambda>u. issueFullTokens env sid mid u ip ua))))))"

definition guardStepUpConfigured :: "user_row option \<Rightarrow> string \<Rightarrow> string \<Rightarrow> string \<Rightarrow> unit service" where
  "guardStepUpConfigured user u ip ua =
     (if (case user of None \<Rightarrow> True | Some r \<Rightarrow> \<not> acc_2fa_enabled (usr_account r)) \<or> totp_secret user = None
      then thenS (auth_createAuditEntry (Some u) ''STEP_UP_FAILED'' (Some ip) (Some ua) [(''reason'', JStr ''2fa_not_configured'')])
             (throwS AuthError)
      else returnS ())"

definition verifyStepUpCode :: "auth_env \<Rightarrow> user_row option \<Rightarrow> string \<Rightarrow> string \<Rightarrow> string \<Rightarrow> string \<Rightarrow> unit service" where
  "verifyStepUpCode env user code u ip ua =
     bindS nowS (\<lambda>now.
       if (case totp_secret user of None \<Rightarrow> False | Some s \<Rightarrow> totp_verify env now s code) then returnS ()
       else thenS (auth_createAuditEntry (Some u) ''STEP_UP_FAILED'' (Some ip) (Some ua) [(''reason'', JStr ''invalid_code'')])
              (throwS AuthError))"

definition verifyStepUp :: "auth_env \<Rightarrow> string \<Rightarrow> string \<Rightarrow> string \<Rightarrow> string \<Rightarrow> unit service" where
  "verifyStepUp env u code ip ua =
     bindS (queryS (findUserById u)) (\<lambda>user.
     thenS (guardStepUpConfigured user u ip ua)
    (thenS (verifyStepUpCode env user code u ip ua)
       (auth_createAuditEntry (Some u) ''STEP_UP_VERIFIED'' (Some ip) (Some ua) [])))"

section \<open>Backup codes\<close>

text \<open>
  \<open>randomBytes(6).toString('base64url').slice(0, 8).toUpperCase()\<close>: the URL alphabet has \<open>-\<close> and \<open>_\<close> and no padding.
\<close>

definition to_base64url :: "byte list \<Rightarrow> string" where
  "to_base64url bs =
     map (\<lambda>c. if c = CHR ''+'' then CHR ''-'' else if c = CHR ''/'' then CHR ''_'' else c)
       (filter (\<lambda>c. c \<noteq> CHR ''='') (to_base64 bs))"

definition draw_code :: "byte list \<Rightarrow> string" where
  "draw_code bs = toUpperCase (take BACKUP_CODE_LENGTH (to_base64url bs))"

text \<open>
  The loop adds codes to a set until it has \<open>count\<close> of them. Its argument is the list of draws; the result is \<open>None\<close> when the loop is still
  running after them. A \<open>Set\<close> keeps the order of insertion.
\<close>

fun collect_codes :: "nat \<Rightarrow> string list \<Rightarrow> byte list list \<Rightarrow> string list option" where
  "collect_codes count codes draws =
     (if length codes \<ge> count then Some codes
      else case draws of [] \<Rightarrow> None
      | bs # rest \<Rightarrow>
          let raw = draw_code bs
          in if length raw = BACKUP_CODE_LENGTH \<and> raw \<notin> set codes then collect_codes count (codes @ [raw]) rest
             else collect_codes count codes rest)"

declare collect_codes.simps [simp del]

definition buildBackupCodes :: "nat \<Rightarrow> byte list list \<Rightarrow> string list option" where
  "buildBackupCodes count draws = collect_codes count [] draws"

definition persistBackupCodes :: "auth_env \<Rightarrow> string \<Rightarrow> (string \<times> string) list \<Rightarrow> unit service" where
  "persistBackupCodes env u rawCodes =
     bindS nowS (\<lambda>now. transactionS
       (thenS (execS (invalidateBackupCodesWithClient now u))
         (forS (\<lambda>(i, raw). tryExecS (createBackupCodeWithClient now i u (hashToken env raw))) rawCodes)))"

text \<open>The ids the database gives to the rows are an argument; \<open>JsError\<close> stands for a draw loop that has not ended.\<close>

definition generateBackupCodes ::
    "auth_env \<Rightarrow> byte list list \<Rightarrow> string list \<Rightarrow> string \<Rightarrow> string \<Rightarrow> string \<Rightarrow> string list service" where
  "generateBackupCodes env draws ids u ip ua =
     bindS (queryS (findUserById u)) (\<lambda>user.
     thenS (guardS (case user of None \<Rightarrow> False | Some r \<Rightarrow> acc_2fa_enabled (usr_account r)) (BusinessRuleError ''AUTH_2FA_NOT_ENABLED''))
    (bindS (requireS (buildBackupCodes BACKUP_CODE_COUNT draws) (JsError ''loop'')) (\<lambda>rawCodes.
     thenS (persistBackupCodes env u (zip ids rawCodes))
    (thenS (auth_createAuditEntry (Some u) ''BACKUP_CODES_GENERATED'' (Some ip) (Some ua) [(''count'', JInt (int BACKUP_CODE_COUNT))])
       (returnS rawCodes)))))"

section \<open>Sessions\<close>

definition logout :: "string \<Rightarrow> string \<Rightarrow> string \<Rightarrow> string \<Rightarrow> unit service" where
  "logout sid u ip ua =
     thenS getRedis
    (thenS (redis_del_session (session_key sid))
       (auth_createAuditEntry (Some u) ''LOGOUT'' (Some ip) (Some ua) [(''sessionId'', JStr sid)]))"

definition refreshBlocklistKey :: "string \<Rightarrow> int \<Rightarrow> string" where
  "refreshBlocklistKey sid iat = ''rt_blocklist:'' @ sid @ '':'' @ show_int iat"

definition rejectIfTokenRevoked :: "token_payload \<Rightarrow> unit service" where
  "rejectIfTokenRevoked payload =
     (case tp_iat payload of
        None \<Rightarrow> returnS ()
      | Some iat \<Rightarrow>
          thenS getRedis
         (bindS (redis_get_mark (refreshBlocklistKey (tp_session payload) iat)) (\<lambda>blocked. guardS (blocked = None) AuthError)))"

definition blocklistOldRefreshToken :: "token_payload \<Rightarrow> unit service" where
  "blocklistOldRefreshToken payload =
     (case (tp_iat payload, tp_exp payload) of
        (Some iat, Some expiry) \<Rightarrow>
          thenS getRedis
         (bindS nowS (\<lambda>now.
            let ttl = expiry - now div 1000
            in if ttl \<le> 0 then returnS ()
               else redis_set_mark (refreshBlocklistKey (tp_session payload) iat) ''1'' ttl))
      | _ \<Rightarrow> returnS ())"

definition buildRotatedTokens :: "auth_env \<Rightarrow> int \<Rightarrow> token_payload \<Rightarrow> string \<Rightarrow> string \<times> string" where
  "buildRotatedTokens env now payload role =
     (signToken env now (claims (tp_user payload) (Some role) (tp_session payload) Full) (JWT_EXPIRY env),
      buildRefreshToken env now (tp_user payload) (tp_session payload))"

definition refreshAccessToken :: "auth_env \<Rightarrow> string \<Rightarrow> string \<Rightarrow> string \<Rightarrow> (string \<times> string \<times> string) service" where
  "refreshAccessToken env token ip ua =
     bindS (verifyToken env token) (\<lambda>payload.
     thenS (guardS (tp_type payload = Refresh) AuthError)
    (thenS (rejectIfTokenRevoked payload)
    (bindS (getSession (tp_session payload)) (\<lambda>found.
     bindS (requireS found AuthError) (\<lambda>session.
     thenS (blocklistOldRefreshToken payload)
    (bindS nowS (\<lambda>now.
     let tokens = buildRotatedTokens env now payload (ses_role session) in
     thenS (auth_createAuditEntry (Some (tp_user payload)) ''TOKEN_REFRESHED'' (Some ip) (Some ua)
              [(''sessionId'', JStr (tp_session payload))])
       (returnS (fst tokens, snd tokens, JWT_EXPIRY env)))))))))"

text \<open>The loop over the keys of a scan: a key that is gone meanwhile is skipped.\<close>

definition delete_if_owned :: "string \<Rightarrow> string option \<Rightarrow> string \<Rightarrow> unit service" where
  "delete_if_owned u keep k =
     bindS (redis_get_session k) (\<lambda>data.
       case data of
         None \<Rightarrow> returnS ()
       | Some session \<Rightarrow> whenS (ses_user session = u \<and> keep \<noteq> Some (ses_id session)) (redis_del_session k))"

definition deleteSessionsByUserId :: "auth_env \<Rightarrow> string \<Rightarrow> string option \<Rightarrow> unit service" where
  "deleteSessionsByUserId env u keep =
     thenS redis_command
    (bindS (getS (\<lambda>w. scan env (redis_sessions w))) (\<lambda>batches.
       forS (\<lambda>keys. forS (delete_if_owned u keep) keys) batches))"

definition invalidateAllSessions :: "auth_env \<Rightarrow> string \<Rightarrow> unit service" where
  "invalidateAllSessions env u = thenS getRedis (deleteSessionsByUserId env u None)"

definition invalidateOtherSessions :: "auth_env \<Rightarrow> string \<Rightarrow> string \<Rightarrow> unit service" where
  "invalidateOtherSessions env u keep = thenS getRedis (deleteSessionsByUserId env u (Some keep))"

record session_summary =
  ss_id :: string
  ss_created_at :: int
  ss_expires_at :: int

fun collect_sessions :: "string \<Rightarrow> string list \<Rightarrow> session_summary list service" where
  "collect_sessions u [] = returnS []"
| "collect_sessions u (k # ks) =
     bindS (redis_get_session k) (\<lambda>data.
     bindS (collect_sessions u ks) (\<lambda>rest.
       returnS (case data of
           None \<Rightarrow> rest
         | Some s \<Rightarrow> if ses_user s = u
             then \<lparr>ss_id = ses_id s, ss_created_at = ses_created_at s, ss_expires_at = ses_expires_at s\<rparr> # rest else rest)))"

definition scanUserSessions :: "auth_env \<Rightarrow> string \<Rightarrow> session_summary list service" where
  "scanUserSessions env u =
     thenS redis_command
    (bindS (getS (\<lambda>w. scan env (redis_sessions w))) (\<lambda>batches. collect_sessions u (concat batches)))"

definition getActiveSessions :: "auth_env \<Rightarrow> string \<Rightarrow> session_summary list service" where
  "getActiveSessions env u = thenS getRedis (scanUserSessions env u)"

definition revokeSession :: "string \<Rightarrow> string \<Rightarrow> unit service" where
  "revokeSession sid u =
     thenS getRedis
    (bindS (redis_get_session (session_key sid)) (\<lambda>data.
       case data of
         None \<Rightarrow> returnS ()
       | Some session \<Rightarrow> whenS (ses_user session = u) (redis_del_session (session_key sid))))"

section \<open>Passwords\<close>

text \<open>
  \<open>PASSWORD_REGEX\<close>: twelve characters or more on one line, with a lower-case and an upper-case letter, a digit and a
  character that is none of these.
\<close>

definition is_lower :: "char \<Rightarrow> bool" where
  "is_lower c \<longleftrightarrow> 97 \<le> (of_char c :: nat) \<and> (of_char c :: nat) \<le> 122"

definition is_upper :: "char \<Rightarrow> bool" where
  "is_upper c \<longleftrightarrow> 65 \<le> (of_char c :: nat) \<and> (of_char c :: nat) \<le> 90"

definition line_end :: "char \<Rightarrow> bool" where
  "line_end c \<longleftrightarrow> (of_char c :: nat) = 10 \<or> (of_char c :: nat) = 13"

definition PASSWORD_REGEX :: "string \<Rightarrow> bool" where
  "PASSWORD_REGEX p \<longleftrightarrow>
     12 \<le> length p \<and> \<not> list_ex line_end p \<and> list_ex is_lower p \<and> list_ex is_upper p \<and> list_ex is_digit p
     \<and> list_ex (\<lambda>c. \<not> is_lower c \<and> \<not> is_upper c \<and> \<not> is_digit c) p"

definition validatePasswordPair :: "string \<Rightarrow> string \<Rightarrow> unit service" where
  "validatePasswordPair password confirm =
     thenS (guardS (password = confirm) (ValidationError ''confirm_password''))
       (guardS (PASSWORD_REGEX password) (ValidationError ''new_password''))"

fun history_loop :: "auth_env \<Rightarrow> string \<Rightarrow> password_entry list \<Rightarrow> unit service" where
  "history_loop env newPassword [] = returnS ()"
| "history_loop env newPassword (entry # history) =
     thenS (guardS (\<not> bcrypt_compare env newPassword (ph_hash entry)) (BusinessRuleError ''PASSWORD_RECENTLY_USED''))
       (history_loop env newPassword history)"

definition checkPasswordHistory :: "auth_env \<Rightarrow> string \<Rightarrow> string \<Rightarrow> unit service" where
  "checkPasswordHistory env u newPassword =
     bindS (queryS (getLastNPasswords u PASSWORD_HISTORY_DEPTH)) (\<lambda>history. history_loop env newPassword history)"

definition generateResetToken :: "auth_env \<Rightarrow> string \<Rightarrow> string \<Rightarrow> string \<Rightarrow> unit service" where
  "generateResetToken env tid rawToken u =
     bindS nowS (\<lambda>now.
     thenS (execS (invalidateResetTokens now u))
       (tryExecS (createResetToken now tid u (hashToken env rawToken) (now + RESET_TOKEN_EXPIRY_MS))))"

definition buildResetEmailPayload :: "auth_env \<Rightarrow> string \<Rightarrow> string \<Rightarrow> json_obj" where
  "buildResetEmailPayload env u rawToken =
     [(''channel'', JStr ''email''), (''template'', JStr ''password_reset''), (''recipientUserId'', JStr u),
      (''data'', JObj [(''token_url'', JStr (base_url env @ ''/reset-password?token='' @ rawToken)), (''expiry_minutes'', JInt 60)])]"

definition enqueueResetEmail :: "auth_env \<Rightarrow> string \<Rightarrow> string \<Rightarrow> unit service" where
  "enqueueResetEmail env u rawToken =
     catchS (enqueueS Auth_notification ''send-email'' (buildResetEmailPayload env u rawToken)) (\<lambda>_. returnS ())"

text \<open>The raw token is the hexadecimal text of 32 random bytes; its row id is an argument.\<close>

definition requestPasswordReset :: "auth_env \<Rightarrow> string \<Rightarrow> string \<Rightarrow> string \<Rightarrow> string \<Rightarrow> string \<Rightarrow> unit service" where
  "requestPasswordReset env tid rawToken email ip ua =
     bindS (queryS (findUserByEmail email)) (\<lambda>found.
       case found of
         None \<Rightarrow> returnS ()
       | Some user \<Rightarrow>
           if \<not> acc_is_active (usr_account user) then returnS ()
           else thenS (generateResetToken env tid rawToken (usr_id user))
               (thenS (auth_createAuditEntry (Some (usr_id user)) ''PASSWORD_RESET_REQUESTED'' (Some ip) (Some ua) [])
                  (enqueueResetEmail env (usr_id user) rawToken)))"

definition validateResetToken :: "auth_env \<Rightarrow> string \<Rightarrow> one_time_token service" where
  "validateResetToken env rawToken =
     bindS nowS (\<lambda>now.
     bindS (queryS (findValidResetToken now (hashToken env rawToken))) (\<lambda>found. requireS found AuthError))"

definition applyPasswordReset :: "one_time_token \<Rightarrow> string \<Rightarrow> string \<Rightarrow> string \<Rightarrow> unit service" where
  "applyPasswordReset tokenRecord passwordHash ip ua =
     bindS nowS (\<lambda>now. transactionS
       (thenS (execS (updatePasswordHashWithClient now (otk_user tokenRecord) passwordHash))
       (thenS (execS (markResetTokenUsedWithClient now (otk_id tokenRecord)))
       (thenS (tryExecS (createPasswordHistoryEntryWithClient now (otk_user tokenRecord) passwordHash))
         (auth_createAuditEntry (Some (otk_user tokenRecord)) ''PASSWORD_RESET_COMPLETED'' (Some ip) (Some ua) [])))))"

definition resetPassword ::
    "auth_env \<Rightarrow> string \<Rightarrow> string \<Rightarrow> string \<Rightarrow> string \<Rightarrow> string \<Rightarrow> string \<Rightarrow> unit service" where
  "resetPassword env salt rawToken newPassword confirmPassword ip ua =
     thenS (validatePasswordPair newPassword confirmPassword)
    (bindS (validateResetToken env rawToken) (\<lambda>tokenRecord.
     thenS (checkPasswordHistory env (otk_user tokenRecord) newPassword)
    (thenS (applyPasswordReset tokenRecord (bcrypt_hash env salt newPassword) ip ua)
       (invalidateAllSessions env (otk_user tokenRecord)))))"

definition guardPasswordChange :: "auth_env \<Rightarrow> user_row \<Rightarrow> string \<Rightarrow> string \<Rightarrow> unit service" where
  "guardPasswordChange env user currentPassword newPassword =
     thenS (guardS (bcrypt_compare env currentPassword (acc_password_hash (usr_account user))) AuthError)
       (guardS (\<not> bcrypt_compare env newPassword (acc_password_hash (usr_account user))) (ValidationError ''new_password''))"

definition persistPasswordChange :: "string \<Rightarrow> string \<Rightarrow> string \<Rightarrow> string \<Rightarrow> unit service" where
  "persistPasswordChange u passwordHash ip ua =
     bindS nowS (\<lambda>now. transactionS
       (thenS (execS (updatePasswordHashWithClient now u passwordHash))
       (thenS (tryExecS (createPasswordHistoryEntryWithClient now u passwordHash))
         (auth_createAuditEntry (Some u) ''PASSWORD_CHANGED'' (Some ip) (Some ua) []))))"

definition changePassword ::
    "auth_env \<Rightarrow> string \<Rightarrow> string \<Rightarrow> string \<Rightarrow> string \<Rightarrow> string \<Rightarrow> string \<Rightarrow> string \<Rightarrow> string \<Rightarrow> unit service" where
  "changePassword env salt u sid currentPassword newPassword confirmPassword ip ua =
     thenS (validatePasswordPair newPassword confirmPassword)
    (bindS (queryS (findUserById u)) (\<lambda>found.
     bindS (requireS found AuthError) (\<lambda>user.
     thenS (guardPasswordChange env user currentPassword newPassword)
    (thenS (checkPasswordHistory env u newPassword)
    (thenS (persistPasswordChange u (bcrypt_hash env salt newPassword) ip ua)
       (invalidateOtherSessions env u sid))))))"

section \<open>Email verification\<close>

definition generateEmailVerificationToken :: "auth_env \<Rightarrow> string \<Rightarrow> string \<Rightarrow> string \<Rightarrow> unit service" where
  "generateEmailVerificationToken env tid rawToken u =
     bindS nowS (\<lambda>now.
     thenS (execS (invalidateEmailVerificationTokens now u))
       (tryExecS (createEmailVerificationToken now tid u (hashToken env rawToken) (now + EMAIL_VERIFICATION_EXPIRY_MS))))"

definition enqueueVerificationEmail :: "auth_env \<Rightarrow> string \<Rightarrow> string \<Rightarrow> string \<Rightarrow> unit service" where
  "enqueueVerificationEmail env mid email rawToken =
     catchS (enqueueS Auth_notification ''send-email''
       [(''id'', JStr mid), (''channel'', JStr ''email''), (''template'', JStr ''email_verification''), (''recipient'', JStr email),
        (''data'', JObj [(''verification_url'', JStr (base_url env @ ''/verify-email?token='' @ rawToken)),
           (''expiry_hours'', JInt EMAIL_VERIFICATION_EXPIRY_HOURS), (''user_name'', JStr ''Supplier'')])])
       (\<lambda>_. returnS ())"

definition issueEmailVerificationToken ::
    "auth_env \<Rightarrow> string \<Rightarrow> string \<Rightarrow> string \<Rightarrow> string \<Rightarrow> string \<Rightarrow> string \<Rightarrow> string \<Rightarrow> unit service" where
  "issueEmailVerificationToken env tid mid rawToken u email ip ua =
     thenS (generateEmailVerificationToken env tid rawToken u)
    (thenS (auth_createAuditEntry (Some u) ''EMAIL_VERIFICATION_REQUESTED'' (Some ip) (Some ua) [])
       (enqueueVerificationEmail env mid email rawToken))"

definition applyEmailVerification :: "one_time_token \<Rightarrow> string \<Rightarrow> string \<Rightarrow> unit service" where
  "applyEmailVerification tokenRecord ip ua =
     bindS nowS (\<lambda>now. transactionS
       (thenS (execS (markUserEmailVerifiedWithClient now (otk_user tokenRecord)))
       (thenS (execS (markEmailVerificationTokenUsedWithClient now (otk_id tokenRecord)))
         (auth_createAuditEntry (Some (otk_user tokenRecord)) ''EMAIL_VERIFIED'' (Some ip) (Some ua) []))))"

definition verifyEmail :: "auth_env \<Rightarrow> string \<Rightarrow> string \<Rightarrow> string \<Rightarrow> unit service" where
  "verifyEmail env rawToken ip ua =
     bindS nowS (\<lambda>now.
     bindS (queryS (findValidEmailVerificationToken now (hashToken env rawToken))) (\<lambda>found.
       case found of
         None \<Rightarrow> thenS (auth_createAuditEntry None ''EMAIL_VERIFICATION_FAILED'' (Some ip) (Some ua)
                          [(''reason'', JStr ''invalid_or_expired'')]) (throwS AuthError)
       | Some tokenRecord \<Rightarrow> applyEmailVerification tokenRecord ip ua))"

definition resendVerificationEmail :: "auth_env \<Rightarrow> string \<Rightarrow> string \<Rightarrow> string \<Rightarrow> string \<Rightarrow> string \<Rightarrow> string \<Rightarrow> unit service" where
  "resendVerificationEmail env tid mid rawToken email ip ua =
     bindS (queryS (findUserByEmail email)) (\<lambda>found.
       case found of
         None \<Rightarrow> returnS ()
       | Some user \<Rightarrow>
           if \<not> acc_is_active (usr_account user) \<or> acc_email_verified (usr_account user) then returnS ()
           else thenS (generateEmailVerificationToken env tid rawToken (usr_id user))
               (thenS (auth_createAuditEntry (Some (usr_id user)) ''EMAIL_VERIFICATION_RESENT'' (Some ip) (Some ua) [])
                  (enqueueVerificationEmail env mid (usr_email user) rawToken)))"

section \<open>Activity and inactive accounts\<close>

definition getLoginActivity :: "string \<Rightarrow> login_entry list service" where
  "getLoginActivity u = queryS (getLoginHistory u 20)"

definition disable_inactive :: "user_row \<Rightarrow> unit service" where
  "disable_inactive user =
     bindS nowS (\<lambda>now.
     thenS (execS (disableUserAccount now (usr_id user)))
       (auth_createAuditEntry None ''INACTIVE_ACCOUNT_DISABLED'' None None
          [(''userId'', JStr (usr_id user)), (''inactiveDays'', JInt INACTIVE_DISABLE_DAYS)]))"

definition checkInactiveAccounts :: "unit service" where
  "checkInactiveAccounts =
     bindS nowS (\<lambda>now. bindS (queryS (findInactiveUsers now INACTIVE_DISABLE_DAYS)) (\<lambda>users. forS disable_inactive users))"

definition queueInactiveWarning :: "string \<Rightarrow> unit service" where
  "queueInactiveWarning u = enqueueS Auth_notification ''inactive-account-warning'' [(''userId'', JStr u)]"

definition warn_inactive :: "user_row \<Rightarrow> unit service" where
  "warn_inactive user =
     thenS (queueInactiveWarning (usr_id user))
    (bindS nowS (\<lambda>now.
     thenS (execS (markInactiveWarningSent now (usr_id user)))
       (auth_createAuditEntry None ''INACTIVE_WARNING_SENT'' None None
          [(''userId'', JStr (usr_id user)), (''warningDays'', JInt INACTIVE_WARNING_DAYS)])))"

definition sendInactiveWarnings :: "unit service" where
  "sendInactiveWarnings =
     bindS nowS (\<lambda>now. bindS (queryS (findUsersForInactiveWarning now INACTIVE_WARNING_DAYS)) (\<lambda>users. forS warn_inactive users))"

section \<open>Middleware\<close>

record req_user =
  ru_userId :: string
  ru_role :: "string option"
  ru_sessionId :: string

text \<open>
  \<open>authenticateJwt\<close>: the request goes on with \<open>req.user\<close>, or is answered with 401; everything thrown, also by Redis, is answered so.
\<close>

definition authenticateJwt :: "auth_env \<Rightarrow> string option \<Rightarrow> req_user service" where
  "authenticateJwt env authHeader =
     (case authHeader of
        None \<Rightarrow> throwS AuthError
      | Some header \<Rightarrow>
          if take 7 header \<noteq> ''Bearer '' then throwS AuthError
          else catchS
            (bindS (verifyToken env (drop 7 header)) (\<lambda>payload.
             thenS (guardS (tp_type payload = Full) AuthError)
            (bindS (getSession (tp_session payload)) (\<lambda>session.
             bindS (requireS session AuthError) (\<lambda>_.
               returnS \<lparr>ru_userId = tp_user payload, ru_role = tp_role payload, ru_sessionId = tp_session payload\<rparr>)))))
            (\<lambda>_. throwS AuthError))"

definition createRoleGuard :: "string list \<Rightarrow> req_user option \<Rightarrow> unit service" where
  "createRoleGuard allowedRoles user =
     (case user of
        None \<Rightarrow> throwS AuthError
      | Some u \<Rightarrow> guardS (\<exists>r \<in> set allowedRoles. ru_role u = Some r) ForbiddenError)"

text \<open>\<open>generateBackupCodesHandler\<close>: the step-up verification comes before the codes.\<close>

definition generateBackupCodesHandler ::
    "auth_env \<Rightarrow> byte list list \<Rightarrow> string list \<Rightarrow> req_user option \<Rightarrow> string \<Rightarrow> string \<Rightarrow> string \<Rightarrow> string list service" where
  "generateBackupCodesHandler env draws ids user code ip ua =
     bindS (requireS user AuthError) (\<lambda>u.
     thenS (verifyStepUp env (ru_userId u) code ip ua)
       (generateBackupCodes env draws ids (ru_userId u) ip ua))"

end
