(* ===== verification/Auth_Invariants.thy ===== *)
theory Auth_Invariants
  imports Auth Payments_Props
begin

text \<open>
  What authentication keeps. The public operations are the rules of one step relation; a locale collects what an invariant
  must satisfy (it survives the writes of this module to the database, the jobs, the session store, the blocklist and
  the clock) and proves once that every operation, on every branch, then keeps it. The invariants are
  interpretations: the shape of the session store, the life of a blocklisted refresh token, and the columns of \<open>users\<close> that
  no operation of authentication writes.
\<close>

section \<open>What the writes of this module keep of the users\<close>

definition user_ids :: "user_row list \<Rightarrow> (string \<times> string \<times> int option \<times> int option) list" where
  "user_ids us = map (\<lambda>u. (usr_id u, usr_email u, usr_last_2fa u, acc_last_active_at (usr_account u))) us"

definition auth_writes :: "db \<Rightarrow> db \<Rightarrow> bool" where
  "auth_writes d d' \<longleftrightarrow> user_ids (t_users d') = user_ids (t_users d)"

lemma auth_writes_refl: "auth_writes d d"
  by (simp add: auth_writes_def)

lemma auth_writes_sym: "auth_writes d d' \<Longrightarrow> auth_writes d' d"
  by (simp add: auth_writes_def)

lemma auth_writes_trans: "auth_writes a b \<Longrightarrow> auth_writes b c \<Longrightarrow> auth_writes a c"
  by (simp add: auth_writes_def)

lemma auth_writes_users: "t_users d' = t_users d \<Longrightarrow> auth_writes d d'"
  by (simp add: auth_writes_def)

lemma auth_writes_account:
  "(\<And>a. acc_last_active_at (f a) = acc_last_active_at a) \<Longrightarrow> auth_writes d (update_account i f d)"
  by (simp add: auth_writes_def user_ids_def update_account_def update_where_def)

named_theorems auth_repo \<open>statements of the module, as far as the users are concerned\<close>

lemma exec_writes [auth_repo]:
  "auth_writes d (update_account i (\<lambda>a. a\<lparr>acc_failed_count := acc_failed_count a + 1\<rparr>) d)"
  "auth_writes d (resetFailedLogin i d)" "auth_writes d (lockAccountWithClient i t d)" "auth_writes d (recordLogin t i d)"
  "auth_writes d (markUserEmailVerifiedWithClient t i d)" "auth_writes d (updatePasswordHashWithClient t i h d)"
  "auth_writes d (disableUserAccount t i d)" "auth_writes d (markInactiveWarningSent t i d)"
  "auth_writes d (invalidateResetTokens t i d)" "auth_writes d (markResetTokenUsedWithClient t i d)"
  "auth_writes d (invalidateEmailVerificationTokens t i d)" "auth_writes d (markEmailVerificationTokenUsedWithClient t i d)"
  "auth_writes d (invalidateBackupCodesWithClient t i d)" "auth_writes d (markBackupCodeUsedWithClient t i d)"
  by (simp_all add: repo_def auth_writes_account auth_writes_users)

lemma try_writes [auth_repo]:
  "createResetToken t i u h e d = Inr d' \<Longrightarrow> auth_writes d d'"
  "createEmailVerificationToken t i u h e d = Inr d' \<Longrightarrow> auth_writes d d'"
  "createBackupCodeWithClient t i u h d = Inr d' \<Longrightarrow> auth_writes d d'"
  "createPasswordHistoryEntryWithClient t u h d = Inr d' \<Longrightarrow> auth_writes d d'"
  "createLoginHistoryEntry t v ip ua c s d = Inr d' \<Longrightarrow> auth_writes d d'"
  "insert_audit cols x d = Inr d' \<Longrightarrow> auth_writes d d'"
  by (auto simp: repo_def insert_audit_def auth_writes_def split: if_splits)

section \<open>The operations as steps\<close>

inductive auth_step :: "auth_env \<Rightarrow> world \<Rightarrow> world \<Rightarrow> bool" for env where
  login: "auth_step env w (snd (login env sid mid email password ip ua w))"
| two_factor: "auth_step env w (snd (verifyTwoFactor env sid mid token code ip ua w))"
| step_up: "auth_step env w (snd (verifyStepUp env u code ip ua w))"
| backup_codes: "auth_step env w (snd (generateBackupCodes env draws ids u ip ua w))"
| logout: "auth_step env w (snd (logout sid u ip ua w))"
| refresh: "auth_step env w (snd (refreshAccessToken env token ip ua w))"
| revoke: "auth_step env w (snd (revokeSession sid u w))"
| request_reset: "auth_step env w (snd (requestPasswordReset env tid raw email ip ua w))"
| reset: "auth_step env w (snd (resetPassword env salt raw new confirm ip ua w))"
| change: "auth_step env w (snd (changePassword env salt u sid current new confirm ip ua w))"
| issue_email: "auth_step env w (snd (issueEmailVerificationToken env tid mid raw u email ip ua w))"
| verify_email: "auth_step env w (snd (verifyEmail env raw ip ua w))"
| resend_email: "auth_step env w (snd (resendVerificationEmail env tid mid raw email ip ua w))"
| disable: "auth_step env w (snd (checkInactiveAccounts w))"
| warn: "auth_step env w (snd (sendInactiveWarnings w))"
| gate: "auth_step env w (snd (authenticateJwt env header w))"
| tick: "0 \<le> t \<Longrightarrow> auth_step env w (w\<lparr>clock := clock w + t\<rparr>)"

text \<open>What \<open>blocklistOldRefreshToken\<close> stores for a token that was verified as a refresh token.\<close>

definition marks_token :: "auth_env \<Rightarrow> world \<Rightarrow> string \<Rightarrow> int \<Rightarrow> bool" where
  "marks_token env w k expires \<longleftrightarrow>
     (\<exists>token p iat e. jwt_verify env (clock w) token = Some p \<and> tp_type p = Refresh \<and> tp_iat p = Some iat \<and> tp_exp p = Some e
        \<and> k = refreshBlocklistKey (tp_session p) iat \<and> expires = clock w + (e - clock w div 1000) * 1000)"

definition new_session :: "int \<Rightarrow> string \<Rightarrow> user_row \<Rightarrow> session" where
  "new_session now i user =
     \<lparr>ses_id = i, ses_user = usr_id user, ses_role = acc_role (usr_account user), ses_created_at = now,
      ses_expires_at = now + SESSION_TTL_SECONDS * 1000\<rparr>"

section \<open>The contract of an invariant\<close>

locale auth_invariant =
  fixes env :: auth_env and I :: "world \<Rightarrow> bool"
  assumes I_db: "I w \<Longrightarrow> auth_writes (db w) d \<Longrightarrow> I (w\<lparr>db := d\<rparr>)"
    and I_jobs: "I w \<Longrightarrow> I (w\<lparr>jobs := js\<rparr>)"
    and I_clock: "I w \<Longrightarrow> 0 \<le> t \<Longrightarrow> I (w\<lparr>clock := clock w + t\<rparr>)"
    and I_session: "I w \<Longrightarrow> I (w\<lparr>redis_sessions :=
      redis_insert (session_key i) (new_session (clock w) i user) (clock w + SESSION_TTL_SECONDS * 1000) (redis_sessions w)\<rparr>)"
    and I_remove: "I w \<Longrightarrow> I (w\<lparr>redis_sessions := redis_remove k (redis_sessions w)\<rparr>)"
    and I_mark: "I w \<Longrightarrow> marks_token env w k e \<Longrightarrow> I (w\<lparr>redis_marks := redis_insert k v e (redis_marks w)\<rparr>)"
begin

text \<open>
  \<open>kept m\<close>: \<open>m\<close> keeps \<open>I\<close> and, for the rollback of a transaction, the users as far as the invariant may look at them.
\<close>

definition kept :: "'a service \<Rightarrow> bool" where
  "kept m \<longleftrightarrow> (\<forall>d. preserves (\<lambda>w. I w \<and> auth_writes d (db w)) m)"

lemma keptI: "(\<And>d. preserves (\<lambda>w. I w \<and> auth_writes d (db w)) m) \<Longrightarrow> kept m"
  by (simp add: kept_def)

lemma keptD: "kept m \<Longrightarrow> I w \<Longrightarrow> I (snd (m w)) \<and> auth_writes (db w) (db (snd (m w)))"
  using auth_writes_refl unfolding kept_def preserves_def by blast

lemma kept_pure: "kept (returnS x)" "kept (throwS e)" "kept (getS f)" "kept (guardS b e)" "kept (requireS r e)" "kept (liftS v)"
    "kept (queryS g)" "kept nowS"
  by (auto intro!: keptI)

lemma kept_bind: "kept m \<Longrightarrow> (\<And>x. kept (f x)) \<Longrightarrow> kept (bindS m f)"
  unfolding kept_def by blast

lemma kept_then: "kept m \<Longrightarrow> kept k \<Longrightarrow> kept (thenS m k)"
  unfolding kept_def by blast

lemma kept_when: "kept m \<Longrightarrow> kept (whenS b m)"
  unfolding kept_def by blast

lemma kept_catch: "kept m \<Longrightarrow> (\<And>e. kept (h e)) \<Longrightarrow> kept (catchS m h)"
  unfolding kept_def by blast

lemma kept_for: "(\<And>x. kept (f x)) \<Longrightarrow> kept (forS f xs)"
  unfolding kept_def by blast

lemma kept_if: "kept a \<Longrightarrow> kept b \<Longrightarrow> kept (if c then a else b)"
  by simp

lemma kept_option: "kept a \<Longrightarrow> (\<And>x. kept (f x)) \<Longrightarrow> kept (case v of None \<Rightarrow> a | Some x \<Rightarrow> f x)"
  by (cases v) simp_all

lemma kept_exec: "(\<And>d. auth_writes d (f d)) \<Longrightarrow> kept (execS f)"
  by (rule keptI, rule preservesI) (auto intro: I_db auth_writes_trans)

lemma kept_tryExec: "(\<And>d d'. f d = Inr d' \<Longrightarrow> auth_writes d d') \<Longrightarrow> kept (tryExecS f)"
  by (rule keptI, rule preservesI) (auto simp: tryExecS_def intro: I_db auth_writes_trans split: sum.splits)

lemma kept_transaction:
  assumes "kept m"
  shows "kept (transactionS m)"
proof (rule keptI, rule preservesI)
  fix d and w :: world
  assume w: "I w \<and> auth_writes d (db w)"
  obtain r w' where m: "m w = (r, w')" by force
  have w': "I w'" "auth_writes (db w) (db w')" using keptD [OF assms] w m by fastforce+
  have "I (w'\<lparr>db := db w\<rparr>)" using w'(1) auth_writes_sym [OF w'(2)] by (rule I_db)
  then show "I (snd (transactionS m w)) \<and> auth_writes d (db (snd (transactionS m w)))"
    using w w' m auth_writes_trans by (cases r) (auto simp: transactionS_def)
qed

lemma kept_enqueueWithContext: "kept (enqueueWithContext q n dat)"
  by (rule keptI, rule preservesI) (auto simp: enqueueWithContext_def intro: I_jobs)

lemma kept_enqueue: "kept (enqueueS q n dat)"
  by (rule keptI, rule preservesI) (auto simp: run_enqueue intro: I_jobs)

lemma kept_modify: "(\<And>w. I w \<Longrightarrow> I (f w) \<and> db (f w) = db w) \<Longrightarrow> kept (modifyS f)"
  by (rule keptI, rule preservesI) auto

lemmas kept_intro = kept_pure kept_bind kept_then kept_when kept_catch kept_for kept_if kept_option kept_transaction
  kept_enqueue kept_enqueueWithContext

text \<open>The building blocks.\<close>

lemma kept_redis: "kept getRedis" "kept redis_command" "kept (redis_get_session k)" "kept (redis_get_mark k)"
  "kept (getSession i)"
  by (simp_all add: getRedis_def redis_command_def redis_get_session_def redis_get_mark_def getSession_def kept_intro)

lemma kept_del: "kept (redis_del_session k)"
  unfolding redis_del_session_def by (intro kept_then kept_redis kept_modify) (simp add: I_remove)

lemma kept_createSession: "kept (createSession i user)"
proof -
  have "kept (bindS nowS (\<lambda>now. redis_set_session (session_key i) (new_session now i user) SESSION_TTL_SECONDS))"
  proof (rule keptI, rule preservesI)
    fix d and w :: world
    assume "I w \<and> auth_writes d (db w)"
    then show "I (snd (bindS nowS (\<lambda>now. redis_set_session (session_key i) (new_session now i user) SESSION_TTL_SECONDS) w))
      \<and> auth_writes d (db (snd (bindS nowS (\<lambda>now. redis_set_session (session_key i) (new_session now i user) SESSION_TTL_SECONDS) w)))"
      using I_session by (simp add: redis_set_session_def redis_command_def run_guard thenS_def bindS_def)
  qed
  then show ?thesis unfolding createSession_def new_session_def by (intro kept_then kept_redis)
qed

lemma kept_audit: "kept (auth_createAuditEntry u a ip ua m)"
  unfolding auth_createAuditEntry_def by (intro kept_bind kept_pure kept_tryExec) (rule auth_repo)

lemma kept_logs: "kept (logFailedLogin u r ip ua)" "kept (logTwoFactorEvent v b ip ua)" "kept (recordSuccessfulLogin v ip ua)"
  unfolding logFailedLogin_def logTwoFactorEvent_def recordSuccessfulLogin_def
  by (intro kept_intro kept_audit kept_tryExec; rule auth_repo; assumption)+

text \<open>The operations.\<close>

lemma kept_full: "kept (issueFullTokens env sid mid user ip ua)"
  unfolding issueFullTokens_def buildUserProfile_def auditFullLogin_def notifyNewDevice_def Let_def
  by (intro kept_intro kept_audit kept_logs kept_createSession kept_exec auth_repo)

lemma kept_login: "kept (login env sid mid email password ip ua)"
  unfolding login_def rejectUnknownEmail_def guardAccountUsable_def handleFailedPassword_def recordFailedPasswordTxn_def
    incrementFailedLoginWithClient_def lockAccountInTxn_def checkFailedAuthBurst_def issuePartialAuthToken_def
    auditPartialAuth_def Let_def
  by (intro kept_intro kept_audit kept_logs kept_exec auth_repo kept_full)

lemma kept_two_factor: "kept (verifyTwoFactor env sid mid token code ip ua)"
  unfolding verifyTwoFactor_def verifyToken_def verifyBackupCodeOrThrow_def consumeBackupCode_def verifyTotpCode_def
  by (intro kept_intro kept_audit kept_logs kept_full kept_exec auth_repo)

lemma kept_step_up: "kept (verifyStepUp env u code ip ua)"
  unfolding verifyStepUp_def guardStepUpConfigured_def verifyStepUpCode_def by (intro kept_intro kept_audit)

lemma kept_store_code: "kept (case x of (i, raw) \<Rightarrow> tryExecS (createBackupCodeWithClient now i u (hashToken env raw)))"
  by (cases x) (auto intro!: kept_tryExec dest: try_writes(3))

lemma kept_backup_codes: "kept (generateBackupCodes env draws ids u ip ua)"
  unfolding generateBackupCodes_def persistBackupCodes_def
  by (intro kept_intro kept_audit kept_exec auth_repo kept_store_code)

lemma kept_delete_sessions: "kept (deleteSessionsByUserId env u keep)"
  unfolding deleteSessionsByUserId_def delete_if_owned_def by (intro kept_intro kept_redis kept_del)

lemma kept_sessions:
  "kept (logout sid u ip ua)" "kept (revokeSession sid u)" "kept (invalidateAllSessions env u)" "kept (invalidateOtherSessions env u sid)"
  "kept (authenticateJwt env header)"
  unfolding logout_def revokeSession_def invalidateAllSessions_def invalidateOtherSessions_def authenticateJwt_def verifyToken_def
  by (intro kept_intro kept_redis kept_del kept_audit kept_delete_sessions)+

lemma kept_history_loop: "kept (history_loop env p es)"
  by (induction es) (simp_all only: history_loop.simps, intro kept_intro, intro kept_intro)

lemma kept_passwords:
  "kept (requestPasswordReset env tid raw email ip ua)" "kept (resetPassword env salt raw new confirm ip ua)"
  "kept (changePassword env salt u sid current new confirm ip ua)"
  unfolding requestPasswordReset_def generateResetToken_def enqueueResetEmail_def resetPassword_def validatePasswordPair_def
    validateResetToken_def checkPasswordHistory_def applyPasswordReset_def changePassword_def guardPasswordChange_def persistPasswordChange_def
  by (intro kept_intro kept_audit kept_sessions kept_exec kept_tryExec kept_history_loop; (rule auth_repo; assumption)?; rule auth_repo)+

lemma kept_emails:
  "kept (issueEmailVerificationToken env tid mid raw u email ip ua)" "kept (verifyEmail env raw ip ua)"
  "kept (resendVerificationEmail env tid mid raw email ip ua)"
  unfolding issueEmailVerificationToken_def generateEmailVerificationToken_def enqueueVerificationEmail_def verifyEmail_def
    applyEmailVerification_def resendVerificationEmail_def
  by (intro kept_intro kept_audit kept_exec kept_tryExec; (rule auth_repo; assumption)?; rule auth_repo)+

lemma kept_jobs: "kept checkInactiveAccounts" "kept sendInactiveWarnings"
  unfolding checkInactiveAccounts_def disable_inactive_def sendInactiveWarnings_def warn_inactive_def queueInactiveWarning_def
  by (intro kept_intro kept_audit kept_exec auth_repo)+

text \<open>The refresh of a token is the one operation whose write to Redis depends on what was verified before.\<close>

lemma mark_run:
  "blocklistOldRefreshToken p w = (Inr (), w') \<Longrightarrow>
     w' = w \<or> (\<exists>iat e. tp_iat p = Some iat \<and> tp_exp p = Some e \<and> w' = w\<lparr>redis_marks :=
        redis_insert (refreshBlocklistKey (tp_session p) iat) ''1'' (clock w + (e - clock w div 1000) * 1000) (redis_marks w)\<rparr>)"
  by (auto simp: blocklistOldRefreshToken_def Let_def svc_succ getRedis_def redis_set_mark_def redis_command_def
      split: option.splits if_splits)

lemma mark_fail: "blocklistOldRefreshToken p w = (Inl e, w') \<Longrightarrow> w' = w"
  by (auto simp: blocklistOldRefreshToken_def Let_def getRedis_def redis_set_mark_def redis_command_def run_guard
      thenS_def bindS_def split: option.splits if_splits)

lemma I_refresh:
  assumes "I w"
  shows "I (snd (refreshAccessToken env token ip ua w))"
proof -
  let ?rest = "\<lambda>p s. bindS nowS (\<lambda>now. let tokens = buildRotatedTokens env now p (ses_role s) in
     thenS (auth_createAuditEntry (Some (tp_user p)) ''TOKEN_REFRESHED'' (Some ip) (Some ua) [(''sessionId'', JStr (tp_session p))])
       (returnS (fst tokens, snd tokens, JWT_EXPIRY env)))"
  have rest: "kept (?rest p s)" for p s unfolding Let_def by (intro kept_intro kept_audit)
  have pre: "snd (rejectIfTokenRevoked p w) = w" "snd (getSession i w) = w" for p i
    by (auto simp: rejectIfTokenRevoked_def getSession_def getRedis_def redis_get_mark_def redis_get_session_def redis_command_def
        run_guard thenS_def bindS_def split: option.splits)
  show ?thesis
  proof (cases "jwt_verify env (clock w) token")
    case None
    then show ?thesis using assms by (simp add: refreshAccessToken_def verifyToken_def)
  next
    case (Some p)
    show ?thesis
    proof (cases "tp_type p = Refresh \<and> fst (rejectIfTokenRevoked p w) = Inr () \<and> (\<exists>s. fst (getSession (tp_session p) w) = Inr (Some s))")
      case False
      then have "snd (refreshAccessToken env token ip ua w) = w"
        using Some pre(1) [of p] pre(2) [of "tp_session p"]
        by (cases "rejectIfTokenRevoked p w"; cases "getSession (tp_session p) w")
          (auto simp: refreshAccessToken_def verifyToken_def run_guard thenS_def bindS_def split: sum.splits option.splits)
      then show ?thesis using assms by simp
    next
      case True
      then obtain s where s: "tp_type p = Refresh" "rejectIfTokenRevoked p w = (Inr (), w)" "getSession (tp_session p) w = (Inr (Some s), w)"
        using pre by (metis prod.collapse)
      obtain r w1 where b: "blocklistOldRefreshToken p w = (r, w1)" by force
      have I1: "I w1"
      proof (cases r)
        case (Inl e)
        then show ?thesis using assms mark_fail b by blast
      next
        case (Inr u)
        then consider "w1 = w" | iat e where "tp_iat p = Some iat" "tp_exp p = Some e" "w1 = w\<lparr>redis_marks :=
            redis_insert (refreshBlocklistKey (tp_session p) iat) ''1'' (clock w + (e - clock w div 1000) * 1000) (redis_marks w)\<rparr>"
          using mark_run [of p w w1] b by auto
        then show ?thesis
        proof cases
          case (2 iat e)
          then have "marks_token env w (refreshBlocklistKey (tp_session p) iat) (clock w + (e - clock w div 1000) * 1000)"
            using Some s(1) unfolding marks_token_def by blast
          then show ?thesis using I_mark [OF assms] 2 by blast
        qed (use assms in simp)
      qed
      have "refreshAccessToken env token ip ua w = (case r of Inl e \<Rightarrow> (Inl e, w1) | Inr _ \<Rightarrow> ?rest p s w1)"
        using Some s b by (cases r) (simp_all add: refreshAccessToken_def verifyToken_def)
      then show ?thesis using I1 keptD [OF rest I1] by (cases r) auto
    qed
  qed
qed

lemma auth_step_kept:
  assumes "auth_step env w w'" and "I w"
  shows "I w'"
  using assms
proof (induction rule: auth_step.induct)
  case (refresh w token ip ua)
  then show ?case by (rule I_refresh)
next
  case (tick t w)
  then show ?case using I_clock by blast
qed (simp_all add: keptD kept_login kept_two_factor kept_step_up kept_backup_codes kept_sessions kept_passwords kept_emails kept_jobs)

lemma auth_run_kept: "(auth_step env)\<^sup>*\<^sup>* w w' \<Longrightarrow> I w \<Longrightarrow> I w'"
  by (induction rule: rtranclp_induct) (auto intro: auth_step_kept)

end

end
