(* ===== verification/Auth_Runs.thy ===== *)
theory Auth_Runs
  imports Auth_Invariants
begin

text \<open>
  The invariants of authentication, each an interpretation of \<open>auth_invariant\<close>, and what follows from them for the rest of the
  platform: a refresh token works once, the session store stays well formed, and the columns on which payment
  authorisation and the inactivity jobs depend are never written.
\<close>

section \<open>Sessions\<close>

definition session_entry_ok :: "session redis_entry \<Rightarrow> bool" where
  "session_entry_ok e \<longleftrightarrow> re_key e = session_key (ses_id (re_value e)) \<and> re_expires e = ses_expires_at (re_value e)
     \<and> ses_expires_at (re_value e) = ses_created_at (re_value e) + SESSION_TTL_SECONDS * 1000"

definition sessions_ok :: "world \<Rightarrow> bool" where
  "sessions_ok w \<longleftrightarrow> distinct (map re_key (redis_sessions w)) \<and> list_all session_entry_ok (redis_sessions w)
     \<and> list_all (\<lambda>e. ses_created_at (re_value e) \<le> clock w) (redis_sessions w)"

lemma distinct_map_filter_key: "distinct (map f xs) \<Longrightarrow> distinct (map f (filter p xs))"
  by (induction xs) auto

lemma list_all_filter: "list_all p xs \<Longrightarrow> list_all p (filter q xs)"
  by (simp add: list_all_iff)

interpretation sessions: auth_invariant env sessions_ok for env
proof unfold_locales
  fix w :: world and t assume "sessions_ok w" "(0 :: int) \<le> t"
  then show "sessions_ok (w\<lparr>clock := clock w + t\<rparr>)" by (auto simp: sessions_ok_def list_all_iff)
next
  fix w :: world and i user assume "sessions_ok w"
  then show "sessions_ok (w\<lparr>redis_sessions :=
      redis_insert (session_key i) (new_session (clock w) i user) (clock w + SESSION_TTL_SECONDS * 1000) (redis_sessions w)\<rparr>)"
    by (auto simp: sessions_ok_def redis_insert_def session_entry_ok_def new_session_def distinct_map_filter_key list_all_filter)
qed (auto simp: sessions_ok_def redis_remove_def distinct_map_filter_key list_all_filter)

text \<open>
  the session store is well formed after every sequence of operations: no key occurs twice, a session is stored
  under its own identifier, was created in the past, and expires at the time it announces, seven days after its creation.
\<close>

theorem session_store_invariant:
  assumes "(auth_step env)\<^sup>*\<^sup>* w w'" and "sessions_ok w"
  shows "sessions_ok w'"
  using assms by (rule sessions.auth_run_kept)

section \<open>Refresh tokens\<close>

text \<open>
  What the code relies on of \<open>jsonwebtoken\<close>: a token that verifies has not expired (\<open>exp\<close> is in seconds), its claims do not depend
  on the time of verification, and every refresh token, signed with one \<open>expiresIn\<close>, carries its issue time and lives
  \<open>life\<close> seconds.
\<close>

definition jwt_contract :: "auth_env \<Rightarrow> int \<Rightarrow> bool" where
  "jwt_contract env life \<longleftrightarrow>
     (\<forall>t token p e. jwt_verify env t token = Some p \<longrightarrow> tp_exp p = Some e \<longrightarrow> t div 1000 < e)
     \<and> (\<forall>t t' token p p'. jwt_verify env t token = Some p \<longrightarrow> jwt_verify env t' token = Some p' \<longrightarrow> p' = p)
     \<and> (\<forall>t token p. jwt_verify env t token = Some p \<longrightarrow> tp_type p = Refresh \<longrightarrow>
          (\<exists>iat. tp_iat p = Some iat \<and> tp_exp p = Some (iat + life)))"

lemma jwt_unexpired: "jwt_contract env life \<Longrightarrow> jwt_verify env t token = Some p \<Longrightarrow> tp_exp p = Some e \<Longrightarrow> t div 1000 < e"
  unfolding jwt_contract_def by blast

lemma jwt_same: "jwt_contract env life \<Longrightarrow> jwt_verify env t token = Some p \<Longrightarrow> jwt_verify env t' token = Some q \<Longrightarrow> q = p"
  unfolding jwt_contract_def by blast

lemma jwt_refresh:
  "jwt_contract env life \<Longrightarrow> jwt_verify env t token = Some p \<Longrightarrow> tp_type p = Refresh \<Longrightarrow>
     \<exists>iat. tp_iat p = Some iat \<and> tp_exp p = Some (iat + life)"
  unfolding jwt_contract_def by blast

definition marked :: "string \<Rightarrow> int \<Rightarrow> world \<Rightarrow> bool" where
  "marked k until w \<longleftrightarrow> list_ex (\<lambda>e. re_key e = k \<and> until \<le> re_expires e) (redis_marks w)"

lemma marked_insert_same: "until \<le> e \<Longrightarrow> marked k until (w\<lparr>redis_marks := redis_insert k v e (redis_marks w)\<rparr>)"
  by (simp add: marked_def redis_insert_def)

lemma marked_insert_other:
  "marked k until w \<Longrightarrow> k' \<noteq> k \<Longrightarrow> marked k until (w\<lparr>redis_marks := redis_insert k' v e (redis_marks w)\<rparr>)"
  by (auto simp: marked_def redis_insert_def list_ex_iff)

text \<open>The issue time can be read off a blocklist key.\<close>

lemma after_last_unique:
  assumes "s @ c # t = s' @ c # t'" and "c \<notin> set t" and "c \<notin> set t'"
  shows "t = t'"
proof -
  have "takeWhile (\<lambda>x. x \<noteq> c) (rev (s @ c # t)) = rev t" using assms(2) by (simp add: takeWhile_append)
  moreover have "takeWhile (\<lambda>x. x \<noteq> c) (rev (s' @ c # t')) = rev t'" using assms(3) by (simp add: takeWhile_append)
  ultimately show ?thesis using assms(1) by (metis rev_rev_ident)
qed

lemma digit_not_sep: "is_digit c \<Longrightarrow> c \<noteq> CHR '':'' \<and> c \<noteq> CHR ''-''"
  by (auto simp: is_digit_def)

lemma colon_not_int: "CHR '':'' \<notin> set (show_int i)"
  using show_nat_digits [of "nat i"] show_nat_digits [of "nat (- i)"] digit_not_sep by (auto simp: show_int_def list_all_iff)

lemma show_nat_inj: "show_nat m = show_nat n \<Longrightarrow> m = n"
  by (metis digits_val_show_nat)

lemma show_int_inj:
  assumes "show_int i = show_int j"
  shows "i = j"
proof -
  have no_sign: "show_nat n \<noteq> CHR ''-'' # s" for n s
    using show_nat_digits [of n] digit_not_sep by (metis list.pred_inject(2))
  then have sign: "i < 0 \<longleftrightarrow> j < 0" using assms by (metis show_int_def)
  show ?thesis
    using assms sign by (auto simp: show_int_def split: if_splits dest!: show_nat_inj)
qed

lemma blocklist_key_iat: "refreshBlocklistKey s i = refreshBlocklistKey s' i' \<Longrightarrow> i = i'"
  unfolding refreshBlocklistKey_def
  using after_last_unique [of s "CHR '':''" "show_int i" s' "show_int i'"] colon_not_int show_int_inj by auto

lemma mark_covers_expiry: "e * 1000 \<le> c + (e - c div 1000) * (1000 :: int)"
proof -
  have "c div 1000 * 1000 \<le> c" by presburger
  then show ?thesis by (simp add: left_diff_distrib)
qed

lemma seconds_left: "c div 1000 < n \<Longrightarrow> c < n * (1000 :: int)"
  using div_mult_mod_eq [of c 1000] pos_mod_bound [of 1000 c] by linarith

interpretation blocklist: auth_invariant env
    "\<lambda>w. jwt_contract env life \<longrightarrow> marked (refreshBlocklistKey sid iat) ((iat + life) * 1000) w" for env life sid iat
proof (unfold_locales, goal_cases)
  case (6 w k e v)
  show ?case
  proof
    assume c: "jwt_contract env life"
    let ?w = "w\<lparr>redis_marks := redis_insert k v e (redis_marks w)\<rparr>"
    show "marked (refreshBlocklistKey sid iat) ((iat + life) * 1000) ?w"
    proof (cases "k = refreshBlocklistKey sid iat")
      case True
      obtain token p i x where p: "jwt_verify env (clock w) token = Some p" "tp_type p = Refresh" "tp_iat p = Some i" "tp_exp p = Some x"
          "k = refreshBlocklistKey (tp_session p) i" "e = clock w + (x - clock w div 1000) * 1000"
        using 6(2) unfolding marks_token_def by blast
      have "i = iat" using p(5) True by (metis blocklist_key_iat)
      moreover have "x = i + life" using jwt_refresh [OF c p(1,2)] p(3,4) by simp
      ultimately have "(iat + life) * 1000 \<le> e" using p(6) mark_covers_expiry by simp
      then show ?thesis using True marked_insert_same by blast
    next
      case False
      then show ?thesis using 6(1) c marked_insert_other by blast
    qed
  qed
qed (simp_all add: marked_def)

lemma marked_blocks:
  assumes "marked k until w" and "clock w < until"
  shows "\<exists>v. redis_lookup (clock w) k (redis_marks w) = Some v"
proof -
  obtain e where e: "e \<in> set (redis_marks w)" "re_key e = k" "until \<le> re_expires e"
    using assms(1) by (auto simp: marked_def list_ex_iff)
  then have "live_entry (clock w) k e" using assms(2) by (simp add: live_entry_def)
  then have "select_one (live_entry (clock w) k) (redis_marks w) \<noteq> None" using e(1) select_one_None by fast
  then show ?thesis by (auto simp: redis_lookup_def)
qed

text \<open>A token whose key is marked for its whole life is refused, and nothing changes.\<close>

lemma marked_refused:
  assumes "jwt_contract env life" and "tp_iat p = Some iat"
    and p: "\<And>t q. jwt_verify env t token = Some q \<Longrightarrow> q = p"
    and "marked (refreshBlocklistKey (tp_session p) iat) ((iat + life) * 1000) w"
  shows "\<exists>e. refreshAccessToken env token ip ua w = (Inl e, w)"
proof (cases "jwt_verify env (clock w) token")
  case None
  then show ?thesis by (simp add: refreshAccessToken_def verifyToken_def)
next
  case (Some q)
  then have v: "jwt_verify env (clock w) token = Some p" using p by blast
  show ?thesis
  proof (cases "tp_type p = Refresh")
    case False
    then show ?thesis using v by (simp add: refreshAccessToken_def verifyToken_def)
  next
    case True
    then have "tp_exp p = Some (iat + life)" using jwt_refresh [OF assms(1) v] assms(2) by auto
    then have "clock w div 1000 < iat + life" using jwt_unexpired [OF assms(1) v] by simp
    then have "clock w < (iat + life) * 1000" by (rule seconds_left)
    then obtain m where "redis_lookup (clock w) (refreshBlocklistKey (tp_session p) iat) (redis_marks w) = Some m"
      using marked_blocks assms(4) by blast
    then have "\<exists>e. rejectIfTokenRevoked p w = (Inl e, w)"
      using assms(2) by (simp add: rejectIfTokenRevoked_def getRedis_def redis_get_mark_def redis_command_def run_guard thenS_def bindS_def)
    then show ?thesis using v True by (auto simp: refreshAccessToken_def verifyToken_def)
  qed
qed

text \<open>What a successful refresh has done.\<close>

lemma refresh_marks:
  assumes "refreshAccessToken env token ip ua w = (Inr r, w1)" and "jwt_contract env life"
  obtains p iat where "jwt_verify env (clock w) token = Some p" "tp_type p = Refresh" "tp_iat p = Some iat" "clock w1 = clock w"
    "marked (refreshBlocklistKey (tp_session p) iat) ((iat + life) * 1000) w1"
    "fst (snd r) = buildRefreshToken env (clock w) (tp_user p) (tp_session p)"
proof -
  obtain p where p: "jwt_verify env (clock w) token = Some p" "tp_type p = Refresh"
    using assms(1) by (auto simp: refreshAccessToken_def verifyToken_def svc_succ)
  obtain iat where i: "tp_iat p = Some iat" "tp_exp p = Some (iat + life)" using jwt_refresh [OF assms(2) p] by blast
  have t: "clock w div 1000 < iat + life" using jwt_unexpired [OF assms(2) p(1) i(2)] .
  have r: "rejectIfTokenRevoked q v = (Inr (), v') \<Longrightarrow> v' = v" for q v v'
    by (auto simp: rejectIfTokenRevoked_def getRedis_def redis_get_mark_def redis_command_def svc_succ split: option.splits)
  have g: "getSession s v = (Inr x, v') \<Longrightarrow> v' = v" for s v v' x
    by (auto simp: getSession_def getRedis_def redis_get_session_def redis_command_def svc_succ)
  obtain w2 where b: "blocklistOldRefreshToken p w = (Inr (), w2)" and w1: "redis_marks w1 = redis_marks w2" "clock w1 = clock w2"
      and tok: "fst (snd r) = buildRefreshToken env (clock w2) (tp_user p) (tp_session p)"
    using assms(1) p by (auto simp: refreshAccessToken_def verifyToken_def svc_succ Let_def auth_createAuditEntry_def
        buildRotatedTokens_def dest!: r g)
  have eq: "w2 = w\<lparr>redis_marks := redis_insert (refreshBlocklistKey (tp_session p) iat) ''1''
      (clock w + (iat + life - clock w div 1000) * 1000) (redis_marks w)\<rparr>"
    using b i t by (auto simp: blocklistOldRefreshToken_def Let_def getRedis_def redis_set_mark_def redis_command_def svc_succ)
  have "marked (refreshBlocklistKey (tp_session p) iat) ((iat + life) * 1000) w2"
    unfolding eq by (rule marked_insert_same [OF mark_covers_expiry])
  moreover have "clock w2 = clock w" unfolding eq by simp
  ultimately show thesis using that [OF p i(1)] w1 tok by (simp add: marked_def)
qed

text \<open>
  C11: a refresh token works once. After a refresh has succeeded, the same token is refused at every later time and after
  every further sequence of operations, whoever presents it, and the attempt changes nothing; this holds until the token
  expires by itself, which is when its blocklist entry does.
\<close>

theorem refresh_token_single_use:
  assumes "jwt_contract env life" and "refreshAccessToken env token ip ua w = (Inr r, w1)" and "(auth_step env)\<^sup>*\<^sup>* w1 w2"
  shows "\<exists>e. refreshAccessToken env token ip' ua' w2 = (Inl e, w2)"
proof -
  obtain p iat where p: "jwt_verify env (clock w) token = Some p" "tp_type p = Refresh" "tp_iat p = Some iat"
      "marked (refreshBlocklistKey (tp_session p) iat) ((iat + life) * 1000) w1"
    using refresh_marks [OF assms(2,1)] by metis
  have "marked (refreshBlocklistKey (tp_session p) iat) ((iat + life) * 1000) w2"
    using blocklist.auth_run_kept [OF assms(3)] p(4) assms(1) by blast
  moreover have "jwt_verify env t token = Some q \<Longrightarrow> q = p" for t q using jwt_same [OF assms(1) p(1)] .
  ultimately show ?thesis using marked_refused [OF assms(1) p(3)] by blast
qed

text \<open>
  What \<open>jwt.sign\<close> puts into a refresh token: the second of signing as \<open>iat\<close>.
\<close>

definition jwt_signs :: "auth_env \<Rightarrow> int \<Rightarrow> bool" where
  "jwt_signs env life \<longleftrightarrow>
     (\<forall>t t0 u s q. jwt_verify env t (buildRefreshToken env t0 u s) = Some q \<longrightarrow>
        q = \<lparr>tp_user = u, tp_role = None, tp_session = s, tp_type = Refresh, tp_iat = Some (t0 div 1000), tp_exp = Some (t0 div 1000 + life)\<rparr>)"

text \<open>
  rotation within one second of the issue is self-defeating. The blocklist key is made of the session and the second of
  issue, so a client that refreshes in the second in which its token was issued gets a new refresh token with the same
  key: that token is refused from the start and for its whole life.
\<close>

theorem rotation_in_same_second:
  assumes "jwt_contract env life" and "jwt_signs env life"
    and "jwt_verify env (clock w) token = Some p" and "tp_iat p = Some (clock w div 1000)"
    and "refreshAccessToken env token ip ua w = (Inr (access, fresh, expiresIn), w1)" and "(auth_step env)\<^sup>*\<^sup>* w1 w2"
  shows "\<exists>e. refreshAccessToken env fresh ip' ua' w2 = (Inl e, w2)"
proof -
  obtain q iat where q: "jwt_verify env (clock w) token = Some q" "tp_iat q = Some iat"
      "marked (refreshBlocklistKey (tp_session q) iat) ((iat + life) * 1000) w1"
      "fresh = buildRefreshToken env (clock w) (tp_user q) (tp_session q)"
    using refresh_marks [OF assms(5,1)] by (metis fst_conv snd_conv)
  have "q = p" "iat = clock w div 1000" using q assms(3,4) by simp_all
  let ?n = "\<lparr>tp_user = tp_user p, tp_role = None, tp_session = tp_session p, tp_type = Refresh,
    tp_iat = Some (clock w div 1000), tp_exp = Some (clock w div 1000 + life)\<rparr>"
  have "marked (refreshBlocklistKey (tp_session ?n) (clock w div 1000)) ((clock w div 1000 + life) * 1000) w2"
    using blocklist.auth_run_kept [OF assms(6)] q(3) assms(1) \<open>q = p\<close> \<open>iat = _\<close> by simp
  moreover have "jwt_verify env t fresh = Some x \<Longrightarrow> x = ?n" for t x
    using assms(2) q(4) \<open>q = p\<close> unfolding jwt_signs_def by blast
  ultimately show ?thesis using marked_refused [OF assms(1), of ?n "clock w div 1000" fresh w2] by simp
qed

section \<open>Columns that nothing writes\<close>

interpretation users: auth_invariant env "\<lambda>w. user_ids (t_users (db w)) = us" for env us
  by unfold_locales (simp_all add: auth_writes_def)

lemma users_kept: "(auth_step env)\<^sup>*\<^sup>* w w' \<Longrightarrow> user_ids (t_users (db w')) = user_ids (t_users (db w))"
  using users.auth_run_kept [where us = "user_ids (t_users (db w))"] by simp

lemma unwritten_columns:
  assumes "user_ids us = user_ids vs"
  shows "list_all (\<lambda>u. usr_last_2fa u = None) vs \<Longrightarrow> list_all (\<lambda>u. usr_last_2fa u = None) us"
    "list_all (\<lambda>u. acc_last_active_at (usr_account u) = None) vs \<Longrightarrow> list_all (\<lambda>u. acc_last_active_at (usr_account u) = None) us"
  using assms by (induction us vs rule: list_induct2') (auto simp: user_ids_def)

lemma never_2fa:
  assumes "list_all (\<lambda>u. usr_last_2fa u = None) (t_users d)"
  shows "\<not> recent_2fa d now u"
proof (cases "select_one (\<lambda>r. usr_id r = u) (t_users d)")
  case (Some r)
  then have "r \<in> set (t_users d)" using select_one_Some by fast
  then have "usr_last_2fa r = None" using assms by (simp add: list_all_iff)
  with Some show ?thesis by (simp add: recent_2fa_def getLast2faVerifiedAt_def)
qed (simp add: recent_2fa_def getLast2faVerifiedAt_def)

lemma never_inactive:
  assumes "list_all (\<lambda>u. acc_last_active_at (usr_account u) = None) (t_users d)"
  shows "findInactiveUsers now days d = []" "findUsersForInactiveWarning now days d = []"
proof -
  have "\<not> inactive_since now days (usr_account u)" if "u \<in> set (t_users d)" for u
    using assms that by (simp add: list_all_iff inactive_since_def)
  then show "findInactiveUsers now days d = []" "findUsersForInactiveWarning now days d = []"
    by (auto simp: findInactiveUsers_def findUsersForInactiveWarning_def filter_empty_conv)
qed

text \<open>
  C8: payment authorisation can never begin. It asks for a second factor verified in the last hour and reads the time from
  \<open>users.last_2fa_verified_at\<close>; no operation of authentication, neither a login with a second factor nor a step-up
  verification, writes that column, and a new account has none. After every sequence of authentication steps both
  authorisations of every payment are refused and change nothing.
\<close>

theorem payment_authorisation_unreachable:
  assumes "(auth_step env)\<^sup>*\<^sup>* w w'" and "list_all (\<lambda>u. usr_last_2fa u = None) (t_users (db w))"
  shows "authoriseFirstAuth pid u ip ua c w' = (Inl (BusinessRuleError ''TWO_FA_REVERIFICATION_REQUIRED''), w')
     \<and> authoriseSecondAuth pid u ip ua c w' = (Inl (BusinessRuleError ''TWO_FA_REVERIFICATION_REQUIRED''), w')"
proof -
  have "list_all (\<lambda>u. usr_last_2fa u = None) (t_users (db w'))" using unwritten_columns(1) [OF users_kept [OF assms(1)] assms(2)] .
  then have "\<not> recent_2fa (db w') (clock w') u" by (rule never_2fa)
  then show ?thesis by (simp add: authoriseFirstAuth_def authoriseSecondAuth_def check2fa_run)
qed

text \<open>
  the inactivity jobs never act. They compare \<open>users.last_active_at\<close>, which no operation writes and which is NULL for a
  new account, so after every sequence of steps no account is disabled or warned, however long it has been unused.
\<close>

theorem inactivity_jobs_idle:
  assumes "(auth_step env)\<^sup>*\<^sup>* w w'" and "list_all (\<lambda>u. acc_last_active_at (usr_account u) = None) (t_users (db w))"
  shows "checkInactiveAccounts w' = (Inr (), w') \<and> sendInactiveWarnings w' = (Inr (), w')"
proof -
  have "list_all (\<lambda>u. acc_last_active_at (usr_account u) = None) (t_users (db w'))"
    using unwritten_columns(2) [OF users_kept [OF assms(1)] assms(2)] .
  then show ?thesis by (simp add: checkInactiveAccounts_def sendInactiveWarnings_def never_inactive)
qed

section \<open>A concrete environment\<close>

text \<open>
  An instance of the parameters: passwords are compared with their hash, one refresh token is known and
  verifies for a week, a scan returns every key in one batch.
\<close>

definition plain_refresh :: token_payload where
  "plain_refresh = \<lparr>tp_user = ''u'', tp_role = None, tp_session = ''s'', tp_type = Refresh, tp_iat = Some 0, tp_exp = Some 604800\<rparr>"

definition plain_env :: auth_env where
  "plain_env = \<lparr>bcrypt_compare = (=), bcrypt_hash = (\<lambda>salt p. p),
     jwt_sign = (\<lambda>t p e. if t div 1000 = 0 \<and> p = plain_refresh\<lparr>tp_iat := None, tp_exp := None\<rparr> then ''s0'' else ''other''),
     jwt_verify = (\<lambda>t token. if token = ''s0'' \<and> t div 1000 < 604800 then Some plain_refresh else None),
     totp_verify = (\<lambda>t s c. s = c), sha256_hex = id, decipher_fn = plain_decipher, encryption_key = sample_key,
     scan = (\<lambda>es. [map re_key es]), jwt_expiry = None, refresh_token_expiry = None, frontend_url = None\<rparr>"

lemma plain_contract: "jwt_contract plain_env 604800"
  by (auto simp: jwt_contract_def plain_env_def plain_refresh_def split: if_splits)

definition plain_session :: "session redis_entry" where
  "plain_session = \<lparr>re_key = ''session:s'',
     re_value = \<lparr>ses_id = ''s'', ses_user = ''u'', ses_role = ''supplier'', ses_created_at = 0, ses_expires_at = 604800000\<rparr>,
     re_expires = 604800000\<rparr>"

definition session_world :: world where
  "session_world = (world_of (blank_db\<lparr>t_users := [sample_user ''u'' None]\<rparr>))\<lparr>redis_sessions := [plain_session]\<rparr>"

lemma session_world_ok: "sessions_ok session_world"
  by (simp add: sessions_ok_def session_world_def session_entry_ok_def plain_session_def session_key_def SESSION_TTL_SECONDS_def world_of_def)

lemma plain_refresh_run: "\<exists>r w1. refreshAccessToken plain_env ''s0'' ''ip'' ''ua'' session_world = (Inr r, w1)"
proof -
  have "jwt_verify plain_env (clock session_world) ''s0'' = Some plain_refresh" "redis_client session_world" "redis_up session_world"
    "redis_marks session_world = []" "redis_sessions session_world = [plain_session]" "clock session_world = 0"
    by (simp_all add: plain_env_def session_world_def world_of_def)
  moreover have "insert_audit auth_audit_cols (auth_entry t (Some ''u'') a ip ua m) (db session_world) =
      Inr ((db session_world)\<lparr>t_audit := t_audit (db session_world) @ [auth_entry t (Some ''u'') a ip ua m]\<rparr>)" for t a ip ua m
    by (simp add: insert_audit_succ auth_audit_cols_def auth_entry_def session_world_def sample_defs)
  ultimately show ?thesis
    by (simp add: refreshAccessToken_def verifyToken_def rejectIfTokenRevoked_def getRedis_def redis_get_mark_def redis_command_def
        getSession_def redis_get_session_def redis_lookup_def live_entry_def session_key_def plain_refresh_def plain_session_def
        blocklistOldRefreshToken_def redis_set_mark_def auth_createAuditEntry_def Let_def)
qed

theorem session_store_invariant_witness: "sessions_ok (snd (logout ''s'' ''u'' ''ip'' ''ua'' session_world))"
proof -
  have "(auth_step plain_env)\<^sup>*\<^sup>* session_world (snd (logout ''s'' ''u'' ''ip'' ''ua'' session_world))"
    by (rule r_into_rtranclp, rule auth_step.logout)
  then show ?thesis using session_world_ok by (rule session_store_invariant)
qed

theorem refresh_token_single_use_witness:
  "\<exists>w1 e. (\<exists>r. refreshAccessToken plain_env ''s0'' ''ip'' ''ua'' session_world = (Inr r, w1))
     \<and> refreshAccessToken plain_env ''s0'' ''thief'' ''ua'' w1 = (Inl e, w1)"
  using plain_refresh_run refresh_token_single_use [OF plain_contract _ rtranclp.rtrancl_refl] by blast

lemma session_users: "list_all (\<lambda>u. usr_last_2fa u = None \<and> acc_last_active_at (usr_account u) = None) (t_users (db session_world))"
  by (simp add: session_world_def sample_defs)

theorem payment_authorisation_unreachable_witness:
  "\<exists>w'. (auth_step plain_env)\<^sup>*\<^sup>* session_world w'
     \<and> authoriseFirstAuth ''p'' ''u'' None None None w' = (Inl (BusinessRuleError ''TWO_FA_REVERIFICATION_REQUIRED''), w')"
proof -
  have s: "(auth_step plain_env)\<^sup>*\<^sup>* session_world (snd (verifyStepUp plain_env ''u'' ''123456'' ''ip'' ''ua'' session_world))"
    by (rule r_into_rtranclp, rule auth_step.step_up)
  moreover have "list_all (\<lambda>u. usr_last_2fa u = None) (t_users (db session_world))" using session_users by (simp add: list_all_iff)
  ultimately show ?thesis using payment_authorisation_unreachable [OF s] by blast
qed

theorem inactivity_jobs_idle_witness: "checkInactiveAccounts session_world = (Inr (), session_world)"
proof -
  have "list_all (\<lambda>u. acc_last_active_at (usr_account u) = None) (t_users (db session_world))" using session_users by (simp add: list_all_iff)
  then show ?thesis using inactivity_jobs_idle [OF rtranclp.rtrancl_refl [of "auth_step plain_env" session_world]] by blast
qed

lemma plain_signs: "jwt_signs plain_env 604800"
proof -
  have "q = \<lparr>tp_user = u, tp_role = None, tp_session = s, tp_type = Refresh, tp_iat = Some (t0 div 1000), tp_exp = Some (t0 div 1000 + 604800)\<rparr>"
    if "jwt_verify plain_env t (buildRefreshToken plain_env t0 u s) = Some q" for t t0 u s q
    using that by (auto simp: plain_env_def buildRefreshToken_def signToken_def claims_def plain_refresh_def split: if_splits)
  then show ?thesis by (simp add: jwt_signs_def)
qed

theorem rotation_in_same_second_witness:
  "\<exists>access fresh life w1 e. refreshAccessToken plain_env ''s0'' ''ip'' ''ua'' session_world = (Inr (access, fresh, life), w1)
     \<and> refreshAccessToken plain_env fresh ''ip'' ''ua'' w1 = (Inl e, w1)"
proof -
  have v: "jwt_verify plain_env (clock session_world) ''s0'' = Some plain_refresh" "tp_iat plain_refresh = Some (clock session_world div 1000)"
    by (simp_all add: plain_env_def session_world_def world_of_def plain_refresh_def)
  obtain access fresh life w1 where r: "refreshAccessToken plain_env ''s0'' ''ip'' ''ua'' session_world = (Inr (access, fresh, life), w1)"
    using plain_refresh_run by (metis prod.exhaust)
  show ?thesis using rotation_in_same_second [OF plain_contract plain_signs v r rtranclp.rtrancl_refl] r by blast
qed

end
