(* ===== verification/Auth_Props.thy ===== *)
theory Auth_Props
  imports Auth_Runs
begin

text \<open>
  What single operations of authentication do: who can log in, when an account is locked, which requests pass the
  middleware, and what one-time tokens and backup codes are good for.
\<close>

section \<open>Running the statements\<close>

lemma user_exists_account [simp]: "user_exists (update_account i f d) u = user_exists d u"
proof -
  have "map usr_id (t_users (update_account i f d)) = map usr_id (t_users d)" by (simp add: update_account_def map_update_where)
  moreover have "list_ex (\<lambda>r. usr_id r = x) us \<longleftrightarrow> x \<in> set (map usr_id us)" for x us by (auto simp: list_ex_iff)
  ultimately have "list_ex (\<lambda>r. usr_id r = x) (t_users (update_account i f d)) = list_ex (\<lambda>r. usr_id r = x) (t_users d)" for x by metis
  then show ?thesis by (cases u) (simp_all add: user_exists_def)
qed

lemma audit_ok_account [simp]: "audit_ok (update_account i f d) u = audit_ok d u"
  unfolding audit_ok_def user_exists_account by (simp add: update_account_def)

lemma auth_cols: "set auth_audit_cols \<subseteq> set audit_cols"
  by (simp add: auth_audit_cols_def audit_cols_def)

lemma auth_audit_run:
  assumes "audit_ok (db w) u"
  shows "auth_createAuditEntry u a ip ua m w =
     (Inr (), w\<lparr>db := (db w)\<lparr>t_audit := t_audit (db w) @ [auth_entry (clock w) u a ip ua m]\<rparr>\<rparr>)"
proof -
  have "insert_audit auth_audit_cols (auth_entry (clock w) u a ip ua m) (db w) =
      Inr ((db w)\<lparr>t_audit := t_audit (db w) @ [auth_entry (clock w) u a ip ua m]\<rparr>)"
    using assms auth_cols by (auto simp: insert_audit_succ audit_ok_def list_all_iff auth_entry_def)
  then show ?thesis by (simp add: auth_createAuditEntry_def)
qed

lemma found_user_exists: "findUserByEmail email d = Some u \<Longrightarrow> user_exists d (Some (usr_id u))"
  using select_one_Some by (fastforce simp: findUserByEmail_def user_exists_def list_ex_iff)

lemma found_audit_ok: "findUserByEmail email d = Some u \<Longrightarrow> audit_ok d None \<Longrightarrow> audit_ok d (Some (usr_id u))"
  using found_user_exists by (simp add: audit_ok_def)

lemma user_exists_login_history [simp]: "user_exists (d\<lparr>t_login_history := x\<rparr>) u = user_exists d u"
  by (cases u) (simp_all add: user_exists_def)

text \<open>The world after a refused login: one row of the history and one audit entry with the reason.\<close>

definition login_refused :: "string option \<Rightarrow> string \<Rightarrow> string \<Rightarrow> string \<Rightarrow> world \<Rightarrow> world" where
  "login_refused u reason ip ua w = w\<lparr>db := (db w)\<lparr>
     t_login_history := t_login_history (db w) @ [\<lparr>lh_user = u, lh_ip = Some ip, lh_agent = Some ua, lh_country = None,
       lh_success = False, lh_created_at = clock w\<rparr>],
     t_audit := t_audit (db w) @ [\<lparr>aud_user = u, aud_action = ''LOGIN_FAILED'', aud_table = ''users'', aud_record = u, aud_old = None,
       aud_new = [(''reason'', JStr reason)], aud_ip = Some ip, aud_agent = Some ua, aud_created_at = Some (clock w)\<rparr>]\<rparr>\<rparr>"

lemma logFailedLogin_exact:
  assumes "audit_ok (db w) u"
  shows "logFailedLogin u reason ip ua w = (Inr (), login_refused u reason ip ua w)"
proof -
  have "user_exists (db w) u" using assms by (simp add: audit_ok_def)
  then show ?thesis
    using assms by (simp add: logFailedLogin_def createLoginHistoryEntry_def auth_audit_run login_refused_def auth_entry_def)
qed

lemma logFailedLogin_run:
  assumes "audit_ok (db w) u"
  shows "\<exists>l a. logFailedLogin u reason ip ua w = (Inr (), w\<lparr>db := (db w)\<lparr>t_login_history := l, t_audit := a\<rparr>\<rparr>)"
  unfolding logFailedLogin_exact [OF assms] login_refused_def by blast

section \<open>Login\<close>

definition usable :: "int \<Rightarrow> account \<Rightarrow> bool" where
  "usable now a \<longleftrightarrow> acc_is_active a \<and> \<not> isAccountLocked now a \<and> acc_email_verified a"

text \<open>Why an account cannot be used, in the order of the checks.\<close>

definition refusal :: "int \<Rightarrow> account \<Rightarrow> string option" where
  "refusal now a =
     (if \<not> acc_is_active a then Some ''account_inactive''
      else if (case acc_locked_until a of None \<Rightarrow> False | Some t \<Rightarrow> now < t) then Some ''account_locked''
      else if \<not> acc_email_verified a then Some ''email_not_verified'' else None)"

lemma guardAccountUsable_exact:
  assumes "audit_ok (db w) (Some (usr_id u))"
  shows "guardAccountUsable u ip ua w = (case refusal (clock w) (usr_account u) of None \<Rightarrow> (Inr (), w)
     | Some reason \<Rightarrow> (Inl AuthError, login_refused (Some (usr_id u)) reason ip ua w))"
  using logFailedLogin_exact [OF assms] by (simp add: guardAccountUsable_def refusal_def isAccountLocked_def)

lemma guardAccountUsable_run:
  assumes "audit_ok (db w) (Some (usr_id u))"
  shows "if usable (clock w) (usr_account u) then guardAccountUsable u ip ua w = (Inr (), w)
    else \<exists>l a. guardAccountUsable u ip ua w = (Inl AuthError, w\<lparr>db := (db w)\<lparr>t_login_history := l, t_audit := a\<rparr>\<rparr>)"
proof (cases "refusal (clock w) (usr_account u)")
  case None
  then show ?thesis unfolding guardAccountUsable_exact [OF assms]
    by (auto simp: usable_def refusal_def isAccountLocked_def split: if_splits option.splits)
next
  case (Some reason)
  then have "\<not> usable (clock w) (usr_account u)"
    by (auto simp: usable_def refusal_def isAccountLocked_def split: if_splits option.splits)
  then show ?thesis unfolding guardAccountUsable_exact [OF assms] Some by (simp add: login_refused_def) blast
qed

text \<open>What one wrong password does to an account.\<close>

definition after_failure :: "int \<Rightarrow> account \<Rightarrow> account" where
  "after_failure now a =
     (let n = acc_failed_count a + 1
      in a\<lparr>acc_failed_count := n,
           acc_locked_until := (if n \<ge> MAX_FAILED_ATTEMPTS then Some (now + LOCKOUT_DURATION_MS) else acc_locked_until a)\<rparr>)"

lemma update_account_twice:
  "update_account i g (update_account i f d) = update_account i (\<lambda>a. g (f a)) d"
  by (simp add: update_account_def update_where_compose)

lemma update_account_audit: "update_account i f (d\<lparr>t_audit := x\<rparr>) = (update_account i f d)\<lparr>t_audit := x\<rparr>"
  by (simp add: update_account_def)

lemma account_lookup:
  "findUserById j (update_account i f d) =
     map_option (\<lambda>u. if usr_id u = i then u\<lparr>usr_account := f (usr_account u)\<rparr> else u) (findUserById j d)"
  "findUserByEmail e (update_account i f d) =
     map_option (\<lambda>u. if usr_id u = i then u\<lparr>usr_account := f (usr_account u)\<rparr> else u) (findUserByEmail e d)"
  by (simp_all add: findUserById_def findUserByEmail_def update_account_def select_one_update_where)

lemma find_frame [simp]:
  "findUserById j (d\<lparr>t_audit := x\<rparr>) = findUserById j d" "findUserByEmail e (d\<lparr>t_audit := x\<rparr>) = findUserByEmail e d"
  "findUserById j (d\<lparr>t_login_history := y\<rparr>) = findUserById j d" "findUserByEmail e (d\<lparr>t_login_history := y\<rparr>) = findUserByEmail e d"
  by (simp_all add: findUserById_def findUserByEmail_def)

lemma found_by_id:
  assumes "findUserByEmail email d = Some u" and "distinct (map usr_id (t_users d))"
  shows "findUserById (usr_id u) d = Some u"
  using assms select_one_Some unfolding findUserByEmail_def findUserById_def by (fast intro: distinct_select_one)

lemma update_account_cong:
  assumes "findUserById i d = Some u" and "distinct (map usr_id (t_users d))" and "f (usr_account u) = g (usr_account u)"
  shows "update_account i f d = update_account i g d"
proof -
  have "filter (\<lambda>r. usr_id r = i) (t_users d) = [u]" using assms(2,1) unfolding findUserById_def by (rule filter_key_unique)
  then have "{r \<in> set (t_users d). usr_id r = i} = {u}" by (metis list.set(1) list.simps(15) set_filter)
  then have "r = u" if "r \<in> set (t_users d)" "usr_id r = i" for r using that by blast
  then have "update_where (\<lambda>u. usr_id u = i) (\<lambda>u. u\<lparr>usr_account := f (usr_account u)\<rparr>) (t_users d) =
      update_where (\<lambda>u. usr_id u = i) (\<lambda>u. u\<lparr>usr_account := g (usr_account u)\<rparr>) (t_users d)"
    using assms(3) unfolding update_where_def by (intro map_cong refl) auto
  then show ?thesis by (simp add: update_account_def)
qed

lemma failed_txn_run:
  assumes "audit_ok (db w) (Some (usr_id u))" and "findUserById (usr_id u) (db w) = Some u" and "distinct (map usr_id (t_users (db w)))"
  shows "\<exists>a. recordFailedPasswordTxn u ip ua w =
     (Inr (), w\<lparr>db := (update_account (usr_id u) (after_failure (clock w)) (db w))\<lparr>t_audit := a\<rparr>\<rparr>)"
proof -
  let ?inc = "\<lambda>a :: account. a\<lparr>acc_failed_count := acc_failed_count a + 1\<rparr>"
  let ?n = "acc_failed_count (usr_account u) + 1"
  have count: "incrementFailedLoginWithClient (usr_id u) w = (Inr ?n, w\<lparr>db := update_account (usr_id u) ?inc (db w)\<rparr>)"
    using assms(2) by (simp add: incrementFailedLoginWithClient_def account_lookup)
  show ?thesis
  proof (cases "?n \<ge> MAX_FAILED_ATTEMPTS")
    case True
    have "update_account (usr_id u) (\<lambda>a. (?inc a)\<lparr>acc_locked_until := Some (clock w + LOCKOUT_DURATION_MS)\<rparr>) (db w)
        = update_account (usr_id u) (after_failure (clock w)) (db w)"
      using assms(2,3) by (rule update_account_cong) (use True in \<open>simp add: after_failure_def Let_def\<close>)
    then show ?thesis
      using True assms(1) count
      by (simp add: recordFailedPasswordTxn_def lockAccountInTxn_def Let_def auth_audit_run lockAccountWithClient_def
          update_account_audit update_account_twice) blast
  next
    case False
    have "update_account (usr_id u) ?inc (db w) = update_account (usr_id u) (after_failure (clock w)) (db w)"
      using assms(2,3) by (rule update_account_cong) (use False in \<open>simp add: after_failure_def Let_def\<close>)
    then show ?thesis
      using False assms(1) count by (simp add: recordFailedPasswordTxn_def auth_audit_run) blast
  qed
qed

lemma burst_run: "redis_up w \<Longrightarrow> \<exists>js. checkFailedAuthBurst ip w = (Inr (), w\<lparr>jobs := js\<rparr>)"
proof -
  have same: "w = w\<lparr>jobs := jobs w\<rparr>" by simp
  show "redis_up w \<Longrightarrow> ?thesis"
    by (simp add: checkFailedAuthBurst_def enqueueWithContext_def) (metis same)
qed

text \<open>The run of a login on the branches that refuse.\<close>

lemma login_unknown:
  assumes "findUserByEmail email (db w) = None" and "audit_ok (db w) None"
  shows "\<exists>l a. login env sid mid email password ip ua w = (Inl AuthError, w\<lparr>db := (db w)\<lparr>t_login_history := l, t_audit := a\<rparr>\<rparr>)"
proof -
  obtain l a where "logFailedLogin None ''user_not_found'' ip ua w = (Inr (), w\<lparr>db := (db w)\<lparr>t_login_history := l, t_audit := a\<rparr>\<rparr>)"
    using logFailedLogin_run [OF assms(2)] by blast
  then have "login env sid mid email password ip ua w = (Inl AuthError, w\<lparr>db := (db w)\<lparr>t_login_history := l, t_audit := a\<rparr>\<rparr>)"
    using assms(1) by (simp add: login_def rejectUnknownEmail_def)
  then show ?thesis by blast
qed

lemma login_unusable:
  assumes "findUserByEmail email (db w) = Some u" and "audit_ok (db w) None" and "\<not> usable (clock w) (usr_account u)"
  shows "\<exists>l a. login env sid mid email password ip ua w = (Inl AuthError, w\<lparr>db := (db w)\<lparr>t_login_history := l, t_audit := a\<rparr>\<rparr>)"
proof -
  obtain l a where "guardAccountUsable u ip ua w = (Inl AuthError, w\<lparr>db := (db w)\<lparr>t_login_history := l, t_audit := a\<rparr>\<rparr>)"
    using guardAccountUsable_run [OF found_audit_ok [OF assms(1,2)], of ip ua] assms(3) by auto
  then have "login env sid mid email password ip ua w = (Inl AuthError, w\<lparr>db := (db w)\<lparr>t_login_history := l, t_audit := a\<rparr>\<rparr>)"
    using assms(1) by (simp add: login_def)
  then show ?thesis by blast
qed

lemma login_wrong_password:
  assumes "findUserByEmail email (db w) = Some u" and "audit_ok (db w) None" and "usable (clock w) (usr_account u)"
    and "\<not> bcrypt_compare env password (acc_password_hash (usr_account u))" and "distinct (map usr_id (t_users (db w)))" and "redis_up w"
  shows "\<exists>a js. login env sid mid email password ip ua w =
     (Inl AuthError, w\<lparr>db := (update_account (usr_id u) (after_failure (clock w)) (db w))\<lparr>t_audit := a\<rparr>, jobs := js\<rparr>)"
proof -
  note ok = found_audit_ok [OF assms(1,2)]
  obtain a where t: "recordFailedPasswordTxn u ip ua w =
      (Inr (), w\<lparr>db := (update_account (usr_id u) (after_failure (clock w)) (db w))\<lparr>t_audit := a\<rparr>\<rparr>)"
    using failed_txn_run [OF ok found_by_id [OF assms(1,5)] assms(5)] by blast
  obtain js where b: "checkFailedAuthBurst ip (w\<lparr>db := (update_account (usr_id u) (after_failure (clock w)) (db w))\<lparr>t_audit := a\<rparr>\<rparr>) =
      (Inr (), w\<lparr>db := (update_account (usr_id u) (after_failure (clock w)) (db w))\<lparr>t_audit := a\<rparr>, jobs := js\<rparr>)"
    using burst_run [of "w\<lparr>db := (update_account (usr_id u) (after_failure (clock w)) (db w))\<lparr>t_audit := a\<rparr>\<rparr>" ip] assms(6) by auto
  have "guardAccountUsable u ip ua w = (Inr (), w)" using guardAccountUsable_run [OF ok, of ip ua] assms(3) by simp
  then have "login env sid mid email password ip ua w =
      (Inl AuthError, w\<lparr>db := (update_account (usr_id u) (after_failure (clock w)) (db w))\<lparr>t_audit := a\<rparr>, jobs := js\<rparr>)"
    using assms(1,4) t b by (simp add: login_def handleFailedPassword_def)
  then show ?thesis by blast
qed

text \<open>
  Attempts one after another on the same account, with the time that passes before the next one.
\<close>

record attempt =
  at_session :: string
  at_message :: string
  at_password :: string
  at_ip :: string
  at_agent :: string
  at_pause :: int

fun attempts :: "auth_env \<Rightarrow> string \<Rightarrow> attempt list \<Rightarrow> world \<Rightarrow> world" where
  "attempts env email [] w = w"
| "attempts env email (a # as) w =
     (let w' = snd (login env (at_session a) (at_message a) email (at_password a) (at_ip a) (at_agent a) w)
      in attempts env email as (w'\<lparr>clock := clock w' + at_pause a\<rparr>))"

definition wrong :: "auth_env \<Rightarrow> account \<Rightarrow> attempt \<Rightarrow> bool" where
  "wrong env acc a \<longleftrightarrow> \<not> bcrypt_compare env (at_password a) (acc_password_hash acc) \<and> 0 \<le> at_pause a"

text \<open>The state in which the account has \<open>n\<close> failures, nobody is locked out and no session was made.\<close>

definition counting :: "string \<Rightarrow> account \<Rightarrow> int \<Rightarrow> session redis_entry list \<Rightarrow> world \<Rightarrow> bool" where
  "counting email acc n ses w \<longleftrightarrow>
     (\<exists>u. findUserByEmail email (db w) = Some u \<and> usr_account u = acc\<lparr>acc_failed_count := n\<rparr>)
     \<and> audit_ok (db w) None \<and> distinct (map usr_id (t_users (db w))) \<and> redis_up w \<and> redis_sessions w = ses"

lemma map_usr_id_account [simp]: "map usr_id (t_users (update_account i f d)) = map usr_id (t_users d)"
  by (simp add: update_account_def map_update_where)

lemma one_more_failure:
  assumes "counting email acc n ses w" and "wrong env acc a"
    and "acc_is_active acc" "acc_email_verified acc" "acc_locked_until acc = None"
  obtains u ad js where "snd (login env (at_session a) (at_message a) email (at_password a) (at_ip a) (at_agent a) w) =
      w\<lparr>db := (update_account (usr_id u) (after_failure (clock w)) (db w))\<lparr>t_audit := ad\<rparr>, jobs := js\<rparr>"
    "findUserByEmail email (db w) = Some u" "usr_account u = acc\<lparr>acc_failed_count := n\<rparr>"
proof -
  obtain u where u: "findUserByEmail email (db w) = Some u" "usr_account u = acc\<lparr>acc_failed_count := n\<rparr>"
    using assms(1) by (auto simp: counting_def)
  have "usable (clock w) (usr_account u)" using u(2) assms(3,4,5) by (simp add: usable_def isAccountLocked_def)
  moreover have "\<not> bcrypt_compare env (at_password a) (acc_password_hash (usr_account u))" using u(2) assms(2) by (simp add: wrong_def)
  ultimately have "\<exists>ad js. login env (at_session a) (at_message a) email (at_password a) (at_ip a) (at_agent a) w =
      (Inl AuthError, w\<lparr>db := (update_account (usr_id u) (after_failure (clock w)) (db w))\<lparr>t_audit := ad\<rparr>, jobs := js\<rparr>)"
    using login_wrong_password [OF u(1)] assms(1) unfolding counting_def by blast
  then show thesis using that u by (metis snd_conv)
qed

lemma failures_count:
  assumes "counting email acc n ses w" and "list_all (wrong env acc) as"
    and acc: "acc_is_active acc" "acc_email_verified acc" "acc_locked_until acc = None" and "n + int (length as) < MAX_FAILED_ATTEMPTS"
  shows "counting email acc (n + int (length as)) ses (attempts env email as w)"
  using assms(1,2,6)
proof (induction as arbitrary: n w)
  case (Cons a as)
  have a: "wrong env acc a" using Cons.prems(2) by simp
  obtain u ad js where r: "snd (login env (at_session a) (at_message a) email (at_password a) (at_ip a) (at_agent a) w) =
      w\<lparr>db := (update_account (usr_id u) (after_failure (clock w)) (db w))\<lparr>t_audit := ad\<rparr>, jobs := js\<rparr>"
    "findUserByEmail email (db w) = Some u" "usr_account u = acc\<lparr>acc_failed_count := n\<rparr>"
    using one_more_failure [OF Cons.prems(1) a acc] by blast
  let ?w = "w\<lparr>db := (update_account (usr_id u) (after_failure (clock w)) (db w))\<lparr>t_audit := ad\<rparr>, jobs := js, clock := clock w + at_pause a\<rparr>"
  have "after_failure (clock w) (usr_account u) = acc\<lparr>acc_failed_count := n + 1\<rparr>"
    using r(3) Cons.prems(3) by (simp add: after_failure_def)
  then have "counting email acc (n + 1) ses ?w"
    using Cons.prems(1) r(2) by (simp add: counting_def account_lookup)
  then have "counting email acc (n + 1 + int (length as)) ses (attempts env email as ?w)"
    using Cons.IH Cons.prems(2,3) by simp
  then show ?case using r(1) by (simp add: Let_def add.assoc)
qed simp

lemma attempts_append: "attempts env email (as @ bs) w = attempts env email bs (attempts env email as w)"
  by (induction as arbitrary: w) (simp_all add: Let_def)

lemma attempts_locked:
  assumes "counting email acc n ses w" and "list_all (wrong env acc) (as @ [a])" and "n + int (length as) + 1 = MAX_FAILED_ATTEMPTS"
    and acc: "acc_is_active acc" "acc_email_verified acc" "acc_locked_until acc = None"
    and "w1 = attempts env email as w" and "w2 = attempts env email (as @ [a]) w"
  shows "(\<exists>u. findUserByEmail email (db w2) = Some u \<and> acc_locked_until (usr_account u) = Some (clock w1 + LOCKOUT_DURATION_MS))
     \<and> audit_ok (db w2) None \<and> redis_sessions w2 = ses"
proof -
  have c: "counting email acc (n + int (length as)) ses w1"
    unfolding assms(7) using assms(1,2,3) by (intro failures_count acc) simp_all
  have a: "wrong env acc a" using assms(2) by simp
  obtain u ad js where r: "snd (login env (at_session a) (at_message a) email (at_password a) (at_ip a) (at_agent a) w1) =
      w1\<lparr>db := (update_account (usr_id u) (after_failure (clock w1)) (db w1))\<lparr>t_audit := ad\<rparr>, jobs := js\<rparr>"
    "findUserByEmail email (db w1) = Some u" "usr_account u = acc\<lparr>acc_failed_count := n + int (length as)\<rparr>"
    using one_more_failure [OF c a acc] by blast
  have w2: "w2 = w1\<lparr>db := (update_account (usr_id u) (after_failure (clock w1)) (db w1))\<lparr>t_audit := ad\<rparr>, jobs := js, clock := clock w1 + at_pause a\<rparr>"
    unfolding assms(8) attempts_append using r(1) assms(7) by (simp add: Let_def)
  have "acc_locked_until (after_failure (clock w1) (usr_account u)) = Some (clock w1 + LOCKOUT_DURATION_MS)"
    using r(3) assms(3) by (simp add: after_failure_def)
  then show ?thesis unfolding w2 using c r(2) by (simp add: counting_def account_lookup)
qed

text \<open>
  C13: five wrong passwords lock the account. From an account without failures, after the fifth wrong password every
  login within thirty minutes of it is refused, also with the right password, and neither the attempts nor the refused login
  create a session.
\<close>

theorem five_failures_lock:
  assumes "counting email acc 0 ses w" and "list_all (wrong env acc) (as @ [a])" and "length as = 4"
    and "acc_is_active acc" "acc_email_verified acc" "acc_locked_until acc = None"
    and "db w' = db (attempts env email (as @ [a]) w)" and "redis_sessions w' = redis_sessions (attempts env email (as @ [a]) w)"
    and "clock w' < clock (attempts env email as w) + LOCKOUT_DURATION_MS"
  shows "fst (login env sid mid email password ip ua w') = Inl AuthError
     \<and> redis_sessions (snd (login env sid mid email password ip ua w')) = ses"
proof -
  let ?w1 = "attempts env email as w" and ?w2 = "attempts env email (as @ [a]) w"
  have n: "0 + int (length as) + 1 = MAX_FAILED_ATTEMPTS" using assms(3) by (simp add: MAX_FAILED_ATTEMPTS_def)
  obtain u where u: "findUserByEmail email (db ?w2) = Some u" "acc_locked_until (usr_account u) = Some (clock ?w1 + LOCKOUT_DURATION_MS)"
      and ok: "audit_ok (db ?w2) None" "redis_sessions ?w2 = ses"
    using attempts_locked [OF assms(1,2) n assms(4,5,6) refl refl] by blast
  have "\<not> usable (clock w') (usr_account u)" using u(2) assms(9) by (simp add: usable_def isAccountLocked_def)
  moreover have "findUserByEmail email (db w') = Some u" "audit_ok (db w') None" using u(1) ok(1) assms(7) by simp_all
  ultimately obtain l b where "login env sid mid email password ip ua w' = (Inl AuthError, w'\<lparr>db := (db w')\<lparr>t_login_history := l, t_audit := b\<rparr>\<rparr>)"
    using login_unusable by blast
  then show ?thesis using ok(2) assms(8) by simp
qed

section \<open>A successful login\<close>

definition readable :: "auth_env \<Rightarrow> account \<Rightarrow> bool" where
  "readable env a \<longleftrightarrow>
     (case acc_first_name a of None \<Rightarrow> True
      | Some f \<Rightarrow> (\<exists>x. decrypt (decipher_fn env) (encryption_key env) f = Inr x)
          \<and> (case acc_last_name a of None \<Rightarrow> True | Some l \<Rightarrow> \<exists>y. decrypt (decipher_fn env) (encryption_key env) l = Inr y))"

lemma readable_frame [simp]:
  "readable env (a\<lparr>acc_last_login_at := x\<rparr>) = readable env a"
  "readable env (a\<lparr>acc_failed_count := n, acc_locked_until := y\<rparr>) = readable env a"
  by (simp_all add: readable_def cong: option.case_cong)

lemma createSession_run:
  "redis_client w \<Longrightarrow> redis_up w \<Longrightarrow> createSession sid u w = (Inr (), w\<lparr>redis_sessions :=
     redis_insert (session_key sid) (new_session (clock w) sid u) (clock w + SESSION_TTL_SECONDS * 1000) (redis_sessions w)\<rparr>)"
  by (simp add: createSession_def getRedis_def redis_set_session_def redis_command_def new_session_def)

text \<open>The world after a wrong password, but for the security alert that may be queued.\<close>

definition password_refused :: "user_row \<Rightarrow> string \<Rightarrow> string \<Rightarrow> world \<Rightarrow> db" where
  "password_refused u ip ua w =
     (let n = acc_failed_count (usr_account u) + 1 in (db w)\<lparr>
        t_users := update_where (\<lambda>x. usr_id x = usr_id u) (\<lambda>x. x\<lparr>usr_account := (usr_account x)\<lparr>acc_failed_count := n,
          acc_locked_until := (if 5 \<le> n then Some (clock w + 30 * 60 * 1000) else acc_locked_until (usr_account u))\<rparr>\<rparr>) (t_users (db w)),
        t_audit := t_audit (db w) @ [\<lparr>aud_user = Some (usr_id u), aud_action = ''LOGIN_FAILED'', aud_table = ''users'',
            aud_record = Some (usr_id u), aud_old = None, aud_new = [(''reason'', JStr ''wrong_password'')], aud_ip = Some ip,
            aud_agent = Some ua, aud_created_at = Some (clock w)\<rparr>]
          @ (if 5 \<le> n then [\<lparr>aud_user = Some (usr_id u), aud_action = ''ACCOUNT_LOCKED'', aud_table = ''users'',
            aud_record = Some (usr_id u), aud_old = None, aud_new = [(''failedAttempts'', JInt n),
              (''lockedUntilIso'', JInt (clock w + 30 * 60 * 1000))], aud_ip = Some ip,
            aud_agent = Some ua, aud_created_at = Some (clock w)\<rparr>] else [])\<rparr>)"

lemma account_row_cong:
  assumes "findUserById i d = Some u" and "distinct (map usr_id (t_users d))" and "f (usr_account u) = g (usr_account u)"
  shows "update_where (\<lambda>x. usr_id x = i) (\<lambda>x. x\<lparr>usr_account := f (usr_account x)\<rparr>) (t_users d) =
    update_where (\<lambda>x. usr_id x = i) (\<lambda>x. x\<lparr>usr_account := g (usr_account x)\<rparr>) (t_users d)"
  using arg_cong [OF update_account_cong [where f = f and g = g, OF assms], of t_users] by (simp add: update_account_def)

lemma failed_txn_exact:
  assumes "audit_ok (db w) (Some (usr_id u))" and "findUserById (usr_id u) (db w) = Some u" and "distinct (map usr_id (t_users (db w)))"
  shows "recordFailedPasswordTxn u ip ua w = (Inr (), w\<lparr>db := password_refused u ip ua w\<rparr>)"
proof -
  let ?inc = "\<lambda>a :: account. a\<lparr>acc_failed_count := acc_failed_count a + 1\<rparr>"
  let ?n = "acc_failed_count (usr_account u) + 1"
  have count: "incrementFailedLoginWithClient (usr_id u) w = (Inr ?n, w\<lparr>db := update_account (usr_id u) ?inc (db w)\<rparr>)"
    using assms(2) by (simp add: incrementFailedLoginWithClient_def account_lookup)
  show ?thesis
  proof (cases "?n \<ge> MAX_FAILED_ATTEMPTS")
    case True
    have "update_where (\<lambda>x. usr_id x = usr_id u) (\<lambda>x. x\<lparr>usr_account := (\<lambda>a. (?inc a)\<lparr>acc_locked_until := Some (clock w + LOCKOUT_DURATION_MS)\<rparr>) (usr_account x)\<rparr>) (t_users (db w))
        = update_where (\<lambda>x. usr_id x = usr_id u) (\<lambda>x. x\<lparr>usr_account := (\<lambda>a. a\<lparr>acc_failed_count := ?n, acc_locked_until := Some (clock w + 30 * 60 * 1000)\<rparr>) (usr_account x)\<rparr>) (t_users (db w))"
      using assms(2,3) by (rule account_row_cong) (simp add: LOCKOUT_DURATION_MS_def)
    then show ?thesis
      using True assms(1) count
      by (simp add: recordFailedPasswordTxn_def lockAccountInTxn_def Let_def auth_audit_run lockAccountWithClient_def
          update_account_audit update_account_twice) (simp add: password_refused_def update_account_def auth_entry_def Let_def
          MAX_FAILED_ATTEMPTS_def LOCKOUT_DURATION_MS_def)
  next
    case False
    have "update_where (\<lambda>x. usr_id x = usr_id u) (\<lambda>x. x\<lparr>usr_account := ?inc (usr_account x)\<rparr>) (t_users (db w))
        = update_where (\<lambda>x. usr_id x = usr_id u) (\<lambda>x. x\<lparr>usr_account := (\<lambda>a. a\<lparr>acc_failed_count := ?n, acc_locked_until := acc_locked_until (usr_account u)\<rparr>) (usr_account x)\<rparr>) (t_users (db w))"
      using assms(2,3) by (rule account_row_cong) simp
    then show ?thesis
      using False assms(1) count
      by (simp add: recordFailedPasswordTxn_def auth_audit_run) (simp add: password_refused_def update_account_def auth_entry_def Let_def
          MAX_FAILED_ATTEMPTS_def)
  qed
qed

text \<open>The name in the answer to a login.\<close>

definition display_name :: "auth_env \<Rightarrow> user_row \<Rightarrow> string" where
  "display_name env u =
     (case acc_first_name (usr_account u) of None \<Rightarrow> takeWhile (\<lambda>c. c \<noteq> CHR ''@'') (usr_email u)
      | Some f \<Rightarrow> js_trim (projr (decrypt (decipher_fn env) (encryption_key env) f) @ '' '' @
          (case acc_last_name (usr_account u) of None \<Rightarrow> [] | Some l \<Rightarrow> projr (decrypt (decipher_fn env) (encryption_key env) l))))"

lemma profile_exact:
  assumes "findUserById (usr_id u) (db w) = Some v" and "readable env (usr_account u)"
    and "acc_first_name (usr_account v) = acc_first_name (usr_account u)" "acc_last_name (usr_account v) = acc_last_name (usr_account u)"
  shows "buildUserProfile env (usr_id u) (usr_email u) role w =
    (Inr \<lparr>au_id = usr_id u, au_email = usr_email u, au_name = display_name env u, au_role = role\<rparr>, w)"
  using assms by (auto simp: buildUserProfile_def readable_def display_name_def Let_def split: option.splits)

definition device_notice :: "auth_env \<Rightarrow> string \<Rightarrow> user_row \<Rightarrow> string \<Rightarrow> string \<Rightarrow> int \<Rightarrow> job" where
  "device_notice env mid u ip ua now =
     \<lparr>job_ref = Auth_notification, job_name = ''send-email'', job_data =
        [(''id'', JStr mid), (''channel'', JStr ''email''), (''template'', JStr ''new_device_login''),
         (''recipient'', JStr (usr_email u)),
         (''data'', JObj [(''user_name'', JStr ''there''), (''ip_address'', JStr ip), (''user_agent'', JStr ua),
            (''login_timestamp'', JInt now), (''reset_url'', JStr (base_url env @ ''/forgot-password''))])]\<rparr>"

lemma notify_exact:
  assumes "audit_ok (db w) (Some (usr_id u))" and "redis_up w"
  shows "notifyNewDevice env mid u ip ua w = (Inr (), w\<lparr>db := (db w)\<lparr>t_audit := t_audit (db w) @
       [auth_entry (clock w) (Some (usr_id u)) ''NEW_DEVICE_LOGIN_NOTIFIED'' (Some ip) (Some ua) [(''newDevice'', JBool True)]]\<rparr>,
     jobs := jobs w @ (if queue_set w Auth_notification then [device_notice env mid u ip ua (clock w)] else [])\<rparr>)"
  using assms by (simp add: notifyNewDevice_def catchS_def auth_audit_run run_enqueue device_notice_def)


text \<open>The world after a full login.\<close>

definition logged_in :: "auth_env \<Rightarrow> string \<Rightarrow> string \<Rightarrow> user_row \<Rightarrow> string \<Rightarrow> string \<Rightarrow> world \<Rightarrow> world" where
  "logged_in env sid mid u ip ua w =
     (let seen = list_ex (\<lambda>l. lh_user l = Some (usr_id u) \<and> lh_agent l = Some ua \<and> lh_success l
                   \<and> lh_created_at l > clock w - 30 * day_ms) (t_login_history (db w)) in
      w\<lparr>db := (db w)\<lparr>
          t_users := update_where (\<lambda>x. usr_id x = usr_id u) (\<lambda>x. x\<lparr>usr_account := (usr_account x)\<lparr>acc_failed_count := 0,
            acc_locked_until := None, acc_last_login_at := Some (clock w)\<rparr>\<rparr>) (t_users (db w)),
          t_login_history := t_login_history (db w) @ [\<lparr>lh_user = Some (usr_id u), lh_ip = Some ip, lh_agent = Some ua,
            lh_country = None, lh_success = True, lh_created_at = clock w\<rparr>],
          t_audit := t_audit (db w) @ [\<lparr>aud_user = Some (usr_id u), aud_action = ''LOGIN_SUCCESS'', aud_table = ''users'',
              aud_record = Some (usr_id u), aud_old = None, aud_new = [(''sessionId'', JStr sid), (''tokenType'', JStr ''full'')],
              aud_ip = Some ip, aud_agent = Some ua, aud_created_at = Some (clock w)\<rparr>]
            @ (if seen then [] else [\<lparr>aud_user = Some (usr_id u), aud_action = ''NEW_DEVICE_LOGIN_NOTIFIED'', aud_table = ''users'',
              aud_record = Some (usr_id u), aud_old = None, aud_new = [(''newDevice'', JBool True)],
              aud_ip = Some ip, aud_agent = Some ua, aud_created_at = Some (clock w)\<rparr>])\<rparr>,
        jobs := jobs w @ (if \<not> seen \<and> queue_set w Auth_notification then [device_notice env mid u ip ua (clock w)] else []),
        redis_sessions := filter (\<lambda>e. re_key e \<noteq> ''session:'' @ sid) (redis_sessions w) @ [\<lparr>re_key = ''session:'' @ sid,
          re_value = \<lparr>ses_id = sid, ses_user = usr_id u, ses_role = acc_role (usr_account u), ses_created_at = clock w,
            ses_expires_at = clock w + 7 * 24 * 60 * 60 * 1000\<rparr>, re_expires = clock w + 7 * 24 * 60 * 60 * 1000\<rparr>]\<rparr>)"

lemma issueFull_exact:
  assumes ok: "audit_ok (db w) (Some (usr_id u))" and "redis_client w" "redis_up w"
    and v: "findUserById (usr_id u) (db w) = Some u" and rd: "readable env (usr_account u)"
  shows "issueFullTokens env sid mid u ip ua (w\<lparr>db := resetFailedLogin (usr_id u) (db w)\<rparr>) =
    (Inr \<lparr>lr_accessToken = jwt_sign env (clock w) \<lparr>tp_user = usr_id u, tp_role = Some (acc_role (usr_account u)), tp_session = sid,
            tp_type = Full, tp_iat = None, tp_exp = None\<rparr> (JWT_EXPIRY env),
          lr_refreshToken = Some (jwt_sign env (clock w) \<lparr>tp_user = usr_id u, tp_role = None, tp_session = sid,
            tp_type = Refresh, tp_iat = None, tp_exp = None\<rparr> (REFRESH_TOKEN_EXPIRY env)),
          lr_user = Some \<lparr>au_id = usr_id u, au_email = usr_email u, au_name = display_name env u, au_role = acc_role (usr_account u)\<rparr>,
          lr_tokenType = Full, lr_expiresIn = JWT_EXPIRY env, lr_requiresTwoFactor = False\<rparr>,
     logged_in env sid mid u ip ua w)"
proof -
  let ?f = "\<lambda>a :: account. a\<lparr>acc_failed_count := 0, acc_locked_until := None, acc_last_login_at := Some (clock w)\<rparr>"
  let ?s = "redis_insert (session_key sid) (new_session (clock w) sid u) (clock w + SESSION_TTL_SECONDS * 1000) (redis_sessions w)"
  let ?w0 = "w\<lparr>db := resetFailedLogin (usr_id u) (db w)\<rparr>"
  let ?d1 = "update_account (usr_id u) ?f (db w)"
  have d1: "recordLogin (clock w) (usr_id u) (resetFailedLogin (usr_id u) (db w)) = ?d1"
    by (simp add: recordLogin_def resetFailedLogin_def update_account_twice)
  have ok1: "audit_ok ?d1 (Some (usr_id u))" "user_exists ?d1 (Some (usr_id u))"
    using ok by simp (use ok in \<open>simp add: audit_ok_def\<close>)
  let ?d2 = "?d1\<lparr>t_login_history := t_login_history (db w) @ [\<lparr>lh_user = Some (usr_id u), lh_ip = Some ip, lh_agent = Some ua,
            lh_country = None, lh_success = True, lh_created_at = clock w\<rparr>]\<rparr>"
  have hist: "createLoginHistoryEntry (clock w) (Some (usr_id u)) (Some ip) (Some ua) None True ?d1 = Inr ?d2"
    using ok1(2) by (simp add: createLoginHistoryEntry_def update_account_def)
  let ?w2 = "w\<lparr>redis_sessions := ?s, db := ?d2\<rparr>"
  have prof: "buildUserProfile env (usr_id u) (usr_email u) (acc_role (usr_account u)) ?w2 =
      (Inr \<lparr>au_id = usr_id u, au_email = usr_email u, au_name = display_name env u, au_role = acc_role (usr_account u)\<rparr>, ?w2)"
    by (rule profile_exact [where v = "u\<lparr>usr_account := ?f (usr_account u)\<rparr>"]) (use v rd in \<open>simp_all add: account_lookup\<close>)
  have ok2: "audit_ok (db ?w2) (Some (usr_id u))" using ok1(1) by simp
  let ?a = "auth_entry (clock w) (Some (usr_id u)) ''LOGIN_SUCCESS'' (Some ip) (Some ua) [(''sessionId'', JStr sid), (''tokenType'', JStr ''full'')]"
  let ?w3 = "?w2\<lparr>db := ?d2\<lparr>t_audit := t_audit (db w) @ [?a]\<rparr>\<rparr>"
  have aud: "auditFullLogin (usr_id u) sid ip ua ?w2 = (Inr (), ?w3)"
    using auth_audit_run [OF ok2] by (simp add: auditFullLogin_def update_account_def)
  have ses: "createSession sid u ?w0 = (Inr (), ?w0\<lparr>redis_sessions := ?s\<rparr>)" using createSession_run [of ?w0 sid u] assms(2,3) by simp
  let ?b = "\<not> hasRecentLoginWithSameUserAgent (clock w) (usr_id u) ua NEW_DEVICE_LOOKBACK_DAYS (db w)"
  have seen: "hasRecentLoginWithSameUserAgent (clock w) (usr_id u) ua NEW_DEVICE_LOOKBACK_DAYS (resetFailedLogin (usr_id u) (db w)) \<longleftrightarrow> \<not> ?b"
    by (simp add: hasRecentLoginWithSameUserAgent_def resetFailedLogin_def update_account_def)
  have ok3: "audit_ok (db ?w3) (Some (usr_id u))" using ok1(1) by simp
  have note': "whenS ?b (notifyNewDevice env mid u ip ua) ?w3 = (Inr (), logged_in env sid mid u ip ua w)"
    using notify_exact [OF ok3, of env mid ip ua] assms(3)
    by (simp add: logged_in_def Let_def hasRecentLoginWithSameUserAgent_def NEW_DEVICE_LOOKBACK_DAYS_def update_account_def auth_entry_def
        redis_insert_def session_key_def new_session_def SESSION_TTL_SECONDS_def)
  show ?thesis
    using ses hist prof aud note' d1 seen
    by (simp add: issueFullTokens_def recordSuccessfulLogin_def Let_def buildFullAuthResponse_def buildRefreshToken_def signToken_def claims_def
        del: run_when)
qed

lemma issuePartial_exact:
  assumes ok: "audit_ok (db w) (Some (usr_id u))"
  shows "issuePartialAuthToken env sid u ip ua (w\<lparr>db := resetFailedLogin (usr_id u) (db w)\<rparr>) =
    (Inr \<lparr>lr_accessToken = jwt_sign env (clock w) \<lparr>tp_user = usr_id u, tp_role = Some (acc_role (usr_account u)), tp_session = sid,
            tp_type = Partial_auth, tp_iat = None, tp_exp = None\<rparr> ''5m'',
          lr_refreshToken = None, lr_user = None, lr_tokenType = Partial_auth, lr_expiresIn = ''5m'', lr_requiresTwoFactor = True\<rparr>,
     w\<lparr>db := (db w)\<lparr>
         t_users := update_where (\<lambda>x. usr_id x = usr_id u) (\<lambda>x. x\<lparr>usr_account := (usr_account x)\<lparr>acc_failed_count := 0,
           acc_locked_until := None\<rparr>\<rparr>) (t_users (db w)),
         t_audit := t_audit (db w) @ [\<lparr>aud_user = Some (usr_id u), aud_action = ''LOGIN_SUCCESS'', aud_table = ''users'',
           aud_record = Some (usr_id u), aud_old = None, aud_new = [(''requiresTwoFactor'', JBool True), (''sessionId'', JStr sid)],
           aud_ip = Some ip, aud_agent = Some ua, aud_created_at = Some (clock w)\<rparr>]\<rparr>\<rparr>)"
proof -
  let ?w0 = "w\<lparr>db := resetFailedLogin (usr_id u) (db w)\<rparr>"
  have "audit_ok (db ?w0) (Some (usr_id u))" using ok by (simp add: resetFailedLogin_def)
  from auth_audit_run [OF this] show ?thesis
    by (simp add: issuePartialAuthToken_def auditPartialAuth_def buildPartialAuthResponse_def Let_def signToken_def claims_def
        PARTIAL_AUTH_EXPIRY_def) (simp add: resetFailedLogin_def update_account_def auth_entry_def)
qed

lemma select_one_filter:
  "(\<And>e. p e \<Longrightarrow> q e) \<Longrightarrow> select_one p (filter q es) = select_one p es"
  "(\<And>e. p e \<Longrightarrow> \<not> q e) \<Longrightarrow> select_one p (filter q es) = None"
  by (induction es) auto

lemma live_filter:
  "select_one (live_entry now k') (filter (\<lambda>e. re_key e \<noteq> k) es) = (if k' = k then None else select_one (live_entry now k') es)"
proof (cases "k' = k")
  case True
  have "select_one (live_entry now k) (filter (\<lambda>e. re_key e \<noteq> k) es) = None"
    by (rule select_one_filter(2)) (simp add: live_entry_def)
  then show ?thesis using True by simp
next
  case False
  then have "select_one (live_entry now k') (filter (\<lambda>e. re_key e \<noteq> k) es) = select_one (live_entry now k') es"
    by (intro select_one_filter(1)) (simp add: live_entry_def)
  then show ?thesis using False by simp
qed

lemma lookup_inserted: "now < e \<Longrightarrow> redis_lookup now k (redis_insert k v e es) = Some v"
  unfolding redis_lookup_def redis_insert_def select_one_append live_filter by (simp add: live_entry_def)

lemma lookup_other: "k' \<noteq> k \<Longrightarrow> redis_lookup now k' (redis_insert k v e es) = redis_lookup now k' es"
  unfolding redis_lookup_def redis_insert_def select_one_append live_filter by (simp add: live_entry_def split: option.splits)

lemma lookup_removed: "redis_lookup now k' (redis_remove k es) = (if k' = k then None else redis_lookup now k' es)"
  unfolding redis_lookup_def redis_remove_def live_filter by simp

text \<open>
  C14: who can log in, and what every login returns and stores. With Redis available, a login succeeds exactly when the
  email is known, the account is active, not locked and verified, and the password matches. Every other request
  gets the same error class and creates no session: an unknown email and an unusable account leave one row of the login history
  and one audit entry with the reason, a wrong password the raised counter, from the fifth on the lock, and their audit entries (and
  perhaps a queued alert). With a second factor the answer is a partial token for five minutes, signed for the
  user, the role and the new session, no refresh token, no session in Redis. Without one it is a full token and a refresh token
  signed for the same user and session, and Redis holds that session, with user and role, for seven days under its key;
  history, audit log, last login and the notice to a new device are as \<open>logged_in\<close> says. Either way the failure counter and
  the lock are cleared. The second factor depends on the flag of the account only, not on the role (REQ-AUTH-002).
\<close>

theorem login_decides:
  assumes "audit_ok (db w) None" and "distinct (map usr_id (t_users (db w)))" and "redis_client w" "redis_up w"
    and "\<And>u. u \<in> set (t_users (db w)) \<Longrightarrow> readable env (usr_account u)"
    and "login env sid mid email password ip ua w = (r, w')"
  shows "case findUserByEmail email (db w) of
      None \<Rightarrow> r = Inl AuthError \<and> w' = login_refused None ''user_not_found'' ip ua w
    | Some u \<Rightarrow>
       (case refusal (clock w) (usr_account u) of
          Some reason \<Rightarrow> r = Inl AuthError \<and> w' = login_refused (Some (usr_id u)) reason ip ua w
        | None \<Rightarrow>
            if \<not> bcrypt_compare env password (acc_password_hash (usr_account u))
            then r = Inl AuthError \<and> (\<exists>js. w' = w\<lparr>db := password_refused u ip ua w, jobs := js\<rparr>)
            else if acc_2fa_enabled (usr_account u)
            then r = Inr \<lparr>lr_accessToken = jwt_sign env (clock w) \<lparr>tp_user = usr_id u, tp_role = Some (acc_role (usr_account u)),
                      tp_session = sid, tp_type = Partial_auth, tp_iat = None, tp_exp = None\<rparr> ''5m'',
                    lr_refreshToken = None, lr_user = None, lr_tokenType = Partial_auth, lr_expiresIn = ''5m'', lr_requiresTwoFactor = True\<rparr>
              \<and> w' = w\<lparr>db := (db w)\<lparr>
                   t_users := update_where (\<lambda>x. usr_id x = usr_id u) (\<lambda>x. x\<lparr>usr_account := (usr_account x)\<lparr>acc_failed_count := 0,
                     acc_locked_until := None\<rparr>\<rparr>) (t_users (db w)),
                   t_audit := t_audit (db w) @ [\<lparr>aud_user = Some (usr_id u), aud_action = ''LOGIN_SUCCESS'', aud_table = ''users'',
                     aud_record = Some (usr_id u), aud_old = None,
                     aud_new = [(''requiresTwoFactor'', JBool True), (''sessionId'', JStr sid)],
                     aud_ip = Some ip, aud_agent = Some ua, aud_created_at = Some (clock w)\<rparr>]\<rparr>\<rparr>
            else r = Inr \<lparr>lr_accessToken = jwt_sign env (clock w) \<lparr>tp_user = usr_id u, tp_role = Some (acc_role (usr_account u)),
                      tp_session = sid, tp_type = Full, tp_iat = None, tp_exp = None\<rparr> (JWT_EXPIRY env),
                    lr_refreshToken = Some (jwt_sign env (clock w) \<lparr>tp_user = usr_id u, tp_role = None, tp_session = sid,
                      tp_type = Refresh, tp_iat = None, tp_exp = None\<rparr> (REFRESH_TOKEN_EXPIRY env)),
                    lr_user = Some \<lparr>au_id = usr_id u, au_email = usr_email u, au_name = display_name env u,
                      au_role = acc_role (usr_account u)\<rparr>,
                    lr_tokenType = Full, lr_expiresIn = JWT_EXPIRY env, lr_requiresTwoFactor = False\<rparr>
              \<and> w' = logged_in env sid mid u ip ua w)"
proof (cases "findUserByEmail email (db w)")
  case None
  then show ?thesis using logFailedLogin_exact [OF assms(1)] assms(6) by (simp add: login_def rejectUnknownEmail_def)
next
  case (Some u)
  note ok = found_audit_ok [OF Some assms(1)] and v = found_by_id [OF Some assms(2)]
  have rd: "readable env (usr_account u)"
    using Some select_one_Some assms(5) by (fastforce simp: findUserByEmail_def)
  consider reason where "refusal (clock w) (usr_account u) = Some reason"
    | "refusal (clock w) (usr_account u) = None" "\<not> bcrypt_compare env password (acc_password_hash (usr_account u))"
    | "refusal (clock w) (usr_account u) = None" "bcrypt_compare env password (acc_password_hash (usr_account u))"
    by (cases "refusal (clock w) (usr_account u)") blast+
  then show ?thesis
  proof cases
    case 1
    then show ?thesis using Some assms(6) guardAccountUsable_exact [OF ok, of ip ua] by (simp add: login_def)
  next
    case 2
    obtain js where "checkFailedAuthBurst ip (w\<lparr>db := password_refused u ip ua w\<rparr>) = (Inr (), w\<lparr>db := password_refused u ip ua w, jobs := js\<rparr>)"
      using burst_run [of "w\<lparr>db := password_refused u ip ua w\<rparr>" ip] assms(4) by auto
    then show ?thesis
      using 2 Some assms(6) guardAccountUsable_exact [OF ok, of ip ua] failed_txn_exact [OF ok v assms(2), of ip ua]
      by (auto simp: login_def handleFailedPassword_def)
  next
    case 3
    have run: "login env sid mid email password ip ua w =
        (if acc_2fa_enabled (usr_account u) then issuePartialAuthToken env sid u ip ua (w\<lparr>db := resetFailedLogin (usr_id u) (db w)\<rparr>)
         else issueFullTokens env sid mid u ip ua (w\<lparr>db := resetFailedLogin (usr_id u) (db w)\<rparr>))"
      using Some 3 guardAccountUsable_exact [OF ok, of ip ua] by (simp add: login_def)
    have res: "r = fst (login env sid mid email password ip ua w)" "w' = snd (login env sid mid email password ip ua w)"
      using assms(6) by simp_all
    show ?thesis
    proof (cases "acc_2fa_enabled (usr_account u)")
      case True
      then show ?thesis unfolding res run if_P [OF True] issuePartial_exact [OF ok] Some using 3 by simp
    next
      case False
      then show ?thesis unfolding res run if_not_P [OF False] issueFull_exact [OF ok assms(3,4) v rd] Some using 3 by simp
    qed
  qed
qed

section \<open>Requests behind the middleware\<close>

lemma getSession_run:
  "getSession i w = (if \<not> redis_client w then Inl AuthError else if \<not> redis_up w then Inl (JsError ''redis'')
     else Inr (redis_lookup (clock w) (session_key i) (redis_sessions w)), w)"
  by (simp add: getSession_def getRedis_def redis_get_session_def redis_command_def run_guard thenS_def bindS_def)

text \<open>
  C21: a request passes the authentication middleware exactly when it bears a token that verifies as a full access token and the session the
  token names is still live in Redis; the identity attached to the request is the one in the token. Every
  other request is answered with 401: without an authorization header, with another scheme, with another token, and also
  when Redis cannot be asked. The state never changes; in particular no refused request is audited, which REQ-AUTH-004 asks for.
\<close>

theorem session_gate:
  "authenticateJwt env h w =
     (case h of None \<Rightarrow> (Inl AuthError, w)
      | Some header \<Rightarrow>
          if take 7 header = ''Bearer '' \<and> redis_client w \<and> redis_up w
             \<and> (\<exists>p s. jwt_verify env (clock w) (drop 7 header) = Some p \<and> tp_type p = Full
                  \<and> redis_lookup (clock w) (''session:'' @ tp_session p) (redis_sessions w) = Some s)
          then (let p = the (jwt_verify env (clock w) (drop 7 header))
                in (Inr \<lparr>ru_userId = tp_user p, ru_role = tp_role p, ru_sessionId = tp_session p\<rparr>, w))
          else (Inl AuthError, w))"
proof (cases h)
  case None
  then show ?thesis by (simp add: authenticateJwt_def)
next
  case h: (Some header)
  show ?thesis
  proof (cases "jwt_verify env (clock w) (drop 7 header)")
    case None
    then show ?thesis using h by (simp add: authenticateJwt_def verifyToken_def catchS_def)
  next
    case (Some p)
    show ?thesis
    proof (cases "tp_type p = Full")
      case False
      then show ?thesis using h Some by (simp add: authenticateJwt_def verifyToken_def catchS_def)
    next
      case True
      then show ?thesis
        using h Some
        by (cases "redis_lookup (clock w) (session_key (tp_session p)) (redis_sessions w)")
          (simp_all add: authenticateJwt_def verifyToken_def catchS_def getSession_run bindS_def thenS_def session_key_def)
    qed
  qed
qed

section \<open>Ending sessions\<close>

definition owned :: "string \<Rightarrow> string option \<Rightarrow> session \<Rightarrow> bool" where
  "owned u keep s \<longleftrightarrow> ses_user s = u \<and> keep \<noteq> Some (ses_id s)"

lemma delete_if_owned_run:
  assumes "redis_up w"
  shows "\<exists>es. delete_if_owned u keep k w = (Inr (), w\<lparr>redis_sessions := es\<rparr>)
     \<and> (\<forall>j. redis_lookup (clock w) j es = (case redis_lookup (clock w) j (redis_sessions w) of None \<Rightarrow> None
            | Some s \<Rightarrow> if j = k \<and> owned u keep s then None else Some s))"
proof (cases "redis_lookup (clock w) k (redis_sessions w)")
  case None
  then have "delete_if_owned u keep k w = (Inr (), w\<lparr>redis_sessions := redis_sessions w\<rparr>)"
    using assms by (simp add: delete_if_owned_def redis_get_session_def redis_command_def)
  then show ?thesis using None by (intro exI conjI) (auto split: option.splits)
next
  case (Some s)
  let ?es = "if owned u keep s then redis_remove k (redis_sessions w) else redis_sessions w"
  have "delete_if_owned u keep k w = (Inr (), w\<lparr>redis_sessions := ?es\<rparr>)"
    using assms Some by (simp add: delete_if_owned_def redis_get_session_def redis_del_session_def redis_command_def owned_def)
  then show ?thesis using Some by (intro exI conjI) (auto simp: lookup_removed split: option.splits)
qed

lemma delete_keys_run:
  assumes "redis_up w"
  shows "\<exists>es. forS (delete_if_owned u keep) ks w = (Inr (), w\<lparr>redis_sessions := es\<rparr>)
     \<and> (\<forall>j. redis_lookup (clock w) j es = (case redis_lookup (clock w) j (redis_sessions w) of None \<Rightarrow> None
            | Some s \<Rightarrow> if j \<in> set ks \<and> owned u keep s then None else Some s))"
  using assms
proof (induction ks arbitrary: w)
  case Nil
  have "forS (delete_if_owned u keep) [] w = (Inr (), w\<lparr>redis_sessions := redis_sessions w\<rparr>)" by simp
  then show ?case by (intro exI conjI) (auto split: option.splits)
next
  case (Cons k ks)
  obtain es where a: "delete_if_owned u keep k w = (Inr (), w\<lparr>redis_sessions := es\<rparr>)"
      "\<And>j. redis_lookup (clock w) j es = (case redis_lookup (clock w) j (redis_sessions w) of None \<Rightarrow> None
            | Some s \<Rightarrow> if j = k \<and> owned u keep s then None else Some s)"
    using delete_if_owned_run [OF Cons.prems] by blast
  have up: "redis_up (w\<lparr>redis_sessions := es\<rparr>)" using Cons.prems by simp
  obtain fs where b: "forS (delete_if_owned u keep) ks (w\<lparr>redis_sessions := es\<rparr>) = (Inr (), w\<lparr>redis_sessions := fs\<rparr>)"
      "\<And>j. redis_lookup (clock w) j fs = (case redis_lookup (clock w) j es of None \<Rightarrow> None
            | Some s \<Rightarrow> if j \<in> set ks \<and> owned u keep s then None else Some s)"
    using Cons.IH [OF up] by auto
  have "forS (delete_if_owned u keep) (k # ks) w = (Inr (), w\<lparr>redis_sessions := fs\<rparr>)" using a(1) b(1) by simp
  moreover have "redis_lookup (clock w) j fs = (case redis_lookup (clock w) j (redis_sessions w) of None \<Rightarrow> None
      | Some s \<Rightarrow> if j \<in> set (k # ks) \<and> owned u keep s then None else Some s)" for j
    unfolding b(2) a(2) by (auto split: option.splits)
  ultimately show ?case by blast
qed

lemma forS_concat: "forS (\<lambda>ks. forS f ks) kss = forS f (concat kss)"
  by (induction kss) (simp_all add: forS_append)

text \<open>
  What Redis promises of a full \<open>SCAN\<close> iteration: every key that is present throughout is returned at least once.
\<close>

definition scan_complete :: "auth_env \<Rightarrow> bool" where
  "scan_complete env \<longleftrightarrow> (\<forall>es. set (map re_key es) \<subseteq> set (concat (scan env es)))"

lemma lookup_key: "redis_lookup now k es = Some v \<Longrightarrow> k \<in> set (map re_key es)"
  by (auto simp: redis_lookup_def live_entry_def dest!: select_one_Some)

lemma delete_sessions_run:
  assumes "redis_up w" and "scan_complete env"
  shows "\<exists>es. deleteSessionsByUserId env u keep w = (Inr (), w\<lparr>redis_sessions := es\<rparr>)
     \<and> (\<forall>j. redis_lookup (clock w) j es = (case redis_lookup (clock w) j (redis_sessions w) of None \<Rightarrow> None
            | Some s \<Rightarrow> if owned u keep s then None else Some s))"
proof -
  let ?ks = "concat (scan env (redis_sessions w))"
  obtain es where e: "forS (delete_if_owned u keep) ?ks w = (Inr (), w\<lparr>redis_sessions := es\<rparr>)"
      "\<And>j. redis_lookup (clock w) j es = (case redis_lookup (clock w) j (redis_sessions w) of None \<Rightarrow> None
            | Some s \<Rightarrow> if j \<in> set ?ks \<and> owned u keep s then None else Some s)"
    using delete_keys_run [OF assms(1)] by blast
  have "set (map re_key (redis_sessions w)) \<subseteq> set ?ks" using assms(2) unfolding scan_complete_def by (rule spec)
  then have "redis_lookup (clock w) j (redis_sessions w) = Some s \<Longrightarrow> j \<in> set ?ks" for j s
    using lookup_key [of "clock w" j "redis_sessions w" s] by (meson subsetD)
  then have "redis_lookup (clock w) j es = (case redis_lookup (clock w) j (redis_sessions w) of None \<Rightarrow> None
      | Some s \<Rightarrow> if owned u keep s then None else Some s)" for j
    unfolding e(2) by (auto split: option.splits)
  moreover have "deleteSessionsByUserId env u keep w = (Inr (), w\<lparr>redis_sessions := es\<rparr>)"
    using assms(1) e(1) by (simp add: deleteSessionsByUserId_def redis_command_def forS_concat)
  ultimately show ?thesis by blast
qed

section \<open>One-time tokens\<close>

lemma invalidated:
  assumes "t \<in> set (invalidate_tokens now u ts)" and "otk_user t = u"
  shows "otk_used_at t \<noteq> None"
proof -
  obtain q where "t = (if otk_user q = u \<and> otk_used_at q = None then q\<lparr>otk_used_at := Some now\<rparr> else q)"
    using assms(1) unfolding invalidate_tokens_def update_where_def set_map by (rule imageE)
  then show ?thesis using assms(2) by (cases "otk_user q = u \<and> otk_used_at q = None") auto
qed

text \<open>
  The contract of a table of one-time tokens: a lookup finds an unused, unexpired token of the hash, consuming marks the token of an
  id as used, retiring marks every unused token of a user.
\<close>

locale token_table =
  fixes table :: "db \<Rightarrow> one_time_token list" and find :: "int \<Rightarrow> string \<Rightarrow> db \<Rightarrow> one_time_token option"
    and consume :: "int \<Rightarrow> string \<Rightarrow> db \<Rightarrow> db" and retire :: "int \<Rightarrow> string \<Rightarrow> db \<Rightarrow> db"
  assumes find_table: "find now h d = select_one (live_token now h) (table d)"
    and consume_table: "table (consume now i d) = mark_token_used now i (table d)"
    and retire_table: "table (retire now u d) = invalidate_tokens now u (table d)"
begin

lemma found: "find now h d = Some t \<Longrightarrow> t \<in> set (table d) \<and> live_token now h t"
  unfolding find_table by (rule select_one_Some)

text \<open>With distinct hashes, a consumed token is not found again at any time.\<close>

lemma consumed:
  assumes "find now h d = Some t" and "distinct (map otk_hash (table d))" and "table d' = table (consume at' (otk_id t) d)"
  shows "find now' h d' = None"
  unfolding find_table assms(3) consume_table select_one_None
proof
  fix q assume "q \<in> set (mark_token_used at' (otk_id t) (table d))"
  then consider "q \<in> set (table d)" "otk_id q \<noteq> otk_id t" | p where "p \<in> set (table d)" "q = p\<lparr>otk_used_at := Some at'\<rparr>"
    by (auto simp: mark_token_used_def update_where_def split: if_splits)
  then show "\<not> live_token now' h q"
  proof cases
    case 1
    have "otk_hash t = h" "t \<in> set (table d)" using found [OF assms(1)] by (simp_all add: live_token_def)
    then have "otk_hash q \<noteq> h" using 1 assms(2) by (metis distinct_map inj_onD)
    then show ?thesis by (simp add: live_token_def)
  next
    case 2
    then show ?thesis by (simp add: live_token_def)
  qed
qed

text \<open>After retiring, only a token issued later can be found for the user.\<close>

lemma retired:
  assumes "table d' = table (retire now u d) @ new" and "find now' h d' = Some t" and "otk_user t = u"
  shows "t \<in> set new"
proof -
  have "t \<in> set (invalidate_tokens now u (table d)) \<or> t \<in> set new" "live_token now' h t"
    using found [OF assms(2)] unfolding assms(1) retire_table by simp_all
  moreover have "t \<in> set (invalidate_tokens now u (table d)) \<Longrightarrow> otk_used_at t \<noteq> None"
    by (rule invalidated [OF _ assms(3)])
  ultimately show ?thesis unfolding live_token_def by blast
qed

end

interpretation reset_tokens: token_table t_reset_tokens findValidResetToken markResetTokenUsedWithClient invalidateResetTokens
  by unfold_locales (simp_all add: repo_def)

interpretation email_tokens: token_table t_email_tokens findValidEmailVerificationToken markEmailVerificationTokenUsedWithClient
    invalidateEmailVerificationTokens
  by unfold_locales (simp_all add: repo_def)

text \<open>What a reset writes to the database.\<close>

definition reset_db :: "int \<Rightarrow> one_time_token \<Rightarrow> string \<Rightarrow> db \<Rightarrow> db" where
  "reset_db now t hash d = markResetTokenUsedWithClient now (otk_id t) (updatePasswordHashWithClient now (otk_user t) hash d)"

lemma history_succ:
  "history_loop env p es w = (Inr (), w') \<Longrightarrow> w' = w \<and> list_all (\<lambda>e. \<not> bcrypt_compare env p (ph_hash e)) es"
  by (induction es) (auto simp: svc_succ)

lemma validatePasswordPair_succ:
  "validatePasswordPair p c w = (Inr (), w') \<longleftrightarrow> w' = w \<and> p = c \<and> PASSWORD_REGEX p"
  by (auto simp: validatePasswordPair_def svc_succ)

lemma applyPasswordReset_succ:
  assumes "applyPasswordReset t hash ip ua w = (Inr (), w')"
  shows "\<exists>a. w' = w\<lparr>db := (reset_db (clock w) t hash (db w))\<lparr>t_password_history :=
     t_password_history (db w) @ [\<lparr>ph_user = otk_user t, ph_hash = hash, ph_created_at = clock w\<rparr>], t_audit := a\<rparr>\<rparr>"
  using assms
  by (auto simp: applyPasswordReset_def svc_succ createPasswordHistoryEntryWithClient_def auth_createAuditEntry_def insert_audit_succ
      reset_db_def markResetTokenUsedWithClient_def updatePasswordHashWithClient_def update_account_def split: if_splits)

text \<open>
  C36: what a password reset that succeeds has done. It consumed a live token of the hash; the two passwords agreed, satisfied the policy and
  matched none of the last five; the user's hash is the new one, and the new hash is in the history. No session of that
  user is live any more, while every session of other users is, and the token is dead at every later time.
\<close>

theorem password_reset_effect:
  assumes "resetPassword env salt raw new confirm ip ua w = (Inr (), w')" and "scan_complete env"
    and "distinct (map otk_hash (t_reset_tokens (db w)))"
  shows "\<exists>t. live_token (clock w) (hashToken env raw) t \<and> t \<in> set (t_reset_tokens (db w))
     \<and> new = confirm \<and> PASSWORD_REGEX new
     \<and> list_all (\<lambda>e. \<not> bcrypt_compare env new (ph_hash e)) (getLastNPasswords (otk_user t) 5 (db w))
     \<and> (\<forall>u. findUserById (otk_user t) (db w) = Some u \<longrightarrow>
          (\<exists>u'. findUserById (otk_user t) (db w') = Some u' \<and> acc_password_hash (usr_account u') = bcrypt_hash env salt new))
     \<and> (\<forall>k. redis_lookup (clock w') k (redis_sessions w') = (case redis_lookup (clock w) k (redis_sessions w) of None \<Rightarrow> None
          | Some s \<Rightarrow> if ses_user s = otk_user t then None else Some s))
     \<and> findValidResetToken now' (hashToken env raw) (db w') = None"
proof -
  obtain t w1 where t: "findValidResetToken (clock w) (hashToken env raw) (db w) = Some t"
      and pol: "new = confirm" "PASSWORD_REGEX new"
      and hist: "history_loop env new (getLastNPasswords (otk_user t) PASSWORD_HISTORY_DEPTH (db w)) w = (Inr (), w)"
      and app: "applyPasswordReset t (bcrypt_hash env salt new) ip ua w = (Inr (), w1)"
      and inval: "invalidateAllSessions env (otk_user t) w1 = (Inr (), w')"
    using assms(1) by (auto simp: resetPassword_def validateResetToken_def checkPasswordHistory_def svc_succ validatePasswordPair_succ
        dest: history_succ)
  obtain a where w1: "w1 = w\<lparr>db := (reset_db (clock w) t (bcrypt_hash env salt new) (db w))\<lparr>t_password_history :=
     t_password_history (db w) @ [\<lparr>ph_user = otk_user t, ph_hash = bcrypt_hash env salt new, ph_created_at = clock w\<rparr>], t_audit := a\<rparr>\<rparr>"
    using applyPasswordReset_succ [OF app] by blast
  have up: "redis_up w1" and del: "deleteSessionsByUserId env (otk_user t) None w1 = (Inr (), w')"
    using inval by (auto simp: invalidateAllSessions_def getRedis_def deleteSessionsByUserId_def redis_command_def svc_succ)
  obtain es where es: "w' = w1\<lparr>redis_sessions := es\<rparr>"
      "\<And>j. redis_lookup (clock w1) j es = (case redis_lookup (clock w1) j (redis_sessions w1) of None \<Rightarrow> None
            | Some s \<Rightarrow> if owned (otk_user t) None s then None else Some s)"
    using delete_sessions_run [OF up assms(2), of "otk_user t" None] del by auto
  have ses: "redis_lookup (clock w') k (redis_sessions w') = (case redis_lookup (clock w) k (redis_sessions w) of None \<Rightarrow> None
      | Some s \<Rightarrow> if ses_user s = otk_user t then None else Some s)" for k
    using es(2) [of k] unfolding es(1) w1 by (simp add: owned_def cong: option.case_cong)
  have users: "t_users (db w') = t_users (updatePasswordHashWithClient (clock w) (otk_user t) (bcrypt_hash env salt new) (db w))"
    unfolding es(1) w1 by (simp add: reset_db_def markResetTokenUsedWithClient_def)
  have pw: "\<exists>u'. findUserById (otk_user t) (db w') = Some u' \<and> acc_password_hash (usr_account u') = bcrypt_hash env salt new"
    if "findUserById (otk_user t) (db w) = Some u" for u
  proof -
    have "usr_id u = otk_user t" using that unfolding findUserById_def by (rule select_one_key)
    moreover have "findUserById (otk_user t) (db w') = findUserById (otk_user t)
        (updatePasswordHashWithClient (clock w) (otk_user t) (bcrypt_hash env salt new) (db w))"
      unfolding findUserById_def users ..
    ultimately show ?thesis using that by (simp add: updatePasswordHashWithClient_def account_lookup)
  qed
  have "t_reset_tokens (db w') = t_reset_tokens (markResetTokenUsedWithClient (clock w) (otk_id t) (db w))"
    unfolding es(1) w1 by (simp add: reset_db_def markResetTokenUsedWithClient_def updatePasswordHashWithClient_def update_account_def)
  then have dead: "findValidResetToken now' (hashToken env raw) (db w') = None" by (rule reset_tokens.consumed [OF t assms(3)])
  have "list_all (\<lambda>e. \<not> bcrypt_compare env new (ph_hash e)) (getLastNPasswords (otk_user t) 5 (db w))"
    using history_succ [OF hist] by (simp add: PASSWORD_HISTORY_DEPTH_def)
  then show ?thesis using reset_tokens.found [OF t] pol pw ses dead by blast
qed

text \<open>
  a verification link works once. The first click verifies the address; a second click on the same link, at any later time,
  is refused with an authentication error and an audit entry, where the comment in the code promises silent success.
\<close>

theorem verification_link_once:
  assumes "verifyEmail env raw ip ua w = (Inr (), w1)" and "distinct (map otk_hash (t_email_tokens (db w)))"
    and "audit_ok (db w) None" and "w2 = w1\<lparr>clock := later\<rparr>"
  shows "(\<exists>t. findValidEmailVerificationToken (clock w) (hashToken env raw) (db w) = Some t
      \<and> (\<forall>u. findUserById (otk_user t) (db w) = Some u \<longrightarrow>
           (\<exists>u'. findUserById (otk_user t) (db w1) = Some u' \<and> acc_email_verified (usr_account u'))))
     \<and> (\<exists>a. verifyEmail env raw ip' ua' w2 = (Inl AuthError, w2\<lparr>db := (db w2)\<lparr>t_audit := a\<rparr>\<rparr>))"
proof -
  obtain t where t: "findValidEmailVerificationToken (clock w) (hashToken env raw) (db w) = Some t"
      and app: "applyEmailVerification t ip ua w = (Inr (), w1)"
    using assms(1) by (auto simp: verifyEmail_def svc_succ split: option.splits)
  let ?d = "markEmailVerificationTokenUsedWithClient (clock w) (otk_id t) (markUserEmailVerifiedWithClient (clock w) (otk_user t) (db w))"
  obtain a where w1: "w1 = w\<lparr>db := ?d\<lparr>t_audit := a\<rparr>\<rparr>"
    using app by (auto simp: applyEmailVerification_def svc_succ auth_createAuditEntry_def insert_audit_succ)
  have "t_email_tokens (db w2) = t_email_tokens (markEmailVerificationTokenUsedWithClient (clock w) (otk_id t) (db w))"
    unfolding assms(4) w1 by (simp add: repo_def update_account_def)
  then have dead: "findValidEmailVerificationToken later (hashToken env raw) (db w2) = None" by (rule email_tokens.consumed [OF t assms(2)])
  have ok: "audit_ok (db w2) None"
    unfolding assms(4) w1 using assms(3)
    by (simp add: markEmailVerificationTokenUsedWithClient_def markUserEmailVerifiedWithClient_def)
  have "verifyEmail env raw ip' ua' w2 = thenS (auth_createAuditEntry None ''EMAIL_VERIFICATION_FAILED'' (Some ip') (Some ua')
      [(''reason'', JStr ''invalid_or_expired'')]) (throwS AuthError) w2"
    using dead assms(4) by (simp add: verifyEmail_def)
  then have refused: "\<exists>b. verifyEmail env raw ip' ua' w2 = (Inl AuthError, w2\<lparr>db := (db w2)\<lparr>t_audit := b\<rparr>\<rparr>)"
    using auth_audit_run [OF ok] by auto
  have users: "t_users (db w1) = t_users (markUserEmailVerifiedWithClient (clock w) (otk_user t) (db w))"
    unfolding w1 by (simp add: markEmailVerificationTokenUsedWithClient_def)
  have "\<exists>u'. findUserById (otk_user t) (db w1) = Some u' \<and> acc_email_verified (usr_account u')"
    if "findUserById (otk_user t) (db w) = Some u" for u
  proof -
    have "usr_id u = otk_user t" using that unfolding findUserById_def by (rule select_one_key)
    moreover have "findUserById (otk_user t) (db w1) = findUserById (otk_user t) (markUserEmailVerifiedWithClient (clock w) (otk_user t) (db w))"
      unfolding findUserById_def users ..
    ultimately show ?thesis using that by (simp add: markUserEmailVerifiedWithClient_def account_lookup)
  qed
  then show ?thesis using t refused by blast
qed

end
