(* ===== verification/Auth_Codes.thy ===== *)
theory Auth_Codes
  imports Auth_Props
begin

text \<open>
  Backup codes: when the loop that draws them ends, and that each code of a batch stands in for the second factor exactly
  once. Then the concrete runs on which the properties of authentication are instantiated.
\<close>

section \<open>Drawing codes\<close>

lemma draw_code_length:
  assumes "length bs = 6"
  shows "length (draw_code bs) = BACKUP_CODE_LENGTH"
proof -
  obtain a b c d e f where bs: "bs = [a, b, c, d, e, f]"
    using assms by (auto simp: numeral_eq_Suc length_Suc_conv)
  have "filter (\<lambda>c. c \<noteq> CHR ''='') (to_base64 bs) = to_base64 bs" by (simp add: bs)
  moreover have "length (to_base64 bs) = 8" by (simp add: bs)
  ultimately show ?thesis by (simp add: draw_code_def toUpperCase_def to_base64url_def BACKUP_CODE_LENGTH_def)
qed

lemma collect_result:
  assumes "collect_codes n codes draws = Some r" and "distinct codes" and "length codes \<le> n"
  shows "distinct r \<and> length r = n \<and> set r \<subseteq> set codes \<union> draw_code ` set draws"
  using assms
proof (induction draws arbitrary: codes)
  case Nil
  then show ?case by (subst (asm) collect_codes.simps) (auto split: if_splits)
next
  case (Cons bs draws)
  show ?case
  proof (cases "length codes \<ge> n")
    case True
    then show ?thesis using Cons.prems by (subst (asm) collect_codes.simps) auto
  next
    case False
    let ?raw = "draw_code bs"
    show ?thesis
    proof (cases "length ?raw = BACKUP_CODE_LENGTH \<and> ?raw \<notin> set codes")
      case True
      then have "collect_codes n (codes @ [?raw]) draws = Some r"
        using Cons.prems(1) False by (subst (asm) collect_codes.simps) (simp add: Let_def)
      then show ?thesis using Cons.IH [of "codes @ [?raw]"] True False Cons.prems(2) by auto
    next
      case False': False
      then have "collect_codes n codes draws = Some r"
        using Cons.prems(1) False by (subst (asm) collect_codes.simps) (auto simp: Let_def split: if_splits)
      then show ?thesis using Cons.IH Cons.prems(2,3) by auto
    qed
  qed
qed

lemma collect_ends:
  assumes "distinct codes" and "\<forall>bs \<in> set draws. length bs = 6"
  shows "(\<exists>r. collect_codes n codes draws = Some r) \<longleftrightarrow> n \<le> card (set codes \<union> draw_code ` set draws)"
  using assms
proof (induction draws arbitrary: codes)
  case Nil
  then show ?case by (subst collect_codes.simps) (simp add: distinct_card)
next
  case (Cons bs draws)
  let ?raw = "draw_code bs"
  have raw: "length ?raw = BACKUP_CODE_LENGTH" using Cons.prems(2) draw_code_length by simp
  have rest: "\<forall>bs \<in> set draws. length bs = 6" using Cons.prems(2) by simp
  consider "length codes \<ge> n" | "\<not> length codes \<ge> n" "?raw \<in> set codes" | "\<not> length codes \<ge> n" "?raw \<notin> set codes" by blast
  then show ?case
  proof cases
    case 1
    have "length codes \<le> card (set codes \<union> draw_code ` set (bs # draws))"
      using distinct_card [OF Cons.prems(1)] by (metis List.finite_set Un_upper1 card_mono finite_UnI finite_imageI)
    then show ?thesis using 1 by (subst collect_codes.simps) simp
  next
    case 2
    then have "collect_codes n codes (bs # draws) = collect_codes n codes draws"
      by (subst collect_codes.simps) (simp add: Let_def)
    moreover have "set codes \<union> draw_code ` set (bs # draws) = set codes \<union> draw_code ` set draws" using 2 by auto
    ultimately show ?thesis using Cons.IH [OF Cons.prems(1) rest] by simp
  next
    case 3
    then have "collect_codes n codes (bs # draws) = collect_codes n (codes @ [?raw]) draws"
      using raw by (subst collect_codes.simps) (simp add: Let_def)
    moreover have "set codes \<union> draw_code ` set (bs # draws) = set (codes @ [?raw]) \<union> draw_code ` set draws" by auto
    moreover have "distinct (codes @ [?raw])" using 3 Cons.prems(1) by simp
    ultimately show ?thesis using Cons.IH [OF _ rest] by simp
  qed
qed

text \<open>
  the loop that draws backup codes ends exactly when the draws have given as many different codes as asked for, and then
  returns that many codes, all different and of eight characters.
\<close>

theorem backup_codes_drawn:
  assumes "\<forall>bs \<in> set draws. length bs = 6"
  shows "((\<exists>codes. buildBackupCodes n draws = Some codes) \<longleftrightarrow> n \<le> card (draw_code ` set draws))
     \<and> (\<forall>codes. buildBackupCodes n draws = Some codes \<longrightarrow>
          distinct codes \<and> length codes = n \<and> list_all (\<lambda>c. length c = BACKUP_CODE_LENGTH) codes)"
proof -
  have "distinct codes \<and> length codes = n \<and> list_all (\<lambda>c. length c = BACKUP_CODE_LENGTH) codes"
    if "buildBackupCodes n draws = Some codes" for codes
    using collect_result [of n "[]" draws codes] that assms draw_code_length by (fastforce simp: buildBackupCodes_def list_all_iff)
  then show ?thesis using collect_ends [of "[]" draws n] assms by (simp add: buildBackupCodes_def)
qed

section \<open>A batch of codes\<close>

definition code_rows :: "auth_env \<Rightarrow> int \<Rightarrow> string \<Rightarrow> (string \<times> string) list \<Rightarrow> one_time_token list" where
  "code_rows env now u cs = map (\<lambda>(i, raw). new_token now i u (hashToken env raw) None) cs"

lemma user_exists_codes [simp]: "user_exists (d\<lparr>t_backup_codes := x\<rparr>) u = user_exists d u"
  by (cases u) (simp_all add: user_exists_def)

lemma store_codes_run:
  assumes "user_exists (db w) (Some u)"
  shows "forS (\<lambda>(i, raw). tryExecS (createBackupCodeWithClient now i u (hashToken env raw))) cs w =
     (Inr (), w\<lparr>db := (db w)\<lparr>t_backup_codes := t_backup_codes (db w) @ code_rows env now u cs\<rparr>\<rparr>)"
  using assms
proof (induction cs arbitrary: w)
  case Nil
  then show ?case by (simp add: code_rows_def)
next
  case (Cons c cs)
  obtain i raw where c: "c = (i, raw)" by force
  let ?w = "w\<lparr>db := (db w)\<lparr>t_backup_codes := t_backup_codes (db w) @ [new_token now i u (hashToken env raw) None]\<rparr>\<rparr>"
  have "tryExecS (createBackupCodeWithClient now i u (hashToken env raw)) w = (Inr (), ?w)"
    using Cons.prems by (simp add: createBackupCodeWithClient_def)
  moreover have "user_exists (db ?w) (Some u)" using Cons.prems by simp
  ultimately show ?case using Cons.IH [of ?w] by (simp add: c code_rows_def)
qed

lemma generated:
  assumes "generateBackupCodes env draws ids u ip ua w = (Inr codes, w1)"
  shows "buildBackupCodes BACKUP_CODE_COUNT draws = Some codes
     \<and> t_backup_codes (db w1) = invalidate_tokens (clock w) u (t_backup_codes (db w)) @ code_rows env (clock w) u (zip ids codes)
     \<and> audit_ok (db w1) (Some u) = audit_ok (db w) (Some u)"
proof -
  obtain user where user: "findUserById u (db w) = Some user" and b: "buildBackupCodes BACKUP_CODE_COUNT draws = Some codes"
    using assms by (auto simp: generateBackupCodes_def svc_succ split: option.splits)
  have "usr_id user = u" "user \<in> set (t_users (db w))"
    using user select_one_Some [of "\<lambda>r. usr_id r = u"] unfolding findUserById_def by fast+
  then have ex: "user_exists (db w) (Some u)" by (auto simp: user_exists_def list_ex_iff)
  let ?d = "(db w)\<lparr>t_backup_codes := invalidate_tokens (clock w) u (t_backup_codes (db w)) @ code_rows env (clock w) u (zip ids codes)\<rparr>"
  have p: "persistBackupCodes env u (zip ids codes) w = (Inr (), w\<lparr>db := ?d\<rparr>)"
    using store_codes_run [of "w\<lparr>db := invalidateBackupCodesWithClient (clock w) u (db w)\<rparr>" u "clock w" env "zip ids codes"] ex
    by (simp add: persistBackupCodes_def invalidateBackupCodesWithClient_def)
  then obtain a where "w1 = w\<lparr>db := ?d\<lparr>t_audit := a\<rparr>\<rparr>"
    using assms user b by (auto simp: generateBackupCodes_def svc_succ auth_createAuditEntry_def insert_audit_succ split: option.splits)
  then show ?thesis using b by simp
qed

lemma new_code_rows:
  assumes "length ids = length codes" and "c \<in> set codes" and "distinct codes" and "distinct ids" and "inj_on (hashToken env) (set codes)"
  shows "\<exists>t. filter (unused_code u (hashToken env c)) (code_rows env now u (zip ids codes)) = [t] \<and> (otk_id t, c) \<in> set (zip ids codes)"
  using assms
proof (induction ids codes rule: list_induct2)
  case (Cons i ids x codes)
  have inj: "inj_on (hashToken env) (set codes)" using Cons.prems(4) by (auto simp: inj_on_def)
  show ?case
  proof (cases "c = x")
    case True
    have "hashToken env y \<noteq> hashToken env c" if "y \<in> set codes" for y
      using Cons.prems(2,4) that True by (auto simp: inj_on_def)
    then have "filter (unused_code u (hashToken env c)) (code_rows env now u (zip ids codes)) = []"
      by (auto simp: filter_empty_conv code_rows_def unused_code_def new_token_def dest: set_zip_rightD)
    moreover have "filter (unused_code u (hashToken env c)) (code_rows env now u (zip (i # ids) (x # codes))) =
        new_token now i u (hashToken env x) None # filter (unused_code u (hashToken env c)) (code_rows env now u (zip ids codes))"
      using True by (simp add: code_rows_def) (simp add: unused_code_def new_token_def)
    ultimately show ?thesis using True by (simp add: new_token_def)
  next
    case False
    then have c: "c \<in> set codes" using Cons.prems(1) by simp
    have "hashToken env x \<noteq> hashToken env c" using Cons.prems(1,4) False by (auto simp: inj_on_def)
    then have "filter (unused_code u (hashToken env c)) (code_rows env now u (zip (i # ids) (x # codes))) =
        filter (unused_code u (hashToken env c)) (code_rows env now u (zip ids codes))"
      by (simp add: code_rows_def unused_code_def new_token_def)
    then show ?thesis using Cons.IH [OF c _ _ inj] Cons.prems(2,3) by auto
  qed
qed simp


lemma old_codes_dead: "filter (unused_code u h) (invalidate_tokens now u ts) = []"
  using invalidated by (fastforce simp: filter_empty_conv unused_code_def)

lemma filter_marked: "filter (unused_code u h) (mark_token_used now i ts) = filter (\<lambda>t. otk_id t \<noteq> i) (filter (unused_code u h) ts)"
  by (induction ts) (simp_all add: mark_token_used_def update_where_def unused_code_def)

lemma zip_unique_id:
  assumes "distinct ids" and "(i, x) \<in> set (zip ids ys)" and "(i, y) \<in> set (zip ids ys)"
  shows "x = y"
  using assms by (auto simp: in_set_zip nth_eq_iff_index_eq)

lemma backup_code_run:
  assumes "audit_ok (db w) (Some u)"
  shows "findUnusedBackupCode u (hashToken env c) (db w) = Some t \<Longrightarrow>
       \<exists>a. verifyBackupCodeOrThrow env (Some r) u c ip ua w =
         (Inr (), w\<lparr>db := (markBackupCodeUsedWithClient (clock w) (otk_id t) (db w))\<lparr>t_audit := a\<rparr>\<rparr>)"
    and "findUnusedBackupCode u (hashToken env c) (db w) = None \<Longrightarrow> fst (verifyBackupCodeOrThrow env (Some r) u c ip ua w) = Inl AuthError"
proof -
  assume f: "findUnusedBackupCode u (hashToken env c) (db w) = Some t"
  let ?w = "w\<lparr>db := markBackupCodeUsedWithClient (clock w) (otk_id t) (db w)\<rparr>"
  have ok: "audit_ok (db ?w) (Some u)" using assms by (simp add: markBackupCodeUsedWithClient_def)
  show "\<exists>a. verifyBackupCodeOrThrow env (Some r) u c ip ua w =
         (Inr (), w\<lparr>db := (markBackupCodeUsedWithClient (clock w) (otk_id t) (db w))\<lparr>t_audit := a\<rparr>\<rparr>)"
    using auth_audit_run [OF ok] f by (simp add: verifyBackupCodeOrThrow_def consumeBackupCode_def)
       (rule exI, rule refl)
next
  assume "findUnusedBackupCode u (hashToken env c) (db w) = None"
  then show "fst (verifyBackupCodeOrThrow env (Some r) u c ip ua w) = Inl AuthError"
    using assms by (simp add: verifyBackupCodeOrThrow_def logTwoFactorEvent_def auth_audit_run)
qed

text \<open>
  C38: the life of a batch of backup codes. After a batch is generated, a code of the user that can still be used belongs to the batch;
  each code of the batch is accepted, a second use of it is refused, and every other code of the batch remains usable.
\<close>

theorem backup_codes_once:
  assumes "generateBackupCodes env draws ids u ip ua w = (Inr codes, w1)" and "length ids = BACKUP_CODE_COUNT" and "distinct ids"
    and "\<forall>bs \<in> set draws. length bs = 6" and "inj_on (hashToken env) (set codes)" and "audit_ok (db w) (Some u)" and "c \<in> set codes"
  shows "length codes = BACKUP_CODE_COUNT
     \<and> (\<forall>h t. findUnusedBackupCode u h (db w1) = Some t \<longrightarrow> otk_id t \<in> set ids \<and> h \<in> hashToken env ` set codes)
     \<and> (\<exists>w2. verifyBackupCodeOrThrow env (Some r) u c ip' ua' w1 = (Inr (), w2)
         \<and> (\<forall>later. fst (verifyBackupCodeOrThrow env (Some r) u c ip' ua' (w2\<lparr>clock := later\<rparr>)) = Inl AuthError)
         \<and> (\<forall>c' \<in> set codes - {c}. findUnusedBackupCode u (hashToken env c') (db w2) \<noteq> None))"
proof -
  note g = generated [OF assms(1)]
  let ?new = "code_rows env (clock w) u (zip ids codes)"
  have codes: "distinct codes" "length codes = BACKUP_CODE_COUNT"
    using collect_result [of BACKUP_CODE_COUNT "[]" draws codes] g by (simp_all add: buildBackupCodes_def)
  have rows: "filter (unused_code u h) (t_backup_codes (db w1)) = filter (unused_code u h) ?new" for h
    using g old_codes_dead by simp
  have one: "\<exists>t. filter (unused_code u (hashToken env x)) (t_backup_codes (db w1)) = [t] \<and> (otk_id t, x) \<in> set (zip ids codes)"
    if "x \<in> set codes" for x
    unfolding rows using new_code_rows [OF _ that] codes assms(2,3,5) by simp
  obtain t where t: "filter (unused_code u (hashToken env c)) (t_backup_codes (db w1)) = [t]" "(otk_id t, c) \<in> set (zip ids codes)"
    using one [OF assms(7)] by blast
  have ok: "audit_ok (db w1) (Some u)" using g assms(6) by simp
  have found: "findUnusedBackupCode u (hashToken env c) (db w1) = Some t"
    unfolding findUnusedBackupCode_def select_one_def t(1) by simp
  obtain a where w2: "verifyBackupCodeOrThrow env (Some r) u c ip' ua' w1 =
      (Inr (), w1\<lparr>db := (markBackupCodeUsedWithClient (clock w1) (otk_id t) (db w1))\<lparr>t_audit := a\<rparr>\<rparr>)"
    using backup_code_run(1) [OF ok found] by blast
  let ?w2 = "w1\<lparr>db := (markBackupCodeUsedWithClient (clock w1) (otk_id t) (db w1))\<lparr>t_audit := a\<rparr>\<rparr>"
  have left: "filter (unused_code u h) (t_backup_codes (db ?w2)) =
      filter (\<lambda>q. otk_id q \<noteq> otk_id t) (filter (unused_code u h) (t_backup_codes (db w1)))" for h
    by (simp add: markBackupCodeUsedWithClient_def filter_marked del: filter_filter)
  have "fst (verifyBackupCodeOrThrow env (Some r) u c ip' ua' (?w2\<lparr>clock := later\<rparr>)) = Inl AuthError" for later
    using ok left [of "hashToken env c"]
    by (intro backup_code_run(2)) (simp_all add: markBackupCodeUsedWithClient_def findUnusedBackupCode_def select_one_def t(1) del: filter_filter)
  moreover have "findUnusedBackupCode u (hashToken env c') (db ?w2) \<noteq> None" if c': "c' \<in> set codes - {c}" for c'
  proof -
    obtain q where q: "filter (unused_code u (hashToken env c')) (t_backup_codes (db w1)) = [q]" "(otk_id q, c') \<in> set (zip ids codes)"
      using one c' by blast
    then have "otk_id q \<noteq> otk_id t" using zip_unique_id [OF assms(3), of "otk_id t" c codes c'] t(2) c' by auto
    then show ?thesis unfolding findUnusedBackupCode_def select_one_def left q(1) by simp
  qed
  moreover have "otk_id q \<in> set ids \<and> h \<in> hashToken env ` set codes"
    if "findUnusedBackupCode u h (db w1) = Some q" for h q
  proof -
    have "q \<in> set (filter (unused_code u h) (t_backup_codes (db w1)))"
      using that select_one_Some [of "unused_code u h"] by (simp add: findUnusedBackupCode_def)
    then show ?thesis unfolding rows
      by (auto simp: code_rows_def unused_code_def new_token_def dest: set_zip_leftD set_zip_rightD)
  qed
  ultimately show ?thesis using codes(2) w2 by blast
qed

section \<open>Examples\<close>

lemma session_facts:
  "audit_ok (db session_world) None" "audit_ok (db session_world) (Some ''u'')" "distinct (map usr_id (t_users (db session_world)))"
  "redis_client session_world" "redis_up session_world" "clock session_world = 0"
  "findUserByEmail ''u'' (db session_world) = Some (sample_user ''u'' None)"
  "findUserById ''u'' (db session_world) = Some (sample_user ''u'' None)"
  by (simp_all add: session_world_def sample_defs findUserByEmail_def findUserById_def)

definition guess :: attempt where
  "guess = \<lparr>at_session = ''g'', at_message = ''m'', at_password = ''wrong'', at_ip = ''ip'', at_agent = ''ua'', at_pause = 1000\<rparr>"

theorem five_failures_lock_witness:
  "fst (login plain_env ''s1'' ''m1'' ''u'' ''hash'' ''ip'' ''ua''
     ((attempts plain_env ''u'' (replicate 4 guess @ [guess]) session_world)
        \<lparr>clock := clock (attempts plain_env ''u'' (replicate 4 guess) session_world) + 60000\<rparr>)) = Inl AuthError"
proof -
  let ?w = "(attempts plain_env ''u'' (replicate 4 guess @ [guess]) session_world)
        \<lparr>clock := clock (attempts plain_env ''u'' (replicate 4 guess) session_world) + 60000\<rparr>"
  have c: "counting ''u'' sample_account 0 (redis_sessions session_world) session_world"
    using session_facts by (simp add: counting_def sample_user_def sample_account_def)
  have l: "list_all (wrong plain_env sample_account) (replicate 4 guess @ [guess])"
    by (simp add: list_all_iff wrong_def plain_env_def guess_def sample_account_def)
  have acc: "acc_is_active sample_account" "acc_email_verified sample_account" "acc_locked_until sample_account = None"
    by (simp_all add: sample_account_def)
  show ?thesis
    using five_failures_lock [OF c l _ acc, of ?w "''s1''" "''m1''" "''hash''" "''ip''" "''ua''"] by (simp add: LOCKOUT_DURATION_MS_def)
qed

theorem login_decides_witness:
  "\<exists>resp w'. login plain_env ''s1'' ''m1'' ''u'' ''hash'' ''ip'' ''ua'' session_world = (Inr resp, w')
     \<and> lr_tokenType resp = Full \<and> lr_expiresIn resp = JWT_EXPIRY plain_env
     \<and> w' = logged_in plain_env ''s1'' ''m1'' (sample_user ''u'' None) ''ip'' ''ua'' session_world"
proof -
  obtain r w' where l: "login plain_env ''s1'' ''m1'' ''u'' ''hash'' ''ip'' ''ua'' session_world = (r, w')" by force
  have "readable plain_env (usr_account u)" if "u \<in> set (t_users (db session_world))" for u
    using that by (simp add: session_world_def sample_defs readable_def)
  note d = login_decides [OF session_facts(1,3,4,5) this l]
  have "refusal (clock session_world) (usr_account (sample_user ''u'' None)) = None"
    by (simp add: refusal_def sample_user_def sample_account_def)
  moreover have "bcrypt_compare plain_env ''hash'' (acc_password_hash (usr_account (sample_user ''u'' None)))"
    "\<not> acc_2fa_enabled (usr_account (sample_user ''u'' None))"
    by (simp_all add: plain_env_def sample_user_def sample_account_def)
  ultimately show ?thesis using d l session_facts(6,7) by auto
qed

definition token_world :: world where
  "token_world = session_world\<lparr>db := (db session_world)\<lparr>t_reset_tokens := [new_token 0 ''r1'' ''u'' ''raw'' (Some 3600000)],
     t_email_tokens := [new_token 0 ''e1'' ''u'' ''raw'' (Some 3600000)]\<rparr>\<rparr>"

lemma token_facts:
  "findValidResetToken (clock token_world) (hashToken plain_env ''raw'') (db token_world) = Some (new_token 0 ''r1'' ''u'' ''raw'' (Some 3600000))"
  "findValidEmailVerificationToken (clock token_world) (hashToken plain_env ''raw'') (db token_world) = Some (new_token 0 ''e1'' ''u'' ''raw'' (Some 3600000))"
  "audit_ok (db token_world) u = audit_ok (db session_world) u" "redis_client token_world" "redis_up token_world"
  "clock token_world = 0" "redis_sessions token_world = [plain_session]" "getLastNPasswords v n (db token_world) = []"
  "distinct (map otk_hash (t_reset_tokens (db token_world)))" "distinct (map otk_hash (t_email_tokens (db token_world)))"
  using session_facts
  by (simp_all add: token_world_def repo_def live_token_def new_token_def hashToken_def plain_env_def)
     (simp_all add: session_world_def sample_defs)

lemma plain_scan: "scan_complete plain_env"
  by (simp add: scan_complete_def plain_env_def)


theorem password_reset_effect_witness:
  "\<exists>w'. resetPassword plain_env ''salt'' ''raw'' ''Correct-Horse-1'' ''Correct-Horse-1'' ''ip'' ''ua'' token_world = (Inr (), w')
     \<and> redis_lookup (clock w') ''session:s'' (redis_sessions w') = None \<and> findValidResetToken 1 (hashToken plain_env ''raw'') (db w') = None"
proof -
  let ?t = "new_token 0 ''r1'' ''u'' ''raw'' (Some 3600000)"
  have "PASSWORD_REGEX ''Correct-Horse-1''" by code_simp
  then have pair: "validatePasswordPair ''Correct-Horse-1'' ''Correct-Horse-1'' token_world = (Inr (), token_world)"
    by (simp add: validatePasswordPair_succ)
  have tok: "validateResetToken plain_env ''raw'' token_world = (Inr ?t, token_world)"
    using token_facts(1) by (simp add: validateResetToken_def)
  have hist: "checkPasswordHistory plain_env (otk_user ?t) ''Correct-Horse-1'' token_world = (Inr (), token_world)"
    by (simp add: checkPasswordHistory_def token_facts)
  let ?d = "updatePasswordHashWithClient 0 ''u'' ''Correct-Horse-1'' (db token_world)"
  have ok: "audit_ok ?d (Some ''u'')"
    using token_facts(3) [of "Some ''u''"] session_facts(2) by (simp add: updatePasswordHashWithClient_def)
  then have "user_exists (?d\<lparr>t_reset_tokens := x\<rparr>) (Some ''u'')" for x by (simp add: audit_ok_def user_exists_def)
  then obtain w1 where app: "applyPasswordReset ?t (bcrypt_hash plain_env ''salt'' ''Correct-Horse-1'') ''ip'' ''ua'' token_world = (Inr (), w1)"
    "redis_up w1" "redis_client w1"
    using ok token_facts(4,5,6)
    by (simp add: applyPasswordReset_def plain_env_def new_token_def createPasswordHistoryEntryWithClient_def
        markResetTokenUsedWithClient_def auth_audit_run)
  obtain es where "deleteSessionsByUserId plain_env (otk_user ?t) None w1 = (Inr (), w1\<lparr>redis_sessions := es\<rparr>)"
    using delete_sessions_run [OF app(2) plain_scan] by blast
  then have "resetPassword plain_env ''salt'' ''raw'' ''Correct-Horse-1'' ''Correct-Horse-1'' ''ip'' ''ua'' token_world = (Inr (), w1\<lparr>redis_sessions := es\<rparr>)"
    using pair tok hist app(1,3) by (simp add: resetPassword_def invalidateAllSessions_def getRedis_def)
  note r = this password_reset_effect [OF this plain_scan token_facts(9), of 1]
  have only: "t = ?t" if "t \<in> set (t_reset_tokens (db token_world))" for t using that by (simp add: token_world_def)
  let ?w = "w1\<lparr>redis_sessions := es\<rparr>"
  obtain t where t: "t \<in> set (t_reset_tokens (db token_world))"
      "\<forall>k. redis_lookup (clock ?w) k (redis_sessions ?w) = (case redis_lookup (clock token_world) k (redis_sessions token_world) of None \<Rightarrow> None
          | Some s \<Rightarrow> if ses_user s = otk_user t then None else Some s)"
      "findValidResetToken 1 (hashToken plain_env ''raw'') (db ?w) = None"
    using r(2) by (elim exE conjE) (rule that)
  have "redis_lookup (clock ?w) ''session:s'' (redis_sessions ?w) =
       (case redis_lookup 0 ''session:s'' [plain_session] of None \<Rightarrow> None | Some s \<Rightarrow> if ses_user s = ''u'' then None else Some s)"
    using t(2) [THEN spec, of "''session:s''"] only [OF t(1)] unfolding token_facts(6,7) by (simp add: new_token_def split: option.split)
  moreover have "redis_lookup 0 ''session:s'' [plain_session] = Some (re_value plain_session)" "ses_user (re_value plain_session) = ''u''"
    by (simp_all add: redis_lookup_def live_entry_def plain_session_def)
  ultimately show ?thesis using r(1) t(3) by auto
qed

theorem verification_link_once_witness:
  "\<exists>w1. verifyEmail plain_env ''raw'' ''ip'' ''ua'' token_world = (Inr (), w1)
     \<and> fst (verifyEmail plain_env ''raw'' ''ip'' ''ua'' (w1\<lparr>clock := 5000\<rparr>)) = Inl AuthError"
proof -
  have "audit_ok (markUserEmailVerifiedWithClient 0 ''u'' (db token_world)) (Some ''u'')"
    using token_facts(3) session_facts(2) by (simp add: markUserEmailVerifiedWithClient_def)
  then obtain w1 where v: "verifyEmail plain_env ''raw'' ''ip'' ''ua'' token_world = (Inr (), w1)"
    using token_facts(2,6) by (simp add: verifyEmail_def applyEmailVerification_def markEmailVerificationTokenUsedWithClient_def
      new_token_def auth_audit_run)
  then show ?thesis
    using verification_link_once [OF v token_facts(10) _ refl, of "''ip''" "''ua''" 5000] token_facts(3) session_facts(1) by auto
qed

theorem backup_codes_drawn_witness: "\<exists>codes. buildBackupCodes 1 [replicate 6 0] = Some codes \<and> length codes = 1"
proof -
  have d: "\<forall>bs \<in> set [replicate 6 (0 :: byte)]. length bs = 6" by simp
  have "(1 :: nat) \<le> card (draw_code ` set [replicate 6 0])" by simp
  then obtain codes where "buildBackupCodes 1 [replicate 6 0] = Some codes" using backup_codes_drawn [OF d, of 1] by blast
  then show ?thesis using backup_codes_drawn [OF d, of 1] by blast
qed

definition code_draws :: "byte list list" where
  "code_draws = map (\<lambda>i. i # replicate 5 0) [0, 4, 8, 12, 16, 20, 24, 28]"

definition code_world :: world where
  "code_world = world_of (blank_db\<lparr>t_users := [(sample_user ''u'' None)\<lparr>usr_account := sample_account\<lparr>acc_2fa_enabled := True\<rparr>\<rparr>]\<rparr>)"

lemma code_draws_distinct: "distinct (map draw_code code_draws)"
  by code_simp


theorem backup_codes_once_witness:
  "\<exists>codes w1 w2. generateBackupCodes plain_env code_draws (map (\<lambda>i. [i]) ''abcdefgh'') ''u'' ''ip'' ''ua'' code_world = (Inr codes, w1)
     \<and> verifyBackupCodeOrThrow plain_env (Some (sample_user ''u'' None)) ''u'' (codes ! 0) ''ip'' ''ua'' w1 = (Inr (), w2)
     \<and> fst (verifyBackupCodeOrThrow plain_env (Some (sample_user ''u'' None)) ''u'' (codes ! 0) ''ip'' ''ua'' (w2\<lparr>clock := 1\<rparr>)) = Inl AuthError"
proof -
  have six: "\<forall>bs \<in> set code_draws. length bs = 6" by (simp add: code_draws_def)
  have "card (draw_code ` set code_draws) = 8"
    using distinct_card [OF code_draws_distinct] by (simp add: code_draws_def)
  then obtain codes where codes: "buildBackupCodes BACKUP_CODE_COUNT code_draws = Some codes"
    using collect_ends [of "[]" code_draws BACKUP_CODE_COUNT] six by (auto simp: buildBackupCodes_def BACKUP_CODE_COUNT_def)
  have "length codes = 8" using collect_result [of BACKUP_CODE_COUNT "[]" code_draws codes] codes by (simp add: buildBackupCodes_def BACKUP_CODE_COUNT_def)
  then have c: "codes ! 0 \<in> set codes" by simp
  have ok: "audit_ok (db code_world) (Some ''u'')" "user_exists (db code_world) (Some ''u'')"
    by (simp_all add: code_world_def world_of_def sample_defs)
  let ?d = "invalidateBackupCodesWithClient 0 ''u'' (db code_world)" and ?ids = "map (\<lambda>i. [i]) ''abcdefgh''"
  have p: "persistBackupCodes plain_env ''u'' (zip ?ids codes) code_world =
      (Inr (), code_world\<lparr>db := ?d\<lparr>t_backup_codes := t_backup_codes ?d @ code_rows plain_env 0 ''u'' (zip ?ids codes)\<rparr>\<rparr>)"
    using store_codes_run [of "code_world\<lparr>db := ?d\<rparr>" "''u''" 0 plain_env "zip ?ids codes"] ok
    by (simp add: persistBackupCodes_def invalidateBackupCodesWithClient_def code_world_def world_of_def)
  obtain w1 where g: "generateBackupCodes plain_env code_draws ?ids ''u'' ''ip'' ''ua'' code_world = (Inr codes, w1)"
  proof -
    have "findUserById ''u'' (db code_world) = Some ((sample_user ''u'' None)\<lparr>usr_account := sample_account\<lparr>acc_2fa_enabled := True\<rparr>\<rparr>)"
      by (simp add: findUserById_def code_world_def world_of_def sample_user_def)
    then show thesis
      using that codes p ok(1) by (simp add: generateBackupCodes_def invalidateBackupCodesWithClient_def auth_audit_run)
  qed
  have i: "inj_on (hashToken plain_env) (set codes)" by (rule inj_onI) (simp add: hashToken_def plain_env_def)
  show ?thesis
    using backup_codes_once [OF g _ _ six i ok(1) c, of "sample_user ''u'' None" "''ip''" "''ua''"] g
    by (simp add: BACKUP_CODE_COUNT_def) blast
qed

end
