(* ===== verification/Onboarding.thy ===== *)
theory Onboarding
  imports Invoice_Access Auth
begin

text \<open>
  \<open>services/onboarding\<close>, the supplier side: the eligibility questionnaire with its throttle, registration with sanctions
  screening, the documents on disk and their review, the state of the know-your-customer check, URSB and litigation checks,
  feedback. The list in \<open>config/sanctions.json\<close>, bcrypt, encryption and the hash functions are arguments; the JSON of the
  directors is text.
\<close>

section \<open>Environment\<close>

record sanctions_entry =
  sn_name :: string
  sn_registration_number :: "string option"
  sn_reason :: string
  sn_pep :: bool

record onboarding_env =
  oe_auth :: auth_env
  oe_encrypt :: "string \<Rightarrow> ris_error + string"
  oe_decrypt :: "string \<Rightarrow> ris_error + string"
  oe_hashDocument :: "byte list \<Rightarrow> string"
  oe_sanctions :: "sanctions_entry list option"
  oe_upload_dir :: "string list"

definition ALLOWED_MIME_TYPES :: "string list" where
  "ALLOWED_MIME_TYPES = [''application/pdf'', ''image/jpeg'', ''image/png'']"

definition MAX_FILE_SIZE :: int where
  "MAX_FILE_SIZE = 10 * 1024 * 1024"

definition REQUIRED_DOC_TYPE_GROUPS :: "string list list" where
  "REQUIRED_DOC_TYPE_GROUPS = [[''certificate_of_incorporation''], [''tax_registration''], [''id_document'', ''director_id''],
     [''supplier_agreement'', ''signed_supplier_agreement'']]"

definition queueOnboardingNotification :: "string \<Rightarrow> json_obj \<Rightarrow> unit service" where
  "queueOnboardingNotification type payload = enqueueS Onboarding_notification type payload"

section \<open>Eligibility\<close>

datatype years_in_business = Years int | Bucket string

definition yearsInBusinessToNumber :: "years_in_business \<Rightarrow> int" where
  "yearsInBusinessToNumber v =
     (case v of Years n \<Rightarrow> n
      | Bucket b \<Rightarrow> if b = ''0-1'' then 0 else if b = ''2-5'' then 2 else if b = ''6-10'' then 6 else if b = ''10+'' then 10 else 0)"

record eligibility_input =
  ei_registered :: bool
  ei_authorized :: bool
  ei_years :: years_in_business
  ei_funding :: "int option"
  ei_email :: "string option"

record eligibility_result =
  er_passed :: bool
  er_session_token :: "string option"

record throttle_signals =
  ts_5min :: int
  ts_1hour :: int
  ts_24hour :: int
  ts_30day :: int
  ts_pass_at :: "int option"
  ts_fail_at :: "int option"

text \<open>The rows an attempt is judged by: the last thirty days, same e-mail in any case or same address. \<open>MAX\<close> of no rows is \<open>NULL\<close>.\<close>

definition same_applicant :: "string option \<Rightarrow> string option \<Rightarrow> eligibility_check \<Rightarrow> bool" where
  "same_applicant email ip r \<longleftrightarrow>
     (case (email, elg_email r) of (Some e, Some x) \<Rightarrow> toLowerCase x = toLowerCase e | _ \<Rightarrow> False)
     \<or> (case ip of None \<Rightarrow> False | Some i \<Rightarrow> elg_ip r = Some i)"

fun newest :: "int list \<Rightarrow> int option" where
  "newest [] = None"
| "newest (x # xs) = Some (fold max xs x)"

definition getEligibilityThrottleSignals :: "int \<Rightarrow> string option \<Rightarrow> string option \<Rightarrow> db \<Rightarrow> throttle_signals" where
  [repo_def]: "getEligibilityThrottleSignals now email ip d =
     (let rows = filter (\<lambda>r. elg_created_at r > now - 30 * day_ms \<and> same_applicant email ip r) (t_eligibility d);
          fails = (\<lambda>window. int (length (filter (\<lambda>r. \<not> elg_passed r \<and> elg_created_at r > now - window) rows)))
      in \<lparr>ts_5min = fails 300000, ts_1hour = fails 3600000, ts_24hour = fails day_ms, ts_30day = fails (30 * day_ms),
          ts_pass_at = newest (map elg_created_at (filter elg_passed rows)),
          ts_fail_at = newest (map elg_created_at (filter (\<lambda>r. \<not> elg_passed r) rows))\<rparr>)"

text \<open>Tier, failures required and seconds to wait.\<close>

definition THROTTLE_TIERS :: "(string \<times> int \<times> int) list" where
  "THROTTLE_TIERS = [(''5min'', 2, 300), (''1hour'', 3, 3600), (''24hour'', 5, 86400), (''30day'', 7, 86400 * 30)]"

definition fail_count :: "throttle_signals \<Rightarrow> string \<Rightarrow> int" where
  "fail_count s tier =
     (if tier = ''5min'' then ts_5min s else if tier = ''1hour'' then ts_1hour s else if tier = ''24hour'' then ts_24hour s else ts_30day s)"

definition pickThrottleTier :: "throttle_signals \<Rightarrow> (string \<times> int \<times> int) option" where
  "pickThrottleTier signals = select_one (\<lambda>(tier, failsRequired, _). fail_count signals tier \<ge> failsRequired) (rev THROTTLE_TIERS)"

definition forgiven :: "throttle_signals \<Rightarrow> bool" where
  "forgiven s \<longleftrightarrow> (case ts_pass_at s of None \<Rightarrow> False
     | Some p \<Rightarrow> (case ts_fail_at s of None \<Rightarrow> True | Some f \<Rightarrow> p > f))"

definition enforceEligibilityThrottle :: "string option \<Rightarrow> string \<Rightarrow> unit service" where
  "enforceEligibilityThrottle email ip =
     bindS nowS (\<lambda>now.
     bindS (queryS (getEligibilityThrottleSignals now email (Some ip))) (\<lambda>signals.
       if forgiven signals then returnS ()
       else case pickThrottleTier signals of
              None \<Rightarrow> returnS ()
            | Some (tier, _, retrySeconds) \<Rightarrow> throwS (ThrottledError tier retrySeconds)))"

text \<open>The columns of \<open>eligibility_checks\<close> with their widths, the check on the years and the unique token.\<close>

definition createEligibilityCheck :: "eligibility_check \<Rightarrow> db \<Rightarrow> ris_error + db" where
  [repo_def]: "createEligibilityCheck r d =
     (if 64 < length (elg_token r) \<or> (case elg_ip r of None \<Rightarrow> False | Some i \<Rightarrow> 45 < length i)
         \<or> (case elg_email r of None \<Rightarrow> False | Some e \<Rightarrow> 255 < length e) then Inl (DbError ''22001'')
      else if elg_years r < 0 then Inl (DbError ''23514'')
      else if list_ex (\<lambda>q. elg_id q = elg_id r \<or> elg_token q = elg_token r) (t_eligibility d) then Inl (DbError ''23505'')
      else Inr (d\<lparr>t_eligibility := t_eligibility d @ [r]\<rparr>))"

definition eligibility_row ::
    "int \<Rightarrow> string \<Rightarrow> string \<Rightarrow> eligibility_input \<Rightarrow> int \<Rightarrow> bool \<Rightarrow> string \<Rightarrow> string option \<Rightarrow> eligibility_check" where
  "eligibility_row now i token data years passed ip email =
     \<lparr>elg_id = i, elg_token = token, elg_registered = ei_registered data, elg_authorized = ei_authorized data, elg_years = years,
      elg_passed = passed, elg_ip = Some ip, elg_email = email, elg_expires_at = Some (now + day_ms), elg_funding = ei_funding data,
      elg_created_at = now\<rparr>"

definition recordFailedEligibility ::
    "string \<Rightarrow> string \<Rightarrow> eligibility_input \<Rightarrow> int \<Rightarrow> string \<Rightarrow> string option \<Rightarrow> eligibility_result service" where
  "recordFailedEligibility i token data years ip email =
     bindS nowS (\<lambda>now.
     thenS (tryExecS (createEligibilityCheck (eligibility_row now i token data years False ip email)))
       (returnS \<lparr>er_passed = False, er_session_token = None\<rparr>))"

definition recordPassedEligibility ::
    "string \<Rightarrow> string \<Rightarrow> eligibility_input \<Rightarrow> int \<Rightarrow> string \<Rightarrow> string option \<Rightarrow> eligibility_result service" where
  "recordPassedEligibility i token data years ip email =
     bindS nowS (\<lambda>now.
     thenS (tryExecS (createEligibilityCheck (eligibility_row now i token data years True ip email)))
       (returnS \<lparr>er_passed = True, er_session_token = Some token\<rparr>))"

definition eligible :: "eligibility_input \<Rightarrow> bool" where
  "eligible data \<longleftrightarrow> ei_registered data \<and> ei_authorized data \<and> yearsInBusinessToNumber (ei_years data) \<ge> 1"

definition normalised_email :: "eligibility_input \<Rightarrow> string option" where
  "normalised_email data = map_option (\<lambda>e. toLowerCase (js_trim e)) (ei_email data)"

definition checkEligibility :: "string \<Rightarrow> string \<Rightarrow> eligibility_input \<Rightarrow> string \<Rightarrow> eligibility_result service" where
  "checkEligibility i token data ip =
     thenS (enforceEligibilityThrottle (normalised_email data) ip)
       (let years = yearsInBusinessToNumber (ei_years data)
        in if \<not> eligible data then recordFailedEligibility i token data years ip (normalised_email data)
           else recordPassedEligibility i token data years ip (normalised_email data))"

section \<open>Sanctions\<close>

definition loadSanctionsList :: "onboarding_env \<Rightarrow> ris_error + sanctions_entry list" where
  "loadSanctionsList env =
     (case oe_sanctions env of
        None \<Rightarrow> Inl (JsError ''SANCTIONS_LIST_EMPTY'')
      | Some entries \<Rightarrow> if entries = [] then Inl (JsError ''SANCTIONS_LIST_EMPTY'') else Inr entries)"

definition listed :: "string \<Rightarrow> string \<Rightarrow> sanctions_entry \<Rightarrow> bool" where
  "listed companyName registrationNumber e \<longleftrightarrow>
     toLowerCase (sn_name e) = toLowerCase companyName
     \<or> (case sn_registration_number e of None \<Rightarrow> False | Some n \<Rightarrow> n \<noteq> [] \<and> n = registrationNumber)"

definition findSanctionsMatch :: "sanctions_entry list \<Rightarrow> string \<Rightarrow> string \<Rightarrow> sanctions_entry option" where
  "findSanctionsMatch entries companyName registrationNumber = select_one (listed companyName registrationNumber) entries"

section \<open>Registration\<close>

record supplier_registration =
  sr_email :: string
  sr_password :: string
  sr_company_name :: string
  sr_registration_number :: string
  sr_tax_id :: string
  sr_directors :: string
  sr_bank_name :: string
  sr_bank_account_number :: string
  sr_bank_account_name :: string
  sr_bank_branch :: string
  sr_payment_method :: string
  sr_token :: string
  sr_consent_ursb :: bool
  sr_consent_refs :: bool
  sr_consent_litigation :: bool
  sr_litigation_disclosure :: "string option"
  sr_financing_amount :: "int option"

record supplier_pii =
  sp_bank_account_number :: string
  sp_bank_account_name :: string
  sp_company_name :: string
  sp_tax_id :: string
  sp_directors :: string

definition validateConsents :: "supplier_registration \<Rightarrow> ris_error + unit" where
  "validateConsents data =
     (if \<not> sr_consent_ursb data then Inl (ValidationError ''consent_ursb_check'')
      else if \<not> sr_consent_refs data then Inl (ValidationError ''consent_supplier_refs'')
      else if \<not> sr_consent_litigation data then Inl (ValidationError ''consent_litigation_check'')
      else Inr ())"

definition findEligibilityByToken :: "int \<Rightarrow> string \<Rightarrow> db \<Rightarrow> eligibility_check option" where
  [repo_def]: "findEligibilityByToken now token d =
     select_one (\<lambda>r. elg_token r = token \<and> (case elg_expires_at r of None \<Rightarrow> True | Some e \<Rightarrow> e > now)) (t_eligibility d)"

definition emailExists :: "string \<Rightarrow> db \<Rightarrow> bool" where
  [repo_def]: "emailExists email d = list_ex (\<lambda>u. usr_email u = email) (t_users d)"

definition registrationNumberExists :: "string \<Rightarrow> db \<Rightarrow> bool" where
  [repo_def]: "registrationNumberExists n d = list_ex (\<lambda>s. sf_registration_number (sup_file s) = n) (t_suppliers d)"

definition validateRegistrationPrereqs :: "supplier_registration \<Rightarrow> unit service" where
  "validateRegistrationPrereqs data =
     bindS nowS (\<lambda>now.
     bindS (queryS (findEligibilityByToken now (sr_token data))) (\<lambda>eligibility.
     thenS (guardS (case eligibility of None \<Rightarrow> False | Some r \<Rightarrow> elg_passed r) (BusinessRuleError ''ELIGIBILITY_TOKEN_INVALID''))
    (bindS (queryS (emailExists (sr_email data))) (\<lambda>exists.
     thenS (guardS (\<not> exists) (BusinessRuleError ''EMAIL_TAKEN''))
    (bindS (queryS (registrationNumberExists (sr_registration_number data))) (\<lambda>regExists.
       guardS (\<not> regExists) (BusinessRuleError ''REGISTRATION_NUMBER_TAKEN'')))))))"

definition encryptSupplierPii :: "onboarding_env \<Rightarrow> supplier_registration \<Rightarrow> ris_error + supplier_pii" where
  "encryptSupplierPii env data =
     bindE (oe_encrypt env (sr_bank_account_number data)) (\<lambda>num.
     bindE (oe_encrypt env (sr_bank_account_name data)) (\<lambda>holder.
     bindE (oe_encrypt env (sr_company_name data)) (\<lambda>company.
     bindE (oe_encrypt env (sr_tax_id data)) (\<lambda>tax.
     bindE (oe_encrypt env (sr_directors data)) (\<lambda>directors.
       Inr \<lparr>sp_bank_account_number = num, sp_bank_account_name = holder, sp_company_name = company, sp_tax_id = tax,
            sp_directors = directors\<rparr>)))))"

text \<open>
  A violated unique key is reported with the name of the constraint, which the caller looks at. Postgres checks the primary key
  first and the other keys in the order of their declaration, foreign keys at the end of the statement.
\<close>

definition unique_violation :: "string \<Rightarrow> ris_error" where
  "unique_violation constraint = DbError (''23505:'' @ constraint)"

definition new_user :: "int \<Rightarrow> string \<Rightarrow> string \<Rightarrow> string \<Rightarrow> string \<Rightarrow> user_row" where
  "new_user now i email passwordHash role =
     \<lparr>usr_id = i, usr_email = email, usr_last_2fa = None,
      usr_account = \<lparr>acc_password_hash = passwordHash, acc_role = role, acc_is_active = True, acc_email_verified = False,
        acc_2fa_enabled = False, acc_2fa_secret = None, acc_failed_count = 0, acc_locked_until = None, acc_last_login_at = None,
        acc_last_active_at = None, acc_warning_sent_at = None, acc_first_name = None, acc_last_name = None, acc_updated_at = now\<rparr>\<rparr>"

definition createUserWithClient :: "user_row \<Rightarrow> db \<Rightarrow> ris_error + db" where
  [repo_def]: "createUserWithClient u d =
     (if 255 < length (usr_email u) \<or> 255 < length (acc_password_hash (usr_account u)) then Inl (DbError ''22001'')
      else if list_ex (\<lambda>q. usr_id q = usr_id u) (t_users d) then Inl (unique_violation ''users_pkey'')
      else if list_ex (\<lambda>q. usr_email q = usr_email u) (t_users d) then Inl (unique_violation ''users_email_key'')
      else Inr (d\<lparr>t_users := t_users d @ [u]\<rparr>))"

definition new_supplier :: "int \<Rightarrow> string \<Rightarrow> string \<Rightarrow> supplier_registration \<Rightarrow> supplier_pii \<Rightarrow> supplier" where
  "new_supplier now i userId data pii =
     \<lparr>sup_id = i, sup_user = userId, sup_company_name = Some (sr_company_name data), sup_payment_method = sr_payment_method data,
      sup_kyc_status = Kyc_pending, sup_company_name_encrypted = Some (sp_company_name pii),
      sup_file = \<lparr>sf_registration_number = sr_registration_number data, sf_tax_id = None, sf_tax_id_encrypted = Some (sp_tax_id pii),
        sf_directors = ''[]'', sf_directors_encrypted = Some (sp_directors pii), sf_bank_name = Some (sr_bank_name data),
        sf_bank_account_number = Some (sp_bank_account_number pii), sf_bank_account_name = Some (sp_bank_account_name pii),
        sf_bank_branch = Some (sr_bank_branch data), sf_sanctions_flag = False, sf_pep = False,
        sf_financing_amount = sr_financing_amount data, sf_consent_ursb = sr_consent_ursb data,
        sf_consent_refs = sr_consent_refs data, sf_consent_litigation = sr_consent_litigation data,
        sf_litigation_disclosure = sr_litigation_disclosure data, sf_ursb_verified = False, sf_ursb_verified_at = None,
        sf_ursb_verified_by = None, sf_litigation_checked = False, sf_litigation_checked_at = None, sf_litigation_checked_by = None,
        sf_litigation_flag = False, sf_eligibility_token = Some (sr_token data), sf_kyc_reviewer = None, sf_kyc_approver = None,
        sf_kyc_renewal_due = None, sf_created_at = now\<rparr>\<rparr>"

definition supplier_too_long :: "supplier \<Rightarrow> bool" where
  "supplier_too_long s \<longleftrightarrow>
     (case sup_company_name s of None \<Rightarrow> False | Some n \<Rightarrow> 255 < length n) \<or> 100 < length (sf_registration_number (sup_file s))
     \<or> (case sf_bank_name (sup_file s) of None \<Rightarrow> False | Some n \<Rightarrow> 255 < length n)
     \<or> (case sf_bank_branch (sup_file s) of None \<Rightarrow> False | Some n \<Rightarrow> 255 < length n)
     \<or> (case sf_eligibility_token (sup_file s) of None \<Rightarrow> False | Some n \<Rightarrow> 64 < length n)"

definition createSupplierWithClient :: "supplier \<Rightarrow> db \<Rightarrow> ris_error + db" where
  [repo_def]: "createSupplierWithClient s d =
     (if supplier_too_long s then Inl (DbError ''22001'')
      else if (case sf_financing_amount (sup_file s) of None \<Rightarrow> False | Some n \<Rightarrow> n < - (2 ^ 63) \<or> 2 ^ 63 \<le> n) then Inl (DbError ''22003'')
      else if list_ex (\<lambda>q. sup_id q = sup_id s) (t_suppliers d) then Inl (unique_violation ''suppliers_pkey'')
      else if list_ex (\<lambda>q. sup_user q = sup_user s) (t_suppliers d) then Inl (unique_violation ''suppliers_user_id_key'')
      else if registrationNumberExists (sf_registration_number (sup_file s)) d
      then Inl (unique_violation ''suppliers_registration_number_key'')
      else if \<not> user_exists d (Some (sup_user s))
           \<or> (case sf_eligibility_token (sup_file s) of None \<Rightarrow> False | Some t \<Rightarrow> \<not> list_ex (\<lambda>r. elg_token r = t) (t_eligibility d))
      then Inl (DbError ''23503'')
      else Inr (d\<lparr>t_suppliers := t_suppliers d @ [s]\<rparr>))"

definition createUserAndSupplier ::
    "supplier_registration \<Rightarrow> string \<Rightarrow> string \<Rightarrow> string \<Rightarrow> supplier_pii \<Rightarrow> unit service" where
  "createUserAndSupplier data userId supplierId passwordHash pii =
     bindS nowS (\<lambda>now.
     thenS (tryExecS (createUserWithClient (new_user now userId (sr_email data) passwordHash ''supplier'')))
       (tryExecS (createSupplierWithClient (new_supplier now supplierId userId data pii))))"

definition writeRegistrationRows ::
    "supplier_registration \<Rightarrow> string \<Rightarrow> string \<Rightarrow> string \<Rightarrow> supplier_pii \<Rightarrow> string \<Rightarrow> string \<Rightarrow> unit service" where
  "writeRegistrationRows data userId supplierId passwordHash pii ip ua =
     thenS (createUserAndSupplier data userId supplierId passwordHash pii)
       (createAuditEntry (audit_req (Some userId) ''SUPPLIER_REGISTERED'' ''suppliers'' supplierId None
          [(''kycStatus'', JStr ''pending'')] (Some ip) (Some ua)))"

fun js_includes :: "string \<Rightarrow> string \<Rightarrow> bool" where
  "js_includes [] part \<longleftrightarrow> part = []"
| "js_includes (c # s) part \<longleftrightarrow> take (length part) (c # s) = part \<or> js_includes s part"

definition mapPostgresUniqueViolation :: "ris_error \<Rightarrow> ris_error" where
  "mapPostgresUniqueViolation err =
     (case err of
        DbError c \<Rightarrow>
          (if take 6 c = ''23505:''
           then (let constraint = drop 6 c
                 in if js_includes constraint ''email'' then BusinessRuleError ''EMAIL_TAKEN''
                    else if js_includes constraint ''registration_number'' then BusinessRuleError ''REGISTRATION_NUMBER_TAKEN''
                    else err)
           else err)
      | _ \<Rightarrow> err)"

definition executeRegistrationTx ::
    "onboarding_env \<Rightarrow> supplier_registration \<Rightarrow> string \<Rightarrow> string \<Rightarrow> string \<Rightarrow> string \<Rightarrow> string \<Rightarrow> unit service" where
  "executeRegistrationTx env data userId supplierId passwordHash ip ua =
     bindS (liftS (encryptSupplierPii env data)) (\<lambda>pii.
       catchS (transactionS (writeRegistrationRows data userId supplierId passwordHash pii ip ua))
         (\<lambda>err. throwS (mapPostgresUniqueViolation err)))"

definition buildBlockedSanctionsMetadata :: "onboarding_env \<Rightarrow> sanctions_entry \<Rightarrow> supplier_registration \<Rightarrow> string \<Rightarrow> json_obj" where
  "buildBlockedSanctionsMetadata env match data matchedEntryId =
     [(''matchedEntryId'', JStr matchedEntryId),
      (''matchKeyHash'', JStr (sha256_hex (oe_auth env) (toLowerCase (sr_company_name data) @ ''|'' @ sr_registration_number data))),
      (''reason'', JStr (sn_reason match))]"

definition auditBlockedSanctionsAttempt ::
    "onboarding_env \<Rightarrow> sanctions_entry \<Rightarrow> supplier_registration \<Rightarrow> string \<Rightarrow> string \<Rightarrow> unit service" where
  "auditBlockedSanctionsAttempt env match data ip ua =
     (let matchedEntryId = (case sn_registration_number match of None \<Rightarrow> ''unknown'' | Some n \<Rightarrow> n)
      in createAuditEntry (audit_req None ''SANCTIONS_REGISTRATION_BLOCKED'' ''suppliers'' ''pre-insert'' None
           (buildBlockedSanctionsMetadata env match data matchedEntryId) (Some ip) (Some ua)))"

definition screenSanctionsBeforeRegistration :: "onboarding_env \<Rightarrow> supplier_registration \<Rightarrow> string \<Rightarrow> string \<Rightarrow> unit service" where
  "screenSanctionsBeforeRegistration env data ip ua =
     bindS (liftS (loadSanctionsList env)) (\<lambda>entries.
       case findSanctionsMatch entries (sr_company_name data) (sr_registration_number data) of
         None \<Rightarrow> returnS ()
       | Some match \<Rightarrow> thenS (auditBlockedSanctionsAttempt env match data ip ua) (throwS (BusinessRuleError ''SANCTIONS_MATCH'')))"

text \<open>The identifiers drawn on the way: user, supplier, verification token, message; the salt of the hash and the raw token.\<close>

record registration_draws =
  rd_user :: string
  rd_supplier :: string
  rd_salt :: string
  rd_token_id :: string
  rd_message :: string
  rd_raw_token :: string

definition postRegistrationChecks ::
    "onboarding_env \<Rightarrow> registration_draws \<Rightarrow> string \<Rightarrow> string \<Rightarrow> string \<Rightarrow> unit service" where
  "postRegistrationChecks env ds email ip ua =
     thenS (catchS (issueEmailVerificationToken (oe_auth env) (rd_token_id ds) (rd_message ds) (rd_raw_token ds) (rd_user ds) email ip ua)
              (\<lambda>_. returnS ()))
       (queueOnboardingNotification ''welcome'' [(''userId'', JStr (rd_user ds)), (''supplierId'', JStr (rd_supplier ds))])"

definition registerSupplier ::
    "onboarding_env \<Rightarrow> registration_draws \<Rightarrow> supplier_registration \<Rightarrow> string \<Rightarrow> string \<Rightarrow> (string \<times> string) service" where
  "registerSupplier env ds data ip ua =
     thenS (validateRegistrationPrereqs data)
    (thenS (liftS (validateConsents data))
    (thenS (screenSanctionsBeforeRegistration env data ip ua)
    (thenS (executeRegistrationTx env data (rd_user ds) (rd_supplier ds)
              (bcrypt_hash (oe_auth env) (rd_salt ds) (sr_password data)) ip ua)
    (thenS (postRegistrationChecks env ds (sr_email data) ip ua)
       (returnS (rd_user ds, rd_supplier ds))))))"

section \<open>Profiles\<close>

definition findSupplierById :: "string \<Rightarrow> db \<Rightarrow> supplier option" where
  [repo_def]: "findSupplierById i d = select_one (\<lambda>s. sup_id s = i) (t_suppliers d)"

definition findSupplierByUserId :: "string \<Rightarrow> db \<Rightarrow> supplier option" where
  [repo_def]: "findSupplierByUserId u d = select_one (\<lambda>s. sup_user s = u) (t_suppliers d)"

definition decryptOrFallback :: "onboarding_env \<Rightarrow> string option \<Rightarrow> string option \<Rightarrow> ris_error + string option" where
  "decryptOrFallback env encrypted plaintext =
     (case encrypted of None \<Rightarrow> Inr plaintext
      | Some c \<Rightarrow> if c = [] then Inr plaintext else bindE (oe_decrypt env c) (\<lambda>p. Inr (Some p)))"

definition decryptDirectors :: "onboarding_env \<Rightarrow> string option \<Rightarrow> string \<Rightarrow> ris_error + string" where
  "decryptDirectors env encrypted plaintext =
     (case encrypted of None \<Rightarrow> Inr plaintext | Some c \<Rightarrow> if c = [] then Inr plaintext else oe_decrypt env c)"

record supplier_profile =
  spr_id :: string
  spr_user :: string
  spr_company_name :: "string option"
  spr_registration_number :: string
  spr_tax_id :: "string option"
  spr_directors :: string
  spr_bank_name :: "string option"
  spr_bank_branch :: "string option"
  spr_payment_method :: string
  spr_kyc_status :: kyc_status
  spr_sanctions_flag :: bool
  spr_financing_amount :: "int option"
  spr_consent_ursb :: bool
  spr_consent_refs :: bool
  spr_consent_litigation :: bool
  spr_ursb_verified :: bool
  spr_ursb_verified_at :: "int option"
  spr_litigation_checked :: bool
  spr_litigation_flag :: bool
  spr_created_at :: int

definition toSupplierProfile :: "onboarding_env \<Rightarrow> supplier \<Rightarrow> ris_error + supplier_profile" where
  "toSupplierProfile env s =
     bindE (decryptOrFallback env (sup_company_name_encrypted s) (sup_company_name s)) (\<lambda>company.
     bindE (decryptOrFallback env (sf_tax_id_encrypted (sup_file s)) (sf_tax_id (sup_file s))) (\<lambda>tax.
     bindE (decryptDirectors env (sf_directors_encrypted (sup_file s)) (sf_directors (sup_file s))) (\<lambda>directors.
       Inr \<lparr>spr_id = sup_id s, spr_user = sup_user s, spr_company_name = company,
            spr_registration_number = sf_registration_number (sup_file s), spr_tax_id = tax, spr_directors = directors,
            spr_bank_name = sf_bank_name (sup_file s), spr_bank_branch = sf_bank_branch (sup_file s),
            spr_payment_method = sup_payment_method s,
            spr_kyc_status = sup_kyc_status s, spr_sanctions_flag = sf_sanctions_flag (sup_file s),
            spr_financing_amount = sf_financing_amount (sup_file s), spr_consent_ursb = sf_consent_ursb (sup_file s),
            spr_consent_refs = sf_consent_refs (sup_file s), spr_consent_litigation = sf_consent_litigation (sup_file s),
            spr_ursb_verified = sf_ursb_verified (sup_file s), spr_ursb_verified_at = sf_ursb_verified_at (sup_file s),
            spr_litigation_checked = sf_litigation_checked (sup_file s), spr_litigation_flag = sf_litigation_flag (sup_file s),
            spr_created_at = sf_created_at (sup_file s)\<rparr>)))"

definition getSupplierProfile :: "onboarding_env \<Rightarrow> string \<Rightarrow> string \<Rightarrow> string \<Rightarrow> supplier_profile service" where
  "getSupplierProfile env supplierId userId role =
     bindS (queryS (findSupplierById supplierId)) (\<lambda>found.
     bindS (requireS found (NotFoundError ''Supplier'' supplierId)) (\<lambda>s.
     thenS (guardS (role = ''supplier'' \<longrightarrow> sup_user s = userId) ForbiddenError)
       (liftS (toSupplierProfile env s))))"

fun map_results :: "('a \<Rightarrow> ris_error + 'b) \<Rightarrow> 'a list \<Rightarrow> ris_error + 'b list" where
  "map_results f [] = Inr []"
| "map_results f (x # xs) = bindE (f x) (\<lambda>y. bindE (map_results f xs) (\<lambda>ys. Inr (y # ys)))"

definition listSuppliers :: "kyc_status option \<Rightarrow> int \<Rightarrow> int \<Rightarrow> db \<Rightarrow> ris_error + supplier list \<times> int" where
  [repo_def]: "listSuppliers filt page limit d =
     (let rows = filter (\<lambda>s. case filt of None \<Rightarrow> True | Some k \<Rightarrow> sup_kyc_status s = k) (t_suppliers d)
      in bindE (page_of page limit (sort_key (\<lambda>s. - sf_created_at (sup_file s)) rows)) (\<lambda>rs. Inr (rs, int (length rows))))"

definition listSuppliersForStaff :: "onboarding_env \<Rightarrow> kyc_status option \<Rightarrow> int \<Rightarrow> int \<Rightarrow> supplier_profile paginated service" where
  "listSuppliersForStaff env filt page limit =
     bindS (getS (\<lambda>w. listSuppliers filt page limit (db w))) (\<lambda>found.
     bindS (liftS found) (\<lambda>(rows, count).
     bindS (liftS (map_results (toSupplierProfile env) rows)) (\<lambda>data.
       returnS (buildPaginatedResult data count page limit))))"

section \<open>The page of the check\<close>

definition ADMIN_ROLES_FOR_KYC_READ :: "string list" where
  "ADMIN_ROLES_FOR_KYC_READ = [''credit_officer'', ''compliance_officer'', ''management'', ''finance_manager'', ''auditor'', ''legal'']"

definition KYC_PAGE_DOCUMENT_TYPE_MAP :: "string \<Rightarrow> string option" where
  "KYC_PAGE_DOCUMENT_TYPE_MAP = map_of
     [(''certificate_of_incorporation'', ''certificate_of_incorporation''), (''directors_shareholders'', ''directors_shareholders''),
      (''tax_registration'', ''tax_registration''), (''bank_account_details'', ''bank_account_details''),
      (''supplier_agreement'', ''supplier_agreement''), (''board_resolution'', ''board_resolution''),
      (''id_document'', ''id_document''), (''additional'', ''additional''),
      (''director_id'', ''id_document''), (''signed_supplier_agreement'', ''supplier_agreement'')]"

text \<open>An id of the path is a supplier or, for a supplier asking for itself, its user.\<close>

definition resolveSupplierForRequester :: "string \<Rightarrow> string \<Rightarrow> string \<Rightarrow> supplier option service" where
  "resolveSupplierForRequester idParam userId role =
     bindS (queryS (findSupplierById idParam)) (\<lambda>found.
       case found of
         Some s \<Rightarrow> returnS (Some s)
       | None \<Rightarrow> if role = ''supplier'' \<and> idParam = userId then queryS (findSupplierByUserId userId) else returnS None)"

definition authorizeKycRead :: "supplier \<Rightarrow> string \<Rightarrow> string \<Rightarrow> unit service" where
  "authorizeKycRead s userId role =
     guardS (role \<in> set ADMIN_ROLES_FOR_KYC_READ \<or> (role = ''supplier'' \<and> sup_user s = userId)) ForbiddenError"

definition mapKycOverallStatus :: "kyc_status \<Rightarrow> string" where
  "mapKycOverallStatus k =
     (case k of Kyc_pending \<Rightarrow> ''pending'' | Kyc_approved \<Rightarrow> ''approved'' | Kyc_rejected \<Rightarrow> ''rejected''
      | Kyc_documents_submitted \<Rightarrow> ''in_progress'' | Kyc_under_review \<Rightarrow> ''in_progress'')"

definition mapDocReviewStatus :: "string \<Rightarrow> string" where
  "mapDocReviewStatus s = (if s = ''approved'' then ''approved'' else if s = ''rejected'' then ''rejected'' else ''pending'')"

definition mimeToExtension :: "string \<Rightarrow> string" where
  "mimeToExtension mime =
     (if mime = ''application/pdf'' then ''.pdf'' else if mime = ''image/jpeg'' then ''.jpg''
      else if mime = ''image/png'' then ''.png'' else [])"

definition deriveDisplayFileName :: "document \<Rightarrow> string" where
  "deriveDisplayFileName x = doc_type x @ ''_'' @ slice0 8 (doc_id x) @ mimeToExtension (doc_mime x)"

record kyc_page_document =
  kpd_id :: string
  kpd_type :: string
  kpd_file_name :: string
  kpd_uploaded_at :: int
  kpd_status :: string
  kpd_comments :: "string option"

definition toKycPageDocument :: "document \<Rightarrow> kyc_page_document" where
  "toKycPageDocument x =
     \<lparr>kpd_id = doc_id x, kpd_type = (case KYC_PAGE_DOCUMENT_TYPE_MAP (doc_type x) of None \<Rightarrow> ''additional'' | Some t \<Rightarrow> t),
      kpd_file_name = deriveDisplayFileName x, kpd_uploaded_at = doc_created_at x,
      kpd_status = mapDocReviewStatus (rv_status (doc_review x)), kpd_comments = rv_comments (doc_review x)\<rparr>"

definition findDocumentsBySupplierId :: "string \<Rightarrow> db \<Rightarrow> document list" where
  [repo_def]: "findDocumentsBySupplierId s d = sort_key (\<lambda>x. - doc_created_at x) (filter (\<lambda>x. doc_supplier x = s) (t_documents d))"

definition getSupplierKycStatus :: "string \<Rightarrow> string \<Rightarrow> string \<Rightarrow> (string \<times> string \<times> kyc_page_document list) service" where
  "getSupplierKycStatus idParam userId role =
     bindS (resolveSupplierForRequester idParam userId role) (\<lambda>found.
     bindS (requireS found (NotFoundError ''Supplier'' idParam)) (\<lambda>s.
     thenS (authorizeKycRead s userId role)
    (bindS (queryS (findDocumentsBySupplierId (sup_id s))) (\<lambda>documents.
       returnS (sup_id s, mapKycOverallStatus (sup_kyc_status s), map toKycPageDocument documents)))))"

section \<open>Documents\<close>

definition validateFile :: "upload_file \<Rightarrow> ris_error + unit" where
  "validateFile file =
     (if fl_mimetype file \<notin> set ALLOWED_MIME_TYPES then Inl (ValidationError ''file'')
      else if fl_size file > MAX_FILE_SIZE then Inl (ValidationError ''file'')
      else Inr ())"

definition encryptAndStoreFile :: "onboarding_env \<Rightarrow> string \<Rightarrow> upload_file \<Rightarrow> unit service" where
  "encryptAndStoreFile env documentId file =
     bindS (liftS (oe_encrypt env (to_base64 (fl_buffer file)))) (\<lambda>encryptedContent.
       writeFileS (path_string (oe_upload_dir env @ [documentId @ ''.enc''])) encryptedContent)"

definition kyc_document :: "onboarding_env \<Rightarrow> int \<Rightarrow> string \<Rightarrow> string \<Rightarrow> upload_file \<Rightarrow> string \<Rightarrow> string \<Rightarrow> document" where
  "kyc_document env now documentId supplierId file documentType userId =
     \<lparr>doc_id = documentId, doc_invoice = None, doc_supplier = supplierId, doc_type = documentType,
      doc_encrypted_path = documentId @ ''.enc'', doc_file_hash = oe_hashDocument env (fl_buffer file), doc_file_size = fl_size file,
      doc_mime = fl_mimetype file, doc_uploaded_by = userId, doc_created_at = now, doc_review = unreviewed\<rparr>"

definition persistDocumentRecord :: "onboarding_env \<Rightarrow> string \<Rightarrow> string \<Rightarrow> upload_file \<Rightarrow> string \<Rightarrow> string \<Rightarrow> unit service" where
  "persistDocumentRecord env documentId supplierId file documentType userId =
     bindS nowS (\<lambda>now. tryExecS (createDocument (kyc_document env now documentId supplierId file documentType userId)))"

definition getDocumentTypeCounts :: "string \<Rightarrow> db \<Rightarrow> string list" where
  [repo_def]: "getDocumentTypeCounts s d = remdups (map doc_type (filter (\<lambda>x. doc_supplier x = s) (t_documents d)))"

definition groups_covered :: "string list \<Rightarrow> bool" where
  "groups_covered types = list_all (\<lambda>group. list_ex (\<lambda>alias. alias \<in> set types) group) REQUIRED_DOC_TYPE_GROUPS"

definition set_kyc_status :: "kyc_status \<Rightarrow> string \<Rightarrow> db \<Rightarrow> db" where
  "set_kyc_status k i d = d\<lparr>t_suppliers := update_where (\<lambda>s. sup_id s = i) (\<lambda>s. s\<lparr>sup_kyc_status := k\<rparr>) (t_suppliers d)\<rparr>"

definition repo_updateKycStatus :: "string \<Rightarrow> kyc_status \<Rightarrow> db \<Rightarrow> db" where
  [repo_def]: "repo_updateKycStatus i k = set_kyc_status k i"

definition kyc_str :: "kyc_status \<Rightarrow> string" where
  "kyc_str k = (case k of Kyc_pending \<Rightarrow> ''pending'' | Kyc_documents_submitted \<Rightarrow> ''documents_submitted''
     | Kyc_under_review \<Rightarrow> ''under_review'' | Kyc_approved \<Rightarrow> ''approved'' | Kyc_rejected \<Rightarrow> ''rejected'')"

definition shouldAutoAdvance :: "string \<Rightarrow> db \<Rightarrow> bool" where
  "shouldAutoAdvance supplierId d =
     (case findSupplierById supplierId d of
        None \<Rightarrow> False
      | Some s \<Rightarrow> sup_kyc_status s = Kyc_pending \<and> groups_covered (getDocumentTypeCounts supplierId d))"

definition advanceToDocumentsSubmitted :: "string \<Rightarrow> string \<Rightarrow> string \<Rightarrow> string \<Rightarrow> unit service" where
  "advanceToDocumentsSubmitted supplierId userId ip ua =
     thenS (execS (repo_updateKycStatus supplierId Kyc_documents_submitted))
       (createAuditEntry (audit_req (Some userId) ''KYC_AUTO_ADVANCED'' ''suppliers'' supplierId
          (Some [(''previousStatus'', JStr ''pending'')])
          [(''newStatus'', JStr ''documents_submitted''), (''reason'', JStr ''All required documents uploaded'')] (Some ip) (Some ua)))"

definition autoAdvanceKycStatus :: "string \<Rightarrow> string \<Rightarrow> string \<Rightarrow> string \<Rightarrow> unit service" where
  "autoAdvanceKycStatus supplierId userId ip ua =
     bindS (queryS (shouldAutoAdvance supplierId)) (\<lambda>go.
       whenS go (advanceToDocumentsSubmitted supplierId userId ip ua))"

definition auditDocumentUpload ::
    "onboarding_env \<Rightarrow> string \<Rightarrow> string \<Rightarrow> string \<Rightarrow> upload_file \<Rightarrow> string \<Rightarrow> string \<Rightarrow> string \<Rightarrow> unit service" where
  "auditDocumentUpload env documentId supplierId documentType file userId ip ua =
     thenS (createAuditEntry (audit_req (Some userId) ''DOCUMENT_UPLOADED'' ''invoice_documents'' documentId None
              [(''supplierId'', JStr supplierId), (''documentType'', JStr documentType),
               (''fileHash'', JStr (oe_hashDocument env (fl_buffer file)))] (Some ip) (Some ua)))
       (autoAdvanceKycStatus supplierId userId ip ua)"

definition KYC_REVIEWER_ROLES :: "string list" where
  "KYC_REVIEWER_ROLES = [''credit_officer'', ''compliance_officer'']"

definition findActiveUsersByRoles :: "string list \<Rightarrow> db \<Rightarrow> user_row list" where
  [repo_def]: "findActiveUsersByRoles roles d =
     filter (\<lambda>u. acc_role (usr_account u) \<in> set roles \<and> acc_is_active (usr_account u)) (t_users d)"

text \<open>One job per reviewer, added to the queue directly; \<open>mid\<close> gives the id drawn for the message of each. An error ends there.\<close>

definition notifyReviewersOfDocumentUpload :: "onboarding_env \<Rightarrow> (string \<Rightarrow> string) \<Rightarrow> string \<Rightarrow> unit service" where
  "notifyReviewersOfDocumentUpload env mid documentType =
     bindS (getS (\<lambda>w. queue_set w Onboarding_notification)) (\<lambda>configured.
     if \<not> configured then returnS ()
     else catchS
       (bindS (queryS (findActiveUsersByRoles KYC_REVIEWER_ROLES)) (\<lambda>reviewers.
          forS (\<lambda>u. enqueueWithContext Onboarding_notification ''new-kyc-document-uploaded''
            [(''id'', JStr (mid (usr_id u))), (''channel'', JStr ''email''), (''template'', JStr ''new_document_uploaded''),
             (''recipient'', JStr (usr_email u)),
             (''data'', JObj [(''document_type'', JStr documentType), (''login_url'', JStr (base_url (oe_auth env) @ ''/kyc-review''))])])
            reviewers))
       (\<lambda>_. returnS ()))"

definition uploadDocument ::
    "onboarding_env \<Rightarrow> (string \<Rightarrow> string) \<Rightarrow> string \<Rightarrow> string \<Rightarrow> string \<Rightarrow> string \<Rightarrow> upload_file \<Rightarrow> string \<Rightarrow> string \<Rightarrow> string \<Rightarrow> string service" where
  "uploadDocument env mid documentId idParam userId role file documentType ip ua =
     bindS (resolveSupplierForRequester idParam userId role) (\<lambda>found.
     bindS (requireS found (NotFoundError ''Supplier'' idParam)) (\<lambda>s.
     thenS (guardS (role = ''supplier'' \<longrightarrow> sup_user s = userId) ForbiddenError)
    (thenS (liftS (validateFile file))
    (thenS (encryptAndStoreFile env documentId file)
    (thenS (persistDocumentRecord env documentId (sup_id s) file documentType userId)
    (thenS (auditDocumentUpload env documentId (sup_id s) documentType file userId ip ua)
    (thenS (notifyReviewersOfDocumentUpload env mid documentType)
       (returnS documentId))))))))"

definition ADMIN_ROLES_FOR_DOCUMENT_DOWNLOAD :: "string list" where
  "ADMIN_ROLES_FOR_DOCUMENT_DOWNLOAD = [''credit_officer'', ''compliance_officer'', ''management'', ''auditor'', ''finance_manager'', ''legal'']"

definition authorizeDocumentDownload :: "supplier \<Rightarrow> string \<Rightarrow> string \<Rightarrow> unit service" where
  "authorizeDocumentDownload s userId role =
     guardS (role \<in> set ADMIN_ROLES_FOR_DOCUMENT_DOWNLOAD \<or> (role = ''supplier'' \<and> sup_user s = userId)) ForbiddenError"

definition resolveEncryptedFilePath :: "onboarding_env \<Rightarrow> string \<Rightarrow> ris_error + string" where
  "resolveEncryptedFilePath env encryptedPath =
     (let absolute = path_resolve (oe_upload_dir env) encryptedPath; rootPath = path_string (oe_upload_dir env)
      in if startsWith absolute (rootPath @ ''/'') \<or> absolute = rootPath then Inr absolute else Inl (JsError ''DOCUMENT_PATH_INVALID''))"

definition readAndDecryptDocument :: "onboarding_env \<Rightarrow> string \<Rightarrow> string \<Rightarrow> byte list service" where
  "readAndDecryptDocument env documentId encryptedPath =
     bindS (liftS (resolveEncryptedFilePath env encryptedPath)) (\<lambda>absolute.
     bindS (getS (\<lambda>w. files w absolute)) (\<lambda>stored.
     bindS (requireS stored (NotFoundError ''Document'' documentId)) (\<lambda>encryptedContent.
       case oe_decrypt env encryptedContent of
         Inl e \<Rightarrow> throwS (JsError ''DOCUMENT_DECRYPT_FAILED'')
       | Inr base64Plain \<Rightarrow> returnS (from_base64 base64Plain))))"

definition buildDownloadFileName :: "document \<Rightarrow> string" where
  "buildDownloadFileName x = doc_type x @ ''_'' @ slice0 8 (doc_id x) @ mimeToExtension (doc_mime x)"

definition findDocumentByIdAndSupplier :: "string \<Rightarrow> string \<Rightarrow> db \<Rightarrow> document option" where
  [repo_def]: "findDocumentByIdAndSupplier i s d = select_one (\<lambda>x. doc_id x = i \<and> doc_supplier x = s) (t_documents d)"

definition getSupplierDocumentFile ::
    "onboarding_env \<Rightarrow> string \<Rightarrow> string \<Rightarrow> string \<Rightarrow> string \<Rightarrow> (byte list \<times> string \<times> string) service" where
  "getSupplierDocumentFile env idParam docId userId role =
     bindS (resolveSupplierForRequester idParam userId role) (\<lambda>found.
     bindS (requireS found (NotFoundError ''Supplier'' idParam)) (\<lambda>s.
     thenS (authorizeDocumentDownload s userId role)
    (bindS (queryS (findDocumentByIdAndSupplier docId (sup_id s))) (\<lambda>rec.
     bindS (requireS rec (NotFoundError ''Document'' docId)) (\<lambda>rec.
     bindS (readAndDecryptDocument env docId (doc_encrypted_path rec)) (\<lambda>buffer.
       returnS (buffer, doc_mime rec, buildDownloadFileName rec)))))))"

definition listDocuments :: "string \<Rightarrow> string \<Rightarrow> string \<Rightarrow> document list service" where
  "listDocuments idParam userId role =
     bindS (resolveSupplierForRequester idParam userId role) (\<lambda>found.
     bindS (requireS found (NotFoundError ''Supplier'' idParam)) (\<lambda>s.
     thenS (guardS (role = ''supplier'' \<longrightarrow> sup_user s = userId) ForbiddenError)
       (queryS (findDocumentsBySupplierId (sup_id s)))))"

section \<open>Review of single documents\<close>

definition KYC_DOC_REVIEWER_ROLES :: "string list" where
  "KYC_DOC_REVIEWER_ROLES = [''credit_officer'', ''compliance_officer'', ''management'']"

record review_decision =
  rd_decision :: string
  rd_comments :: string

text \<open>The row is returned; no row is \<open>None\<close>. The states of a review are checked and the reviewer is a foreign key.\<close>

definition set_review :: "int \<Rightarrow> string \<Rightarrow> string \<Rightarrow> string \<Rightarrow> document \<Rightarrow> document" where
  "set_review now decision reviewerId comments x =
     x\<lparr>doc_review := \<lparr>rv_status = decision, rv_by = Some reviewerId, rv_at = Some now, rv_comments = Some comments\<rparr>\<rparr>"

definition updateDocumentReview :: "string \<Rightarrow> string \<Rightarrow> string \<Rightarrow> string \<Rightarrow> string \<Rightarrow> document option service" where
  "updateDocumentReview documentId supplierId decision reviewerId comments =
     bindS nowS (\<lambda>now.
     bindS (queryS (findDocumentByIdAndSupplier documentId supplierId)) (\<lambda>found.
       case found of
         None \<Rightarrow> returnS None
       | Some x \<Rightarrow>
           thenS (tryExecS (\<lambda>d.
             if decision \<notin> {''pending'', ''approved'', ''rejected''} then Inl (DbError ''23514'')
             else if \<not> user_exists d (Some reviewerId) then Inl (DbError ''23503'')
             else Inr (d\<lparr>t_documents := update_where (\<lambda>x. doc_id x = documentId \<and> doc_supplier x = supplierId)
                           (set_review now decision reviewerId comments) (t_documents d)\<rparr>)))
             (returnS (Some (set_review now decision reviewerId comments x)))))"

text \<open>
  \<open>DISTINCT ON (document_type) ... ORDER BY document_type, created_at DESC\<close>: the newest document of each type, of equal times the one inserted last.
\<close>

definition latest_of_type :: "string \<Rightarrow> string \<Rightarrow> db \<Rightarrow> document option" where
  "latest_of_type s t d =
     (let rows = sort_key doc_created_at (filter (\<lambda>x. doc_supplier x = s \<and> doc_type x = t) (t_documents d))
      in if rows = [] then None else Some (last rows))"

definition getApprovedDocumentTypes :: "string \<Rightarrow> db \<Rightarrow> string list" where
  [repo_def]: "getApprovedDocumentTypes s d =
     filter (\<lambda>t. case latest_of_type s t d of None \<Rightarrow> False | Some x \<Rightarrow> rv_status (doc_review x) = ''approved'') (getDocumentTypeCounts s d)"

definition notifySupplierOfDocumentRejection :: "string \<Rightarrow> string \<Rightarrow> string \<Rightarrow> unit service" where
  "notifySupplierOfDocumentRejection supplierId documentType comments =
     catchS (queueOnboardingNotification ''document_comment_added''
       [(''supplierId'', JStr supplierId), (''documentType'', JStr documentType),
        (''reviewerComments'', JStr (if comments = [] then ''Please re-upload a clearer document.'' else comments))])
       (\<lambda>_. returnS ())"

definition maybeAutoApproveSupplierKyc :: "supplier \<Rightarrow> string \<Rightarrow> string \<Rightarrow> string \<Rightarrow> unit service" where
  "maybeAutoApproveSupplierKyc s reviewerId ip ua =
     (if sup_kyc_status s = Kyc_approved \<or> sup_kyc_status s = Kyc_rejected then returnS ()
      else bindS (queryS (getApprovedDocumentTypes (sup_id s))) (\<lambda>approvedTypes.
        if \<not> groups_covered approvedTypes then returnS ()
        else catchS
          (thenS (execS (repo_updateKycStatus (sup_id s) Kyc_approved))
          (thenS (createAuditEntry (audit_req (Some reviewerId) ''KYC_AUTO_APPROVED'' ''suppliers'' (sup_id s)
                    (Some [(''previousStatus'', JStr (kyc_str (sup_kyc_status s)))])
                    [(''newStatus'', JStr ''approved''), (''reason'', JStr ''All required documents approved''),
                     (''approvedBy'', JStr reviewerId)] (Some ip) (Some ua)))
             (queueOnboardingNotification ''kyc_approved'' [(''supplierId'', JStr (sup_id s)), (''rejectionReason'', JStr [])])))
          (\<lambda>_. returnS ())))"

definition reviewSupplierDocument ::
    "string \<Rightarrow> string \<Rightarrow> review_decision \<Rightarrow> string \<Rightarrow> string \<Rightarrow> string \<Rightarrow> string \<Rightarrow> unit service" where
  "reviewSupplierDocument supplierId documentId decision reviewerId reviewerRole ip ua =
     thenS (guardS (reviewerRole \<in> set KYC_DOC_REVIEWER_ROLES) ForbiddenError)
    (bindS (queryS (findSupplierById supplierId)) (\<lambda>found.
     bindS (requireS found (NotFoundError ''Supplier'' supplierId)) (\<lambda>s.
     bindS (queryS (findDocumentByIdAndSupplier documentId (sup_id s))) (\<lambda>old.
     bindS (requireS old (NotFoundError ''Document'' documentId)) (\<lambda>existing.
     thenS (guardS (doc_uploaded_by existing \<noteq> reviewerId) (BusinessRuleError ''KYC_DOC_SELF_REVIEW''))
    (bindS (updateDocumentReview documentId (sup_id s) (rd_decision decision) reviewerId (rd_comments decision)) (\<lambda>updated.
     bindS (requireS updated (NotFoundError ''Document'' documentId)) (\<lambda>_.
     thenS (createAuditEntry (audit_req (Some reviewerId) ''KYC_DOCUMENT_REVIEWED'' ''invoice_documents'' documentId
              (Some [(''reviewStatus'', JStr (rv_status (doc_review existing))), (''documentType'', JStr (doc_type existing))])
              [(''reviewStatus'', JStr (rd_decision decision)), (''supplierId'', JStr (sup_id s))] (Some ip) (Some ua)))
       (if rd_decision decision = ''approved'' then maybeAutoApproveSupplierKyc s reviewerId ip ua
        else if rd_decision decision = ''rejected''
        then notifySupplierOfDocumentRejection (sup_id s) (doc_type existing) (rd_comments decision)
        else returnS ())))))))))"

section \<open>The state of the check\<close>

fun kyc_allowed :: "kyc_status \<Rightarrow> kyc_status list" where
  "kyc_allowed Kyc_pending = [Kyc_documents_submitted]"
| "kyc_allowed Kyc_documents_submitted = [Kyc_under_review]"
| "kyc_allowed Kyc_under_review = [Kyc_approved, Kyc_rejected]"
| "kyc_allowed _ = []"

definition validateKycTransition :: "kyc_status \<Rightarrow> kyc_status \<Rightarrow> unit service" where
  "validateKycTransition old new = guardS (new \<in> set (kyc_allowed old)) (BusinessRuleError ''INVALID_KYC_TRANSITION'')"

definition getKycReviewer :: "string \<Rightarrow> db \<Rightarrow> string option" where
  [repo_def]: "getKycReviewer i d = (case findSupplierById i d of None \<Rightarrow> None | Some s \<Rightarrow> sf_kyc_reviewer (sup_file s))"

definition enforceKycMakerChecker :: "string \<Rightarrow> string \<Rightarrow> unit service" where
  "enforceKycMakerChecker supplierId approverId =
     bindS (queryS (getKycReviewer supplierId)) (\<lambda>reviewerId.
       guardS (reviewerId \<noteq> Some approverId) (BusinessRuleError ''KYC_SAME_REVIEWER_APPROVER''))"

definition update_supplier_file :: "string \<Rightarrow> string option \<Rightarrow> (supplier_file \<Rightarrow> supplier_file) \<Rightarrow> db \<Rightarrow> ris_error + db" where
  "update_supplier_file i user f d =
     (if list_ex (\<lambda>s. sup_id s = i) (t_suppliers d) \<and> \<not> user_exists d user then Inl (DbError ''23503'')
      else Inr (d\<lparr>t_suppliers := update_where (\<lambda>s. sup_id s = i) (\<lambda>s. s\<lparr>sup_file := f (sup_file s)\<rparr>) (t_suppliers d)\<rparr>))"

definition setKycReviewerWithClient :: "string \<Rightarrow> string \<Rightarrow> db \<Rightarrow> ris_error + db" where
  [repo_def]: "setKycReviewerWithClient i reviewerId = update_supplier_file i (Some reviewerId) (\<lambda>f. f\<lparr>sf_kyc_reviewer := Some reviewerId\<rparr>)"

definition setKycApproverWithClient :: "string \<Rightarrow> string \<Rightarrow> db \<Rightarrow> ris_error + db" where
  [repo_def]: "setKycApproverWithClient i approverId = update_supplier_file i (Some approverId) (\<lambda>f. f\<lparr>sf_kyc_approver := Some approverId\<rparr>)"

definition updateKycStatusWithClient :: "string \<Rightarrow> kyc_status \<Rightarrow> db \<Rightarrow> db" where
  [repo_def]: "updateKycStatusWithClient i k = set_kyc_status k i"

definition setKycRoleMarkers :: "string \<Rightarrow> kyc_status \<Rightarrow> string \<Rightarrow> unit service" where
  "setKycRoleMarkers supplierId newStatus reviewerId =
     thenS (whenS (newStatus = Kyc_under_review) (tryExecS (setKycReviewerWithClient supplierId reviewerId)))
       (whenS (newStatus = Kyc_approved) (tryExecS (setKycApproverWithClient supplierId reviewerId)))"

definition executeKycStatusTx ::
    "string \<Rightarrow> kyc_status \<Rightarrow> kyc_status \<Rightarrow> string \<Rightarrow> string \<Rightarrow> string \<Rightarrow> string \<Rightarrow> unit service" where
  "executeKycStatusTx supplierId old new comments reviewerId ip ua =
     transactionS
       (thenS (setKycRoleMarkers supplierId new reviewerId)
       (thenS (createAuditEntry (audit_req (Some reviewerId) ''KYC_STATUS_CHANGED'' ''suppliers'' supplierId
                 (Some [(''previousStatus'', JStr (kyc_str old))]) [(''newStatus'', JStr (kyc_str new)), (''comments'', JStr comments)]
                 (Some ip) (Some ua)))
          (execS (updateKycStatusWithClient supplierId new))))"

definition queueKycNotification :: "string \<Rightarrow> kyc_status \<Rightarrow> string \<Rightarrow> unit service" where
  "queueKycNotification supplierId newStatus comments =
     (if newStatus \<noteq> Kyc_approved \<and> newStatus \<noteq> Kyc_rejected then returnS ()
      else queueOnboardingNotification (if newStatus = Kyc_approved then ''kyc_approved'' else ''kyc_rejected'')
             [(''supplierId'', JStr supplierId), (''rejectionReason'', JStr comments)])"

definition postKycStatusUpdate :: "string \<Rightarrow> kyc_status \<Rightarrow> string \<Rightarrow> unit service" where
  "postKycStatusUpdate supplierId newStatus comments = queueKycNotification supplierId newStatus comments"

definition updateKycStatus :: "string \<Rightarrow> kyc_status \<Rightarrow> string \<Rightarrow> string \<Rightarrow> string \<Rightarrow> string \<Rightarrow> unit service" where
  "updateKycStatus supplierId newStatus comments reviewerId ip ua =
     bindS (queryS (findSupplierById supplierId)) (\<lambda>found.
     bindS (requireS found (NotFoundError ''Supplier'' supplierId)) (\<lambda>s.
     thenS (validateKycTransition (sup_kyc_status s) newStatus)
    (thenS (whenS (newStatus = Kyc_approved) (enforceKycMakerChecker supplierId reviewerId))
    (thenS (executeKycStatusTx supplierId (sup_kyc_status s) newStatus comments reviewerId ip ua)
       (postKycStatusUpdate supplierId newStatus comments)))))"

section \<open>Due diligence and feedback\<close>

definition setUrsbVerifiedWithClient :: "int \<Rightarrow> string \<Rightarrow> bool \<Rightarrow> string \<Rightarrow> db \<Rightarrow> ris_error + db" where
  [repo_def]: "setUrsbVerifiedWithClient now i verified verifiedBy = update_supplier_file i (Some verifiedBy)
     (\<lambda>f. f\<lparr>sf_ursb_verified := verified, sf_ursb_verified_at := Some now, sf_ursb_verified_by := Some verifiedBy\<rparr>)"

definition setLitigationCheckWithClient :: "int \<Rightarrow> string \<Rightarrow> bool \<Rightarrow> string \<Rightarrow> db \<Rightarrow> ris_error + db" where
  [repo_def]: "setLitigationCheckWithClient now i flag checkedBy = update_supplier_file i (Some checkedBy)
     (\<lambda>f. f\<lparr>sf_litigation_checked := True, sf_litigation_checked_at := Some now, sf_litigation_checked_by := Some checkedBy,
           sf_litigation_flag := flag\<rparr>)"

definition executeUrsbVerificationTx :: "string \<Rightarrow> bool \<Rightarrow> string \<Rightarrow> string \<Rightarrow> string \<Rightarrow> unit service" where
  "executeUrsbVerificationTx supplierId verified reviewerId ip ua =
     bindS nowS (\<lambda>now. transactionS
       (thenS (tryExecS (setUrsbVerifiedWithClient now supplierId verified reviewerId))
         (createAuditEntry (audit_req (Some reviewerId) ''URSB_VERIFIED'' ''suppliers'' supplierId None
            [(''verified'', JBool verified)] (Some ip) (Some ua)))))"

definition recordUrsbVerification :: "string \<Rightarrow> bool \<Rightarrow> string \<Rightarrow> string \<Rightarrow> string \<Rightarrow> unit service" where
  "recordUrsbVerification supplierId verified reviewerId ip ua =
     bindS (queryS (findSupplierById supplierId)) (\<lambda>found.
     bindS (requireS found (NotFoundError ''Supplier'' supplierId)) (\<lambda>s.
     thenS (guardS (sf_consent_ursb (sup_file s)) (BusinessRuleError ''CONSENT_NOT_GIVEN''))
       (executeUrsbVerificationTx supplierId verified reviewerId ip ua)))"

definition executeLitigationCheckTx :: "string \<Rightarrow> bool \<Rightarrow> string \<Rightarrow> string \<Rightarrow> string \<Rightarrow> unit service" where
  "executeLitigationCheckTx supplierId flag reviewerId ip ua =
     bindS nowS (\<lambda>now. transactionS
       (thenS (tryExecS (setLitigationCheckWithClient now supplierId flag reviewerId))
         (createAuditEntry (audit_req (Some reviewerId) ''LITIGATION_CHECK_RECORDED'' ''suppliers'' supplierId None
            [(''litigationFlag'', JBool flag)] (Some ip) (Some ua)))))"

definition recordLitigationCheck :: "string \<Rightarrow> bool \<Rightarrow> string \<Rightarrow> string \<Rightarrow> string \<Rightarrow> unit service" where
  "recordLitigationCheck supplierId flag reviewerId ip ua =
     bindS (queryS (findSupplierById supplierId)) (\<lambda>found.
     bindS (requireS found (NotFoundError ''Supplier'' supplierId)) (\<lambda>s.
     thenS (guardS (sf_consent_litigation (sup_file s)) (BusinessRuleError ''CONSENT_NOT_GIVEN''))
       (executeLitigationCheckTx supplierId flag reviewerId ip ua)))"

definition sendSupplierFeedback :: "string \<Rightarrow> string \<Rightarrow> string \<Rightarrow> string \<Rightarrow> string \<Rightarrow> unit service" where
  "sendSupplierFeedback supplierId reviewerId message ip ua =
     (let trimmed = js_trim message in
      thenS (guardS (10 \<le> length trimmed) (ValidationError ''message''))
     (thenS (guardS (length trimmed \<le> 2000) (ValidationError ''message''))
     (bindS (queryS (findSupplierById supplierId)) (\<lambda>found.
      bindS (requireS found (NotFoundError ''Supplier'' supplierId)) (\<lambda>_.
      thenS (transactionS (createAuditEntry (audit_req (Some reviewerId) ''SUPPLIER_FEEDBACK_SENT'' ''suppliers'' supplierId None
               [(''supplierId'', JStr supplierId), (''messageLength'', JInt (int (length trimmed)))] (Some ip) (Some ua))))
        (queueOnboardingNotification ''supplier_feedback''
           [(''supplierId'', JStr supplierId), (''message'', JStr trimmed), (''reviewerUserId'', JStr reviewerId)]))))))"

definition checkKycExpiry :: "string \<Rightarrow> bool service" where
  "checkKycExpiry supplierId =
     bindS (queryS (findSupplierById supplierId)) (\<lambda>found.
     bindS (requireS found (NotFoundError ''Supplier'' supplierId)) (\<lambda>s.
     bindS nowS (\<lambda>now.
       returnS (case sf_kyc_renewal_due (sup_file s) of None \<Rightarrow> False | Some t \<Rightarrow> t < now))))"

end
