(* ===== verification/Onboarding_Props.thy ===== *)
theory Onboarding_Props
  imports Onboarding Auth_Codes
begin

text \<open>
  What the supplier side of onboarding guarantees: what the eligibility throttle announces and when it ends, a sanctioned applicant leaves no
  account behind, what a registration writes and how it meets the login, and what documents are good for.
\<close>

section \<open>Eligibility\<close>

lemma newest_None: "newest xs = None \<longleftrightarrow> xs = []"
  by (cases xs) simp_all

lemma newest_Some:
  assumes "newest xs = Some m"
  shows "m \<in> set xs \<and> (\<forall>x \<in> set xs. x \<le> m)"
proof -
  have "m = Max (set xs)" "xs \<noteq> []" using assms by (cases xs; simp add: Max.set_eq_fold [symmetric] del: set_simps)+
  then show ?thesis by simp
qed

text \<open>
  The throttle on the rows of the applicant in the last thirty days, with the counts of the comment above \<open>THROTTLE_TIERS\<close>: a success after every
  failure forgives; otherwise two failures in five minutes, three in an hour, five in a day or seven in thirty days block. The windows slide: an
  applicant is blocked while a window holds too many failures. The answer names the longest window that does and its length in seconds.
\<close>

definition applicant_rows :: "int \<Rightarrow> string option \<Rightarrow> string \<Rightarrow> db \<Rightarrow> eligibility_check list" where
  "applicant_rows now email ip d = filter (\<lambda>r. elg_created_at r > now - 30 * day_ms \<and> same_applicant email (Some ip) r) (t_eligibility d)"

definition failures_within :: "int \<Rightarrow> int \<Rightarrow> eligibility_check list \<Rightarrow> nat" where
  "failures_within now window rows = length (filter (\<lambda>r. \<not> elg_passed r \<and> elg_created_at r > now - window) rows)"

definition corrected :: "eligibility_check list \<Rightarrow> bool" where
  "corrected rows \<longleftrightarrow> (\<exists>p \<in> set rows. elg_passed p \<and> (\<forall>f \<in> set rows. \<not> elg_passed f \<longrightarrow> elg_created_at f < elg_created_at p))"

definition blocked :: "int \<Rightarrow> eligibility_check list \<Rightarrow> bool" where
  "blocked now rows \<longleftrightarrow> \<not> corrected rows
     \<and> (2 \<le> failures_within now (5 * 60000) rows \<or> 3 \<le> failures_within now (60 * 60000) rows
        \<or> 5 \<le> failures_within now (24 * 60 * 60000) rows \<or> 7 \<le> failures_within now (30 * day_ms) rows)"

lemma forgiven_corrected:
  assumes "s = getEligibilityThrottleSignals now email (Some ip) d"
  shows "forgiven s \<longleftrightarrow> corrected (applicant_rows now email ip d)"
proof -
  let ?rows = "applicant_rows now email ip d"
  let ?p = "map elg_created_at (filter elg_passed ?rows)" and ?f = "map elg_created_at (filter (\<lambda>r. \<not> elg_passed r) ?rows)"
  have s: "ts_pass_at s = newest ?p" "ts_fail_at s = newest ?f"
    by (simp_all add: assms getEligibilityThrottleSignals_def applicant_rows_def Let_def)
  show ?thesis
  proof (cases "newest ?p")
    case None
    then have "\<not> corrected ?rows" unfolding newest_None by (auto simp: corrected_def filter_empty_conv)
    then show ?thesis using None s by (simp add: forgiven_def)
  next
    case (Some p)
    then obtain q where q: "q \<in> set ?rows" "elg_passed q" "elg_created_at q = p" "\<forall>r \<in> set ?rows. elg_passed r \<longrightarrow> elg_created_at r \<le> p"
      using newest_Some [OF Some] by auto
    show ?thesis
    proof (cases "newest ?f")
      case None
      then have "\<forall>r \<in> set ?rows. elg_passed r" unfolding newest_None by (auto simp: filter_empty_conv)
      then show ?thesis using Some None s q by (auto simp: forgiven_def corrected_def)
    next
      case (Some f)
      then obtain g where "g \<in> set ?rows" "\<not> elg_passed g" "elg_created_at g = f" "\<forall>r \<in> set ?rows. \<not> elg_passed r \<longrightarrow> elg_created_at r \<le> f"
        using newest_Some [OF Some] by auto
      then have "corrected ?rows \<longleftrightarrow> f < p" using q unfolding corrected_def by (meson order.strict_trans1 order.strict_trans2)
      then show ?thesis using Some \<open>newest ?p = Some p\<close> s by (simp add: forgiven_def)
    qed
  qed
qed

definition announced :: "int \<Rightarrow> eligibility_check list \<Rightarrow> string \<times> int" where
  "announced now rows =
     (if 7 \<le> failures_within now (30 * day_ms) rows then (''30day'', 30 * 24 * 60 * 60)
      else if 5 \<le> failures_within now (24 * 60 * 60000) rows then (''24hour'', 24 * 60 * 60)
      else if 3 \<le> failures_within now (60 * 60000) rows then (''1hour'', 60 * 60) else (''5min'', 5 * 60))"

lemma throttle_counts:
  assumes "s = getEligibilityThrottleSignals now email (Some ip) d" and "rows = applicant_rows now email ip d"
  shows "ts_5min s = int (failures_within now (5 * 60000) rows)" "ts_1hour s = int (failures_within now (60 * 60000) rows)"
    "ts_24hour s = int (failures_within now (24 * 60 * 60000) rows)" "ts_30day s = int (failures_within now (30 * day_ms) rows)"
  by (simp_all add: assms getEligibilityThrottleSignals_def applicant_rows_def failures_within_def day_ms_def Let_def)

lemma throttle_run:
  "enforceEligibilityThrottle email ip w =
     (if blocked (clock w) (applicant_rows (clock w) email ip (db w))
      then (Inl (case announced (clock w) (applicant_rows (clock w) email ip (db w)) of (tier, secs) \<Rightarrow> ThrottledError tier secs), w)
      else (Inr (), w))"
proof -
  let ?s = "getEligibilityThrottleSignals (clock w) email (Some ip) (db w)" and ?rows = "applicant_rows (clock w) email ip (db w)"
  note c = throttle_counts [OF refl refl, of "clock w" email ip "db w"]
  show ?thesis
    unfolding enforceEligibilityThrottle_def pickThrottleTier_def THROTTLE_TIERS_def blocked_def announced_def
    by (simp add: forgiven_corrected [OF refl] fail_count_def c)
qed

lemma fewer_failures:
  assumes "now \<le> now'"
  shows "failures_within now' win (applicant_rows now' email ip d) \<le> failures_within now win (applicant_rows now email ip d)"
proof -
  have "(\<And>x. p x \<Longrightarrow> q x) \<Longrightarrow> length (filter p xs) \<le> length (filter q xs)" for p q :: "eligibility_check \<Rightarrow> bool" and xs
    by (induction xs) (auto simp: le_Suc_eq)
  then show ?thesis
    unfolding failures_within_def applicant_rows_def filter_filter by this (use assms in auto)
qed

lemma no_failures:
  assumes "\<forall>r \<in> set (t_eligibility d). elg_created_at r \<le> now" and "now + win \<le> now'"
  shows "failures_within now' win (applicant_rows now' email ip d) = 0"
  using assms by (force simp: failures_within_def applicant_rows_def filter_empty_conv)

text \<open>The announced wait is always long enough (it may be longer than the block).\<close>

lemma wait_suffices:
  assumes past: "\<forall>r \<in> set (t_eligibility d). elg_created_at r \<le> now" and later: "now + 1000 * snd (announced now (applicant_rows now email ip d)) \<le> now'"
  shows "\<not> blocked now' (applicant_rows now' email ip d)"
proof -
  let ?r = "applicant_rows now email ip d" and ?r' = "applicant_rows now' email ip d"
  have pos: "0 \<le> snd (announced now ?r)" by (simp add: announced_def)
  then have le: "now \<le> now'" using later by linarith
  have zero: "failures_within now' win ?r' = 0" if "win \<le> 1000 * snd (announced now ?r)" for win
    by (rule no_failures [OF past]) (use that later in linarith)
  have few: "failures_within now' win ?r' \<le> failures_within now win ?r" for win using le by (rule fewer_failures)
  let ?F = "\<lambda>win. failures_within now win ?r"
  have day: "30 * day_ms = 1000 * (30 * 24 * 60 * 60)" by (simp add: day_ms_def)
  consider "7 \<le> ?F (30 * day_ms)" | "\<not> 7 \<le> ?F (30 * day_ms)" "5 \<le> ?F (24 * 60 * 60000)"
    | "\<not> 7 \<le> ?F (30 * day_ms)" "\<not> 5 \<le> ?F (24 * 60 * 60000)" "3 \<le> ?F (60 * 60000)"
    | "\<not> 7 \<le> ?F (30 * day_ms)" "\<not> 5 \<le> ?F (24 * 60 * 60000)" "\<not> 3 \<le> ?F (60 * 60000)" by blast
  then show ?thesis
  proof cases
    case 1
    then have "snd (announced now ?r) = 30 * 24 * 60 * 60" by (simp only: announced_def if_True snd_conv)
    then show ?thesis using zero [of "5 * 60000"] zero [of "60 * 60000"] zero [of "24 * 60 * 60000"] zero [of "30 * day_ms"]
      unfolding blocked_def by (simp add: day)
  next
    case 2
    then have "snd (announced now ?r) = 24 * 60 * 60" by (simp only: announced_def if_True if_False snd_conv)
    then show ?thesis using zero [of "5 * 60000"] zero [of "60 * 60000"] zero [of "24 * 60 * 60000"] few [of "30 * day_ms"] 2
      unfolding blocked_def by simp
  next
    case 3
    then have "snd (announced now ?r) = 60 * 60" by (simp only: announced_def if_True if_False snd_conv)
    then show ?thesis using zero [of "5 * 60000"] zero [of "60 * 60000"] few [of "24 * 60 * 60000"] few [of "30 * day_ms"] 3
      unfolding blocked_def by simp
  next
    case 4
    then have "snd (announced now ?r) = 5 * 60" by (simp only: announced_def if_True if_False snd_conv)
    then show ?thesis using zero [of "5 * 60000"] few [of "60 * 60000"] few [of "24 * 60 * 60000"] few [of "30 * day_ms"] 4
      unfolding blocked_def by simp
  qed
qed

text \<open>
  C37: the eligibility check decides by its throttle and the three questions alone. A blocked applicant is refused with the longest window reached and its
  length as the time to wait, and nothing is written; waiting that long is always enough when nothing else is recorded. Everybody else gets an
  answer that depends on the three questions, exactly one row with all the answers is added and nothing else is written, and a session token is returned exactly on
  success. Since the windows slide, a block can end before the announced time (failures at minutes 0, 30 and 58 end the one-hour block at minute 60), where
  the comment speaks of a one-hour block; and no check is written to the audit log, which REQ-ELIG-005 asks for.
\<close>

theorem eligibility_policy:
  assumes "i \<notin> set (map elg_id (t_eligibility (db w)))" "token \<notin> set (map elg_token (t_eligibility (db w)))"
    and "length token \<le> 64" "length ip \<le> 45" "case normalised_email data of None \<Rightarrow> True | Some e \<Rightarrow> length e \<le> 255"
    and "0 \<le> yearsInBusinessToNumber (ei_years data)"
    and "rows = applicant_rows (clock w) (normalised_email data) ip (db w)"
    and "passed = (ei_registered data \<and> ei_authorized data \<and> 1 \<le> yearsInBusinessToNumber (ei_years data))"
  shows "checkEligibility i token data ip w =
     (if blocked (clock w) rows then (Inl (ThrottledError (fst (announced (clock w) rows)) (snd (announced (clock w) rows))), w)
      else (Inr \<lparr>er_passed = passed, er_session_token = (if passed then Some token else None)\<rparr>,
            w\<lparr>db := (db w)\<lparr>t_eligibility := t_eligibility (db w) @
              [\<lparr>elg_id = i, elg_token = token, elg_registered = ei_registered data, elg_authorized = ei_authorized data,
                elg_years = yearsInBusinessToNumber (ei_years data), elg_passed = passed, elg_ip = Some ip,
                elg_email = normalised_email data, elg_expires_at = Some (clock w + 24 * 60 * 60 * 1000),
                elg_funding = ei_funding data, elg_created_at = clock w\<rparr>]\<rparr>\<rparr>))
    \<and> ((\<forall>r \<in> set (t_eligibility (db w)). elg_created_at r \<le> clock w) \<and> clock w + 1000 * snd (announced (clock w) rows) \<le> later \<longrightarrow>
         \<not> blocked later (applicant_rows later (normalised_email data) ip (db w)))"
proof -
  let ?row = "eligibility_row (clock w) i token data (yearsInBusinessToNumber (ei_years data)) passed ip (normalised_email data)"
  have p: "eligible data = passed" by (simp add: eligible_def assms(8))
  have c: "createEligibilityCheck ?row (db w) = Inr ((db w)\<lparr>t_eligibility := t_eligibility (db w) @ [?row]\<rparr>)"
    using assms(1-6) by (auto simp: createEligibilityCheck_def eligibility_row_def list_ex_iff split: option.splits)
  have "checkEligibility i token data ip w =
     (if blocked (clock w) rows then (Inl (ThrottledError (fst (announced (clock w) rows)) (snd (announced (clock w) rows))), w)
      else (Inr \<lparr>er_passed = passed, er_session_token = (if passed then Some token else None)\<rparr>,
            w\<lparr>db := (db w)\<lparr>t_eligibility := t_eligibility (db w) @ [?row]\<rparr>\<rparr>))"
    using c by (cases passed) (simp_all add: checkEligibility_def throttle_run p assms(7) recordFailedEligibility_def
        recordPassedEligibility_def Let_def case_prod_beta)
  moreover have "?row = \<lparr>elg_id = i, elg_token = token, elg_registered = ei_registered data, elg_authorized = ei_authorized data,
                elg_years = yearsInBusinessToNumber (ei_years data), elg_passed = passed, elg_ip = Some ip,
                elg_email = normalised_email data, elg_expires_at = Some (clock w + 24 * 60 * 60 * 1000),
                elg_funding = ei_funding data, elg_created_at = clock w\<rparr>"
    by (simp add: eligibility_row_def day_ms_def)
  ultimately show ?thesis using wait_suffices [of "db w" "clock w" "normalised_email data" ip later] assms(7) by auto
qed

section \<open>Registration\<close>

lemma validateRegistrationPrereqs_succ:
  "validateRegistrationPrereqs data w = (Inr x, w') \<longleftrightarrow> w' = w
     \<and> (\<exists>r. findEligibilityByToken (clock w) (sr_token data) (db w) = Some r \<and> elg_passed r)
     \<and> \<not> emailExists (sr_email data) (db w) \<and> \<not> registrationNumberExists (sr_registration_number data) (db w)"
  by (auto simp: validateRegistrationPrereqs_def svc_succ split: option.splits)

lemma validateRegistrationPrereqs_reads: "preserves (\<lambda>v. v = w) (validateRegistrationPrereqs data)"
  unfolding validateRegistrationPrereqs_def
  by (intro preserves_bind preserves_then preserves_guard preserves_query preserves_now)

text \<open>What the checks before the sanctions screening answer; \<open>None\<close> when they all pass.\<close>

definition registration_refusal :: "supplier_registration \<Rightarrow> world \<Rightarrow> ris_error option" where
  "registration_refusal data w =
     (if \<not> (\<exists>e. findEligibilityByToken (clock w) (sr_token data) (db w) = Some e \<and> elg_passed e)
      then Some (BusinessRuleError ''ELIGIBILITY_TOKEN_INVALID'')
      else if sr_email data \<in> usr_email ` set (t_users (db w)) then Some (BusinessRuleError ''EMAIL_TAKEN'')
      else if sr_registration_number data \<in> (\<lambda>s. sf_registration_number (sup_file s)) ` set (t_suppliers (db w))
      then Some (BusinessRuleError ''REGISTRATION_NUMBER_TAKEN'')
      else if \<not> sr_consent_ursb data then Some (ValidationError ''consent_ursb_check'')
      else if \<not> sr_consent_refs data then Some (ValidationError ''consent_supplier_refs'')
      else if \<not> sr_consent_litigation data then Some (ValidationError ''consent_litigation_check'')
      else None)"

lemma registration_checks:
  "registerSupplier env ds data ip ua w =
     (case registration_refusal data w of Some e \<Rightarrow> (Inl e, w)
      | None \<Rightarrow> thenS (screenSanctionsBeforeRegistration env data ip ua)
          (thenS (executeRegistrationTx env data (rd_user ds) (rd_supplier ds)
              (bcrypt_hash (oe_auth env) (rd_salt ds) (sr_password data)) ip ua)
          (thenS (postRegistrationChecks env ds (sr_email data) ip ua) (returnS (rd_user ds, rd_supplier ds)))) w)"
proof -
  have e: "emailExists (sr_email data) (db w) \<longleftrightarrow> sr_email data \<in> usr_email ` set (t_users (db w))"
    "registrationNumberExists (sr_registration_number data) (db w)
       \<longleftrightarrow> sr_registration_number data \<in> (\<lambda>s. sf_registration_number (sup_file s)) ` set (t_suppliers (db w))"
    by (auto simp: emailExists_def registrationNumberExists_def list_ex_iff intro: rev_image_eqI [OF _ sym])
  have p: "validateRegistrationPrereqs data w =
      (if \<not> (\<exists>e. findEligibilityByToken (clock w) (sr_token data) (db w) = Some e \<and> elg_passed e)
       then (Inl (BusinessRuleError ''ELIGIBILITY_TOKEN_INVALID''), w)
       else if emailExists (sr_email data) (db w) then (Inl (BusinessRuleError ''EMAIL_TAKEN''), w)
       else if registrationNumberExists (sr_registration_number data) (db w) then (Inl (BusinessRuleError ''REGISTRATION_NUMBER_TAKEN''), w)
       else (Inr (), w))"
    by (cases "findEligibilityByToken (clock w) (sr_token data) (db w)") (simp_all add: validateRegistrationPrereqs_def)
  show ?thesis
    unfolding registerSupplier_def registration_refusal_def e [symmetric] using p by (simp add: validateConsents_def)
qed

text \<open>The audit entry of a blocked registration: the entry that matched and a hash of name and number, not the data itself.\<close>

definition blocked_entry :: "onboarding_env \<Rightarrow> sanctions_entry \<Rightarrow> supplier_registration \<Rightarrow> string \<Rightarrow> string \<Rightarrow> audit_entry" where
  "blocked_entry env m data ip ua =
     \<lparr>aud_user = None, aud_action = ''SANCTIONS_REGISTRATION_BLOCKED'', aud_table = ''suppliers'', aud_record = Some ''pre-insert'', aud_old = None,
      aud_new = [(''matchedEntryId'', JStr (case sn_registration_number m of None \<Rightarrow> ''unknown'' | Some n \<Rightarrow> n)),
        (''matchKeyHash'', JStr (sha256_hex (oe_auth env) (toLowerCase (sr_company_name data) @ ''|'' @ sr_registration_number data))),
        (''reason'', JStr (sn_reason m))],
      aud_ip = Some ip, aud_agent = Some ua, aud_created_at = None\<rparr>"

lemma screening_run:
  "screenSanctionsBeforeRegistration env data ip ua w =
     (case oe_sanctions env of None \<Rightarrow> (Inl (JsError ''SANCTIONS_LIST_EMPTY''), w)
      | Some entries \<Rightarrow>
          if entries = [] then (Inl (JsError ''SANCTIONS_LIST_EMPTY''), w)
          else case select_one (listed (sr_company_name data) (sr_registration_number data)) entries of None \<Rightarrow> (Inr (), w)
          | Some m \<Rightarrow>
              if audit_ok (db w) None
              then (Inl (BusinessRuleError ''SANCTIONS_MATCH''), w\<lparr>db := (db w)\<lparr>t_audit := t_audit (db w) @ [blocked_entry env m data ip ua]\<rparr>\<rparr>)
              else (Inl (DbError ''42703''), w))"
proof -
  have a: "auditBlockedSanctionsAttempt env m data ip ua w =
      (if audit_ok (db w) None then (Inr (), w\<lparr>db := (db w)\<lparr>t_audit := t_audit (db w) @ [blocked_entry env m data ip ua]\<rparr>\<rparr>)
       else (Inl (DbError ''42703''), w))" for m
    by (simp add: auditBlockedSanctionsAttempt_def Let_def createAuditEntry_def tryExecS_def insert_audit_def audit_ok_def user_exists_def
        blocked_entry_def audit_req_def audit_sys_def buildBlockedSanctionsMetadata_def)
  show ?thesis
    by (simp add: screenSanctionsBeforeRegistration_def loadSanctionsList_def findSanctionsMatch_def a split: option.split)
qed

text \<open>
  C16: an applicant whose company name, in any case, or registration number is on the sanctions list is never registered, and without a
  list, or with an empty one, nobody is. The answer and the state are exact: a check before the screening refuses as it would for anybody, and nothing is
  written; without a list the request fails and nothing is written; on a match the request is refused with \<open>SANCTIONS_MATCH\<close> and exactly one audit entry is
  added, which names the matching entry (if the audit table lacks a column, nothing). No user, supplier, token or job exists afterwards in any case: in
  particular no flag is stored and no notification of the compliance officer queued, both of which REQ-ONBOARD-004 asks for.
\<close>

theorem registration_screened:
  assumes "(\<exists>entries e. oe_sanctions env = Some entries \<and> e \<in> set entries \<and> listed (sr_company_name data) (sr_registration_number data) e)
      \<or> oe_sanctions env = None \<or> oe_sanctions env = Some []"
  shows "registerSupplier env ds data ip ua w =
     (case registration_refusal data w of Some e \<Rightarrow> (Inl e, w)
      | None \<Rightarrow> (case oe_sanctions env of None \<Rightarrow> (Inl (JsError ''SANCTIONS_LIST_EMPTY''), w)
         | Some entries \<Rightarrow>
             case select_one (listed (sr_company_name data) (sr_registration_number data)) entries of
               None \<Rightarrow> (Inl (JsError ''SANCTIONS_LIST_EMPTY''), w)
             | Some m \<Rightarrow>
                 if audit_ok (db w) None
                 then (Inl (BusinessRuleError ''SANCTIONS_MATCH''), w\<lparr>db := (db w)\<lparr>t_audit := t_audit (db w) @ [blocked_entry env m data ip ua]\<rparr>\<rparr>)
                 else (Inl (DbError ''42703''), w)))"
  using assms unfolding registration_checks
  by (cases "registration_refusal data w"; cases "oe_sanctions env")
    (auto simp: screening_run thenS_def bindS_def select_one_None split: option.split)

definition account_rows :: "db \<Rightarrow> user_row list \<times> supplier list \<times> string list" where
  "account_rows d = (t_users d, t_suppliers d, audit_columns d)"

lemma post_keeps: "preserves (\<lambda>w. account_rows (db w) = x) (postRegistrationChecks env ds email ip ua)"
proof -
  have t: "preserves (\<lambda>w. account_rows (db w) = x) (tryExecS (createEmailVerificationToken now tid u h e))" for now tid u h e
    by (rule preserves_tryExec) (auto simp: account_rows_def createEmailVerificationToken_def split: if_splits)
  have a: "preserves (\<lambda>w. account_rows (db w) = x) (tryExecS (insert_audit cols y))" for cols y
    by (rule preserves_tryExec) (auto simp: account_rows_def insert_audit_succ)
  have i: "preserves (\<lambda>w. account_rows (db w) = x) (execS (invalidateEmailVerificationTokens now u))" for now u
    by (rule preserves_exec) (simp add: account_rows_def invalidateEmailVerificationTokens_def)
  show ?thesis
    unfolding postRegistrationChecks_def issueEmailVerificationToken_def generateEmailVerificationToken_def auth_createAuditEntry_def
      enqueueVerificationEmail_def queueOnboardingNotification_def
    by (intro preserves_then preserves_catch preserves_bind preserves_now preserves_enqueue preserves_return t a i)
qed

lemma executeRegistrationTx_exact:
  assumes "executeRegistrationTx env data u s h ip ua w = (Inr (), w')"
  obtains pii where "encryptSupplierPii env data = Inr pii" "\<not> list_ex (\<lambda>q. usr_email q = sr_email data) (t_users (db w))"
    "list_all (\<lambda>c. c \<in> set (audit_columns (db w))) audit_cols"
    "w' = w\<lparr>db := (db w)\<lparr>t_users := t_users (db w) @ [new_user (clock w) u (sr_email data) h ''supplier''],
       t_suppliers := t_suppliers (db w) @ [new_supplier (clock w) s u data pii],
       t_audit := t_audit (db w) @ [audit_req (Some u) ''SUPPLIER_REGISTERED'' ''suppliers'' s None [(''kycStatus'', JStr ''pending'')] (Some ip) (Some ua)]\<rparr>\<rparr>"
proof -
  obtain pii where pii: "encryptSupplierPii env data = Inr pii"
      and tx: "transactionS (writeRegistrationRows data u s h pii ip ua) w = (Inr (), w')"
    using assms by (cases "encryptSupplierPii env data")
      (auto simp: executeRegistrationTx_def catchS_def throwS_def split: prod.splits sum.splits)
  let ?u = "new_user (clock w) u (sr_email data) h ''supplier''" and ?s = "new_supplier (clock w) s u data pii"
  let ?a = "audit_req (Some u) ''SUPPLIER_REGISTERED'' ''suppliers'' s None [(''kycStatus'', JStr ''pending'')] (Some ip) (Some ua)"
  obtain d1 d2 d3 where d: "createUserWithClient ?u (db w) = Inr d1" "createSupplierWithClient ?s d1 = Inr d2"
      and w': "insert_audit audit_cols ?a d2 = Inr d3" "w' = w\<lparr>db := d3\<rparr>"
    using tx by (auto simp: writeRegistrationRows_def createUserAndSupplier_def svc_succ createAuditEntry_def)
  have d1: "d1 = (db w)\<lparr>t_users := t_users (db w) @ [?u]\<rparr>" "\<not> list_ex (\<lambda>q. usr_email q = sr_email data) (t_users (db w))"
    using d(1) by (auto simp: createUserWithClient_def new_user_def split: if_splits)
  have d2: "d2 = d1\<lparr>t_suppliers := t_suppliers d1 @ [?s]\<rparr>" using d(2) by (auto simp: createSupplierWithClient_def split: if_splits)
  show thesis by (rule that [OF pii d1(2)]) (use w' in \<open>auto simp: d1(1) d2 insert_audit_succ\<close>)
qed

lemma executeRegistrationTx_succ:
  assumes "executeRegistrationTx env data u s h ip ua w = (Inr (), w')"
  obtains pii where "encryptSupplierPii env data = Inr pii"
    "t_users (db w') = t_users (db w) @ [new_user (clock w) u (sr_email data) h ''supplier'']"
    "t_suppliers (db w') = t_suppliers (db w) @ [new_supplier (clock w) s u data pii]"
    "audit_columns (db w') = audit_columns (db w)" "list_all (\<lambda>c. c \<in> set (audit_columns (db w))) audit_cols"
    "jobs w' = jobs w" "clock w' = clock w"
  by (rule executeRegistrationTx_exact [OF assms]) (rule that, simp_all)

text \<open>
  What follows the commit: the older verification tokens of the user are marked as used; unless the hash of the new one is taken, it is stored, audited
  and mailed; an error on the way is swallowed. Then the welcome message.
\<close>

definition verification_job :: "onboarding_env \<Rightarrow> registration_draws \<Rightarrow> string \<Rightarrow> job" where
  "verification_job env ds email = \<lparr>job_ref = Auth_notification, job_name = ''send-email'', job_data =
     [(''id'', JStr (rd_message ds)), (''channel'', JStr ''email''), (''template'', JStr ''email_verification''), (''recipient'', JStr email),
      (''data'', JObj [(''verification_url'', JStr (base_url (oe_auth env) @ ''/verify-email?token='' @ rd_raw_token ds)),
         (''expiry_hours'', JInt 24), (''user_name'', JStr ''Supplier'')])]\<rparr>"

definition welcomed :: "onboarding_env \<Rightarrow> registration_draws \<Rightarrow> string \<Rightarrow> string \<Rightarrow> string \<Rightarrow> world \<Rightarrow> world" where
  "welcomed env ds email ip ua w =
     (let hash = sha256_hex (oe_auth env) (rd_raw_token ds); fresh = hash \<notin> otk_hash ` set (t_email_tokens (db w)) in
      w\<lparr>db := (db w)\<lparr>
          t_email_tokens := update_where (\<lambda>k. otk_user k = rd_user ds \<and> otk_used_at k = None) (\<lambda>k. k\<lparr>otk_used_at := Some (clock w)\<rparr>)
              (t_email_tokens (db w))
            @ (if fresh then [\<lparr>otk_id = rd_token_id ds, otk_user = rd_user ds, otk_hash = hash,
                 otk_expires_at = Some (clock w + 24 * 60 * 60 * 1000), otk_used_at = None, otk_created_at = clock w\<rparr>] else []),
          t_audit := t_audit (db w) @ (if fresh then [\<lparr>aud_user = Some (rd_user ds), aud_action = ''EMAIL_VERIFICATION_REQUESTED'',
            aud_table = ''users'', aud_record = Some (rd_user ds), aud_old = None, aud_new = [], aud_ip = Some ip, aud_agent = Some ua,
            aud_created_at = Some (clock w)\<rparr>] else [])\<rparr>,
        jobs := jobs w @ (if fresh \<and> queue_set w Auth_notification \<and> redis_up w then [verification_job env ds email] else [])
          @ (if queue_set w Onboarding_notification then [\<lparr>job_ref = Onboarding_notification, job_name = ''welcome'',
              job_data = [(''userId'', JStr (rd_user ds)), (''supplierId'', JStr (rd_supplier ds))]\<rparr>] else [])\<rparr>)"

lemma enqueueVerificationEmail_run:
  "enqueueVerificationEmail (oe_auth env) (rd_message ds) email (rd_raw_token ds) w =
     (Inr (), w\<lparr>jobs := jobs w @ (if queue_set w Auth_notification \<and> redis_up w then [verification_job env ds email] else [])\<rparr>)"
  by (simp add: enqueueVerificationEmail_def catchS_def run_enqueue verification_job_def EMAIL_VERIFICATION_EXPIRY_HOURS_def)

lemma postRegistration_exact:
  assumes ok: "audit_ok (db w) (Some (rd_user ds))" and run: "postRegistrationChecks env ds email ip ua w = (Inr x, w')"
  shows "w' = welcomed env ds email ip ua w"
proof -
  let ?h = "hashToken (oe_auth env) (rd_raw_token ds)"
  let ?tokens = "invalidate_tokens (clock w) (rd_user ds) (t_email_tokens (db w))"
  let ?fresh = "?h \<notin> otk_hash ` set (t_email_tokens (db w))"
  let ?d0 = "(db w)\<lparr>t_email_tokens := ?tokens\<rparr>"
  let ?d1 = "(db w)\<lparr>t_email_tokens := ?tokens @ [new_token (clock w) (rd_token_id ds) (rd_user ds) ?h (Some (clock w + EMAIL_VERIFICATION_EXPIRY_MS))]\<rparr>"
  let ?e = "auth_entry (clock w) (Some (rd_user ds)) ''EMAIL_VERIFICATION_REQUESTED'' (Some ip) (Some ua) []"
  let ?mail = "if queue_set w Auth_notification \<and> redis_up w then [verification_job env ds email] else []"
  let ?v = "if ?fresh then w\<lparr>db := ?d1\<lparr>t_audit := t_audit (db w) @ [?e]\<rparr>, jobs := jobs w @ ?mail\<rparr> else w\<lparr>db := ?d0\<rparr>"
  have hashes: "map otk_hash ?tokens = map otk_hash (t_email_tokens (db w))"
    by (simp add: invalidate_tokens_def map_update_where)
  then have hs: "otk_hash ` set ?tokens = otk_hash ` set (t_email_tokens (db w))" by (metis list.set_map)
  have u: "user_exists ?d0 (Some (rd_user ds))" "audit_ok ?d1 (Some (rd_user ds))"
    using ok by (simp_all add: audit_ok_def user_exists_def)
  have gen: "generateEmailVerificationToken (oe_auth env) (rd_token_id ds) (rd_raw_token ds) (rd_user ds) w =
      (if ?fresh then (Inr (), w\<lparr>db := ?d1\<rparr>) else (Inl (DbError ''23505''), w\<lparr>db := ?d0\<rparr>))"
    using u(1) hs by (simp add: generateEmailVerificationToken_def createEmailVerificationToken_def invalidateEmailVerificationTokens_def tryExecS_def)
  have aud: "auth_createAuditEntry (Some (rd_user ds)) ''EMAIL_VERIFICATION_REQUESTED'' (Some ip) (Some ua) [] (w\<lparr>db := ?d1\<rparr>) =
      (Inr (), w\<lparr>db := ?d1\<lparr>t_audit := t_audit (db w) @ [?e]\<rparr>\<rparr>)"
    using auth_audit_run [of "w\<lparr>db := ?d1\<rparr>"] u(2) by simp
  have "catchS (issueEmailVerificationToken (oe_auth env) (rd_token_id ds) (rd_message ds) (rd_raw_token ds) (rd_user ds) email ip ua)
      (\<lambda>_. returnS ()) w = (Inr (), ?v)"
    using gen aud by (cases ?fresh) (simp_all add: issueEmailVerificationToken_def catchS_def thenS_def bindS_def enqueueVerificationEmail_run returnS_def)
  then have "queueOnboardingNotification ''welcome'' [(''userId'', JStr (rd_user ds)), (''supplierId'', JStr (rd_supplier ds))] ?v = (Inr x, w')"
    using run by (simp add: postRegistrationChecks_def del: if_weak_cong)
  then show ?thesis
    by (cases ?fresh) (auto simp: queueOnboardingNotification_def run_enqueue welcomed_def Let_def hashToken_def new_token_def auth_entry_def
        invalidate_tokens_def EMAIL_VERIFICATION_EXPIRY_MS_def split: if_splits)
qed

lemma registerSupplier_succ:
  assumes "registerSupplier env ds data ip ua w = (Inr r, w')"
  obtains w1 where "r = (rd_user ds, rd_supplier ds)"
    "validateRegistrationPrereqs data w = (Inr (), w)" "validateConsents data = Inr ()"
    "screenSanctionsBeforeRegistration env data ip ua w = (Inr (), w)"
    "executeRegistrationTx env data (rd_user ds) (rd_supplier ds) (bcrypt_hash (oe_auth env) (rd_salt ds) (sr_password data)) ip ua w = (Inr (), w1)"
    "postRegistrationChecks env ds (sr_email data) ip ua w1 = (Inr (), w')"
proof -
  have s: "w2 = w" if "screenSanctionsBeforeRegistration env data ip ua w = (Inr (), w2)" for w2
    using that by (auto simp: screenSanctionsBeforeRegistration_def svc_succ split: option.splits)
  show thesis using assms that s by (auto simp: registerSupplier_def svc_succ validateRegistrationPrereqs_succ)
qed

text \<open>The rows of a registration, column by column.\<close>

definition registered_user :: "onboarding_env \<Rightarrow> registration_draws \<Rightarrow> supplier_registration \<Rightarrow> int \<Rightarrow> user_row" where
  "registered_user env ds data now =
     \<lparr>usr_id = rd_user ds, usr_email = sr_email data, usr_last_2fa = None,
      usr_account = \<lparr>acc_password_hash = bcrypt_hash (oe_auth env) (rd_salt ds) (sr_password data), acc_role = ''supplier'', acc_is_active = True,
        acc_email_verified = False, acc_2fa_enabled = False, acc_2fa_secret = None, acc_failed_count = 0, acc_locked_until = None,
        acc_last_login_at = None, acc_last_active_at = None, acc_warning_sent_at = None, acc_first_name = None, acc_last_name = None,
        acc_updated_at = now\<rparr>\<rparr>"

definition registered_supplier ::
    "registration_draws \<Rightarrow> supplier_registration \<Rightarrow> int \<Rightarrow> string \<Rightarrow> string \<Rightarrow> string \<Rightarrow> string \<Rightarrow> string \<Rightarrow> supplier" where
  "registered_supplier ds data now number holder company tax directors =
     \<lparr>sup_id = rd_supplier ds, sup_user = rd_user ds, sup_company_name = Some (sr_company_name data),
      sup_payment_method = sr_payment_method data, sup_kyc_status = Kyc_pending, sup_company_name_encrypted = Some company,
      sup_file = \<lparr>sf_registration_number = sr_registration_number data, sf_tax_id = None, sf_tax_id_encrypted = Some tax,
        sf_directors = ''[]'', sf_directors_encrypted = Some directors, sf_bank_name = Some (sr_bank_name data),
        sf_bank_account_number = Some number, sf_bank_account_name = Some holder,
        sf_bank_branch = Some (sr_bank_branch data), sf_sanctions_flag = False, sf_pep = False,
        sf_financing_amount = sr_financing_amount data, sf_consent_ursb = True, sf_consent_refs = True, sf_consent_litigation = True,
        sf_litigation_disclosure = sr_litigation_disclosure data, sf_ursb_verified = False, sf_ursb_verified_at = None,
        sf_ursb_verified_by = None, sf_litigation_checked = False, sf_litigation_checked_at = None, sf_litigation_checked_by = None,
        sf_litigation_flag = False, sf_eligibility_token = Some (sr_token data), sf_kyc_reviewer = None, sf_kyc_approver = None,
        sf_kyc_renewal_due = None, sf_created_at = now\<rparr>\<rparr>"

lemma registration_rows:
  "new_user now (rd_user ds) (sr_email data) (bcrypt_hash (oe_auth env) (rd_salt ds) (sr_password data)) ''supplier'' = registered_user env ds data now"
  "validateConsents data = Inr () \<Longrightarrow> new_supplier now (rd_supplier ds) (rd_user ds) data pii =
     registered_supplier ds data now (sp_bank_account_number pii) (sp_bank_account_name pii) (sp_company_name pii) (sp_tax_id pii) (sp_directors pii)"
  by (auto simp: new_user_def registered_user_def new_supplier_def registered_supplier_def validateConsents_def split: if_splits)

lemma encryptSupplierPii_succ:
  "encryptSupplierPii env data = Inr pii \<longleftrightarrow> oe_encrypt env (sr_bank_account_number data) = Inr (sp_bank_account_number pii)
     \<and> oe_encrypt env (sr_bank_account_name data) = Inr (sp_bank_account_name pii) \<and> oe_encrypt env (sr_company_name data) = Inr (sp_company_name pii)
     \<and> oe_encrypt env (sr_tax_id data) = Inr (sp_tax_id pii) \<and> oe_encrypt env (sr_directors data) = Inr (sp_directors pii)"
  by (cases pii) (auto simp: encryptSupplierPii_def svc_succ)

text \<open>
  C20: what a registration that succeeds had checked and has written, exactly. The applicant had passed the eligibility check less than a day
  before and gave all three consents; e-mail and registration number were new; neither name nor number is on the sanctions list. The state after it is the one
  before with one user (a supplier, active, not verified), one supplier (its check pending, nothing verified, bank account, tax number and directors
  encrypted, every column given), one audit entry, and what \<open>welcomed\<close> adds: the verification token for a day, its audit entry and mail, the welcome message. The
  account is not usable yet: a login with any password is refused and creates no session. The company name is stored encrypted and in the clear
  (REQ-ONBOARD-002 forbids the latter), and the financing amount is the one of the request, not of the eligibility check (REQ-ELIG-004).
\<close>

theorem registration_accepted:
  assumes "registerSupplier env ds data ip ua w = (Inr r, w')"
  shows "r = (rd_user ds, rd_supplier ds)
     \<and> (\<exists>e. findEligibilityByToken (clock w) (sr_token data) (db w) = Some e \<and> elg_passed e)
     \<and> sr_consent_ursb data \<and> sr_consent_refs data \<and> sr_consent_litigation data
     \<and> sr_email data \<notin> usr_email ` set (t_users (db w))
     \<and> sr_registration_number data \<notin> (\<lambda>s. sf_registration_number (sup_file s)) ` set (t_suppliers (db w))
     \<and> (\<exists>entries. oe_sanctions env = Some entries \<and> entries \<noteq> []
          \<and> list_all (\<lambda>e. \<not> listed (sr_company_name data) (sr_registration_number data) e) entries)
     \<and> (\<exists>number holder company tax directors.
          oe_encrypt env (sr_bank_account_number data) = Inr number \<and> oe_encrypt env (sr_bank_account_name data) = Inr holder
          \<and> oe_encrypt env (sr_company_name data) = Inr company \<and> oe_encrypt env (sr_tax_id data) = Inr tax
          \<and> oe_encrypt env (sr_directors data) = Inr directors
          \<and> w' = welcomed env ds (sr_email data) ip ua (w\<lparr>db := (db w)\<lparr>
                t_users := t_users (db w) @ [registered_user env ds data (clock w)],
                t_suppliers := t_suppliers (db w) @ [registered_supplier ds data (clock w) number holder company tax directors],
                t_audit := t_audit (db w) @ [\<lparr>aud_user = Some (rd_user ds), aud_action = ''SUPPLIER_REGISTERED'', aud_table = ''suppliers'',
                  aud_record = Some (rd_supplier ds), aud_old = None, aud_new = [(''kycStatus'', JStr ''pending'')],
                  aud_ip = Some ip, aud_agent = Some ua, aud_created_at = None\<rparr>]\<rparr>\<rparr>))
     \<and> fst (login aenv sid mid (sr_email data) password ip' ua' w') = Inl AuthError
     \<and> redis_sessions (snd (login aenv sid mid (sr_email data) password ip' ua' w')) = redis_sessions w'"
proof -
  let ?h = "bcrypt_hash (oe_auth env) (rd_salt ds) (sr_password data)"
  obtain w1 where r: "r = (rd_user ds, rd_supplier ds)" and pre: "validateRegistrationPrereqs data w = (Inr (), w)"
      and cons: "validateConsents data = Inr ()" and screen: "screenSanctionsBeforeRegistration env data ip ua w = (Inr (), w)"
      and tx: "executeRegistrationTx env data (rd_user ds) (rd_supplier ds) ?h ip ua w = (Inr (), w1)"
      and post: "postRegistrationChecks env ds (sr_email data) ip ua w1 = (Inr (), w')"
    using registerSupplier_succ [OF assms] .
  have refusal: "registration_refusal data w = None"
    using assms unfolding registration_checks by (auto split: option.splits)
  obtain pii where pii: "encryptSupplierPii env data = Inr pii" and cols: "list_all (\<lambda>c. c \<in> set (audit_columns (db w))) audit_cols"
    and w1: "w1 = w\<lparr>db := (db w)\<lparr>t_users := t_users (db w) @ [registered_user env ds data (clock w)],
       t_suppliers := t_suppliers (db w) @ [registered_supplier ds data (clock w) (sp_bank_account_number pii) (sp_bank_account_name pii)
         (sp_company_name pii) (sp_tax_id pii) (sp_directors pii)],
       t_audit := t_audit (db w) @ [audit_req (Some (rd_user ds)) ''SUPPLIER_REGISTERED'' ''suppliers'' (rd_supplier ds) None
         [(''kycStatus'', JStr ''pending'')] (Some ip) (Some ua)]\<rparr>\<rparr>"
    by (rule executeRegistrationTx_exact [OF tx]) (simp only: registration_rows(1) registration_rows(2) [OF cons])
  have "usr_id (registered_user env ds data (clock w)) = rd_user ds" by (simp add: registered_user_def)
  then have ok1: "audit_ok (db w1) (Some (rd_user ds))" using cols by (simp add: w1 audit_ok_def user_exists_def)
  have w': "w' = welcomed env ds (sr_email data) ip ua w1" by (rule postRegistration_exact [OF ok1 post])
  have s: "\<exists>entries. oe_sanctions env = Some entries \<and> entries \<noteq> [] \<and> list_all (\<lambda>e. \<not> listed (sr_company_name data) (sr_registration_number data) e) entries"
    using screen unfolding screening_run by (auto simp: select_one_None list_all_iff split: option.splits if_splits)
  have em: "sr_email data \<notin> usr_email ` set (t_users (db w))"
    "sr_registration_number data \<notin> (\<lambda>s. sf_registration_number (sup_file s)) ` set (t_suppliers (db w))"
    "\<exists>e. findEligibilityByToken (clock w) (sr_token data) (db w) = Some e \<and> elg_passed e"
    "sr_consent_ursb data" "sr_consent_refs data" "sr_consent_litigation data"
    using refusal unfolding registration_refusal_def by (simp_all split: if_splits)
  have rows': "t_users (db w') = t_users (db w) @ [registered_user env ds data (clock w)]" and ok: "audit_ok (db w') None"
    using cols by (simp_all add: w' w1 welcomed_def Let_def audit_ok_def user_exists_def)
  have f: "findUserByEmail (sr_email data) (db w') = Some (registered_user env ds data (clock w))"
  proof -
    have "select_one (\<lambda>u. usr_email u = sr_email data) (t_users (db w)) = None"
      using em(1) by (auto simp: select_one_None intro: rev_image_eqI [OF _ sym])
    then show ?thesis by (simp add: findUserByEmail_def rows' select_one_append registered_user_def)
  qed
  have "\<not> usable (clock w') (usr_account (registered_user env ds data (clock w)))" by (simp add: usable_def registered_user_def)
  then obtain l b where lg: "login aenv sid mid (sr_email data) password ip' ua' w' = (Inl AuthError, w'\<lparr>db := (db w')\<lparr>t_login_history := l, t_audit := b\<rparr>\<rparr>)"
    using login_unusable [OF f ok] by blast
  have e: "audit_req (Some (rd_user ds)) ''SUPPLIER_REGISTERED'' ''suppliers'' (rd_supplier ds) None [(''kycStatus'', JStr ''pending'')] (Some ip) (Some ua) =
      \<lparr>aud_user = Some (rd_user ds), aud_action = ''SUPPLIER_REGISTERED'', aud_table = ''suppliers'', aud_record = Some (rd_supplier ds), aud_old = None,
       aud_new = [(''kycStatus'', JStr ''pending'')], aud_ip = Some ip, aud_agent = Some ua, aud_created_at = None\<rparr>"
    by (simp add: audit_req_def audit_sys_def)
  have enc: "oe_encrypt env (sr_bank_account_number data) = Inr (sp_bank_account_number pii)"
    "oe_encrypt env (sr_bank_account_name data) = Inr (sp_bank_account_name pii)" "oe_encrypt env (sr_company_name data) = Inr (sp_company_name pii)"
    "oe_encrypt env (sr_tax_id data) = Inr (sp_tax_id pii)" "oe_encrypt env (sr_directors data) = Inr (sp_directors pii)"
    using pii by (simp_all add: encryptSupplierPii_succ)
  have no: "fst (login aenv sid mid (sr_email data) password ip' ua' w') = Inl AuthError"
    "redis_sessions (snd (login aenv sid mid (sr_email data) password ip' ua' w')) = redis_sessions w'" using lg by simp_all
  show ?thesis
    by (intro conjI r em s no, intro exI conjI, (rule enc)+) (rule w' [unfolded w1 e])
qed

text \<open>Neither the transaction nor the verification mail changes what is known of the queues.\<close>

definition queue_state :: "world \<Rightarrow> bool \<times> (queue_ref \<Rightarrow> bool)" where
  "queue_state w = (redis_up w, queue_set w)"

lemma queue_state_steps:
  "preserves (\<lambda>w. queue_state w = x) (tryExecS f)" "preserves (\<lambda>w. queue_state w = x) (execS g)"
  "preserves (\<lambda>w. queue_state w = x) (enqueueS q n j)" "preserves (\<lambda>w. queue_state w = x) (createAuditEntry a)"
  by (auto simp: preserves_def queue_state_def tryExecS_def createAuditEntry_def run_enqueue split: sum.splits)

lemma queue_state_transaction: "preserves (\<lambda>w. queue_state w = x) m \<Longrightarrow> preserves (\<lambda>w. queue_state w = x) (transactionS m)"
  unfolding preserves_def transactionS_def queue_state_def by (fastforce split: prod.splits sum.splits)

lemma executeRegistrationTx_queues: "preserves (\<lambda>w. queue_state w = x) (executeRegistrationTx env data u s h ip ua)"
  unfolding executeRegistrationTx_def writeRegistrationRows_def createUserAndSupplier_def
  by (intro preserves_bind preserves_then preserves_catch preserves_lift preserves_throw preserves_now queue_state_transaction queue_state_steps)

lemma issueEmailVerificationToken_queues: "preserves (\<lambda>w. queue_state w = x) (issueEmailVerificationToken env tid mid raw u email ip ua)"
  unfolding issueEmailVerificationToken_def generateEmailVerificationToken_def auth_createAuditEntry_def enqueueVerificationEmail_def
  by (intro preserves_bind preserves_then preserves_now preserves_catch preserves_return queue_state_steps)

lemma post_queue_down:
  assumes "\<not> redis_up w" and "queue_set w Onboarding_notification"
  shows "fst (postRegistrationChecks env ds email ip ua w) = Inl QueueError"
proof -
  let ?m = "catchS (issueEmailVerificationToken (oe_auth env) (rd_token_id ds) (rd_message ds) (rd_raw_token ds) (rd_user ds) email ip ua) (\<lambda>_. returnS ())"
  obtain r v where m: "?m w = (r, v)" by force
  then have r: "r = Inr ()" by (cases r) (auto simp: catchS_def returnS_def split: prod.splits sum.splits)
  have p: "preserves (\<lambda>w'. queue_state w' = queue_state w) ?m" by (intro preserves_catch issueEmailVerificationToken_queues preserves_return)
  have "queue_state v = queue_state w" by (rule preservesD_run [OF p m]) simp
  then show ?thesis using m r assms
    by (simp add: postRegistrationChecks_def queueOnboardingNotification_def enqueueS_def enqueueWithContext_def queue_state_def)
qed

lemma registered_email_refused:
  assumes "emailExists (sr_email data) (db w)" shows "\<exists>e. registerSupplier env ds data ip ua w = (Inl e, w)"
proof -
  obtain r v where run: "validateRegistrationPrereqs data w = (r, v)" by force
  have "v = w" by (rule preservesD_run [OF validateRegistrationPrereqs_reads run]) simp
  moreover obtain e where "r = Inl e" using run assms by (cases r) (auto simp: validateRegistrationPrereqs_succ)
  ultimately show ?thesis using run by (simp add: registerSupplier_def)
qed

text \<open>
  C35: the welcome message can undo the answer but not the account. The comment above \<open>postRegistrationChecks\<close> says a failure of the queue must not throw;
  only the verification mail is protected. When the queue cannot be reached the request fails although user and supplier are committed,
  and a second attempt is refused because the e-mail is taken.
\<close>

theorem registration_error_after_commit:
  assumes "validateRegistrationPrereqs data w = (Inr (), w)" and "validateConsents data = Inr ()"
    and "screenSanctionsBeforeRegistration env data ip ua w = (Inr (), w)"
    and "executeRegistrationTx env data (rd_user ds) (rd_supplier ds) (bcrypt_hash (oe_auth env) (rd_salt ds) (sr_password data)) ip ua w = (Inr (), w1)"
    and "\<not> redis_up w" and "queue_set w Onboarding_notification"
  shows "\<exists>w'. registerSupplier env ds data ip ua w = (Inl QueueError, w')
     \<and> length (t_suppliers (db w')) = length (t_suppliers (db w)) + 1 \<and> emailExists (sr_email data) (db w')
     \<and> (\<exists>e. registerSupplier env ds' data ip' ua' w' = (Inl e, w'))"
proof -
  let ?h = "bcrypt_hash (oe_auth env) (rd_salt ds) (sr_password data)"
  let ?reg = "registerSupplier env ds data ip ua w"
  have "queue_state w1 = queue_state w" by (rule preservesD_run [OF executeRegistrationTx_queues assms(4)]) simp
  then have q: "fst (postRegistrationChecks env ds (sr_email data) ip ua w1) = Inl QueueError"
    using assms(5,6) by (intro post_queue_down) (simp_all add: queue_state_def)
  obtain v where post: "postRegistrationChecks env ds (sr_email data) ip ua w1 = (Inl QueueError, v)" using q by (metis prod.collapse)
  have run: "?reg = (Inl QueueError, v)" using assms(1-4) post by (simp add: registerSupplier_def)
  have rows: "account_rows (db v) = account_rows (db w1)" by (rule preservesD_run [OF post_keeps post]) simp
  obtain pii where "t_users (db w1) = t_users (db w) @ [new_user (clock w) (rd_user ds) (sr_email data) ?h ''supplier'']"
    "t_suppliers (db w1) = t_suppliers (db w) @ [new_supplier (clock w) (rd_supplier ds) (rd_user ds) data pii]"
    using executeRegistrationTx_succ [OF assms(4)] by metis
  then have new: "length (t_suppliers (db v)) = length (t_suppliers (db w)) + 1" "emailExists (sr_email data) (db v)"
    using rows by (simp_all add: account_rows_def emailExists_def new_user_def)
  show ?thesis using run new registered_email_refused [OF new(2)] by auto
qed

end
