(* ===== verification/Kyc_Runs.thy ===== *)
theory Kyc_Runs
  imports Onboarding_Props
begin

text \<open>
  The know-your-customer check as an abstract machine over status, reviewer and approver of one supplier, the proof that every operation
  of onboarding moves each supplier along it, and what follows for any sequence of requests.
\<close>

section \<open>The abstract machine\<close>

type_synonym kyc_state = "kyc_status \<times> string option \<times> string option"

definition kyc_view :: "supplier \<Rightarrow> kyc_state" where
  "kyc_view s = (sup_kyc_status s, sf_kyc_reviewer (sup_file s), sf_kyc_approver (sup_file s))"

inductive kyc_move :: "kyc_state \<Rightarrow> kyc_state \<Rightarrow> bool" where
  submit: "kyc_move (Kyc_pending, r, a) (Kyc_documents_submitted, r, a)"
| take_up: "kyc_move (Kyc_documents_submitted, r, a) (Kyc_under_review, Some u, a)"
| approve: "r \<noteq> Some u \<Longrightarrow> kyc_move (Kyc_under_review, r, a) (Kyc_approved, r, Some u)"
| reject: "kyc_move (Kyc_under_review, r, a) (Kyc_rejected, r, a)"
| documents_approved: "k \<noteq> Kyc_approved \<Longrightarrow> k \<noteq> Kyc_rejected \<Longrightarrow> kyc_move (k, r, a) (Kyc_approved, r, a)"

inductive_simps kyc_move_simps: "kyc_move (k, r, a) s"

lemmas kyc_moved = r_into_rtranclp [of kyc_move]

lemma decided_stays:
  assumes "kyc_move\<^sup>*\<^sup>* v v'" and "fst v = Kyc_approved \<or> fst v = Kyc_rejected" shows "v' = v"
  using assms by (induction rule: rtranclp_induct) (auto elim: kyc_move.cases)

definition duties_apart :: "kyc_state \<Rightarrow> bool" where
  "duties_apart v = (case v of (k, r, None) \<Rightarrow> True | (k, r, Some u) \<Rightarrow> k = Kyc_approved \<and> r \<noteq> Some u)"

lemma duties_apart_run: "kyc_move\<^sup>*\<^sup>* v v' \<Longrightarrow> duties_apart v \<Longrightarrow> duties_apart v'"
proof (induction rule: rtranclp_induct)
  case (step y z)
  from step(2) step(3) [OF step(4)] show ?case
    by cases (auto simp: duties_apart_def split: option.splits)
qed

section \<open>Every operation follows the machine\<close>

definition follows :: "db \<Rightarrow> db \<Rightarrow> bool" where
  "follows d d' \<longleftrightarrow> (\<forall>i s. findSupplierById i d = Some s \<longrightarrow>
     (\<exists>s'. findSupplierById i d' = Some s' \<and> kyc_move\<^sup>*\<^sup>* (kyc_view s) (kyc_view s')))"

lemma follows_trans: "follows d d' \<Longrightarrow> follows d' d'' \<Longrightarrow> follows d d''"
  unfolding follows_def by (metis rtranclp_trans)

lemma follows_same: "t_suppliers d' = t_suppliers d \<Longrightarrow> follows d d'"
  by (simp add: follows_def findSupplierById_def)

lemma follows_append: "t_suppliers d' = t_suppliers d @ xs \<Longrightarrow> follows d d'"
  by (simp add: follows_def findSupplierById_def select_one_append)

lemma follows_update:
  assumes "t_suppliers d' = update_where (\<lambda>s. sup_id s = j) f (t_suppliers d)" and "\<And>s. sup_id (f s) = sup_id s"
    and "\<And>s. findSupplierById j d = Some s \<Longrightarrow> kyc_move\<^sup>*\<^sup>* (kyc_view s) (kyc_view (f s))"
  shows "follows d d'"
  unfolding follows_def
proof (intro allI impI)
  fix i s assume s: "findSupplierById i d = Some s"
  have "findSupplierById i d' = Some (if sup_id s = j then f s else s)"
    using s select_one_update_where [where k = sup_id, OF assms(2)] by (simp add: findSupplierById_def assms(1))
  moreover have "sup_id s = i" using s by (auto simp: findSupplierById_def dest: select_one_key)
  ultimately show "\<exists>s'. findSupplierById i d' = Some s' \<and> kyc_move\<^sup>*\<^sup>* (kyc_view s) (kyc_view s')"
    using s assms(3) [of s] by auto
qed

text \<open>An operation is safe when it takes every database to one that follows it.\<close>

definition kyc_safe :: "'a service \<Rightarrow> bool" where
  "kyc_safe m \<longleftrightarrow> (\<forall>d. preserves (\<lambda>w. follows d (db w)) m)"

lemma follows_refl: "follows d d"
  by (rule follows_same) simp

lemma kyc_safeI: "(\<And>w r w'. m w = (r, w') \<Longrightarrow> follows (db w) (db w')) \<Longrightarrow> kyc_safe m"
  unfolding kyc_safe_def
proof (intro allI preservesI)
  fix d and w :: world assume "\<And>(w :: world) r w'. m w = (r, w') \<Longrightarrow> follows (db w) (db w')" "follows d (db w)"
  then show "follows d (db (snd (m w)))" by (cases "m w") (auto intro: follows_trans)
qed

lemma kyc_safe_run: "kyc_safe m \<Longrightarrow> m w = (r, w') \<Longrightarrow> follows (db w) (db w')"
  unfolding kyc_safe_def using preservesD_run [of "\<lambda>v. follows (db w) (db v)" m w r w'] by (simp add: follows_refl)

lemma kyc_safe_preserves: "(\<And>d. preserves (\<lambda>w. follows d (db w)) m) \<Longrightarrow> kyc_safe m"
  by (simp add: kyc_safe_def)

lemma kyc_safeD: "kyc_safe m \<Longrightarrow> preserves (\<lambda>w. follows d (db w)) m"
  by (simp add: kyc_safe_def)

lemma kyc_safe_bind: "kyc_safe m \<Longrightarrow> (\<And>x. kyc_safe (f x)) \<Longrightarrow> kyc_safe (bindS m f)"
  by (rule kyc_safe_preserves, rule preserves_bind; rule kyc_safeD; assumption)

lemma kyc_safe_then: "kyc_safe m \<Longrightarrow> kyc_safe k \<Longrightarrow> kyc_safe (thenS m k)"
  by (rule kyc_safe_preserves, rule preserves_then; rule kyc_safeD; assumption)

lemma kyc_safe_catch: "kyc_safe m \<Longrightarrow> (\<And>e. kyc_safe (h e)) \<Longrightarrow> kyc_safe (catchS m h)"
  by (rule kyc_safe_preserves, rule preserves_catch; rule kyc_safeD; assumption)

lemma kyc_safe_transaction: "kyc_safe m \<Longrightarrow> kyc_safe (transactionS m)"
  by (rule kyc_safe_preserves, rule preserves_transaction; rule kyc_safeD; assumption)

lemma kyc_safe_for: "(\<And>x. kyc_safe (g x)) \<Longrightarrow> kyc_safe (forS g xs)"
  by (rule kyc_safe_preserves, rule preserves_for; rule kyc_safeD; assumption)

lemma kyc_safe_when: "kyc_safe m \<Longrightarrow> kyc_safe (whenS b m)"
  by (rule kyc_safe_preserves, rule preserves_when; rule kyc_safeD; assumption)

lemma kyc_safe_keeps: assumes "\<And>T. preserves (\<lambda>w. t_suppliers (db w) = T) m" shows "kyc_safe m"
proof (rule kyc_safeI)
  fix w :: world and r w' assume run: "m w = (r, w')"
  show "follows (db w) (db w')" by (rule follows_same, rule preservesD_run [OF assms [of "t_suppliers (db w)"] run]) (rule refl)
qed

lemma kyc_safe_reads: "(\<And>w. db (snd (m w)) = db w) \<Longrightarrow> kyc_safe m"
  by (rule kyc_safe_keeps) (simp add: preserves_def)

lemma kyc_safe_steps:
  "kyc_safe (queryS f)" "kyc_safe nowS" "kyc_safe (returnS x)" "kyc_safe (throwS e)" "kyc_safe (guardS b e)" "kyc_safe (requireS q e)"
  "kyc_safe (liftS v)" "kyc_safe (enqueueS qr n j)" "kyc_safe (getS h)"
  by (rule kyc_safe_reads; auto simp: svc_def run_enqueue nowS_def split: option.splits)+

lemma kyc_safe_audit: "kyc_safe (createAuditEntry a)"
  by (rule kyc_safe_keeps, rule preserves_createAuditEntry) simp

lemma kyc_safe_tryExec: "(\<And>d d'. f d = Inr d' \<Longrightarrow> follows d d') \<Longrightarrow> kyc_safe (tryExecS f)"
  by (rule kyc_safeI) (auto simp: tryExecS_def follows_refl split: sum.splits)

lemmas kyc_safe_intros = kyc_safe_bind kyc_safe_then kyc_safe_catch kyc_safe_transaction kyc_safe_steps kyc_safe_audit kyc_safe_when
  kyc_safe_for

definition with_kyc :: "kyc_status \<Rightarrow> supplier \<Rightarrow> supplier" where
  "with_kyc k s = s\<lparr>sup_kyc_status := k\<rparr>"

lemma view_set: "kyc_view (with_kyc k s) = (k, snd (kyc_view s))" "sup_id (with_kyc k s) = sup_id s"
  by (simp_all add: kyc_view_def with_kyc_def)

lemma set_kyc_status_suppliers:
  "t_suppliers (set_kyc_status k i d) = update_where (\<lambda>s. sup_id s = i) (with_kyc k) (t_suppliers d)"
  by (simp add: set_kyc_status_def with_kyc_def [abs_def])

lemma safe_documents: "kyc_safe (tryExecS (createDocument x))"
  by (rule kyc_safe_tryExec, rule follows_same) (auto simp: createDocument_def split: if_splits)

lemma safe_autoAdvance: "kyc_safe (autoAdvanceKycStatus i u ip ua)"
proof (rule kyc_safeI)
  fix w :: world and r w' assume run: "autoAdvanceKycStatus i u ip ua w = (r, w')"
  show "follows (db w) (db w')"
  proof (cases "shouldAutoAdvance i (db w)")
    case False then show ?thesis using run by (simp add: autoAdvanceKycStatus_def follows_refl)
  next
    case True
    let ?d = "set_kyc_status Kyc_documents_submitted i (db w)"
    have "follows (db w) ?d"
      using True by (intro follows_update [OF set_kyc_status_suppliers])
        (auto simp: shouldAutoAdvance_def with_kyc_def kyc_view_def intro: kyc_moved kyc_move.submit)
    moreover have "follows ?d (db w')"
      using run True kyc_safe_run [OF kyc_safe_audit, where w = "w\<lparr>db := ?d\<rparr>" and r = r]
      by (simp add: autoAdvanceKycStatus_def advanceToDocumentsSubmitted_def repo_updateKycStatus_def)
    ultimately show ?thesis by (rule follows_trans)
  qed
qed

lemma safe_upload: "kyc_safe (uploadDocument env mid x i u role f t ip ua)"
proof -
  have w: "kyc_safe (writeFileS p c)" for p c
    by (rule kyc_safe_keeps) (simp add: preserves_def writeFileS_def modifyS_def)
  have e: "kyc_safe (enqueueWithContext q n j)" for q n j
    by (rule kyc_safe_keeps) (simp add: preserves_def enqueueWithContext_def)
  show ?thesis
    unfolding uploadDocument_def resolveSupplierForRequester_def encryptAndStoreFile_def persistDocumentRecord_def auditDocumentUpload_def
      notifyReviewersOfDocumentUpload_def
    by (intro kyc_safe_intros safe_documents safe_autoAdvance w e | split option.split if_split | intro conjI impI allI)+
qed

text \<open>The decision of staff: the effect on the supplier, and that the transition and the four-eyes rule were checked.\<close>

definition mark_kyc :: "kyc_status \<Rightarrow> string \<Rightarrow> supplier \<Rightarrow> supplier" where
  "mark_kyc k u s = s\<lparr>sup_kyc_status := k,
     sup_file := (sup_file s)\<lparr>sf_kyc_reviewer := (if k = Kyc_under_review then Some u else sf_kyc_reviewer (sup_file s)),
       sf_kyc_approver := (if k = Kyc_approved then Some u else sf_kyc_approver (sup_file s))\<rparr>\<rparr>"

lemma executeKycStatusTx_suppliers:
  assumes "executeKycStatusTx i old k c u ip ua w = (r, w')"
  shows "t_suppliers (db w') = t_suppliers (db w) \<or> t_suppliers (db w') = update_where (\<lambda>s. sup_id s = i) (mark_kyc k u) (t_suppliers (db w))"
proof (cases r)
  case (Inl e) then show ?thesis using assms transactionS_fail unfolding executeKycStatusTx_def by fastforce
next
  case (Inr x)
  then show ?thesis using assms
    by (auto simp: executeKycStatusTx_def svc_succ setKycRoleMarkers_def setKycReviewerWithClient_def setKycApproverWithClient_def
        update_supplier_file_def createAuditEntry_def insert_audit_succ updateKycStatusWithClient_def set_kyc_status_def
        update_where_compose mark_kyc_def intro!: update_where_cong split: if_splits)
qed

lemma safe_updateKycStatus: "kyc_safe (updateKycStatus i k c u ip ua)"
proof (rule kyc_safeI)
  fix w :: world and r w' assume run: "updateKycStatus i k c u ip ua w = (r, w')"
  show "follows (db w) (db w')"
  proof (cases "findSupplierById i (db w)")
    case None then show ?thesis using run by (simp add: updateKycStatus_def follows_refl)
  next
    case (Some s)
    let ?pre = "k \<in> set (kyc_allowed (sup_kyc_status s)) \<and> (k = Kyc_approved \<longrightarrow> sf_kyc_reviewer (sup_file s) \<noteq> Some u)"
    show ?thesis
    proof (cases ?pre)
      case False then show ?thesis using run Some
        by (auto simp: updateKycStatus_def validateKycTransition_def enforceKycMakerChecker_def getKycReviewer_def follows_refl guardS_def split: if_splits)
    next
      case True
      obtain q v where tx: "executeKycStatusTx i (sup_kyc_status s) k c u ip ua w = (q, v)" by force
      have "follows (db w) (db v)"
        using executeKycStatusTx_suppliers [OF tx]
      proof
        assume "t_suppliers (db v) = update_where (\<lambda>s. sup_id s = i) (mark_kyc k u) (t_suppliers (db w))"
        then show ?thesis
        proof (rule follows_update)
          fix x show "sup_id (mark_kyc k u x) = sup_id x" by (simp add: mark_kyc_def)
        next
          fix x assume "findSupplierById i (db w) = Some x"
          then show "kyc_move\<^sup>*\<^sup>* (kyc_view x) (kyc_view (mark_kyc k u x))"
            using True Some by (cases "sup_kyc_status s") (auto simp: mark_kyc_def kyc_view_def kyc_move_simps intro!: kyc_moved)
        qed
      qed (rule follows_same)
      moreover have "kyc_safe (postKycStatusUpdate i k c)"
        unfolding postKycStatusUpdate_def queueKycNotification_def queueOnboardingNotification_def
        by (split if_split, intro conjI impI kyc_safe_intros)
      note kyc_safe_run [OF this, of v r w']
      ultimately show ?thesis using run True Some tx follows_trans
        by (cases q) (auto simp: updateKycStatus_def validateKycTransition_def enforceKycMakerChecker_def getKycReviewer_def)
    qed
  qed
qed

text \<open>A document review may decide the supplier as well; it uses the status read at the start of the request.\<close>

definition review_outcomes :: "supplier \<Rightarrow> supplier list \<Rightarrow> supplier list set" where
  "review_outcomes s T = (if sup_kyc_status s = Kyc_approved \<or> sup_kyc_status s = Kyc_rejected then {T}
     else {T, update_where (\<lambda>x. sup_id x = sup_id s) (with_kyc Kyc_approved) T})"

lemma preserves_if: "(b \<Longrightarrow> preserves I m) \<Longrightarrow> (\<not> b \<Longrightarrow> preserves I k) \<Longrightarrow> preserves I (if b then m else k)"
  by simp

lemma maybeAutoApprove_outcomes:
  "preserves (\<lambda>w. t_suppliers (db w) \<in> review_outcomes s T) (maybeAutoApproveSupplierKyc s u ip ua)"
proof -
  have e: "preserves (\<lambda>w. t_suppliers (db w) \<in> review_outcomes s T) (execS (repo_updateKycStatus (sup_id s) Kyc_approved))"
    if "\<not> (sup_kyc_status s = Kyc_approved \<or> sup_kyc_status s = Kyc_rejected)"
    by (rule preserves_exec) (use that in \<open>auto simp: review_outcomes_def repo_updateKycStatus_def set_kyc_status_suppliers
        update_where_compose with_kyc_def [abs_def]\<close>)
  have a: "preserves (\<lambda>w. t_suppliers (db w) \<in> review_outcomes s T) (createAuditEntry x)" for x
    by (rule preserves_createAuditEntry) simp
  show ?thesis
    unfolding maybeAutoApproveSupplierKyc_def queueOnboardingNotification_def
    by (intro preserves_if preserves_bind preserves_query preserves_return preserves_catch preserves_then preserves_enqueue e a)
qed

lemma review_outcomes_follow:
  assumes "findSupplierById i d = Some s" and "t_suppliers d' \<in> review_outcomes s (t_suppliers d)"
  shows "follows d d'"
proof -
  have s: "sup_id s = i" using assms(1) by (auto simp: findSupplierById_def dest: select_one_key)
  consider "t_suppliers d' = t_suppliers d"
    | "t_suppliers d' = update_where (\<lambda>x. sup_id x = i) (with_kyc Kyc_approved) (t_suppliers d)"
      "sup_kyc_status s \<noteq> Kyc_approved" "sup_kyc_status s \<noteq> Kyc_rejected"
    using assms(2) s by (auto simp: review_outcomes_def split: if_splits)
  then show ?thesis
  proof cases
    case 1 then show ?thesis by (rule follows_same)
  next
    case 2
    show ?thesis
    proof (rule follows_update [OF 2(1)])
      fix x assume "findSupplierById i d = Some x"
      then show "kyc_move\<^sup>*\<^sup>* (kyc_view x) (kyc_view (with_kyc Kyc_approved x))"
        using assms(1) 2(2,3) by (auto simp: kyc_view_def with_kyc_def intro: kyc_moved kyc_move.documents_approved)
    qed (simp add: with_kyc_def)
  qed
qed

lemma updateDocumentReview_suppliers: "preserves (\<lambda>w. P (t_suppliers (db w))) (updateDocumentReview x i dec u c)"
proof -
  have "preserves (\<lambda>w. P (t_suppliers (db w))) (tryExecS (\<lambda>d. if b then Inl e1 else if b' d then Inl e2 else Inr (d\<lparr>t_documents := f d\<rparr>)))" for b e1 b' e2 f
    by (rule preserves_tryExec) (auto split: if_splits)
  then show ?thesis
    unfolding updateDocumentReview_def
    by (intro preserves_bind preserves_now preserves_query) (auto split: option.split)
qed

lemma safe_reviewSupplierDocument: "kyc_safe (reviewSupplierDocument i x dec u role ip ua)"
proof (rule kyc_safeI)
  fix w :: world and r w' assume run: "reviewSupplierDocument i x dec u role ip ua w = (r, w')"
  show "follows (db w) (db w')"
  proof (cases "role \<in> set KYC_DOC_REVIEWER_ROLES \<and> findSupplierById i (db w) \<noteq> None")
    case False then show ?thesis using run by (auto simp: reviewSupplierDocument_def follows_refl guardS_def split: if_splits)
  next
    case True
    then obtain s where s: "findSupplierById i (db w) = Some s" by blast
    let ?I = "\<lambda>w'. t_suppliers (db w') \<in> review_outcomes s (t_suppliers (db w))"
    have a: "preserves ?I (createAuditEntry y)" for y by (rule preserves_createAuditEntry) simp
    let ?rest = "bindS (queryS (findDocumentByIdAndSupplier x (sup_id s))) (\<lambda>old.
       bindS (requireS old (NotFoundError ''Document'' x)) (\<lambda>existing.
       thenS (guardS (doc_uploaded_by existing \<noteq> u) (BusinessRuleError ''KYC_DOC_SELF_REVIEW''))
      (bindS (updateDocumentReview x (sup_id s) (rd_decision dec) u (rd_comments dec)) (\<lambda>updated.
       bindS (requireS updated (NotFoundError ''Document'' x)) (\<lambda>_.
       thenS (createAuditEntry (audit_req (Some u) ''KYC_DOCUMENT_REVIEWED'' ''invoice_documents'' x
                (Some [(''reviewStatus'', JStr (rv_status (doc_review existing))), (''documentType'', JStr (doc_type existing))])
                [(''reviewStatus'', JStr (rd_decision dec)), (''supplierId'', JStr (sup_id s))] (Some ip) (Some ua)))
         (if rd_decision dec = ''approved'' then maybeAutoApproveSupplierKyc s u ip ua
          else if rd_decision dec = ''rejected'' then notifySupplierOfDocumentRejection (sup_id s) (doc_type existing) (rd_comments dec)
          else returnS ()))))))"
    have "preserves ?I ?rest"
      unfolding notifySupplierOfDocumentRejection_def queueOnboardingNotification_def
      by (intro preserves_if preserves_bind preserves_query preserves_require preserves_guard preserves_return preserves_catch
          preserves_then preserves_enqueue updateDocumentReview_suppliers [where P = "\<lambda>t. t \<in> review_outcomes s (t_suppliers (db w))"] maybeAutoApprove_outcomes a)
    moreover have "?rest w = (r, w')" using run True s by (simp add: reviewSupplierDocument_def guardS_def)
    ultimately have "?I w'" by (rule preservesD_run) (simp add: review_outcomes_def)
    then show ?thesis by (rule review_outcomes_follow [OF s])
  qed
qed

lemma safe_supplier_file:
  assumes "\<And>f'. sf_kyc_reviewer (f f') = sf_kyc_reviewer f'" "\<And>f'. sf_kyc_approver (f f') = sf_kyc_approver f'"
  shows "kyc_safe (tryExecS (update_supplier_file i u f))"
proof (rule kyc_safe_tryExec)
  fix d d' assume "update_supplier_file i u f d = Inr d'"
  then have "t_suppliers d' = update_where (\<lambda>s. sup_id s = i) (\<lambda>s. s\<lparr>sup_file := f (sup_file s)\<rparr>) (t_suppliers d)"
    by (auto simp: update_supplier_file_def split: if_splits)
  then show "follows d d'" by (rule follows_update) (simp_all add: kyc_view_def assms)
qed

lemma safe_checks:
  "kyc_safe (recordUrsbVerification i v u ip ua)" "kyc_safe (recordLitigationCheck i v u ip ua)" "kyc_safe (sendSupplierFeedback i u t ip ua)"
proof -
  have u: "kyc_safe (tryExecS (setUrsbVerifiedWithClient now i v u))" for now
    unfolding setUrsbVerifiedWithClient_def by (rule safe_supplier_file) simp_all
  have l: "kyc_safe (tryExecS (setLitigationCheckWithClient now i v u))" for now
    unfolding setLitigationCheckWithClient_def by (rule safe_supplier_file) simp_all
  show "kyc_safe (recordUrsbVerification i v u ip ua)"
    unfolding recordUrsbVerification_def executeUrsbVerificationTx_def by (intro kyc_safe_intros u)
  show "kyc_safe (recordLitigationCheck i v u ip ua)"
    unfolding recordLitigationCheck_def executeLitigationCheckTx_def by (intro kyc_safe_intros l)
  show "kyc_safe (sendSupplierFeedback i u t ip ua)"
    unfolding sendSupplierFeedback_def Let_def queueOnboardingNotification_def by (intro kyc_safe_intros)
qed

lemma safe_checkEligibility: "kyc_safe (checkEligibility i token data ip)"
proof -
  have c: "kyc_safe (tryExecS (createEligibilityCheck x))" for x
    by (rule kyc_safe_tryExec, rule follows_same) (auto simp: createEligibilityCheck_def split: if_splits)
  show ?thesis
    unfolding checkEligibility_def enforceEligibilityThrottle_def recordFailedEligibility_def recordPassedEligibility_def Let_def
    by (intro kyc_safe_intros c | split option.split if_split prod.split | intro conjI impI allI)+
qed

lemma safe_registerSupplier: "kyc_safe (registerSupplier env ds data ip ua)"
proof -
  have u: "kyc_safe (tryExecS (createUserWithClient x))" for x
    by (rule kyc_safe_tryExec, rule follows_same) (auto simp: createUserWithClient_def split: if_splits)
  have s: "kyc_safe (tryExecS (createSupplierWithClient x))" for x
    by (rule kyc_safe_tryExec, rule follows_append [where xs = "[x]"]) (auto simp: createSupplierWithClient_def split: if_splits)
  have p: "kyc_safe (postRegistrationChecks env ds email ip ua)" for email
    by (rule kyc_safe_keeps, rule preservesI) (use preservesD [OF post_keeps] in \<open>fastforce simp: account_rows_def\<close>)
  show ?thesis
    unfolding registerSupplier_def validateRegistrationPrereqs_def screenSanctionsBeforeRegistration_def auditBlockedSanctionsAttempt_def
      executeRegistrationTx_def writeRegistrationRows_def createUserAndSupplier_def Let_def
    by (intro kyc_safe_intros u s p | split option.split | intro conjI impI allI)+
qed

lemma executeRegistrationTx_fresh:
  assumes "executeRegistrationTx env data u s h ip ua w = (Inr (), w')"
  shows "\<forall>x \<in> set (t_suppliers (db w)). sup_id x \<noteq> s"
proof -
  obtain pii where tx: "transactionS (writeRegistrationRows data u s h pii ip ua) w = (Inr (), w')"
    using assms by (cases "encryptSupplierPii env data")
      (auto simp: executeRegistrationTx_def catchS_def throwS_def split: prod.splits sum.splits)
  then obtain d d' where "createUserWithClient (new_user (clock w) u (sr_email data) h ''supplier'') (db w) = Inr d"
      "createSupplierWithClient (new_supplier (clock w) s u data pii) d = Inr d'"
    by (auto simp: writeRegistrationRows_def createUserAndSupplier_def svc_succ createAuditEntry_def)
  then show ?thesis by (auto simp: createUserWithClient_def createSupplierWithClient_def list_ex_iff new_supplier_def split: if_splits)
qed

lemma registered_supplier:
  assumes "registerSupplier env ds data ip ua w = (Inr r, w')"
  shows "\<exists>s. findSupplierById (rd_supplier ds) (db w') = Some s \<and> kyc_view s = (Kyc_pending, None, None) \<and> duties_apart (kyc_view s)"
proof -
  obtain w1 where tx: "executeRegistrationTx env data (rd_user ds) (rd_supplier ds) (bcrypt_hash (oe_auth env) (rd_salt ds) (sr_password data)) ip ua w = (Inr (), w1)"
      and post: "postRegistrationChecks env ds (sr_email data) ip ua w1 = (Inr (), w')"
    using registerSupplier_succ [OF assms] .
  obtain pii where t: "t_suppliers (db w1) = t_suppliers (db w) @ [new_supplier (clock w) (rd_supplier ds) (rd_user ds) data pii]"
    using executeRegistrationTx_succ [OF tx] by metis
  have "select_one (\<lambda>s. sup_id s = rd_supplier ds) (t_suppliers (db w)) = None"
    using executeRegistrationTx_fresh [OF tx] by (simp add: select_one_None)
  moreover have "account_rows (db w') = account_rows (db w1)" by (rule preservesD_run [OF post_keeps post]) simp
  ultimately show ?thesis
    using t by (simp add: findSupplierById_def account_rows_def select_one_append new_supplier_def kyc_view_def duties_apart_def)
qed

section \<open>Runs\<close>

inductive onboarding_step :: "world \<Rightarrow> world \<Rightarrow> bool" where
  asks: "checkEligibility i token data ip w = (r1, w') \<Longrightarrow> onboarding_step w w'"
| registers: "registerSupplier env ds reg ip ua w = (r2, w') \<Longrightarrow> onboarding_step w w'"
| uploads: "uploadDocument env mid x i u role f t ip ua w = (r3, w') \<Longrightarrow> onboarding_step w w'"
| reviews: "reviewSupplierDocument i x dec u role ip ua w = (r4, w') \<Longrightarrow> onboarding_step w w'"
| decides: "updateKycStatus i k c u ip ua w = (r4, w') \<Longrightarrow> onboarding_step w w'"
| ursb: "recordUrsbVerification i v u ip ua w = (r4, w') \<Longrightarrow> onboarding_step w w'"
| litigation: "recordLitigationCheck i v u ip ua w = (r4, w') \<Longrightarrow> onboarding_step w w'"
| feedback: "sendSupplierFeedback i u t ip ua w = (r4, w') \<Longrightarrow> onboarding_step w w'"
| waits: "onboarding_step w (w\<lparr>clock := clock w + int n\<rparr>)"
| queue_changes: "onboarding_step w (w\<lparr>redis_up := b\<rparr>)"

lemma step_follows: "onboarding_step w w' \<Longrightarrow> follows (db w) (db w')"
  by (induction rule: onboarding_step.induct)
    (simp_all add: follows_refl kyc_safe_run [OF safe_checkEligibility] kyc_safe_run [OF safe_registerSupplier] kyc_safe_run [OF safe_upload]
      kyc_safe_run [OF safe_reviewSupplierDocument] kyc_safe_run [OF safe_updateKycStatus] kyc_safe_run [OF safe_checks(1)]
      kyc_safe_run [OF safe_checks(2)] kyc_safe_run [OF safe_checks(3)])

lemma run_follows: "onboarding_step\<^sup>*\<^sup>* w w' \<Longrightarrow> follows (db w) (db w')"
  by (induction rule: rtranclp_induct) (auto intro: follows_refl follows_trans step_follows)

text \<open>
  C17: onboarding refines the abstract machine of the check. Whatever requests arrive in whatever order, and however they end, the status,
  reviewer and approver of every supplier move along the rules of \<open>kyc_move\<close>; once approved or rejected nothing changes them again.
\<close>

theorem kyc_refinement:
  assumes "onboarding_step\<^sup>*\<^sup>* w w'" and "findSupplierById i (db w) = Some s"
  shows "\<exists>s'. findSupplierById i (db w') = Some s' \<and> kyc_move\<^sup>*\<^sup>* (kyc_view s) (kyc_view s')
     \<and> (sup_kyc_status s = Kyc_approved \<or> sup_kyc_status s = Kyc_rejected \<longrightarrow> kyc_view s' = kyc_view s)"
proof -
  obtain s' where s': "findSupplierById i (db w') = Some s'" "kyc_move\<^sup>*\<^sup>* (kyc_view s) (kyc_view s')"
    using run_follows [OF assms(1)] assms(2) unfolding follows_def by blast
  then show ?thesis using decided_stays [OF s'(2)] by (auto simp: kyc_view_def)
qed

text \<open>
  C25: four eyes. For a supplier that registered, after any further requests, an approver is recorded only when the check is approved, and the
  approver is not the officer who took up the review.
\<close>

theorem kyc_duties_apart:
  assumes "registerSupplier env ds data ip ua w = (Inr r, w1)" and "onboarding_step\<^sup>*\<^sup>* w1 w'"
  shows "\<exists>s. findSupplierById (rd_supplier ds) (db w') = Some s
     \<and> (\<forall>u. sf_kyc_approver (sup_file s) = Some u \<longrightarrow> sup_kyc_status s = Kyc_approved \<and> sf_kyc_reviewer (sup_file s) \<noteq> Some u)"
proof -
  obtain s where s: "findSupplierById (rd_supplier ds) (db w1) = Some s" "duties_apart (kyc_view s)"
    using registered_supplier [OF assms(1)] by blast
  obtain s' where s': "findSupplierById (rd_supplier ds) (db w') = Some s'" "kyc_move\<^sup>*\<^sup>* (kyc_view s) (kyc_view s')"
    using run_follows [OF assms(2)] s(1) unfolding follows_def by blast
  show ?thesis using s'(1) duties_apart_run [OF s'(2) s(2)] by (auto simp: duties_apart_def kyc_view_def)
qed

text \<open>
  C31: the four-eyes rule covers one way to the approval only. An officer who approves the last required document, alone, takes a supplier that is
  not decided yet straight to approved, whatever its status was, without a review having been taken up, and no approver is recorded.
\<close>

theorem single_officer_approves:
  assumes "findSupplierById i (db w) = Some s" and "sup_kyc_status s \<noteq> Kyc_approved" "sup_kyc_status s \<noteq> Kyc_rejected"
    and "role \<in> set KYC_DOC_REVIEWER_ROLES" and "findDocumentByIdAndSupplier x i (db w) = Some y" and "doc_uploaded_by y \<noteq> u"
    and "audit_ok (db w) (Some u)" and "rd_decision dec = ''approved''"
    and "groups_covered (getApprovedDocumentTypes i ((db w)\<lparr>t_documents := update_where (\<lambda>z. doc_id z = x \<and> doc_supplier z = i)
           (set_review (clock w) ''approved'' u (rd_comments dec)) (t_documents (db w))\<rparr>))"
  shows "\<exists>w'. reviewSupplierDocument i x dec u role ip ua w = (Inr (), w')
     \<and> (\<exists>s'. findSupplierById i (db w') = Some s' \<and> kyc_view s' = (Kyc_approved, snd (kyc_view s)))"
proof -
  let ?d = "(db w)\<lparr>t_documents := update_where (\<lambda>z. doc_id z = x \<and> doc_supplier z = i)
           (set_review (clock w) ''approved'' u (rd_comments dec)) (t_documents (db w))\<rparr>"
  have i: "sup_id s = i" using assms(1) by (auto simp: findSupplierById_def dest: select_one_key)
  have u: "user_exists (db w) (Some u)" using assms(7) by (simp add: audit_ok_def)
  let ?a = "audit_req (Some u) ''KYC_DOCUMENT_REVIEWED'' ''invoice_documents'' x
                (Some [(''reviewStatus'', JStr (rv_status (doc_review y))), (''documentType'', JStr (doc_type y))])
                [(''reviewStatus'', JStr (rd_decision dec)), (''supplierId'', JStr i)] (Some ip) (Some ua)"
  let ?v = "w\<lparr>db := ?d\<lparr>t_audit := t_audit (db w) @ [?a]\<rparr>\<rparr>"
  have rev: "reviewSupplierDocument i x dec u role ip ua w = maybeAutoApproveSupplierKyc s u ip ua ?v"
    using assms u i by (simp add: reviewSupplierDocument_def updateDocumentReview_def)
  have cov: "groups_covered (getApprovedDocumentTypes i (db ?v))"
    using assms(9) by (simp add: getApprovedDocumentTypes_def getDocumentTypeCounts_def latest_of_type_def)
  obtain r w' where run: "maybeAutoApproveSupplierKyc s u ip ua ?v = (r, w')" by force
  have r: "r = Inr ()"
    using run cov assms(2,3) i by (cases r) (auto simp: maybeAutoApproveSupplierKyc_def catchS_def returnS_def split: prod.splits sum.splits)
  have t: "t_suppliers (db w') = update_where (\<lambda>z. sup_id z = i) (with_kyc Kyc_approved) (t_suppliers (db w))"
  proof -
    have ok: "audit_ok (set_kyc_status Kyc_approved i (db ?v)) (Some u)" using assms(7) by (simp add: set_kyc_status_def)
    show ?thesis using run cov assms(2,3) i ok
      by (auto simp: maybeAutoApproveSupplierKyc_def repo_updateKycStatus_def set_kyc_status_suppliers queueOnboardingNotification_def
          catchS_def returnS_def run_enqueue split: prod.splits sum.splits if_splits)
  qed
  have "findSupplierById i (db w') = Some (with_kyc Kyc_approved s)"
    using assms(1) i select_one_update_where [where k = sup_id and f = "with_kyc Kyc_approved" and x = i]
    by (simp add: findSupplierById_def t with_kyc_def)
  then show ?thesis using rev run r by (auto simp: view_set)
qed

section \<open>Documents are returned as they were uploaded\<close>

definition stored :: "world \<Rightarrow> document list \<times> (string \<Rightarrow> string option)" where
  "stored w = (t_documents (db w), files w)"

lemma stored_steps:
  "preserves (\<lambda>w. stored w = z) (createAuditEntry a)" "preserves (\<lambda>w. stored w = z) (enqueueWithContext q n j)"
  "preserves (\<lambda>w. stored w = z) (execS (repo_updateKycStatus i k))" "preserves (\<lambda>w. stored w = z) (queryS g)"
  by (auto simp: preserves_def stored_def createAuditEntry_def tryExecS_def insert_audit_succ enqueueWithContext_def
      repo_updateKycStatus_def set_kyc_status_def split: sum.splits)

lemma upload_tail_stored:
  "preserves (\<lambda>w. stored w = z) (auditDocumentUpload env x i t f u ip ua)" "preserves (\<lambda>w. stored w = z) (notifyReviewersOfDocumentUpload env mid t)"
  unfolding auditDocumentUpload_def autoAdvanceKycStatus_def advanceToDocumentsSubmitted_def notifyReviewersOfDocumentUpload_def
  by (intro preserves_then preserves_bind preserves_when preserves_if preserves_return preserves_catch preserves_get preserves_for stored_steps)+

lemma uploadDocument_succ:
  assumes "uploadDocument env mid x i u role f t ip ua w = (Inr r, w')"
  obtains s c where "resolveSupplierForRequester i u role w = (Inr (Some s), w)" "oe_encrypt env (to_base64 (fl_buffer f)) = Inr c"
    "stored w' = (t_documents (db w) @ [kyc_document env (clock w) x (sup_id s) f t u],
       (files w)(path_string (oe_upload_dir env @ [x @ ''.enc'']) := Some c))"
    "\<not> list_ex (\<lambda>z. doc_id z = x) (t_documents (db w))"
proof -
  have reads: "v = w" if "resolveSupplierForRequester i u role w = (q, v)" for q v
    using that by (auto simp: resolveSupplierForRequester_def split: option.splits if_splits)
  obtain s c d v1 v2 v3 where s: "resolveSupplierForRequester i u role w = (Inr (Some s), v3)"
      and c: "oe_encrypt env (to_base64 (fl_buffer f)) = Inr c"
      and d: "createDocument (kyc_document env (clock v3) x (sup_id s) f t u) (db v3) = Inr d"
      and v: "v1 = v3\<lparr>files := (files v3)(path_string (oe_upload_dir env @ [x @ ''.enc'']) := Some c), db := d\<rparr>"
      and a: "auditDocumentUpload env x (sup_id s) t f u ip ua v1 = (Inr (), v2)"
      and n: "notifyReviewersOfDocumentUpload env mid t v2 = (Inr (), w')"
    using assms by (auto simp: uploadDocument_def encryptAndStoreFile_def writeFileS_def persistDocumentRecord_def svc_succ)
  have "v3 = w" by (rule reads [OF s])
  have "stored v2 = stored v1" by (rule preservesD_run [OF upload_tail_stored(1) a]) simp
  moreover have "stored w' = stored v2" by (rule preservesD_run [OF upload_tail_stored(2) n]) simp
  ultimately show thesis using that s c d v \<open>v3 = w\<close>
    by (auto simp: stored_def createDocument_def kyc_document_def split: if_splits)
qed

text \<open>
  a document of the check comes back byte for byte, with its type and a name made of type and id, to every role that may read documents: the upload
  encodes, encrypts and writes under the id, the download resolves inside the upload directory, decrypts and decodes.
\<close>

theorem kyc_document_roundtrip:
  assumes "uploadDocument env mid x i u role f t ip ua w = (Inr r, w')"
    and "oe_encrypt env = encrypt cipher key iv" "oe_decrypt env = decrypt decipher key"
    and "aead cipher decipher" "key_ok key" "length iv = IV_LENGTH" and "CHR ''/'' \<notin> set x" and "oe_upload_dir env \<noteq> []"
    and "findSupplierById i (db w) = Some s" and "viewer \<in> set ADMIN_ROLES_FOR_DOCUMENT_DOWNLOAD"
  shows "getSupplierDocumentFile env i x v viewer w' =
     (Inr (fl_buffer f, fl_mimetype f, t @ ''_'' @ slice0 8 x @ mimeToExtension (fl_mimetype f)), w')"
proof -
  obtain s' c where res: "resolveSupplierForRequester i u role w = (Inr (Some s'), w)" and c: "oe_encrypt env (to_base64 (fl_buffer f)) = Inr c"
    and st: "stored w' = (t_documents (db w) @ [kyc_document env (clock w) x (sup_id s') f t u],
       (files w)(path_string (oe_upload_dir env @ [x @ ''.enc'']) := Some c))"
    and fresh: "\<not> list_ex (\<lambda>z. doc_id z = x) (t_documents (db w))"
    using uploadDocument_succ [OF assms(1)] .
  have s': "s' = s" "sup_id s = i" using res assms(9) by (auto simp: resolveSupplierForRequester_def findSupplierById_def dest: select_one_key)
  obtain s2 where s2: "findSupplierById i (db w') = Some s2"
    using kyc_safe_run [OF safe_upload assms(1)] assms(9) unfolding follows_def by blast
  have "sup_id s2 = i" using s2 by (auto simp: findSupplierById_def dest: select_one_key)
  moreover have "findDocumentByIdAndSupplier x i (db w') = Some (kyc_document env (clock w) x i f t u)"
  proof -
    have "select_one (\<lambda>z. doc_id z = x \<and> doc_supplier z = i) (t_documents (db w)) = None"
      using fresh by (auto simp: select_one_None list_ex_iff)
    then show ?thesis using st s' by (simp add: findDocumentByIdAndSupplier_def stored_def select_one_append kyc_document_def)
  qed
  moreover have "decrypt decipher key c = Inr (to_base64 (fl_buffer f))"
    using encrypt_decrypts [OF assms(4-6), of "to_base64 (fl_buffer f)"] c assms(2) by auto
  moreover have "readAndDecryptDocument env x (x @ ''.enc'') w' = (Inr (fl_buffer f), w')"
    if "decrypt decipher key c = Inr (to_base64 (fl_buffer f))"
    using that st assms(3,7,8) path_string_inside [OF assms(8), of "x @ ''.enc''"]
    by (simp add: readAndDecryptDocument_def resolveEncryptedFilePath_def Let_def resolve_document stored_def from_base64_to_base64)
  ultimately show ?thesis
    using s2 assms(10) by (simp add: getSupplierDocumentFile_def resolveSupplierForRequester_def authorizeDocumentDownload_def
      kyc_document_def buildDownloadFileName_def)
qed

section \<open>Examples\<close>

definition sample_onboarding :: onboarding_env where
  "sample_onboarding = \<lparr>oe_auth = plain_env, oe_encrypt = encrypt plain_cipher sample_key (replicate 12 0),
     oe_decrypt = decrypt plain_decipher sample_key, oe_hashDocument = (\<lambda>_. ''hash''),
     oe_sanctions = Some [\<lparr>sn_name = ''Bad Co'', sn_registration_number = None, sn_reason = ''list'', sn_pep = False\<rparr>],
     oe_upload_dir = [''uploads'']\<rparr>"

definition sample_answers :: eligibility_input where
  "sample_answers = \<lparr>ei_registered = True, ei_authorized = True, ei_years = Bucket ''2-5'', ei_funding = None, ei_email = Some ''A@x ''\<rparr>"

definition sample_application :: supplier_registration where
  "sample_application = \<lparr>sr_email = ''a@x'', sr_password = ''pw'', sr_company_name = ''Good Co'', sr_registration_number = ''R1'', sr_tax_id = ''T'',
     sr_directors = ''[]'', sr_bank_name = ''B'', sr_bank_account_number = ''1'', sr_bank_account_name = ''n'', sr_bank_branch = ''b'',
     sr_payment_method = ''EFT'', sr_token = ''t1'', sr_consent_ursb = True, sr_consent_refs = True, sr_consent_litigation = True,
     sr_litigation_disclosure = None, sr_financing_amount = None\<rparr>"

definition sample_draws :: registration_draws where
  "sample_draws = \<lparr>rd_user = ''u1'', rd_supplier = ''s1'', rd_salt = ''x'', rd_token_id = ''v1'', rd_message = ''m1'', rd_raw_token = ''raw''\<rparr>"

definition registration_world :: "bool \<Rightarrow> world" where
  "registration_world up = (world_of (blank_db\<lparr>t_eligibility := [eligibility_row 0 ''e1'' ''t1'' sample_answers 2 True ''ip'' (Some ''a@x'')]\<rparr>))\<lparr>redis_up := up\<rparr>"

lemmas registration_defs = registration_world_def sample_application_def sample_draws_def sample_answers_def eligibility_row_def sample_defs

theorem eligibility_policy_witness:
  "fst (checkEligibility ''e2'' ''t2'' sample_answers ''ip'' (registration_world True)) = Inr \<lparr>er_passed = True, er_session_token = Some ''t2''\<rparr>"
proof -
  let ?w = "registration_world True"
  let ?rows = "applicant_rows (clock ?w) (normalised_email sample_answers) ''ip'' (db ?w)"
  have b: "\<not> blocked (clock ?w) ?rows"
    by (simp add: blocked_def failures_within_def applicant_rows_def registration_defs)
  have e: "True = (ei_registered sample_answers \<and> ei_authorized sample_answers \<and> 1 \<le> yearsInBusinessToNumber (ei_years sample_answers))"
    by (simp add: sample_answers_def yearsInBusinessToNumber_def)
  have l: "case normalised_email sample_answers of None \<Rightarrow> True | Some x \<Rightarrow> length x \<le> 255" by code_simp
  have "checkEligibility ''e2'' ''t2'' sample_answers ''ip'' ?w = (Inr \<lparr>er_passed = True, er_session_token = Some ''t2''\<rparr>,
      snd (checkEligibility ''e2'' ''t2'' sample_answers ''ip'' ?w))"
    using eligibility_policy [of "''e2''" ?w "''t2''" "''ip''" sample_answers ?rows True 0] b e l
    by (simp add: registration_defs yearsInBusinessToNumber_def)
  then show ?thesis by (metis fst_conv)
qed

theorem registration_screened_witness:
  "registerSupplier sample_onboarding sample_draws (sample_application\<lparr>sr_company_name := ''BAD CO''\<rparr>) ''ip'' ''ua'' (registration_world True)
     = (Inl (BusinessRuleError ''SANCTIONS_MATCH''), (registration_world True)\<lparr>db := (db (registration_world True))\<lparr>t_audit :=
         [blocked_entry sample_onboarding \<lparr>sn_name = ''Bad Co'', sn_registration_number = None, sn_reason = ''list'', sn_pep = False\<rparr>
            (sample_application\<lparr>sr_company_name := ''BAD CO''\<rparr>) ''ip'' ''ua'']\<rparr>\<rparr>)"
proof -
  let ?x = "\<lparr>sn_name = ''Bad Co'', sn_registration_number = None, sn_reason = ''list'', sn_pep = False\<rparr>" and ?data = "sample_application\<lparr>sr_company_name := ''BAD CO''\<rparr>"
  let ?w = "registration_world True"
  have low: "toLowerCase ''Bad Co'' = toLowerCase ''BAD CO''" by code_simp
  have l: "oe_sanctions sample_onboarding = Some [?x]" "?x \<in> set [?x]" "listed (sr_company_name ?data) (sr_registration_number ?data) ?x"
    using low by (simp_all add: sample_onboarding_def listed_def)
  have p: "registration_refusal ?data ?w = None"
    by (simp add: registration_refusal_def registration_defs findEligibilityByToken_def)
  have ok: "audit_ok (db ?w) None" "t_audit (db ?w) = []"
    by (simp_all add: registration_defs audit_ok_def user_exists_def)
  have "(\<exists>entries e. oe_sanctions sample_onboarding = Some entries \<and> e \<in> set entries \<and> listed (sr_company_name ?data) (sr_registration_number ?data) e)
      \<or> oe_sanctions sample_onboarding = None \<or> oe_sanctions sample_onboarding = Some []" using l by blast
  from registration_screened [OF this, of sample_draws "''ip''" "''ua''" ?w] show ?thesis
    unfolding p l(1) using l(3) ok by simp
qed

lemma sample_prepared:
  "validateRegistrationPrereqs sample_application (registration_world up) = (Inr (), registration_world up)"
  "validateConsents sample_application = Inr ()"
  "screenSanctionsBeforeRegistration sample_onboarding sample_application ''ip'' ''ua'' (registration_world up) = (Inr (), registration_world up)"
proof -
  have low: "toLowerCase ''Bad Co'' \<noteq> toLowerCase ''Good Co''" by code_simp
  show "validateRegistrationPrereqs sample_application (registration_world up) = (Inr (), registration_world up)"
    by (simp add: validateRegistrationPrereqs_succ repo_def registration_defs)
  show "validateConsents sample_application = Inr ()" by (simp add: validateConsents_def sample_application_def)
  show "screenSanctionsBeforeRegistration sample_onboarding sample_application ''ip'' ''ua'' (registration_world up) = (Inr (), registration_world up)"
    using low by (simp add: screenSanctionsBeforeRegistration_def loadSanctionsList_def findSanctionsMatch_def listed_def sample_onboarding_def sample_application_def)
qed

lemma sample_committed:
  "\<exists>w1. executeRegistrationTx sample_onboarding sample_application (rd_user sample_draws) (rd_supplier sample_draws)
     (bcrypt_hash (oe_auth sample_onboarding) (rd_salt sample_draws) (sr_password sample_application)) ''ip'' ''ua'' (registration_world up) = (Inr (), w1)
     \<and> redis_up w1 = up \<and> queue_set w1 = (\<lambda>_. True) \<and> t_email_tokens (db w1) = [] \<and> audit_ok (db w1) (Some ''u1'')"
proof -
  have e: "\<exists>c. encrypt plain_cipher sample_key (replicate 12 0) v = Inr c" for v
    using encrypt_decrypts [OF plain_aead sample_key_ok, of "replicate 12 0" v] by (auto simp: IV_LENGTH_def)
  obtain pii where pii: "encryptSupplierPii sample_onboarding sample_application = Inr pii"
    using e [of "''1''"] e [of "''n''"] e [of "''Good Co''"] e [of "''T''"] e [of "''[]''"]
    by (auto simp: encryptSupplierPii_def sample_onboarding_def sample_application_def)
  show ?thesis
    unfolding executeRegistrationTx_def pii
    by (simp add: catchS_def writeRegistrationRows_def createUserAndSupplier_def createUserWithClient_def
        createSupplierWithClient_def new_user_def new_supplier_def supplier_too_long_def registrationNumberExists_def sample_onboarding_def
        plain_env_def registration_defs)
qed

lemma sample_registered:
  "\<exists>w'. registerSupplier sample_onboarding sample_draws sample_application ''ip'' ''ua'' (registration_world True) = (Inr (''u1'', ''s1''), w')"
proof -
  obtain w1 where tx: "executeRegistrationTx sample_onboarding sample_application (rd_user sample_draws) (rd_supplier sample_draws)
     (bcrypt_hash (oe_auth sample_onboarding) (rd_salt sample_draws) (sr_password sample_application)) ''ip'' ''ua'' (registration_world True) = (Inr (), w1)"
     "redis_up w1" using sample_committed [of True] by blast
  let ?m = "catchS (issueEmailVerificationToken (oe_auth sample_onboarding) (rd_token_id sample_draws) (rd_message sample_draws)
     (rd_raw_token sample_draws) (rd_user sample_draws) (sr_email sample_application) ''ip'' ''ua'') (\<lambda>_. returnS ())"
  obtain r v where m: "?m w1 = (r, v)" by force
  then have r: "r = Inr ()" by (cases r) (auto simp: catchS_def returnS_def split: prod.splits sum.splits)
  have p: "preserves (\<lambda>w'. queue_state w' = queue_state w1) ?m" by (intro preserves_catch issueEmailVerificationToken_queues preserves_return)
  have "redis_up v" using preservesD_run [OF p m] tx(2) by (simp add: queue_state_def)
  then obtain w' where "postRegistrationChecks sample_onboarding sample_draws (sr_email sample_application) ''ip'' ''ua'' w1 = (Inr (), w')"
    using m r by (cases "queue_set v Onboarding_notification")
      (simp_all add: postRegistrationChecks_def queueOnboardingNotification_def enqueueS_def enqueueWithContext_def)
  then show ?thesis using sample_prepared tx(1) by (simp add: registerSupplier_def sample_draws_def)
qed

theorem registration_accepted_witness:
  "\<exists>w'. registerSupplier sample_onboarding sample_draws sample_application ''ip'' ''ua'' (registration_world True) = (Inr (''u1'', ''s1''), w')
     \<and> t_users (db w') = [registered_user sample_onboarding sample_draws sample_application (clock (registration_world True))]
     \<and> fst (login plain_env ''s'' ''m'' ''a@x'' ''pw'' ''ip'' ''ua'' w') = Inl AuthError"
proof -
  obtain w' where run: "registerSupplier sample_onboarding sample_draws sample_application ''ip'' ''ua'' (registration_world True) = (Inr (''u1'', ''s1''), w')"
    using sample_registered by blast
  have e: "sr_email sample_application = ''a@x''" "t_users (db (registration_world True)) = []" by (simp_all add: registration_defs)
  have u: "t_users (db (welcomed env ds m i a v)) = t_users (db v)" for env ds m i a v by (simp add: welcomed_def Let_def)
  show ?thesis
    using registration_accepted [OF run, where aenv = plain_env and sid = "''s''" and mid = "''m''" and password = "''pw''" and ip' = "''ip''" and ua' = "''ua''"]
      run unfolding e by (auto simp: u e)
qed

theorem registration_error_after_commit_witness:
  "\<exists>w'. registerSupplier sample_onboarding sample_draws sample_application ''ip'' ''ua'' (registration_world False) = (Inl QueueError, w')
     \<and> length (t_suppliers (db w')) = 1 \<and> emailExists ''a@x'' (db w')"
proof -
  obtain w1 where tx: "executeRegistrationTx sample_onboarding sample_application (rd_user sample_draws) (rd_supplier sample_draws)
     (bcrypt_hash (oe_auth sample_onboarding) (rd_salt sample_draws) (sr_password sample_application)) ''ip'' ''ua'' (registration_world False) = (Inr (), w1)"
    using sample_committed [of False] by blast
  have e: "sr_email sample_application = ''a@x''" "t_suppliers (db (registration_world False)) = []"
    "\<not> redis_up (registration_world False)" "queue_set (registration_world False) Onboarding_notification" by (simp_all add: registration_defs)
  show ?thesis using registration_error_after_commit [OF sample_prepared tx e(3,4), where ds' = sample_draws and ip' = "''ip''" and ua' = "''ua''"] unfolding e(1,2) by auto
qed

theorem kyc_duties_apart_witness:
  "\<exists>w1 w' s. registerSupplier sample_onboarding sample_draws sample_application ''ip'' ''ua'' (registration_world True) = (Inr (''u1'', ''s1''), w1)
     \<and> updateKycStatus ''s1'' Kyc_documents_submitted ''c'' ''o'' ''ip'' ''ua'' w1 = (fst (updateKycStatus ''s1'' Kyc_documents_submitted ''c'' ''o'' ''ip'' ''ua'' w1), w')
     \<and> findSupplierById ''s1'' (db w') = Some s \<and> (sf_kyc_approver (sup_file s) = None \<or> sup_kyc_status s = Kyc_approved)"
proof -
  obtain w1 where run: "registerSupplier sample_onboarding sample_draws sample_application ''ip'' ''ua'' (registration_world True) = (Inr (''u1'', ''s1''), w1)"
    using sample_registered by blast
  obtain r w' where up: "updateKycStatus ''s1'' Kyc_documents_submitted ''c'' ''o'' ''ip'' ''ua'' w1 = (r, w')" by force
  then have step: "onboarding_step\<^sup>*\<^sup>* w1 w'" by (intro r_into_rtranclp onboarding_step.decides)
  have d: "rd_supplier sample_draws = ''s1''" by (simp add: sample_draws_def)
  obtain s where "findSupplierById ''s1'' (db w') = Some s" "\<forall>u. sf_kyc_approver (sup_file s) = Some u \<longrightarrow> sup_kyc_status s = Kyc_approved"
    using kyc_duties_apart [OF run step] unfolding d by blast
  then show ?thesis using run up by (intro exI [of _ w1] exI [of _ w'] exI [of _ s]) auto
qed

definition review_world :: world where
  "review_world = world_of (blank_db\<lparr>t_users := [sample_user ''su'' None, sample_user ''o'' None],
     t_suppliers := [sample_supplier\<lparr>sup_kyc_status := Kyc_pending\<rparr>],
     t_documents := map (\<lambda>t. (kyc_document sample_onboarding 0 t ''sup'' sample_file t ''su'')
       \<lparr>doc_review := (if t = ''supplier_agreement'' then unreviewed else unreviewed\<lparr>rv_status := ''approved''\<rparr>)\<rparr>)
       [''certificate_of_incorporation'', ''tax_registration'', ''id_document'', ''supplier_agreement'']\<rparr>)"

theorem single_officer_approves_witness:
  "\<exists>w' s'. reviewSupplierDocument ''sup'' ''supplier_agreement'' \<lparr>rd_decision = ''approved'', rd_comments = []\<rparr> ''o'' ''credit_officer'' ''ip'' ''ua'' review_world
       = (Inr (), w') \<and> findSupplierById ''sup'' (db w') = Some s' \<and> kyc_view s' = (Kyc_approved, None, None)"
proof -
  let ?s = "sample_supplier\<lparr>sup_kyc_status := Kyc_pending\<rparr>"
  let ?y = "(kyc_document sample_onboarding 0 ''supplier_agreement'' ''sup'' sample_file ''supplier_agreement'' ''su'')\<lparr>doc_review := unreviewed\<rparr>"
  have f: "findSupplierById ''sup'' (db review_world) = Some ?s" "audit_ok (db review_world) (Some ''o'')"
    by (simp_all add: findSupplierById_def review_world_def sample_defs)
  have y: "findDocumentByIdAndSupplier ''supplier_agreement'' ''sup'' (db review_world) = Some ?y"
    by (simp add: findDocumentByIdAndSupplier_def review_world_def kyc_document_def world_of_def)
  have v: "kyc_view ?s = (Kyc_pending, None, None)" by (simp add: kyc_view_def sample_supplier_def blank_supplier_file_def)
  have c: "groups_covered (getApprovedDocumentTypes ''sup'' ((db review_world)\<lparr>t_documents := update_where (\<lambda>z. doc_id z = ''supplier_agreement'' \<and> doc_supplier z = ''sup'')
           (set_review (clock review_world) ''approved'' ''o'' []) (t_documents (db review_world))\<rparr>))"
    by (simp add: review_world_def groups_covered_def REQUIRED_DOC_TYPE_GROUPS_def getApprovedDocumentTypes_def getDocumentTypeCounts_def
        latest_of_type_def kyc_document_def set_review_def unreviewed_def world_of_def)
  show ?thesis
    using single_officer_approves [OF f(1) _ _ _ y _ f(2), where role = "''credit_officer''" and dec = "\<lparr>rd_decision = ''approved'', rd_comments = []\<rparr>" and ip = "''ip''" and ua = "''ua''"]
      c unfolding v by (auto simp: KYC_DOC_REVIEWER_ROLES_def kyc_document_def sample_supplier_def)
qed

theorem kyc_refinement_witness:
  "\<exists>w' s'. reviewSupplierDocument ''sup'' ''supplier_agreement'' \<lparr>rd_decision = ''approved'', rd_comments = []\<rparr> ''o'' ''credit_officer'' ''ip'' ''ua'' review_world
       = (fst (reviewSupplierDocument ''sup'' ''supplier_agreement'' \<lparr>rd_decision = ''approved'', rd_comments = []\<rparr> ''o'' ''credit_officer'' ''ip'' ''ua'' review_world), w')
     \<and> findSupplierById ''sup'' (db w') = Some s' \<and> kyc_move\<^sup>*\<^sup>* (Kyc_pending, None, None) (kyc_view s')"
proof -
  let ?s = "sample_supplier\<lparr>sup_kyc_status := Kyc_pending\<rparr>"
  have f: "findSupplierById ''sup'' (db review_world) = Some ?s" by (simp add: findSupplierById_def review_world_def sample_defs)
  have v: "kyc_view ?s = (Kyc_pending, None, None)" by (simp add: kyc_view_def sample_supplier_def blank_supplier_file_def)
  obtain r w' where run: "reviewSupplierDocument ''sup'' ''supplier_agreement'' \<lparr>rd_decision = ''approved'', rd_comments = []\<rparr> ''o'' ''credit_officer'' ''ip'' ''ua'' review_world
       = (r, w')" by force
  then have step: "onboarding_step\<^sup>*\<^sup>* review_world w'" by (intro r_into_rtranclp onboarding_step.reviews)
  show ?thesis using kyc_refinement [OF step f] run unfolding v by auto
qed

theorem kyc_document_roundtrip_witness:
  "\<exists>w'. uploadDocument sample_onboarding id ''doc1'' ''sup'' ''su'' ''supplier'' sample_file ''board_resolution'' ''ip'' ''ua'' review_world = (Inr ''doc1'', w')
     \<and> fst (getSupplierDocumentFile sample_onboarding ''sup'' ''doc1'' ''x'' ''auditor'' w') = Inr ([37, 80, 68, 70], ''application/pdf'', ''board_resolution_doc1.pdf'')"
proof -
  obtain c where c: "encrypt plain_cipher sample_key (replicate 12 0) (to_base64 (fl_buffer sample_file)) = Inr c"
    using encrypt_decrypts [OF plain_aead sample_key_ok, of "replicate 12 0"] by (auto simp: IV_LENGTH_def)
  have q: "findActiveUsersByRoles KYC_REVIEWER_ROLES d = []" if "t_users d = [sample_user ''su'' None, sample_user ''o'' None]" for d
    using that by (simp add: findActiveUsersByRoles_def KYC_REVIEWER_ROLES_def sample_user_def sample_account_def)
  obtain w' where run: "uploadDocument sample_onboarding id ''doc1'' ''sup'' ''su'' ''supplier'' sample_file ''board_resolution'' ''ip'' ''ua'' review_world = (Inr ''doc1'', w')"
    using c by (simp add: uploadDocument_def resolveSupplierForRequester_def findSupplierById_def validateFile_def ALLOWED_MIME_TYPES_def MAX_FILE_SIZE_def
        encryptAndStoreFile_def writeFileS_def persistDocumentRecord_def createDocument_def kyc_document_def auditDocumentUpload_def
        autoAdvanceKycStatus_def shouldAutoAdvance_def advanceToDocumentsSubmitted_def repo_updateKycStatus_def set_kyc_status_def
        groups_covered_def REQUIRED_DOC_TYPE_GROUPS_def getDocumentTypeCounts_def notifyReviewersOfDocumentUpload_def catchS_def q review_world_def sample_onboarding_def sample_file_def sample_defs)
  have f: "findSupplierById ''sup'' (db review_world) = Some (sample_supplier\<lparr>sup_kyc_status := Kyc_pending\<rparr>)"
    by (simp add: findSupplierById_def review_world_def sample_defs)
  have e: "oe_encrypt sample_onboarding = encrypt plain_cipher sample_key (replicate 12 0)" "oe_decrypt sample_onboarding = decrypt plain_decipher sample_key"
    "oe_upload_dir sample_onboarding \<noteq> []" by (simp_all add: sample_onboarding_def)
  show ?thesis
    using kyc_document_roundtrip [OF run e(1,2) plain_aead sample_key_ok _ _ e(3) f, of "''auditor''" "''x''"] run
    by (simp add: IV_LENGTH_def ADMIN_ROLES_FOR_DOCUMENT_DOWNLOAD_def sample_file_def mimeToExtension_def slice0_def)
qed

end
