(* ===== verification/Buyer_Onboarding.thy ===== *)
theory Buyer_Onboarding
  imports Onboarding
begin

text \<open>
  \<open>services/onboarding\<close>, the buyer side: buyers entered by a credit officer, requests of suppliers to add a buyer and their review,
  and the beneficial owners of a supplier.
\<close>

section \<open>Buyers\<close>

record buyer_creation =
  bcr_company_name :: string
  bcr_registration_number :: string
  bcr_credit_rating :: credit_rating
  bcr_approved_limit :: int
  bcr_payment_score :: int
  bcr_contact_email :: string
  bcr_contact_phone :: string
  bcr_ris_margin_rate :: "rat option"
  bcr_undertaking_signed :: "bool option"
  bcr_undertaking_date :: "int option"

text \<open>
  The checks of the table \<open>buyers\<close>: widths, \<open>BIGINT\<close> and \<open>INTEGER\<close> ranges, \<open>NUMERIC(5,4)\<close> for the margin (rounded half away from zero), a
  positive limit, the unique registration number and the creating user.
\<close>

definition margin_in :: "rat \<Rightarrow> ris_error + rat" where
  "margin_in r = (let n = (if r < 0 then - \<lfloor>- r * 10000 + 1 / 2\<rfloor> else \<lfloor>r * 10000 + 1 / 2\<rfloor>)
     in if \<bar>n\<bar> < 100000 then Inr (of_int n / 10000) else Inl (DbError ''22003''))"

definition insert_buyer :: "buyer \<Rightarrow> db \<Rightarrow> ris_error + db" where
  "insert_buyer b d =
     (if 255 < length (buy_company_name b) \<or> 100 < length (bf_registration_number (buy_file b)) then Inl (DbError ''22001'')
      else if \<bar>buy_payment_score b\<bar> \<ge> 2 ^ 31 then Inl (DbError ''22003'')
      else bindE (bigint_in (buy_approved_limit b)) (\<lambda>_.
           bindE (margin_in (buy_ris_margin_rate b)) (\<lambda>margin.
             if buy_approved_limit b \<le> 0 then Inl (DbError ''23514'')
             else if list_ex (\<lambda>q. buy_id q = buy_id b \<or> bf_registration_number (buy_file q) = bf_registration_number (buy_file b)) (t_buyers d)
             then Inl (DbError ''23505'')
             else if \<not> user_exists d (bf_created_by (buy_file b)) then Inl (DbError ''23503'')
             else Inr (d\<lparr>t_buyers := t_buyers d @ [b\<lparr>buy_ris_margin_rate := margin\<rparr>]\<rparr>))))"

definition new_buyer ::
    "int \<Rightarrow> string \<Rightarrow> string \<Rightarrow> string \<Rightarrow> credit_rating \<Rightarrow> int \<Rightarrow> int \<Rightarrow> string option \<Rightarrow> string option \<Rightarrow> rat \<Rightarrow> bool \<Rightarrow> int option
     \<Rightarrow> string \<Rightarrow> buyer" where
  "new_buyer now i companyName registrationNumber rating approvedLimit score email phone margin undertaken date createdBy =
     \<lparr>buy_id = i, buy_company_name = companyName, buy_rating = rating, buy_approved_limit = approvedLimit, buy_used_limit = 0,
      buy_ris_margin_rate = margin, buy_payment_score = score, buy_contact_email = email, buy_is_active = True,
      buy_company_name_encrypted = None,
      buy_file = \<lparr>bf_registration_number = registrationNumber, bf_contact_phone = phone, bf_sanctions_flag = False, bf_pep = False,
        bf_undertaking_signed = undertaken, bf_undertaking_date = date, bf_created_by = Some createdBy, bf_created_at = now\<rparr>\<rparr>"

definition repo_createBuyer :: "buyer \<Rightarrow> db \<Rightarrow> ris_error + db" where
  [repo_def]: "repo_createBuyer = insert_buyer"

definition createBuyerWithClient :: "buyer \<Rightarrow> db \<Rightarrow> ris_error + db" where
  [repo_def]: "createBuyerWithClient = insert_buyer"

definition findBuyerById :: "string \<Rightarrow> db \<Rightarrow> buyer option" where
  [repo_def]: "findBuyerById i d = select_one (\<lambda>b. buy_id b = i) (t_buyers d)"

definition buyerRegistrationNumberExists :: "string \<Rightarrow> db \<Rightarrow> bool" where
  [repo_def]: "buyerRegistrationNumberExists n d = list_ex (\<lambda>b. bf_registration_number (buy_file b) = n) (t_buyers d)"

definition update_buyer_file :: "string \<Rightarrow> (buyer_file \<Rightarrow> buyer_file) \<Rightarrow> db \<Rightarrow> db" where
  "update_buyer_file i f d = d\<lparr>t_buyers := update_where (\<lambda>b. buy_id b = i) (\<lambda>b. b\<lparr>buy_file := f (buy_file b)\<rparr>) (t_buyers d)\<rparr>"

definition setBuyerSanctionsFlag :: "string \<Rightarrow> bool \<Rightarrow> db \<Rightarrow> db" where
  [repo_def]: "setBuyerSanctionsFlag i flagged = update_buyer_file i (\<lambda>f. f\<lparr>bf_sanctions_flag := flagged\<rparr>)"

definition setBuyerPepDesignation :: "string \<Rightarrow> bool \<Rightarrow> db \<Rightarrow> db" where
  [repo_def]: "setBuyerPepDesignation i isPep = update_buyer_file i (\<lambda>f. f\<lparr>bf_pep := isPep\<rparr>)"

definition setSanctionsFlag :: "string \<Rightarrow> bool \<Rightarrow> db \<Rightarrow> db" where
  [repo_def]: "setSanctionsFlag i flagged d =
     d\<lparr>t_suppliers := update_where (\<lambda>s. sup_id s = i) (\<lambda>s. s\<lparr>sup_file := (sup_file s)\<lparr>sf_sanctions_flag := flagged\<rparr>\<rparr>) (t_suppliers d)\<rparr>"

definition setPepDesignation :: "string \<Rightarrow> bool \<Rightarrow> db \<Rightarrow> db" where
  [repo_def]: "setPepDesignation i isPep d =
     d\<lparr>t_suppliers := update_where (\<lambda>s. sup_id s = i) (\<lambda>s. s\<lparr>sup_file := (sup_file s)\<lparr>sf_pep := isPep\<rparr>\<rparr>) (t_suppliers d)\<rparr>"

definition insertBuyerRecord :: "onboarding_env \<Rightarrow> string \<Rightarrow> buyer_creation \<Rightarrow> string \<Rightarrow> unit service" where
  "insertBuyerRecord env buyerId data createdBy =
     bindS (liftS (oe_encrypt env (bcr_contact_email data))) (\<lambda>email.
     bindS (liftS (oe_encrypt env (bcr_contact_phone data))) (\<lambda>phone.
     bindS nowS (\<lambda>now.
       tryExecS (repo_createBuyer (new_buyer now buyerId (bcr_company_name data) (bcr_registration_number data) (bcr_credit_rating data)
         (bcr_approved_limit data) (bcr_payment_score data) (Some email) (Some phone)
         (case bcr_ris_margin_rate data of None \<Rightarrow> 3 / 100 | Some r \<Rightarrow> r)
         (case bcr_undertaking_signed data of None \<Rightarrow> False | Some x \<Rightarrow> x) (bcr_undertaking_date data) createdBy)))))"

definition checkPepDesignation :: "sanctions_entry list \<Rightarrow> string \<Rightarrow> string \<Rightarrow> string \<Rightarrow> unit service" where
  "checkPepDesignation entries companyName tableName recordId =
     (if list_ex (\<lambda>e. sn_pep e \<and> toLowerCase (sn_name e) = toLowerCase companyName) entries
      then (if tableName = ''suppliers'' then execS (setPepDesignation recordId True) else execS (setBuyerPepDesignation recordId True))
      else returnS ())"

definition raiseSanctionsFlag ::
    "string \<Rightarrow> string \<Rightarrow> sanctions_entry \<Rightarrow> string \<Rightarrow> string \<Rightarrow> string \<Rightarrow> unit service" where
  "raiseSanctionsFlag tableName recordId match userId ip ua =
     thenS (if tableName = ''suppliers'' then execS (setSanctionsFlag recordId True) else execS (setBuyerSanctionsFlag recordId True))
    (thenS (createAuditEntry (audit_req (Some userId) ''SANCTIONS_FLAG_RAISED'' tableName recordId None
              [(''matchedEntryRegNo'', JStr (case sn_registration_number match of None \<Rightarrow> ''unknown'' | Some n \<Rightarrow> n)),
               (''reason'', JStr (sn_reason match))] (Some ip) (Some ua)))
       (throwS (BusinessRuleError ''SANCTIONS_MATCH'')))"

definition checkSanctions ::
    "onboarding_env \<Rightarrow> string \<Rightarrow> string \<Rightarrow> string \<Rightarrow> string \<Rightarrow> string \<Rightarrow> string \<Rightarrow> string \<Rightarrow> unit service" where
  "checkSanctions env companyName registrationNumber tableName recordId userId ip ua =
     bindS (liftS (loadSanctionsList env)) (\<lambda>entries.
     thenS (checkPepDesignation entries companyName tableName recordId)
       (case findSanctionsMatch entries companyName registrationNumber of
          None \<Rightarrow> returnS ()
        | Some match \<Rightarrow> raiseSanctionsFlag tableName recordId match userId ip ua))"

definition rating_str :: "credit_rating \<Rightarrow> string" where
  "rating_str r = (case r of Rating_A \<Rightarrow> ''A'' | Rating_B \<Rightarrow> ''B'' | Rating_C \<Rightarrow> ''C'' | Rating_D \<Rightarrow> ''D'')"

definition postBuyerCreation :: "onboarding_env \<Rightarrow> string \<Rightarrow> buyer_creation \<Rightarrow> string \<Rightarrow> string \<Rightarrow> string \<Rightarrow> unit service" where
  "postBuyerCreation env buyerId data createdBy ip ua =
     thenS (checkSanctions env (bcr_company_name data) (bcr_registration_number data) ''buyers'' buyerId createdBy ip ua)
       (createAuditEntry (audit_req (Some createdBy) ''BUYER_CREATED'' ''buyers'' buyerId None
          [(''creditRating'', JStr (rating_str (bcr_credit_rating data))),
           (''approvedLimit'', JStr (show_int (bcr_approved_limit data)))] (Some ip) (Some ua)))"

definition createBuyer :: "onboarding_env \<Rightarrow> string \<Rightarrow> buyer_creation \<Rightarrow> string \<Rightarrow> string \<Rightarrow> string \<Rightarrow> string service" where
  "createBuyer env buyerId data createdBy ip ua =
     bindS (queryS (buyerRegistrationNumberExists (bcr_registration_number data))) (\<lambda>regExists.
     thenS (guardS (\<not> regExists) (BusinessRuleError ''REGISTRATION_NUMBER_TAKEN''))
    (thenS (insertBuyerRecord env buyerId data createdBy)
    (thenS (postBuyerCreation env buyerId data createdBy ip ua)
       (returnS buyerId))))"

record buyer_profile =
  bpr_id :: string
  bpr_company_name :: string
  bpr_registration_number :: string
  bpr_credit_rating :: credit_rating
  bpr_approved_limit :: int
  bpr_used_limit :: int
  bpr_ris_margin_rate :: rat
  bpr_payment_score :: int
  bpr_is_active :: bool
  bpr_sanctions_flag :: bool
  bpr_undertaking_signed :: bool
  bpr_undertaking_date :: "int option"
  bpr_created_at :: int

definition toBuyerProfile :: "buyer \<Rightarrow> buyer_profile" where
  "toBuyerProfile b =
     \<lparr>bpr_id = buy_id b, bpr_company_name = buy_company_name b, bpr_registration_number = bf_registration_number (buy_file b),
      bpr_credit_rating = buy_rating b, bpr_approved_limit = buy_approved_limit b, bpr_used_limit = buy_used_limit b,
      bpr_ris_margin_rate = buy_ris_margin_rate b, bpr_payment_score = buy_payment_score b, bpr_is_active = buy_is_active b,
      bpr_sanctions_flag = bf_sanctions_flag (buy_file b), bpr_undertaking_signed = bf_undertaking_signed (buy_file b),
      bpr_undertaking_date = bf_undertaking_date (buy_file b), bpr_created_at = bf_created_at (buy_file b)\<rparr>"

definition getBuyerProfile :: "string \<Rightarrow> buyer_profile service" where
  "getBuyerProfile buyerId =
     bindS (queryS (findBuyerById buyerId)) (\<lambda>found.
     bindS (requireS found (NotFoundError ''Buyer'' buyerId)) (\<lambda>b. returnS (toBuyerProfile b)))"

definition listBuyers :: "int \<Rightarrow> int \<Rightarrow> db \<Rightarrow> ris_error + buyer list \<times> int" where
  [repo_def]: "listBuyers page limit d =
     bindE (page_of page limit (sort_key (\<lambda>b. - bf_created_at (buy_file b)) (t_buyers d))) (\<lambda>rs. Inr (rs, int (length (t_buyers d))))"

definition listBuyersForStaff :: "int \<Rightarrow> int \<Rightarrow> buyer_profile paginated service" where
  "listBuyersForStaff page limit =
     bindS (getS (\<lambda>w. listBuyers page limit (db w))) (\<lambda>found.
     bindS (liftS found) (\<lambda>(rows, count). returnS (buildPaginatedResult (map toBuyerProfile rows) count page limit)))"

text \<open>
  An update: the service keeps the fields that are given, in this order, and the repository sets the columns it knows, all of them.
\<close>

datatype buyer_field =
    Bf_company_name string | Bf_credit_rating credit_rating | Bf_approved_limit int | Bf_payment_score int
  | Bf_contact_email string | Bf_contact_phone string | Bf_ris_margin_rate rat | Bf_is_active bool
  | Bf_undertaking_signed bool | Bf_undertaking_date int

fun field_column :: "buyer_field \<Rightarrow> string" where
  "field_column (Bf_company_name _) = ''company_name''"
| "field_column (Bf_credit_rating _) = ''credit_rating''"
| "field_column (Bf_approved_limit _) = ''approved_limit''"
| "field_column (Bf_payment_score _) = ''payment_score''"
| "field_column (Bf_contact_email _) = ''contact_email_encrypted''"
| "field_column (Bf_contact_phone _) = ''contact_phone_encrypted''"
| "field_column (Bf_ris_margin_rate _) = ''ris_margin_rate''"
| "field_column (Bf_is_active _) = ''is_active''"
| "field_column (Bf_undertaking_signed _) = ''payment_undertaking_signed''"
| "field_column (Bf_undertaking_date _) = ''payment_undertaking_date''"

definition BUYER_UPDATABLE_COLUMNS :: "string list" where
  "BUYER_UPDATABLE_COLUMNS = [''company_name'', ''credit_rating'', ''approved_limit'', ''payment_score'', ''contact_email_encrypted'',
     ''contact_phone_encrypted'', ''ris_margin_rate'', ''is_active'', ''payment_undertaking_signed'', ''payment_undertaking_date'']"

record buyer_update =
  bu_company_name :: "string option"
  bu_credit_rating :: "credit_rating option"
  bu_approved_limit :: "int option"
  bu_payment_score :: "int option"
  bu_contact_email :: "string option"
  bu_contact_phone :: "string option"
  bu_ris_margin_rate :: "rat option"
  bu_is_active :: "bool option"
  bu_undertaking_signed :: "bool option"
  bu_undertaking_date :: "int option"

definition given :: "('a \<Rightarrow> buyer_field) \<Rightarrow> 'a option \<Rightarrow> buyer_field list" where
  "given f x = (case x of None \<Rightarrow> [] | Some v \<Rightarrow> [f v])"

definition encrypted_field :: "onboarding_env \<Rightarrow> (string \<Rightarrow> buyer_field) \<Rightarrow> string option \<Rightarrow> ris_error + buyer_field list" where
  "encrypted_field env f x = (case x of None \<Rightarrow> Inr [] | Some v \<Rightarrow> bindE (oe_encrypt env v) (\<lambda>c. Inr [f c]))"

definition buildBuyerUpdateFields :: "onboarding_env \<Rightarrow> buyer_update \<Rightarrow> ris_error + buyer_field list" where
  "buildBuyerUpdateFields env data =
     bindE (encrypted_field env Bf_contact_email (bu_contact_email data)) (\<lambda>email.
     bindE (encrypted_field env Bf_contact_phone (bu_contact_phone data)) (\<lambda>phone.
       Inr (given Bf_company_name (bu_company_name data) @ given Bf_credit_rating (bu_credit_rating data)
          @ given Bf_approved_limit (bu_approved_limit data) @ given Bf_payment_score (bu_payment_score data) @ email @ phone
          @ given Bf_ris_margin_rate (bu_ris_margin_rate data) @ given Bf_is_active (bu_is_active data)
          @ given Bf_undertaking_signed (bu_undertaking_signed data) @ given Bf_undertaking_date (bu_undertaking_date data))))"

fun set_field :: "buyer_field \<Rightarrow> buyer \<Rightarrow> ris_error + buyer" where
  "set_field (Bf_company_name v) b = (if 255 < length v then Inl (DbError ''22001'') else Inr (b\<lparr>buy_company_name := v\<rparr>))"
| "set_field (Bf_credit_rating v) b = Inr (b\<lparr>buy_rating := v\<rparr>)"
| "set_field (Bf_approved_limit v) b = bindE (bigint_in v) (\<lambda>n. if n \<le> 0 then Inl (DbError ''23514'') else Inr (b\<lparr>buy_approved_limit := n\<rparr>))"
| "set_field (Bf_payment_score v) b = (if \<bar>v\<bar> \<ge> 2 ^ 31 then Inl (DbError ''22003'') else Inr (b\<lparr>buy_payment_score := v\<rparr>))"
| "set_field (Bf_contact_email v) b = Inr (b\<lparr>buy_contact_email := Some v\<rparr>)"
| "set_field (Bf_contact_phone v) b = Inr (b\<lparr>buy_file := (buy_file b)\<lparr>bf_contact_phone := Some v\<rparr>\<rparr>)"
| "set_field (Bf_ris_margin_rate v) b = bindE (margin_in v) (\<lambda>m. Inr (b\<lparr>buy_ris_margin_rate := m\<rparr>))"
| "set_field (Bf_is_active v) b = Inr (b\<lparr>buy_is_active := v\<rparr>)"
| "set_field (Bf_undertaking_signed v) b = Inr (b\<lparr>buy_file := (buy_file b)\<lparr>bf_undertaking_signed := v\<rparr>\<rparr>)"
| "set_field (Bf_undertaking_date v) b = Inr (b\<lparr>buy_file := (buy_file b)\<lparr>bf_undertaking_date := Some v\<rparr>\<rparr>)"

fun set_fields :: "buyer_field list \<Rightarrow> buyer \<Rightarrow> ris_error + buyer" where
  "set_fields [] b = Inr b"
| "set_fields (f # fs) b = bindE (set_field f b) (set_fields fs)"

definition updateBuyer :: "string \<Rightarrow> buyer_field list \<Rightarrow> db \<Rightarrow> ris_error + db" where
  [repo_def]: "updateBuyer i fs d =
     (let known = filter (\<lambda>f. field_column f \<in> set BUYER_UPDATABLE_COLUMNS) fs
      in if known = [] then Inr d
         else bindE (map_results (\<lambda>b. if buy_id b = i then set_fields known b else Inr b) (t_buyers d))
                (\<lambda>bs. Inr (d\<lparr>t_buyers := bs\<rparr>)))"

definition auditBuyerUpdate :: "string \<Rightarrow> buyer_field list \<Rightarrow> string \<Rightarrow> string \<Rightarrow> string \<Rightarrow> unit service" where
  "auditBuyerUpdate buyerId fs updatedBy ip ua =
     createAuditEntry (audit_req (Some updatedBy) ''BUYER_UPDATED'' ''buyers'' buyerId None
       [(''fieldsUpdated'', JArr (map (JStr \<circ> field_column) fs))] (Some ip) (Some ua))"

definition updateBuyerProfile :: "onboarding_env \<Rightarrow> string \<Rightarrow> buyer_update \<Rightarrow> string \<Rightarrow> string \<Rightarrow> string \<Rightarrow> unit service" where
  "updateBuyerProfile env buyerId data updatedBy ip ua =
     bindS (queryS (findBuyerById buyerId)) (\<lambda>found.
     bindS (requireS found (NotFoundError ''Buyer'' buyerId)) (\<lambda>_.
     bindS (liftS (buildBuyerUpdateFields env data)) (\<lambda>fs.
       if fs = [] then returnS ()
       else thenS (tryExecS (updateBuyer buyerId fs)) (auditBuyerUpdate buyerId fs updatedBy ip ua))))"

section \<open>Requests of suppliers\<close>

record buyer_request_input =
  bri_company_name :: string
  bri_registration_number :: "string option"
  bri_contact_name :: "string option"
  bri_contact_email :: "string option"
  bri_contact_phone :: "string option"
  bri_reason :: string

definition encrypt_optional :: "onboarding_env \<Rightarrow> string option \<Rightarrow> ris_error + string option" where
  "encrypt_optional env x =
     (case x of None \<Rightarrow> Inr None | Some v \<Rightarrow> if v = [] then Inr None else bindE (oe_encrypt env v) (\<lambda>c. Inr (Some c)))"

definition encryptOptionalPii :: "onboarding_env \<Rightarrow> buyer_request_input \<Rightarrow> ris_error + (string option \<times> string option \<times> string option)" where
  "encryptOptionalPii env data =
     bindE (encrypt_optional env (bri_contact_name data)) (\<lambda>name.
     bindE (encrypt_optional env (bri_contact_email data)) (\<lambda>email.
     bindE (encrypt_optional env (bri_contact_phone data)) (\<lambda>phone.
       Inr (name, email, phone))))"

definition decrypt_optional :: "onboarding_env \<Rightarrow> string option \<Rightarrow> ris_error + string option" where
  "decrypt_optional env x =
     (case x of None \<Rightarrow> Inr None | Some v \<Rightarrow> if v = [] then Inr None else bindE (oe_decrypt env v) (\<lambda>c. Inr (Some c)))"

text \<open>The public view has the contact in plain text in the same fields.\<close>

definition decryptBuyerRequest :: "onboarding_env \<Rightarrow> buyer_request \<Rightarrow> ris_error + buyer_request" where
  "decryptBuyerRequest env r =
     bindE (decrypt_optional env (brq_contact_name r)) (\<lambda>name.
     bindE (decrypt_optional env (brq_contact_email r)) (\<lambda>email.
     bindE (decrypt_optional env (brq_contact_phone r)) (\<lambda>phone.
       Inr (r\<lparr>brq_contact_name := name, brq_contact_email := email, brq_contact_phone := phone\<rparr>))))"

text \<open>The column \<open>supplier_id\<close> of a request references \<open>users\<close>: it is the user of the supplier.\<close>

definition createBuyerOnboardingRequestWithClient :: "buyer_request \<Rightarrow> db \<Rightarrow> ris_error + db" where
  [repo_def]: "createBuyerOnboardingRequestWithClient r d =
     (if 255 < length (brq_company_name r) \<or> (case brq_registration_number r of None \<Rightarrow> False | Some n \<Rightarrow> 100 < length n)
      then Inl (DbError ''22001'')
      else if list_ex (\<lambda>q. brq_id q = brq_id r) (t_buyer_requests d) then Inl (DbError ''23505'')
      else if \<not> user_exists d (Some (brq_supplier r)) then Inl (DbError ''23503'')
      else Inr (d\<lparr>t_buyer_requests := t_buyer_requests d @ [r]\<rparr>))"

definition new_buyer_request ::
    "int \<Rightarrow> string \<Rightarrow> string \<Rightarrow> buyer_request_input \<Rightarrow> string option \<times> string option \<times> string option \<Rightarrow> buyer_request" where
  "new_buyer_request now requestId supplierId data encrypted =
     \<lparr>brq_id = requestId, brq_supplier = supplierId, brq_company_name = bri_company_name data,
      brq_registration_number = bri_registration_number data, brq_contact_name = fst encrypted,
      brq_contact_email = fst (snd encrypted), brq_contact_phone = snd (snd encrypted), brq_reason = bri_reason data,
      brq_status = ''pending'', brq_reviewed_by = None, brq_comments = None, brq_linked_buyer = None, brq_created_at = now\<rparr>"

definition executeBuyerRequestTx ::
    "string \<Rightarrow> string \<Rightarrow> buyer_request_input \<Rightarrow> string option \<times> string option \<times> string option \<Rightarrow> string \<Rightarrow> string \<Rightarrow> unit service" where
  "executeBuyerRequestTx requestId supplierId data encrypted ip ua =
     bindS nowS (\<lambda>now. transactionS
       (thenS (tryExecS (createBuyerOnboardingRequestWithClient (new_buyer_request now requestId supplierId data encrypted)))
         (createAuditEntry (audit_req (Some supplierId) ''BUYER_ONBOARDING_REQUESTED'' ''buyer_onboarding_requests'' requestId None
            [(''requestId'', JStr requestId)] (Some ip) (Some ua)))))"

definition createBuyerOnboardingRequest ::
    "onboarding_env \<Rightarrow> string \<Rightarrow> string \<Rightarrow> buyer_request_input \<Rightarrow> string \<Rightarrow> string \<Rightarrow> string service" where
  "createBuyerOnboardingRequest env requestId supplierId data ip ua =
     bindS (liftS (encryptOptionalPii env data)) (\<lambda>encrypted.
     thenS (executeBuyerRequestTx requestId supplierId data encrypted ip ua)
    (thenS (queueOnboardingNotification ''buyer_request_submitted'' [(''requestId'', JStr requestId), (''supplierId'', JStr supplierId)])
       (returnS requestId)))"

record review_request_input =
  rri_status :: string
  rri_comments :: "string option"
  rri_linked_buyer :: "string option"

definition getBuyerOnboardingRequestById :: "string \<Rightarrow> db \<Rightarrow> buyer_request option" where
  [repo_def]: "getBuyerOnboardingRequestById i d = select_one (\<lambda>r. brq_id r = i) (t_buyer_requests d)"

definition set_reviewed :: "string \<Rightarrow> string \<Rightarrow> string option \<Rightarrow> string option \<Rightarrow> buyer_request \<Rightarrow> buyer_request" where
  "set_reviewed status reviewedBy comments linked r =
     r\<lparr>brq_status := status, brq_reviewed_by := Some reviewedBy, brq_comments := comments, brq_linked_buyer := linked\<rparr>"

definition updateBuyerRequestStatusWithClient ::
    "string \<Rightarrow> string \<Rightarrow> string \<Rightarrow> string option \<Rightarrow> string option \<Rightarrow> db \<Rightarrow> ris_error + db" where
  [repo_def]: "updateBuyerRequestStatusWithClient i status reviewedBy comments linked d =
     (if status \<notin> {''pending'', ''in_review'', ''approved'', ''rejected''} then Inl (DbError ''22P02'')
      else if list_ex (\<lambda>r. brq_id r = i) (t_buyer_requests d)
              \<and> (\<not> user_exists d (Some reviewedBy)
                 \<or> (case linked of None \<Rightarrow> False | Some b \<Rightarrow> \<not> list_ex (\<lambda>q. buy_id q = b) (t_buyers d)))
      then Inl (DbError ''23503'')
      else Inr (d\<lparr>t_buyer_requests := update_where (\<lambda>r. brq_id r = i) (set_reviewed status reviewedBy comments linked) (t_buyer_requests d)\<rparr>))"

definition validateBuyerRequestReviewable :: "string \<Rightarrow> unit service" where
  "validateBuyerRequestReviewable status =
     guardS (status = ''pending'' \<or> status = ''in_review'') (BusinessRuleError ''BUYER_REQUEST_ALREADY_REVIEWED'')"

definition DEFAULT_AUTO_BUYER_LIMIT :: int where "DEFAULT_AUTO_BUYER_LIMIT = 50000000"
definition DEFAULT_AUTO_BUYER_RATING :: credit_rating where "DEFAULT_AUTO_BUYER_RATING = Rating_B"
definition DEFAULT_AUTO_BUYER_PAYMENT_SCORE :: int where "DEFAULT_AUTO_BUYER_PAYMENT_SCORE = 50"
definition DEFAULT_RIS_MARGIN_RATE :: rat where "DEFAULT_RIS_MARGIN_RATE = 3 / 100"

definition autoRegistrationNumber :: "string \<Rightarrow> string" where
  "autoRegistrationNumber requestId = ''AUTO-'' @ toUpperCase (slice0 8 requestId)"

definition buyer_of_request :: "int \<Rightarrow> string \<Rightarrow> buyer_request \<Rightarrow> string \<Rightarrow> buyer" where
  "buyer_of_request now buyerId r reviewerId =
     new_buyer now buyerId (brq_company_name r)
       (case brq_registration_number r of None \<Rightarrow> autoRegistrationNumber (brq_id r) | Some n \<Rightarrow> n)
       DEFAULT_AUTO_BUYER_RATING DEFAULT_AUTO_BUYER_LIMIT DEFAULT_AUTO_BUYER_PAYMENT_SCORE
       (brq_contact_email r) (brq_contact_phone r) DEFAULT_RIS_MARGIN_RATE False None reviewerId"

definition materialiseBuyerFromRequest :: "string \<Rightarrow> buyer_request \<Rightarrow> string \<Rightarrow> string service" where
  "materialiseBuyerFromRequest buyerId r reviewerId =
     bindS nowS (\<lambda>now.
     thenS (tryExecS (createBuyerWithClient (buyer_of_request now buyerId r reviewerId)))
       (returnS buyerId))"

definition opt_json :: "string option \<Rightarrow> json_val" where
  "opt_json x = (case x of None \<Rightarrow> JNull | Some s \<Rightarrow> JStr s)"

definition resolve_linked_buyer ::
    "string \<Rightarrow> buyer_request \<Rightarrow> string \<Rightarrow> review_request_input \<Rightarrow> string \<Rightarrow> string \<Rightarrow> string option service" where
  "resolve_linked_buyer buyerId request reviewerId data ip ua =
     (if rri_status data = ''approved'' \<and> rri_linked_buyer data = None
      then bindS (materialiseBuyerFromRequest buyerId request reviewerId) (\<lambda>b.
           thenS (createAuditEntry (audit_req (Some reviewerId) ''BUYER_CREATED'' ''buyers'' b None
                    [(''source'', JStr ''buyer_request_approval''), (''requestId'', JStr (brq_id request))] (Some ip) (Some ua)))
             (returnS (Some b)))
      else returnS (rri_linked_buyer data))"

definition executeReviewBuyerRequestTx ::
    "string \<Rightarrow> buyer_request \<Rightarrow> string \<Rightarrow> review_request_input \<Rightarrow> string \<Rightarrow> string \<Rightarrow> unit service" where
  "executeReviewBuyerRequestTx buyerId request reviewerId data ip ua =
     transactionS
       (bindS (resolve_linked_buyer buyerId request reviewerId data ip ua) (\<lambda>linked.
        thenS (tryExecS (updateBuyerRequestStatusWithClient (brq_id request) (rri_status data) reviewerId (rri_comments data) linked))
          (createAuditEntry (audit_req (Some reviewerId) ''BUYER_REQUEST_REVIEWED'' ''buyer_onboarding_requests'' (brq_id request) None
             [(''requestId'', JStr (brq_id request)), (''status'', JStr (rri_status data)), (''linkedBuyerId'', opt_json linked)]
             (Some ip) (Some ua)))))"

definition reviewBuyerOnboardingRequest ::
    "string \<Rightarrow> string \<Rightarrow> string \<Rightarrow> review_request_input \<Rightarrow> string \<Rightarrow> string \<Rightarrow> unit service" where
  "reviewBuyerOnboardingRequest buyerId requestId reviewerId data ip ua =
     bindS (queryS (getBuyerOnboardingRequestById requestId)) (\<lambda>found.
     bindS (requireS found (NotFoundError ''BuyerOnboardingRequest'' requestId)) (\<lambda>request.
     thenS (validateBuyerRequestReviewable (brq_status request))
    (thenS (executeReviewBuyerRequestTx buyerId request reviewerId data ip ua)
       (queueOnboardingNotification ''buyer_request_reviewed''
          [(''requestId'', JStr requestId), (''supplierId'', JStr (brq_supplier request))]))))"

text \<open>An empty status does not filter; a status that is not a label of the type fails.\<close>

definition listBuyerOnboardingRequests :: "string option \<Rightarrow> int \<Rightarrow> int \<Rightarrow> db \<Rightarrow> ris_error + buyer_request list \<times> int" where
  [repo_def]: "listBuyerOnboardingRequests status page limit d =
     (let filt = (case status of None \<Rightarrow> None | Some s \<Rightarrow> if s = [] then None else Some s) in
      if filt \<notin> {None, Some ''pending'', Some ''in_review'', Some ''approved'', Some ''rejected''} then Inl (DbError ''22P02'')
      else let rows = filter (\<lambda>r. case filt of None \<Rightarrow> True | Some s \<Rightarrow> brq_status r = s) (t_buyer_requests d)
           in bindE (page_of page limit (sort_key (\<lambda>r. - brq_created_at r) rows)) (\<lambda>rs. Inr (rs, int (length rows))))"

definition listBuyerOnboardingRequestsBySupplier :: "string \<Rightarrow> int \<Rightarrow> int \<Rightarrow> db \<Rightarrow> ris_error + buyer_request list \<times> int" where
  [repo_def]: "listBuyerOnboardingRequestsBySupplier supplierId page limit d =
     (let rows = filter (\<lambda>r. brq_supplier r = supplierId) (t_buyer_requests d)
      in bindE (page_of page limit (sort_key (\<lambda>r. - brq_created_at r) rows)) (\<lambda>rs. Inr (rs, int (length rows))))"

definition listBuyerOnboardingRequestsForReview ::
    "onboarding_env \<Rightarrow> string option \<Rightarrow> int \<Rightarrow> int \<Rightarrow> buyer_request paginated service" where
  "listBuyerOnboardingRequestsForReview env status page limit =
     bindS (getS (\<lambda>w. listBuyerOnboardingRequests status page limit (db w))) (\<lambda>found.
     bindS (liftS found) (\<lambda>(rows, count).
     bindS (liftS (map_results (decryptBuyerRequest env) rows)) (\<lambda>data.
       returnS (buildPaginatedResult data count page limit))))"

definition listSupplierBuyerRequests :: "onboarding_env \<Rightarrow> string \<Rightarrow> int \<Rightarrow> int \<Rightarrow> buyer_request paginated service" where
  "listSupplierBuyerRequests env supplierId page limit =
     bindS (getS (\<lambda>w. listBuyerOnboardingRequestsBySupplier supplierId page limit (db w))) (\<lambda>found.
     bindS (liftS found) (\<lambda>(rows, count).
     bindS (liftS (map_results (decryptBuyerRequest env) rows)) (\<lambda>data.
       returnS (buildPaginatedResult data count page limit))))"

section \<open>Beneficial owners\<close>

record ubo_input =
  ui_full_name :: string
  ui_nationality :: string
  ui_id_type :: string
  ui_id_number :: string
  ui_percentage :: rat
  ui_is_pep :: bool

record ubo_pii =
  up_full_name :: string
  up_nationality :: string
  up_id_type :: string
  up_id_number :: string
  up_percentage :: rat
  up_is_pep :: bool

definition encryptUboPii :: "onboarding_env \<Rightarrow> ubo_input \<Rightarrow> ris_error + ubo_pii" where
  "encryptUboPii env inp =
     bindE (oe_encrypt env (ui_full_name inp)) (\<lambda>name.
     bindE (oe_encrypt env (ui_id_number inp)) (\<lambda>num.
       Inr \<lparr>up_full_name = name, up_nationality = ui_nationality inp, up_id_type = ui_id_type inp, up_id_number = num,
            up_percentage = ui_percentage inp, up_is_pep = ui_is_pep inp\<rparr>))"

definition decryptUboRecord :: "onboarding_env \<Rightarrow> beneficial_owner \<Rightarrow> ris_error + beneficial_owner" where
  "decryptUboRecord env r =
     bindE (oe_decrypt env (ubo_full_name r)) (\<lambda>name.
     bindE (oe_decrypt env (ubo_id_number r)) (\<lambda>num.
       Inr (r\<lparr>ubo_full_name := name, ubo_id_number := num\<rparr>)))"

text \<open>\<open>NUMERIC(5,2)\<close> rounds half away from zero; the check asks for a share above 0 and at most 100.\<close>

definition percentage_in :: "rat \<Rightarrow> ris_error + rat" where
  "percentage_in r = (let n = (if r < 0 then - \<lfloor>- r * 100 + 1 / 2\<rfloor> else \<lfloor>r * 100 + 1 / 2\<rfloor>)
     in if \<bar>n\<bar> \<ge> 100000 then Inl (DbError ''22003'') else if n \<le> 0 \<or> 10000 < n then Inl (DbError ''23514'') else Inr (of_int n / 100))"

definition ubo_too_long :: "ubo_pii \<Rightarrow> bool" where
  "ubo_too_long p \<longleftrightarrow> 100 < length (up_nationality p) \<or> 50 < length (up_id_type p)"

definition set_ubo :: "ubo_pii \<Rightarrow> rat \<Rightarrow> beneficial_owner \<Rightarrow> beneficial_owner" where
  "set_ubo p share r = r\<lparr>ubo_full_name := up_full_name p, ubo_nationality := Some (up_nationality p), ubo_id_type := up_id_type p,
     ubo_id_number := up_id_number p, ubo_percentage := share, ubo_is_pep := up_is_pep p\<rparr>"

definition createUboWithClient :: "int \<Rightarrow> string \<Rightarrow> string \<Rightarrow> ubo_pii \<Rightarrow> db \<Rightarrow> ris_error + db" where
  [repo_def]: "createUboWithClient now supplierId i p d =
     (if ubo_too_long p then Inl (DbError ''22001'')
      else bindE (percentage_in (up_percentage p)) (\<lambda>share.
        if list_ex (\<lambda>q. ubo_id q = i) (t_owners d) then Inl (DbError ''23505'')
        else if \<not> list_ex (\<lambda>s. sup_id s = supplierId) (t_suppliers d) then Inl (DbError ''23503'')
        else Inr (d\<lparr>t_owners := t_owners d @ [\<lparr>ubo_id = i, ubo_supplier = supplierId, ubo_full_name = up_full_name p,
               ubo_nationality = Some (up_nationality p), ubo_id_type = up_id_type p, ubo_id_number = up_id_number p,
               ubo_percentage = share, ubo_is_pep = up_is_pep p, ubo_created_at = now\<rparr>]\<rparr>)))"

definition owned_ubo :: "string \<Rightarrow> string \<Rightarrow> beneficial_owner \<Rightarrow> bool" where
  "owned_ubo i supplierId r \<longleftrightarrow> ubo_id r = i \<and> ubo_supplier r = supplierId"

text \<open>Both statements return the number of rows they met.\<close>

definition updateUboWithClient :: "string \<Rightarrow> string \<Rightarrow> ubo_pii \<Rightarrow> nat service" where
  "updateUboWithClient i supplierId p =
     bindS (queryS (\<lambda>d. length (filter (owned_ubo i supplierId) (t_owners d)))) (\<lambda>n.
     thenS (whenS (0 < n) (tryExecS (\<lambda>d.
       if ubo_too_long p then Inl (DbError ''22001'')
       else bindE (percentage_in (up_percentage p)) (\<lambda>share.
         Inr (d\<lparr>t_owners := update_where (owned_ubo i supplierId) (set_ubo p share) (t_owners d)\<rparr>)))))
       (returnS n))"

definition deleteUboWithClient :: "string \<Rightarrow> string \<Rightarrow> nat service" where
  "deleteUboWithClient i supplierId =
     bindS (queryS (\<lambda>d. length (filter (owned_ubo i supplierId) (t_owners d)))) (\<lambda>n.
     thenS (execS (\<lambda>d. d\<lparr>t_owners := filter (\<lambda>r. \<not> owned_ubo i supplierId r) (t_owners d)\<rparr>))
       (returnS n))"

definition getUbosBySupplier :: "string \<Rightarrow> db \<Rightarrow> beneficial_owner list" where
  [repo_def]: "getUbosBySupplier s d = sort_key ubo_created_at (filter (\<lambda>r. ubo_supplier r = s) (t_owners d))"

definition validateSupplierExists :: "string \<Rightarrow> unit service" where
  "validateSupplierExists supplierId =
     bindS (queryS (findSupplierById supplierId)) (\<lambda>found.
     bindS (requireS found (NotFoundError ''Supplier'' supplierId)) (\<lambda>_. returnS ()))"

definition ubo_entry :: "string \<Rightarrow> string \<Rightarrow> string \<Rightarrow> json_obj \<Rightarrow> string \<Rightarrow> string \<Rightarrow> audit_entry" where
  "ubo_entry userId action uboId after ip ua = audit_req (Some userId) action ''beneficial_owners'' uboId None after (Some ip) (Some ua)"

definition share_json :: "string \<Rightarrow> ubo_input \<Rightarrow> json_obj" where
  "share_json supplierId inp = [(''supplierId'', JStr supplierId), (''ownershipPercentage'', JNum (Fin (ui_percentage inp))),
     (''isPep'', JBool (ui_is_pep inp))]"

definition executeAddUboTx :: "string \<Rightarrow> string \<Rightarrow> ubo_pii \<Rightarrow> ubo_input \<Rightarrow> string \<Rightarrow> string \<Rightarrow> string \<Rightarrow> unit service" where
  "executeAddUboTx supplierId uboId p inp userId ip ua =
     bindS nowS (\<lambda>now. transactionS
       (thenS (tryExecS (createUboWithClient now supplierId uboId p))
         (createAuditEntry (ubo_entry userId ''UBO_CREATED'' uboId (share_json supplierId inp) ip ua))))"

definition addBeneficialOwner :: "onboarding_env \<Rightarrow> string \<Rightarrow> string \<Rightarrow> ubo_input \<Rightarrow> string \<Rightarrow> string \<Rightarrow> string \<Rightarrow> string service" where
  "addBeneficialOwner env uboId supplierId inp userId ip ua =
     thenS (validateSupplierExists supplierId)
    (bindS (liftS (encryptUboPii env inp)) (\<lambda>p.
     thenS (executeAddUboTx supplierId uboId p inp userId ip ua)
       (returnS uboId)))"

definition listBeneficialOwners :: "onboarding_env \<Rightarrow> string \<Rightarrow> beneficial_owner list service" where
  "listBeneficialOwners env supplierId =
     thenS (validateSupplierExists supplierId)
    (bindS (queryS (getUbosBySupplier supplierId)) (\<lambda>rows. liftS (map_results (decryptUboRecord env) rows)))"

definition executeUpdateUboTx :: "string \<Rightarrow> string \<Rightarrow> ubo_pii \<Rightarrow> ubo_input \<Rightarrow> string \<Rightarrow> string \<Rightarrow> string \<Rightarrow> unit service" where
  "executeUpdateUboTx uboId supplierId p inp userId ip ua =
     transactionS
       (bindS (updateUboWithClient uboId supplierId p) (\<lambda>rowCount.
        thenS (guardS (rowCount \<noteq> 0) (NotFoundError ''BeneficialOwner'' uboId))
          (createAuditEntry (ubo_entry userId ''UBO_UPDATED'' uboId (share_json supplierId inp) ip ua))))"

definition updateBeneficialOwner ::
    "onboarding_env \<Rightarrow> string \<Rightarrow> string \<Rightarrow> ubo_input \<Rightarrow> string \<Rightarrow> string \<Rightarrow> string \<Rightarrow> unit service" where
  "updateBeneficialOwner env uboId supplierId inp userId ip ua =
     thenS (validateSupplierExists supplierId)
    (bindS (liftS (encryptUboPii env inp)) (\<lambda>p. executeUpdateUboTx uboId supplierId p inp userId ip ua))"

definition executeDeleteUboTx :: "string \<Rightarrow> string \<Rightarrow> string \<Rightarrow> string \<Rightarrow> string \<Rightarrow> unit service" where
  "executeDeleteUboTx uboId supplierId userId ip ua =
     transactionS
       (bindS (deleteUboWithClient uboId supplierId) (\<lambda>rowCount.
        thenS (guardS (rowCount \<noteq> 0) (NotFoundError ''BeneficialOwner'' uboId))
          (createAuditEntry (ubo_entry userId ''UBO_DELETED'' uboId [(''supplierId'', JStr supplierId)] ip ua))))"

definition removeBeneficialOwner :: "string \<Rightarrow> string \<Rightarrow> string \<Rightarrow> string \<Rightarrow> string \<Rightarrow> unit service" where
  "removeBeneficialOwner uboId supplierId userId ip ua = executeDeleteUboTx uboId supplierId userId ip ua"

end
