(* ===== verification/Buyer_Props.thy ===== *)
theory Buyer_Props
  imports Buyer_Onboarding Onboarding_Props
begin

text \<open>
  What the buyer side of onboarding guarantees: which rows a creation, a review of a request and the addition of an owner leave, and
  what is read back.
\<close>

section \<open>Buyers\<close>

definition buyer_rows :: "db \<Rightarrow> buyer_profile list" where
  "buyer_rows d = map toBuyerProfile (sort_key (\<lambda>b. - bf_created_at (buy_file b)) (t_buyers d))"

interpretation staff_buyers: paged_listing listBuyersForStaff pr_data pr_totalPages buyer_rows "\<lambda>_. True"
  by unfold_locales (auto simp: listBuyersForStaff_def listBuyers_def page_of_slice buyer_rows_def take_map drop_map buildPaginatedResult_def)

text \<open>The pages of the staff's list together show each buyer once.\<close>

lemma buyer_pages_complete:
  assumes "0 < limit" "limit < 2 ^ 50" and "int (length (t_buyers (db w))) < 2 ^ 52"
  shows "\<exists>result. (\<forall>k \<ge> 1. listBuyersForStaff k limit w = (Inr (result k), w))
     \<and> concat (map (\<lambda>k. pr_data (result k)) [1..pr_totalPages (result 1)]) = buyer_rows (db w)"
  using assms staff_buyers.pages_complete [where w = w and limit = limit] by (simp add: buyer_rows_def)

definition creation_ok :: "buyer_creation \<Rightarrow> bool" where
  "creation_ok data \<longleftrightarrow> length (bcr_company_name data) \<le> 255 \<and> length (bcr_registration_number data) \<le> 100
     \<and> 0 < bcr_approved_limit data \<and> bcr_approved_limit data < 2 ^ 63 \<and> \<bar>bcr_payment_score data\<bar> < 2 ^ 31 \<and> bcr_ris_margin_rate data = None"

lemma margin_default: "margin_in (3 / 100) = Inr (3 / 100)"
  by (simp add: margin_in_def floor_eq_iff)

text \<open>
  C32: creating a buyer is not atomic. A buyer whose name or number is on the sanctions list is refused with an error, but the row was committed before the
  screening: it stays, flagged and active, and the check of an invoice accepts it, because no check reads the flag.
\<close>

theorem sanctioned_buyer_usable:
  assumes "creation_ok data" and "oe_sanctions env = Some entries" and "e \<in> set entries"
    and "listed (bcr_company_name data) (bcr_registration_number data) e"
    and "\<not> list_ex (\<lambda>q. buy_id q = i \<or> bf_registration_number (buy_file q) = bcr_registration_number data) (t_buyers (db w))"
    and "oe_encrypt env (bcr_contact_email data) = Inr c1" "oe_encrypt env (bcr_contact_phone data) = Inr c2" and "audit_ok (db w) (Some u)"
  shows "\<exists>w' b. createBuyer env i data u ip ua w = (Inl (BusinessRuleError ''SANCTIONS_MATCH''), w')
     \<and> t_buyers (db w') = t_buyers (db w) @ [b] \<and> buy_id b = i \<and> buy_is_active b \<and> bf_sanctions_flag (buy_file b)
     \<and> fst (validateBuyerEligibility i v [] ip2 ua2 w') = Inr (b, [check_result ''buyer_eligibility'' True ''BUYER_NOT_APPROVED'' None])"
proof -
  let ?b = "new_buyer (clock w) i (bcr_company_name data) (bcr_registration_number data) (bcr_credit_rating data) (bcr_approved_limit data)
      (bcr_payment_score data) (Some c1) (Some c2) (3 / 100) (case bcr_undertaking_signed data of None \<Rightarrow> False | Some x \<Rightarrow> x) (bcr_undertaking_date data) u"
  let ?d = "(db w)\<lparr>t_buyers := t_buyers (db w) @ [?b]\<rparr>"
  have none: "update_where (\<lambda>b. buy_id b = i) f (t_buyers (db w)) = t_buyers (db w)" for f
    using assms(5) by (intro update_where_id) (auto simp: list_ex_iff)
  have ins: "insertBuyerRecord env i data u w = (Inr (), w\<lparr>db := ?d\<rparr>)"
    using assms(1,5,6,7,8) by (auto simp: insertBuyerRecord_def repo_createBuyer_def insert_buyer_def new_buyer_def creation_ok_def bigint_in_def
        margin_default audit_ok_def)
  have load: "loadSanctionsList env = Inr entries" using assms(2,3) by (auto simp: loadSanctionsList_def)
  obtain m where m: "findSanctionsMatch entries (bcr_company_name data) (bcr_registration_number data) = Some m"
    using assms(3,4) select_one_None [of _ entries] unfolding findSanctionsMatch_def by (metis not_None_eq)
  let ?pep = "list_ex (\<lambda>e. sn_pep e \<and> toLowerCase (sn_name e) = toLowerCase (bcr_company_name data)) entries"
  let ?b' = "?b\<lparr>buy_file := (buy_file ?b)\<lparr>bf_pep := ?pep, bf_sanctions_flag := True\<rparr>\<rparr>"
  have "\<exists>a. checkSanctions env (bcr_company_name data) (bcr_registration_number data) ''buyers'' i u ip ua (w\<lparr>db := ?d\<rparr>) =
      (Inl (BusinessRuleError ''SANCTIONS_MATCH''), w\<lparr>db := (db w)\<lparr>t_buyers := t_buyers (db w) @ [?b'], t_audit := a\<rparr>\<rparr>)"
    using assms(8) load m none
    by (cases ?pep) (simp_all add: checkSanctions_def checkPepDesignation_def raiseSanctionsFlag_def setBuyerSanctionsFlag_def setBuyerPepDesignation_def
        update_buyer_file_def new_buyer_def, (rule exI, rule refl)+)
  then obtain a where chk: "checkSanctions env (bcr_company_name data) (bcr_registration_number data) ''buyers'' i u ip ua (w\<lparr>db := ?d\<rparr>) =
      (Inl (BusinessRuleError ''SANCTIONS_MATCH''), w\<lparr>db := (db w)\<lparr>t_buyers := t_buyers (db w) @ [?b'], t_audit := a\<rparr>\<rparr>)" by blast
  let ?w = "w\<lparr>db := (db w)\<lparr>t_buyers := t_buyers (db w) @ [?b'], t_audit := a\<rparr>\<rparr>"
  have run: "createBuyer env i data u ip ua w = (Inl (BusinessRuleError ''SANCTIONS_MATCH''), ?w)"
  proof -
    have "\<not> buyerRegistrationNumberExists (bcr_registration_number data) (db w)"
      using assms(5) by (auto simp: buyerRegistrationNumberExists_def list_ex_iff)
    moreover have "postBuyerCreation env i data u ip ua (w\<lparr>db := ?d\<rparr>) = (Inl (BusinessRuleError ''SANCTIONS_MATCH''), ?w)"
      using chk by (simp only: postBuyerCreation_def run_then_Inl)
    ultimately show ?thesis using ins by (simp add: createBuyer_def)
  qed
  have "findBuyerWithLimits i (db ?w) = Some ?b'"
    using assms(5) by (auto simp: findBuyerWithLimits_def select_one_append select_one_None list_ex_iff new_buyer_def split: option.split dest: select_one_Some)
  then show ?thesis using run by (auto simp: validateBuyerEligibility_def new_buyer_def)
qed

section \<open>Requests for a buyer\<close>

text \<open>
  a request is decided once. A review that approves or rejects it records reviewer and decision; an approval without a linked buyer adds exactly
  one buyer, with the standard limit and rating, and links it. Every later review of the request is refused and changes nothing.
\<close>

theorem request_decided_once:
  assumes "reviewBuyerOnboardingRequest b i u data ip ua w = (Inr x, w')" and "rri_status data = ''approved'' \<or> rri_status data = ''rejected''"
  shows "\<exists>q q'. getBuyerOnboardingRequestById i (db w) = Some q \<and> getBuyerOnboardingRequestById i (db w') = Some q'
     \<and> brq_status q \<in> {''pending'', ''in_review''} \<and> brq_status q' = rri_status data \<and> brq_reviewed_by q' = Some u
     \<and> (if rri_status data = ''approved'' \<and> rri_linked_buyer data = None
        then t_buyers (db w') = t_buyers (db w) @ [buyer_of_request (clock w) b q u] \<and> brq_linked_buyer q' = Some b
        else t_buyers (db w') = t_buyers (db w) \<and> brq_linked_buyer q' = rri_linked_buyer data)
     \<and> reviewBuyerOnboardingRequest b2 i u2 data2 ip2 ua2 w' = (Inl (BusinessRuleError ''BUYER_REQUEST_ALREADY_REVIEWED''), w')"
proof -
  obtain q linked w1 d a where q: "getBuyerOnboardingRequestById i (db w) = Some q" and st: "brq_status q \<in> {''pending'', ''in_review''}"
      and l: "resolve_linked_buyer b q u data ip ua w = (Inr linked, w1)"
      and d: "updateBuyerRequestStatusWithClient (brq_id q) (rri_status data) u (rri_comments data) linked (db w1) = Inr d"
      and w': "t_buyers (db w') = t_buyers d" "t_buyer_requests (db w') = t_buyer_requests d"
    using assms(1) by (auto simp: reviewBuyerOnboardingRequest_def validateBuyerRequestReviewable_def executeReviewBuyerRequestTx_def svc_succ
        queueOnboardingNotification_def enqueueS_succ createAuditEntry_succ split: if_splits)
  have id: "brq_id q = i" using q by (auto simp: getBuyerOnboardingRequestById_def dest: select_one_key)
  have rows: "t_buyer_requests (db w1) = t_buyer_requests (db w)"
      "if rri_status data = ''approved'' \<and> rri_linked_buyer data = None
       then t_buyers (db w1) = t_buyers (db w) @ [buyer_of_request (clock w) b q u] \<and> linked = Some b
       else t_buyers (db w1) = t_buyers (db w) \<and> linked = rri_linked_buyer data"
    using l by (auto simp: resolve_linked_buyer_def materialiseBuyerFromRequest_def createBuyerWithClient_def insert_buyer_def svc_succ
        createAuditEntry_succ buyer_of_request_def new_buyer_def margin_default DEFAULT_RIS_MARGIN_RATE_def split: if_splits)
  let ?q = "set_reviewed (rri_status data) u (rri_comments data) linked q"
  have q': "getBuyerOnboardingRequestById i (db w') = Some ?q"
    using d q id select_one_update_where [where k = brq_id and f = "set_reviewed (rri_status data) u (rri_comments data) linked" and x = i]
    by (auto simp: getBuyerOnboardingRequestById_def updateBuyerRequestStatusWithClient_def w'(2) rows(1) set_reviewed_def split: if_splits)
  have again: "reviewBuyerOnboardingRequest b2 i u2 data2 ip2 ua2 w' = (Inl (BusinessRuleError ''BUYER_REQUEST_ALREADY_REVIEWED''), w')"
    using q' assms(2) by (auto simp: reviewBuyerOnboardingRequest_def validateBuyerRequestReviewable_def set_reviewed_def)
  have "t_buyers d = t_buyers (db w1)" using d by (auto simp: updateBuyerRequestStatusWithClient_def split: if_splits)
  then show ?thesis using q st q' again rows(2) w'(1) by (auto simp: set_reviewed_def split: if_splits)
qed

section \<open>Beneficial owners\<close>

lemma map_results_rows: "map_results f xs = Inr ys \<Longrightarrow> list_all2 (\<lambda>a b. f a = Inr b) xs ys"
  by (induction xs arbitrary: ys) (auto simp: bindE_succ)

lemma list_all2_sets:
  assumes "list_all2 P xs ys"
  shows "x \<in> set xs \<Longrightarrow> \<exists>y \<in> set ys. P x y" "y \<in> set ys \<Longrightarrow> \<exists>x \<in> set xs. P x y"
  using assms by (induction rule: list_all2_induct) auto

text \<open>
  an owner that was added is listed with exactly the data that was sent, decrypted, and the share rounded to hundredths; owners of other suppliers are
  not listed.
\<close>

theorem owner_listed:
  assumes "addBeneficialOwner env i s inp u ip ua w = (Inr x, w')" and "listBeneficialOwners env s w' = (Inr rows, w2)"
    and "\<And>v c. oe_encrypt env v = Inr c \<Longrightarrow> oe_decrypt env c = Inr v"
  shows "x = i \<and> (\<exists>r \<in> set rows. ubo_id r = i \<and> ubo_full_name r = ui_full_name inp \<and> ubo_id_number r = ui_id_number inp
       \<and> Inr (ubo_percentage r) = percentage_in (ui_percentage inp) \<and> ubo_is_pep r = ui_is_pep inp)
     \<and> (\<forall>r \<in> set rows. ubo_supplier r = s) \<and> length rows = length (filter (\<lambda>r. ubo_supplier r = s) (t_owners (db w))) + 1"
proof -
  obtain p where p: "encryptUboPii env inp = Inr p" and tx: "executeAddUboTx s i p inp u ip ua w = (Inr (), w')" and x: "x = i"
    using assms(1) by (auto simp: addBeneficialOwner_def validateSupplierExists_def svc_succ)
  obtain d where "createUboWithClient (clock w) s i p (db w) = Inr d" "t_owners (db w') = t_owners d"
    using tx by (auto simp: executeAddUboTx_def svc_succ)
  then obtain share where share: "percentage_in (up_percentage p) = Inr share"
    and t: "t_owners (db w') = t_owners (db w) @ [\<lparr>ubo_id = i, ubo_supplier = s, ubo_full_name = up_full_name p,
               ubo_nationality = Some (up_nationality p), ubo_id_type = up_id_type p, ubo_id_number = up_id_number p,
               ubo_percentage = share, ubo_is_pep = up_is_pep p, ubo_created_at = clock w\<rparr>]" (is "_ = _ @ [?r]")
    by (auto simp: createUboWithClient_def bindE_succ split: if_splits)
  have pii: "oe_encrypt env (ui_full_name inp) = Inr (up_full_name p)" "oe_encrypt env (ui_id_number inp) = Inr (up_id_number p)"
      "up_percentage p = ui_percentage inp" "up_is_pep p = ui_is_pep inp"
    using p by (auto simp: encryptUboPii_def bindE_succ)
  let ?src = "sort_key ubo_created_at (filter (\<lambda>r. ubo_supplier r = s) (t_owners (db w')))"
  have "map_results (decryptUboRecord env) ?src = Inr rows"
    using assms(2) by (auto simp: listBeneficialOwners_def validateSupplierExists_def svc_succ getUbosBySupplier_def)
  then have m: "list_all2 (\<lambda>a b. decryptUboRecord env a = Inr b) ?src rows" by (rule map_results_rows)
  have each: "ubo_supplier b = ubo_supplier a" if "decryptUboRecord env a = Inr b" for a b
    using that by (auto simp: decryptUboRecord_def bindE_succ)
  have r: "decryptUboRecord env ?r = Inr (?r\<lparr>ubo_full_name := ui_full_name inp, ubo_id_number := ui_id_number inp\<rparr>)" (is "_ = Inr ?r'")
    using assms(3) [OF pii(1)] assms(3) [OF pii(2)] by (simp add: decryptUboRecord_def)
  have "?r \<in> set ?src" using t by simp
  then obtain q where "q \<in> set rows" "decryptUboRecord env ?r = Inr q" using list_all2_sets(1) [OF m] by blast
  then have mem: "?r' \<in> set rows" using r by simp
  have own: "\<forall>q \<in> set rows. ubo_supplier q = s"
  proof
    fix q assume "q \<in> set rows"
    then obtain a where "a \<in> set ?src" "decryptUboRecord env a = Inr q" using list_all2_sets(2) [OF m] by blast
    then show "ubo_supplier q = s" using each by auto
  qed
  have "length rows = length ?src" using list_all2_lengthD [OF m] by simp
  then have len: "length rows = length (filter (\<lambda>r. ubo_supplier r = s) (t_owners (db w))) + 1" using t by simp
  have "ubo_id ?r' = i \<and> ubo_full_name ?r' = ui_full_name inp \<and> ubo_id_number ?r' = ui_id_number inp
       \<and> Inr (ubo_percentage ?r') = percentage_in (ui_percentage inp) \<and> ubo_is_pep ?r' = ui_is_pep inp"
    using share pii(3,4) by simp
  then show ?thesis using x mem own len by blast
qed

section \<open>Examples\<close>

definition open_onboarding :: onboarding_env where
  "open_onboarding = \<lparr>oe_auth = plain_env, oe_encrypt = Inr, oe_decrypt = Inr, oe_hashDocument = (\<lambda>_. ''hash''),
     oe_sanctions = Some [\<lparr>sn_name = ''Bad Co'', sn_registration_number = None, sn_reason = ''list'', sn_pep = False\<rparr>],
     oe_upload_dir = [''uploads'']\<rparr>"

definition officer_world :: world where
  "officer_world = world_of (blank_db\<lparr>t_users := [sample_user ''o'' None], t_suppliers := [sample_supplier],
     t_buyer_requests := [new_buyer_request 0 ''q1'' ''o'' \<lparr>bri_company_name = ''New Co'', bri_registration_number = Some ''N1'', bri_contact_name = None,
       bri_contact_email = None, bri_contact_phone = None, bri_reason = ''r''\<rparr> (None, None, None)]\<rparr>)"

definition bad_buyer :: buyer_creation where
  "bad_buyer = \<lparr>bcr_company_name = ''BAD CO'', bcr_registration_number = ''B1'', bcr_credit_rating = Rating_B, bcr_approved_limit = 1000,
     bcr_payment_score = 50, bcr_contact_email = ''e'', bcr_contact_phone = ''p'', bcr_ris_margin_rate = None, bcr_undertaking_signed = None,
     bcr_undertaking_date = None\<rparr>"

definition some_owner :: ubo_input where
  "some_owner = \<lparr>ui_full_name = ''N'', ui_nationality = ''UG'', ui_id_type = ''passport'', ui_id_number = ''1'', ui_percentage = 60, ui_is_pep = False\<rparr>"

theorem sanctioned_buyer_usable_witness:
  "\<exists>w' b. createBuyer open_onboarding ''b1'' bad_buyer ''o'' ''ip'' ''ua'' officer_world = (Inl (BusinessRuleError ''SANCTIONS_MATCH''), w')
     \<and> t_buyers (db w') = [b] \<and> buy_is_active b \<and> bf_sanctions_flag (buy_file b)
     \<and> fst (validateBuyerEligibility ''b1'' ''u'' [] ''ip'' ''ua'' w') = Inr (b, [check_result ''buyer_eligibility'' True ''BUYER_NOT_APPROVED'' None])"
proof -
  let ?x = "\<lparr>sn_name = ''Bad Co'', sn_registration_number = None, sn_reason = ''list'', sn_pep = False\<rparr>"
  have low: "toLowerCase ''Bad Co'' = toLowerCase ''BAD CO''" by code_simp
  have c: "creation_ok bad_buyer" by (simp add: creation_ok_def bad_buyer_def)
  have l: "oe_sanctions open_onboarding = Some [?x]" "?x \<in> set [?x]" "listed (bcr_company_name bad_buyer) (bcr_registration_number bad_buyer) ?x"
    using low by (simp_all add: open_onboarding_def listed_def bad_buyer_def)
  have f: "\<not> list_ex (\<lambda>q. buy_id q = ''b1'' \<or> bf_registration_number (buy_file q) = bcr_registration_number bad_buyer) (t_buyers (db officer_world))"
    "t_buyers (db officer_world) = []" "audit_ok (db officer_world) (Some ''o'')"
    "oe_encrypt open_onboarding (bcr_contact_email bad_buyer) = Inr ''e''" "oe_encrypt open_onboarding (bcr_contact_phone bad_buyer) = Inr ''p''"
    by (simp_all add: officer_world_def open_onboarding_def bad_buyer_def sample_defs)
  show ?thesis
    using sanctioned_buyer_usable [OF c l f(1) f(4,5,3), of "''ip''" "''ua''" "''u''" "''ip''" "''ua''"] unfolding f(2) by auto
qed

theorem request_decided_once_witness:
  "\<exists>w'. reviewBuyerOnboardingRequest ''b1'' ''q1'' ''o'' \<lparr>rri_status = ''approved'', rri_comments = None, rri_linked_buyer = None\<rparr> ''ip'' ''ua'' officer_world = (Inr (), w')
     \<and> length (t_buyers (db w')) = 1
     \<and> reviewBuyerOnboardingRequest ''b2'' ''q1'' ''o'' \<lparr>rri_status = ''rejected'', rri_comments = None, rri_linked_buyer = None\<rparr> ''ip'' ''ua'' w'
        = (Inl (BusinessRuleError ''BUYER_REQUEST_ALREADY_REVIEWED''), w')"
proof -
  let ?a = "\<lparr>rri_status = ''approved'', rri_comments = None, rri_linked_buyer = None\<rparr>" and ?r = "\<lparr>rri_status = ''rejected'', rri_comments = None, rri_linked_buyer = None\<rparr>"
  obtain w' where run: "reviewBuyerOnboardingRequest ''b1'' ''q1'' ''o'' ?a ''ip'' ''ua'' officer_world = (Inr (), w')"
    by (simp add: reviewBuyerOnboardingRequest_def getBuyerOnboardingRequestById_def validateBuyerRequestReviewable_def executeReviewBuyerRequestTx_def
        resolve_linked_buyer_def materialiseBuyerFromRequest_def createBuyerWithClient_def insert_buyer_def buyer_of_request_def new_buyer_def
        DEFAULT_RIS_MARGIN_RATE_def margin_default DEFAULT_AUTO_BUYER_LIMIT_def DEFAULT_AUTO_BUYER_PAYMENT_SCORE_def bigint_in_def
        updateBuyerRequestStatusWithClient_def queueOnboardingNotification_def run_enqueue new_buyer_request_def officer_world_def sample_defs)
  have e: "t_buyers (db officer_world) = []" by (simp add: officer_world_def sample_defs)
  show ?thesis
    using request_decided_once [OF run, of "''b2''" "''o''" ?r "''ip''" "''ua''"] run by (auto simp: e)
qed

lemma owner_added: "\<exists>w'. addBeneficialOwner open_onboarding ''w1'' ''sup'' some_owner ''o'' ''ip'' ''ua'' officer_world = (Inr ''w1'', w')
   \<and> t_suppliers (db w') = [sample_supplier]"
proof -
  have "percentage_in 60 = Inr 60" by (simp add: percentage_in_def floor_eq_iff)
  then show ?thesis
    by (simp add: addBeneficialOwner_def validateSupplierExists_def findSupplierById_def encryptUboPii_def executeAddUboTx_def createUboWithClient_def
        ubo_too_long_def ubo_entry_def some_owner_def open_onboarding_def officer_world_def sample_defs)
qed

theorem owner_listed_witness:
  "\<exists>w' rows. addBeneficialOwner open_onboarding ''w1'' ''sup'' some_owner ''o'' ''ip'' ''ua'' officer_world = (Inr ''w1'', w')
     \<and> listBeneficialOwners open_onboarding ''sup'' w' = (Inr rows, w') \<and> length rows = 1 \<and> ubo_full_name (rows ! 0) = ''N''"
proof -
  obtain w' where run: "addBeneficialOwner open_onboarding ''w1'' ''sup'' some_owner ''o'' ''ip'' ''ua'' officer_world = (Inr ''w1'', w')"
      and s: "t_suppliers (db w') = [sample_supplier]" using owner_added by blast
  have total: "\<exists>ys. map_results (decryptUboRecord open_onboarding) xs = Inr ys" for xs
    by (induction xs) (auto simp: decryptUboRecord_def open_onboarding_def)
  obtain rows where rows: "listBeneficialOwners open_onboarding ''sup'' w' = (Inr rows, w')"
    using total [of "getUbosBySupplier ''sup'' (db w')"] s
    by (auto simp: listBeneficialOwners_def validateSupplierExists_def findSupplierById_def sample_supplier_def)
  have "t_owners (db officer_world) = []" by (simp add: officer_world_def sample_defs)
  then have "length rows = 1" "\<exists>r \<in> set rows. ubo_full_name r = ''N''"
    using owner_listed [OF run rows] by (auto simp: open_onboarding_def some_owner_def)
  then show ?thesis using run rows by (auto simp: length_Suc_conv)
qed

end
