(* ===== verification/Spec2Isabelle.thy ===== *)
theory Spec2Isabelle
  imports Pricing Risk_Engine Approvals Payments_Props Settlements Uganda_ACH Collections_Props Invoice_Access Compliance Complaints
    Auth_Codes Kyc_Runs Buyer_Props
begin

text \<open>
  \<^bold>\<open>The RIS invoice discounting platform.\<close> A supplier submits an invoice, the buyer confirms it, the risk
  engine scores it, the pricing service prices it, credit officers approve it, two finance managers
  authorise a payment against a bank facility, the buyer pays, and the deal is settled. The program is
  a TypeScript service under \<open>src/src\<close>: one directory per component with a service (business rules), a
  repository (SQL) and types, on a PostgreSQL database, a Redis queue and an in-memory configuration cache.

  \<^bold>\<open>How the program is modelled.\<close> A service function is a function from the world to a result or a thrown
  error and a new world (\<open>RIS_Prelude\<close>: \<open>svc\<close>, \<open>bindS\<close>, \<open>throwS\<close>, \<open>catchS\<close>, \<open>forS\<close>). The world
  (\<open>RIS_Database\<close>) is the database, the jobs enqueued so far, the queues that are configured, whether Redis
  accepts jobs, the clock, the rows other transactions hold locked, the configuration cache, the files on disk and the sessions and
  blocked tokens in Redis. A table is the list
  of its rows; a repository function is a query on it or a statement that may violate a constraint of the
  migrations (the SQLSTATE is the error value); \<open>transactionS\<close> restores the database on an error and leaves
  enqueued jobs alone, as the code's \<open>ROLLBACK\<close> does. Identifiers drawn by \<open>uuidv4\<close> are
  arguments; third-party functions (\<open>uuidv5\<close>, SHA-256, AES-256-GCM, bcrypt, JWT, TOTP, the PDF renderer) are parameters.
  JavaScript numbers are IEEE doubles (\<open>JS_Number\<close>: rounding to 53 bits on exact rationals, NaN
  and infinities), \<open>BigInt\<close> is \<open>int\<close> with truncating division, and the string functions the
  code uses are in \<open>JS_String\<close>.

  \<^bold>\<open>Theories and sources.\<close>
  \<^item> \<open>RIS_Prelude\<close>, \<open>JS_Number\<close>, \<open>JS_String\<close>, \<open>RIS_Database\<close>: the shared library, with the automation the
    components use (success and run rules of the monad, \<open>preserves\<close>, \<open>keeps_db\<close>, \<open>atomic_upto\<close>, update and lookup on tables) and
    the locale \<open>guarded_status_update\<close>, the contract of every guarded invoice status update, interpreted for the
    invoice, risk, pricing, approval, payment and collection repositories.
  \<^item> \<open>Crypto\<close> (\<open>shared/crypto.ts\<close>): the versioned and the legacy text of encrypted values, hexadecimal and base64. Shown: what is
    encrypted is read back in both formats.
  \<^item> \<open>Invoices\<close> (\<open>services/invoices\<close>) and \<open>Verification\<close> (\<open>services/verification\<close>): submission through the validation chain and the
    money-laundering checks, drafts, withdrawal, assignment, bank details; confirmation tokens, the buyer's confirmation with the EFRIS
    check (locale \<open>efris_contract\<close>, interpreted for both providers), reminders and disputes. \<open>Intake_Props\<close> shows that
    \<open>submitInvoice\<close> implements an abstract decision, what an accepted submission writes, and with the locale \<open>intake_rows\<close> the
    invariants of the \<open>invoices\<close> table on all runs; \<open>Confirmation_Props\<close> shows that a confirmation succeeds once and when, that reminders are
    not repeated (locale \<open>marking\<close>), and what drafts, withdrawals and bank details cannot do. \<open>Invoice_Access\<close> models the list, the
    detail, ownership and the documents on disk. Shown: suppliers see their own invoices only, in the list and in the detail, pages are complete, an
    uploaded document is read back by those who may see it.
  \<^item> \<open>Risk_Config\<close> (\<open>shared/risk-config.ts\<close>) and \<open>Risk_Engine\<close> (\<open>services/risk-engine\<close>): the cached configuration,
    the five scorers (locale \<open>scoring_factor\<close>), the weighted score, recommendation, advance and premium, and the
    scoring transaction. Shown: range of the score, what a scoring writes, atomicity, success on the default configuration.
  \<^item> \<open>Pricing\<close> (\<open>services/pricing\<close>): scaled integer arithmetic, the rate cap, pricing, acceptance, rejection and disputes.
    Shown: the stored amounts, advance, discount, bank cost and profit, are the exact formulas rounded down, the whole state a pricing leaves, scaling is
    exact, stored rates read back, atomicity, an offer is accepted once.
  \<^item> \<open>Approvals\<close> (\<open>services/approvals\<close>): tier routing, four tiers with their officers and quorums, rejection and escalation.
    Shown: the exact state after approving, the outcome of rejecting, two officers at tier 3, atomicity, what the migrated schema blocks.
  \<^item> \<open>Collateral\<close> (\<open>services/collateral\<close>): items, documents, soft deletion, coverage, expiry alerts.
    Shown: the coverage decision taken in doubles is the exact rational comparison.
  \<^item> \<open>Facilities\<close> (\<open>services/facilities\<close>): drawdowns, repayments, daily accrual, alerts, dashboard. Shown: the
    ledger invariant, interest equal to the rational formula, accrual idempotent within a day,
    drawdown and repayment restoring the balance.
  \<^item> \<open>Calendar\<close> (\<open>shared/working-days.ts\<close> on the UTC calendar of \<open>Date\<close>): Shown: the search for working days ends and
    counts exactly the requested days.
  \<^item> \<open>Payments\<close>, \<open>Payments_Life\<close>, \<open>Payments_Props\<close> (\<open>services/payments\<close>): initiation with its gates, two
    authorisations, execution through a provider, kill switch. \<open>Payments_Life\<close> states the abstract life of a
    payment as a step relation and proves that every operation refines it, with the locale
    \<open>payment_provider_contract\<close> for what the service needs of a provider, interpreted for both providers of the code; \<open>Payments_Props\<close>
    shows dual authorisation on all runs and what each operation does on each branch.
  \<^item> \<open>Uganda_ACH\<close> (\<open>services/payments/uganda-ach.ts\<close>): the batch file, its layout and what can be read back from it.
  \<^item> \<open>Collections\<close>, \<open>Collections_Props\<close> (\<open>services/collections\<close>): monitoring of due invoices, overdue and penalty, escalation levels and
    documents, buyer payments, manual resolution and the scheduled jobs; the money-laundering threshold, the PDF renderer and the decryption of
    contact data are parameters. Shown, with the locale \<open>row_invariant\<close> over all runs: levels, totals, limits and scores stay in range; a payment is booked
    once even in a race; the penalty is the exact formula; which scheduled jobs can have an effect.
  \<^item> \<open>Settlements\<close> (\<open>services/settlements\<close>): initiation by idempotency key, repayment, profit booking, closing. Shown: the
    ledger invariant on all runs, replay, failures.
  \<^item> \<open>Compliance\<close> (\<open>services/compliance\<close>): the queue of flagged invoices, the detail view and the clearance. Shown: the outcome of a
    clearance, that it is final on all runs, that it is what the payment gate asks for, and that the detail view fails on the migrated schema.
  \<^item> \<open>Complaints\<close> (\<open>services/complaints\<close>): filing, escalation, resolution, the list (locale \<open>paged_listing\<close> of \<open>Invoice_Access\<close>). Shown:
    the life of a complaint on all runs, complete pages, and that racing resolutions overwrite each other.
  \<^item> \<open>Auth\<close> (\<open>services/auth\<close> and \<open>shared/middleware\<close>): login, lockout, second factor, backup codes, sessions, refresh with rotation,
    passwords, e-mail verification, inactivity jobs and the two middlewares. \<open>Auth_Invariants\<close> states the operations as a step
    relation with the locale \<open>auth_invariant\<close>; \<open>Auth_Runs\<close> interprets it for the session store, the blocklist and the users
    table: refresh tokens work once, sessions are well formed, and the columns that nothing writes keep payment authorisation and the inactivity jobs shut.
    \<open>Auth_Props\<close> and \<open>Auth_Codes\<close> show the answer and the state of a login on every branch down to the signed claims, when an account is locked, which requests pass, and, with the locale
    \<open>token_table\<close>, what one-time tokens and backup codes are good for.
  \<^item> \<open>Onboarding\<close>, \<open>Buyer_Onboarding\<close> (\<open>services/onboarding\<close>): eligibility with its throttle, registration and sanctions screening, documents
    and their review, the know-your-customer status, due diligence; buyers, requests for buyers, beneficial owners. \<open>Onboarding_Props\<close> shows what
    the throttle announces and when it ends, who is registered and the exact state a registration leaves; \<open>Kyc_Runs\<close> states the check as an abstract machine that every
    operation refines, with the separation of duties on all runs, the way around it, and the round trip of documents; \<open>Buyer_Props\<close> shows what creation and
    review of buyers leave behind and that owners are listed as they were added.

  \<^bold>\<open>Shape of the statements.\<close> The theorems on what pricing, approval, authorisation, confirmation, login, eligibility and registration do give the result and
  the whole world after it, the changed tables with literal rows and everything else equal, so that the frame is part of the statement; refusals are the
  same world, or its audit entry, with the error. Invariants and refinements range over all operations of a component or all its runs. Requirements of \<open>01-Documents\<close> that the code contradicts are named in the text of the theorem that shows the behaviour.

  \<^bold>\<open>Bounds and fuel.\<close> There is no fuel: every loop is structural or has a termination proof (the working-day loop by
  the distance to the next working day, interest accrual by the days left). The loop that draws backup codes takes the list of draws and is
  \<open>None\<close> when it needs more; that it ends once enough different codes came up is a theorem. \<open>BIGINT\<close> and \<open>NUMERIC\<close> columns refuse
  what does not fit, and statements about doubles carry the magnitude under which they are exact.

  \<^bold>\<open>Not modelled.\<close> Concurrency between transactions beyond row locks that make a \<open>NOWAIT\<close> read fail; row-level
  security; log lines; HTTP routing and request validation; the
  retry options and delays of jobs; text of notifications; failures of the file system; the wire format of list and detail
  rows, the statistics of the collections list and suspicious activity reports. Of an error its class and code are kept and not its message, so
  the three refusals of \<open>guardAccountUsable\<close>, which differ in the message and in the audit entry (kept apart), are one \<open>AuthError\<close>; the throttle's error carries its tier and
  seconds. Of the schema: the trigger \<open>enforce_dual_auth_on_payment\<close> (migration 001) is left out on purpose, so that the theorems on dual
  authorisation rest on the code and not on the database; the column
  \<open>mobile_money_number_encrypted\<close>, which a registration always leaves \<open>NULL\<close>, is not part of a supplier's row. \<open>Calendar\<close> has
  unbounded dates and whole counts: the range of \<open>Date\<close> (\<open>8.64e15\<close> milliseconds on either side of 1970) and fractional counts are outside it.
  Administration and settings are not modelled. The reporting and dashboard queries, the notification providers, the browser client and the Python prototype
  are left out: they hold no state that the properties above depend on.
\<close>

end
